(* ===== verification/Py_Float.thy ===== *)
theory Py_Float
  imports Complex_Main
begin

text \<open>
  Python's \<open>float\<close>: IEEE 754 binary64.  A value is a finite rational, one of the two
  infinities or NaN; the sign of zero is not kept, because no operation the program
  applies to a float tells the two zeros apart (division by a zero raises).  Every
  arithmetic operation computes the exact rational result and rounds it to 53 bits,
  to nearest and ties to even, with gradual underflow at \<open>2 powr -1074\<close> and overflow
  to an infinity.  Comparisons with NaN are false, \<open>max\<close> and \<open>min\<close> are the builtins
  (they return the first argument unless the second one is strictly better).
\<close>

named_theorems fl_eval \<open>rewrite rules that evaluate rounding on rational literals\<close>

section \<open>Powers of two and the binary exponent\<close>

fun bitlen :: "nat \<Rightarrow> nat" where
  "bitlen n = (if n = 0 then 0 else Suc (bitlen (n div 2)))"

declare bitlen.simps [simp del]

definition pw :: "int \<Rightarrow> rat" where
  "pw k = (if 0 \<le> k then 2 ^ nat k else 1 / 2 ^ nat (- k))"

definition ilog2 :: "rat \<Rightarrow> int" where
  "ilog2 x = (case quotient_of x of (p, q) \<Rightarrow>
     (let k = int (bitlen (nat p)) - int (bitlen (nat q))
      in if pw k \<le> x then k else k - 1))"

lemma bitlen_0 [simp]: "bitlen 0 = 0"
  by (simp add: bitlen.simps)

lemma bitlen_pos: "0 < n \<Longrightarrow> bitlen n = Suc (bitlen (n div 2))"
  by (simp add: bitlen.simps [of n])

lemma bitlen_upper: "n < 2 ^ bitlen n"
proof (induction n rule: bitlen.induct)
  case (1 n)
  show ?case
  proof (cases "n = 0")
    case False
    with "1.IH" have "n div 2 < 2 ^ bitlen (n div 2)" by simp
    then have "n < 2 * 2 ^ bitlen (n div 2)" by linarith
    with False show ?thesis by (simp add: bitlen_pos)
  qed simp
qed

lemma bitlen_lower: "0 < n \<Longrightarrow> 2 ^ (bitlen n - 1) \<le> n"
proof (induction n rule: bitlen.induct)
  case (1 n)
  show ?case
  proof (cases "n div 2 = 0")
    case True
    with "1.prems" show ?thesis by (simp add: bitlen_pos)
  next
    case False
    with "1.IH" "1.prems" have le: "2 ^ (bitlen (n div 2) - 1) \<le> n div 2" by simp
    from False have "0 < bitlen (n div 2)" by (simp add: bitlen.simps [of "n div 2"])
    then have "(2::nat) ^ bitlen (n div 2) = 2 * 2 ^ (bitlen (n div 2) - 1)"
      by (cases "bitlen (n div 2)") simp_all
    with le have "2 ^ bitlen (n div 2) \<le> n" by linarith
    with "1.prems" show ?thesis by (simp add: bitlen_pos)
  qed
qed

lemma bitlen_gt0: "0 < n \<Longrightarrow> 0 < bitlen n"
  by (simp add: bitlen_pos)

lemma pw_pos [simp]: "0 < pw k"
  by (simp add: pw_def)

lemma pw_nonzero [simp]: "pw k \<noteq> 0"
  using pw_pos [of k] by linarith

lemma pw_nonneg [simp]: "0 \<le> pw k"
  using pw_pos [of k] by linarith

lemma pw_0 [simp]: "pw 0 = 1"
  by (simp add: pw_def)

lemma pw_nat: "pw (int n) = 2 ^ n"
  by (simp add: pw_def)

lemma pw_neg: "pw (- k) = 1 / pw k"
  by (auto simp: pw_def)

lemma pw_Suc: "pw (k + 1) = 2 * pw k"
proof (cases "0 \<le> k")
  case True
  then have "nat (k + 1) = Suc (nat k)" by simp
  with True show ?thesis by (simp add: pw_def)
next
  case False
  then have "nat (- k) = Suc (nat (- (k + 1)))" by simp
  with False show ?thesis by (cases "k = -1") (simp_all add: pw_def)
qed

lemma pw_add_nat: "pw (k + int n) = pw k * 2 ^ n"
proof (induction n)
  case (Suc n)
  have "pw (k + int (Suc n)) = pw ((k + int n) + 1)" by (simp add: algebra_simps)
  also have "\<dots> = 2 * pw (k + int n)" by (rule pw_Suc)
  finally show ?case using Suc.IH by simp
qed simp

lemma pw_add: "pw (j + k) = pw j * pw k"
proof (cases "0 \<le> k")
  case True
  then obtain n where "k = int n" using nonneg_int_cases by blast
  then show ?thesis by (simp add: pw_add_nat pw_nat)
next
  case False
  then obtain n where n: "- k = int n" using nonneg_int_cases by (metis linear neg_0_le_iff_le)
  have "pw j = pw ((j + k) + int n)" by (simp add: n [symmetric])
  then have "pw j = pw (j + k) * 2 ^ n" by (simp only: pw_add_nat)
  moreover from n have "k = - int n" by simp
  then have "pw k = 1 / 2 ^ n" using pw_neg [of "int n"] by (simp add: pw_nat)
  ultimately show ?thesis by simp
qed

lemma pw_mono: "j \<le> k \<Longrightarrow> pw j \<le> pw k"
proof -
  assume "j \<le> k"
  then obtain n where "k = j + int n" by (metis zle_iff_zadd)
  then have "pw k = pw j * 2 ^ n" by (simp add: pw_add_nat)
  moreover have "pw j * 1 \<le> pw j * 2 ^ n" by (rule mult_left_mono) simp_all
  ultimately show ?thesis by simp
qed

lemma pw_strict_mono: "j < k \<Longrightarrow> pw j < pw k"
proof -
  assume "j < k"
  then have "2 * pw j \<le> pw k" using pw_mono [of "j + 1" k] by (simp add: pw_Suc)
  with pw_pos [of j] show ?thesis by linarith
qed

lemma pw_less_iff: "pw j < pw k \<longleftrightarrow> j < k"
  by (meson pw_mono pw_strict_mono linorder_not_less)

lemma ilog2_frac_bounds:
  assumes "0 < p" and "0 < q"
  shows "pw (int (bitlen p) - int (bitlen q) - 1) < rat_of_nat p / rat_of_nat q"
    and "rat_of_nat p / rat_of_nat q < pw (int (bitlen p) - int (bitlen q) + 1)"
proof -
  have p1: "pw (int (bitlen p) - 1) \<le> rat_of_nat p" and p2: "rat_of_nat p < pw (int (bitlen p))"
    and q1: "pw (int (bitlen q) - 1) \<le> rat_of_nat q" and q2: "rat_of_nat q < pw (int (bitlen q))"
  proof -
    have low: "pw (int (bitlen n) - 1) \<le> rat_of_nat n" if "0 < n" for n
    proof -
      have "int (bitlen n) - 1 = int (bitlen n - 1)" using bitlen_gt0 [OF that] by simp
      then have "pw (int (bitlen n) - 1) = rat_of_nat (2 ^ (bitlen n - 1))"
        by (simp only: pw_nat of_nat_power of_nat_numeral)
      also have "\<dots> \<le> rat_of_nat n" using bitlen_lower [OF that] by (simp only: of_nat_le_iff)
      finally show ?thesis .
    qed
    have upp: "rat_of_nat n < pw (int (bitlen n))" for n
    proof -
      have "rat_of_nat n < rat_of_nat (2 ^ bitlen n)" using bitlen_upper by (simp only: of_nat_less_iff)
      then show ?thesis by (simp add: pw_nat)
    qed
    show "pw (int (bitlen p) - 1) \<le> rat_of_nat p" using low assms by blast
    show "pw (int (bitlen q) - 1) \<le> rat_of_nat q" using low assms by blast
    show "rat_of_nat p < pw (int (bitlen p))" by (rule upp)
    show "rat_of_nat q < pw (int (bitlen q))" by (rule upp)
  qed
  have qpos: "0 < rat_of_nat q" using assms by simp
  have "pw (int (bitlen p) - int (bitlen q) - 1) * rat_of_nat q
      < pw (int (bitlen p) - int (bitlen q) - 1) * pw (int (bitlen q))"
    using q2 by simp
  also have "\<dots> = pw (int (bitlen p) - 1)" by (simp add: pw_add [symmetric] algebra_simps)
  also have "\<dots> \<le> rat_of_nat p" by (rule p1)
  finally show "pw (int (bitlen p) - int (bitlen q) - 1) < rat_of_nat p / rat_of_nat q"
    using qpos by (simp add: pos_less_divide_eq)
  have "rat_of_nat p < pw (int (bitlen p) - int (bitlen q) + 1) * pw (int (bitlen q) - 1)"
    using p2 by (simp add: pw_add [symmetric] algebra_simps)
  also have "\<dots> \<le> pw (int (bitlen p) - int (bitlen q) + 1) * rat_of_nat q"
    using q1 by simp
  finally show "rat_of_nat p / rat_of_nat q < pw (int (bitlen p) - int (bitlen q) + 1)"
    using qpos by (simp add: pos_divide_less_eq)
qed

lemma ilog2_bounds:
  assumes "0 < x"
  shows "pw (ilog2 x) \<le> x" and "x < pw (ilog2 x + 1)"
proof -
  obtain p q where pq: "quotient_of x = (p, q)" by fastforce
  then have q0: "0 < q" by (rule quotient_of_denom_pos)
  have x: "x = of_int p / of_int q" using pq by (rule quotient_of_div)
  with assms q0 have p0: "0 < p" by (simp add: zero_less_divide_iff)
  define k where "k = int (bitlen (nat p)) - int (bitlen (nat q))"
  have x': "x = rat_of_nat (nat p) / rat_of_nat (nat q)" using x p0 q0 by simp
  have b: "pw (k - 1) < x" "x < pw (k + 1)"
    using ilog2_frac_bounds [of "nat p" "nat q"] p0 q0 by (simp_all add: x' k_def)
  have il: "ilog2 x = (if pw k \<le> x then k else k - 1)"
    by (simp add: ilog2_def pq k_def Let_def)
  show "pw (ilog2 x) \<le> x" using b(1) by (simp add: il)
  show "x < pw (ilog2 x + 1)" using b(2) by (simp add: il)
qed

lemma ilog2_unique:
  assumes "0 < x" and "pw k \<le> x" and "x < pw (k + 1)"
  shows "ilog2 x = k"
proof -
  have "pw (ilog2 x) < pw (k + 1)" using ilog2_bounds(1) [OF assms(1)] assms(3) by linarith
  moreover have "pw k < pw (ilog2 x + 1)" using ilog2_bounds(2) [OF assms(1)] assms(2) by linarith
  ultimately show ?thesis by (simp add: pw_less_iff)
qed

lemma ilog2_mono: "0 < x \<Longrightarrow> x \<le> y \<Longrightarrow> ilog2 x \<le> ilog2 y"
proof -
  assume "0 < x" "x \<le> y"
  then have "pw (ilog2 x) < pw (ilog2 y + 1)"
    using ilog2_bounds(1) [of x] ilog2_bounds(2) [of y] by linarith
  then show ?thesis by (simp add: pw_less_iff)
qed

section \<open>Rounding to nearest, ties to even\<close>

definition rne :: "rat \<Rightarrow> int" where
  "rne y = (let f = \<lfloor>y\<rfloor>; d = y - of_int f
            in if d < 1 / 2 then f else if 1 / 2 < d then f + 1
               else if even f then f else f + 1)"

lemma rne_of_int [simp]: "rne (of_int k) = k"
  by (simp add: rne_def)

lemma rne_bounds: "\<bar>of_int (rne y) - y\<bar> \<le> 1 / 2"
proof -
  define f where "f = \<lfloor>y\<rfloor>"
  have "of_int f \<le> y" "y < of_int f + 1" unfolding f_def by linarith+
  then show ?thesis by (simp add: rne_def Let_def abs_if f_def [symmetric])
qed

lemma rne_mono: "x \<le> y \<Longrightarrow> rne x \<le> rne y"
proof -
  assume le: "x \<le> y"
  then have fl: "\<lfloor>x\<rfloor> \<le> \<lfloor>y\<rfloor>" by (rule floor_mono)
  have cases: "rne z = \<lfloor>z\<rfloor> \<or> rne z = \<lfloor>z\<rfloor> + 1" for z by (auto simp: rne_def Let_def)
  show ?thesis
  proof (cases "\<lfloor>x\<rfloor> = \<lfloor>y\<rfloor>")
    case True
    with le show ?thesis by (auto simp: rne_def Let_def)
  next
    case False
    with fl have "\<lfloor>x\<rfloor> + 1 \<le> \<lfloor>y\<rfloor>" by simp
    with cases [of x] cases [of y] show ?thesis by linarith
  qed
qed

lemma rne_minus: "rne (- y) = - rne y"
proof (cases "y = of_int \<lfloor>y\<rfloor>")
  case True
  then have "rne (- y) = rne (of_int (- \<lfloor>y\<rfloor>))" by simp
  also have "\<dots> = - \<lfloor>y\<rfloor>" by (rule rne_of_int)
  also have "\<dots> = - rne y" by (subst (2) True) (simp only: rne_of_int)
  finally show ?thesis .
next
  case False
  define f where "f = \<lfloor>y\<rfloor>"
  have fy: "of_int f \<le> y" "y < of_int f + 1" unfolding f_def by linarith+
  with False have fy': "of_int f < y" unfolding f_def by linarith
  have "\<lfloor>- y\<rfloor> = - f - 1" using fy fy' by (intro floor_unique) auto
  then show ?thesis using fy' by (auto simp: rne_def Let_def f_def [symmetric])
qed

definition ulp_exp :: "rat \<Rightarrow> int" where
  "ulp_exp x = max (ilog2 \<bar>x\<bar> - 52) (- 1074)"

definition rval :: "rat \<Rightarrow> rat" where
  "rval x = (if x = 0 then 0 else of_int (rne (x / pw (ulp_exp x))) * pw (ulp_exp x))"

datatype pyfloat = Fin rat | PosInf | NegInf | NaN

definition f_overflow :: rat where
  "f_overflow = 2 ^ 1024"

definition rnd :: "rat \<Rightarrow> pyfloat" where
  "rnd x = (if f_overflow \<le> rval x then PosInf
            else if rval x \<le> - f_overflow then NegInf else Fin (rval x))"

lemma f_overflow_pos: "0 < f_overflow"
  by (simp add: f_overflow_def)

lemma rval_0 [simp]: "rval 0 = 0"
  by (simp add: rval_def)

lemma rval_minus: "rval (- x) = - rval x"
  by (simp add: rval_def ulp_exp_def rne_minus)

lemma rval_nonneg: "0 \<le> x \<Longrightarrow> 0 \<le> rval x"
proof -
  assume "0 \<le> x"
  then have "rne 0 \<le> rne (x / pw (ulp_exp x))" by (intro rne_mono) simp
  moreover have "rne 0 = 0" using rne_of_int [of 0] by simp
  ultimately show ?thesis by (simp add: rval_def)
qed

lemma rval_error: "\<bar>rval x - x\<bar> \<le> pw (ulp_exp x) / 2"
proof (cases "x = 0")
  case False
  let ?u = "pw (ulp_exp x)"
  have "rval x - x = (of_int (rne (x / ?u)) - x / ?u) * ?u"
    using False by (simp add: rval_def field_simps)
  then have "\<bar>rval x - x\<bar> = \<bar>of_int (rne (x / ?u)) - x / ?u\<bar> * ?u"
    by (simp add: abs_mult)
  also have "\<dots> \<le> 1 / 2 * ?u" by (rule mult_right_mono [OF rne_bounds]) simp
  finally show ?thesis by simp
qed simp

text \<open>A bound on the grid: multiples of a power of two that is at least the unit in the last place.\<close>

lemma rval_le_grid:
  assumes "x \<le> of_int m * pw e" and "x \<noteq> 0" and "ulp_exp x \<le> e"
  shows "rval x \<le> of_int m * pw e"
proof -
  let ?u = "ulp_exp x"
  obtain n where n: "e = ?u + int n" using assms(3) by (metis zle_iff_zadd)
  have grid: "of_int m * pw e / pw ?u = rat_of_int (m * 2 ^ n)"
    by (simp add: n pw_add_nat)
  have "x / pw ?u \<le> rat_of_int (m * 2 ^ n)"
    using assms(1) unfolding grid [symmetric] by (rule divide_right_mono) simp
  then have "rne (x / pw ?u) \<le> rne (rat_of_int (m * 2 ^ n))" by (rule rne_mono)
  then have "rne (x / pw ?u) \<le> m * 2 ^ n" by (simp only: rne_of_int)
  then have "rat_of_int (rne (x / pw ?u)) \<le> rat_of_int (m * 2 ^ n)" by (simp only: of_int_le_iff)
  then have "rat_of_int (rne (x / pw ?u)) * pw ?u \<le> rat_of_int (m * 2 ^ n) * pw ?u"
    by (rule mult_right_mono) simp
  also have "\<dots> = of_int m * pw e" by (simp add: n pw_add_nat)
  finally show ?thesis using assms(2) by (simp add: rval_def)
qed

lemma rval_grid:
  assumes "x = of_int m * pw e" and "x \<noteq> 0" and "ulp_exp x \<le> e"
  shows "rval x = x"
proof (rule antisym)
  show "rval x \<le> x" using rval_le_grid [of x m e] assms by simp
  have "ulp_exp (- x) \<le> e" using assms(3) by (simp add: ulp_exp_def)
  then have "rval (- x) \<le> - x" using rval_le_grid [of "- x" "- m" e] assms by simp
  then show "x \<le> rval x" by (simp add: rval_minus)
qed

lemma rval_mono_pos:
  assumes "0 < x" and "x \<le> y"
  shows "rval x \<le> rval y"
proof (cases "ulp_exp x = ulp_exp y")
  case True
  have "rne (x / pw (ulp_exp x)) \<le> rne (y / pw (ulp_exp x))"
    using assms by (intro rne_mono divide_right_mono) auto
  with assms True show ?thesis by (simp add: rval_def)
next
  case False
  let ?e = "ilog2 y"
  have lg: "ilog2 x \<le> ?e" using assms by (intro ilog2_mono) auto
  with False assms have lt: "ilog2 x < ?e" and uy: "ulp_exp y = ?e - 52"
    by (auto simp: ulp_exp_def max_def split: if_splits)
  have xe: "x < pw ?e"
  proof -
    have "x < pw (ilog2 x + 1)" using assms by (intro ilog2_bounds) auto
    also have "\<dots> \<le> pw ?e" using lt by (intro pw_mono) simp
    finally show ?thesis .
  qed
  have "ulp_exp x \<le> ?e" using lg assms uy lt by (auto simp: ulp_exp_def)
  then have "rval x \<le> of_int 1 * pw ?e" using xe assms by (intro rval_le_grid) auto
  moreover have "pw ?e \<le> rval y"
  proof -
    have ye: "pw ?e \<le> y" using assms by (intro ilog2_bounds) auto
    have "rval (- y) \<le> of_int (- 1) * pw ?e"
      using ye assms uy by (intro rval_le_grid) (auto simp: ulp_exp_def)
    then show ?thesis by (simp add: rval_minus)
  qed
  ultimately show ?thesis by simp
qed

lemma rval_mono: "x \<le> y \<Longrightarrow> rval x \<le> rval y"
proof -
  assume le: "x \<le> y"
  consider "0 < x" | "x \<le> 0" "0 \<le> y" | "y < 0" by linarith
  then show ?thesis
  proof cases
    case 1
    with le show ?thesis by (intro rval_mono_pos)
  next
    case 2
    then have "0 \<le> rval (- x)" "0 \<le> rval y" by (auto intro: rval_nonneg)
    then show ?thesis by (simp add: rval_minus)
  next
    case 3
    with le have "rval (- y) \<le> rval (- x)" by (intro rval_mono_pos) auto
    then show ?thesis by (simp add: rval_minus)
  qed
qed

lemma ulp_exp_le_of_less:
  assumes "\<bar>x\<bar> < pw (e + 53)" and "x \<noteq> 0" and "- 1074 \<le> e"
  shows "ulp_exp x \<le> e"
proof -
  have "pw (ilog2 \<bar>x\<bar>) \<le> \<bar>x\<bar>" using assms(2) by (intro ilog2_bounds) simp
  with assms(1) have "pw (ilog2 \<bar>x\<bar>) < pw (e + 53)" by linarith
  then have "ilog2 \<bar>x\<bar> < e + 53" by (simp add: pw_less_iff)
  with assms(3) show ?thesis by (simp add: ulp_exp_def)
qed

text \<open>Every number with a 53 bit significand is a fixed point of rounding.\<close>

lemma rval_exact:
  assumes "\<bar>m\<bar> < 2 ^ 53" and "- 1074 \<le> e"
  shows "rval (of_int m * pw e) = of_int m * pw e"
proof (cases "m = 0")
  case False
  have "\<bar>rat_of_int m\<bar> < 2 ^ 53"
    using assms(1) by (metis of_int_abs of_int_less_iff of_int_numeral of_int_power)
  moreover have "pw 53 = 2 ^ 53" by (simp add: pw_def)
  ultimately have "\<bar>rat_of_int m * pw e\<bar> < pw (e + 53)"
    by (simp add: abs_mult pw_add mult.commute)
  with False assms(2) show ?thesis
    by (intro rval_grid [where m = m and e = e] ulp_exp_le_of_less) auto
qed simp

lemma rval_idem [simp]: "rval (rval x) = rval x"
proof (cases "x = 0 \<or> rval x = 0")
  case False
  let ?u = "ulp_exp x" and ?l = "ilog2 \<bar>x\<bar>"
  have u: "- 1074 \<le> ?u" "?l - 52 \<le> ?u" by (auto simp: ulp_exp_def)
  have ax: "\<bar>x\<bar> < pw (?l + 1)" using False by (intro ilog2_bounds) simp
  have ax': "\<bar>x\<bar> \<le> of_int 1 * pw (?u + 53)"
    using ax pw_mono [of "?l + 1" "?u + 53"] u by simp
  have ux: "ulp_exp \<bar>x\<bar> = ?u" by (simp add: ulp_exp_def)
  have "rval \<bar>x\<bar> \<le> of_int 1 * pw (?u + 53)"
    using ax' False ux by (intro rval_le_grid) auto
  moreover have "\<bar>rval x\<bar> = rval \<bar>x\<bar>"
    using rval_minus [of x] rval_nonneg [of x] rval_nonneg [of "- x"] by (auto simp: abs_if)
  ultimately have le: "\<bar>rval x\<bar> \<le> pw (?u + 53)" by simp
  show ?thesis
  proof (cases "\<bar>rval x\<bar> = pw (?u + 53)")
    case True
    have "rval (of_int s * pw (?u + 53)) = of_int s * pw (?u + 53)" if "\<bar>s\<bar> \<le> 1" for s
      using that u by (intro rval_exact) auto
    from this [of 1] this [of "- 1"]
    have p1: "rval (pw (?u + 53)) = pw (?u + 53)" and p2: "rval (- pw (?u + 53)) = - pw (?u + 53)"
      by simp_all
    from True have "rval x = pw (?u + 53) \<or> rval x = - pw (?u + 53)"
      by (auto simp: abs_if split: if_splits)
    with p1 p2 show ?thesis by metis
  next
    case less: False
    have "ulp_exp (rval x) \<le> ?u"
      using le less False u by (intro ulp_exp_le_of_less) auto
    then show ?thesis
      using False by (intro rval_grid [where m = "rne (x / pw ?u)" and e = ?u]) (auto simp: rval_def)
  qed
qed auto

lemma rnd_idem: "rnd x = Fin y \<Longrightarrow> rnd y = Fin y"
  by (auto simp: rnd_def split: if_splits)

lemma rnd_not_NaN [simp]: "rnd x \<noteq> NaN"
  by (simp add: rnd_def)

lemma rnd_0 [simp]: "rnd 0 = Fin 0"
  using f_overflow_pos by (simp add: rnd_def)

section \<open>Comparison, arithmetic and the builtins\<close>

fun fle :: "pyfloat \<Rightarrow> pyfloat \<Rightarrow> bool" where
  "fle NaN _ = False"
| "fle _ NaN = False"
| "fle NegInf _ = True"
| "fle _ PosInf = True"
| "fle (Fin a) (Fin b) = (a \<le> b)"
| "fle _ _ = False"

fun flt :: "pyfloat \<Rightarrow> pyfloat \<Rightarrow> bool" where
  "flt NaN _ = False"
| "flt _ NaN = False"
| "flt NegInf b = (b \<noteq> NegInf)"
| "flt a PosInf = (a \<noteq> PosInf)"
| "flt (Fin a) (Fin b) = (a < b)"
| "flt _ _ = False"

definition feq :: "pyfloat \<Rightarrow> pyfloat \<Rightarrow> bool" where
  "feq a b = (a = b \<and> a \<noteq> NaN)"

fun fneg :: "pyfloat \<Rightarrow> pyfloat" where
  "fneg (Fin a) = Fin (- a)"
| "fneg PosInf = NegInf"
| "fneg NegInf = PosInf"
| "fneg NaN = NaN"

fun fabs :: "pyfloat \<Rightarrow> pyfloat" where
  "fabs (Fin a) = Fin \<bar>a\<bar>"
| "fabs PosInf = PosInf"
| "fabs NegInf = PosInf"
| "fabs NaN = NaN"

fun fadd :: "pyfloat \<Rightarrow> pyfloat \<Rightarrow> pyfloat" where
  "fadd NaN _ = NaN"
| "fadd _ NaN = NaN"
| "fadd PosInf NegInf = NaN"
| "fadd NegInf PosInf = NaN"
| "fadd PosInf _ = PosInf"
| "fadd NegInf _ = NegInf"
| "fadd _ PosInf = PosInf"
| "fadd _ NegInf = NegInf"
| "fadd (Fin a) (Fin b) = rnd (a + b)"

definition fsub :: "pyfloat \<Rightarrow> pyfloat \<Rightarrow> pyfloat" where
  "fsub a b = fadd a (fneg b)"

fun fsgn :: "pyfloat \<Rightarrow> int" where
  "fsgn (Fin a) = (if 0 < a then 1 else if a < 0 then - 1 else 0)"
| "fsgn PosInf = 1"
| "fsgn NegInf = - 1"
| "fsgn NaN = 0"

text \<open>An infinite result of the given sign; \<open>0\<close> is the invalid operation.\<close>

definition finf :: "int \<Rightarrow> pyfloat" where
  "finf s = (if 0 < s then PosInf else if s < 0 then NegInf else NaN)"

fun fmul :: "pyfloat \<Rightarrow> pyfloat \<Rightarrow> pyfloat" where
  "fmul NaN _ = NaN"
| "fmul _ NaN = NaN"
| "fmul (Fin a) (Fin b) = rnd (a * b)"
| "fmul a b = finf (fsgn a * fsgn b)"

text \<open>
  Division by a divisor that is not zero.  \<open>Prelude.fdiv\<close> adds the
  \<open>ZeroDivisionError\<close>; \<open>fquot\<close> alone is used where the divisor is a constant or the
  code has just tested it.
\<close>

fun fquot :: "pyfloat \<Rightarrow> pyfloat \<Rightarrow> pyfloat" where
  "fquot NaN _ = NaN"
| "fquot _ NaN = NaN"
| "fquot (Fin a) (Fin b) = rnd (a / b)"
| "fquot (Fin a) _ = Fin 0"
| "fquot a (Fin b) = finf (fsgn a * (if b < 0 then - 1 else 1))"
| "fquot _ _ = NaN"

definition pmax :: "pyfloat \<Rightarrow> pyfloat \<Rightarrow> pyfloat" where
  "pmax a b = (if flt a b then b else a)"

definition pmin :: "pyfloat \<Rightarrow> pyfloat \<Rightarrow> pyfloat" where
  "pmin a b = (if flt b a then b else a)"

abbreviation flit :: "rat \<Rightarrow> pyfloat" where
  "flit \<equiv> rnd"

text \<open>\<open>float(n)\<close> of an integer.\<close>

definition f_of_int :: "int \<Rightarrow> pyfloat" where
  "f_of_int n = rnd (of_int n)"

definition is_finite :: "pyfloat \<Rightarrow> bool" where
  "is_finite a = (case a of Fin _ \<Rightarrow> True | _ \<Rightarrow> False)"

text \<open>The float is one of the binary64 values.\<close>

definition is_f64 :: "pyfloat \<Rightarrow> bool" where
  "is_f64 a = (case a of Fin x \<Rightarrow> rnd x = Fin x | _ \<Rightarrow> True)"

text \<open>
  The builtin \<open>sum\<close> over floats (Python 3.12 and later): it starts at the integer 0,
  takes the first float and goes on with Neumaier's compensated summation.
\<close>

fun fsum_step :: "pyfloat \<times> pyfloat \<Rightarrow> pyfloat \<Rightarrow> pyfloat \<times> pyfloat" where
  "fsum_step (r, c) x =
     (let t = fadd r x
      in (t, if fle (fabs x) (fabs r) then fadd c (fadd (fsub r t) x)
             else fadd c (fadd (fsub x t) r)))"

definition fsum :: "pyfloat list \<Rightarrow> pyfloat" where
  "fsum xs = (case xs of [] \<Rightarrow> Fin 0 | y # ys \<Rightarrow>
     (case foldl fsum_step (y, Fin 0) ys of (r, c) \<Rightarrow>
        if c \<noteq> Fin 0 \<and> is_finite c then fadd r c else r))"

text \<open>\<open>round(x, n)\<close>: the decimal rounding of the exact value, then the nearest float.\<close>

fun pyround :: "pyfloat \<Rightarrow> nat \<Rightarrow> pyfloat" where
  "pyround (Fin a) n = rnd (of_int (rne (a * 10 ^ n)) / 10 ^ n)"
| "pyround a n = a"

section \<open>Order and sign\<close>

lemma fle_refl_iff [simp]: "fle a a \<longleftrightarrow> a \<noteq> NaN"
  by (cases a) auto

lemma flt_irrefl [simp]: "\<not> flt a a"
  by (cases a) auto

lemma flt_imp_fle: "flt a b \<Longrightarrow> fle a b"
  by (cases a; cases b) auto

lemma fle_trans [trans]: "fle a b \<Longrightarrow> fle b c \<Longrightarrow> fle a c"
  by (cases a; cases b; cases c) auto

lemma flt_fle_trans [trans]: "flt a b \<Longrightarrow> fle b c \<Longrightarrow> flt a c"
  by (cases a; cases b; cases c) auto

lemma fle_flt_trans [trans]: "fle a b \<Longrightarrow> flt b c \<Longrightarrow> flt a c"
  by (cases a; cases b; cases c) auto

lemma not_flt_iff: "a \<noteq> NaN \<Longrightarrow> b \<noteq> NaN \<Longrightarrow> \<not> flt a b \<longleftrightarrow> fle b a"
  by (cases a; cases b) auto

lemma not_fle_iff: "a \<noteq> NaN \<Longrightarrow> b \<noteq> NaN \<Longrightarrow> \<not> fle a b \<longleftrightarrow> flt b a"
  by (cases a; cases b) auto

lemma flt_not_fle: "flt a b \<Longrightarrow> \<not> fle b a"
  by (cases a; cases b) auto

lemma fle_not_NaN: "fle a b \<Longrightarrow> a \<noteq> NaN \<and> b \<noteq> NaN"
  by (cases a; cases b) auto

lemma flt_not_NaN: "flt a b \<Longrightarrow> a \<noteq> NaN \<and> b \<noteq> NaN"
  by (cases a; cases b) auto

lemma fle_antisym: "fle a b \<Longrightarrow> fle b a \<Longrightarrow> a = b"
  by (cases a; cases b) auto

lemma fle_NaN [simp]: "\<not> fle a NaN" "\<not> fle NaN a"
  by (cases a; simp)+

lemma fle_PosInf [simp]: "fle a PosInf \<longleftrightarrow> a \<noteq> NaN"
  by (cases a) simp_all

lemma flt_NaN [simp]: "\<not> flt a NaN" "\<not> flt NaN a"
  by (cases a; simp)+

lemma rnd_mono: "x \<le> y \<Longrightarrow> fle (rnd x) (rnd y)"
  using rval_mono [of x y] f_overflow_pos by (auto simp: rnd_def)

lemma rnd_minus: "rnd (- x) = fneg (rnd x)"
  using f_overflow_pos by (auto simp: rnd_def rval_minus)

lemma rnd_nonneg: "0 \<le> x \<Longrightarrow> fle (Fin 0) (rnd x)"
  using rnd_mono [of 0 x] by simp

lemma rnd_nonpos: "x \<le> 0 \<Longrightarrow> fle (rnd x) (Fin 0)"
  using rnd_mono [of x 0] by simp

lemma rnd_Fin_mono: "rnd a = Fin a \<Longrightarrow> a \<le> x \<Longrightarrow> fle (Fin a) (rnd x)"
  using rnd_mono [of a x] by simp

lemma rnd_Fin_mono_upper: "rnd a = Fin a \<Longrightarrow> x \<le> a \<Longrightarrow> fle (rnd x) (Fin a)"
  using rnd_mono [of x a] by simp

lemma fadd_nonneg: "fle (Fin 0) a \<Longrightarrow> fle (Fin 0) b \<Longrightarrow> fle (Fin 0) (fadd a b)"
  by (cases a; cases b) (auto intro: rnd_nonneg)

lemma fmul_nonneg: "fle (Fin 0) a \<Longrightarrow> fle (Fin 0) b \<Longrightarrow> fmul a b \<noteq> NaN \<Longrightarrow> fle (Fin 0) (fmul a b)"
  by (cases a; cases b) (auto simp: finf_def intro: rnd_nonneg split: if_splits)

lemma fquot_nonneg:
  "fle (Fin 0) a \<Longrightarrow> fle (Fin 0) b \<Longrightarrow> fquot a b \<noteq> NaN \<Longrightarrow> fle (Fin 0) (fquot a b)"
  by (cases a; cases b) (auto simp: finf_def intro: rnd_nonneg split: if_splits)

lemma fabs_nonneg: "a \<noteq> NaN \<Longrightarrow> fle (Fin 0) (fabs a)"
  by (cases a) auto

lemma fabs_eq_NaN [simp]: "fabs a = NaN \<longleftrightarrow> a = NaN"
  by (cases a) auto

lemma fneg_eq_NaN [simp]: "fneg a = NaN \<longleftrightarrow> a = NaN"
  by (cases a) auto

lemma fadd_NaN [simp]: "fadd a NaN = NaN" "fadd NaN a = NaN"
  by (cases a; simp)+

lemma fmul_NaN [simp]: "fmul a NaN = NaN" "fmul NaN a = NaN"
  by (cases a; simp)+

lemma fquot_NaN [simp]: "fquot a NaN = NaN" "fquot NaN a = NaN"
  by (cases a; simp)+

lemma fsub_NaN [simp]: "fsub a NaN = NaN" "fsub NaN a = NaN"
  by (simp_all add: fsub_def)

lemma fsub_Fin [simp]: "fsub (Fin a) (Fin b) = rnd (a - b)"
  by (simp add: fsub_def)

lemma fadd_comm: "fadd a b = fadd b a"
  by (cases a; cases b) (auto simp: add.commute)

lemma fmul_comm: "fmul a b = fmul b a"
  by (cases a; cases b) (auto simp: mult.commute finf_def)

text \<open>Adding a number of the right sign moves a float in that direction.\<close>

lemma fadd_ge: "is_f64 a \<Longrightarrow> a \<noteq> NegInf \<Longrightarrow> a \<noteq> NaN \<Longrightarrow> fle (Fin 0) b \<Longrightarrow> fle a (fadd a b)"
  by (cases a; cases b) (auto simp: is_f64_def intro: rnd_Fin_mono)

lemma fsub_le: "is_f64 a \<Longrightarrow> a \<noteq> PosInf \<Longrightarrow> a \<noteq> NaN \<Longrightarrow> fle (Fin 0) b \<Longrightarrow> fle (fsub a b) a"
  by (cases a; cases b) (auto simp: is_f64_def fsub_def intro: rnd_Fin_mono_upper)

lemma fmul_left_mono:
  "fle (Fin 0) (Fin c) \<Longrightarrow> fle (Fin a) (Fin b) \<Longrightarrow> fle (fmul (Fin c) (Fin a)) (fmul (Fin c) (Fin b))"
  by (auto intro!: rnd_mono mult_left_mono)

lemma is_f64_rnd [simp]: "is_f64 (rnd x)"
  by (cases "rnd x") (auto simp: is_f64_def dest: rnd_idem)

lemma is_f64_special [simp]: "is_f64 PosInf" "is_f64 NegInf" "is_f64 NaN" "is_f64 (Fin 0)"
  by (simp_all add: is_f64_def)

lemma fneg_fneg [simp]: "fneg (fneg a) = a"
  by (cases a) auto

lemma is_f64_fneg [simp]: "is_f64 a \<Longrightarrow> is_f64 (fneg a)"
  by (cases a) (auto simp: is_f64_def rnd_minus)

lemma is_f64_fabs [simp]: "is_f64 a \<Longrightarrow> is_f64 (fabs a)"
  by (cases a) (auto simp: is_f64_def rnd_minus abs_if)

lemma is_f64_fadd [simp]: "is_f64 a \<Longrightarrow> is_f64 b \<Longrightarrow> is_f64 (fadd a b)"
  by (cases a; cases b) auto

lemma is_f64_fsub [simp]: "is_f64 a \<Longrightarrow> is_f64 b \<Longrightarrow> is_f64 (fsub a b)"
  by (simp add: fsub_def)

lemma is_f64_finf [simp]: "is_f64 (finf k)"
  by (simp add: finf_def)

lemma is_f64_fmul [simp]: "is_f64 (fmul a b)"
  by (cases a; cases b) auto

lemma is_f64_fquot [simp]: "is_f64 (fquot a b)"
  by (cases a; cases b) auto

lemma pmax_ge: "a \<noteq> NaN \<Longrightarrow> fle a (pmax a b)"
  by (cases a; cases b) (auto simp: pmax_def)

lemma pmax_ge2: "a \<noteq> NaN \<Longrightarrow> b \<noteq> NaN \<Longrightarrow> fle b (pmax a b)"
  by (cases a; cases b) (auto simp: pmax_def)

lemma pmin_le: "a \<noteq> NaN \<Longrightarrow> fle (pmin a b) a"
  by (cases a; cases b) (auto simp: pmin_def)

lemma pmin_le2: "a \<noteq> NaN \<Longrightarrow> b \<noteq> NaN \<Longrightarrow> fle (pmin a b) b"
  by (cases a; cases b) (auto simp: pmin_def)

lemma pmin_cases: "pmin a b = a \<or> pmin a b = b"
  by (simp add: pmin_def)

lemma pmax_cases: "pmax a b = a \<or> pmax a b = b"
  by (simp add: pmax_def)

section \<open>Nearest value and the integer grid\<close>

lemma rne_nearest: "\<bar>of_int (rne y) - y\<bar> \<le> \<bar>of_int k - y\<bar>"
proof (cases "k = rne y")
  case False
  then have "k \<le> rne y - 1 \<or> rne y + 1 \<le> k" by linarith
  then have "rat_of_int k \<le> rat_of_int (rne y) - 1 \<or> rat_of_int (rne y) + 1 \<le> rat_of_int k"
    by (metis of_int_1 of_int_add of_int_diff of_int_le_iff)
  with rne_bounds [of y] show ?thesis by linarith
qed simp

lemma rval_nearest_grid:
  assumes "z \<noteq> 0" and "ulp_exp z \<le> e"
  shows "\<bar>rval z - z\<bar> \<le> \<bar>of_int m * pw e - z\<bar>"
proof -
  let ?u = "pw (ulp_exp z)"
  obtain n where n: "e = ulp_exp z + int n" using assms(2) by (metis zle_iff_zadd)
  have eq: "a * ?u - z = (a - z / ?u) * ?u" for a by (simp add: field_simps)
  have "\<bar>rval z - z\<bar> = \<bar>of_int (rne (z / ?u)) - z / ?u\<bar> * ?u"
    using assms(1) by (simp add: rval_def eq abs_mult)
  also have "\<dots> \<le> \<bar>of_int (m * 2 ^ n) - z / ?u\<bar> * ?u"
    by (rule mult_right_mono [OF rne_nearest]) simp
  also have "\<dots> = \<bar>of_int (m * 2 ^ n) * ?u - z\<bar>"
    unfolding eq by (simp add: abs_mult)
  also have "of_int (m * 2 ^ n) * ?u = of_int m * pw e" by (simp add: n pw_add_nat)
  finally show ?thesis .
qed

text \<open>Rounding picks a value at least as close as any other float.\<close>

lemma rval_nearest:
  assumes fa: "rval a = a"
  shows "\<bar>rval z - z\<bar> \<le> \<bar>a - z\<bar>"
proof (cases "z = 0 \<or> a = 0")
  case True
  show ?thesis
  proof (cases "z = 0")
    case False
    with True have "a = 0" by simp
    then show ?thesis using rval_nearest_grid [of z "ulp_exp z" 0] False by simp
  qed simp
next
  case nz: False
  show ?thesis
  proof (cases "ulp_exp z \<le> ulp_exp a")
    case True
    have "a = of_int (rne (a / pw (ulp_exp a))) * pw (ulp_exp a)"
      using nz fa by (simp add: rval_def)
    with True nz show ?thesis using rval_nearest_grid by metis
  next
    case False
    let ?P = "pw (ilog2 \<bar>z\<bar>)"
    from False have u: "ulp_exp z = ilog2 \<bar>z\<bar> - 52" and lt: "ilog2 \<bar>a\<bar> + 1 \<le> ilog2 \<bar>z\<bar>"
      by (auto simp: ulp_exp_def max_def split: if_splits)
    have "\<bar>a\<bar> < pw (ilog2 \<bar>a\<bar> + 1)" using nz by (intro ilog2_bounds) simp
    also have "\<dots> \<le> ?P" using lt by (rule pw_mono)
    finally have aP: "\<bar>a\<bar> \<le> ?P" by simp
    have Pz: "?P \<le> \<bar>z\<bar>" using nz by (intro ilog2_bounds) simp
    have "\<bar>rval z - z\<bar> \<le> \<bar>of_int (sgn (rne (z / \<bar>z\<bar>))) * ?P - z\<bar>"
      using nz u by (intro rval_nearest_grid) auto
    also have "of_int (sgn (rne (z / \<bar>z\<bar>))) = sgn z"
      using nz rne_of_int [of 1] rne_of_int [of "- 1"] by (cases "0 < z") auto
    also have "\<bar>sgn z * ?P - z\<bar> = \<bar>z\<bar> - ?P"
      using Pz nz by (cases "0 < z") (auto simp: abs_if)
    also have "\<dots> \<le> \<bar>a - z\<bar>" using aP by linarith
    finally show ?thesis .
  qed
qed

lemma rnd_of_int:
  assumes "\<bar>n\<bar> < 2 ^ 53"
  shows "rnd (of_int n) = Fin (of_int n)"
proof -
  have "rval (of_int n) = of_int n" using rval_exact [of n 0] assms by simp
  moreover have "\<bar>rat_of_int n\<bar> < f_overflow"
  proof -
    have "\<bar>rat_of_int n\<bar> < 2 ^ 53"
      using assms by (metis of_int_abs of_int_less_iff of_int_numeral of_int_power)
    also have "\<dots> < f_overflow"
      using pw_strict_mono [of 53 1024] by (simp add: f_overflow_def pw_def)
    finally show ?thesis .
  qed
  ultimately show ?thesis by (simp add: rnd_def abs_less_iff)
qed

text \<open>
  A float counter to which a non-negative amount is added and compared again: the slack of
  a tolerance is at most doubled by the rounding of the sum.
\<close>

lemma rnd_slack:
  assumes "rnd c = Fin c" and "0 \<le> t" and "rnd (c + t) = Fin s"
  shows "s \<le> c + 2 * t"
proof -
  have "rval c = c" and "rval (c + t) = s"
    using assms(1,3) by (auto simp: rnd_def split: if_splits)
  with rval_nearest [of c "c + t"] assms(2) show ?thesis by (auto simp: abs_if split: if_splits)
qed

section \<open>Whole numbers\<close>

text \<open>Floats that hold integers below \<open>2^53\<close> compute exactly.\<close>

definition whole :: "int \<Rightarrow> pyfloat" where
  "whole n = Fin (of_int n)"

lemma whole_add: "\<bar>m + n\<bar> < 2 ^ 53 \<Longrightarrow> fadd (whole m) (whole n) = whole (m + n)"
  using rnd_of_int [of "m + n"] by (simp add: whole_def)

lemma whole_sub: "\<bar>m - n\<bar> < 2 ^ 53 \<Longrightarrow> fsub (whole m) (whole n) = whole (m - n)"
  using rnd_of_int [of "m - n"] by (simp add: whole_def)

lemma whole_mul: "\<bar>m * n\<bar> < 2 ^ 53 \<Longrightarrow> fmul (whole m) (whole n) = whole (m * n)"
  using rnd_of_int [of "m * n"] by (simp add: whole_def)

lemma whole_quot: "n \<noteq> 0 \<Longrightarrow> \<bar>m\<bar> < 2 ^ 53 \<Longrightarrow> fquot (whole (m * n)) (whole n) = whole m"
  using rnd_of_int [of m] by (simp add: whole_def)

lemma whole_fle [simp]: "fle (whole m) (whole n) \<longleftrightarrow> m \<le> n"
  by (simp add: whole_def)

lemma whole_flt [simp]: "flt (whole m) (whole n) \<longleftrightarrow> m < n"
  by (simp add: whole_def)

lemma whole_abs [simp]: "fabs (whole m) = whole \<bar>m\<bar>"
  by (simp add: whole_def)

lemma whole_0: "Fin 0 = whole 0"
  by (simp add: whole_def)

lemma whole_eq [simp]: "whole m = whole n \<longleftrightarrow> m = n"
  by (simp add: whole_def)

lemma whole_f64 [simp]: "\<bar>m\<bar> < 2 ^ 53 \<Longrightarrow> is_f64 (whole m)"
  by (simp add: whole_def is_f64_def rnd_of_int)

section \<open>Evaluation on literals\<close>

text \<open>
  The same rounding on a numerator and a denominator, in integer arithmetic only; each
  stage is a constant of its own, so that the simplifier evaluates the arguments of a
  stage before it unfolds the stage.
\<close>

definition rq_tie :: "int \<Rightarrow> int \<Rightarrow> int \<Rightarrow> int" where
  "rq_tie f r d = (if 2 * r < d then f else if d < 2 * r then f + 1
                   else if even f then f else f + 1)"

definition rq_div :: "int \<Rightarrow> int \<Rightarrow> int" where
  "rq_div n d = rq_tie (n div d) (n mod d) d"

definition i_overflow :: int where
  "i_overflow = 2 ^ 1024"

definition rq_big :: "int \<Rightarrow> pyfloat" where
  "rq_big v = (if i_overflow \<le> v then PosInf else Fin (of_int v))"

definition rq_val :: "int \<Rightarrow> int \<Rightarrow> int \<Rightarrow> pyfloat" where
  "rq_val e p q =
     (if 0 \<le> e then rq_big (rq_div p (q * 2 ^ nat e) * 2 ^ nat e)
      else Fin (of_int (rq_div (p * 2 ^ nat (- e)) q) / 2 ^ nat (- e)))"

definition rq_exp :: "int \<Rightarrow> int \<Rightarrow> int \<Rightarrow> int" where
  "rq_exp k p q = (if (if 0 \<le> k then 2 ^ nat k * q \<le> p else q \<le> p * 2 ^ nat (- k))
                   then k else k - 1)"

definition rq :: "int \<Rightarrow> int \<Rightarrow> pyfloat" where
  "rq p q = rq_val (max (rq_exp (int (bitlen (nat p)) - int (bitlen (nat q))) p q - 52) (- 1074)) p q"

lemma rne_quotient:
  assumes "0 < d"
  shows "rne (of_int n / of_int d) = rq_div n d"
proof -
  have fl: "\<lfloor>rat_of_int n / rat_of_int d\<rfloor> = n div d"
    by (rule floor_divide_of_int_eq)
  have d0: "0 < rat_of_int d" using assms by simp
  have "rat_of_int n = rat_of_int (n div d) * rat_of_int d + rat_of_int (n mod d)"
    by (metis div_mult_mod_eq of_int_add of_int_mult)
  then have fr: "rat_of_int n / rat_of_int d - rat_of_int (n div d) = rat_of_int (n mod d) / rat_of_int d"
    using d0 by (simp add: field_simps)
  have lt: "(rat_of_int (n mod d) / rat_of_int d < 1 / 2) = (2 * (n mod d) < d)"
  proof -
    have "(rat_of_int (n mod d) / rat_of_int d < 1 / 2) = (rat_of_int (2 * (n mod d)) < rat_of_int d)"
      using d0 by (simp add: field_simps)
    then show ?thesis by (simp only: of_int_less_iff)
  qed
  have gt: "(1 / 2 < rat_of_int (n mod d) / rat_of_int d) = (d < 2 * (n mod d))"
  proof -
    have "(1 / 2 < rat_of_int (n mod d) / rat_of_int d) = (rat_of_int d < rat_of_int (2 * (n mod d)))"
      using d0 by (simp add: field_simps)
    then show ?thesis by (simp only: of_int_less_iff)
  qed
  show ?thesis unfolding rne_def Let_def fl fr lt gt rq_div_def rq_tie_def by (rule refl)
qed

lemma rq_exp_ilog2:
  assumes "0 < p" and "0 < q"
  shows "rq_exp (int (bitlen (nat p)) - int (bitlen (nat q))) p q = ilog2 (of_int p / of_int q)"
proof -
  define k where "k = int (bitlen (nat p)) - int (bitlen (nat q))"
  define x where "x = rat_of_int p / rat_of_int q"
  have q0: "0 < rat_of_int q" using assms by simp
  have "x = rat_of_nat (nat p) / rat_of_nat (nat q)" using assms by (simp add: x_def)
  then have b: "pw (k - 1) < x" "x < pw (k + 1)"
    using ilog2_frac_bounds [of "nat p" "nat q"] assms by (simp_all add: k_def)
  have cond: "(if 0 \<le> k then 2 ^ nat k * q \<le> p else q \<le> p * 2 ^ nat (- k)) = (pw k \<le> x)"
  proof (cases "0 \<le> k")
    case True
    have "(pw k \<le> x) = (rat_of_int (2 ^ nat k * q) \<le> rat_of_int p)"
      using True q0 by (simp add: x_def pw_def field_simps)
    with True show ?thesis by (simp only: of_int_le_iff if_True)
  next
    case False
    have "(pw k \<le> x) = (rat_of_int q \<le> rat_of_int (p * 2 ^ nat (- k)))"
      using False q0 by (simp add: x_def pw_def field_simps)
    with False show ?thesis by (simp only: of_int_le_iff if_False)
  qed
  have x0: "0 < x" using assms by (simp add: x_def)
  have "ilog2 x = (if pw k \<le> x then k else k - 1)"
    using b x0 by (intro ilog2_unique) auto
  with cond show ?thesis by (simp add: rq_exp_def k_def [symmetric] x_def [symmetric])
qed

lemma rnd_rq:
  assumes "0 < p" and "0 < q"
  shows "rnd (of_int p / of_int q) = rq p q"
proof -
  define x where "x = rat_of_int p / rat_of_int q"
  define e where "e = max (ilog2 x - 52) (- 1074)"
  have x0: "0 < x" using assms by (simp add: x_def)
  have u: "ulp_exp x = e" using x0 by (simp add: ulp_exp_def e_def)
  have q: "rq p q = rq_val e p q"
    unfolding rq_def rq_exp_ilog2 [OF assms] e_def x_def by simp
  have nonneg: "0 \<le> rval x" using x0 by (intro rval_nonneg) simp
  show ?thesis
  proof (cases "0 \<le> e")
    case True
    have "x / pw e = rat_of_int p / rat_of_int (q * 2 ^ nat e)"
      using True by (simp add: x_def pw_def)
    then have "rne (x / pw e) = rq_div p (q * 2 ^ nat e)"
      using rne_quotient [of "q * 2 ^ nat e" p] assms by simp
    then have rv: "rval x = rat_of_int (rq_div p (q * 2 ^ nat e) * 2 ^ nat e)"
      using x0 True by (simp add: rval_def u pw_def)
    have io: "f_overflow \<le> rat_of_int v \<longleftrightarrow> i_overflow \<le> v" for v
      unfolding f_overflow_def i_overflow_def by (metis of_int_le_iff of_int_numeral of_int_power)
    have "\<not> rval x \<le> - f_overflow" using nonneg f_overflow_pos by linarith
    with True show ?thesis
      unfolding x_def [symmetric] q rnd_def rq_val_def rq_big_def by (simp only: rv io if_True if_False)
  next
    case False
    have "x / pw e = rat_of_int (p * 2 ^ nat (- e)) / rat_of_int q"
      using False by (simp add: x_def pw_def)
    then have "rne (x / pw e) = rq_div (p * 2 ^ nat (- e)) q"
      using rne_quotient [of q "p * 2 ^ nat (- e)"] assms by simp
    then have rv: "rval x = rat_of_int (rq_div (p * 2 ^ nat (- e)) q) / 2 ^ nat (- e)"
      using x0 False by (simp add: rval_def u pw_def)
    have "x < pw (ilog2 x + 1)" using x0 by (rule ilog2_bounds)
    also have "\<dots> \<le> pw 53" using False by (intro pw_mono) (simp add: e_def)
    finally have "rval x \<le> of_int 1 * pw 53"
      using x0 False by (intro rval_le_grid) (auto simp: u)
    also have "\<dots> < f_overflow"
      using pw_strict_mono [of 53 1024] by (simp add: f_overflow_def pw_def)
    finally show ?thesis
      using rv nonneg f_overflow_pos False
      by (simp add: rnd_def x_def [symmetric] q rq_val_def)
  qed
qed

lemma rnd_literal [fl_eval]:
  "rnd (numeral a) = rq (numeral a) 1"
  "rnd (numeral a / numeral b) = rq (numeral a) (numeral b)"
  "rnd (1 / numeral b) = rq 1 (numeral b)"
  using rnd_rq [of "numeral a" 1] rnd_rq [of "numeral a" "numeral b"] rnd_rq [of 1 "numeral b"]
  by simp_all

lemma rnd_1 [simp]: "rnd 1 = Fin 1"
  using rval_exact [of 1 0] by (simp add: rnd_def f_overflow_def)

lemma rnd_neg_literal [fl_eval]:
  "rnd (- 1) = Fin (- 1)"
  "rnd (- numeral a) = fneg (rnd (numeral a))"
  "rnd (- (numeral a / numeral b)) = fneg (rnd (numeral a / numeral b))"
  "rnd (- (1 / numeral b)) = fneg (rnd (1 / numeral b))"
  "rnd (- numeral a / numeral b) = fneg (rnd (numeral a / numeral b))"
  "rnd (- 1 / numeral b) = fneg (rnd (1 / numeral b))"
  using rnd_minus [of 1] rnd_minus [of "numeral a"] rnd_minus [of "numeral a / numeral b"]
    rnd_minus [of "1 / numeral b"] by simp_all

lemma bitlen_literal [fl_eval]:
  "bitlen (Suc 0) = 1"
  "bitlen 1 = 1"
  "bitlen (numeral Num.One) = 1"
  "bitlen (numeral (Num.Bit0 n)) = bitlen (numeral n) + 1"
  "bitlen (numeral (Num.Bit1 n)) = bitlen (numeral n) + 1"
proof -
  have "numeral (Num.Bit0 n) div (2::nat) = numeral n" "numeral (Num.Bit1 n) div (2::nat) = numeral n"
    by simp_all
  then show "bitlen (numeral (Num.Bit0 n)) = bitlen (numeral n) + 1"
    "bitlen (numeral (Num.Bit1 n)) = bitlen (numeral n) + 1"
    by (simp_all add: bitlen_pos [of "numeral (Num.Bit0 n)"] bitlen_pos [of "numeral (Num.Bit1 n)"])
  show one: "bitlen 1 = 1" by (simp add: bitlen.simps [of "Suc 0"])
  then show "bitlen (Suc 0) = 1" "bitlen (numeral Num.One) = 1" by simp_all
qed

lemma rq_literal [fl_eval]:
  "rq (numeral a) (numeral b) =
     rq_val (max (rq_exp (int (bitlen (numeral a)) - int (bitlen (numeral b))) (numeral a) (numeral b) - 52) (- 1074))
       (numeral a) (numeral b)"
  "rq (numeral a) 1 =
     rq_val (max (rq_exp (int (bitlen (numeral a)) - 1) (numeral a) 1 - 52) (- 1074)) (numeral a) 1"
  "rq 1 (numeral b) =
     rq_val (max (rq_exp (1 - int (bitlen (numeral b))) 1 (numeral b) - 52) (- 1074)) 1 (numeral b)"
  by (simp_all add: rq_def bitlen_literal)

lemmas rq_stages [fl_eval] = rq_exp_def rq_val_def rq_big_def rq_div_def rq_tie_def i_overflow_def

lemmas float_defs [fl_eval] = fsub_def pmax_def pmin_def feq_def f_of_int_def is_finite_def finf_def

lemma flit_2pct: "flit (2 / 100) = Fin (5764607523034235 / 288230376151711744)"
  by (simp add: fl_eval)

lemma fadd_tenth: "fadd (flit (1 / 10)) (flit (2 / 10)) \<noteq> flit (3 / 10)"
  by (simp add: fl_eval)

end
