(* ===== verification/Prelude.thy ===== *)
theory Prelude
  imports Py_Float "HOL-Library.AList"
begin

text \<open>
  What the components share: Python's exceptions as values of a sum type, division
  with its \<open>ZeroDivisionError\<close>, the string methods the program calls (over ASCII
  text), insertion ordered dictionaries as association lists, and slices.
\<close>

named_theorems gate_simps \<open>definitions of the decision gates, unfolded together\<close>
named_theorems step_defs \<open>definitions of state changing operations\<close>
named_theorems inv_intros \<open>preservation of the components' invariants\<close>

section \<open>Exceptions as values\<close>

datatype py_error =
    ZeroDivisionError
  | KeyError string
  | ValueError string
  | RuntimeError string
  | PermissionError string
  | IndexError
  | DuplicateOrderError string
  | PaperExchangeError string
  | AssertionError
  | OverflowError
  | TypeError
  | LiveExecutionBlocked string
  | HistoricalDataError string
  | MarketDataError string
  | LLMError string
  | AttributeError

type_synonym 'a res = "py_error + 'a"

definition bind_res :: "'a res \<Rightarrow> ('a \<Rightarrow> 'b res) \<Rightarrow> 'b res" where
  "bind_res r f = (case r of Inl e \<Rightarrow> Inl e | Inr x \<Rightarrow> f x)"

lemma bind_res_simps [simp]:
  "bind_res (Inl e) f = Inl e" "bind_res (Inr x) f = f x"
  by (simp_all add: bind_res_def)

lemma bind_res_Inr_iff: "bind_res r f = Inr y \<longleftrightarrow> (\<exists>x. r = Inr x \<and> f x = Inr y)"
  by (cases r) auto

text \<open>A postcondition of the results that are no exception, and its rule for sequences.\<close>

definition ensures :: "('a \<Rightarrow> bool) \<Rightarrow> 'a res \<Rightarrow> bool" where
  "ensures P r \<longleftrightarrow> (case r of Inl _ \<Rightarrow> True | Inr x \<Rightarrow> P x)"

lemma ensures_simps [simp]: "ensures P (Inl e)" "ensures P (Inr x) = P x"
  by (simp_all add: ensures_def)

lemma ensures_bind [intro!]: "(\<And>x. r = Inr x \<Longrightarrow> ensures P (f x)) \<Longrightarrow> ensures P (bind_res r f)"
  by (cases r) simp_all

lemma ensuresD: "ensures P r \<Longrightarrow> r = Inr x \<Longrightarrow> P x"
  by simp

text \<open>\<open>map\<close> of a function that may raise.\<close>

fun map_res :: "('a \<Rightarrow> 'b res) \<Rightarrow> 'a list \<Rightarrow> 'b list res" where
  "map_res f [] = Inr []"
| "map_res f (x # xs) = bind_res (f x) (\<lambda>y. bind_res (map_res f xs) (\<lambda>ys. Inr (y # ys)))"

text \<open>A loop whose body may raise: the first exception ends it.\<close>

fun fold_res :: "('a \<Rightarrow> 's \<Rightarrow> 's res) \<Rightarrow> 'a list \<Rightarrow> 's \<Rightarrow> 's res" where
  "fold_res f [] s = Inr s"
| "fold_res f (x # xs) s = bind_res (f x s) (\<lambda>t. fold_res f xs t)"

lemma fold_res_append:
  "fold_res f (xs @ ys) s = bind_res (fold_res f xs s) (\<lambda>t. fold_res f ys t)"
  by (induction xs arbitrary: s) (auto simp: bind_res_def split: sum.splits)

lemma fold_res_cong:
  "(\<And>x t. x \<in> set xs \<Longrightarrow> f x t = g x t) \<Longrightarrow> fold_res f xs s = fold_res g xs s"
  by (induction xs arbitrary: s) (auto simp: bind_res_def split: sum.splits)

lemma fold_res_invariant:
  assumes "P s" and "\<And>x t u. x \<in> set xs \<Longrightarrow> P t \<Longrightarrow> f x t = Inr u \<Longrightarrow> P u"
    and "fold_res f xs s = Inr s'"
  shows "P s'"
  using assms
proof (induction xs arbitrary: s)
  case (Cons x xs)
  from Cons.prems(3) obtain t where "f x s = Inr t" and rest: "fold_res f xs t = Inr s'"
    by (auto simp: bind_res_Inr_iff)
  with Cons.prems(1,2) have "P t" by auto
  then show ?case using Cons.prems(2) rest by (intro Cons.IH [of t]) auto
qed simp

text \<open>\<open>xs[i]\<close> for a natural index.\<close>

definition py_at :: "'a list \<Rightarrow> nat \<Rightarrow> 'a res" where
  "py_at xs i = (if i < length xs then Inr (xs ! i) else Inl IndexError)"

lemma py_at_take: "i < k \<Longrightarrow> k \<le> length xs \<Longrightarrow> py_at (take k xs) i = py_at xs i"
  by (simp add: py_at_def)

text \<open>A step that only looks at the result keeps the state.\<close>

lemma fst_case_res [simp]:
  "fst (case x of (s, r) \<Rightarrow> (case r of Inl e \<Rightarrow> (s, f s e) | Inr v \<Rightarrow> (s, g s v))) = fst x"
  by (cases x) (auto split: sum.splits)

text \<open>Python's \<open>/\<close> on floats.\<close>

definition fdiv :: "pyfloat \<Rightarrow> pyfloat \<Rightarrow> pyfloat res" where
  "fdiv a b = (if b = Fin 0 then Inl ZeroDivisionError else Inr (fquot a b))"

lemma fdiv_pos: "flt (Fin 0) b \<Longrightarrow> fdiv a b = Inr (fquot a b)"
  by (auto simp: fdiv_def)

text \<open>\<open>int(x)\<close> of a float.\<close>

definition py_int :: "pyfloat \<Rightarrow> int res" where
  "py_int x = (case x of Fin q \<Rightarrow> Inr (if 0 \<le> q then \<lfloor>q\<rfloor> else \<lceil>q\<rceil>)
     | NaN \<Rightarrow> Inl (ValueError ''cannot convert float NaN to integer'') | _ \<Rightarrow> Inl OverflowError)"

section \<open>Strings\<close>

text \<open>\<open>str.upper\<close> and \<open>str.lower\<close> on ASCII: letters differ in bit 5 only.\<close>

fun is_letter_bits :: "bool \<Rightarrow> bool \<Rightarrow> bool \<Rightarrow> bool \<Rightarrow> bool \<Rightarrow> bool" where
  "is_letter_bits b0 b1 b2 b3 b4 =
     ((b0 \<or> b1 \<or> b2 \<or> b3 \<or> b4) \<and> \<not> (b4 \<and> b3 \<and> (b2 \<or> (b1 \<and> b0))))"

fun char_upper :: "char \<Rightarrow> char" where
  "char_upper (Char b0 b1 b2 b3 b4 b5 b6 b7) =
     (if \<not> b7 \<and> b6 \<and> b5 \<and> is_letter_bits b0 b1 b2 b3 b4
      then Char b0 b1 b2 b3 b4 False b6 b7 else Char b0 b1 b2 b3 b4 b5 b6 b7)"

fun char_lower :: "char \<Rightarrow> char" where
  "char_lower (Char b0 b1 b2 b3 b4 b5 b6 b7) =
     (if \<not> b7 \<and> b6 \<and> \<not> b5 \<and> is_letter_bits b0 b1 b2 b3 b4
      then Char b0 b1 b2 b3 b4 True b6 b7 else Char b0 b1 b2 b3 b4 b5 b6 b7)"

definition py_upper :: "string \<Rightarrow> string" where
  "py_upper s = map char_upper s"

definition py_lower :: "string \<Rightarrow> string" where
  "py_lower s = map char_lower s"

lemma char_upper_idem [simp]: "char_upper (char_upper c) = char_upper c"
  by (cases c) (simp del: is_letter_bits.simps)

lemma char_lower_idem [simp]: "char_lower (char_lower c) = char_lower c"
  by (cases c) (simp del: is_letter_bits.simps)

lemma py_upper_idem [simp]: "py_upper (py_upper s) = py_upper s"
  by (simp add: py_upper_def)

lemma py_lower_idem [simp]: "py_lower (py_lower s) = py_lower s"
  by (simp add: py_lower_def)

lemma py_upper_Nil [simp]: "py_upper s = [] \<longleftrightarrow> s = []"
  by (simp add: py_upper_def)

lemma py_upper_append: "py_upper (s @ t) = py_upper s @ py_upper t"
  by (simp add: py_upper_def)

definition is_space :: "char \<Rightarrow> bool" where
  "is_space c \<longleftrightarrow> c \<in> {CHR '' '', CHR 0x09, CHR 0x0A, CHR 0x0B, CHR 0x0C, CHR 0x0D,
                     CHR 0x1C, CHR 0x1D, CHR 0x1E, CHR 0x1F}"

definition py_strip :: "string \<Rightarrow> string" where
  "py_strip s = rev (dropWhile is_space (rev (dropWhile is_space s)))"

definition py_rstrip_chr :: "char \<Rightarrow> string \<Rightarrow> string" where
  "py_rstrip_chr c s = rev (dropWhile (\<lambda>x. x = c) (rev s))"

definition py_startswith :: "string \<Rightarrow> string \<Rightarrow> bool" where
  "py_startswith s p \<longleftrightarrow> take (length p) s = p"

definition py_endswith :: "string \<Rightarrow> string \<Rightarrow> bool" where
  "py_endswith s p \<longleftrightarrow> length p \<le> length s \<and> drop (length s - length p) s = p"

text \<open>\<open>s.replace(c, r)\<close> for a one character \<open>c\<close>.\<close>

definition py_replace :: "char \<Rightarrow> string \<Rightarrow> string \<Rightarrow> string" where
  "py_replace c r s = concat (map (\<lambda>x. if x = c then r else [x]) s)"

text \<open>\<open>p in s\<close>.\<close>

fun py_contains :: "string \<Rightarrow> string \<Rightarrow> bool" where
  "py_contains p [] = (p = [])"
| "py_contains p (c # s) = (py_startswith (c # s) p \<or> py_contains p s)"

text \<open>The truth value of an optional string: \<open>None\<close> and the empty string are false.\<close>

definition opt_truthy :: "string option \<Rightarrow> bool" where
  "opt_truthy s = (case s of None \<Rightarrow> False | Some t \<Rightarrow> t \<noteq> [])"

definition opt_or :: "string option \<Rightarrow> string option \<Rightarrow> string option" where
  "opt_or a b = (if opt_truthy a then a else b)"

section \<open>Dictionaries\<close>

text \<open>
  A dictionary iterates in the order of first insertion: assigning to a present key
  keeps its place, a new key goes last.  \<open>AList.update\<close> and \<open>AList.delete\<close> do this.
\<close>

abbreviation dput :: "'k \<Rightarrow> 'v \<Rightarrow> ('k \<times> 'v) list \<Rightarrow> ('k \<times> 'v) list" where
  "dput \<equiv> AList.update"

abbreviation ddel :: "'k \<Rightarrow> ('k \<times> 'v) list \<Rightarrow> ('k \<times> 'v) list" where
  "ddel \<equiv> AList.delete"

abbreviation dget :: "('k \<times> 'v) list \<Rightarrow> 'k \<Rightarrow> 'v option" where
  "dget \<equiv> map_of"

definition dmem :: "'k \<Rightarrow> ('k \<times> 'v) list \<Rightarrow> bool" where
  "dmem k d \<longleftrightarrow> dget d k \<noteq> None"

definition keys_ok :: "('k \<times> 'v) list \<Rightarrow> bool" where
  "keys_ok d \<longleftrightarrow> distinct (map fst d)"

lemma dget_dput: "dget (dput k v d) k' = (if k' = k then Some v else dget d k')"
  by (simp add: update_conv')

lemma dget_ddel: "dget (ddel k d) k' = (if k' = k then None else dget d k')"
  by (simp add: delete_conv')

lemma keys_ok_dput [simp, intro]: "keys_ok d \<Longrightarrow> keys_ok (dput k v d)"
  by (simp add: keys_ok_def distinct_update)

lemma keys_ok_ddel [simp, intro]: "keys_ok d \<Longrightarrow> keys_ok (ddel k d)"
  by (simp add: keys_ok_def distinct_delete)

lemma keys_ok_Nil [simp]: "keys_ok []"
  by (simp add: keys_ok_def)

lemma dget_in_set: "dget d k = Some v \<Longrightarrow> (k, v) \<in> set d"
  by (rule map_of_SomeD)

lemma keys_ok_dget: "keys_ok d \<Longrightarrow> (k, v) \<in> set d \<Longrightarrow> dget d k = Some v"
  by (simp add: keys_ok_def)

lemma set_dput: "set (dput k v d) \<subseteq> insert (k, v) (set d)"
  by (induction d) auto

lemma set_ddel: "set (ddel k d) \<subseteq> set d"
  by (auto simp: AList.delete_eq)

lemma fst_ddel: "(k, v) \<notin> set (ddel k d)"
  by (auto simp: AList.delete_eq)

text \<open>\<open>{f(k): v for k, v in xs}\<close>: later entries overwrite earlier ones in place.\<close>

definition dict_build :: "('a \<Rightarrow> 'k) \<Rightarrow> ('a \<times> 'v) list \<Rightarrow> ('k \<times> 'v) list" where
  "dict_build f xs = foldl (\<lambda>d (k, v). dput (f k) v d) [] xs"

lemma keys_ok_dict_build [simp]: "keys_ok (dict_build f xs)"
proof -
  have "keys_ok d \<Longrightarrow> keys_ok (foldl (\<lambda>d (k, v). dput (f k) v d) d xs)" for d
    by (induction xs arbitrary: d) auto
  then show ?thesis by (simp add: dict_build_def)
qed

lemma set_dict_build: "(k, v) \<in> set (dict_build f xs) \<Longrightarrow> \<exists>a. (a, v) \<in> set xs \<and> k = f a"
proof -
  have "(k, v) \<in> set (foldl (\<lambda>d (k, v). dput (f k) v d) d xs) \<Longrightarrow>
      (k, v) \<in> set d \<or> (\<exists>a. (a, v) \<in> set xs \<and> k = f a)" for d
    by (induction xs arbitrary: d) (use set_dput in fastforce)+
  then show "(k, v) \<in> set (dict_build f xs) \<Longrightarrow> \<exists>a. (a, v) \<in> set xs \<and> k = f a"
    by (fastforce simp: dict_build_def)
qed

text \<open>\<open>float(x or d)\<close> on an optional float: \<open>None\<close> and zero are false.\<close>

definition float_or :: "pyfloat option \<Rightarrow> pyfloat \<Rightarrow> pyfloat" where
  "float_or x d = (case x of None \<Rightarrow> d | Some v \<Rightarrow> if v = Fin 0 then d else v)"

definition opt_default :: "'a option \<Rightarrow> 'a \<Rightarrow> 'a" where
  "opt_default x d = (case x of None \<Rightarrow> d | Some v \<Rightarrow> v)"

section \<open>Slices\<close>

text \<open>\<open>xs[-n:]\<close> for \<open>n > 0\<close>.\<close>

definition last_n :: "nat \<Rightarrow> 'a list \<Rightarrow> 'a list" where
  "last_n n xs = drop (length xs - n) xs"

lemma length_last_n [simp]: "length (last_n n xs) = min n (length xs)"
  by (auto simp: last_n_def)

lemma set_last_n: "set (last_n n xs) \<subseteq> set xs"
  by (auto simp: last_n_def dest: in_set_dropD)

lemma last_n_suffix: "\<exists>ys. xs = ys @ last_n n xs"
  unfolding last_n_def by (metis append_take_drop_id)

section \<open>Settings\<close>

text \<open>What the trading components read of \<open>config/settings.py\<close>.\<close>

record settings =
  se_trading_mode :: string
  se_live_enabled :: bool

definition paper_only :: "settings \<Rightarrow> bool" where
  "paper_only se \<longleftrightarrow> se_trading_mode se = ''paper'' \<and> \<not> se_live_enabled se"

end
