(* ===== verification/State_Tables.thy ===== *)
theory State_Tables
  imports Prelude
begin

text \<open>
  The program keeps four transition tables (orders, trading cycles, the analysis
  pipeline, the sandbox order lifecycle), each a dictionary from a state to the set of
  states it may move to, and each guarded by the same test.  This theory states that
  test once and the two contracts the tables satisfy: a rank that every step raises, and
  a set of states that no step leaves.
\<close>

definition table_transition :: "('s \<Rightarrow> 's list) \<Rightarrow> string \<Rightarrow> 's \<Rightarrow> 's \<Rightarrow> 's res" where
  "table_transition tbl msg s t = (if t \<in> set (tbl s) then Inr t else Inl (ValueError msg))"

fun table_run :: "('s \<Rightarrow> 's \<Rightarrow> 's res) \<Rightarrow> 's \<Rightarrow> 's list \<Rightarrow> 's res" where
  "table_run step s [] = Inr s"
| "table_run step s (t # ts) = bind_res (step s t) (\<lambda>s'. table_run step s' ts)"

inductive reach_by :: "('s \<Rightarrow> 's \<Rightarrow> 's res) \<Rightarrow> 's \<Rightarrow> 's \<Rightarrow> bool" for step where
  reach_refl: "reach_by step s s"
| reach_step: "reach_by step s t \<Longrightarrow> step t u = Inr u' \<Longrightarrow> reach_by step s u'"

lemma table_transition_Inr_iff [simp]:
  "table_transition tbl msg s t = Inr u \<longleftrightarrow> t \<in> set (tbl s) \<and> u = t"
  by (auto simp: table_transition_def)

lemma table_run_append:
  "table_run step s (ts @ us) = bind_res (table_run step s ts) (\<lambda>s'. table_run step s' us)"
  by (induction ts arbitrary: s) (auto simp: bind_res_def split: sum.splits)

lemma reach_by_trans: "reach_by step t u \<Longrightarrow> reach_by step s t \<Longrightarrow> reach_by step s u"
  by (induction rule: reach_by.induct) (auto intro: reach_by.intros)

lemma table_run_reach: "table_run step s ts = Inr t \<Longrightarrow> reach_by step s t"
proof (induction ts arbitrary: t rule: rev_induct)
  case Nil
  then show ?case by (auto intro: reach_refl)
next
  case (snoc u ts)
  then obtain m where "table_run step s ts = Inr m" and "step m u = Inr t"
    by (auto simp: table_run_append bind_res_Inr_iff)
  then show ?case using snoc.IH by (blast intro: reach_step)
qed

section \<open>Tables whose steps climb\<close>

text \<open>
  The contract of a table with no way back: \<open>rank\<close> grows with every step that is
  taken, and is bounded.  Runs are then finite, no state is met twice and a state of the
  top rank is final.
\<close>

locale climbing =
  fixes step :: "'s \<Rightarrow> 's \<Rightarrow> 's res"
    and rank :: "'s \<Rightarrow> nat"
    and top :: nat
  assumes step_target: "step s t = Inr u \<Longrightarrow> u = t"
    and step_climbs: "step s t = Inr u \<Longrightarrow> s \<noteq> t \<Longrightarrow> rank s < rank t"
    and rank_top: "rank s \<le> top"
begin

lemma run_last: "table_run step s (ts @ [t]) = Inr u \<Longrightarrow> u = t"
  by (auto simp: table_run_append bind_res_Inr_iff dest: step_target)

lemma run_rank:
  assumes "table_run step s ts = Inr u" and "s \<notin> set ts" and "distinct ts"
  shows "rank s + length ts \<le> rank u"
  using assms
proof (induction ts arbitrary: s)
  case (Cons t ts)
  from Cons.prems(1) have "step s t = Inr t" and run: "table_run step t ts = Inr u"
    by (auto simp: bind_res_Inr_iff dest: step_target)
  with Cons.prems(2) have "rank s < rank t" by (auto dest: step_climbs)
  moreover have "rank t + length ts \<le> rank u"
    using Cons.IH [OF run] Cons.prems(3) by simp
  ultimately show ?case by simp
qed simp

lemma run_bounded:
  "table_run step s ts = Inr u \<Longrightarrow> s \<notin> set ts \<Longrightarrow> distinct ts \<Longrightarrow> length ts \<le> top - rank s"
  using run_rank [of s ts u] rank_top [of u] by simp

lemma top_final: "rank s = top \<Longrightarrow> step s t = Inr u \<Longrightarrow> t = s"
  using step_climbs [of s t u] rank_top [of t] by fastforce

lemma reach_rank: "reach_by step s t \<Longrightarrow> s = t \<or> rank s < rank t"
proof (induction rule: reach_by.induct)
  case (reach_step s t u u')
  then have "u' = u" and "t = u \<or> rank t < rank u" by (auto dest: step_target step_climbs)
  with reach_step.IH show ?case by auto
qed simp

lemma no_return: "reach_by step s t \<Longrightarrow> reach_by step t s \<Longrightarrow> s = t"
  using reach_rank [of s t] reach_rank [of t s] by auto

end

section \<open>Tables that stay inside a set\<close>

locale confined =
  fixes step :: "'s \<Rightarrow> 's \<Rightarrow> 's res"
    and inside :: "'s \<Rightarrow> bool"
  assumes step_inside: "inside s \<Longrightarrow> step s t = Inr u \<Longrightarrow> inside u"
begin

lemma reach_inside: "reach_by step s t \<Longrightarrow> inside s \<Longrightarrow> inside t"
  by (induction rule: reach_by.induct) (auto intro: step_inside)

lemma run_inside: "table_run step s ts = Inr t \<Longrightarrow> inside s \<Longrightarrow> inside t"
  by (auto intro: reach_inside table_run_reach)

end

end
