(* ===== verification/Order_Model.thy ===== *)
theory Order_Model
  imports State_Tables
begin

text \<open>
  \<open>exchange/models.py\<close>: the enumerations of the exchange, the order status table and
  \<open>Order.transition\<close>, instrument metadata, orders, fills and their deterministic
  identifiers.  Timestamps, trading hours and free-form
  metadata are left out; the hash of an identifier and the fixed point
  format of a float are parameters (\<open>hashlib\<close> and \<open>format\<close> of the library).
\<close>

datatype asset_class = CRYPTO | EQUITY | ETF | COMMODITY | FUTURE | PREDICTION_CONTRACT

datatype order_type = MARKET | LIMIT | STOP | STOP_LIMIT | TAKE_PROFIT

datatype order_side = BUY | SELL | BUY_YES | SELL_YES | BUY_NO | SELL_NO

text \<open>\<open>NEW\<close> and \<open>OPEN\<close> are aliases of \<open>CREATED\<close> and \<open>SUBMITTED\<close> in the source.\<close>

datatype order_status =
  CREATED | VALIDATED | SUBMITTED | PARTIALLY_FILLED | FILLED | CANCELLED | REJECTED | EXPIRED

datatype time_in_force = GTC | IOC | DAY

datatype settlement_type = CASH | PHYSICAL | BINARY

fun order_transitions :: "order_status \<Rightarrow> order_status list" where
  "order_transitions CREATED =
     [VALIDATED, SUBMITTED, FILLED, PARTIALLY_FILLED, REJECTED, CANCELLED]"
| "order_transitions VALIDATED = [SUBMITTED, REJECTED, CANCELLED]"
| "order_transitions SUBMITTED = [PARTIALLY_FILLED, FILLED, CANCELLED, EXPIRED]"
| "order_transitions PARTIALLY_FILLED = [FILLED, CANCELLED, EXPIRED]"
| "order_transitions FILLED = []"
| "order_transitions CANCELLED = []"
| "order_transitions REJECTED = []"
| "order_transitions EXPIRED = []"

definition asset_class_value :: "asset_class \<Rightarrow> string" where
  "asset_class_value a = (case a of
     CRYPTO \<Rightarrow> ''CRYPTO'' | EQUITY \<Rightarrow> ''EQUITY'' | ETF \<Rightarrow> ''ETF'' | COMMODITY \<Rightarrow> ''COMMODITY''
   | FUTURE \<Rightarrow> ''FUTURE'' | PREDICTION_CONTRACT \<Rightarrow> ''PREDICTION_CONTRACT'')"

definition side_value :: "order_side \<Rightarrow> string" where
  "side_value s = (case s of
     BUY \<Rightarrow> ''BUY'' | SELL \<Rightarrow> ''SELL'' | BUY_YES \<Rightarrow> ''BUY_YES'' | SELL_YES \<Rightarrow> ''SELL_YES''
   | BUY_NO \<Rightarrow> ''BUY_NO'' | SELL_NO \<Rightarrow> ''SELL_NO'')"

definition is_buy :: "order_side \<Rightarrow> bool" where
  "is_buy s \<longleftrightarrow> s \<in> {BUY, BUY_YES, BUY_NO}"

lemma is_buy_simps [simp]:
  "is_buy BUY" "is_buy BUY_YES" "is_buy BUY_NO"
  "\<not> is_buy SELL" "\<not> is_buy SELL_YES" "\<not> is_buy SELL_NO"
  by (simp_all add: is_buy_def)

section \<open>Instruments\<close>

record instrument_meta =
  im_instrument_id :: "string option"
  im_symbol :: string
  im_asset_class :: asset_class
  im_quote_currency :: string
  im_tick_size :: pyfloat
  im_lot_size :: pyfloat
  im_contract_multiplier :: pyfloat
  im_multiplier :: pyfloat
  im_margin_required :: pyfloat
  im_shortable :: bool
  im_settlement_type :: settlement_type

text \<open>\<open>InstrumentMeta.model_post_init\<close>: the default identifier and the legacy alias.\<close>

definition instrument_post_init :: "instrument_meta \<Rightarrow> instrument_meta" where
  "instrument_post_init m =
     (let m1 = (case im_instrument_id m of
                  None \<Rightarrow> m\<lparr>im_instrument_id :=
                    Some (asset_class_value (im_asset_class m) @ '':'' @ py_upper (im_symbol m))\<rparr>
                | Some _ \<Rightarrow> m)
      in if \<not> feq (im_multiplier m1) (Fin 1) \<and> feq (im_contract_multiplier m1) (Fin 1)
         then m1\<lparr>im_contract_multiplier := im_multiplier m1\<rparr>
         else if \<not> feq (im_contract_multiplier m1) (Fin 1)
         then m1\<lparr>im_multiplier := im_contract_multiplier m1\<rparr> else m1)"

section \<open>Deterministic identifiers\<close>

definition digit_char :: "nat \<Rightarrow> char" where
  "digit_char d = char_of (48 + d)"

fun dec_digits :: "nat \<Rightarrow> string" where
  "dec_digits n = (if n < 10 then [digit_char n] else dec_digits (n div 10) @ [digit_char (n mod 10)])"

declare dec_digits.simps [simp del]

text \<open>\<open>f"{n:0wd}"\<close>\<close>

definition dec_pad :: "nat \<Rightarrow> nat \<Rightarrow> string" where
  "dec_pad w n = replicate (w - length (dec_digits n)) (CHR ''0'') @ dec_digits n"

definition deterministic_order_id ::
  "(string \<Rightarrow> string) \<Rightarrow> (pyfloat \<Rightarrow> string) \<Rightarrow> string \<Rightarrow> nat \<Rightarrow> string \<Rightarrow> string \<Rightarrow> pyfloat \<Rightarrow> string" where
  "deterministic_order_id h16 f10 sid n sy sd q =
     ''ORD-'' @ sid @ ''-'' @ dec_pad 6 n @ ''-'' @
     h16 (sid @ ''|'' @ dec_digits n @ ''|'' @ py_upper sy @ ''|'' @ py_upper sd @ ''|'' @ f10 q)"

definition deterministic_fill_id ::
  "(string \<Rightarrow> string) \<Rightarrow> (pyfloat \<Rightarrow> string) \<Rightarrow> string \<Rightarrow> nat \<Rightarrow> pyfloat \<Rightarrow> pyfloat \<Rightarrow> string" where
  "deterministic_fill_id h16 f10 oid n px q =
     ''FILL-'' @ dec_pad 6 n @ ''-'' @
     h16 (oid @ ''|'' @ dec_digits n @ ''|'' @ f10 px @ ''|'' @ f10 q)"

fun dec_value :: "nat \<Rightarrow> string \<Rightarrow> nat" where
  "dec_value acc [] = acc"
| "dec_value acc (c # cs) = dec_value (10 * acc + (of_char c - 48)) cs"

lemma of_char_digit: "d < 10 \<Longrightarrow> of_char (digit_char d) = (48 + d :: nat)"
  by (simp add: digit_char_def)

lemma dec_value_append: "dec_value a (xs @ ys) = dec_value (dec_value a xs) ys"
  by (induction xs arbitrary: a) auto

lemma dec_value_digits: "dec_value 0 (dec_digits n) = n"
proof (induction n rule: dec_digits.induct)
  case (1 n)
  show ?case
  proof (cases "n < 10")
    case True
    then show ?thesis by (simp add: dec_digits.simps [of n] of_char_digit)
  next
    case False
    then show ?thesis
      using 1 by (simp add: dec_digits.simps [of n] dec_value_append of_char_digit)
  qed
qed

lemma dec_value_zeros: "dec_value 0 (replicate k (CHR ''0'') @ s) = dec_value 0 s"
  by (induction k) simp_all

lemma dec_value_pad: "dec_value 0 (dec_pad w n) = n"
  by (simp add: dec_pad_def dec_value_zeros dec_value_digits)

lemma dec_pad_inject: "dec_pad w m = dec_pad w n \<longleftrightarrow> m = n"
  by (metis dec_value_pad)

lemma order_id_distinct:
  assumes "\<And>s. length (h16 s) = 16" and "m \<noteq> n"
  shows "deterministic_order_id h16 f10 sid m sy sd q \<noteq> deterministic_order_id h16 f10 sid n sy' sd' q'"
proof
  assume "deterministic_order_id h16 f10 sid m sy sd q = deterministic_order_id h16 f10 sid n sy' sd' q'"
  then have "dec_pad 6 m = dec_pad 6 n" by (auto simp: deterministic_order_id_def assms(1))
  with assms(2) show False by (simp add: dec_pad_inject)
qed

section \<open>Orders and fills\<close>

record fill =
  fl_fill_id :: string
  fl_order_id :: string
  fl_symbol :: string
  fl_side :: order_side
  fl_quantity :: pyfloat
  fl_requested_price :: "pyfloat option"
  fl_fill_price :: pyfloat
  fl_slippage :: pyfloat
  fl_fee :: pyfloat
  fl_liquidity :: string

text \<open>
  A fill without an identifier has the empty one.  \<open>o_stop_loss\<close>, \<open>o_take_profit\<close> and \<open>o_fills\<close> are the entries \<open>stop_loss\<close>,
  \<open>take_profit\<close> and \<open>_fills\<close> of the order's \<open>metadata\<close> dictionary, the ones the exchange reads.
\<close>

record order =
  o_order_id :: "string option"
  o_client_order_id :: "string option"
  o_exchange :: string
  o_session_id :: "string option"
  o_instrument_id :: "string option"
  o_symbol :: string
  o_instrument_type :: asset_class
  o_side :: order_side
  o_order_type :: order_type
  o_quantity :: pyfloat
  o_filled_quantity :: pyfloat
  o_limit_price :: "pyfloat option"
  o_stop_price :: "pyfloat option"
  o_status :: order_status
  o_time_in_force :: time_in_force
  o_strategy_id :: "string option"
  o_strategy_version :: "string option"
  o_strategy_config_hash :: "string option"
  o_model_ids :: "string list"
  o_agent_run_id :: "string option"
  o_requested_price :: "pyfloat option"
  o_average_fill_price :: "pyfloat option"
  o_fees :: pyfloat
  o_slippage :: pyfloat
  o_reject_reason :: "string option"
  o_stop_loss :: "pyfloat option"
  o_take_profit :: "pyfloat option"
  o_fills :: "fill list"

text \<open>An order with the defaults of the class.\<close>

definition new_order :: "string \<Rightarrow> order_side \<Rightarrow> order_type \<Rightarrow> pyfloat \<Rightarrow> order" where
  "new_order sy sd ty q = \<lparr>o_order_id = None, o_client_order_id = None, o_exchange = ''paper'',
     o_session_id = None, o_instrument_id = None, o_symbol = sy, o_instrument_type = CRYPTO,
     o_side = sd, o_order_type = ty, o_quantity = q, o_filled_quantity = Fin 0, o_limit_price = None,
     o_stop_price = None, o_status = CREATED, o_time_in_force = GTC, o_strategy_id = None,
     o_strategy_version = None, o_strategy_config_hash = None, o_model_ids = [], o_agent_run_id = None,
     o_requested_price = None, o_average_fill_price = None, o_fees = Fin 0, o_slippage = Fin 0,
     o_reject_reason = None, o_stop_loss = None, o_take_profit = None, o_fills = []\<rparr>"

definition ensure_order_id ::
  "(string \<Rightarrow> string) \<Rightarrow> (pyfloat \<Rightarrow> string) \<Rightarrow> string \<Rightarrow> nat \<Rightarrow> order \<Rightarrow> order" where
  "ensure_order_id h16 f10 sid n ord =
     (if opt_truthy (o_order_id ord) then ord
      else ord\<lparr>o_order_id := Some (deterministic_order_id h16 f10 sid n (o_symbol ord)
                                   (side_value (o_side ord)) (o_quantity ord)),
                 o_session_id := opt_or (o_session_id ord) (Some sid)\<rparr>)"

definition ensure_fill_id ::
  "(string \<Rightarrow> string) \<Rightarrow> (pyfloat \<Rightarrow> string) \<Rightarrow> nat \<Rightarrow> fill \<Rightarrow> fill" where
  "ensure_fill_id h16 f10 n fl =
     (if fl_fill_id fl \<noteq> [] then fl
      else fl\<lparr>fl_fill_id := deterministic_fill_id h16 f10 (fl_order_id fl) n (fl_fill_price fl)
                            (fl_quantity fl)\<rparr>)"

text \<open>\<open>Order.transition\<close>: staying put is always allowed, anything else must be in the table.\<close>

definition status_transition :: "order_status \<Rightarrow> order_status \<Rightarrow> order_status res" where
  "status_transition s t =
     (if s = t then Inr s
      else table_transition order_transitions ''Invalid order transition'' s t)"

definition order_transition :: "order \<Rightarrow> order_status \<Rightarrow> order res" where
  "order_transition ord t =
     (case status_transition (o_status ord) t of
        Inl e \<Rightarrow> Inl e | Inr s \<Rightarrow> Inr (ord\<lparr>o_status := s\<rparr>))"

definition terminal_status :: "order_status \<Rightarrow> bool" where
  "terminal_status s \<longleftrightarrow> s \<in> {FILLED, CANCELLED, REJECTED, EXPIRED}"

lemma terminal_status_simps [simp]:
  "terminal_status FILLED" "terminal_status CANCELLED" "terminal_status REJECTED"
  "terminal_status EXPIRED" "\<not> terminal_status CREATED" "\<not> terminal_status VALIDATED"
  "\<not> terminal_status SUBMITTED" "\<not> terminal_status PARTIALLY_FILLED"
  by (simp_all add: terminal_status_def)

fun status_rank :: "order_status \<Rightarrow> nat" where
  "status_rank CREATED = 0"
| "status_rank VALIDATED = 1"
| "status_rank SUBMITTED = 2"
| "status_rank PARTIALLY_FILLED = 3"
| "status_rank _ = 4"

interpretation ost: climbing status_transition status_rank 4
proof unfold_locales
  show "status_transition s t = Inr u \<Longrightarrow> u = t" for s t u
    by (auto simp: status_transition_def split: if_splits)
  show "status_transition s t = Inr u \<Longrightarrow> s \<noteq> t \<Longrightarrow> status_rank s < status_rank t" for s t u
    by (cases s) (auto simp: status_transition_def)
  show "status_rank s \<le> 4" for s by (cases s) auto
qed

lemma terminal_rank: "terminal_status s \<longleftrightarrow> status_rank s = 4"
  by (cases s) auto

lemma order_transition_status: "order_transition ord t = Inr ord' \<Longrightarrow> ord' = ord\<lparr>o_status := t\<rparr>"
  by (auto simp: order_transition_def split: sum.splits dest: ost.step_target)

end
