(* ===== verification/Durable_Store.thy ===== *)
theory Durable_Store
  imports Prelude
begin

text \<open>
  \<open>persistence/base.py\<close>, \<open>persistence/sqlite_store.py\<close> and \<open>persistence/postgres.py\<close>: one table of
  JSON objects under a collection and a key.  The abstract class is the locale \<open>kv_store\<close>; the two
  back ends are models of their SQL statements (insert or update on the primary key, select,
  delete) and interpret it.  \<open>now\<close> is the time stamp the statement writes; where \<open>ORDER BY updated_at\<close>
  leaves rows of one time stamp in any order, the model keeps the order of the table.
\<close>

datatype json =
    JNull
  | JBool bool
  | JStr string
  | JInt int
  | JNum pyfloat
  | JList "json list"
  | JObj "(string \<times> json) list"

type_synonym json_obj = "(string \<times> json) list"

text \<open>\<open>bool(v)\<close> of a JSON value, and of \<open>d.get(k)\<close>.\<close>

definition json_truthy :: "json \<Rightarrow> bool" where
  "json_truthy j = (case j of JNull \<Rightarrow> False | JBool b \<Rightarrow> b | JStr s \<Rightarrow> s \<noteq> [] | JInt n \<Rightarrow> n \<noteq> 0
     | JNum x \<Rightarrow> x \<noteq> Fin 0 | JList xs \<Rightarrow> xs \<noteq> [] | JObj d \<Rightarrow> d \<noteq> [])"

definition get_truthy :: "json_obj \<Rightarrow> string \<Rightarrow> bool" where
  "get_truthy d k = (case dget d k of None \<Rightarrow> False | Some j \<Rightarrow> json_truthy j)"

definition get_str :: "json_obj \<Rightarrow> string \<Rightarrow> string option" where
  "get_str d k = (case dget d k of Some (JStr s) \<Rightarrow> Some s | _ \<Rightarrow> None)"

section \<open>The interface\<close>

locale kv_store =
  fixes put :: "nat \<Rightarrow> string \<Rightarrow> string \<Rightarrow> json_obj \<Rightarrow> 's \<Rightarrow> 's"
    and get :: "string \<Rightarrow> string \<Rightarrow> 's \<Rightarrow> json_obj option"
    and del :: "string \<Rightarrow> string \<Rightarrow> 's \<Rightarrow> 's"
    and listing :: "string \<Rightarrow> nat \<Rightarrow> 's \<Rightarrow> json_obj list"
  assumes get_put: "get c' k' (put t c k v s) = (if c' = c \<and> k' = k then Some v else get c' k' s)"
    and get_del: "get c' k' (del c k s) = (if c' = c \<and> k' = k then None else get c' k' s)"
    and listing_length: "length (listing c n s) \<le> n"
    and listing_sound: "v \<in> set (listing c n s) \<Longrightarrow> \<exists>k. get c k s = Some v"
begin

lemma get_put_same [simp]: "get c k (put t c k v s) = Some v"
  by (simp add: get_put)

lemma get_put_other: "c' \<noteq> c \<or> k' \<noteq> k \<Longrightarrow> get c' k' (put t c k v s) = get c' k' s"
  by (auto simp: get_put)

lemma put_put: "get c' k' (put t c k v (put t' c k w s)) = get c' k' (put t c k v s)"
  by (simp add: get_put)

lemma put_commute:
  "(c1, k1) \<noteq> (c2, k2) \<Longrightarrow> get c k (put t c1 k1 v (put t' c2 k2 w s)) = get c k (put t' c2 k2 w (put t c1 k1 v s))"
  by (auto simp: get_put)

lemma del_put: "get c' k' (del c k (put t c k v s)) = get c' k' (del c k s)"
  by (simp add: get_put get_del)

end

section \<open>The table\<close>

type_synonym kv_table = "((string \<times> string) \<times> json_obj \<times> nat) list"

definition sqlite_put :: "nat \<Rightarrow> string \<Rightarrow> string \<Rightarrow> json_obj \<Rightarrow> kv_table \<Rightarrow> kv_table" where
  "sqlite_put now c k v t = dput (c, k) (v, now) t"

definition sqlite_get :: "string \<Rightarrow> string \<Rightarrow> kv_table \<Rightarrow> json_obj option" where
  "sqlite_get c k t = (case dget t (c, k) of None \<Rightarrow> None | Some (v, _) \<Rightarrow> Some v)"

definition sqlite_delete :: "string \<Rightarrow> string \<Rightarrow> kv_table \<Rightarrow> kv_table" where
  "sqlite_delete c k t = ddel (c, k) t"

definition newest_first :: "kv_table \<Rightarrow> kv_table" where
  "newest_first t = rev (sort_key (\<lambda>(ck, v, now). now) (rev t))"

definition sqlite_list :: "string \<Rightarrow> nat \<Rightarrow> kv_table \<Rightarrow> json_obj list" where
  "sqlite_list c limit t =
     map (\<lambda>(ck, v, now). v) (take limit (newest_first (filter (\<lambda>((c', k), _). c' = c) t)))"

definition pg_put :: "nat \<Rightarrow> string \<Rightarrow> string \<Rightarrow> json_obj \<Rightarrow> kv_table \<Rightarrow> kv_table" where
  "pg_put now c k v t = dput (c, k) (v, now) t"

definition pg_get :: "string \<Rightarrow> string \<Rightarrow> kv_table \<Rightarrow> json_obj option" where
  "pg_get c k t = map_option fst (dget t (c, k))"

definition pg_delete :: "string \<Rightarrow> string \<Rightarrow> kv_table \<Rightarrow> kv_table" where
  "pg_delete c k t = filter (\<lambda>(ck, _). ck \<noteq> (c, k)) t"

definition pg_list :: "string \<Rightarrow> nat \<Rightarrow> kv_table \<Rightarrow> json_obj list" where
  "pg_list c limit t =
     map (\<lambda>(ck, v, now). v) (take limit (newest_first (filter (\<lambda>((c', k), _). c' = c) t)))"

lemma pg_delete_eq: "pg_delete c k t = ddel (c, k) t"
  unfolding pg_delete_def AList.delete_eq by (rule filter_cong) auto

text \<open>
  A table without its primary key could hold two rows for one key, so the stores of the interface
  are the tables in which keys are unique.
\<close>

typedef store = "{t :: kv_table. keys_ok t}" morphisms rows Store
  by (rule exI [of _ "[]"]) simp

setup_lifting type_definition_store

lift_definition st_empty :: store is "[]" by simp

lift_definition st_put :: "nat \<Rightarrow> string \<Rightarrow> string \<Rightarrow> json_obj \<Rightarrow> store \<Rightarrow> store" is sqlite_put
  by (simp add: sqlite_put_def)

lift_definition st_get :: "string \<Rightarrow> string \<Rightarrow> store \<Rightarrow> json_obj option" is sqlite_get .

lift_definition st_delete :: "string \<Rightarrow> string \<Rightarrow> store \<Rightarrow> store" is sqlite_delete
  by (simp add: sqlite_delete_def)

lift_definition st_list :: "string \<Rightarrow> nat \<Rightarrow> store \<Rightarrow> json_obj list" is sqlite_list .

lift_definition pst_put :: "nat \<Rightarrow> string \<Rightarrow> string \<Rightarrow> json_obj \<Rightarrow> store \<Rightarrow> store" is pg_put
  by (simp add: pg_put_def)

lift_definition pst_get :: "string \<Rightarrow> string \<Rightarrow> store \<Rightarrow> json_obj option" is pg_get .

lift_definition pst_delete :: "string \<Rightarrow> string \<Rightarrow> store \<Rightarrow> store" is pg_delete
  by (simp add: pg_delete_eq)

lift_definition pst_list :: "string \<Rightarrow> nat \<Rightarrow> store \<Rightarrow> json_obj list" is pg_list .

lemma newest_first_set [simp]: "set (newest_first t) = set t"
  by (simp add: newest_first_def)

lemma newest_first_sorted: "sorted (rev (map (\<lambda>(ck, v, now). now) (newest_first t)))"
  by (simp add: newest_first_def rev_map)

lemma table_listing_sound:
  assumes "keys_ok t" and "v \<in> set (sqlite_list c n t)"
  shows "\<exists>k. sqlite_get c k t = Some v"
proof -
  from assms(2) obtain k now where "((c, k), v, now) \<in> set t"
    by (auto simp: sqlite_list_def dest: in_set_takeD)
  with assms(1) have "dget t (c, k) = Some (v, now)" by (rule keys_ok_dget)
  then show ?thesis by (intro exI [of _ k]) (simp add: sqlite_get_def)
qed

interpretation sqlite: kv_store st_put st_get st_delete st_list
proof unfold_locales
  show "st_get c' k' (st_put t c k v s) = (if c' = c \<and> k' = k then Some v else st_get c' k' s)" for c' k' t c k v s
    by transfer (auto simp: sqlite_get_def sqlite_put_def dget_dput)
  show "st_get c' k' (st_delete c k s) = (if c' = c \<and> k' = k then None else st_get c' k' s)" for c' k' c k s
    by transfer (auto simp: sqlite_get_def sqlite_delete_def dget_ddel)
  show "length (st_list c n s) \<le> n" for c n s
    by transfer (simp add: sqlite_list_def)
  show "v \<in> set (st_list c n s) \<Longrightarrow> \<exists>k. st_get c k s = Some v" for v c n s
    by transfer (rule table_listing_sound)
qed

interpretation postgres: kv_store pst_put pst_get pst_delete pst_list
proof unfold_locales
  show "pst_get c' k' (pst_put t c k v s) = (if c' = c \<and> k' = k then Some v else pst_get c' k' s)" for c' k' t c k v s
    by transfer (auto simp: pg_get_def pg_put_def dget_dput)
  show "pst_get c' k' (pst_delete c k s) = (if c' = c \<and> k' = k then None else pst_get c' k' s)" for c' k' c k s
    by transfer (simp add: pg_delete_eq pg_get_def dget_ddel)
  show "length (pst_list c n s) \<le> n" for c n s
    by transfer (simp add: pg_list_def)
  have pg: "pg_list = sqlite_list" "pg_get c k t = sqlite_get c k t" for c k t
    by (auto simp: pg_list_def sqlite_list_def pg_get_def sqlite_get_def fun_eq_iff split: option.splits)
  show "v \<in> set (pst_list c n s) \<Longrightarrow> \<exists>k. pst_get c k s = Some v" for v c n s
    by transfer (auto simp: pg dest: table_listing_sound)
qed

end
