(* ===== verification/Venue_Adapters.thy ===== *)
theory Venue_Adapters
  imports Order_Model Durable_Store
begin

text \<open>
  \<open>exchange/delta_india.py\<close>, \<open>exchange/coinbase.py\<close>, \<open>exchange/auth.py\<close>, \<open>exchange/health.py\<close> and
  \<open>exchange/factory.py\<close>: the adapters of the two real venues.  The network, the signature and the clock
  are not code of the repository: \<open>pylib\<close> holds them as parameters, and what a venue answers is an
  arbitrary function of all the requests sent so far, which the adapter's state records.
\<close>

section \<open>JSON replies\<close>

text \<open>\<open>d.get(k1) or d.get(k2) or ... or default\<close>\<close>

fun json_or :: "json_obj \<Rightarrow> string list \<Rightarrow> json \<Rightarrow> json" where
  "json_or d [] dflt = dflt"
| "json_or d (k # ks) dflt = (if get_truthy d k then opt_default (dget d k) JNull else json_or d ks dflt)"

definition json_fields :: "json \<Rightarrow> json_obj res" where
  "json_fields j = (case j of JObj d \<Rightarrow> Inr d | _ \<Rightarrow> Inl (RuntimeError ''object has no attribute get''))"

section \<open>The environment\<close>

datatype environment = MOCK | SANDBOX | TESTNET | PRODUCTION_READ_ONLY | PRODUCTION_TRADING

record venue_request =
  vr_injected :: bool
  vr_method :: string
  vr_path :: string
  vr_body :: string
  vr_signature :: "string option"

record pylib =
  pl_float :: "string \<Rightarrow> pyfloat res"
  pl_str :: "json \<Rightarrow> string"
  pl_dumps :: "json_obj \<Rightarrow> string"
  pl_hmac :: "string \<Rightarrow> string \<Rightarrow> string"
  pl_int :: "string \<Rightarrow> int option"
  pl_now_ms :: int
  pl_show_int :: "int \<Rightarrow> string"
  pl_reply :: "venue_request list \<Rightarrow> (nat \<times> json) res"

definition json_str :: "pylib \<Rightarrow> json \<Rightarrow> string" where
  "json_str lib j = (case j of JStr s \<Rightarrow> s | _ \<Rightarrow> pl_str lib j)"

definition json_float :: "pylib \<Rightarrow> json \<Rightarrow> pyfloat res" where
  "json_float lib j = (case j of JNum x \<Rightarrow> Inr x | JInt n \<Rightarrow> Inr (f_of_int n) | JStr s \<Rightarrow> pl_float lib s
     | JBool b \<Rightarrow> Inr (if b then Fin 1 else Fin 0) | _ \<Rightarrow> Inl (RuntimeError ''float() argument''))"

record venue =
  ve_environment :: environment
  ve_api_key :: string
  ve_api_secret :: string
  ve_injected :: bool
  ve_max_skew :: int
  ve_ok :: bool
  ve_last_error :: "string option"
  ve_sent :: "venue_request list"

definition new_venue :: "environment \<Rightarrow> string \<Rightarrow> string \<Rightarrow> bool \<Rightarrow> venue" where
  "new_venue e key secret injd = \<lparr>ve_environment = e, ve_api_key = key, ve_api_secret = secret, ve_injected = injd,
     ve_max_skew = 30, ve_ok = True, ve_last_error = None, ve_sent = []\<rparr>"

definition mark_ok :: "venue \<Rightarrow> venue" where
  "mark_ok ad = ad\<lparr>ve_ok := True, ve_last_error := None\<rparr>"

definition mark_error :: "venue \<Rightarrow> string \<Rightarrow> venue" where
  "mark_error ad msg = ad\<lparr>ve_ok := False, ve_last_error := Some msg\<rparr>"

section \<open>Signing and sending\<close>

definition delta_india_signature :: "pylib \<Rightarrow> string \<Rightarrow> string \<Rightarrow> string \<Rightarrow> string \<Rightarrow> string \<Rightarrow> string \<Rightarrow> string" where
  "delta_india_signature lib secret method ts path query body =
     pl_hmac lib secret (py_upper method @ ts @ path @ query @ body)"

text \<open>A time stamp that is no number passes the skew test: its \<open>ValueError\<close> is swallowed.\<close>

definition delta_sign ::
  "pylib \<Rightarrow> venue \<Rightarrow> string \<Rightarrow> string \<Rightarrow> string \<Rightarrow> string \<Rightarrow> string option \<Rightarrow> string res" where
  "delta_sign lib ad method path query body ts0 =
     (if ve_api_secret ad = [] \<or> ve_api_key ad = [] then Inl (RuntimeError ''Delta India credentials not configured'')
      else (let ts = (if opt_truthy ts0 then opt_default ts0 [] else pl_show_int lib (pl_now_ms lib));
                skewed = (case pl_int lib ts of None \<Rightarrow> False
                  | Some t \<Rightarrow> flt (f_of_int (ve_max_skew ad)) (fquot (f_of_int (abs (pl_now_ms lib - t))) (Fin 1000)))
            in if skewed then Inl (RuntimeError ''LIVE_GATE_CLOCK_SKEW'')
               else Inr (delta_india_signature lib (ve_api_secret ad) method ts path query body)))"

definition coinbase_sign :: "pylib \<Rightarrow> venue \<Rightarrow> string \<Rightarrow> string \<Rightarrow> string \<Rightarrow> string option \<Rightarrow> string res" where
  "coinbase_sign lib ad method path body ts0 =
     (if ve_api_key ad = [] \<or> ve_api_secret ad = [] then Inl (RuntimeError ''Coinbase credentials not configured'')
      else (let ts = (if opt_truthy ts0 then opt_default ts0 [] else pl_show_int lib (pl_now_ms lib div 1000))
            in Inr (pl_hmac lib (ve_api_secret ad) (ts @ py_upper method @ path @ body))))"

text \<open>The \<open>try\<close> block of \<open>_request\<close>.\<close>

definition send_request :: "pylib \<Rightarrow> venue \<Rightarrow> venue_request \<Rightarrow> venue \<times> json_obj res" where
  "send_request lib ad req =
     (let ad1 = ad\<lparr>ve_sent := ve_sent ad @ [req]\<rparr>
      in case pl_reply lib (ve_sent ad1) of
           Inl e \<Rightarrow> (mark_error ad1 ''transport error'', Inl e)
         | Inr (code, j) \<Rightarrow>
             if 400 \<le> code then (mark_error ad1 (''HTTP '' @ dec_digits code), Inl (RuntimeError (''HTTP '' @ dec_digits code)))
             else (mark_ok ad1, Inr (case j of JObj d \<Rightarrow> d | _ \<Rightarrow> [(''data'', j)])))"

definition delta_request ::
  "pylib \<Rightarrow> venue \<Rightarrow> string \<Rightarrow> string \<Rightarrow> bool \<Rightarrow> string \<Rightarrow> venue \<times> json_obj res" where
  "delta_request lib ad method path auth body =
     (case (if auth then map_sum id Some (delta_sign lib ad method path [] body None) else Inr None) of
        Inl e \<Rightarrow> (ad, Inl e)
      | Inr sig \<Rightarrow> send_request lib ad \<lparr>vr_injected = ve_injected ad, vr_method = method, vr_path = path,
                     vr_body = body, vr_signature = sig\<rparr>)"

definition coinbase_request ::
  "pylib \<Rightarrow> venue \<Rightarrow> string \<Rightarrow> string \<Rightarrow> bool \<Rightarrow> string \<Rightarrow> venue \<times> json_obj res" where
  "coinbase_request lib ad method path auth body =
     (case (if auth then map_sum id Some (coinbase_sign lib ad method path body None) else Inr None) of
        Inl e \<Rightarrow> (ad, Inl e)
      | Inr sig \<Rightarrow> send_request lib ad \<lparr>vr_injected = ve_injected ad, vr_method = method, vr_path = path,
                     vr_body = body, vr_signature = sig\<rparr>)"

text \<open>A request followed by a computation on its answer.\<close>

definition with_reply :: "venue \<times> json_obj res \<Rightarrow> (json_obj \<Rightarrow> 'a res) \<Rightarrow> venue \<times> 'a res" where
  "with_reply r f = (fst r, bind_res (snd r) f)"

section \<open>Whether orders may be sent\<close>

definition sandboxed :: "venue \<Rightarrow> bool" where
  "sandboxed ad \<longleftrightarrow> ve_environment ad \<in> {SANDBOX, TESTNET} \<and> ve_injected ad"

definition assert_live_orders_allowed :: "settings \<Rightarrow> venue \<Rightarrow> unit res" where
  "assert_live_orders_allowed se ad =
     (if ve_environment ad \<in> {SANDBOX, TESTNET} then
        (if \<not> ve_injected ad then Inl (RuntimeError ''sandbox/testnet orders require injected transport mocks'') else Inr ())
      else if se_trading_mode se \<noteq> ''live'' \<or> \<not> se_live_enabled se then Inl (RuntimeError ''live order execution blocked'')
      else if ve_environment ad \<noteq> PRODUCTION_TRADING then Inl (RuntimeError ''orders blocked in environment'')
      else Inl (RuntimeError ''production create/cancel not enabled''))"

lemma allowed_sandboxed: "assert_live_orders_allowed se ad = Inr u \<Longrightarrow> sandboxed ad"
  by (auto simp: assert_live_orders_allowed_def sandboxed_def split: if_splits)

definition type_value :: "order_type \<Rightarrow> string" where
  "type_value t = (case t of MARKET \<Rightarrow> ''MARKET'' | LIMIT \<Rightarrow> ''LIMIT'' | STOP \<Rightarrow> ''STOP''
     | STOP_LIMIT \<Rightarrow> ''STOP_LIMIT'' | TAKE_PROFIT \<Rightarrow> ''TAKE_PROFIT'')"

definition reply_side :: "string \<Rightarrow> order_side" where
  "reply_side s = (if py_startswith (py_upper s) ''BUY'' then BUY else SELL)"

definition reply_type :: "string \<Rightarrow> order_type" where
  "reply_type s = (if py_upper s = ''MARKET'' then MARKET else LIMIT)"

text \<open>\<open>Order(order_id=..., symbol=..., ...)\<close>: the status of a new order object is the default, \<open>CREATED\<close>.\<close>

definition reply_order :: "string \<Rightarrow> string \<Rightarrow> order_side \<Rightarrow> order_type \<Rightarrow> pyfloat \<Rightarrow> pyfloat option \<Rightarrow> order" where
  "reply_order oid sy sd ty q lpx = (new_order sy sd ty q)\<lparr>o_order_id := Some oid, o_limit_price := lpx\<rparr>"

definition opt_float :: "pylib \<Rightarrow> json \<Rightarrow> pyfloat option res" where
  "opt_float lib j = (if j = JNull then Inr None else map_sum id Some (json_float lib j))"

definition optional_float :: "pylib \<Rightarrow> bool \<Rightarrow> json \<Rightarrow> pyfloat option res" where
  "optional_float lib c j = (if c then map_sum id Some (json_float lib j) else Inr None)"

section \<open>Delta India\<close>

definition delta_price :: "pylib \<Rightarrow> venue \<Rightarrow> string \<Rightarrow> venue \<times> pyfloat res" where
  "delta_price lib ad sy = with_reply (delta_request lib ad ''GET'' (''/v2/tickers/'' @ sy) False [])
     (\<lambda>d. bind_res (json_fields (json_or d [''result''] (JObj d)))
            (\<lambda>r. json_float lib (json_or r [''close'', ''mark_price'', ''last''] (JNum (Fin 0)))))"

definition delta_account :: "pylib \<Rightarrow> venue \<Rightarrow> venue \<times> json_obj res" where
  "delta_account lib ad =
     (if ve_api_key ad = [] then (ad, Inr [(''balances'', JList []), (''note'', JStr ''no_credentials''), (''TRADING_MODE'', JStr ''paper'')])
      else delta_request lib ad ''GET'' ''/v2/wallet/balances'' True [])"

record balance =
  bal_currency :: string
  bal_free :: pyfloat
  bal_locked :: pyfloat

definition delta_balance_row :: "pylib \<Rightarrow> json_obj \<Rightarrow> balance res" where
  "delta_balance_row lib row =
     bind_res (json_float lib (json_or row [''available_balance'', ''free''] (JNum (Fin 0)))) (\<lambda>free.
     bind_res (json_float lib (json_or row [''order_margin'', ''used''] (JNum (Fin 0)))) (\<lambda>used.
       Inr \<lparr>bal_currency = json_str lib (json_or row [''asset_symbol'', ''currency''] (JStr ''USD'')),
            bal_free = free, bal_locked = used\<rparr>))"

definition delta_balance :: "pylib \<Rightarrow> venue \<Rightarrow> venue \<times> balance list res" where
  "delta_balance lib ad = with_reply (delta_account lib ad)
     (\<lambda>d. case json_or d [''result'', ''balances''] (JList []) of
            JList js \<Rightarrow> map_res (\<lambda>j. bind_res (json_fields j) (delta_balance_row lib)) js
          | _ \<Rightarrow> Inr [])"

definition delta_positions :: "pylib \<Rightarrow> venue \<Rightarrow> venue \<times> json list res" where
  "delta_positions lib ad =
     (if ve_api_key ad = [] then (ad, Inr [])
      else with_reply (delta_request lib ad ''GET'' ''/v2/positions'' True [])
             (\<lambda>d. case json_or d [''result''] (JList []) of JList js \<Rightarrow> Inr js | _ \<Rightarrow> Inr []))"

definition delta_open_row :: "pylib \<Rightarrow> json_obj \<Rightarrow> order res" where
  "delta_open_row lib row =
     (let px = json_or row [''limit_price''] (opt_default (dget row ''price'') JNull)
      in bind_res (json_float lib (json_or row [''size'', ''quantity''] (JInt 0))) (\<lambda>q.
         bind_res (opt_float lib px) (\<lambda>lpx.
           Inr (reply_order (json_str lib (json_or row [''id''] (JStr [])))
                  (json_str lib (json_or row [''product_symbol'', ''symbol''] (JStr [])))
                  (reply_side (json_str lib (json_or row [''side''] (JStr ''buy''))))
                  (reply_type (json_str lib (json_or row [''order_type''] (JStr ''limit''))))
                  q lpx))))"

definition skip_row :: "pylib \<Rightarrow> string option \<Rightarrow> string \<Rightarrow> string \<Rightarrow> json_obj \<Rightarrow> bool" where
  "skip_row lib sy k1 k2 row \<longleftrightarrow> opt_truthy sy
     \<and> json_str lib (json_or row [k1] (opt_default (dget row k2) JNull)) \<noteq> opt_default sy []"

definition delta_open_orders :: "pylib \<Rightarrow> venue \<Rightarrow> string option \<Rightarrow> venue \<times> order list res" where
  "delta_open_orders lib ad sy =
     (if ve_api_key ad = [] then (ad, Inr [])
      else with_reply (delta_request lib ad ''GET'' ''/v2/orders'' True [])
             (\<lambda>d. case json_or d [''result''] (JList []) of
                    JList js \<Rightarrow> map_sum id concat (map_res (\<lambda>j. bind_res (json_fields j) (\<lambda>row.
                      if skip_row lib sy ''product_symbol'' ''symbol'' row then Inr []
                      else map_sum id (\<lambda>ord. [ord]) (delta_open_row lib row))) js)
                  | _ \<Rightarrow> Inr []))"

definition delta_order_history :: "pylib \<Rightarrow> venue \<Rightarrow> venue \<times> json list res" where
  "delta_order_history lib ad =
     (if ve_api_key ad = [] then (ad, Inr [])
      else with_reply (delta_request lib ad ''GET'' ''/v2/orders/history'' True [])
             (\<lambda>d. case json_or d [''result''] (JList []) of JList js \<Rightarrow> Inr js | _ \<Rightarrow> Inr []))"

definition delta_get_order :: "pylib \<Rightarrow> venue \<Rightarrow> string \<Rightarrow> venue \<times> order res" where
  "delta_get_order lib ad oid = with_reply (delta_request lib ad ''GET'' (''/v2/orders/'' @ oid) True [])
     (\<lambda>d. bind_res (json_fields (json_or d [''result''] (JObj d))) (\<lambda>row.
          bind_res (json_float lib (json_or row [''size''] (JInt 0))) (\<lambda>q.
          bind_res (optional_float lib (get_truthy row ''limit_price'') (opt_default (dget row ''limit_price'') JNull)) (\<lambda>lpx.
            Inr (reply_order (json_str lib (json_or row [''id''] (JStr oid)))
                   (json_str lib (json_or row [''product_symbol'', ''symbol''] (JStr [])))
                   (reply_side (json_str lib (json_or row [''side''] (JStr ''buy''))))
                   (reply_type (json_str lib (json_or row [''order_type''] (JStr ''limit'')))) q lpx)))))"

definition delta_create_order :: "pylib \<Rightarrow> settings \<Rightarrow> venue \<Rightarrow> order \<Rightarrow> venue \<times> order res" where
  "delta_create_order lib se ad ord =
     (case assert_live_orders_allowed se ad of
        Inl e \<Rightarrow> (ad, Inl e)
      | Inr _ \<Rightarrow> with_reply (delta_request lib ad ''POST'' ''/v2/orders'' True
            (pl_dumps lib [(''product_symbol'', JStr (o_symbol ord)), (''side'', JStr (py_lower (side_value (o_side ord)))),
               (''size'', JNum (o_quantity ord)), (''order_type'', JStr (py_lower (type_value (o_order_type ord))))]))
          (\<lambda>d. bind_res (json_fields (json_or d [''result''] (JObj d))) (\<lambda>row.
             Inr (reply_order
               (json_str lib (json_or row [''id''] (JStr (opt_default (opt_or (o_order_id ord) (Some ''delta-sim'')) []))))
               (o_symbol ord) (o_side ord) (o_order_type ord) (o_quantity ord) (o_limit_price ord)))))"

definition delta_cancel_order :: "pylib \<Rightarrow> settings \<Rightarrow> venue \<Rightarrow> string \<Rightarrow> venue \<times> order res" where
  "delta_cancel_order lib se ad oid =
     (case assert_live_orders_allowed se ad of
        Inl e \<Rightarrow> (ad, Inl e)
      | Inr _ \<Rightarrow> with_reply (delta_request lib ad ''DELETE'' (''/v2/orders/'' @ oid) True [])
          (\<lambda>d. bind_res (json_fields (json_or d [''result''] (JObj d))) (\<lambda>row.
             Inr (reply_order (json_str lib (json_or row [''id''] (JStr oid)))
                    (json_str lib (json_or row [''product_symbol''] (JStr ''BTCUSD''))) BUY LIMIT (Fin 0) None))))"

text \<open>Cancelling one order after the other: identifiers that were cancelled, and the failures.\<close>

fun cancel_each ::
  "(venue \<Rightarrow> string \<Rightarrow> venue \<times> order res) \<Rightarrow> venue \<Rightarrow> string list \<Rightarrow> venue \<times> string list \<times> py_error list" where
  "cancel_each cancel ad [] = (ad, [], [])"
| "cancel_each cancel ad (oid # oids) =
     (let (ad1, r) = cancel ad oid; (ad2, done, fs) = cancel_each cancel ad1 oids
      in case r of Inl e \<Rightarrow> (ad2, done, e # fs) | Inr _ \<Rightarrow> (ad2, oid # done, fs))"

definition order_ids :: "order list \<Rightarrow> string list" where
  "order_ids os = map (\<lambda>ord. opt_default (o_order_id ord) []) os"

definition delta_cancel_all :: "pylib \<Rightarrow> settings \<Rightarrow> venue \<Rightarrow> venue \<times> (string list \<times> py_error list) res" where
  "delta_cancel_all lib se ad =
     (case delta_open_orders lib ad None of
        (ad1, Inl e) \<Rightarrow> (ad1, Inl e)
      | (ad1, Inr os) \<Rightarrow> (case cancel_each (delta_cancel_order lib se) ad1 (order_ids os) of (ad2, r) \<Rightarrow> (ad2, Inr r)))"

section \<open>Coinbase\<close>

definition coinbase_price :: "pylib \<Rightarrow> venue \<Rightarrow> string \<Rightarrow> venue \<times> pyfloat res" where
  "coinbase_price lib ad sy =
     with_reply (coinbase_request lib ad ''GET'' (''/api/v3/brokerage/market/products/'' @ sy @ ''/ticker'') False [])
       (\<lambda>d. let p = json_or d [''price''] (opt_default (dget d ''last'') JNull)
            in bind_res (case (p, dget d ''trades'') of
                 (JNull, Some (JList (t # ts))) \<Rightarrow> bind_res (json_fields t) (\<lambda>r. Inr (opt_default (dget r ''price'') JNull))
               | _ \<Rightarrow> Inr p)
               (\<lambda>q. json_float lib (if json_truthy q then q else JNum (Fin 0))))"

definition coinbase_account :: "pylib \<Rightarrow> venue \<Rightarrow> venue \<times> json_obj res" where
  "coinbase_account lib ad =
     (if ve_api_key ad = [] then (ad, Inr [(''balances'', JList []), (''note'', JStr ''no_credentials''), (''TRADING_MODE'', JStr ''paper'')])
      else coinbase_request lib ad ''GET'' ''/api/v3/brokerage/accounts'' True [])"

definition sub_object :: "json_obj \<Rightarrow> string \<Rightarrow> json_obj res" where
  "sub_object row k = json_fields (opt_default (dget row k) (JObj []))"

definition coinbase_balance_row :: "pylib \<Rightarrow> json_obj \<Rightarrow> balance res" where
  "coinbase_balance_row lib row =
     bind_res (sub_object row ''available_balance'') (\<lambda>avail.
     bind_res (json_float lib (json_or avail [''value''] (json_or row [''available'', ''free''] (JNum (Fin 0))))) (\<lambda>free.
     bind_res (sub_object row ''hold'') (\<lambda>hold.
     bind_res (json_float lib (json_or hold [''value''] (json_or row [''locked''] (JNum (Fin 0))))) (\<lambda>locked.
       Inr \<lparr>bal_currency = json_str lib (json_or row [''currency''] (json_or avail [''currency''] (JStr ''USD''))),
            bal_free = free, bal_locked = locked\<rparr>))))"

definition coinbase_balance :: "pylib \<Rightarrow> venue \<Rightarrow> venue \<times> balance list res" where
  "coinbase_balance lib ad = with_reply (coinbase_account lib ad)
     (\<lambda>d. case json_or d [''accounts'', ''balances''] (JList []) of
            JList js \<Rightarrow> map_res (\<lambda>j. bind_res (json_fields j) (coinbase_balance_row lib)) js
          | _ \<Rightarrow> Inl (RuntimeError ''rows are not a list''))"

definition coinbase_open_row :: "pylib \<Rightarrow> json_obj \<Rightarrow> order res" where
  "coinbase_open_row lib row =
     (let px = opt_default (dget row ''price'') JNull
      in bind_res (json_float lib (json_or row [''quantity'', ''size''] (JInt 0))) (\<lambda>q.
         bind_res (optional_float lib (px \<noteq> JNull) (if json_truthy px then px else JInt 0)) (\<lambda>lpx.
           Inr (reply_order (json_str lib (json_or row [''order_id'', ''id''] (JStr [])))
                  (json_str lib (json_or row [''symbol'', ''product_id''] (JStr [])))
                  (reply_side (json_str lib (json_or row [''side''] (JStr ''BUY''))))
                  (reply_type (json_str lib (json_or row [''order_type''] (JStr ''LIMIT'')))) q lpx))))"

definition coinbase_open_orders :: "pylib \<Rightarrow> venue \<Rightarrow> string option \<Rightarrow> venue \<times> order list res" where
  "coinbase_open_orders lib ad sy =
     (if ve_api_key ad = [] then (ad, Inr [])
      else with_reply (coinbase_request lib ad ''GET'' ''/api/v3/brokerage/orders/historical/batch'' True [])
             (\<lambda>d. case json_or d [''orders'', ''result''] (JList []) of
                    JList js \<Rightarrow> map_sum id concat (map_res (\<lambda>j. case j of
                      JObj row \<Rightarrow> if skip_row lib sy ''symbol'' ''product_id'' row then Inr []
                                  else map_sum id (\<lambda>ord. [ord]) (coinbase_open_row lib row)
                    | _ \<Rightarrow> Inr []) js)
                  | JObj _ \<Rightarrow> Inr []
                  | JStr _ \<Rightarrow> Inr []
                  | _ \<Rightarrow> Inl (RuntimeError ''rows are not iterable'')))"

definition coinbase_get_order :: "pylib \<Rightarrow> settings \<Rightarrow> venue \<Rightarrow> string \<Rightarrow> venue \<times> order res" where
  "coinbase_get_order lib se ad oid =
     (if ve_environment ad = PRODUCTION_TRADING \<and> (se_trading_mode se \<noteq> ''live'' \<or> \<not> se_live_enabled se)
      then (ad, Inl (RuntimeError ''Coinbase authenticated get_order requires live mode''))
      else with_reply (coinbase_request lib ad ''GET'' (''/api/v3/brokerage/orders/historical/'' @ oid) True [])
       (\<lambda>d. bind_res (json_fields (json_or d [''order''] (JObj d))) (\<lambda>row.
            bind_res (json_float lib (json_or row [''filled_size'', ''quantity''] (JInt 0))) (\<lambda>q.
            bind_res (opt_float lib (json_or row [''average_filled_price''] (opt_default (dget row ''price'') JNull))) (\<lambda>lpx.
              Inr (reply_order (json_str lib (json_or row [''order_id''] (JStr oid)))
                     (json_str lib (json_or row [''product_id'', ''symbol''] (JStr [])))
                     (reply_side (json_str lib (json_or row [''side''] (JStr ''BUY''))))
                     (reply_type (json_str lib (json_or row [''order_type''] (JStr ''LIMIT'')))) q lpx))))))"

definition coinbase_create_order :: "pylib \<Rightarrow> settings \<Rightarrow> venue \<Rightarrow> order \<Rightarrow> venue \<times> order res" where
  "coinbase_create_order lib se ad ord =
     (case assert_live_orders_allowed se ad of
        Inl e \<Rightarrow> (ad, Inl e)
      | Inr _ \<Rightarrow> with_reply (coinbase_request lib ad ''POST'' ''/api/v3/brokerage/orders'' True
            (pl_dumps lib [(''product_id'', JStr (o_symbol ord)), (''side'', JStr (side_value (o_side ord))),
               (''size'', JNum (o_quantity ord))]))
          (\<lambda>d. Inr (reply_order
             (json_str lib (json_or d [''order_id'', ''id''] (JStr (opt_default (opt_or (o_order_id ord) (Some ''cb-sim'')) []))))
             (o_symbol ord) (o_side ord) (o_order_type ord) (o_quantity ord) (o_limit_price ord))))"

definition coinbase_cancel_order :: "pylib \<Rightarrow> settings \<Rightarrow> venue \<Rightarrow> string \<Rightarrow> venue \<times> order res" where
  "coinbase_cancel_order lib se ad oid =
     (case assert_live_orders_allowed se ad of
        Inl e \<Rightarrow> (ad, Inl e)
      | Inr _ \<Rightarrow> with_reply (coinbase_request lib ad ''POST'' ''/api/v3/brokerage/orders/batch_cancel'' True
            (pl_dumps lib [(''order_ids'', JList [JStr oid])]))
          (\<lambda>d. Inr (reply_order oid (json_str lib (json_or d [''symbol''] (JStr ''BTC-USD''))) BUY LIMIT (Fin 0) None)))"

definition coinbase_cancel_all :: "pylib \<Rightarrow> settings \<Rightarrow> venue \<Rightarrow> venue \<times> (string list \<times> py_error list) res" where
  "coinbase_cancel_all lib se ad =
     (case coinbase_open_orders lib ad None of
        (ad1, Inl e) \<Rightarrow> (ad1, Inl e)
      | (ad1, Inr os) \<Rightarrow> (case cancel_each (coinbase_cancel_order lib se) ad1 (order_ids os) of (ad2, r) \<Rightarrow> (ad2, Inr r)))"

section \<open>The requests an adapter sends\<close>

datatype venue_op =
    V_Price string | V_Balance | V_Positions | V_Open "string option" | V_Get string
  | V_Create order | V_Cancel string | V_Cancel_All

fun delta_exec :: "pylib \<Rightarrow> settings \<Rightarrow> venue \<Rightarrow> venue_op \<Rightarrow> venue" where
  "delta_exec lib se ad (V_Price sy) = fst (delta_price lib ad sy)"
| "delta_exec lib se ad V_Balance = fst (delta_balance lib ad)"
| "delta_exec lib se ad V_Positions = fst (delta_positions lib ad)"
| "delta_exec lib se ad (V_Open sy) = fst (delta_open_orders lib ad sy)"
| "delta_exec lib se ad (V_Get oid) = fst (delta_get_order lib ad oid)"
| "delta_exec lib se ad (V_Create ord) = fst (delta_create_order lib se ad ord)"
| "delta_exec lib se ad (V_Cancel oid) = fst (delta_cancel_order lib se ad oid)"
| "delta_exec lib se ad V_Cancel_All = fst (delta_cancel_all lib se ad)"

fun coinbase_exec :: "pylib \<Rightarrow> settings \<Rightarrow> venue \<Rightarrow> venue_op \<Rightarrow> venue" where
  "coinbase_exec lib se ad (V_Price sy) = fst (coinbase_price lib ad sy)"
| "coinbase_exec lib se ad V_Balance = fst (coinbase_balance lib ad)"
| "coinbase_exec lib se ad V_Positions = fst (coinbase_account lib ad)"
| "coinbase_exec lib se ad (V_Open sy) = fst (coinbase_open_orders lib ad sy)"
| "coinbase_exec lib se ad (V_Get oid) = fst (coinbase_get_order lib se ad oid)"
| "coinbase_exec lib se ad (V_Create ord) = fst (coinbase_create_order lib se ad ord)"
| "coinbase_exec lib se ad (V_Cancel oid) = fst (coinbase_cancel_order lib se ad oid)"
| "coinbase_exec lib se ad V_Cancel_All = fst (coinbase_cancel_all lib se ad)"

text \<open>
  \<open>follows ad ad'\<close>: the adapter went on from \<open>ad\<close> to \<open>ad'\<close>.  Configuration is kept, and every request in between
  that is not a plain read was sent by a sandboxed adapter through its injected transport.
\<close>

definition order_request :: "venue_request \<Rightarrow> bool" where
  "order_request req \<longleftrightarrow> vr_method req \<noteq> ''GET''"

definition follows :: "venue \<Rightarrow> venue \<Rightarrow> bool" where
  "follows ad ad' \<longleftrightarrow> ve_environment ad' = ve_environment ad \<and> ve_injected ad' = ve_injected ad
     \<and> ve_api_key ad' = ve_api_key ad \<and> ve_api_secret ad' = ve_api_secret ad
     \<and> (\<exists>reqs. ve_sent ad' = ve_sent ad @ reqs
          \<and> (\<forall>req \<in> set reqs. vr_injected req = ve_injected ad \<and> (order_request req \<longrightarrow> sandboxed ad)))"

lemma follows_refl [simp]: "follows ad ad"
  by (simp add: follows_def)

lemma follows_sandboxed: "follows ad ad' \<Longrightarrow> sandboxed ad' = sandboxed ad"
  by (simp add: follows_def sandboxed_def)

lemma follows_trans: "follows a b \<Longrightarrow> follows b c \<Longrightarrow> follows a c"
proof -
  assume ab: "follows a b" and bc: "follows b c"
  from ab obtain r1 where r1: "ve_sent b = ve_sent a @ r1"
      "\<forall>req \<in> set r1. vr_injected req = ve_injected a \<and> (order_request req \<longrightarrow> sandboxed a)"
    by (auto simp: follows_def)
  from bc obtain r2 where r2: "ve_sent c = ve_sent b @ r2"
      "\<forall>req \<in> set r2. vr_injected req = ve_injected b \<and> (order_request req \<longrightarrow> sandboxed b)"
    by (auto simp: follows_def)
  have "ve_sent c = ve_sent a @ (r1 @ r2)" using r1(1) r2(1) by simp
  moreover have "\<forall>req \<in> set (r1 @ r2). vr_injected req = ve_injected a \<and> (order_request req \<longrightarrow> sandboxed a)"
    using r1(2) r2(2) follows_sandboxed [OF ab] ab by (simp add: follows_def ball_Un)
  ultimately show "follows a c"
    using ab bc unfolding follows_def by (intro conjI) (auto intro!: exI [of _ "r1 @ r2"])
qed

locale gated_venue =
  fixes exec :: "venue \<Rightarrow> 'op \<Rightarrow> venue"
  assumes step: "follows ad (exec ad a)"
begin

lemma run_follows: "follows ad (foldl exec ad ops)"
  by (induction ops arbitrary: ad) (auto intro: follows_trans step)

lemma orders_only_sandboxed:
  assumes "ve_sent ad = []" and "req \<in> set (ve_sent (foldl exec ad ops))" and "order_request req"
  shows "vr_injected req \<and> sandboxed ad"
  using run_follows [of ad ops] assms by (auto simp: follows_def sandboxed_def)

end

lemma send_follows:
  assumes "vr_injected req = ve_injected ad" and "order_request req \<longrightarrow> sandboxed ad"
  shows "follows ad (fst (send_request lib ad req))"
  using assms by (auto simp: send_request_def follows_def Let_def mark_ok_def mark_error_def sandboxed_def
      split: sum.splits)

lemma delta_request_follows:
  "m = ''GET'' \<or> sandboxed ad \<Longrightarrow> follows ad (fst (delta_request lib ad m p auth b))"
  by (auto simp: delta_request_def order_request_def intro!: send_follows split: sum.splits)

lemma coinbase_request_follows:
  "m = ''GET'' \<or> sandboxed ad \<Longrightarrow> follows ad (fst (coinbase_request lib ad m p auth b))"
  by (auto simp: coinbase_request_def order_request_def intro!: send_follows split: sum.splits)

lemma fst_with_reply [simp]: "fst (with_reply r f) = fst r"
  by (simp add: with_reply_def)

lemma with_reply_Inr: "snd (with_reply r f) = Inr x \<Longrightarrow> \<exists>d. f d = Inr x"
  by (cases "snd r") (auto simp: with_reply_def)

lemma reply_order_status [simp]: "o_status (reply_order oid sy sd ty q l) = CREATED"
  by (simp add: reply_order_def new_order_def)

lemma get_order_created:
  "snd (delta_get_order lib ad oid) = Inr ord \<or> snd (coinbase_get_order lib se ad oid) = Inr ord \<Longrightarrow> o_status ord = CREATED"
  by (auto simp: delta_get_order_def coinbase_get_order_def bind_res_Inr_iff simp del: json_or.simps
      dest!: with_reply_Inr split: if_split_asm)

lemmas delta_reads = delta_price_def delta_balance_def delta_account_def delta_positions_def delta_open_orders_def
  delta_get_order_def
lemmas coinbase_reads = coinbase_price_def coinbase_balance_def coinbase_account_def coinbase_open_orders_def
  coinbase_get_order_def

lemma delta_reads_follow:
  "follows ad (fst (delta_price lib ad sy))" "follows ad (fst (delta_balance lib ad))"
  "follows ad (fst (delta_positions lib ad))" "follows ad (fst (delta_open_orders lib ad osy))"
  "follows ad (fst (delta_get_order lib ad oid))"
  by (simp_all add: delta_reads delta_request_follows)

lemma coinbase_reads_follow:
  "follows ad (fst (coinbase_price lib ad sy))" "follows ad (fst (coinbase_balance lib ad))"
  "follows ad (fst (coinbase_account lib ad))" "follows ad (fst (coinbase_open_orders lib ad osy))"
  "follows ad (fst (coinbase_get_order lib se ad oid))"
  by (simp_all add: coinbase_reads coinbase_request_follows)

lemma delta_orders_follow:
  "follows ad (fst (delta_create_order lib se ad ord))" "follows ad (fst (delta_cancel_order lib se ad oid))"
  by (auto simp: delta_create_order_def delta_cancel_order_def delta_request_follows dest: allowed_sandboxed
      split: sum.splits)

lemma coinbase_orders_follow:
  "follows ad (fst (coinbase_create_order lib se ad ord))" "follows ad (fst (coinbase_cancel_order lib se ad oid))"
  by (auto simp: coinbase_create_order_def coinbase_cancel_order_def coinbase_request_follows dest: allowed_sandboxed
      split: sum.splits)

lemma cancel_each_follows:
  assumes "\<And>ad oid. follows ad (fst (cancel ad oid))"
  shows "follows ad (fst (cancel_each cancel ad oids))"
proof (induction oids arbitrary: ad)
  case (Cons oid oids)
  obtain ad1 r where c: "cancel ad oid = (ad1, r)" by fastforce
  obtain ad2 d fs where e: "cancel_each cancel ad1 oids = (ad2, d, fs)" by (metis prod_cases3)
  have "follows ad ad1" "follows ad1 ad2" using assms [of ad oid] Cons.IH [of ad1] c e by simp_all
  then show ?case using c e by (auto split: sum.splits intro: follows_trans)
qed simp

lemma cancel_all_follows:
  "follows ad (fst (delta_cancel_all lib se ad))" "follows ad (fst (coinbase_cancel_all lib se ad))"
proof -
  have all: "follows ad (fst (case opened of (ad1, Inl e) \<Rightarrow> (ad1, Inl e)
      | (ad1, Inr os) \<Rightarrow> (case cancel_each cancel ad1 (order_ids os) of (ad2, r) \<Rightarrow> (ad2, Inr r))))"
    if "follows ad (fst opened)" and "\<And>ad oid. follows ad (fst (cancel ad oid))"
    for opened :: "venue \<times> order list res" and cancel
  proof (cases opened)
    case (Pair ad1 r)
    with that(1) have "follows ad ad1" by simp
    with Pair show ?thesis
      using cancel_each_follows [of cancel ad1 "order_ids (projr r)", OF that(2)]
      by (cases r) (auto split: prod.splits intro: follows_trans)
  qed
  show "follows ad (fst (delta_cancel_all lib se ad))"
    unfolding delta_cancel_all_def by (rule all [OF delta_reads_follow(4) delta_orders_follow(2)])
  show "follows ad (fst (coinbase_cancel_all lib se ad))"
    unfolding coinbase_cancel_all_def by (rule all [OF coinbase_reads_follow(4) coinbase_orders_follow(2)])
qed

interpretation delta_venue: gated_venue "delta_exec lib se" for lib se
proof unfold_locales
  show "follows ad (delta_exec lib se ad a)" for ad a
    by (cases a) (simp_all add: delta_reads_follow delta_orders_follow cancel_all_follows)
qed

interpretation coinbase_venue: gated_venue "coinbase_exec lib se" for lib se
proof unfold_locales
  show "follows ad (coinbase_exec lib se ad a)" for ad a
    by (cases a) (simp_all add: coinbase_reads_follow coinbase_orders_follow cancel_all_follows)
qed

section \<open>Properties\<close>

text \<open>C21: no order leaves for a real venue: whatever the settings, the credentials and the answers, after any
  sequence of reads, submissions and cancellations every request of either adapter that is not a read
  went through an injected transport, and there is none at all in a production or mock environment.\<close>

theorem no_production_orders:
  assumes "ad = new_venue e key secret injd"
    and "req \<in> set (ve_sent (foldl (delta_exec lib se) ad ops)) \<union> set (ve_sent (foldl (coinbase_exec lib se) ad ops))"
    and "vr_method req \<noteq> ''GET''"
  shows "vr_injected req \<and> injd \<and> e \<in> {SANDBOX, TESTNET}"
proof -
  have "ve_sent ad = []" and "order_request req" using assms(1,3) by (simp_all add: new_venue_def order_request_def)
  then have "vr_injected req \<and> sandboxed ad"
    using assms(2) delta_venue.orders_only_sandboxed coinbase_venue.orders_only_sandboxed by blast
  with assms(1) show ?thesis by (simp add: sandboxed_def new_venue_def)
qed

definition demo_lib :: pylib where
  "demo_lib = \<lparr>pl_float = (\<lambda>s. Inr (Fin 0)), pl_str = (\<lambda>j. []), pl_dumps = (\<lambda>d. ''{}''), pl_hmac = (\<lambda>k m. m),
     pl_int = (\<lambda>s. None), pl_now_ms = 0, pl_show_int = (\<lambda>n. ''0''), pl_reply = (\<lambda>reqs. Inr (200, JObj []))\<rparr>"

theorem no_production_orders_witness:
  "vr_injected \<lparr>vr_injected = True, vr_method = ''POST'', vr_path = ''/v2/orders'', vr_body = ''{}'',
     vr_signature = Some ''POST0/v2/orders{}''\<rparr> \<and> True \<and> TESTNET \<in> {SANDBOX, TESTNET}"
proof (rule no_production_orders [OF refl, where ops = "[V_Create (new_order ''BTCUSD'' BUY MARKET (Fin 1))]"
    and key = "''k''" and secret = "''s''" and lib = demo_lib and se = "\<lparr>se_trading_mode = ''paper'', se_live_enabled = False\<rparr>"])
qed (simp_all add: delta_create_order_def coinbase_create_order_def assert_live_orders_allowed_def new_venue_def
  delta_request_def delta_sign_def demo_lib_def send_request_def delta_india_signature_def with_reply_def Let_def opt_truthy_def
  mark_ok_def py_upper_def coinbase_request_def coinbase_sign_def)

text \<open>The adapters lose the status of an order: whatever a venue answers to a status query, the order object
  they build from it has the status CREATED, so it never reads as open, filled or cancelled.\<close>

theorem venue_order_status_lost:
  "(snd (delta_get_order lib ad oid) = Inr ord \<or> snd (coinbase_get_order lib se ad oid) = Inr ord) \<Longrightarrow> o_status ord = CREATED"
  using get_order_created by blast

theorem venue_order_status_lost_witness:
  "o_status (reply_order ''7'' ''BTCUSD'' BUY LIMIT (Fin 3) None) = CREATED"
proof (rule venue_order_status_lost [OF disjI1])
  let ?row = "[(''id'', JStr ''7''), (''status'', JStr ''open''), (''size'', JNum (Fin 3)), (''product_symbol'', JStr ''BTCUSD'')]"
  let ?lib = "demo_lib\<lparr>pl_reply := \<lambda>reqs. Inr (200, JObj [(''result'', JObj ?row)])\<rparr>"
  let ?ad = "new_venue TESTNET ''k'' ''s'' True"
  have "snd (delta_request ?lib ?ad ''GET'' ''/v2/orders/7'' True []) = Inr [(''result'', JObj ?row)]"
  proof -
    have "delta_sign ?lib ?ad ''GET'' ''/v2/orders/7'' [] [] None = Inr (delta_india_signature ?lib ''s'' ''GET'' ''0'' ''/v2/orders/7'' [] [])"
      by (simp add: delta_sign_def demo_lib_def new_venue_def opt_truthy_def Let_def)
    then show ?thesis by (simp add: delta_request_def send_request_def Let_def)
  qed
  moreover have "json_or ?row [''size''] (JInt 0) = JNum (Fin 3)" "json_or ?row [''id''] (JStr ''7'') = JStr ''7''"
    "json_or ?row [''product_symbol'', ''symbol''] (JStr []) = JStr ''BTCUSD''" "\<not> get_truthy ?row ''limit_price''"
    "json_or ?row [''side''] (JStr ''buy'') = JStr ''buy''" "json_or ?row [''order_type''] (JStr ''limit'') = JStr ''limit''"
    "json_or [(''result'', JObj ?row)] [''result''] j = JObj ?row" for j
    by (simp_all add: get_truthy_def json_truthy_def opt_default_def)
  moreover have "reply_side ''buy'' = BUY" "reply_type ''limit'' = LIMIT"
    by (simp_all add: reply_side_def reply_type_def py_startswith_def py_upper_def)
  ultimately show "snd (delta_get_order ?lib ?ad ''7'') = Inr (reply_order ''7'' ''BTCUSD'' BUY LIMIT (Fin 3) None)"
    by (simp add: delta_get_order_def with_reply_def json_fields_def json_float_def json_str_def optional_float_def del: json_or.simps)
qed

end
