(* ===== verification/Intent_Ledger.thy ===== *)
theory Intent_Ledger
  imports Durable_Store
begin

text \<open>
  \<open>orders/intent.py\<close> and \<open>orders/ledger.py\<close>: an order intent is written to the durable store before it
  is submitted, under its identifier and under its idempotency key.  The ledger is a client of the
  interface \<open>kv_store\<close>; its lemmas hold for both back ends.  Time stamps are strings of the intent.
\<close>

datatype intent_status =
    I_DRAFT | I_PERSISTED | I_SUBMITTING | I_SUBMITTED | I_PARTIALLY_FILLED | I_FILLED
  | I_CANCEL_REQUESTED | I_CANCELLED | I_REJECTED | I_FAILED

definition intent_status_value :: "intent_status \<Rightarrow> string" where
  "intent_status_value s = (case s of I_DRAFT \<Rightarrow> ''DRAFT'' | I_PERSISTED \<Rightarrow> ''PERSISTED''
     | I_SUBMITTING \<Rightarrow> ''SUBMITTING'' | I_SUBMITTED \<Rightarrow> ''SUBMITTED'' | I_PARTIALLY_FILLED \<Rightarrow> ''PARTIALLY_FILLED''
     | I_FILLED \<Rightarrow> ''FILLED'' | I_CANCEL_REQUESTED \<Rightarrow> ''CANCEL_REQUESTED'' | I_CANCELLED \<Rightarrow> ''CANCELLED''
     | I_REJECTED \<Rightarrow> ''REJECTED'' | I_FAILED \<Rightarrow> ''FAILED'')"

record order_intent =
  oi_intent_id :: string
  oi_idempotency_key :: string
  oi_strategy_id :: string
  oi_strategy_version :: string
  oi_agent_decision_id :: "string option"
  oi_timestamp :: string
  oi_exchange :: string
  oi_symbol :: string
  oi_side :: string
  oi_quantity :: pyfloat
  oi_price :: "pyfloat option"
  oi_order_type :: string
  oi_risk_decision :: json_obj
  oi_portfolio_state_ref :: "string option"
  oi_execution_stage :: string
  oi_status :: intent_status
  oi_reason_codes :: "string list"
  oi_exchange_order_id :: "string option"
  oi_metadata :: json_obj

section \<open>The public form of an intent\<close>

definition secret_name :: "string \<Rightarrow> bool" where
  "secret_name k = list_ex (\<lambda>s. py_contains s (py_lower k)) [''secret'', ''api_key'', ''token'', ''password'']"

definition redact_metadata :: "json_obj \<Rightarrow> json_obj" where
  "redact_metadata m = map (\<lambda>(k, v). (k, if secret_name k then JStr ''[REDACTED]'' else v)) m"

definition json_opt_str :: "string option \<Rightarrow> json" where
  "json_opt_str x = (case x of None \<Rightarrow> JNull | Some s \<Rightarrow> JStr s)"

definition json_opt_num :: "pyfloat option \<Rightarrow> json" where
  "json_opt_num x = (case x of None \<Rightarrow> JNull | Some v \<Rightarrow> JNum v)"

definition to_public_dict :: "order_intent \<Rightarrow> json_obj" where
  "to_public_dict it =
     [(''intent_id'', JStr (oi_intent_id it)), (''idempotency_key'', JStr (oi_idempotency_key it)),
      (''strategy_id'', JStr (oi_strategy_id it)), (''strategy_version'', JStr (oi_strategy_version it)),
      (''agent_decision_id'', json_opt_str (oi_agent_decision_id it)), (''timestamp'', JStr (oi_timestamp it)),
      (''exchange'', JStr (oi_exchange it)), (''symbol'', JStr (oi_symbol it)), (''side'', JStr (oi_side it)),
      (''quantity'', JNum (oi_quantity it)), (''price'', json_opt_num (oi_price it)),
      (''order_type'', JStr (oi_order_type it)), (''risk_decision'', JObj (oi_risk_decision it)),
      (''portfolio_state_ref'', json_opt_str (oi_portfolio_state_ref it)),
      (''execution_stage'', JStr (oi_execution_stage it)),
      (''status'', JStr (intent_status_value (oi_status it))),
      (''reason_codes'', JList (map JStr (oi_reason_codes it))),
      (''exchange_order_id'', json_opt_str (oi_exchange_order_id it)),
      (''metadata'', JObj (redact_metadata (oi_metadata it)))]"

section \<open>The ledger\<close>

definition intents_coll :: string where "intents_coll = ''order_intents''"
definition idem_coll :: string where "idem_coll = ''order_idempotency''"

definition idem_row :: "string \<Rightarrow> intent_status \<Rightarrow> json_obj" where
  "idem_row i s = [(''intent_id'', JStr i), (''status'', JStr (intent_status_value s))]"

definition ledger_persist ::
  "(nat \<Rightarrow> string \<Rightarrow> string \<Rightarrow> json_obj \<Rightarrow> 's \<Rightarrow> 's) \<Rightarrow> (string \<Rightarrow> string \<Rightarrow> 's \<Rightarrow> json_obj option)
   \<Rightarrow> nat \<Rightarrow> 's \<Rightarrow> order_intent \<Rightarrow> 's \<times> order_intent res" where
  "ledger_persist put get now st it =
     (let existing = opt_default (get idem_coll (oi_idempotency_key it) st) []
      in if existing \<noteq> [] \<and> dget existing ''intent_id'' \<noteq> Some (JStr (oi_intent_id it))
         then (st, Inl (DuplicateOrderError ''Idempotency key already used''))
         else (let it1 = it\<lparr>oi_status := I_PERSISTED\<rparr>
               in (put now idem_coll (oi_idempotency_key it1) (idem_row (oi_intent_id it1) (oi_status it1))
                     (put now intents_coll (oi_intent_id it1) (to_public_dict it1) st), Inr it1)))"

definition marked_row ::
  "json_obj \<Rightarrow> intent_status \<Rightarrow> string list option \<Rightarrow> string option \<Rightarrow> json_obj" where
  "marked_row row s reasons ex =
     (let r1 = dput ''status'' (JStr (intent_status_value s)) row;
          r2 = (case reasons of None \<Rightarrow> r1 | Some rs \<Rightarrow> dput ''reason_codes'' (JList (map JStr rs)) r1)
      in case ex of None \<Rightarrow> r2 | Some x \<Rightarrow> dput ''exchange_order_id'' (JStr x) r2)"

definition ledger_mark ::
  "(nat \<Rightarrow> string \<Rightarrow> string \<Rightarrow> json_obj \<Rightarrow> 's \<Rightarrow> 's) \<Rightarrow> (string \<Rightarrow> string \<Rightarrow> 's \<Rightarrow> json_obj option)
   \<Rightarrow> nat \<Rightarrow> 's \<Rightarrow> string \<Rightarrow> intent_status \<Rightarrow> string list option \<Rightarrow> string option \<Rightarrow> 's \<times> json_obj res" where
  "ledger_mark put get now st i s reasons ex =
     (let found = opt_default (get intents_coll i st) []
      in if found = [] then (st, Inl (KeyError i))
         else (let row = marked_row found s reasons ex;
                   st1 = put now intents_coll i row st
               in (if get_truthy row ''idempotency_key''
                   then put now idem_coll (opt_default (get_str row ''idempotency_key'') []) (idem_row i s) st1
                   else st1, Inr row)))"

definition ledger_get :: "(string \<Rightarrow> string \<Rightarrow> 's \<Rightarrow> json_obj option) \<Rightarrow> 's \<Rightarrow> string \<Rightarrow> json_obj option" where
  "ledger_get get st i = get intents_coll i st"

definition find_by_idempotency ::
  "(string \<Rightarrow> string \<Rightarrow> 's \<Rightarrow> json_obj option) \<Rightarrow> 's \<Rightarrow> string \<Rightarrow> json_obj option" where
  "find_by_idempotency get st k =
     (let ref = opt_default (get idem_coll k st) []
      in if ref = [] then None else ledger_get get st (opt_default (get_str ref ''intent_id'') []))"

definition would_duplicate :: "(string \<Rightarrow> string \<Rightarrow> 's \<Rightarrow> json_obj option) \<Rightarrow> 's \<Rightarrow> string \<Rightarrow> bool" where
  "would_duplicate get st k = (get idem_coll k st \<noteq> None)"

definition list_intents :: "(string \<Rightarrow> nat \<Rightarrow> 's \<Rightarrow> json_obj list) \<Rightarrow> 's \<Rightarrow> nat \<Rightarrow> json_obj list" where
  "list_intents listing st n = listing intents_coll n st"

text \<open>The operations of a session, in the order in which they are made.\<close>

datatype ledger_op =
    L_Persist nat order_intent
  | L_Mark nat string intent_status "string list option" "string option"

fun ledger_exec ::
  "(nat \<Rightarrow> string \<Rightarrow> string \<Rightarrow> json_obj \<Rightarrow> 's \<Rightarrow> 's) \<Rightarrow> (string \<Rightarrow> string \<Rightarrow> 's \<Rightarrow> json_obj option)
   \<Rightarrow> 's \<Rightarrow> ledger_op \<Rightarrow> 's" where
  "ledger_exec put get st (L_Persist now it) = fst (ledger_persist put get now st it)"
| "ledger_exec put get st (L_Mark now i s reasons ex) = fst (ledger_mark put get now st i s reasons ex)"

section \<open>The index of the ledger\<close>

definition reserved :: "(string \<Rightarrow> string \<Rightarrow> 's \<Rightarrow> json_obj option) \<Rightarrow> 's \<Rightarrow> string \<Rightarrow> string \<Rightarrow> bool" where
  "reserved get st k i = (\<exists>s. get idem_coll k st = Some (idem_row i s))"

text \<open>A stored intent carries its identifier, holds the reservation of its key, and its metadata are redacted.\<close>

definition row_ok :: "(string \<Rightarrow> string \<Rightarrow> 's \<Rightarrow> json_obj option) \<Rightarrow> 's \<Rightarrow> string \<Rightarrow> json_obj \<Rightarrow> bool" where
  "row_ok get st i row =
     (dget row ''intent_id'' = Some (JStr i)
      \<and> (\<exists>k. dget row ''idempotency_key'' = Some (JStr k) \<and> reserved get st k i)
      \<and> (\<exists>m. dget row ''metadata'' = Some (JObj m) \<and> redact_metadata m = m))"

definition ledger_ok :: "(string \<Rightarrow> string \<Rightarrow> 's \<Rightarrow> json_obj option) \<Rightarrow> 's \<Rightarrow> bool" where
  "ledger_ok get st = (\<forall>i row. get intents_coll i st = Some row \<longrightarrow> row_ok get st i row)"

lemma colls_differ [simp]: "intents_coll \<noteq> idem_coll" "idem_coll \<noteq> intents_coll"
  by (simp_all add: intents_coll_def idem_coll_def)

lemma idem_row_simps [simp]:
  "idem_row i s \<noteq> []" "dget (idem_row i s) ''intent_id'' = Some (JStr i)" "get_str (idem_row i s) ''intent_id'' = Some i"
  by (simp_all add: idem_row_def get_str_def)

lemma redact_again [simp]: "redact_metadata (redact_metadata m) = redact_metadata m"
  by (auto simp: redact_metadata_def)

lemma public_dict_simps [simp]:
  "to_public_dict it \<noteq> []"
  "dget (to_public_dict it) ''intent_id'' = Some (JStr (oi_intent_id it))"
  "dget (to_public_dict it) ''idempotency_key'' = Some (JStr (oi_idempotency_key it))"
  "dget (to_public_dict it) ''metadata'' = Some (JObj (redact_metadata (oi_metadata it)))"
  by (simp_all add: to_public_dict_def)

lemma marked_row_keeps:
  "k \<notin> {''status'', ''reason_codes'', ''exchange_order_id''} \<Longrightarrow> dget (marked_row row s reasons ex) k = dget row k"
  by (auto simp: marked_row_def Let_def dget_dput split: option.splits)

lemma marked_row_nonempty [simp]: "marked_row row s reasons ex \<noteq> []"
  by (cases row) (auto simp: marked_row_def Let_def split: option.splits)

context kv_store
begin

lemma persist_cases:
  assumes "ledger_persist put get now st it = (st', r)"
  obtains (dup) e where "r = Inl e" and "st' = st"
    | (new) "r = Inr (it\<lparr>oi_status := I_PERSISTED\<rparr>)"
      and "\<And>j s. get idem_coll (oi_idempotency_key it) st = Some (idem_row j s) \<Longrightarrow> j = oi_intent_id it"
      and "st' = put now idem_coll (oi_idempotency_key it) (idem_row (oi_intent_id it) I_PERSISTED)
             (put now intents_coll (oi_intent_id it) (to_public_dict (it\<lparr>oi_status := I_PERSISTED\<rparr>)) st)"
  using assms by (fastforce simp: ledger_persist_def Let_def opt_default_def split: if_splits)

lemma reserved_persist:
  assumes "reserved get st k i"
  shows "reserved get (fst (ledger_persist put get now st it)) k i"
proof (cases "ledger_persist put get now st it")
  case (Pair st' r)
  then show ?thesis
  proof (cases rule: persist_cases)
    case dup
    with assms Pair show ?thesis by simp
  next
    case new
    from assms obtain s where s: "get idem_coll k st = Some (idem_row i s)" by (auto simp: reserved_def)
    with new(2) [of i s] have "k = oi_idempotency_key it \<Longrightarrow> i = oi_intent_id it" by simp
    with s new(3) Pair show ?thesis by (auto simp: reserved_def get_put)
  qed
qed

lemma persist_reserves:
  "ledger_persist put get now st it = (st', Inr it') \<Longrightarrow> reserved get st' (oi_idempotency_key it) (oi_intent_id it)"
  by (erule persist_cases) (auto simp: reserved_def)

lemma persist_ok:
  assumes ok: "ledger_ok get st"
  shows "ledger_ok get (fst (ledger_persist put get now st it))"
proof (cases "ledger_persist put get now st it")
  case (Pair st' r)
  then show ?thesis
  proof (cases rule: persist_cases)
    case dup
    with ok Pair show ?thesis by simp
  next
    case new
    have "row_ok get st' j row" if "get intents_coll j st' = Some row" for j row
    proof (cases "j = oi_intent_id it")
      case True
      with that new(3) have "row = to_public_dict (it\<lparr>oi_status := I_PERSISTED\<rparr>)" by (simp add: get_put)
      moreover have "reserved get st' (oi_idempotency_key it) j"
        using True new(3) by (auto simp: reserved_def get_put)
      ultimately show ?thesis using True by (simp add: row_ok_def)
    next
      case False
      with that new(3) ok have "row_ok get st j row" by (simp add: ledger_ok_def get_put)
      then show ?thesis using reserved_persist [of st _ j now it] Pair by (auto simp: row_ok_def)
    qed
    with Pair show ?thesis by (simp add: ledger_ok_def)
  qed
qed

lemma mark_cases:
  assumes "ledger_mark put get now st i s reasons ex = (st', r)" and ok: "ledger_ok get st"
  obtains (missing) "st' = st"
    | (marked) row k where "get intents_coll i st = Some row" and "dget row ''idempotency_key'' = Some (JStr k)"
      and "reserved get st k i"
      and "st' = put now intents_coll i (marked_row row s reasons ex) st
         \<or> st' = put now idem_coll k (idem_row i s) (put now intents_coll i (marked_row row s reasons ex) st)"
proof (cases "get intents_coll i st")
  case None
  with assms(1) show ?thesis by (intro missing) (simp add: ledger_mark_def opt_default_def)
next
  case (Some row)
  with ok obtain k where k: "dget row ''idempotency_key'' = Some (JStr k)" "reserved get st k i"
    by (auto simp: ledger_ok_def row_ok_def)
  then have "row \<noteq> []" by auto
  with assms(1) Some k(1) show ?thesis
    by (intro marked [OF Some k])
      (auto simp: ledger_mark_def opt_default_def Let_def get_str_def marked_row_keeps split: if_splits)
qed

lemma reserved_mark:
  assumes "reserved get st k i" and "ledger_ok get st"
  shows "reserved get (fst (ledger_mark put get now st j s reasons ex)) k i"
proof (cases "ledger_mark put get now st j s reasons ex")
  case (Pair st' r)
  then show ?thesis using assms(2)
  proof (cases rule: mark_cases)
    case missing
    with assms Pair show ?thesis by simp
  next
    case (marked row k')
    have "k' = k \<Longrightarrow> j = i" using marked(3) assms(1) by (auto simp: reserved_def idem_row_def)
    with marked(4) assms(1) Pair show ?thesis by (auto simp: reserved_def get_put)
  qed
qed

lemma mark_ok:
  assumes ok: "ledger_ok get st"
  shows "ledger_ok get (fst (ledger_mark put get now st i s reasons ex))"
proof (cases "ledger_mark put get now st i s reasons ex")
  case (Pair st' r)
  then have res: "reserved get st k j \<Longrightarrow> reserved get st' k j" for k j
    using reserved_mark [OF _ ok, of k j now i s reasons ex] by simp
  from Pair ok show ?thesis
  proof (cases rule: mark_cases)
    case missing
    with ok Pair show ?thesis by simp
  next
    case (marked row k)
    have "row_ok get st' j row'" if "get intents_coll j st' = Some row'" for j row'
    proof (cases "j = i")
      case True
      with that marked(4) have "row' = marked_row row s reasons ex" by (auto simp: get_put)
      moreover have "row_ok get st i row" using ok marked(1) by (simp add: ledger_ok_def)
      ultimately show ?thesis using True res by (auto simp: row_ok_def marked_row_keeps)
    next
      case False
      with that marked(4) ok have "row_ok get st j row'" by (auto simp: ledger_ok_def get_put)
      then show ?thesis using res by (auto simp: row_ok_def)
    qed
    with Pair show ?thesis by (simp add: ledger_ok_def)
  qed
qed

lemma exec_ok: "ledger_ok get st \<Longrightarrow> ledger_ok get (ledger_exec put get st a)"
  by (cases a) (simp_all add: persist_ok mark_ok)

lemma exec_reserved: "reserved get st k i \<Longrightarrow> ledger_ok get st \<Longrightarrow> reserved get (ledger_exec put get st a) k i"
  by (cases a) (simp_all add: reserved_persist reserved_mark)

lemma ledger_run_ok: "ledger_ok get st \<Longrightarrow> ledger_ok get (foldl (ledger_exec put get) st as)"
  by (induction as arbitrary: st) (simp_all add: exec_ok)

lemma run_reserved:
  "reserved get st k i \<Longrightarrow> ledger_ok get st \<Longrightarrow> reserved get (foldl (ledger_exec put get) st as) k i"
  by (induction as arbitrary: st) (simp_all add: exec_ok exec_reserved)

lemma reserved_blocks:
  "reserved get st (oi_idempotency_key it) i \<Longrightarrow> oi_intent_id it \<noteq> i \<Longrightarrow>
   ledger_persist put get now st it = (st, Inl (DuplicateOrderError ''Idempotency key already used''))"
  by (auto simp: reserved_def ledger_persist_def opt_default_def Let_def)

lemma reserved_found: "reserved get st k i \<Longrightarrow> find_by_idempotency get st k = get intents_coll i st"
  by (auto simp: reserved_def find_by_idempotency_def ledger_get_def opt_default_def Let_def)

lemma persist_then_ok:
  "ledger_ok get st \<Longrightarrow> ledger_persist put get now st it = (st', r) \<Longrightarrow> ledger_ok get st'"
  using persist_ok [of st now it] by simp

text \<open>A mark that returns has written the status.\<close>

lemma marked_row_status: "dget (marked_row row s reasons ex) ''status'' = Some (JStr (intent_status_value s))"
  by (simp add: marked_row_def Let_def dget_dput split: option.splits)

lemma mark_status:
  "ledger_mark put get now st i s reasons ex = (st', Inr row) \<Longrightarrow>
   get intents_coll i st' = Some row \<and> dget row ''status'' = Some (JStr (intent_status_value s))"
  by (auto simp: ledger_mark_def Let_def get_put marked_row_status split: if_splits)

text \<open>A row that was written stays: the ledger never deletes.\<close>

lemma exec_keeps_row: "get intents_coll i st \<noteq> None \<Longrightarrow> get intents_coll i (ledger_exec put get st a) \<noteq> None"
  by (cases a) (auto simp: ledger_persist_def ledger_mark_def Let_def get_put)

lemma run_keeps_row: "get intents_coll i st \<noteq> None \<Longrightarrow> get intents_coll i (foldl (ledger_exec put get) st as) \<noteq> None"
  by (induction as arbitrary: st) (simp_all del: not_None_eq add: exec_keeps_row)

lemma persist_writes_row: "ledger_persist put get now st it = (st', Inr it') \<Longrightarrow> get intents_coll (oi_intent_id it) st' \<noteq> None"
  by (erule persist_cases) (auto simp: get_put)

lemma idempotent_submission:
  assumes "ledger_ok get st" and "ledger_persist put get now st it = (st', Inr it')"
    and "oi_idempotency_key it2 = oi_idempotency_key it" and "oi_intent_id it2 \<noteq> oi_intent_id it"
    and st2: "st2 = foldl (ledger_exec put get) st' as"
  shows "ledger_persist put get now2 st2 it2 = (st2, Inl (DuplicateOrderError ''Idempotency key already used''))"
    and "\<exists>row. find_by_idempotency get st2 (oi_idempotency_key it) = Some row
           \<and> dget row ''intent_id'' = Some (JStr (oi_intent_id it))"
proof -
  have ok: "ledger_ok get st'" using assms(1,2) by (rule persist_then_ok)
  have res: "reserved get st2 (oi_idempotency_key it) (oi_intent_id it)"
    unfolding st2 by (rule run_reserved [OF persist_reserves [OF assms(2)] ok])
  then show "ledger_persist put get now2 st2 it2 = (st2, Inl (DuplicateOrderError ''Idempotency key already used''))"
    using assms(3,4) by (intro reserved_blocks) auto
  obtain row where "get intents_coll (oi_intent_id it) st2 = Some row"
    using run_keeps_row [OF persist_writes_row [OF assms(2)], of as] by (auto simp: st2)
  moreover have "ledger_ok get st2" unfolding st2 using ok by (rule ledger_run_ok)
  ultimately show "\<exists>row. find_by_idempotency get st2 (oi_idempotency_key it) = Some row
      \<and> dget row ''intent_id'' = Some (JStr (oi_intent_id it))"
    by (simp add: reserved_found [OF res] ledger_ok_def row_ok_def)
qed

end

lemma st_get_empty [simp]: "st_get c k st_empty = None"
  by transfer (simp add: sqlite_get_def)

lemma ledger_ok_empty [simp]: "ledger_ok st_get st_empty"
  by (simp add: ledger_ok_def)

section \<open>Properties\<close>

text \<open>C20: an idempotency key belongs to the intent that first claimed it: once an intent is persisted, and
  after any sequence of further persists and status marks, persisting a different intent under the same
  key is refused as a duplicate and leaves the store as it is, and looking the key up finds the first
  intent.\<close>

theorem idempotency_key_owned:
  assumes "ledger_ok st_get st" and "ledger_persist st_put st_get now st it = (st', Inr it')"
    and "oi_idempotency_key it2 = oi_idempotency_key it" and "oi_intent_id it2 \<noteq> oi_intent_id it"
    and "st2 = foldl (ledger_exec st_put st_get) st' as"
  shows "ledger_persist st_put st_get now2 st2 it2 = (st2, Inl (DuplicateOrderError ''Idempotency key already used''))
    \<and> (\<exists>row. find_by_idempotency st_get st2 (oi_idempotency_key it) = Some row
         \<and> dget row ''intent_id'' = Some (JStr (oi_intent_id it)))"
  using sqlite.idempotent_submission [OF assms] by blast

definition demo_intent :: "string \<Rightarrow> order_intent" where
  "demo_intent i = \<lparr>oi_intent_id = i, oi_idempotency_key = ''S:BTCUSD:BUY:C1'', oi_strategy_id = ''S'',
     oi_strategy_version = ''1.0.0'', oi_agent_decision_id = Some ''C1'', oi_timestamp = ''t0'',
     oi_exchange = ''delta_india_sandbox'', oi_symbol = ''BTCUSD'', oi_side = ''BUY'', oi_quantity = Fin 1,
     oi_price = None, oi_order_type = ''MARKET'', oi_risk_decision = [(''approved'', JBool True)],
     oi_portfolio_state_ref = None, oi_execution_stage = ''STAGE_2_CLOUD_PAPER'', oi_status = I_DRAFT,
     oi_reason_codes = [], oi_exchange_order_id = None, oi_metadata = [(''api_key'', JStr ''k'')]\<rparr>"

theorem idempotency_key_owned_witness:
  "\<exists>st2. fst (ledger_persist st_put st_get 9 st2 (demo_intent ''INT-2'')) = st2
     \<and> find_by_idempotency st_get st2 ''S:BTCUSD:BUY:C1'' \<noteq> None"
proof -
  let ?it = "demo_intent ''INT-1''"
  obtain st' r where p: "ledger_persist st_put st_get 1 st_empty ?it = (st', r)" by fastforce
  then have r: "r = Inr (?it\<lparr>oi_status := I_PERSISTED\<rparr>)"
    by (simp add: ledger_persist_def opt_default_def Let_def demo_intent_def)
  have "oi_idempotency_key (demo_intent ''INT-2'') = oi_idempotency_key ?it"
    and "oi_intent_id (demo_intent ''INT-2'') \<noteq> oi_intent_id ?it" by (simp_all add: demo_intent_def)
  from idempotency_key_owned [OF ledger_ok_empty p [unfolded r] this refl, of 9
      "[L_Mark 2 ''INT-1'' I_SUBMITTING None None, L_Persist 3 (demo_intent ''INT-2'')]"]
  show ?thesis by (auto simp: demo_intent_def intro!: exI)
qed

text \<open>No secret reaches the ledger under its own name: after any sequence of persists and marks from an
  empty store, every stored intent has, at the top level of its metadata, only redacted values under the
  names that contain \<open>secret\<close>, \<open>api_key\<close>, \<open>token\<close> or \<open>password\<close>, in any case.\<close>

theorem ledger_redacts_secrets:
  assumes "st_get intents_coll i (foldl (ledger_exec st_put st_get) st_empty as) = Some row"
  shows "\<exists>m. dget row ''metadata'' = Some (JObj m) \<and> (\<forall>(k, v) \<in> set m. secret_name k \<longrightarrow> v = JStr ''[REDACTED]'')"
proof -
  have "ledger_ok st_get (foldl (ledger_exec st_put st_get) st_empty as)"
    by (simp add: sqlite.ledger_run_ok)
  with assms obtain m where m: "dget row ''metadata'' = Some (JObj m)" "redact_metadata m = m"
    by (auto simp: ledger_ok_def row_ok_def)
  have "v = JStr ''[REDACTED]''" if "(k, v) \<in> set (redact_metadata m)" and "secret_name k" for k v
    using that by (auto simp: redact_metadata_def split: if_splits)
  with m show ?thesis by (auto simp: m(2))
qed

theorem ledger_redacts_secrets_witness:
  "\<exists>row m. st_get intents_coll ''INT-1'' (ledger_exec st_put st_get st_empty (L_Persist 1 (demo_intent ''INT-1''))) = Some row
     \<and> dget row ''metadata'' = Some (JObj m) \<and> (\<forall>(k, v) \<in> set m. secret_name k \<longrightarrow> v = JStr ''[REDACTED]'')"
proof -
  let ?st = "foldl (ledger_exec st_put st_get) st_empty [L_Persist 1 (demo_intent ''INT-1'')]"
  obtain row where row: "st_get intents_coll ''INT-1'' ?st = Some row"
    by (auto simp: ledger_persist_def opt_default_def Let_def demo_intent_def sqlite.get_put)
  from ledger_redacts_secrets [OF this] row show ?thesis by auto
qed

end
