(* ===== verification/Reconciliation.thy ===== *)
theory Reconciliation
  imports Order_Model Durable_Store
begin

text \<open>
  \<open>reconciliation/service.py\<close>: the comparison of the local snapshot with the exchange's, persisted in the
  durable store.  Values are compared as Python's \<open>==\<close> compares decoded JSON: numbers by value whatever
  their type, lists in order, dictionaries by key.  The symbols of a set union are taken in the order of the
  local dictionary and then of the exchange's.
\<close>

section \<open>Equality of JSON values\<close>

definition json_number :: "json \<Rightarrow> pyfloat option" where
  "json_number j = (case j of JBool b \<Rightarrow> Some (Fin (if b then 1 else 0)) | JInt n \<Rightarrow> Some (Fin (rat_of_int n))
     | JNum x \<Rightarrow> Some x | _ \<Rightarrow> None)"

primrec json_eq :: "json \<Rightarrow> json \<Rightarrow> bool" where
  "json_eq JNull b = (b = JNull)"
| "json_eq (JStr s) b = (b = JStr s)"
| "json_eq (JBool x) b = (case json_number b of None \<Rightarrow> False | Some v \<Rightarrow> feq (Fin (if x then 1 else 0)) v)"
| "json_eq (JInt n) b = (case json_number b of None \<Rightarrow> False | Some v \<Rightarrow> feq (Fin (rat_of_int n)) v)"
| "json_eq (JNum x) b = (case json_number b of None \<Rightarrow> False | Some v \<Rightarrow> feq x v)"
| "json_eq (JList xs) b = (case b of JList ys \<Rightarrow> list_all2 (\<lambda>f y. f y) (map json_eq xs) ys | _ \<Rightarrow> False)"
| "json_eq (JObj d) b = (case b of
     JObj e \<Rightarrow> length d = length e
       \<and> list_all (\<lambda>(k, f). case dget e k of None \<Rightarrow> False | Some v \<Rightarrow> f v) (map (map_prod id json_eq) d)
   | _ \<Rightarrow> False)"

text \<open>\<open>local.get(k) != exchange.get(k)\<close>, with \<open>None\<close> for a missing key.\<close>

definition json_get :: "json_obj \<Rightarrow> string \<Rightarrow> json" where
  "json_get d k = opt_default (dget d k) JNull"

definition json_differs :: "json_obj \<Rightarrow> json_obj \<Rightarrow> string \<Rightarrow> bool" where
  "json_differs a b k = (\<not> json_eq (json_get a k) (json_get b k))"

text \<open>A decoded document: no NaN, and one entry per key of a dictionary.\<close>

primrec json_plain :: "json \<Rightarrow> bool" where
  "json_plain JNull = True"
| "json_plain (JStr s) = True"
| "json_plain (JBool b) = True"
| "json_plain (JInt n) = True"
| "json_plain (JNum x) = (x \<noteq> NaN)"
| "json_plain (JList xs) = list_all (\<lambda>b. b) (map json_plain xs)"
| "json_plain (JObj d) = (keys_ok d \<and> list_all (\<lambda>(k, b). b) (map (map_prod id json_plain) d))"

lemma feq_refl: "x \<noteq> NaN \<Longrightarrow> feq x x"
  by (cases x) (simp_all add: feq_def)

lemma json_eq_refl: "json_plain j \<Longrightarrow> json_eq j j"
proof (induction j)
  case (JList xs)
  then show ?case by (auto simp: list_all2_conv_all_nth list_all_length)
next
  case (JObj d)
  have "dget d k = Some v" "json_eq v v" if "(k, v) \<in> set d" for k v
    using JObj that by (auto simp: list_all_iff intro: keys_ok_dget)
  then show ?case by (auto simp: list_all_iff)
qed (auto simp: json_number_def feq_refl)

section \<open>The comparison\<close>

datatype recon_state = RECONCILED | DRIFT_DETECTED | RECONCILIATION_FAILED | EXCHANGE_UNAVAILABLE

definition recon_state_value :: "recon_state \<Rightarrow> string" where
  "recon_state_value s = (case s of RECONCILED \<Rightarrow> ''RECONCILED'' | DRIFT_DETECTED \<Rightarrow> ''DRIFT_DETECTED''
     | RECONCILIATION_FAILED \<Rightarrow> ''RECONCILIATION_FAILED'' | EXCHANGE_UNAVAILABLE \<Rightarrow> ''EXCHANGE_UNAVAILABLE'')"

record recon_result =
  rr_state :: recon_state
  rr_healthy :: bool
  rr_allows_orders :: bool
  rr_timestamp :: nat
  rr_error :: "string option"
  rr_drifts :: "string list"

definition recon_fields :: "string list" where
  "recon_fields = [''balances'', ''available_balances'', ''positions'', ''open_orders'', ''fills'',
     ''realized_pnl'', ''unrealized_pnl'']"

definition field_drifts :: "json_obj \<Rightarrow> json_obj \<Rightarrow> string list" where
  "field_drifts a b = filter (\<lambda>k. (dmem k a \<or> dmem k b) \<and> json_differs a b k) recon_fields"

text \<open>\<open>d.get(k) or {}\<close>; using the result as a dictionary raises when it is something else.\<close>

definition sub_dict :: "json_obj \<Rightarrow> string \<Rightarrow> json_obj res" where
  "sub_dict d k = (if get_truthy d k then (case json_get d k of JObj e \<Rightarrow> Inr e | _ \<Rightarrow> Inl (RuntimeError ''not a mapping''))
     else Inr [])"

definition symbol_drifts :: "json_obj \<Rightarrow> json_obj \<Rightarrow> string \<Rightarrow> string list res" where
  "symbol_drifts a b sy =
     bind_res (sub_dict a sy) (\<lambda>l. bind_res (sub_dict b sy) (\<lambda>e. Inr
       ((if json_differs l e ''quantity'' then [''position_qty:'' @ sy] else [])
        @ (if json_differs l e ''avg_entry'' then [''avg_entry:'' @ sy] else []))))"

fun detail_drifts :: "json_obj \<Rightarrow> json_obj \<Rightarrow> string list \<Rightarrow> string list res" where
  "detail_drifts a b [] = Inr []"
| "detail_drifts a b (sy # sys) =
     bind_res (symbol_drifts a b sy) (\<lambda>xs. bind_res (detail_drifts a b sys) (\<lambda>ys. Inr (xs @ ys)))"

definition union_keys :: "json_obj \<Rightarrow> json_obj \<Rightarrow> string list" where
  "union_keys a b = map fst a @ filter (\<lambda>k. k \<notin> fst ` set a) (map fst b)"

definition all_drifts :: "json_obj \<Rightarrow> json_obj \<Rightarrow> string list res" where
  "all_drifts a b =
     bind_res (sub_dict a ''position_details'') (\<lambda>la. bind_res (sub_dict b ''position_details'') (\<lambda>eb.
       bind_res (detail_drifts la eb (union_keys la eb)) (\<lambda>ds. Inr (field_drifts a b @ ds))))"

definition recon_compare :: "nat \<Rightarrow> json_obj \<Rightarrow> json_obj option \<Rightarrow> string option \<Rightarrow> recon_result res" where
  "recon_compare now a b err =
     (if opt_truthy err then Inr \<lparr>rr_state = EXCHANGE_UNAVAILABLE, rr_healthy = False, rr_allows_orders = False,
          rr_timestamp = now, rr_error = err, rr_drifts = []\<rparr>
      else case b of
        None \<Rightarrow> Inr \<lparr>rr_state = RECONCILIATION_FAILED, rr_healthy = False, rr_allows_orders = False,
          rr_timestamp = now, rr_error = Some ''missing_exchange_snapshot'', rr_drifts = []\<rparr>
      | Some e \<Rightarrow> bind_res (all_drifts a e) (\<lambda>drifts. Inr
          \<lparr>rr_state = (if drifts \<noteq> [] then DRIFT_DETECTED else RECONCILED), rr_healthy = (drifts = []),
           rr_allows_orders = (drifts = []), rr_timestamp = now, rr_error = None, rr_drifts = drifts\<rparr>))"

section \<open>Persistence\<close>

definition recon_coll :: string where "recon_coll = ''reconciliation''"

definition recon_json :: "recon_result \<Rightarrow> json_obj" where
  "recon_json r =
     [(''state'', JStr (recon_state_value (rr_state r))), (''healthy'', JBool (rr_healthy r)),
      (''allows_new_live_orders'', JBool (rr_allows_orders r)), (''timestamp'', JStr (dec_digits (rr_timestamp r)))]
     @ (case rr_error r of None \<Rightarrow> [] | Some e \<Rightarrow> [(''error'', JStr e)])
     @ [(''drifts'', JList (map JStr (rr_drifts r)))]"

record 's recon =
  rc_store :: 's
  rc_last :: "recon_result option"

definition recon_persist ::
  "(nat \<Rightarrow> string \<Rightarrow> string \<Rightarrow> json_obj \<Rightarrow> 's \<Rightarrow> 's) \<Rightarrow> 's recon \<Rightarrow> recon_result \<Rightarrow> 's recon" where
  "recon_persist put rc r = rc\<lparr>rc_last := Some r,
     rc_store := put (rr_timestamp r) recon_coll ''latest'' (recon_json r)
       (put (rr_timestamp r) recon_coll (dec_digits (rr_timestamp r)) (recon_json r) (rc_store rc))\<rparr>"

definition reconcile ::
  "(nat \<Rightarrow> string \<Rightarrow> string \<Rightarrow> json_obj \<Rightarrow> 's \<Rightarrow> 's) \<Rightarrow> nat \<Rightarrow> 's recon \<Rightarrow> json_obj \<Rightarrow> json_obj option
   \<Rightarrow> string option \<Rightarrow> 's recon \<times> recon_result res" where
  "reconcile put now rc a b err = (case recon_compare now a b err of
     Inl e \<Rightarrow> (rc, Inl e) | Inr r \<Rightarrow> (recon_persist put rc r, Inr r))"

definition recon_status :: "(string \<Rightarrow> string \<Rightarrow> 's \<Rightarrow> json_obj option) \<Rightarrow> 's recon \<Rightarrow> json_obj" where
  "recon_status get rc =
     (let row = opt_default (get recon_coll ''latest'' (rc_store rc)) []
      in if row \<noteq> [] then row
         else case rc_last rc of
           Some r \<Rightarrow> recon_json r
         | None \<Rightarrow> [(''state'', JStr ''RECONCILIATION_FAILED''), (''healthy'', JBool False), (''allows_new_live_orders'', JBool False)])"

section \<open>Lemmas\<close>

lemma json_get_plain: "json_plain (JObj d) \<Longrightarrow> json_plain (json_get d k)"
  by (fastforce simp: json_get_def opt_default_def list_all_iff split: option.splits dest: dget_in_set)

declare json_plain.simps(7) [simp del]

lemma json_plain_empty [simp]: "json_plain (JObj [])"
  by (simp add: json_plain.simps(7))

lemma sub_dict_plain: "json_plain (JObj d) \<Longrightarrow> sub_dict d k = Inr e \<Longrightarrow> json_plain (JObj e)"
  using json_get_plain [of d k] by (auto simp: sub_dict_def split: if_splits json.splits)

lemma no_self_drift: "json_plain (JObj d) \<Longrightarrow> \<not> json_differs d d k"
  by (simp add: json_differs_def json_eq_refl json_get_plain)

lemma no_self_details: "json_plain (JObj d) \<Longrightarrow> detail_drifts d d sys = Inr ds \<Longrightarrow> ds = []"
  by (induction sys arbitrary: ds)
    (auto simp: bind_res_Inr_iff symbol_drifts_def no_self_drift dest: sub_dict_plain)

lemma self_compare:
  assumes "json_plain (JObj d)" and "recon_compare now d (Some d) None = Inr r"
  shows "rr_state r = RECONCILED \<and> rr_allows_orders r"
proof -
  have "ds = []" if drifts: "all_drifts d d = Inr ds" for ds
  proof -
    from drifts obtain l ds' where l: "sub_dict d ''position_details'' = Inr l"
      and ds': "detail_drifts l l (union_keys l l) = Inr ds'" and ds: "ds = field_drifts d d @ ds'"
      by (auto simp: all_drifts_def bind_res_Inr_iff)
    have "ds' = []" by (rule no_self_details [OF sub_dict_plain [OF assms(1) l] ds'])
    moreover have "field_drifts d d = []"
      using assms(1) by (simp add: field_drifts_def filter_empty_conv no_self_drift)
    ultimately show ?thesis by (simp add: ds)
  qed
  with assms(2) show ?thesis by (auto simp: recon_compare_def opt_truthy_def bind_res_Inr_iff)
qed

lemma detail_drifts_Nil:
  assumes "detail_drifts a b sys = Inr []" and "sy \<in> set sys"
    and "sub_dict a sy = Inr l" and "sub_dict b sy = Inr e"
  shows "\<not> json_differs l e ''quantity'' \<and> \<not> json_differs l e ''avg_entry''"
  using assms(1,2)
proof (induction sys)
  case (Cons s sys)
  then show ?case using assms(3,4) by (fastforce simp: bind_res_Inr_iff symbol_drifts_def split: if_splits)
qed simp

text \<open>
  A snapshot never drifts from itself: compared with itself, as the sandbox execution service does, a plain
  snapshot can only be reconciled.
\<close>

lemma reconcile_Inr_iff:
  "reconcile put now rc a b err = (rc', Inr r) \<longleftrightarrow> recon_compare now a b err = Inr r \<and> rc' = recon_persist put rc r"
  by (cases "recon_compare now a b err") (auto simp: reconcile_def)

lemma self_reconcile:
  "json_plain (JObj d) \<Longrightarrow> reconcile put now rc d (Some d) None = (rc', Inr r) \<Longrightarrow> rr_state r = RECONCILED \<and> rr_allows_orders r"
  using self_compare [of d now r] by (simp add: reconcile_Inr_iff)

context kv_store
begin

lemma status_latest: "recon_status get (recon_persist put rc r) = recon_json r"
  by (simp add: recon_status_def recon_persist_def opt_default_def recon_json_def)

end

section \<open>Properties\<close>

text \<open>Reconciliation is fail closed: new live orders are allowed only when the exchange reported no error and
  gave a snapshot, each of the compared fields agrees on both sides, and so do quantity and entry price of
  every position that either side details; what status reports afterwards is the persisted outcome.\<close>

theorem reconciliation_fail_closed:
  assumes "reconcile st_put now rc a b err = (rc', Inr r)" and "rr_allows_orders r"
  shows "\<not> opt_truthy err \<and> rr_state r = RECONCILED \<and> recon_status st_get rc' = recon_json r
    \<and> (\<exists>e. b = Some e
        \<and> (\<forall>k \<in> set recon_fields. dmem k a \<or> dmem k e \<longrightarrow> json_eq (json_get a k) (json_get e k))
        \<and> (\<forall>la eb sy l x. sub_dict a ''position_details'' = Inr la \<longrightarrow> sub_dict e ''position_details'' = Inr eb
             \<longrightarrow> sy \<in> fst ` set la \<union> fst ` set eb \<longrightarrow> sub_dict la sy = Inr l \<longrightarrow> sub_dict eb sy = Inr x
             \<longrightarrow> json_eq (json_get l ''quantity'') (json_get x ''quantity'')
               \<and> json_eq (json_get l ''avg_entry'') (json_get x ''avg_entry'')))"
proof -
  from assms(1) have cmp: "recon_compare now a b err = Inr r" and rc': "rc' = recon_persist st_put rc r"
    by (auto simp: reconcile_def split: sum.splits)
  from cmp assms(2) obtain e where e: "b = Some e" "\<not> opt_truthy err" "all_drifts a e = Inr []" "rr_state r = RECONCILED"
    by (auto simp: recon_compare_def bind_res_Inr_iff split: if_splits option.splits)
  from e(3) have fields: "field_drifts a e = []" by (auto simp: all_drifts_def bind_res_Inr_iff)
  have details: "json_eq (json_get l ''quantity'') (json_get x ''quantity'') \<and> json_eq (json_get l ''avg_entry'') (json_get x ''avg_entry'')"
    if "sub_dict a ''position_details'' = Inr la" "sub_dict e ''position_details'' = Inr eb"
      "sy \<in> fst ` set la \<union> fst ` set eb" "sub_dict la sy = Inr l" "sub_dict eb sy = Inr x" for la eb sy l x
    using e(3) that detail_drifts_Nil [of la eb "union_keys la eb" sy l x]
    by (auto simp: all_drifts_def bind_res_Inr_iff union_keys_def json_differs_def)
  have "json_eq (json_get a k) (json_get e k)" if "k \<in> set recon_fields" "dmem k a \<or> dmem k e" for k
    using fields that by (auto simp: field_drifts_def filter_empty_conv json_differs_def)
  then have "\<forall>k \<in> set recon_fields. dmem k a \<or> dmem k e \<longrightarrow> json_eq (json_get a k) (json_get e k)" by blast
  with e(1,2,4) show ?thesis
    by (intro conjI exI [of _ e] allI impI details [THEN conjunct1] details [THEN conjunct2])
      (simp_all add: rc' sqlite.status_latest)
qed

theorem reconciliation_fail_closed_witness:
  "\<exists>rc' r. reconcile st_put 5 \<lparr>rc_store = st_empty, rc_last = None\<rparr> [(''realized_pnl'', JInt 0)]
     (Some [(''realized_pnl'', JNum (Fin 0))]) None = (rc', Inr r) \<and> recon_status st_get rc' = recon_json r"
proof -
  let ?a = "[(''realized_pnl'', JInt 0)]" and ?b = "[(''realized_pnl'', JNum (Fin 0))]"
  define r where "r = \<lparr>rr_state = RECONCILED, rr_healthy = True, rr_allows_orders = True, rr_timestamp = 5,
    rr_error = None, rr_drifts = []\<rparr>"
  define rc where "rc = \<lparr>rc_store = st_empty, rc_last = None\<rparr>"
  have "sub_dict [(''realized_pnl'', j)] ''position_details'' = Inr []" for j
    by (simp add: sub_dict_def get_truthy_def)
  moreover have "field_drifts ?a ?b = []"
    by (simp add: field_drifts_def recon_fields_def dmem_def json_differs_def json_get_def opt_default_def json_number_def feq_def)
  ultimately have "all_drifts ?a ?b = Inr []" by (simp add: all_drifts_def union_keys_def)
  then have "recon_compare 5 ?a (Some ?b) None = Inr r" by (simp add: recon_compare_def opt_truthy_def r_def)
  then have e: "reconcile st_put 5 rc ?a (Some ?b) None = (recon_persist st_put rc r, Inr r)"
    by (simp add: reconcile_def)
  have "rr_allows_orders r" by (simp add: r_def)
  from reconciliation_fail_closed [OF e this] e show ?thesis unfolding rc_def by blast
qed

end
