(* ===== verification/Live.thy ===== *)
theory Live
  imports Prelude
begin

text \<open>
  \<open>live/policy.py\<close>, \<open>live/gate.py\<close>, \<open>live/stages.py\<close>, \<open>live/stage2_criteria.py\<close>: the fail-closed gate in
  front of live execution, the stages a deployment climbs one at a time, and the entry list of stage 2.
  The stages form a linear order, as their list in the source does.
\<close>

section \<open>Stages\<close>

datatype trading_stage =
    STAGE_0_BACKTEST | STAGE_1_LOCAL_PAPER | STAGE_2_CLOUD_PAPER | STAGE_3_PRODUCTION_READ_ONLY
  | STAGE_4_LIVE_DRY_RUN | STAGE_5_CONTROLLED_LIVE | STAGE_6_AUTONOMOUS_LIVE

definition stage_order :: "trading_stage list" where
  "stage_order = [STAGE_0_BACKTEST, STAGE_1_LOCAL_PAPER, STAGE_2_CLOUD_PAPER, STAGE_3_PRODUCTION_READ_ONLY,
     STAGE_4_LIVE_DRY_RUN, STAGE_5_CONTROLLED_LIVE, STAGE_6_AUTONOMOUS_LIVE]"

primrec stage_index :: "trading_stage \<Rightarrow> nat" where
  "stage_index STAGE_0_BACKTEST = 0"
| "stage_index STAGE_1_LOCAL_PAPER = 1"
| "stage_index STAGE_2_CLOUD_PAPER = 2"
| "stage_index STAGE_3_PRODUCTION_READ_ONLY = 3"
| "stage_index STAGE_4_LIVE_DRY_RUN = 4"
| "stage_index STAGE_5_CONTROLLED_LIVE = 5"
| "stage_index STAGE_6_AUTONOMOUS_LIVE = 6"

lemma stage_order_index: "stage_order ! stage_index s = s"
  by (cases s) (simp_all add: stage_order_def)

lemma stage_index_inject [simp]: "stage_index s = stage_index t \<longleftrightarrow> s = t"
  by (metis stage_order_index)

lemma stage_index_bound: "stage_index s \<le> 6"
  by (cases s) simp_all

instantiation trading_stage :: linorder
begin

definition less_eq_trading_stage :: "trading_stage \<Rightarrow> trading_stage \<Rightarrow> bool" where
  "less_eq_trading_stage s t = (stage_index s \<le> stage_index t)"

definition less_trading_stage :: "trading_stage \<Rightarrow> trading_stage \<Rightarrow> bool" where
  "less_trading_stage s t = (stage_index s < stage_index t)"

instance
  by intro_classes (auto simp: less_eq_trading_stage_def less_trading_stage_def)

end

lemmas stage_less = less_eq_trading_stage_def less_trading_stage_def

datatype stage_action = Demote | Promote

record stage_change =
  sc_from :: trading_stage
  sc_to :: trading_stage
  sc_operator :: string
  sc_evidence :: string
  sc_action :: stage_action

record stage_manager =
  sm_current :: trading_stage
  sm_history :: "stage_change list"

definition new_stage_manager :: stage_manager where
  "new_stage_manager = \<lparr>sm_current = STAGE_1_LOCAL_PAPER, sm_history = []\<rparr>"

definition allows_live_orders :: "stage_manager \<Rightarrow> bool" where
  "allows_live_orders m \<longleftrightarrow> sm_current m \<in> {STAGE_5_CONTROLLED_LIVE, STAGE_6_AUTONOMOUS_LIVE}"

definition allows_production_reads :: "stage_manager \<Rightarrow> bool" where
  "allows_production_reads m \<longleftrightarrow> STAGE_3_PRODUCTION_READ_ONLY \<le> sm_current m"

definition move_stage :: "stage_manager \<Rightarrow> trading_stage \<Rightarrow> string \<Rightarrow> string \<Rightarrow> stage_action \<Rightarrow> stage_manager" where
  "move_stage m t operator evidence a =
     \<lparr>sm_current = t, sm_history = sm_history m @
        [\<lparr>sc_from = sm_current m, sc_to = t, sc_operator = operator, sc_evidence = evidence, sc_action = a\<rparr>]\<rparr>"

text \<open>\<open>None\<close> is the answer \<open>ALREADY_AT_STAGE\<close>.\<close>

definition promote ::
  "stage_manager \<Rightarrow> trading_stage \<Rightarrow> string \<Rightarrow> string \<Rightarrow> bool \<Rightarrow> stage_manager \<times> stage_action option res" where
  "promote m t operator evidence force_skip =
     (if force_skip then (m, Inl (PermissionError ''Stage skipping is forbidden''))
      else if t = sm_current m then (m, Inr None)
      else if t < sm_current m then (move_stage m t operator evidence Demote, Inr (Some Demote))
      else if stage_index t > stage_index (sm_current m) + 1 then (m, Inl (PermissionError ''Cannot skip''))
      else if py_strip evidence = [] then (m, Inl (PermissionError ''Promotion requires non-empty evidence''))
      else if py_strip operator = [] then (m, Inl (PermissionError ''Promotion requires operator identity''))
      else (move_stage m t operator evidence Promote, Inr (Some Promote)))"

text \<open>A sequence of requests; a refused one leaves the manager as it is.\<close>

type_synonym stage_request = "trading_stage \<times> string \<times> string \<times> bool"

definition stage_step :: "stage_manager \<Rightarrow> stage_request \<Rightarrow> stage_manager" where
  "stage_step m r = (case r of (t, operator, evidence, skip) \<Rightarrow> fst (promote m t operator evidence skip))"

section \<open>The live gate\<close>

datatype live_gate_reason =
    LIVE_GATE_OK | LIVE_GATE_MODE_BLOCKED | LIVE_GATE_FLAG_BLOCKED | LIVE_GATE_STAGE_NOT_ALLOWED
  | LIVE_GATE_CREDENTIAL_FAILURE | LIVE_GATE_PERMISSION_FAILURE | LIVE_GATE_MARKET_DATA_STALE
  | LIVE_GATE_EXCHANGE_UNAVAILABLE | LIVE_GATE_RISK_ENGINE_FAILURE | LIVE_GATE_RECONCILIATION_FAILURE
  | LIVE_GATE_KILL_SWITCH | LIVE_GATE_DAILY_LOSS | LIVE_GATE_DRAWDOWN | LIVE_GATE_POSITION_LIMIT
  | LIVE_GATE_EXPOSURE_LIMIT | LIVE_GATE_DUPLICATE_ORDER | LIVE_GATE_CLOCK_SKEW | LIVE_GATE_INVALID_ORDER
  | LIVE_GATE_EXCHANGE_NOT_ALLOWLISTED | LIVE_GATE_INSTRUMENT_NOT_ALLOWLISTED | LIVE_GATE_CLOUD_PAPER_ISOLATION

record live_policy =
  lp_trading_mode :: string
  lp_live_trading_enabled :: bool
  lp_stage :: trading_stage
  lp_kill_switch_active :: bool
  lp_exchange_allowlist :: "string list"
  lp_instrument_allowlist :: "string list"
  lp_credentials_healthy :: bool
  lp_credentials_allow_trading :: bool
  lp_market_data_fresh :: bool
  lp_exchange_healthy :: bool
  lp_risk_engine_healthy :: bool
  lp_reconciliation_ok :: bool
  lp_clock_skew_ok :: bool
  lp_idempotency_ok :: bool
  lp_order_valid :: bool
  lp_daily_loss_ok :: bool
  lp_drawdown_ok :: bool
  lp_exposure_ok :: bool
  lp_position_ok :: bool
  lp_duplicate :: bool
  lp_cloud_paper_isolated :: bool
  lp_exchange :: string
  lp_symbol :: string

definition default_live_policy :: live_policy where
  "default_live_policy = \<lparr>lp_trading_mode = ''paper'', lp_live_trading_enabled = False, lp_stage = STAGE_1_LOCAL_PAPER,
     lp_kill_switch_active = False, lp_exchange_allowlist = [''paper'', ''mock''], lp_instrument_allowlist = [],
     lp_credentials_healthy = False, lp_credentials_allow_trading = False, lp_market_data_fresh = False,
     lp_exchange_healthy = False, lp_risk_engine_healthy = True, lp_reconciliation_ok = False, lp_clock_skew_ok = True,
     lp_idempotency_ok = True, lp_order_valid = False, lp_daily_loss_ok = True, lp_drawdown_ok = True,
     lp_exposure_ok = True, lp_position_ok = True, lp_duplicate = False, lp_cloud_paper_isolated = False,
     lp_exchange = ''paper'', lp_symbol = []\<rparr>"

definition mode_allows_live :: "live_policy \<Rightarrow> bool" where
  "mode_allows_live p \<longleftrightarrow> lp_trading_mode p = ''live'' \<and> lp_live_trading_enabled p"

definition reason_if :: "bool \<Rightarrow> 'a \<Rightarrow> 'a list" where
  "reason_if b r = (if b then [r] else [])"

lemma set_reason_if [simp]: "r' \<in> set (reason_if b r) \<longleftrightarrow> b \<and> r' = r"
  by (auto simp: reason_if_def)

lemma reason_if_Nil [simp]: "reason_if b r = [] \<longleftrightarrow> \<not> b"
  by (simp add: reason_if_def)

definition exchange_listed :: "live_policy \<Rightarrow> bool" where
  "exchange_listed p \<longleftrightarrow> py_strip (py_lower (lp_exchange p)) \<in> set (map py_lower (lp_exchange_allowlist p))"

definition instrument_listed :: "live_policy \<Rightarrow> bool" where
  "instrument_listed p \<longleftrightarrow> lp_instrument_allowlist p = [] \<or> lp_symbol p = []
     \<or> py_upper (lp_symbol p) \<in> set (map py_upper (lp_instrument_allowlist p))"

text \<open>The reasons collected before the hard invariant, in the order of the checks.\<close>

definition gate_reasons :: "live_policy \<Rightarrow> live_gate_reason list" where
  "gate_reasons p =
     reason_if (lp_cloud_paper_isolated p) LIVE_GATE_CLOUD_PAPER_ISOLATION
     @ reason_if (lp_trading_mode p \<noteq> ''live'') LIVE_GATE_MODE_BLOCKED
     @ reason_if (\<not> lp_live_trading_enabled p) LIVE_GATE_FLAG_BLOCKED
     @ reason_if (lp_stage p \<notin> {STAGE_5_CONTROLLED_LIVE, STAGE_6_AUTONOMOUS_LIVE}) LIVE_GATE_STAGE_NOT_ALLOWED
     @ reason_if (lp_kill_switch_active p) LIVE_GATE_KILL_SWITCH
     @ reason_if (\<not> lp_credentials_healthy p) LIVE_GATE_CREDENTIAL_FAILURE
     @ reason_if (\<not> lp_credentials_allow_trading p) LIVE_GATE_PERMISSION_FAILURE
     @ reason_if (\<not> lp_market_data_fresh p) LIVE_GATE_MARKET_DATA_STALE
     @ reason_if (\<not> lp_exchange_healthy p) LIVE_GATE_EXCHANGE_UNAVAILABLE
     @ reason_if (\<not> lp_risk_engine_healthy p) LIVE_GATE_RISK_ENGINE_FAILURE
     @ reason_if (\<not> lp_reconciliation_ok p) LIVE_GATE_RECONCILIATION_FAILURE
     @ reason_if (\<not> lp_clock_skew_ok p) LIVE_GATE_CLOCK_SKEW
     @ reason_if (\<not> lp_idempotency_ok p \<or> lp_duplicate p) LIVE_GATE_DUPLICATE_ORDER
     @ reason_if (\<not> lp_order_valid p) LIVE_GATE_INVALID_ORDER
     @ reason_if (\<not> lp_daily_loss_ok p) LIVE_GATE_DAILY_LOSS
     @ reason_if (\<not> lp_drawdown_ok p) LIVE_GATE_DRAWDOWN
     @ reason_if (\<not> lp_position_ok p) LIVE_GATE_POSITION_LIMIT
     @ reason_if (\<not> lp_exposure_ok p) LIVE_GATE_EXPOSURE_LIMIT
     @ reason_if (\<not> exchange_listed p) LIVE_GATE_EXCHANGE_NOT_ALLOWLISTED
     @ reason_if (\<not> instrument_listed p) LIVE_GATE_INSTRUMENT_NOT_ALLOWLISTED"

record gate_decision =
  gd_approved :: bool
  gd_reason_codes :: "live_gate_reason list"

definition append_new :: "'a \<Rightarrow> 'a list \<Rightarrow> 'a list" where
  "append_new x xs = (if x \<in> set xs then xs else xs @ [x])"

definition gate_evaluate :: "live_policy \<Rightarrow> gate_decision" where
  "gate_evaluate p =
     (let reasons = gate_reasons p
      in if lp_trading_mode p \<noteq> ''live'' \<or> \<not> lp_live_trading_enabled p
         then (let r1 = append_new LIVE_GATE_MODE_BLOCKED reasons;
                   r2 = (if \<not> lp_live_trading_enabled p then append_new LIVE_GATE_FLAG_BLOCKED r1 else r1)
               in \<lparr>gd_approved = False, gd_reason_codes = r2\<rparr>)
         else if reasons = [] then \<lparr>gd_approved = True, gd_reason_codes = [LIVE_GATE_OK]\<rparr>
         else \<lparr>gd_approved = False, gd_reason_codes = reasons\<rparr>)"

definition assert_paper_cannot_live :: "live_policy \<Rightarrow> unit res" where
  "assert_paper_cannot_live p =
     (if lp_trading_mode p = ''paper'' \<and> gd_approved (gate_evaluate p)
      then Inl (RuntimeError ''Invariant violated: paper mode approved live execution'') else Inr ())"

section \<open>Stage 2 entry\<close>

definition stage2_required :: "string list" where
  "stage2_required = [''cloud_deployment_readiness'', ''postgres_or_sqlite_durable_store'', ''sandbox_health'',
     ''credential_validation'', ''market_data_freshness'', ''order_lifecycle'', ''reconciliation'', ''kill_switch'',
     ''alerting'', ''restart_recovery'', ''deterministic_risk'', ''complete_tests'', ''security_validation'']"

definition evaluate_stage2_entry :: "(string \<times> bool) list \<Rightarrow> bool \<times> string list" where
  "evaluate_stage2_entry checklist =
     (let missing = filter (\<lambda>k. dget checklist k \<noteq> Some True) stage2_required in (missing = [], missing))"

lemma stage2_ready_iff:
  "fst (evaluate_stage2_entry c) \<longleftrightarrow> (\<forall>k \<in> set stage2_required. dget c k = Some True)"
  by (simp add: evaluate_stage2_entry_def Let_def filter_empty_conv)

section \<open>Lemmas\<close>

lemma append_new_nonempty [simp]: "append_new x xs \<noteq> []"
  by (auto simp: append_new_def)

lemma gate_reasons_not_ok: "LIVE_GATE_OK \<notin> set (gate_reasons p)"
  by (simp add: gate_reasons_def)

lemma gate_approved_iff: "gd_approved (gate_evaluate p) \<longleftrightarrow> gate_reasons p = []"
  by (auto simp: gate_evaluate_def Let_def gate_reasons_def)

lemma gate_reasons_disapprove: "gd_approved (gate_evaluate p) \<longleftrightarrow> gd_reason_codes (gate_evaluate p) = [LIVE_GATE_OK]"
  using gate_reasons_not_ok [of p]
  by (auto simp: gate_evaluate_def Let_def append_new_def)

lemma gate_reason_codes_nonempty: "gd_reason_codes (gate_evaluate p) \<noteq> []"
  by (simp add: gate_evaluate_def Let_def)

text \<open>A promotion that was recorded climbed exactly one stage and named its operator and its evidence.\<close>

definition change_ok :: "stage_change \<Rightarrow> bool" where
  "change_ok c \<longleftrightarrow> (case sc_action c of
     Demote \<Rightarrow> sc_to c < sc_from c
   | Promote \<Rightarrow> stage_index (sc_to c) = stage_index (sc_from c) + 1
       \<and> py_strip (sc_operator c) \<noteq> [] \<and> py_strip (sc_evidence c) \<noteq> [])"

definition promoted_from :: "stage_change list \<Rightarrow> nat \<Rightarrow> bool" where
  "promoted_from h i \<longleftrightarrow> (\<exists>c \<in> set h. sc_action c = Promote \<and> stage_index (sc_from c) = i)"

lemma promote_cases:
  assumes "promote m t operator evidence skip = (m', r)"
  obtains (same) "m' = m"
    | (moved) a where "m' = move_stage m t operator evidence a"
      and "change_ok \<lparr>sc_from = sm_current m, sc_to = t, sc_operator = operator, sc_evidence = evidence, sc_action = a\<rparr>"
proof (cases "m' = m")
  case False
  have "stage_index t = Suc (stage_index (sm_current m))"
    if "t \<noteq> sm_current m" "\<not> stage_index t < stage_index (sm_current m)" "\<not> Suc (stage_index (sm_current m)) < stage_index t"
    using that stage_index_inject [of t "sm_current m"] by linarith
  with False assms show ?thesis
    by (intro moved [of "if t < sm_current m then Demote else Promote"])
      (auto simp: promote_def change_ok_def stage_less split: if_splits)
qed (rule same)

lemma stage_step_cases:
  obtains (same) "stage_step m r = m"
    | (moved) c where "change_ok c" and "sc_from c = sm_current m" and "sm_current (stage_step m r) = sc_to c"
      and "sm_history (stage_step m r) = sm_history m @ [c]"
proof (cases r)
  case (fields t operator evidence skip)
  obtain m' x where p: "promote m t operator evidence skip = (m', x)" by fastforce
  then have s: "stage_step m r = m'" by (simp add: stage_step_def fields)
  from p show ?thesis
  proof (cases rule: promote_cases)
    case same
    with s show ?thesis by (intro that(1)) simp
  next
    case (moved a)
    with s show ?thesis by (intro that(2) [OF moved(2)]) (simp_all add: move_stage_def)
  qed
qed

lemma stage_run:
  assumes "\<forall>c \<in> set (sm_history m). change_ok c"
  shows "(\<forall>c \<in> set (sm_history (foldl stage_step m rs)). change_ok c)
    \<and> (\<forall>i. stage_index (sm_current m) \<le> i \<longrightarrow> i < stage_index (sm_current (foldl stage_step m rs))
         \<longrightarrow> promoted_from (sm_history (foldl stage_step m rs)) i)"
proof (induction rs rule: rev_induct)
  case Nil
  with assms show ?case by simp
next
  case (snoc r rs)
  let ?m = "foldl stage_step m rs"
  show ?case
  proof (cases rule: stage_step_cases [of ?m r])
    case same
    with snoc show ?thesis by simp
  next
    case (moved c)
    have step: "stage_index (sc_to c) \<le> stage_index (sc_from c) \<or>
        sc_action c = Promote \<and> stage_index (sc_to c) = stage_index (sc_from c) + 1"
      using moved(1) by (auto simp: change_ok_def stage_less split: stage_action.splits)
    have "promoted_from (sm_history ?m @ [c]) i"
      if "stage_index (sm_current m) \<le> i" and "i < stage_index (sc_to c)" for i
    proof (cases "i < stage_index (sm_current ?m)")
      case True
      with snoc that(1) have "promoted_from (sm_history ?m) i" by blast
      then show ?thesis by (auto simp: promoted_from_def)
    next
      case False
      with step that(2) moved(2) have "sc_action c = Promote" and "i = stage_index (sc_from c)" by auto
      then show ?thesis by (auto simp: promoted_from_def)
    qed
    with snoc moved show ?thesis by auto
  qed
qed

section \<open>Properties\<close>

text \<open>The live gate is fail closed: it approves exactly when the mode is live and enabled, the stage allows
  live trading, every health, risk and order condition of the policy holds, the exchange is on the list
  and the instrument is not off it; a refusal always names a reason, never LIVE_GATE_OK, and a policy
  in paper mode is never approved.\<close>

theorem live_gate_fail_closed:
  "(gd_approved (gate_evaluate p) \<longleftrightarrow>
      mode_allows_live p \<and> lp_stage p \<in> {STAGE_5_CONTROLLED_LIVE, STAGE_6_AUTONOMOUS_LIVE}
      \<and> \<not> lp_cloud_paper_isolated p \<and> \<not> lp_kill_switch_active p
      \<and> lp_credentials_healthy p \<and> lp_credentials_allow_trading p \<and> lp_market_data_fresh p \<and> lp_exchange_healthy p
      \<and> lp_risk_engine_healthy p \<and> lp_reconciliation_ok p \<and> lp_clock_skew_ok p \<and> lp_idempotency_ok p \<and> \<not> lp_duplicate p
      \<and> lp_order_valid p \<and> lp_daily_loss_ok p \<and> lp_drawdown_ok p \<and> lp_position_ok p \<and> lp_exposure_ok p
      \<and> exchange_listed p \<and> instrument_listed p)
   \<and> gd_reason_codes (gate_evaluate p) \<noteq> []
   \<and> (gd_approved (gate_evaluate p) \<longleftrightarrow> gd_reason_codes (gate_evaluate p) = [LIVE_GATE_OK])
   \<and> assert_paper_cannot_live p = Inr ()"
proof (intro conjI)
  show "gd_reason_codes (gate_evaluate p) \<noteq> []" by (rule gate_reason_codes_nonempty)
  show "gd_approved (gate_evaluate p) \<longleftrightarrow> gd_reason_codes (gate_evaluate p) = [LIVE_GATE_OK]"
    by (rule gate_reasons_disapprove)
  show "assert_paper_cannot_live p = Inr ()"
    by (auto simp: assert_paper_cannot_live_def gate_evaluate_def Let_def)
qed (simp add: gate_approved_iff gate_reasons_def mode_allows_live_def conj_ac)

text \<open>C8: live orders are never reached by skipping or silently: from a new manager, after any sequence of
  promotion requests that ends in a stage that allows live orders, the history holds a promotion out of
  each of the stages 1 to 4, and every recorded promotion climbs one stage with an operator and evidence
  that are not blank.\<close>

theorem live_stage_needs_every_promotion:
  assumes "m = foldl stage_step new_stage_manager rs" and "allows_live_orders m"
  shows "(\<forall>i \<in> {1..4}. \<exists>c \<in> set (sm_history m). sc_action c = Promote \<and> stage_index (sc_from c) = i)
    \<and> (\<forall>c \<in> set (sm_history m). sc_action c = Promote \<longrightarrow> stage_index (sc_to c) = stage_index (sc_from c) + 1
         \<and> py_strip (sc_operator c) \<noteq> [] \<and> py_strip (sc_evidence c) \<noteq> [])"
proof -
  have "stage_index (sm_current m) \<ge> 5" using assms(2) by (auto simp: allows_live_orders_def)
  with stage_run [of new_stage_manager rs] assms(1) show ?thesis
    by (auto simp: new_stage_manager_def promoted_from_def change_ok_def split: stage_action.splits)
qed

theorem live_stage_needs_every_promotion_witness:
  "\<exists>c \<in> set (sm_history (foldl stage_step new_stage_manager
      [(STAGE_2_CLOUD_PAPER, ''op'', ''e2'', False), (STAGE_5_CONTROLLED_LIVE, ''op'', ''skip'', False),
       (STAGE_3_PRODUCTION_READ_ONLY, ''op'', ''e3'', False), (STAGE_4_LIVE_DRY_RUN, ''op'', ''e4'', False),
       (STAGE_5_CONTROLLED_LIVE, ''op'', ''e5'', False)])). sc_action c = Promote \<and> stage_index (sc_from c) = 4"
  by (rule live_stage_needs_every_promotion [OF refl, THEN conjunct1, THEN bspec])
    (simp_all add: stage_step_def promote_def move_stage_def new_stage_manager_def stage_less py_strip_def is_space_def
      allows_live_orders_def)

end
