(* ===== verification/Kill_Switch.thy ===== *)
theory Kill_Switch
  imports Durable_Store Order_Model
begin

text \<open>
  The three kill switches: \<open>KillSwitch\<close> of \<open>risk/config.py\<close>, \<open>live/kill_switch.py\<close>, which also
  cancels open orders, and \<open>live/durable_kill_switch.py\<close>, which keeps its state in a durable store.
  What the rest of the program relies on is the locale \<open>kill_switch\<close>; each switch interprets it.
\<close>

section \<open>The contract\<close>

datatype ks_op = Ks_Activate string | Ks_Deactivate bool

definition ks_step ::
  "('s \<Rightarrow> string \<Rightarrow> 's) \<Rightarrow> ('s \<Rightarrow> bool \<Rightarrow> 's res) \<Rightarrow> 's \<Rightarrow> ks_op \<Rightarrow> 's" where
  "ks_step act deact s e = (case e of
     Ks_Activate r \<Rightarrow> act s r
   | Ks_Deactivate auth \<Rightarrow> (case deact s auth of Inl _ \<Rightarrow> s | Inr s' \<Rightarrow> s'))"

definition operator_free :: "ks_op list \<Rightarrow> bool" where
  "operator_free es \<longleftrightarrow> Ks_Deactivate True \<notin> set es"

locale kill_switch =
  fixes active :: "'s \<Rightarrow> bool"
    and act :: "'s \<Rightarrow> string \<Rightarrow> 's"
    and deact :: "'s \<Rightarrow> bool \<Rightarrow> 's res"
  assumes act_active: "active (act s r)"
    and refuses: "\<exists>e. deact s False = Inl e"
    and clears: "deact s True = Inr s' \<Longrightarrow> \<not> active s'"
begin

lemma step_active: "active s \<Longrightarrow> e \<noteq> Ks_Deactivate True \<Longrightarrow> active (ks_step act deact s e)"
  using refuses [of s] by (cases e) (auto simp: ks_step_def act_active split: sum.splits)

lemma run_active: "active s \<Longrightarrow> operator_free es \<Longrightarrow> active (foldl (ks_step act deact) s es)"
proof (induction es arbitrary: s)
  case (Cons e es)
  then have "active (ks_step act deact s e)" by (auto simp: operator_free_def intro: step_active)
  with Cons show ?case by (auto simp: operator_free_def)
qed simp

lemma activated_stays:
  "operator_free es \<Longrightarrow> active (foldl (ks_step act deact) s (es0 @ Ks_Activate r # es))"
  by (simp add: run_active ks_step_def act_active)

lemma only_operator_clears:
  assumes "active s" and "\<not> active (foldl (ks_step act deact) s es)"
  shows "Ks_Deactivate True \<in> set es"
  using run_active [OF assms(1), of es] assms(2) by (auto simp: operator_free_def)

end

section \<open>The system switch\<close>

record kill_state =
  ks_active :: bool
  ks_reason :: "string option"

definition ks_initial :: kill_state where
  "ks_initial = \<lparr>ks_active = False, ks_reason = None\<rparr>"

definition ks_activate :: "kill_state \<Rightarrow> string \<Rightarrow> kill_state" where
  "ks_activate s reason = \<lparr>ks_active = True, ks_reason = Some reason\<rparr>"

definition ks_deactivate :: "kill_state \<Rightarrow> bool \<Rightarrow> kill_state res" where
  "ks_deactivate s operator =
     (if \<not> operator then Inl (PermissionError ''Kill switch can only be deactivated by an operator'')
      else Inr \<lparr>ks_active = False, ks_reason = None\<rparr>)"

interpretation mem: kill_switch ks_active ks_activate ks_deactivate
  by unfold_locales (auto simp: ks_activate_def ks_deactivate_def split: if_splits)

section \<open>The live switch\<close>

text \<open>A canceller replies with its list of failures, or raises.\<close>

datatype cancel_outcome = Cancel_Reply "string list" | Cancel_Raised string

record cancel_result =
  cr_attempted :: bool
  cr_failures :: "string list"
  cr_reason_codes :: "string list"

record kill_event =
  ke_reason :: string
  ke_attempted :: bool
  ke_failure_count :: nat
  ke_reason_codes :: "string list"

record live_kill =
  lk_base :: kill_state
  lk_last_cancel :: "cancel_result option"
  lk_events :: "kill_event list"

definition live_cancel :: "bool \<Rightarrow> cancel_outcome option \<Rightarrow> cancel_result" where
  "live_cancel live_mode c =
     (case c of
        None \<Rightarrow> \<lparr>cr_attempted = False, cr_failures = [], cr_reason_codes = []\<rparr>
      | Some out \<Rightarrow>
          if \<not> live_mode then \<lparr>cr_attempted = False, cr_failures = [], cr_reason_codes = []\<rparr>
          else (case out of
                  Cancel_Reply fs \<Rightarrow> \<lparr>cr_attempted = True, cr_failures = fs,
                    cr_reason_codes = (if fs \<noteq> [] then [''OPEN_ORDER_CANCELLATION_FAILURE''] else [])\<rparr>
                | Cancel_Raised msg \<Rightarrow> \<lparr>cr_attempted = True, cr_failures = [msg],
                    cr_reason_codes = [''OPEN_ORDER_CANCELLATION_FAILURE'']\<rparr>))"

definition live_activate :: "bool \<Rightarrow> cancel_outcome option \<Rightarrow> live_kill \<Rightarrow> string \<Rightarrow> live_kill" where
  "live_activate live_mode c lk reason =
     (let cr = live_cancel live_mode c;
          ev = \<lparr>ke_reason = reason, ke_attempted = cr_attempted cr, ke_failure_count = length (cr_failures cr),
                ke_reason_codes = cr_reason_codes cr\<rparr>
      in lk\<lparr>lk_base := ks_activate (lk_base lk) reason, lk_last_cancel := Some cr,
            lk_events := lk_events lk @ [ev]\<rparr>)"

definition live_deactivate :: "live_kill \<Rightarrow> bool \<Rightarrow> live_kill res" where
  "live_deactivate lk operator =
     bind_res (ks_deactivate (lk_base lk) operator) (\<lambda>b. Inr (lk\<lparr>lk_base := b\<rparr>))"

definition live_active :: "live_kill \<Rightarrow> bool" where
  "live_active lk = ks_active (lk_base lk)"

interpretation live: kill_switch live_active "live_activate m c" live_deactivate for m c
  by unfold_locales
    (auto simp: live_active_def live_activate_def live_deactivate_def ks_activate_def ks_deactivate_def
      Let_def split: if_splits)

section \<open>The durable switch\<close>

text \<open>
  The process keeps a live switch and shares the store with other processes.  \<open>put\<close> and \<open>get\<close> are the
  operations of the store; \<open>now\<close> is the time of the activation, of which the store keeps one row per
  event besides the row of the state.
\<close>

record 's durable_kill =
  dk_inner :: live_kill
  dk_store :: 's

definition ks_collection :: string where "ks_collection = ''kill_switch''"
definition ks_key :: string where "ks_key = ''state''"

definition dk_load :: "(string \<Rightarrow> string \<Rightarrow> 's \<Rightarrow> json_obj option) \<Rightarrow> 's \<Rightarrow> 's durable_kill" where
  "dk_load get st =
     (let inner = \<lparr>lk_base = ks_initial, lk_last_cancel = None, lk_events = []\<rparr>
      in case get ks_collection ks_key st of
           None \<Rightarrow> \<lparr>dk_inner = inner, dk_store = st\<rparr>
         | Some row \<Rightarrow>
             if row \<noteq> [] \<and> get_truthy row ''active''
             then \<lparr>dk_inner = inner\<lparr>lk_base := ks_activate ks_initial
                     (opt_default (opt_or (get_str row ''reason'') (Some ''restored'')) [])\<rparr>, dk_store = st\<rparr>
             else \<lparr>dk_inner = inner, dk_store = st\<rparr>)"

definition event_key :: "nat \<Rightarrow> string" where
  "event_key now = ''event:'' @ dec_digits now"

definition event_json :: "nat \<Rightarrow> kill_event \<Rightarrow> json_obj" where
  "event_json now ev =
     [(''type'', JStr ''KILL_SWITCH_ACTIVATED''), (''reason'', JStr (ke_reason ev)), (''timestamp'', JInt (int now)),
      (''cancel_result'', JObj [(''attempted'', JBool (ke_attempted ev)),
         (''failure_count'', JInt (int (ke_failure_count ev))),
         (''reason_codes'', JList (map JStr (ke_reason_codes ev)))]),
      (''LIVE_TRADING_ENABLED'', JBool False)]"

definition dk_persist_event ::
  "(nat \<Rightarrow> string \<Rightarrow> string \<Rightarrow> json_obj \<Rightarrow> 's \<Rightarrow> 's) \<Rightarrow> nat \<Rightarrow> kill_event \<Rightarrow> 's \<Rightarrow> 's" where
  "dk_persist_event put now ev st =
     put now ks_collection (event_key now) (event_json now ev)
       (put now ks_collection ks_key
          [(''active'', JBool True), (''reason'', JStr (ke_reason ev)), (''timestamp'', JInt (int now)),
           (''cancel_result'', opt_default (dget (event_json now ev) ''cancel_result'') JNull)] st)"

definition dk_activate ::
  "(nat \<Rightarrow> string \<Rightarrow> string \<Rightarrow> json_obj \<Rightarrow> 's \<Rightarrow> 's) \<Rightarrow> nat \<Rightarrow> cancel_outcome option
   \<Rightarrow> 's durable_kill \<Rightarrow> string \<Rightarrow> 's durable_kill" where
  "dk_activate put now c dk reason =
     (let inner = live_activate (c \<noteq> None) c (dk_inner dk) reason
      in dk\<lparr>dk_inner := inner, dk_store := dk_persist_event put now (last (lk_events inner)) (dk_store dk)\<rparr>)"

definition dk_deactivate ::
  "(nat \<Rightarrow> string \<Rightarrow> string \<Rightarrow> json_obj \<Rightarrow> 's \<Rightarrow> 's) \<Rightarrow> nat \<Rightarrow> 's durable_kill \<Rightarrow> bool \<Rightarrow> 's durable_kill res" where
  "dk_deactivate put now dk operator =
     bind_res (live_deactivate (dk_inner dk) operator) (\<lambda>inner. Inr (dk\<lparr>dk_inner := inner,
       dk_store := put now ks_collection ks_key
         [(''active'', JBool False), (''reason'', JNull), (''timestamp'', JInt (int now)),
          (''cleared_by_operator'', JBool True)] (dk_store dk)\<rparr>))"

definition dk_active :: "(string \<Rightarrow> string \<Rightarrow> 's \<Rightarrow> json_obj option) \<Rightarrow> 's durable_kill \<Rightarrow> bool" where
  "dk_active get dk = (case get ks_collection ks_key (dk_store dk) of
     None \<Rightarrow> live_active (dk_inner dk) | Some row \<Rightarrow> get_truthy row ''active'')"

text \<open>\<open>allows_new_trades\<close>: \<open>readable\<close> is false when reading the store raises.\<close>

definition dk_allows_new_trades ::
  "(string \<Rightarrow> string \<Rightarrow> 's \<Rightarrow> json_obj option) \<Rightarrow> bool \<Rightarrow> 's durable_kill \<Rightarrow> bool" where
  "dk_allows_new_trades get readable dk =
     (if \<not> readable then False
      else case get ks_collection ks_key (dk_store dk) of
             None \<Rightarrow> \<not> live_active (dk_inner dk) | Some row \<Rightarrow> \<not> get_truthy row ''active'')"

text \<open>The \<open>active\<close> entry of \<open>status\<close> is the inner switch's, \<open>persisted_active\<close> the store's.\<close>

definition dk_status :: "(string \<Rightarrow> string \<Rightarrow> 's \<Rightarrow> json_obj option) \<Rightarrow> 's durable_kill \<Rightarrow> bool \<times> bool" where
  "dk_status get dk = (live_active (dk_inner dk),
     (case get ks_collection ks_key (dk_store dk) of None \<Rightarrow> False | Some row \<Rightarrow> get_truthy row ''active''))"

lemma event_key_not_state [simp]: "event_key now \<noteq> ks_key" "ks_key \<noteq> event_key now"
  by (auto simp: event_key_def ks_key_def)

lemma last_event: "last (lk_events (live_activate m c lk r)) =
    \<lparr>ke_reason = r, ke_attempted = cr_attempted (live_cancel m c),
     ke_failure_count = length (cr_failures (live_cancel m c)), ke_reason_codes = cr_reason_codes (live_cancel m c)\<rparr>"
  by (simp add: live_activate_def Let_def)

context kv_store
begin

lemma persisted_row: "get ks_collection ks_key (dk_persist_event put now ev st) =
    Some [(''active'', JBool True), (''reason'', JStr (ke_reason ev)), (''timestamp'', JInt (int now)),
          (''cancel_result'', opt_default (dget (event_json now ev) ''cancel_result'') JNull)]"
  by (simp add: dk_persist_event_def get_put_other)

lemma dk_activated: "dk_active get (dk_activate put now c dk r)"
  by (simp add: dk_active_def dk_activate_def Let_def persisted_row get_truthy_def json_truthy_def)

lemma dk_refuses: "dk_deactivate put now dk False =
    Inl (PermissionError ''Kill switch can only be deactivated by an operator'')"
  by (simp add: dk_deactivate_def live_deactivate_def ks_deactivate_def)

lemma dk_cleared: "dk_deactivate put now dk True = Inr dk' \<Longrightarrow> \<not> dk_active get dk'"
  by (auto simp: dk_deactivate_def live_deactivate_def ks_deactivate_def dk_active_def get_truthy_def json_truthy_def)

lemma dk_allows_iff: "dk_allows_new_trades get readable dk \<longleftrightarrow> readable \<and> \<not> dk_active get dk"
  by (auto simp: dk_allows_new_trades_def dk_active_def split: option.splits)

lemma dk_restart:
  assumes "get ks_collection ks_key st = Some row" and "get_truthy row ''active''"
  shows "dk_active get (dk_load get st)" and "live_active (dk_inner (dk_load get st))"
  using assms by (auto simp: dk_load_def dk_active_def live_active_def ks_activate_def Let_def get_truthy_def)

lemma dk_store_load [simp]: "dk_store (dk_load get st) = st"
  by (simp add: dk_load_def Let_def split: option.splits)

text \<open>Another process on the same store sees the activation, whatever it holds itself.\<close>

lemma dk_shared: "dk_active get (dk'\<lparr>dk_store := dk_store (dk_activate put now c dk r)\<rparr>)"
  by (simp add: dk_active_def dk_activate_def Let_def persisted_row get_truthy_def json_truthy_def)

lemma dk_after_restart: "dk_active get (dk_load get (dk_store (dk_activate put now c dk r)))"
proof -
  let ?ev = "last (lk_events (live_activate (c \<noteq> None) c (dk_inner dk) r))"
  have "dk_store (dk_activate put now c dk r) = dk_persist_event put now ?ev (dk_store dk)"
    by (simp add: dk_activate_def Let_def)
  then show ?thesis
    by (simp only: dk_restart(1) [OF persisted_row] get_truthy_def json_truthy_def map_of.simps fun_upd_apply fst_conv snd_conv
        simp_thms if_True option.simps json.simps)
qed

end

interpretation durable: kill_switch "dk_active st_get" "dk_activate st_put now c" "dk_deactivate st_put now" for now c
  by unfold_locales (auto simp: sqlite.dk_activated sqlite.dk_refuses sqlite.dk_cleared)

interpretation durable_pg: kill_switch "dk_active pst_get" "dk_activate pst_put now c" "dk_deactivate pst_put now" for now c
  by unfold_locales (auto simp: postgres.dk_activated postgres.dk_refuses postgres.dk_cleared)

section \<open>Properties\<close>

text \<open>C19: once activated, a kill switch stays active through every sequence of further activations and
  of deactivations without the operator's authorisation; this holds for the system switch, for the
  live switch, and for the durable switch on either store.\<close>

theorem kill_switch_needs_operator:
  assumes "operator_free es"
  shows "ks_active (foldl (ks_step ks_activate ks_deactivate) s (es0 @ Ks_Activate r # es))
    \<and> live_active (foldl (ks_step (live_activate m c) live_deactivate) lk (es0 @ Ks_Activate r # es))
    \<and> dk_active st_get (foldl (ks_step (dk_activate st_put now c) (dk_deactivate st_put now)) dk (es0 @ Ks_Activate r # es))
    \<and> dk_active pst_get (foldl (ks_step (dk_activate pst_put now c) (dk_deactivate pst_put now)) dkp (es0 @ Ks_Activate r # es))"
  using mem.activated_stays [OF assms] live.activated_stays [OF assms] durable.activated_stays [OF assms]
    durable_pg.activated_stays [OF assms] by blast

theorem kill_switch_needs_operator_witness:
  "dk_active st_get (foldl (ks_step (dk_activate st_put 7 None) (dk_deactivate st_put 7)) (dk_load st_get st_empty)
     ([Ks_Deactivate True] @ Ks_Activate ''loss'' # [Ks_Deactivate False, Ks_Activate ''again'']))"
  using kill_switch_needs_operator [of "[Ks_Deactivate False, Ks_Activate ''again'']" ks_initial "[Ks_Deactivate True]"
      "''loss''" True None "\<lparr>lk_base = ks_initial, lk_last_cancel = None, lk_events = []\<rparr>" 7
      "dk_load st_get st_empty" "dk_load pst_get st_empty"]
  by (simp add: operator_free_def)

text \<open>An activation of the durable switch survives a restart and reaches every other process on
  the same store: a switch loaded from the store afterwards is active and forbids new trades, and so
  does any switch already open on it, whatever its own memory says; a store that cannot be read
  forbids new trades as well.\<close>

theorem durable_activation_survives:
  "dk_active st_get (dk_load st_get (dk_store (dk_activate st_put now c dk r)))
   \<and> \<not> dk_allows_new_trades st_get readable (dk_load st_get (dk_store (dk_activate st_put now c dk r)))
   \<and> \<not> dk_allows_new_trades st_get readable (dk'\<lparr>dk_store := dk_store (dk_activate st_put now c dk r)\<rparr>)
   \<and> \<not> dk_allows_new_trades st_get False dk'"
  using sqlite.dk_after_restart [where now = now and c = c and dk = dk and r = r] sqlite.dk_shared [where dk' = dk' and now = now and c = c and dk = dk and r = r]
  by (simp add: sqlite.dk_allows_iff)

text \<open>The status of a durable switch can contradict it: in a second process on the same store,
  loaded before the activation, \<open>status\<close> still reports the switch as inactive while the switch itself
  is active.\<close>

theorem durable_status_stale:
  "let a = dk_load st_get st_empty; a' = dk_activate st_put now None a r;
       b = (dk_load st_get st_empty)\<lparr>dk_store := dk_store a'\<rparr>
   in dk_active st_get b \<and> dk_status st_get b = (False, True)"
proof -
  have "st_get ks_collection ks_key st_empty = None" by transfer (simp add: sqlite_get_def)
  then have "\<not> live_active (dk_inner (dk_load st_get st_empty))"
    by (simp add: dk_load_def live_active_def ks_initial_def)
  then show ?thesis
    using sqlite.dk_shared [where dk' = "dk_load st_get st_empty" and now = now and c = None
      and dk = "dk_load st_get st_empty" and r = r]
    by (simp add: Let_def dk_status_def dk_active_def split: option.splits)
qed

end
