(* ===== verification/Sandbox.thy ===== *)
theory Sandbox
  imports Venue_Adapters Intent_Ledger Reconciliation Live Kill_Switch
begin

text \<open>
  \<open>sandbox/lifecycle.py\<close>, \<open>sandbox/delta_sandbox.py\<close>, \<open>sandbox/execution.py\<close>, \<open>sandbox/endpoints.py\<close>,
  \<open>sandbox/websocket.py\<close> and \<open>sandbox/stage2_runtime.py\<close>: the stage 2 order path, from the intent through the risk and
  idempotency checks and the submission to the reconciliation.  The service is a client of the durable
  store and of the Delta adapter; \<open>now\<close> is the time of a step and \<open>iid\<close> the identifier drawn for an intent.
\<close>

section \<open>The order lifecycle\<close>

datatype lifecycle_state =
    CREATE_INTENT | RISK_CHECK | IDEMPOTENCY_CHECK | SUBMIT | ACK | OPEN_NEW | PARTIAL_FILL | FULL_FILL
  | POSITION_UPDATE | CANCEL | CLOSE | RECONCILIATION | LC_FAILED | BLOCKED

fun lifecycle_table :: "lifecycle_state \<Rightarrow> lifecycle_state list" where
  "lifecycle_table CREATE_INTENT = [RISK_CHECK, BLOCKED, LC_FAILED]"
| "lifecycle_table RISK_CHECK = [IDEMPOTENCY_CHECK, BLOCKED, LC_FAILED]"
| "lifecycle_table IDEMPOTENCY_CHECK = [SUBMIT, BLOCKED, LC_FAILED]"
| "lifecycle_table SUBMIT = [ACK, RECONCILIATION, LC_FAILED]"
| "lifecycle_table ACK = [OPEN_NEW, PARTIAL_FILL, FULL_FILL, CANCEL, LC_FAILED]"
| "lifecycle_table OPEN_NEW = [PARTIAL_FILL, FULL_FILL, CANCEL, LC_FAILED]"
| "lifecycle_table PARTIAL_FILL = [FULL_FILL, CANCEL, POSITION_UPDATE, LC_FAILED]"
| "lifecycle_table FULL_FILL = [POSITION_UPDATE, CLOSE, RECONCILIATION]"
| "lifecycle_table POSITION_UPDATE = [CLOSE, RECONCILIATION, CANCEL]"
| "lifecycle_table CANCEL = [CLOSE, RECONCILIATION]"
| "lifecycle_table CLOSE = [RECONCILIATION]"
| "lifecycle_table RECONCILIATION = []"
| "lifecycle_table LC_FAILED = [RECONCILIATION]"
| "lifecycle_table BLOCKED = []"

definition lifecycle_step :: "lifecycle_state \<Rightarrow> lifecycle_state \<Rightarrow> lifecycle_state res" where
  "lifecycle_step = table_transition lifecycle_table ''Illegal lifecycle transition''"

text \<open>The order in which the states can follow one another: every table entry climbs.\<close>

fun lifecycle_rank :: "lifecycle_state \<Rightarrow> nat" where
  "lifecycle_rank CREATE_INTENT = 0"
| "lifecycle_rank RISK_CHECK = 1"
| "lifecycle_rank IDEMPOTENCY_CHECK = 2"
| "lifecycle_rank SUBMIT = 3"
| "lifecycle_rank ACK = 4"
| "lifecycle_rank OPEN_NEW = 5"
| "lifecycle_rank PARTIAL_FILL = 6"
| "lifecycle_rank FULL_FILL = 7"
| "lifecycle_rank POSITION_UPDATE = 8"
| "lifecycle_rank CANCEL = 9"
| "lifecycle_rank CLOSE = 10"
| "lifecycle_rank LC_FAILED = 10"
| "lifecycle_rank RECONCILIATION = 11"
| "lifecycle_rank BLOCKED = 11"

interpretation lcs: climbing lifecycle_step lifecycle_rank 11
proof unfold_locales
  show "lifecycle_step s t = Inr u \<Longrightarrow> u = t" for s t u
    by (simp add: lifecycle_step_def)
  show "lifecycle_step s t = Inr u \<Longrightarrow> s \<noteq> t \<Longrightarrow> lifecycle_rank s < lifecycle_rank t" for s t u
    by (cases s) (auto simp: lifecycle_step_def)
  show "lifecycle_rank s \<le> 11" for s by (cases s) auto
qed

record lifecycle =
  lc_state :: lifecycle_state
  lc_history :: "lifecycle_state list"

definition new_lifecycle :: lifecycle where
  "new_lifecycle = \<lparr>lc_state = CREATE_INTENT, lc_history = [CREATE_INTENT]\<rparr>"

definition lc_transition :: "lifecycle \<Rightarrow> lifecycle_state \<Rightarrow> lifecycle res" where
  "lc_transition m t = bind_res (lifecycle_step (lc_state m) t)
     (\<lambda>s. Inr \<lparr>lc_state = s, lc_history = lc_history m @ [s]\<rparr>)"

fun lc_go :: "lifecycle \<Rightarrow> lifecycle_state list \<Rightarrow> lifecycle res" where
  "lc_go m [] = Inr m"
| "lc_go m (t # ts) = bind_res (lc_transition m t) (\<lambda>m'. lc_go m' ts)"

section \<open>The sandbox adapter\<close>

record sandbox_adapter =
  sa_venue :: venue
  sa_ops :: "string list"

definition req_meta :: "sandbox_adapter \<Rightarrow> string \<Rightarrow> sandbox_adapter" where
  "req_meta sa op = sa\<lparr>sa_ops := sa_ops sa @ [op]\<rparr>"

definition on_venue :: "sandbox_adapter \<Rightarrow> venue \<times> 'a \<Rightarrow> sandbox_adapter \<times> 'a" where
  "on_venue sa r = (sa\<lparr>sa_venue := fst r\<rparr>, snd r)"

record submit_reply =
  su_accepted :: bool
  su_ambiguous :: bool
  su_exchange_order_id :: "string option"
  su_error :: "py_error option"

definition sandbox_submit ::
  "pylib \<Rightarrow> settings \<Rightarrow> sandbox_adapter \<Rightarrow> string \<Rightarrow> string \<Rightarrow> pyfloat \<Rightarrow> string \<Rightarrow> pyfloat option \<Rightarrow> string option
   \<Rightarrow> sandbox_adapter \<times> submit_reply" where
  "sandbox_submit lib se sa sy sd q ty px cid =
     (let sa1 = req_meta sa ''submit_order'';
          ord = (new_order sy (if py_startswith (py_upper sd) ''BUY'' then BUY else SELL)
                   (if py_upper ty = ''MARKET'' then MARKET else LIMIT) q)\<lparr>o_client_order_id := cid, o_limit_price := px\<rparr>;
          r = delta_create_order lib se (sa_venue sa1) ord
      in on_venue sa1 (fst r, case snd r of
           Inl e \<Rightarrow> \<lparr>su_accepted = False, su_ambiguous = True, su_exchange_order_id = None, su_error = Some e\<rparr>
         | Inr o1 \<Rightarrow> \<lparr>su_accepted = True, su_ambiguous = False, su_exchange_order_id = o_order_id o1, su_error = None\<rparr>))"

definition sandbox_order_status :: "pylib \<Rightarrow> sandbox_adapter \<Rightarrow> string \<Rightarrow> sandbox_adapter \<times> order res" where
  "sandbox_order_status lib sa oid =
     (let sa1 = req_meta sa ''get_order_status'' in on_venue sa1 (delta_get_order lib (sa_venue sa1) oid))"

definition sandbox_balances :: "pylib \<Rightarrow> sandbox_adapter \<Rightarrow> sandbox_adapter \<times> balance list res" where
  "sandbox_balances lib sa =
     (let sa1 = req_meta sa ''get_balances'' in on_venue sa1 (delta_balance lib (sa_venue sa1)))"

definition sandbox_positions :: "pylib \<Rightarrow> sandbox_adapter \<Rightarrow> sandbox_adapter \<times> json list res" where
  "sandbox_positions lib sa =
     (let sa1 = req_meta sa ''get_positions'' in on_venue sa1 (delta_positions lib (sa_venue sa1)))"

definition sandbox_open_orders :: "pylib \<Rightarrow> sandbox_adapter \<Rightarrow> string option \<Rightarrow> sandbox_adapter \<times> order list res" where
  "sandbox_open_orders lib sa sy =
     (let sa1 = req_meta sa ''get_open_orders'' in on_venue sa1 (delta_open_orders lib (sa_venue sa1) sy))"

definition sandbox_cancel :: "pylib \<Rightarrow> settings \<Rightarrow> sandbox_adapter \<Rightarrow> string \<Rightarrow> sandbox_adapter \<times> order res" where
  "sandbox_cancel lib se sa oid =
     (let sa1 = req_meta sa ''cancel_order'' in on_venue sa1 (delta_cancel_order lib se (sa_venue sa1) oid))"

definition sandbox_cancel_all ::
  "pylib \<Rightarrow> settings \<Rightarrow> sandbox_adapter \<Rightarrow> sandbox_adapter \<times> (string list \<times> py_error list) res" where
  "sandbox_cancel_all lib se sa =
     (let sa1 = req_meta sa ''cancel_all_orders'' in on_venue sa1 (delta_cancel_all lib se (sa_venue sa1)))"

definition sandbox_health :: "pylib \<Rightarrow> sandbox_adapter \<Rightarrow> sandbox_adapter \<times> bool" where
  "sandbox_health lib sa =
     (let sa1 = req_meta sa ''health_check''; r = delta_price lib (sa_venue sa1) ''BTCUSD''
      in on_venue sa1 (fst r, case snd r of Inl e \<Rightarrow> False | Inr p \<Rightarrow> fle (Fin 0) p \<and> ve_ok (fst r)))"

definition sandbox_authenticate :: "pylib \<Rightarrow> sandbox_adapter \<Rightarrow> sandbox_adapter \<times> bool res" where
  "sandbox_authenticate lib sa =
     (let sa1 = req_meta sa ''authenticate''
      in case delta_sign lib (sa_venue sa1) ''GET'' ''/v2/wallet/balances'' [] [] None of
           Inl e \<Rightarrow> (sa1, Inl e)
         | Inr sig \<Rightarrow> (let r = delta_balance lib (sa_venue sa1) in on_venue sa1 (fst r, bind_res (snd r) (\<lambda>_. Inr (sig \<noteq> [])))))"

section \<open>The execution service\<close>

record 's sandbox_exec =
  sx_adapter :: sandbox_adapter
  sx_recon :: "'s recon"
  sx_kill_switch :: bool
  sx_risk_ok :: bool
  sx_market_fresh :: bool
  sx_stage :: trading_stage

text \<open>Ledger and reconciliation share one store.\<close>

abbreviation sx_store :: "'s sandbox_exec \<Rightarrow> 's" where
  "sx_store sx \<equiv> rc_store (sx_recon sx)"

definition set_store :: "'s sandbox_exec \<Rightarrow> 's \<Rightarrow> 's sandbox_exec" where
  "set_store sx st = sx\<lparr>sx_recon := (sx_recon sx)\<lparr>rc_store := st\<rparr>\<rparr>"

definition stage_value :: "trading_stage \<Rightarrow> string" where
  "stage_value s = (case s of STAGE_0_BACKTEST \<Rightarrow> ''STAGE_0_BACKTEST'' | STAGE_1_LOCAL_PAPER \<Rightarrow> ''STAGE_1_LOCAL_PAPER''
     | STAGE_2_CLOUD_PAPER \<Rightarrow> ''STAGE_2_CLOUD_PAPER'' | STAGE_3_PRODUCTION_READ_ONLY \<Rightarrow> ''STAGE_3_PRODUCTION_READ_ONLY''
     | STAGE_4_LIVE_DRY_RUN \<Rightarrow> ''STAGE_4_LIVE_DRY_RUN'' | STAGE_5_CONTROLLED_LIVE \<Rightarrow> ''STAGE_5_CONTROLLED_LIVE''
     | STAGE_6_AUTONOMOUS_LIVE \<Rightarrow> ''STAGE_6_AUTONOMOUS_LIVE'')"

definition order_status_value :: "order_status \<Rightarrow> string" where
  "order_status_value s = (case s of CREATED \<Rightarrow> ''CREATED'' | VALIDATED \<Rightarrow> ''VALIDATED'' | SUBMITTED \<Rightarrow> ''SUBMITTED''
     | PARTIALLY_FILLED \<Rightarrow> ''PARTIALLY_FILLED'' | FILLED \<Rightarrow> ''FILLED'' | CANCELLED \<Rightarrow> ''CANCELLED''
     | REJECTED \<Rightarrow> ''REJECTED'' | EXPIRED \<Rightarrow> ''EXPIRED'')"

text \<open>The dumped objects of the snapshot, with the fields the adapter sets.\<close>

definition balance_json :: "balance \<Rightarrow> json" where
  "balance_json b = JObj [(''currency'', JStr (bal_currency b)), (''free'', JNum (bal_free b)), (''locked'', JNum (bal_locked b))]"

definition order_json :: "order \<Rightarrow> json" where
  "order_json ord = JObj [(''order_id'', json_opt_str (o_order_id ord)), (''symbol'', JStr (o_symbol ord)),
     (''side'', JStr (side_value (o_side ord))), (''order_type'', JStr (type_value (o_order_type ord))),
     (''quantity'', JNum (o_quantity ord)), (''limit_price'', json_opt_num (o_limit_price ord)),
     (''status'', JStr (order_status_value (o_status ord)))]"

definition recon_snapshot :: "balance list \<Rightarrow> json list \<Rightarrow> order list \<Rightarrow> json_obj" where
  "recon_snapshot bals poss opens =
     [(''balances'', JList (map balance_json bals)),
      (''available_balances'', JObj (dict_build id (map (\<lambda>b. (bal_currency b, JNum (bal_free b))) bals))),
      (''positions'', JList poss), (''open_orders'', JList (map order_json opens)), (''fills'', JList []),
      (''realized_pnl'', JNum (Fin 0)), (''unrealized_pnl'', JNum (Fin 0))]"

type_synonym 's kv_put = "nat \<Rightarrow> string \<Rightarrow> string \<Rightarrow> json_obj \<Rightarrow> 's \<Rightarrow> 's"
type_synonym 's kv_get = "string \<Rightarrow> string \<Rightarrow> 's \<Rightarrow> json_obj option"

definition sandbox_reconcile ::
  "'s kv_put \<Rightarrow> pylib \<Rightarrow> nat \<Rightarrow> 's sandbox_exec \<Rightarrow> 's sandbox_exec \<times> recon_result res" where
  "sandbox_reconcile put lib now sx =
     (case sandbox_balances lib (sx_adapter sx) of
        (a1, Inl e) \<Rightarrow> (sx\<lparr>sx_adapter := a1\<rparr>, Inl e)
      | (a1, Inr bals) \<Rightarrow>
     (case sandbox_positions lib a1 of
        (a2, Inl e) \<Rightarrow> (sx\<lparr>sx_adapter := a2\<rparr>, Inl e)
      | (a2, Inr poss) \<Rightarrow>
     (case sandbox_open_orders lib a2 None of
        (a3, Inl e) \<Rightarrow> (sx\<lparr>sx_adapter := a3\<rparr>, Inl e)
      | (a3, Inr opens) \<Rightarrow>
          (let snap = recon_snapshot bals poss opens
           in case reconcile put now (sx_recon sx) snap (Some snap) None of
                (rc, r) \<Rightarrow> (sx\<lparr>sx_adapter := a3, sx_recon := rc\<rparr>, r)))))"

record exec_result =
  er_executed :: bool
  er_blocked :: bool
  er_ambiguous :: bool
  er_reason :: "string option"
  er_blocks_new_trades :: bool
  er_exchange_order_id :: "string option"
  er_recon :: "recon_result option"
  er_lifecycle :: lifecycle
  er_intent_id :: string

definition plain_result :: "lifecycle \<Rightarrow> string \<Rightarrow> exec_result" where
  "plain_result m iid = \<lparr>er_executed = False, er_blocked = False, er_ambiguous = False, er_reason = None,
     er_blocks_new_trades = False, er_exchange_order_id = None, er_recon = None, er_lifecycle = m, er_intent_id = iid\<rparr>"

definition block_result :: "string \<Rightarrow> lifecycle \<Rightarrow> string \<Rightarrow> exec_result res" where
  "block_result reason m iid = bind_res (lc_transition m BLOCKED)
     (\<lambda>m1. Inr ((plain_result m1 iid)\<lparr>er_blocked := True, er_reason := Some reason\<rparr>))"

text \<open>A failing step leaves the state it reached; \<open>mark\<close> raises for an unknown intent.\<close>

definition then_do :: "'st \<times> 'a res \<Rightarrow> ('st \<Rightarrow> 'a \<Rightarrow> 'st \<times> 'b res) \<Rightarrow> 'st \<times> 'b res" where
  "then_do r f = (case snd r of Inl e \<Rightarrow> (fst r, Inl e) | Inr x \<Rightarrow> f (fst r) x)"

definition sx_mark ::
  "'s kv_put \<Rightarrow> 's kv_get \<Rightarrow> nat \<Rightarrow> 's sandbox_exec \<Rightarrow> string \<Rightarrow> intent_status \<Rightarrow> string list option \<Rightarrow> string option
   \<Rightarrow> 's sandbox_exec \<times> json_obj res" where
  "sx_mark put get now sx iid s reasons oid =
     (let r = ledger_mark put get now (sx_store sx) iid s reasons oid in (set_store sx (fst r), snd r))"

text \<open>After an accepted submission: acknowledge, read the status back, settle and reconcile.\<close>

definition open_status :: "order \<Rightarrow> bool" where
  "open_status ord \<longleftrightarrow> py_lower (order_status_value (o_status ord)) \<in> {''open'', ''new'', ''accepted''}"

definition settle ::
  "'s kv_put \<Rightarrow> 's kv_get \<Rightarrow> pylib \<Rightarrow> nat \<Rightarrow> 's sandbox_exec \<Rightarrow> lifecycle \<Rightarrow> string \<Rightarrow> string
   \<Rightarrow> 's sandbox_exec \<times> exec_result res" where
  "settle put get lib now sx m iid oid =
     then_do (sx, lc_transition m ACK) (\<lambda>sx m.
     then_do (sx_mark put get now sx iid I_SUBMITTED None (Some oid)) (\<lambda>sx _.
     then_do (sx, lc_transition m OPEN_NEW) (\<lambda>sx m.
     then_do (let r = sandbox_order_status lib (sx_adapter sx) oid in (sx\<lparr>sx_adapter := fst r\<rparr>, snd r)) (\<lambda>sx ord.
     then_do (if \<not> open_status ord
              then then_do (sx, lc_go m [FULL_FILL, POSITION_UPDATE]) (\<lambda>sx m.
                   then_do (sx_mark put get now sx iid I_FILLED None (Some oid)) (\<lambda>sx _. (sx, Inr m)))
              else (sx, lc_transition m CANCEL)) (\<lambda>sx m.
     then_do (sx, lc_go m [CLOSE, RECONCILIATION]) (\<lambda>sx m.
     then_do (sandbox_reconcile put lib now sx) (\<lambda>sx recon.
       (sx, Inr ((plain_result m iid)\<lparr>er_executed := True, er_blocks_new_trades := (rr_state recon \<noteq> RECONCILED),
          er_exchange_order_id := Some oid, er_recon := Some recon\<rparr>)))))))))"

definition after_submit ::
  "'s kv_put \<Rightarrow> 's kv_get \<Rightarrow> pylib \<Rightarrow> nat \<Rightarrow> 's sandbox_exec \<Rightarrow> lifecycle \<Rightarrow> string \<Rightarrow> submit_reply
   \<Rightarrow> 's sandbox_exec \<times> exec_result res" where
  "after_submit put get lib now sx m iid su =
     (if su_ambiguous su \<and> \<not> su_accepted su then
        then_do (sx, lc_transition m RECONCILIATION) (\<lambda>sx m.
        then_do (sandbox_reconcile put lib now sx) (\<lambda>sx recon.
        then_do (sx_mark put get now sx iid I_FAILED (Some [''AMBIGUOUS_SUBMIT'', ''RECONCILE_BEFORE_RETRY'']) None) (\<lambda>sx _.
          (sx, Inr ((plain_result m iid)\<lparr>er_ambiguous := True, er_recon := Some recon\<rparr>)))))
      else if \<not> su_accepted su then
        then_do (sx, lc_transition m LC_FAILED) (\<lambda>sx m.
        then_do (sx_mark put get now sx iid I_FAILED (Some [''SUBMIT_FAILED'']) None) (\<lambda>sx _.
          (sx, Inr (plain_result m iid))))
      else settle put get lib now sx m iid (opt_default (su_exchange_order_id su) []))"

definition submit_step ::
  "'s kv_put \<Rightarrow> 's kv_get \<Rightarrow> pylib \<Rightarrow> settings \<Rightarrow> nat \<Rightarrow> 's sandbox_exec \<Rightarrow> lifecycle \<Rightarrow> order_intent
   \<Rightarrow> 's sandbox_exec \<times> exec_result res" where
  "submit_step put get lib se now sx m it =
     then_do (sx, lc_transition m SUBMIT) (\<lambda>sx m.
     then_do (sx_mark put get now sx (oi_intent_id it) I_SUBMITTING None None) (\<lambda>sx _.
       (case sandbox_submit lib se (sx_adapter sx) (oi_symbol it) (oi_side it) (oi_quantity it) ''MARKET'' None
               (Some (oi_intent_id it)) of
          (a1, su) \<Rightarrow> after_submit put get lib now (sx\<lparr>sx_adapter := a1\<rparr>) m (oi_intent_id it) su)))"

definition idempotency_step ::
  "'s kv_put \<Rightarrow> 's kv_get \<Rightarrow> pylib \<Rightarrow> settings \<Rightarrow> nat \<Rightarrow> 's sandbox_exec \<Rightarrow> lifecycle \<Rightarrow> order_intent
   \<Rightarrow> 's sandbox_exec \<times> exec_result res" where
  "idempotency_step put get lib se now sx m it =
     then_do (sx, lc_transition m IDEMPOTENCY_CHECK) (\<lambda>sx m.
       (let existing = opt_default (find_by_idempotency get (sx_store sx) (oi_idempotency_key it)) []
        in if would_duplicate get (sx_store sx) (oi_idempotency_key it) \<and> existing \<noteq> []
              \<and> dget existing ''intent_id'' \<noteq> Some (JStr (oi_intent_id it))
           then (sx, block_result ''DUPLICATE_IDEMPOTENCY'' m (oi_intent_id it))
           else submit_step put get lib se now sx m it))"

definition sandbox_intent ::
  "trading_stage \<Rightarrow> bool \<Rightarrow> string \<Rightarrow> string \<Rightarrow> string \<Rightarrow> string \<Rightarrow> pyfloat \<Rightarrow> string \<Rightarrow> string \<Rightarrow> string option \<Rightarrow> order_intent" where
  "sandbox_intent stage risk_ok iid ts sy sd q strategy cycle idem =
     \<lparr>oi_intent_id = iid,
      oi_idempotency_key = (if opt_truthy idem then opt_default idem [] else strategy @ '':'' @ sy @ '':'' @ sd @ '':'' @ cycle),
      oi_strategy_id = strategy, oi_strategy_version = ''1.0.0'', oi_agent_decision_id = Some cycle, oi_timestamp = ts,
      oi_exchange = ''delta_india_sandbox'', oi_symbol = sy, oi_side = sd, oi_quantity = q, oi_price = None,
      oi_order_type = ''MARKET'', oi_risk_decision = [(''approved'', JBool risk_ok)], oi_portfolio_state_ref = None,
      oi_execution_stage = stage_value stage, oi_status = I_DRAFT, oi_reason_codes = [], oi_exchange_order_id = None,
      oi_metadata = [(''cycle_id'', JStr cycle)]\<rparr>"

definition sandbox_execute ::
  "'s kv_put \<Rightarrow> 's kv_get \<Rightarrow> pylib \<Rightarrow> settings \<Rightarrow> nat \<Rightarrow> 's sandbox_exec \<Rightarrow> order_intent \<Rightarrow> 's sandbox_exec \<times> exec_result res" where
  "sandbox_execute put get lib se now sx it0 =
     then_do (let r = ledger_persist put get now (sx_store sx) it0 in (set_store sx (fst r), snd r)) (\<lambda>sx it.
     then_do (sx, lc_transition new_lifecycle RISK_CHECK) (\<lambda>sx m.
       if sx_kill_switch sx then (sx, block_result ''KILL_SWITCH'' m (oi_intent_id it))
       else if \<not> sx_market_fresh sx then (sx, block_result ''STALE_MARKET_DATA'' m (oi_intent_id it))
       else if \<not> sx_risk_ok sx then (sx, block_result ''RISK_REJECTED'' m (oi_intent_id it))
       else idempotency_step put get lib se now sx m it))"

section \<open>Endpoints\<close>

text \<open>
  \<open>urlparse(u).netloc\<close>: what follows \<open>//\<close>, after a scheme if there is one, up to the next of \<open>/ ? #\<close>.
\<close>

definition scheme_char :: "char \<Rightarrow> bool" where
  "scheme_char c \<longleftrightarrow> (let n = of_char c :: nat in (65 \<le> n \<and> n \<le> 90) \<or> (97 \<le> n \<and> n \<le> 122) \<or> (48 \<le> n \<and> n \<le> 57))
     \<or> c \<in> {CHR ''+'', CHR ''-'', CHR ''.''}"

definition after_scheme :: "string \<Rightarrow> string" where
  "after_scheme u =
     (let sch = takeWhile (\<lambda>c. c \<noteq> CHR '':'') u; rest = drop (length sch + 1) u
      in if sch \<noteq> [] \<and> length sch < length u \<and> list_all scheme_char sch
            \<and> \<not> (48 \<le> (of_char (hd sch) :: nat) \<and> of_char (hd sch) \<le> (57 :: nat)) \<and> hd sch \<notin> {CHR ''+'', CHR ''-'', CHR ''.''}
         then rest else u)"

definition py_netloc :: "string \<Rightarrow> string" where
  "py_netloc u = (let r = after_scheme u
     in if py_startswith r ''//'' then takeWhile (\<lambda>c. c \<notin> {CHR ''/'', CHR ''?'', CHR ''#''}) (drop 2 r) else [])"

record endpoint_guard =
  eg_allowed :: "string list"
  eg_rejected :: "string list"

definition norm_url :: "string \<Rightarrow> string" where
  "norm_url u = py_rstrip_chr (CHR ''/'') u"

definition host_of :: "string \<Rightarrow> string" where
  "host_of u = py_lower (py_netloc (norm_url u))"

definition allowed_urls :: "endpoint_guard \<Rightarrow> string list" where
  "allowed_urls g = map norm_url (eg_allowed g)"

definition rejected_urls :: "endpoint_guard \<Rightarrow> string list" where
  "rejected_urls g = map norm_url (eg_rejected g)"

definition production_names :: "string list" where
  "production_names = [''PRODUCTION'', ''PRODUCTION_TRADING'', ''PRODUCTION_READ_ONLY'']"

definition validate_endpoint :: "endpoint_guard \<Rightarrow> string \<Rightarrow> trading_stage \<Rightarrow> string \<Rightarrow> string res" where
  "validate_endpoint g u stage env =
     (let url = norm_url u; h = host_of url;
          rejected = map host_of (rejected_urls g); allowed = map host_of (allowed_urls g)
      in if stage = STAGE_2_CLOUD_PAPER then
           (if h \<in> set rejected \<or> url \<in> set (rejected_urls g)
            then Inl (PermissionError ''Production endpoint rejected in STAGE_2_CLOUD_PAPER'')
            else if allowed \<noteq> [] \<and> h \<notin> set allowed then Inl (PermissionError ''Endpoint host not in Stage 2 allowlist'')
            else if py_upper env \<in> set production_names
            then Inl (PermissionError ''Production credential environment rejected in STAGE_2_CLOUD_PAPER'')
            else Inr h)
         else Inr h)"

definition assert_not_production :: "string \<Rightarrow> unit res" where
  "assert_not_production env =
     (if py_upper env \<in> set production_names
      then Inl (PermissionError ''Production credentials rejected in STAGE_2_CLOUD_PAPER'') else Inr ())"

section \<open>Freshness and the message stream\<close>

text \<open>\<open>market/freshness.py\<close>: times are microseconds; a missing or unreadable time stamp is \<open>None\<close>.\<close>

definition age_seconds :: "int \<Rightarrow> int option \<Rightarrow> pyfloat option" where
  "age_seconds now ts = (case ts of None \<Rightarrow> None
     | Some t \<Rightarrow> Some (pmax (Fin 0) (fquot (f_of_int (now - t)) (Fin 1000000))))"

definition is_fresh :: "pyfloat \<Rightarrow> int \<Rightarrow> int option \<Rightarrow> bool" where
  "is_fresh max_age now ts = (case age_seconds now ts of None \<Rightarrow> False | Some a \<Rightarrow> fle a max_age)"

record ws_client =
  ws_enabled :: bool
  ws_connected :: bool
  ws_last_message :: "int option"
  ws_reconnect_attempts :: nat
  ws_last_error :: "string option"
  ws_seen :: "string list"
  ws_max_age :: pyfloat
  ws_max_retries :: nat

text \<open>\<open>attempt i\<close> is the outcome of the i-th call of the connect function: an error text, or none.\<close>

fun ws_attempts :: "(nat \<Rightarrow> string option) \<Rightarrow> nat list \<Rightarrow> ws_client \<Rightarrow> ws_client" where
  "ws_attempts attempt [] ws = ws"
| "ws_attempts attempt (i # is) ws =
     (case attempt i of
        None \<Rightarrow> ws\<lparr>ws_reconnect_attempts := i + 1, ws_connected := True, ws_last_error := None\<rparr>
      | Some e \<Rightarrow> ws_attempts attempt is (ws\<lparr>ws_reconnect_attempts := i + 1, ws_connected := False, ws_last_error := Some e\<rparr>))"

definition ws_connect :: "(nat \<Rightarrow> string option) \<Rightarrow> ws_client \<Rightarrow> ws_client" where
  "ws_connect attempt ws = (if \<not> ws_enabled ws then ws else ws_attempts attempt [0..<ws_max_retries ws] ws)"

definition ws_on_message :: "int \<Rightarrow> ws_client \<Rightarrow> string \<Rightarrow> ws_client \<times> bool" where
  "ws_on_message now ws mid =
     (if mid \<in> set (ws_seen ws) then (ws, False)
      else (ws\<lparr>ws_seen := List.insert mid (ws_seen ws), ws_last_message := Some now\<rparr>, True))"

definition ws_allows :: "int \<Rightarrow> ws_client \<Rightarrow> bool" where
  "ws_allows now ws = (ws_connected ws \<and> is_fresh (ws_max_age ws) now (ws_last_message ws))"

section \<open>The stage 2 runtime\<close>

text \<open>Kill switch, ledger, reconciliation and cycles share the store of the execution service.\<close>

record 's runtime =
  rt_exec :: "'s sandbox_exec"
  rt_inner :: live_kill
  rt_ws :: ws_client
  rt_alerts :: "string list"
  rt_cycles :: "json_obj list"

definition rt_kill :: "'s runtime \<Rightarrow> 's durable_kill" where
  "rt_kill rt = \<lparr>dk_inner = rt_inner rt, dk_store = sx_store (rt_exec rt)\<rparr>"

definition rt_record :: "'s kv_put \<Rightarrow> nat \<Rightarrow> 's runtime \<Rightarrow> string \<Rightarrow> json_obj \<Rightarrow> 's runtime" where
  "rt_record put now rt cycle row = rt\<lparr>rt_cycles := rt_cycles rt @ [row],
     rt_exec := set_store (rt_exec rt) (put now ''cycles'' cycle row (sx_store (rt_exec rt)))\<rparr>"

definition no_trade :: "'s kv_put \<Rightarrow> nat \<Rightarrow> 's runtime \<Rightarrow> string \<Rightarrow> string \<Rightarrow> string \<Rightarrow> 's runtime \<times> json_obj res" where
  "no_trade put now rt cycle alert reason =
     (let row = [(''cycle_id'', JStr cycle), (''executed'', JBool False), (''failure_reason'', JStr reason),
                 (''final_state'', JStr ''BLOCKED''), (''TRADING_MODE'', JStr ''paper''), (''LIVE_TRADING_ENABLED'', JBool False)]
      in (rt_record put now (rt\<lparr>rt_alerts := rt_alerts rt @ [alert]\<rparr>) cycle row, Inr row))"

definition cycle_row :: "string \<Rightarrow> exec_result \<Rightarrow> json_obj" where
  "cycle_row cycle r =
     [(''cycle_id'', JStr cycle), (''risk_decision'', JObj [(''approved'', JBool (\<not> er_blocked r))]),
      (''order_intent'', JStr (er_intent_id r)),
      (''execution_result'', JObj [(''executed'', JBool (er_executed r)),
         (''exchange_order_id'', json_opt_str (er_exchange_order_id r))]),
      (''reconciliation_result'', (case er_recon r of None \<Rightarrow> JNull | Some c \<Rightarrow> JObj (recon_json c))),
      (''failure_reason'', json_opt_str (er_reason r)), (''TRADING_MODE'', JStr ''paper''),
      (''LIVE_TRADING_ENABLED'', JBool False)]"

text \<open>\<open>db_ok\<close>: the health probe of the store; \<open>readable\<close>: whether reading the switch raises.\<close>

definition run_cycle ::
  "'s kv_put \<Rightarrow> 's kv_get \<Rightarrow> pylib \<Rightarrow> settings \<Rightarrow> nat \<Rightarrow> int \<Rightarrow> bool \<Rightarrow> bool \<Rightarrow> string \<Rightarrow> string \<Rightarrow> string
   \<Rightarrow> 's runtime \<Rightarrow> 's runtime \<times> json_obj res" where
  "run_cycle put get lib se now us db_ok readable cycle iid ts rt =
     (if \<not> db_ok then no_trade put now rt cycle ''database_failure'' ''DATABASE_FAILURE''
      else if \<not> dk_allows_new_trades get readable (rt_kill rt) then no_trade put now rt cycle ''kill_switch'' ''KILL_SWITCH''
      else
        (let probe = \<not> ws_allows us (rt_ws rt) \<and> ws_enabled (rt_ws rt);
             h = sandbox_health lib (sx_adapter (rt_exec rt));
             rt1 = (if probe then rt\<lparr>rt_exec := (rt_exec rt)\<lparr>sx_adapter := fst h\<rparr>\<rparr> else rt)
         in if probe \<and> \<not> snd h then no_trade put now rt1 cycle ''market_data_stale'' ''STALE_OR_EXCHANGE_UNAVAILABLE''
            else
              (let sx = (rt_exec rt1)\<lparr>sx_kill_switch := dk_active get (rt_kill rt1)\<rparr>;
                   it = sandbox_intent (sx_stage sx) (sx_risk_ok sx) iid ts ''BTCUSD'' ''BUY'' (flit (1 / 100))
                          ''momentum_breakout_crypto'' cycle None
               in case sandbox_execute put get lib se now sx it of
                    (sx1, Inl e) \<Rightarrow> (rt1\<lparr>rt_exec := sx1\<rparr>, Inl e)
                  | (sx1, Inr r) \<Rightarrow>
                      (rt_record put now (rt1\<lparr>rt_exec := sx1\<rparr>) cycle (cycle_row cycle r), Inr (cycle_row cycle r)))))"

text \<open>Recovery after a crash: reload the switch, then reconcile.\<close>

definition recover ::
  "'s kv_put \<Rightarrow> 's kv_get \<Rightarrow> pylib \<Rightarrow> nat \<Rightarrow> bool \<Rightarrow> 's runtime \<Rightarrow> 's runtime \<times> bool res" where
  "recover put get lib now readable rt =
     (let row = opt_default (get ks_collection ks_key (sx_store (rt_exec rt))) [];
          rt1 = (if row \<noteq> [] \<and> get_truthy row ''active''
                 then rt\<lparr>rt_inner := (rt_inner rt)\<lparr>lk_base := ks_activate (lk_base (rt_inner rt))
                        (opt_default (opt_or (get_str row ''reason'') (Some ''restored'')) [])\<rparr>\<rparr> else rt)
      in if \<not> dk_allows_new_trades get readable (rt_kill rt1) then (rt1, Inr False)
         else case sandbox_reconcile put lib now (rt_exec rt1) of
                (sx1, Inl e) \<Rightarrow> (rt1\<lparr>rt_exec := sx1\<rparr>, Inl e)
              | (sx1, Inr r) \<Rightarrow>
                  (let rt2 = rt1\<lparr>rt_exec := sx1\<rparr>
                   in (if rr_state r = RECONCILED then rt2 else rt2\<lparr>rt_alerts := rt_alerts rt2 @ [''reconciliation_failure'']\<rparr>,
                       Inr (rr_state r = RECONCILED))))"

section \<open>Lemmas\<close>

lemma then_do_Inr: "then_do r f = (s', Inr y) \<longleftrightarrow> (\<exists>s x. r = (s, Inr x) \<and> f s x = (s', Inr y))"
  by (cases r) (auto simp: then_do_def split: sum.splits)

lemma lc_transition_eq [simp]:
  "lc_transition m t = (if t \<in> set (lifecycle_table (lc_state m))
     then Inr \<lparr>lc_state = t, lc_history = lc_history m @ [t]\<rparr> else Inl (ValueError ''Illegal lifecycle transition''))"
  by (simp add: lc_transition_def lifecycle_step_def table_transition_def)

lemma set_store_simps [simp]:
  "rc_store (sx_recon (set_store sx st)) = st" "sx_adapter (set_store sx st) = sx_adapter sx"
  "sx_kill_switch (set_store sx st) = sx_kill_switch sx" "sx_risk_ok (set_store sx st) = sx_risk_ok sx"
  "sx_market_fresh (set_store sx st) = sx_market_fresh sx"
  by (simp_all add: set_store_def)

text \<open>An order read back from the venue has no status, so it never counts as open.\<close>

lemma status_never_open: "snd (sandbox_order_status lib sa oid) = Inr ord \<Longrightarrow> \<not> open_status ord"
proof -
  assume "snd (sandbox_order_status lib sa oid) = Inr ord"
  then have "snd (delta_get_order lib (sa_venue (req_meta sa ''get_order_status'')) oid) = Inr ord"
    by (simp add: sandbox_order_status_def on_venue_def Let_def)
  then have "o_status ord = CREATED" by (intro get_order_created) blast
  then show ?thesis by (simp add: open_status_def order_status_value_def py_lower_def)
qed

lemma submit_ambiguous_or_accepted:
  "sandbox_submit lib se sa sy sd q ty px cid = (a1, su) \<Longrightarrow> su_accepted su \<or> su_ambiguous su"
  by (auto simp: sandbox_submit_def on_venue_def Let_def split: sum.splits)

lemma reconcile_Inr:
  assumes "sandbox_reconcile put lib now sx = (sx', Inr r)"
  shows "\<exists>snap. recon_compare now snap (Some snap) None = Inr r \<and> sx_recon sx' = recon_persist put (sx_recon sx) r"
proof -
  have "\<exists>snap. reconcile put now (sx_recon sx) snap (Some snap) None = (sx_recon sx', Inr r)"
    using assms by (auto simp: sandbox_reconcile_def Let_def split: prod.splits sum.splits)
  then show ?thesis by (auto simp: reconcile_Inr_iff)
qed

text \<open>What a run leaves behind that got to the venue: filled, or failed after an ambiguous submission.\<close>

definition submit_ends :: "'s kv_get \<Rightarrow> nat \<Rightarrow> 's \<Rightarrow> lifecycle_state list \<Rightarrow> string \<Rightarrow> exec_result \<Rightarrow> bool" where
  "submit_ends get now st h iid r \<longleftrightarrow> \<not> er_blocked r \<and> er_ambiguous r = (\<not> er_executed r)
     \<and> lc_history (er_lifecycle r) = h @ SUBMIT #
         (if er_executed r then [ACK, OPEN_NEW, FULL_FILL, POSITION_UPDATE, CLOSE, RECONCILIATION] else [RECONCILIATION])
     \<and> (\<exists>row. get intents_coll iid st = Some row
          \<and> dget row ''status'' = Some (JStr (if er_executed r then ''FILLED'' else ''FAILED'')))
     \<and> (\<exists>snap c. recon_compare now snap (Some snap) None = Inr c \<and> er_recon r = Some c
          \<and> (er_executed r \<longrightarrow> er_blocks_new_trades r = (rr_state c \<noteq> RECONCILED)))"

context kv_store
begin

lemma mark_in_store:
  assumes "sx_mark put get now sx iid s reasons oid = (sx', Inr row)"
  shows "get intents_coll iid (sx_store sx') = Some row \<and> dget row ''status'' = Some (JStr (intent_status_value s))
    \<and> sx_adapter sx' = sx_adapter sx"
proof (cases "ledger_mark put get now (sx_store sx) iid s reasons oid")
  case (Pair st' r)
  with assms show ?thesis using mark_status [of now "sx_store sx" iid s reasons oid st' row]
    by (auto simp: sx_mark_def Let_def)
qed

lemma reconcile_keeps:
  "sandbox_reconcile put lib now sx = (sx', Inr r) \<Longrightarrow> get intents_coll i (sx_store sx') = get intents_coll i (sx_store sx)"
  by (drule reconcile_Inr) (auto simp: recon_persist_def get_put intents_coll_def recon_coll_def)

lemma reconcile_self:
  "sandbox_reconcile put lib now sx = (sx', Inr r) \<Longrightarrow>
   \<exists>snap. recon_compare now snap (Some snap) None = Inr r"
  by (drule reconcile_Inr) auto

lemma settle_outcome:
  assumes "settle put get lib now sx m iid oid = (sx', Inr r)" and "lc_state m = SUBMIT"
  shows "er_executed r \<and> \<not> er_blocked r \<and> \<not> er_ambiguous r \<and> er_exchange_order_id r = Some oid
    \<and> lc_history (er_lifecycle r) = lc_history m @ [ACK, OPEN_NEW, FULL_FILL, POSITION_UPDATE, CLOSE, RECONCILIATION]
    \<and> (\<exists>row. get intents_coll iid (sx_store sx') = Some row \<and> dget row ''status'' = Some (JStr ''FILLED''))
    \<and> (\<exists>snap c. recon_compare now snap (Some snap) None = Inr c \<and> er_recon r = Some c
         \<and> er_blocks_new_trades r = (rr_state c \<noteq> RECONCILED))"
proof -
  let ?h = "lc_history m @ [ACK, OPEN_NEW, FULL_FILL, POSITION_UPDATE, CLOSE, RECONCILIATION]"
  from assms obtain sx1 sx2 row2 c where
      f: "sx_mark put get now sx1 iid I_FILLED None (Some oid) = (sx2, Inr row2)"
    and rec: "sandbox_reconcile put lib now sx2 = (sx', Inr c)"
    and r: "r = (plain_result \<lparr>lc_state = RECONCILIATION, lc_history = ?h\<rparr> iid)\<lparr>er_executed := True,
        er_blocks_new_trades := (rr_state c \<noteq> RECONCILED), er_exchange_order_id := Some oid, er_recon := Some c\<rparr>"
    by (auto simp: settle_def then_do_Inr Let_def dest!: status_never_open)
  have "get intents_coll iid (sx_store sx') = Some row2 \<and> dget row2 ''status'' = Some (JStr ''FILLED'')"
    using mark_in_store [OF f] reconcile_keeps [OF rec] by (simp add: intent_status_value_def)
  with r reconcile_self [OF rec] show ?thesis by (simp add: plain_result_def)
qed

lemma persisted_row:
  assumes "ledger_persist put get now st it = (st', Inr it')"
  shows "it' = it\<lparr>oi_status := I_PERSISTED\<rparr> \<and> get intents_coll (oi_intent_id it') st' = Some (to_public_dict it')
    \<and> find_by_idempotency get st' (oi_idempotency_key it') = Some (to_public_dict it')"
  using assms by (cases rule: persist_cases)
    (auto simp: find_by_idempotency_def ledger_get_def opt_default_def Let_def get_put)

text \<open>What a run of the service that returns looks like, by the branch it took.\<close>

lemma after_submit_outcome:
  assumes "after_submit put get lib now sx m iid su = (sx', Inr r)" and "su_accepted su \<or> su_ambiguous su"
    and "lc_state m = SUBMIT" and "lc_history m = h @ [SUBMIT]"
  shows "submit_ends get now (sx_store sx') h iid r"
proof (cases "su_accepted su")
  case True
  with assms(1) have "settle put get lib now sx m iid (opt_default (su_exchange_order_id su) []) = (sx', Inr r)"
    by (simp add: after_submit_def)
  from settle_outcome [OF this assms(3)] show ?thesis using assms(4) by (auto simp: submit_ends_def)
next
  case False
  with assms obtain sx1 sx2 row c where rec: "sandbox_reconcile put lib now sx1 = (sx2, Inr c)"
    and mk: "sx_mark put get now sx2 iid I_FAILED (Some [''AMBIGUOUS_SUBMIT'', ''RECONCILE_BEFORE_RETRY'']) None = (sx', Inr row)"
    and r: "r = (plain_result \<lparr>lc_state = RECONCILIATION, lc_history = h @ [SUBMIT, RECONCILIATION]\<rparr> iid)
        \<lparr>er_ambiguous := True, er_recon := Some c\<rparr>"
    by (auto simp: after_submit_def then_do_Inr)
  with mark_in_store [OF mk] reconcile_self [OF rec] show ?thesis
    by (simp add: submit_ends_def plain_result_def intent_status_value_def)
qed

lemma submit_outcome:
  assumes "submit_step put get lib se now sx m it = (sx', Inr r)" and "lc_state m = IDEMPOTENCY_CHECK"
  shows "submit_ends get now (sx_store sx') (lc_history m) (oi_intent_id it) r"
proof -
  let ?send = "\<lambda>sx1. sandbox_submit lib se (sx_adapter sx1) (oi_symbol it) (oi_side it) (oi_quantity it) ''MARKET'' None
    (Some (oi_intent_id it))"
  let ?m1 = "\<lparr>lc_state = SUBMIT, lc_history = lc_history m @ [SUBMIT]\<rparr>"
  have "\<exists>sx1. (case ?send sx1 of (a1, su) \<Rightarrow>
      after_submit put get lib now (sx1\<lparr>sx_adapter := a1\<rparr>) ?m1 (oi_intent_id it) su) = (sx', Inr r)"
    using assms by (simp add: submit_step_def then_do_Inr) blast
  then obtain sx1 where sx1: "(case ?send sx1 of (a1, su) \<Rightarrow>
      after_submit put get lib now (sx1\<lparr>sx_adapter := a1\<rparr>) ?m1 (oi_intent_id it) su) = (sx', Inr r)" ..
  obtain a1 su where su: "?send sx1 = (a1, su)" by fastforce
  with sx1 have after: "after_submit put get lib now (sx1\<lparr>sx_adapter := a1\<rparr>) ?m1 (oi_intent_id it) su = (sx', Inr r)" by simp
  show ?thesis
    by (rule after_submit_outcome [OF after submit_ambiguous_or_accepted [OF su]]) simp_all
qed

lemma persisted_no_duplicate:
  assumes "ledger_persist put get now st it = (st', Inr it')" and "sx_store sx = st'"
  shows "idempotency_step put get lib se now sx m it' =
    then_do (sx, lc_transition m IDEMPOTENCY_CHECK) (\<lambda>sx m. submit_step put get lib se now sx m it')"
  using persisted_row [OF assms(1)] assms(2)
  by (auto simp: idempotency_step_def then_do_def opt_default_def Let_def)

text \<open>Every run that returns was blocked by a check or reached the venue.\<close>

lemma execute_outcome:
  assumes "sandbox_execute put get lib se now sx it = (sx', Inr r)"
  shows "er_blocked r \<and> \<not> er_executed r \<and> sx_adapter sx' = sx_adapter sx
        \<and> lc_history (er_lifecycle r) = [CREATE_INTENT, RISK_CHECK, BLOCKED]
        \<and> er_reason r = Some (if sx_kill_switch sx then ''KILL_SWITCH'' else if \<not> sx_market_fresh sx then ''STALE_MARKET_DATA''
             else ''RISK_REJECTED'') \<and> (sx_kill_switch sx \<or> \<not> sx_market_fresh sx \<or> \<not> sx_risk_ok sx)
    \<or> \<not> sx_kill_switch sx \<and> sx_market_fresh sx \<and> sx_risk_ok sx
        \<and> submit_ends get now (sx_store sx') [CREATE_INTENT, RISK_CHECK, IDEMPOTENCY_CHECK] (oi_intent_id it) r"
proof -
  let ?m = "\<lparr>lc_state = RISK_CHECK, lc_history = [CREATE_INTENT, RISK_CHECK]\<rparr>"
  obtain st1 p where p: "ledger_persist put get now (sx_store sx) it = (st1, p)" by fastforce
  with assms obtain it1 where it1: "p = Inr it1" by (cases p) (auto simp: sandbox_execute_def then_do_def)
  have id: "oi_intent_id it1 = oi_intent_id it" using persisted_row p it1 by fastforce
  show ?thesis
  proof (cases "sx_kill_switch sx \<or> \<not> sx_market_fresh sx \<or> \<not> sx_risk_ok sx")
    case True
    with assms p it1 show ?thesis
      by (auto simp: sandbox_execute_def then_do_def new_lifecycle_def block_result_def plain_result_def split: if_splits)
  next
    case False
    with assms p it1 have "idempotency_step put get lib se now (set_store sx st1) ?m it1 = (sx', Inr r)"
      by (simp add: sandbox_execute_def then_do_def new_lifecycle_def)
    then have "submit_step put get lib se now (set_store sx st1)
        \<lparr>lc_state = IDEMPOTENCY_CHECK, lc_history = [CREATE_INTENT, RISK_CHECK, IDEMPOTENCY_CHECK]\<rparr> it1 = (sx', Inr r)"
      using p it1 by (simp add: persisted_no_duplicate [of now "sx_store sx" it st1 it1] then_do_def)
    from submit_outcome [OF this] False id show ?thesis by simp
  qed
qed

lemma execute_blocked_no_request:
  assumes "sx_kill_switch sx \<or> \<not> sx_market_fresh sx \<or> \<not> sx_risk_ok sx"
  shows "sx_adapter (fst (sandbox_execute put get lib se now sx it)) = sx_adapter sx"
  using assms by (auto simp: sandbox_execute_def then_do_def Let_def split: sum.splits)

end

section \<open>A venue that leaves orders open\<close>

text \<open>
  The instance the properties are applied to: a test venue that answers every request with an order that
  is still open, and holds no balances, positions or open orders.
\<close>

definition open_reply :: json_obj where
  "open_reply = [(''result'', JObj [(''id'', JStr ''7''), (''status'', JStr ''open'')])]"

definition open_lib :: pylib where
  "open_lib = demo_lib\<lparr>pl_reply := \<lambda>reqs. Inr (200, JObj open_reply)\<rparr>"

definition connected :: "sandbox_adapter \<Rightarrow> bool" where
  "connected sa \<longleftrightarrow> ve_api_key (sa_venue sa) \<noteq> [] \<and> ve_api_secret (sa_venue sa) \<noteq> [] \<and> sandboxed (sa_venue sa)"

lemma connected_follows: "connected sa \<Longrightarrow> follows (sa_venue sa) (sa_venue sa') \<Longrightarrow> connected sa'"
  using follows_sandboxed [of "sa_venue sa" "sa_venue sa'"] by (simp add: connected_def follows_def)

lemma open_lib_request:
  "ve_api_key ad \<noteq> [] \<Longrightarrow> ve_api_secret ad \<noteq> [] \<Longrightarrow> snd (delta_request open_lib ad m p a b) = Inr open_reply"
  by (simp add: delta_request_def delta_sign_def open_lib_def demo_lib_def send_request_def Let_def opt_truthy_def)

lemma open_result: "json_or open_reply [''result''] j = JObj [(''id'', JStr ''7''), (''status'', JStr ''open'')]"
  by (simp add: open_reply_def get_truthy_def json_truthy_def opt_default_def)

lemma open_lib_reads:
  assumes "ve_api_key ad \<noteq> []" and "ve_api_secret ad \<noteq> []"
  shows "snd (delta_balance open_lib ad) = Inr []" and "snd (delta_positions open_lib ad) = Inr []"
    and "snd (delta_open_orders open_lib ad None) = Inr []" and "\<exists>ord. snd (delta_get_order open_lib ad oid) = Inr ord"
    and "sandboxed ad \<Longrightarrow> \<exists>ord. snd (delta_create_order open_lib se ad ord0) = Inr ord"
proof -
  note request = open_lib_request [OF assms]
  have "json_or open_reply [''result'', ''balances''] j = JObj [(''id'', JStr ''7''), (''status'', JStr ''open'')]" for j
    by (simp add: open_reply_def get_truthy_def json_truthy_def opt_default_def)
  then show "snd (delta_balance open_lib ad) = Inr []"
    using assms by (simp add: delta_balance_def delta_account_def with_reply_def request del: json_or.simps)
  show "snd (delta_positions open_lib ad) = Inr []" "snd (delta_open_orders open_lib ad None) = Inr []"
    using assms by (simp_all add: delta_positions_def delta_open_orders_def with_reply_def request open_result del: json_or.simps)
  have "json_float open_lib (json_or [(''id'', JStr ''7''), (''status'', JStr ''open'')] [''size''] (JInt 0)) = Inr (f_of_int 0)"
    "\<not> get_truthy [(''id'', JStr ''7''), (''status'', JStr ''open'')] ''limit_price''"
    by (simp_all add: get_truthy_def json_float_def)
  then show "\<exists>ord. snd (delta_get_order open_lib ad oid) = Inr ord"
    by (simp add: delta_get_order_def with_reply_def request open_result json_fields_def optional_float_def del: json_or.simps)
  show "\<exists>ord. snd (delta_create_order open_lib se ad ord0) = Inr ord" if "sandboxed ad"
    using that by (simp add: delta_create_order_def assert_live_orders_allowed_def sandboxed_def with_reply_def request
        open_result json_fields_def del: json_or.simps)
qed

lemma open_lib_adapter:
  assumes "connected sa"
  shows "\<exists>sa'. sandbox_balances open_lib sa = (sa', Inr []) \<and> connected sa'"
    and "\<exists>sa'. sandbox_positions open_lib sa = (sa', Inr []) \<and> connected sa'"
    and "\<exists>sa'. sandbox_open_orders open_lib sa None = (sa', Inr []) \<and> connected sa'"
    and "\<exists>sa' ord. sandbox_order_status open_lib sa oid = (sa', Inr ord) \<and> connected sa'"
    and "\<exists>sa' su. sandbox_submit open_lib se sa sy sd q ty px cid = (sa', su) \<and> su_accepted su \<and> connected sa'"
proof -
  let ?ad = "sa_venue sa"
  have key: "ve_api_key ?ad \<noteq> []" "ve_api_secret ?ad \<noteq> []" and sb: "sandboxed ?ad" using assms by (simp_all add: connected_def)
  have conn: "connected (sa''\<lparr>sa_venue := ad'\<rparr>)" if "follows ?ad ad'" for sa'' ad'
    by (rule connected_follows [OF assms]) (simp add: that)
  note reads = open_lib_reads [OF key]
  show "\<exists>sa'. sandbox_balances open_lib sa = (sa', Inr []) \<and> connected sa'"
    by (simp add: sandbox_balances_def on_venue_def req_meta_def reads conn delta_reads_follow)
  show "\<exists>sa'. sandbox_positions open_lib sa = (sa', Inr []) \<and> connected sa'"
    by (simp add: sandbox_positions_def on_venue_def req_meta_def reads conn delta_reads_follow)
  show "\<exists>sa'. sandbox_open_orders open_lib sa None = (sa', Inr []) \<and> connected sa'"
    by (simp add: sandbox_open_orders_def on_venue_def req_meta_def reads conn delta_reads_follow)
  show "\<exists>sa' ord. sandbox_order_status open_lib sa oid = (sa', Inr ord) \<and> connected sa'"
    using reads(4) [of oid] by (auto simp: sandbox_order_status_def on_venue_def req_meta_def conn delta_reads_follow)
  show "\<exists>sa' su. sandbox_submit open_lib se sa sy sd q ty px cid = (sa', su) \<and> su_accepted su \<and> connected sa'"
    using reads(5) [OF sb, of se "(new_order sy (if py_startswith (py_upper sd) ''BUY'' then BUY else SELL)
        (if py_upper ty = ''MARKET'' then MARKET else LIMIT) q)\<lparr>o_client_order_id := cid, o_limit_price := px\<rparr>"]
    by (auto simp: sandbox_submit_def on_venue_def req_meta_def Let_def conn delta_orders_follow)
qed

lemma open_lib_reconcile:
  assumes "connected (sx_adapter sx)"
  shows "\<exists>sx' r. sandbox_reconcile put open_lib now sx = (sx', Inr r)"
proof -
  obtain a1 where a1: "sandbox_balances open_lib (sx_adapter sx) = (a1, Inr [])" "connected a1"
    using open_lib_adapter(1) [OF assms] by blast
  obtain a2 where a2: "sandbox_positions open_lib a1 = (a2, Inr [])" "connected a2"
    using open_lib_adapter(2) [OF a1(2)] by blast
  obtain a3 where a3: "sandbox_open_orders open_lib a2 None = (a3, Inr [])"
    using open_lib_adapter(3) [OF a2(2)] by blast
  have "sub_dict (recon_snapshot [] [] []) ''position_details'' = Inr []"
    by (simp add: sub_dict_def get_truthy_def recon_snapshot_def)
  then have "\<exists>c. recon_compare now (recon_snapshot [] [] []) (Some (recon_snapshot [] [] [])) None = Inr c"
    by (simp add: recon_compare_def opt_truthy_def all_drifts_def union_keys_def)
  then show ?thesis using a1 a2 a3 by (auto simp: sandbox_reconcile_def Let_def reconcile_def)
qed

context kv_store
begin

lemma sx_mark_total:
  assumes "get intents_coll i (sx_store sx) = Some row" and "row \<noteq> []"
  shows "\<exists>sx' row'. sx_mark put get now sx i s reasons oid = (sx', Inr row') \<and> sx_adapter sx' = sx_adapter sx
    \<and> get intents_coll i (sx_store sx') = Some row' \<and> row' \<noteq> []"
proof -
  obtain st' r where m: "ledger_mark put get now (sx_store sx) i s reasons oid = (st', Inr r)" and "r \<noteq> []"
    using assms by (auto simp: ledger_mark_def opt_default_def Let_def)
  with mark_status [OF m] show ?thesis by (simp add: sx_mark_def)
qed

lemma open_lib_settle:
  assumes "get intents_coll i (sx_store sx) = Some row" and "row \<noteq> []" and "connected (sx_adapter sx)" and "lc_state m = SUBMIT"
  shows "\<exists>sx' r. settle put get open_lib now sx m i oid = (sx', Inr r)"
proof -
  obtain sx1 row1 where m1: "sx_mark put get now sx i I_SUBMITTED None (Some oid) = (sx1, Inr row1)"
      "sx_adapter sx1 = sx_adapter sx" "get intents_coll i (sx_store sx1) = Some row1" "row1 \<noteq> []"
    using sx_mark_total [OF assms(1,2)] by blast
  obtain a ord where a: "sandbox_order_status open_lib (sx_adapter sx1) oid = (a, Inr ord)" "connected a"
    using open_lib_adapter(4) assms(3) m1(2) by metis
  then have "\<not> open_status ord" using status_never_open [of open_lib "sx_adapter sx1" oid ord] by simp
  moreover obtain sx2 row2 where m2: "sx_mark put get now (sx1\<lparr>sx_adapter := a\<rparr>) i I_FILLED None (Some oid) = (sx2, Inr row2)"
      "sx_adapter sx2 = a"
    using sx_mark_total [where i = i and sx = "sx1\<lparr>sx_adapter := a\<rparr>" and row = row1 and now = now and s = I_FILLED
        and reasons = None and oid = "Some oid"] m1(3,4) by auto
  moreover obtain sx3 c where "sandbox_reconcile put open_lib now sx2 = (sx3, Inr c)"
    using open_lib_reconcile [of sx2] a(2) m2(2) by blast
  ultimately show ?thesis using m1(1) a(1) assms(4) by (simp add: settle_def then_do_def Let_def)
qed

text \<open>So the service carries an order through to the end at this venue.\<close>

lemma open_lib_executes:
  assumes "connected (sx_adapter sx)" and "\<not> sx_kill_switch sx" and "sx_market_fresh sx" and "sx_risk_ok sx"
    and "ledger_persist put get now (sx_store sx) it = (st1, Inr it1)"
  shows "\<exists>sx' r. sandbox_execute put get open_lib se now sx it = (sx', Inr r) \<and> er_executed r"
proof -
  let ?sx = "set_store sx st1" and ?i = "oi_intent_id it1"
  let ?h = "[CREATE_INTENT, RISK_CHECK, IDEMPOTENCY_CHECK, SUBMIT]"
  obtain row where "get intents_coll ?i (sx_store ?sx) = Some row" "row \<noteq> []"
    using persisted_row [OF assms(5)] public_dict_simps(1) [of it1] by auto
  then obtain sx1 row1 where m1: "sx_mark put get now ?sx ?i I_SUBMITTING None None = (sx1, Inr row1)"
      "sx_adapter sx1 = sx_adapter sx" "get intents_coll ?i (sx_store sx1) = Some row1" "row1 \<noteq> []"
    using sx_mark_total [of ?i ?sx row] by (metis set_store_simps(2))
  obtain a su where su: "sandbox_submit open_lib se (sx_adapter sx1) (oi_symbol it1) (oi_side it1) (oi_quantity it1) ''MARKET''
        None (Some ?i) = (a, su)" "su_accepted su" "connected a"
    using open_lib_adapter(5) assms(1) m1(2) by metis
  obtain sx2 r where st: "settle put get open_lib now (sx1\<lparr>sx_adapter := a\<rparr>) \<lparr>lc_state = SUBMIT, lc_history = ?h\<rparr> ?i
        (opt_default (su_exchange_order_id su) []) = (sx2, Inr r)"
    using open_lib_settle [of ?i "sx1\<lparr>sx_adapter := a\<rparr>" row1] m1(3,4) su(3) by fastforce
  have "sandbox_execute put get open_lib se now sx it = (sx2, Inr r)"
    using assms(2-5) m1(1) su(1,2) st
    by (simp add: sandbox_execute_def then_do_def new_lifecycle_def submit_step_def after_submit_def
        persisted_no_duplicate [OF assms(5)])
  moreover have "er_executed r" using settle_outcome [OF st] by simp
  ultimately show ?thesis by blast
qed

end

section \<open>Properties\<close>


definition demo_exec :: "store sandbox_exec" where
  "demo_exec = \<lparr>sx_adapter = \<lparr>sa_venue = new_venue TESTNET ''k'' ''s'' True, sa_ops = []\<rparr>,
     sx_recon = \<lparr>rc_store = st_empty, rc_last = None\<rparr>, sx_kill_switch = False, sx_risk_ok = True, sx_market_fresh = True,
     sx_stage = STAGE_2_CLOUD_PAPER\<rparr>"

definition demo_runtime :: "store runtime" where
  "demo_runtime = \<lparr>rt_exec = demo_exec, rt_inner = \<lparr>lk_base = ks_initial, lk_last_cancel = None, lk_events = []\<rparr>,
     rt_ws = \<lparr>ws_enabled = True, ws_connected = True, ws_last_message = Some 0, ws_reconnect_attempts = 1,
       ws_last_error = None, ws_seen = [], ws_max_age = Fin 30, ws_max_retries = 5\<rparr>, rt_alerts = [], rt_cycles = []\<rparr>"


text \<open>A submission the venue accepts is booked as filled, whatever the venue says about it: when a run of the
  service executes, its lifecycle goes through FULL_FILL to RECONCILIATION, the ledger marks the intent
  FILLED, and the exchange's snapshot is reconciled against itself, so that without a NaN in it new trades are
  never blocked.\<close>

theorem sandbox_books_every_order_filled:
  assumes "sandbox_execute st_put st_get lib se now sx it = (sx', Inr r)" and "er_executed r"
  shows "lc_history (er_lifecycle r) = [CREATE_INTENT, RISK_CHECK, IDEMPOTENCY_CHECK, SUBMIT, ACK, OPEN_NEW, FULL_FILL,
        POSITION_UPDATE, CLOSE, RECONCILIATION]
    \<and> (\<exists>row. st_get intents_coll (oi_intent_id it) (sx_store sx') = Some row \<and> dget row ''status'' = Some (JStr ''FILLED''))
    \<and> (\<exists>snap c. recon_compare now snap (Some snap) None = Inr c \<and> er_recon r = Some c
         \<and> (json_plain (JObj snap) \<longrightarrow> \<not> er_blocks_new_trades r))"
proof -
  from sqlite.execute_outcome [OF assms(1)] assms(2)
  have ends: "submit_ends st_get now (sx_store sx') [CREATE_INTENT, RISK_CHECK, IDEMPOTENCY_CHECK] (oi_intent_id it) r" by blast
  then obtain snap c where c: "recon_compare now snap (Some snap) None = Inr c" "er_recon r = Some c"
      "er_blocks_new_trades r = (rr_state c \<noteq> RECONCILED)"
    using assms(2) by (auto simp: submit_ends_def)
  then have "json_plain (JObj snap) \<longrightarrow> \<not> er_blocks_new_trades r" using self_compare [of snap now c] by blast
  moreover have "lc_history (er_lifecycle r) = [CREATE_INTENT, RISK_CHECK, IDEMPOTENCY_CHECK, SUBMIT, ACK, OPEN_NEW, FULL_FILL,
      POSITION_UPDATE, CLOSE, RECONCILIATION]"
    and "\<exists>row. st_get intents_coll (oi_intent_id it) (sx_store sx') = Some row \<and> dget row ''status'' = Some (JStr ''FILLED'')"
    using ends assms(2) by (simp_all add: submit_ends_def)
  ultimately show ?thesis using c(1,2) by blast
qed

theorem sandbox_books_every_order_filled_witness:
  "\<exists>sx' r row. sandbox_execute st_put st_get open_lib \<lparr>se_trading_mode = ''paper'', se_live_enabled = False\<rparr> 1 demo_exec
      (demo_intent ''INT-1'') = (sx', Inr r)
    \<and> st_get intents_coll ''INT-1'' (sx_store sx') = Some row \<and> dget row ''status'' = Some (JStr ''FILLED'')"
proof -
  obtain st1 it1 where p: "ledger_persist st_put st_get 1 (sx_store demo_exec) (demo_intent ''INT-1'') = (st1, Inr it1)"
    by (simp add: demo_exec_def ledger_persist_def opt_default_def Let_def demo_intent_def)
  have "connected (sx_adapter demo_exec)" "\<not> sx_kill_switch demo_exec" "sx_market_fresh demo_exec" "sx_risk_ok demo_exec"
    by (simp_all add: demo_exec_def connected_def new_venue_def sandboxed_def)
  from sqlite.open_lib_executes [OF this p] obtain sx' r where
      e: "sandbox_execute st_put st_get open_lib \<lparr>se_trading_mode = ''paper'', se_live_enabled = False\<rparr> 1 demo_exec
        (demo_intent ''INT-1'') = (sx', Inr r)" and x: "er_executed r" by blast
  have "oi_intent_id (demo_intent ''INT-1'') = ''INT-1''" by (simp add: demo_intent_def)
  with sandbox_books_every_order_filled [OF e x] e show ?thesis by metis
qed

end
