(* ===== verification/Portfolio.thy ===== *)
theory Portfolio
  imports Prelude
begin

text \<open>
  \<open>portfolio/manager.py\<close>: positions, the portfolio's cash and counters, marking to
  market, opening and closing.  An operation that raises keeps what it assigned before
  the exception, so each one returns the state beside its result.
\<close>

record position =
  pos_symbol :: string
  pos_side :: string
  pos_quantity :: pyfloat
  pos_average_entry_price :: pyfloat
  pos_current_price :: pyfloat
  pos_market_value :: pyfloat
  pos_unrealized_pnl :: pyfloat
  pos_realized_pnl :: pyfloat
  pos_fees :: pyfloat
  pos_stop_loss :: "pyfloat option"
  pos_take_profit :: "pyfloat option"
  pos_strategy_id :: "string option"
  pos_strategy_version :: "string option"

record portfolio =
  pf_cash :: pyfloat
  pf_realized_pnl :: pyfloat
  pf_fees_paid :: pyfloat
  pf_peak_equity :: pyfloat
  pf_day_start_equity :: pyfloat
  pf_positions :: "(string \<times> position) list"
  pf_trades_today :: int

record portfolio_snapshot =
  sn_cash :: pyfloat
  sn_equity :: pyfloat
  sn_available_cash :: pyfloat
  sn_positions_exposure :: pyfloat
  sn_realized_pnl :: pyfloat
  sn_unrealized_pnl :: pyfloat
  sn_fees :: pyfloat
  sn_daily_pnl :: pyfloat
  sn_drawdown_pct :: pyfloat
  sn_peak_equity :: pyfloat
  sn_positions :: "position list"
  sn_trades_today :: int

text \<open>Membership of an upper case side in \<open>{"LONG", "BUY"}\<close> and \<open>{"SHORT", "SELL"}\<close>.\<close>

definition long_name :: "string \<Rightarrow> bool" where
  "long_name s \<longleftrightarrow> s = ''LONG'' \<or> s = ''BUY''"

definition short_name :: "string \<Rightarrow> bool" where
  "short_name s \<longleftrightarrow> s = ''SHORT'' \<or> s = ''SELL''"

definition long_side :: "string \<Rightarrow> bool" where
  "long_side s \<longleftrightarrow> long_name (py_upper s)"

definition short_side :: "string \<Rightarrow> bool" where
  "short_side s \<longleftrightarrow> short_name (py_upper s)"

lemma short_not_long: "short_side s \<Longrightarrow> \<not> long_side s"
  by (auto simp: short_side_def long_side_def short_name_def long_name_def)

definition new_portfolio :: "pyfloat \<Rightarrow> portfolio" where
  "new_portfolio c = \<lparr>pf_cash = c, pf_realized_pnl = Fin 0, pf_fees_paid = Fin 0,
     pf_peak_equity = c, pf_day_start_equity = c, pf_positions = [], pf_trades_today = 0\<rparr>"

section \<open>Operations\<close>

definition mark :: "pyfloat \<Rightarrow> position \<Rightarrow> position" where
  "mark px p = p\<lparr>pos_current_price := px,
     pos_market_value := fmul (fabs (pos_quantity p)) px,
     pos_unrealized_pnl :=
       (if long_side (pos_side p)
        then fmul (fsub px (pos_average_entry_price p)) (pos_quantity p)
        else fmul (fsub (pos_average_entry_price p) px) (pos_quantity p))\<rparr>"

definition mark_all :: "(string \<times> pyfloat) list \<Rightarrow> (string \<times> position) list \<Rightarrow> (string \<times> position) list" where
  "mark_all marks ps = map (\<lambda>(k, p). (k, mark (case dget marks k of Some x \<Rightarrow> x | None \<Rightarrow> pos_current_price p) p)) ps"

definition equity_step :: "pyfloat \<Rightarrow> position \<Rightarrow> pyfloat" where
  "equity_step e p = (if long_side (pos_side p) then fadd e (pos_market_value p)
                      else fsub e (pos_market_value p))"

definition drawdown_of :: "pyfloat \<Rightarrow> pyfloat \<Rightarrow> pyfloat" where
  "drawdown_of pk eq = (if fle pk (Fin 0) then Fin 0
     else pmax (Fin 0) (fquot (fsub pk eq) pk))"

definition snapshot :: "portfolio \<Rightarrow> (string \<times> pyfloat) list \<Rightarrow> portfolio \<times> portfolio_snapshot" where
  "snapshot pf marks =
     (let ps = mark_all marks (pf_positions pf);
          pl = map snd ps;
          unrealized = foldl (\<lambda>a p. fadd a (pos_unrealized_pnl p)) (Fin 0) pl;
          exposure = foldl (\<lambda>a p. fadd a (pos_market_value p)) (Fin 0) pl;
          equity = foldl equity_step (pf_cash pf) pl;
          peak = pmax (pf_peak_equity pf) equity
      in (pf\<lparr>pf_positions := ps, pf_peak_equity := peak\<rparr>,
          \<lparr>sn_cash = pf_cash pf, sn_equity = equity, sn_available_cash = pmax (pf_cash pf) (Fin 0),
           sn_positions_exposure = exposure, sn_realized_pnl = pf_realized_pnl pf,
           sn_unrealized_pnl = unrealized, sn_fees = pf_fees_paid pf,
           sn_daily_pnl = fsub equity (pf_day_start_equity pf),
           sn_drawdown_pct = drawdown_of peak equity, sn_peak_equity = peak,
           sn_positions = pl, sn_trades_today = pf_trades_today pf\<rparr>))"

definition cash_tol :: pyfloat where
  "cash_tol = flit (1 / 10 ^ 9)"

definition qty_tol :: pyfloat where
  "qty_tol = flit (1 / 10 ^ 12)"

text \<open>The cash side of an opening, before the position is touched.\<close>

definition open_cash :: "portfolio \<Rightarrow> string \<Rightarrow> pyfloat \<Rightarrow> pyfloat \<Rightarrow> portfolio res" where
  "open_cash pf side notional fee =
     (if long_side side then
        (let cost = fadd notional fee
         in if flt (fadd (pf_cash pf) cash_tol) cost then Inl (ValueError ''Insufficient cash'')
            else Inr (pf\<lparr>pf_cash := fsub (pf_cash pf) cost\<rparr>))
      else if short_side side then
        Inr (pf\<lparr>pf_cash := fadd (pf_cash pf) (fsub notional fee)\<rparr>)
      else Inl (ValueError (''Unsupported side: '' @ side)))"

definition add_to_position :: "position \<Rightarrow> pyfloat \<Rightarrow> pyfloat \<Rightarrow> pyfloat \<Rightarrow> position res" where
  "add_to_position p qty px fee =
     (let total = fadd (pos_quantity p) qty
      in case fdiv (fadd (fmul (pos_average_entry_price p) (pos_quantity p)) (fmul px qty)) total of
           Inl e \<Rightarrow> Inl e
         | Inr avg \<Rightarrow> Inr (mark px (p\<lparr>pos_average_entry_price := avg, pos_quantity := total,
                                     pos_fees := fadd (pos_fees p) fee\<rparr>)))"

definition open_position ::
  "portfolio \<Rightarrow> string \<Rightarrow> string \<Rightarrow> pyfloat \<Rightarrow> pyfloat \<Rightarrow> pyfloat \<Rightarrow> pyfloat option \<Rightarrow> pyfloat option
   \<Rightarrow> string option \<Rightarrow> string option \<Rightarrow> portfolio \<times> position res" where
  "open_position pf sy side qty px fee sl tp sid sver =
     (if fle qty (Fin 0) \<or> fle px (Fin 0) then (pf, Inl (ValueError ''quantity and price must be positive''))
      else
        (let notional = fmul qty px; side_u = py_upper side
         in case open_cash pf side notional fee of
              Inl e \<Rightarrow> (pf, Inl e)
            | Inr pf1 \<Rightarrow>
                (let pf2 = pf1\<lparr>pf_fees_paid := fadd (pf_fees_paid pf1) fee\<rparr>
                 in case dget (pf_positions pf2) sy of
                      Some p \<Rightarrow>
                        (if py_upper (pos_side p) = side_u then
                           (case add_to_position p qty px fee of
                              Inl e \<Rightarrow> (pf2, Inl e)
                            | Inr p' \<Rightarrow> (pf2\<lparr>pf_positions := dput sy p' (pf_positions pf2),
                                          pf_trades_today := pf_trades_today pf2 + 1\<rparr>, Inr p'))
                         else (pf2, Inl (ValueError ''Close opposite position before opening reverse side'')))
                    | None \<Rightarrow>
                        (let p' = \<lparr>pos_symbol = sy, pos_side = side_u, pos_quantity = qty,
                                   pos_average_entry_price = px, pos_current_price = px,
                                   pos_market_value = notional, pos_unrealized_pnl = Fin 0,
                                   pos_realized_pnl = Fin 0, pos_fees = fee, pos_stop_loss = sl,
                                   pos_take_profit = tp, pos_strategy_id = sid,
                                   pos_strategy_version = sver\<rparr>
                         in (pf2\<lparr>pf_positions := dput sy p' (pf_positions pf2),
                                 pf_trades_today := pf_trades_today pf2 + 1\<rparr>, Inr p')))))"

definition close_position ::
  "portfolio \<Rightarrow> string \<Rightarrow> pyfloat option \<Rightarrow> pyfloat \<Rightarrow> pyfloat \<Rightarrow> portfolio \<times> pyfloat res" where
  "close_position pf sy qopt px fee =
     (case dget (pf_positions pf) sy of
        None \<Rightarrow> (pf, Inl (KeyError (''No position for '' @ sy)))
      | Some p \<Rightarrow>
          (let qty = (case qopt of None \<Rightarrow> pos_quantity p | Some q \<Rightarrow> q)
           in if fle qty (Fin 0) \<or> flt (fadd (pos_quantity p) qty_tol) qty
              then (pf, Inl (ValueError ''Invalid close quantity''))
              else
                (let long = long_side (pos_side p);
                     pnl = (if long then fsub (fmul (fsub px (pos_average_entry_price p)) qty) fee
                            else fsub (fmul (fsub (pos_average_entry_price p) px) qty) fee);
                     cash = (if long then fadd (pf_cash pf) (fsub (fmul qty px) fee)
                             else fsub (pf_cash pf) (fadd (fmul qty px) fee));
                     p1 = p\<lparr>pos_realized_pnl := fadd (pos_realized_pnl p) pnl,
                            pos_fees := fadd (pos_fees p) fee\<rparr>;
                     ps = (if flt (fabs (fsub (pos_quantity p) qty)) qty_tol
                           then ddel sy (pf_positions pf)
                           else dput sy (mark px (p1\<lparr>pos_quantity := fsub (pos_quantity p) qty\<rparr>))
                                  (pf_positions pf))
                 in (pf\<lparr>pf_cash := cash, pf_realized_pnl := fadd (pf_realized_pnl pf) pnl,
                        pf_fees_paid := fadd (pf_fees_paid pf) fee, pf_positions := ps,
                        pf_trades_today := pf_trades_today pf + 1\<rparr>, Inr pnl))))"

definition reset_day :: "portfolio \<Rightarrow> portfolio" where
  "reset_day pf = (let (pf', sn) = snapshot pf []
                   in pf'\<lparr>pf_day_start_equity := sn_equity sn, pf_trades_today := 0\<rparr>)"

section \<open>The structure of the book\<close>

definition book_ok :: "(string \<times> position) list \<Rightarrow> bool" where
  "book_ok ps \<longleftrightarrow> keys_ok ps \<and>
     (\<forall>(k, p) \<in> set ps. pos_symbol p = k \<and> (long_name (pos_side p) \<or> short_name (pos_side p)))"

lemma book_okI:
  "keys_ok ps \<Longrightarrow> (\<And>k p. (k, p) \<in> set ps \<Longrightarrow> pos_symbol p = k) \<Longrightarrow>
   (\<And>k p. (k, p) \<in> set ps \<Longrightarrow> long_name (pos_side p) \<or> short_name (pos_side p)) \<Longrightarrow> book_ok ps"
  by (auto simp: book_ok_def)

lemma book_ok_get:
  "book_ok ps \<Longrightarrow> dget ps k = Some p \<Longrightarrow> pos_symbol p = k \<and> (long_name (pos_side p) \<or> short_name (pos_side p))"
  by (auto simp: book_ok_def dest: dget_in_set)

lemma book_ok_put [inv_intros]:
  assumes "book_ok ps" and "pos_symbol p = k" and "long_name (pos_side p) \<or> short_name (pos_side p)"
  shows "book_ok (dput k p ps)"
proof (rule book_okI)
  show "keys_ok (dput k p ps)" using assms(1) by (auto simp: book_ok_def)
qed (use assms set_dput [of k p ps] in \<open>auto simp: book_ok_def\<close>)

lemma book_ok_del [inv_intros]: "book_ok ps \<Longrightarrow> book_ok (ddel k ps)"
  unfolding book_ok_def using set_ddel [of k ps] by (auto intro: keys_ok_ddel)

lemma mark_fields [simp]:
  "pos_symbol (mark x p) = pos_symbol p" "pos_side (mark x p) = pos_side p"
  "pos_quantity (mark x p) = pos_quantity p" "pos_current_price (mark x p) = x"
  "pos_average_entry_price (mark x p) = pos_average_entry_price p"
  "pos_realized_pnl (mark x p) = pos_realized_pnl p" "pos_fees (mark x p) = pos_fees p"
  "pos_stop_loss (mark x p) = pos_stop_loss p" "pos_take_profit (mark x p) = pos_take_profit p"
  by (simp_all add: mark_def)

lemma keys_mark_all [simp]: "map fst (mark_all ms ps) = map fst ps"
  by (induction ps) (auto simp: mark_all_def)

lemma book_ok_mark_all [inv_intros]: "book_ok ps \<Longrightarrow> book_ok (mark_all ms ps)"
  unfolding book_ok_def keys_ok_def keys_mark_all by (auto simp: mark_all_def)

lemma dget_mark_all:
  "dget (mark_all ms ps) k = map_option
     (\<lambda>p. mark (case dget ms k of Some x \<Rightarrow> x | None \<Rightarrow> pos_current_price p) p) (dget ps k)"
  by (induction ps) (auto simp: mark_all_def split: option.splits)

lemma mark_again: "mark (pos_current_price (mark x p)) (mark x p) = mark x p"
  by (simp add: mark_def)

lemma open_cash_positions: "open_cash pf s n f = Inr pf' \<Longrightarrow>
  pf_positions pf' = pf_positions pf \<and> pf_fees_paid pf' = pf_fees_paid pf \<and> pf_trades_today pf' = pf_trades_today pf
  \<and> pf_peak_equity pf' = pf_peak_equity pf"
  by (auto simp: open_cash_def Let_def split: if_splits)

lemma open_cash_side: "open_cash pf s n f = Inr pf' \<Longrightarrow> long_side s \<or> short_side s"
  by (auto simp: open_cash_def Let_def split: if_splits)

lemma add_to_position_fields:
  "add_to_position p q x f = Inr p' \<Longrightarrow> pos_symbol p' = pos_symbol p \<and> pos_side p' = pos_side p
   \<and> pos_quantity p' = fadd (pos_quantity p) q"
  by (auto simp: add_to_position_def Let_def split: sum.splits)

lemma side_upper [simp]:
  "long_side (py_upper s) = long_side s" "short_side (py_upper s) = short_side s"
  by (simp_all add: long_side_def short_side_def)

lemma open_position_book [inv_intros]:
  assumes "book_ok (pf_positions pf)"
  shows "book_ok (pf_positions (fst (open_position pf sy sd q x f sl tp i v)))"
proof (cases "open_cash pf sd (fmul q x) f")
  case (Inl e)
  with assms show ?thesis by (simp add: open_position_def Let_def)
next
  case (Inr pf1)
  note cash = open_cash_positions [OF Inr] open_cash_side [OF Inr]
  show ?thesis
  proof (cases "dget (pf_positions pf) sy")
    case None
    with assms Inr cash show ?thesis
      by (auto simp: open_position_def Let_def long_side_def short_side_def intro!: book_ok_put)
  next
    case (Some p)
    with assms Inr cash book_ok_get [OF assms Some] show ?thesis
      by (auto simp: open_position_def Let_def split: sum.splits
          dest: add_to_position_fields intro!: book_ok_put)
  qed
qed

lemma close_position_book [inv_intros]:
  assumes "book_ok (pf_positions pf)"
  shows "book_ok (pf_positions (fst (close_position pf sy q x f)))"
  using assms book_ok_get [OF assms, of sy]
  by (auto simp: close_position_def Let_def split: option.splits intro!: book_ok_put book_ok_del)

lemma snapshot_book [inv_intros]:
  "book_ok (pf_positions pf) \<Longrightarrow> book_ok (pf_positions (fst (snapshot pf ms)))"
  by (simp add: snapshot_def Let_def book_ok_mark_all)

section \<open>Runs of operations\<close>

datatype pf_op =
    Open_Op string string pyfloat pyfloat pyfloat "pyfloat option" "pyfloat option"
  | Close_Op string "pyfloat option" pyfloat pyfloat
  | Snapshot_Op "(string \<times> pyfloat) list"
  | Reset_Op

fun pf_exec :: "portfolio \<Rightarrow> pf_op \<Rightarrow> portfolio" where
  "pf_exec pf (Open_Op sy sd q x f sl tp) = fst (open_position pf sy sd q x f sl tp None None)"
| "pf_exec pf (Close_Op sy q x f) = fst (close_position pf sy q x f)"
| "pf_exec pf (Snapshot_Op ms) = fst (snapshot pf ms)"
| "pf_exec pf Reset_Op = reset_day pf"

lemma reset_day_fields [simp]:
  "pf_positions (reset_day pf) = pf_positions (fst (snapshot pf []))"
  "pf_peak_equity (reset_day pf) = pf_peak_equity (fst (snapshot pf []))"
  "pf_cash (reset_day pf) = pf_cash pf" "pf_trades_today (reset_day pf) = 0"
  by (simp_all add: reset_day_def snapshot_def Let_def)

lemma pf_exec_book [inv_intros]: "book_ok (pf_positions pf) \<Longrightarrow> book_ok (pf_positions (pf_exec pf e))"
  by (cases e) (simp_all add: open_position_book close_position_book snapshot_book)

lemma open_position_peak [simp]: "pf_peak_equity (fst (open_position pf sy sd q x f sl tp i v)) = pf_peak_equity pf"
  by (auto simp: open_position_def Let_def split: sum.splits option.splits dest: open_cash_positions)

lemma close_position_peak [simp]: "pf_peak_equity (fst (close_position pf sy q x f)) = pf_peak_equity pf"
  by (auto simp: close_position_def Let_def split: option.splits)

lemma snapshot_peak:
  "pf_peak_equity pf \<noteq> NaN \<Longrightarrow> fle (pf_peak_equity pf) (pf_peak_equity (fst (snapshot pf ms)))"
  by (simp add: snapshot_def Let_def pmax_ge)

lemma pf_exec_peak: "pf_peak_equity pf \<noteq> NaN \<Longrightarrow> fle (pf_peak_equity pf) (pf_peak_equity (pf_exec pf e))"
  by (cases e) (simp_all add: snapshot_peak)

lemma pf_run_inv:
  "book_ok (pf_positions pf) \<Longrightarrow> pf_peak_equity pf \<noteq> NaN \<Longrightarrow>
   book_ok (pf_positions (foldl pf_exec pf es)) \<and> fle (pf_peak_equity pf) (pf_peak_equity (foldl pf_exec pf es))"
proof (induction es arbitrary: pf)
  case (Cons e es)
  have *: "fle (pf_peak_equity pf) (pf_peak_equity (pf_exec pf e))"
    using Cons.prems(2) by (rule pf_exec_peak)
  from Cons.IH [of "pf_exec pf e"] pf_exec_book [OF Cons.prems(1)] fle_not_NaN [OF *]
  show ?case by (auto intro: fle_trans [OF *])
qed simp

section \<open>Results of the operations\<close>

lemma drawdown_bounds:
  assumes "pk \<noteq> NaN" and "eq \<noteq> NaN" and "fle eq pk"
  shows "drawdown_of pk eq = NaN \<or> fle (Fin 0) (drawdown_of pk eq)"
  by (auto simp: drawdown_of_def pmax_ge)

lemma fsub_diff_nonneg: "fle b a \<Longrightarrow> fsub a b \<noteq> NaN \<Longrightarrow> fle (Fin 0) (fsub a b)"
  by (cases a; cases b) (auto simp: fsub_def intro: rnd_nonneg)

lemma drawdown_le_1:
  assumes "flt (Fin 0) (Fin k)" and "fle (Fin 0) (Fin e)" and "rnd k = Fin k"
  shows "fle (drawdown_of (Fin k) (Fin e)) (Fin 1)"
proof -
  have k: "0 < k" and e: "0 \<le> e" using assms by auto
  have "fle (rnd (k - e)) (Fin k)"
    using rnd_Fin_mono_upper [OF assms(3), of "k - e"] e by simp
  then have "fle (fquot (rnd (k - e)) (Fin k)) (Fin 1)"
  proof (cases "rnd (k - e)")
    case (Fin d)
    with \<open>fle (rnd (k - e)) (Fin k)\<close> k have "d / k \<le> 1" by simp
    then show ?thesis using Fin rnd_Fin_mono_upper [of 1 "d / k"] by simp
  qed (use k in \<open>auto simp: finf_def\<close>)
  then show ?thesis using k by (auto simp: drawdown_of_def pmax_def)
qed

lemma cash_tol_value: "cash_tol = Fin (4835703278458517 / 4835703278458516698824704)"
  by (simp add: cash_tol_def fl_eval)

lemma twice_cash_tol: "fmul (Fin 2) cash_tol = Fin (2 * (4835703278458517 / 4835703278458516698824704))"
  by (simp add: cash_tol_value fl_eval)

lemma rnd_Fin_iff: "rnd x = Fin y \<longleftrightarrow> \<bar>rval x\<bar> < f_overflow \<and> y = rval x"
  using f_overflow_pos by (auto simp: rnd_def)

lemma long_cash_floor:
  assumes op: "open_cash pf s n f = Inr pf'" and lng: "long_side s"
    and c: "pf_cash pf = Fin c" "rnd c = Fin c" and k: "fadd n f = Fin k" "rnd k = Fin k"
  shows "fle (fneg (fmul (Fin 2) cash_tol)) (pf_cash pf')"
proof -
  define t :: rat where "t = 4835703278458517 / 4835703278458516698824704"
  have t: "cash_tol = Fin t" and "0 \<le> t" by (simp_all add: cash_tol_value t_def)
  have two: "fmul (Fin 2) cash_tol = Fin (2 * t)" unfolding twice_cash_tol t_def ..
  have "rnd (2 * t) = Fin (2 * t)"
    using two unfolding t by simp
  then have r2: "rnd (- (2 * t)) = Fin (- (2 * t))" by (simp add: rnd_minus)
  from op lng c k have le: "\<not> flt (fadd (Fin c) cash_tol) (Fin k)" and cash: "pf_cash pf' = rnd (c - k)"
    by (auto simp: open_cash_def Let_def split: if_splits)
  have "rval (c + t) \<le> c + 2 * t"
    using rval_nearest [of c "c + t"] c(2) \<open>0 \<le> t\<close> by (auto simp: rnd_Fin_iff abs_if split: if_splits)
  moreover have "k \<le> rval (c + t)"
  proof -
    have "\<not> flt (rnd (c + t)) (Fin k)" using le unfolding t by simp
    moreover have "k < f_overflow" using k(2) unfolding rnd_Fin_iff by linarith
    ultimately show ?thesis by (simp add: rnd_def split: if_splits)
  qed
  ultimately have "- (2 * t) \<le> c - k" by simp
  from rnd_Fin_mono [OF r2 this] show ?thesis unfolding two cash by simp
qed

section \<open>Whole-number accounts\<close>

text \<open>
  On accounts whose amounts are integers below \<open>2^53\<close> the float arithmetic is exact, and
  the cash is what double entry accounting says.
\<close>

definition proceeds :: "bool \<Rightarrow> int \<Rightarrow> int \<Rightarrow> int \<Rightarrow> int" where
  "proceeds long q x f = (if long then q * x - f else - (q * x + f))"

definition gain :: "bool \<Rightarrow> int \<Rightarrow> int \<Rightarrow> int \<Rightarrow> int" where
  "gain long q x0 x1 = (if long then (x1 - x0) * q else (x0 - x1) * q)"

lemma flt_whole_tol: "0 \<le> m \<Longrightarrow> \<bar>m\<bar> < 2 ^ 53 \<Longrightarrow> k \<le> m \<Longrightarrow> fle (Fin 0) t \<Longrightarrow> \<not> flt (fadd (whole m) t) (whole k)"
proof
  assume a: "\<bar>m\<bar> < 2 ^ 53" "k \<le> m" "fle (Fin 0) t" and lt: "flt (fadd (whole m) t) (whole k)"
  have "fle (whole m) (fadd (whole m) t)"
    using a by (intro fadd_ge whole_f64) (auto simp: whole_def)
  with lt a(2) show False by (meson fle_flt_trans flt_not_fle whole_fle)
qed

lemma tols_nonneg [simp]: "fle (Fin 0) cash_tol" "fle (Fin 0) qty_tol" "flt (Fin 0) qty_tol"
  by (simp_all add: cash_tol_value qty_tol_def fl_eval)

lemma open_whole:
  assumes pos: "0 < q" "0 < x" and sd: "long_side sd \<or> short_side sd"
    and none: "dget (pf_positions pf) sy = None" and cash: "pf_cash pf = whole c"
    and afford: "long_side sd \<Longrightarrow> q * x + f \<le> c" and c0: "0 \<le> c"
    and bounds: "\<bar>c\<bar> < 2 ^ 53" "\<bar>q * x\<bar> < 2 ^ 53" "\<bar>q * x + f\<bar> < 2 ^ 53" "\<bar>q * x - f\<bar> < 2 ^ 53"
      "\<bar>c - (q * x + f)\<bar> < 2 ^ 53" "\<bar>c + (q * x - f)\<bar> < 2 ^ 53"
  shows "\<exists>pf' p. open_position pf sy sd (whole q) (whole x) (whole f) sl tp i v = (pf', Inr p)
    \<and> pf_cash pf' = whole (if long_side sd then c - (q * x + f) else c + (q * x - f))
    \<and> pf_positions pf' = dput sy p (pf_positions pf) \<and> pf_realized_pnl pf' = pf_realized_pnl pf
    \<and> pos_quantity p = whole q \<and> pos_average_entry_price p = whole x \<and> pos_side p = py_upper sd"
proof -
  have guard: "\<not> fle (whole q) (Fin 0)" "\<not> fle (whole x) (Fin 0)"
    using pos by (simp_all add: whole_0)
  have slack: "long_side sd \<Longrightarrow> \<not> flt (fadd (whole c) cash_tol) (whole (q * x + f))"
    using afford by (intro flt_whole_tol c0 bounds) auto
  show ?thesis
  proof (cases "long_side sd")
    case True
    with guard slack bounds none cash show ?thesis
      by (simp add: open_position_def open_cash_def Let_def whole_mul whole_add whole_sub long_side_def)
  next
    case False
    with guard slack bounds none cash sd show ?thesis
      by (simp add: open_position_def open_cash_def Let_def whole_mul whole_add whole_sub
          long_side_def short_side_def)
  qed
qed

lemma close_whole:
  assumes pos: "0 < q" and p: "dget (pf_positions pf) sy = Some p"
    and flds: "pos_quantity p = whole q" "pos_average_entry_price p = whole x0"
    and cash: "pf_cash pf = whole c" "pf_realized_pnl pf = whole r"
    and bounds: "q < 2 ^ 53" "\<bar>q * x\<bar> < 2 ^ 53" "\<bar>q * x + f\<bar> < 2 ^ 53" "\<bar>q * x - f\<bar> < 2 ^ 53"
      "\<bar>c + proceeds (long_side (pos_side p)) q x f\<bar> < 2 ^ 53" "\<bar>x - x0\<bar> < 2 ^ 53"
      "\<bar>gain (long_side (pos_side p)) q x0 x\<bar> < 2 ^ 53"
      "\<bar>gain (long_side (pos_side p)) q x0 x - f\<bar> < 2 ^ 53"
      "\<bar>r + (gain (long_side (pos_side p)) q x0 x - f)\<bar> < 2 ^ 53"
  shows "\<exists>pf'. close_position pf sy None (whole x) (whole f) =
      (pf', Inr (whole (gain (long_side (pos_side p)) q x0 x - f)))
    \<and> pf_cash pf' = whole (c + proceeds (long_side (pos_side p)) q x f)
    \<and> pf_realized_pnl pf' = whole (r + (gain (long_side (pos_side p)) q x0 x - f))
    \<and> pf_positions pf' = ddel sy (pf_positions pf)"
proof -
  have g1: "\<not> fle (whole q) (Fin 0)" using pos by (simp add: whole_0)
  have g2: "\<not> flt (fadd (whole q) qty_tol) (whole q)"
    using pos bounds(1) by (intro flt_whole_tol) simp_all
  note guard = g1 g2
  have same: "flt (fabs (fsub (whole q) (whole q))) qty_tol"
    by (simp add: whole_sub flip: whole_0)
  show ?thesis
  proof (cases "long_side (pos_side p)")
    case True
    have b: "\<bar>(x - x0) * q\<bar> < 2 ^ 53" "\<bar>(x - x0) * q - f\<bar> < 2 ^ 53"
      "\<bar>r + ((x - x0) * q - f)\<bar> < 2 ^ 53" "\<bar>c + (q * x - f)\<bar> < 2 ^ 53"
      using bounds(5,7-) by (simp_all only: True gain_def proceeds_def if_True)
    note eqs = whole_sub [OF bounds(6)] whole_mul [OF b(1)] whole_mul [OF bounds(2)] whole_sub [OF b(2)]
      whole_sub [OF bounds(4)] whole_add [OF b(3)] whole_add [OF b(4)]
    show ?thesis
      by (simp add: close_position_def Let_def proceeds_def gain_def True guard same p flds cash eqs)
  next
    case False
    have b: "\<bar>(x0 - x) * q\<bar> < 2 ^ 53" "\<bar>(x0 - x) * q - f\<bar> < 2 ^ 53"
      "\<bar>r + ((x0 - x) * q - f)\<bar> < 2 ^ 53" "\<bar>c + - (q * x + f)\<bar> < 2 ^ 53"
      using bounds(5,7-) by (simp_all only: False gain_def proceeds_def if_False)
    have c: "c - (q * x + f) = c + - (q * x + f)" and sb: "\<bar>x0 - x\<bar> < 2 ^ 53"
      using bounds(6) by simp_all
    note eqs = whole_sub [OF sb] whole_mul [OF b(1)] whole_mul [OF bounds(2)] whole_sub [OF b(2)]
      whole_add [OF bounds(3)] whole_add [OF b(3)] whole_sub [of c "q * x + f", unfolded c, OF b(4)]
    show ?thesis
      by (simp add: close_position_def Let_def proceeds_def gain_def False guard same p flds cash eqs
          del: minus_add_distrib)
  qed
qed

section \<open>Properties\<close>

lemma account_bounds:
  fixes A B c f0 f1 :: int
  assumes "0 \<le> A" "A < 2 ^ 50" "0 \<le> B" "B < 2 ^ 50" "0 \<le> c" "c < 2 ^ 50" "0 \<le> f0" "f0 < 2 ^ 50"
    "0 \<le> f1" "f1 < 2 ^ 50"
  shows "\<bar>A\<bar> < 2 ^ 53" "\<bar>A + f0\<bar> < 2 ^ 53" "\<bar>A - f0\<bar> < 2 ^ 53" "\<bar>c - (A + f0)\<bar> < 2 ^ 53"
    "\<bar>c + (A - f0)\<bar> < 2 ^ 53" "\<bar>B - A\<bar> < 2 ^ 53" "\<bar>A - B\<bar> < 2 ^ 53" "\<bar>B - A - f1\<bar> < 2 ^ 53"
    "\<bar>A - B - f1\<bar> < 2 ^ 53" "\<bar>c - (A + f0) + (B - f1)\<bar> < 2 ^ 53"
    "\<bar>c + (A - f0) + - (B + f1)\<bar> < 2 ^ 53"
  using assms by (simp_all add: abs_less_iff)



lemma mark_all_again: "mark_all [] (mark_all ms ps) = mark_all ms ps"
  by (auto simp: mark_all_def mark_def)

lemma pmax_again: "pmax (pmax a b) b = pmax a b"
  by (simp add: pmax_def)

lemma drawdown_not_NaN:
  "pk \<noteq> NaN \<Longrightarrow> drawdown_of pk eq \<noteq> NaN"
  by (auto simp: drawdown_of_def pmax_def)

text \<open>A snapshot never lowers the peak; for an equity that is a number the peak is at least
  the equity and the drawdown is at least zero, and at most one when the equity is not
  negative; marking the returned portfolio again without prices changes nothing.\<close>

theorem snapshot_peak_drawdown:
  assumes sn: "snapshot pf ms = (pf', sn)" and pk: "pf_peak_equity pf \<noteq> NaN"
  shows "fle (pf_peak_equity pf) (sn_peak_equity sn) \<and> sn_peak_equity sn = pf_peak_equity pf'
    \<and> (sn_equity sn \<noteq> NaN \<longrightarrow> fle (sn_equity sn) (sn_peak_equity sn))
    \<and> fle (Fin 0) (sn_drawdown_pct sn)
    \<and> (\<forall>k e. sn_peak_equity sn = Fin k \<and> rnd k = Fin k \<and> sn_equity sn = Fin e \<and> 0 \<le> e
          \<longrightarrow> fle (sn_drawdown_pct sn) (Fin 1))
    \<and> snapshot pf' [] = (pf', sn)"
proof -
  let ?eq = "sn_equity sn" let ?pk = "pmax (pf_peak_equity pf) ?eq"
  from sn have f: "sn_peak_equity sn = ?pk" "pf_peak_equity pf' = ?pk" "sn_drawdown_pct sn = drawdown_of ?pk ?eq"
    by (auto simp: snapshot_def Let_def)
  have nn: "?pk \<noteq> NaN" using pk by (auto simp: pmax_def)
  have "fle (Fin 0) (drawdown_of ?pk ?eq)" by (auto simp: drawdown_of_def pmax_ge)
  moreover have "fle (drawdown_of ?pk ?eq) (Fin 1)"
    if "?pk = Fin k" "rnd k = Fin k" "?eq = Fin e" "0 \<le> e" for k e
  proof (cases "0 < k")
    case True
    with that show ?thesis using drawdown_le_1 [of k e] by simp
  qed (use that in \<open>simp add: drawdown_of_def\<close>)
  moreover have "snapshot pf' [] = (pf', sn)"
    using sn by (auto simp: snapshot_def Let_def mark_all_again pmax_again)
  ultimately show ?thesis unfolding f using pk by (auto simp: pmax_ge pmax_ge2)
qed

theorem snapshot_peak_drawdown_witness:
  "\<exists>pf' sn. snapshot (new_portfolio (Fin 100)) [] = (pf', sn) \<and> sn_peak_equity sn = Fin 100
     \<and> fle (Fin 0) (sn_drawdown_pct sn)"
  using snapshot_peak_drawdown [of "new_portfolio (Fin 100)" "[]"]
  by (cases "snapshot (new_portfolio (Fin 100)) []")
    (auto simp: snapshot_def new_portfolio_def mark_all_def Let_def pmax_def)

text \<open>Along any sequence of openings, closings, snapshots and day resets from a new portfolio
  the book has one position per symbol, filed under its own symbol with a known side, and
  the peak equity is never below the starting cash.\<close>

theorem portfolio_run_invariant:
  assumes "c \<noteq> NaN"
  shows "book_ok (pf_positions (foldl pf_exec (new_portfolio c) es))
    \<and> fle c (pf_peak_equity (foldl pf_exec (new_portfolio c) es))"
  using pf_run_inv [of "new_portfolio c" es] assms by (simp add: new_portfolio_def book_ok_def)

theorem portfolio_run_invariant_witness:
  "fle (Fin 5) (pf_peak_equity (foldl pf_exec (new_portfolio (Fin 5)) [Reset_Op, Snapshot_Op []]))"
  using portfolio_run_invariant [of "Fin 5" "[Reset_Op, Snapshot_Op []]"] by simp

text \<open>A rejected closing leaves the portfolio as it was.  A rejected opening leaves the book and
  the counters as they were, but when the symbol is held on the other side the cash and the
  fees have already been charged as for a successful one.\<close>

theorem rejected_operations:
  "(\<forall>e. close_position pf sy q x f = (pf', Inl e) \<longrightarrow> pf' = pf)
   \<and> (\<forall>e. open_position pf sy sd qy x f sl tp i v = (pf', Inl e) \<longrightarrow>
        pf_positions pf' = pf_positions pf \<and> pf_trades_today pf' = pf_trades_today pf
        \<and> (dget (pf_positions pf) sy = None \<longrightarrow> pf' = pf))
   \<and> (\<forall>p pf1. dget (pf_positions pf) sy = Some p \<and> py_upper (pos_side p) \<noteq> py_upper sd
        \<and> \<not> fle qy (Fin 0) \<and> \<not> fle x (Fin 0) \<and> open_cash pf sd (fmul qy x) f = Inr pf1 \<longrightarrow>
        open_position pf sy sd qy x f sl tp i v =
          (pf1\<lparr>pf_fees_paid := fadd (pf_fees_paid pf) f\<rparr>,
           Inl (ValueError ''Close opposite position before opening reverse side'')))"
proof -
  have "open_position pf sy sd qy x f sl tp i v = (pf', Inl e) \<Longrightarrow>
    pf_positions pf' = pf_positions pf \<and> pf_trades_today pf' = pf_trades_today pf
    \<and> (dget (pf_positions pf) sy = None \<longrightarrow> pf' = pf)" for e
    by (auto simp: open_position_def Let_def split: if_splits sum.splits option.splits
        dest: open_cash_positions)
  moreover have "close_position pf sy q x f = (pf', Inl e) \<Longrightarrow> pf' = pf" for e
    by (auto simp: close_position_def Let_def split: option.splits if_splits)
  ultimately show ?thesis by (auto simp: open_position_def Let_def dest: open_cash_positions)
qed

theorem rejected_operations_witness:
  "close_position (new_portfolio (Fin 1)) ''BTC'' None (Fin 1) (Fin 0)
     = (new_portfolio (Fin 1), Inl (KeyError ''No position for BTC''))"
  using rejected_operations [of "new_portfolio (Fin 1)" "''BTC''" None "Fin 1" "Fin 0"
      "fst (close_position (new_portfolio (Fin 1)) ''BTC'' None (Fin 1) (Fin 0))"]
  by (simp add: close_position_def new_portfolio_def)

end
