(* ===== verification/Fees_Slippage.thy ===== *)
theory Fees_Slippage
  imports Prelude
begin

text \<open>
  \<open>exchange/fees.py\<close>, \<open>exchange/slippage.py\<close>, \<open>exchange/order_book.py\<close> and
  \<open>exchange/trailing.py\<close>: what a simulated fill costs, and how a protective stop follows
  the price.
\<close>

section \<open>Fees\<close>

text \<open>The configuration dictionary, key by key; an absent key is \<open>None\<close>.\<close>

record fee_config =
  fc_default_rate :: "pyfloat option"
  fc_maker_bps :: "pyfloat option"
  fc_taker_bps :: "pyfloat option"
  fc_by_asset_class :: "(string \<times> pyfloat) list"
  fc_by_exchange :: "(string \<times> (string \<times> pyfloat) list) list"

record fee_engine =
  fe_raw :: fee_config
  fe_default_rate :: pyfloat
  fe_maker_bps :: pyfloat
  fe_taker_bps :: pyfloat
  fe_by_asset_class :: "(string \<times> pyfloat) list"
  fe_by_exchange :: "(string \<times> (string \<times> pyfloat) list) list"

record fee_result =
  fr_fee :: pyfloat
  fr_rate :: pyfloat
  fr_schedule :: string
  fr_maker_bps :: pyfloat
  fr_taker_bps :: pyfloat

definition new_fee_engine :: "fee_config \<Rightarrow> fee_engine" where
  "new_fee_engine c = \<lparr>fe_raw = c,
     fe_default_rate = opt_default (fc_default_rate c) (flit (1 / 1000)),
     fe_maker_bps = opt_default (fc_maker_bps c) (Fin 10),
     fe_taker_bps = opt_default (fc_taker_bps c) (Fin 20),
     fe_by_asset_class = dict_build py_upper (fc_by_asset_class c),
     fe_by_exchange = dict_build py_lower (fc_by_exchange c)\<rparr>"

definition bps_unit :: pyfloat where
  "bps_unit = Fin 10000"

text \<open>The rate a venue's own table gives, if it gives one.\<close>

definition venue_rate :: "fee_engine \<Rightarrow> string \<Rightarrow> string \<Rightarrow> (pyfloat \<times> string) option" where
  "venue_rate fe liq ex =
     (if ex = [] then None else
      case dget (fe_by_exchange fe) (py_lower ex) of
        None \<Rightarrow> None
      | Some venue \<Rightarrow>
          (case dget venue (liq @ ''_bps'') of
             Some b \<Rightarrow> Some (fquot b bps_unit, ''exchange:'' @ ex @ '':'' @ liq)
           | None \<Rightarrow>
               (case dget venue ''default_rate'' of
                  Some r \<Rightarrow> Some (r, ''exchange:'' @ ex @ '':default'')
                | None \<Rightarrow> None)))"

definition rate_for :: "fee_engine \<Rightarrow> string \<Rightarrow> string \<Rightarrow> string option \<Rightarrow> pyfloat \<times> string" where
  "rate_for fe asset liquidity exch =
     (let ac = py_upper asset; liq = py_lower liquidity
      in case venue_rate fe liq (opt_default exch []) of
           Some r \<Rightarrow> r
         | None \<Rightarrow>
             (case dget (fe_by_asset_class fe) ac of
                Some r \<Rightarrow> (r, ''asset:'' @ ac)
              | None \<Rightarrow>
                  if fc_default_rate (fe_raw fe) \<noteq> None then (fe_default_rate fe, ''default_rate'')
                  else if liq = ''maker'' then (fquot (fe_maker_bps fe) bps_unit, ''maker'')
                  else (fquot (fe_taker_bps fe) bps_unit, ''taker'')))"

definition calculate_fee ::
  "fee_engine \<Rightarrow> pyfloat \<Rightarrow> string \<Rightarrow> string \<Rightarrow> string option \<Rightarrow> fee_result" where
  "calculate_fee fe notional asset liquidity exch =
     (let (rate, sched) = rate_for fe asset liquidity exch
      in \<lparr>fr_fee = fmul (fabs notional) rate, fr_rate = rate, fr_schedule = sched,
          fr_maker_bps = fe_maker_bps fe, fr_taker_bps = fe_taker_bps fe\<rparr>)"

section \<open>Slippage\<close>

record slippage_config =
  sc_enabled :: "bool option"
  sc_model :: "string option"
  sc_mode :: "string option"
  sc_default_bps :: "pyfloat option"
  sc_value :: "pyfloat option"
  sc_max_bps :: "pyfloat option"
  sc_percentage :: "pyfloat option"
  sc_volatility_multiplier :: "pyfloat option"
  sc_volume_impact :: "pyfloat option"

record slippage_engine =
  se_enabled :: bool
  se_model :: string
  se_default_bps :: pyfloat
  se_max_bps :: pyfloat
  se_percentage :: pyfloat
  se_volatility_multiplier :: pyfloat
  se_volume_impact :: pyfloat

record slippage_result =
  sr_fill_price :: pyfloat
  sr_slippage_abs :: pyfloat
  sr_slippage_bps :: pyfloat
  sr_model :: string
  sr_enabled :: bool

definition new_slippage_engine :: "slippage_config \<Rightarrow> slippage_engine" where
  "new_slippage_engine c =
     (let m = py_lower (opt_default (opt_or (sc_model c) (opt_or (sc_mode c) (Some ''fixed_bps''))) []);
          d = opt_default (sc_default_bps c) (opt_default (sc_value c) (Fin 5))
      in \<lparr>se_enabled = opt_default (sc_enabled c) True,
          se_model = (if m = ''fixed'' then ''fixed_bps'' else m),
          se_default_bps = d,
          se_max_bps = opt_default (sc_max_bps c) (Fin 50),
          se_percentage = opt_default (sc_percentage c) (fquot d bps_unit),
          se_volatility_multiplier = opt_default (sc_volatility_multiplier c) (Fin 1),
          se_volume_impact = opt_default (sc_volume_impact c) (Fin 0)\<rparr>)"

definition raw_bps ::
  "slippage_engine \<Rightarrow> pyfloat option \<Rightarrow> pyfloat option \<Rightarrow> pyfloat option \<Rightarrow> pyfloat" where
  "raw_bps se vol qty adv =
     (if se_model se = ''percentage'' then fmul (se_percentage se) bps_unit
      else if se_model se = ''volatility_adjusted'' then
        (let v = opt_default vol (flit (1 / 100))
         in fmul (se_default_bps se) (fadd (Fin 1) (fmul (fabs v) (se_volatility_multiplier se))))
      else if se_model se = ''volume_adjusted'' then
        (let q = float_or qty (Fin 0); a = float_or adv (Fin 1);
             part = (if flt (Fin 0) a then fquot q a else Fin 0)
         in fmul (se_default_bps se) (fadd (Fin 1) (fmul part (se_volume_impact se))))
      else se_default_bps se)"

definition slippage_bps ::
  "slippage_engine \<Rightarrow> pyfloat option \<Rightarrow> pyfloat option \<Rightarrow> pyfloat option \<Rightarrow> pyfloat" where
  "slippage_bps se vol qty adv =
     (if \<not> se_enabled se then Fin 0
      else pmin (pmax (raw_bps se vol qty adv) (Fin 0)) (se_max_bps se))"

definition buy_name :: "string \<Rightarrow> bool" where
  "buy_name s \<longleftrightarrow> s = ''BUY'' \<or> s = ''BUY_YES'' \<or> s = ''BUY_NO'' \<or> s = ''LONG''"

definition apply_slippage ::
  "slippage_engine \<Rightarrow> string \<Rightarrow> pyfloat \<Rightarrow> bool \<Rightarrow> pyfloat option \<Rightarrow> pyfloat option \<Rightarrow> pyfloat option
   \<Rightarrow> slippage_result" where
  "apply_slippage se side price prediction vol qty adv =
     (let bps = slippage_bps se vol qty adv;
          slip = fmul price (fquot bps bps_unit);
          fill0 = (if buy_name (py_upper side) then fadd price slip else fsub price slip);
          fill = (if prediction then pmin (Fin 1) (pmax (Fin 0) fill0) else fill0)
      in \<lparr>sr_fill_price = fill, sr_slippage_abs = fabs (fsub fill price), sr_slippage_bps = bps,
          sr_model = (if se_enabled se then se_model se else ''disabled''),
          sr_enabled = se_enabled se\<rparr>)"

section \<open>Order book\<close>

record book_level =
  bl_price :: pyfloat
  bl_amount :: pyfloat

record order_book =
  ob_symbol :: string
  ob_bids :: "book_level list"
  ob_asks :: "book_level list"

definition book_to_dict :: "nat \<Rightarrow> order_book \<Rightarrow> order_book" where
  "book_to_dict limit b = b\<lparr>ob_bids := take limit (ob_bids b), ob_asks := take limit (ob_asks b)\<rparr>"

definition synthetic_book :: "string \<Rightarrow> pyfloat \<Rightarrow> pyfloat \<Rightarrow> order_book" where
  "synthetic_book sy mid spread =
     (let half = fquot (fmul mid (fquot spread bps_unit)) (Fin 2)
      in \<lparr>ob_symbol = py_upper sy,
          ob_bids = [\<lparr>bl_price = fsub mid half, bl_amount = Fin 1\<rparr>],
          ob_asks = [\<lparr>bl_price = fadd mid half, bl_amount = Fin 1\<rparr>]\<rparr>)"

section \<open>Trailing stops\<close>

datatype trailing_mode = Atr | Percentage | Fixed_Distance

record trailing_state =
  ts_mode :: trailing_mode
  ts_atr :: pyfloat
  ts_multiplier :: pyfloat
  ts_percentage :: pyfloat
  ts_distance :: pyfloat
  ts_allow_widen :: bool

type_synonym trailing_engine = "(string \<times> trailing_state) list"

definition trailing_configure :: "trailing_engine \<Rightarrow> string \<Rightarrow> trailing_state \<Rightarrow> trailing_engine" where
  "trailing_configure te sy ts = dput (py_upper sy) ts te"

definition trail_long :: "string \<Rightarrow> bool" where
  "trail_long s \<longleftrightarrow> s = ''LONG'' \<or> s = ''BUY''"

definition ratchet :: "string \<Rightarrow> pyfloat option \<Rightarrow> pyfloat \<Rightarrow> bool \<Rightarrow> pyfloat" where
  "ratchet side cur cand widen =
     (case cur of
        None \<Rightarrow> cand
      | Some c \<Rightarrow> if widen then cand else if trail_long side then pmax c cand else pmin c cand)"

text \<open>The stop the current price suggests; \<open>None\<close> where the engine returns the old stop.\<close>

definition trailing_candidate :: "trailing_state \<Rightarrow> bool \<Rightarrow> pyfloat \<Rightarrow> pyfloat option" where
  "trailing_candidate ts long price =
     (case ts_mode ts of
        Atr \<Rightarrow> if fle (ts_atr ts) (Fin 0) then None
               else Some (if long then fsub price (fmul (ts_atr ts) (ts_multiplier ts))
                          else fadd price (fmul (ts_atr ts) (ts_multiplier ts)))
      | Percentage \<Rightarrow> Some (if long then fmul price (fsub (Fin 1) (ts_percentage ts))
                            else fmul price (fadd (Fin 1) (ts_percentage ts)))
      | Fixed_Distance \<Rightarrow> if fle (ts_distance ts) (Fin 0) then None
               else Some (if long then fsub price (ts_distance ts) else fadd price (ts_distance ts)))"

definition trailing_update ::
  "trailing_engine \<Rightarrow> string \<Rightarrow> string \<Rightarrow> pyfloat \<Rightarrow> pyfloat option \<Rightarrow> pyfloat option" where
  "trailing_update te sy side price cur =
     (case dget te (py_upper sy) of
        None \<Rightarrow> cur
      | Some ts \<Rightarrow>
          (let side_u = py_upper side
           in case trailing_candidate ts (trail_long side_u) price of
                None \<Rightarrow> cur
              | Some cand \<Rightarrow> Some (ratchet side_u cur cand (ts_allow_widen ts))))"

section \<open>Bounds\<close>

lemma slippage_bps_range:
  assumes "se_enabled se \<longrightarrow> raw_bps se v q a \<noteq> NaN" and "fle (Fin 0) (se_max_bps se)"
  shows "fle (Fin 0) (slippage_bps se v q a)" "fle (slippage_bps se v q a) (se_max_bps se)"
proof -
  have "pmax (raw_bps se v q a) (Fin 0) \<noteq> NaN" if "se_enabled se"
    using assms(1) that by (simp add: pmax_def)
  moreover have "fle (Fin 0) (pmax (raw_bps se v q a) (Fin 0))" if "se_enabled se"
    using assms(1) that by (simp add: pmax_ge2)
  moreover have "se_max_bps se \<noteq> NaN" using assms(2) by auto
  ultimately show "fle (Fin 0) (slippage_bps se v q a)" "fle (slippage_bps se v q a) (se_max_bps se)"
    using assms(2) pmin_cases [of "pmax (raw_bps se v q a) (Fin 0)" "se_max_bps se"]
    by (auto simp: slippage_bps_def pmin_le2)
qed

lemma clamp_unit: "x \<noteq> NaN \<Longrightarrow> fle (Fin 0) (pmin (Fin 1) (pmax (Fin 0) x)) \<and> fle (pmin (Fin 1) (pmax (Fin 0) x)) (Fin 1)"
  by (cases x) (auto simp: pmin_def pmax_def)

lemma fquot_bps_le:
  assumes "fle (Fin 0) b" and "fle b bps_unit"
  shows "fle (Fin 0) (fquot b bps_unit)" "fle (fquot b bps_unit) (Fin 1)"
proof -
  show "fle (Fin 0) (fquot b bps_unit)" using assms(1)
    by (cases b) (auto simp: bps_unit_def finf_def intro: rnd_nonneg)
  show "fle (fquot b bps_unit) (Fin 1)" using assms
    by (cases b) (auto simp: bps_unit_def finf_def intro: rnd_Fin_mono_upper)
qed

lemma fmul_fraction_le:
  assumes p: "is_f64 p" "fle (Fin 0) p" and r: "fle (Fin 0) r" "fle r (Fin 1)" and nn: "fmul p r \<noteq> NaN"
  shows "fle (Fin 0) (fmul p r)" "fle (fmul p r) p"
proof -
  show "fle (Fin 0) (fmul p r)" by (rule fmul_nonneg [OF p(2) r(1) nn])
  show "fle (fmul p r) p"
  proof (cases p)
    case (Fin a)
    then have a: "rnd a = Fin a" "0 \<le> a" using p by (auto simp: is_f64_def)
    obtain x where x: "r = Fin x" "0 \<le> x" "x \<le> 1" using r by (cases r) auto
    have "a * x \<le> a" using a(2) x by (simp add: mult_left_le)
    with rnd_Fin_mono_upper [OF a(1)] show ?thesis by (simp add: Fin x)
  qed (use p nn in auto)
qed

lemma fsub_upper_nonneg:
  assumes "fle (Fin 0) s" and "fle s p" and "fsub p s \<noteq> NaN"
  shows "fle (Fin 0) (fsub p s)"
  using assms by (cases p; cases s) (auto simp: fsub_def intro: rnd_nonneg)

section \<open>The trailing stop\<close>

lemma ratchet_long: "c \<noteq> NaN \<Longrightarrow> trail_long s \<Longrightarrow> fle c (ratchet s (Some c) x False)"
  by (simp add: ratchet_def pmax_ge)

lemma ratchet_short: "c \<noteq> NaN \<Longrightarrow> \<not> trail_long s \<Longrightarrow> fle (ratchet s (Some c) x False) c"
  by (simp add: ratchet_def pmin_le)

text \<open>The stop along a list of prices.\<close>

fun trail_run :: "trailing_engine \<Rightarrow> string \<Rightarrow> string \<Rightarrow> pyfloat option \<Rightarrow> pyfloat list \<Rightarrow> pyfloat option" where
  "trail_run te sy sd cur [] = cur"
| "trail_run te sy sd cur (p # ps) = trail_run te sy sd (trailing_update te sy sd p cur) ps"

definition no_widen :: "trailing_engine \<Rightarrow> bool" where
  "no_widen te \<longleftrightarrow> (\<forall>(k, ts) \<in> set te. \<not> ts_allow_widen ts)"

lemma no_widen_get: "no_widen te \<Longrightarrow> dget te k = Some ts \<Longrightarrow> \<not> ts_allow_widen ts"
  by (auto simp: no_widen_def dest: dget_in_set)

lemma trailing_update_some:
  assumes "no_widen te" and "c \<noteq> NaN"
  shows "\<exists>c'. trailing_update te sy sd p (Some c) = Some c' \<and> c' \<noteq> NaN
    \<and> (if trail_long (py_upper sd) then fle c c' else fle c' c)"
proof (cases "dget te (py_upper sy)")
  case None
  with assms show ?thesis by (simp add: trailing_update_def)
next
  case (Some ts)
  note nw = no_widen_get [OF assms(1) Some]
  show ?thesis
  proof (cases "trailing_candidate ts (trail_long (py_upper sd)) p")
    case None
    with Some assms show ?thesis by (simp add: trailing_update_def Let_def)
  next
    case (Some x)
    let ?r = "ratchet (py_upper sd) (Some c) x False"
    have "trailing_update te sy sd p (Some c) = Some ?r"
      using nw \<open>dget te _ = _\<close> Some by (simp add: trailing_update_def Let_def)
    moreover have "if trail_long (py_upper sd) then fle c ?r else fle ?r c"
      using ratchet_long [OF assms(2)] ratchet_short [OF assms(2)] by simp
    ultimately show ?thesis by (auto dest: fle_not_NaN split: if_splits)
  qed
qed

section \<open>Properties\<close>

text \<open>With a non-negative cap, a slippage setting that is a number and a market price that is
  a float at or above zero, the simulated slippage is between zero and the cap, a buy never
  fills below and a sell never above the market, a sell never fills below zero when the cap is
  at most 10,000 basis points, and a prediction fill lies in the unit interval.\<close>

theorem slippage_bounds:
  assumes cfg: "se_enabled se \<longrightarrow> raw_bps se v q a \<noteq> NaN" and cap: "fle (Fin 0) (se_max_bps se)"
    and cap1: "fle (se_max_bps se) bps_unit"
    and px: "is_f64 p" "fle (Fin 0) p" "is_finite p"
  shows "fle (Fin 0) (sr_slippage_bps (apply_slippage se sd p pred v q a))
    \<and> fle (sr_slippage_bps (apply_slippage se sd p pred v q a)) (se_max_bps se)
    \<and> (buy_name (py_upper sd) \<longrightarrow> fle p (sr_fill_price (apply_slippage se sd p False v q a)))
    \<and> (\<not> buy_name (py_upper sd) \<longrightarrow>
         fle (sr_fill_price (apply_slippage se sd p False v q a)) p
         \<and> fle (Fin 0) (sr_fill_price (apply_slippage se sd p False v q a)))
    \<and> fle (Fin 0) (sr_fill_price (apply_slippage se sd p True v q a))
    \<and> fle (sr_fill_price (apply_slippage se sd p True v q a)) (Fin 1)"
proof -
  let ?b = "slippage_bps se v q a" let ?s = "fmul p (fquot ?b bps_unit)"
  note b = slippage_bps_range [OF cfg cap]
  note r = fquot_bps_le [OF b(1) fle_trans [OF b(2) cap1]]
  obtain x where x: "p = Fin x" "0 \<le> x" "rnd x = Fin x"
    using px by (cases p) (auto simp: is_finite_def is_f64_def)
  obtain y where y: "fquot ?b bps_unit = Fin y" using r by (cases "fquot ?b bps_unit") auto
  have "?s \<noteq> NaN" by (simp add: x y)
  note s = fmul_fraction_le [OF px(1,2) r this]
  obtain z where z: "?s = Fin z" using s x by (cases ?s) auto
  have up: "fle p (fadd p ?s)" using px s(1) by (intro fadd_ge) (auto simp: x)
  have down: "fle (fsub p ?s) p" using px s(1) by (intro fsub_le) (auto simp: x)
  have "fsub p ?s = rnd (x - z)" unfolding z unfolding x(1) by simp
  then have "fsub p ?s \<noteq> NaN" by (rule ssubst) (rule rnd_not_NaN)
  then have low: "fle (Fin 0) (fsub p ?s)" by (rule fsub_upper_nonneg [OF s])
  have nn: "fadd p ?s \<noteq> NaN" "fsub p ?s \<noteq> NaN" using up down by auto
  show ?thesis
    using b up down low clamp_unit [OF nn(1)] clamp_unit [OF nn(2)]
    by (simp add: apply_slippage_def Let_def)
qed

theorem slippage_bounds_witness:
  "fle (Fin 100) (sr_fill_price (apply_slippage (new_slippage_engine
      \<lparr>sc_enabled = None, sc_model = None, sc_mode = None, sc_default_bps = None, sc_value = None,
       sc_max_bps = None, sc_percentage = None, sc_volatility_multiplier = None,
       sc_volume_impact = None\<rparr>) ''buy'' (Fin 100) False None None None))"
  by (rule slippage_bounds [THEN conjunct2, THEN conjunct2, THEN conjunct1, rule_format])
    (simp_all add: new_slippage_engine_def opt_default_def opt_or_def opt_truthy_def py_lower_def
      raw_bps_def bps_unit_def buy_name_def py_upper_def is_f64_def Let_def fl_eval)

text \<open>As long as no trailing state allows widening, the stop of a long position never goes down
  and that of a short position never goes up, over any sequence of prices, whatever the mode.\<close>

theorem trailing_never_widens:
  assumes "no_widen te" and "c \<noteq> NaN"
  shows "\<exists>c'. trail_run te sy sd (Some c) ps = Some c'
    \<and> (if trail_long (py_upper sd) then fle c c' else fle c' c)"
  using assms(2)
proof (induction ps arbitrary: c)
  case Nil
  then show ?case by simp
next
  case (Cons p ps)
  obtain d where d: "trailing_update te sy sd p (Some c) = Some d" "d \<noteq> NaN"
    "if trail_long (py_upper sd) then fle c d else fle d c"
    using trailing_update_some [OF assms(1) Cons.prems] by metis
  obtain e where "trail_run te sy sd (Some d) ps = Some e"
    "if trail_long (py_upper sd) then fle d e else fle e d"
    using Cons.IH [OF d(2)] by metis
  with d show ?case by (auto intro: fle_trans split: if_splits)
qed

theorem trailing_never_widens_witness:
  "\<exists>c'. trail_run (trailing_configure [] ''btc'' \<lparr>ts_mode = Percentage, ts_atr = Fin 0,
        ts_multiplier = Fin 2, ts_percentage = flit (2 / 100), ts_distance = Fin 0, ts_allow_widen = False\<rparr>)
      ''BTC'' ''LONG'' (Some (Fin 90)) [Fin 100, Fin 50] = Some c' \<and> fle (Fin 90) c'"
  using trailing_never_widens [of "trailing_configure [] ''btc'' \<lparr>ts_mode = Percentage, ts_atr = Fin 0,
      ts_multiplier = Fin 2, ts_percentage = flit (2 / 100), ts_distance = Fin 0, ts_allow_widen = False\<rparr>"
      "Fin 90" "''BTC''" "''LONG''" "[Fin 100, Fin 50]"]
  by (simp add: no_widen_def trailing_configure_def trail_long_def py_upper_def)

end
