(* ===== verification/Paper_Exchange.thy ===== *)
theory Paper_Exchange
  imports Order_Model Portfolio Fees_Slippage
begin

text \<open>
  \<open>exchange/paper.py\<close>: the simulated exchange.  Every method that changes the exchange
  returns its new state; one that can raise returns the state reached at the exception and
  the error.  An order is one object shared by the caller and the exchange's dictionary, so
  each change of it is stored under its identifier at once.  \<open>h16\<close> and \<open>f10\<close> are the
  hash and the number format of \<open>Order_Model\<close>; timestamps and the free-form part of an
  order's metadata are left out.
\<close>

section \<open>State\<close>

datatype event =
    Ev_Order_Submitted string string
  | Ev_Order_Rejected string string
  | Ev_Order_Cancelled string
  | Ev_Order_Filled string pyfloat pyfloat pyfloat
  | Ev_Order_Partially_Filled string pyfloat pyfloat pyfloat
  | Ev_Position_Updated string pyfloat
  | Ev_Stop_Triggered string "pyfloat option" pyfloat
  | Ev_Stop_Moved_To_Breakeven string pyfloat
  | Ev_Stop_Updated string pyfloat bool
  | Ev_Partial_Take_Profit string pyfloat pyfloat pyfloat
  | Ev_Position_Closed string string pyfloat pyfloat
  | Ev_Paper_Pnl_Updated string pyfloat
  | Ev_Circuit_Breaker int
  | Ev_Kill_Switch string
  | Ev_Eod "string list" "string list" pyfloat pyfloat

record trade =
  tr_trade_id :: string
  tr_order_id :: "string option"
  tr_instrument :: string
  tr_asset_class :: string
  tr_strategy_id :: "string option"
  tr_strategy_version :: "string option"
  tr_strategy_config_hash :: "string option"
  tr_model_ids :: "string list"
  tr_agent_run_id :: "string option"
  tr_entry :: "pyfloat option"
  tr_exit :: pyfloat
  tr_quantity :: pyfloat
  tr_gross_pnl :: pyfloat
  tr_fees :: pyfloat
  tr_slippage :: pyfloat
  tr_net_pnl :: pyfloat
  tr_reason_for_exit :: string

record exchange =
  ex_session_id :: string
  ex_max_fail :: int
  ex_fee :: fee_engine
  ex_slip :: slippage_engine
  ex_portfolio :: portfolio
  ex_instruments :: "(string \<times> instrument_meta) list"
  ex_prices :: "(string \<times> pyfloat) list"
  ex_orders :: "(string \<times> order) list"
  ex_fills :: "fill list"
  ex_events :: "event list"
  ex_trades :: "trade list"
  ex_api_failures :: int
  ex_halted :: bool
  ex_halt_reason :: "string option"
  ex_order_seq :: nat
  ex_fill_seq :: nat
  ex_be_flags :: "(string \<times> bool) list"
  ex_partial_tp :: "(string \<times> pyfloat \<times> bool) list"
  ex_mean_reversion :: "(string \<times> pyfloat) list"
  ex_trailing :: trailing_engine
  ex_seen_client_ids :: "string list"
  ex_failure_mode :: "string option"
  ex_stale :: "string list"
  ex_flatten_at_eod :: bool

record paper_config =
  pc_initial_cash :: "pyfloat option"
  pc_fees :: fee_config
  pc_slippage :: slippage_config
  pc_max_fail :: "int option"
  pc_flatten :: "bool option"
  pc_eod_flat_default :: "bool option"
  pc_instruments :: "(string \<times> instrument_meta) list"

definition new_exchange ::
  "paper_config \<Rightarrow> portfolio option \<Rightarrow> (string \<times> pyfloat) list \<Rightarrow> string \<Rightarrow> exchange" where
  "new_exchange c pf prices sid = \<lparr>ex_session_id = sid,
     ex_max_fail = opt_default (pc_max_fail c) 3,
     ex_fee = new_fee_engine (pc_fees c), ex_slip = new_slippage_engine (pc_slippage c),
     ex_portfolio = opt_default pf (new_portfolio (opt_default (pc_initial_cash c) (Fin 10000))),
     ex_instruments = pc_instruments c, ex_prices = dict_build py_upper prices,
     ex_orders = [], ex_fills = [], ex_events = [], ex_trades = [], ex_api_failures = 0,
     ex_halted = False, ex_halt_reason = None, ex_order_seq = 0, ex_fill_seq = 0,
     ex_be_flags = [], ex_partial_tp = [], ex_mean_reversion = [], ex_trailing = [],
     ex_seen_client_ids = [], ex_failure_mode = None, ex_stale = [],
     ex_flatten_at_eod = opt_default (pc_flatten c) (opt_default (pc_eod_flat_default c) False)\<rparr>"

definition emit :: "event \<Rightarrow> exchange \<Rightarrow> exchange" where
  "emit e ex = ex\<lparr>ex_events := ex_events ex @ [e]\<rparr>"

definition order_key :: "order \<Rightarrow> string" where
  "order_key ord = opt_default (o_order_id ord) []"

definition store :: "order \<Rightarrow> exchange \<Rightarrow> exchange" where
  "store ord ex = ex\<lparr>ex_orders := dput (order_key ord) ord (ex_orders ex)\<rparr>"

section \<open>Market data and failures\<close>

definition set_price :: "exchange \<Rightarrow> string \<Rightarrow> pyfloat \<Rightarrow> exchange" where
  "set_price ex sy px = ex\<lparr>ex_prices := dput (py_upper sy) px (ex_prices ex),
                          ex_stale := removeAll (py_upper sy) (ex_stale ex)\<rparr>"

definition mark_stale :: "exchange \<Rightarrow> string \<Rightarrow> exchange" where
  "mark_stale ex sy = ex\<lparr>ex_stale := List.insert (py_upper sy) (ex_stale ex)\<rparr>"

definition get_market_price :: "exchange \<Rightarrow> string \<Rightarrow> pyfloat res" where
  "get_market_price ex sy = (case dget (ex_prices ex) (py_upper sy) of
     None \<Rightarrow> Inl (PaperExchangeError (''No market price for '' @ py_upper sy)) | Some p \<Rightarrow> Inr p)"

definition get_orderbook :: "exchange \<Rightarrow> string \<Rightarrow> nat \<Rightarrow> order_book res" where
  "get_orderbook ex sy limit =
     bind_res (get_market_price ex sy) (\<lambda>px. Inr (book_to_dict limit (synthetic_book sy px (Fin 10))))"

definition get_balance :: "exchange \<Rightarrow> exchange \<times> pyfloat" where
  "get_balance ex = (case snapshot (ex_portfolio ex) (ex_prices ex) of
     (pf, sn) \<Rightarrow> (ex\<lparr>ex_portfolio := pf\<rparr>, sn_available_cash sn))"

definition get_positions :: "exchange \<Rightarrow> exchange \<times> position list" where
  "get_positions ex = (case snapshot (ex_portfolio ex) (ex_prices ex) of
     (pf, sn) \<Rightarrow> (ex\<lparr>ex_portfolio := pf\<rparr>, sn_positions sn))"

definition record_api_failure :: "exchange \<Rightarrow> exchange" where
  "record_api_failure ex =
     (let ex1 = ex\<lparr>ex_api_failures := ex_api_failures ex + 1\<rparr>
      in if ex_max_fail ex1 \<le> ex_api_failures ex1
         then emit (Ev_Circuit_Breaker (ex_api_failures ex1))
           (ex1\<lparr>ex_halted := True, ex_halt_reason := Some ''API_FAILURE_CIRCUIT_BREAKER''\<rparr>)
         else ex1)"

definition record_api_success :: "exchange \<Rightarrow> exchange" where
  "record_api_success ex = ex\<lparr>ex_api_failures := 0\<rparr>"

definition failing_modes :: "string list" where
  "failing_modes = [''timeout'', ''rate_limit'', ''connection_error'', ''exchange_unavailable'']"

definition simulate_failure :: "exchange \<Rightarrow> string \<Rightarrow> exchange" where
  "simulate_failure ex mode =
     (let ex1 = ex\<lparr>ex_failure_mode := Some mode\<rparr>
      in if mode \<in> set failing_modes \<or> mode = ''stale_market_data'' then record_api_failure ex1 else ex1)"

definition clear_failure :: "exchange \<Rightarrow> exchange" where
  "clear_failure ex = record_api_success (ex\<lparr>ex_failure_mode := None\<rparr>)"

definition halt :: "exchange \<Rightarrow> string \<Rightarrow> exchange" where
  "halt ex reason =
     (let ex1 = ex\<lparr>ex_halted := True, ex_halt_reason := Some reason\<rparr>
      in if py_startswith reason ''KILL'' then emit (Ev_Kill_Switch reason) ex1 else ex1)"

definition reset_halt :: "exchange \<Rightarrow> exchange" where
  "reset_halt ex = ex\<lparr>ex_halted := False, ex_halt_reason := None, ex_api_failures := 0,
                     ex_failure_mode := None\<rparr>"

definition asset_class_of :: "exchange \<Rightarrow> string \<Rightarrow> asset_class" where
  "asset_class_of ex sy = (case dget (ex_instruments ex) (py_upper sy) of
     Some m \<Rightarrow> im_asset_class m
   | None \<Rightarrow> if py_startswith (py_upper sy) ''PREDICT/'' then PREDICTION_CONTRACT else CRYPTO)"

section \<open>Triggers\<close>

definition limit_triggered :: "order \<Rightarrow> pyfloat \<Rightarrow> bool" where
  "limit_triggered ord px = (case o_limit_price ord of
     None \<Rightarrow> False | Some l \<Rightarrow> if is_buy (o_side ord) then fle px l else fle l px)"

definition stop_triggered :: "order \<Rightarrow> pyfloat \<Rightarrow> bool" where
  "stop_triggered ord px = (case o_stop_price ord of
     None \<Rightarrow> False | Some s \<Rightarrow> if \<not> is_buy (o_side ord) then fle px s else fle s px)"

definition take_profit_triggered :: "order \<Rightarrow> pyfloat \<Rightarrow> bool" where
  "take_profit_triggered ord px =
     (case (if o_stop_price ord \<noteq> None then o_stop_price ord else o_limit_price ord) of
        None \<Rightarrow> False | Some t \<Rightarrow> if \<not> is_buy (o_side ord) then fle t px else fle px t)"

section \<open>Fills\<close>

text \<open>\<open>str(exc)\<close>; the text of a \<open>KeyError\<close> is quoted.\<close>

definition error_text :: "py_error \<Rightarrow> string" where
  "error_text e = (case e of
     ZeroDivisionError \<Rightarrow> ''float division by zero''
   | KeyError s \<Rightarrow> [CHR 0x27] @ s @ [CHR 0x27]
   | ValueError s \<Rightarrow> s | RuntimeError s \<Rightarrow> s | PermissionError s \<Rightarrow> s
   | IndexError \<Rightarrow> ''list index out of range'' | DuplicateOrderError s \<Rightarrow> s | PaperExchangeError s \<Rightarrow> s
   | AssertionError \<Rightarrow> [] | OverflowError \<Rightarrow> ''int too large to convert to float''
   | TypeError \<Rightarrow> ''unsupported operand type(s)''
   | LiveExecutionBlocked s \<Rightarrow> s | HistoricalDataError s \<Rightarrow> s)"

definition trade_id :: "exchange \<Rightarrow> string" where
  "trade_id ex = ''TRD-'' @ ex_session_id ex @ ''-'' @ dec_pad 6 (length (ex_trades ex) + 1)"

definition record_trade ::
  "order \<Rightarrow> pyfloat \<Rightarrow> pyfloat \<Rightarrow> pyfloat \<Rightarrow> pyfloat \<Rightarrow> pyfloat \<Rightarrow> exchange \<Rightarrow> exchange" where
  "record_trade ord qty px fee slip pnl ex = ex\<lparr>ex_trades := ex_trades ex @
     [\<lparr>tr_trade_id = trade_id ex, tr_order_id = o_order_id ord, tr_instrument = o_symbol ord,
       tr_asset_class = asset_class_value (o_instrument_type ord),
       tr_strategy_id = o_strategy_id ord, tr_strategy_version = o_strategy_version ord,
       tr_strategy_config_hash = o_strategy_config_hash ord, tr_model_ids = o_model_ids ord,
       tr_agent_run_id = o_agent_run_id ord, tr_entry = None, tr_exit = px, tr_quantity = qty,
       tr_gross_pnl = fadd pnl fee, tr_fees = fee, tr_slippage = slip, tr_net_pnl = pnl,
       tr_reason_for_exit = ''CLOSE''\<rparr>]\<rparr>"

definition record_trade_close ::
  "position \<Rightarrow> pyfloat \<Rightarrow> pyfloat \<Rightarrow> pyfloat \<Rightarrow> string \<Rightarrow> exchange \<Rightarrow> exchange" where
  "record_trade_close p px fee pnl reason ex = ex\<lparr>ex_trades := ex_trades ex @
     [\<lparr>tr_trade_id = trade_id ex, tr_order_id = None, tr_instrument = pos_symbol p,
       tr_asset_class = asset_class_value (asset_class_of ex (pos_symbol p)),
       tr_strategy_id = pos_strategy_id p, tr_strategy_version = pos_strategy_version p,
       tr_strategy_config_hash = None, tr_model_ids = [], tr_agent_run_id = None,
       tr_entry = Some (pos_average_entry_price p), tr_exit = px, tr_quantity = pos_quantity p,
       tr_gross_pnl = fadd pnl fee, tr_fees = fee, tr_slippage = Fin 0, tr_net_pnl = pnl,
       tr_reason_for_exit = reason\<rparr>]\<rparr>"

text \<open>Price, slippage, liquidity and quantity of a fill.\<close>

definition fill_terms :: "exchange \<Rightarrow> order \<Rightarrow> pyfloat \<Rightarrow> bool \<Rightarrow> pyfloat \<times> pyfloat \<times> string \<times> pyfloat" where
  "fill_terms ex ord px lf =
     (let sr = apply_slippage (ex_slip ex) (side_value (o_side ord)) px
                 (o_instrument_type ord = PREDICTION_CONTRACT) None
                 (Some (fsub (o_quantity ord) (o_filled_quantity ord))) None;
          rem = fsub (o_quantity ord) (o_filled_quantity ord);
          qty = (if ex_failure_mode ex = Some ''partial_fill'' \<and> flt (Fin 0) rem
                 then fquot rem (Fin 2) else rem)
      in case (if lf then o_limit_price ord else None) of
           Some l \<Rightarrow> (l, fabs (fsub l px), ''maker'', qty)
         | None \<Rightarrow> (sr_fill_price sr, sr_slippage_abs sr, if lf then ''maker'' else ''taker'', qty))"

definition set_portfolio :: "exchange \<Rightarrow> portfolio \<Rightarrow> exchange" where
  "set_portfolio ex pf = ex\<lparr>ex_portfolio := pf\<rparr>"

text \<open>The \<open>try\<close> block: reduce the opposite position, or open or extend one.\<close>

definition route_fill ::
  "exchange \<Rightarrow> order \<Rightarrow> pyfloat \<Rightarrow> pyfloat \<Rightarrow> pyfloat \<Rightarrow> pyfloat \<Rightarrow> exchange \<times> unit res" where
  "route_fill ex ord qty px fee slip =
     (let pf = ex_portfolio ex; sy = o_symbol ord; long = is_buy (o_side ord);
          opposite = (case dget (pf_positions pf) sy of
            None \<Rightarrow> False
          | Some p \<Rightarrow> if long then short_name (pos_side p) else long_name (pos_side p))
      in if opposite then
           (case close_position pf sy (Some qty) px fee of
              (pf1, Inl e) \<Rightarrow> (set_portfolio ex pf1, Inl e)
            | (pf1, Inr pnl) \<Rightarrow>
                (if long then set_portfolio ex pf1
                 else record_trade ord qty px fee slip pnl (set_portfolio ex pf1), Inr ()))
         else
           (case open_position pf sy (if long then ''LONG'' else ''SHORT'') qty px fee
                   (o_stop_loss ord) (o_take_profit ord) (o_strategy_id ord) (o_strategy_version ord) of
              (pf1, Inl e) \<Rightarrow> (set_portfolio ex pf1, Inl e)
            | (pf1, Inr p) \<Rightarrow> (set_portfolio ex pf1, Inr ())))"

text \<open>The \<open>except\<close> block.  A transition that is not allowed raises out of the handler.\<close>

definition reject_after_error :: "py_error \<Rightarrow> order \<Rightarrow> order res" where
  "reject_after_error e ord =
     (let reason = Some (error_text e)
      in if o_status ord = REJECTED \<or> o_status ord = CANCELLED then Inr (ord\<lparr>o_reject_reason := reason\<rparr>)
         else if o_status ord = SUBMITTED then Inr (ord\<lparr>o_status := REJECTED, o_reject_reason := reason\<rparr>)
         else bind_res (order_transition ord REJECTED) (\<lambda>o1. Inr (o1\<lparr>o_reject_reason := reason\<rparr>)))"

text \<open>Protective prices and strategy of the order are copied to the position it touched.\<close>

definition annotate_position :: "order \<Rightarrow> exchange \<Rightarrow> exchange" where
  "annotate_position ord ex =
     (case dget (pf_positions (ex_portfolio ex)) (o_symbol ord) of
        None \<Rightarrow> ex
      | Some p \<Rightarrow>
          (let p1 = p\<lparr>pos_stop_loss := (if o_stop_loss ord \<noteq> None then o_stop_loss ord else pos_stop_loss p),
                      pos_take_profit := (if o_take_profit ord \<noteq> None then o_take_profit ord else pos_take_profit p),
                      pos_strategy_id := opt_or (o_strategy_id ord) (pos_strategy_id p),
                      pos_strategy_version := opt_or (o_strategy_version ord) (pos_strategy_version p)\<rparr>;
               pf = ex_portfolio ex
           in emit (Ev_Position_Updated (o_symbol ord) (pos_quantity p1))
                (set_portfolio ex (pf\<lparr>pf_positions := dput (o_symbol ord) p1 (pf_positions pf)\<rparr>))))"

definition apply_fill ::
  "(string \<Rightarrow> string) \<Rightarrow> (pyfloat \<Rightarrow> string) \<Rightarrow> exchange \<Rightarrow> order \<Rightarrow> pyfloat \<Rightarrow> pyfloat \<Rightarrow> pyfloat \<Rightarrow> pyfloat
   \<Rightarrow> string \<Rightarrow> exchange \<times> order res" where
  "apply_fill h16 f10 ex ord qty px fee slip liq =
     (let n = ex_fill_seq ex + 1;
          fl = ensure_fill_id h16 f10 n
            \<lparr>fl_fill_id = [], fl_order_id = order_key ord, fl_symbol = o_symbol ord, fl_side = o_side ord,
             fl_quantity = qty, fl_requested_price = o_requested_price ord, fl_fill_price = px,
             fl_slippage = slip, fl_fee = fee, fl_liquidity = liq\<rparr>;
          ex1 = ex\<lparr>ex_fill_seq := n, ex_fills := ex_fills ex @ [fl]\<rparr>;
          o1 = ord\<lparr>o_filled_quantity := fadd (o_filled_quantity ord) qty, o_average_fill_price := Some px,
                   o_fees := fadd (o_fees ord) fee, o_slippage := slip\<rparr>;
          target = (if fle (o_quantity o1) (fadd (o_filled_quantity o1) qty_tol) then FILLED else PARTIALLY_FILLED)
      in case order_transition o1 target of
           Inl e \<Rightarrow> (store o1 ex1, Inl e)
         | Inr o2 \<Rightarrow>
             (let o3 = o2\<lparr>o_fills := [fl]\<rparr>;
                  ev = (if o_status o3 = FILLED then Ev_Order_Filled (order_key o3) px fee slip
                        else Ev_Order_Partially_Filled (order_key o3) px fee slip)
              in (annotate_position o3 (emit ev (store o3 ex1)), Inr o3)))"

definition fill_market ::
  "(string \<Rightarrow> string) \<Rightarrow> (pyfloat \<Rightarrow> string) \<Rightarrow> exchange \<Rightarrow> order \<Rightarrow> pyfloat \<Rightarrow> bool \<Rightarrow> exchange \<times> order res" where
  "fill_market h16 f10 ex ord mpx lf =
     (case fill_terms ex ord mpx lf of (px, slip, liq, qty) \<Rightarrow>
        (let fee = fr_fee (calculate_fee (ex_fee ex) (fmul qty px)
                     (asset_class_value (o_instrument_type ord)) liq (Some ''paper''))
         in case route_fill ex ord qty px fee slip of
              (ex1, Inl e) \<Rightarrow>
                (case reject_after_error e ord of
                   Inl e' \<Rightarrow> (ex1, Inl e')
                 | Inr o1 \<Rightarrow> (store o1 ex1, Inr o1))
            | (ex1, Inr _) \<Rightarrow> apply_fill h16 f10 ex1 ord qty px fee slip liq))"

section \<open>Creating orders\<close>

definition reject_order :: "exchange \<Rightarrow> order \<Rightarrow> string \<Rightarrow> exchange \<times> order" where
  "reject_order ex ord reason =
     (let o1 = ord\<lparr>o_status := REJECTED, o_reject_reason := Some reason\<rparr> in (store o1 ex, o1))"

text \<open>The identity the exchange gives an order before it looks at anything else.\<close>

definition identify_order ::
  "(string \<Rightarrow> string) \<Rightarrow> (pyfloat \<Rightarrow> string) \<Rightarrow> exchange \<Rightarrow> order \<Rightarrow> order" where
  "identify_order h16 f10 ex ord =
     (let o1 = ensure_order_id h16 f10 (ex_session_id ex) (ex_order_seq ex) ord
      in o1\<lparr>o_exchange := ''paper'', o_session_id := Some (ex_session_id ex),
            o_instrument_id := opt_or (o_instrument_id o1)
              (Some (asset_class_value (asset_class_of ex (o_symbol o1)) @ '':'' @ py_upper (o_symbol o1)))\<rparr>)"

text \<open>The reason the market side gives to reject an order, in the order of the checks.\<close>

definition market_reject :: "exchange \<Rightarrow> order \<Rightarrow> pyfloat option \<Rightarrow> string option" where
  "market_reject ex ord px =
     (let sy = py_upper (o_symbol ord)
      in if fle (o_quantity ord) (Fin 0) then Some ''BAD_QUANTITY''
         else if dget (ex_instruments ex) sy = None \<and> \<not> py_startswith sy ''PREDICT/''
              \<and> py_strip (o_symbol ord) = [] then Some ''INVALID_INSTRUMENT''
         else case px of
                None \<Rightarrow> Some ''NO_MARKET_PRICE''
              | Some p \<Rightarrow>
                  if fle p (Fin 0) then Some ''BAD_PRICE''
                  else if sy \<in> set (ex_stale ex) \<or> ex_failure_mode ex = Some ''stale_market_data''
                  then Some ''STALE_MARKET_DATA'' else None)"

definition submit_accepted ::
  "(string \<Rightarrow> string) \<Rightarrow> (pyfloat \<Rightarrow> string) \<Rightarrow> exchange \<Rightarrow> order \<Rightarrow> pyfloat \<Rightarrow> exchange \<times> order res" where
  "submit_accepted h16 f10 ex ord px =
     (let o1 = ord\<lparr>o_requested_price := Some px, o_instrument_type := asset_class_of ex (o_symbol ord)\<rparr>
      in case bind_res (if o_status o1 = CREATED then order_transition o1 VALIDATED else Inr o1)
                (\<lambda>o2. order_transition o2 SUBMITTED) of
           Inl e \<Rightarrow> (ex, Inl e)
         | Inr o3 \<Rightarrow>
             (let ex1 = emit (Ev_Order_Submitted (order_key o3) (o_symbol o3)) (store o3 ex)
              in case o_order_type o3 of
                   MARKET \<Rightarrow> fill_market h16 f10 ex1 o3 px False
                 | LIMIT \<Rightarrow> if limit_triggered o3 px
                     then fill_market h16 f10 ex1 o3 (float_or (o_limit_price o3) px) True
                     else (ex1, Inr o3)
                 | _ \<Rightarrow> (ex1, Inr o3)))"

definition rejected :: "exchange \<times> order \<Rightarrow> exchange \<times> order res" where
  "rejected r = (fst r, Inr (snd r))"

text \<open>What follows the check for a duplicate: halt, simulated failures, market checks.\<close>

definition admit_order ::
  "(string \<Rightarrow> string) \<Rightarrow> (pyfloat \<Rightarrow> string) \<Rightarrow> exchange \<Rightarrow> order \<Rightarrow> pyfloat option \<Rightarrow> exchange \<times> order res" where
  "admit_order h16 f10 ex ord mpx =
     (let mode = opt_default (ex_failure_mode ex) [];
          px = (if mpx \<noteq> None then mpx else dget (ex_prices ex) (py_upper (o_symbol ord)))
      in if ex_halted ex then
           (let reason = opt_default (opt_or (ex_halt_reason ex) (Some ''TRADING_HALTED'')) [];
                r = reject_order ex ord reason
            in rejected (emit (Ev_Order_Rejected (order_key (snd r)) reason) (fst r), snd r))
         else if mode \<in> set failing_modes then
           (let r = reject_order ex ord (py_upper mode) in rejected (record_api_failure (fst r), snd r))
         else if mode = ''rejected_order'' then rejected (reject_order ex ord ''SIMULATED_REJECT'')
         else case market_reject ex ord px of
                Some reason \<Rightarrow> rejected (reject_order ex ord reason)
              | None \<Rightarrow> submit_accepted h16 f10 ex ord (the px))"

definition remember_client :: "exchange \<Rightarrow> string \<Rightarrow> exchange" where
  "remember_client ex cid =
     (if cid \<noteq> [] then ex\<lparr>ex_seen_client_ids := List.insert cid (ex_seen_client_ids ex)\<rparr> else ex)"

definition next_seq :: "exchange \<Rightarrow> exchange" where
  "next_seq ex = ex\<lparr>ex_order_seq := ex_order_seq ex + 1\<rparr>"

definition create_order ::
  "(string \<Rightarrow> string) \<Rightarrow> (pyfloat \<Rightarrow> string) \<Rightarrow> exchange \<Rightarrow> order \<Rightarrow> pyfloat option \<Rightarrow> exchange \<times> order res" where
  "create_order h16 f10 ex ord mpx =
     (let ex0 = next_seq ex;
          o1 = identify_order h16 f10 ex0 ord;
          cid = opt_default (o_client_order_id o1) []
      in if cid \<noteq> [] \<and> cid \<in> set (ex_seen_client_ids ex0)
         then rejected (reject_order ex0 o1 ''DUPLICATE_ORDER'')
         else admit_order h16 f10 (remember_client ex0 cid) o1 mpx)"

section \<open>Reading, cancelling and expiring orders\<close>

definition get_order :: "exchange \<Rightarrow> string \<Rightarrow> order res" where
  "get_order ex k = (case dget (ex_orders ex) k of None \<Rightarrow> Inl (KeyError k) | Some ord \<Rightarrow> Inr ord)"

definition cancel_order :: "exchange \<Rightarrow> string \<Rightarrow> exchange \<times> order res" where
  "cancel_order ex k = (case get_order ex k of
     Inl e \<Rightarrow> (ex, Inl e)
   | Inr ord \<Rightarrow>
       if terminal_status (o_status ord) then (ex, Inr ord)
       else (case order_transition ord CANCELLED of
               Inl e \<Rightarrow> (ex, Inl e)
             | Inr o1 \<Rightarrow> (emit (Ev_Order_Cancelled (order_key o1))
                           (ex\<lparr>ex_orders := dput k o1 (ex_orders ex)\<rparr>), Inr o1)))"

definition expire_order :: "exchange \<Rightarrow> string \<Rightarrow> exchange \<times> order res" where
  "expire_order ex k = (case get_order ex k of
     Inl e \<Rightarrow> (ex, Inl e)
   | Inr ord \<Rightarrow>
       if o_status ord \<in> {FILLED, CANCELLED, REJECTED} then (ex, Inr ord)
       else (case order_transition ord EXPIRED of
               Inl e \<Rightarrow> (ex, Inl e)
             | Inr o1 \<Rightarrow> (ex\<lparr>ex_orders := dput k o1 (ex_orders ex)\<rparr>, Inr o1)))"

definition get_open_orders :: "exchange \<Rightarrow> string option \<Rightarrow> (string \<times> order) list" where
  "get_open_orders ex sy =
     (let os = filter (\<lambda>(k, ord). \<not> terminal_status (o_status ord)) (ex_orders ex)
      in if opt_truthy sy then filter (\<lambda>(k, ord). py_upper (o_symbol ord) = py_upper (the sy)) os else os)"

section \<open>Protective exits\<close>

definition exit_position :: "exchange \<Rightarrow> string \<Rightarrow> pyfloat \<Rightarrow> string \<Rightarrow> exchange \<times> unit res" where
  "exit_position ex sy px reason =
     (let k = py_upper sy; pf = ex_portfolio ex
      in case dget (pf_positions pf) k of
           None \<Rightarrow> (ex, Inr ())
         | Some p \<Rightarrow>
             (let fee = fr_fee (calculate_fee (ex_fee ex) (fmul (pos_quantity p) px)
                          (asset_class_value (asset_class_of ex sy)) ''taker'' None)
              in case close_position pf k None px fee of
                   (pf1, Inl e) \<Rightarrow> (set_portfolio ex pf1, Inl e)
                 | (pf1, Inr pnl) \<Rightarrow>
                     (let p1 = opt_default (dget (pf_positions pf1) k) p
                      in (record_trade_close p1 px fee pnl reason
                            (emit (Ev_Paper_Pnl_Updated k pnl)
                              (emit (Ev_Position_Closed k reason px pnl) (set_portfolio ex pf1))), Inr ()))))"

definition set_position :: "string \<Rightarrow> position \<Rightarrow> exchange \<Rightarrow> exchange" where
  "set_position k p ex = set_portfolio ex
     ((ex_portfolio ex)\<lparr>pf_positions := dput k p (pf_positions (ex_portfolio ex))\<rparr>)"

text \<open>The risk of the position: \<open>None\<close> stands for both no stop and a risk of zero (\<open>if risk and ...\<close>).\<close>

definition position_risk :: "position \<Rightarrow> pyfloat option" where
  "position_risk p = (case pos_stop_loss p of
     None \<Rightarrow> None
   | Some s \<Rightarrow> (let r = fabs (fsub (pos_average_entry_price p) s)
               in if flt (Fin 0) r then Some r else None))"

text \<open>The stop moved to the entry price once the price has gained one risk.\<close>

definition breakeven_step :: "exchange \<Rightarrow> string \<Rightarrow> position \<Rightarrow> pyfloat \<Rightarrow> exchange" where
  "breakeven_step ex k p px =
     (case (position_risk p, pos_stop_loss p) of
        (Some r, Some stop) \<Rightarrow>
          (let entry = pos_average_entry_price p
           in if dget (ex_be_flags ex) k \<noteq> Some True then ex
              else if long_name (pos_side p) then
                (if fle (fadd entry r) px \<and> flt stop entry
                 then emit (Ev_Stop_Updated k entry False)
                        (emit (Ev_Stop_Moved_To_Breakeven k entry)
                          (set_position k (p\<lparr>pos_stop_loss := Some entry\<rparr>) ex))
                 else ex)
              else if short_name (pos_side p) then
                (if fle px (fsub entry r) \<and> flt entry stop
                 then emit (Ev_Stop_Moved_To_Breakeven k entry)
                        (set_position k (p\<lparr>pos_stop_loss := Some entry\<rparr>) ex)
                 else ex)
              else ex)
      | _ \<Rightarrow> ex)"

definition partial_step :: "exchange \<Rightarrow> string \<Rightarrow> position \<Rightarrow> pyfloat option \<Rightarrow> pyfloat \<Rightarrow> exchange \<times> unit res" where
  "partial_step ex sy p risk px =
     (let k = py_upper sy
      in case (dget (ex_partial_tp ex) k, risk) of
           (Some (pctv, False), Some r) \<Rightarrow>
             (let pct = fquot pctv (Fin 100); entry = pos_average_entry_price p;
                  hit = (if long_name (pos_side p) then fle (fadd entry r) px else fle px (fsub entry r))
              in if hit \<and> flt (Fin 0) pct \<and> dmem k (pf_positions (ex_portfolio ex)) then
                   (let qty = fmul (pos_quantity p) pct;
                        fee = fr_fee (calculate_fee (ex_fee ex) (fmul qty px)
                                (asset_class_value (asset_class_of ex sy)) ''taker'' None)
                    in case close_position (ex_portfolio ex) k (Some qty) px fee of
                         (pf1, Inl e) \<Rightarrow> (set_portfolio ex pf1, Inl e)
                       | (pf1, Inr pnl) \<Rightarrow>
                           ((emit (Ev_Partial_Take_Profit k qty px pnl) (set_portfolio ex pf1))
                              \<lparr>ex_partial_tp := dput k (pctv, True) (ex_partial_tp ex)\<rparr>, Inr ()))
                 else (ex, Inr ()))
         | _ \<Rightarrow> (ex, Inr ()))"

definition stop_hit :: "position \<Rightarrow> pyfloat \<Rightarrow> bool" where
  "stop_hit p px = (case pos_stop_loss p of None \<Rightarrow> False
     | Some s \<Rightarrow> if long_name (pos_side p) then fle px s else fle s px)"

definition target_hit :: "position \<Rightarrow> pyfloat \<Rightarrow> bool" where
  "target_hit p px = (case pos_take_profit p of None \<Rightarrow> False
     | Some t \<Rightarrow> if long_name (pos_side p) then fle t px else fle px t)"

definition opt_feq :: "pyfloat option \<Rightarrow> pyfloat option \<Rightarrow> bool" where
  "opt_feq a b = (case (a, b) of (None, None) \<Rightarrow> True | (Some x, Some y) \<Rightarrow> feq x y | _ \<Rightarrow> False)"

definition trailing_step :: "exchange \<Rightarrow> string \<Rightarrow> position \<Rightarrow> pyfloat \<Rightarrow> exchange" where
  "trailing_step ex sy p px =
     (let k = py_upper sy;
          ns = trailing_update (ex_trailing ex) sy (pos_side p) px (pos_stop_loss p)
      in case ns of
           None \<Rightarrow> ex
         | Some s \<Rightarrow> if opt_feq ns (pos_stop_loss p) then ex
             else emit (Ev_Stop_Updated k s True) (set_position k (p\<lparr>pos_stop_loss := ns\<rparr>) ex))"

definition mean_reversion_step :: "exchange \<Rightarrow> string \<Rightarrow> pyfloat \<Rightarrow> exchange \<times> unit res" where
  "mean_reversion_step ex sy px =
     (let k = py_upper sy
      in case (dget (ex_mean_reversion ex) k, dget (pf_positions (ex_portfolio ex)) k) of
           (Some sma, Some p) \<Rightarrow>
             if long_name (pos_side p) \<and> fle px sma \<or> short_name (pos_side p) \<and> fle sma px
             then exit_position ex sy px ''MEAN_REVERSION_SMA'' else (ex, Inr ())
         | _ \<Rightarrow> (ex, Inr ()))"

text \<open>The second half of \<open>_manage_open_position\<close>: stop, target, trailing stop, mean reversion.\<close>

definition manage_exits :: "exchange \<Rightarrow> string \<Rightarrow> pyfloat \<Rightarrow> exchange \<times> unit res" where
  "manage_exits ex sy px =
     (case dget (pf_positions (ex_portfolio ex)) (py_upper sy) of
        None \<Rightarrow> (ex, Inr ())
      | Some p \<Rightarrow>
          if stop_hit p px then exit_position ex sy px ''STOP_LOSS''
          else if target_hit p px then exit_position ex sy px ''TAKE_PROFIT''
          else mean_reversion_step (trailing_step ex sy p px) sy px)"

text \<open>The first half: mark, break-even, partial profit.\<close>

definition manage_partial :: "exchange \<Rightarrow> string \<Rightarrow> position \<Rightarrow> pyfloat \<Rightarrow> exchange \<times> unit res" where
  "manage_partial ex sy p px =
     (let k = py_upper sy;
          ex1 = breakeven_step (set_position k p ex) k p px;
          p1 = opt_default (dget (pf_positions (ex_portfolio ex1)) k) p
      in partial_step ex1 sy p1 (position_risk p) px)"

definition manage_open_position :: "exchange \<Rightarrow> string \<Rightarrow> pyfloat \<Rightarrow> exchange \<times> unit res" where
  "manage_open_position ex sy px =
     (case dget (pf_positions (ex_portfolio ex)) (py_upper sy) of
        None \<Rightarrow> (ex, Inr ())
      | Some p \<Rightarrow>
          (case manage_partial ex sy (mark px p) px of
             (ex1, Inl e) \<Rightarrow> (ex1, Inl e) | (ex1, Inr _) \<Rightarrow> manage_exits ex1 sy px))"

section \<open>Price updates\<close>

definition order_triggered :: "order \<Rightarrow> pyfloat \<Rightarrow> bool" where
  "order_triggered ord px = (case o_order_type ord of
     LIMIT \<Rightarrow> limit_triggered ord px
   | TAKE_PROFIT \<Rightarrow> take_profit_triggered ord px
   | MARKET \<Rightarrow> False
   | _ \<Rightarrow> stop_triggered ord px)"

definition price_step ::
  "(string \<Rightarrow> string) \<Rightarrow> (pyfloat \<Rightarrow> string) \<Rightarrow> exchange \<Rightarrow> pyfloat \<Rightarrow> string \<Rightarrow> exchange \<times> fill list res" where
  "price_step h16 f10 ex px k = (case dget (ex_orders ex) k of
     None \<Rightarrow> (ex, Inr [])
   | Some ord \<Rightarrow>
       if \<not> order_triggered ord px then (ex, Inr [])
       else if o_order_type ord = LIMIT then
         (case fill_market h16 f10 ex ord (float_or (o_limit_price ord) px) True of
            (ex1, Inl e) \<Rightarrow> (ex1, Inl e) | (ex1, Inr o1) \<Rightarrow> (ex1, Inr (o_fills o1)))
       else
         (let fpx = (if o_order_type ord \<in> {STOP, TAKE_PROFIT} then px else float_or (o_limit_price ord) px)
          in case fill_market h16 f10 (emit (Ev_Stop_Triggered (order_key ord) (o_stop_price ord) fpx) ex)
                    ord fpx False of
               (ex1, Inl e) \<Rightarrow> (ex1, Inl e)
             | (ex1, Inr o1) \<Rightarrow>
                 (ex1, Inr [\<lparr>fl_fill_id = [], fl_order_id = order_key o1, fl_symbol = o_symbol o1,
                    fl_side = o_side o1, fl_quantity = o_filled_quantity o1,
                    fl_requested_price = o_requested_price o1,
                    fl_fill_price = float_or (o_average_fill_price o1) fpx, fl_slippage = o_slippage o1,
                    fl_fee = o_fees o1, fl_liquidity = ''taker''\<rparr>])))"

fun price_loop ::
  "(string \<Rightarrow> string) \<Rightarrow> (pyfloat \<Rightarrow> string) \<Rightarrow> exchange \<Rightarrow> pyfloat \<Rightarrow> string list \<Rightarrow> exchange \<times> fill list res" where
  "price_loop h16 f10 ex px [] = (ex, Inr [])"
| "price_loop h16 f10 ex px (k # ks) =
     (case price_step h16 f10 ex px k of
        (ex1, Inl e) \<Rightarrow> (ex1, Inl e)
      | (ex1, Inr fs) \<Rightarrow>
          (case price_loop h16 f10 ex1 px ks of
             (ex2, Inl e) \<Rightarrow> (ex2, Inl e) | (ex2, Inr gs) \<Rightarrow> (ex2, Inr (fs @ gs))))"

definition on_price_update ::
  "(string \<Rightarrow> string) \<Rightarrow> (pyfloat \<Rightarrow> string) \<Rightarrow> exchange \<Rightarrow> string \<Rightarrow> pyfloat \<Rightarrow> exchange \<times> fill list res" where
  "on_price_update h16 f10 ex sy px =
     (let ex1 = set_price ex sy px
      in case price_loop h16 f10 ex1 px (map fst (get_open_orders ex1 (Some sy))) of
           (ex2, Inl e) \<Rightarrow> (ex2, Inl e)
         | (ex2, Inr fs) \<Rightarrow>
             (case manage_open_position ex2 sy px of
                (ex3, Inl e) \<Rightarrow> (ex3, Inl e) | (ex3, Inr _) \<Rightarrow> (ex3, Inr fs)))"

section \<open>End of day and rules\<close>

text \<open>The result of a cancellation is not used, but it may raise.\<close>

fun cancel_all :: "exchange \<Rightarrow> string list \<Rightarrow> exchange \<times> unit res" where
  "cancel_all ex [] = (ex, Inr ())"
| "cancel_all ex (k # ks) = (case cancel_order ex k of
     (ex1, Inl e) \<Rightarrow> (ex1, Inl e) | (ex1, Inr _) \<Rightarrow> cancel_all ex1 ks)"

fun flatten_all :: "exchange \<Rightarrow> string list \<Rightarrow> exchange \<times> unit res" where
  "flatten_all ex [] = (ex, Inr ())"
| "flatten_all ex (k # ks) =
     (case (dget (ex_prices ex) k, dget (pf_positions (ex_portfolio ex)) k) of
        (_, None) \<Rightarrow> (ex, Inl (KeyError k))
      | (pxo, Some p) \<Rightarrow>
          (case exit_position ex k (opt_default pxo (pos_current_price p)) ''EOD_FLATTEN'' of
             (ex1, Inl e) \<Rightarrow> (ex1, Inl e) | (ex1, Inr _) \<Rightarrow> flatten_all ex1 ks))"

definition end_of_day :: "exchange \<Rightarrow> exchange \<times> unit res" where
  "end_of_day ex =
     (let ids = map fst (get_open_orders ex None)
      in case cancel_all ex ids of
           (ex1, Inl e) \<Rightarrow> (ex1, Inl e)
         | (ex1, Inr _) \<Rightarrow>
             (let syms = (if ex_flatten_at_eod ex1 then map fst (pf_positions (ex_portfolio ex1)) else [])
              in case flatten_all ex1 syms of
                   (ex2, Inl e) \<Rightarrow> (ex2, Inl e)
                 | (ex2, Inr _) \<Rightarrow>
                     (case snapshot (ex_portfolio ex2) (ex_prices ex2) of
                        (pf3, sn) \<Rightarrow>
                          (emit (Ev_Eod ids syms (sn_equity sn) (sn_daily_pnl sn))
                             (set_portfolio ex2 (reset_day pf3)), Inr ()))))"

definition configure_position_rules ::
  "exchange \<Rightarrow> string \<Rightarrow> bool \<Rightarrow> pyfloat option \<Rightarrow> pyfloat option \<Rightarrow> pyfloat \<Rightarrow> pyfloat option
   \<Rightarrow> pyfloat option \<Rightarrow> pyfloat option \<Rightarrow> bool \<Rightarrow> exchange" where
  "configure_position_rules ex sy be ptp tatr tmult tpct tdist sma widen =
     (let k = py_upper sy;
          base = \<lparr>ts_mode = Atr, ts_atr = Fin 0, ts_multiplier = Fin 2, ts_percentage = flit (2 / 100),
                  ts_distance = Fin 0, ts_allow_widen = widen\<rparr>;
          te0 = ex_trailing ex;
          te1 = (case tatr of None \<Rightarrow> te0
                 | Some a \<Rightarrow> trailing_configure te0 k (base\<lparr>ts_atr := a, ts_multiplier := tmult\<rparr>));
          te2 = (case tpct of None \<Rightarrow> te1
                 | Some p \<Rightarrow> trailing_configure te1 k (base\<lparr>ts_mode := Percentage, ts_percentage := p\<rparr>));
          te3 = (case tdist of None \<Rightarrow> te2
                 | Some d \<Rightarrow> trailing_configure te2 k (base\<lparr>ts_mode := Fixed_Distance, ts_distance := d\<rparr>))
      in ex\<lparr>ex_be_flags := dput k be (ex_be_flags ex),
            ex_partial_tp := (case ptp of None \<Rightarrow> ex_partial_tp ex
                              | Some v \<Rightarrow> dput k (v, False) (ex_partial_tp ex)),
            ex_trailing := te3,
            ex_mean_reversion := (case sma of None \<Rightarrow> ex_mean_reversion ex
                                  | Some s \<Rightarrow> dput k s (ex_mean_reversion ex))\<rparr>)"

section \<open>What an operation leaves alone\<close>

text \<open>Orders, fills, their counters and the circuit breaker.\<close>

definition core ::
  "exchange \<Rightarrow> (string \<times> order) list \<times> fill list \<times> nat \<times> int \<times> bool \<times> int \<times> string list" where
  "core ex = (ex_orders ex, ex_fills ex, ex_fill_seq ex, ex_api_failures ex, ex_halted ex, ex_max_fail ex,
              ex_seen_client_ids ex)"

lemma core_simps [simp]:
  "core (emit e ex) = core ex" "core (set_portfolio ex pf) = core ex"
  "core (set_position k p ex) = core ex" "core (set_price ex sy px) = core ex"
  "core (record_trade ord q x f s g ex) = core ex" "core (record_trade_close p x f g r ex) = core ex"
  by (simp_all add: core_def emit_def set_portfolio_def set_position_def set_price_def record_trade_def
      record_trade_close_def)

lemma portfolio_simps [simp]:
  "ex_portfolio (emit e ex) = ex_portfolio ex" "ex_portfolio (set_portfolio ex pf) = pf"
  "ex_portfolio (set_price ex sy px) = ex_portfolio ex" "ex_portfolio (store ord ex) = ex_portfolio ex"
  "ex_portfolio (record_trade ord q x f s g ex) = ex_portfolio ex"
  "ex_portfolio (record_trade_close p x f g r ex) = ex_portfolio ex"
  "ex_portfolio (record_api_failure ex) = ex_portfolio ex"
  by (simp_all add: emit_def set_portfolio_def set_price_def record_trade_def record_trade_close_def
      store_def record_api_failure_def Let_def)

lemma core_orders: "core a = core b \<Longrightarrow> ex_orders a = ex_orders b"
  by (simp add: core_def)

lemma exit_position_core [simp]: "core (fst (exit_position ex sy px r)) = core ex"
  by (auto simp: exit_position_def Let_def split: option.splits prod.splits sum.splits)

lemma breakeven_core [simp]: "core (breakeven_step ex k p px) = core ex"
  by (auto simp: breakeven_step_def Let_def split: option.splits)

lemma partial_core [simp]: "core (fst (partial_step ex sy p r px)) = core ex"
proof -
  have "core (e\<lparr>ex_partial_tp := d\<rparr>) = core e" for e d by (simp add: core_def)
  then show ?thesis
    by (auto simp: partial_step_def Let_def split: option.splits prod.splits sum.splits bool.splits)
qed

lemma trailing_core [simp]: "core (trailing_step ex sy p px) = core ex"
  by (auto simp: trailing_step_def Let_def split: option.splits)

lemma mean_reversion_core [simp]: "core (fst (mean_reversion_step ex sy px)) = core ex"
  by (auto simp: mean_reversion_step_def Let_def split: option.splits)

lemma manage_exits_core [simp]: "core (fst (manage_exits ex sy px)) = core ex"
  by (auto simp: manage_exits_def split: option.splits)

lemma manage_partial_core [simp]: "core (fst (manage_partial ex sy p px)) = core ex"
  by (simp add: manage_partial_def Let_def)

lemma manage_core [simp]: "core (fst (manage_open_position ex sy px)) = core ex"
proof (cases "dget (pf_positions (ex_portfolio ex)) (py_upper sy)")
  case (Some p)
  obtain ex1 r where "manage_partial ex sy (mark px p) px = (ex1, r)" by fastforce
  with manage_partial_core [of ex sy "mark px p" px] Some show ?thesis
    by (auto simp: manage_open_position_def split: sum.splits)
qed (simp add: manage_open_position_def)

section \<open>How stored orders change\<close>

definition advances :: "order \<Rightarrow> order \<Rightarrow> bool" where
  "advances a b \<longleftrightarrow> (terminal_status (o_status a) \<longrightarrow> b = a)
     \<and> status_rank (o_status a) \<le> status_rank (o_status b) \<and> o_order_id b = o_order_id a"

definition orders_advance :: "(string \<times> order) list \<Rightarrow> (string \<times> order) list \<Rightarrow> bool" where
  "orders_advance os os' \<longleftrightarrow> (\<forall>k a. dget os k = Some a \<longrightarrow> (\<exists>b. dget os' k = Some b \<and> advances a b))"

lemma advances_refl [simp]: "advances a a"
  by (simp add: advances_def)

lemma advances_trans: "advances a b \<Longrightarrow> advances b c \<Longrightarrow> advances a c"
  by (auto simp: advances_def)

lemma orders_advance_refl [simp]: "orders_advance os os"
  by (auto simp: orders_advance_def)

lemma orders_advance_trans: "orders_advance a b \<Longrightarrow> orders_advance b c \<Longrightarrow> orders_advance a c"
  unfolding orders_advance_def by (meson advances_trans)

lemma orders_advance_put:
  "(\<And>a. dget os k = Some a \<Longrightarrow> advances a b) \<Longrightarrow> orders_advance os (dput k b os)"
  by (auto simp: orders_advance_def dget_dput)

lemma transition_advances:
  assumes "order_transition a t = Inr b" and "\<not> terminal_status (o_status a)"
  shows "status_rank (o_status a) \<le> status_rank (o_status b)" "o_order_id b = o_order_id a"
proof -
  from assms(1) have b: "b = a\<lparr>o_status := t\<rparr>" by (rule order_transition_status)
  from assms(1) obtain u where "status_transition (o_status a) t = Inr u"
    by (auto simp: order_transition_def split: sum.splits)
  with ost.step_climbs [of "o_status a" t u] show "status_rank (o_status a) \<le> status_rank (o_status b)"
    by (cases "o_status a = t") (auto simp: b)
  show "o_order_id b = o_order_id a" by (simp add: b)
qed

lemma transition_id: "order_transition a t = Inr b \<Longrightarrow> o_order_id b = o_order_id a"
  by (drule order_transition_status) simp

text \<open>An operation on the order stored under \<open>k\<close> that leaves every other order alone.\<close>

definition touches :: "string \<Rightarrow> order \<Rightarrow> exchange \<Rightarrow> exchange \<Rightarrow> bool" where
  "touches k a ex ex' \<longleftrightarrow> ex_orders ex' = ex_orders ex
     \<or> (\<exists>b. ex_orders ex' = dput k b (ex_orders ex) \<and> o_order_id b = o_order_id a
          \<and> (\<not> terminal_status (o_status a) \<longrightarrow> status_rank (o_status a) \<le> status_rank (o_status b)))"

lemma route_fill_core [simp]: "core (fst (route_fill ex ord q px f s)) = core ex"
  by (auto simp: route_fill_def Let_def split: prod.splits sum.splits)

lemma annotate_core [simp]: "core (annotate_position ord ex) = core ex"
  by (simp add: annotate_position_def Let_def split: option.splits)

lemma orders_simps [simp]:
  "ex_orders (store ord ex) = dput (order_key ord) ord (ex_orders ex)"
  "ex_orders (emit e ex) = ex_orders ex" "ex_orders (annotate_position ord ex) = ex_orders ex"
  "ex_orders (set_price ex sy px) = ex_orders ex" "ex_orders (record_api_failure ex) = ex_orders ex"
  using core_orders [OF annotate_core]
  by (simp_all add: store_def emit_def set_price_def record_api_failure_def Let_def)

lemma reject_after_error_advances:
  "reject_after_error e a = Inr b \<Longrightarrow>
   o_order_id b = o_order_id a \<and> (\<not> terminal_status (o_status a) \<longrightarrow> status_rank (o_status a) \<le> status_rank (o_status b))"
  by (auto simp: reject_after_error_def Let_def bind_res_Inr_iff dest: transition_advances transition_id split: if_splits)

lemma order_key_cong: "o_order_id b = o_order_id a \<Longrightarrow> order_key b = order_key a"
  by (simp add: order_key_def)

lemma apply_fill_touches: "touches (order_key a) a ex (fst (apply_fill h f ex a q px fee slip liq))"
proof -
  define o1 where "o1 = a\<lparr>o_filled_quantity := fadd (o_filled_quantity a) q, o_average_fill_price := Some px,
    o_fees := fadd (o_fees a) fee, o_slippage := slip\<rparr>"
  define t where "t = (if fle (o_quantity o1) (fadd (o_filled_quantity o1) qty_tol) then FILLED else PARTIALLY_FILLED)"
  have o1: "o_order_id o1 = o_order_id a" "o_status o1 = o_status a" by (simp_all add: o1_def)
  show ?thesis
  proof (cases "order_transition o1 t")
    case (Inl e)
    then show ?thesis
      using o1 by (auto simp: apply_fill_def touches_def Let_def order_key_cong [OF o1(1)]
          simp flip: o1_def t_def)
  next
    case (Inr o2)
    have "o_order_id o2 = o_order_id a" using order_transition_status [OF Inr] o1 by simp
    moreover have "\<not> terminal_status (o_status a) \<longrightarrow> status_rank (o_status a) \<le> status_rank (o_status o2)"
      using transition_advances [OF Inr] o1 by simp
    ultimately show ?thesis
      using Inr by (auto simp: apply_fill_def touches_def Let_def order_key_def simp flip: o1_def t_def)
  qed
qed

lemma fill_market_cases:
  obtains p s l q fee ex1 r where
    "fill_terms ex a px lf = (p, s, l, q)"
    "fee = fr_fee (calculate_fee (ex_fee ex) (fmul q p) (asset_class_value (o_instrument_type a)) l (Some ''paper''))"
    "route_fill ex a q p fee s = (ex1, r)"
    "fill_market h f ex a px lf =
      (case r of Inl e \<Rightarrow> (case reject_after_error e a of Inl e' \<Rightarrow> (ex1, Inl e') | Inr o1 \<Rightarrow> (store o1 ex1, Inr o1))
       | Inr _ \<Rightarrow> apply_fill h f ex1 a q p fee s l)"
proof -
  obtain p s l q where t: "fill_terms ex a px lf = (p, s, l, q)" by (metis prod_cases4)
  define fee where "fee = fr_fee (calculate_fee (ex_fee ex) (fmul q p)
      (asset_class_value (o_instrument_type a)) l (Some ''paper''))"
  obtain ex1 r where r: "route_fill ex a q p fee s = (ex1, r)" by fastforce
  show ?thesis
    by (rule that [OF t fee_def r]) (use r in \<open>simp add: fill_market_def t Let_def flip: fee_def\<close>)
qed

lemma fill_market_touches: "touches (order_key a) a ex (fst (fill_market h f ex a px lf))"
proof -
  obtain p s l q fee ex1 r where r: "route_fill ex a q p fee s = (ex1, r)"
    and fm: "fill_market h f ex a px lf =
      (case r of Inl e \<Rightarrow> (case reject_after_error e a of Inl e' \<Rightarrow> (ex1, Inl e') | Inr o1 \<Rightarrow> (store o1 ex1, Inr o1))
       | Inr _ \<Rightarrow> apply_fill h f ex1 a q p fee s l)"
    by (rule fill_market_cases [of ex a px lf h f]) (rule that)
  have "core ex1 = core ex" using route_fill_core [of ex a q p fee s] by (simp add: r)
  then have ord: "ex_orders ex1 = ex_orders ex" by (rule core_orders)
  show ?thesis
  proof (cases r)
    case (Inl e)
    show ?thesis
    proof (cases "reject_after_error e a")
      case (Inr b)
      with reject_after_error_advances [OF Inr] show ?thesis
        by (auto simp: fm touches_def ord \<open>r = Inl e\<close> order_key_def)
    qed (simp add: fm touches_def ord Inl)
  next
    case (Inr u)
    with apply_fill_touches [of a ex1 h f q p fee s l] show ?thesis
      by (simp add: fm touches_def ord)
  qed
qed

section \<open>The invariant of the exchange\<close>

definition orders_ok :: "(string \<times> order) list \<Rightarrow> bool" where
  "orders_ok os \<longleftrightarrow> keys_ok os \<and> (\<forall>(k, ord) \<in> set os. o_order_id ord = Some k)"

definition ex_ok :: "exchange \<Rightarrow> bool" where
  "ex_ok ex \<longleftrightarrow> book_ok (pf_positions (ex_portfolio ex)) \<and> orders_ok (ex_orders ex)
     \<and> ex_fill_seq ex = length (ex_fills ex) \<and> 0 < ex_max_fail ex
     \<and> (ex_max_fail ex \<le> ex_api_failures ex \<longrightarrow> ex_halted ex)"

lemma ex_ok_core: "core ex' = core ex \<Longrightarrow> ex_ok ex \<Longrightarrow> book_ok (pf_positions (ex_portfolio ex')) \<Longrightarrow> ex_ok ex'"
  by (simp add: ex_ok_def core_def)

lemma ex_ok_book: "ex_ok ex \<Longrightarrow> book_ok (pf_positions (ex_portfolio ex))"
  by (simp add: ex_ok_def)

lemma orders_ok_get: "orders_ok os \<Longrightarrow> dget os k = Some a \<Longrightarrow> o_order_id a = Some k"
  by (auto simp: orders_ok_def dest: dget_in_set)

lemma orders_ok_put: "orders_ok os \<Longrightarrow> o_order_id b = Some k \<Longrightarrow> orders_ok (dput k b os)"
  using set_dput [of k b os] by (auto simp: orders_ok_def)

lemma close_book: "close_position pf sy q x f = (pf', r) \<Longrightarrow> book_ok (pf_positions pf) \<Longrightarrow> book_ok (pf_positions pf')"
  using close_position_book [of pf sy q x f] by simp

lemma open_book:
  "open_position pf sy sd q x f sl tp i v = (pf', r) \<Longrightarrow> book_ok (pf_positions pf) \<Longrightarrow> book_ok (pf_positions pf')"
  using open_position_book [of pf sy sd q x f sl tp i v] by simp

lemma snap_book: "snapshot pf ms = (pf', sn) \<Longrightarrow> book_ok (pf_positions pf) \<Longrightarrow> book_ok (pf_positions pf')"
  using snapshot_book [of pf ms] by simp

lemmas book_steps = close_book open_book snap_book

lemma exit_ok [inv_intros]: "ex_ok ex \<Longrightarrow> ex_ok (fst (exit_position ex sy px r))"
  by (rule ex_ok_core [OF exit_position_core])
    (auto simp: exit_position_def Let_def dest: ex_ok_book book_steps split: option.splits prod.splits sum.splits)

lemma set_position_book:
  assumes "book_ok (pf_positions (ex_portfolio ex))" and "dget (pf_positions (ex_portfolio ex)) k = Some p0"
    and "pos_symbol p = pos_symbol p0" and "pos_side p = pos_side p0"
  shows "book_ok (pf_positions (ex_portfolio (set_position k p ex)))"
  using book_ok_get [OF assms(1,2)] assms by (auto simp: set_position_def intro!: book_ok_put)

lemma set_position_fields [simp]:
  "ex_be_flags (set_position k p ex) = ex_be_flags ex" "ex_partial_tp (set_position k p ex) = ex_partial_tp ex"
  "ex_trades (set_position k p ex) = ex_trades ex"
  by (simp_all add: set_position_def set_portfolio_def)

lemma set_position_get [simp]:
  "dget (pf_positions (ex_portfolio (set_position k p ex))) k' =
     (if k' = k then Some p else dget (pf_positions (ex_portfolio ex)) k')"
  by (simp add: set_position_def dget_dput)

lemma breakeven_book:
  assumes "book_ok (pf_positions (ex_portfolio ex))" and "dget (pf_positions (ex_portfolio ex)) k = Some p"
  shows "book_ok (pf_positions (ex_portfolio (breakeven_step ex k p px)))"
    and "\<exists>p'. dget (pf_positions (ex_portfolio (breakeven_step ex k p px))) k = Some p'"
  using assms by (auto simp: breakeven_step_def Let_def intro!: set_position_book split: option.splits)

lemma partial_book:
  "book_ok (pf_positions (ex_portfolio ex)) \<Longrightarrow> book_ok (pf_positions (ex_portfolio (fst (partial_step ex sy p r px))))"
  by (auto simp: partial_step_def Let_def emit_def dest: book_steps
      split: option.splits prod.splits sum.splits bool.splits)

lemma trailing_book:
  assumes "book_ok (pf_positions (ex_portfolio ex))" and "dget (pf_positions (ex_portfolio ex)) (py_upper sy) = Some p"
  shows "book_ok (pf_positions (ex_portfolio (trailing_step ex sy p px)))"
  using assms by (auto simp: trailing_step_def Let_def intro!: set_position_book split: option.splits)

lemma manage_exits_ok: "ex_ok ex \<Longrightarrow> ex_ok (fst (manage_exits ex sy px))"
proof -
  assume ok: "ex_ok ex"
  have "ex_ok (fst (mean_reversion_step e sy px))" if "ex_ok e" for e
    using that by (auto simp: mean_reversion_step_def Let_def exit_ok split: option.splits)
  moreover have "ex_ok (trailing_step ex sy p px)"
    if "dget (pf_positions (ex_portfolio ex)) (py_upper sy) = Some p" for p
    by (rule ex_ok_core [OF trailing_core ok]) (rule trailing_book [OF ex_ok_book [OF ok] that])
  ultimately show ?thesis using ok by (auto simp: manage_exits_def exit_ok split: option.splits)
qed

lemma manage_partial_ok:
  assumes ok: "ex_ok ex" and p: "dget (pf_positions (ex_portfolio ex)) (py_upper sy) = Some p"
  shows "ex_ok (fst (manage_partial ex sy (mark px p) px))"
proof (rule ex_ok_core [OF manage_partial_core ok])
  have "book_ok (pf_positions (ex_portfolio (set_position (py_upper sy) (mark px p) ex)))"
    by (rule set_position_book [OF ex_ok_book [OF ok] p]) simp_all
  from breakeven_book(1) [OF this, of "py_upper sy" "mark px p"]
  show "book_ok (pf_positions (ex_portfolio (fst (manage_partial ex sy (mark px p) px))))"
    by (simp add: manage_partial_def Let_def partial_book)
qed

lemma manage_ok [inv_intros]: "ex_ok ex \<Longrightarrow> ex_ok (fst (manage_open_position ex sy px))"
  using manage_partial_ok [of ex sy _ px] manage_exits_ok
  by (fastforce simp: manage_open_position_def split: option.splits prod.splits sum.splits)

lemma route_ok: "ex_ok ex \<Longrightarrow> ex_ok (fst (route_fill ex ord q px f s))"
  by (rule ex_ok_core [OF route_fill_core])
    (auto simp: route_fill_def Let_def dest: ex_ok_book book_steps split: prod.splits sum.splits)

lemma store_ok: "ex_ok ex \<Longrightarrow> o_order_id ord \<noteq> None \<Longrightarrow> ex_ok (store ord ex)"
  by (auto simp: ex_ok_def store_def order_key_def opt_default_def intro!: orders_ok_put)

lemma annotate_ok: "ex_ok ex \<Longrightarrow> ex_ok (annotate_position ord ex)"
proof (cases "dget (pf_positions (ex_portfolio ex)) (o_symbol ord)")
  case (Some p)
  assume ok: "ex_ok ex"
  show ?thesis
    by (rule ex_ok_core [OF annotate_core ok])
      (simp add: annotate_position_def Some Let_def book_ok_put ex_ok_book [OF ok]
        book_ok_get [OF ex_ok_book [OF ok] Some])
qed (simp add: annotate_position_def)

lemma emit_ok [simp]: "ex_ok (emit e ex) = ex_ok ex"
  by (simp add: ex_ok_def emit_def)

lemma apply_fill_ok:
  assumes "ex_ok ex" and "o_order_id a \<noteq> None"
  shows "ex_ok (fst (apply_fill h f ex a q px fee s liq))"
proof -
  have ok: "ex_ok (ex\<lparr>ex_fill_seq := Suc (ex_fill_seq ex), ex_fills := ex_fills ex @ [fl]\<rparr>)" for fl
    using assms(1) by (simp add: ex_ok_def)
  define o1 where "o1 = a\<lparr>o_filled_quantity := fadd (o_filled_quantity a) q, o_average_fill_price := Some px,
    o_fees := fadd (o_fees a) fee, o_slippage := s\<rparr>"
  define t where "t = (if fle (o_quantity o1) (fadd (o_filled_quantity o1) qty_tol) then FILLED else PARTIALLY_FILLED)"
  have o1: "o_order_id o1 \<noteq> None" using assms(2) by (simp add: o1_def)
  show ?thesis
  proof (cases "order_transition o1 t")
    case (Inl e)
    then show ?thesis
      using store_ok [OF ok o1] by (simp add: apply_fill_def Let_def flip: o1_def t_def)
  next
    case (Inr o2)
    have "o_order_id (o2\<lparr>o_fills := fs\<rparr>) \<noteq> None" for fs using o1 transition_id [OF Inr] by simp
    from annotate_ok [OF emit_ok [THEN iffD2, OF store_ok [OF ok this]]] Inr
    show ?thesis by (simp add: apply_fill_def Let_def flip: o1_def t_def)
  qed
qed

lemma fill_market_ok [inv_intros]:
  assumes "ex_ok ex" and "o_order_id a \<noteq> None"
  shows "ex_ok (fst (fill_market h f ex a px lf))"
proof -
  obtain p s l q fee ex1 r where r: "route_fill ex a q p fee s = (ex1, r)"
    and fm: "fill_market h f ex a px lf =
      (case r of Inl e \<Rightarrow> (case reject_after_error e a of Inl e' \<Rightarrow> (ex1, Inl e') | Inr o1 \<Rightarrow> (store o1 ex1, Inr o1))
       | Inr _ \<Rightarrow> apply_fill h f ex1 a q p fee s l)"
    by (rule fill_market_cases [of ex a px lf h f]) (rule that)
  have ok: "ex_ok ex1" using route_ok [OF assms(1), of a q p fee s] by (simp add: r)
  show ?thesis
  proof (cases r)
    case (Inl e)
    then show ?thesis using assms(2) ok
      by (auto simp: fm intro!: store_ok dest: reject_after_error_advances split: sum.splits)
  next
    case (Inr u)
    then show ?thesis using apply_fill_ok [OF ok assms(2)] by (simp add: fm)
  qed
qed

section \<open>Operations on resting orders\<close>

lemma touches_advance:
  assumes "touches k a ex ex'" and "dget (ex_orders ex) k = Some a" and "\<not> terminal_status (o_status a)"
  shows "orders_advance (ex_orders ex) (ex_orders ex')"
    and "k' \<noteq> k \<Longrightarrow> dget (ex_orders ex') k' = dget (ex_orders ex) k'"
  using assms by (auto simp: touches_def advances_def dget_dput intro!: orders_advance_put)

lemma price_step_state:
  "fst (price_step h f ex px k) = (case dget (ex_orders ex) k of
     None \<Rightarrow> ex
   | Some a \<Rightarrow>
       if \<not> order_triggered a px then ex
       else if o_order_type a = LIMIT then fst (fill_market h f ex a (float_or (o_limit_price a) px) True)
       else (let fpx = (if o_order_type a \<in> {STOP, TAKE_PROFIT} then px else float_or (o_limit_price a) px)
             in fst (fill_market h f (emit (Ev_Stop_Triggered (order_key a) (o_stop_price a) fpx) ex) a fpx False)))"
  unfolding price_step_def Let_def by (cases "dget (ex_orders ex) k") simp_all

lemma price_step_ok:
  assumes "ex_ok ex" shows "ex_ok (fst (price_step h f ex px k))"
proof (cases "dget (ex_orders ex) k")
  case (Some a)
  have "o_order_id a = Some k" using assms Some by (auto simp: ex_ok_def dest: orders_ok_get)
  then show ?thesis using Some assms by (simp add: price_step_state Let_def fill_market_ok)
qed (simp add: price_step_state assms)

lemma touches_emit [simp]: "touches k a (emit e ex) ex' = touches k a ex ex'"
  by (simp add: touches_def)

lemma price_step_advance:
  assumes ok: "orders_ok (ex_orders ex)" and live: "\<And>a. dget (ex_orders ex) k = Some a \<Longrightarrow> \<not> terminal_status (o_status a)"
  shows "orders_advance (ex_orders ex) (ex_orders (fst (price_step h f ex px k)))"
    and "k' \<noteq> k \<Longrightarrow> dget (ex_orders (fst (price_step h f ex px k))) k' = dget (ex_orders ex) k'"
proof -
  have "touches k a ex (fst (price_step h f ex px k))" if a: "dget (ex_orders ex) k = Some a" for a
  proof -
    have k: "order_key a = k" using orders_ok_get [OF ok a] by (simp add: order_key_def opt_default_def)
    have "touches k a ex (fst (fill_market h f ex a p lf))"
      and "touches k a ex (fst (fill_market h f (emit ev ex) a p lf))" for p lf ev
      using fill_market_touches [of a ex h f p lf] fill_market_touches [of a "emit ev ex" h f p lf]
      by (simp_all add: k)
    then show ?thesis using a by (simp add: price_step_state Let_def) (simp add: touches_def)
  qed
  then show "orders_advance (ex_orders ex) (ex_orders (fst (price_step h f ex px k)))"
    and "k' \<noteq> k \<Longrightarrow> dget (ex_orders (fst (price_step h f ex px k))) k' = dget (ex_orders ex) k'"
    using live touches_advance [of k _ ex "fst (price_step h f ex px k)"]
    by (cases "dget (ex_orders ex) k"; auto simp: price_step_state)+
qed

lemma price_loop_ok: "ex_ok ex \<Longrightarrow> ex_ok (fst (price_loop h f ex px ks))"
proof (induction ks arbitrary: ex)
  case (Cons k ks)
  obtain ex1 r where s: "price_step h f ex px k = (ex1, r)" by fastforce
  with price_step_ok [OF Cons.prems, of h f px k] have "ex_ok ex1" by simp
  with Cons.IH [of ex1] show ?case by (simp add: s split: sum.splits)
qed simp

lemma price_loop_advance:
  assumes "ex_ok ex" and "distinct ks"
    and "\<And>k a. k \<in> set ks \<Longrightarrow> dget (ex_orders ex) k = Some a \<Longrightarrow> \<not> terminal_status (o_status a)"
  shows "orders_advance (ex_orders ex) (ex_orders (fst (price_loop h f ex px ks)))"
  using assms
proof (induction ks arbitrary: ex)
  case (Cons k ks)
  have oo: "orders_ok (ex_orders ex)" using Cons.prems(1) by (simp add: ex_ok_def)
  obtain ex1 r where s: "price_step h f ex px k = (ex1, r)" by fastforce
  with price_step_ok [OF Cons.prems(1), of h f px k] have ok1: "ex_ok ex1" by simp
  have adv: "orders_advance (ex_orders ex) (ex_orders ex1)"
    and same: "\<And>k'. k' \<noteq> k \<Longrightarrow> dget (ex_orders ex1) k' = dget (ex_orders ex) k'"
    using price_step_advance [OF oo, where k = k and h = h and f = f and px = px] Cons.prems(3) s by auto
  have "orders_advance (ex_orders ex1) (ex_orders (fst (price_loop h f ex1 px ks)))"
  proof (rule Cons.IH [OF ok1])
    show "distinct ks" using Cons.prems(2) by simp
    show "\<And>k' a. k' \<in> set ks \<Longrightarrow> dget (ex_orders ex1) k' = Some a \<Longrightarrow> \<not> terminal_status (o_status a)"
      using same Cons.prems(2,3) by (metis distinct.simps(2) list.set_intros(2))
  qed
  with adv show ?case by (auto simp: s split: sum.splits intro: orders_advance_trans)
qed simp

lemma open_orders_distinct:
  assumes "orders_ok (ex_orders ex)"
  shows "distinct (map fst (get_open_orders ex sy))"
    and "k \<in> set (map fst (get_open_orders ex sy)) \<Longrightarrow> dget (ex_orders ex) k = Some a \<Longrightarrow> \<not> terminal_status (o_status a)"
proof -
  have d: "distinct (map fst (ex_orders ex))" using assms by (simp add: orders_ok_def keys_ok_def)
  show "distinct (map fst (get_open_orders ex sy))"
    unfolding get_open_orders_def Let_def using d
    by (auto simp: distinct_map_filter)
  show "\<not> terminal_status (o_status a)"
    if "k \<in> set (map fst (get_open_orders ex sy))" "dget (ex_orders ex) k = Some a"
  proof -
    from that(1) obtain b where "(k, b) \<in> set (ex_orders ex)" and b: "\<not> terminal_status (o_status b)"
      by (auto simp: get_open_orders_def Let_def split: if_splits)
    then have "dget (ex_orders ex) k = Some b" using d by simp
    with that(2) b show ?thesis by simp
  qed
qed

lemma set_price_ok [inv_intros]: "ex_ok ex \<Longrightarrow> ex_ok (set_price ex sy px)"
  by (rule ex_ok_core [OF core_simps(4)]) (simp_all add: ex_ok_book)

lemma price_update_ok [inv_intros]: "ex_ok ex \<Longrightarrow> ex_ok (fst (on_price_update h f ex sy px))"
proof -
  assume "ex_ok ex"
  then have ok: "ex_ok (fst (price_loop h f (set_price ex sy px) px ks))" for ks
    by (intro price_loop_ok set_price_ok)
  obtain e r where e: "price_loop h f (set_price ex sy px) px
      (map fst (get_open_orders (set_price ex sy px) (Some sy))) = (e, r)" by fastforce
  with ok have "ex_ok e" by (metis fst_conv)
  with e show ?thesis by (simp add: on_price_update_def Let_def manage_ok split: sum.splits)
qed

lemma price_update_advance:
  assumes ok: "ex_ok ex" shows "orders_advance (ex_orders ex) (ex_orders (fst (on_price_update h f ex sy px)))"
proof -
  let ?ex = "set_price ex sy px" let ?ks = "map fst (get_open_orders ?ex (Some sy))"
  have ok1: "ex_ok ?ex" by (rule set_price_ok [OF ok])
  then have oo: "orders_ok (ex_orders ?ex)" by (simp add: ex_ok_def)
  have "orders_advance (ex_orders ?ex) (ex_orders (fst (price_loop h f ?ex px ?ks)))"
    by (rule price_loop_advance [OF ok1 open_orders_distinct(1) [OF oo] open_orders_distinct(2) [OF oo]])
  moreover have "ex_orders (fst (manage_open_position e sy px)) = ex_orders e" for e
    by (rule core_orders) simp
  ultimately show ?thesis
    by (auto simp: on_price_update_def Let_def split: prod.splits sum.splits)
qed

lemma put_order_ok:
  assumes "ex_ok ex" and "dget (ex_orders ex) k = Some a" and "order_transition a t = Inr b"
  shows "ex_ok (ex\<lparr>ex_orders := dput k b (ex_orders ex)\<rparr>)"
  using assms transition_id [OF assms(3)] by (auto simp: ex_ok_def dest: orders_ok_get intro!: orders_ok_put)

lemma cancel_ok [inv_intros]: "ex_ok ex \<Longrightarrow> ex_ok (fst (cancel_order ex k))"
  by (auto simp: cancel_order_def get_order_def intro: put_order_ok split: option.splits sum.splits)

lemma expire_ok [inv_intros]: "ex_ok ex \<Longrightarrow> ex_ok (fst (expire_order ex k))"
  by (auto simp: expire_order_def get_order_def intro: put_order_ok split: option.splits sum.splits)

lemma cancel_advance: "orders_advance (ex_orders ex) (ex_orders (fst (cancel_order ex k)))"
  by (auto simp: cancel_order_def get_order_def advances_def dest: transition_advances transition_id
      intro!: orders_advance_put split: option.splits sum.splits)

lemma expire_advance: "orders_advance (ex_orders ex) (ex_orders (fst (expire_order ex k)))"
proof -
  have "\<not> terminal_status (o_status a)"
    if "order_transition a EXPIRED = Inr b" "o_status a \<notin> {FILLED, CANCELLED, REJECTED}" "b \<noteq> a" for a b
    using that order_transition_status [OF that(1)] by (auto simp: terminal_status_def)
  moreover have "order_transition a EXPIRED = Inr b \<Longrightarrow> o_status a = EXPIRED \<Longrightarrow> b = a" for a b
    by (drule order_transition_status) simp
  ultimately have "order_transition a EXPIRED = Inr b \<Longrightarrow> o_status a \<notin> {FILLED, CANCELLED, REJECTED} \<Longrightarrow> advances a b" for a b
    by (cases "b = a") (auto simp: advances_def dest: transition_advances transition_id)
  then show ?thesis
    by (auto simp: expire_order_def get_order_def intro!: orders_advance_put split: option.splits sum.splits)
qed

lemma cancel_all_ok: "ex_ok ex \<Longrightarrow> ex_ok (fst (cancel_all ex ks)) \<and> orders_advance (ex_orders ex) (ex_orders (fst (cancel_all ex ks)))"
proof (induction ks arbitrary: ex)
  case (Cons k ks)
  obtain ex1 r where c: "cancel_order ex k = (ex1, r)" by fastforce
  with cancel_ok [OF Cons.prems, of k] cancel_advance [of ex k]
  have "ex_ok ex1" "orders_advance (ex_orders ex) (ex_orders ex1)" by simp_all
  with Cons.IH [of ex1] show ?case by (auto simp: c split: sum.splits intro: orders_advance_trans)
qed simp

lemma flatten_all_ok: "ex_ok ex \<Longrightarrow> ex_ok (fst (flatten_all ex ks)) \<and> core (fst (flatten_all ex ks)) = core ex"
proof (induction ks arbitrary: ex)
  case (Cons k ks)
  show ?case
  proof (cases "dget (pf_positions (ex_portfolio ex)) k")
    case (Some p)
    obtain ex1 r where c: "exit_position ex k (opt_default (dget (ex_prices ex) k) (pos_current_price p))
        ''EOD_FLATTEN'' = (ex1, r)" by fastforce
    have "ex_ok ex1" "core ex1 = core ex"
      using exit_ok [OF Cons.prems, of k _ "''EOD_FLATTEN''"] exit_position_core [of ex k _ "''EOD_FLATTEN''"] c
      by (metis fst_conv)+
    with Cons.IH [of ex1] Some c show ?thesis by (auto split: sum.splits)
  qed (use Cons.prems in simp)
qed simp

lemma end_of_day_ok [inv_intros]:
  assumes "ex_ok ex"
  shows "ex_ok (fst (end_of_day ex))" and "orders_advance (ex_orders ex) (ex_orders (fst (end_of_day ex)))"
proof -
  obtain ex1 r where c: "cancel_all ex (map fst (get_open_orders ex None)) = (ex1, r)" by fastforce
  with cancel_all_ok [OF assms] have ok1: "ex_ok ex1" and a1: "orders_advance (ex_orders ex) (ex_orders ex1)"
    by (metis fst_conv)+
  define syms where "syms = (if ex_flatten_at_eod ex1 then map fst (pf_positions (ex_portfolio ex1)) else [])"
  obtain ex2 r2 where f: "flatten_all ex1 syms = (ex2, r2)" by fastforce
  with flatten_all_ok [OF ok1, of syms] have ok2: "ex_ok ex2" and a2: "ex_orders ex2 = ex_orders ex1"
    by (auto intro: core_orders)
  obtain pf sn where s: "snapshot (ex_portfolio ex2) (ex_prices ex2) = (pf, sn)" by fastforce
  have b: "book_ok (pf_positions (reset_day pf))"
    unfolding reset_day_fields by (rule snapshot_book [OF snap_book [OF s ex_ok_book [OF ok2]]])
  have ok3: "ex_ok (set_portfolio ex2 (reset_day pf))"
    by (rule ex_ok_core [OF core_simps(2) ok2]) (simp add: b del: reset_day_fields)
  have eod: "end_of_day ex = (case r of Inl e \<Rightarrow> (ex1, Inl e) | Inr _ \<Rightarrow> (case r2 of Inl e \<Rightarrow> (ex2, Inl e)
      | Inr _ \<Rightarrow> (emit (Ev_Eod (map fst (get_open_orders ex None)) syms (sn_equity sn) (sn_daily_pnl sn))
                  (set_portfolio ex2 (reset_day pf)), Inr ())))"
    by (simp add: end_of_day_def c f s Let_def flip: syms_def split: sum.splits)
  have o3: "ex_orders (set_portfolio ex2 pf') = ex_orders ex2" for pf' by (simp add: set_portfolio_def)
  show "ex_ok (fst (end_of_day ex))" and "orders_advance (ex_orders ex) (ex_orders (fst (end_of_day ex)))"
    using ok1 ok2 ok3 a1 a2 o3 by (simp_all add: eod split: sum.splits)
qed

section \<open>Creating an order\<close>

lemma identify_id [simp]: "o_order_id (identify_order h f ex ord) \<noteq> None"
  by (auto simp: identify_order_def ensure_order_id_def opt_truthy_def Let_def split: option.splits)

lemma identify_fields [simp]:
  "o_client_order_id (identify_order h f ex ord) = o_client_order_id ord"
  "o_symbol (identify_order h f ex ord) = o_symbol ord"
  "o_quantity (identify_order h f ex ord) = o_quantity ord"
  "o_filled_quantity (identify_order h f ex ord) = o_filled_quantity ord"
  "o_status (identify_order h f ex ord) = o_status ord"
  "o_side (identify_order h f ex ord) = o_side ord"
  by (auto simp: identify_order_def ensure_order_id_def Let_def)

text \<open>The submission, with the result of the two transitions named.\<close>

lemma submit_cases:
  obtains (error) e where "submit_accepted h f ex a px = (ex, Inl e)"
  | (resting) b where "o_order_id b = o_order_id a" "o_status b = SUBMITTED"
      "submit_accepted h f ex a px = (emit (Ev_Order_Submitted (order_key b) (o_symbol b)) (store b ex), Inr b)"
  | (filling) b p lf where "o_order_id b = o_order_id a" "o_status b = SUBMITTED" "o_symbol b = o_symbol a"
      "o_side b = o_side a"
      "submit_accepted h f ex a px =
         fill_market h f (emit (Ev_Order_Submitted (order_key b) (o_symbol b)) (store b ex)) b p lf"
proof -
  define o1 where "o1 = a\<lparr>o_requested_price := Some px, o_instrument_type := asset_class_of ex (o_symbol a)\<rparr>"
  show ?thesis
  proof (cases "bind_res (if o_status o1 = CREATED then order_transition o1 VALIDATED else Inr o1)
                (\<lambda>o2. order_transition o2 SUBMITTED)")
    case (Inl e)
    then show ?thesis by (intro error [of e]) (simp add: submit_accepted_def Let_def flip: o1_def)
  next
    case (Inr b)
    have b: "b = o1\<lparr>o_status := SUBMITTED\<rparr>"
      using Inr by (auto simp: bind_res_Inr_iff dest!: order_transition_status split: if_splits)
    then have flds: "o_order_id b = o_order_id a" "o_status b = SUBMITTED" "o_symbol b = o_symbol a" "o_side b = o_side a"
      by (simp_all add: o1_def)
    let ?ex = "emit (Ev_Order_Submitted (order_key b) (o_symbol b)) (store b ex)"
    have "submit_accepted h f ex a px = (?ex, Inr b) \<or>
        (\<exists>p lf. submit_accepted h f ex a px = fill_market h f ?ex b p lf)"
      by (cases "o_order_type b") (auto simp: submit_accepted_def Inr Let_def simp flip: o1_def)
    then show ?thesis using resting [OF flds(1,2)] filling [OF flds] by blast
  qed
qed

lemma submit_ok:
  assumes "ex_ok ex" and "o_order_id a \<noteq> None"
  shows "ex_ok (fst (submit_accepted h f ex a px))"
  by (rule submit_cases [of h f ex a px])
    (use assms store_ok in \<open>auto intro!: fill_market_ok\<close>)

lemma record_failure_ok: "ex_ok ex \<Longrightarrow> ex_ok (record_api_failure ex)"
  by (simp add: record_api_failure_def Let_def) (auto simp: ex_ok_def)

lemma reject_ok: "ex_ok ex \<Longrightarrow> o_order_id a \<noteq> None \<Longrightarrow> ex_ok (fst (reject_order ex a r))"
  by (simp add: reject_order_def Let_def store_ok)

lemma fst_rejected [simp]: "fst (rejected r) = fst r"
  by (simp add: rejected_def)

lemma admit_ok: "ex_ok ex \<Longrightarrow> o_order_id a \<noteq> None \<Longrightarrow> ex_ok (fst (admit_order h f ex a mpx))"
  using reject_ok [of ex a] submit_ok [of ex a h f]
  by (simp add: admit_order_def Let_def record_failure_ok split: option.splits)

lemma bookkeeping_ok [simp]:
  "ex_ok (next_seq ex) = ex_ok ex" "ex_ok (remember_client ex cid) = ex_ok ex"
  by (simp_all add: next_seq_def remember_client_def ex_ok_def)

lemma create_ok [inv_intros]: "ex_ok ex \<Longrightarrow> ex_ok (fst (create_order h f ex ord mpx))"
  by (simp add: create_order_def Let_def reject_ok admit_ok)

section \<open>Runs of the exchange\<close>

datatype ex_op =
    X_Create order "pyfloat option"
  | X_Price string pyfloat
  | X_Set_Price string pyfloat
  | X_Stale string
  | X_Cancel string
  | X_Expire string
  | X_Eod
  | X_Balance
  | X_Rules string bool "pyfloat option" "pyfloat option" pyfloat "pyfloat option" "pyfloat option" "pyfloat option" bool
  | X_Fail string
  | X_Clear_Fail
  | X_Halt string
  | X_Reset_Halt

fun ex_exec :: "(string \<Rightarrow> string) \<Rightarrow> (pyfloat \<Rightarrow> string) \<Rightarrow> exchange \<Rightarrow> ex_op \<Rightarrow> exchange" where
  "ex_exec h f ex (X_Create ord mpx) = fst (create_order h f ex ord mpx)"
| "ex_exec h f ex (X_Price sy px) = fst (on_price_update h f ex sy px)"
| "ex_exec h f ex (X_Set_Price sy px) = set_price ex sy px"
| "ex_exec h f ex (X_Stale sy) = mark_stale ex sy"
| "ex_exec h f ex (X_Cancel k) = fst (cancel_order ex k)"
| "ex_exec h f ex (X_Expire k) = fst (expire_order ex k)"
| "ex_exec h f ex X_Eod = fst (end_of_day ex)"
| "ex_exec h f ex X_Balance = fst (get_balance ex)"
| "ex_exec h f ex (X_Rules sy be ptp ta tm tp td mr w) = configure_position_rules ex sy be ptp ta tm tp td mr w"
| "ex_exec h f ex (X_Fail m) = simulate_failure ex m"
| "ex_exec h f ex X_Clear_Fail = clear_failure ex"
| "ex_exec h f ex (X_Halt r) = halt ex r"
| "ex_exec h f ex X_Reset_Halt = reset_halt ex"

lemma balance_ok [inv_intros]: "ex_ok ex \<Longrightarrow> ex_ok (fst (get_balance ex))"
  by (auto simp: get_balance_def ex_ok_def dest: book_steps split: prod.splits)

lemma rules_core [simp]: "core (configure_position_rules ex sy be ptp ta tm tp td mr w) = core ex"
    "ex_portfolio (configure_position_rules ex sy be ptp ta tm tp td mr w) = ex_portfolio ex"
  by (simp_all add: configure_position_rules_def core_def Let_def)

lemma switches_ok [inv_intros]:
  "ex_ok ex \<Longrightarrow> ex_ok (mark_stale ex sy)" "ex_ok ex \<Longrightarrow> ex_ok (simulate_failure ex m)"
  "ex_ok ex \<Longrightarrow> ex_ok (clear_failure ex)" "ex_ok ex \<Longrightarrow> ex_ok (halt ex r)" "ex_ok ex \<Longrightarrow> ex_ok (reset_halt ex)"
  by (auto simp: mark_stale_def simulate_failure_def clear_failure_def record_api_success_def halt_def
      reset_halt_def Let_def record_api_failure_def ex_ok_def emit_def)

lemma exec_keeps_ok: "ex_ok ex \<Longrightarrow> ex_ok (ex_exec h f ex e)"
proof (cases e)
  case (X_Rules sy be ptp ta tm tp td mr w)
  assume ok: "ex_ok ex"
  show ?thesis unfolding X_Rules ex_exec.simps
    by (rule ex_ok_core [OF rules_core(1) ok]) (simp add: ex_ok_book [OF ok])
qed (simp_all add: inv_intros)

lemma run_ok: "ex_ok ex \<Longrightarrow> ex_ok (foldl (ex_exec h f) ex es)"
  by (induction es arbitrary: ex) (simp_all add: exec_keeps_ok)

lemma new_exchange_ok:
  "book_ok (pf_positions (opt_default pf (new_portfolio c))) \<Longrightarrow> 0 < opt_default (pc_max_fail cfg) 3 \<Longrightarrow>
   ex_ok (new_exchange cfg pf ps sid)"
  by (cases pf) (auto simp: new_exchange_def ex_ok_def orders_ok_def book_ok_def opt_default_def new_portfolio_def)

section \<open>Seen client identifiers\<close>

abbreviation seen :: "exchange \<Rightarrow> string set" where
  "seen ex \<equiv> set (ex_seen_client_ids ex)"

lemma core_seen: "core a = core b \<Longrightarrow> seen a = seen b"
  by (simp add: core_def)

lemma seen_simps [simp]:
  "ex_seen_client_ids (store a ex) = ex_seen_client_ids ex" "ex_seen_client_ids (emit e ex) = ex_seen_client_ids ex"
  "ex_seen_client_ids (record_api_failure ex) = ex_seen_client_ids ex"
  "ex_seen_client_ids (set_price ex sy px) = ex_seen_client_ids ex"
  "ex_seen_client_ids (next_seq ex) = ex_seen_client_ids ex"
  by (simp_all add: store_def emit_def record_api_failure_def set_price_def next_seq_def Let_def)

lemma apply_fill_seen [simp]: "seen (fst (apply_fill h f ex a q px fee s liq)) = seen ex"
  by (auto simp: apply_fill_def Let_def core_seen [OF annotate_core] split: sum.splits)

lemma fill_market_seen [simp]: "seen (fst (fill_market h f ex a px lf)) = seen ex"
proof -
  obtain p s l q fee ex1 r where r: "route_fill ex a q p fee s = (ex1, r)"
    and fm: "fill_market h f ex a px lf =
      (case r of Inl e \<Rightarrow> (case reject_after_error e a of Inl e' \<Rightarrow> (ex1, Inl e') | Inr o1 \<Rightarrow> (store o1 ex1, Inr o1))
       | Inr _ \<Rightarrow> apply_fill h f ex1 a q p fee s l)"
    by (rule fill_market_cases [of ex a px lf h f]) (rule that)
  have "core ex1 = core ex" using route_fill_core [of ex a q p fee s] by (simp add: r)
  then have "seen ex1 = seen ex" by (rule core_seen)
  then show ?thesis by (simp add: fm split: sum.splits)
qed

lemma submit_seen [simp]: "seen (fst (submit_accepted h f ex a px)) = seen ex"
  by (rule submit_cases [of h f ex a px]) simp_all

lemma reject_seen [simp]: "seen (fst (reject_order ex a r)) = seen ex"
  by (simp add: reject_order_def Let_def)

lemma admit_seen [simp]: "seen (fst (admit_order h f ex a mpx)) = seen ex"
  using reject_seen [of ex a] by (simp add: admit_order_def Let_def split: option.splits)

lemma create_seen:
  "seen (fst (create_order h f ex ord mpx)) =
     seen ex \<union> (if opt_truthy (o_client_order_id ord) then {the (o_client_order_id ord)} else {})"
  by (auto simp: create_order_def Let_def remember_client_def opt_truthy_def opt_default_def split: option.splits)

lemma price_loop_seen [simp]: "seen (fst (price_loop h f ex px ks)) = seen ex"
proof (induction ks arbitrary: ex)
  case (Cons k ks)
  obtain ex1 r where s: "price_step h f ex px k = (ex1, r)" by fastforce
  have "seen ex1 = seen ex"
    using arg_cong [OF s, of fst] by (auto simp: price_step_state Let_def split: option.splits if_splits)
  with Cons.IH [of ex1] show ?case by (simp add: s split: sum.splits)
qed simp

lemma cancel_all_seen: "seen (fst (cancel_all ex ks)) = seen ex"
proof (induction ks arbitrary: ex)
  case (Cons k ks)
  have "seen (fst (cancel_order ex k)) = seen ex"
    by (auto simp: cancel_order_def split: sum.splits)
  with Cons.IH show ?case by (auto split: prod.splits sum.splits)
qed simp

lemma flatten_all_core: "core (fst (flatten_all ex ks)) = core ex"
proof (induction ks arbitrary: ex)
  case (Cons k ks)
  show ?case
  proof (cases "dget (pf_positions (ex_portfolio ex)) k")
    case (Some p)
    let ?x = "exit_position ex k (opt_default (dget (ex_prices ex) k) (pos_current_price p)) ''EOD_FLATTEN''"
    obtain ex1 r where c: "?x = (ex1, r)" by fastforce
    have "core (fst ?x) = core ex" by (rule exit_position_core)
    with c Cons.IH [of ex1] Some show ?thesis by (auto split: sum.splits)
  qed simp
qed simp

lemma end_of_day_seen: "seen (fst (end_of_day ex)) = seen ex"
proof -
  obtain e1 r where c: "cancel_all ex (map fst (get_open_orders ex None)) = (e1, r)" by fastforce
  have e1: "seen e1 = seen ex" using cancel_all_seen [of ex "map fst (get_open_orders ex None)"] c by simp
  define syms where "syms = (if ex_flatten_at_eod e1 then map fst (pf_positions (ex_portfolio e1)) else [])"
  obtain e2 r2 where f: "flatten_all e1 syms = (e2, r2)" by fastforce
  have "core e2 = core e1" using flatten_all_core [of e1 syms] by (simp add: f)
  then have e2: "seen e2 = seen e1" by (rule core_seen)
  show ?thesis
    by (simp add: end_of_day_def c f e1 e2 Let_def set_portfolio_def flip: syms_def split: sum.splits prod.splits)
qed

lemma exec_seen: "seen ex \<subseteq> seen (ex_exec h f ex e)"
proof (cases e)
  case (X_Create ord mpx) then show ?thesis by (auto simp: create_seen)
next
  case (X_Price sy px)
  have "core (fst (manage_open_position e sy px)) = core e" for e by simp
  note m = core_seen [OF this]
  obtain e1 r where "price_loop h f (set_price ex sy px) px (map fst (get_open_orders (set_price ex sy px) (Some sy))) = (e1, r)"
    by fastforce
  with price_loop_seen [of h f "set_price ex sy px" px "map fst (get_open_orders (set_price ex sy px) (Some sy))"]
  show ?thesis using m [of e1] by (simp add: X_Price on_price_update_def Let_def split: sum.splits)
next
  case X_Eod then show ?thesis by (simp add: end_of_day_seen)
qed (auto simp: mark_stale_def simulate_failure_def clear_failure_def record_api_success_def halt_def
    reset_halt_def Let_def cancel_order_def expire_order_def get_balance_def core_seen [OF rules_core(1)]
    split: sum.splits prod.splits)

lemma run_seen: "seen ex \<subseteq> seen (foldl (ex_exec h f) ex es)"
  by (induction es arbitrary: ex) (use exec_seen in fastforce)+

section \<open>Properties\<close>

text \<open>C3: from a new exchange, through any sequence of orders, price updates, cancellations,
  expirations, end-of-day closings, failures, halts and resets, the position book stays well
  formed, every stored order is filed under its own identifier, fills are numbered without a gap,
  and an exchange that has reached its number of consecutive API failures is halted.\<close>

theorem exchange_invariant:
  assumes "0 < opt_default (pc_max_fail cfg) 3"
  shows "ex_ok (foldl (ex_exec h16 f10) (new_exchange cfg None prices sid) es)"
  by (rule run_ok, rule new_exchange_ok) (use assms in \<open>simp_all add: opt_default_def new_portfolio_def book_ok_def\<close>)

definition default_config :: paper_config where
  "default_config = \<lparr>pc_initial_cash = None,
     pc_fees = \<lparr>fc_default_rate = None, fc_maker_bps = None, fc_taker_bps = None, fc_by_asset_class = [],
                fc_by_exchange = []\<rparr>,
     pc_slippage = \<lparr>sc_enabled = Some False, sc_model = None, sc_mode = None, sc_default_bps = None,
                    sc_value = None, sc_max_bps = None, sc_percentage = None,
                    sc_volatility_multiplier = None, sc_volume_impact = None\<rparr>,
     pc_max_fail = None, pc_flatten = None, pc_eod_flat_default = None, pc_instruments = []\<rparr>"

theorem exchange_invariant_witness:
  "ex_ok (foldl (ex_exec id (\<lambda>_. [])) (new_exchange default_config None [] ''S'')
     [X_Fail ''timeout'', X_Fail ''timeout'', X_Price ''BTC'' (Fin 5), X_Eod])"
  by (rule exchange_invariant) (simp add: default_config_def opt_default_def)

fun is_create :: "ex_op \<Rightarrow> bool" where
  "is_create (X_Create _ _) = True"
| "is_create _ = False"

lemma exec_advance: "ex_ok ex \<Longrightarrow> \<not> is_create e \<Longrightarrow> orders_advance (ex_orders ex) (ex_orders (ex_exec h f ex e))"
proof (cases e)
  case (X_Rules sy be ptp ta tm tp td mr w)
  have "ex_orders (ex_exec h f ex e) = ex_orders ex" unfolding X_Rules ex_exec.simps by (rule core_orders) simp
  then show ?thesis by simp
qed (auto simp: price_update_advance cancel_advance expire_advance end_of_day_ok mark_stale_def get_balance_def
    simulate_failure_def clear_failure_def record_api_success_def halt_def reset_halt_def Let_def split: prod.splits)

text \<open>No later operation other than a new submission takes an order back: through any
  sequence of them each stored order stays stored under its identifier, its status never moves
  down the order life cycle, and an order that is filled, cancelled, rejected or expired is
  never changed again.\<close>

theorem stored_orders_advance:
  assumes "ex_ok ex" and "\<forall>e \<in> set es. \<not> is_create e" and "dget (ex_orders ex) k = Some a"
  shows "\<exists>b. dget (ex_orders (foldl (ex_exec h16 f10) ex es)) k = Some b
    \<and> status_rank (o_status a) \<le> status_rank (o_status b) \<and> (terminal_status (o_status a) \<longrightarrow> b = a)"
proof -
  have "orders_advance (ex_orders ex) (ex_orders (foldl (ex_exec h16 f10) ex es))"
    using assms(1,2)
  proof (induction es arbitrary: ex)
    case (Cons e es)
    have "orders_advance (ex_orders ex) (ex_orders (ex_exec h16 f10 ex e))"
      using Cons.prems by (simp add: exec_advance)
    moreover have "orders_advance (ex_orders (ex_exec h16 f10 ex e)) (ex_orders (foldl (ex_exec h16 f10) (ex_exec h16 f10 ex e) es))"
      using Cons.prems by (intro Cons.IH exec_keeps_ok) auto
    ultimately show ?case by (auto intro: orders_advance_trans)
  qed simp
  with assms(3) show ?thesis by (auto simp: orders_advance_def advances_def)
qed

definition resting_order :: order where
  "resting_order = (new_order ''BTC'' BUY LIMIT (Fin 1))\<lparr>o_order_id := Some ''A'', o_limit_price := Some (Fin 90),
     o_status := CANCELLED\<rparr>"

theorem stored_orders_advance_witness:
  "\<exists>b. dget (ex_orders (foldl (ex_exec id (\<lambda>_. [])) (store resting_order (new_exchange default_config None [] ''S''))
      [X_Price ''BTC'' (Fin 80), X_Eod])) ''A'' = Some b \<and> b = resting_order"
proof -
  have "ex_ok (new_exchange default_config None [] ''S'')"
    by (rule new_exchange_ok) (simp_all add: default_config_def opt_default_def new_portfolio_def book_ok_def)
  then have "ex_ok (store resting_order (new_exchange default_config None [] ''S''))"
    by (rule store_ok) (simp add: resting_order_def)
  from stored_orders_advance [OF this, of "[X_Price ''BTC'' (Fin 80), X_Eod]" "''A''" resting_order id "\<lambda>_. []"]
  show ?thesis by (auto simp: dget_dput order_key_def opt_default_def resting_order_def)
qed

text \<open>C15: while the exchange is halted (kill switch, operator halt or the API failure breaker)
  every order is rejected with a reason and neither cash, positions, fills nor trades change,
  whatever the order, the prices and the simulated failure.\<close>

theorem halted_exchange_trades_nothing:
  assumes "ex_halted ex" and "create_order h16 f10 ex ord mpx = (ex', r)"
  shows "\<exists>a. r = Inr a \<and> o_status a = REJECTED \<and> o_reject_reason a \<noteq> None
    \<and> ex_portfolio ex' = ex_portfolio ex \<and> ex_fills ex' = ex_fills ex \<and> ex_trades ex' = ex_trades ex
    \<and> ex_halted ex'"
  using assms
  by (auto simp: create_order_def admit_order_def Let_def next_seq_def remember_client_def rejected_def
      reject_order_def store_def emit_def split: if_splits)

lemma halt_halted [simp]: "ex_halted (halt ex r)"
  by (simp add: halt_def emit_def Let_def)

theorem halted_exchange_trades_nothing_witness:
  "\<exists>a. snd (create_order id (\<lambda>_. []) (halt (new_exchange default_config None [(''BTC'', Fin 100)] ''S'') ''KILL_SWITCH'')
      (new_order ''BTC'' BUY MARKET (Fin 1)) None) = Inr a \<and> o_status a = REJECTED"
  using halted_exchange_trades_nothing [OF halt_halted prod.collapse [symmetric]] by blast

text \<open>C16: a client order identifier is honoured once: after an order carrying it, and any
  sequence of other operations, a second order with the same identifier is rejected as a
  duplicate and leaves portfolio, fills and trades as they were.\<close>

theorem client_id_used_once:
  assumes cid: "o_client_order_id ord = Some c" "c \<noteq> []" "o_client_order_id ord' = Some c"
    and ex2: "ex2 = foldl (ex_exec h16 f10) (fst (create_order h16 f10 ex ord mpx)) es"
  shows "\<exists>a. snd (create_order h16 f10 ex2 ord' mpx') = Inr a \<and> o_status a = REJECTED
    \<and> o_reject_reason a = Some ''DUPLICATE_ORDER''
    \<and> ex_portfolio (fst (create_order h16 f10 ex2 ord' mpx')) = ex_portfolio ex2
    \<and> ex_fills (fst (create_order h16 f10 ex2 ord' mpx')) = ex_fills ex2
    \<and> ex_trades (fst (create_order h16 f10 ex2 ord' mpx')) = ex_trades ex2"
proof -
  have "c \<in> seen (fst (create_order h16 f10 ex ord mpx))"
    using cid by (simp add: create_seen opt_truthy_def)
  then have "c \<in> seen ex2" unfolding ex2 using run_seen by blast
  then show ?thesis
    using cid by (simp add: create_order_def Let_def opt_default_def rejected_def reject_order_def store_def next_seq_def)
qed

theorem client_id_used_once_witness:
  "\<exists>a. snd (create_order id (\<lambda>_. []) (foldl (ex_exec id (\<lambda>_. [])) (fst (create_order id (\<lambda>_. [])
        (new_exchange default_config None [] ''S'') ((new_order ''BTC'' BUY MARKET (Fin 1))\<lparr>o_client_order_id := Some ''c1''\<rparr>) None))
        [X_Eod]) ((new_order ''ETH'' SELL MARKET (Fin 2))\<lparr>o_client_order_id := Some ''c1''\<rparr>) None) = Inr a
     \<and> o_reject_reason a = Some ''DUPLICATE_ORDER''"
  using client_id_used_once [of "(new_order ''BTC'' BUY MARKET (Fin 1))\<lparr>o_client_order_id := Some ''c1''\<rparr>" "''c1''"
      "(new_order ''ETH'' SELL MARKET (Fin 2))\<lparr>o_client_order_id := Some ''c1''\<rparr>" _ id "\<lambda>_. []"
      "new_exchange default_config None [] ''S''" None "[X_Eod]" None] by (auto simp: new_order_def)

section \<open>Rejections and exits\<close>

text \<open>The books this exchange writes: sides are spelled \<open>LONG\<close> or \<open>SHORT\<close>, and what is held of a
  symbol is not negative.\<close>

definition plain_position :: "position \<Rightarrow> bool" where
  "plain_position p \<longleftrightarrow> (pos_side p = ''LONG'' \<or> pos_side p = ''SHORT'') \<and> fle (Fin 0) (pos_quantity p)"

lemma is_f64_fsub_any: "is_f64 (fsub a b)"
  by (cases a; cases b) (auto simp: fsub_def)

lemma fill_quantity_f64: "fill_terms ex a px lf = (p, s, l, q) \<Longrightarrow> is_f64 q"
  by (auto simp: fill_terms_def Let_def is_f64_fsub_any split: option.splits if_splits)

lemma add_to_position_total:
  assumes "is_f64 q" and "\<not> fle q (Fin 0)" and "fle (Fin 0) (pos_quantity p)"
  shows "\<exists>p'. add_to_position p q x f = Inr p'"
proof -
  have "fadd (pos_quantity p) q \<noteq> Fin 0"
  proof (cases "q = NaN")
    case False
    then have lt: "flt (Fin 0) q" using assms(2) by (simp add: not_fle_iff)
    then have "fle q (fadd q (pos_quantity p))" using assms(1,3) False by (intro fadd_ge) auto
    with lt show ?thesis by (metis fadd_comm fle_antisym flt_imp_fle flt_irrefl)
  qed simp
  then show ?thesis by (simp add: add_to_position_def fdiv_def Let_def)
qed

lemma side_names [simp]:
  "py_upper ''LONG'' = ''LONG''" "py_upper ''SHORT'' = ''SHORT''" "long_name ''LONG''" "\<not> long_name ''SHORT''"
  "short_name ''SHORT''" "\<not> short_name ''LONG''" "long_side ''LONG''" "\<not> long_side ''SHORT''"
  "short_side ''SHORT''" "\<not> short_side ''LONG''"
  by (simp_all add: py_upper_def long_name_def short_name_def long_side_def short_side_def)

lemma close_error: "close_position pf sy q x f = (pf', Inl e) \<Longrightarrow> pf' = pf"
  by (auto simp: close_position_def Let_def split: option.splits if_splits)

lemma open_error:
  assumes "open_position pf sy sd q x f sl tp i v = (pf', Inl e)" and "is_f64 q"
    and "\<And>p. dget (pf_positions pf) sy = Some p \<Longrightarrow> py_upper (pos_side p) = py_upper sd \<and> fle (Fin 0) (pos_quantity p)"
  shows "pf' = pf"
proof (cases "dget (pf_positions pf) sy")
  case None
  with assms(1) show ?thesis
    by (auto simp: open_position_def Let_def split: if_splits sum.splits dest: open_cash_positions)
next
  case (Some p)
  have "\<not> fle q (Fin 0) \<Longrightarrow> \<exists>p'. add_to_position p q x f = Inr p'"
    using add_to_position_total [OF assms(2), of p x f] assms(3) [OF Some] by simp
  with assms(1) assms(3) [OF Some] Some show ?thesis
    by (auto simp: open_position_def Let_def split: if_splits sum.splits dest: open_cash_positions)
qed

lemma route_error:
  assumes "route_fill ex a q px f s = (ex', Inl e)" and "is_f64 q"
    and "\<And>p. dget (pf_positions (ex_portfolio ex)) (o_symbol a) = Some p \<Longrightarrow> plain_position p"
  shows "ex' = ex"
proof -
  have same: "set_portfolio ex (ex_portfolio ex) = ex" by (simp add: set_portfolio_def)
  show ?thesis
    using assms(1,3) close_error open_error [OF _ assms(2)] same
    by (cases "is_buy (o_side a)"; cases "dget (pf_positions (ex_portfolio ex)) (o_symbol a)")
      (fastforce simp: route_fill_def Let_def plain_position_def split: prod.splits sum.splits if_splits)+
qed

lemma apply_fill_status:
  "apply_fill h f ex a q px fee s liq = (ex', Inr b) \<Longrightarrow> o_status b = FILLED \<or> o_status b = PARTIALLY_FILLED"
  by (auto simp: apply_fill_def Let_def dest!: order_transition_status split: sum.splits if_splits)

lemma fill_market_rejected:
  assumes fm: "fill_market h f ex a px lf = (ex', Inr b)" and rej: "o_status b = REJECTED"
    and plain: "\<And>p. dget (pf_positions (ex_portfolio ex)) (o_symbol a) = Some p \<Longrightarrow> plain_position p"
  shows "ex' = store b ex"
proof -
  obtain p s l q fee ex1 r where t: "fill_terms ex a px lf = (p, s, l, q)"
    and r: "route_fill ex a q p fee s = (ex1, r)"
    and eq: "fill_market h f ex a px lf =
      (case r of Inl e \<Rightarrow> (case reject_after_error e a of Inl e' \<Rightarrow> (ex1, Inl e') | Inr o1 \<Rightarrow> (store o1 ex1, Inr o1))
       | Inr _ \<Rightarrow> apply_fill h f ex1 a q p fee s l)"
    by (rule fill_market_cases [of ex a px lf h f]) (rule that)
  show ?thesis
  proof (cases r)
    case (Inl e)
    have "ex1 = ex" using route_error [OF r [unfolded Inl] fill_quantity_f64 [OF t] plain] .
    with fm show ?thesis by (simp add: eq Inl split: sum.splits)
  next
    case (Inr u)
    with fm have "apply_fill h f ex1 a q p fee s l = (ex', Inr b)" by (simp add: eq)
    from apply_fill_status [OF this] rej show ?thesis by simp
  qed
qed

definition same_account :: "exchange \<Rightarrow> exchange \<Rightarrow> bool" where
  "same_account ex ex' \<longleftrightarrow> ex_portfolio ex' = ex_portfolio ex \<and> ex_fills ex' = ex_fills ex \<and> ex_trades ex' = ex_trades ex"

lemma same_account_simps [simp]:
  "same_account ex ex" "same_account ex (emit e ex') = same_account ex ex'"
  "same_account ex (store a ex') = same_account ex ex'"
  "same_account ex (record_api_failure ex') = same_account ex ex'"
  "same_account ex (fst (reject_order ex' a r)) = same_account ex ex'"
  "same_account ex (next_seq ex') = same_account ex ex'" "same_account ex (remember_client ex' c) = same_account ex ex'"
  "same_account (next_seq ex) ex' = same_account ex ex'" "same_account (remember_client ex c) ex' = same_account ex ex'"
  by (simp_all add: same_account_def emit_def store_def record_api_failure_def reject_order_def next_seq_def
      remember_client_def Let_def)

lemma submit_rejected:
  assumes "submit_accepted h f ex a px = (ex', Inr b)" and "o_status b = REJECTED"
    and plain: "\<And>p. dget (pf_positions (ex_portfolio ex)) (o_symbol a) = Some p \<Longrightarrow> plain_position p"
  shows "same_account ex ex'"
proof (rule submit_cases [of h f ex a px])
  fix c p lf
  assume sy: "o_symbol c = o_symbol a" and eq: "submit_accepted h f ex a px =
    fill_market h f (emit (Ev_Order_Submitted (order_key c) (o_symbol c)) (store c ex)) c p lf"
  have "ex' = store b (emit (Ev_Order_Submitted (order_key c) (o_symbol c)) (store c ex))"
    using plain by (intro fill_market_rejected [OF assms(1) [unfolded eq] assms(2)]) (simp add: sy)
  then show ?thesis by simp
qed (use assms in auto)

text \<open>An order that comes back rejected has no effect on the account: cash, fees, positions,
  realised profit, fills and trades are exactly what they were, whichever of the checks, from the
  duplicate test to the insufficient cash found while filling, rejected it.\<close>

theorem rejected_order_no_effect:
  assumes run: "create_order h16 f10 ex ord mpx = (ex', Inr a)" and "o_status a = REJECTED"
    and plain: "\<And>p. dget (pf_positions (ex_portfolio ex)) (o_symbol ord) = Some p \<Longrightarrow> plain_position p"
  shows "ex_portfolio ex' = ex_portfolio ex \<and> ex_fills ex' = ex_fills ex \<and> ex_trades ex' = ex_trades ex"
proof -
  let ?o = "identify_order h16 f10 (next_seq ex) ord"
  define ex1 where "ex1 = remember_client (next_seq ex) (opt_default (o_client_order_id ord) [])"
  have pf: "ex_portfolio ex1 = ex_portfolio ex" by (simp add: ex1_def remember_client_def next_seq_def)
  have sub: "same_account ex1 ex2" if "submit_accepted h16 f10 ex1 ?o px = (ex2, Inr a)" for px ex2
    by (rule submit_rejected [OF that assms(2)]) (use plain in \<open>simp add: pf\<close>)
  have "same_account ex1 ex2" if "admit_order h16 f10 ex1 ?o mpx = (ex2, Inr a)" for ex2
    using that sub
    by (auto simp: admit_order_def Let_def rejected_def split: if_splits option.splits)
  moreover have "same_account ex1 ex2" if "rejected (reject_order (next_seq ex) ?o r) = (ex2, Inr a)" for ex2 r
    using that by (auto simp: rejected_def ex1_def)
  ultimately have "same_account ex1 ex'"
    using run by (auto simp: create_order_def Let_def simp flip: ex1_def split: if_splits)
  then show ?thesis by (simp add: ex1_def same_account_def remember_client_def next_seq_def split: if_splits)
qed

theorem rejected_order_no_effect_witness:
  "\<exists>ex' a. create_order id (\<lambda>_. []) (new_exchange default_config None [(''BTC'', Fin 20000)] ''S'')
      (new_order ''BTC'' BUY MARKET (Fin 0)) None = (ex', Inr a) \<and> o_status a = REJECTED
    \<and> pf_cash (ex_portfolio ex') = Fin 10000"
proof -
  let ?x = "new_exchange default_config None [(''BTC'', Fin 20000)] ''S''"
  let ?o = "new_order ''BTC'' BUY MARKET (Fin 0)"
  have "\<exists>ex' a. create_order id (\<lambda>_. []) ?x ?o None = (ex', Inr a) \<and> o_status a = REJECTED"
    by (simp add: create_order_def admit_order_def market_reject_def rejected_def reject_order_def Let_def
        new_exchange_def next_seq_def remember_client_def new_order_def opt_default_def failing_modes_def
        default_config_def identify_order_def ensure_order_id_def opt_truthy_def)
  moreover have "dget (pf_positions (ex_portfolio ?x)) s = None" and "pf_cash (ex_portfolio ?x) = Fin 10000" for s
    by (simp_all add: new_exchange_def default_config_def opt_default_def new_portfolio_def)
  ultimately show ?thesis using rejected_order_no_effect [of id "\<lambda>_. []" ?x ?o None] by fastforce
qed

lemma close_full:
  assumes p: "dget (pf_positions pf) k = Some p" and q: "pos_quantity p = Fin q" "0 < q" "rnd q = Fin q"
  shows "\<exists>pf' pnl. close_position pf k None px fee = (pf', Inr pnl) \<and> pf_positions pf' = ddel k (pf_positions pf)
    \<and> pf_realized_pnl pf' = fadd (pf_realized_pnl pf) pnl"
proof -
  have "fle (Fin q) (fadd (Fin q) qty_tol)"
    using q by (intro fadd_ge) (auto simp: is_f64_def)
  then have "\<not> flt (fadd (Fin q) qty_tol) (Fin q)" by (meson flt_not_fle)
  moreover have "flt (fabs (fsub (Fin q) (Fin q))) qty_tol" by simp
  ultimately show ?thesis using p q by (simp add: close_position_def Let_def)
qed

lemma exit_full:
  assumes "dget (pf_positions (ex_portfolio ex)) (py_upper sy) = Some p"
    and "pos_quantity p = Fin q" "0 < q" "rnd q = Fin q"
  shows "\<exists>ex' t. exit_position ex sy px reason = (ex', Inr ())
    \<and> pf_positions (ex_portfolio ex') = ddel (py_upper sy) (pf_positions (ex_portfolio ex))
    \<and> ex_trades ex' = ex_trades ex @ [t] \<and> tr_reason_for_exit t = reason \<and> tr_quantity t = Fin q
    \<and> tr_exit t = px \<and> tr_entry t = Some (pos_average_entry_price p)"
proof -
  define fee where "fee = fr_fee (calculate_fee (ex_fee ex) (fmul (Fin q) px)
      (asset_class_value (asset_class_of ex sy)) ''taker'' None)"
  obtain pf' pnl where "close_position (ex_portfolio ex) (py_upper sy) None px fee = (pf', Inr pnl)"
    "pf_positions pf' = ddel (py_upper sy) (pf_positions (ex_portfolio ex))"
    using close_full [OF assms, of px fee] by blast
  moreover have "dget (ddel (py_upper sy) (pf_positions (ex_portfolio ex))) (py_upper sy) = None"
    by (simp add: dget_ddel)
  ultimately show ?thesis
    using assms by (simp add: exit_position_def Let_def opt_default_def record_trade_close_def emit_def
        set_portfolio_def flip: fee_def)
qed

text \<open>A price update that crosses a protective stop closes the position: if a position of positive
  quantity is held, no break-even or partial-profit rule is set for it, and the price is at or through
  its stop (at or below for a long, at or above for a short), the position is gone afterwards and one
  trade for the full quantity at that price is recorded with the reason \<open>STOP_LOSS\<close>.\<close>

theorem stop_loss_closes_position:
  assumes p: "dget (pf_positions (ex_portfolio ex)) (py_upper sy) = Some p"
    and q: "pos_quantity p = Fin q" "0 < q" "rnd q = Fin q"
    and rules: "dget (ex_be_flags ex) (py_upper sy) \<noteq> Some True" "dget (ex_partial_tp ex) (py_upper sy) = None"
    and hit: "stop_hit p px"
  shows "\<exists>ex' t. manage_open_position ex sy px = (ex', Inr ())
    \<and> dget (pf_positions (ex_portfolio ex')) (py_upper sy) = None
    \<and> ex_trades ex' = ex_trades ex @ [t] \<and> tr_reason_for_exit t = ''STOP_LOSS'' \<and> tr_quantity t = Fin q
    \<and> tr_exit t = px"
proof -
  let ?k = "py_upper sy" let ?p = "mark px p" let ?ex = "set_position ?k ?p ex"
  have be: "breakeven_step ?ex ?k ?p px = ?ex"
    using rules(1) by (simp add: breakeven_step_def Let_def split: option.splits)
  have "manage_partial ex sy ?p px = (?ex, Inr ())"
    using rules(2) by (simp add: manage_partial_def be partial_step_def Let_def opt_default_def)
  moreover have "stop_hit ?p px" using hit by (cases "pos_stop_loss p") (simp_all add: stop_hit_def)
  moreover obtain ex' t where "exit_position ?ex sy px ''STOP_LOSS'' = (ex', Inr ())"
    "pf_positions (ex_portfolio ex') = ddel ?k (pf_positions (ex_portfolio ?ex))"
    "ex_trades ex' = ex_trades ?ex @ [t]" "tr_reason_for_exit t = ''STOP_LOSS''" "tr_quantity t = Fin q" "tr_exit t = px"
    using exit_full [of ?ex sy ?p q px "''STOP_LOSS''"] q by auto
  ultimately show ?thesis
    by (simp add: manage_open_position_def p manage_exits_def dget_ddel)
qed

definition long_position :: "string \<Rightarrow> pyfloat \<Rightarrow> pyfloat \<Rightarrow> pyfloat \<Rightarrow> position" where
  "long_position sy q px stop = \<lparr>pos_symbol = sy, pos_side = ''LONG'', pos_quantity = q,
     pos_average_entry_price = px, pos_current_price = px, pos_market_value = fmul q px,
     pos_unrealized_pnl = Fin 0, pos_realized_pnl = Fin 0, pos_fees = Fin 0, pos_stop_loss = Some stop,
     pos_take_profit = None, pos_strategy_id = None, pos_strategy_version = None\<rparr>"

theorem stop_loss_closes_position_witness:
  "\<exists>ex' t. manage_open_position (set_position ''BTC'' (long_position ''BTC'' (Fin 2) (Fin 100) (Fin 90))
      (new_exchange default_config None [] ''S'')) ''btc'' (Fin 85) = (ex', Inr ())
    \<and> dget (pf_positions (ex_portfolio ex')) ''BTC'' = None \<and> ex_trades ex' = [t] \<and> tr_exit t = Fin 85"
proof -
  let ?x = "new_exchange default_config None [] ''S''" let ?p = "long_position ''BTC'' (Fin 2) (Fin 100) (Fin 90)"
  have k: "py_upper ''btc'' = ''BTC''" by (simp add: py_upper_def)
  have q: "pos_quantity ?p = Fin 2" "rnd 2 = Fin 2" by (simp_all add: long_position_def fl_eval)
  have hit: "stop_hit ?p (Fin 85)" by (simp add: long_position_def stop_hit_def)
  have none: "ex_be_flags ?x = []" "ex_partial_tp ?x = []" "ex_trades ?x = []" by (simp_all add: new_exchange_def)
  show ?thesis
    using stop_loss_closes_position [of "set_position ''BTC'' ?p ?x" "''btc''" ?p 2 "Fin 85"] q hit none
    unfolding k by auto
qed

lemma limit_terms:
  "o_limit_price a = Some l \<Longrightarrow> fill_terms ex a px True = (p, s, lq, q) \<Longrightarrow> p = l \<and> lq = ''maker''"
  by (simp add: fill_terms_def Let_def)

lemma apply_fill_fills:
  assumes "apply_fill h f ex a q px fee s liq = (ex', Inr b)"
  shows "\<exists>fl. o_fills b = [fl] \<and> fl_fill_price fl = px \<and> fl_liquidity fl = liq \<and> fl_symbol fl = o_symbol a
    \<and> fl_side fl = o_side a \<and> ex_fills ex' = ex_fills ex @ [fl] \<and> dget (ex_orders ex') (order_key a) = Some b"
proof -
  have f: "ex_fills (annotate_position o3 e) = ex_fills e" for o3 e
    using annotate_core [of o3 e] by (simp add: core_def)
  show ?thesis using assms
    by (auto simp: apply_fill_def Let_def f emit_def store_def ensure_fill_id_def dget_dput order_key_def
        core_orders [OF annotate_core] dest: transition_id split: sum.splits)
qed

text \<open>A resting limit order is honoured at its limit: when a price update fills it, the price
  was at or below the limit of a buy and at or above that of a sell, the one fill reported and
  recorded has exactly the limit price and maker liquidity, and the order is filled or partially
  filled.\<close>

theorem limit_order_fills_at_limit:
  assumes a: "dget (ex_orders ex) k = Some a" "o_order_type a = LIMIT" "o_limit_price a = Some l" "l \<noteq> Fin 0"
    and step: "price_step h16 f10 ex px k = (ex', Inr fs)" and fresh: "o_fills a = []" and some: "fs \<noteq> []"
  shows "(if is_buy (o_side a) then fle px l else fle l px)
    \<and> (\<exists>fl b. fs = [fl] \<and> fl_fill_price fl = l \<and> fl_liquidity fl = ''maker'' \<and> ex_fills ex' = ex_fills ex @ [fl]
         \<and> dget (ex_orders ex') (order_key a) = Some b \<and> (o_status b = FILLED \<or> o_status b = PARTIALLY_FILLED))"
proof -
  have trig: "limit_triggered a px"
    using step some a by (auto simp: price_step_def order_triggered_def split: if_splits)
  from step a trig obtain b where fm: "fill_market h16 f10 ex a l True = (ex', Inr b)" and b: "fs = o_fills b"
    by (auto simp: price_step_def order_triggered_def float_or_def split: prod.splits sum.splits)
  obtain p s lq q fee ex1 r where t: "fill_terms ex a l True = (p, s, lq, q)"
    and r: "route_fill ex a q p fee s = (ex1, r)"
    and eq: "fill_market h16 f10 ex a l True =
      (case r of Inl e \<Rightarrow> (case reject_after_error e a of Inl e' \<Rightarrow> (ex1, Inl e') | Inr o1 \<Rightarrow> (store o1 ex1, Inr o1))
       | Inr _ \<Rightarrow> apply_fill h16 f10 ex1 a q p fee s lq)"
    by (rule fill_market_cases [of ex a l True h16 f10]) (rule that)
  note lt = limit_terms [OF a(3) t]
  have "core ex1 = core ex" using route_fill_core [of ex a q p fee s] by (simp add: r)
  then have fills: "ex_fills ex1 = ex_fills ex" by (simp add: core_def)
  have keep: "reject_after_error e a = Inr o1 \<Longrightarrow> o_fills o1 = o_fills a" for e o1
    by (auto simp: reject_after_error_def Let_def bind_res_Inr_iff dest!: order_transition_status split: if_splits)
  have "\<exists>u. r = Inr u"
  proof (cases r)
    case (Inl e)
    with fm eq have "o_fills b = []" using keep fresh by (auto split: sum.splits)
    with some b show ?thesis by simp
  qed simp
  with fm eq have ap: "apply_fill h16 f10 ex1 a q p fee s lq = (ex', Inr b)" by auto
  from apply_fill_fills [OF ap] apply_fill_status [OF ap] trig lt fills b a(3)
  show ?thesis by (auto simp: limit_triggered_def)
qed

definition live_limit_order :: order where
  "live_limit_order = (new_order ''BTC'' BUY LIMIT (Fin 1))\<lparr>o_order_id := Some ''A'', o_limit_price := Some (Fin 90),
     o_status := SUBMITTED\<rparr>"

definition demo_exchange :: exchange where
  "demo_exchange = store live_limit_order (new_exchange default_config None [] ''S'')"

theorem limit_order_fills_at_limit_witness:
  "\<exists>fl. fl_fill_price fl = Fin 90 \<and> fl_liquidity fl = ''maker''
     \<and> snd (price_step id (\<lambda>_. []) demo_exchange (Fin 80) ''A'') = Inr [fl]"
proof -
  have o: "dget (ex_orders demo_exchange) ''A'' = Some live_limit_order" "o_order_type live_limit_order = LIMIT"
    "o_limit_price live_limit_order = Some (Fin 90)" "o_fills live_limit_order = []"
    by (simp_all add: demo_exchange_def live_limit_order_def new_order_def dget_dput order_key_def opt_default_def)
  have "\<exists>ex' fs. price_step id (\<lambda>_. []) demo_exchange (Fin 80) ''A'' = (ex', Inr fs) \<and> fs \<noteq> []"
    by (simp add: price_step_def o order_triggered_def limit_triggered_def float_or_def)
     (simp add: demo_exchange_def live_limit_order_def new_order_def fill_market_def fill_terms_def Let_def
        default_config_def new_exchange_def store_def fl_eval order_key_def opt_default_def
        calculate_fee_def rate_for_def new_fee_engine_def venue_rate_def dict_build_def bps_unit_def py_lower_def py_upper_def
        asset_class_value_def route_fill_def open_position_def open_cash_def new_portfolio_def cash_tol_value
        apply_fill_def order_transition_def status_transition_def table_transition_def qty_tol_def)
  then obtain ex' fs where "price_step id (\<lambda>_. []) demo_exchange (Fin 80) ''A'' = (ex', Inr fs)" "fs \<noteq> []" by blast
  with limit_order_fills_at_limit [OF o(1-3) _ this(1) o(4) this(2)] show ?thesis by auto
qed

end
