(* ===== verification/Okf_Gates.thy ===== *)
theory Okf_Gates
  imports Kill_Switch "HOL-Library.List_Lexorder" "HOL-Library.Char_ord"
begin

text \<open>
  The deterministic gates of \<open>okf/\<close>: correlation, turnover, failure memory, position sizing, the hard
  circuit breakers and the Brier recalibration, with the correlation filter of \<open>risk/correlation.py\<close>.
  \<open>sq\<close> is a parameter (\<open>math.sqrt\<close>).
\<close>

record gate_result =
  gr_allowed :: bool
  gr_reason :: string
  gr_matched :: "string list"

definition gate :: "bool \<Rightarrow> string \<Rightarrow> gate_result" where
  "gate b r = \<lparr>gr_allowed = b, gr_reason = r, gr_matched = []\<rparr>"

lemma gate_allowed [simp]: "gr_allowed (gate b r) = b" "gr_reason (gate b r) = r"
  by (simp_all add: gate_def)

section \<open>Correlation gate\<close>

definition norm_symbol :: "string \<Rightarrow> string" where
  "norm_symbol s = py_upper (py_replace CHR ''_'' ''/'' (py_replace CHR ''-'' ''/'' s))"

definition drop_slash :: "string \<Rightarrow> string" where
  "drop_slash s = py_replace CHR ''/'' [] s"

definition dash_slash :: "string \<Rightarrow> string" where
  "dash_slash s = py_replace CHR ''/'' ''-'' s"

record corr_gate =
  cg_enabled :: bool
  cg_risk_on :: "string list"
  cg_blockers :: "string list"
  cg_fail_closed :: bool

definition new_corr_gate :: "bool \<Rightarrow> string list \<Rightarrow> string list \<Rightarrow> bool \<Rightarrow> corr_gate" where
  "new_corr_gate en assets blockers fc = \<lparr>cg_enabled = en, cg_risk_on = map norm_symbol assets,
     cg_blockers = sort (remdups (map norm_symbol blockers)), cg_fail_closed = fc\<rparr>"

definition symbol_forms :: "string \<Rightarrow> string list" where
  "symbol_forms s = [s, drop_slash s, dash_slash s]"

definition is_risk_on :: "corr_gate \<Rightarrow> string \<Rightarrow> bool" where
  "is_risk_on g sy = list_ex (\<lambda>a. list_ex (\<lambda>c. c \<in> set (symbol_forms a)) (symbol_forms (norm_symbol sy))) (cg_risk_on g)"

definition short_order_side :: "string \<Rightarrow> bool" where
  "short_order_side s \<longleftrightarrow> py_upper s = ''SHORT'' \<or> py_upper s = ''SELL''"

definition long_order_side :: "string \<Rightarrow> bool" where
  "long_order_side s \<longleftrightarrow> py_upper s = ''LONG'' \<or> py_upper s = ''BUY''"

definition held_long :: "(string \<times> pyfloat) list \<Rightarrow> string \<Rightarrow> bool" where
  "held_long pos b = list_ex (\<lambda>(sy, q). flt (Fin 0) q \<and>
     (norm_symbol (norm_symbol sy) = b \<or> drop_slash (norm_symbol (norm_symbol sy)) = drop_slash b)) pos"

definition corr_evaluate ::
  "corr_gate \<Rightarrow> string \<Rightarrow> string \<Rightarrow> (string \<times> pyfloat) list option \<Rightarrow> bool \<Rightarrow> bool \<Rightarrow> bool \<Rightarrow> gate_result" where
  "corr_evaluate g sy side pos avail new_entry modification =
     (if \<not> cg_enabled g then gate True ''CORRELATION_FILTER_DISABLED''
      else if short_order_side side then gate True ''CORRELATION_NOT_APPLICABLE_SHORT''
      else if modification \<or> \<not> new_entry then gate True ''CORRELATION_NOT_APPLICABLE_MODIFICATION''
      else if \<not> is_risk_on g sy then gate True ''CORRELATION_NOT_RISK_ON_ASSET''
      else case (if avail then pos else None) of
        None \<Rightarrow> if cg_fail_closed g then gate False ''CORRELATION_DATA_UNAVAILABLE''
                else gate True ''CORRELATION_DATA_UNAVAILABLE_FAIL_OPEN''
      | Some ps \<Rightarrow>
          (let matched = filter (held_long ps) (cg_blockers g)
           in if cg_blockers g \<noteq> [] \<and> set (cg_blockers g) \<subseteq> set matched
              then \<lparr>gr_allowed = False, gr_reason = ''CORRELATION_FILTER_BLOCK'', gr_matched = matched\<rparr>
              else \<lparr>gr_allowed = True, gr_reason = ''CORRELATION_OK'', gr_matched = matched\<rparr>))"

section \<open>Turnover guard\<close>

record turnover_guard =
  tg_enabled :: bool
  tg_max_trades :: int
  tg_cooldown :: int
  tg_preferred :: "string list"
  tg_forbidden :: "string list"

definition new_turnover_guard :: "bool \<Rightarrow> int \<Rightarrow> int \<Rightarrow> string list \<Rightarrow> string list \<Rightarrow> turnover_guard" where
  "new_turnover_guard en mx cd pref forb = \<lparr>tg_enabled = en, tg_max_trades = mx, tg_cooldown = cd,
     tg_preferred = map py_lower (if pref = [] then [''swing'', ''momentum'', ''high_conviction''] else pref),
     tg_forbidden = map py_lower (if forb = [] then [''uncontrolled_scalping'', ''high_frequency_scalping''] else forb)\<rparr>"

definition turnover_evaluate :: "turnover_guard \<Rightarrow> int \<Rightarrow> int option \<Rightarrow> string option \<Rightarrow> gate_result" where
  "turnover_evaluate g trades bars style =
     (if \<not> tg_enabled g then gate True ''LOW_TURNOVER_DISABLED''
      else
        (let st = py_strip (py_lower (opt_default style []))
         in if st \<noteq> [] \<and> st \<in> set (tg_forbidden g) then gate False ''LOW_TURNOVER_FORBIDDEN_STYLE''
            else if tg_max_trades g \<le> trades then gate False ''LOW_TURNOVER_TRADE_CAP''
            else if (case bars of None \<Rightarrow> False | Some b \<Rightarrow> 0 < tg_cooldown g \<and> b < tg_cooldown g)
            then gate False ''LOW_TURNOVER_COOLDOWN''
            else gate True ''LOW_TURNOVER_OK''))"

section \<open>Failure memory\<close>

text \<open>\<open>learning/embeddings.py\<close>; a feature dictionary maps names to optional floats.\<close>

definition feature_names :: "string list" where
  "feature_names = [''RSI_14'', ''MACD_HISTOGRAM'', ''VWAP_DISTANCE'', ''BOLLINGER_BAND_WIDTH'',
     ''VOLUME_BREAKOUT_MULT'', ''ATR'', ''ADX'', ''EMA_DISTANCE'', ''RETURNS'', ''VOLATILITY'']"

definition feature_vector :: "(string \<times> pyfloat option) list \<Rightarrow> pyfloat list" where
  "feature_vector d = map (\<lambda>n. opt_default (opt_default (dget d n) None) (Fin 0))
     (feature_names @ [''MARKET_REGIME_CODE''])"

definition l2_normalize :: "(pyfloat \<Rightarrow> pyfloat) \<Rightarrow> pyfloat list \<Rightarrow> pyfloat list" where
  "l2_normalize sq vs =
     (let n0 = sq (fsum (map (\<lambda>v. fmul v v) vs)); n = (if n0 = Fin 0 then Fin 1 else n0)
      in map (\<lambda>v. fquot v n) vs)"

definition cosine_similarity :: "(pyfloat \<Rightarrow> pyfloat) \<Rightarrow> pyfloat list \<Rightarrow> pyfloat list \<Rightarrow> pyfloat" where
  "cosine_similarity sq a b =
     (if a = [] \<or> b = [] \<or> length a \<noteq> length b then Fin 0
      else fsum (map (\<lambda>(x, y). fmul x y) (zip (l2_normalize sq a) (l2_normalize sq b))))"

datatype trade_outcome = WIN | LOSS | BREAKEVEN

record memory_record =
  mr_memory_id :: string
  mr_trade_id :: string
  mr_outcome :: trade_outcome
  mr_features :: "(string \<times> pyfloat option) list"

record memory_result =
  mg_allowed :: bool
  mg_reason :: string
  mg_confidence :: "pyfloat option"
  mg_memory_id :: "string option"

definition memory_similarity ::
  "(pyfloat \<Rightarrow> pyfloat) \<Rightarrow> (string \<times> pyfloat option) list \<Rightarrow> memory_record \<Rightarrow> pyfloat" where
  "memory_similarity sq q r =
     cosine_similarity sq (l2_normalize sq (feature_vector q)) (l2_normalize sq (feature_vector (mr_features r)))"

definition best_match ::
  "(pyfloat \<Rightarrow> pyfloat) \<Rightarrow> (string \<times> pyfloat option) list \<Rightarrow> memory_record list \<Rightarrow> pyfloat \<times> string option" where
  "best_match sq q rs = foldl (\<lambda>(best, bid) r.
     if mr_outcome r \<noteq> LOSS then (best, bid)
     else (let s = memory_similarity sq q r in if flt best s then (s, Some (mr_memory_id r)) else (best, bid)))
     (Fin 0, None) rs"

definition memory_evaluate ::
  "(pyfloat \<Rightarrow> pyfloat) \<Rightarrow> pyfloat \<Rightarrow> bool \<Rightarrow> (string \<times> pyfloat option) list option
   \<Rightarrow> memory_record list option \<Rightarrow> bool \<Rightarrow> memory_result" where
  "memory_evaluate sq thr fail_closed q rs avail =
     (case (if avail then q else None, rs) of
        (Some qf, Some recs) \<Rightarrow>
          (let (best, bid) = best_match sq qf recs
           in if flt thr best
              then \<lparr>mg_allowed = False, mg_reason = ''FAILURE_MEMORY_MATCH_BLOCK'',
                    mg_confidence = Some (pyround best 6), mg_memory_id = bid\<rparr>
              else \<lparr>mg_allowed = True, mg_reason = ''FAILURE_MEMORY_OK'',
                    mg_confidence = Some (if opt_truthy bid then pyround best 6 else Fin 0), mg_memory_id = bid\<rparr>)
      | _ \<Rightarrow> if fail_closed
             then \<lparr>mg_allowed = False, mg_reason = ''FAILURE_MEMORY_UNAVAILABLE'', mg_confidence = None, mg_memory_id = None\<rparr>
             else \<lparr>mg_allowed = True, mg_reason = ''FAILURE_MEMORY_UNAVAILABLE_FAIL_OPEN'', mg_confidence = None,
                   mg_memory_id = None\<rparr>)"

section \<open>Position sizing\<close>

record sizing_result =
  sz_ok :: bool
  sz_quantity :: pyfloat
  sz_reason :: string

definition sizing_fail :: "string \<Rightarrow> sizing_result" where
  "sizing_fail r = \<lparr>sz_ok = False, sz_quantity = Fin 0, sz_reason = r\<rparr>"

definition atr_position_quantity ::
  "pyfloat \<Rightarrow> pyfloat \<Rightarrow> pyfloat \<Rightarrow> pyfloat option \<Rightarrow> pyfloat \<Rightarrow> nat \<Rightarrow> pyfloat option \<Rightarrow> sizing_result" where
  "atr_position_quantity equity risk entry stop minq prec maxq =
     (case stop of
        None \<Rightarrow> sizing_fail ''STOP_LOSS_REQUIRED''
      | Some sl \<Rightarrow>
          (let denom = fabs (fsub entry sl)
           in if fle denom (Fin 0) then sizing_fail ''ZERO_STOP_DISTANCE''
              else if fle equity (Fin 0) \<or> fle risk (Fin 0) \<or> fle entry (Fin 0) then sizing_fail ''INVALID_SIZING_INPUTS''
              else
                (let raw = fquot (fmul equity risk) denom;
                     q0 = pyround raw prec;
                     q = (case maxq of None \<Rightarrow> q0 | Some m \<Rightarrow> pmin q0 m)
                 in if flt q minq then sizing_fail ''BELOW_MIN_ORDER_SIZE''
                    else \<lparr>sz_ok = True, sz_quantity = q, sz_reason = ''SIZING_OK''\<rparr>)))"

record kelly_result =
  kr_ok :: bool
  kr_full :: pyfloat
  kr_effective :: pyfloat

definition quarter_kelly :: "pyfloat \<Rightarrow> pyfloat \<Rightarrow> pyfloat \<Rightarrow> pyfloat option \<Rightarrow> kelly_result" where
  "quarter_kelly p b mult maxf =
     (if fle b (Fin 0) then \<lparr>kr_ok = False, kr_full = Fin 0, kr_effective = Fin 0\<rparr>
      else
        (let q = fsub (Fin 1) p;
             full = pmax (Fin 0) (fquot (fsub (fmul p b) q) b);
             e0 = pmax (Fin 0) (fmul mult full);
             e = (case maxf of None \<Rightarrow> e0 | Some m \<Rightarrow> pmin e0 m)
         in \<lparr>kr_ok = True, kr_full = full, kr_effective = e\<rparr>))"

section \<open>Hard circuit breakers\<close>

record breaker_event =
  be_trigger :: string
  be_reason :: string

text \<open>\<open>cb_cancel\<close> and \<open>cb_flatten\<close> tell whether the callbacks are set; \<open>cb_calls\<close> records the calls made.\<close>

datatype breaker_call = Call_Cancel | Call_Flatten

record breakers =
  cb_kill :: kill_state
  cb_max_drawdown :: pyfloat
  cb_max_daily_loss :: pyfloat
  cb_cancel :: bool
  cb_flatten :: bool
  cb_halted :: bool
  cb_events :: "breaker_event list"
  cb_calls :: "breaker_call list"

record breaker_result =
  br_breached :: bool
  br_halted :: bool
  br_new_intents :: bool
  br_reason :: "string option"

definition breach :: "breakers \<Rightarrow> string \<Rightarrow> string \<Rightarrow> breakers \<times> breaker_result" where
  "breach cb trigger reason =
     (cb\<lparr>cb_kill := ks_activate (cb_kill cb) (reason @ '':'' @ trigger), cb_halted := True,
         cb_calls := cb_calls cb @ (if cb_cancel cb then [Call_Cancel] else []) @ (if cb_flatten cb then [Call_Flatten] else []),
         cb_events := cb_events cb @ [\<lparr>be_trigger = trigger, be_reason = reason\<rparr>]\<rparr>,
      \<lparr>br_breached = True, br_halted = True, br_new_intents = False, br_reason = Some reason\<rparr>)"

definition breakers_evaluate ::
  "breakers \<Rightarrow> pyfloat \<Rightarrow> pyfloat \<Rightarrow> pyfloat \<Rightarrow> bool \<Rightarrow> breakers \<times> breaker_result" where
  "breakers_evaluate cb equity pnl dd stop_file =
     (if stop_file then breach cb ''STOP_FILE'' ''KILL_SWITCH_STOP_FILE''
      else if flt (Fin 0) equity \<and> flt pnl (Fin 0) \<and> fle (cb_max_daily_loss cb) (fquot (fabs pnl) equity)
      then breach cb ''DAILY_LOSS'' ''OKF_DAILY_LOSS_BREACH''
      else if fle (cb_max_drawdown cb) dd then breach cb ''DRAWDOWN'' ''OKF_DRAWDOWN_BREACH''
      else (cb, (let h = cb_halted cb \<or> ks_active (cb_kill cb)
                 in \<lparr>br_breached = False, br_halted = h, br_new_intents = \<not> h, br_reason = None\<rparr>)))"

section \<open>Brier recalibration\<close>

text \<open>\<open>(probability - outcome) ** 2\<close> is the product of the difference with itself.\<close>

definition brier_score :: "pyfloat \<Rightarrow> int \<Rightarrow> pyfloat" where
  "brier_score p o1 = (let d = fsub p (f_of_int o1) in fmul d d)"

definition rolling_brier :: "(pyfloat \<times> int) list \<Rightarrow> pyfloat option" where
  "rolling_brier ps = (if ps = [] then None
     else Some (fquot (fsum (map (\<lambda>(p, o1). brier_score p o1) ps)) (f_of_int (int (length ps)))))"

record recal_event =
  re_brier :: pyfloat
  re_prev_kelly :: pyfloat
  re_new_kelly :: pyfloat
  re_prev_conf :: pyfloat
  re_new_conf :: pyfloat

record recalibrator =
  rc_threshold :: pyfloat
  rc_base_kelly :: pyfloat
  rc_degraded_kelly :: pyfloat
  rc_base_conf :: pyfloat
  rc_degraded_conf :: pyfloat
  rc_history :: "(pyfloat \<times> int) list"
  rc_events :: "recal_event list"
  rc_kelly :: pyfloat
  rc_conf :: pyfloat
  rc_degraded :: bool

definition new_recalibrator :: recalibrator where
  "new_recalibrator = \<lparr>rc_threshold = Fin (1 / 4), rc_base_kelly = Fin (1 / 4), rc_degraded_kelly = Fin (1 / 16),
     rc_base_conf = Fin 1, rc_degraded_conf = Fin (1 / 2), rc_history = [], rc_events = [],
     rc_kelly = Fin (1 / 4), rc_conf = Fin 1, rc_degraded = False\<rparr>"

definition recal_update :: "recalibrator \<Rightarrow> pyfloat \<Rightarrow> int \<Rightarrow> recalibrator" where
  "recal_update rc p o1 =
     (let rc1 = rc\<lparr>rc_history := rc_history rc @ [(p, o1)]\<rparr>
      in case rolling_brier (rc_history rc1) of
           None \<Rightarrow> rc1
         | Some b \<Rightarrow>
             if flt (rc_threshold rc1) b then
               (let nk = pmin (rc_kelly rc1) (rc_degraded_kelly rc1);
                    nc = pmin (rc_conf rc1) (rc_degraded_conf rc1);
                    ev = \<lparr>re_brier = b, re_prev_kelly = rc_kelly rc1, re_new_kelly = nk,
                          re_prev_conf = rc_conf rc1, re_new_conf = nc\<rparr>
                in rc1\<lparr>rc_events := (if \<not> rc_degraded rc1 \<or> flt nk (rc_kelly rc1) \<or> flt nc (rc_conf rc1)
                                    then rc_events rc1 @ [ev] else rc_events rc1),
                       rc_kelly := nk, rc_conf := nc, rc_degraded := True\<rparr>)
             else rc1\<lparr>rc_kelly := rc_base_kelly rc1, rc_conf := rc_base_conf rc1, rc_degraded := False\<rparr>)"

section \<open>Correlation of returns\<close>

text \<open>\<open>x ** 2\<close> is \<open>x * x\<close>, and \<open>rt\<close> stands for \<open>x ** 0.5\<close>.  The product of the two deviations may be
  zero though neither factor is.\<close>

definition pearson :: "(pyfloat \<Rightarrow> pyfloat) \<Rightarrow> pyfloat list \<Rightarrow> pyfloat list \<Rightarrow> pyfloat option res" where
  "pearson rt xs ys =
     (let n = min (length xs) (length ys)
      in if n < 3 then Inr None else
        (let x = last_n n xs; y = last_n n ys; fn = f_of_int (int n);
             mx = fquot (fsum x) fn; my = fquot (fsum y) fn;
             num = fsum (map (\<lambda>(a, b). fmul (fsub a mx) (fsub b my)) (zip x y));
             denx = rt (fsum (map (\<lambda>a. fmul (fsub a mx) (fsub a mx)) x));
             deny = rt (fsum (map (\<lambda>b. fmul (fsub b my) (fsub b my)) y))
         in if denx = Fin 0 \<or> deny = Fin 0 then Inr None
            else bind_res (fdiv num (fmul denx deny)) (\<lambda>c. Inr (Some c))))"

text \<open>\<open>fmt\<close> is the formatted correlation in the reason.\<close>

fun corr_reasons ::
  "(pyfloat \<Rightarrow> pyfloat) \<Rightarrow> (pyfloat \<Rightarrow> string) \<Rightarrow> pyfloat \<Rightarrow> pyfloat list \<Rightarrow> (string \<times> pyfloat list) list \<Rightarrow> string list res" where
  "corr_reasons rt fmt mx cand [] = Inr []"
| "corr_reasons rt fmt mx cand ((sy, series) # rest) =
     bind_res (pearson rt cand series) (\<lambda>c.
     bind_res (corr_reasons rt fmt mx cand rest) (\<lambda>rs.
       Inr ((case c of None \<Rightarrow> [] | Some v \<Rightarrow> if fle mx (fabs v) then [''CORRELATION_LIMIT'', ''corr:'' @ sy @ '':'' @ fmt v] else [])
            @ rs)))"

definition corr_filter ::
  "(pyfloat \<Rightarrow> pyfloat) \<Rightarrow> (pyfloat \<Rightarrow> string) \<Rightarrow> pyfloat \<Rightarrow> pyfloat list \<Rightarrow> (string \<times> pyfloat list) list \<Rightarrow> (bool \<times> string list) res" where
  "corr_filter rt fmt mx cand existing =
     bind_res (corr_reasons rt fmt mx cand existing) (\<lambda>rs. Inr (rs = [], rs))"

section \<open>Lemmas\<close>

lemma best_match_ge:
  "b \<noteq> NaN \<Longrightarrow> fst (foldl (\<lambda>(best, bid) r. if mr_outcome r \<noteq> LOSS then (best, bid)
     else (let s = memory_similarity sq q r in if flt best s then (s, Some (mr_memory_id r)) else (best, bid))) (b, i) rs) = m
   \<Longrightarrow> fle b m \<and> (\<forall>r \<in> set rs. mr_outcome r = LOSS \<longrightarrow> memory_similarity sq q r \<noteq> NaN \<longrightarrow> fle (memory_similarity sq q r) m)
     \<and> (m = b \<or> (\<exists>r \<in> set rs. mr_outcome r = LOSS \<and> memory_similarity sq q r = m))"
proof (induction rs arbitrary: b i)
  case (Cons r rs)
  let ?s = "memory_similarity sq q r"
  show ?case
  proof (cases "mr_outcome r = LOSS \<and> flt b ?s")
    case True
    then have nn: "?s \<noteq> NaN" and bs: "fle b ?s" by (auto dest: flt_not_NaN flt_imp_fle)
    from Cons.IH [OF nn, of "Some (mr_memory_id r)"] Cons.prems(2) True
    have ih: "fle ?s m \<and> (\<forall>r \<in> set rs. mr_outcome r = LOSS \<longrightarrow> memory_similarity sq q r \<noteq> NaN \<longrightarrow> fle (memory_similarity sq q r) m)
       \<and> (m = ?s \<or> (\<exists>r \<in> set rs. mr_outcome r = LOSS \<and> memory_similarity sq q r = m))"
      by (simp add: Let_def)
    with True bs show ?thesis by (auto intro: fle_trans)
  next
    case False
    from Cons.IH [OF Cons.prems(1), of i] Cons.prems(2) False
    have ih: "fle b m \<and> (\<forall>r \<in> set rs. mr_outcome r = LOSS \<longrightarrow> memory_similarity sq q r \<noteq> NaN \<longrightarrow> fle (memory_similarity sq q r) m)
       \<and> (m = b \<or> (\<exists>r \<in> set rs. mr_outcome r = LOSS \<and> memory_similarity sq q r = m))"
      by (auto simp: Let_def split: if_splits)
    have "fle ?s b" if "mr_outcome r = LOSS" "?s \<noteq> NaN" using False that Cons.prems(1) by (simp add: not_flt_iff)
    with ih show ?thesis by (auto intro: fle_trans)
  qed
qed simp

lemma breach_halts [simp]:
  "cb_halted (fst (breach cb t r))" "ks_active (cb_kill (fst (breach cb t r)))"
  "\<not> br_new_intents (snd (breach cb t r))" "br_breached (snd (breach cb t r))"
  by (simp_all add: breach_def ks_activate_def)

lemma breakers_evaluate_cases:
  "(\<exists>t r. breakers_evaluate cb eq pnl dd sf = breach cb t r)
   \<or> (fst (breakers_evaluate cb eq pnl dd sf) = cb \<and>
      br_new_intents (snd (breakers_evaluate cb eq pnl dd sf)) = (\<not> (cb_halted cb \<or> ks_active (cb_kill cb))))"
  unfolding breakers_evaluate_def by (auto simp: Let_def)

fun breakers_run :: "breakers \<Rightarrow> (pyfloat \<times> pyfloat \<times> pyfloat \<times> bool) list \<Rightarrow> breakers" where
  "breakers_run cb [] = cb"
| "breakers_run cb ((eq, pnl, dd, sf) # xs) = breakers_run (fst (breakers_evaluate cb eq pnl dd sf)) xs"

lemma breakers_run_halted: "cb_halted cb \<Longrightarrow> cb_halted (breakers_run cb xs)"
proof (induction cb xs rule: breakers_run.induct)
  case (2 cb eq pnl dd sf xs)
  have "cb_halted (fst (breakers_evaluate cb eq pnl dd sf))"
    using breakers_evaluate_cases [of cb eq pnl dd sf] 2(2) by auto
  with 2(1) show ?case by simp
qed simp

lemma fquot_le_1:
  assumes "fle x (Fin b)" and "0 < b" and "x \<noteq> NaN"
  shows "fle (fquot x (Fin b)) (Fin 1)"
  using assms by (cases x) (auto simp: finf_def intro: rnd_Fin_mono_upper)

lemma kelly_full_bounds:
  assumes p: "fle (Fin 0) p" "fle p (Fin 1)" and b: "0 < b" "rnd b = Fin b"
  shows "fle (Fin 0) (pmax (Fin 0) (fquot (fsub (fmul p (Fin b)) (fsub (Fin 1) p)) (Fin b)))"
    "fle (pmax (Fin 0) (fquot (fsub (fmul p (Fin b)) (fsub (Fin 1) p)) (Fin b))) (Fin 1)"
proof -
  obtain a where a: "p = Fin a" "0 \<le> a" "a \<le> 1" using p by (cases p) auto
  have "fle (rnd (a * b)) (Fin b)" using a b by (intro rnd_Fin_mono_upper) (auto simp: mult_left_le_one_le)
  moreover have "rnd (a * b) \<noteq> NegInf"
    using rnd_nonneg [of "a * b"] a b by (cases "rnd (a * b)") auto
  ultimately obtain c where c: "rnd (a * b) = Fin c" "c \<le> b" by (cases "rnd (a * b)") auto
  have q: "fle (Fin 0) (rnd (1 - a))" "fle (rnd (1 - a)) (Fin 1)"
    using a by (auto intro!: rnd_nonneg rnd_Fin_mono_upper)
  then obtain d where d: "rnd (1 - a) = Fin d" "0 \<le> d" by (cases "rnd (1 - a)") auto
  have "fle (rnd (c - d)) (Fin b)" using c d b by (intro rnd_Fin_mono_upper) auto
  then have "fle (fquot (rnd (c - d)) (Fin b)) (Fin 1)" using b by (intro fquot_le_1) auto
  then show "fle (pmax (Fin 0) (fquot (fsub (fmul p (Fin b)) (fsub (Fin 1) p)) (Fin b))) (Fin 1)"
    by (simp add: a(1) c(1) d(1) pmax_def)
  show "fle (Fin 0) (pmax (Fin 0) (fquot (fsub (fmul p (Fin b)) (fsub (Fin 1) p)) (Fin b)))"
    by (simp add: pmax_ge)
qed

lemma recal_update_bounded:
  assumes "fle (rc_kelly rc) (rc_base_kelly rc)" and "fle (rc_conf rc) (rc_base_conf rc)"
  shows "fle (rc_kelly (recal_update rc p o1)) (rc_base_kelly rc) \<and> fle (rc_conf (recal_update rc p o1)) (rc_base_conf rc)
    \<and> rc_base_kelly (recal_update rc p o1) = rc_base_kelly rc \<and> rc_base_conf (recal_update rc p o1) = rc_base_conf rc"
  using assms fle_trans [OF pmin_le, of "rc_kelly rc"] fle_trans [OF pmin_le, of "rc_conf rc"]
    fle_not_NaN [OF assms(1)] fle_not_NaN [OF assms(2)]
  by (auto simp: recal_update_def Let_def split: option.splits)

section \<open>Properties\<close>

text \<open>The pre-trade memory gate blocks exactly when it should: with records at hand and a threshold
  that is not negative it blocks if and only if some losing trade in memory has a similarity above
  the threshold; without records or features it blocks if and only if it is set to fail closed.\<close>

theorem memory_gate_blocks_iff:
  assumes "fle (Fin 0) thr"
  shows "(mg_allowed (memory_evaluate sq thr fc (Some q) (Some rs) True)
      \<longleftrightarrow> \<not> (\<exists>r \<in> set rs. mr_outcome r = LOSS \<and> flt thr (memory_similarity sq q r)))
    \<and> (mg_allowed (memory_evaluate sq thr fc qo ro False) \<longleftrightarrow> \<not> fc)
    \<and> (mg_allowed (memory_evaluate sq thr fc qo None avail) \<longleftrightarrow> \<not> fc)"
proof -
  obtain m i where bm: "best_match sq q rs = (m, i)" by fastforce
  then have "fst (best_match sq q rs) = m" by simp
  note g = best_match_ge [of "Fin 0" sq q None rs m, folded best_match_def, OF _ this]
  have "flt thr m \<longleftrightarrow> (\<exists>r \<in> set rs. mr_outcome r = LOSS \<and> flt thr (memory_similarity sq q r))"
  proof
    assume lt: "flt thr m"
    have "m \<noteq> Fin 0" using lt assms flt_not_fle by blast
    with g lt show "\<exists>r \<in> set rs. mr_outcome r = LOSS \<and> flt thr (memory_similarity sq q r)" by auto
  next
    assume "\<exists>r \<in> set rs. mr_outcome r = LOSS \<and> flt thr (memory_similarity sq q r)"
    then obtain r where "r \<in> set rs" "mr_outcome r = LOSS" "flt thr (memory_similarity sq q r)" by blast
    with g show "flt thr m" by (auto dest: flt_not_NaN intro: flt_fle_trans)
  qed
  then show ?thesis by (auto simp: memory_evaluate_def bm split: option.splits)
qed

theorem memory_gate_blocks_iff_witness:
  "mg_allowed (memory_evaluate id (Fin (4 / 5)) True (Some []) (Some []) True)
   \<and> \<not> mg_allowed (memory_evaluate id (Fin (4 / 5)) True None None False)"
  using memory_gate_blocks_iff [of "Fin (4 / 5)" id True "[]" "[]" None None True] by simp

text \<open>The quarter-Kelly fraction is bounded: for a win probability between 0 and 1, a positive payoff
  ratio and a multiplier that is not negative, the full fraction lies between 0 and 1, the effective
  one between 0 and the multiplier, and never above the given maximum; a payoff ratio that is not
  positive gives no position.\<close>

theorem quarter_kelly_bounds:
  assumes p: "fle (Fin 0) p" "fle p (Fin 1)" and b: "0 < b" "rnd b = Fin b"
    and k: "fle (Fin 0) (Fin k)" "rnd k = Fin k"
  shows "kr_ok (quarter_kelly p (Fin b) (Fin k) None)
    \<and> fle (Fin 0) (kr_full (quarter_kelly p (Fin b) (Fin k) None)) \<and> fle (kr_full (quarter_kelly p (Fin b) (Fin k) None)) (Fin 1)
    \<and> fle (Fin 0) (kr_effective (quarter_kelly p (Fin b) (Fin k) None))
    \<and> fle (kr_effective (quarter_kelly p (Fin b) (Fin k) None)) (Fin k)
    \<and> (\<forall>m. m \<noteq> NaN \<longrightarrow> fle (kr_effective (quarter_kelly p (Fin b) (Fin k) (Some m))) m
         \<and> fle (kr_effective (quarter_kelly p (Fin b) (Fin k) (Some m))) (Fin k))
    \<and> kr_effective (quarter_kelly p (Fin (- b)) (Fin k) None) = Fin 0"
proof -
  let ?f = "pmax (Fin 0) (fquot (fsub (fmul p (Fin b)) (fsub (Fin 1) p)) (Fin b))"
  note f = kelly_full_bounds [OF p b]
  obtain x where x: "?f = Fin x" "0 \<le> x" "x \<le> 1" using f by (cases ?f) auto
  have nn: "fmul (Fin k) ?f \<noteq> NaN" unfolding x(1) by simp
  have e: "fle (Fin 0) (fmul (Fin k) ?f)" "fle (fmul (Fin k) ?f) (Fin k)"
  proof -
    have k': "is_f64 (Fin k)" using k(2) by (simp add: is_f64_def)
    show "fle (Fin 0) (fmul (Fin k) ?f)" by (rule fmul_nonneg [OF k(1) f(1) nn])
    have "k * x \<le> k" using k(1) x by (simp add: mult_left_le)
    then show "fle (fmul (Fin k) ?f) (Fin k)" unfolding x(1) by (simp add: rnd_Fin_mono_upper [OF k(2)])
  qed
  have pm: "pmax (Fin 0) (fmul (Fin k) ?f) = fmul (Fin k) ?f \<or> pmax (Fin 0) (fmul (Fin k) ?f) = Fin 0"
    by (rule disj_commute [THEN iffD1, OF pmax_cases])
  let ?e = "pmax (Fin 0) (fmul (Fin k) ?f)"
  have e': "fle (Fin 0) ?e" "fle ?e (Fin k)" using e pm k(1) by (auto simp: pmax_ge)
  have m: "m \<noteq> NaN \<Longrightarrow> fle (pmin ?e m) m \<and> fle (pmin ?e m) (Fin k)" for m
    using e' fle_not_NaN [OF e'(1)] fle_trans [OF pmin_le e'(2)] by (auto intro: pmin_le2)
  show ?thesis using f e' m b by (simp add: quarter_kelly_def Let_def)
qed

theorem quarter_kelly_bounds_witness:
  "fle (kr_effective (quarter_kelly (Fin (3 / 4)) (Fin 2) (Fin (1 / 4)) None)) (Fin (1 / 4))"
proof -
  have r: "rnd 2 = Fin 2" "rnd (1 / 4) = Fin (1 / 4)" by (simp_all add: fl_eval)
  show ?thesis using quarter_kelly_bounds [of "Fin (3 / 4)" 2 "1 / 4"] r by simp
qed

text \<open>A hard circuit breaker stays tripped: once a stop file, a daily loss or a drawdown has breached it,
  the kill switch is active and through any sequence of later evaluations, however good the numbers,
  no new trade intent is allowed.\<close>

theorem breaker_stays_tripped:
  assumes "br_breached (snd (breakers_evaluate cb eq pnl dd sf))"
    and "cb' = breakers_run (fst (breakers_evaluate cb eq pnl dd sf)) xs"
  shows "ks_active (cb_kill (fst (breakers_evaluate cb eq pnl dd sf)))
    \<and> cb_halted cb' \<and> \<not> br_new_intents (snd (breakers_evaluate cb' eq' pnl' dd' sf'))"
proof -
  obtain t r where b: "breakers_evaluate cb eq pnl dd sf = breach cb t r"
    using assms(1) by (auto simp: breakers_evaluate_def Let_def split: if_splits)
  have h: "cb_halted cb'" unfolding assms(2) b by (rule breakers_run_halted) simp
  then have "\<not> br_new_intents (snd (breakers_evaluate cb' eq' pnl' dd' sf'))"
    using breakers_evaluate_cases [of cb' eq' pnl' dd' sf'] by auto
  with b h show ?thesis by simp
qed

definition demo_breakers :: breakers where
  "demo_breakers = \<lparr>cb_kill = ks_initial, cb_max_drawdown = flit (1 / 10), cb_max_daily_loss = flit (5 / 100),
     cb_cancel = True, cb_flatten = False, cb_halted = False, cb_events = [], cb_calls = []\<rparr>"

theorem breaker_stays_tripped_witness:
  "\<not> br_new_intents (snd (breakers_evaluate (breakers_run (fst (breakers_evaluate demo_breakers (Fin 100) (Fin (- 10)) (Fin 0) False))
      [(Fin 200, Fin 100, Fin 0, False)]) (Fin 300) (Fin 0) (Fin 0) False))"
proof -
  have "br_breached (snd (breakers_evaluate demo_breakers (Fin 100) (Fin (- 10)) (Fin 0) False))"
    by (simp add: breakers_evaluate_def demo_breakers_def breach_def fl_eval)
  from breaker_stays_tripped [OF this refl] show ?thesis by blast
qed

text \<open>Recalibration never raises the risk: starting from multipliers at or below their base values,
  after any sequence of predictions and outcomes the Kelly multiplier and the confidence weight are at
  or below them.\<close>

theorem recalibration_never_raises:
  assumes "fle (rc_kelly rc) (rc_base_kelly rc)" and "fle (rc_conf rc) (rc_base_conf rc)"
  shows "fle (rc_kelly (foldl (\<lambda>r (p, o1). recal_update r p o1) rc ps)) (rc_base_kelly rc)
    \<and> fle (rc_conf (foldl (\<lambda>r (p, o1). recal_update r p o1) rc ps)) (rc_base_conf rc)"
  using assms
proof (induction ps arbitrary: rc)
  case (Cons po ps)
  obtain p o1 where po: "po = (p, o1)" by fastforce
  note b = recal_update_bounded [OF Cons.prems, of p o1]
  show ?case using Cons.IH [of "recal_update rc p o1"] b by (simp add: po)
qed simp

theorem recalibration_never_raises_witness:
  "fle (rc_kelly (foldl (\<lambda>r (p, o1). recal_update r p o1) new_recalibrator [(Fin 1, 0), (Fin 0, 0)])) (Fin (1 / 4))"
  using recalibration_never_raises [of new_recalibrator "[(Fin 1, 0), (Fin 0, 0)]"]
  by (simp add: new_recalibrator_def)

end
