(* ===== verification/Risk.thy ===== *)
theory Risk
  imports Okf_Gates
begin

text \<open>
  \<open>risk/models.py\<close>, \<open>risk/config.py\<close>, \<open>risk/engine.py\<close> and \<open>okf/resolver.py\<close>: the limits, the rule that the
  stricter of system, strategy and OKF bound applies, and the evaluation of a trade proposal.
\<close>

section \<open>Data\<close>

datatype risk_reason =
    RISK_OK | POSITION_LIMIT_EXCEEDED | TRADE_SIZE_LIMIT_EXCEEDED | EXPOSURE_LIMIT_EXCEEDED
  | DAILY_LOSS_LIMIT | DRAWDOWN_LIMIT | TRADE_COUNT_LIMIT | COOLDOWN_ACTIVE | SLIPPAGE_LIMIT
  | LEVERAGE_LIMIT | PAIR_NOT_ALLOWED | STALE_MARKET_DATA | STOP_LOSS_REQUIRED | INVALID_STOP
  | RISK_REWARD_TOO_LOW | KILL_SWITCH_ACTIVE | INSUFFICIENT_LIQUIDITY | INVALID_TRADE
  | STRATEGY_DISABLED | STRATEGY_DATA_UNAVAILABLE | TRADING_HALTED | INSUFFICIENT_CASH
  | INSUFFICIENT_CONFIDENCE | NO_VALID_MODEL | CORRELATION_FILTER_BLOCK
  | CORRELATION_DATA_UNAVAILABLE | FAILURE_MEMORY_MATCH_BLOCK | FAILURE_MEMORY_UNAVAILABLE
  | LOW_TURNOVER_BLOCK | OKF_CONSTRAINT_BLOCK

record risk_limits =
  gl_max_position_pct :: pyfloat
  gl_max_trade_pct :: pyfloat
  gl_max_portfolio_exposure_pct :: pyfloat
  gl_max_daily_loss_pct :: pyfloat
  gl_max_drawdown_pct :: pyfloat
  gl_max_trades_per_day :: int
  gl_max_slippage_pct :: pyfloat
  gl_max_leverage :: pyfloat
  gl_require_stop_loss :: bool
  gl_min_liquidity_usd :: pyfloat
  gl_min_confidence :: pyfloat
  gl_min_risk_reward :: pyfloat
  gl_kelly_fraction :: pyfloat
  gl_max_consecutive_api_failures :: int
  gl_allowed_pairs :: "string list"

definition default_limits :: risk_limits where
  "default_limits = \<lparr>gl_max_position_pct = flit (10 / 100), gl_max_trade_pct = flit (2 / 100),
     gl_max_portfolio_exposure_pct = flit (50 / 100), gl_max_daily_loss_pct = flit (5 / 100),
     gl_max_drawdown_pct = flit (10 / 100), gl_max_trades_per_day = 20, gl_max_slippage_pct = flit (5 / 1000),
     gl_max_leverage = Fin 1, gl_require_stop_loss = True, gl_min_liquidity_usd = Fin 100000,
     gl_min_confidence = flit (55 / 100), gl_min_risk_reward = flit (15 / 10), gl_kelly_fraction = Fin (1 / 4),
     gl_max_consecutive_api_failures = 3, gl_allowed_pairs = []\<rparr>"

record trade_proposal =
  tp_symbol :: string
  tp_side :: string
  tp_quantity :: pyfloat
  tp_notional :: pyfloat
  tp_entry_price :: pyfloat
  tp_stop_loss :: "pyfloat option"
  tp_take_profit :: "pyfloat option"
  tp_current_price :: pyfloat
  tp_estimated_fees :: pyfloat
  tp_estimated_slippage_pct :: pyfloat
  tp_leverage :: pyfloat
  tp_confidence :: pyfloat
  tp_model_ids :: "string list"
  tp_strategy_id :: "string option"
  tp_strategy_version :: "string option"
  tp_liquidity_usd :: "pyfloat option"
  tp_market_data_stale :: bool
  tp_bars_since_last_trade :: "int option"

record risk_snapshot =
  rs_equity :: pyfloat
  rs_available_cash :: pyfloat
  rs_positions_exposure :: pyfloat
  rs_daily_pnl :: pyfloat
  rs_drawdown_pct :: pyfloat
  rs_trades_today :: int
  rs_kill_switch_active :: bool
  rs_trading_halted :: bool

text \<open>What the limits use of a strategy's configuration (\<open>strategy/schema.py\<close>).\<close>

record strategy_risk =
  st_risk_per_trade_percent :: pyfloat
  st_max_daily_loss_percent :: pyfloat
  st_max_trades_per_day :: int
  st_cooldown_bars :: int
  st_min_risk_reward_ratio :: pyfloat

text \<open>The OKF constraint dictionary; an absent key is \<open>None\<close>.  The evaluation takes an optional one,
  \<open>None\<close> standing for no dictionary and for the empty one.\<close>

record okf_constraints =
  oc_max_risk_per_trade_pct :: "pyfloat option"
  oc_max_daily_loss_pct :: "pyfloat option"
  oc_max_drawdown_pct :: "pyfloat option"
  oc_max_trades_per_day :: "int option"
  oc_kelly_base_fraction :: "pyfloat option"
  oc_cooldown_bars :: "int option"
  oc_correlation_enabled :: "bool option"
  oc_risk_on_assets :: "string list"
  oc_correlated_long_blockers :: "string list"
  oc_low_turnover_enabled :: "bool option"
  oc_preferred_styles :: "string list"
  oc_forbidden_styles :: "string list"

record effective_limits =
  el_risk_per_trade_pct :: pyfloat
  el_max_daily_loss_pct :: pyfloat
  el_max_drawdown_pct :: pyfloat
  el_max_trades_per_day :: int
  el_cooldown_bars :: int
  el_min_risk_reward :: pyfloat
  el_max_position_pct :: pyfloat
  el_max_trade_pct :: pyfloat
  el_max_portfolio_exposure_pct :: pyfloat
  el_max_slippage_pct :: pyfloat
  el_max_leverage :: pyfloat
  el_require_stop_loss :: bool
  el_min_liquidity_usd :: pyfloat
  el_min_confidence :: pyfloat
  el_kelly_fraction :: pyfloat
  el_allowed_pairs :: "string list"
  el_conflicts :: "string list"

section \<open>The stricter bound\<close>

text \<open>\<open>_min_field\<close>: the smaller value, and the name of the field when the two differ.\<close>

definition min_field :: "string \<Rightarrow> pyfloat \<Rightarrow> pyfloat \<Rightarrow> pyfloat \<times> string list" where
  "min_field name cur okf = (pmin cur okf, if feq cur okf then [] else [name])"

definition imin_field :: "string \<Rightarrow> int \<Rightarrow> int \<Rightarrow> int \<times> string list" where
  "imin_field name cur okf = (min cur okf, if cur = okf then [] else [name])"

definition percent :: "pyfloat \<Rightarrow> pyfloat" where
  "percent x = fquot x (Fin 100)"

definition base_limits :: "risk_limits \<Rightarrow> strategy_risk option \<Rightarrow> effective_limits" where
  "base_limits g st = \<lparr>
     el_risk_per_trade_pct = (case st of None \<Rightarrow> gl_max_trade_pct g
        | Some s \<Rightarrow> pmin (gl_max_trade_pct g) (percent (st_risk_per_trade_percent s))),
     el_max_daily_loss_pct = (case st of None \<Rightarrow> gl_max_daily_loss_pct g
        | Some s \<Rightarrow> pmin (gl_max_daily_loss_pct g) (percent (st_max_daily_loss_percent s))),
     el_max_drawdown_pct = gl_max_drawdown_pct g,
     el_max_trades_per_day = (case st of None \<Rightarrow> gl_max_trades_per_day g
        | Some s \<Rightarrow> min (gl_max_trades_per_day g) (st_max_trades_per_day s)),
     el_cooldown_bars = (case st of None \<Rightarrow> 0 | Some s \<Rightarrow> st_cooldown_bars s),
     el_min_risk_reward = pmax (gl_min_risk_reward g) (case st of None \<Rightarrow> Fin 1 | Some s \<Rightarrow> st_min_risk_reward_ratio s),
     el_max_position_pct = gl_max_position_pct g, el_max_trade_pct = gl_max_trade_pct g,
     el_max_portfolio_exposure_pct = gl_max_portfolio_exposure_pct g,
     el_max_slippage_pct = gl_max_slippage_pct g, el_max_leverage = gl_max_leverage g,
     el_require_stop_loss = gl_require_stop_loss g, el_min_liquidity_usd = gl_min_liquidity_usd g,
     el_min_confidence = gl_min_confidence g, el_kelly_fraction = gl_kelly_fraction g,
     el_allowed_pairs = gl_allowed_pairs g, el_conflicts = []\<rparr>"

definition merge_effective_limits ::
  "risk_limits \<Rightarrow> strategy_risk option \<Rightarrow> okf_constraints option \<Rightarrow> effective_limits" where
  "merge_effective_limits g st okf =
     (let b = base_limits g st
      in case okf of
           None \<Rightarrow> b
         | Some oc \<Rightarrow>
             (let (risk, c1) = min_field ''max_risk_per_trade_pct'' (el_risk_per_trade_pct b)
                    (opt_default (oc_max_risk_per_trade_pct oc) (el_risk_per_trade_pct b));
                  (daily, c2) = min_field ''max_daily_loss_pct'' (el_max_daily_loss_pct b)
                    (opt_default (oc_max_daily_loss_pct oc) (el_max_daily_loss_pct b));
                  (dd, c3) = min_field ''max_drawdown_pct'' (el_max_drawdown_pct b)
                    (opt_default (oc_max_drawdown_pct oc) (el_max_drawdown_pct b));
                  (trades, c4) = imin_field ''max_trades_per_day'' (el_max_trades_per_day b)
                    (opt_default (oc_max_trades_per_day oc) (el_max_trades_per_day b));
                  (kelly, c5) = min_field ''kelly_fraction'' (el_kelly_fraction b)
                    (opt_default (oc_kelly_base_fraction oc) (el_kelly_fraction b))
              in b\<lparr>el_risk_per_trade_pct := risk, el_max_daily_loss_pct := daily, el_max_drawdown_pct := dd,
                   el_max_trades_per_day := trades, el_kelly_fraction := kelly,
                   el_cooldown_bars := max (el_cooldown_bars b) (opt_default (oc_cooldown_bars oc) 0),
                   el_conflicts := c1 @ c2 @ c3 @ c4 @ c5\<rparr>))"

section \<open>Allowed pairs\<close>

definition pair_forms :: "string \<Rightarrow> string list" where
  "pair_forms s = [s, py_replace CHR ''-'' ''/'' s, py_replace CHR ''/'' [] s, py_replace CHR ''-'' [] s,
     py_replace CHR ''/'' ''-'' s]"

definition pair_allowed :: "string \<Rightarrow> string list \<Rightarrow> bool" where
  "pair_allowed sy allowed =
     (allowed = [] \<or>
      (let s = py_upper sy; cands = pair_forms s; norm = map py_upper allowed;
           slash = map (\<lambda>a. py_upper (py_replace CHR ''-'' ''/'' a)) allowed
       in list_ex (\<lambda>c. c \<in> set norm) cands
          \<or> list_ex (\<lambda>p. py_endswith p ''/*'' \<and> py_startswith s (butlast p)) norm
          \<or> list_ex (\<lambda>c. c \<in> set slash) cands))"

section \<open>The evaluation\<close>

definition flag_if :: "bool \<Rightarrow> 'a \<Rightarrow> 'a list" where
  "flag_if b r = (if b then [r] else [])"

lemma when_Nil [simp]: "flag_if b r = [] \<longleftrightarrow> \<not> b"
  by (simp add: flag_if_def)

definition tol9 :: pyfloat where
  "tol9 = flit (1 / 10 ^ 9)"

record risk_decision =
  rd_approved :: bool
  rd_reason_codes :: "risk_reason list"
  rd_max_allowed_quantity :: pyfloat
  rd_max_allowed_notional :: pyfloat
  rd_risk_per_trade :: pyfloat
  rd_portfolio_exposure :: pyfloat
  rd_daily_loss :: pyfloat
  rd_drawdown :: pyfloat
  rd_limits :: effective_limits

definition equity_floor :: "risk_snapshot \<Rightarrow> pyfloat" where
  "equity_floor pf = pmax (rs_equity pf) (Fin 0)"

definition stop_reasons :: "effective_limits \<Rightarrow> trade_proposal \<Rightarrow> risk_reason list" where
  "stop_reasons l p =
     (case tp_stop_loss p of
        None \<Rightarrow> flag_if (el_require_stop_loss l) STOP_LOSS_REQUIRED
      | Some s \<Rightarrow> flag_if (long_order_side (tp_side p) \<and> fle (tp_entry_price p) s) INVALID_STOP
                @ flag_if (short_order_side (tp_side p) \<and> fle s (tp_entry_price p)) INVALID_STOP)"

definition reward_reasons :: "effective_limits \<Rightarrow> trade_proposal \<Rightarrow> risk_reason list" where
  "reward_reasons l p =
     (case (tp_stop_loss p, tp_take_profit p) of
        (Some s, Some t) \<Rightarrow>
          (let rpu = fabs (fsub (tp_entry_price p) s)
           in flag_if (flt (Fin 0) rpu \<and> flt (fquot (fabs (fsub t (tp_entry_price p))) rpu) (el_min_risk_reward l)) RISK_REWARD_TOO_LOW)
      | _ \<Rightarrow> [])"

definition size_reasons :: "effective_limits \<Rightarrow> trade_proposal \<Rightarrow> risk_snapshot \<Rightarrow> risk_reason list" where
  "size_reasons l p pf =
     (let eq = equity_floor pf; n = tp_notional p
      in flag_if (flt (fadd (fmul eq (el_max_position_pct l)) tol9) n) POSITION_LIMIT_EXCEEDED
         @ flag_if (flt (fadd (fmul eq (el_max_trade_pct l)) tol9) n) TRADE_SIZE_LIMIT_EXCEEDED
         @ flag_if (flt (fadd (fmul eq (el_max_portfolio_exposure_pct l)) tol9) (fadd (rs_positions_exposure pf) n))
             EXPOSURE_LIMIT_EXCEEDED)"

definition account_reasons :: "effective_limits \<Rightarrow> trade_proposal \<Rightarrow> risk_snapshot \<Rightarrow> risk_reason list" where
  "account_reasons l p pf =
     (let eq = equity_floor pf
      in flag_if (flt (Fin 0) eq \<and> flt (rs_daily_pnl pf) (Fin 0)
               \<and> fle (el_max_daily_loss_pct l) (fquot (fabs (rs_daily_pnl pf)) eq)) DAILY_LOSS_LIMIT
         @ flag_if (fle (el_max_drawdown_pct l) (rs_drawdown_pct pf)) DRAWDOWN_LIMIT
         @ flag_if (el_max_trades_per_day l \<le> rs_trades_today pf) TRADE_COUNT_LIMIT
         @ flag_if (case tp_bars_since_last_trade p of None \<Rightarrow> False
                 | Some b \<Rightarrow> 0 < el_cooldown_bars l \<and> b < el_cooldown_bars l) COOLDOWN_ACTIVE)"

definition quality_reasons :: "effective_limits \<Rightarrow> trade_proposal \<Rightarrow> risk_snapshot \<Rightarrow> risk_reason list" where
  "quality_reasons l p pf =
     flag_if (flt (el_max_slippage_pct l) (tp_estimated_slippage_pct p)) SLIPPAGE_LIMIT
     @ flag_if (flt (el_max_leverage l) (tp_leverage p)) LEVERAGE_LIMIT
     @ flag_if (case tp_liquidity_usd p of None \<Rightarrow> False | Some v \<Rightarrow> flt v (el_min_liquidity_usd l)) INSUFFICIENT_LIQUIDITY
     @ flag_if (flt (fadd (rs_available_cash pf) tol9) (tp_notional p) \<and> long_order_side (tp_side p)) INSUFFICIENT_CASH
     @ flag_if (flt (tp_confidence p) (el_min_confidence l)) INSUFFICIENT_CONFIDENCE
     @ flag_if (tp_model_ids p = []) NO_VALID_MODEL"

text \<open>The arguments that only the OKF and memory gates read.\<close>

record risk_context =
  rx_open_positions :: "(string \<times> pyfloat) list option"
  rx_correlation_available :: bool
  rx_is_new_entry :: bool
  rx_is_modification :: bool
  rx_style :: "string option"
  rx_memory :: "memory_result option"

definition default_context :: risk_context where
  "default_context = \<lparr>rx_open_positions = None, rx_correlation_available = True, rx_is_new_entry = True,
     rx_is_modification = False, rx_style = None, rx_memory = None\<rparr>"

definition okf_reasons :: "okf_constraints \<Rightarrow> trade_proposal \<Rightarrow> risk_snapshot \<Rightarrow> risk_context \<Rightarrow> risk_reason list" where
  "okf_reasons oc p pf x =
     (let cg = new_corr_gate (opt_default (oc_correlation_enabled oc) True) (oc_risk_on_assets oc)
                 (oc_correlated_long_blockers oc) True;
          cr = corr_evaluate cg (tp_symbol p) (tp_side p) (rx_open_positions x) (rx_correlation_available x)
                 (rx_is_new_entry x) (rx_is_modification x);
          tg = new_turnover_guard (opt_default (oc_low_turnover_enabled oc) True) (opt_default (oc_max_trades_per_day oc) 8)
                 (opt_default (oc_cooldown_bars oc) 5) (oc_preferred_styles oc) (oc_forbidden_styles oc);
          tr = turnover_evaluate tg (rs_trades_today pf) (tp_bars_since_last_trade p) (rx_style x)
      in (if (rx_open_positions x \<noteq> None \<or> \<not> rx_correlation_available x) \<and> \<not> gr_allowed cr
          then [if gr_reason cr = ''CORRELATION_DATA_UNAVAILABLE'' then CORRELATION_DATA_UNAVAILABLE
                else CORRELATION_FILTER_BLOCK] else [])
         @ flag_if (\<not> gr_allowed tr) LOW_TURNOVER_BLOCK)"

definition memory_reasons :: "risk_context \<Rightarrow> risk_reason list" where
  "memory_reasons x = (case rx_memory x of
     None \<Rightarrow> []
   | Some m \<Rightarrow> if mg_allowed m then []
       else [if py_contains ''UNAVAILABLE'' (mg_reason m) then FAILURE_MEMORY_UNAVAILABLE else FAILURE_MEMORY_MATCH_BLOCK])"

definition risk_reasons ::
  "bool \<Rightarrow> effective_limits \<Rightarrow> okf_constraints option \<Rightarrow> bool \<Rightarrow> trade_proposal \<Rightarrow> risk_snapshot \<Rightarrow> risk_context \<Rightarrow> risk_reason list" where
  "risk_reasons killed l okf has_strategy p pf x =
     flag_if (killed \<or> rs_kill_switch_active pf) KILL_SWITCH_ACTIVE
     @ flag_if (rs_trading_halted pf) TRADING_HALTED
     @ flag_if (tp_market_data_stale p) STALE_MARKET_DATA
     @ flag_if (\<not> pair_allowed (tp_symbol p) (el_allowed_pairs l)) PAIR_NOT_ALLOWED
     @ flag_if (fle (tp_quantity p) (Fin 0) \<or> fle (tp_notional p) (Fin 0) \<or> fle (tp_entry_price p) (Fin 0)) INVALID_TRADE
     @ stop_reasons l p @ reward_reasons l p @ size_reasons l p pf @ account_reasons l p pf @ quality_reasons l p pf
     @ flag_if (\<not> has_strategy) STRATEGY_DATA_UNAVAILABLE
     @ (case okf of None \<Rightarrow> [] | Some oc \<Rightarrow> okf_reasons oc p pf x)
     @ memory_reasons x"

definition max_allowed_notional :: "effective_limits \<Rightarrow> trade_proposal \<Rightarrow> risk_snapshot \<Rightarrow> pyfloat" where
  "max_allowed_notional l p pf =
     (let eq = equity_floor pf;
          m0 = pmin (fmul eq (el_max_position_pct l)) (fmul eq (el_max_trade_pct l))
      in case tp_stop_loss p of
           None \<Rightarrow> m0
         | Some s \<Rightarrow>
             (let dist = fabs (fsub (tp_entry_price p) s)
              in if flt (Fin 0) (tp_entry_price p) \<and> flt (Fin 0) dist
                 then pmin m0 (fmul (fquot (fmul eq (el_risk_per_trade_pct l)) dist) (tp_entry_price p)) else m0))"

definition risk_evaluate ::
  "bool \<Rightarrow> risk_limits \<Rightarrow> strategy_risk option \<Rightarrow> okf_constraints option \<Rightarrow> trade_proposal \<Rightarrow> risk_snapshot
   \<Rightarrow> risk_context \<Rightarrow> risk_decision" where
  "risk_evaluate killed g st okf p pf x =
     (let l = merge_effective_limits g st okf;
          rs = risk_reasons killed l okf (st \<noteq> None) p pf x;
          ok = (filter (\<lambda>r. r \<noteq> RISK_OK) rs = []);
          m = max_allowed_notional l p pf
      in \<lparr>rd_approved = ok, rd_reason_codes = (if ok then [RISK_OK] else rs),
          rd_max_allowed_quantity = (if flt (Fin 0) (tp_entry_price p) then fquot m (tp_entry_price p) else Fin 0),
          rd_max_allowed_notional = m,
          rd_risk_per_trade = (case tp_stop_loss p of None \<Rightarrow> Fin 0
             | Some s \<Rightarrow> fmul (fabs (fsub (tp_entry_price p) s)) (tp_quantity p)),
          rd_portfolio_exposure = fadd (rs_positions_exposure pf) (tp_notional p),
          rd_daily_loss = fabs (pmin (rs_daily_pnl pf) (Fin 0)),
          rd_drawdown = rs_drawdown_pct pf, rd_limits = l\<rparr>)"

section \<open>The OKF resolver\<close>

text \<open>The numbers \<open>OKFConfigResolver.resolve\<close> reads from the guideline bundle; an absent optional
  entry is \<open>None\<close>.\<close>

record okf_bundle =
  ob_max_risk_percent :: pyfloat
  ob_max_daily_loss_percent :: pyfloat
  ob_max_drawdown_percent :: pyfloat
  ob_max_trades_cap :: "int option"
  ob_min_cooldown :: "int option"
  ob_correlation_enabled :: "bool option"
  ob_risk_on_assets :: "string list"
  ob_blockers :: "string list"
  ob_turnover_enabled :: "bool option"
  ob_preferred :: "string list"
  ob_forbidden :: "string list"

definition stricter_min :: "string \<Rightarrow> pyfloat \<Rightarrow> pyfloat \<Rightarrow> pyfloat \<times> string list" where
  "stricter_min name okf sys = (pmin okf sys, if feq okf sys then [] else [name])"

record okf_resolved =
  or_constraints :: okf_constraints
  or_kelly_degraded :: pyfloat
  or_conflicts :: "string list"

definition okf_resolve :: "okf_bundle \<Rightarrow> risk_limits \<Rightarrow> okf_resolved" where
  "okf_resolve b sys =
     (let okf_trades = opt_default (ob_max_trades_cap b) (gl_max_trades_per_day sys);
          (risk, c1) = stricter_min ''max_risk_per_trade_pct'' (percent (ob_max_risk_percent b)) (gl_max_trade_pct sys);
          (daily, c2) = stricter_min ''max_daily_loss_pct'' (percent (ob_max_daily_loss_percent b)) (gl_max_daily_loss_pct sys);
          (dd, c3) = stricter_min ''max_drawdown_pct'' (percent (ob_max_drawdown_percent b)) (gl_max_drawdown_pct sys);
          (kelly, c5) = stricter_min ''kelly_fraction'' (Fin (1 / 4)) (gl_kelly_fraction sys);
          trades = min okf_trades (gl_max_trades_per_day sys);
          c4 = (if okf_trades = gl_max_trades_per_day sys then [] else [''max_trades_per_day''])
      in \<lparr>or_constraints = \<lparr>oc_max_risk_per_trade_pct = Some risk, oc_max_daily_loss_pct = Some daily,
            oc_max_drawdown_pct = Some dd, oc_max_trades_per_day = Some trades, oc_kelly_base_fraction = Some kelly,
            oc_cooldown_bars = Some (max (opt_default (ob_min_cooldown b) 0) 0),
            oc_correlation_enabled = Some (opt_default (ob_correlation_enabled b) True),
            oc_risk_on_assets = ob_risk_on_assets b, oc_correlated_long_blockers = ob_blockers b,
            oc_low_turnover_enabled = Some (opt_default (ob_turnover_enabled b) True),
            oc_preferred_styles = ob_preferred b, oc_forbidden_styles = ob_forbidden b\<rparr>,
          or_kelly_degraded = pmin (fmul kelly (Fin (1 / 4))) (Fin (1 / 8)),
          or_conflicts = c1 @ c2 @ c3 @ c4 @ c5\<rparr>)"

definition apply_to_limits :: "okf_bundle \<Rightarrow> risk_limits \<Rightarrow> risk_limits \<times> okf_resolved" where
  "apply_to_limits b sys =
     (let r = okf_resolve b sys; c = or_constraints r
      in (sys\<lparr>gl_max_daily_loss_pct := opt_default (oc_max_daily_loss_pct c) (gl_max_daily_loss_pct sys),
              gl_max_drawdown_pct := opt_default (oc_max_drawdown_pct c) (gl_max_drawdown_pct sys),
              gl_max_trades_per_day := opt_default (oc_max_trades_per_day c) (gl_max_trades_per_day sys),
              gl_kelly_fraction := opt_default (oc_kelly_base_fraction c) (gl_kelly_fraction sys)\<rparr>, r))"

text \<open>\<open>RiskEngine.__init__\<close>: OKF is applied when it loads; when it fails to load the system limits stay.\<close>

record risk_engine =
  ren_limits :: risk_limits
  ren_kill :: kill_state
  ren_okf :: "okf_constraints option"

definition new_risk_engine :: "risk_limits \<Rightarrow> kill_state \<Rightarrow> bool \<Rightarrow> okf_bundle option \<Rightarrow> risk_engine" where
  "new_risk_engine g ks use_okf bundle =
     (case (if use_okf then bundle else None) of
        None \<Rightarrow> \<lparr>ren_limits = g, ren_kill = ks, ren_okf = None\<rparr>
      | Some b \<Rightarrow> (case apply_to_limits b g of (g', r) \<Rightarrow>
          \<lparr>ren_limits = g', ren_kill = ks, ren_okf = Some (or_constraints r)\<rparr>))"

definition engine_evaluate ::
  "risk_engine \<Rightarrow> trade_proposal \<Rightarrow> risk_snapshot \<Rightarrow> strategy_risk option \<Rightarrow> okf_constraints option \<Rightarrow> risk_context \<Rightarrow> risk_decision" where
  "engine_evaluate e p pf st ctx x =
     risk_evaluate (ks_active (ren_kill e)) (ren_limits e) st (if ctx \<noteq> None then ctx else ren_okf e) p pf x"

section \<open>Lemmas\<close>

lemma flag_if_set [simp]: "r \<in> set (flag_if b q) \<longleftrightarrow> b \<and> r = q"
  by (auto simp: flag_if_def)

lemma risk_ok_never: "RISK_OK \<notin> set (risk_reasons k l okf hs p pf x)"
  by (auto simp: risk_reasons_def stop_reasons_def reward_reasons_def size_reasons_def account_reasons_def
      quality_reasons_def okf_reasons_def memory_reasons_def Let_def split: option.splits if_splits)

lemma approved_iff: "rd_approved (risk_evaluate k g st okf p pf x)
    \<longleftrightarrow> risk_reasons k (merge_effective_limits g st okf) okf (st \<noteq> None) p pf x = []"
proof -
  have "filter (\<lambda>r. r \<noteq> RISK_OK) rs = rs" if "RISK_OK \<notin> set rs" for rs
    using that by (auto simp: filter_id_conv)
  with risk_ok_never show ?thesis by (simp add: risk_evaluate_def Let_def)
qed

lemmas gate_defs = risk_reasons_def stop_reasons_def reward_reasons_def size_reasons_def account_reasons_def
  quality_reasons_def

lemma pmin_below: "pmin a b = a \<or> (flt b a \<and> pmin a b = b)"
  by (simp add: pmin_def)

lemma merge_okf_fields:
  "el_max_drawdown_pct (merge_effective_limits g st (Some oc)) =
     pmin (el_max_drawdown_pct (base_limits g st)) (opt_default (oc_max_drawdown_pct oc) (el_max_drawdown_pct (base_limits g st)))"
  "el_max_daily_loss_pct (merge_effective_limits g st (Some oc)) =
     pmin (el_max_daily_loss_pct (base_limits g st)) (opt_default (oc_max_daily_loss_pct oc) (el_max_daily_loss_pct (base_limits g st)))"
  "el_risk_per_trade_pct (merge_effective_limits g st (Some oc)) =
     pmin (el_risk_per_trade_pct (base_limits g st)) (opt_default (oc_max_risk_per_trade_pct oc) (el_risk_per_trade_pct (base_limits g st)))"
  "el_max_trades_per_day (merge_effective_limits g st (Some oc)) \<le> el_max_trades_per_day (base_limits g st)"
  "el_cooldown_bars (base_limits g st) \<le> el_cooldown_bars (merge_effective_limits g st (Some oc))"
  "el_kelly_fraction (merge_effective_limits g st (Some oc)) =
     pmin (gl_kelly_fraction g) (opt_default (oc_kelly_base_fraction oc) (gl_kelly_fraction g))"
  "el_min_risk_reward (merge_effective_limits g st (Some oc)) = el_min_risk_reward (base_limits g st)"
  "el_max_position_pct (merge_effective_limits g st (Some oc)) = el_max_position_pct (base_limits g st)"
  "el_max_trade_pct (merge_effective_limits g st (Some oc)) = el_max_trade_pct (base_limits g st)"
  "el_max_portfolio_exposure_pct (merge_effective_limits g st (Some oc)) = el_max_portfolio_exposure_pct (base_limits g st)"
  "el_max_slippage_pct (merge_effective_limits g st (Some oc)) = el_max_slippage_pct (base_limits g st)"
  "el_max_leverage (merge_effective_limits g st (Some oc)) = el_max_leverage (base_limits g st)"
  "el_require_stop_loss (merge_effective_limits g st (Some oc)) = el_require_stop_loss (base_limits g st)"
  "el_min_liquidity_usd (merge_effective_limits g st (Some oc)) = el_min_liquidity_usd (base_limits g st)"
  "el_min_confidence (merge_effective_limits g st (Some oc)) = el_min_confidence (base_limits g st)"
  "el_allowed_pairs (merge_effective_limits g st (Some oc)) = el_allowed_pairs (base_limits g st)"
  by (simp_all add: merge_effective_limits_def Let_def min_field_def imin_field_def base_limits_def)

lemma merge_none [simp]: "merge_effective_limits g st None = base_limits g st"
  by (simp add: merge_effective_limits_def)

text \<open>A lower bound of a rejecting comparison rejects whatever the higher one rejected, also when one
  of the values is not a number.\<close>

lemma pmin_rejects: "fle a x \<Longrightarrow> fle (pmin a b) x"
  using pmin_below [of a b] fle_trans [of b a x] flt_imp_fle [of b a] by auto

lemma account_tightens:
  assumes "account_reasons (merge_effective_limits g st (Some oc)) p pf = []"
  shows "account_reasons (base_limits g st) p pf = []"
  using assms merge_okf_fields(4,5) [of g st oc]
  by (auto simp: account_reasons_def Let_def merge_okf_fields(1,2) dest: pmin_rejects split: option.splits)

lemma rest_tightens:
  "stop_reasons (merge_effective_limits g st (Some oc)) p = stop_reasons (base_limits g st) p"
  "reward_reasons (merge_effective_limits g st (Some oc)) p = reward_reasons (base_limits g st) p"
  "size_reasons (merge_effective_limits g st (Some oc)) p pf = size_reasons (base_limits g st) p pf"
  "quality_reasons (merge_effective_limits g st (Some oc)) p pf = quality_reasons (base_limits g st) p pf"
  by (simp_all add: stop_reasons_def reward_reasons_def size_reasons_def quality_reasons_def merge_okf_fields
      split: option.splits)

lemma tol9_value: "tol9 = Fin (4835703278458517 / 4835703278458516698824704)"
  by (simp add: tol9_def fl_eval)

lemma fadd_Fin_not_NaN: "a \<noteq> NaN \<Longrightarrow> fadd a (Fin t) \<noteq> NaN"
  by (cases a) simp_all

section \<open>Properties\<close>


text \<open>OKF constraints only tighten: whatever they say, a proposal approved under them is approved by
  the system and strategy limits alone, and a proposal rejected without them is rejected with them.\<close>

theorem okf_only_tightens:
  assumes "rd_approved (risk_evaluate k g st (Some oc) p pf x)"
  shows "rd_approved (risk_evaluate k g st None p pf x)"
  using assms account_tightens [of g st oc p pf]
  by (auto simp: approved_iff risk_reasons_def rest_tightens merge_okf_fields)

text \<open>A proposal whose notional is not a number passes the size, exposure and cash gates: if a proposal is
  approved, the same proposal with a notional of NaN is approved too.\<close>

theorem nan_notional_approved:
  assumes "rd_approved (risk_evaluate k g st okf p pf x)"
  shows "rd_approved (risk_evaluate k g st okf (p\<lparr>tp_notional := NaN\<rparr>) pf x)"
proof -
  have "okf_reasons oc (p\<lparr>tp_notional := NaN\<rparr>) pf x = okf_reasons oc p pf x" for oc
    by (simp add: okf_reasons_def)
  with assms show ?thesis
    by (auto simp: approved_iff gate_defs Let_def split: option.splits)
qed

text \<open>The resolver takes the stricter side and records it: applied to finite system limits, the
  daily loss, drawdown, trade count and Kelly limits it returns are at most the system's and at most the
  guideline's, nothing else of the limits changes, and a differing pair of values is reported as a conflict.\<close>

theorem resolver_stricter:
  assumes res: "apply_to_limits b sys = (g', r)"
    and num: "gl_max_daily_loss_pct sys \<noteq> NaN" "gl_max_drawdown_pct sys \<noteq> NaN" "gl_kelly_fraction sys \<noteq> NaN"
      "percent (ob_max_daily_loss_percent b) \<noteq> NaN" "percent (ob_max_drawdown_percent b) \<noteq> NaN"
  shows "fle (gl_max_daily_loss_pct g') (gl_max_daily_loss_pct sys)
    \<and> fle (gl_max_daily_loss_pct g') (percent (ob_max_daily_loss_percent b))
    \<and> fle (gl_max_drawdown_pct g') (gl_max_drawdown_pct sys)
    \<and> fle (gl_max_drawdown_pct g') (percent (ob_max_drawdown_percent b))
    \<and> fle (gl_kelly_fraction g') (gl_kelly_fraction sys) \<and> fle (gl_kelly_fraction g') (Fin (1 / 4))
    \<and> gl_max_trades_per_day g' \<le> gl_max_trades_per_day sys
    \<and> (\<forall>n. ob_max_trades_cap b = Some n \<longrightarrow> gl_max_trades_per_day g' \<le> n)
    \<and> gl_max_trade_pct g' = gl_max_trade_pct sys \<and> gl_max_position_pct g' = gl_max_position_pct sys
    \<and> (gl_max_drawdown_pct sys \<noteq> percent (ob_max_drawdown_percent b) \<longrightarrow> ''max_drawdown_pct'' \<in> set (or_conflicts r))"
  using res num
  by (auto simp: apply_to_limits_def okf_resolve_def stricter_min_def Let_def opt_default_def feq_def
      pmin_le pmin_le2)

definition demo_proposal :: trade_proposal where
  "demo_proposal = \<lparr>tp_symbol = ''BTC-USD'', tp_side = ''long'', tp_quantity = Fin 1, tp_notional = Fin 100,
     tp_entry_price = Fin 100, tp_stop_loss = Some (Fin 96), tp_take_profit = Some (Fin 108), tp_current_price = Fin 100,
     tp_estimated_fees = Fin 0, tp_estimated_slippage_pct = Fin 0, tp_leverage = Fin 1, tp_confidence = Fin 1,
     tp_model_ids = [''m''], tp_strategy_id = None, tp_strategy_version = None, tp_liquidity_usd = None,
     tp_market_data_stale = False, tp_bars_since_last_trade = Some 9\<rparr>"

definition demo_account :: risk_snapshot where
  "demo_account = \<lparr>rs_equity = Fin 8192, rs_available_cash = Fin 8192, rs_positions_exposure = Fin 0, rs_daily_pnl = Fin 0,
     rs_drawdown_pct = Fin 0, rs_trades_today = 0, rs_kill_switch_active = False, rs_trading_halted = False\<rparr>"

definition demo_strategy :: strategy_risk where
  "demo_strategy = \<lparr>st_risk_per_trade_percent = Fin 1, st_max_daily_loss_percent = Fin 5, st_max_trades_per_day = 10,
     st_cooldown_bars = 5, st_min_risk_reward_ratio = Fin 1\<rparr>"

definition demo_okf :: okf_constraints where
  "demo_okf = \<lparr>oc_max_risk_per_trade_pct = None, oc_max_daily_loss_pct = None, oc_max_drawdown_pct = Some (Fin (1 / 16)),
     oc_max_trades_per_day = Some 4, oc_kelly_base_fraction = None, oc_cooldown_bars = Some 6, oc_correlation_enabled = None,
     oc_risk_on_assets = [''BTC/USD''], oc_correlated_long_blockers = [''SPY''], oc_low_turnover_enabled = None,
     oc_preferred_styles = [], oc_forbidden_styles = []\<rparr>"

lemma demo_sides: "py_upper ''long'' = ''LONG''"
  by (simp add: py_upper_def)

lemma demo_okf_approved: "rd_approved (risk_evaluate False default_limits (Some demo_strategy) (Some demo_okf) demo_proposal
    demo_account default_context)"
proof -
  let ?l = "merge_effective_limits default_limits (Some demo_strategy) (Some demo_okf)"
  have l: "el_allowed_pairs ?l = []" "el_max_position_pct ?l = flit (10 / 100)" "el_max_trade_pct ?l = flit (2 / 100)"
    "el_max_portfolio_exposure_pct ?l = flit (50 / 100)" "el_max_slippage_pct ?l = flit (5 / 1000)"
    "el_max_leverage ?l = Fin 1" "el_min_confidence ?l = flit (55 / 100)"
    by (simp_all add: merge_okf_fields base_limits_def default_limits_def)
  have l2: "el_min_risk_reward ?l = flit (15 / 10)" "el_max_drawdown_pct ?l = Fin (1 / 16)"
    by (simp_all add: merge_okf_fields base_limits_def default_limits_def demo_strategy_def demo_okf_def opt_default_def fl_eval)
  have l3: "el_max_trades_per_day ?l = 4" "el_cooldown_bars ?l = 6"
    by (simp_all add: merge_effective_limits_def base_limits_def demo_strategy_def demo_okf_def default_limits_def
        imin_field_def opt_default_def Let_def split_beta)
  have "stop_reasons ?l demo_proposal = []" and "reward_reasons ?l demo_proposal = []"
    and "size_reasons ?l demo_proposal demo_account = []" and "account_reasons ?l demo_proposal demo_account = []"
    and "quality_reasons ?l demo_proposal demo_account = []"
    by (simp_all add: stop_reasons_def reward_reasons_def size_reasons_def account_reasons_def quality_reasons_def l l2 l3
        demo_proposal_def demo_account_def equity_floor_def tol9_def long_order_side_def short_order_side_def demo_sides
        Let_def fl_eval)
  moreover have "okf_reasons demo_okf demo_proposal demo_account default_context = []"
    by (simp add: okf_reasons_def demo_okf_def demo_proposal_def demo_account_def default_context_def Let_def
        turnover_evaluate_def new_turnover_guard_def opt_default_def py_lower_def py_strip_def)
  ultimately show ?thesis
    by (simp add: approved_iff risk_reasons_def l(1) pair_allowed_def memory_reasons_def default_context_def)
     (simp add: demo_proposal_def demo_account_def)
qed


theorem okf_only_tightens_witness:
  "rd_approved (risk_evaluate False default_limits (Some demo_strategy) None demo_proposal demo_account default_context)"
  by (rule okf_only_tightens [OF demo_okf_approved])

theorem nan_notional_approved_witness:
  "rd_approved (risk_evaluate False default_limits (Some demo_strategy) (Some demo_okf) (demo_proposal\<lparr>tp_notional := NaN\<rparr>)
     demo_account default_context)"
  by (rule nan_notional_approved [OF demo_okf_approved])

definition demo_bundle :: okf_bundle where
  "demo_bundle = \<lparr>ob_max_risk_percent = Fin 1, ob_max_daily_loss_percent = Fin 3, ob_max_drawdown_percent = Fin 20,
     ob_max_trades_cap = Some 8, ob_min_cooldown = Some 5, ob_correlation_enabled = None, ob_risk_on_assets = [],
     ob_blockers = [], ob_turnover_enabled = None, ob_preferred = [], ob_forbidden = []\<rparr>"

theorem resolver_stricter_witness:
  "fle (gl_max_daily_loss_pct (fst (apply_to_limits demo_bundle default_limits))) (percent (Fin 3))"
proof -
  obtain g' r where e: "apply_to_limits demo_bundle default_limits = (g', r)" by fastforce
  have "fle (gl_max_daily_loss_pct g') (percent (ob_max_daily_loss_percent demo_bundle))"
    by (rule resolver_stricter [OF e, THEN conjunct2, THEN conjunct1])
      (simp_all add: default_limits_def percent_def demo_bundle_def)
  moreover have "ob_max_daily_loss_percent demo_bundle = Fin 3" by (simp add: demo_bundle_def)
  ultimately show ?thesis by (simp add: e)
qed

end
