(* ===== verification/Planner.thy ===== *)
theory Planner
  imports Risk
begin

text \<open>
  \<open>execution/planner.py\<close>: trade plans, their translation to a risk proposal, and the
  planner that sizes a plan from the consensus, the strategy's features and the stricter
  of the global and the strategy's limits.
\<close>

datatype plan_status = PROPOSED | NO_TRADE

record trade_plan =
  pl_strategy_id :: string
  pl_strategy_version :: string
  pl_model_ids :: "string list"
  pl_symbol :: string
  pl_side :: string
  pl_entry_price :: pyfloat
  pl_quantity :: pyfloat
  pl_notional :: pyfloat
  pl_stop_loss :: "pyfloat option"
  pl_take_profit :: "pyfloat option"
  pl_risk_amount :: pyfloat
  pl_expected_fee :: pyfloat
  pl_expected_slippage :: pyfloat
  pl_risk_reward_ratio :: "pyfloat option"
  pl_confidence :: pyfloat
  pl_invalidation :: "string list"
  pl_status :: plan_status
  pl_reason :: "string option"
  pl_move_be_at_1r :: bool
  pl_partial_tp_pct :: "pyfloat option"

definition to_proposal ::
  "trade_plan \<Rightarrow> pyfloat \<Rightarrow> pyfloat option \<Rightarrow> bool \<Rightarrow> int option \<Rightarrow> trade_proposal" where
  "to_proposal p price liquidity stale bars =
     \<lparr>tp_symbol = pl_symbol p, tp_side = pl_side p, tp_quantity = pl_quantity p, tp_notional = pl_notional p,
      tp_entry_price = pl_entry_price p, tp_stop_loss = pl_stop_loss p, tp_take_profit = pl_take_profit p,
      tp_current_price = price, tp_estimated_fees = pl_expected_fee p,
      tp_estimated_slippage_pct = pl_expected_slippage p, tp_leverage = Fin 1, tp_confidence = pl_confidence p,
      tp_model_ids = pl_model_ids p, tp_strategy_id = Some (pl_strategy_id p),
      tp_strategy_version = Some (pl_strategy_version p), tp_liquidity_usd = liquidity,
      tp_market_data_stale = stale, tp_bars_since_last_trade = bars\<rparr>"

text \<open>The parts of a strategy record, of the consensus and of the feature bundle that a plan uses.\<close>

record plan_strategy =
  ps_strategy_id :: string
  ps_version :: string
  ps_limits :: strategy_risk
  ps_atr_fallback_multiplier :: pyfloat
  ps_target_rr :: pyfloat

record consensus =
  cn_decision :: string
  cn_confidence :: pyfloat
  cn_invalidating :: "string list"

record feature_bundle =
  fb_confirmed_ids :: "string list"
  fb_move_be_at_1r :: bool
  fb_partial_tp_pct :: "pyfloat option"
  fb_last_close :: "pyfloat option"
  fb_atr_14 :: "pyfloat option"
  fb_stop_long :: "pyfloat option"
  fb_stop_short :: "pyfloat option"

definition base_plan :: "plan_strategy \<Rightarrow> consensus \<Rightarrow> feature_bundle \<Rightarrow> trade_plan" where
  "base_plan st cn fb =
     \<lparr>pl_strategy_id = ps_strategy_id st, pl_strategy_version = ps_version st, pl_model_ids = fb_confirmed_ids fb,
      pl_symbol = [], pl_side = ''FLAT'', pl_entry_price = Fin 0, pl_quantity = Fin 0, pl_notional = Fin 0,
      pl_stop_loss = None, pl_take_profit = None, pl_risk_amount = Fin 0, pl_expected_fee = Fin 0,
      pl_expected_slippage = Fin 0, pl_risk_reward_ratio = None, pl_confidence = cn_confidence cn,
      pl_invalidation = cn_invalidating cn, pl_status = PROPOSED, pl_reason = None,
      pl_move_be_at_1r = fb_move_be_at_1r fb, pl_partial_tp_pct = fb_partial_tp_pct fb\<rparr>"

definition no_trade_plan :: "trade_plan \<Rightarrow> string \<Rightarrow> trade_plan" where
  "no_trade_plan p reason = p\<lparr>pl_status := NO_TRADE, pl_reason := Some reason\<rparr>"

definition plan_stop :: "plan_strategy \<Rightarrow> feature_bundle \<Rightarrow> bool \<Rightarrow> pyfloat \<Rightarrow> pyfloat option" where
  "plan_stop st fb is_long entry =
     (case if is_long then fb_stop_long fb else fb_stop_short fb of
        Some s \<Rightarrow> Some s
      | None \<Rightarrow> (case fb_atr_14 fb of
          None \<Rightarrow> None
        | Some a \<Rightarrow> (let d = fmul (ps_atr_fallback_multiplier st) a
                    in Some (if is_long then fsub entry d else fadd entry d))))"

text \<open>The plan once side, entry and stop are known; only the price of the entry can be zero.\<close>

definition sized_plan ::
  "risk_limits \<Rightarrow> plan_strategy \<Rightarrow> trade_plan \<Rightarrow> pyfloat \<Rightarrow> pyfloat \<Rightarrow> pyfloat \<Rightarrow> bool \<Rightarrow> pyfloat \<Rightarrow> pyfloat \<Rightarrow> trade_plan res" where
  "sized_plan g st base equity fee_rate slip is_long entry stop =
     (let limits = merge_effective_limits g (Some (ps_limits st)) None;
          risk_budget = fmul equity (el_risk_per_trade_pct limits);
          dist = fabs (fsub entry stop);
          max_notional = fmul equity (pmin (el_max_trade_pct limits) (el_max_position_pct limits))
      in bind_res (fdiv risk_budget dist) (\<lambda>by_risk.
         bind_res (fdiv max_notional entry) (\<lambda>by_cap.
           let qty = pmin by_risk by_cap;
               notional = fmul qty entry;
               move = fmul (ps_target_rr st) dist;
               tp = (if is_long then fadd entry move else fsub entry move)
           in bind_res (fdiv (fabs (fsub tp entry)) dist) (\<lambda>rr.
             Inr (base\<lparr>pl_side := (if is_long then ''LONG'' else ''SHORT''), pl_entry_price := entry,
                    pl_quantity := qty, pl_notional := notional, pl_stop_loss := Some stop,
                    pl_take_profit := Some tp, pl_risk_amount := fmul qty dist,
                    pl_expected_fee := fmul notional fee_rate, pl_expected_slippage := slip,
                    pl_risk_reward_ratio := Some rr\<rparr>)))))"

definition plan_trade ::
  "risk_limits \<Rightarrow> plan_strategy \<Rightarrow> consensus \<Rightarrow> feature_bundle \<Rightarrow> pyfloat \<Rightarrow> pyfloat \<Rightarrow> pyfloat \<Rightarrow> trade_plan res" where
  "plan_trade g st cn fb equity fee_rate slip =
     (let decision = py_upper (cn_decision cn);
          base = base_plan st cn fb
      in if decision \<in> {''NO_TRADE'', ''NEUTRAL'', ''HOLD''}
         then Inr (no_trade_plan base (''Consensus decision='' @ decision))
         else if fb_confirmed_ids fb = [] then Inr (no_trade_plan base ''NO_VALID_MODEL'')
         else case fb_last_close fb of
           None \<Rightarrow> Inr (no_trade_plan base ''STRATEGY_DATA_UNAVAILABLE'')
         | Some entry \<Rightarrow>
             if decision \<notin> {''LONG'', ''SHORT''}
             then Inr (no_trade_plan base (''Unsupported decision '' @ decision))
             else let is_long = (decision = ''LONG'') in
               case plan_stop st fb is_long entry of
                 None \<Rightarrow> Inr ((no_trade_plan base ''INVALID_STOP'')
                               \<lparr>pl_entry_price := entry, pl_side := decision\<rparr>)
               | Some stop \<Rightarrow>
                   if fle (fabs (fsub entry stop)) (Fin 0)
                   then Inr ((no_trade_plan base ''INVALID_STOP'')\<lparr>pl_entry_price := entry, pl_side := decision\<rparr>)
                   else sized_plan g st base equity fee_rate slip is_long entry stop)"

section \<open>Lemmas\<close>

lemma no_trade_status [simp]: "pl_status (no_trade_plan p r) = NO_TRADE"
  by (simp add: no_trade_plan_def)

text \<open>A proposed plan comes from the sizing, with a stop away from its entry.\<close>

lemma proposed_sized:
  assumes "plan_trade g st cn fb equity fr sl = Inr p" and "pl_status p = PROPOSED"
  shows "\<exists>is_long entry stop. fb_last_close fb = Some entry \<and> plan_stop st fb is_long entry = Some stop
    \<and> is_long = (py_upper (cn_decision cn) = ''LONG'') \<and> fb_confirmed_ids fb \<noteq> []
    \<and> \<not> fle (fabs (fsub entry stop)) (Fin 0)
    \<and> sized_plan g st (base_plan st cn fb) equity fr sl is_long entry stop = Inr p"
proof -
  have "py_upper (cn_decision cn) \<notin> {''NO_TRADE'', ''NEUTRAL'', ''HOLD''}" "fb_confirmed_ids fb \<noteq> []"
    using assms by (auto simp: plan_trade_def Let_def split: if_splits)
  moreover from calculation obtain entry where entry: "fb_last_close fb = Some entry"
    using assms by (cases "fb_last_close fb") (auto simp: plan_trade_def Let_def split: if_splits)
  moreover from calculation have "py_upper (cn_decision cn) \<in> {''LONG'', ''SHORT''}"
    using assms by (auto simp: plan_trade_def Let_def split: if_splits)
  moreover define is_long where "is_long = (py_upper (cn_decision cn) = ''LONG'')"
  moreover from calculation obtain stop where "plan_stop st fb is_long entry = Some stop"
    using assms by (cases "plan_stop st fb is_long entry") (auto simp: plan_trade_def Let_def)
  moreover from calculation have "\<not> fle (fabs (fsub entry stop)) (Fin 0)"
    using assms by (auto simp: plan_trade_def Let_def split: if_splits)
  moreover from calculation have "sized_plan g st (base_plan st cn fb) equity fr sl is_long entry stop = Inr p"
    using assms by (simp add: plan_trade_def Let_def)
  ultimately show ?thesis by blast
qed

end
