(* ===== verification/Compliance.thy ===== *)
theory Compliance
  imports Prelude
begin

text \<open>
  \<open>compliance/policy.py\<close>: the compliance gate that runs before the risk engine, and the
  tax simulation that accounts for a fill.  The YAML loader is left out: a configuration
  is the record it would build.
\<close>

record compliance_config =
  cc_enabled :: bool
  cc_blocked_strategies :: "string list"
  cc_blocked_asset_classes :: "string list"
  cc_require_paper_mode :: bool
  cc_max_turnover_usd_per_day :: pyfloat
  cc_allow_prediction_markets :: bool
  cc_allow_futures :: bool

definition default_compliance :: compliance_config where
  "default_compliance = \<lparr>cc_enabled = True, cc_blocked_strategies = [], cc_blocked_asset_classes = [],
     cc_require_paper_mode = True, cc_max_turnover_usd_per_day = Fin 1000000,
     cc_allow_prediction_markets = True, cc_allow_futures = True\<rparr>"

record compliance_decision =
  cd_approved :: bool
  cd_reason_codes :: "string list"

definition blocked_if :: "bool \<Rightarrow> string \<Rightarrow> string list" where
  "blocked_if b code = (if b then [''COMPLIANCE_BLOCKED'', code] else [])"

definition compliance_reasons ::
  "settings \<Rightarrow> compliance_config \<Rightarrow> string option \<Rightarrow> string \<Rightarrow> pyfloat \<Rightarrow> pyfloat \<Rightarrow> string list" where
  "compliance_reasons se c sid asset notional turnover =
     blocked_if (cc_require_paper_mode c \<and> \<not> paper_only se) ''PAPER_MODE_REQUIRED''
     @ blocked_if (opt_truthy sid \<and> the sid \<in> set (cc_blocked_strategies c)) ''STRATEGY_BLOCKED''
     @ blocked_if (asset \<in> set (cc_blocked_asset_classes c)) ''ASSET_CLASS_BLOCKED''
     @ blocked_if (asset = ''PREDICTION_CONTRACT'' \<and> \<not> cc_allow_prediction_markets c) ''PREDICTION_MARKETS_DISABLED''
     @ blocked_if (asset = ''FUTURE'' \<and> \<not> cc_allow_futures c) ''FUTURES_DISABLED''
     @ blocked_if (flt (cc_max_turnover_usd_per_day c) (fadd turnover notional)) ''TURNOVER_LIMIT''"

definition compliance_evaluate ::
  "settings \<Rightarrow> compliance_config \<Rightarrow> string option \<Rightarrow> string \<Rightarrow> pyfloat \<Rightarrow> pyfloat \<Rightarrow> compliance_decision" where
  "compliance_evaluate se c sid asset notional turnover =
     (if \<not> cc_enabled c then \<lparr>cd_approved = True, cd_reason_codes = [''COMPLIANCE_DISABLED'']\<rparr>
      else let rs = compliance_reasons se c sid asset notional turnover
           in \<lparr>cd_approved = (rs = []), cd_reason_codes = (if rs = [] then [''COMPLIANCE_OK''] else rs)\<rparr>)"

record tax_config =
  tc_enabled :: bool
  tc_vda_enabled :: bool
  tc_vda_rate :: pyfloat
  tc_vda_asset_classes :: "string list"
  tc_tds_enabled :: bool
  tc_tds_rate :: pyfloat
  tc_tds_asset_classes :: "string list"
  tc_loss_setoff_allowed :: bool
  tc_equity_transaction_tax :: pyfloat
  tc_commodity_transaction_tax :: pyfloat
  tc_default_transaction_tax :: pyfloat

definition default_tax :: tax_config where
  "default_tax = \<lparr>tc_enabled = True, tc_vda_enabled = True, tc_vda_rate = flit (30 / 100),
     tc_vda_asset_classes = [''CRYPTO''], tc_tds_enabled = True, tc_tds_rate = flit (1 / 100),
     tc_tds_asset_classes = [''CRYPTO''], tc_loss_setoff_allowed = False,
     tc_equity_transaction_tax = flit (1 / 1000), tc_commodity_transaction_tax = flit (5 / 10000),
     tc_default_transaction_tax = Fin 0\<rparr>"

record tax_result =
  tx_gross_pnl :: pyfloat
  tx_fees :: pyfloat
  tx_transaction_tax :: pyfloat
  tx_tds :: pyfloat
  tx_net_before_income_tax :: pyfloat
  tx_estimated_tax :: pyfloat

definition tax_apply :: "tax_config \<Rightarrow> pyfloat \<Rightarrow> pyfloat \<Rightarrow> pyfloat \<Rightarrow> string \<Rightarrow> tax_result" where
  "tax_apply c gross fees notional asset =
     (if \<not> tc_enabled c then
        \<lparr>tx_gross_pnl = gross, tx_fees = fees, tx_transaction_tax = Fin 0, tx_tds = Fin 0,
         tx_net_before_income_tax = fsub gross fees, tx_estimated_tax = Fin 0\<rparr>
      else
        let tx = fmul notional
              (if asset \<in> {''EQUITY'', ''ETF''} then tc_equity_transaction_tax c
               else if asset = ''COMMODITY'' then tc_commodity_transaction_tax c
               else tc_default_transaction_tax c);
            net0 = fsub (fsub gross fees) tx;
            withhold = (asset \<in> set (tc_tds_asset_classes c) \<and> tc_tds_enabled c \<and> flt (Fin 0) notional);
            tds = (if withhold then fmul notional (tc_tds_rate c) else Fin 0);
            net = (if withhold then fsub net0 tds else net0);
            est = (if asset \<in> set (tc_vda_asset_classes c) \<and> tc_vda_enabled c \<and> flt (Fin 0) gross
                   then if \<not> tc_loss_setoff_allowed c \<and> flt gross (Fin 0) then Fin 0 else fmul gross (tc_vda_rate c)
                   else Fin 0)
        in \<lparr>tx_gross_pnl = gross, tx_fees = fees, tx_transaction_tax = tx, tx_tds = tds,
            tx_net_before_income_tax = net, tx_estimated_tax = est\<rparr>)"

section \<open>Lemmas\<close>

lemma blocked_if_Nil [simp]: "blocked_if b code = [] \<longleftrightarrow> \<not> b"
  by (simp add: blocked_if_def)

lemma compliance_approved_iff:
  "cd_approved (compliance_evaluate se c sid asset notional turnover) \<longleftrightarrow>
     cc_enabled c \<longrightarrow>
       (cc_require_paper_mode c \<longrightarrow> paper_only se)
       \<and> (opt_truthy sid \<longrightarrow> the sid \<notin> set (cc_blocked_strategies c))
       \<and> asset \<notin> set (cc_blocked_asset_classes c)
       \<and> (asset = ''PREDICTION_CONTRACT'' \<longrightarrow> cc_allow_prediction_markets c)
       \<and> (asset = ''FUTURE'' \<longrightarrow> cc_allow_futures c)
       \<and> \<not> flt (cc_max_turnover_usd_per_day c) (fadd turnover notional)"
  by (auto simp: compliance_evaluate_def compliance_reasons_def Let_def)

text \<open>The estimated tax is never reduced by the loss rule: its test cannot succeed.\<close>

lemma loss_rule_dead:
  "tax_apply (c\<lparr>tc_loss_setoff_allowed := True\<rparr>) gross fees notional asset = tax_apply c gross fees notional asset"
  by (cases gross) (auto simp: tax_apply_def Let_def)

end
