(* ===== verification/Paper_Engine.thy ===== *)
theory Paper_Engine
  imports Paper_Exchange Planner Compliance
begin

text \<open>
  \<open>paper/engine.py\<close> and \<open>paper/session.py\<close>: the autonomous paper loop, which takes a trade
  plan through the mode, kill switch, conflict, compliance, correlation and risk gates
  and only then submits an order to the paper exchange.  The STOP file, the run
  identifier and the configuration hash are arguments; the store is the list of what was
  saved; the agents' messages, which the engine only copies into its log, are left out.
\<close>

section \<open>Sessions\<close>

datatype session_status = ACTIVE | STOPPED | COMPLETED | KILLED

record paper_session =
  ss_session_id :: string
  ss_starting_capital :: pyfloat
  ss_ending_equity :: "pyfloat option"
  ss_strategy_versions :: "(string \<times> string) list"
  ss_config_hash :: string
  ss_status :: session_status

definition session_complete :: "paper_session \<Rightarrow> pyfloat \<Rightarrow> session_status \<Rightarrow> paper_session" where
  "session_complete s equity st = s\<lparr>ss_ending_equity := Some equity, ss_status := st\<rparr>"

definition make_session_id :: "string \<Rightarrow> nat \<Rightarrow> nat \<Rightarrow> string" where
  "make_session_id prefix year seq = prefix @ ''_'' @ dec_pad 0 year @ ''_'' @ dec_pad 3 seq"

section \<open>State\<close>

datatype engine_event =
    En_Kill_Switch string
  | En_Risk_Validated bool "risk_reason list"
  | En_Trade_Planned string string
  | En_Analysis_Completed string

record decision_record =
  dr_run_id :: string
  dr_session_id :: string
  dr_prices :: "(string \<times> pyfloat) list"
  dr_plan :: trade_plan
  dr_compliance :: compliance_decision
  dr_risk :: "risk_decision option"
  dr_executed :: bool

record saved =
  sv_sessions :: "paper_session list"
  sv_events :: "(string \<times> engine_event) list"
  sv_orders :: "order list"
  sv_fills :: "fill list"
  sv_snapshots :: "(string \<times> portfolio_snapshot) list"

record engine_config =
  ec_initial_cash :: pyfloat
  ec_prefix :: string
  ec_conflict_mode :: string
  ec_symbol_map :: "(string \<times> string) list"
  ec_exchange :: paper_config
  ec_hash :: string

record paper_engine =
  en_settings :: settings
  en_config :: engine_config
  en_session :: paper_session
  en_exchange :: exchange
  en_kill :: kill_state
  en_risk :: risk_engine
  en_compliance :: compliance_config
  en_tax :: tax_config
  en_max_correlation :: pyfloat
  en_store :: saved
  en_running :: bool
  en_decisions :: "decision_record list"
  en_daily_turnover :: pyfloat
  en_books :: "(string \<times> string list) list"
  en_returns :: "(string \<times> pyfloat list) list"

definition save_event :: "engine_event \<Rightarrow> paper_engine \<Rightarrow> paper_engine" where
  "save_event v e = e\<lparr>en_store := (en_store e)\<lparr>sv_events := sv_events (en_store e) @ [(ss_session_id (en_session e), v)]\<rparr>\<rparr>"

definition save_session :: "paper_engine \<Rightarrow> paper_engine" where
  "save_session e = e\<lparr>en_store := (en_store e)\<lparr>sv_sessions := sv_sessions (en_store e) @ [en_session e]\<rparr>\<rparr>"

definition check_stop_file :: "string option \<Rightarrow> paper_engine \<Rightarrow> paper_engine" where
  "check_stop_file stop e = (case stop of
     None \<Rightarrow> e
   | Some path \<Rightarrow>
       save_event (En_Kill_Switch (''STOP file at '' @ path))
         (e\<lparr>en_kill := ks_activate (en_kill e) (''STOP file detected at '' @ path),
            en_exchange := halt (en_exchange e) ''KILL_SWITCH_ACTIVE'',
            en_session := (en_session e)\<lparr>ss_status := KILLED\<rparr>\<rparr>))"

text \<open>Reading the portfolio marks it and moves its peak.\<close>

definition engine_snapshot :: "paper_engine \<Rightarrow> paper_engine \<times> portfolio_snapshot" where
  "engine_snapshot e = (case snapshot (ex_portfolio (en_exchange e)) (ex_prices (en_exchange e)) of
     (pf, sn) \<Rightarrow> (e\<lparr>en_exchange := (en_exchange e)\<lparr>ex_portfolio := pf\<rparr>\<rparr>, sn))"

section \<open>Starting, stopping and resetting\<close>

definition engine_start :: "string option \<Rightarrow> paper_engine \<Rightarrow> paper_engine \<times> bool res" where
  "engine_start stop e =
     (let e1 = check_stop_file stop e
      in if \<not> paper_only (en_settings e1)
         then (e1, Inl (RuntimeError ''Paper engine requires TRADING_MODE=paper and LIVE_TRADING_ENABLED=false''))
         else if ks_active (en_kill e1)
         then (fst (engine_snapshot (e1\<lparr>en_running := False\<rparr>)), Inr False)
         else (fst (engine_snapshot (e1\<lparr>en_running := True, en_session := (en_session e1)\<lparr>ss_status := ACTIVE\<rparr>\<rparr>)),
               Inr True))"

definition engine_stop :: "paper_engine \<Rightarrow> paper_engine" where
  "engine_stop e = (case engine_snapshot (e\<lparr>en_running := False\<rparr>) of
     (e1, sn) \<Rightarrow> fst (engine_snapshot (save_session
       (e1\<lparr>en_session := session_complete (en_session e1) (sn_equity sn) STOPPED\<rparr>))))"

definition safe_restart :: "string option \<Rightarrow> paper_engine \<Rightarrow> paper_engine \<times> bool" where
  "safe_restart stop e =
     (if stop \<noteq> None then (e, False)
      else let e1 = (if ks_active (en_kill e)
                     then e\<lparr>en_kill := (case ks_deactivate (en_kill e) True of Inr k \<Rightarrow> k | Inl _ \<Rightarrow> en_kill e)\<rparr>
                     else e);
               e2 = e1\<lparr>en_exchange := reset_halt (en_exchange e1),
                       en_session := (en_session e1)\<lparr>ss_status := ACTIVE\<rparr>, en_running := True\<rparr>
           in (fst (engine_snapshot e2), True))"

definition new_session :: "engine_config \<Rightarrow> nat \<Rightarrow> nat \<Rightarrow> paper_session" where
  "new_session c year seq = \<lparr>ss_session_id = make_session_id (ec_prefix c) year seq,
     ss_starting_capital = ec_initial_cash c, ss_ending_equity = None, ss_strategy_versions = [],
     ss_config_hash = ec_hash c, ss_status = ACTIVE\<rparr>"

definition engine_reset :: "nat \<Rightarrow> nat \<Rightarrow> paper_engine \<Rightarrow> paper_engine" where
  "engine_reset year seq e =
     (let s = new_session (en_config e) year (seq mod 1000)
      in fst (engine_snapshot (save_session (e\<lparr>en_session := s,
           en_exchange := new_exchange (ec_exchange (en_config e)) None [] (ss_session_id s),
           en_decisions := [], en_daily_turnover := Fin 0, en_books := [], en_returns := [], en_running := False\<rparr>))))"

text \<open>\<open>resolve_strategy_for_symbol\<close>: an exact entry, or the first pattern that ends in \<open>/*\<close>.\<close>

definition resolve_strategy_for_symbol :: "(string \<times> string) list \<Rightarrow> string \<Rightarrow> string option" where
  "resolve_strategy_for_symbol mp symbol =
     (let sy = py_upper symbol
      in case dget mp sy of
           Some s \<Rightarrow> Some s
         | None \<Rightarrow>
             (case filter (\<lambda>(pat, _). py_endswith pat ''/*'' \<and> py_startswith sy (py_upper (butlast pat))) mp of
                [] \<Rightarrow> None | (_, s) # _ \<Rightarrow> Some s))"

definition select_strategy :: "paper_engine \<Rightarrow> string \<Rightarrow> string option" where
  "select_strategy e symbol = resolve_strategy_for_symbol (ec_symbol_map (en_config e)) symbol"

definition resolve_conflict :: "paper_engine \<Rightarrow> string \<Rightarrow> string \<Rightarrow> string \<Rightarrow> string res" where
  "resolve_conflict e symbol new_side sid =
     (let mode = ec_conflict_mode (en_config e)
      in case dget (pf_positions (ex_portfolio (en_exchange e))) (py_upper symbol) of
           None \<Rightarrow> Inr ''OK''
         | Some p \<Rightarrow>
             if opt_truthy (pos_strategy_id p) \<and> pos_strategy_id p \<noteq> Some sid
             then Inr (if mode = ''SEPARATE_STRATEGY_BOOK'' then mode else if mode = ''NETTED'' then mode
                       else ''STRATEGY_CONFLICT'')
             else if pos_side p = [] \<or> new_side = [] then Inl IndexError
             else if hd (pos_side p) \<noteq> hd new_side \<and> pos_side p \<noteq> new_side
             then Inr (if mode = ''NETTED'' then mode else ''STRATEGY_CONFLICT'')
             else Inr ''OK'')"

section \<open>Executing a plan\<close>

datatype engine_reason = Text string | Risk_Code risk_reason

record engine_result =
  er_executed :: bool
  er_attempted :: bool
  er_reasons :: "engine_reason list"
  er_order :: "order option"
  er_risk :: "risk_decision option"
  er_tax :: "tax_result option"

definition no_execution :: "engine_reason list \<Rightarrow> engine_result" where
  "no_execution rs = \<lparr>er_executed = False, er_attempted = False, er_reasons = rs, er_order = None,
     er_risk = None, er_tax = None\<rparr>"

definition log_decision ::
  "string \<Rightarrow> trade_plan \<Rightarrow> compliance_decision \<Rightarrow> risk_decision option \<Rightarrow> bool \<Rightarrow> paper_engine \<Rightarrow> paper_engine" where
  "log_decision run_id p cd rd executed e = save_event (En_Analysis_Completed run_id)
     (e\<lparr>en_decisions := en_decisions e @ [\<lparr>dr_run_id = run_id, dr_session_id = ss_session_id (en_session e),
        dr_prices = ex_prices (en_exchange e), dr_plan = p, dr_compliance = cd, dr_risk = rd,
        dr_executed = executed\<rparr>]\<rparr>)"

definition risk_snapshot_of :: "paper_engine \<Rightarrow> portfolio_snapshot \<Rightarrow> risk_snapshot" where
  "risk_snapshot_of e sn = \<lparr>rs_equity = sn_equity sn, rs_available_cash = sn_available_cash sn,
     rs_positions_exposure = sn_positions_exposure sn, rs_daily_pnl = sn_daily_pnl sn,
     rs_drawdown_pct = sn_drawdown_pct sn, rs_trades_today = sn_trades_today sn,
     rs_kill_switch_active = ks_active (en_kill e), rs_trading_halted = ex_halted (en_exchange e)\<rparr>"

text \<open>The engine's risk engine shares its kill switch.\<close>

definition raw_risk :: "paper_engine \<Rightarrow> portfolio_snapshot \<Rightarrow> trade_plan \<Rightarrow> pyfloat \<Rightarrow> risk_decision" where
  "raw_risk e sn p price =
     engine_evaluate ((en_risk e)\<lparr>ren_kill := en_kill e\<rparr>)
       (to_proposal p price (Some (Fin 1000000)) False (Some 100)) (risk_snapshot_of e sn) None None default_context"

definition ignored_codes :: "trade_plan \<Rightarrow> risk_reason set" where
  "ignored_codes p = {STRATEGY_DATA_UNAVAILABLE} \<union> (if pl_model_ids p \<noteq> [] then {NO_VALID_MODEL} else {})"

definition plan_risk :: "paper_engine \<Rightarrow> portfolio_snapshot \<Rightarrow> trade_plan \<Rightarrow> pyfloat \<Rightarrow> risk_decision" where
  "plan_risk e sn p price =
     (let rd = raw_risk e sn p price;
          codes = filter (\<lambda>c. c \<notin> ignored_codes p) (rd_reason_codes rd)
      in rd\<lparr>rd_approved := (codes = []), rd_reason_codes := (if codes = [] then [RISK_OK] else codes)\<rparr>)"

definition parse_asset_class :: "string \<Rightarrow> asset_class res" where
  "parse_asset_class s =
     (case filter (\<lambda>a. asset_class_value a = s) [CRYPTO, EQUITY, ETF, COMMODITY, FUTURE, PREDICTION_CONTRACT] of
        [] \<Rightarrow> Inl (ValueError (s @ '' is not a valid AssetClass'')) | a # _ \<Rightarrow> Inr a)"

definition plan_order :: "paper_engine \<Rightarrow> string \<Rightarrow> trade_plan \<Rightarrow> asset_class \<Rightarrow> order" where
  "plan_order e run_id p ac =
     (new_order (pl_symbol p) (if long_side (pl_side p) then BUY else SELL) MARKET (pl_quantity p))
       \<lparr>o_instrument_type := ac, o_strategy_id := Some (pl_strategy_id p),
        o_strategy_version := Some (pl_strategy_version p),
        o_strategy_config_hash := Some (ss_config_hash (en_session e)), o_model_ids := pl_model_ids p,
        o_agent_run_id := Some run_id, o_session_id := Some (ss_session_id (en_session e)),
        o_stop_loss := pl_stop_loss p, o_take_profit := pl_take_profit p\<rparr>"

definition save_order_and_fill :: "order \<Rightarrow> paper_engine \<Rightarrow> paper_engine" where
  "save_order_and_fill ord e = e\<lparr>en_store := (en_store e)\<lparr>sv_orders := sv_orders (en_store e) @ [ord],
     sv_fills := sv_fills (en_store e) @ last_n 1 (ex_fills (en_exchange e))\<rparr>\<rparr>"

definition book_execution :: "trade_plan \<Rightarrow> pyfloat list \<Rightarrow> paper_engine \<Rightarrow> paper_engine" where
  "book_execution p returns e =
     (let sid = pl_strategy_id p
      in e\<lparr>en_daily_turnover := fadd (en_daily_turnover e) (pl_notional p),
           en_books := dput sid (opt_default (dget (en_books e) sid) [] @ [pl_symbol p]) (en_books e),
           en_returns := (if returns = [] then en_returns e
                          else dput (pl_symbol p) (last_n 50 returns) (en_returns e)),
           en_exchange := (if pl_move_be_at_1r p \<or> sid = ''multi_model_po3_vwap''
             then configure_position_rules (en_exchange e) (pl_symbol p) True
                    (Some (opt_default (pl_partial_tp_pct p) (Fin 50))) None (Fin 2) None None None False
             else en_exchange e),
           en_session := (en_session e)\<lparr>ss_strategy_versions :=
             dput sid (pl_strategy_version p) (ss_strategy_versions (en_session e))\<rparr>\<rparr>)"

definition save_snapshot :: "paper_engine \<Rightarrow> paper_engine" where
  "save_snapshot e = (case engine_snapshot e of (e1, sn) \<Rightarrow>
     e1\<lparr>en_store := (en_store e1)\<lparr>sv_snapshots :=
       sv_snapshots (en_store e1) @ [(ss_session_id (en_session e1), sn)]\<rparr>\<rparr>)"

definition after_order ::
  "string \<Rightarrow> trade_plan \<Rightarrow> string \<Rightarrow> pyfloat list \<Rightarrow> compliance_decision \<Rightarrow> risk_decision \<Rightarrow> order \<Rightarrow> paper_engine
   \<Rightarrow> paper_engine \<times> engine_result" where
  "after_order run_id p asset returns cd rd filled e =
     (let executed = (o_status filled = FILLED);
          e1 = save_order_and_fill filled e;
          e2 = (if executed then book_execution p returns e1 else e1);
          tax = tax_apply (en_tax e2) (Fin 0) (o_fees filled) (pl_notional p) asset;
          e3 = save_snapshot (log_decision run_id p cd (Some rd) executed e2)
      in (e3, \<lparr>er_executed = executed, er_attempted = True, er_reasons = [], er_order = Some filled,
               er_risk = Some rd, er_tax = Some tax\<rparr>))"

definition submit_plan ::
  "(string \<Rightarrow> string) \<Rightarrow> (pyfloat \<Rightarrow> string) \<Rightarrow> string \<Rightarrow> trade_plan \<Rightarrow> pyfloat \<Rightarrow> string \<Rightarrow> pyfloat list
   \<Rightarrow> compliance_decision \<Rightarrow> risk_decision \<Rightarrow> paper_engine \<Rightarrow> paper_engine \<times> engine_result res" where
  "submit_plan h16 f10 run_id p price asset returns cd rd e =
     (let e1 = save_event (En_Trade_Planned (pl_strategy_id p) (pl_symbol p))
                 (save_event (En_Risk_Validated True []) e);
          e2 = e1\<lparr>en_exchange := set_price (en_exchange e1) (pl_symbol p) price\<rparr>
      in case parse_asset_class asset of
           Inl err \<Rightarrow> (e2, Inl err)
         | Inr ac \<Rightarrow>
             (case create_order h16 f10 (en_exchange e2) (plan_order e2 run_id p ac) (Some price) of
                (ex, Inl err) \<Rightarrow> (e2\<lparr>en_exchange := ex\<rparr>, Inl err)
              | (ex, Inr filled) \<Rightarrow>
                  (case after_order run_id p asset returns cd rd filled (e2\<lparr>en_exchange := ex\<rparr>) of
                     (e3, r) \<Rightarrow> (e3, Inr r))))"

definition risk_gate ::
  "(string \<Rightarrow> string) \<Rightarrow> (pyfloat \<Rightarrow> string) \<Rightarrow> string \<Rightarrow> trade_plan \<Rightarrow> pyfloat \<Rightarrow> string \<Rightarrow> pyfloat list
   \<Rightarrow> compliance_decision \<Rightarrow> paper_engine \<Rightarrow> paper_engine \<times> engine_result res" where
  "risk_gate h16 f10 run_id p price asset returns cd e =
     (case engine_snapshot e of (e1, sn) \<Rightarrow>
        let rd = plan_risk e1 sn p price
        in if rd_approved rd then submit_plan h16 f10 run_id p price asset returns cd rd e1
           else (save_event (En_Risk_Validated False (rd_reason_codes rd)) (log_decision run_id p cd (Some rd) False e1),
                 Inr ((no_execution (map Risk_Code (rd_reason_codes rd)))\<lparr>er_risk := Some rd\<rparr>)))"

definition compliance_gate ::
  "(string \<Rightarrow> string) \<Rightarrow> (pyfloat \<Rightarrow> string) \<Rightarrow> (pyfloat \<Rightarrow> pyfloat) \<Rightarrow> (pyfloat \<Rightarrow> string) \<Rightarrow> string \<Rightarrow> trade_plan
   \<Rightarrow> pyfloat \<Rightarrow> string \<Rightarrow> pyfloat list \<Rightarrow> paper_engine \<Rightarrow> paper_engine \<times> engine_result res" where
  "compliance_gate h16 f10 half_power f3 run_id p price asset returns e =
     (let cd = compliance_evaluate (en_settings e) (en_compliance e) (Some (pl_strategy_id p)) asset
                 (pl_notional p) (en_daily_turnover e)
      in if \<not> cd_approved cd
         then (log_decision run_id p cd None False e, Inr (no_execution (map Text (cd_reason_codes cd))))
         else if returns \<noteq> [] \<and> en_returns e \<noteq> []
         then (case corr_filter half_power f3 (en_max_correlation e) returns (en_returns e) of
                 Inl err \<Rightarrow> (e, Inl err)
               | Inr (ok, rs) \<Rightarrow>
                   if \<not> ok then (e, Inr (no_execution (map Text rs)))
                   else risk_gate h16 f10 run_id p price asset returns cd e)
         else risk_gate h16 f10 run_id p price asset returns cd e)"

definition execute_approved_plan ::
  "(string \<Rightarrow> string) \<Rightarrow> (pyfloat \<Rightarrow> string) \<Rightarrow> (pyfloat \<Rightarrow> pyfloat) \<Rightarrow> (pyfloat \<Rightarrow> string) \<Rightarrow> string option \<Rightarrow> string
   \<Rightarrow> trade_plan \<Rightarrow> pyfloat \<Rightarrow> string \<Rightarrow> pyfloat list \<Rightarrow> bool \<Rightarrow> paper_engine \<Rightarrow> paper_engine \<times> engine_result res" where
  "execute_approved_plan h16 f10 half_power f3 stop run_id p price asset returns stale e0 =
     (let e = check_stop_file stop e0
      in if \<not> paper_only (en_settings e) then (e, Inr (no_execution [Text ''PAPER_MODE_REQUIRED'']))
         else if ks_active (en_kill e) \<or> ex_halted (en_exchange e)
         then (e, Inr (no_execution [Text (if ks_active (en_kill e) then ''KILL_SWITCH_ACTIVE'' else ''TRADING_HALTED'')]))
         else if stale then (e, Inr (no_execution [Text ''STALE_MARKET_DATA'']))
         else if pl_status p \<noteq> PROPOSED \<or> fle (pl_quantity p) (Fin 0)
         then (e, Inr (no_execution [Text (if opt_truthy (pl_reason p) then the (pl_reason p) else ''NO_TRADE'')]))
         else case resolve_conflict e (pl_symbol p) (pl_side p) (pl_strategy_id p) of
                Inl err \<Rightarrow> (e, Inl err)
              | Inr conflict \<Rightarrow>
                  if conflict \<in> {''STRATEGY_CONFLICT'', ''NO_TRADE''} then (e, Inr (no_execution [Text conflict]))
                  else compliance_gate h16 f10 half_power f3 run_id p price asset returns e)"

section \<open>What each step leaves alone\<close>

text \<open>The trading record of an engine: what only an order at the venue changes.\<close>

definition trading_record :: "paper_engine \<Rightarrow> (string \<times> order) list \<times> fill list \<times> trade list \<times> pyfloat \<times> order list" where
  "trading_record e = (ex_orders (en_exchange e), ex_fills (en_exchange e), ex_trades (en_exchange e),
     pf_cash (ex_portfolio (en_exchange e)), sv_orders (en_store e))"

lemma record_simps [simp]:
  "trading_record (save_event v e) = trading_record e"
  "trading_record (save_session e) = trading_record e"
  "trading_record (log_decision i p cd rd x e) = trading_record e"
  "trading_record (check_stop_file stop e) = trading_record e"
  by (simp_all add: trading_record_def save_event_def save_session_def log_decision_def check_stop_file_def
      halt_def emit_def Let_def split: option.splits)

lemma snapshot_cash [simp]: "pf_cash (fst (snapshot pf m)) = pf_cash pf"
  by (simp add: snapshot_def Let_def)

lemma record_snapshot [simp]: "trading_record (fst (engine_snapshot e)) = trading_record e"
  by (simp add: engine_snapshot_def trading_record_def split: prod.splits)
    (metis fst_conv snapshot_cash)

lemma snapshot_keeps [simp]:
  "en_kill (fst (engine_snapshot e)) = en_kill e" "en_settings (fst (engine_snapshot e)) = en_settings e"
  "en_compliance (fst (engine_snapshot e)) = en_compliance e" "en_store (fst (engine_snapshot e)) = en_store e"
  "ex_halted (en_exchange (fst (engine_snapshot e))) = ex_halted (en_exchange e)"
  by (simp_all add: engine_snapshot_def split: prod.splits)

lemma stop_file_absent [simp]: "check_stop_file None e = e"
  by (simp add: check_stop_file_def)

lemma stop_file_kills: "stop \<noteq> None \<Longrightarrow> ks_active (en_kill (check_stop_file stop e))"
  by (auto simp: check_stop_file_def save_event_def ks_activate_def split: option.splits)

text \<open>The only code the paper engine overrides is that it evaluates without a strategy.\<close>

lemma no_model_code:
  "NO_VALID_MODEL \<in> set (risk_reasons k l okf hs p pf x) \<Longrightarrow> tp_model_ids p = []"
  by (auto simp: gate_defs okf_reasons_def memory_reasons_def Let_def split: option.splits if_splits)

lemma plan_risk_approved:
  assumes "rd_approved (plan_risk e sn p price)"
  shows "set (rd_reason_codes (raw_risk e sn p price)) = {STRATEGY_DATA_UNAVAILABLE}"
proof -
  let ?rs = "rd_reason_codes (raw_risk e sn p price)"
  from assms have ign: "set ?rs \<subseteq> ignored_codes p"
    by (auto simp: plan_risk_def Let_def filter_empty_conv)
  obtain rs where rs: "rs = risk_reasons (ks_active (en_kill e)) (merge_effective_limits (ren_limits (en_risk e)) None (ren_okf (en_risk e)))
      (ren_okf (en_risk e)) False (to_proposal p price (Some (Fin 1000000)) False (Some 100)) (risk_snapshot_of e sn) default_context"
    by simp
  have flagged: "STRATEGY_DATA_UNAVAILABLE \<in> set rs" by (simp add: rs risk_reasons_def)
  moreover have "RISK_OK \<notin> set rs" using risk_ok_never by (simp add: rs)
  ultimately have codes: "?rs = rs"
    by (auto simp: raw_risk_def engine_evaluate_def risk_evaluate_def Let_def rs [symmetric] filter_empty_conv)
  moreover have "NO_VALID_MODEL \<in> set rs \<Longrightarrow> pl_model_ids p = []"
    using no_model_code by (fastforce simp: rs to_proposal_def)
  ultimately show ?thesis using ign flagged by (auto simp: ignored_codes_def split: if_splits)
qed

lemma risk_gate_closed:
  assumes "risk_gate h16 f10 run_id p price asset returns cd e = (e', r)" and "trading_record e' \<noteq> trading_record e"
  shows "set (rd_reason_codes (raw_risk (fst (engine_snapshot e)) (snd (engine_snapshot e)) p price)) = {STRATEGY_DATA_UNAVAILABLE}"
proof (cases "engine_snapshot e")
  case (Pair e1 sn)
  then have "trading_record e1 = trading_record e" using record_snapshot [of e] by simp
  with assms Pair have "rd_approved (plan_risk e1 sn p price)"
    by (auto simp: risk_gate_def Let_def split: if_splits)
  with Pair show ?thesis by (simp add: plan_risk_approved)
qed

lemma compliance_gate_closed:
  assumes "compliance_gate h16 f10 half_power f3 run_id p price asset returns e = (e', r)"
    and "trading_record e' \<noteq> trading_record e"
  shows "cd_approved (compliance_evaluate (en_settings e) (en_compliance e) (Some (pl_strategy_id p)) asset
      (pl_notional p) (en_daily_turnover e))
    \<and> set (rd_reason_codes (raw_risk (fst (engine_snapshot e)) (snd (engine_snapshot e)) p price)) = {STRATEGY_DATA_UNAVAILABLE}"
  using assms risk_gate_closed
  by (fastforce simp: compliance_gate_def Let_def split: if_splits sum.splits prod.splits)

text \<open>C1: A plan reaches the venue through every gate or not at all.  If executing a plan
  changes the orders, fills, trades, cash or stored orders of the paper engine, then the
  process is in paper mode, no STOP file is present, the kill switch is off, the exchange
  is not halted, the data is fresh, the plan is a proposal of a quantity that is not zero
  or negative, compliance approved it, and the risk engine raised no objection other than
  that it was given no strategy, which the paper engine ignores.\<close>
theorem plan_trades_only_through_gates:
  assumes "execute_approved_plan h16 f10 half_power f3 stop run_id p price asset returns stale e = (e', r)"
    and "trading_record e' \<noteq> trading_record e"
  shows "stop = None \<and> paper_only (en_settings e) \<and> \<not> ks_active (en_kill e) \<and> \<not> ex_halted (en_exchange e)
    \<and> \<not> stale \<and> pl_status p = PROPOSED \<and> \<not> fle (pl_quantity p) (Fin 0)
    \<and> cd_approved (compliance_evaluate (en_settings e) (en_compliance e) (Some (pl_strategy_id p)) asset
        (pl_notional p) (en_daily_turnover e))
    \<and> set (rd_reason_codes (raw_risk (fst (engine_snapshot e)) (snd (engine_snapshot e)) p price)) = {STRATEGY_DATA_UNAVAILABLE}"
proof -
  let ?e = "check_stop_file stop e"
  have same: "trading_record ?e = trading_record e" by simp
  with assms have open_gates: "paper_only (en_settings ?e) \<and> \<not> ks_active (en_kill ?e) \<and> \<not> ex_halted (en_exchange ?e)
      \<and> \<not> stale \<and> pl_status p = PROPOSED \<and> \<not> fle (pl_quantity p) (Fin 0)"
    by (auto simp: execute_approved_plan_def Let_def split: if_splits)
  then have "stop = None" using stop_file_kills [of stop e] by (cases stop) auto
  moreover have "compliance_gate h16 f10 half_power f3 run_id p price asset returns e = (e', r)"
    using assms open_gates \<open>stop = None\<close>
    by (auto simp: execute_approved_plan_def Let_def split: if_splits sum.splits)
  ultimately show ?thesis using compliance_gate_closed [OF _ assms(2)] open_gates by auto
qed

definition demo_plan :: trade_plan where
  "demo_plan = \<lparr>pl_strategy_id = ''s'', pl_strategy_version = ''1'', pl_model_ids = [''m''], pl_symbol = ''BTC-USD'',
     pl_side = ''long'', pl_entry_price = Fin 100, pl_quantity = Fin 1, pl_notional = Fin 100,
     pl_stop_loss = Some (Fin 96), pl_take_profit = Some (Fin 108), pl_risk_amount = Fin 4, pl_expected_fee = Fin 0,
     pl_expected_slippage = Fin 0, pl_risk_reward_ratio = Some (Fin 2), pl_confidence = Fin 1, pl_invalidation = [],
     pl_status = PROPOSED, pl_reason = None, pl_move_be_at_1r = False, pl_partial_tp_pct = None\<rparr>"

definition demo_engine :: paper_engine where
  "demo_engine = \<lparr>en_settings = \<lparr>se_trading_mode = ''paper'', se_live_enabled = False\<rparr>,
     en_config = \<lparr>ec_initial_cash = Fin 8192, ec_prefix = ''P'', ec_conflict_mode = ''NO_TRADE'', ec_symbol_map = [],
       ec_exchange = default_config, ec_hash = ''h''\<rparr>,
     en_session = \<lparr>ss_session_id = ''S'', ss_starting_capital = Fin 8192, ss_ending_equity = None,
       ss_strategy_versions = [], ss_config_hash = ''h'', ss_status = ACTIVE\<rparr>,
     en_exchange = new_exchange default_config (Some (new_portfolio (Fin 8192))) [] ''S'',
     en_kill = ks_initial, en_risk = new_risk_engine default_limits ks_initial False None,
     en_compliance = default_compliance, en_tax = default_tax, en_max_correlation = flit (85 / 100),
     en_store = \<lparr>sv_sessions = [], sv_events = [], sv_orders = [], sv_fills = [], sv_snapshots = []\<rparr>,
     en_running = True, en_decisions = [], en_daily_turnover = Fin 0, en_books = [], en_returns = []\<rparr>"

lemma demo_snapshot:
  "engine_snapshot demo_engine = (demo_engine, snd (engine_snapshot demo_engine))"
  "risk_snapshot_of demo_engine (snd (engine_snapshot demo_engine)) = demo_account"
  by (simp_all add: engine_snapshot_def demo_engine_def new_exchange_def default_config_def opt_default_def
      new_portfolio_def snapshot_def mark_all_def dict_build_def drawdown_of_def risk_snapshot_of_def demo_account_def
      ks_initial_def Let_def fl_eval)

lemma demo_risk: "rd_approved (plan_risk demo_engine (snd (engine_snapshot demo_engine)) demo_plan (Fin 0))"
proof -
  let ?l = "merge_effective_limits default_limits None None"
  let ?p = "to_proposal demo_plan (Fin 0) (Some (Fin 1000000)) False (Some 100)"
  have l: "?l = base_limits default_limits None" by (simp add: merge_none)
  have "stop_reasons ?l ?p = []" "reward_reasons ?l ?p = []" "size_reasons ?l ?p demo_account = []"
    "account_reasons ?l ?p demo_account = []" "quality_reasons ?l ?p demo_account = []"
    by (simp_all add: l stop_reasons_def reward_reasons_def size_reasons_def account_reasons_def quality_reasons_def
        base_limits_def default_limits_def to_proposal_def demo_plan_def demo_account_def equity_floor_def tol9_def
        long_order_side_def short_order_side_def demo_sides Let_def fl_eval)
  then have "risk_reasons False ?l None False ?p demo_account default_context = [STRATEGY_DATA_UNAVAILABLE]"
    by (simp add: risk_reasons_def l base_limits_def default_limits_def pair_allowed_def memory_reasons_def
        default_context_def flag_if_def) (simp add: demo_account_def to_proposal_def demo_plan_def)
  then show ?thesis
    by (simp add: plan_risk_def raw_risk_def engine_evaluate_def risk_evaluate_def demo_snapshot(2) ignored_codes_def Let_def)
       (simp add: demo_engine_def ks_initial_def new_risk_engine_def)
qed

lemma stored_simps [simp]:
  "sv_orders (en_store (save_event v e)) = sv_orders (en_store e)"
  "sv_orders (en_store (log_decision i p cd rd x e)) = sv_orders (en_store e)"
  "sv_orders (en_store (save_snapshot e)) = sv_orders (en_store e)"
  "sv_orders (en_store (book_execution p returns e)) = sv_orders (en_store e)"
  "sv_orders (en_store (save_order_and_fill ord e)) = sv_orders (en_store e) @ [ord]"
  by (simp_all add: save_event_def log_decision_def save_snapshot_def engine_snapshot_def book_execution_def
      save_order_and_fill_def Let_def split: prod.splits)

lemma after_order_stores:
  "sv_orders (en_store (fst (after_order run_id p asset returns cd rd filled e))) = sv_orders (en_store e) @ [filled]"
  by (simp add: after_order_def Let_def)

lemma submit_plan_stores:
  assumes "parse_asset_class asset = Inr ac"
    and "snd (create_order h16 f10 (set_price (en_exchange e) (pl_symbol p) price) (plan_order e run_id p ac) (Some price))
      = Inr filled"
  shows "sv_orders (en_store (fst (submit_plan h16 f10 run_id p price asset returns cd rd e))) = sv_orders (en_store e) @ [filled]"
proof -
  let ?e = "save_event (En_Trade_Planned (pl_strategy_id p) (pl_symbol p)) (save_event (En_Risk_Validated True []) e)"
  have e: "en_exchange ?e = en_exchange e" "plan_order (?e\<lparr>en_exchange := x\<rparr>) run_id p ac = plan_order e run_id p ac" for x
    by (simp_all add: save_event_def plan_order_def)
  obtain ex where c: "create_order h16 f10 (set_price (en_exchange e) (pl_symbol p) price) (plan_order e run_id p ac) (Some price) = (ex, Inr filled)"
    using assms(2) by (metis prod.collapse)
  obtain e3 r where a: "after_order run_id p asset returns cd rd filled (?e\<lparr>en_exchange := ex\<rparr>) = (e3, r)"
    by (metis surj_pair)
  then have "sv_orders (en_store e3) = sv_orders (en_store e) @ [filled]"
    using after_order_stores [of run_id p asset returns cd rd filled "?e\<lparr>en_exchange := ex\<rparr>"] by simp
  then show ?thesis by (simp add: submit_plan_def Let_def assms(1) e c a)
qed

lemma demo_submitted:
  "\<exists>a. snd (create_order id (\<lambda>_. []) (set_price (en_exchange demo_engine) (pl_symbol demo_plan) (Fin 0))
      (plan_order demo_engine ''r'' demo_plan CRYPTO) (Some (Fin 0))) = Inr a"
  by (simp add: create_order_def admit_order_def market_reject_def demo_engine_def demo_plan_def plan_order_def
      new_order_def identify_order_def ensure_order_id_def new_exchange_def set_price_def next_seq_def
      remember_client_def opt_default_def rejected_def default_config_def failing_modes_def Let_def)

lemma plan_trades_only_through_gates_witness:
  "cd_approved (compliance_evaluate (en_settings demo_engine) (en_compliance demo_engine) (Some (pl_strategy_id demo_plan))
     ''CRYPTO'' (pl_notional demo_plan) (en_daily_turnover demo_engine)) \<and> \<not> ex_halted (en_exchange demo_engine)"
proof -
  let ?r = "execute_approved_plan id (\<lambda>_. []) id (\<lambda>_. []) None ''r'' demo_plan (Fin 0) ''CRYPTO'' [] False demo_engine"
  obtain a where a: "snd (create_order id (\<lambda>_. []) (set_price (en_exchange demo_engine) (pl_symbol demo_plan) (Fin 0))
      (plan_order demo_engine ''r'' demo_plan CRYPTO) (Some (Fin 0))) = Inr a"
    using demo_submitted by blast
  have "parse_asset_class ''CRYPTO'' = Inr CRYPTO" by (simp add: parse_asset_class_def asset_class_value_def)
  from submit_plan_stores [OF this a] have stored: "sv_orders (en_store (fst (submit_plan id (\<lambda>_. []) ''r'' demo_plan (Fin 0) ''CRYPTO'' returns cd rd demo_engine)))
      = [a]" for returns cd rd
    by (simp add: demo_engine_def)
  have "resolve_conflict demo_engine (pl_symbol demo_plan) (pl_side demo_plan) (pl_strategy_id demo_plan) = Inr ''OK''"
    "\<not> ex_halted (en_exchange demo_engine)"
    by (simp_all add: resolve_conflict_def demo_engine_def new_exchange_def new_portfolio_def opt_default_def)
  moreover have "cd_approved (compliance_evaluate (en_settings demo_engine) (en_compliance demo_engine)
      (Some (pl_strategy_id demo_plan)) ''CRYPTO'' (pl_notional demo_plan) (en_daily_turnover demo_engine))"
    by (simp add: compliance_approved_iff demo_engine_def demo_plan_def default_compliance_def paper_only_def fl_eval)
  moreover have "paper_only (en_settings demo_engine)" "\<not> ks_active (en_kill demo_engine)" "en_returns demo_engine = []"
    "pl_status demo_plan = PROPOSED" "\<not> fle (pl_quantity demo_plan) (Fin 0)"
    by (simp_all add: demo_engine_def demo_plan_def ks_initial_def paper_only_def)
  moreover obtain sn where sn: "engine_snapshot demo_engine = (demo_engine, sn)" using demo_snapshot(1) by blast
  moreover from sn have "rd_approved (plan_risk demo_engine sn demo_plan (Fin 0))" using demo_risk by simp
  ultimately have "\<exists>cd rd. ?r = submit_plan id (\<lambda>_. []) ''r'' demo_plan (Fin 0) ''CRYPTO'' [] cd rd demo_engine"
    by (simp add: execute_approved_plan_def compliance_gate_def risk_gate_def Let_def) blast
  with stored have "sv_orders (en_store (fst ?r)) = [a]" by auto
  moreover have "sv_orders (en_store demo_engine) = []" by (simp add: demo_engine_def)
  ultimately have "trading_record (fst ?r) \<noteq> trading_record demo_engine" by (auto simp: trading_record_def)
  from plan_trades_only_through_gates [OF prod.collapse [symmetric] this] show ?thesis by blast
qed

section \<open>The venue invariant under the engine\<close>

abbreviation venue_ok :: "paper_engine \<Rightarrow> bool" where
  "venue_ok e \<equiv> ex_ok (en_exchange e)"

lemma exchange_simps [simp]:
  "en_exchange (save_event v e) = en_exchange e" "en_exchange (save_session e) = en_exchange e"
  "en_exchange (log_decision i p cd rd x e) = en_exchange e" "en_exchange (save_order_and_fill ord e) = en_exchange e"
  by (simp_all add: save_event_def save_session_def log_decision_def save_order_and_fill_def)

lemma engine_snapshot_ok [inv_intros]: "venue_ok e \<Longrightarrow> venue_ok (fst (engine_snapshot e))"
  using balance_ok [of "en_exchange e"] by (simp add: engine_snapshot_def get_balance_def split: prod.splits)

lemma stop_file_ok [inv_intros]: "venue_ok e \<Longrightarrow> venue_ok (check_stop_file stop e)"
  by (auto simp: check_stop_file_def switches_ok split: option.splits)

lemma rules_ok: "ex_ok ex \<Longrightarrow> ex_ok (configure_position_rules ex sy be ptp ta tm tp td mr w)"
  by (rule ex_ok_core [OF rules_core(1)]) (simp_all add: ex_ok_book)

lemma book_execution_ok [inv_intros]: "venue_ok e \<Longrightarrow> venue_ok (book_execution p returns e)"
  by (simp add: book_execution_def rules_ok Let_def)

lemma save_snapshot_ok [inv_intros]: "venue_ok e \<Longrightarrow> venue_ok (save_snapshot e)"
  using engine_snapshot_ok [of e] by (cases "engine_snapshot e") (simp add: save_snapshot_def)

lemma after_order_ok: "venue_ok e \<Longrightarrow> venue_ok (fst (after_order run_id p asset returns cd rd filled e))"
  by (simp add: after_order_def Let_def save_snapshot_ok book_execution_ok)

lemma submit_plan_ok:
  assumes "venue_ok e"
  shows "venue_ok (fst (submit_plan h16 f10 run_id p price asset returns cd rd e))"
proof -
  have "ex_ok (set_price (en_exchange e) (pl_symbol p) price)" using assms by (rule set_price_ok)
  then have "ex_ok ex" if "create_order h16 f10 (set_price (en_exchange e) (pl_symbol p) price) ord mp = (ex, r)" for ord mp ex r
    using create_ok [of "set_price (en_exchange e) (pl_symbol p) price" h16 f10 ord mp] that by simp
  moreover have "venue_ok e3" if "after_order run_id p asset returns cd rd filled d = (e3, r)" "venue_ok d" for e3 r filled d
    using after_order_ok [of d run_id p asset returns cd rd filled] that by simp
  ultimately show ?thesis
    using set_price_ok [OF assms] by (auto simp: submit_plan_def Let_def split: sum.splits prod.splits)
qed

lemma execute_ok:
  assumes "venue_ok e"
  shows "venue_ok (fst (execute_approved_plan h16 f10 half_power f3 stop run_id p price asset returns stale e))"
proof -
  have risk: "venue_ok (fst (risk_gate h16 f10 run_id p price asset returns cd d))" if "venue_ok d" for cd d
    using engine_snapshot_ok [OF that] submit_plan_ok
    by (auto simp: risk_gate_def Let_def split: prod.splits)
  have "venue_ok (fst (compliance_gate h16 f10 half_power f3 run_id p price asset returns d))" if "venue_ok d" for d
    using that risk by (auto simp: compliance_gate_def Let_def split: prod.splits sum.splits)
  with stop_file_ok [OF assms, of stop] show ?thesis
    by (auto simp: execute_approved_plan_def Let_def split: sum.splits)
qed

datatype engine_op =
    Run_Start "string option"
  | Run_Stop
  | Run_Restart "string option"
  | Run_Reset nat nat
  | Run_Plan "string option" string trade_plan pyfloat string "pyfloat list" bool
  | Run_Venue ex_op

fun engine_exec ::
  "(string \<Rightarrow> string) \<Rightarrow> (pyfloat \<Rightarrow> string) \<Rightarrow> (pyfloat \<Rightarrow> pyfloat) \<Rightarrow> (pyfloat \<Rightarrow> string) \<Rightarrow> paper_engine \<Rightarrow> engine_op \<Rightarrow> paper_engine" where
  "engine_exec h f hp f3 e (Run_Start stop) = fst (engine_start stop e)"
| "engine_exec h f hp f3 e Run_Stop = engine_stop e"
| "engine_exec h f hp f3 e (Run_Restart stop) = fst (safe_restart stop e)"
| "engine_exec h f hp f3 e (Run_Reset year seq) = engine_reset year seq e"
| "engine_exec h f hp f3 e (Run_Plan stop i p price asset returns stale) =
     fst (execute_approved_plan h f hp f3 stop i p price asset returns stale e)"
| "engine_exec h f hp f3 e (Run_Venue x) = e\<lparr>en_exchange := ex_exec h f (en_exchange e) x\<rparr>"

lemma engine_exec_ok:
  assumes "venue_ok e" and "0 < opt_default (pc_max_fail (ec_exchange (en_config e))) 3"
  shows "venue_ok (engine_exec h f hp f3 e x)"
proof (cases x)
  case (Run_Start stop)
  with assms show ?thesis
    by (simp add: engine_start_def Let_def stop_file_ok engine_snapshot_ok)
next
  case Run_Stop
  have "venue_ok (fst (engine_snapshot (e\<lparr>en_running := False\<rparr>)))" using assms by (intro engine_snapshot_ok) simp
  with Run_Stop show ?thesis
    by (auto simp: engine_stop_def intro!: engine_snapshot_ok split: prod.splits)
next
  case (Run_Restart stop)
  with assms show ?thesis by (auto simp: safe_restart_def Let_def intro!: engine_snapshot_ok switches_ok)
next
  case (Run_Reset year seq)
  have "ex_ok (new_exchange (ec_exchange (en_config e)) None [] sid)" for sid
    by (rule new_exchange_ok) (use assms(2) in \<open>simp_all add: opt_default_def new_portfolio_def book_ok_def\<close>)
  with Run_Reset show ?thesis by (auto simp: engine_reset_def Let_def intro!: engine_snapshot_ok)
qed (use assms exec_keeps_ok execute_ok in auto)

lemma config_snapshot [simp]: "en_config (fst (engine_snapshot e)) = en_config e"
  by (simp add: engine_snapshot_def split: prod.splits)

end
