(* ===== verification/Indicators.thy ===== *)
theory Indicators
  imports Prelude
begin

text \<open>
  \<open>market/indicators.py\<close>: the technical indicators.  Every function fills a list of the
  length of its input, \<open>None\<close> where the indicator has no value yet, in one pass that
  carries running totals.  A pass is a \<open>series_loop\<close>: its body reads the totals and the
  index and returns the new totals and what it writes at the index.  The square root
  \<open>** 0.5\<close> is a parameter.
\<close>

type_synonym series = "pyfloat option list"

section \<open>Passes over a series\<close>

definition series_step :: "(nat \<Rightarrow> 's \<Rightarrow> ('s \<times> pyfloat option) res) \<Rightarrow> nat \<Rightarrow> 's \<times> series \<Rightarrow> ('s \<times> series) res" where
  "series_step body i st = (case st of (s, out) \<Rightarrow>
     bind_res (body i s) (\<lambda>(t, v). Inr (t, if v = None then out else out[i := v])))"

definition series_loop :: "(nat \<Rightarrow> 's \<Rightarrow> ('s \<times> pyfloat option) res) \<Rightarrow> nat \<Rightarrow> nat \<Rightarrow> 's \<times> series \<Rightarrow> series res" where
  "series_loop body a n st = bind_res (fold_res (series_step body) [a..<n] st) (\<lambda>r. Inr (snd r))"

abbreviation no_values :: "nat \<Rightarrow> series" where
  "no_values n \<equiv> replicate n None"

lemma series_step_Inr:
  "series_step body i (s, out) = Inr (t, out') \<longleftrightarrow>
     (\<exists>v. body i s = Inr (t, v) \<and> out' = (if v = None then out else out[i := v]))"
  by (auto simp: series_step_def bind_res_Inr_iff)

lemma series_steps_length:
  "fold_res (series_step body) is (s, out) = Inr (t, out') \<Longrightarrow> length out' = length out"
proof -
  assume run: "fold_res (series_step body) is (s, out) = Inr (t, out')"
  have "length (snd (t, out')) = length out"
    by (rule fold_res_invariant [where P = "\<lambda>st. length (snd st) = length out", OF _ _ run])
      (auto simp: series_step_Inr)
  then show ?thesis by simp
qed

lemma series_steps_keep:
  assumes "fold_res (series_step body) is (s, out) = Inr (t, out')" and "\<And>i. i \<in> set is \<Longrightarrow> k \<le> i"
  shows "take k out' = take k out"
proof -
  have "take k (snd (t, out')) = take k out"
    by (rule fold_res_invariant [where P = "\<lambda>st. take k (snd st) = take k out", OF _ _ assms(1)])
      (use assms(2) in \<open>auto simp: series_step_Inr\<close>)
  then show ?thesis by simp
qed

lemma series_steps_take:
  assumes "fold_res (series_step body) is (s, out) = Inr (t, out')"
  shows "fold_res (series_step body) is (s, take k out) = Inr (t, take k out')"
  using assms
proof (induction "is" arbitrary: s out)
  case (Cons i "is")
  from Cons.prems obtain u v where body: "body i s = Inr (u, v)"
    and rest: "fold_res (series_step body) is (u, if v = None then out else out[i := v]) = Inr (t, out')"
    by (auto simp: bind_res_Inr_iff series_step_Inr)
  have "take k (if v = None then out else out[i := v]) = (if v = None then take k out else (take k out)[i := v])"
    by (simp add: take_update_swap)
  with Cons.IH [OF rest] show ?case by (simp add: series_step_def body)
qed simp

text \<open>The first \<open>k\<close> values come from the first \<open>k\<close> rounds of the pass.\<close>

lemma series_loop_prefix:
  assumes run: "series_loop body a n (s, out) = Inr r" and "k \<le> n" "a \<le> k"
    and same: "\<And>i t. i < k \<Longrightarrow> body' i t = body i t"
  shows "series_loop body' a k (s, take k out) = Inr (take k r)"
proof -
  from run obtain t where run: "fold_res (series_step body) [a..<n] (s, out) = Inr (t, r)"
    by (auto simp: series_loop_def bind_res_Inr_iff)
  have "[a..<n] = [a..<k] @ [k..<n]" using assms(2,3) by (metis le_Suc_ex upt_add_eq_append)
  with run obtain u m where first: "fold_res (series_step body) [a..<k] (s, out) = Inr (u, m)"
    and rest: "fold_res (series_step body) [k..<n] (u, m) = Inr (t, r)"
    by (auto simp: fold_res_append bind_res_Inr_iff)
  have "take k r = take k m" by (rule series_steps_keep [OF rest]) simp
  moreover have "fold_res (series_step body') [a..<k] (s, take k out)
      = fold_res (series_step body) [a..<k] (s, take k out)"
    by (rule fold_res_cong) (simp add: series_step_def same)
  ultimately show ?thesis
    using series_steps_take [OF first, of k] by (simp add: series_loop_def)
qed

text \<open>A pass whose body never raises under its invariant returns, with every value as promised.\<close>

lemma series_loop_total:
  assumes "Q s" and "\<And>x. x \<in> set out \<Longrightarrow> P x"
    and body: "\<And>i t. a \<le> i \<Longrightarrow> i < n \<Longrightarrow> Q t \<Longrightarrow> \<exists>u v. body i t = Inr (u, v) \<and> Q u \<and> (v \<noteq> None \<longrightarrow> P v)"
  shows "\<exists>r. series_loop body a n (s, out) = Inr r \<and> length r = length out \<and> (\<forall>x\<in>set r. P x)"
proof -
  have "\<exists>t r. fold_res (series_step body) is (s, out) = Inr (t, r) \<and> length r = length out \<and> (\<forall>x\<in>set r. P x)"
    if "set is \<subseteq> {a..<n}" for "is"
    using that assms(1,2)
  proof (induction "is" arbitrary: s out)
    case (Cons i "is")
    then obtain u v where step: "body i s = Inr (u, v)" and u: "Q u" and v: "v \<noteq> None \<longrightarrow> P v"
      using body [of i s] by auto
    let ?out = "if v = None then out else out[i := v]"
    have "\<And>x. x \<in> set ?out \<Longrightarrow> P x"
      using Cons.prems(3) v set_update_subset_insert [of out i v] by (auto split: if_splits)
    with Cons.IH [of u ?out] Cons.prems(1) u obtain t r
      where "fold_res (series_step body) is (u, ?out) = Inr (t, r)" "length r = length ?out" "\<forall>x\<in>set r. P x"
      by auto
    moreover have "series_step body i (s, out) = Inr (u, ?out)" by (simp add: series_step_Inr step)
    ultimately show ?case by auto
  qed auto
  from this [of "[a..<n]"] show ?thesis by (fastforce simp: series_loop_def)
qed

section \<open>Moving averages\<close>

definition sma_body :: "pyfloat list \<Rightarrow> nat \<Rightarrow> nat \<Rightarrow> pyfloat \<Rightarrow> (pyfloat \<times> pyfloat option) res" where
  "sma_body xs p i running =
     (let r1 = fadd running (xs ! i);
          r2 = (if p \<le> i then fsub r1 (xs ! (i - p)) else r1)
      in Inr (r2, if p - 1 \<le> i then Some (fquot r2 (f_of_int (int p))) else None))"

definition sma :: "pyfloat list \<Rightarrow> int \<Rightarrow> series res" where
  "sma xs period =
     (if period \<le> 0 then Inl (ValueError ''period must be positive'')
      else series_loop (sma_body xs (nat period)) 0 (length xs) (Fin 0, no_values (length xs)))"

definition ema_body :: "pyfloat list \<Rightarrow> pyfloat \<Rightarrow> nat \<Rightarrow> pyfloat \<Rightarrow> (pyfloat \<times> pyfloat option) res" where
  "ema_body xs multiplier i prev =
     (let v = fadd (fmul (fsub (xs ! i) prev) multiplier) prev in Inr (v, Some v))"

definition ema :: "pyfloat list \<Rightarrow> int \<Rightarrow> series res" where
  "ema xs period =
     (if period \<le> 0 then Inl (ValueError ''period must be positive'')
      else if xs = [] then Inr []
      else bind_res (sma xs period) (\<lambda>seed.
        let start = nat period - 1 in
        if length xs \<le> start then Inr (no_values (length xs))
        else case seed ! start of
          None \<Rightarrow> Inr (no_values (length xs))
        | Some prev \<Rightarrow>
            series_loop (ema_body xs (rnd (2 / (of_int period + 1)))) (start + 1) (length xs)
              (prev, (no_values (length xs))[start := Some prev])))"

section \<open>Relative strength\<close>

definition rsi_value :: "pyfloat \<Rightarrow> pyfloat \<Rightarrow> pyfloat res" where
  "rsi_value avg_gain avg_loss =
     (if avg_loss = Fin 0 then Inr (Fin 100)
      else bind_res (fdiv avg_gain avg_loss) (\<lambda>rs.
           bind_res (fdiv (Fin 100) (fadd (Fin 1) rs)) (\<lambda>q. Inr (fsub (Fin 100) q))))"

definition rsi_seed :: "pyfloat list \<Rightarrow> nat \<Rightarrow> pyfloat \<times> pyfloat \<Rightarrow> pyfloat \<times> pyfloat" where
  "rsi_seed xs i acc = (case acc of (gains, losses) \<Rightarrow>
     let delta = fsub (xs ! i) (xs ! (i - 1))
     in if fle (Fin 0) delta then (fadd gains delta, losses) else (gains, fsub losses delta))"

definition rsi_body :: "pyfloat list \<Rightarrow> nat \<Rightarrow> nat \<Rightarrow> pyfloat \<times> pyfloat \<Rightarrow> ((pyfloat \<times> pyfloat) \<times> pyfloat option) res" where
  "rsi_body xs p i acc = (case acc of (avg_gain, avg_loss) \<Rightarrow>
     let delta = fsub (xs ! i) (xs ! (i - 1));
         gain = pmax delta (Fin 0);
         loss = pmax (fneg delta) (Fin 0);
         g = fquot (fadd (fmul avg_gain (f_of_int (int p - 1))) gain) (f_of_int (int p));
         l = fquot (fadd (fmul avg_loss (f_of_int (int p - 1))) loss) (f_of_int (int p))
     in bind_res (rsi_value g l) (\<lambda>v. Inr ((g, l), Some v)))"

definition rsi :: "pyfloat list \<Rightarrow> nat \<Rightarrow> series res" where
  "rsi xs p =
     (if length xs \<le> p then Inr (no_values (length xs))
      else case fold (rsi_seed xs) [1..<p + 1] (Fin 0, Fin 0) of (gains, losses) \<Rightarrow>
        bind_res (fdiv gains (f_of_int (int p))) (\<lambda>g.
        bind_res (fdiv losses (f_of_int (int p))) (\<lambda>l.
        bind_res (rsi_value g l) (\<lambda>v.
          series_loop (rsi_body xs p) (p + 1) (length xs) ((g, l), (no_values (length xs))[p := Some v])))))"

section \<open>Convergence of moving averages\<close>

definition macd_line :: "series \<Rightarrow> series \<Rightarrow> series" where
  "macd_line fast slow = map2 (\<lambda>f s. case (f, s) of (Some a, Some b) \<Rightarrow> Some (fsub a b) | _ \<Rightarrow> None) fast slow"

text \<open>The signal values of the compacted line go back to the places the line has a value.\<close>

fun spread :: "series \<Rightarrow> series \<Rightarrow> series" where
  "spread [] sigs = []"
| "spread (None # line) sigs = None # spread line sigs"
| "spread (Some v # line) sigs = hd sigs # spread line (tl sigs)"

definition histogram :: "series \<Rightarrow> series \<Rightarrow> series" where
  "histogram line signal = map2 (\<lambda>v s. case (v, s) of (Some a, Some b) \<Rightarrow> Some (fsub a b) | _ \<Rightarrow> None) line signal"

definition macd :: "pyfloat list \<Rightarrow> int \<Rightarrow> int \<Rightarrow> int \<Rightarrow> (series \<times> series \<times> series) res" where
  "macd xs fast slow signal =
     bind_res (ema xs fast) (\<lambda>f. bind_res (ema xs slow) (\<lambda>s.
       let line = macd_line f s in
       bind_res (ema (map the (filter (\<lambda>v. v \<noteq> None) line)) signal) (\<lambda>sigs.
         let signal_line = spread line sigs in Inr (line, signal_line, histogram line signal_line))))"

section \<open>Ranges and bands\<close>

definition true_range :: "pyfloat list \<Rightarrow> pyfloat list \<Rightarrow> pyfloat list \<Rightarrow> nat \<Rightarrow> pyfloat res" where
  "true_range highs lows closes i =
     bind_res (py_at highs i) (\<lambda>h. bind_res (py_at lows i) (\<lambda>l.
       if i = 0 then Inr (fsub h l)
       else let c = closes ! (i - 1)
            in Inr (pmax (pmax (fsub h l) (fabs (fsub h c))) (fabs (fsub l c)))))"

definition true_ranges :: "pyfloat list \<Rightarrow> pyfloat list \<Rightarrow> pyfloat list \<Rightarrow> pyfloat list res" where
  "true_ranges highs lows closes =
     fold_res (\<lambda>i trs. bind_res (true_range highs lows closes i) (\<lambda>t. Inr (trs @ [t]))) [0..<length closes] []"

definition atr_body :: "pyfloat list \<Rightarrow> nat \<Rightarrow> nat \<Rightarrow> pyfloat \<Rightarrow> (pyfloat \<times> pyfloat option) res" where
  "atr_body trs p i running =
     (let r1 = fadd running (trs ! i);
          r2 = (if p \<le> i then fsub r1 (trs ! (i - p)) else r1)
      in if int p - 1 \<le> int i then bind_res (fdiv r2 (f_of_int (int p))) (\<lambda>v. Inr (r2, Some v))
         else Inr (r2, None))"

definition atr :: "pyfloat list \<Rightarrow> pyfloat list \<Rightarrow> pyfloat list \<Rightarrow> nat \<Rightarrow> series res" where
  "atr highs lows closes p =
     (if closes = [] then Inr []
      else bind_res (true_ranges highs lows closes) (\<lambda>trs.
        series_loop (atr_body trs p) 0 (length closes) (Fin 0, no_values (length closes))))"

definition variance :: "pyfloat \<Rightarrow> pyfloat list \<Rightarrow> nat \<Rightarrow> pyfloat res" where
  "variance mean window p =
     fdiv (fsum (map (\<lambda>x. fmul (fsub x mean) (fsub x mean)) window)) (f_of_int (int p))"

record bands =
  bb_middle :: series
  bb_upper :: series
  bb_lower :: series
  bb_bandwidth :: series

definition bollinger_at ::
  "(pyfloat \<Rightarrow> pyfloat) \<Rightarrow> pyfloat list \<Rightarrow> nat \<Rightarrow> pyfloat \<Rightarrow> nat \<Rightarrow> pyfloat \<Rightarrow> (pyfloat \<times> pyfloat \<times> pyfloat option) res" where
  "bollinger_at half_power xs p num_std i mean =
     bind_res (variance mean (take p (drop (i + 1 - p) xs)) p) (\<lambda>var.
       let std = half_power var;
           up = fadd mean (fmul num_std std);
           low = fsub mean (fmul num_std std)
       in if mean = Fin 0 then Inr (up, low, None)
          else bind_res (fdiv (fsub up low) mean) (\<lambda>w. Inr (up, low, Some w)))"

definition bollinger ::
  "(pyfloat \<Rightarrow> pyfloat) \<Rightarrow> pyfloat list \<Rightarrow> int \<Rightarrow> pyfloat \<Rightarrow> bands res" where
  "bollinger half_power xs period num_std =
     bind_res (sma xs period) (\<lambda>mid. fold_res (\<lambda>i b.
         case mid ! i of
           None \<Rightarrow> Inr b
         | Some mean \<Rightarrow> bind_res (bollinger_at half_power xs (nat period) num_std i mean) (\<lambda>(up, low, w).
             Inr (b\<lparr>bb_upper := (bb_upper b)[i := Some up], bb_lower := (bb_lower b)[i := Some low],
                    bb_bandwidth := (bb_bandwidth b)[i := w]\<rparr>)))
       [0..<length xs]
       \<lparr>bb_middle = mid, bb_upper = no_values (length xs), bb_lower = no_values (length xs),
        bb_bandwidth = no_values (length xs)\<rparr>)"

definition simple_return :: "pyfloat list \<Rightarrow> nat \<Rightarrow> pyfloat" where
  "simple_return xs i =
     (if i = 0 \<or> xs ! (i - 1) = Fin 0 then Fin 0
      else fquot (fsub (xs ! i) (xs ! (i - 1))) (xs ! (i - 1)))"

definition volatility_body ::
  "(pyfloat \<Rightarrow> pyfloat) \<Rightarrow> pyfloat list \<Rightarrow> nat \<Rightarrow> nat \<Rightarrow> unit \<Rightarrow> (unit \<times> pyfloat option) res" where
  "volatility_body half_power returns p i u =
     (let window = take p (drop (i + 1 - p) returns) in
      bind_res (fdiv (fsum window) (f_of_int (int p))) (\<lambda>mean.
      bind_res (variance mean window p) (\<lambda>var. Inr ((), Some (half_power var)))))"

definition realized_volatility :: "(pyfloat \<Rightarrow> pyfloat) \<Rightarrow> pyfloat list \<Rightarrow> nat \<Rightarrow> series res" where
  "realized_volatility half_power xs p =
     (let returns = Fin 0 # map (simple_return xs) [1..<length xs]
      in series_loop (volatility_body half_power returns p) p (length xs) ((), no_values (length xs)))"

section \<open>Volume, levels and the last value\<close>

record volume_stats =
  vs_last :: "pyfloat option"
  vs_sma :: "pyfloat option"
  vs_relative :: "pyfloat option"

definition volume_metrics :: "pyfloat list \<Rightarrow> int \<Rightarrow> volume_stats res" where
  "volume_metrics volumes period =
     (if volumes = [] then Inr \<lparr>vs_last = None, vs_sma = None, vs_relative = None\<rparr>
      else bind_res (sma volumes period) (\<lambda>vol_sma.
        let final = last volumes; avg = last vol_sma
        in Inr \<lparr>vs_last = Some final, vs_sma = avg,
                vs_relative = (case avg of None \<Rightarrow> None
                  | Some a \<Rightarrow> if a = Fin 0 then None else Some (fquot final a))\<rparr>))"

text \<open>\<open>max(xs)\<close> and \<open>min(xs)\<close>: the first of the extreme elements.\<close>

definition py_max :: "pyfloat list \<Rightarrow> pyfloat res" where
  "py_max xs = (case xs of [] \<Rightarrow> Inl (ValueError ''max() iterable argument is empty'')
                | y # ys \<Rightarrow> Inr (foldl pmax y ys))"

definition py_min :: "pyfloat list \<Rightarrow> pyfloat res" where
  "py_min xs = (case xs of [] \<Rightarrow> Inl (ValueError ''min() iterable argument is empty'')
                | y # ys \<Rightarrow> Inr (foldl pmin y ys))"

text \<open>\<open>xs[-n:]\<close>: the whole list for \<open>n = 0\<close>.\<close>

definition tail_slice :: "nat \<Rightarrow> 'a list \<Rightarrow> 'a list" where
  "tail_slice n xs = (if n = 0 then xs else last_n n xs)"

definition support_resistance ::
  "pyfloat list \<Rightarrow> pyfloat list \<Rightarrow> nat \<Rightarrow> (pyfloat option \<times> pyfloat option) res" where
  "support_resistance highs lows lookback =
     (if highs = [] \<or> lows = [] then Inr (None, None)
      else bind_res (py_min (tail_slice lookback lows)) (\<lambda>s.
           bind_res (py_max (tail_slice lookback highs)) (\<lambda>r. Inr (Some s, Some r))))"

definition last_number :: "series \<Rightarrow> pyfloat option" where
  "last_number xs = (case filter (\<lambda>v. v \<noteq> None) (rev xs) of [] \<Rightarrow> None | v # _ \<Rightarrow> v)"

section \<open>Directional movement\<close>

record adx_state =
  ax_atr :: pyfloat
  ax_plus :: pyfloat
  ax_minus :: pyfloat
  ax_dx :: "pyfloat list"
  ax_plus_di :: series
  ax_minus_di :: series
  ax_adx :: series

definition plus_move :: "pyfloat list \<Rightarrow> pyfloat list \<Rightarrow> nat \<Rightarrow> pyfloat" where
  "plus_move highs lows i =
     (if i = 0 then Fin 0
      else let up = fsub (highs ! i) (highs ! (i - 1)); down = fsub (lows ! (i - 1)) (lows ! i)
           in if flt down up \<and> flt (Fin 0) up then up else Fin 0)"

definition minus_move :: "pyfloat list \<Rightarrow> pyfloat list \<Rightarrow> nat \<Rightarrow> pyfloat" where
  "minus_move highs lows i =
     (if i = 0 then Fin 0
      else let up = fsub (highs ! i) (highs ! (i - 1)); down = fsub (lows ! (i - 1)) (lows ! i)
           in if flt up down \<and> flt (Fin 0) down then down else Fin 0)"

definition wilder :: "pyfloat \<Rightarrow> nat \<Rightarrow> pyfloat \<Rightarrow> pyfloat" where
  "wilder smooth p x = fadd (fsub smooth (fquot smooth (f_of_int (int p)))) x"

definition adx_direction :: "adx_state \<Rightarrow> nat \<Rightarrow> (adx_state \<times> pyfloat) res" where
  "adx_direction s i =
     (if ax_atr s = Fin 0
      then Inr (s\<lparr>ax_plus_di := (ax_plus_di s)[i := Some (Fin 0)],
                  ax_minus_di := (ax_minus_di s)[i := Some (Fin 0)]\<rparr>, Fin 0)
      else bind_res (fdiv (fmul (Fin 100) (ax_plus s)) (ax_atr s)) (\<lambda>pdi.
           bind_res (fdiv (fmul (Fin 100) (ax_minus s)) (ax_atr s)) (\<lambda>mdi.
             let s1 = s\<lparr>ax_plus_di := (ax_plus_di s)[i := Some pdi],
                        ax_minus_di := (ax_minus_di s)[i := Some mdi]\<rparr>;
                 denom = fadd pdi mdi
             in if denom = Fin 0 then Inr (s1, Fin 0)
                else bind_res (fdiv (fabs (fsub pdi mdi)) denom) (\<lambda>q. Inr (s1, fmul q (Fin 100))))))"

definition adx_average :: "adx_state \<Rightarrow> nat \<Rightarrow> nat \<Rightarrow> pyfloat \<Rightarrow> adx_state res" where
  "adx_average s p i dx =
     (if length (ax_dx s) = p
      then bind_res (fdiv (fsum (ax_dx s)) (f_of_int (int p))) (\<lambda>a. Inr (s\<lparr>ax_adx := (ax_adx s)[i := Some a]\<rparr>))
      else if p < length (ax_dx s)
      then case ax_adx s ! (if i = 0 then length (ax_adx s) - 1 else i - 1) of
             None \<Rightarrow> Inl AssertionError
           | Some prev \<Rightarrow>
               bind_res (fdiv (fadd (fmul prev (f_of_int (int p - 1))) dx) (f_of_int (int p)))
                 (\<lambda>a. Inr (s\<lparr>ax_adx := (ax_adx s)[i := Some a]\<rparr>))
      else Inr s)"

definition adx_step ::
  "pyfloat list \<Rightarrow> pyfloat list \<Rightarrow> pyfloat list \<Rightarrow> nat \<Rightarrow> nat \<Rightarrow> adx_state \<Rightarrow> adx_state res" where
  "adx_step trs plus_dm minus_dm p i s =
     (let s1 = (if p < i then s\<lparr>ax_atr := wilder (ax_atr s) p (trs ! i),
                               ax_plus := wilder (ax_plus s) p (plus_dm ! i),
                               ax_minus := wilder (ax_minus s) p (minus_dm ! i)\<rparr> else s)
      in bind_res (adx_direction s1 i) (\<lambda>(s2, dx).
           adx_average (s2\<lparr>ax_dx := ax_dx s2 @ [dx]\<rparr>) p i dx))"

definition adx :: "pyfloat list \<Rightarrow> pyfloat list \<Rightarrow> pyfloat list \<Rightarrow> nat \<Rightarrow> (series \<times> series \<times> series) res" where
  "adx highs lows closes p =
     (let n = length closes; none = no_values n in
      if n \<le> p then Inr (none, none, none)
      else bind_res (true_ranges highs lows closes) (\<lambda>trs.
        let plus_dm = map (plus_move highs lows) [0..<n]; minus_dm = map (minus_move highs lows) [0..<n];
            window = (\<lambda>xs. fsum (take p (drop 1 xs)))
        in bind_res (fold_res (adx_step trs plus_dm minus_dm p) [p..<n]
             \<lparr>ax_atr = window trs, ax_plus = window plus_dm, ax_minus = window minus_dm, ax_dx = [],
              ax_plus_di = none, ax_minus_di = none, ax_adx = none\<rparr>)
           (\<lambda>s. Inr (ax_adx s, ax_plus_di s, ax_minus_di s))))"

section \<open>Volume weighted price, swings and structure\<close>

definition vwap_body ::
  "pyfloat list \<Rightarrow> pyfloat list \<Rightarrow> pyfloat list \<Rightarrow> pyfloat list \<Rightarrow> nat \<Rightarrow> pyfloat \<times> pyfloat \<Rightarrow> ((pyfloat \<times> pyfloat) \<times> pyfloat option) res" where
  "vwap_body highs lows closes volumes i acc = (case acc of (pv, vol) \<Rightarrow>
     let typical = fquot (fadd (fadd (highs ! i) (lows ! i)) (closes ! i)) (Fin 3);
         pv1 = fadd pv (fmul typical (volumes ! i));
         vol1 = fadd vol (volumes ! i)
     in Inr ((pv1, vol1), if vol1 = Fin 0 then None else Some (fquot pv1 vol1)))"

definition vwap :: "pyfloat list \<Rightarrow> pyfloat list \<Rightarrow> pyfloat list \<Rightarrow> pyfloat list \<Rightarrow> series res" where
  "vwap highs lows closes volumes =
     (if length lows = length highs \<and> length closes = length highs \<and> length volumes = length highs
      then series_loop (vwap_body highs lows closes volumes) 0 (length closes)
             ((Fin 0, Fin 0), no_values (length closes))
      else Inl (ValueError ''zip() arguments have different lengths''))"

type_synonym swings = "(nat \<times> pyfloat) list"

definition swing_step ::
  "pyfloat list \<Rightarrow> pyfloat list \<Rightarrow> nat \<Rightarrow> nat \<Rightarrow> nat \<Rightarrow> swings \<times> swings \<Rightarrow> (swings \<times> swings) res" where
  "swing_step highs lows left right i acc = (case acc of (sh, sl) \<Rightarrow>
     let window = (\<lambda>xs. take (left + right + 1) (drop (i - left) xs)) in
     bind_res (py_max (window highs)) (\<lambda>top.
     bind_res (py_at lows i) (\<lambda>low.
     bind_res (py_min (window lows)) (\<lambda>bottom.
       Inr (if feq (highs ! i) top then sh @ [(i, highs ! i)] else sh,
            if feq low bottom then sl @ [(i, low)] else sl)))))"

definition swing_points ::
  "pyfloat list \<Rightarrow> pyfloat list \<Rightarrow> nat \<Rightarrow> nat \<Rightarrow> (swings \<times> swings) res" where
  "swing_points highs lows left right =
     fold_res (swing_step highs lows left right) [left..<length highs - right] ([], [])"

definition structural_3bar_swing_stop :: "pyfloat list \<Rightarrow> pyfloat list \<Rightarrow> string \<Rightarrow> pyfloat option" where
  "structural_3bar_swing_stop highs lows side =
     (if length highs < 3 \<or> length lows < 3 then None
      else if py_upper side \<in> {''LONG'', ''BUY''}
           then (case last_n 3 lows of [] \<Rightarrow> None | y # ys \<Rightarrow> Some (foldl pmin y ys))
      else if py_upper side \<in> {''SHORT'', ''SELL''}
           then (case last_n 3 highs of [] \<Rightarrow> None | y # ys \<Rightarrow> Some (foldl pmax y ys))
      else None)"

definition fibonacci_levels :: "pyfloat \<Rightarrow> pyfloat \<Rightarrow> (string \<times> pyfloat) list" where
  "fibonacci_levels low high =
     (let diff = fsub high low; level = (\<lambda>r. fsub high (fmul (flit r) diff))
      in [(''0.0'', high), (''0.236'', level (236 / 1000)), (''0.382'', level (382 / 1000)),
          (''0.5'', level (1 / 2)), (''0.618'', level (618 / 1000)), (''0.786'', level (786 / 1000)),
          (''1.0'', low)])"

datatype gap_type = Bullish | Bearish

record gap =
  gap_index :: nat
  gap_kind :: gap_type
  gap_top :: pyfloat
  gap_bottom :: pyfloat

definition gap_step :: "pyfloat list \<Rightarrow> pyfloat list \<Rightarrow> nat \<Rightarrow> gap list \<Rightarrow> gap list res" where
  "gap_step highs lows i gaps =
     bind_res (py_at lows i) (\<lambda>low. bind_res (py_at highs (i - 2)) (\<lambda>high2.
       if flt high2 low
       then Inr (gaps @ [\<lparr>gap_index = i, gap_kind = Bullish, gap_top = low, gap_bottom = high2\<rparr>])
       else bind_res (py_at highs i) (\<lambda>high.
         if flt high (lows ! (i - 2))
         then Inr (gaps @ [\<lparr>gap_index = i, gap_kind = Bearish, gap_top = lows ! (i - 2), gap_bottom = high\<rparr>])
         else Inr gaps)))"

definition detect_fair_value_gaps :: "pyfloat list \<Rightarrow> pyfloat list \<Rightarrow> pyfloat list \<Rightarrow> gap list res" where
  "detect_fair_value_gaps highs lows closes = fold_res (gap_step highs lows) [2..<length closes] []"

datatype structure_break = Break_Unavailable | Bullish_Break pyfloat | Bearish_Break pyfloat | No_Break

definition market_structure_break :: "pyfloat list \<Rightarrow> swings \<Rightarrow> swings \<Rightarrow> structure_break" where
  "market_structure_break closes sh sl =
     (if closes = [] then Break_Unavailable
      else if sh \<noteq> [] \<and> flt (snd (last sh)) (last closes) then Bullish_Break (snd (last sh))
      else if sl \<noteq> [] \<and> flt (last closes) (snd (last sl)) then Bearish_Break (snd (last sl))
      else No_Break)"

section \<open>The bundle\<close>

definition compute_indicator_bundle ::
  "(pyfloat \<Rightarrow> pyfloat) \<Rightarrow> pyfloat list \<Rightarrow> pyfloat list \<Rightarrow> pyfloat list \<Rightarrow> pyfloat list \<Rightarrow> pyfloat list \<Rightarrow> (string \<times> pyfloat option) list res" where
  "compute_indicator_bundle half_power opens highs lows closes volumes =
     bind_res (macd closes 12 26 9) (\<lambda>(line, signal, hist).
     bind_res (bollinger half_power closes 20 (Fin 2)) (\<lambda>bb.
     bind_res (support_resistance highs lows 20) (\<lambda>(support, resistance).
     bind_res (volume_metrics volumes 20) (\<lambda>vol.
     bind_res (adx highs lows closes 11) (\<lambda>(adx_vals, plus_di, minus_di).
     bind_res (map_res (sma closes) [20, 50]) (\<lambda>smas.
     bind_res (map_res (ema closes) [9, 12, 21, 26, 50, 200]) (\<lambda>emas.
     bind_res (rsi closes 14) (\<lambda>rsi_vals.
     bind_res (atr highs lows closes 14) (\<lambda>atr_vals.
     bind_res (vwap highs lows closes volumes) (\<lambda>vwap_vals.
     bind_res (realized_volatility half_power closes 20) (\<lambda>vol_vals.
       Inr (zip [''sma_20'', ''sma_50''] (map last_number smas)
          @ zip [''ema_9'', ''ema_12'', ''ema_21'', ''ema_26'', ''ema_50'', ''ema_200''] (map last_number emas)
          @ [(''rsi_14'', last_number rsi_vals), (''macd'', last_number line),
             (''macd_signal'', last_number signal), (''macd_histogram'', last_number hist),
             (''atr_14'', last_number atr_vals), (''adx_11'', last_number adx_vals),
             (''plus_di_11'', last_number plus_di), (''minus_di_11'', last_number minus_di),
             (''vwap'', last_number vwap_vals), (''bollinger_middle'', last_number (bb_middle bb)),
             (''bollinger_upper'', last_number (bb_upper bb)), (''bollinger_lower'', last_number (bb_lower bb)),
             (''bollinger_bandwidth'', last_number (bb_bandwidth bb)),
             (''volatility_20'', last_number vol_vals), (''volume_last'', vs_last vol),
             (''volume_sma_20'', vs_sma vol), (''volume_relative'', vs_relative vol),
             (''support'', support), (''resistance'', resistance),
             (''last_close'', if closes = [] then None else Some (last closes)),
             (''last_open'', if opens = [] then None else Some (last opens))]))))))))))))"

section \<open>The running average is the mean of the window\<close>

definition window_sum :: "int list \<Rightarrow> nat \<Rightarrow> nat \<Rightarrow> int" where
  "window_sum ms p i = sum_list (take p (drop (i + 1 - p) ms))"

definition window_mean :: "int list \<Rightarrow> nat \<Rightarrow> nat \<Rightarrow> pyfloat option" where
  "window_mean ms p i = (if i + 1 < p then None else Some (fquot (whole (window_sum ms p i)) (whole (int p))))"

lemma sum_list_bound: "\<bar>sum_list (xs :: int list)\<bar> \<le> sum_list (map abs xs)"
  by (induction xs) auto

lemma sum_abs_split: "sum_list (map abs (xs @ ys)) = sum_list (map abs xs) + sum_list (map abs (ys :: int list))"
  by simp

lemma sum_abs_infix:
  "sum_list (map abs (take a (drop b (ms :: int list)))) \<le> sum_list (map abs ms)"
proof -
  have nonneg: "0 \<le> sum_list (map abs xs)" for xs :: "int list" by (induction xs) auto
  have "ms = take b ms @ take a (drop b ms) @ drop a (drop b ms)" by (simp only: append_take_drop_id)
  then have "sum_list (map abs ms) = sum_list (map abs (take b ms)) + (sum_list (map abs (take a (drop b ms)))
      + sum_list (map abs (drop a (drop b ms))))"
    by (metis sum_abs_split)
  with nonneg [of "take b ms"] nonneg [of "drop a (drop b ms)"] show ?thesis by linarith
qed

text \<open>One round moves the window by one place.\<close>

abbreviation window_before :: "int list \<Rightarrow> nat \<Rightarrow> nat \<Rightarrow> int list" where
  "window_before ms p i \<equiv> drop (i - p) (take i ms)"

lemma window_slide:
  assumes "i < length ms" and "0 < p"
  shows "sum_list (window_before ms p (Suc i))
    = sum_list (window_before ms p i) + ms ! i - (if p \<le> i then ms ! (i - p) else 0)"
proof (cases "p \<le> i")
  case True
  then have "window_before ms p i = ms ! (i - p) # drop (Suc i - p) (take i ms)"
    using assms by (subst Cons_nth_drop_Suc [symmetric]) (auto simp: Suc_diff_le)
  moreover have "window_before ms p (Suc i) = drop (Suc i - p) (take i ms) @ [ms ! i]"
    using True assms by (simp add: take_Suc_conv_app_nth)
  ultimately show ?thesis using True by simp
next
  case False
  then show ?thesis using assms by (simp add: take_Suc_conv_app_nth)
qed

lemma window_before_bound: "\<bar>sum_list (window_before ms p i)\<bar> \<le> sum_list (map abs ms)"
  using sum_abs_infix [of "i - (i - p)" "i - p" ms] sum_list_bound [of "window_before ms p i"]
  by (simp add: drop_take)

lemma window_before_plus:
  assumes "i < length ms"
  shows "\<bar>sum_list (window_before ms p i) + ms ! i\<bar> \<le> sum_list (map abs ms)"
proof -
  have "sum_list (window_before ms p i) + ms ! i = sum_list (drop (i - p) (take (Suc i) ms))"
    using assms by (simp add: take_Suc_conv_app_nth)
  also have "\<bar>\<dots>\<bar> \<le> sum_list (map abs ms)"
    using sum_abs_infix [of "Suc i - (i - p)" "i - p" ms] sum_list_bound [of "drop (i - p) (take (Suc i) ms)"]
    by (simp add: drop_take)
  finally show ?thesis .
qed

lemma window_sum_before: "p \<le> i + 1 \<Longrightarrow> window_sum ms p i = sum_list (window_before ms p (Suc i))"
  by (simp add: window_sum_def drop_take)

lemma f_of_int_whole [simp]: "\<bar>m\<bar> < 2 ^ 53 \<Longrightarrow> f_of_int m = whole m"
  by (simp add: f_of_int_def whole_def rnd_of_int)

lemma sma_body_whole:
  assumes "i < length ms" "0 < p" "int p < 2 ^ 53" and bound: "sum_list (map abs ms) < 2 ^ 53"
  shows "sma_body (map whole ms) p i (whole (sum_list (window_before ms p i)))
    = Inr (whole (sum_list (window_before ms p (Suc i))), window_mean ms p i)"
proof -
  have "fadd (whole (sum_list (window_before ms p i))) (whole (ms ! i))
      = whole (sum_list (window_before ms p i) + ms ! i)"
    using window_before_plus [OF assms(1), where p = p] bound by (intro whole_add) linarith
  moreover have "p \<le> i \<Longrightarrow> fsub (whole (sum_list (window_before ms p i) + ms ! i)) (whole (ms ! (i - p)))
      = whole (sum_list (window_before ms p (Suc i)))"
    using window_slide [OF assms(1,2)] window_before_bound [where ms = ms and p = p and i = "Suc i"] bound
    by (subst whole_sub) auto
  moreover have "\<not> p \<le> i \<Longrightarrow> sum_list (window_before ms p i) + ms ! i = sum_list (window_before ms p (Suc i))"
    using window_slide [OF assms(1,2)] by simp
  moreover have "p - 1 \<le> i \<longleftrightarrow> \<not> i + 1 < p" using assms(2) by auto
  ultimately show ?thesis
    using assms by (auto simp: sma_body_def Let_def window_mean_def window_sum_before)
qed

lemma list_update_next: "(map f [0..<k] @ replicate (Suc m) x)[k := y] = map f [0..<k] @ y # replicate m x"
  by (simp add: list_update_append)

lemma sma_rounds:
  assumes "0 < p" "int p < 2 ^ 53" "sum_list (map abs ms) < 2 ^ 53" and "k \<le> length ms"
  shows "fold_res (series_step (sma_body (map whole ms) p)) [0..<k] (Fin 0, no_values (length ms))
    = Inr (whole (sum_list (window_before ms p k)),
           map (window_mean ms p) [0..<k] @ no_values (length ms - k))"
  using assms(4)
proof (induction k)
  case 0
  show ?case by (simp add: whole_0)
next
  case (Suc k)
  then have "no_values (length ms - k) = no_values (Suc (length ms - Suc k))" by (simp add: Suc_diff_Suc)
  then have "(if window_mean ms p k = None then map (window_mean ms p) [0..<k] @ no_values (length ms - k)
      else (map (window_mean ms p) [0..<k] @ no_values (length ms - k))[k := window_mean ms p k])
    = map (window_mean ms p) [0..<Suc k] @ no_values (length ms - Suc k)"
    using list_update_next [of "window_mean ms p" k "length ms - Suc k" None "window_mean ms p k"] by auto
  moreover have "sma_body (map whole ms) p k (whole (sum_list (window_before ms p k)))
      = Inr (whole (sum_list (window_before ms p (Suc k))), window_mean ms p k)"
    using Suc.prems assms(1-3) by (intro sma_body_whole) auto
  ultimately show ?case using Suc by (simp add: fold_res_append series_step_def)
qed

text \<open>C10: On whole prices whose absolute sum stays below \<open>2 ^ 53\<close> the one pass moving average
  with its running total is exactly the mean of the last \<open>period\<close> prices at every index
  that has that many, and has no value before.\<close>
theorem sma_is_window_mean:
  assumes "0 < period" and "period < 2 ^ 53" and "sum_list (map abs ms) < 2 ^ 53"
  shows "sma (map whole ms) period = Inr (map (window_mean ms (nat period)) [0..<length ms])"
  using sma_rounds [of "nat period" ms "length ms"] assms by (simp add: sma_def series_loop_def)

lemma sma_is_window_mean_witness:
  "sma (map whole [100, 104, 99, 107, 90]) 3
    = Inr (map (window_mean [100, 104, 99, 107, 90] (nat 3)) [0..<length [100, 104, 99, 107, 90 :: int]])"
  by (rule sma_is_window_mean) simp_all

section \<open>The range of the relative strength index\<close>

definition in_range :: "rat \<Rightarrow> pyfloat \<Rightarrow> bool" where
  "in_range k y \<longleftrightarrow> fle (Fin 0) y \<and> fle y (Fin k)"

lemma in_range_iff: "in_range k y \<longleftrightarrow> (\<exists>z. y = Fin z \<and> 0 \<le> z \<and> z \<le> k)"
  by (cases y) (auto simp: in_range_def)

lemma in_range_rnd: "rnd k = Fin k \<Longrightarrow> 0 \<le> z \<Longrightarrow> z \<le> k \<Longrightarrow> in_range k (rnd z)"
  by (simp add: in_range_def rnd_nonneg rnd_Fin_mono_upper)

lemma rnd_whole: "\<bar>m\<bar> < 2 ^ 53 \<Longrightarrow> rnd (of_int m) = Fin (of_int m)"
  using rnd_of_int by (simp add: whole_def)

lemma rsi_value_range:
  assumes "in_range b g" and "in_range b l"
  shows "\<exists>v. rsi_value g l = Inr v \<and> in_range 100 v"
proof (cases "l = Fin 0")
  case True
  then show ?thesis by (simp add: rsi_value_def in_range_def)
next
  case False
  obtain x where g: "g = Fin x" "0 \<le> x" using assms(1) by (auto simp: in_range_iff)
  obtain y where l: "l = Fin y" "0 < y" using assms(2) False by (force simp: in_range_iff)
  define d where "d = fadd (Fin 1) (rnd (x / y))"
  have "fle (Fin 1) d"
    using fadd_ge [of "Fin 1" "rnd (x / y)"] g(2) l(2) rnd_1 by (simp add: d_def is_f64_def rnd_nonneg)
  then consider (inf) "d = PosInf" | (fin) z where "d = Fin z" "1 \<le> z" by (cases d) auto
  then have "\<exists>q. fdiv (Fin 100) d = Inr q \<and> in_range 100 q"
  proof cases
    case inf
    then show ?thesis by (simp add: fdiv_def in_range_def)
  next
    case fin
    then have "100 / z \<le> 100" and "0 \<le> 100 / z" by (simp_all add: divide_le_eq)
    with fin rnd_whole [of 100] show ?thesis by (auto simp: fdiv_def intro: in_range_rnd)
  qed
  then obtain q where q: "fdiv (Fin 100) d = Inr (Fin q)" "0 \<le> q" "q \<le> 100"
    by (auto simp: in_range_iff)
  have "fdiv g l = Inr (rnd (x / y))" using g l by (simp add: fdiv_def)
  with q False have "rsi_value g l = Inr (rnd (100 - q))" by (simp add: rsi_value_def d_def [symmetric])
  moreover have "in_range 100 (rnd (100 - q))" using q rnd_whole [of 100] by (intro in_range_rnd) auto
  ultimately show ?thesis by blast
qed

lemma wilder_range:
  assumes "in_range (of_int b) a" and "in_range (of_int b) x" and "0 < p" and "b * p < 2 ^ 53" and "0 \<le> b"
  shows "in_range (of_int b) (fquot (fadd (fmul a (whole (p - 1))) x) (whole p))"
proof -
  obtain a' x' where ax: "a = Fin a'" "0 \<le> a'" "a' \<le> of_int b" "x = Fin x'" "0 \<le> x'" "x' \<le> of_int b"
    using assms(1,2) by (auto simp: in_range_iff)
  have small: "\<bar>b * (p - 1)\<bar> < 2 ^ 53" "\<bar>b * p\<bar> < 2 ^ 53" "\<bar>b\<bar> < 2 ^ 53"
    using mult_left_mono [of 1 p b] mult_left_mono [of "p - 1" p b] mult_nonneg_nonneg [of b "p - 1"] assms(3-5)
    by auto
  have "a' * of_int (p - 1) \<le> of_int b * of_int (p - 1)" using ax assms(3) by (intro mult_right_mono) auto
  then have "in_range (of_int (b * (p - 1))) (fmul a (whole (p - 1)))"
    using ax assms(3) rnd_whole [OF small(1)] by (simp add: whole_def in_range_rnd)
  then obtain m where m: "fmul a (whole (p - 1)) = Fin m" "0 \<le> m" "m \<le> of_int (b * (p - 1))"
    by (auto simp: in_range_iff)
  then have "m + x' \<le> of_int (b * p)" using ax by (simp add: algebra_simps)
  then have "in_range (of_int (b * p)) (fadd (fmul a (whole (p - 1))) x)"
    using m ax rnd_whole [OF small(2)] by (simp add: in_range_rnd)
  then obtain n where n: "fadd (fmul a (whole (p - 1))) x = Fin n" "0 \<le> n" "n \<le> of_int (b * p)"
    by (auto simp: in_range_iff)
  then have "n / of_int p \<le> of_int b" using assms(3) by (simp add: divide_le_eq)
  then show ?thesis
    using n assms(3) rnd_whole [OF small(3)] by (simp add: whole_def in_range_rnd)
qed

lemma delta_range:
  assumes "in_range (of_int b) x" "in_range (of_int b) y" "0 \<le> b" "b < 2 ^ 53"
  shows "\<exists>d. fsub x y = Fin d \<and> - of_int b \<le> d \<and> d \<le> of_int b"
proof -
  obtain x' y' where xy: "x = Fin x'" "0 \<le> x'" "x' \<le> of_int b" "y = Fin y'" "0 \<le> y'" "y' \<le> of_int b"
    using assms(1,2) by (auto simp: in_range_iff)
  have "fle (rnd (x' - y')) (Fin (of_int b))" using xy rnd_whole [of b] assms(3,4) by (intro rnd_Fin_mono_upper) auto
  moreover have "fle (Fin (- of_int b)) (rnd (x' - y'))"
    using xy rnd_whole [of "- b"] assms(3,4) by (intro rnd_Fin_mono) auto
  ultimately show ?thesis using xy by (cases "rnd (x' - y')") auto
qed

lemma change_range:
  assumes "in_range (of_int b) x" "in_range (of_int b) y" "0 \<le> b" "b < 2 ^ 53"
  shows "in_range (of_int b) (pmax (fsub x y) (Fin 0))" "in_range (of_int b) (pmax (fneg (fsub x y)) (Fin 0))"
  using delta_range [OF assms] assms(3) by (auto simp: pmax_def in_range_def)

lemma seed_range:
  assumes "\<And>x. x \<in> set xs \<Longrightarrow> in_range (of_int b) x" and "0 \<le> b" and "p < length xs" and "b * int p < 2 ^ 53"
    and "k \<le> p"
  shows "\<exists>g l. fold (rsi_seed xs) [1..<k + 1] (Fin 0, Fin 0) = (g, l)
    \<and> in_range (of_int (b * int k)) g \<and> in_range (of_int (b * int k)) l"
  using assms(5)
proof (induction k)
  case 0
  then show ?case by (simp add: in_range_def)
next
  case (Suc k)
  then obtain g l where run: "fold (rsi_seed xs) [1..<k + 1] (Fin 0, Fin 0) = (g, l)"
    and g: "in_range (of_int (b * int k)) g" and l: "in_range (of_int (b * int k)) l" by auto
  have "b * int (Suc k) \<le> b * int p" using assms(2) Suc.prems by (intro mult_left_mono) auto
  then have small: "b * int (Suc k) < 2 ^ 53" "0 \<le> b * int (Suc k)" using assms(2,4) by simp_all
  moreover have "b * 1 \<le> b * int (Suc k)" using assms(2) by (intro mult_left_mono) auto
  ultimately have "b < 2 ^ 53" by linarith
  moreover have "Suc k < length xs" "k < length xs" using Suc.prems assms(3) by auto
  ultimately obtain d where d: "fsub (xs ! Suc k) (xs ! k) = Fin d" "- of_int b \<le> d" "d \<le> of_int b"
    using delta_range [of b "xs ! Suc k" "xs ! k"] assms(1,2) by (meson nth_mem)
  obtain g' l' where gl: "g = Fin g'" "0 \<le> g'" "g' \<le> of_int (b * int k)"
      "l = Fin l'" "0 \<le> l'" "l' \<le> of_int (b * int k)"
    using g l by (auto simp: in_range_iff)
  have step: "of_int (b * int (Suc k)) = (of_int (b * int k) + of_int b :: rat)" by (simp add: algebra_simps)
  have "rnd (of_int (b * int (Suc k))) = Fin (of_int (b * int (Suc k)))"
    using small by (intro rnd_whole) simp
  then have exact: "rnd (of_int b * of_nat k + of_int b) = Fin (of_int b * of_nat k + of_int b)"
    unfolding step by simp
  have more: "in_range (of_int (b * int (Suc k))) z" if "in_range (of_int (b * int k)) z" for z
  proof -
    have "fle (Fin (of_int (b * int k))) (Fin (of_int (b * int (Suc k))))" using step assms(2) by simp
    with that show ?thesis unfolding in_range_def by (blast intro: fle_trans)
  qed
  have "in_range (of_int (b * int (Suc k))) (fadd g (Fin d))" if "0 \<le> d"
    using gl d that step by (auto intro!: in_range_rnd exact)
  moreover have "in_range (of_int (b * int (Suc k))) (fsub l (Fin d))" if "d < 0"
    using gl d that step by (auto intro!: in_range_rnd exact)
  moreover have "fold (rsi_seed xs) [1..<Suc k + 1] (Fin 0, Fin 0) = rsi_seed xs (Suc k) (g, l)"
    using run by simp
  moreover have "rsi_seed xs (Suc k) (g, l) = (if 0 \<le> d then (fadd g (Fin d), l) else (g, fsub l (Fin d)))"
    using d(1) by (simp add: rsi_seed_def)
  ultimately show ?case using more [OF g] more [OF l] by (cases "0 \<le> d") (simp_all del: upt_Suc)
qed

lemma mean_range:
  assumes "in_range (of_int (b * n)) z" and "0 < n" "0 \<le> b" "b < 2 ^ 53"
  shows "in_range (of_int b) (fquot z (whole n))"
proof -
  obtain y where y: "z = Fin y" "0 \<le> y" "y \<le> of_int (b * n)" using assms(1) by (auto simp: in_range_iff)
  then have "y / of_int n \<le> of_int b" using assms(2) by (simp add: divide_le_eq)
  with y assms rnd_whole [of b] show ?thesis by (simp add: whole_def in_range_rnd)
qed

text \<open>With prices between 0 and \<open>b\<close>, where \<open>b * period\<close> is below \<open>2 ^ 53\<close>, the relative
  strength index of a positive period never raises, and every value it gives is a
  number between 0 and 100: no NaN, no infinity and no rounding beyond the scale.\<close>
theorem rsi_in_scale:
  assumes "\<And>x. x \<in> set xs \<Longrightarrow> in_range (of_int b) x" and "0 < p" and "0 < b" and "b * int p < 2 ^ 53"
  shows "\<exists>r. rsi xs p = Inr r \<and> length r = length xs \<and> (\<forall>v. Some v \<in> set r \<longrightarrow> in_range 100 v)"
proof (cases "length xs \<le> p")
  case True
  then show ?thesis by (auto simp: rsi_def)
next
  case False
  have small: "int p < 2 ^ 53" "b < 2 ^ 53"
  proof -
    have "int p \<le> b * int p" and "b \<le> b * int p"
      using mult_right_mono [of 1 b "int p"] mult_left_mono [of 1 "int p" b] assms(2,3) by simp_all
    with assms(4) show "int p < 2 ^ 53" "b < 2 ^ 53" by linarith+
  qed
  have whole_p: "f_of_int (int p) = whole (int p)" "f_of_int (int p - 1) = whole (int p - 1)"
    using small assms(2) by simp_all
  obtain g l where seed: "fold (rsi_seed xs) [1..<p + 1] (Fin 0, Fin 0) = (g, l)"
    and "in_range (of_int (b * int p)) g" "in_range (of_int (b * int p)) l"
    using seed_range [where xs = xs and k = p and p = p and b = b] assms False by (auto simp del: upt_Suc)
  then have avg: "in_range (of_int b) (fquot g (whole (int p)))" "in_range (of_int b) (fquot l (whole (int p)))"
    using mean_range [of b "int p"] assms(2,3) small(2) by simp_all
  define Q where "Q = (\<lambda>(g, l). in_range (of_int b) g \<and> in_range (of_int b) l)"
  define P where "P = (\<lambda>v. \<forall>y. v = Some y \<longrightarrow> in_range 100 y)"
  obtain v where v: "rsi_value (fquot g (whole (int p))) (fquot l (whole (int p))) = Inr v" "in_range 100 v"
    using rsi_value_range [OF avg] by blast
  have "\<exists>r. series_loop (rsi_body xs p) (p + 1) (length xs)
      ((fquot g (whole (int p)), fquot l (whole (int p))), (no_values (length xs))[p := Some v]) = Inr r
      \<and> length r = length ((no_values (length xs))[p := Some v]) \<and> (\<forall>x\<in>set r. P x)"
  proof (rule series_loop_total [where Q = Q])
    show "Q (fquot g (whole (int p)), fquot l (whole (int p)))" using avg by (simp add: Q_def)
    show "P x" if "x \<in> set ((no_values (length xs))[p := Some v])" for x
      using that v(2) set_update_subset_insert [of "no_values (length xs)" p "Some v"] by (auto simp: P_def)
  next
    fix i t assume i: "p + 1 \<le> i" "i < length xs" and "Q t"
    then obtain g l where t: "t = (g, l)" "in_range (of_int b) g" "in_range (of_int b) l"
      by (auto simp: Q_def)
    let ?d = "fsub (xs ! i) (xs ! (i - 1))"
    let ?g = "fquot (fadd (fmul g (whole (int p - 1))) (pmax ?d (Fin 0))) (whole (int p))"
    let ?l = "fquot (fadd (fmul l (whole (int p - 1))) (pmax (fneg ?d) (Fin 0))) (whole (int p))"
    have "in_range (of_int b) (xs ! i)" "in_range (of_int b) (xs ! (i - 1))"
      using i assms(1) by simp_all
    then have "in_range (of_int b) (pmax ?d (Fin 0))" "in_range (of_int b) (pmax (fneg ?d) (Fin 0))"
      using change_range small(2) assms(3) by simp_all
    then have next_avg: "in_range (of_int b) ?g" "in_range (of_int b) ?l"
      using t assms(2-4) by (auto intro!: wilder_range)
    then obtain v where "rsi_value ?g ?l = Inr v" "in_range 100 v" using rsi_value_range by blast
    then show "\<exists>u v. rsi_body xs p i t = Inr (u, v) \<and> Q u \<and> (v \<noteq> None \<longrightarrow> P v)"
      using next_avg t(1) whole_p by (auto simp: rsi_body_def Let_def Q_def P_def)
  qed
  with seed v whole_p assms(2) False show ?thesis by (auto simp: rsi_def fdiv_def P_def whole_def)
qed

lemma rsi_in_scale_witness:
  "\<exists>r. rsi (map whole [44, 45, 43, 46, 41]) 2 = Inr r \<and> length r = length (map whole [44, 45, 43, 46, 41])
    \<and> (\<forall>v. Some v \<in> set r \<longrightarrow> in_range 100 v)"
  by (rule rsi_in_scale [where b = 1000]) (auto simp: in_range_def whole_def)

section \<open>No value depends on a later price\<close>

lemma take_no_values: "k \<le> n \<Longrightarrow> take k (no_values n) = no_values k"
  by simp

lemma nth_take_diff: "i < k \<Longrightarrow> take k xs ! (i - m) = xs ! (i - m)"
  by (intro nth_take) simp

lemma sma_prefix:
  assumes "sma xs period = Inr r" and "k \<le> length xs"
  shows "sma (take k xs) period = Inr (take k r)"
proof -
  from assms(1) have pos: "0 < period" and run:
    "series_loop (sma_body xs (nat period)) 0 (length xs) (Fin 0, no_values (length xs)) = Inr r"
    by (auto simp: sma_def split: if_splits)
  have "series_loop (sma_body (take k xs) (nat period)) 0 k (Fin 0, take k (no_values (length xs))) = Inr (take k r)"
    by (rule series_loop_prefix [OF run assms(2)]) (auto simp: sma_body_def nth_take_diff Let_def)
  with pos assms(2) show ?thesis by (simp add: sma_def min_absorb2)
qed

lemma series_length:
  "series_loop body a n (s, out) = Inr r \<Longrightarrow> length r = length out"
  by (auto simp: series_loop_def bind_res_Inr_iff dest: series_steps_length)

lemma series_loop_keep:
  "series_loop body a n (s, out) = Inr r \<Longrightarrow> k \<le> a \<Longrightarrow> take k r = take k out"
proof -
  assume "series_loop body a n (s, out) = Inr r" and "k \<le> a"
  then obtain t where "fold_res (series_step body) [a..<n] (s, out) = Inr (t, r)"
    by (auto simp: series_loop_def bind_res_Inr_iff)
  then show ?thesis by (rule series_steps_keep) (use \<open>k \<le> a\<close> in simp)
qed

lemma sma_length: "sma xs period = Inr r \<Longrightarrow> length r = length xs"
  by (auto simp: sma_def split: if_splits dest: series_length)

lemma ema_prefix:
  assumes "ema xs period = Inr r" and k: "k \<le> length xs"
  shows "ema (take k xs) period = Inr (take k r)"
proof (cases "k = 0 \<or> xs = []")
  case True
  with assms show ?thesis by (auto simp: ema_def split: if_splits)
next
  case False
  let ?n = "length xs" and ?start = "nat period - 1"
  let ?m = "rnd (2 / (of_int period + 1))"
  from assms(1) False obtain seed where pos: "0 < period" and seed: "sma xs period = Inr seed"
    by (auto simp: ema_def bind_res_Inr_iff split: if_splits)
  note short = sma_prefix [OF seed k] and len = sma_length [OF seed]
  show ?thesis
  proof (cases "?start < k")
    case outside: False
    then have "ema (take k xs) period = Inr (no_values k)"
      using pos k False short by (simp add: ema_def Let_def)
    moreover have "take k r = no_values k"
    proof (cases "?n \<le> ?start \<or> seed ! ?start = None")
      case True
      with assms(1) pos seed False k show ?thesis by (auto simp: ema_def Let_def split: if_splits)
    next
      case more: False
      then obtain prev where "seed ! ?start = Some prev" by auto
      with assms(1) pos seed more False have
        "series_loop (ema_body xs ?m) (?start + 1) ?n (prev, (no_values ?n)[?start := Some prev]) = Inr r"
        by (simp add: ema_def Let_def)
      then have "take k r = take k ((no_values ?n)[?start := Some prev])"
        by (rule series_loop_keep) (use outside in simp)
      with outside k show ?thesis by simp
    qed
    ultimately show ?thesis by simp
  next
    case inside: True
    show ?thesis
    proof (cases "seed ! ?start")
      case None
      with assms(1) pos seed inside k False have "r = no_values ?n" by (simp add: ema_def Let_def)
      with None pos short inside k False show ?thesis by (simp add: ema_def Let_def min_absorb2)
    next
      case (Some prev)
      with assms(1) pos seed inside k False have run:
        "series_loop (ema_body xs ?m) (?start + 1) ?n (prev, (no_values ?n)[?start := Some prev]) = Inr r"
        by (simp add: ema_def Let_def)
      have "series_loop (ema_body (take k xs) ?m) (?start + 1) k
          (prev, take k ((no_values ?n)[?start := Some prev])) = Inr (take k r)"
        by (rule series_loop_prefix [OF run k]) (use inside in \<open>auto simp: ema_body_def\<close>)
      with Some pos short inside k False show ?thesis
        by (simp add: ema_def Let_def min_absorb2 take_update_swap)
    qed
  qed
qed

lemma fold_cong_set: "(\<And>x. x \<in> set xs \<Longrightarrow> f x = g x) \<Longrightarrow> fold f xs s = fold g xs s"
  by (induction xs arbitrary: s) auto

lemma rsi_prefix:
  assumes "rsi xs p = Inr r" and k: "k \<le> length xs"
  shows "rsi (take k xs) p = Inr (take k r)"
proof (cases "length xs \<le> p")
  case True
  with assms show ?thesis by (auto simp: rsi_def)
next
  case False
  let ?n = "length xs" and ?p = "f_of_int (int p)"
  obtain gains losses where seed: "fold (rsi_seed xs) [1..<p + 1] (Fin 0, Fin 0) = (gains, losses)"
    by (metis surj_pair)
  with assms(1) False obtain g l v where gl: "fdiv gains ?p = Inr g" "fdiv losses ?p = Inr l" "rsi_value g l = Inr v"
    and run: "series_loop (rsi_body xs p) (p + 1) ?n ((g, l), (no_values ?n)[p := Some v]) = Inr r"
    by (auto simp: rsi_def bind_res_Inr_iff simp del: upt_Suc)
  show ?thesis
  proof (cases "k \<le> p")
    case True
    then have "take k r = take k ((no_values ?n)[p := Some v])" by (intro series_loop_keep [OF run]) simp
    with True k show ?thesis by (simp add: rsi_def)
  next
    case inside: False
    have "fold (rsi_seed (take k xs)) [1..<p + 1] (Fin 0, Fin 0) = fold (rsi_seed xs) [1..<p + 1] (Fin 0, Fin 0)"
      by (rule fold_cong_set) (use inside in \<open>auto simp: rsi_seed_def nth_take_diff\<close>)
    moreover have "series_loop (rsi_body (take k xs) p) (p + 1) k ((g, l), take k ((no_values ?n)[p := Some v])) = Inr (take k r)"
      by (rule series_loop_prefix [OF run k]) (use inside in \<open>auto simp: rsi_body_def nth_take_diff Let_def\<close>)
    ultimately show ?thesis
      using seed gl inside k by (simp add: rsi_def min_absorb2 take_update_swap del: upt_Suc)
  qed
qed

lemma fold_collect:
  "fold_res (\<lambda>i acc. bind_res (f i) (\<lambda>t. Inr (acc @ [t]))) is acc = bind_res (map_res f is) (\<lambda>ts. Inr (acc @ ts))"
proof (induction "is" arbitrary: acc)
  case (Cons i "is")
  then show ?case by (cases "f i") (auto simp: bind_res_def split: sum.splits)
qed simp

lemma map_res_take: "map_res f xs = Inr ys \<Longrightarrow> map_res f (take k xs) = Inr (take k ys)"
proof (induction xs arbitrary: ys k)
  case (Cons x xs)
  then show ?case by (cases k) (auto simp: bind_res_Inr_iff)
qed simp

lemma map_res_cong: "(\<And>x. x \<in> set xs \<Longrightarrow> f x = g x) \<Longrightarrow> map_res f xs = map_res g xs"
  by (induction xs) auto

lemma true_ranges_prefix:
  assumes "true_ranges highs lows closes = Inr trs" and "k \<le> length closes"
  shows "true_ranges (take k highs) (take k lows) (take k closes) = Inr (take k trs)"
proof -
  have "map_res (true_range highs lows closes) (take k [0..<length closes]) = Inr (take k trs)"
    using assms(1) by (intro map_res_take) (auto simp: true_ranges_def fold_collect bind_res_Inr_iff)
  moreover have "map_res (true_range (take k highs) (take k lows) (take k closes)) [0..<k]
      = map_res (true_range highs lows closes) [0..<k]"
    by (rule map_res_cong) (auto simp: true_range_def py_at_def nth_take_diff Let_def)
  ultimately show ?thesis using assms(2) by (simp add: true_ranges_def fold_collect min_absorb2 take_upt)
qed

lemma atr_prefix:
  assumes "atr highs lows closes p = Inr r" and k: "k \<le> length closes"
  shows "atr (take k highs) (take k lows) (take k closes) p = Inr (take k r)"
proof (cases "closes = [] \<or> k = 0")
  case True
  with assms show ?thesis by (auto simp: atr_def)
next
  case False
  with assms(1) obtain trs where trs: "true_ranges highs lows closes = Inr trs"
    and run: "series_loop (atr_body trs p) 0 (length closes) (Fin 0, no_values (length closes)) = Inr r"
    by (auto simp: atr_def bind_res_Inr_iff)
  have "series_loop (atr_body (take k trs) p) 0 k (Fin 0, take k (no_values (length closes))) = Inr (take k r)"
    by (rule series_loop_prefix [OF run k]) (auto simp: atr_body_def nth_take_diff Let_def)
  then show ?thesis
    using False k true_ranges_prefix [OF trs k] by (simp add: atr_def min_absorb2)
qed

lemmas series_prefix = sma_prefix ema_prefix rsi_prefix atr_prefix

end
