(* ===== verification/Backtest_Data.thy ===== *)
theory Backtest_Data
  imports Indicators
begin

text \<open>
  The data side of \<open>backtest/\<close>: normalised candles, the lookahead guard of \<open>replay.py\<close>, the
  chronological and walk-forward splits of \<open>splits.py\<close> and the strategy signals of
  \<open>signals.py\<close>.  A timestamp is the number of microseconds since the epoch.
\<close>

record candle =
  cd_time :: int
  cd_symbol :: string
  cd_timeframe :: string
  cd_open :: pyfloat
  cd_high :: pyfloat
  cd_low :: pyfloat
  cd_close :: pyfloat
  cd_volume :: pyfloat

section \<open>The lookahead guard\<close>

record guard =
  lg_all :: "candle list"
  lg_enabled :: bool
  lg_cursor :: int
  lg_violations :: "string list"

definition new_guard :: "candle list \<Rightarrow> bool \<Rightarrow> guard" where
  "new_guard cs enabled = \<lparr>lg_all = cs, lg_enabled = enabled, lg_cursor = -1, lg_violations = []\<rparr>"

definition guard_advance :: "guard \<Rightarrow> guard \<times> candle res" where
  "guard_advance g =
     (let g1 = g\<lparr>lg_cursor := lg_cursor g + 1\<rparr>
      in (g1, if int (length (lg_all g)) \<le> lg_cursor g1 then Inl IndexError else Inr (lg_all g ! nat (lg_cursor g1))))"

definition guard_available :: "guard \<Rightarrow> candle list" where
  "guard_available g = (if lg_cursor g < 0 then [] else take (nat (lg_cursor g) + 1) (lg_all g))"

definition guard_future :: "guard \<Rightarrow> candle list" where
  "guard_future g = drop (nat (lg_cursor g + 1)) (lg_all g)"

definition assert_no_future_access :: "(int \<Rightarrow> string) \<Rightarrow> guard \<Rightarrow> candle list \<Rightarrow> guard \<times> unit res" where
  "assert_no_future_access iso8601 g used =
     (if \<not> lg_enabled g \<or> lg_cursor g < 0 then (g, Inr ())
      else let limit = cd_time (lg_all g ! nat (lg_cursor g))
           in case filter (\<lambda>c. limit < cd_time c) used of
                [] \<Rightarrow> (g, Inr ())
              | c # _ \<Rightarrow>
                  (let msg = ''Lookahead violation: used '' @ iso8601 (cd_time c) @ '' after '' @ iso8601 limit
                   in (g\<lparr>lg_violations := lg_violations g @ [msg]\<rparr>, Inl (RuntimeError msg))))"

text \<open>\<open>iter_closed\<close>: round \<open>i\<close> sees the candles up to and including \<open>i\<close>.\<close>

definition closed_round :: "guard \<Rightarrow> nat \<Rightarrow> guard \<times> candle \<times> candle list" where
  "closed_round g i = (g\<lparr>lg_cursor := int i\<rparr>, lg_all g ! i, take (i + 1) (lg_all g))"

section \<open>Splits\<close>

datatype partition = TRAIN | VALIDATION | OUT_OF_SAMPLE | FULL

record split_window =
  sw_partition :: partition
  sw_start :: int
  sw_end :: int
  sw_candles :: "candle list"

record fold_windows =
  fw_train :: split_window
  fw_validation :: split_window
  fw_out_of_sample :: split_window

definition filter_range :: "candle list \<Rightarrow> int \<Rightarrow> int \<Rightarrow> candle list" where
  "filter_range cs a b = filter (\<lambda>c. a \<le> cd_time c \<and> cd_time c \<le> b) cs"

text \<open>The slice \<open>xs[a:b]\<close> with Python's negative indices.\<close>

definition slice_index :: "nat \<Rightarrow> int \<Rightarrow> nat" where
  "slice_index n i = (if i < 0 then nat (i + int n) else min n (nat i))"

definition py_slice :: "'a list \<Rightarrow> int \<Rightarrow> int \<Rightarrow> 'a list" where
  "py_slice xs a b = (let i = slice_index (length xs) a; j = slice_index (length xs) b in take (j - i) (drop i xs))"

definition chronological_splits ::
  "candle list \<Rightarrow> pyfloat \<Rightarrow> pyfloat \<Rightarrow> (candle list \<times> candle list \<times> candle list) res" where
  "chronological_splits cs train_ratio val_ratio =
     (if cs = [] then Inr ([], [], [])
      else let n = f_of_int (int (length cs))
           in bind_res (py_int (fmul n train_ratio)) (\<lambda>t_end.
              bind_res (py_int (fmul n (fadd train_ratio val_ratio))) (\<lambda>v_end.
                Inr (py_slice cs 0 t_end, py_slice cs t_end v_end, py_slice cs v_end (int (length cs))))))"

definition index_window :: "partition \<Rightarrow> candle list \<Rightarrow> split_window" where
  "index_window part cs = \<lparr>sw_partition = part, sw_start = cd_time (hd cs), sw_end = cd_time (last cs), sw_candles = cs\<rparr>"

function bar_windows :: "candle list \<Rightarrow> nat \<Rightarrow> nat \<Rightarrow> nat \<Rightarrow> nat \<Rightarrow> nat \<Rightarrow> fold_windows list" where
  "bar_windows cs tb vb ob step i =
     (if step = 0 \<or> length cs < i + tb + vb + ob then []
      else \<lparr>fw_train = index_window TRAIN (take tb (drop i cs)),
            fw_validation = index_window VALIDATION (take vb (drop (i + tb) cs)),
            fw_out_of_sample = index_window OUT_OF_SAMPLE (take ob (drop (i + tb + vb) cs))\<rparr>
           # bar_windows cs tb vb ob step (i + step))"
  by pat_completeness auto
termination by (relation "measure (\<lambda>(cs, tb, vb, ob, step, i). Suc (length cs) - i)") auto

declare bar_windows.simps [simp del]

definition day :: int where "day = 86400000000"

record day_spans =
  dy_training :: nat
  dy_validation :: nat
  dy_test :: nat
  dy_step :: nat

definition day_window :: "candle list \<Rightarrow> day_spans \<Rightarrow> int \<Rightarrow> fold_windows" where
  "day_window cs d cursor =
     (let te = cursor + day * int (dy_training d);
          ve = te + day * int (dy_validation d);
          xe = ve + day * int (dy_test d)
      in \<lparr>fw_train = \<lparr>sw_partition = TRAIN, sw_start = cursor, sw_end = te, sw_candles = filter_range cs cursor te\<rparr>,
          fw_validation = \<lparr>sw_partition = VALIDATION, sw_start = te, sw_end = ve, sw_candles = filter_range cs (te + 1) ve\<rparr>,
          fw_out_of_sample = \<lparr>sw_partition = OUT_OF_SAMPLE, sw_start = ve, sw_end = xe,
                               sw_candles = filter_range cs (ve + 1) xe\<rparr>\<rparr>)"

definition window_filled :: "fold_windows \<Rightarrow> bool" where
  "window_filled w \<longleftrightarrow> sw_candles (fw_train w) \<noteq> [] \<and> sw_candles (fw_validation w) \<noteq> []
     \<and> sw_candles (fw_out_of_sample w) \<noteq> []"

text \<open>\<open>while True\<close> over the calendar: not returning is \<open>None\<close>.\<close>

partial_function (option) day_windows :: "candle list \<Rightarrow> day_spans \<Rightarrow> int \<Rightarrow> int \<Rightarrow> fold_windows list option" where
  "day_windows cs d final cursor =
     (if final < cursor + day * int (dy_training d) + day * int (dy_validation d) + day * int (dy_test d) then Some []
      else Option.bind (day_windows cs d final (cursor + day * int (dy_step d))) (\<lambda>ws.
        Some (if window_filled (day_window cs d cursor) then day_window cs d cursor # ws else ws)))"

record bar_spans =
  br_training :: nat
  br_validation :: nat
  br_test :: nat
  br_step :: nat

definition explicit_bars :: "candle list \<Rightarrow> bar_spans \<Rightarrow> fold_windows list" where
  "explicit_bars cs b =
     bar_windows cs (br_training b) (br_validation b) (br_test b)
       (if br_step b = 0 then max 1 (br_training b div 4) else br_step b) 0"

definition fallback_bars :: "nat \<Rightarrow> bar_spans" where
  "fallback_bars n = (let tb = max 10 (n div 3) in
     \<lparr>br_training = tb, br_validation = max 5 (n div 6), br_test = max 5 (n div 6), br_step = max 1 (tb div 3)\<rparr>)"

definition walk_forward_windows :: "candle list \<Rightarrow> day_spans \<Rightarrow> bar_spans \<Rightarrow> fold_windows list option" where
  "walk_forward_windows cs d b =
     (if cs = [] then Some []
      else if br_training b \<noteq> 0 \<and> br_validation b \<noteq> 0 \<and> br_test b \<noteq> 0 then Some (explicit_bars cs b)
      else Option.bind (day_windows cs d (cd_time (last cs)) (cd_time (hd cs))) (\<lambda>ws.
        Some (if ws = [] \<and> 40 \<le> length cs then explicit_bars cs (fallback_bars (length cs)) else ws)))"

section \<open>Strategy signals\<close>

record signal =
  sg_side :: string
  sg_confidence :: pyfloat
  sg_entry :: pyfloat
  sg_stop :: "pyfloat option"
  sg_target :: "pyfloat option"
  sg_model_ids :: "string list"
  sg_reason :: string

definition flat_signal :: "pyfloat \<Rightarrow> string \<Rightarrow> signal" where
  "flat_signal entry reason = \<lparr>sg_side = ''FLAT'', sg_confidence = Fin 0, sg_entry = entry, sg_stop = None,
     sg_target = None, sg_model_ids = [], sg_reason = reason\<rparr>"

definition slice_closed :: "candle list \<Rightarrow> int \<Rightarrow> candle list" where
  "slice_closed cs index = (if index < 0 then [] else take (nat index + 1) cs)"

definition insufficient :: "candle list \<Rightarrow> signal" where
  "insufficient hist = flat_signal (if hist = [] then Fin 0 else cd_close (last hist)) ''insufficient''"

definition donchian_breakout_signal :: "candle list \<Rightarrow> int \<Rightarrow> nat \<Rightarrow> pyfloat \<Rightarrow> pyfloat \<Rightarrow> signal res" where
  "donchian_breakout_signal cs index lookback atr_mult volume_mult =
     (let hist = slice_closed cs index
      in if length hist < lookback + 2 then Inr (insufficient hist)
         else let window = butlast (last_n (lookback + 1) hist); final = last hist; px = cd_close final in
           bind_res (py_max (map cd_high window)) (\<lambda>upper.
           bind_res (py_min (map cd_low window)) (\<lambda>lower.
           bind_res (atr (map cd_high hist) (map cd_low hist) (map cd_close hist) 14) (\<lambda>atrs.
             let atr_v = (if atrs \<noteq> [] \<and> last atrs \<noteq> None then the (last atrs) else fmul px (flit (2 / 100)));
                 vols = map cd_volume (tail_slice lookback hist);
                 avg_vol = (if vols = [] then cd_volume final else fquot (fsum vols) (f_of_int (int (length vols))));
                 busy = fle (fmul avg_vol volume_mult) (cd_volume final)
             in if flt upper px \<and> busy then
                  (let stop = fsub px (fmul atr_mult atr_v)
                   in Inr \<lparr>sg_side = ''LONG'', sg_confidence = flit (8 / 10), sg_entry = px, sg_stop = Some stop,
                          sg_target = Some (fadd px (fmul (Fin 3) (fsub px stop))),
                          sg_model_ids = [''DONCHIAN20''], sg_reason = ''breakout_up''\<rparr>)
                else if flt px lower \<and> busy then
                  (let stop = fadd px (fmul atr_mult atr_v)
                   in Inr \<lparr>sg_side = ''SHORT'', sg_confidence = flit (8 / 10), sg_entry = px, sg_stop = Some stop,
                          sg_target = Some (fsub px (fmul (Fin 3) (fsub stop px))),
                          sg_model_ids = [''DONCHIAN20''], sg_reason = ''breakout_down''\<rparr>)
                else Inr (flat_signal px ''no_breakout'')))))"

definition mean_reversion_signal :: "candle list \<Rightarrow> int \<Rightarrow> nat \<Rightarrow> pyfloat \<Rightarrow> signal res" where
  "mean_reversion_signal cs index period entry_z =
     (let hist = slice_closed cs index
      in if length hist < period + 1 then Inr (insufficient hist)
         else bind_res (sma (map cd_close hist) (int period)) (\<lambda>series.
           let px = cd_close (last hist) in
           case last series of
             None \<Rightarrow> Inr (flat_signal px ''sma_unavailable'')
           | Some mid \<Rightarrow>
               if flt px (fmul mid (fsub (Fin 1) entry_z)) then
                 Inr \<lparr>sg_side = ''LONG'', sg_confidence = flit (7 / 10), sg_entry = px,
                      sg_stop = Some (fmul px (flit (98 / 100))), sg_target = Some mid,
                      sg_model_ids = [''SMA20_MR''], sg_reason = ''below_sma''\<rparr>
               else if flt (fmul mid (fadd (Fin 1) entry_z)) px then
                 Inr \<lparr>sg_side = ''SHORT'', sg_confidence = flit (7 / 10), sg_entry = px,
                      sg_stop = Some (fmul px (flit (102 / 100))), sg_target = Some mid,
                      sg_model_ids = [''SMA20_MR''], sg_reason = ''above_sma''\<rparr>
               else Inr (flat_signal px ''near_sma'')))"

definition cross_signal :: "string \<Rightarrow> pyfloat \<Rightarrow> rat \<Rightarrow> rat \<Rightarrow> string \<Rightarrow> signal" where
  "cross_signal side px stop target reason =
     \<lparr>sg_side = side, sg_confidence = Fin (3 / 4), sg_entry = px, sg_stop = Some (fmul px (flit stop)),
      sg_target = Some (fmul px (flit target)), sg_model_ids = [''EMA_CROSS''], sg_reason = reason\<rparr>"

definition trend_following_signal :: "candle list \<Rightarrow> int \<Rightarrow> nat \<Rightarrow> nat \<Rightarrow> signal res" where
  "trend_following_signal cs index fast slow =
     (let hist = slice_closed cs index
      in if length hist < slow + 2 then Inr (insufficient hist)
         else bind_res (ema (map cd_close hist) (int fast)) (\<lambda>f. bind_res (ema (map cd_close hist) (int slow)) (\<lambda>s.
           let px = cd_close (last hist); i = length hist - 1 in
           case (f ! i, s ! i, f ! (i - 1), s ! (i - 1)) of
             (Some f1, Some s1, Some f2, Some s2) \<Rightarrow>
               if fle f2 s2 \<and> flt s1 f1 then
                 Inr (cross_signal ''LONG'' px (97 / 100) (109 / 100) ''ema_cross_up'')
               else if fle s2 f2 \<and> flt f1 s1 then
                 Inr (cross_signal ''SHORT'' px (103 / 100) (91 / 100) ''ema_cross_down'')
               else Inr (flat_signal px ''no_cross'')
           | _ \<Rightarrow> Inr (flat_signal px ''ema_unavailable''))))"

definition smc_structure_signal :: "candle list \<Rightarrow> int \<Rightarrow> nat \<Rightarrow> signal res" where
  "smc_structure_signal cs index lookback =
     (let hist = slice_closed cs index
      in if length hist < lookback + 2 then Inr (insufficient hist)
         else let window = butlast (last_n (lookback + 1) hist); px = cd_close (last hist) in
           bind_res (py_max (map cd_high window)) (\<lambda>high. bind_res (py_min (map cd_low window)) (\<lambda>low.
             if flt high px then
               Inr \<lparr>sg_side = ''LONG'', sg_confidence = flit (72 / 100), sg_entry = px, sg_stop = Some low,
                    sg_target = Some (fadd px (fmul (Fin 2) (fsub px low))),
                    sg_model_ids = [''SMC_OB'', ''PO3''], sg_reason = ''bos_up''\<rparr>
             else if flt px low then
               Inr \<lparr>sg_side = ''SHORT'', sg_confidence = flit (72 / 100), sg_entry = px, sg_stop = Some high,
                    sg_target = Some (fsub px (fmul (Fin 2) (fsub high px))),
                    sg_model_ids = [''SMC_OB'', ''PO3''], sg_reason = ''bos_down''\<rparr>
             else Inr (flat_signal px ''no_bos''))))"

record signal_params =
  sp_lookback :: "nat option"
  sp_atr_mult :: "pyfloat option"
  sp_volume_mult :: "pyfloat option"
  sp_sma_period :: "nat option"

definition signal_for_strategy :: "string \<Rightarrow> candle list \<Rightarrow> int \<Rightarrow> signal_params \<Rightarrow> signal res" where
  "signal_for_strategy strategy_id cs index ps =
     (let sid = py_lower strategy_id
      in if py_contains ''momentum'' sid \<or> py_contains ''breakout'' sid then
           donchian_breakout_signal cs index (opt_default (sp_lookback ps) 20) (opt_default (sp_atr_mult ps) (Fin 2))
             (opt_default (sp_volume_mult ps) (Fin 1))
         else if py_contains ''mean_reversion'' sid then
           mean_reversion_signal cs index (opt_default (sp_sma_period ps) 20) (flit (2 / 100))
         else if py_contains ''trend'' sid \<or> py_contains ''commodit'' sid then trend_following_signal cs index 20 50
         else if py_contains ''smc'' sid \<or> py_contains ''po3'' sid \<or> py_contains ''vwap'' sid then
           smc_structure_signal cs index 10
         else donchian_breakout_signal cs index 20 (Fin 2) (Fin 1))"

text \<open>A signal at an index reads no candle after it.\<close>

lemma signal_prefix:
  assumes "index < int k"
  shows "signal_for_strategy sid (take k cs) index ps = signal_for_strategy sid cs index ps"
proof -
  have "slice_closed (take k cs) index = slice_closed cs index"
    using assms by (auto simp: slice_closed_def min_def)
  then have "donchian_breakout_signal (take k cs) index = donchian_breakout_signal cs index"
    "mean_reversion_signal (take k cs) index = mean_reversion_signal cs index"
    "trend_following_signal (take k cs) index = trend_following_signal cs index"
    "smc_structure_signal (take k cs) index = smc_structure_signal cs index"
    by (simp_all only: fun_eq_iff donchian_breakout_signal_def mean_reversion_signal_def
        trend_following_signal_def smc_structure_signal_def simp_thms)
  then show ?thesis by (simp only: signal_for_strategy_def)
qed

section \<open>Windows never leak\<close>

definition in_time_order :: "candle list \<Rightarrow> bool" where
  "in_time_order cs \<longleftrightarrow> sorted_wrt (\<lambda>a b. cd_time a < cd_time b) cs"

definition no_leak :: "candle list \<Rightarrow> fold_windows \<Rightarrow> bool" where
  "no_leak cs w \<longleftrightarrow> window_filled w
     \<and> set (sw_candles (fw_train w)) \<union> set (sw_candles (fw_validation w)) \<union> set (sw_candles (fw_out_of_sample w)) \<subseteq> set cs
     \<and> (\<forall>a \<in> set (sw_candles (fw_train w)). \<forall>b \<in> set (sw_candles (fw_validation w)). cd_time a < cd_time b)
     \<and> (\<forall>b \<in> set (sw_candles (fw_validation w)). \<forall>c \<in> set (sw_candles (fw_out_of_sample w)). cd_time b < cd_time c)"

lemma time_order_parts:
  assumes "in_time_order cs" and "x \<in> set (take a cs)" and "y \<in> set (drop b cs)" and "a \<le> b"
  shows "cd_time x < cd_time y"
proof -
  have "in_time_order (take b cs @ drop b cs)" using assms(1) by simp
  moreover have "x \<in> set (take b cs)" using assms(2,4) set_take_subset_set_take by fastforce
  ultimately show ?thesis using assms(3) by (simp only: in_time_order_def sorted_wrt_append)
qed

lemma bar_windows_no_leak:
  assumes "in_time_order cs" and "0 < tb" "0 < vb" "0 < ob" and "w \<in> set (bar_windows cs tb vb ob step i)"
  shows "no_leak cs w"
  using assms
proof (induction cs tb vb ob step i rule: bar_windows.induct)
  case (1 cs tb vb ob step i)
  from "1.prems"(5) consider (here) "i + tb + vb + ob \<le> length cs"
      "w = \<lparr>fw_train = index_window TRAIN (take tb (drop i cs)),
            fw_validation = index_window VALIDATION (take vb (drop (i + tb) cs)),
            fw_out_of_sample = index_window OUT_OF_SAMPLE (take ob (drop (i + tb + vb) cs))\<rparr>"
    | (later) "w \<in> set (bar_windows cs tb vb ob step (i + step))" "\<not> (step = 0 \<or> length cs < i + tb + vb + ob)"
    by (subst (asm) bar_windows.simps) (auto split: if_splits)
  then show ?case
  proof cases
    case here
    have cut: "take n (drop m cs) = drop m (take (m + n) cs)" for m n by (simp add: drop_take)
    have order: "cd_time x < cd_time y" if "x \<in> set (take n (drop m cs))" "y \<in> set (take k (drop (m + n) cs))" for x y m n k
    proof (rule time_order_parts)
      show "in_time_order cs" by (rule "1.prems")
      show "x \<in> set (take (m + n) cs)" using that(1) by (auto simp: cut dest: in_set_dropD)
      show "y \<in> set (drop (m + n) cs)" using that(2) by (rule in_set_takeD)
    qed simp
    have sub: "set (take n (drop m cs)) \<subseteq> set cs" for m n by (meson in_set_takeD in_set_dropD subsetI)
    show ?thesis
      unfolding no_leak_def window_filled_def
      using here order "1.prems"(2-4) sub by (auto simp: index_window_def)
  next
    case later
    with "1.IH" "1.prems" show ?thesis by blast
  qed
qed

lemma explicit_bars_no_leak:
  "in_time_order cs \<Longrightarrow> br_training b \<noteq> 0 \<Longrightarrow> br_validation b \<noteq> 0 \<Longrightarrow> br_test b \<noteq> 0 \<Longrightarrow>
   w \<in> set (explicit_bars cs b) \<Longrightarrow> no_leak cs w"
  unfolding explicit_bars_def by (rule bar_windows_no_leak) auto

lemma day_window_no_leak: "window_filled (day_window cs d cursor) \<Longrightarrow> no_leak cs (day_window cs d cursor)"
  by (auto simp: no_leak_def day_window_def filter_range_def Let_def)

lemma day_windows_return:
  assumes "0 < dy_step d"
  shows "\<exists>ws. day_windows cs d final cursor = Some ws \<and> (\<forall>w \<in> set ws. no_leak cs w)"
proof (induction "nat (final + 1 - cursor)" arbitrary: cursor rule: less_induct)
  case less
  let ?next = "cursor + day * int (dy_step d)"
  show ?case
  proof (cases "final < cursor + day * int (dy_training d) + day * int (dy_validation d) + day * int (dy_test d)")
    case True
    then show ?thesis by (simp add: day_windows.simps)
  next
    case False
    have spans: "0 \<le> day * int n" for n by (simp add: day_def)
    have "cursor \<le> final" using False spans [of "dy_training d"] spans [of "dy_validation d"] spans [of "dy_test d"] by linarith
    moreover have "cursor < ?next" using assms by (simp add: day_def)
    ultimately have "nat (final + 1 - ?next) < nat (final + 1 - cursor)" by linarith
    from less [OF this] obtain ws where ws: "day_windows cs d final ?next = Some ws" "\<forall>w \<in> set ws. no_leak cs w" by blast
    with False show ?thesis
      by (subst day_windows.simps) (simp add: day_window_no_leak)
  qed
qed

text \<open>C17: Walk-forward splitting with a positive calendar step returns, for any candles and any
  window lengths; and when the candles are in time order no window leaks: its three parts are
  not empty, hold only the given candles, and every training candle is older than every
  validation candle, which is older than every out of sample candle.\<close>
theorem walk_forward_returns_without_leaks:
  assumes "0 < dy_step d"
  shows "\<exists>ws. walk_forward_windows cs d b = Some ws \<and> (in_time_order cs \<longrightarrow> (\<forall>w \<in> set ws. no_leak cs w))"
proof -
  obtain ws where ws: "day_windows cs d (cd_time (last cs)) (cd_time (hd cs)) = Some ws" "\<forall>w \<in> set ws. no_leak cs w"
    using day_windows_return [OF assms] by blast
  have "in_time_order cs \<Longrightarrow> w \<in> set (explicit_bars cs (fallback_bars (length cs))) \<Longrightarrow> no_leak cs w" for w
    by (rule explicit_bars_no_leak) (auto simp: fallback_bars_def Let_def)
  with ws show ?thesis
    by (auto simp: walk_forward_windows_def explicit_bars_no_leak)
qed

definition demo_candle :: "int \<Rightarrow> candle" where
  "demo_candle t = \<lparr>cd_time = t, cd_symbol = ''BTC'', cd_timeframe = ''1h'', cd_open = Fin 1, cd_high = Fin 1,
     cd_low = Fin 1, cd_close = Fin 1, cd_volume = Fin 1\<rparr>"

lemma walk_forward_returns_without_leaks_witness:
  "\<exists>w. walk_forward_windows (map demo_candle [1, 2, 3]) \<lparr>dy_training = 180, dy_validation = 60, dy_test = 60, dy_step = 30\<rparr>
      \<lparr>br_training = 1, br_validation = 1, br_test = 1, br_step = 0\<rparr> = Some [w]
    \<and> no_leak (map demo_candle [1, 2, 3]) w"
proof -
  have "in_time_order (map demo_candle [1, 2, 3])" by (simp add: in_time_order_def demo_candle_def)
  moreover have "\<exists>w. walk_forward_windows (map demo_candle [1, 2, 3])
      \<lparr>dy_training = 180, dy_validation = 60, dy_test = 60, dy_step = 30\<rparr>
      \<lparr>br_training = 1, br_validation = 1, br_test = 1, br_step = 0\<rparr> = Some [w]"
    by (simp add: walk_forward_windows_def explicit_bars_def bar_windows.simps)
  ultimately show ?thesis
    using walk_forward_returns_without_leaks
      [of "\<lparr>dy_training = 180, dy_validation = 60, dy_test = 60, dy_step = 30\<rparr>" "map demo_candle [1, 2, 3]"
          "\<lparr>br_training = 1, br_validation = 1, br_test = 1, br_step = 0\<rparr>"]
    by auto
qed

text \<open>With a step of zero days the loop does not end once the first window fits.\<close>

lemma day_windows_stuck:
  assumes "day_windows cs d final cursor = Some ws" and "dy_step d = 0"
  shows "final < cursor + day * int (dy_training d) + day * int (dy_validation d) + day * int (dy_test d)"
proof (rule ccontr)
  assume fits: "\<not> ?thesis"
  have "dy_step d = 0 \<longrightarrow> final < cursor + day * int (dy_training d) + day * int (dy_validation d) + day * int (dy_test d)"
    by (rule day_windows.raw_induct [OF _ assms(1)]) (fastforce simp: bind_eq_Some_conv split: if_splits)
  with assms(2) fits show False by blast
qed

theorem walk_forward_zero_step_hangs:
  assumes "cs \<noteq> []" and "br_training b = 0" and "dy_step d = 0"
    and "cd_time (hd cs) + day * int (dy_training d) + day * int (dy_validation d) + day * int (dy_test d) \<le> cd_time (last cs)"
  shows "walk_forward_windows cs d b = None"
  using assms day_windows_stuck [where cs = cs and d = d and final = "cd_time (last cs)" and cursor = "cd_time (hd cs)"]
  by (cases "day_windows cs d (cd_time (last cs)) (cd_time (hd cs))")
    (auto simp: walk_forward_windows_def)

end
