(* ===== verification/Performance.thy ===== *)
theory Performance
  imports Backtest_Data
begin

text \<open>
  Figures computed from closed trades and equity curves: \<open>performance/metrics.py\<close>,
  \<open>backtest/metrics.py\<close>, \<open>backtest/validation.py\<close>, \<open>backtest/monte_carlo.py\<close> and
  \<open>backtest/baselines.py\<close>.  A trade dictionary is a record of the keys these read, an absent
  key being \<open>None\<close>; square roots, powers, holding times, calendar spans and the random draws are
  arguments.
\<close>

record trade_row =
  tw_net_pnl :: "pyfloat option"
  tw_gross_pnl :: "pyfloat option"
  tw_fees :: "pyfloat option"
  tw_slippage :: "pyfloat option"
  tw_tax_friction :: "pyfloat option"
  tw_quantity :: "pyfloat option"
  tw_entry :: "pyfloat option"
  tw_exit :: "pyfloat option"
  tw_side :: "string option"
  tw_holding_hours :: "pyfloat option"

abbreviation or_zero :: "pyfloat option \<Rightarrow> pyfloat" where
  "or_zero x \<equiv> float_or x (Fin 0)"

definition ratio :: "nat \<Rightarrow> nat \<Rightarrow> pyfloat" where
  "ratio a b = rnd (of_nat a / of_nat b)"

definition mean_of :: "pyfloat list \<Rightarrow> pyfloat" where
  "mean_of xs = fquot (fsum xs) (f_of_int (int (length xs)))"

section \<open>Trade performance\<close>

text \<open>The equity walk: equity, peak and the largest drawdown.\<close>

definition equity_walk :: "pyfloat \<times> pyfloat \<times> pyfloat \<Rightarrow> pyfloat \<Rightarrow> pyfloat \<times> pyfloat \<times> pyfloat" where
  "equity_walk s p = (case s of (equity, peak, max_dd) \<Rightarrow>
     let e = fadd equity p; k = pmax peak e;
         dd = (if k = Fin 0 then Fin 0 else fquot (fsub k e) k)
     in (e, k, pmax max_dd dd))"

definition max_drawdown_of :: "pyfloat \<Rightarrow> pyfloat list \<Rightarrow> pyfloat" where
  "max_drawdown_of start pnls = snd (snd (foldl equity_walk (start, start, Fin 0) pnls))"

definition sample_std :: "(pyfloat \<Rightarrow> pyfloat) \<Rightarrow> pyfloat list \<Rightarrow> nat \<Rightarrow> pyfloat" where
  "sample_std square_root squares n =
     (let var = fquot (fsum squares) (f_of_int (int n - 1))
      in if flt (Fin 0) var then square_root var else Fin 0)"

definition sharpe_ratio :: "(pyfloat \<Rightarrow> pyfloat) \<Rightarrow> pyfloat list \<Rightarrow> pyfloat option" where
  "sharpe_ratio square_root rets =
     (if length rets < 2 then None
      else let mean = mean_of rets;
               std = sample_std square_root (map (\<lambda>r. fmul (fsub r mean) (fsub r mean)) rets) (length rets)
           in if flt (Fin 0) std then Some (fquot mean std) else None)"

definition sortino_ratio :: "(pyfloat \<Rightarrow> pyfloat) \<Rightarrow> pyfloat list \<Rightarrow> pyfloat option" where
  "sortino_ratio square_root rets =
     (if length rets < 2 then None
      else let down = map (\<lambda>r. pmin (Fin 0) (fsub r (Fin 0))) rets;
               std = sample_std square_root (map (\<lambda>d. fmul d d) down) (length down)
           in if flt (Fin 0) std then Some (fquot (mean_of rets) std) else None)"

record performance =
  pm_trade_count :: nat
  pm_win_rate :: pyfloat
  pm_gross_pnl :: pyfloat
  pm_fees :: pyfloat
  pm_slippage :: pyfloat
  pm_tax_friction :: pyfloat
  pm_net_pnl :: pyfloat
  pm_after_fee_pnl :: pyfloat
  pm_after_tax_pnl :: pyfloat
  pm_return :: pyfloat
  pm_return_pct :: pyfloat
  pm_max_drawdown :: pyfloat
  pm_profit_factor :: "pyfloat option"
  pm_average_trade :: pyfloat
  pm_average_winner :: pyfloat
  pm_average_loser :: pyfloat
  pm_sharpe :: "pyfloat option"
  pm_sortino :: "pyfloat option"
  pm_turnover :: pyfloat
  pm_average_hold :: "pyfloat option"

definition is_win :: "pyfloat \<Rightarrow> bool" where "is_win p = flt (Fin 0) p"
definition is_loss :: "pyfloat \<Rightarrow> bool" where "is_loss p = flt p (Fin 0)"

definition compute_performance :: "(pyfloat \<Rightarrow> pyfloat) \<Rightarrow> trade_row list \<Rightarrow> pyfloat \<Rightarrow> performance" where
  "compute_performance square_root ts start =
     (let pnls = map (or_zero \<circ> tw_net_pnl) ts;
          wins = filter is_win pnls; losses = filter is_loss pnls;
          gross = fsum (map (or_zero \<circ> tw_gross_pnl) ts); fees = fsum (map (or_zero \<circ> tw_fees) ts);
          slip = fsum (map (or_zero \<circ> tw_slippage) ts); tax = fsum (map (or_zero \<circ> tw_tax_friction) ts);
          net = fsum pnls; gw = fsum wins; gl = fabs (fsum losses);
          rets = (if start = Fin 0 then [] else map (\<lambda>p. fquot p start) pnls);
          holds = map the (filter (\<lambda>h. h \<noteq> None) (map tw_holding_hours ts));
          ret = (if start = Fin 0 then Fin 0 else fquot net start)
      in \<lparr>pm_trade_count = length ts,
          pm_win_rate = (if pnls = [] then Fin 0 else ratio (length wins) (length pnls)),
          pm_gross_pnl = gross, pm_fees = fees, pm_slippage = slip, pm_tax_friction = tax, pm_net_pnl = net,
          pm_after_fee_pnl = fsub gross fees, pm_after_tax_pnl = fsub net tax, pm_return = ret,
          pm_return_pct = (if start = Fin 0 then Fin 0 else fmul ret (Fin 100)),
          pm_max_drawdown = max_drawdown_of start pnls,
          pm_profit_factor = (if flt (Fin 0) gl then Some (fquot gw gl) else None),
          pm_average_trade = (if pnls = [] then Fin 0 else fquot net (f_of_int (int (length pnls)))),
          pm_average_winner = (if wins = [] then Fin 0 else mean_of wins),
          pm_average_loser = (if losses = [] then Fin 0 else mean_of losses),
          pm_sharpe = sharpe_ratio square_root rets, pm_sortino = sortino_ratio square_root rets,
          pm_turnover = fsum (map (\<lambda>t. fabs (fmul (or_zero (tw_quantity t))
             (float_or (tw_exit t) (or_zero (tw_entry t))))) ts),
          pm_average_hold = (if holds = [] then None else Some (mean_of holds))\<rparr>)"

definition group_performance ::
  "(pyfloat \<Rightarrow> pyfloat) \<Rightarrow> (trade_row \<Rightarrow> string option) \<Rightarrow> trade_row list \<Rightarrow> pyfloat \<Rightarrow> (string \<times> performance) list" where
  "group_performance square_root key ts start =
     (let name = (\<lambda>t. if opt_truthy (key t) then the (key t) else ''unknown'');
          groups = foldl (\<lambda>d t. dput (name t) (opt_default (dget d (name t)) [] @ [t]) d) [] ts
      in map (\<lambda>(k, v). (k, compute_performance square_root v start)) groups)"

section \<open>Streaks and drawdown durations\<close>

record streaks =
  sk_max_win :: nat
  sk_max_loss :: nat
  sk_win :: nat
  sk_loss :: nat

definition streak_step :: "streaks \<Rightarrow> pyfloat \<Rightarrow> streaks" where
  "streak_step s p =
     (if is_win p then s\<lparr>sk_win := sk_win s + 1, sk_loss := 0, sk_max_win := max (sk_max_win s) (sk_win s + 1)\<rparr>
      else if is_loss p then s\<lparr>sk_loss := sk_loss s + 1, sk_win := 0, sk_max_loss := max (sk_max_loss s) (sk_loss s + 1)\<rparr>
      else s\<lparr>sk_win := 0, sk_loss := 0\<rparr>)"

definition no_streaks :: streaks where
  "no_streaks = \<lparr>sk_max_win = 0, sk_max_loss = 0, sk_win = 0, sk_loss = 0\<rparr>"

definition streaks_of :: "pyfloat list \<Rightarrow> nat \<times> nat" where
  "streaks_of pnls = (let s = foldl streak_step no_streaks pnls in (sk_max_win s, sk_max_loss s))"

record equity_point =
  ep_equity :: pyfloat
  ep_cash :: pyfloat
  ep_drawdown :: pyfloat
  ep_daily_pnl :: pyfloat

text \<open>The peak, the start of a running drawdown and the longest one, in points.\<close>

definition duration_step :: "pyfloat \<times> nat option \<times> nat \<Rightarrow> nat \<times> pyfloat \<Rightarrow> pyfloat \<times> nat option \<times> nat" where
  "duration_step s pt = (case (s, pt) of ((peak, since, longest), (i, equity)) \<Rightarrow>
     if fle peak equity then (equity, None, case since of None \<Rightarrow> longest | Some b \<Rightarrow> max longest (i - b))
     else (peak, Some (case since of None \<Rightarrow> i | Some b \<Rightarrow> b), longest))"

definition drawdown_duration :: "pyfloat \<Rightarrow> pyfloat list \<Rightarrow> nat" where
  "drawdown_duration start curve =
     (case foldl duration_step (start, None, 0) (zip [0..<length curve] curve) of
        (_, None, longest) \<Rightarrow> longest | (_, Some b, longest) \<Rightarrow> max longest (length curve - b))"

definition side_count :: "string set \<Rightarrow> trade_row list \<Rightarrow> nat" where
  "side_count names ts = length (filter (\<lambda>t. py_upper (opt_default (tw_side t) []) \<in> names) ts)"

record backtest_metrics =
  bm_base :: performance
  bm_initial_capital :: pyfloat
  bm_final_equity :: pyfloat
  bm_gross_pnl :: pyfloat
  bm_fees :: pyfloat
  bm_slippage :: pyfloat
  bm_net_pnl :: pyfloat
  bm_return_pct :: pyfloat
  bm_cagr :: "pyfloat option"
  bm_loss_rate :: pyfloat
  bm_expectancy :: pyfloat
  bm_drawdown_bars :: nat
  bm_long_trades :: nat
  bm_short_trades :: nat
  bm_largest_win :: pyfloat
  bm_largest_loss :: pyfloat
  bm_consecutive_wins :: nat
  bm_consecutive_losses :: nat

definition largest :: "(pyfloat list \<Rightarrow> pyfloat res) \<Rightarrow> pyfloat list \<Rightarrow> pyfloat" where
  "largest pick xs = (case pick xs of Inl _ \<Rightarrow> Fin 0 | Inr v \<Rightarrow> v)"

text \<open>\<open>growth\<close> is the compounded growth of the ratio over the calendar span of the curve, \<open>None\<close>
  where the code finds no span or the power fails.\<close>

definition compute_backtest_metrics ::
  "(pyfloat \<Rightarrow> pyfloat) \<Rightarrow> (pyfloat \<Rightarrow> pyfloat option) \<Rightarrow> trade_row list \<Rightarrow> equity_point list \<Rightarrow> pyfloat \<Rightarrow> pyfloat \<Rightarrow> pyfloat
   \<Rightarrow> backtest_metrics" where
  "compute_backtest_metrics square_root growth ts curve capital fees slip =
     (let base = compute_performance square_root ts capital;
          final = (if curve = [] then capital else ep_equity (last curve));
          net = fsub final capital;
          pnls = map (or_zero \<circ> tw_net_pnl) ts;
          wins = filter is_win pnls; losses = filter is_loss pnls
      in \<lparr>bm_base = base, bm_initial_capital = capital, bm_final_equity = final, bm_gross_pnl = pm_gross_pnl base,
          bm_fees = (if fees = Fin 0 then pm_fees base else fees),
          bm_slippage = (if slip = Fin 0 then pm_slippage base else slip), bm_net_pnl = net,
          bm_return_pct = (if capital = Fin 0 then Fin 0 else fmul (fquot net capital) (Fin 100)),
          bm_cagr = (if 2 \<le> length curve \<and> flt (Fin 0) capital \<and> flt (Fin 0) final then growth (fquot final capital) else None),
          bm_loss_rate = (if pnls = [] then Fin 0 else ratio (length losses) (length pnls)),
          bm_expectancy = (if pnls = [] then Fin 0 else mean_of pnls),
          bm_drawdown_bars = drawdown_duration capital (map ep_equity curve),
          bm_long_trades = side_count {''LONG'', ''BUY''} ts, bm_short_trades = side_count {''SHORT'', ''SELL''} ts,
          bm_largest_win = largest py_max wins, bm_largest_loss = largest py_min losses,
          bm_consecutive_wins = fst (streaks_of pnls), bm_consecutive_losses = snd (streaks_of pnls)\<rparr>)"

record risk_metrics =
  rm_maximum_exposure :: "pyfloat option"
  rm_average_exposure :: "pyfloat option"
  rm_maximum_position_size :: pyfloat
  rm_largest_losing_trade :: pyfloat
  rm_largest_winning_trade :: pyfloat
  rm_consecutive_wins :: nat
  rm_consecutive_losses :: nat
  rm_daily_loss_events :: nat
  rm_risk_rejections :: nat

definition compute_risk_metrics :: "equity_point list \<Rightarrow> trade_row list \<Rightarrow> nat \<Rightarrow> pyfloat list \<Rightarrow> risk_metrics" where
  "compute_risk_metrics curve ts rejections exposures =
     (let pnls = map (or_zero \<circ> tw_net_pnl) ts
      in \<lparr>rm_maximum_exposure = (case py_max exposures of Inl _ \<Rightarrow> None | Inr v \<Rightarrow> Some v),
          rm_average_exposure = (if exposures = [] then None else Some (mean_of exposures)),
          rm_maximum_position_size = largest py_max (map (\<lambda>t. fabs (or_zero (tw_quantity t))) ts),
          rm_largest_losing_trade = largest py_min pnls, rm_largest_winning_trade = largest py_max pnls,
          rm_consecutive_wins = fst (streaks_of pnls), rm_consecutive_losses = snd (streaks_of pnls),
          rm_daily_loss_events = length (filter (\<lambda>p. flt (ep_daily_pnl p) (Fin 0)) curve),
          rm_risk_rejections = rejections\<rparr>)"

section \<open>Overfitting warnings\<close>

datatype bt_warning =
    LOW_TRADE_COUNT nat
  | SINGLE_TRADE_DEPENDENCY nat
  | LARGE_DRAWDOWN pyfloat
  | HIGH_TURNOVER pyfloat pyfloat
  | RETURN_CONCENTRATION pyfloat pyfloat
  | TRAIN_OOS_GAP pyfloat

definition warn_if :: "bool \<Rightarrow> bt_warning \<Rightarrow> bt_warning list" where
  "warn_if b w = (if b then [w] else [])"

definition detect_overfitting_warnings :: "backtest_metrics \<Rightarrow> trade_row list \<Rightarrow> bt_warning list" where
  "detect_overfitting_warnings m ts =
     (let n = pm_trade_count (bm_base m); dd = pm_max_drawdown (bm_base m); turnover = pm_turnover (bm_base m);
          net = fabs (bm_net_pnl m); sizes = map (fabs \<circ> or_zero \<circ> tw_net_pnl) ts;
          total = (if fsum sizes = Fin 0 then Fin 1 else fsum sizes); top = largest py_max sizes
      in warn_if (n < 5) (LOW_TRADE_COUNT n)
         @ warn_if (n = 1) (SINGLE_TRADE_DEPENDENCY n)
         @ warn_if (fle (Fin (1 / 4)) dd) (LARGE_DRAWDOWN dd)
         @ warn_if (flt (Fin 0) turnover \<and> flt (Fin 0) net
                    \<and> flt (Fin 50) (fquot turnover (pmax net (flit (1 / 10 ^ 9))))) (HIGH_TURNOVER turnover net)
         @ warn_if (sizes \<noteq> [] \<and> flt (flit (8 / 10)) (fquot top total)) (RETURN_CONCENTRATION top total))"

definition train_oos_gap_warning :: "pyfloat \<Rightarrow> pyfloat \<Rightarrow> bt_warning option" where
  "train_oos_gap_warning train oos =
     (let gap = fsub train oos in if flt (Fin 20) gap then Some (TRAIN_OOS_GAP gap) else None)"

section \<open>Resampling trades\<close>

text \<open>One resampled run: final equity, largest drawdown and longest losing streak.\<close>

definition losing_step :: "nat \<times> nat \<Rightarrow> pyfloat \<Rightarrow> nat \<times> nat" where
  "losing_step s p = (case s of (streak, best) \<Rightarrow>
     if is_loss p then (streak + 1, max best (streak + 1)) else (0, best))"

definition resample_run :: "pyfloat \<Rightarrow> pyfloat list \<Rightarrow> pyfloat \<times> pyfloat \<times> nat" where
  "resample_run start sample =
     (case foldl equity_walk (start, start, Fin 0) sample of
        (equity, _, max_dd) \<Rightarrow> (equity, max_dd, snd (foldl losing_step (0, 0) sample)))"

record monte_carlo =
  mc_p05 :: pyfloat
  mc_p50 :: pyfloat
  mc_p95 :: pyfloat
  mc_mean :: pyfloat
  mc_dd_mean :: pyfloat
  mc_dd_p95 :: pyfloat
  mc_streak_mean :: pyfloat
  mc_streak_max :: nat

text \<open>The draws are the indices the seeded generator chose; \<open>sort_floats\<close> is the builtin sort.\<close>

definition percentile :: "(pyfloat list \<Rightarrow> pyfloat list) \<Rightarrow> pyfloat list \<Rightarrow> rat \<Rightarrow> pyfloat res" where
  "percentile sort_floats xs q =
     bind_res (py_int (fmul (flit q) (f_of_int (int (length xs) - 1)))) (\<lambda>i.
       py_at (sort_floats xs) (nat i))"

definition monte_carlo_trade_resample ::
  "(pyfloat list \<Rightarrow> pyfloat list) \<Rightarrow> pyfloat list \<Rightarrow> nat list list \<Rightarrow> pyfloat \<Rightarrow> monte_carlo option res" where
  "monte_carlo_trade_resample sort_floats pnls draws start =
     (if pnls = [] then Inr None
      else if draws = [] then Inl IndexError
      else let runs = map (\<lambda>ds. resample_run start (map (\<lambda>i. pnls ! i) ds)) draws;
               finals = map fst runs; dds = map (fst \<circ> snd) runs; losing = map (snd \<circ> snd) runs;
               n = f_of_int (int (length draws))
           in bind_res (percentile sort_floats finals (5 / 100)) (\<lambda>p05.
              bind_res (percentile sort_floats finals (50 / 100)) (\<lambda>p50.
              bind_res (percentile sort_floats finals (95 / 100)) (\<lambda>p95.
              bind_res (percentile sort_floats dds (95 / 100)) (\<lambda>dd95.
                Inr (Some \<lparr>mc_p05 = p05, mc_p50 = p50, mc_p95 = p95, mc_mean = fquot (fsum finals) n,
                  mc_dd_mean = fquot (fsum dds) n, mc_dd_p95 = dd95,
                  mc_streak_mean = rnd (of_nat (sum_list losing) / of_nat (length draws)),
                  mc_streak_max = foldl max 0 losing\<rparr>))))))"

section \<open>Baselines\<close>

record baseline =
  bl_final_equity :: pyfloat
  bl_net_pnl :: pyfloat
  bl_return_pct :: pyfloat
  bl_trade_count :: nat

definition baseline_of :: "pyfloat \<Rightarrow> pyfloat \<Rightarrow> pyfloat \<Rightarrow> nat \<Rightarrow> baseline res" where
  "baseline_of capital final net n =
     bind_res (fdiv net capital) (\<lambda>r. Inr \<lparr>bl_final_equity = final, bl_net_pnl = net,
       bl_return_pct = fmul r (Fin 100), bl_trade_count = n\<rparr>)"

definition empty_baseline :: "pyfloat \<Rightarrow> nat \<Rightarrow> baseline" where
  "empty_baseline capital n = \<lparr>bl_final_equity = capital, bl_net_pnl = Fin 0, bl_return_pct = Fin 0, bl_trade_count = n\<rparr>"

definition buy_and_hold :: "candle list \<Rightarrow> pyfloat \<Rightarrow> baseline res" where
  "buy_and_hold cs capital =
     (if length cs < 2 then Inr (empty_baseline capital 1)
      else bind_res (fdiv capital (cd_close (hd cs))) (\<lambda>qty.
        let final = fmul qty (cd_close (last cs)) in baseline_of capital final (fsub final capital) 1))"

definition dca_indices :: "nat \<Rightarrow> nat \<Rightarrow> nat list res" where
  "dca_indices n steps =
     (if steps \<le> 1 then Inr [0]
      else map_res (\<lambda>i. bind_res (py_int (rnd (of_nat (i * (n - 1)) / of_nat (steps - 1)))) (\<lambda>k. Inr (nat k)))
             [0..<steps])"

definition dca :: "candle list \<Rightarrow> pyfloat \<Rightarrow> nat \<Rightarrow> baseline res" where
  "dca cs capital steps =
     (if cs = [] then Inr (empty_baseline capital 0)
      else let k = max 1 (min steps (length cs)); budget = fquot capital (f_of_int (int k)) in
        bind_res (dca_indices (length cs) k) (\<lambda>idx.
        bind_res (fold_res (\<lambda>i (qty, spent). bind_res (py_at cs i) (\<lambda>c. bind_res (fdiv budget (cd_close c)) (\<lambda>q.
             Inr (fadd qty q, fadd spent budget)))) idx (Fin 0, Fin 0)) (\<lambda>(qty, spent).
          let final = fmul qty (cd_close (last cs)) in baseline_of capital final (fsub final spent) k)))"

record sma_account =
  sb_cash :: pyfloat
  sb_qty :: pyfloat
  sb_trades :: nat

definition sma_baseline_step :: "pyfloat list \<Rightarrow> series \<Rightarrow> nat \<Rightarrow> sma_account \<Rightarrow> sma_account res" where
  "sma_baseline_step closes series i a =
     (case (series ! i, series ! (i - 1)) of
        (Some mid, Some prev) \<Rightarrow>
          (let px = closes ! i; before = closes ! (i - 1)
           in if fle prev before \<and> flt px mid \<and> sb_qty a = Fin 0 \<and> flt (Fin 0) (sb_cash a)
              then bind_res (fdiv (sb_cash a) px) (\<lambda>q. Inr \<lparr>sb_cash = Fin 0, sb_qty = q, sb_trades = sb_trades a + 1\<rparr>)
              else if fle before prev \<and> flt mid px \<and> flt (Fin 0) (sb_qty a)
              then Inr \<lparr>sb_cash = fmul (sb_qty a) px, sb_qty = Fin 0, sb_trades = sb_trades a + 1\<rparr>
              else Inr a)
      | _ \<Rightarrow> Inr a)"

definition simple_moving_average :: "candle list \<Rightarrow> pyfloat \<Rightarrow> nat \<Rightarrow> baseline res" where
  "simple_moving_average cs capital period =
     (if length cs \<le> period then Inr (empty_baseline capital 0)
      else let closes = map cd_close cs in
        bind_res (sma closes (int period)) (\<lambda>series.
        bind_res (fold_res (sma_baseline_step closes series) [period..<length cs]
                    \<lparr>sb_cash = capital, sb_qty = Fin 0, sb_trades = 0\<rparr>) (\<lambda>a.
          let final = fadd (sb_cash a) (fmul (sb_qty a) (last closes))
          in baseline_of capital final (fsub final capital) (sb_trades a))))"

definition run_baselines :: "candle list \<Rightarrow> pyfloat \<Rightarrow> (baseline \<times> baseline \<times> baseline) res" where
  "run_baselines cs capital =
     bind_res (buy_and_hold cs capital) (\<lambda>b. bind_res (dca cs capital 10) (\<lambda>d.
       bind_res (simple_moving_average cs capital 20) (\<lambda>s. Inr (b, d, s))))"

section \<open>The streak counters find the longest runs\<close>

definition runs :: "(pyfloat \<Rightarrow> bool) \<Rightarrow> pyfloat list \<Rightarrow> pyfloat list set" where
  "runs q xs = {ys. (\<exists>us vs. xs = us @ ys @ vs) \<and> list_all q ys}"

definition longest_run :: "(pyfloat \<Rightarrow> bool) \<Rightarrow> pyfloat list \<Rightarrow> nat" where
  "longest_run q xs = Max (length ` runs q xs)"

text \<open>The run that ends the list.\<close>

definition final_run :: "(pyfloat \<Rightarrow> bool) \<Rightarrow> pyfloat list \<Rightarrow> nat" where
  "final_run q xs = length (takeWhile q (rev xs))"

lemma runs_finite [simp]: "finite (runs q xs)"
proof (rule finite_subset)
  show "runs q xs \<subseteq> {ys. set ys \<subseteq> set xs \<and> length ys \<le> length xs}" by (auto simp: runs_def)
  show "finite {ys. set ys \<subseteq> set xs \<and> length ys \<le> length xs}" by (rule finite_lists_length_le) simp
qed

lemma runs_Nil [simp]: "[] \<in> runs q xs"
  by (auto simp: runs_def)

lemma runs_snoc: "ys \<in> runs q xs \<Longrightarrow> ys \<in> runs q (xs @ [x])"
  unfolding runs_def by (simp, metis append_assoc)

lemma run_le: "ys \<in> runs q xs \<Longrightarrow> length ys \<le> longest_run q xs"
  unfolding longest_run_def by (rule Max_ge) auto

lemma longest_run_attained: "\<exists>ys \<in> runs q xs. length ys = longest_run q xs"
proof -
  have "longest_run q xs \<in> length ` runs q xs"
    unfolding longest_run_def using runs_Nil by (intro Max_in) (simp, blast)
  then show ?thesis by auto
qed

lemma final_run_snoc: "final_run q (xs @ [x]) = (if q x then Suc (final_run q xs) else 0)"
  by (simp add: final_run_def)

lemma longest_run_Nil [simp]: "longest_run q [] = 0"
  using longest_run_attained [of q "[]"] by (auto simp: runs_def)

lemma final_run_suffix: "\<exists>ys \<in> runs q xs. length ys = final_run q xs"
proof -
  let ?ys = "rev (takeWhile q (rev xs))"
  have "xs = rev (dropWhile q (rev xs)) @ ?ys @ []"
    by (metis append_Nil2 rev_append rev_rev_ident takeWhile_dropWhile_id)
  moreover have "list_all q ?ys" by (auto simp: list_all_iff dest: set_takeWhileD)
  ultimately have "?ys \<in> runs q xs" unfolding runs_def by blast
  then show ?thesis unfolding final_run_def by (metis length_rev)
qed

lemma suffix_run_le:
  assumes "xs = us @ ys" and "list_all q ys"
  shows "length ys \<le> final_run q xs"
proof -
  have "takeWhile q (rev ys @ rev us) = rev ys @ takeWhile q (rev us)"
    using assms(2) by (intro takeWhile_append2) (auto simp: list_all_iff)
  with assms(1) show ?thesis by (simp add: final_run_def)
qed

lemma longest_run_snoc: "longest_run q (xs @ [x]) = max (longest_run q xs) (final_run q (xs @ [x]))"
proof (rule antisym)
  obtain ys where ys: "ys \<in> runs q (xs @ [x])" "length ys = longest_run q (xs @ [x])"
    using longest_run_attained by blast
  then obtain us vs where split: "xs @ [x] = us @ ys @ vs" and q: "list_all q ys" by (auto simp: runs_def)
  show "longest_run q (xs @ [x]) \<le> max (longest_run q xs) (final_run q (xs @ [x]))"
  proof (cases vs rule: rev_cases)
    case Nil
    with split q ys(2) suffix_run_le [of "xs @ [x]" us ys q] show ?thesis by simp
  next
    case (snoc ws w)
    with split q have "ys \<in> runs q xs" by (auto simp: runs_def)
    with ys(2) run_le show ?thesis by fastforce
  qed
  show "max (longest_run q xs) (final_run q (xs @ [x])) \<le> longest_run q (xs @ [x])"
    using longest_run_attained [of q xs] final_run_suffix [of q "xs @ [x]"]
    by (metis max.boundedI run_le runs_snoc)
qed

lemma win_not_loss: "is_win p \<Longrightarrow> \<not> is_loss p"
  by (cases p) (auto simp: is_win_def is_loss_def)

lemma streak_fold:
  "foldl streak_step no_streaks xs = \<lparr>sk_max_win = longest_run is_win xs, sk_max_loss = longest_run is_loss xs,
     sk_win = final_run is_win xs, sk_loss = final_run is_loss xs\<rparr>"
proof (induction xs rule: rev_induct)
  case Nil
  show ?case by (simp add: no_streaks_def final_run_def)
next
  case (snoc x xs)
  then show ?case
    using win_not_loss [of x] by (auto simp: streak_step_def longest_run_snoc final_run_snoc)
qed

text \<open>The streak counters of the backtest report, which look at each trade once, give the
  length of the longest run of consecutive winning trades and of consecutive losing trades
  anywhere in the sequence; a trade that neither wins nor loses, and one whose profit is not
  a number, ends both runs.\<close>
theorem streaks_are_longest_runs:
  "streaks_of pnls = (longest_run is_win pnls, longest_run is_loss pnls)"
  by (simp add: streaks_of_def streak_fold)

end
