(* ===== verification/Backtest_Engine.thy ===== *)
theory Backtest_Engine
  imports Paper_Engine Performance
begin

text \<open>
  \<open>backtest/engine.py\<close> and \<open>backtest/walk_forward.py\<close>: the candle loop that drives the paper engine
  over historical data.  The identity hash, the run identifiers and the appearance of a STOP file
  are arguments; any exception ends the run, so a round returns the next state or the exception.
\<close>

record backtest_config =
  bc_initial_capital :: pyfloat
  bc_commission_enabled :: bool
  bc_slippage_enabled :: bool
  bc_include_fees :: bool
  bc_include_slippage :: bool
  bc_prevent_lookahead :: bool
  bc_execution_model :: string

definition assert_safe :: "settings \<Rightarrow> backtest_config \<Rightarrow> unit res" where
  "assert_safe se c =
     (if \<not> paper_only se
      then Inl (LiveExecutionBlocked ''Backtests require TRADING_MODE=paper and LIVE_TRADING_ENABLED=false'')
      else if bc_execution_model c \<noteq> ''paper_exchange''
      then Inl (LiveExecutionBlocked (''Unsupported execution_model='' @ bc_execution_model c @ ''; only paper_exchange allowed''))
      else Inr ())"

definition strategy_aliases :: "(string \<times> string) list" where
  "strategy_aliases =
     [(''MOMENTUM_BREAKOUT_CRYPTO'', ''momentum_breakout_crypto''), (''MEAN_REVERSION_INDICES'', ''mean_reversion_equity''),
      (''TREND_FOLLOWING_COMMODITIES'', ''trend_following_commodities''),
      (''SMC_ORDER_BLOCK_CONFLUENCE'', ''multi_model_po3_vwap''), (''PO3_VWAP'', ''multi_model_po3_vwap''),
      (''PO3/VWAP'', ''multi_model_po3_vwap'')]"

record strategy_ref =
  sr_id :: string
  sr_version :: string
  sr_hash :: string

text \<open>\<open>knowledge.get_strategy\<close> is a lookup that raises \<open>KeyError\<close>; a second one follows the alias.\<close>

definition find_strategy :: "(string \<Rightarrow> strategy_ref option) \<Rightarrow> string \<Rightarrow> strategy_ref res" where
  "find_strategy knowledge sid =
     (case knowledge sid of
        Some r \<Rightarrow> Inr r
      | None \<Rightarrow>
          (let alias = opt_default (dget strategy_aliases (py_upper sid)) sid
           in case knowledge alias of Some r \<Rightarrow> Inr r | None \<Rightarrow> Inl (KeyError (''Unknown strategy '' @ alias))))"

definition bt_paper_config :: "backtest_config \<Rightarrow> paper_config" where
  "bt_paper_config c = \<lparr>pc_initial_cash = Some (bc_initial_capital c),
     pc_fees = \<lparr>fc_default_rate = Some (if bc_include_fees c \<and> bc_commission_enabled c then flit (1 / 1000) else Fin 0),
                fc_maker_bps = None, fc_taker_bps = None, fc_by_asset_class = [], fc_by_exchange = []\<rparr>,
     pc_slippage = \<lparr>sc_enabled = Some (bc_include_slippage c \<and> bc_slippage_enabled c), sc_model = Some ''fixed_bps'',
                    sc_mode = None, sc_default_bps = Some (if bc_include_slippage c then Fin 5 else Fin 0), sc_value = None,
                    sc_max_bps = Some (Fin 50), sc_percentage = None, sc_volatility_multiplier = None,
                    sc_volume_impact = None\<rparr>,
     pc_max_fail = Some 3, pc_flatten = Some False, pc_eod_flat_default = None, pc_instruments = []\<rparr>"

definition asset_class_of_symbol :: "string \<Rightarrow> string" where
  "asset_class_of_symbol symbol =
     (let s = py_upper symbol
      in if s \<in> {''SPY'', ''QQQ''} then ''ETF'' else if s \<in> {''GLD'', ''USO''} then ''COMMODITY''
         else if py_startswith s ''PREDICT/'' then ''PREDICTION_CONTRACT'' else ''CRYPTO'')"

definition plan_from_signal :: "backtest_config \<Rightarrow> strategy_ref \<Rightarrow> string \<Rightarrow> signal \<Rightarrow> trade_plan" where
  "plan_from_signal c st symbol sg =
     (let entry = sg_entry sg; is_long = (sg_side sg = ''LONG'');
          stop = float_or (sg_stop sg) (fmul entry (flit (if is_long then 98 / 100 else 102 / 100)));
          tp = float_or (sg_target sg) (fmul entry (flit (if is_long then 106 / 100 else 94 / 100)));
          unit_risk = fabs (fsub entry stop);
          risk_budget = fmul (bc_initial_capital c) (flit (5 / 1000));
          q0 = pmax (if flt (Fin 0) unit_risk then fquot risk_budget unit_risk else Fin 0) (Fin 0);
          cap = fmul (bc_initial_capital c) (flit (2 / 100));
          qty = (if flt cap (fmul q0 entry) \<and> flt (Fin 0) entry then fquot cap entry else q0);
          tradable = flt (Fin 0) qty
      in \<lparr>pl_strategy_id = sr_id st, pl_strategy_version = sr_version st,
          pl_model_ids = (if sg_model_ids sg = [] then [''BACKTEST''] else sg_model_ids sg), pl_symbol = symbol,
          pl_side = sg_side sg, pl_entry_price = entry, pl_quantity = qty, pl_notional = fmul qty entry,
          pl_stop_loss = Some stop, pl_take_profit = Some tp, pl_risk_amount = fmul unit_risk qty,
          pl_expected_fee = fmul (fmul qty entry) (flit (1 / 1000)), pl_expected_slippage = flit (5 / 10000),
          pl_risk_reward_ratio = (if flt (Fin 0) unit_risk then Some (fquot (fabs (fsub tp entry)) unit_risk) else None),
          pl_confidence = sg_confidence sg, pl_invalidation = [],
          pl_status = (if tradable then PROPOSED else NO_TRADE),
          pl_reason = (if tradable then None else Some ''ZERO_SIZE''),
          pl_move_be_at_1r = False, pl_partial_tp_pct = None\<rparr>)"

section \<open>The candle loop\<close>

datatype bt_event = Bt_Market nat pyfloat | Bt_Rejected "engine_reason list" | Bt_Filled string

record bt_state =
  bs_engine :: paper_engine
  bs_curve :: "equity_point list"
  bs_exposures :: "pyfloat list"
  bs_rejections :: nat
  bs_events :: "bt_event list"
  bs_sides :: "string list"

text \<open>What a run needs besides the candles.\<close>

record bt_run =
  rn_config :: backtest_config
  rn_strategy :: strategy_ref
  rn_symbol :: string
  rn_params :: signal_params
  rn_hash16 :: "string \<Rightarrow> string"
  rn_fmt10 :: "pyfloat \<Rightarrow> string"
  rn_half_power :: "pyfloat \<Rightarrow> pyfloat"
  rn_fmt3 :: "pyfloat \<Rightarrow> string"
  rn_iso :: "int \<Rightarrow> string"
  rn_stop :: "nat \<Rightarrow> string option"
  rn_run_id :: "nat \<Rightarrow> string"

definition price_path :: "bt_run \<Rightarrow> pyfloat list \<Rightarrow> exchange \<Rightarrow> exchange res" where
  "price_path rn pxs ex = fold_res (\<lambda>px x.
     case on_price_update (rn_hash16 rn) (rn_fmt10 rn) x (rn_symbol rn) px of
       (_, Inl err) \<Rightarrow> Inl err | (x', Inr _) \<Rightarrow> Inr x') pxs ex"

definition record_equity :: "bt_state \<Rightarrow> bt_state" where
  "record_equity st = (case engine_snapshot (bs_engine st) of (e, sn) \<Rightarrow>
     st\<lparr>bs_engine := e, bs_curve := bs_curve st @ [\<lparr>ep_equity = sn_equity sn, ep_cash = sn_cash sn,
          ep_drawdown = sn_drawdown_pct sn, ep_daily_pnl = sn_daily_pnl sn\<rparr>],
        bs_exposures := bs_exposures st @ [sn_positions_exposure sn]\<rparr>)"

definition trailing_rules :: "bt_run \<Rightarrow> signal \<Rightarrow> candle \<Rightarrow> exchange \<Rightarrow> exchange" where
  "trailing_rules rn sg c ex =
     (if py_contains ''DONCHIAN'' (py_upper (concat (sg_model_ids sg)))
      then (let range = fsub (cd_high c) (cd_low c);
                a = (if range = Fin 0 then fmul (cd_close c) (flit (1 / 100)) else range)
            in configure_position_rules ex (rn_symbol rn) False None (Some a) (Fin 2) None None None False)
      else ex)"

definition trade_signal :: "bt_run \<Rightarrow> nat \<Rightarrow> candle \<Rightarrow> signal \<Rightarrow> bt_state \<Rightarrow> bt_state res" where
  "trade_signal rn i c sg st =
     (if sg_side sg \<in> {''LONG'', ''SHORT''}
         \<and> dget (pf_positions (ex_portfolio (en_exchange (bs_engine st)))) (rn_symbol rn) = None
      then case execute_approved_plan (rn_hash16 rn) (rn_fmt10 rn) (rn_half_power rn) (rn_fmt3 rn) (rn_stop rn i) (rn_run_id rn i)
                  (plan_from_signal (rn_config rn) (rn_strategy rn) (rn_symbol rn) sg) (cd_close c)
                  (asset_class_of_symbol (rn_symbol rn)) [] False (bs_engine st) of
             (_, Inl err) \<Rightarrow> Inl err
           | (e, Inr r) \<Rightarrow>
               if er_executed r
               then Inr (st\<lparr>bs_engine := e\<lparr>en_exchange := trailing_rules rn sg c (en_exchange e)\<rparr>,
                           bs_sides := bs_sides st @ [sg_side sg], bs_events := bs_events st @ [Bt_Filled (sg_side sg)]\<rparr>)
               else Inr (st\<lparr>bs_engine := e, bs_rejections := bs_rejections st + 1,
                           bs_events := bs_events st @ [Bt_Rejected (er_reasons r)]\<rparr>)
      else Inr st)"

definition warmup :: nat where "warmup = 30"

definition bt_round :: "bt_run \<Rightarrow> candle list \<Rightarrow> nat \<Rightarrow> bt_state \<Rightarrow> bt_state res" where
  "bt_round rn cs i st =
     (case closed_round (new_guard cs (bc_prevent_lookahead (rn_config rn))) i of (g, c, hist) \<Rightarrow>
        bind_res (snd (assert_no_future_access (rn_iso rn) g hist)) (\<lambda>_.
        bind_res (price_path rn [cd_open c, cd_high c, cd_low c, cd_close c] (en_exchange (bs_engine st))) (\<lambda>ex.
          let st1 = st\<lparr>bs_engine := (bs_engine st)\<lparr>en_exchange := ex\<rparr>,
                       bs_events := bs_events st @ [Bt_Market i (cd_close c)]\<rparr>
          in if i < warmup then Inr (record_equity st1)
             else bind_res (signal_for_strategy (sr_id (rn_strategy rn)) cs (int i) (rn_params rn)) (\<lambda>sg.
                  bind_res (trade_signal rn i c sg st1) (\<lambda>st2. Inr (record_equity st2))))))"

definition bt_start :: "bt_run \<Rightarrow> paper_engine \<Rightarrow> string \<Rightarrow> bt_state" where
  "bt_start rn base bid =
     (let c = rn_config rn;
          ex = new_exchange (bt_paper_config c) (Some (new_portfolio (bc_initial_capital c))) [] bid
      in \<lparr>bs_engine = base\<lparr>en_exchange := ex\<lparr>ex_session_id := ss_session_id (en_session base)\<rparr>,
            en_session := (en_session base)\<lparr>ss_session_id := bid, ss_config_hash := sr_hash (rn_strategy rn),
              ss_starting_capital := bc_initial_capital c\<rparr>\<rparr>,
          bs_curve = [], bs_exposures = [], bs_rejections = 0, bs_events = [], bs_sides = []\<rparr>)"

definition bt_loop :: "bt_run \<Rightarrow> candle list \<Rightarrow> bt_state \<Rightarrow> bt_state res" where
  "bt_loop rn cs st = fold_res (bt_round rn cs) [0..<length cs] st"

section \<open>The report\<close>

text \<open>A trade of the paper venue as a row; sides are attached in order of execution.\<close>

definition row_of_trade :: "trade \<times> string option \<Rightarrow> trade_row" where
  "row_of_trade ts = (case ts of (t, side) \<Rightarrow>
     \<lparr>tw_net_pnl = Some (tr_net_pnl t), tw_gross_pnl = Some (tr_gross_pnl t), tw_fees = Some (tr_fees t),
      tw_slippage = Some (tr_slippage t), tw_tax_friction = None, tw_quantity = Some (tr_quantity t),
      tw_entry = tr_entry t, tw_exit = Some (tr_exit t), tw_side = side, tw_holding_hours = None\<rparr>)"

definition trade_rows :: "bt_state \<Rightarrow> trade_row list" where
  "trade_rows st =
     (let ts = ex_trades (en_exchange (bs_engine st)); n = length (bs_sides st)
      in map row_of_trade (zip ts (map (\<lambda>i. if i < n then Some (bs_sides st ! i) else None) [0..<length ts])))"

record backtest_result =
  bx_final_equity :: pyfloat
  bx_metrics :: backtest_metrics
  bx_risk_metrics :: risk_metrics
  bx_state :: bt_state
  bx_warnings :: "bt_warning list"

definition bt_report :: "(pyfloat \<Rightarrow> pyfloat) \<Rightarrow> (pyfloat \<Rightarrow> pyfloat option) \<Rightarrow> bt_run \<Rightarrow> bt_state \<Rightarrow> backtest_result" where
  "bt_report square_root growth rn st =
     (let cap = bc_initial_capital (rn_config rn); rows = trade_rows st; ex = en_exchange (bs_engine st);
          m = compute_backtest_metrics square_root growth rows (bs_curve st) cap
                (pf_fees_paid (ex_portfolio ex)) (fsum (map fl_slippage (ex_fills ex)))
      in \<lparr>bx_final_equity = (if bs_curve st = [] then cap else ep_equity (last (bs_curve st))), bx_metrics = m,
          bx_risk_metrics = compute_risk_metrics (bs_curve st) rows (bs_rejections st) (bs_exposures st),
          bx_state = st, bx_warnings = detect_overfitting_warnings m rows\<rparr>)"

definition backtest_run ::
  "(pyfloat \<Rightarrow> pyfloat) \<Rightarrow> (pyfloat \<Rightarrow> pyfloat option) \<Rightarrow> (string \<Rightarrow> strategy_ref option) \<Rightarrow> (candle list \<Rightarrow> strategy_ref \<Rightarrow> string)
   \<Rightarrow> paper_engine \<Rightarrow> bt_run \<Rightarrow> candle list \<Rightarrow> string \<Rightarrow> string option \<Rightarrow> backtest_result res" where
  "backtest_run square_root growth knowledge make_id base rn cs sid symbol =
     bind_res (assert_safe (en_settings base) (rn_config rn)) (\<lambda>_.
       if cs = [] then Inl (ValueError ''No candles for backtest'')
       else bind_res (find_strategy knowledge sid) (\<lambda>st.
         let rn1 = rn\<lparr>rn_strategy := st,
                      rn_symbol := py_upper (if opt_truthy symbol then the symbol else cd_symbol (hd cs))\<rparr>
         in bind_res (bt_loop rn1 cs (bt_start rn1 base (make_id cs st))) (\<lambda>s.
              Inr (bt_report square_root growth rn1 s))))"

section \<open>Walk forward validation\<close>

definition walk_forward_run ::
  "(candle list \<Rightarrow> backtest_result res) \<Rightarrow> candle list \<Rightarrow> day_spans \<Rightarrow> (backtest_result \<times> backtest_result \<times> backtest_result) list res option" where
  "walk_forward_run run cs d =
     Option.bind (walk_forward_windows cs d \<lparr>br_training = 0, br_validation = 0, br_test = 0, br_step = 0\<rparr>) (\<lambda>ws.
       Some (map_res (\<lambda>w. bind_res (run (sw_candles (fw_train w))) (\<lambda>a.
         bind_res (run (sw_candles (fw_validation w))) (\<lambda>b.
         bind_res (run (sw_candles (fw_out_of_sample w))) (\<lambda>c. Inr (a, b, c))))) ws))"

section \<open>No lookahead\<close>

lemma round_prefix:
  assumes "i < k" and "k \<le> length cs"
  shows "bt_round rn (take k cs) i st = bt_round rn cs i st"
proof -
  have "take (Suc i) (take k cs) = take (Suc i) cs" using assms(1) by (simp add: min_def)
  moreover have "signal_for_strategy sid (take k cs) (int i) ps = signal_for_strategy sid cs (int i) ps" for sid ps
    using assms(1) by (intro signal_prefix) simp
  moreover have "snd (assert_no_future_access f (new_guard (take k cs) b\<lparr>lg_cursor := int i\<rparr>) h)
      = snd (assert_no_future_access f (new_guard cs b\<lparr>lg_cursor := int i\<rparr>) h)" for f b h
    using assms by (simp add: new_guard_def assert_no_future_access_def Let_def split: list.splits)
  moreover have "lg_all (new_guard (take k cs) b) ! i = cs ! i" "lg_all (new_guard cs b) ! i = cs ! i"
    "lg_all (new_guard (take k cs) b) = take k cs" "lg_all (new_guard cs b) = cs" for b
    using assms by (simp_all add: new_guard_def)
  ultimately show ?thesis by (simp add: bt_round_def closed_round_def Let_def cong: if_cong)
qed

lemma round_curve:
  assumes "bt_round rn cs i st = Inr st'"
  shows "\<exists>p x. bs_curve st' = bs_curve st @ [p] \<and> bs_exposures st' = bs_exposures st @ [x]"
proof -
  have rec: "\<exists>p x. bs_curve (record_equity s) = bs_curve s @ [p] \<and> bs_exposures (record_equity s) = bs_exposures s @ [x]" for s
    by (simp add: record_equity_def split: prod.splits)
  have trade: "bs_curve s' = bs_curve s \<and> bs_exposures s' = bs_exposures s" if "trade_signal rn i c sg s = Inr s'" for c sg s s'
    using that by (auto simp: trade_signal_def split: if_splits prod.splits sum.splits)
  obtain s where "st' = record_equity s" "bs_curve s = bs_curve st" "bs_exposures s = bs_exposures st"
    using assms trade
    by (fastforce simp: bt_round_def closed_round_def bind_res_Inr_iff Let_def split: if_splits)
  with rec show ?thesis by metis
qed

lemma loop_curve:
  assumes "fold_res (bt_round rn cs) is st = Inr st'"
  shows "\<exists>ps xs. length ps = length is \<and> length xs = length is
    \<and> bs_curve st' = bs_curve st @ ps \<and> bs_exposures st' = bs_exposures st @ xs"
  using assms
proof (induction "is" arbitrary: st)
  case (Cons i "is")
  then obtain s where step: "bt_round rn cs i st = Inr s" and rest: "fold_res (bt_round rn cs) is s = Inr st'"
    by (auto simp: bind_res_Inr_iff)
  from round_curve [OF step] obtain p x where "bs_curve s = bs_curve st @ [p]" "bs_exposures s = bs_exposures st @ [x]" by blast
  moreover from Cons.IH [OF rest] obtain ps xs where "length ps = length is" "length xs = length is"
      "bs_curve st' = bs_curve s @ ps" "bs_exposures st' = bs_exposures s @ xs" by blast
  ultimately have "length (p # ps) = length (i # is) \<and> length (x # xs) = length (i # is)
      \<and> bs_curve st' = bs_curve st @ p # ps \<and> bs_exposures st' = bs_exposures st @ x # xs" by simp
  then show ?case by blast
qed simp

text \<open>The run over the first candles is the first part of the run over all of them.\<close>

lemma loop_prefix:
  assumes "bt_loop rn cs st = Inr st'" and "k \<le> length cs"
  shows "\<exists>sk. bt_loop rn (take k cs) st = Inr sk \<and> fold_res (bt_round rn cs) [k..<length cs] sk = Inr st'"
proof -
  have "[0..<length cs] = [0..<k] @ [k..<length cs]" using assms(2) by (metis add_0 le_Suc_ex upt_add_eq_append zero_le)
  with assms(1) obtain sk where first: "fold_res (bt_round rn cs) [0..<k] st = Inr sk"
    and rest: "fold_res (bt_round rn cs) [k..<length cs] sk = Inr st'"
    by (auto simp: bt_loop_def fold_res_append bind_res_Inr_iff)
  have "fold_res (bt_round rn (take k cs)) [0..<k] st = fold_res (bt_round rn cs) [0..<k] st"
    by (rule fold_res_cong) (use round_prefix assms(2) in auto)
  with first rest assms(2) show ?thesis by (simp add: bt_loop_def min_absorb2)
qed

text \<open>C4: The backtest does not look ahead.  If the run over some candles succeeds, then for every
  \<open>k\<close> the run over the first \<open>k\<close> candles alone succeeds too, and produces exactly the first \<open>k\<close>
  points of the equity curve and of the exposures: the later candles, whatever they are,
  change nothing that was recorded before them.\<close>
theorem backtest_no_lookahead:
  assumes "bt_loop rn cs (bt_start rn base bid) = Inr st" and "k \<le> length cs"
  shows "\<exists>sk. bt_loop rn (take k cs) (bt_start rn base bid) = Inr sk
    \<and> bs_curve sk = take k (bs_curve st) \<and> bs_exposures sk = take k (bs_exposures st)
    \<and> length (bs_curve st) = length cs"
proof -
  obtain sk where sk: "bt_loop rn (take k cs) (bt_start rn base bid) = Inr sk"
    and rest: "fold_res (bt_round rn cs) [k..<length cs] sk = Inr st"
    using loop_prefix [OF assms] by blast
  have "fold_res (bt_round rn (take k cs)) [0..<k] (bt_start rn base bid) = Inr sk"
    using sk assms(2) by (simp add: bt_loop_def min_absorb2)
  from loop_curve [OF this] have "length (bs_curve sk) = k" "length (bs_exposures sk) = k"
    by (auto simp: bt_start_def Let_def)
  moreover obtain ps xs where "bs_curve st = bs_curve sk @ ps" "bs_exposures st = bs_exposures sk @ xs"
      "length ps = length cs - k"
    using loop_curve [OF rest] by auto
  ultimately show ?thesis using sk assms(2) by (intro exI [of _ sk]) simp
qed

definition demo_run :: bt_run where
  "demo_run = \<lparr>rn_config = \<lparr>bc_initial_capital = Fin 8192, bc_commission_enabled = True, bc_slippage_enabled = True,
       bc_include_fees = True, bc_include_slippage = True, bc_prevent_lookahead = True, bc_execution_model = ''paper_exchange''\<rparr>,
     rn_strategy = \<lparr>sr_id = ''trend'', sr_version = ''1'', sr_hash = ''h''\<rparr>, rn_symbol = ''BTC'',
     rn_params = \<lparr>sp_lookback = None, sp_atr_mult = None, sp_volume_mult = None, sp_sma_period = None\<rparr>,
     rn_hash16 = id, rn_fmt10 = (\<lambda>_. []), rn_half_power = id, rn_fmt3 = (\<lambda>_. []), rn_iso = (\<lambda>_. []),
     rn_stop = (\<lambda>_. None), rn_run_id = (\<lambda>_. ''r'')\<rparr>"

text \<open>Before the first trade the loop only marks the account.\<close>

definition idle :: "bt_state \<Rightarrow> bool" where
  "idle st \<longleftrightarrow> ex_orders (en_exchange (bs_engine st)) = [] \<and> pf_positions (ex_portfolio (en_exchange (bs_engine st))) = []"

lemma idle_prices:
  assumes "ex_orders ex = []" "pf_positions (ex_portfolio ex) = []"
  shows "\<exists>ex'. price_path rn pxs ex = Inr ex' \<and> ex_orders ex' = [] \<and> pf_positions (ex_portfolio ex') = []"
  using assms
proof (induction pxs arbitrary: ex)
  case (Cons px pxs)
  then have "on_price_update (rn_hash16 rn) (rn_fmt10 rn) ex (rn_symbol rn) px = (set_price ex (rn_symbol rn) px, Inr [])"
    by (simp add: on_price_update_def set_price_def get_open_orders_def manage_open_position_def Let_def)
  moreover have "ex_orders (set_price ex (rn_symbol rn) px) = []" "pf_positions (ex_portfolio (set_price ex (rn_symbol rn) px)) = []"
    using Cons.prems by (simp_all add: set_price_def)
  ultimately show ?case using Cons.IH [of "set_price ex (rn_symbol rn) px"] by (simp add: price_path_def)
qed (simp add: price_path_def)

lemma idle_round:
  assumes "idle st" and "i < length cs" and "i < warmup" and "in_time_order cs"
  shows "\<exists>st'. bt_round rn cs i st = Inr st' \<and> idle st'"
proof -
  have "cd_time c \<le> cd_time (cs ! i)" if "c \<in> set (take (Suc i) cs)" for c
  proof -
    from that assms(2) obtain j where "j \<le> i" "c = cs ! j" by (auto simp: in_set_conv_nth less_Suc_eq_le)
    with assms(2,4) show ?thesis
      by (cases "j = i") (auto simp: in_time_order_def sorted_wrt_iff_nth_less order_le_less)
  qed
  then have "filter (\<lambda>c. cd_time (cs ! i) < cd_time c) (take (Suc i) cs) = []" by (auto simp: filter_empty_conv not_less)
  then have "snd (assert_no_future_access f (new_guard cs b\<lparr>lg_cursor := int i\<rparr>) (take (Suc i) cs)) = Inr ()" for f b
    by (simp add: assert_no_future_access_def new_guard_def)
  moreover obtain ex where "price_path rn [cd_open (cs ! i), cd_high (cs ! i), cd_low (cs ! i), cd_close (cs ! i)]
      (en_exchange (bs_engine st)) = Inr ex" "ex_orders ex = []" "pf_positions (ex_portfolio ex) = []"
    using idle_prices assms(1) unfolding idle_def by blast
  moreover have "lg_all (new_guard cs b) = cs" for b by (simp add: new_guard_def)
  ultimately show ?thesis
    using assms(3) by (simp add: bt_round_def closed_round_def record_equity_def engine_snapshot_def idle_def
        snapshot_def mark_all_def Let_def)
qed

lemma idle_loop:
  assumes "idle st" and "length cs \<le> warmup" and "in_time_order cs" and "k \<le> length cs"
  shows "\<exists>st'. fold_res (bt_round rn cs) [0..<k] st = Inr st' \<and> idle st'"
  using assms(4)
proof (induction k)
  case (Suc k)
  then obtain s where "fold_res (bt_round rn cs) [0..<k] st = Inr s" "idle s" by auto
  moreover from this obtain s' where "bt_round rn cs k s = Inr s'" "idle s'"
    using idle_round [of s k cs] Suc.prems assms(2,3) by auto
  ultimately show ?case by (simp add: fold_res_append)
qed (use assms(1) in simp)

lemma backtest_no_lookahead_witness:
  "\<exists>st sk. bt_loop demo_run (map demo_candle [1, 2]) (bt_start demo_run demo_engine ''B'') = Inr st
    \<and> bt_loop demo_run [demo_candle 1] (bt_start demo_run demo_engine ''B'') = Inr sk
    \<and> bs_curve sk = take 1 (bs_curve st) \<and> length (bs_curve st) = 2"
proof -
  have "idle (bt_start demo_run demo_engine ''B'')"
    by (simp add: idle_def bt_start_def new_exchange_def new_portfolio_def opt_default_def Let_def)
  moreover have "length (map demo_candle [1, 2]) \<le> warmup" by (simp add: warmup_def)
  moreover have "in_time_order (map demo_candle [1, 2])" by (simp add: in_time_order_def demo_candle_def)
  ultimately obtain st where "bt_loop demo_run (map demo_candle [1, 2]) (bt_start demo_run demo_engine ''B'') = Inr st"
    unfolding bt_loop_def using idle_loop [OF _ _ _ order_refl] by blast
  with backtest_no_lookahead [OF this, of 1] show ?thesis by auto
qed

end
