(* ===== verification/Paper_Store.thy ===== *)
theory Paper_Store
  imports Durable_Store
begin

text \<open>
  \<open>paper/persistence.py\<close>: what the paper engine saves.  The in memory store keeps one list per
  kind of record; the SQLite store one table per kind, a row being the session column, the order
  column and the JSON text.  \<open>dumps\<close> and \<open>loads\<close> stand for the \<open>json\<close> module (its printing of
  floats is not modelled); the store relies on loading what was dumped.
\<close>

datatype kind = Events | Orders | Fills | Trades | Snapshots | Sessions

section \<open>In memory\<close>

type_synonym mem_store = "kind \<Rightarrow> json_obj list"

definition mem_empty :: mem_store where
  "mem_empty k = []"

definition mem_save :: "kind \<Rightarrow> json_obj \<Rightarrow> mem_store \<Rightarrow> mem_store" where
  "mem_save k p s = s(k := s k @ [p])"

text \<open>\<open>o.get("session_id") == session_id\<close> for a session given as a string.\<close>

definition session_of :: "json_obj \<Rightarrow> json option" where
  "session_of p = dget p ''session_id''"

definition mem_load :: "kind \<Rightarrow> string option \<Rightarrow> mem_store \<Rightarrow> json_obj list" where
  "mem_load k sid s = (case sid of None \<Rightarrow> s k
     | Some x \<Rightarrow> filter (\<lambda>p. session_of p = Some (JStr x)) (s k))"

section \<open>SQLite\<close>

record 'text row =
  row_session :: "json option"
  row_order :: "json option"
  row_payload :: 'text

type_synonym 'text sql_store = "kind \<Rightarrow> 'text row list"

definition sql_empty :: "'text sql_store" where
  "sql_empty k = []"

text \<open>\<open>_insert\<close>: the column is the payload's entry, and only orders have a second one.\<close>

definition sql_save :: "(json_obj \<Rightarrow> 'text) \<Rightarrow> kind \<Rightarrow> json_obj \<Rightarrow> 'text sql_store \<Rightarrow> 'text sql_store" where
  "sql_save dumps k p s = s(k := s k @ [\<lparr>row_session = session_of p,
     row_order = (if k = Orders then dget p ''order_id'' else None), row_payload = dumps p\<rparr>])"

text \<open>\<open>WHERE session_id = ?\<close>: a null column never compares equal.\<close>

definition sql_load :: "('text \<Rightarrow> json_obj) \<Rightarrow> kind \<Rightarrow> string option \<Rightarrow> 'text sql_store \<Rightarrow> json_obj list" where
  "sql_load loads k sid s = (case sid of
     None \<Rightarrow> map (loads \<circ> row_payload) (s k)
   | Some x \<Rightarrow> map (loads \<circ> row_payload) (filter (\<lambda>r. row_session r = Some (JStr x)) (s k)))"

text \<open>What the program saves: the session is a text or absent.  (SQLite would turn a number into text
  and refuse a list.)\<close>

definition session_text :: "json_obj \<Rightarrow> bool" where
  "session_text p = (case session_of p of None \<Rightarrow> True | Some JNull \<Rightarrow> True | Some (JStr _) \<Rightarrow> True | _ \<Rightarrow> False)"

definition save_all :: "(kind \<Rightarrow> json_obj \<Rightarrow> 's \<Rightarrow> 's) \<Rightarrow> (kind \<times> json_obj) list \<Rightarrow> 's \<Rightarrow> 's" where
  "save_all save ps s = fold (\<lambda>(k, p). save k p) ps s"

lemma save_all_simps [simp]:
  "save_all save [] s = s" "save_all save ((k, p) # ps) s = save_all save ps (save k p s)"
  by (simp_all add: save_all_def)

section \<open>The contract of a store\<close>

text \<open>Any store is an append only log per kind; loading filters it by session.\<close>

locale log_store =
  fixes empty :: 's
    and save :: "kind \<Rightarrow> json_obj \<Rightarrow> 's \<Rightarrow> 's"
    and load :: "kind \<Rightarrow> string option \<Rightarrow> 's \<Rightarrow> json_obj list"
    and savable :: "json_obj \<Rightarrow> bool"
  assumes load_empty: "load k sid empty = []"
    and load_saved: "savable p \<Longrightarrow> load k None (save j p s) = load k None s @ (if j = k then [p] else [])"
    and load_session_saved: "savable p \<Longrightarrow> load k (Some x) (save j p s)
      = load k (Some x) s @ (if j = k \<and> session_of p = Some (JStr x) then [p] else [])"
begin

lemma load_all:
  assumes "\<forall>(k, p) \<in> set ps. savable p"
  shows "load k None (save_all save ps s) = load k None s @ map snd (filter (\<lambda>(j, p). j = k) ps)"
  using assms by (induction ps arbitrary: s) (auto simp: load_saved)

lemma load_session:
  assumes "\<forall>(k, p) \<in> set ps. savable p"
  shows "load k (Some x) (save_all save ps s) = load k (Some x) s
    @ map snd (filter (\<lambda>(j, p). j = k \<and> session_of p = Some (JStr x)) ps)"
  using assms by (induction ps arbitrary: s) (auto simp: load_session_saved split: if_splits)

lemma load_log:
  assumes "\<forall>(k, p) \<in> set ps. savable p"
  shows "load k sid (save_all save ps empty)
    = map snd (filter (\<lambda>(j, p). j = k \<and> (sid = None \<or> session_of p = map_option JStr sid)) ps)"
  by (cases sid) (simp_all add: load_all [OF assms] load_session [OF assms] load_empty)

end

interpretation mem_log: log_store mem_empty mem_save mem_load "\<lambda>_. True"
  by unfold_locales (auto simp: mem_empty_def mem_load_def mem_save_def split: option.splits)

interpretation sql_log: log_store sql_empty "sql_save dumps" "sql_load loads"
    "\<lambda>p. loads (dumps p) = p \<and> session_text p"
  for dumps :: "json_obj \<Rightarrow> 'text" and loads :: "'text \<Rightarrow> json_obj"
  by unfold_locales (auto simp: sql_empty_def sql_load_def sql_save_def split: option.splits)

section \<open>The two stores agree\<close>

text \<open>C18: The SQLite store refines the in memory store.  After any saves of records whose session
  is a text and which the \<open>json\<close> module reads back as they were, loading a kind of record, for
  all sessions or for one, gives the same list from both stores: every record that was saved
  under it, in the order of saving, unchanged.\<close>
theorem sqlite_refines_memory:
  assumes "\<forall>(k, p) \<in> set ps. loads (dumps p) = p \<and> session_text p"
  shows "sql_load loads k sid (save_all (sql_save dumps) ps sql_empty) = mem_load k sid (save_all mem_save ps mem_empty)
    \<and> mem_load k sid (save_all mem_save ps mem_empty)
      = map snd (filter (\<lambda>(j, p). j = k \<and> (sid = None \<or> session_of p = map_option JStr sid)) ps)"
  using assms by (simp add: mem_log.load_log sql_log.load_log)

lemma sqlite_refines_memory_witness:
  "sql_load rev Events (Some ''S'') (save_all (sql_save rev)
      [(Events, [(''type'', JStr ''A''), (''session_id'', JStr ''S'')]), (Orders, [(''session_id'', JStr ''S'')]),
       (Events, [(''session_id'', JStr ''T'')])] sql_empty)
    = [[(''type'', JStr ''A''), (''session_id'', JStr ''S'')]]"
  using sqlite_refines_memory
    [of "[(Events, [(''type'', JStr ''A''), (''session_id'', JStr ''S'')]), (Orders, [(''session_id'', JStr ''S'')]),
          (Events, [(''session_id'', JStr ''T'')])]" rev rev Events "Some ''S''"]
  by (simp add: session_of_def session_text_def)

end
