(* ===== verification/Learning.thy ===== *)
theory Learning
  imports Okf_Gates Backtest_Data "HOL-Library.Multiset"
begin

text \<open>
  The parts of \<open>learning/\<close> that hold no models: the configuration, trade records, post-mortems
  (\<open>failure_analysis.py\<close>, \<open>post_mortem.py\<close>, \<open>reflection.py\<close>), calibration (\<open>brier.py\<close>, \<open>calibration.py\<close>),
  Kelly sizing (\<open>kelly.py\<close>), drift (\<open>drift.py\<close>), market regimes and features (\<open>regime.py\<close>, \<open>features.py\<close>) and
  the retrieval of similar trades (\<open>retrieval.py\<close>).  The square root, the logarithm and the text of a float
  are parameters; time stamps, the free-form dictionaries of a record and its uuids are left out.
\<close>

section \<open>Configuration and records\<close>

record learning_config =
  lc_enabled :: bool
  lc_memory_enabled :: bool
  lc_similarity_threshold :: pyfloat
  lc_max_retrieved_cases :: nat
  lc_rolling_window :: nat
  lc_max_brier :: pyfloat
  lc_retraining_enabled :: bool
  lc_interval_trades :: int
  lc_primary_model :: string
  lc_min_sample_size :: nat
  lc_kelly_base :: pyfloat
  lc_kelly_degraded :: pyfloat
  lc_kelly_min :: pyfloat
  lc_kelly_max :: pyfloat
  lc_regime_enabled :: bool
  lc_drift_enabled :: bool
  lc_brier_degrade_delta :: pyfloat
  lc_winrate_degrade_delta :: pyfloat
  lc_automatic_live_deployment :: bool
  lc_can_modify_hard_limits :: bool
  lc_can_disable_kill_switch :: bool
  lc_can_create_orders :: bool
  lc_reflection_enabled :: bool
  lc_after_every_trade :: bool

definition default_learning :: learning_config where
  "default_learning = \<lparr>lc_enabled = True, lc_memory_enabled = True, lc_similarity_threshold = flit (80 / 100),
     lc_max_retrieved_cases = 5, lc_rolling_window = 50, lc_max_brier = Fin (1 / 4), lc_retraining_enabled = True,
     lc_interval_trades = 100, lc_primary_model = ''XGBoost_Classifier'', lc_min_sample_size = 20,
     lc_kelly_base = Fin (1 / 4), lc_kelly_degraded = Fin (1 / 8), lc_kelly_min = Fin (1 / 4), lc_kelly_max = Fin 1,
     lc_regime_enabled = True, lc_drift_enabled = True, lc_brier_degrade_delta = flit (5 / 100),
     lc_winrate_degrade_delta = flit (15 / 100), lc_automatic_live_deployment = False, lc_can_modify_hard_limits = False,
     lc_can_disable_kill_switch = False, lc_can_create_orders = False, lc_reflection_enabled = True,
     lc_after_every_trade = True\<rparr>"

definition assert_learning_safety :: "learning_config \<Rightarrow> unit res" where
  "assert_learning_safety c =
     (if lc_automatic_live_deployment c then Inl (PermissionError ''automatic_live_deployment must remain false'')
      else if lc_can_modify_hard_limits c then Inl (PermissionError ''learning cannot modify hard risk limits'')
      else if lc_can_disable_kill_switch c then Inl (PermissionError ''learning cannot disable kill switch'')
      else if lc_can_create_orders c then Inl (PermissionError ''learning cannot create exchange orders'')
      else Inr ())"

datatype failure_category = BAD_PREDICTION | HIGH_SLIPPAGE | MARKET_REGIME_SHIFT | BAD_TIMING_OR_EXECUTION
  | EXTERNAL_SHOCK | NORMAL_VARIANCE | UNKNOWN_FAILURE

datatype success_category = GOOD_PREDICTION | GOOD_EXECUTION | REGIME_ALIGNED | UNKNOWN_SUCCESS

datatype market_regime = TRENDING_UP | TRENDING_DOWN | RANGING | HIGH_VOLATILITY | LOW_VOLATILITY | BREAKOUT
  | MEAN_REVERTING | UNKNOWN_REGIME

type_synonym features = "(string \<times> pyfloat option) list"

record learning_record =
  le_trade_id :: string
  le_strategy_id :: "string option"
  le_symbol :: string
  le_regime :: market_regime
  le_features :: features
  le_entry_price :: "pyfloat option"
  le_exit_price :: "pyfloat option"
  le_quantity :: "pyfloat option"
  le_slippage :: pyfloat
  le_net_pnl :: pyfloat
  le_probability :: "pyfloat option"
  le_execution_quality :: "string option"
  le_drift_state :: "string option"
  le_outcome :: trade_outcome
  le_failures :: "failure_category list"
  le_successes :: "success_category list"
  le_lesson :: "string option"
  le_memory_id :: string
  le_brier :: "pyfloat option"

section \<open>Post-mortem\<close>

definition fnonzero :: "pyfloat \<Rightarrow> bool" where
  "fnonzero x \<longleftrightarrow> x \<noteq> Fin 0"

definition high_slippage :: "learning_record \<Rightarrow> bool" where
  "high_slippage r = (case le_entry_price r of None \<Rightarrow> False
     | Some e \<Rightarrow> fnonzero (le_slippage r) \<and> fnonzero e
                \<and> flt (flit (5 / 1000)) (fquot (le_slippage r) (pmax e (flit (1 / 10 ^ 9)))))"

definition predicted_win :: "learning_record \<Rightarrow> bool" where
  "predicted_win r = (case le_probability r of None \<Rightarrow> False | Some p \<Rightarrow> fle (flit (55 / 100)) p)"

definition external_shock :: "learning_record \<Rightarrow> bool" where
  "external_shock r = (case dget (le_features r) ''EXTERNAL_SHOCK'' of Some (Some v) \<Rightarrow> fnonzero v | _ \<Rightarrow> False)"

definition list_if :: "bool \<Rightarrow> 'a \<Rightarrow> 'a list" where
  "list_if b x = (if b then [x] else [])"

definition causes :: "learning_record \<Rightarrow> failure_category list" where
  "causes r = list_if (high_slippage r) HIGH_SLIPPAGE
     @ list_if (le_probability r \<noteq> None \<and> predicted_win r \<and> le_outcome r \<noteq> WIN) BAD_PREDICTION
     @ list_if (le_execution_quality r = Some ''POOR'') BAD_TIMING_OR_EXECUTION
     @ list_if (le_drift_state r = Some ''REGIME_SHIFT'') MARKET_REGIME_SHIFT
     @ list_if (external_shock r) EXTERNAL_SHOCK"

definition failure_list :: "learning_record \<Rightarrow> failure_category list" where
  "failure_list r = causes r @ list_if (causes r = [] \<and> le_outcome r = LOSS) NORMAL_VARIANCE"

definition success_list :: "learning_record \<Rightarrow> success_category list" where
  "success_list r =
     (let won = (le_outcome r = WIN);
          ss = list_if (le_probability r \<noteq> None \<and> won) (if predicted_win r then GOOD_PREDICTION else GOOD_EXECUTION);
          ss1 = ss @ list_if (failure_list r = [] \<and> ss = [] \<and> won) GOOD_EXECUTION
      in ss1 @ list_if (le_regime r \<in> {TRENDING_UP, TRENDING_DOWN, BREAKOUT} \<and> won) REGIME_ALIGNED)"

fun join_with :: "string \<Rightarrow> string list \<Rightarrow> string" where
  "join_with sep [] = []"
| "join_with sep [s] = s"
| "join_with sep (s # t # ts) = s @ sep @ join_with sep (t # ts)"

definition lesson_of :: "failure_category list \<Rightarrow> success_category list \<Rightarrow> string" where
  "lesson_of fs ss =
     (let parts = list_if (BAD_PREDICTION \<in> set fs) ''Prediction disagreed with outcome; review calibration.''
            @ list_if (HIGH_SLIPPAGE \<in> set fs) ''Execution slippage elevated relative to entry.''
            @ list_if (NORMAL_VARIANCE \<in> set fs) ''Loss consistent with normal variance; not labeled strategy failure.''
            @ list_if (GOOD_PREDICTION \<in> set ss) ''Prediction aligned with outcome.''
      in if parts = [] then ''Recorded for memory.'' else join_with '' '' parts)"

definition classify_trade :: "learning_record \<Rightarrow> learning_record" where
  "classify_trade r =
     (let ss = success_list r;
          fs = failure_list r @ list_if (failure_list r = [] \<and> ss = []) UNKNOWN_FAILURE
      in r\<lparr>le_failures := fs, le_successes := ss, le_lesson := Some (lesson_of fs ss)\<rparr>)"

record post_mortem =
  pm_trade_id :: string
  pm_outcome :: trade_outcome
  pm_failures :: "failure_category list"
  pm_successes :: "success_category list"
  pm_brier :: "pyfloat option"
  pm_regime :: market_regime
  pm_prediction_correct :: "bool option"
  pm_execution_quality :: "string option"
  pm_lesson :: "string option"

definition outcome_of :: "pyfloat \<Rightarrow> trade_outcome" where
  "outcome_of pnl = (if flt (Fin 0) pnl then WIN else if flt pnl (Fin 0) then LOSS else BREAKEVEN)"

definition outcome_bit :: "trade_outcome \<Rightarrow> int" where
  "outcome_bit w = (if w = WIN then 1 else 0)"

definition run_post_mortem :: "learning_record \<Rightarrow> learning_record \<times> post_mortem" where
  "run_post_mortem r0 =
     (let r = classify_trade (r0\<lparr>le_outcome := outcome_of (le_net_pnl r0)\<rparr>);
          brier = map_option (\<lambda>p. brier_score p (outcome_bit (le_outcome r))) (le_probability r);
          r1 = (if brier = None then r else r\<lparr>le_brier := brier\<rparr>)
      in (r1, \<lparr>pm_trade_id = le_trade_id r1, pm_outcome = le_outcome r1, pm_failures = le_failures r1,
               pm_successes = le_successes r1, pm_brier = brier, pm_regime = le_regime r1,
               pm_prediction_correct = (if le_probability r1 = None then None
                                        else Some (predicted_win r1 = (le_outcome r1 = WIN))),
               pm_execution_quality = le_execution_quality r1, pm_lesson = le_lesson r1\<rparr>))"

record reflection =
  rf_trade_id :: string
  rf_what_happened :: string
  rf_expected :: string
  rf_actually :: string
  rf_contributors :: "failure_category list \<times> success_category list"
  rf_prediction_correct :: "bool option"
  rf_execution_correct :: bool
  rf_calibrated :: bool
  rf_pattern :: "string option"
  rf_to_test :: string

definition outcome_name :: "trade_outcome \<Rightarrow> string" where
  "outcome_name w = (case w of WIN \<Rightarrow> ''WIN'' | LOSS \<Rightarrow> ''LOSS'' | BREAKEVEN \<Rightarrow> ''BREAKEVEN'')"

definition reflect :: "(pyfloat \<Rightarrow> string) \<Rightarrow> learning_record \<Rightarrow> post_mortem \<Rightarrow> reflection" where
  "reflect repr r pm =
     \<lparr>rf_trade_id = le_trade_id r,
      rf_what_happened = ''Trade '' @ le_trade_id r @ '' closed as '' @ outcome_name (le_outcome r),
      rf_expected = (case le_probability r of None \<Rightarrow> ''No explicit probability recorded''
                     | Some p \<Rightarrow> ''Predicted win probability '' @ repr p),
      rf_actually = ''Outcome '' @ outcome_name (le_outcome r) @ '' net_pnl='' @ repr (le_net_pnl r),
      rf_contributors = (pm_failures pm, pm_successes pm),
      rf_prediction_correct = pm_prediction_correct pm,
      rf_execution_correct = (le_execution_quality r \<noteq> Some ''POOR''),
      rf_calibrated = (case le_brier r of None \<Rightarrow> True | Some b \<Rightarrow> \<not> flt (Fin (1 / 4)) b),
      rf_pattern = le_lesson r,
      rf_to_test = (if le_outcome r = LOSS then ''Calibration and regime filters''
                    else ''Repeatability of successful setup'')\<rparr>"

section \<open>Calibration\<close>

text \<open>\<open>brier.py\<close>; the logarithm is a parameter.\<close>

definition learning_log_loss :: "(pyfloat \<Rightarrow> pyfloat) \<Rightarrow> pyfloat \<Rightarrow> int \<Rightarrow> pyfloat" where
  "learning_log_loss nlog p0 o1 =
     (let p = pmin (pmax p0 (flit (1 / 10 ^ 12))) (fsub (Fin 1) (flit (1 / 10 ^ 12)))
      in fneg (fadd (fmul (f_of_int o1) (nlog p)) (fmul (f_of_int (1 - o1)) (nlog (fsub (Fin 1) p)))))"

definition rolling_log_loss :: "(pyfloat \<Rightarrow> pyfloat) \<Rightarrow> (pyfloat \<times> int) list \<Rightarrow> pyfloat option" where
  "rolling_log_loss nlog ps = (if ps = [] then None
     else Some (fquot (fsum (map (\<lambda>(p, o1). learning_log_loss nlog p o1) ps)) (f_of_int (int (length ps)))))"

record calibration =
  ca_history :: "(pyfloat \<times> int) list"
  ca_by_strategy :: "(string \<times> (pyfloat \<times> int) list) list"
  ca_by_regime :: "(market_regime \<times> (pyfloat \<times> int) list) list"

definition new_calibration :: calibration where
  "new_calibration = \<lparr>ca_history = [], ca_by_strategy = [], ca_by_regime = []\<rparr>"

text \<open>\<open>d.setdefault(k, []).append(x); d[k] = d[k][-w:]\<close>.\<close>

definition roll_into :: "nat \<Rightarrow> 'k \<Rightarrow> 'a \<Rightarrow> ('k \<times> 'a list) list \<Rightarrow> ('k \<times> 'a list) list" where
  "roll_into w k x d = dput k (tail_slice w (opt_default (dget d k) [] @ [x])) d"

definition degraded_brier :: "learning_config \<Rightarrow> pyfloat option \<Rightarrow> bool" where
  "degraded_brier c b = (case b of None \<Rightarrow> False | Some v \<Rightarrow> flt (lc_max_brier c) v)"

definition calibration_degraded :: "learning_config \<Rightarrow> calibration \<Rightarrow> bool" where
  "calibration_degraded c ca = degraded_brier c (rolling_brier (ca_history ca))"

definition calibration_update ::
  "learning_config \<Rightarrow> calibration \<Rightarrow> pyfloat \<Rightarrow> int \<Rightarrow> string option \<Rightarrow> market_regime \<Rightarrow> calibration" where
  "calibration_update c ca p o1 strategy regime =
     (let w = lc_rolling_window c in
      ca\<lparr>ca_history := tail_slice w (ca_history ca @ [(p, o1)]),
         ca_by_strategy := (if opt_truthy strategy then roll_into w (the strategy) (p, o1) (ca_by_strategy ca)
                            else ca_by_strategy ca),
         ca_by_regime := roll_into w regime (p, o1) (ca_by_regime ca)\<rparr>)"

record calibration_status =
  cs_brier :: "pyfloat option"
  cs_log_loss :: "pyfloat option"
  cs_count :: nat
  cs_degraded :: bool
  cs_by_strategy :: "(string \<times> pyfloat option) list"
  cs_by_regime :: "(market_regime \<times> pyfloat option) list"

definition calibration_status :: "(pyfloat \<Rightarrow> pyfloat) \<Rightarrow> learning_config \<Rightarrow> calibration \<Rightarrow> calibration_status" where
  "calibration_status nlog c ca =
     \<lparr>cs_brier = rolling_brier (ca_history ca), cs_log_loss = rolling_log_loss nlog (ca_history ca),
      cs_count = length (ca_history ca), cs_degraded = calibration_degraded c ca,
      cs_by_strategy = map (\<lambda>(k, v). (k, rolling_brier v)) (ca_by_strategy ca),
      cs_by_regime = map (\<lambda>(k, v). (k, rolling_brier v)) (ca_by_regime ca)\<rparr>"

section \<open>Kelly sizing\<close>

definition kelly_fraction :: "pyfloat \<Rightarrow> pyfloat \<Rightarrow> pyfloat" where
  "kelly_fraction p b = (if fle b (Fin 0) then Fin 0
     else pmax (Fin 0) (fquot (fsub (fmul p b) (fsub (Fin 1) p)) b))"

record kelly_decision =
  kd_full :: pyfloat
  kd_fractional :: pyfloat
  kd_multiplier :: pyfloat
  kd_degraded :: bool

text \<open>
  The source computes the multiplier twice; the second value, from the base or the degraded fraction alone,
  is the one it returns.
\<close>

definition bounded_kelly_multiplier :: "learning_config \<Rightarrow> pyfloat \<Rightarrow> pyfloat \<Rightarrow> bool \<Rightarrow> kelly_decision" where
  "bounded_kelly_multiplier c p b degraded =
     (let full = kelly_fraction p b;
          m = pmin (lc_kelly_max c) (pmax (lc_kelly_min c) (if degraded then lc_kelly_degraded c else lc_kelly_base c))
      in \<lparr>kd_full = full, kd_fractional = fmul full m, kd_multiplier = m, kd_degraded = degraded\<rparr>)"

definition adapt_position_multiplier :: "learning_config \<Rightarrow> pyfloat \<Rightarrow> pyfloat \<Rightarrow> bool \<Rightarrow> pyfloat" where
  "adapt_position_multiplier c p b degraded = kd_multiplier (bounded_kelly_multiplier c p b degraded)"

section \<open>Drift\<close>

datatype drift_type = MODEL_DRIFT | FEATURE_DRIFT | PERFORMANCE_DRIFT | CALIBRATION_DRIFT

record drift_monitor =
  dm_events :: "(drift_type \<times> pyfloat) list"
  dm_base_brier :: "pyfloat option"
  dm_base_winrate :: "pyfloat option"
  dm_recent_brier :: "pyfloat option"
  dm_recent_winrate :: "pyfloat option"

definition new_drift :: drift_monitor where
  "new_drift = \<lparr>dm_events = [], dm_base_brier = None, dm_base_winrate = None, dm_recent_brier = None,
     dm_recent_winrate = None\<rparr>"

definition first_known :: "'a option \<Rightarrow> 'a option \<Rightarrow> 'a option" where
  "first_known a b = (if a = None then b else a)"

definition brier_drift :: "learning_config \<Rightarrow> drift_monitor \<Rightarrow> pyfloat \<Rightarrow> drift_monitor \<times> (drift_type \<times> pyfloat) list" where
  "brier_drift c d b =
     (let base = opt_default (dm_base_brier d) b
      in (d\<lparr>dm_base_brier := Some base, dm_recent_brier := Some b\<rparr>,
          list_if (fle (lc_brier_degrade_delta c) (fsub b base)) (CALIBRATION_DRIFT, b)))"

definition winrate_drift :: "learning_config \<Rightarrow> drift_monitor \<Rightarrow> pyfloat \<Rightarrow> drift_monitor \<times> (drift_type \<times> pyfloat) list" where
  "winrate_drift c d w =
     (let base = opt_default (dm_base_winrate d) w
      in (d\<lparr>dm_base_winrate := Some base, dm_recent_winrate := Some w\<rparr>,
          list_if (fle (lc_winrate_degrade_delta c) (fsub base w)) (PERFORMANCE_DRIFT, w)))"

definition drift_update ::
  "learning_config \<Rightarrow> drift_monitor \<Rightarrow> pyfloat option \<Rightarrow> pyfloat option \<Rightarrow> pyfloat option
   \<Rightarrow> drift_monitor \<times> (drift_type \<times> pyfloat) list" where
  "drift_update c d brier winrate shift =
     (if \<not> lc_drift_enabled c then (d, [])
      else (let (d1, e1) = (case brier of None \<Rightarrow> (d, []) | Some b \<Rightarrow> brier_drift c d b);
                (d2, e2) = (case winrate of None \<Rightarrow> (d1, []) | Some w \<Rightarrow> winrate_drift c d1 w);
                e3 = (case shift of None \<Rightarrow> [] | Some s \<Rightarrow> list_if (flt (flit (35 / 100)) s) (FEATURE_DRIFT, s));
                es = e1 @ e2 @ e3
            in (d2\<lparr>dm_events := dm_events d2 @ es\<rparr>, es)))"

section \<open>Regimes and features\<close>

definition closes_of :: "candle list \<Rightarrow> pyfloat list" where "closes_of = map cd_close"
definition highs_of :: "candle list \<Rightarrow> pyfloat list" where "highs_of = map cd_high"
definition lows_of :: "candle list \<Rightarrow> pyfloat list" where "lows_of = map cd_low"
definition volumes_of :: "candle list \<Rightarrow> pyfloat list" where "volumes_of = map cd_volume"

definition opt_is :: "(pyfloat \<Rightarrow> bool) \<Rightarrow> pyfloat option \<Rightarrow> bool" where
  "opt_is P x = (case x of None \<Rightarrow> False | Some v \<Rightarrow> P v)"

definition average_volume :: "candle list \<Rightarrow> pyfloat" where
  "average_volume cs = fquot (fsum (last_n 20 (volumes_of cs))) (Fin 20)"

text \<open>The decision, given the last values of the indicators and the extremes of the 20 bars before the last.\<close>

definition regime_from ::
  "candle \<Rightarrow> pyfloat option \<Rightarrow> pyfloat option \<Rightarrow> pyfloat option \<Rightarrow> pyfloat option \<Rightarrow> pyfloat option
   \<Rightarrow> pyfloat \<Rightarrow> pyfloat \<Rightarrow> pyfloat \<Rightarrow> market_regime" where
  "regime_from bar atr_v adx_v ef es vol avg_vol prior_high prior_low =
     (let close = cd_close bar;
          atr_pct = (case atr_v of None \<Rightarrow> Fin 0 | Some a \<Rightarrow> if flt (Fin 0) close then fquot a close else Fin 0);
          quiet = (adx_v = None \<or> opt_is (\<lambda>a. flt a (Fin 18)) adx_v);
          busy = fle (fmul avg_vol (flit (14 / 10))) (cd_volume bar);
          trend = (case (adx_v, ef, es) of
                     (Some a, Some f, Some s) \<Rightarrow>
                       if fle (Fin 25) a then (if flt s f \<and> flt f close then Some TRENDING_UP
                                               else if flt f s \<and> flt close f then Some TRENDING_DOWN else None) else None
                   | _ \<Rightarrow> None)
      in if opt_is (\<lambda>v. flt (flit (3 / 100)) v) vol then HIGH_VOLATILITY
         else if opt_is (\<lambda>v. flt v (flit (5 / 1000))) vol \<and> quiet then LOW_VOLATILITY
         else if flt prior_high close \<and> busy then BREAKOUT
         else if flt close prior_low \<and> busy then BREAKOUT
         else case trend of Some r \<Rightarrow> r
              | None \<Rightarrow> if opt_is (\<lambda>a. flt a (Fin 18)) adx_v
                        then (if flt atr_pct (flit (1 / 100)) then RANGING else MEAN_REVERTING)
                        else UNKNOWN_REGIME)"

definition detect_regime :: "(pyfloat \<Rightarrow> pyfloat) \<Rightarrow> candle list \<Rightarrow> market_regime res" where
  "detect_regime half_power cs =
     (if length cs < 30 then Inr UNKNOWN_REGIME
      else let closes = closes_of cs; prior = take 20 (last_n 21 cs) in
        bind_res (atr (highs_of cs) (lows_of cs) closes 14) (\<lambda>atrs.
        bind_res (adx (highs_of cs) (lows_of cs) closes 14) (\<lambda>ax.
        bind_res (ema closes 20) (\<lambda>fast.
        bind_res (ema closes 50) (\<lambda>slow.
        bind_res (realized_volatility half_power closes 20) (\<lambda>vols.
        bind_res (py_max (highs_of prior)) (\<lambda>ph.
        bind_res (py_min (lows_of prior)) (\<lambda>pl.
          Inr (regime_from (last cs) (last atrs) (last (fst ax)) (last fast) (last slow) (last vols)
                 (average_volume cs) ph pl)))))))))"

text \<open>
  \<open>features.py\<close>: the volatility is the root of the mean square of the last returns whose base is not zero.
\<close>

definition recent_returns :: "pyfloat list \<Rightarrow> pyfloat list" where
  "recent_returns closes =
     (let n = length closes in
      map (\<lambda>i. let prev = closes ! (n - i - 1) in fquot (fsub (closes ! (n - i)) prev) prev)
        (filter (\<lambda>i. fnonzero (closes ! (n - i - 1))) [1..<min 21 n]))"

definition mean_square :: "pyfloat list \<Rightarrow> pyfloat" where
  "mean_square rs = fquot (fsum (map (\<lambda>r. fmul r r) rs)) (f_of_int (int (length rs)))"

definition relative_distance :: "pyfloat option \<Rightarrow> pyfloat option \<Rightarrow> pyfloat option" where
  "relative_distance x base = (case (x, base) of
     (Some a, Some b) \<Rightarrow> if b = Fin 0 then None else Some (fquot (fsub a b) b) | _ \<Rightarrow> None)"

definition regime_code :: "market_regime \<Rightarrow> pyfloat option" where
  "regime_code r = (case r of TRENDING_UP \<Rightarrow> Some (Fin 1) | TRENDING_DOWN \<Rightarrow> Some (Fin (- 1)) | RANGING \<Rightarrow> Some (Fin 0)
     | HIGH_VOLATILITY \<Rightarrow> Some (Fin 2) | LOW_VOLATILITY \<Rightarrow> Some (Fin (- 2)) | BREAKOUT \<Rightarrow> Some (Fin 3)
     | MEAN_REVERTING \<Rightarrow> Some (Fin (1 / 2)) | UNKNOWN_REGIME \<Rightarrow> None)"

definition extract_features :: "(pyfloat \<Rightarrow> pyfloat) \<Rightarrow> candle list \<Rightarrow> features res" where
  "extract_features half_power cs =
     (if length cs < 30 then Inr (map (\<lambda>n. (n, None)) (feature_names @ [''MARKET_REGIME_CODE'']))
      else let closes = closes_of cs; hs = highs_of cs; ls = lows_of cs; bar = last cs;
               avg = average_volume cs; prev = closes ! (length cs - 2); rets = recent_returns closes in
        bind_res (rsi closes 14) (\<lambda>rsi_s.
        bind_res (macd closes 12 26 9) (\<lambda>macd_s.
        bind_res (atr hs ls closes 14) (\<lambda>atrs.
        bind_res (adx hs ls closes 14) (\<lambda>ax.
        bind_res (ema closes 20) (\<lambda>fast.
        bind_res (ema closes 50) (\<lambda>slow.
        bind_res (bollinger half_power closes 20 (Fin 2)) (\<lambda>bb.
        bind_res (vwap hs ls closes (volumes_of cs)) (\<lambda>vw.
        bind_res (detect_regime half_power cs) (\<lambda>regime.
          Inr [(''RSI_14'', last rsi_s), (''MACD_HISTOGRAM'', last (snd (snd macd_s))),
               (''VWAP_DISTANCE'', relative_distance (Some (cd_close bar)) (last vw)),
               (''BOLLINGER_BAND_WIDTH'', last (bb_bandwidth bb)),
               (''VOLUME_BREAKOUT_MULT'', if avg = Fin 0 then None else Some (fquot (cd_volume bar) avg)),
               (''ATR'', last atrs), (''ADX'', last (fst ax)),
               (''EMA_DISTANCE'', relative_distance (last fast) (last slow)),
               (''RETURNS'', if prev = Fin 0 then None else Some (fquot (fsub (last closes) prev) prev)),
               (''VOLATILITY'', if rets = [] then None else Some (half_power (mean_square rets))),
               (''MARKET_REGIME_CODE'', regime_code regime)]))))))))))"

section \<open>Retrieval of similar trades\<close>

definition similarity :: "(pyfloat \<Rightarrow> pyfloat) \<Rightarrow> features \<Rightarrow> learning_record \<Rightarrow> pyfloat" where
  "similarity sq q r =
     cosine_similarity sq (l2_normalize sq (feature_vector q)) (l2_normalize sq (feature_vector (le_features r)))"

text \<open>\<open>sort(key=..., reverse=True)\<close>: descending, equal keys in their old order.\<close>

fun insert_desc :: "pyfloat \<times> 'a \<Rightarrow> (pyfloat \<times> 'a) list \<Rightarrow> (pyfloat \<times> 'a) list" where
  "insert_desc x [] = [x]"
| "insert_desc x (y # ys) = (if fle (fst y) (fst x) then x # y # ys else y # insert_desc x ys)"

definition sort_desc :: "(pyfloat \<times> 'a) list \<Rightarrow> (pyfloat \<times> 'a) list" where
  "sort_desc xs = foldr insert_desc xs []"

definition scored :: "(pyfloat \<Rightarrow> pyfloat) \<Rightarrow> learning_config \<Rightarrow> features \<Rightarrow> learning_record list \<Rightarrow> (pyfloat \<times> learning_record) list" where
  "scored sq c q rs =
     filter (\<lambda>x. fle (lc_similarity_threshold c) (fst x)) (map (\<lambda>r. (similarity sq q r, r)) rs)"

definition top_cases :: "(pyfloat \<Rightarrow> pyfloat) \<Rightarrow> learning_config \<Rightarrow> features \<Rightarrow> learning_record list \<Rightarrow> (pyfloat \<times> learning_record) list" where
  "top_cases sq c q rs = take (lc_max_retrieved_cases c) (sort_desc (scored sq c q rs))"

text \<open>\<open>sorted(set(xs))\<close> of the categories' names.\<close>

definition failure_names :: "failure_category list \<Rightarrow> failure_category list" where
  "failure_names fs = filter (\<lambda>f. f \<in> set fs)
     [BAD_PREDICTION, BAD_TIMING_OR_EXECUTION, EXTERNAL_SHOCK, HIGH_SLIPPAGE, MARKET_REGIME_SHIFT, NORMAL_VARIANCE,
      UNKNOWN_FAILURE]"

definition success_names :: "success_category list \<Rightarrow> success_category list" where
  "success_names ss = filter (\<lambda>s. s \<in> set ss) [GOOD_EXECUTION, GOOD_PREDICTION, REGIME_ALIGNED, UNKNOWN_SUCCESS]"

record learning_context =
  cx_cases :: "(pyfloat \<times> learning_record) list"
  cx_failures :: nat
  cx_successes :: nat
  cx_failure_patterns :: "failure_category list"
  cx_success_patterns :: "success_category list"
  cx_average :: "pyfloat option"
  cx_confidence :: "pyfloat option"
  cx_caution :: bool
  cx_regime :: market_regime
  cx_calibration_degraded :: bool
  cx_drift :: bool

definition mean_opt :: "pyfloat list \<Rightarrow> pyfloat option" where
  "mean_opt xs = (if xs = [] then None else Some (fquot (fsum xs) (f_of_int (int (length xs)))))"

definition build_learning_context ::
  "(pyfloat \<Rightarrow> pyfloat) \<Rightarrow> learning_config \<Rightarrow> features \<Rightarrow> learning_record list \<Rightarrow> market_regime \<Rightarrow> bool \<Rightarrow> bool \<Rightarrow> learning_context" where
  "build_learning_context sq c q rs regime degraded drift =
     (let top = top_cases sq c q rs; tops = map snd top;
          fs = filter (\<lambda>r. le_outcome r = LOSS) tops; ss = filter (\<lambda>r. le_outcome r = WIN) tops
      in \<lparr>cx_cases = map (\<lambda>(s, r). (pyround s 4, r)) top, cx_failures = length fs, cx_successes = length ss,
          cx_failure_patterns = failure_names (concat (map le_failures fs)),
          cx_success_patterns = success_names (concat (map le_successes ss)),
          cx_average = mean_opt (map le_net_pnl tops),
          cx_confidence = mean_opt (List.map_filter le_probability tops),
          cx_caution = (length ss < length fs \<and> 0 < length fs),
          cx_regime = regime, cx_calibration_degraded = degraded, cx_drift = drift\<rparr>)"

section \<open>What the post-mortem says\<close>

lemma list_if_simps [simp]: "list_if True x = [x]" "list_if False x = []"
  by (simp_all add: list_if_def)

lemma set_list_if [simp]: "set (list_if b x) = (if b then {x} else {})"
  by (cases b) simp_all

lemma list_if_Nil [simp]: "list_if b x = [] \<longleftrightarrow> \<not> b"
  by (simp add: list_if_def)

lemmas post_mortem_defs = run_post_mortem_def classify_trade_def failure_list_def success_list_def causes_def

lemma post_mortem_outcome:
  "le_outcome (fst (run_post_mortem r)) = outcome_of (le_net_pnl r)"
  by (simp add: run_post_mortem_def classify_trade_def Let_def)

lemma post_mortem_keeps [simp]:
  "le_trade_id (fst (run_post_mortem r)) = le_trade_id r"
  "le_net_pnl (fst (run_post_mortem r)) = le_net_pnl r"
  "le_probability (fst (run_post_mortem r)) = le_probability r"
  "le_features (fst (run_post_mortem r)) = le_features r"
  by (simp_all add: run_post_mortem_def classify_trade_def Let_def)

lemma post_mortem_never_empty:
  "le_failures (fst (run_post_mortem r)) = [] \<Longrightarrow> le_successes (fst (run_post_mortem r)) \<noteq> []"
  by (auto simp: run_post_mortem_def classify_trade_def Let_def split: if_splits)

lemma variance_only_without_cause:
  "NORMAL_VARIANCE \<in> set (le_failures (classify_trade r)) \<longleftrightarrow> causes r = [] \<and> le_outcome r = LOSS"
  by (auto simp: classify_trade_def failure_list_def causes_def Let_def)

section \<open>The tracker keeps the last predictions\<close>

lemma tail_slice_snoc: "tail_slice w (tail_slice w xs @ [x]) = tail_slice w (xs @ [x])"
  by (cases "length xs < w") (auto simp: tail_slice_def last_n_def Suc_diff_le not_less)

definition calibrate :: "learning_config \<Rightarrow> (pyfloat \<times> int \<times> string option \<times> market_regime) list \<Rightarrow> calibration" where
  "calibrate c xs = foldl (\<lambda>ca (p, o1, s, g). calibration_update c ca p o1 s g) new_calibration xs"

definition pairs_of :: "(pyfloat \<times> int \<times> string option \<times> market_regime) list \<Rightarrow> (pyfloat \<times> int) list" where
  "pairs_of xs = map (\<lambda>(p, o1, s, g). (p, o1)) xs"

lemma calibrate_snoc:
  "calibrate c (xs @ [(p, o1, s, g)]) = calibration_update c (calibrate c xs) p o1 s g"
  by (simp add: calibrate_def)

lemma pairs_of_snoc [simp]: "pairs_of (xs @ [(p, o1, s, g)]) = pairs_of xs @ [(p, o1)]"
  by (simp add: pairs_of_def)

lemma tail_slice_Nil [simp]: "tail_slice w [] = []"
  by (simp add: tail_slice_def last_n_def)

lemma calibrate_history: "ca_history (calibrate c xs) = tail_slice (lc_rolling_window c) (pairs_of xs)"
proof (induction xs rule: rev_induct)
  case Nil
  show ?case by (simp add: calibrate_def new_calibration_def pairs_of_def)
next
  case (snoc x xs)
  obtain p o1 s g where "x = (p, o1, s, g)" by (cases x)
  with snoc show ?case by (simp add: calibrate_snoc calibration_update_def Let_def tail_slice_snoc)
qed

lemma roll_into_get:
  "opt_default (dget (roll_into w k x d) k') [] =
     (if k' = k then tail_slice w (opt_default (dget d k) [] @ [x]) else opt_default (dget d k') [])"
  by (simp add: roll_into_def dget_dput opt_default_def)

lemma calibrate_regime:
  "opt_default (dget (ca_by_regime (calibrate c xs)) g) []
     = tail_slice (lc_rolling_window c) (pairs_of (filter (\<lambda>(p, o1, s, h). h = g) xs))"
proof (induction xs rule: rev_induct)
  case Nil
  show ?case by (simp add: calibrate_def new_calibration_def pairs_of_def opt_default_def)
next
  case (snoc x xs)
  obtain p o1 s h where "x = (p, o1, s, h)" by (cases x)
  with snoc show ?case
    by (auto simp: calibrate_snoc calibration_update_def Let_def roll_into_get tail_slice_snoc)
qed

text \<open>The calibration tracker, fed one prediction at a time, holds exactly what a reference that sees the whole
  log would compute: its history is the last \<open>rolling_window_trades\<close> pairs of the log, and the history of a market regime is
  the last pairs among those logged in that regime, so the rolling Brier score and the degraded flag are the
  ones of those windows.\<close>
theorem calibration_is_rolling_window:
  "ca_history (calibrate c xs) = tail_slice (lc_rolling_window c) (pairs_of xs)
   \<and> opt_default (dget (ca_by_regime (calibrate c xs)) g) []
       = tail_slice (lc_rolling_window c) (pairs_of (filter (\<lambda>(p, o1, s, h). h = g) xs))
   \<and> cs_degraded (calibration_status nlog c (calibrate c xs))
       = degraded_brier c (rolling_brier (tail_slice (lc_rolling_window c) (pairs_of xs)))"
  by (simp add: calibrate_history calibrate_regime calibration_status_def calibration_degraded_def)

section \<open>Kelly multiplier\<close>

lemma clamp_between:
  assumes "fle lo hi" and "x \<noteq> NaN"
  shows "fle lo (pmin hi (pmax lo x)) \<and> fle (pmin hi (pmax lo x)) hi"
proof -
  from assms have lo: "lo \<noteq> NaN" and hi: "hi \<noteq> NaN" by (auto dest: fle_not_NaN)
  have "fle lo (pmax lo x)" using lo by (rule pmax_ge)
  then have "fle lo (pmin hi (pmax lo x))" using assms(1) pmin_cases [of hi "pmax lo x"] by auto
  moreover have "fle (pmin hi (pmax lo x)) hi" using hi by (rule pmin_le)
  ultimately show ?thesis ..
qed

lemma kelly_multiplier_between:
  assumes "fle (lc_kelly_min c) (lc_kelly_max c)" "lc_kelly_base c \<noteq> NaN" "lc_kelly_degraded c \<noteq> NaN"
  shows "fle (lc_kelly_min c) (kd_multiplier (bounded_kelly_multiplier c p b d))
         \<and> fle (kd_multiplier (bounded_kelly_multiplier c p b d)) (lc_kelly_max c)"
  using clamp_between [OF assms(1), of "if d then lc_kelly_degraded c else lc_kelly_base c"] assms(2,3)
  by (auto simp: bounded_kelly_multiplier_def Let_def)

text \<open>
  The lower bound of the clamp eats a degraded fraction below it: with the shipped values (base and minimum 0.25,
  degraded 0.125) the degraded multiplier is the base multiplier.
\<close>

lemma degraded_kelly_clamped:
  assumes "fle (lc_kelly_degraded c) (lc_kelly_min c)" "lc_kelly_base c = lc_kelly_min c"
  shows "kd_multiplier (bounded_kelly_multiplier c p b True) = kd_multiplier (bounded_kelly_multiplier c p b False)"
  using assms by (auto simp: bounded_kelly_multiplier_def pmax_def Let_def dest: flt_not_fle)

lemma default_degraded_kelly:
  "kd_multiplier (bounded_kelly_multiplier default_learning p b True) = Fin (1 / 4)
   \<and> kd_multiplier (bounded_kelly_multiplier default_learning p b False) = Fin (1 / 4)"
  by (simp add: bounded_kelly_multiplier_def default_learning_def pmax_def pmin_def Let_def)

section \<open>Retrieval returns the most similar trades\<close>

abbreviation descending :: "(pyfloat \<times> 'a) list \<Rightarrow> bool" where
  "descending \<equiv> sorted_wrt (\<lambda>x y. fle (fst y) (fst x))"

lemma mset_insert_desc: "mset (insert_desc x ys) = add_mset x (mset ys)"
  by (induction ys) auto

lemma mset_sort_desc: "mset (sort_desc xs) = mset xs"
  by (induction xs) (simp_all add: sort_desc_def mset_insert_desc)

lemma set_insert_desc [simp]: "set (insert_desc x ys) = insert x (set ys)"
  by (metis mset_insert_desc set_mset_add_mset_insert set_mset_mset)

lemma descending_insert:
  assumes "descending ys" "fst x \<noteq> NaN" "\<forall>y \<in> set ys. fst y \<noteq> NaN"
  shows "descending (insert_desc x ys)"
  using assms
proof (induction ys)
  case (Cons y ys)
  show ?case
  proof (cases "fle (fst y) (fst x)")
    case True
    with Cons.prems(1) show ?thesis by (auto intro: fle_trans)
  next
    case False
    with Cons.prems(2,3) have "fle (fst x) (fst y)" by (auto simp: not_fle_iff intro: flt_imp_fle)
    with Cons False show ?thesis by auto
  qed
qed simp

lemma descending_sort: "\<forall>x \<in> set xs. fst x \<noteq> NaN \<Longrightarrow> descending (sort_desc xs)"
proof (induction xs)
  case (Cons x xs)
  have "set (sort_desc xs) = set xs" by (metis mset_sort_desc set_mset_mset)
  with Cons show ?case by (auto simp: sort_desc_def intro: descending_insert)
qed (simp add: sort_desc_def)

text \<open>A retrieval returns the most similar past trades: the cases are \<open>max_retrieved_cases\<close> of the trades at
  or above the similarity threshold (all of them when there are fewer), in descending order, and every trade
  that is left out is at most as similar as every trade returned.\<close>
theorem retrieval_returns_most_similar:
  "\<exists>rest. mset (scored sq c q rs) = mset (top_cases sq c q rs @ rest)
      \<and> length (top_cases sq c q rs) = min (lc_max_retrieved_cases c) (length (scored sq c q rs))
      \<and> descending (top_cases sq c q rs @ rest)"
proof (intro exI conjI)
  let ?s = "sort_desc (scored sq c q rs)" and ?k = "lc_max_retrieved_cases c"
  have all: "top_cases sq c q rs @ drop ?k ?s = ?s" by (simp add: top_cases_def)
  show "mset (scored sq c q rs) = mset (top_cases sq c q rs @ drop ?k ?s)"
    unfolding all by (simp add: mset_sort_desc)
  have "length ?s = length (scored sq c q rs)" by (metis mset_sort_desc size_mset)
  then show "length (top_cases sq c q rs) = min ?k (length (scored sq c q rs))" by (simp add: top_cases_def)
  show "descending (top_cases sq c q rs @ drop ?k ?s)"
    unfolding all by (rule descending_sort) (auto simp: scored_def dest: fle_not_NaN)
qed

end
