(* ===== verification/Learning_Engine.thy ===== *)
theory Learning_Engine
  imports Learning Order_Model
begin

text \<open>
  Model versions and the learning engine: \<open>versioning.py\<close>, \<open>champion_challenger.py\<close>, \<open>proposals.py\<close>,
  \<open>validation.py\<close>, \<open>rollback.py\<close>, \<open>retraining.py\<close> and \<open>engine.py\<close>.  The classifiers of XGBoost and
  scikit-learn are parameters (a fit that may fail and its class probabilities); the logistic fallback the source
  falls back to is modelled.  The versions of the registry are one list that the engine updates in place.
\<close>

section \<open>Versions, challengers and champions\<close>

record model_version =
  mv_name :: string
  mv_seed :: int
  mv_split :: nat
  mv_samples :: nat
  mv_brier :: "pyfloat option"
  mv_accuracy :: "pyfloat option"
  mv_decision :: "bool option"
  mv_reasons :: "string list"
  mv_champion :: bool

record registry =
  rg_versions :: "model_version list"
  rg_counter :: nat

definition new_registry :: registry where
  "new_registry = \<lparr>rg_versions = [], rg_counter = 0\<rparr>"

definition version_name :: "nat \<Rightarrow> string" where
  "version_name n = ''model_xgb_v'' @ dec_pad 3 n"

definition next_version :: "registry \<Rightarrow> registry \<times> string" where
  "next_version g = (let n = rg_counter g + 1 in (g\<lparr>rg_counter := n\<rparr>, version_name n))"

definition register :: "registry \<Rightarrow> int \<Rightarrow> nat \<Rightarrow> nat \<Rightarrow> pyfloat option \<Rightarrow> pyfloat option \<Rightarrow> registry" where
  "register g seed split samples brier accuracy =
     (case next_version g of (g1, name) \<Rightarrow>
        g1\<lparr>rg_versions := rg_versions g1 @
          [\<lparr>mv_name = name, mv_seed = seed, mv_split = split, mv_samples = samples, mv_brier = brier,
            mv_accuracy = accuracy, mv_decision = None, mv_reasons = [], mv_champion = False\<rparr>]\<rparr>)"

definition champion :: "registry \<Rightarrow> model_version option" where
  "champion g = find mv_champion (rev (rg_versions g))"

definition challenger :: "registry \<Rightarrow> model_version option" where
  "challenger g = find (\<lambda>v. \<not> mv_champion v) (rev (rg_versions g))"

record challenge =
  ch_sample_size :: nat
  ch_oos :: "pyfloat option"
  ch_champion_oos :: "pyfloat option"
  ch_turnover :: "pyfloat option"
  ch_risk_violations :: int

record challenge_decision =
  cd_accepted :: bool
  cd_reasons :: "string list"
  cd_flags :: "string list"

definition brier_above :: "learning_config \<Rightarrow> pyfloat option \<Rightarrow> bool" where
  "brier_above c b = opt_is (\<lambda>v. flt (lc_max_brier c) v) b"

definition oos_below :: "challenge \<Rightarrow> pyfloat \<Rightarrow> bool" where
  "oos_below h factor = (case (ch_oos h, ch_champion_oos h) of (Some a, Some b) \<Rightarrow> flt a (fmul b factor) | _ \<Rightarrow> False)"

definition oos_worse :: "challenge \<Rightarrow> bool" where
  "oos_worse h = (case (ch_oos h, ch_champion_oos h) of (Some a, Some b) \<Rightarrow> flt a b | _ \<Rightarrow> False)"

definition gate_flags :: "learning_config \<Rightarrow> challenge \<Rightarrow> model_version \<Rightarrow> string list" where
  "gate_flags c h v = list_if (ch_sample_size h < lc_min_sample_size c) ''INSUFFICIENT_SAMPLE''
     @ list_if (brier_above c (mv_brier v)) ''CALIBRATION_DEGRADATION''
     @ list_if (oos_below h (Fin (1 / 2))) ''OOS_DEGRADATION''
     @ list_if (opt_is (\<lambda>t. flt (Fin 5) t) (ch_turnover h)) ''HIGH_TURNOVER''"

definition challenge_reasons :: "learning_config \<Rightarrow> challenge \<Rightarrow> model_version \<Rightarrow> string list" where
  "challenge_reasons c h v = list_if (ch_sample_size h < lc_min_sample_size c) ''insufficient_sample_size''
     @ list_if (brier_above c (mv_brier v)) ''brier_above_threshold''
     @ list_if (oos_below h (Fin (1 / 2))) ''oos_degradation''
     @ list_if (opt_is (\<lambda>t. flt (Fin 5) t) (ch_turnover h)) ''high_turnover''
     @ list_if (0 < ch_risk_violations h) ''risk_violations''"

definition passes_gates :: "learning_config \<Rightarrow> challenge \<Rightarrow> model_version \<Rightarrow> bool" where
  "passes_gates c h v \<longleftrightarrow> gate_flags c h v = [] \<and> ch_risk_violations h = 0
     \<and> (case mv_brier v of None \<Rightarrow> True | Some b \<Rightarrow> fle b (lc_max_brier c))"

definition evaluate_challenger ::
  "learning_config \<Rightarrow> challenge \<Rightarrow> model_version \<Rightarrow> model_version option
   \<Rightarrow> model_version \<times> model_version option \<times> challenge_decision" where
  "evaluate_challenger c h v champ =
     (let worse = (passes_gates c h v \<and> champ \<noteq> None \<and> oos_worse h);
          accept = (passes_gates c h v \<and> \<not> worse);
          reasons = challenge_reasons c h v @ list_if worse ''oos_worse_than_champion'';
          flags = gate_flags c h v @ list_if worse ''OOS_DEGRADATION'';
          v1 = v\<lparr>mv_decision := Some accept, mv_reasons := reasons @ flags\<rparr>
      in (if accept then v1\<lparr>mv_champion := True\<rparr> else v1,
          if accept then map_option (\<lambda>w. w\<lparr>mv_champion := False\<rparr>) champ else champ,
          \<lparr>cd_accepted = accept, cd_reasons = reasons, cd_flags = flags\<rparr>))"

text \<open>The evaluation of the newest version against the champion, written back to the registry.\<close>

definition champion_index :: "model_version list \<Rightarrow> nat option" where
  "champion_index vs = find (\<lambda>i. mv_champion (vs ! i)) (rev [0..<length vs])"

definition judge_newest :: "learning_config \<Rightarrow> challenge \<Rightarrow> registry \<Rightarrow> registry \<times> challenge_decision" where
  "judge_newest c h g =
     (let vs = rg_versions g; k = length vs - 1; ci = champion_index vs
      in case evaluate_challenger c h (vs ! k) (map_option ((!) vs) ci) of (v, champ, d) \<Rightarrow>
           (let vs1 = vs[k := v]
            in (g\<lparr>rg_versions := (case (ci, champ) of (Some i, Some w) \<Rightarrow> vs1[i := w] | _ \<Rightarrow> vs1)\<rparr>, d)))"

section \<open>Proposals and rollback\<close>

datatype proposal_status = LP_PROPOSED | LP_BACKTESTING | LP_VALIDATION | LP_OOS_TESTING | LP_PAPER_TESTING
  | LP_ACCEPTED | LP_REJECTED | LP_ROLLED_BACK

record learning_proposal =
  lp_id :: string
  lp_reason :: string
  lp_parent :: "string option"
  lp_candidate :: "string option"
  lp_status :: proposal_status
  lp_flags :: "string list"

definition set_status :: "string \<Rightarrow> proposal_status \<Rightarrow> learning_proposal list \<Rightarrow> learning_proposal list" where
  "set_status k s ps = (case find (\<lambda>i. lp_id (ps ! i) = k) [0..<length ps] of
     None \<Rightarrow> ps | Some i \<Rightarrow> ps[i := (ps ! i)\<lparr>lp_status := s\<rparr>])"

definition get_proposal :: "string \<Rightarrow> learning_proposal list \<Rightarrow> learning_proposal option" where
  "get_proposal k ps = find (\<lambda>p. lp_id p = k) ps"

record oos_metrics =
  om_brier :: "pyfloat option"
  om_degradation :: bool
  om_turnover :: pyfloat
  om_in_sample :: "pyfloat option"
  om_oos :: "pyfloat option"

definition overfits :: "oos_metrics \<Rightarrow> bool" where
  "overfits m = (case (om_in_sample m, om_oos m) of
     (Some a, Some b) \<Rightarrow> fnonzero a \<and> flt (Fin 0) a \<and> flt b (fmul a (flit (3 / 10))) | _ \<Rightarrow> False)"

definition validate_proposal :: "learning_config \<Rightarrow> nat \<Rightarrow> oos_metrics \<Rightarrow> learning_proposal \<Rightarrow> learning_proposal \<times> bool" where
  "validate_proposal c n m p =
     (let flags = list_if (n < lc_min_sample_size c) ''INSUFFICIENT_SAMPLE''
            @ list_if (brier_above c (om_brier m)) ''CALIBRATION_DEGRADATION''
            @ list_if (om_degradation m) ''OOS_DEGRADATION''
            @ list_if (flt (Fin 5) (om_turnover m)) ''HIGH_TURNOVER''
            @ list_if (overfits m) ''POSSIBLE_OVERFITTING''
      in (p\<lparr>lp_flags := flags, lp_status := if flags = [] then LP_VALIDATION else LP_REJECTED\<rparr>, flags = []))"

definition open_proposal :: "proposal_status \<Rightarrow> bool" where
  "open_proposal s \<longleftrightarrow> s \<in> {LP_PAPER_TESTING, LP_VALIDATION, LP_OOS_TESTING, LP_BACKTESTING, LP_PROPOSED}"

definition rollback_to_champion :: "registry \<Rightarrow> learning_proposal list \<Rightarrow> registry \<times> learning_proposal list" where
  "rollback_to_champion g ps =
     (let name = map_option mv_name (champion g)
      in (g\<lparr>rg_versions := map (\<lambda>v. if name \<noteq> Some (mv_name v) then v\<lparr>mv_champion := False\<rparr> else v) (rg_versions g)\<rparr>,
          map (\<lambda>p. if open_proposal (lp_status p) then p\<lparr>lp_status := LP_ROLLED_BACK\<rparr> else p) ps))"

section \<open>Training\<close>

text \<open>\<open>1 / (1 + exp(-max(min(z, 20), -20)))\<close>; the exponential is a parameter.\<close>

definition sigmoid :: "(pyfloat \<Rightarrow> pyfloat) \<Rightarrow> pyfloat \<Rightarrow> pyfloat" where
  "sigmoid ex z = fquot (Fin 1) (fadd (Fin 1) (ex (fneg (pmax (pmin z (Fin 20)) (Fin (- 20))))))"

definition linear_score :: "pyfloat list \<Rightarrow> pyfloat \<Rightarrow> pyfloat list \<Rightarrow> pyfloat" where
  "linear_score w b row = fadd b (fsum (map2 fmul w row))"

definition gradient_step ::
  "(pyfloat \<Rightarrow> pyfloat) \<Rightarrow> pyfloat list \<times> int \<Rightarrow> pyfloat list \<times> pyfloat \<Rightarrow> pyfloat list \<times> pyfloat" where
  "gradient_step ex example m = (case (example, m) of ((row, label), (w, b)) \<Rightarrow>
     let lr = flit (5 / 100);
         err = fsub (sigmoid ex (linear_score w b row)) (f_of_int label)
     in (map2 (\<lambda>wi x. fsub wi (fmul (fmul lr err) x)) w row, fsub b (fmul lr err)))"

definition train_fallback :: "(pyfloat \<Rightarrow> pyfloat) \<Rightarrow> pyfloat list list \<Rightarrow> int list \<Rightarrow> pyfloat list \<times> pyfloat" where
  "train_fallback ex xs ys =
     ((\<lambda>m. fold (gradient_step ex) (zip xs ys) m) ^^ 80)
       (replicate (case xs of [] \<Rightarrow> 0 | x # _ \<Rightarrow> length x) (Fin 0), Fin 0)"

datatype 'm trained = Fallback "pyfloat list" pyfloat | External 'm

record 'm ml_library =
  ml_xgboost :: "pyfloat list list \<Rightarrow> int list \<Rightarrow> int \<Rightarrow> 'm option"
  ml_forest :: "pyfloat list list \<Rightarrow> int list \<Rightarrow> int \<Rightarrow> 'm option"
  ml_proba :: "'m \<Rightarrow> pyfloat list \<Rightarrow> (pyfloat list \<times> int list) option"
  ml_exp :: "pyfloat \<Rightarrow> pyfloat"
  ml_ln :: "pyfloat \<Rightarrow> pyfloat"
  ml_repr :: "pyfloat \<Rightarrow> string"

definition fit_external :: "'m ml_library \<Rightarrow> pyfloat list list \<Rightarrow> int list \<Rightarrow> int \<Rightarrow> string \<Rightarrow> 'm option" where
  "fit_external ml xs ys seed prefer =
     (case (if py_startswith (py_upper prefer) ''XGBOOST'' then ml_xgboost ml xs ys seed else None) of
        Some m \<Rightarrow> Some m | None \<Rightarrow> ml_forest ml xs ys seed)"

definition fit_model :: "'m ml_library \<Rightarrow> pyfloat list list \<Rightarrow> int list \<Rightarrow> int \<Rightarrow> string \<Rightarrow> 'm trained" where
  "fit_model ml xs ys seed prefer = (case fit_external ml xs ys seed prefer of
     Some m \<Rightarrow> External m
   | None \<Rightarrow> (case train_fallback (ml_exp ml) xs ys of (w, b) \<Rightarrow> Fallback w b))"

definition predict_proba :: "'m ml_library \<Rightarrow> 'm trained \<Rightarrow> pyfloat list \<Rightarrow> pyfloat" where
  "predict_proba ml t row = (case t of
     Fallback w b \<Rightarrow> sigmoid (ml_exp ml) (linear_score w b row)
   | External m \<Rightarrow> (case ml_proba ml m row of
       None \<Rightarrow> Fin (1 / 2)
     | Some (proba, classes) \<Rightarrow>
         (let i = (if 1 \<in> set classes then length (takeWhile (\<lambda>k. k \<noteq> 1) classes) else length proba - 1)
          in case py_at proba i of Inl _ \<Rightarrow> Fin (1 / 2) | Inr p \<Rightarrow> p)))"

definition usable :: "learning_record \<Rightarrow> bool" where
  "usable r \<longleftrightarrow> le_outcome r \<in> {WIN, LOSS}
     \<and> list_ex (\<lambda>n. case dget (le_features r) n of Some (Some _) \<Rightarrow> True | _ \<Rightarrow> False) feature_names"

text \<open>The split of the usable records into a training and an out-of-sample part.\<close>

definition oos_split :: "nat \<Rightarrow> nat \<Rightarrow> nat res" where
  "oos_split min_sample n =
     bind_res (py_int (fmul (f_of_int (int n)) (flit (7 / 10)))) (\<lambda>k. Inr (max (min_sample div 2) (nat k)))"

definition train_part :: "nat \<Rightarrow> 'a list \<Rightarrow> 'a list" where
  "train_part k xs = (if length xs - k < 3 then xs else take k xs)"

definition oos_part :: "nat \<Rightarrow> 'a list \<Rightarrow> 'a list" where
  "oos_part k xs = (if length xs - k < 3 then last_n 3 xs else drop k xs)"

record 'm training =
  tn_registry :: registry
  tn_model :: "'m trained"
  tn_samples :: nat

datatype 'm train_result = Insufficient nat | Trained "'m training"

definition accuracy_of :: "(pyfloat \<times> int) list \<Rightarrow> pyfloat option" where
  "accuracy_of ps = (if ps = [] then None
     else Some (fquot (f_of_int (int (length (filter (\<lambda>(p, y). fle (Fin (1 / 2)) p = (y \<noteq> 0)) ps))))
                 (f_of_int (int (length ps)))))"

definition train ::
  "'m ml_library \<Rightarrow> learning_config \<Rightarrow> registry \<Rightarrow> learning_record list \<Rightarrow> int \<Rightarrow> 'm train_result res" where
  "train ml c g records seed =
     (let us = filter usable records in
      if length us < lc_min_sample_size c then Inr (Insufficient (length us))
      else bind_res (oos_split (lc_min_sample_size c) (length us)) (\<lambda>k.
        let xs = map (\<lambda>r. feature_vector (le_features r)) us;
            ys = map (\<lambda>r. outcome_bit (le_outcome r)) us;
            m = fit_model ml (train_part k xs) (train_part k ys) seed (lc_primary_model c);
            ps = map (\<lambda>(row, y). (predict_proba ml m row, y)) (zip (oos_part k xs) (oos_part k ys))
        in Inr (Trained \<lparr>tn_registry = register g seed k (length xs) (rolling_brier ps) (accuracy_of ps),
                         tn_model = m, tn_samples = length us\<rparr>)))"

section \<open>The learning engine\<close>

record 'm learner =
  ln_config :: learning_config
  ln_memory :: "learning_record list"
  ln_calibration :: calibration
  ln_drift :: drift_monitor
  ln_registry :: registry
  ln_proposals :: "learning_proposal list"
  ln_last_trained :: nat
  ln_models :: "(string \<times> 'm trained) list"
  ln_rollbacks :: "(string \<times> string option) list"
  ln_audit :: "(string \<times> string option) list"
  ln_reflections :: "reflection list"
  ln_post_mortems :: "post_mortem list"
  ln_trades :: nat
  ln_kelly :: pyfloat

definition emit_learning :: "string \<Rightarrow> string option \<Rightarrow> 'm learner \<Rightarrow> 'm learner" where
  "emit_learning ev trade e = e\<lparr>ln_audit := ln_audit e @ [(ev, trade)]\<rparr>"

definition new_learner :: "learning_config \<Rightarrow> learning_record list \<Rightarrow> 'm learner res" where
  "new_learner c loaded = bind_res (assert_learning_safety c) (\<lambda>_.
     Inr (emit_learning ''LEARNING_STARTED'' None
       \<lparr>ln_config = c, ln_memory = loaded, ln_calibration = new_calibration, ln_drift = new_drift,
        ln_registry = new_registry, ln_proposals = [], ln_last_trained = 0, ln_models = [], ln_rollbacks = [],
        ln_audit = [], ln_reflections = [], ln_post_mortems = [], ln_trades = 0, ln_kelly = lc_kelly_base c\<rparr>))"

definition learner_degraded :: "'m learner \<Rightarrow> bool" where
  "learner_degraded e = calibration_degraded (ln_config e) (ln_calibration e)"

definition kelly_adapt :: "pyfloat \<Rightarrow> pyfloat \<Rightarrow> 'm learner \<Rightarrow> 'm learner" where
  "kelly_adapt p payoff e =
     emit_learning ''KELLY_ADAPTED'' None
       (e\<lparr>ln_kelly := kd_multiplier (bounded_kelly_multiplier (ln_config e) p payoff (learner_degraded e))\<rparr>)"

definition remember :: "learning_record \<Rightarrow> 'm learner \<Rightarrow> 'm learner" where
  "remember r e =
     (if \<not> lc_memory_enabled (ln_config e) then e
      else (let e1 = e\<lparr>ln_memory := ln_memory e @ [r]\<rparr>
            in case le_outcome r of
                 LOSS \<Rightarrow> emit_learning ''FAILURE_MEMORY_UPDATED'' (Some (le_trade_id r)) e1
               | WIN \<Rightarrow> emit_learning ''SUCCESS_MEMORY_UPDATED'' (Some (le_trade_id r)) e1
               | BREAKEVEN \<Rightarrow> e1))"

definition recalibrate :: "learning_record \<Rightarrow> 'm learner \<Rightarrow> 'm learner" where
  "recalibrate r e = (case le_probability r of None \<Rightarrow> e
     | Some p \<Rightarrow>
         (let e1 = e\<lparr>ln_calibration := calibration_update (ln_config e) (ln_calibration e) p
                       (outcome_bit (le_outcome r)) (le_strategy_id r) (le_regime r)\<rparr>;
              e2 = emit_learning ''CALIBRATION_UPDATED'' (Some (le_trade_id r))
                     (emit_learning ''BRIER_UPDATED'' (Some (le_trade_id r)) e1)
          in if learner_degraded e2 then kelly_adapt p (Fin (3 / 2)) e2 else e2))"

definition watch_drift :: "learning_record \<Rightarrow> 'm learner \<Rightarrow> 'm learner" where
  "watch_drift r e =
     (let wins = length (filter (\<lambda>m. le_outcome m = WIN) (ln_memory e));
          n = max 1 (length (ln_memory e))
      in case drift_update (ln_config e) (ln_drift e) (rolling_brier (ca_history (ln_calibration e)))
               (Some (fquot (f_of_int (int wins)) (f_of_int (int n)))) None of
           (d, es) \<Rightarrow> fold (\<lambda>_. emit_learning ''DRIFT_DETECTED'' (Some (le_trade_id r))) es (e\<lparr>ln_drift := d\<rparr>))"

definition reflect_on :: "'m ml_library \<Rightarrow> learning_record \<Rightarrow> post_mortem \<Rightarrow> 'm learner \<Rightarrow> 'm learner" where
  "reflect_on ml r pm e =
     (if lc_reflection_enabled (ln_config e) \<and> lc_after_every_trade (ln_config e)
      then (let e1 = emit_learning ''REFLECTION_STARTED'' (Some (le_trade_id r)) e
            in emit_learning ''REFLECTION_COMPLETED'' (Some (le_trade_id r))
                 (e1\<lparr>ln_reflections := ln_reflections e1 @ [reflect (ml_repr ml) r pm]\<rparr>))
      else e)"

definition should_retrain :: "'m learner \<Rightarrow> bool" where
  "should_retrain e \<longleftrightarrow> lc_retraining_enabled (ln_config e)
     \<and> lc_interval_trades (ln_config e) \<le> int (ln_trades e) - int (ln_last_trained e)"

text \<open>The n-th uuid of the store is a parameter.\<close>

definition propose :: "(nat \<Rightarrow> string) \<Rightarrow> string \<Rightarrow> string option \<Rightarrow> string option \<Rightarrow> proposal_status \<Rightarrow> string list \<Rightarrow> 'm learner \<Rightarrow> 'm learner" where
  "propose ids reason parent candidate st flags e =
     e\<lparr>ln_proposals := ln_proposals e @ [\<lparr>lp_id = ids (length (ln_proposals e)), lp_reason = reason, lp_parent = parent,
         lp_candidate = candidate, lp_status = st, lp_flags = flags\<rparr>]\<rparr>"

definition champion_name :: "'m learner \<Rightarrow> string option" where
  "champion_name e = map_option mv_name (champion (ln_registry e))"

definition newest_name :: "'m learner \<Rightarrow> string" where
  "newest_name e = mv_name (last (rg_versions (ln_registry e)))"

definition engine_challenge :: "nat \<Rightarrow> challenge" where
  "engine_challenge n = \<lparr>ch_sample_size = n, ch_oos = None, ch_champion_oos = None, ch_turnover = None, ch_risk_violations = 0\<rparr>"

definition judge :: "(nat \<Rightarrow> string) \<Rightarrow> nat \<Rightarrow> 'm learner \<Rightarrow> 'm learner" where
  "judge ids n e =
     (let parent = champion_name e; name = newest_name e in
      case judge_newest (ln_config e) (engine_challenge n) (ln_registry e) of (g, d) \<Rightarrow>
        (let e1 = e\<lparr>ln_registry := g\<rparr> in
         if cd_accepted d
         then emit_learning ''LEARNING_PROPOSAL_ACCEPTED'' None
                (propose ids ''Challenger validated via OOS/calibration gates'' parent (Some name) LP_ACCEPTED []
                  (emit_learning ''CHAMPION_UPDATED'' None (emit_learning ''CHALLENGER_VALIDATED'' None e1)))
         else emit_learning ''LEARNING_PROPOSAL_REJECTED'' None
                (propose ids ''Challenger rejected'' None (Some name) LP_REJECTED (cd_flags d)
                  (emit_learning ''CHALLENGER_REJECTED'' None e1))))"

definition run_retraining :: "'m ml_library \<Rightarrow> (nat \<Rightarrow> string) \<Rightarrow> int \<Rightarrow> 'm learner \<Rightarrow> 'm learner" where
  "run_retraining ml ids seed e0 =
     (let e = emit_learning ''RETRAINING_STARTED'' None e0
      in case train ml (ln_config e) (ln_registry e) (ln_memory e) seed of
           Inl _ \<Rightarrow> emit_learning ''RETRAINING_COMPLETED'' None e
         | Inr (Insufficient _) \<Rightarrow> emit_learning ''RETRAINING_COMPLETED'' None e
         | Inr (Trained t) \<Rightarrow>
             (let name = mv_name (last (rg_versions (tn_registry t)));
                  e1 = e\<lparr>ln_registry := tn_registry t, ln_models := dput name (tn_model t) (ln_models e),
                         ln_last_trained := length (ln_memory e)\<rparr>
              in judge ids (tn_samples t)
                   (emit_learning ''CHALLENGER_CREATED'' None (emit_learning ''MODEL_VERSION_CREATED'' None
                     (emit_learning ''RETRAINING_COMPLETED'' None e1)))))"

definition raise_review :: "(nat \<Rightarrow> string) \<Rightarrow> learning_record \<Rightarrow> 'm learner \<Rightarrow> 'm learner" where
  "raise_review ids r e =
     (if le_outcome r = LOSS \<and> le_failures r \<noteq> []
      then emit_learning ''LEARNING_PROPOSAL_CREATED'' (Some (le_trade_id r))
             (propose ids ''Post-mortem suggested review'' (champion_name e) None LP_PROPOSED [] e)
      else e)"

definition process_closed_trade :: "'m ml_library \<Rightarrow> (nat \<Rightarrow> string) \<Rightarrow> learning_record \<Rightarrow> 'm learner \<Rightarrow> 'm learner" where
  "process_closed_trade ml ids r0 e0 =
     (case run_post_mortem r0 of (r, pm) \<Rightarrow>
        (let t = Some (le_trade_id r);
             e1 = emit_learning ''TRADE_POSTMORTEM_STARTED'' t e0;
             e2 = emit_learning ''TRADE_CLASSIFIED'' t (emit_learning ''TRADE_POSTMORTEM_COMPLETED'' t
                    (e1\<lparr>ln_post_mortems := ln_post_mortems e1 @ [pm]\<rparr>));
             e3 = reflect_on ml r pm (watch_drift r (recalibrate r (remember r e2)));
             e4 = e3\<lparr>ln_trades := ln_trades e3 + 1\<rparr>;
             e5 = (if should_retrain e4 then run_retraining ml ids 42 e4 else e4)
         in raise_review ids r e5))"

definition on_trade_close :: "'m ml_library \<Rightarrow> (nat \<Rightarrow> string) \<Rightarrow> learning_record \<Rightarrow> 'm learner \<Rightarrow> 'm learner" where
  "on_trade_close ml ids r e = (if lc_enabled (ln_config e) then process_closed_trade ml ids r e else e)"

definition detect_market_regime :: "(pyfloat \<Rightarrow> pyfloat) \<Rightarrow> candle list \<Rightarrow> 'm learner \<Rightarrow> 'm learner \<times> market_regime res" where
  "detect_market_regime half_power cs e =
     (case (if lc_regime_enabled (ln_config e) then detect_regime half_power cs else Inr UNKNOWN_REGIME) of
        Inl err \<Rightarrow> (e, Inl err)
      | Inr g \<Rightarrow> (emit_learning ''REGIME_DETECTED'' None e, Inr g))"

text \<open>\<open>learning_context_for\<close>: any exception gives the failure-safe answer, here \<open>None\<close>.\<close>

definition learning_context_for ::
  "(pyfloat \<Rightarrow> pyfloat) \<Rightarrow> (pyfloat \<Rightarrow> pyfloat) \<Rightarrow> candle list \<Rightarrow> features \<Rightarrow> 'm learner \<Rightarrow> 'm learner \<times> learning_context option" where
  "learning_context_for half_power sq cs fs e =
     (case (if fs \<noteq> [] then Inr fs else if cs \<noteq> [] then extract_features half_power cs else Inr []) of
        Inl _ \<Rightarrow> (e, None)
      | Inr q \<Rightarrow>
          (case (if cs = [] then (e, Inr UNKNOWN_REGIME) else detect_market_regime half_power cs e) of
             (e1, Inl _) \<Rightarrow> (e1, None)
           | (e1, Inr g) \<Rightarrow>
               (emit_learning ''LEARNING_CONTEXT_READY'' None (emit_learning ''MEMORY_RETRIEVAL_COMPLETED'' None e1),
                Some (build_learning_context sq (ln_config e1) q (ln_memory e1) g (learner_degraded e1)
                        (dm_events (ln_drift e1) \<noteq> [])))))"

text \<open>\<open>validate_learning\<close> with a proposal's identifier writes its verdict into the stored proposal.\<close>

definition validate_learning :: "string \<Rightarrow> 'm learner \<Rightarrow> 'm learner \<times> bool option" where
  "validate_learning k e =
     (let ps = ln_proposals e in
      case find (\<lambda>i. lp_id (ps ! i) = k) [0..<length ps] of
        None \<Rightarrow> (e, None)
      | Some i \<Rightarrow>
          (case validate_proposal (ln_config e) (length (ln_memory e))
                  \<lparr>om_brier = None, om_degradation = False, om_turnover = Fin 0, om_in_sample = None, om_oos = None\<rparr>
                  (ps ! i) of
             (p, ok) \<Rightarrow> (e\<lparr>ln_proposals := ps[i := p]\<rparr>, Some ok)))"

definition rollback_candidate :: "string \<Rightarrow> 'm learner \<Rightarrow> 'm learner" where
  "rollback_candidate reason e =
     (case rollback_to_champion (ln_registry e) (ln_proposals e) of (g, ps) \<Rightarrow>
        emit_learning ''LEARNING_ROLLBACK'' None
          (e\<lparr>ln_registry := g, ln_proposals := ps, ln_rollbacks := ln_rollbacks e @ [(reason, champion_name e)]\<rparr>))"

section \<open>What each step leaves alone\<close>

lemma emit_keeps [simp]:
  "ln_registry (emit_learning ev t e) = ln_registry e"
  "ln_config (emit_learning ev t e) = ln_config e"
  "ln_kelly (emit_learning ev t e) = ln_kelly e"
  "ln_memory (emit_learning ev t e) = ln_memory e"
  by (simp_all add: emit_learning_def)

lemma emits_keep [simp]:
  "ln_registry (fold (\<lambda>_. emit_learning ev t) es e) = ln_registry e"
  "ln_config (fold (\<lambda>_. emit_learning ev t) es e) = ln_config e"
  "ln_kelly (fold (\<lambda>_. emit_learning ev t) es e) = ln_kelly e"
  by (induction es arbitrary: e) simp_all

lemma propose_keeps [simp]:
  "ln_registry (propose ids a b c d f e) = ln_registry e"
  "ln_config (propose ids a b c d f e) = ln_config e"
  "ln_kelly (propose ids a b c d f e) = ln_kelly e"
  by (simp_all add: propose_def)

lemma kelly_adapt_keeps [simp]:
  "ln_registry (kelly_adapt p b e) = ln_registry e"
  "ln_config (kelly_adapt p b e) = ln_config e"
  by (simp_all add: kelly_adapt_def)

lemma remember_keeps [simp]:
  "ln_registry (remember r e) = ln_registry e"
  "ln_config (remember r e) = ln_config e"
  "ln_kelly (remember r e) = ln_kelly e"
  by (simp_all add: remember_def Let_def split: trade_outcome.split)

lemma recalibrate_keeps [simp]:
  "ln_registry (recalibrate r e) = ln_registry e"
  "ln_config (recalibrate r e) = ln_config e"
  by (simp_all add: recalibrate_def Let_def split: option.split)

lemma watch_drift_keeps [simp]:
  "ln_registry (watch_drift r e) = ln_registry e"
  "ln_config (watch_drift r e) = ln_config e"
  "ln_kelly (watch_drift r e) = ln_kelly e"
  by (simp_all add: watch_drift_def Let_def split: prod.split)

lemma reflect_on_keeps [simp]:
  "ln_registry (reflect_on ml r pm e) = ln_registry e"
  "ln_config (reflect_on ml r pm e) = ln_config e"
  "ln_kelly (reflect_on ml r pm e) = ln_kelly e"
  by (simp_all add: reflect_on_def Let_def)

lemma raise_review_keeps [simp]:
  "ln_registry (raise_review ids r e) = ln_registry e"
  "ln_config (raise_review ids r e) = ln_config e"
  "ln_kelly (raise_review ids r e) = ln_kelly e"
  by (simp_all add: raise_review_def)

lemma judge_keeps [simp]:
  "ln_config (judge ids n e) = ln_config e"
  "ln_kelly (judge ids n e) = ln_kelly e"
  "ln_registry (judge ids n e) = fst (judge_newest (ln_config e) (engine_challenge n) (ln_registry e))"
  by (simp_all add: judge_def Let_def split: prod.split)

lemma retraining_keeps [simp]:
  "ln_config (run_retraining ml ids seed e) = ln_config e"
  "ln_kelly (run_retraining ml ids seed e) = ln_kelly e"
  by (simp_all add: run_retraining_def Let_def split: sum.split train_result.split)

section \<open>Champions\<close>

definition validated :: "learning_config \<Rightarrow> model_version \<Rightarrow> bool" where
  "validated c v \<longleftrightarrow> mv_decision v = Some True \<and> lc_min_sample_size c \<le> mv_samples v
     \<and> (case mv_brier v of None \<Rightarrow> True | Some b \<Rightarrow> fle b (lc_max_brier c))"

definition one_champion :: "model_version list \<Rightarrow> bool" where
  "one_champion vs \<longleftrightarrow> length (filter mv_champion vs) \<le> 1"

definition registry_ok :: "learning_config \<Rightarrow> registry \<Rightarrow> bool" where
  "registry_ok c g \<longleftrightarrow> one_champion (rg_versions g) \<and> (\<forall>v \<in> set (rg_versions g). mv_champion v \<longrightarrow> validated c v)"

lemma one_champion_snoc:
  "one_champion vs \<Longrightarrow> (mv_champion v \<Longrightarrow> \<forall>w \<in> set vs. \<not> mv_champion w) \<Longrightarrow> one_champion (vs @ [v])"
  by (auto simp: one_champion_def)

lemma one_champion_prefix: "one_champion (vs @ [v]) \<Longrightarrow> one_champion vs"
  by (auto simp: one_champion_def split: if_splits)

lemma no_champions: "\<forall>w \<in> set vs. \<not> mv_champion w \<Longrightarrow> one_champion vs"
  by (simp add: one_champion_def)

lemma the_champion:
  assumes "one_champion vs" "v \<in> set vs" "w \<in> set vs" "mv_champion v" "mv_champion w"
  shows "v = w"
proof -
  have "v \<in> set (filter mv_champion vs)" "w \<in> set (filter mv_champion vs)" using assms(2-5) by auto
  with assms(1) show ?thesis by (cases "filter mv_champion vs") (auto simp: one_champion_def)
qed

lemma demote_only:
  assumes "one_champion vs" "i < length vs" "mv_champion (vs ! i)"
  shows "\<forall>w \<in> set (vs[i := w0\<lparr>mv_champion := False\<rparr>]). \<not> mv_champion w"
proof -
  have "filter mv_champion vs = filter mv_champion (take i vs) @ vs ! i # filter mv_champion (drop (Suc i) vs)"
    using assms(3) by (subst id_take_nth_drop [OF assms(2)]) simp
  with assms(1) have "filter mv_champion (take i vs) = [] \<and> filter mv_champion (drop (Suc i) vs) = []"
    by (simp add: one_champion_def)
  then show ?thesis
    using assms(2) by (auto simp: upd_conv_take_nth_drop filter_empty_conv)
qed

lemma champion_index_Some:
  "champion_index vs = Some i \<Longrightarrow> i < length vs \<and> mv_champion (vs ! i)"
  by (auto simp: champion_index_def find_Some_iff rev_nth)

lemma champion_index_None: "champion_index vs = None \<Longrightarrow> i < length vs \<Longrightarrow> \<not> mv_champion (vs ! i)"
  by (auto simp: champion_index_def find_None_iff)

lemma register_versions:
  "\<exists>v. rg_versions (register g seed k n b a) = rg_versions g @ [v] \<and> \<not> mv_champion v \<and> mv_samples v = n"
  by (simp add: register_def next_version_def Let_def)

lemma registry_ok_register: "registry_ok c g \<Longrightarrow> registry_ok c (register g seed k n b a)"
  using register_versions [of g seed k n b a]
  by (auto simp: registry_ok_def one_champion_def)

lemma passes_gates_validated:
  assumes "passes_gates c h v" "mv_samples v = ch_sample_size h"
  shows "validated c (v\<lparr>mv_decision := Some True, mv_reasons := rs, mv_champion := b\<rparr>)"
  using assms by (auto simp: passes_gates_def gate_flags_def validated_def split: option.splits)

lemma evaluate_accepts:
  assumes "evaluate_challenger c h v champ = (v1, champ1, d)" "\<not> mv_champion v" "mv_samples v = ch_sample_size h"
  shows "mv_champion v1 = cd_accepted d" "mv_champion v1 \<Longrightarrow> validated c v1"
    "champ1 = (if cd_accepted d then map_option (\<lambda>w. w\<lparr>mv_champion := False\<rparr>) champ else champ)"
  using assms passes_gates_validated [of c h v]
  by (auto simp: evaluate_challenger_def Let_def split: if_splits)

lemma judge_newest_ok:
  assumes ok: "registry_ok c g" and new: "rg_versions g = vs @ [v]" "\<not> mv_champion v"
    and size: "mv_samples v = ch_sample_size h"
  shows "registry_ok c (fst (judge_newest c h g))"
proof (cases "champion_index (vs @ [v])")
  case None
  obtain v1 champ1 d where ev: "evaluate_challenger c h v None = (v1, champ1, d)" by (metis prod_cases3)
  note facts = evaluate_accepts [OF ev new(2) size]
  have none: "\<forall>w \<in> set vs. \<not> mv_champion w"
  proof
    fix w assume "w \<in> set vs"
    then obtain j where "j < length vs" "w = (vs @ [v]) ! j" by (auto simp: in_set_conv_nth nth_append)
    with champion_index_None [OF None, of j] show "\<not> mv_champion w" by simp
  qed
  have "rg_versions (fst (judge_newest c h g)) = vs @ [v1]"
    using new(1) None ev by (simp add: judge_newest_def Let_def)
  with none facts(2) show ?thesis by (auto simp: registry_ok_def intro: one_champion_snoc no_champions)
next
  case (Some i)
  from champion_index_Some [OF Some] new(2) have i: "i < length vs" "mv_champion (vs ! i)"
    by (auto simp: nth_append less_Suc_eq split: if_splits)
  obtain v1 champ1 d where ev: "evaluate_challenger c h v (Some (vs ! i)) = (v1, champ1, d)" by (metis prod_cases3)
  note facts = evaluate_accepts [OF ev new(2) size]
  have one: "one_champion vs" and old: "\<forall>w \<in> set vs. mv_champion w \<longrightarrow> validated c w"
    using ok new(1) by (auto simp: registry_ok_def dest: one_champion_prefix)
  show ?thesis
  proof (cases "cd_accepted d")
    case True
    then have champ1: "champ1 = Some ((vs ! i)\<lparr>mv_champion := False\<rparr>)" using facts(3) by simp
    have none: "\<forall>w \<in> set (vs[i := (vs ! i)\<lparr>mv_champion := False\<rparr>]). \<not> mv_champion w"
      using one i by (rule demote_only)
    have "rg_versions (fst (judge_newest c h g)) = vs[i := (vs ! i)\<lparr>mv_champion := False\<rparr>] @ [v1]"
      using new(1) Some i ev champ1 by (simp add: judge_newest_def Let_def nth_append list_update_append)
    with none facts(2) show ?thesis by (auto simp: registry_ok_def intro: one_champion_snoc no_champions)
  next
    case False
    then have "rg_versions (fst (judge_newest c h g)) = vs @ [v1]"
      using new(1) Some i ev facts(3) by (simp add: judge_newest_def Let_def nth_append list_update_append)
    with one old facts(1,2) False show ?thesis by (auto simp: registry_ok_def intro: one_champion_snoc)
  qed
qed

text \<open>A rollback keeps every version as it is: there is no earlier champion it could return to.\<close>

lemma rollback_registry:
  assumes "one_champion (rg_versions g)"
  shows "fst (rollback_to_champion g ps) = g"
proof -
  have "(if map_option mv_name (champion g) \<noteq> Some (mv_name v) then v\<lparr>mv_champion := False\<rparr> else v) = v"
    if v: "v \<in> set (rg_versions g)" for v
  proof (cases "mv_champion v")
    case True
    with v have "champion g \<noteq> None" by (auto simp: champion_def find_None_iff)
    then obtain w where w: "champion g = Some w" by blast
    then have "w \<in> set (rg_versions g)" "mv_champion w"
      by (auto simp: champion_def find_Some_iff rev_nth)
    with assms v True have "w = v" by (blast intro: the_champion)
    with w show ?thesis by simp
  qed simp
  then show ?thesis by (simp add: rollback_to_champion_def Let_def map_idI)
qed

lemma training_grows:
  assumes "train ml c g rs seed = Inr (Trained t)"
  shows "\<exists>v. rg_versions (tn_registry t) = rg_versions g @ [v] \<and> \<not> mv_champion v \<and> mv_samples v = tn_samples t"
  using assms by (auto simp: train_def Let_def bind_res_Inr_iff register_def next_version_def split: if_splits)

lemma retraining_ok:
  assumes "registry_ok (ln_config e) (ln_registry e)"
  shows "registry_ok (ln_config e) (ln_registry (run_retraining ml ids seed e))"
proof (cases "train ml (ln_config e) (ln_registry e) (ln_memory e) seed")
  case (Inl err)
  with assms show ?thesis by (simp add: run_retraining_def)
next
  case (Inr tr)
  show ?thesis
  proof (cases tr)
    case (Trained t)
    with Inr obtain v where v: "rg_versions (tn_registry t) = rg_versions (ln_registry e) @ [v]"
      "\<not> mv_champion v" "mv_samples v = ch_sample_size (engine_challenge (tn_samples t))"
      using training_grows by (fastforce simp: engine_challenge_def)
    have "registry_ok (ln_config e) (tn_registry t)"
      using assms v(1,2) by (auto simp: registry_ok_def intro: one_champion_snoc)
    from judge_newest_ok [OF this v] show ?thesis
      using Inr Trained by (simp add: run_retraining_def Let_def)
  qed (use assms Inr in \<open>simp add: run_retraining_def\<close>)
qed

section \<open>Runs of the engine\<close>

datatype learning_op = Trade_Closed learning_record | Retrain int | Adapt_Kelly pyfloat pyfloat
  | Validate_Proposal string | Roll_Back string

definition learning_exec :: "'m ml_library \<Rightarrow> (nat \<Rightarrow> string) \<Rightarrow> 'm learner \<Rightarrow> learning_op \<Rightarrow> 'm learner" where
  "learning_exec ml ids e op = (case op of
     Trade_Closed r \<Rightarrow> on_trade_close ml ids r e
   | Retrain seed \<Rightarrow> run_retraining ml ids seed e
   | Adapt_Kelly p b \<Rightarrow> kelly_adapt p b e
   | Validate_Proposal k \<Rightarrow> fst (validate_learning k e)
   | Roll_Back reason \<Rightarrow> rollback_candidate reason e)"

lemma validate_keeps [simp]:
  "ln_config (fst (validate_learning k e)) = ln_config e"
  "ln_registry (fst (validate_learning k e)) = ln_registry e"
  "ln_kelly (fst (validate_learning k e)) = ln_kelly e"
  by (simp_all add: validate_learning_def Let_def split: option.split prod.split)

lemma rollback_keeps [simp]:
  "ln_config (rollback_candidate reason e) = ln_config e"
  "ln_kelly (rollback_candidate reason e) = ln_kelly e"
  "ln_registry (rollback_candidate reason e) = fst (rollback_to_champion (ln_registry e) (ln_proposals e))"
  by (simp_all add: rollback_candidate_def split: prod.split)

lemma process_keeps_config [simp]: "ln_config (process_closed_trade ml ids r e) = ln_config e"
  by (simp add: process_closed_trade_def Let_def split: prod.split)

lemma learning_exec_config [simp]: "ln_config (learning_exec ml ids e op) = ln_config e"
  by (cases op) (simp_all add: learning_exec_def on_trade_close_def)

lemma retraining_ok_at:
  "ln_config e = c \<Longrightarrow> registry_ok c (ln_registry e) \<Longrightarrow> registry_ok c (ln_registry (run_retraining ml ids seed e))"
  using retraining_ok by blast

lemma process_registry_ok:
  "registry_ok (ln_config e) (ln_registry e) \<Longrightarrow> registry_ok (ln_config e) (ln_registry (process_closed_trade ml ids r e))"
  by (auto simp: process_closed_trade_def Let_def split: prod.split intro!: retraining_ok_at)

lemma learning_exec_ok:
  "registry_ok (ln_config e) (ln_registry e) \<Longrightarrow> registry_ok (ln_config e) (ln_registry (learning_exec ml ids e op))"
  by (cases op) (auto simp: learning_exec_def on_trade_close_def process_registry_ok retraining_ok rollback_registry
      registry_ok_def [of _ "ln_registry e"])

lemma learning_run_config: "ln_config (foldl (learning_exec ml ids) e ops) = ln_config e"
  by (induction ops arbitrary: e) simp_all

lemma learning_run_ok:
  "registry_ok (ln_config e) (ln_registry e) \<Longrightarrow> registry_ok (ln_config e) (ln_registry (foldl (learning_exec ml ids) e ops))"
proof (induction ops arbitrary: e)
  case (Cons op ops)
  from Cons.IH [of "learning_exec ml ids e op"] learning_exec_ok [OF Cons.prems] show ?case by simp
qed simp

lemma new_learner_facts:
  "new_learner c loaded = Inr e \<Longrightarrow>
     ln_config e = c \<and> ln_registry e = new_registry \<and> ln_kelly e = lc_kelly_base c \<and> assert_learning_safety c = Inr ()"
  by (auto simp: new_learner_def bind_res_Inr_iff)


definition demo_ml :: "unit ml_library" where
  "demo_ml = \<lparr>ml_xgboost = \<lambda>_ _ _. None, ml_forest = \<lambda>_ _ _. Some (), ml_proba = \<lambda>_ _. Some ([Fin 0, Fin 1], [0, 1]),
     ml_exp = \<lambda>_. Fin 1, ml_ln = \<lambda>_. Fin 0, ml_repr = \<lambda>_. []\<rparr>"

definition demo_record :: learning_record where
  "demo_record = \<lparr>le_trade_id = ''T1'', le_strategy_id = Some ''trend'', le_symbol = ''BTC/USD'', le_regime = RANGING,
     le_features = [(''RSI_14'', Some (Fin 50))], le_entry_price = Some (Fin 100), le_exit_price = Some (Fin 99),
     le_quantity = Some (Fin 1), le_slippage = Fin 0, le_net_pnl = Fin (- 1), le_probability = Some (Fin (3 / 4)),
     le_execution_quality = None, le_drift_state = None, le_outcome = BREAKEVEN, le_failures = [], le_successes = [],
     le_lesson = None, le_memory_id = ''MEM-1'', le_brier = None\<rparr>"

definition small_config :: learning_config where
  "small_config = default_learning\<lparr>lc_min_sample_size := 1, lc_interval_trades := 1\<rparr>"

lemma demo_learner:
  "\<exists>e. new_learner small_config [] = Inr e"
  by (simp add: new_learner_def assert_learning_safety_def small_config_def default_learning_def)


section \<open>Sizing\<close>

definition kelly_inside :: "learning_config \<Rightarrow> pyfloat \<Rightarrow> bool" where
  "kelly_inside c k \<longleftrightarrow> fle (lc_kelly_min c) k \<and> fle k (lc_kelly_max c)"

definition kelly_config :: "learning_config \<Rightarrow> bool" where
  "kelly_config c \<longleftrightarrow> fle (lc_kelly_min c) (lc_kelly_max c) \<and> lc_kelly_degraded c \<noteq> NaN \<and> kelly_inside c (lc_kelly_base c)"

lemma kelly_adapt_inside:
  assumes "kelly_config c" "ln_config e = c"
  shows "kelly_inside c (ln_kelly (kelly_adapt p b e))"
proof -
  have "lc_kelly_base c \<noteq> NaN" using assms(1) by (auto simp: kelly_config_def kelly_inside_def)
  then show ?thesis
    using kelly_multiplier_between [of c] assms by (simp add: kelly_adapt_def kelly_inside_def kelly_config_def)
qed

lemma recalibrate_inside:
  assumes "kelly_config c" "ln_config e = c" "kelly_inside c (ln_kelly e)"
  shows "kelly_inside c (ln_kelly (recalibrate r e))"
  using assms by (auto simp: recalibrate_def Let_def split: option.split intro!: kelly_adapt_inside)

lemma learning_exec_inside:
  assumes "kelly_config c" "ln_config e = c" "kelly_inside c (ln_kelly e)"
  shows "kelly_inside c (ln_kelly (learning_exec ml ids e op))"
  using assms
  by (cases op) (auto simp: learning_exec_def on_trade_close_def process_closed_trade_def Let_def split: prod.split
      intro!: kelly_adapt_inside recalibrate_inside)

lemma learning_run_inside:
  "kelly_config c \<Longrightarrow> ln_config e = c \<Longrightarrow> kelly_inside c (ln_kelly e)
   \<Longrightarrow> kelly_inside c (ln_kelly (foldl (learning_exec ml ids) e ops))"
  by (induction ops arbitrary: e) (simp_all add: learning_exec_inside)

text \<open>Learning cannot raise position sizes beyond what the operator configured: after any run of the engine the
  Kelly multiplier is between the configured minimum and maximum.\<close>
theorem learned_sizing_bounded:
  assumes "kelly_config c" "new_learner c loaded = Inr e0"
  shows "fle (lc_kelly_min c) (ln_kelly (foldl (learning_exec ml ids) e0 ops))
         \<and> fle (ln_kelly (foldl (learning_exec ml ids) e0 ops)) (lc_kelly_max c)"
proof -
  from assms have "kelly_inside c (ln_kelly (foldl (learning_exec ml ids) e0 ops))"
    by (intro learning_run_inside) (auto dest: new_learner_facts simp: kelly_config_def)
  then show ?thesis by (simp add: kelly_inside_def)
qed

lemma learned_sizing_bounded_witness:
  "\<exists>e0. new_learner default_learning [] = Inr e0
     \<and> fle (Fin (1 / 4)) (ln_kelly (foldl (learning_exec demo_ml (\<lambda>n. dec_digits n)) e0 [Trade_Closed demo_record]))
     \<and> fle (ln_kelly (foldl (learning_exec demo_ml (\<lambda>n. dec_digits n)) e0 [Trade_Closed demo_record])) (Fin 1)"
proof -
  have "kelly_config default_learning" by (simp add: kelly_config_def kelly_inside_def default_learning_def)
  moreover obtain e0 where e0: "new_learner default_learning [] = Inr (e0 :: unit learner)"
    by (simp add: new_learner_def assert_learning_safety_def default_learning_def)
  moreover have "lc_kelly_min default_learning = Fin (1 / 4)" "lc_kelly_max default_learning = Fin 1"
    by (simp_all add: default_learning_def)
  ultimately show ?thesis
    using learned_sizing_bounded [of default_learning "[]" e0 demo_ml "\<lambda>n. dec_digits n" "[Trade_Closed demo_record]"]
    by metis
qed

section \<open>The gate that is never reached\<close>

text \<open>
  The engine judges a challenger without out-of-sample returns, so the comparison with the champion does not take
  place: a challenger whose Brier score is worse than the champion's, but under the limit, replaces it.
\<close>

lemma engine_never_compares:
  "snd (snd (evaluate_challenger c (engine_challenge n) v champ))
     = snd (snd (evaluate_challenger c (engine_challenge n) v None))"
  by (simp add: evaluate_challenger_def engine_challenge_def oos_worse_def Let_def)

end
