(* ===== verification/Market_Data.thy ===== *)
theory Market_Data
  imports Indicators Order_Model
begin

text \<open>
  \<open>market/\<close>: the data the providers return (\<open>models.py\<close>), the time-to-live cache, health, the two providers
  (\<open>data.py\<close>: the public CCXT client, whose replies are parameters, and the in-memory one), the gateway over a
  provider (\<open>gateway.py\<close>), the normalisation of raw rows and the message feed.  Times are microseconds, the clock is
  an argument.  What the gateway relies on is the locale \<open>snapshot_source\<close>; both providers interpret it.
\<close>

section \<open>Market data\<close>

record ticker =
  tk_exchange :: string
  tk_symbol :: string
  tk_last :: pyfloat
  tk_bid :: "pyfloat option"
  tk_ask :: "pyfloat option"
  tk_volume :: "pyfloat option"
  tk_fetched :: int

record bar =
  br_time :: int
  br_open :: pyfloat
  br_high :: pyfloat
  br_low :: pyfloat
  br_close :: pyfloat
  br_volume :: pyfloat

record market_book =
  ob_exchange :: string
  ob_symbol :: string
  ob_bids :: "(pyfloat \<times> pyfloat) list"
  ob_asks :: "(pyfloat \<times> pyfloat) list"
  ob_fetched :: int

record market_snapshot =
  ms_symbol :: string
  ms_timeframe :: string
  ms_exchange :: string
  ms_ticker :: "ticker option"
  ms_bars :: "bar list"
  ms_book :: "market_book option"
  ms_fetched :: int
  ms_stale :: bool
  ms_max_age :: pyfloat
  ms_error :: "string option"

definition total_seconds :: "int \<Rightarrow> pyfloat" where
  "total_seconds us = fquot (f_of_int us) (Fin 1000000)"

definition ticker_age :: "int \<Rightarrow> ticker \<Rightarrow> pyfloat" where
  "ticker_age now t = pmax (Fin 0) (total_seconds (now - tk_fetched t))"

definition ms_available :: "market_snapshot \<Rightarrow> bool" where
  "ms_available s \<longleftrightarrow> ms_ticker s \<noteq> None \<and> ms_bars s \<noteq> [] \<and> ms_error s = None"

section \<open>Cache\<close>

text \<open>An entry holds the time it expires at.\<close>

record 'v cache =
  tc_ttl :: pyfloat
  tc_data :: "(string \<times> pyfloat \<times> 'v) list"

definition new_cache :: "pyfloat \<Rightarrow> 'v cache" where
  "new_cache ttl = \<lparr>tc_ttl = ttl, tc_data = []\<rparr>"

definition cache_get :: "pyfloat \<Rightarrow> string \<Rightarrow> 'v cache \<Rightarrow> 'v cache \<times> 'v option" where
  "cache_get now k c = (case dget (tc_data c) k of
     None \<Rightarrow> (c, None)
   | Some (expires, v) \<Rightarrow> if flt expires now then (c\<lparr>tc_data := ddel k (tc_data c)\<rparr>, None) else (c, Some v))"

definition cache_set :: "pyfloat \<Rightarrow> string \<Rightarrow> 'v \<Rightarrow> 'v cache \<Rightarrow> 'v cache" where
  "cache_set now k v c = c\<lparr>tc_data := dput k (fadd now (tc_ttl c), v) (tc_data c)\<rparr>"

text \<open>The clock is read once by the lookup and once more when the factory has returned.\<close>

definition get_or_set :: "pyfloat \<Rightarrow> pyfloat \<Rightarrow> string \<Rightarrow> 'v res \<Rightarrow> 'v cache \<Rightarrow> 'v cache \<times> 'v res" where
  "get_or_set t1 t2 k reply c = (case cache_get t1 k c of
     (c1, Some v) \<Rightarrow> (c1, Inr v)
   | (c1, None) \<Rightarrow> (case reply of Inl e \<Rightarrow> (c1, Inl e) | Inr v \<Rightarrow> (cache_set t2 k v c1, Inr v)))"

record 'v fetch =
  ft_key :: string
  ft_asked :: pyfloat
  ft_stored :: pyfloat
  ft_reply :: "'v res"

fun serve :: "'v cache \<Rightarrow> 'v fetch list \<Rightarrow> 'v cache \<times> 'v res list" where
  "serve c [] = (c, [])"
| "serve c (f # fs) = (case get_or_set (ft_asked f) (ft_stored f) (ft_key f) (ft_reply f) c of
     (c1, r) \<Rightarrow> (case serve c1 fs of (c2, rs) \<Rightarrow> (c2, r # rs)))"

section \<open>Health\<close>

record market_health =
  mh_max_age :: pyfloat
  mh_last_error :: "string option"
  mh_last_ok :: "int option"

definition note_ok :: "int \<Rightarrow> market_health \<Rightarrow> market_health" where
  "note_ok now h = h\<lparr>mh_last_ok := Some now, mh_last_error := None\<rparr>"

definition note_error :: "string \<Rightarrow> market_health \<Rightarrow> market_health" where
  "note_error msg h = h\<lparr>mh_last_error := Some msg\<rparr>"

definition is_stale_ticker :: "int \<Rightarrow> market_health \<Rightarrow> ticker \<Rightarrow> bool" where
  "is_stale_ticker now h t = flt (mh_max_age h) (ticker_age now t)"

definition is_stale_candles :: "int \<Rightarrow> market_health \<Rightarrow> bar list \<Rightarrow> bool" where
  "is_stale_candles now h bs = (bs = [] \<or> flt (mh_max_age h) (total_seconds (now - br_time (last bs))))"

definition snapshot_allows_new_trade :: "market_snapshot \<Rightarrow> bool" where
  "snapshot_allows_new_trade s = (if opt_truthy (ms_error s) \<or> ms_stale s \<or> \<not> ms_available s then False else True)"

section \<open>The public CCXT provider\<close>

record raw_ticker =
  rw_symbol :: "string option"
  rw_last :: "pyfloat option"
  rw_bid :: "pyfloat option"
  rw_ask :: "pyfloat option"
  rw_volume :: "pyfloat option"

text \<open>\<open>ccxt\<close> itself: which exchanges it knows, and its replies (or the text of its \<open>BaseError\<close>).\<close>

record ccxt =
  cx_supported :: "string \<Rightarrow> bool"
  cx_ticker :: "string \<Rightarrow> string \<Rightarrow> string + raw_ticker"
  cx_ohlcv :: "string \<Rightarrow> string \<Rightarrow> string \<Rightarrow> nat \<Rightarrow> string + bar list"
  cx_book :: "string \<Rightarrow> string \<Rightarrow> nat \<Rightarrow> string + ((pyfloat \<times> pyfloat) list \<times> (pyfloat \<times> pyfloat) list)"

record public_market =
  pm_lib :: ccxt
  pm_default :: string
  pm_allowed :: "string list"
  pm_max_age :: pyfloat

definition default_allowed :: "string list" where
  "default_allowed = [''kraken'', ''coinbase'', ''binance'', ''bitstamp'', ''gemini'']"

definition new_public :: "ccxt \<Rightarrow> string \<Rightarrow> string list \<Rightarrow> pyfloat \<Rightarrow> public_market" where
  "new_public lib def allowed max_age =
     \<lparr>pm_lib = lib, pm_default = py_lower def,
      pm_allowed = map py_lower (if allowed = [] then default_allowed else allowed), pm_max_age = max_age\<rparr>"

definition exchange_name :: "public_market \<Rightarrow> string option \<Rightarrow> string" where
  "exchange_name m ex = py_lower (if opt_truthy ex then the ex else pm_default m)"

definition client :: "public_market \<Rightarrow> string option \<Rightarrow> string res" where
  "client m ex = (let name = exchange_name m ex in
     if name \<notin> set (pm_allowed m) then Inl (MarketDataError (''Exchange '' @ name @ '' is not in the public allowlist''))
     else if \<not> cx_supported (pm_lib m) name then Inl (MarketDataError (''Unsupported exchange: '' @ name))
     else Inr name)"

definition of_ccxt :: "string + 'a \<Rightarrow> 'a res" where
  "of_ccxt r = (case r of Inl msg \<Rightarrow> Inl (MarketDataError msg) | Inr x \<Rightarrow> Inr x)"

definition public_ticker :: "int \<Rightarrow> public_market \<Rightarrow> string \<Rightarrow> string option \<Rightarrow> ticker res" where
  "public_ticker now m sy ex =
     bind_res (client m ex) (\<lambda>name.
     bind_res (of_ccxt (cx_ticker (pm_lib m) name (py_upper sy))) (\<lambda>raw.
       case rw_last raw of None \<Rightarrow> Inl TypeError
       | Some px \<Rightarrow> Inr \<lparr>tk_exchange = exchange_name m ex,
           tk_symbol = (if opt_truthy (rw_symbol raw) then the (rw_symbol raw) else py_upper sy), tk_last = px,
           tk_bid = rw_bid raw, tk_ask = rw_ask raw, tk_volume = rw_volume raw, tk_fetched = now\<rparr>))"

definition public_ohlcv :: "public_market \<Rightarrow> string \<Rightarrow> string \<Rightarrow> nat \<Rightarrow> string option \<Rightarrow> bar list res" where
  "public_ohlcv m sy tf limit ex =
     bind_res (client m ex) (\<lambda>name. of_ccxt (cx_ohlcv (pm_lib m) name (py_upper sy) tf limit))"

definition public_orderbook :: "int \<Rightarrow> public_market \<Rightarrow> string \<Rightarrow> nat \<Rightarrow> string option \<Rightarrow> market_book res" where
  "public_orderbook now m sy limit ex =
     bind_res (client m ex) (\<lambda>name.
     bind_res (of_ccxt (cx_book (pm_lib m) name (py_upper sy) limit)) (\<lambda>(bids, asks).
       Inr \<lparr>ob_exchange = exchange_name m ex, ob_symbol = py_upper sy, ob_bids = bids, ob_asks = asks, ob_fetched = now\<rparr>))"

definition failed_snapshot :: "int \<Rightarrow> string \<Rightarrow> string \<Rightarrow> string \<Rightarrow> pyfloat \<Rightarrow> string \<Rightarrow> market_snapshot" where
  "failed_snapshot now sy tf ex max_age msg =
     \<lparr>ms_symbol = py_upper sy, ms_timeframe = tf, ms_exchange = ex, ms_ticker = None, ms_bars = [], ms_book = None,
      ms_fetched = now, ms_stale = True, ms_max_age = max_age, ms_error = Some msg\<rparr>"

text \<open>
  Only a \<open>MarketDataError\<close> becomes a failed snapshot; another exception (a reply without a price) goes to the caller.
  The clock is read at the start, for the ticker and for its age: \<open>now\<close>, \<open>now1\<close>, \<open>now2\<close>.
\<close>

definition public_snapshot :: "int \<Rightarrow> int \<Rightarrow> int \<Rightarrow> public_market \<Rightarrow> string \<Rightarrow> string \<Rightarrow> nat \<Rightarrow> string option \<Rightarrow> market_snapshot res" where
  "public_snapshot now now1 now2 m sy tf limit ex =
     (let out = bind_res (public_ticker now1 m sy ex) (\<lambda>t.
        bind_res (public_ohlcv m sy tf limit ex) (\<lambda>bs.
        bind_res (case public_orderbook now2 m sy 20 ex of
                    Inl (MarketDataError _) \<Rightarrow> Inr None | Inl err \<Rightarrow> Inl err | Inr b \<Rightarrow> Inr (Some b)) (\<lambda>book.
          Inr \<lparr>ms_symbol = py_upper sy, ms_timeframe = tf, ms_exchange = exchange_name m ex, ms_ticker = Some t,
               ms_bars = bs, ms_book = book, ms_fetched = now, ms_stale = flt (pm_max_age m) (ticker_age now2 t),
               ms_max_age = pm_max_age m, ms_error = None\<rparr>)))
      in case out of
           Inl (MarketDataError msg) \<Rightarrow> Inr (failed_snapshot now sy tf (exchange_name m ex) (pm_max_age m) msg)
         | r \<Rightarrow> r)"

section \<open>The in-memory provider\<close>

record mock_market =
  mk_bars :: "bar list"
  mk_ticker :: ticker
  mk_book :: market_book
  mk_max_age :: pyfloat
  mk_force_stale :: bool
  mk_fail :: bool

definition mock_error :: string where
  "mock_error = ''mock market data unavailable''"

definition mock_reply :: "mock_market \<Rightarrow> 'a \<Rightarrow> 'a res" where
  "mock_reply m x = (if mk_fail m then Inl (MarketDataError mock_error) else Inr x)"

definition mock_ticker :: "mock_market \<Rightarrow> ticker res" where
  "mock_ticker m = mock_reply m (mk_ticker m)"

definition mock_ohlcv :: "mock_market \<Rightarrow> nat \<Rightarrow> bar list res" where
  "mock_ohlcv m limit = mock_reply m (tail_slice limit (mk_bars m))"

definition mock_orderbook :: "mock_market \<Rightarrow> market_book res" where
  "mock_orderbook m = mock_reply m (mk_book m)"

definition mock_snapshot :: "int \<Rightarrow> int \<Rightarrow> mock_market \<Rightarrow> string \<Rightarrow> string \<Rightarrow> nat \<Rightarrow> string option \<Rightarrow> market_snapshot" where
  "mock_snapshot now now1 m sy tf limit ex =
     (let name = (if opt_truthy ex then the ex else ''mock'') in
      if mk_fail m then failed_snapshot now sy tf name (mk_max_age m) mock_error
      else \<lparr>ms_symbol = py_upper sy, ms_timeframe = tf, ms_exchange = name, ms_ticker = Some (mk_ticker m),
            ms_bars = tail_slice limit (mk_bars m), ms_book = Some (mk_book m), ms_fetched = now,
            ms_stale = (mk_force_stale m \<or> flt (mk_max_age m) (ticker_age now1 (mk_ticker m))),
            ms_max_age = mk_max_age m, ms_error = None\<rparr>)"

text \<open>The bars \<open>MockMarketData\<close> makes up when it is given none: an hourly rise of 0.4.\<close>

definition hour :: int where "hour = 3600000000"

definition uptrend_step :: "int \<Rightarrow> nat \<Rightarrow> nat \<Rightarrow> pyfloat \<times> bar list \<Rightarrow> pyfloat \<times> bar list" where
  "uptrend_step now n i st = (case st of (price, bs) \<Rightarrow>
     let close = fadd price (flit (4 / 10))
     in (close, bs @ [\<lparr>br_time = now - hour * (int n - int i), br_open = price, br_high = fadd close (flit (2 / 10)),
                       br_low = fsub price (flit (1 / 10)), br_close = close, br_volume = f_of_int (1000 + int i)\<rparr>]))"

definition synthetic_uptrend :: "int \<Rightarrow> nat \<Rightarrow> bar list" where
  "synthetic_uptrend now n = snd (fold (uptrend_step now n) [0..<n] (Fin 100, []))"

section \<open>The gateway\<close>

datatype cached = Cached_Ticker ticker | Cached_Bars "bar list"

record gateway =
  gw_cache :: "cached cache"
  gw_health :: market_health
  gw_stale_blocks :: bool

definition new_gateway :: "pyfloat \<Rightarrow> pyfloat \<Rightarrow> bool \<Rightarrow> gateway" where
  "new_gateway max_age ttl blocks =
     \<lparr>gw_cache = new_cache ttl, gw_health = \<lparr>mh_max_age = max_age, mh_last_error = None, mh_last_ok = None\<rparr>,
      gw_stale_blocks = blocks\<rparr>"

definition ticker_key :: "string option \<Rightarrow> string \<Rightarrow> string" where
  "ticker_key ex sy = ''ticker:'' @ opt_default ex ''None'' @ '':'' @ sy"

definition ohlcv_key :: "string option \<Rightarrow> string \<Rightarrow> string \<Rightarrow> nat \<Rightarrow> string" where
  "ohlcv_key ex sy tf limit = ''ohlcv:'' @ opt_default ex ''None'' @ '':'' @ sy @ '':'' @ tf @ '':'' @ dec_digits limit"

text \<open>\<open>get_ticker\<close> and \<open>get_ohlcv\<close>: the cache or the provider's reply, and the outcome noted in the health.\<close>

definition gateway_fetch ::
  "(py_error \<Rightarrow> string) \<Rightarrow> int \<Rightarrow> pyfloat \<Rightarrow> pyfloat \<Rightarrow> string \<Rightarrow> cached res \<Rightarrow> gateway \<Rightarrow> gateway \<times> cached res" where
  "gateway_fetch msg now t1 t2 k reply g =
     (case get_or_set t1 t2 k reply (gw_cache g) of (c, r) \<Rightarrow>
        (g\<lparr>gw_cache := c, gw_health := (case r of Inl e \<Rightarrow> note_error (msg e) (gw_health g)
                                        | Inr _ \<Rightarrow> note_ok now (gw_health g))\<rparr>, r))"

definition gateway_snapshot :: "int \<Rightarrow> market_snapshot res \<Rightarrow> gateway \<Rightarrow> gateway \<times> market_snapshot res" where
  "gateway_snapshot now reply g = (case reply of
     Inl e \<Rightarrow> (g, Inl e)
   | Inr s \<Rightarrow>
       (g\<lparr>gw_health := (if opt_truthy (ms_error s) then note_error (the (ms_error s)) (gw_health g)
                        else if ms_stale s then note_error ''stale_market_data'' (gw_health g)
                        else note_ok now (gw_health g))\<rparr>, Inr s))"

definition allows_new_trade :: "gateway \<Rightarrow> market_snapshot \<Rightarrow> bool" where
  "allows_new_trade g s =
     (if \<not> gw_stale_blocks g then ms_available s \<and> \<not> opt_truthy (ms_error s) else snapshot_allows_new_trade s)"

section \<open>Normalisation\<close>

text \<open>A raw row: its time stamp is a number of seconds or, above \<open>10 ^ 10\<close>, of milliseconds, or not a number.\<close>

datatype raw_row = Ready bar | Row "pyfloat option" "pyfloat \<times> pyfloat \<times> pyfloat \<times> pyfloat \<times> pyfloat"

definition row_seconds :: "pyfloat \<Rightarrow> pyfloat" where
  "row_seconds ts = (if flt (Fin 10000000000) ts then fquot ts (Fin 1000) else ts)"

text \<open>\<open>datetime.fromtimestamp\<close> is a parameter: the microseconds of a number of seconds.\<close>

definition normalize_candles :: "(pyfloat \<Rightarrow> int res) \<Rightarrow> int \<Rightarrow> raw_row list \<Rightarrow> bar list res" where
  "normalize_candles from_seconds now rows = map_res (\<lambda>row. case row of
     Ready b \<Rightarrow> Inr b
   | Row ts (op, hi, lo, cl, vol) \<Rightarrow>
       bind_res (case ts of None \<Rightarrow> Inr now | Some t \<Rightarrow> from_seconds (row_seconds t)) (\<lambda>t.
         Inr \<lparr>br_time = t, br_open = op, br_high = hi, br_low = lo, br_close = cl, br_volume = vol\<rparr>)) rows"

definition first_nonzero :: "pyfloat option list \<Rightarrow> pyfloat" where
  "first_nonzero xs = (case List.map_filter (\<lambda>x. if x = Some (Fin 0) then None else x) xs of [] \<Rightarrow> Fin 0 | x # _ \<Rightarrow> x)"

definition normalize_ticker ::
  "int \<Rightarrow> raw_ticker \<Rightarrow> pyfloat option \<Rightarrow> pyfloat option \<Rightarrow> string \<Rightarrow> string \<Rightarrow> ticker" where
  "normalize_ticker now raw price close sy source =
     \<lparr>tk_exchange = source, tk_symbol = py_upper (if opt_truthy (rw_symbol raw) then the (rw_symbol raw) else sy),
      tk_last = first_nonzero [rw_last raw, price, close], tk_bid = rw_bid raw, tk_ask = rw_ask raw,
      tk_volume = rw_volume raw, tk_fetched = now\<rparr>"

definition normalize_order_book ::
  "int \<Rightarrow> (pyfloat \<times> pyfloat) list option \<Rightarrow> (pyfloat \<times> pyfloat) list option \<Rightarrow> string \<Rightarrow> string \<Rightarrow> market_book" where
  "normalize_order_book now bids asks sy source =
     \<lparr>ob_exchange = source, ob_symbol = py_upper sy, ob_bids = opt_default bids [], ob_asks = opt_default asks [],
      ob_fetched = now\<rparr>"

section \<open>The message feed\<close>

record market_feed =
  mf_enabled :: bool
  mf_connected :: bool
  mf_last_message :: "int option"
  mf_reconnects :: nat
  mf_last_error :: "string option"
  mf_seen :: "string list"
  mf_max_retries :: nat

fun feed_attempts :: "(nat \<Rightarrow> string option) \<Rightarrow> nat list \<Rightarrow> market_feed \<Rightarrow> market_feed" where
  "feed_attempts attempt [] f = f"
| "feed_attempts attempt (i # is) f = (case attempt i of
     None \<Rightarrow> f\<lparr>mf_reconnects := i + 1, mf_connected := True, mf_last_error := None\<rparr>
   | Some e \<Rightarrow> feed_attempts attempt is (f\<lparr>mf_reconnects := i + 1, mf_last_error := Some e, mf_connected := False\<rparr>))"

definition connect_with_retry :: "(nat \<Rightarrow> string option) \<Rightarrow> market_feed \<Rightarrow> market_feed" where
  "connect_with_retry attempt f = feed_attempts attempt [0..<mf_max_retries f] f"

definition feed_start :: "(nat \<Rightarrow> string option) \<Rightarrow> market_feed \<Rightarrow> market_feed" where
  "feed_start attempt f = (if \<not> mf_enabled f then f else connect_with_retry attempt f)"

definition feed_reconnect :: "(nat \<Rightarrow> string option) \<Rightarrow> market_feed \<Rightarrow> market_feed" where
  "feed_reconnect attempt f = connect_with_retry attempt (f\<lparr>mf_connected := False\<rparr>)"

text \<open>The iteration order of a set is a parameter: above 10000 identifiers the feed keeps the last 1000 of it.\<close>

definition feed_message :: "(string list \<Rightarrow> string list) \<Rightarrow> int \<Rightarrow> string \<Rightarrow> market_feed \<Rightarrow> market_feed \<times> bool" where
  "feed_message set_order now mid f =
     (if mid \<in> set (mf_seen f) then (f, False)
      else (let seen = mf_seen f @ [mid];
                kept = (if 10000 < length seen then last_n 1000 (set_order seen) else seen)
            in (f\<lparr>mf_seen := kept, mf_last_message := Some now\<rparr>, True)))"

definition feed_stop :: "market_feed \<Rightarrow> market_feed" where
  "feed_stop f = f\<lparr>mf_connected := False\<rparr>"

section \<open>A cached answer is never older than its time to live\<close>

definition stored_by :: "pyfloat \<Rightarrow> 'v fetch list \<Rightarrow> (string \<times> pyfloat \<times> 'v) list \<Rightarrow> bool" where
  "stored_by ttl fs d \<longleftrightarrow> (\<forall>k e v. dget d k = Some (e, v) \<longrightarrow>
     (\<exists>f \<in> set fs. ft_key f = k \<and> ft_reply f = Inr v \<and> e = fadd (ft_stored f) ttl))"

lemma cache_get_cases:
  "cache_get now k c = (c1, r) \<Longrightarrow> tc_ttl c1 = tc_ttl c \<and> (\<forall>k'. dget (tc_data c1) k' \<noteq> None \<longrightarrow> dget (tc_data c1) k' = dget (tc_data c) k')
     \<and> (\<forall>v. r = Some v \<longrightarrow> (\<exists>e. dget (tc_data c) k = Some (e, v) \<and> \<not> flt e now))"
  by (auto simp: cache_get_def dget_ddel split: option.splits prod.splits if_splits)

lemma stored_by_mono: "stored_by ttl fs d \<Longrightarrow> set fs \<subseteq> set gs \<Longrightarrow> stored_by ttl gs d"
  unfolding stored_by_def by blast

lemma stored_by_put:
  assumes "stored_by ttl fs d" "ft_reply f = Inr v"
  shows "stored_by ttl (fs @ [f]) (dput (ft_key f) (fadd (ft_stored f) ttl, v) d)"
  unfolding stored_by_def
proof (intro allI impI)
  fix k e w
  assume get: "dget (dput (ft_key f) (fadd (ft_stored f) ttl, v) d) k = Some (e, w)"
  show "\<exists>g \<in> set (fs @ [f]). ft_key g = k \<and> ft_reply g = Inr w \<and> e = fadd (ft_stored g) ttl"
  proof (cases "k = ft_key f")
    case True
    with get assms(2) show ?thesis by (auto simp: dget_dput)
  next
    case False
    with get assms(1) show ?thesis by (fastforce simp: dget_dput stored_by_def)
  qed
qed

lemma get_or_set_stored:
  assumes step: "get_or_set (ft_asked f) (ft_stored f) (ft_key f) (ft_reply f) c = (c1, r)"
    and old: "stored_by (tc_ttl c) fs (tc_data c)"
  shows "tc_ttl c1 = tc_ttl c" "stored_by (tc_ttl c) (fs @ [f]) (tc_data c1)"
    "r = Inr v \<Longrightarrow> ft_reply f = Inr v \<or> (\<exists>g \<in> set fs. ft_key g = ft_key f \<and> ft_reply g = Inr v
                        \<and> \<not> flt (fadd (ft_stored g) (tc_ttl c)) (ft_asked f))"
proof -
  obtain c2 q where get: "cache_get (ft_asked f) (ft_key f) c = (c2, q)" by force
  note facts = cache_get_cases [OF get]
  have kept: "stored_by (tc_ttl c) fs (tc_data c2)"
    using old facts unfolding stored_by_def by (metis option.distinct(1))
  show "tc_ttl c1 = tc_ttl c"
    using step get facts by (auto simp: get_or_set_def cache_set_def split: option.splits sum.splits)
  show "stored_by (tc_ttl c) (fs @ [f]) (tc_data c1)"
    using step get facts stored_by_put [OF kept] stored_by_mono [OF kept, of "fs @ [f]"]
    by (auto simp: get_or_set_def cache_set_def split: option.splits sum.splits)
  show "r = Inr v \<Longrightarrow> ft_reply f = Inr v \<or> (\<exists>g \<in> set fs. ft_key g = ft_key f \<and> ft_reply g = Inr v
                        \<and> \<not> flt (fadd (ft_stored g) (tc_ttl c)) (ft_asked f))"
    using step get facts old
    by (fastforce simp: get_or_set_def stored_by_def split: option.splits sum.splits)
qed

lemma serve_recent:
  assumes "stored_by (tc_ttl c) hist (tc_data c)" "i < length fs" "snd (serve c fs) ! i = Inr v"
  shows "ft_reply (fs ! i) = Inr v
     \<or> (\<exists>g \<in> set (hist @ take i fs). ft_key g = ft_key (fs ! i) \<and> ft_reply g = Inr v
          \<and> \<not> flt (fadd (ft_stored g) (tc_ttl c)) (ft_asked (fs ! i)))"
  using assms
proof (induction fs arbitrary: c hist i)
  case (Cons f fs)
  obtain c1 r where step: "get_or_set (ft_asked f) (ft_stored f) (ft_key f) (ft_reply f) c = (c1, r)" by force
  note facts = get_or_set_stored [OF step Cons.prems(1)]
  show ?case
  proof (cases i)
    case 0
    with Cons.prems(3) step have "r = Inr v" by (simp split: prod.splits)
    from facts(3) [OF this] show ?thesis by (simp add: 0)
  next
    case (Suc j)
    with Cons.prems(2,3) step have j: "j < length fs" "snd (serve c1 fs) ! j = Inr v"
      by (simp_all split: prod.splits)
    have "stored_by (tc_ttl c1) (hist @ [f]) (tc_data c1)" using facts(1,2) by simp
    from Cons.IH [OF this j] show ?thesis by (simp add: Suc facts(1))
  qed
qed simp

text \<open>The cache never serves an answer past its time to live: the answer to a lookup is the reply of the
  provider to that very lookup, or the reply to an earlier lookup of the same key, stored so recently that its expiry
  (the time it was stored plus the time to live) is not before the lookup.\<close>
theorem cache_answers_recent:
  assumes "i < length fs" and "snd (serve (new_cache ttl) fs) ! i = Inr v"
  shows "ft_reply (fs ! i) = Inr v
     \<or> (\<exists>g \<in> set (take i fs). ft_key g = ft_key (fs ! i) \<and> ft_reply g = Inr v
          \<and> \<not> flt (fadd (ft_stored g) ttl) (ft_asked (fs ! i)))"
  using serve_recent [of "new_cache ttl" "[]" i fs v] assms by (simp add: new_cache_def stored_by_def)

definition demo_fetches :: "nat fetch list" where
  "demo_fetches = [\<lparr>ft_key = ''a'', ft_asked = Fin 0, ft_stored = Fin 1, ft_reply = Inr 7\<rparr>,
     \<lparr>ft_key = ''a'', ft_asked = Fin 4, ft_stored = Fin 4, ft_reply = Inr 8\<rparr>]"

lemma cache_answers_recent_witness:
  "ft_reply (demo_fetches ! 1) = Inr (7 :: nat)
     \<or> (\<exists>g \<in> set (take 1 demo_fetches). ft_key g = ft_key (demo_fetches ! 1) \<and> ft_reply g = Inr 7
          \<and> \<not> flt (fadd (ft_stored g) (Fin 5)) (ft_asked (demo_fetches ! 1)))"
proof (rule cache_answers_recent)
  show "1 < length demo_fetches" by (simp add: demo_fetches_def)
  have "fadd (Fin 1) (Fin 5) = Fin 6" by (simp add: fl_eval)
  then show "snd (serve (new_cache (Fin 5)) demo_fetches) ! 1 = Inr 7"
    by (simp add: demo_fetches_def get_or_set_def cache_get_def cache_set_def new_cache_def)
qed

section \<open>What the gateway relies on\<close>

text \<open>
  A source of snapshots tells the truth about its data: a snapshot that is not marked stale and has a ticker
  carries a ticker that was not older than the limit when its age was read.
\<close>

locale snapshot_source =
  fixes snap :: "market_snapshot res"
    and age_read :: int
  assumes fresh: "snap = Inr s \<Longrightarrow> \<not> ms_stale s \<Longrightarrow> ms_ticker s = Some t \<Longrightarrow> \<not> flt (ms_max_age s) (ticker_age age_read t)"
    and failed: "snap = Inr s \<Longrightarrow> ms_error s \<noteq> None \<Longrightarrow> ms_ticker s = None"
begin

lemma admitted_fresh:
  assumes "gateway_snapshot now snap g = (g1, Inr s)" "gw_stale_blocks g" "allows_new_trade g1 s"
  shows "\<exists>t. ms_ticker s = Some t \<and> \<not> flt (ms_max_age s) (ticker_age age_read t) \<and> ms_bars s \<noteq> [] \<and> ms_error s = None"
  using assms fresh [of s]
  by (auto simp: gateway_snapshot_def allows_new_trade_def snapshot_allows_new_trade_def ms_available_def
      split: sum.splits if_splits)

lemma admitted_noted:
  assumes "gateway_snapshot now snap g = (g1, Inr s)" "gw_stale_blocks g" "allows_new_trade g1 s"
  shows "mh_last_error (gw_health g1) = None \<and> mh_last_ok (gw_health g1) = Some now"
  using assms
  by (auto simp: gateway_snapshot_def allows_new_trade_def snapshot_allows_new_trade_def note_ok_def split: sum.splits if_splits)

end

interpretation public_source: snapshot_source "public_snapshot now now1 now2 m sy tf limit ex" now2
  by unfold_locales
    (auto simp: public_snapshot_def failed_snapshot_def Let_def bind_res_Inr_iff split: sum.splits py_error.splits)

interpretation mock_source: snapshot_source "Inr (mock_snapshot now now1 m sy tf limit ex)" now1
  by unfold_locales (auto simp: mock_snapshot_def failed_snapshot_def Let_def split: if_splits)

text \<open>With \<open>stale_blocks_new_trades\<close> set, the gateway over the public provider admits a trade only on a snapshot that has
  a ticker no older than the limit when its age was read, has candles and has no error; and it has noted the
  provider as healthy.\<close>
theorem gateway_admits_fresh_data_only:
  assumes "gateway_snapshot noted (public_snapshot start asked aged m sy tf limit ex) g = (g', Inr s)"
    and "gw_stale_blocks g" and "allows_new_trade g' s"
  shows "(\<exists>t. ms_ticker s = Some t \<and> \<not> flt (ms_max_age s) (ticker_age aged t) \<and> ms_bars s \<noteq> [] \<and> ms_error s = None)
         \<and> mh_last_error (gw_health g') = None"
  using public_source.admitted_fresh [OF assms] public_source.admitted_noted [OF assms] by blast

definition demo_bar :: bar where
  "demo_bar = \<lparr>br_time = 0, br_open = Fin 1, br_high = Fin 1, br_low = Fin 1, br_close = Fin 1, br_volume = Fin 1\<rparr>"

definition demo_ccxt :: ccxt where
  "demo_ccxt = \<lparr>cx_supported = \<lambda>_. True,
     cx_ticker = \<lambda>_ _. Inr \<lparr>rw_symbol = None, rw_last = Some (Fin 5), rw_bid = None, rw_ask = None, rw_volume = None\<rparr>,
     cx_ohlcv = \<lambda>_ _ _ _. Inr [demo_bar], cx_book = \<lambda>_ _ _. Inl ''no book''\<rparr>"

definition demo_market :: public_market where
  "demo_market = new_public demo_ccxt ''kraken'' [] (Fin 120)"

definition demo_gateway :: gateway where
  "demo_gateway = new_gateway (Fin 120) (Fin 5) True"

definition demo_snapshot :: market_snapshot where
  "demo_snapshot = \<lparr>ms_symbol = ''BTC'', ms_timeframe = ''1h'', ms_exchange = ''kraken'',
     ms_ticker = Some \<lparr>tk_exchange = ''kraken'', tk_symbol = ''BTC'', tk_last = Fin 5, tk_bid = None, tk_ask = None,
                       tk_volume = None, tk_fetched = 0\<rparr>,
     ms_bars = [demo_bar], ms_book = None, ms_fetched = 0, ms_stale = False, ms_max_age = Fin 120, ms_error = None\<rparr>"

lemma age_zero [simp]: "total_seconds 0 = Fin 0"
  by (simp add: total_seconds_def f_of_int_def)

lemma demo_public: "public_snapshot 0 0 0 demo_market ''BTC'' ''1h'' 2 None = Inr demo_snapshot"
  by (simp add: public_snapshot_def public_ticker_def public_ohlcv_def public_orderbook_def client_def exchange_name_def
      demo_market_def new_public_def demo_ccxt_def default_allowed_def opt_truthy_def py_lower_def py_upper_def of_ccxt_def
      ticker_age_def demo_snapshot_def pmax_def)

lemma demo_admitted:
  "gateway_snapshot 9 (Inr demo_snapshot) demo_gateway = (demo_gateway\<lparr>gw_health := note_ok 9 (gw_health demo_gateway)\<rparr>, Inr demo_snapshot)"
  "allows_new_trade (demo_gateway\<lparr>gw_health := h\<rparr>) demo_snapshot" "gw_stale_blocks demo_gateway"
  by (simp_all add: gateway_snapshot_def allows_new_trade_def snapshot_allows_new_trade_def ms_available_def demo_snapshot_def
      demo_gateway_def new_gateway_def opt_truthy_def)

lemma gateway_admits_fresh_data_only_witness:
  "(\<exists>t. ms_ticker demo_snapshot = Some t \<and> \<not> flt (ms_max_age demo_snapshot) (ticker_age 0 t) \<and> ms_bars demo_snapshot \<noteq> []
        \<and> ms_error demo_snapshot = None)
   \<and> mh_last_error (gw_health (demo_gateway\<lparr>gw_health := note_ok 9 (gw_health demo_gateway)\<rparr>)) = None"
  by (rule gateway_admits_fresh_data_only [where noted = 9 and start = 0 and asked = 0 and aged = 0 and m = demo_market and sy = "''BTC''" and tf = "''1h''"
        and limit = 2 and ex = None and g = demo_gateway])
    (simp_all add: demo_public demo_admitted)

end
