(* ===== verification/Autonomous.thy ===== *)
theory Autonomous
  imports Paper_Engine Learning_Engine Market_Data State_Tables "HOL-Library.Char_ord" "HOL-Library.List_Lexorder"
begin

text \<open>
  \<open>autonomous/\<close>: the paper loop that fetches a snapshot, builds a plan, has the paper engine execute it and
  feeds the learning engine, once per interval; the cycle's states (\<open>states.py\<close>), its idempotency key
  (\<open>idempotency.py\<close>) and the state the loop keeps on disk.  What a cycle meets (the provider's reply, the STOP file, the
  clock and the identifiers) is an argument of the cycle; the events sent to the dashboard are left out.
\<close>

section \<open>States of a cycle\<close>

datatype cycle_state = CYCLE_STARTED | MARKET_DATA_READY | ANALYSIS_RUNNING | CONSENSUS_READY | TRADE_PROPOSED
  | RISK_VALIDATING | RISK_APPROVED | RISK_REJECTED | ORDER_SUBMITTED | ORDER_PARTIALLY_FILLED | ORDER_FILLED
  | ORDER_CANCELLED | ORDER_EXPIRED | POSITION_UPDATED | CYCLE_COMPLETED | CYCLE_FAILED

fun cycle_transitions :: "cycle_state \<Rightarrow> cycle_state list" where
  "cycle_transitions CYCLE_STARTED = [MARKET_DATA_READY, CYCLE_FAILED]"
| "cycle_transitions MARKET_DATA_READY = [ANALYSIS_RUNNING, CYCLE_FAILED, CYCLE_COMPLETED]"
| "cycle_transitions ANALYSIS_RUNNING = [CONSENSUS_READY, CYCLE_FAILED, CYCLE_COMPLETED]"
| "cycle_transitions CONSENSUS_READY = [TRADE_PROPOSED, CYCLE_COMPLETED, CYCLE_FAILED]"
| "cycle_transitions TRADE_PROPOSED = [RISK_VALIDATING, CYCLE_COMPLETED, CYCLE_FAILED]"
| "cycle_transitions RISK_VALIDATING = [RISK_APPROVED, RISK_REJECTED, CYCLE_FAILED]"
| "cycle_transitions RISK_APPROVED = [ORDER_SUBMITTED, CYCLE_FAILED]"
| "cycle_transitions RISK_REJECTED = [CYCLE_COMPLETED]"
| "cycle_transitions ORDER_SUBMITTED =
     [ORDER_PARTIALLY_FILLED, ORDER_FILLED, ORDER_CANCELLED, ORDER_EXPIRED, CYCLE_FAILED]"
| "cycle_transitions ORDER_PARTIALLY_FILLED = [ORDER_FILLED, ORDER_CANCELLED, POSITION_UPDATED]"
| "cycle_transitions ORDER_FILLED = [POSITION_UPDATED, CYCLE_COMPLETED]"
| "cycle_transitions ORDER_CANCELLED = [CYCLE_COMPLETED]"
| "cycle_transitions ORDER_EXPIRED = [CYCLE_COMPLETED]"
| "cycle_transitions POSITION_UPDATED = [CYCLE_COMPLETED]"
| "cycle_transitions CYCLE_COMPLETED = []"
| "cycle_transitions CYCLE_FAILED = []"

definition cycle_step :: "cycle_state \<Rightarrow> cycle_state \<Rightarrow> cycle_state res" where
  "cycle_step = table_transition cycle_transitions ''Invalid cycle transition''"

fun cycle_rank :: "cycle_state \<Rightarrow> nat" where
  "cycle_rank CYCLE_STARTED = 0"
| "cycle_rank MARKET_DATA_READY = 1"
| "cycle_rank ANALYSIS_RUNNING = 2"
| "cycle_rank CONSENSUS_READY = 3"
| "cycle_rank TRADE_PROPOSED = 4"
| "cycle_rank RISK_VALIDATING = 5"
| "cycle_rank RISK_APPROVED = 6"
| "cycle_rank RISK_REJECTED = 6"
| "cycle_rank ORDER_SUBMITTED = 7"
| "cycle_rank ORDER_PARTIALLY_FILLED = 8"
| "cycle_rank ORDER_FILLED = 9"
| "cycle_rank ORDER_CANCELLED = 9"
| "cycle_rank ORDER_EXPIRED = 9"
| "cycle_rank POSITION_UPDATED = 10"
| "cycle_rank CYCLE_COMPLETED = 11"
| "cycle_rank CYCLE_FAILED = 11"

interpretation cycles: climbing cycle_step cycle_rank 11
proof
  fix s t u
  show "cycle_step s t = Inr u \<Longrightarrow> u = t" by (simp add: cycle_step_def)
  show "cycle_step s t = Inr u \<Longrightarrow> s \<noteq> t \<Longrightarrow> cycle_rank s < cycle_rank t"
    by (cases s) (auto simp: cycle_step_def)
  show "cycle_rank s \<le> 11" by (cases s) simp_all
qed

section \<open>Configuration, result and state\<close>

record auto_config =
  ac_live_enabled :: bool
  ac_symbols :: "string list"
  ac_timeframe :: string
  ac_strategy_id :: string
  ac_duplicate_protection :: bool
  ac_persist :: bool
  ac_max_cycles :: int

record cycle_result =
  cr_id :: string
  cr_symbol :: string
  cr_state :: cycle_state
  cr_executed :: bool
  cr_reason :: "string option"
  cr_key :: "string option"
  cr_execution :: "engine_result option"
  cr_error :: "py_error option"

record disk_state =
  ds_cycles :: nat
  ds_seen :: "string list"
  ds_last :: "cycle_result option"

record 'm auto_loop =
  al_config :: auto_config
  al_settings :: settings
  al_paper :: paper_engine
  al_gateway :: gateway
  al_learner :: "'m learner"
  al_running :: bool
  al_cycles :: nat
  al_last :: "cycle_result option"
  al_seen :: "string list"
  al_disk :: "disk_state option"

text \<open>The functions outside the program, and what one cycle meets.\<close>

record 'm auto_lib =
  lb_sha24 :: "string \<Rightarrow> string"
  lb_h16 :: "string \<Rightarrow> string"
  lb_f10 :: "pyfloat \<Rightarrow> string"
  lb_half_power :: "pyfloat \<Rightarrow> pyfloat"
  lb_f3 :: "pyfloat \<Rightarrow> string"
  lb_ml :: "'m ml_library"
  lb_ids :: "nat \<Rightarrow> string"

record cycle_env =
  ce_id :: string
  ce_run_id :: string
  ce_bucket :: string
  ce_now :: int
  ce_market :: "string \<Rightarrow> string \<Rightarrow> market_snapshot res"
  ce_stop_start :: "string option"
  ce_stop_execute :: "string option"
  ce_symbol :: "string option"
  ce_price :: "pyfloat option"

definition assert_paper_only :: "'m auto_loop \<Rightarrow> unit res" where
  "assert_paper_only l =
     (if \<not> paper_only (al_settings l)
      then Inl (RuntimeError ''AutonomousPaperLoop requires TRADING_MODE=paper and LIVE_TRADING_ENABLED=false'')
      else if ac_live_enabled (al_config l)
      then Inl (RuntimeError ''autonomous_loop.live_trading_enabled must remain false'') else Inr ())"

definition load_state :: "'m auto_loop \<Rightarrow> 'm auto_loop" where
  "load_state l = (case al_disk l of None \<Rightarrow> l
     | Some d \<Rightarrow> l\<lparr>al_cycles := ds_cycles d, al_seen := ds_seen d, al_last := ds_last d\<rparr>)"

definition persist_state :: "'m auto_loop \<Rightarrow> 'm auto_loop" where
  "persist_state l = (if ac_persist (al_config l)
     then l\<lparr>al_disk := Some \<lparr>ds_cycles = al_cycles l, ds_seen = last_n 500 (sort (al_seen l)), ds_last = al_last l\<rparr>\<rparr>
     else l)"

definition make_idempotency_key ::
  "(string \<Rightarrow> string) \<Rightarrow> string \<Rightarrow> string \<Rightarrow> string \<Rightarrow> string \<Rightarrow> string \<Rightarrow> string option \<Rightarrow> string" where
  "make_idempotency_key sha24 strategy sy tf cycle version side =
     ''IDEM-'' @ sha24 (join_with ''|'' [py_lower (py_strip strategy), py_upper (py_strip sy), py_strip tf, py_strip cycle,
        py_strip version, py_upper (py_strip (opt_default side []))])"

definition already_seen :: "string list \<Rightarrow> string \<Rightarrow> bool" where
  "already_seen keys k \<longleftrightarrow> k \<in> set keys"

definition cycle_symbol :: "cycle_env \<Rightarrow> auto_config \<Rightarrow> string" where
  "cycle_symbol v c = py_upper (if opt_truthy (ce_symbol v) then the (ce_symbol v)
     else hd (if ac_symbols c = [] then [''BTC/USD''] else ac_symbols c))"

text \<open>With duplicate protection the key's cycle is the minute, without it the cycle's own identifier.\<close>

definition cycle_key :: "'m auto_lib \<Rightarrow> cycle_env \<Rightarrow> auto_config \<Rightarrow> string" where
  "cycle_key lib v c = make_idempotency_key (lb_sha24 lib) (ac_strategy_id c) (cycle_symbol v c) (ac_timeframe c)
     (if ac_duplicate_protection c then ce_bucket v else ce_id v) ''1'' (Some ''LONG'')"

definition cycle_price :: "cycle_env \<Rightarrow> market_snapshot \<Rightarrow> pyfloat" where
  "cycle_price v s = (case ce_price v of Some p \<Rightarrow> p
     | None \<Rightarrow> (case ms_ticker s of Some t \<Rightarrow> tk_last t | None \<Rightarrow> Fin 100))"

definition cycle_quantity :: "pyfloat \<Rightarrow> pyfloat" where
  "cycle_quantity px = (if flt px (Fin 1000) then Fin 1 else flit (1 / 100))"

definition cycle_plan :: "auto_config \<Rightarrow> string \<Rightarrow> pyfloat \<Rightarrow> trade_plan" where
  "cycle_plan c sy px =
     \<lparr>pl_strategy_id = ac_strategy_id c, pl_strategy_version = ''1.0.0'', pl_model_ids = [''PHASE9''], pl_symbol = sy,
      pl_side = ''LONG'', pl_entry_price = px, pl_quantity = cycle_quantity px, pl_notional = fmul (cycle_quantity px) px,
      pl_stop_loss = Some (fmul px (flit (97 / 100))), pl_take_profit = Some (fmul px (flit (106 / 100))),
      pl_risk_amount = fmul (fabs (fmul px (flit (3 / 100)))) (cycle_quantity px), pl_expected_fee = Fin 0,
      pl_expected_slippage = Fin 0, pl_risk_reward_ratio = Some (Fin 2), pl_confidence = flit (66 / 100),
      pl_invalidation = [], pl_status = PROPOSED, pl_reason = None, pl_move_be_at_1r = False, pl_partial_tp_pct = None\<rparr>"

text \<open>The closed trade the loop reports to the learning engine: an exit one per cent above the entry.\<close>

definition cycle_trade :: "cycle_env \<Rightarrow> auto_config \<Rightarrow> string \<Rightarrow> pyfloat \<Rightarrow> learning_record" where
  "cycle_trade v c sy px =
     (let exit_price = fmul px (flit (101 / 100)) in
      \<lparr>le_trade_id = ce_id v @ ''-T1'', le_strategy_id = Some (ac_strategy_id c), le_symbol = sy,
       le_regime = UNKNOWN_REGIME, le_features = [], le_entry_price = Some px, le_exit_price = Some exit_price,
       le_quantity = Some (cycle_quantity px), le_slippage = Fin 0,
       le_net_pnl = fmul (fsub exit_price px) (cycle_quantity px), le_probability = Some (flit (66 / 100)),
       le_execution_quality = Some ''GOOD'', le_drift_state = None, le_outcome = WIN, le_failures = [], le_successes = [],
       le_lesson = None, le_memory_id = ''MEM-'' @ ce_id v, le_brier = None\<rparr>)"

section \<open>One cycle\<close>

text \<open>A step of a cycle changes the loop and may raise; what it had changed stays.\<close>

definition try_step :: "'s \<Rightarrow> 'a res \<Rightarrow> ('a \<Rightarrow> 's \<times> 'b res) \<Rightarrow> 's \<times> 'b res" where
  "try_step s r f = (case r of Inl e \<Rightarrow> (s, Inl e) | Inr x \<Rightarrow> f x)"

definition advance :: "cycle_state \<Rightarrow> cycle_state list \<Rightarrow> cycle_state res" where
  "advance sm ts = table_run cycle_step sm ts"

definition new_result :: "cycle_env \<Rightarrow> auto_config \<Rightarrow> cycle_result" where
  "new_result v c = \<lparr>cr_id = ce_id v, cr_symbol = cycle_symbol v c, cr_state = CYCLE_STARTED, cr_executed = False,
     cr_reason = None, cr_key = None, cr_execution = None, cr_error = None\<rparr>"

definition executed_cycle ::
  "'m auto_lib \<Rightarrow> cycle_env \<Rightarrow> string \<Rightarrow> pyfloat \<Rightarrow> string \<Rightarrow> engine_result \<Rightarrow> cycle_state \<Rightarrow> 'm auto_loop
   \<Rightarrow> 'm auto_loop \<times> cycle_result res" where
  "executed_cycle lib v sy px key er sm l =
     try_step l (advance sm [RISK_APPROVED, ORDER_SUBMITTED, ORDER_FILLED, POSITION_UPDATED]) (\<lambda>sm1.
       let l1 = l\<lparr>al_seen := List.insert key (al_seen l)\<rparr>;
           l2 = l1\<lparr>al_learner := on_trade_close (lb_ml lib) (lb_ids lib) (cycle_trade v (al_config l) sy px) (al_learner l1)\<rparr>
       in try_step l2 (advance sm1 [CYCLE_COMPLETED]) (\<lambda>sm2.
            (l2, Inr ((new_result v (al_config l))\<lparr>cr_state := sm2, cr_executed := True, cr_key := Some key,
                        cr_execution := Some er\<rparr>))))"

definition rejected_cycle ::
  "cycle_env \<Rightarrow> string \<Rightarrow> engine_result \<Rightarrow> cycle_state \<Rightarrow> 'm auto_loop \<Rightarrow> 'm auto_loop \<times> cycle_result res" where
  "rejected_cycle v key er sm l =
     try_step l (advance sm [RISK_REJECTED, CYCLE_COMPLETED]) (\<lambda>sm1.
       (l, Inr ((new_result v (al_config l))\<lparr>cr_state := sm1, cr_reason := Some ''RISK_REJECTED'', cr_key := Some key,
                  cr_execution := Some er\<rparr>)))"

definition skipped_cycle ::
  "cycle_env \<Rightarrow> string \<Rightarrow> string option \<Rightarrow> cycle_state \<Rightarrow> 'm auto_loop \<Rightarrow> 'm auto_loop \<times> cycle_result res" where
  "skipped_cycle v reason key sm l =
     try_step l (advance sm [CYCLE_COMPLETED]) (\<lambda>sm1.
       (l, Inr ((new_result v (al_config l))\<lparr>cr_state := sm1, cr_reason := Some reason, cr_key := key\<rparr>)))"

definition trade_cycle ::
  "'m auto_lib \<Rightarrow> cycle_env \<Rightarrow> string \<Rightarrow> pyfloat \<Rightarrow> string \<Rightarrow> cycle_state \<Rightarrow> 'm auto_loop \<Rightarrow> 'm auto_loop \<times> cycle_result res" where
  "trade_cycle lib v sy px key sm l =
     try_step l (advance sm [RISK_VALIDATING]) (\<lambda>sm1.
       case engine_start (ce_stop_start v) (al_paper l) of (en, started) \<Rightarrow>
         let l1 = l\<lparr>al_paper := en\<rparr> in try_step l1 started (\<lambda>_.
           case execute_approved_plan (lb_h16 lib) (lb_f10 lib) (lb_half_power lib) (lb_f3 lib) (ce_stop_execute v)
                  (ce_run_id v) (cycle_plan (al_config l) sy px) px ''CRYPTO'' [] False (al_paper l1) of
             (en2, out) \<Rightarrow>
               let l2 = l1\<lparr>al_paper := en2\<rparr> in try_step l2 out (\<lambda>er.
                 if er_executed er then executed_cycle lib v sy px key er sm1 l2
                 else rejected_cycle v key er sm1 l2)))"

definition cycle_body :: "'m auto_lib \<Rightarrow> cycle_env \<Rightarrow> 'm auto_loop \<Rightarrow> 'm auto_loop \<times> cycle_result res" where
  "cycle_body lib v l =
     (let c = al_config l; sy = cycle_symbol v c in
      try_step l (advance CYCLE_STARTED [MARKET_DATA_READY]) (\<lambda>sm.
        case gateway_snapshot (ce_now v) (ce_market v sy (ac_timeframe c)) (al_gateway l) of (g, out) \<Rightarrow>
          let l1 = l\<lparr>al_gateway := g\<rparr> in try_step l1 out (\<lambda>snap.
            if \<not> allows_new_trade g snap then skipped_cycle v ''STALE_OR_UNAVAILABLE_MARKET_DATA'' None sm l1
            else try_step l1 (advance sm [ANALYSIS_RUNNING, CONSENSUS_READY, TRADE_PROPOSED]) (\<lambda>sm1.
              let key = cycle_key lib v c in
              if already_seen (al_seen l1) key then skipped_cycle v ''DUPLICATE_CYCLE_IDEMPOTENCY'' (Some key) sm1 l1
              else trade_cycle lib v sy (cycle_price v snap) key sm1 l1))))"

definition end_cycle :: "cycle_result \<Rightarrow> 'm auto_loop \<Rightarrow> 'm auto_loop" where
  "end_cycle r l = persist_state (l\<lparr>al_last := Some r, al_cycles := al_cycles l + 1\<rparr>)"

definition failed_result :: "cycle_env \<Rightarrow> auto_config \<Rightarrow> py_error \<Rightarrow> cycle_result" where
  "failed_result v c e = (new_result v c)\<lparr>cr_state := CYCLE_FAILED, cr_error := Some e\<rparr>"

text \<open>Only the paper-mode check is outside the \<open>try\<close>; any other exception ends the cycle as failed.\<close>

definition run_once :: "'m auto_lib \<Rightarrow> cycle_env \<Rightarrow> 'm auto_loop \<Rightarrow> 'm auto_loop \<times> cycle_result res" where
  "run_once lib v l = try_step l (assert_paper_only l) (\<lambda>_.
     case cycle_body lib v l of (l1, out) \<Rightarrow>
       (let r = (case out of Inl e \<Rightarrow> failed_result v (al_config l) e | Inr r \<Rightarrow> r)
        in (end_cycle r l1, Inr r)))"

section \<open>The loop\<close>

text \<open>
  \<open>stops n\<close>: whether the stop event is set at the head of the loop after \<open>n\<close> cycles, and whether it is set during the
  wait that follows.  A loop without a limit that is never stopped does not return.
\<close>

partial_function (option) cycle_loop ::
  "'m auto_lib \<Rightarrow> (nat \<Rightarrow> cycle_env) \<Rightarrow> (nat \<Rightarrow> bool \<times> bool) \<Rightarrow> int \<Rightarrow> nat \<Rightarrow> 'm auto_loop \<Rightarrow> ('m auto_loop \<times> unit res) option" where
  "cycle_loop lib envs stops limit n l =
     (if fst (stops n) then Some (l, Inr ())
      else case run_once lib (envs n) l of
             (l1, Inl e) \<Rightarrow> Some (l1, Inl e)
           | (l1, Inr _) \<Rightarrow>
               if limit \<noteq> 0 \<and> limit \<le> int (n + 1) then Some (l1, Inr ())
               else if snd (stops n) then Some (l1, Inr ())
               else cycle_loop lib envs stops limit (n + 1) l1)"

definition finish_loop :: "'m auto_loop \<Rightarrow> 'm auto_loop" where
  "finish_loop l = persist_state (l\<lparr>al_running := False\<rparr>)"

text \<open>\<open>start(background=False)\<close>; a background start runs the same loop on a thread.\<close>

definition auto_start ::
  "'m auto_lib \<Rightarrow> (nat \<Rightarrow> cycle_env) \<Rightarrow> (nat \<Rightarrow> bool \<times> bool) \<Rightarrow> string option \<Rightarrow> int option \<Rightarrow> 'm auto_loop
   \<Rightarrow> ('m auto_loop \<times> bool res) option" where
  "auto_start lib envs stops stop_file max_cycles l =
     (case assert_paper_only l of Inl e \<Rightarrow> Some (l, Inl e)
      | Inr _ \<Rightarrow>
          if al_running l then Some (l, Inr False)
          else (case engine_start stop_file (al_paper l) of
                  (en, Inl e) \<Rightarrow> Some (l\<lparr>al_running := True, al_paper := en\<rparr>, Inl e)
                | (en, Inr _) \<Rightarrow>
                    (case cycle_loop lib envs stops (opt_default max_cycles (ac_max_cycles (al_config l))) 0
                            (l\<lparr>al_running := True, al_paper := en\<rparr>) of
                       None \<Rightarrow> None
                     | Some (l1, Inl e) \<Rightarrow> Some (finish_loop l1, Inl e)
                     | Some (l1, Inr _) \<Rightarrow> Some (finish_loop l1, Inr True))))"

definition auto_stop :: "'m auto_loop \<Rightarrow> 'm auto_loop" where
  "auto_stop l = finish_loop l"

section \<open>Every cycle ends\<close>

lemma try_step_simps [simp]:
  "try_step s (Inl e) f = (s, Inl e)" "try_step s (Inr x) f = f x"
  by (simp_all add: try_step_def)

lemma advance_final:
  assumes "advance sm ts = Inr CYCLE_COMPLETED"
  shows "reach_by cycle_step sm CYCLE_COMPLETED"
  using assms by (auto simp: advance_def intro: table_run_reach)

lemma advance_completed: "advance sm (ts @ [CYCLE_COMPLETED]) = Inr s \<Longrightarrow> s = CYCLE_COMPLETED"
  unfolding advance_def by (rule cycles.run_last)

lemma path_starts [simp]:
  "advance CYCLE_STARTED [MARKET_DATA_READY] = Inr MARKET_DATA_READY"
  "advance MARKET_DATA_READY [CYCLE_COMPLETED] = Inr CYCLE_COMPLETED"
  "advance MARKET_DATA_READY [ANALYSIS_RUNNING, CONSENSUS_READY, TRADE_PROPOSED] = Inr TRADE_PROPOSED"
  "advance TRADE_PROPOSED [CYCLE_COMPLETED] = Inr CYCLE_COMPLETED"
  "advance TRADE_PROPOSED [RISK_VALIDATING] = Inr RISK_VALIDATING"
  "advance RISK_VALIDATING [RISK_APPROVED, ORDER_SUBMITTED, ORDER_FILLED, POSITION_UPDATED] = Inr POSITION_UPDATED"
  "advance POSITION_UPDATED [CYCLE_COMPLETED] = Inr CYCLE_COMPLETED"
  "advance RISK_VALIDATING [RISK_REJECTED, CYCLE_COMPLETED] = Inr CYCLE_COMPLETED"
  by (simp_all add: advance_def cycle_step_def table_transition_def)

lemmas cycle_defs = cycle_body_def trade_cycle_def executed_cycle_def rejected_cycle_def skipped_cycle_def

lemma cycle_ends:
  "cycle_body lib v l = (l1, Inr r) \<Longrightarrow> cr_state r = CYCLE_COMPLETED"
  by (auto simp: cycle_defs Let_def try_step_def split: prod.splits sum.splits if_splits)

lemma cycle_keeps:
  assumes "cycle_body lib v l = (l1, out)"
  shows "al_config l1 = al_config l" "al_settings l1 = al_settings l" "al_cycles l1 = al_cycles l" "al_running l1 = al_running l"
  using assms
  by (auto simp: cycle_defs Let_def try_step_def split: prod.splits sum.splits if_splits)

lemma persist_keeps [simp]:
  "al_config (persist_state l) = al_config l" "al_settings (persist_state l) = al_settings l"
  "al_cycles (persist_state l) = al_cycles l" "al_running (persist_state l) = al_running l"
  "al_seen (persist_state l) = al_seen l" "al_last (persist_state l) = al_last l" "al_paper (persist_state l) = al_paper l"
  "al_learner (persist_state l) = al_learner l"
  by (simp_all add: persist_state_def)

lemma end_cycle_keeps [simp]:
  "al_config (end_cycle r l) = al_config l" "al_settings (end_cycle r l) = al_settings l"
  "al_cycles (end_cycle r l) = al_cycles l + 1" "al_running (end_cycle r l) = al_running l"
  "al_seen (end_cycle r l) = al_seen l" "al_last (end_cycle r l) = Some r" "al_paper (end_cycle r l) = al_paper l"
  by (simp_all add: end_cycle_def)

lemma run_once_ok:
  assumes "assert_paper_only l = Inr ()"
  shows "\<exists>l1 out. cycle_body lib v l = (l1, out)
     \<and> run_once lib v l = (end_cycle (case out of Inl e \<Rightarrow> failed_result v (al_config l) e | Inr r \<Rightarrow> r) l1,
                           Inr (case out of Inl e \<Rightarrow> failed_result v (al_config l) e | Inr r \<Rightarrow> r))"
  using assms by (cases "cycle_body lib v l") (simp add: run_once_def Let_def)

lemma cycle_always_ends_lemma:
  assumes "assert_paper_only l = Inr ()"
  shows "\<exists>l' r. run_once lib v l = (l', Inr r) \<and> cycle_rank (cr_state r) = 11
     \<and> al_last l' = Some r \<and> al_cycles l' = al_cycles l + 1"
proof -
  obtain l1 out where body: "cycle_body lib v l = (l1, out)"
    and run: "run_once lib v l = (end_cycle (case out of Inl e \<Rightarrow> failed_result v (al_config l) e | Inr r \<Rightarrow> r) l1,
                           Inr (case out of Inl e \<Rightarrow> failed_result v (al_config l) e | Inr r \<Rightarrow> r))"
    using run_once_ok [OF assms, of lib v] by blast
  have "cycle_rank (cr_state (case out of Inl e \<Rightarrow> failed_result v (al_config l) e | Inr r \<Rightarrow> r)) = 11"
    using cycle_ends [of lib v l l1] body by (auto simp: failed_result_def split: sum.split)
  with run cycle_keeps [OF body] show ?thesis by simp
qed

text \<open>Every cycle of a paper-mode loop ends, whatever the provider, the engine or the venue do: it returns a result in
  one of the two final states, which is also the loop's last cycle, and it is counted exactly once.\<close>
theorem cycle_always_ends:
  assumes "assert_paper_only l = Inr ()"
  shows "\<exists>l' r. run_once lib v l = (l', Inr r) \<and> cycle_rank (cr_state r) = 11
     \<and> al_last l' = Some r \<and> al_cycles l' = al_cycles l + 1"
  by (rule cycle_always_ends_lemma [OF assms])

section \<open>One trade per key\<close>

lemma cycle_seen:
  assumes "cycle_body lib v l = (l1, out)"
  shows "(al_seen l1 = al_seen l \<and> (\<forall>r. out = Inr r \<longrightarrow> \<not> cr_executed r))
     \<or> (cycle_key lib v (al_config l) \<notin> set (al_seen l) \<and> al_seen l1 = cycle_key lib v (al_config l) # al_seen l
        \<and> (\<exists>r. out = Inr r \<and> cr_executed r \<and> cr_key r = Some (cycle_key lib v (al_config l))))"
  using assms
  by (auto simp: cycle_defs Let_def try_step_def new_result_def already_seen_def List.insert_def
      split: prod.splits sum.splits if_splits)

text \<open>A run of the loop: what each cycle answered.\<close>

fun run_cycles :: "'m auto_lib \<Rightarrow> cycle_env list \<Rightarrow> 'm auto_loop \<Rightarrow> 'm auto_loop \<times> cycle_result res list" where
  "run_cycles lib [] l = (l, [])"
| "run_cycles lib (v # vs) l = (case run_once lib v l of (l1, r) \<Rightarrow>
     (case run_cycles lib vs l1 of (l2, rs) \<Rightarrow> (l2, r # rs)))"

definition executed_keys :: "cycle_result res list \<Rightarrow> string list" where
  "executed_keys rs = List.map_filter (\<lambda>r. case r of Inl _ \<Rightarrow> None | Inr x \<Rightarrow> if cr_executed x then cr_key x else None) rs"

lemma executed_keys_Cons:
  "executed_keys (r # rs) = (case r of Inr x \<Rightarrow> if cr_executed x \<and> cr_key x \<noteq> None then the (cr_key x) # executed_keys rs else executed_keys rs
     | Inl _ \<Rightarrow> executed_keys rs)"
  by (auto simp: executed_keys_def List.map_filter_simps split: sum.split option.split)

lemma run_once_seen:
  assumes "run_once lib v l = (l1, r)"
  shows "(al_seen l1 = al_seen l \<and> executed_keys [r] = [])
     \<or> (\<exists>k. k \<notin> set (al_seen l) \<and> al_seen l1 = k # al_seen l \<and> executed_keys [r] = [k])"
proof (cases "assert_paper_only l")
  case (Inl e)
  with assms show ?thesis by (auto simp: run_once_def executed_keys_def List.map_filter_simps)
next
  case (Inr u)
  then obtain l2 out where body: "cycle_body lib v l = (l2, out)"
    and run: "run_once lib v l = (end_cycle (case out of Inl e \<Rightarrow> failed_result v (al_config l) e | Inr r \<Rightarrow> r) l2,
                           Inr (case out of Inl e \<Rightarrow> failed_result v (al_config l) e | Inr r \<Rightarrow> r))"
    using run_once_ok [of l lib v] by fastforce
  from cycle_seen [OF body] assms run show ?thesis
    by (cases out) (auto simp: executed_keys_def List.map_filter_simps failed_result_def new_result_def)
qed

lemma run_cycles_seen:
  assumes "run_cycles lib vs l = (l1, rs)"
  shows "distinct (executed_keys rs) \<and> set (executed_keys rs) \<inter> set (al_seen l) = {}
     \<and> set (al_seen l1) = set (executed_keys rs) \<union> set (al_seen l)"
  using assms
proof (induction vs arbitrary: l l1 rs)
  case Nil
  then show ?case by (simp add: executed_keys_def List.map_filter_simps)
next
  case (Cons v vs)
  obtain l2 r where step: "run_once lib v l = (l2, r)" by force
  obtain l3 rs' where rest: "run_cycles lib vs l2 = (l3, rs')" by force
  from Cons.prems step rest have eq: "l1 = l3" "rs = r # rs'" by simp_all
  have keys: "executed_keys (r # rs') = executed_keys [r] @ executed_keys rs'"
    by (auto simp: executed_keys_def List.map_filter_def)
  from Cons.IH [OF rest] run_once_seen [OF step] show ?case
    unfolding eq keys by auto
qed

text \<open>The loop trades at most once per idempotency key: over any sequence of cycles the keys of the cycles that
  executed a trade are pairwise different, none of them was recorded before, and all of them are recorded
  afterwards.\<close>
theorem one_trade_per_key:
  "distinct (executed_keys (snd (run_cycles lib vs l)))
   \<and> set (executed_keys (snd (run_cycles lib vs l))) \<inter> set (al_seen l) = {}
   \<and> set (al_seen (fst (run_cycles lib vs l))) = set (executed_keys (snd (run_cycles lib vs l))) \<union> set (al_seen l)"
  by (rule run_cycles_seen) simp

section \<open>The loop returns\<close>

lemma run_once_keeps:
  assumes "run_once lib v l = (l1, r)"
  shows "al_config l1 = al_config l \<and> al_settings l1 = al_settings l \<and> al_running l1 = al_running l"
  using assms cycle_keeps [of lib v l]
  by (auto simp: run_once_def try_step_def Let_def split: sum.splits prod.splits)

lemma assert_paper_only_iff: "assert_paper_only l = Inr () \<longleftrightarrow> paper_only (al_settings l) \<and> \<not> ac_live_enabled (al_config l)"
  by (simp add: assert_paper_only_def)

lemma stop_file_settings [simp]: "en_settings (check_stop_file stop e) = en_settings e"
  by (simp add: check_stop_file_def save_event_def split: option.split)

lemma engine_starts: "paper_only (en_settings e) \<Longrightarrow> \<exists>e' b. engine_start stop e = (e', Inr b)"
  by (auto simp: engine_start_def Let_def)

lemma loop_returns:
  assumes "assert_paper_only l = Inr ()" "n < N"
  shows "\<exists>l'. cycle_loop lib envs stops (int N) n l = Some (l', Inr ())
     \<and> al_cycles l' \<le> al_cycles l + (N - n)
     \<and> ((\<forall>i. stops i = (False, False)) \<longrightarrow> al_cycles l' = al_cycles l + (N - n))"
  using assms
proof (induction "N - n" arbitrary: n l)
  case (Suc k)
  obtain l1 r where run: "run_once lib (envs n) l = (l1, Inr r)" and cycles: "al_cycles l1 = al_cycles l + 1"
    using cycle_always_ends_lemma [OF Suc.prems(1), of lib "envs n"] by blast
  have paper: "assert_paper_only l1 = Inr ()"
    using run_once_keeps [OF run] Suc.prems(1) by (simp add: assert_paper_only_iff)
  show ?case
  proof (cases "fst (stops n) \<or> N \<le> n + 1 \<or> snd (stops n)")
    case True
    with run cycles Suc.prems(2) show ?thesis
      by (subst cycle_loop.simps) (auto simp: of_nat_Suc [symmetric] simp del: of_nat_Suc)
  next
    case False
    with Suc have "k = N - (n + 1)" "n + 1 < N" by auto
    from Suc.hyps(1) [OF this(1) paper this(2)] obtain l2
      where "cycle_loop lib envs stops (int N) (n + 1) l1 = Some (l2, Inr ())"
        "al_cycles l2 \<le> al_cycles l1 + (N - (n + 1))"
        "(\<forall>i. stops i = (False, False)) \<longrightarrow> al_cycles l2 = al_cycles l1 + (N - (n + 1))" by blast
    with False run cycles show ?thesis
      by (subst cycle_loop.simps) auto
  qed
qed simp

text \<open>A loop started in paper mode with a limit of \<open>N\<close> cycles comes back: whenever it is stopped it has run at most
  \<open>N\<close> cycles, and exactly \<open>N\<close> if nobody stops it, and it leaves the loop marked as not running.\<close>
theorem limited_loop_returns:
  assumes "assert_paper_only l = Inr ()" and "\<not> al_running l" and "paper_only (en_settings (al_paper l))" and "0 < N"
  shows "\<exists>l'. auto_start lib envs stops stop_file (Some (int N)) l = Some (l', Inr True) \<and> \<not> al_running l'
     \<and> al_cycles l' \<le> al_cycles l + N
     \<and> (range stops = {(False, False)} \<longrightarrow> al_cycles l' = al_cycles l + N)"
proof -
  obtain en b where start: "engine_start stop_file (al_paper l) = (en, Inr b)"
    using engine_starts [OF assms(3)] by blast
  let ?l = "l\<lparr>al_running := True, al_paper := en\<rparr>"
  have "assert_paper_only ?l = Inr ()" using assms(1) by (simp add: assert_paper_only_iff)
  from loop_returns [OF this assms(4), of lib envs stops] obtain l1
    where loop: "cycle_loop lib envs stops (int N) 0 ?l = Some (l1, Inr ())"
      and bound: "al_cycles l1 \<le> al_cycles l + N" "(\<forall>i. stops i = (False, False)) \<longrightarrow> al_cycles l1 = al_cycles l + N"
    by auto
  have "auto_start lib envs stops stop_file (Some (int N)) l = Some (finish_loop l1, Inr True)"
    using assms(1,2) start loop by (simp add: auto_start_def opt_default_def)
  moreover have "\<not> al_running (finish_loop l1)" "al_cycles (finish_loop l1) = al_cycles l1"
    by (simp_all add: finish_loop_def)
  moreover have "range stops = {(False, False)} \<longrightarrow> (\<forall>i. stops i = (False, False))" by auto
  ultimately show ?thesis using bound by auto
qed

section \<open>What a cycle may trade on\<close>

lemma allows_after_snapshot:
  "gateway_snapshot now r g = (g1, out) \<Longrightarrow> allows_new_trade g1 s = allows_new_trade g s"
  by (auto simp: gateway_snapshot_def allows_new_trade_def split: sum.splits)

lemma engine_start_keeps:
  assumes "engine_start stop e = (e1, r)"
  shows "trading_record e1 = trading_record e" "ks_active (en_kill e) \<or> stop \<noteq> None \<Longrightarrow> ks_active (en_kill e1)"
proof -
  have "fst (engine_start stop e) = e1" using assms by simp
  then have e1: "e1 = check_stop_file stop e \<or> e1 = fst (engine_snapshot (check_stop_file stop e\<lparr>en_running := False\<rparr>))
      \<or> e1 = fst (engine_snapshot (check_stop_file stop e\<lparr>en_running := True, en_session := (en_session (check_stop_file stop e))\<lparr>ss_status := ACTIVE\<rparr>\<rparr>))"
    by (auto simp: engine_start_def Let_def split: if_splits)
  have rec: "trading_record (f\<lparr>en_running := b\<rparr>) = trading_record f" "trading_record (f\<lparr>en_session := ss\<rparr>) = trading_record f" for f b ss
    by (simp_all add: trading_record_def)
  from e1 show "trading_record e1 = trading_record e" by (auto simp: rec)
  have "ks_active (en_kill e) \<or> stop \<noteq> None \<Longrightarrow> ks_active (en_kill (check_stop_file stop e))"
    by (auto simp: stop_file_kills check_stop_file_def save_event_def ks_activate_def split: option.split)
  with e1 show "ks_active (en_kill e) \<or> stop \<noteq> None \<Longrightarrow> ks_active (en_kill e1)" by auto
qed

lemma killed_plan:
  assumes "execute_approved_plan h16 f10 hp f3 stop run_id p price asset rets stale e = (e1, r)"
    and "ks_active (en_kill e) \<or> stop \<noteq> None"
  shows "trading_record e1 = trading_record e"
proof -
  have "ks_active (en_kill (check_stop_file stop e))"
    using assms(2) by (auto simp: stop_file_kills check_stop_file_def save_event_def ks_activate_def split: option.split)
  with assms(1) have "e1 = check_stop_file stop e" by (auto simp: execute_approved_plan_def Let_def split: if_splits)
  then show ?thesis by simp
qed

lemma trade_cycle_trades:
  assumes "trade_cycle lib v sy px key sm l = (l1, out)" and "trading_record (al_paper l1) \<noteq> trading_record (al_paper l)"
  shows "\<not> ks_active (en_kill (al_paper l)) \<and> ce_stop_start v = None \<and> ce_stop_execute v = None"
proof -
  obtain en started where start: "engine_start (ce_stop_start v) (al_paper l) = (en, started)" by force
  note same = engine_start_keeps [OF start]
  obtain en2 res where exec: "execute_approved_plan (lb_h16 lib) (lb_f10 lib) (lb_half_power lib) (lb_f3 lib) (ce_stop_execute v)
      (ce_run_id v) (cycle_plan (al_config l) sy px) px ''CRYPTO'' [] False en = (en2, res)" by force
  have "trading_record en2 \<noteq> trading_record en"
    using assms start exec same(1)
    by (auto simp: trade_cycle_def executed_cycle_def rejected_cycle_def try_step_def Let_def split: sum.splits if_splits)
  with killed_plan [OF exec] have "\<not> ks_active (en_kill en) \<and> ce_stop_execute v = None" by blast
  with same(2) show ?thesis by blast
qed

text \<open>C7: A cycle touches the trading record (orders, fills, trades, cash) only when every guard of the loop is open:
  the process is in paper mode, the provider's snapshot is one the gateway admits, the idempotency key was not used
  before, no STOP file is there and the kill switch is off.\<close>
theorem cycle_trades_only_when_open:
  assumes "run_once lib v l = (l', r)" and "trading_record (al_paper l') \<noteq> trading_record (al_paper l)"
  shows "assert_paper_only l = Inr ()
     \<and> (\<exists>s. ce_market v (cycle_symbol v (al_config l)) (ac_timeframe (al_config l)) = Inr s \<and> allows_new_trade (al_gateway l) s)
     \<and> cycle_key lib v (al_config l) \<notin> set (al_seen l)
     \<and> ce_stop_start v = None \<and> ce_stop_execute v = None \<and> \<not> ks_active (en_kill (al_paper l))"
proof -
  let ?sy = "cycle_symbol v (al_config l)"
  from assms have paper: "assert_paper_only l = Inr ()"
    by (cases "assert_paper_only l") (auto simp: run_once_def)
  obtain l1 out where body: "cycle_body lib v l = (l1, out)" by force
  with assms(1) paper have rec: "trading_record (al_paper l1) \<noteq> trading_record (al_paper l)"
    using assms(2) by (auto simp: run_once_def Let_def)
  obtain g reply where snap: "gateway_snapshot (ce_now v) (ce_market v ?sy (ac_timeframe (al_config l))) (al_gateway l) = (g, reply)"
    by force
  let ?l = "l\<lparr>al_gateway := g\<rparr>"
  from body rec snap obtain s where s: "reply = Inr s" "allows_new_trade g s" "cycle_key lib v (al_config l) \<notin> set (al_seen l)"
    and trade: "trade_cycle lib v ?sy (cycle_price v s) (cycle_key lib v (al_config l)) TRADE_PROPOSED ?l = (l1, out)"
    by (auto simp: cycle_body_def skipped_cycle_def already_seen_def Let_def try_step_def split: sum.splits if_splits)
  have "ce_market v ?sy (ac_timeframe (al_config l)) = Inr s"
    using snap s(1) by (auto simp: gateway_snapshot_def split: sum.splits)
  moreover have "allows_new_trade (al_gateway l) s" using s(2) allows_after_snapshot [OF snap] by simp
  moreover have "\<not> ks_active (en_kill (al_paper l)) \<and> ce_stop_start v = None \<and> ce_stop_execute v = None"
    using trade_cycle_trades [OF trade] rec by simp
  ultimately show ?thesis using paper s(3) by blast
qed

section \<open>A concrete loop\<close>

definition demo_config :: auto_config where
  "demo_config = \<lparr>ac_live_enabled = False, ac_symbols = [], ac_timeframe = ''1h'', ac_strategy_id = ''s'',
     ac_duplicate_protection = True, ac_persist = True, ac_max_cycles = 0\<rparr>"

definition rejecting_engine :: paper_engine where
  "rejecting_engine = demo_engine\<lparr>en_exchange := (en_exchange demo_engine)\<lparr>ex_failure_mode := Some ''rejected_order''\<rparr>\<rparr>"

definition demo_learner :: "unit learner" where
  "demo_learner = \<lparr>ln_config = default_learning, ln_memory = [], ln_calibration = new_calibration, ln_drift = new_drift,
     ln_registry = new_registry, ln_proposals = [], ln_last_trained = 0, ln_models = [], ln_rollbacks = [], ln_audit = [],
     ln_reflections = [], ln_post_mortems = [], ln_trades = 0, ln_kelly = Fin (1 / 4)\<rparr>"

definition demo_loop :: "unit auto_loop" where
  "demo_loop = \<lparr>al_config = demo_config, al_settings = \<lparr>se_trading_mode = ''paper'', se_live_enabled = False\<rparr>,
     al_paper = rejecting_engine, al_gateway = demo_gateway, al_learner = demo_learner, al_running = False, al_cycles = 0,
     al_last = None, al_seen = [], al_disk = None\<rparr>"

definition demo_auto_lib :: "unit auto_lib" where
  "demo_auto_lib = \<lparr>lb_sha24 = id, lb_h16 = id, lb_f10 = \<lambda>_. [], lb_half_power = id, lb_f3 = \<lambda>_. [], lb_ml = demo_ml,
     lb_ids = dec_digits\<rparr>"

definition demo_env :: cycle_env where
  "demo_env = \<lparr>ce_id = ''CYC-1'', ce_run_id = ''r'', ce_bucket = ''202601010000'', ce_now = 0,
     ce_market = \<lambda>_ _. Inr demo_snapshot, ce_stop_start = None, ce_stop_execute = None, ce_symbol = None,
     ce_price = Some (Fin 100)\<rparr>"

lemma demo_paper: "assert_paper_only demo_loop = Inr ()"
  by (simp add: assert_paper_only_iff demo_loop_def demo_config_def paper_only_def)

lemma cycle_always_ends_witness:
  "\<exists>l' r. run_once demo_auto_lib demo_env demo_loop = (l', Inr r) \<and> cycle_rank (cr_state r) = 11
     \<and> al_last l' = Some r \<and> al_cycles l' = al_cycles demo_loop + 1"
  by (rule cycle_always_ends [OF demo_paper])

lemma limited_loop_returns_witness:
  "\<exists>l'. auto_start demo_auto_lib (\<lambda>_. demo_env) (\<lambda>_. (False, False)) None (Some (int 3)) demo_loop = Some (l', Inr True)
     \<and> \<not> al_running l' \<and> al_cycles l' \<le> al_cycles demo_loop + 3
     \<and> (range (\<lambda>_ :: nat. (False, False)) = {(False, False)} \<longrightarrow> al_cycles l' = al_cycles demo_loop + 3)"
  by (rule limited_loop_returns [OF demo_paper])
    (simp_all add: demo_loop_def rejecting_engine_def demo_engine_def paper_only_def)

abbreviation demo_cycle_plan :: trade_plan where
  "demo_cycle_plan \<equiv> cycle_plan demo_config ''BTC/USD'' (Fin 100)"

lemma rejecting_snapshot:
  "engine_snapshot rejecting_engine = (rejecting_engine, snd (engine_snapshot rejecting_engine))"
  "risk_snapshot_of rejecting_engine (snd (engine_snapshot rejecting_engine)) = demo_account"
  by (simp_all add: rejecting_engine_def engine_snapshot_def demo_engine_def new_exchange_def default_config_def opt_default_def
      new_portfolio_def Portfolio.snapshot_def mark_all_def dict_build_def drawdown_of_def risk_snapshot_of_def demo_account_def
      ks_initial_def Let_def fl_eval)

lemma demo_cycle_risk:
  "rd_approved (plan_risk rejecting_engine (snd (engine_snapshot rejecting_engine)) demo_cycle_plan (Fin 100))"
proof -
  let ?l = "merge_effective_limits default_limits None None"
  let ?p = "to_proposal demo_cycle_plan (Fin 100) (Some (Fin 1000000)) False (Some 100)"
  have l: "?l = base_limits default_limits None" by (simp add: merge_none)
  have "stop_reasons ?l ?p = []" "reward_reasons ?l ?p = []" "size_reasons ?l ?p demo_account = []"
    "account_reasons ?l ?p demo_account = []" "quality_reasons ?l ?p demo_account = []"
    by (simp_all add: l stop_reasons_def reward_reasons_def size_reasons_def account_reasons_def quality_reasons_def
        base_limits_def default_limits_def to_proposal_def cycle_plan_def cycle_quantity_def demo_config_def demo_account_def
        equity_floor_def tol9_def long_order_side_def short_order_side_def demo_sides Let_def fl_eval)
  moreover have "flag_if (\<not> pair_allowed (tp_symbol ?p) (el_allowed_pairs ?l)) PAIR_NOT_ALLOWED = []"
    by (simp add: l base_limits_def default_limits_def pair_allowed_def flag_if_def)
  moreover have "tp_quantity ?p = Fin 1" "tp_notional ?p = Fin 100" "tp_entry_price ?p = Fin 100" "\<not> tp_market_data_stale ?p"
    by (simp_all add: to_proposal_def cycle_plan_def cycle_quantity_def fl_eval)
  moreover have "\<not> rs_kill_switch_active demo_account" "\<not> rs_trading_halted demo_account"
    by (simp_all add: demo_account_def)
  ultimately have "risk_reasons False ?l None False ?p demo_account default_context = [STRATEGY_DATA_UNAVAILABLE]"
    by (simp add: risk_reasons_def memory_reasons_def default_context_def flag_if_def)
  then show ?thesis
    by (simp add: plan_risk_def raw_risk_def engine_evaluate_def risk_evaluate_def rejecting_snapshot(2) ignored_codes_def Let_def)
       (simp add: rejecting_engine_def demo_engine_def ks_initial_def new_risk_engine_def)
qed

lemma trade_cycle_paper:
  assumes "engine_start (ce_stop_start v) (al_paper l) = (en, Inr b)"
    and "execute_approved_plan (lb_h16 lib) (lb_f10 lib) (lb_half_power lib) (lb_f3 lib) (ce_stop_execute v)
      (ce_run_id v) (cycle_plan (al_config l) sy px) px ''CRYPTO'' [] False en = (en2, out)"
  shows "al_paper (fst (trade_cycle lib v sy px key TRADE_PROPOSED l)) = en2"
  using assms
  by (simp add: trade_cycle_def executed_cycle_def rejected_cycle_def try_step_def Let_def split: sum.split)

lemma demo_order_stored:
  "\<exists>a. snd (create_order id (\<lambda>_. []) (set_price (en_exchange rejecting_engine) (pl_symbol demo_cycle_plan) (Fin 100))
      (plan_order rejecting_engine ''r'' demo_cycle_plan CRYPTO) (Some (Fin 100))) = Inr a"
  by (simp add: create_order_def admit_order_def rejecting_engine_def demo_engine_def cycle_plan_def plan_order_def
      new_order_def identify_order_def ensure_order_id_def new_exchange_def set_price_def next_seq_def
      remember_client_def opt_default_def rejected_def default_config_def failing_modes_def Let_def)

lemma demo_execution:
  "sv_orders (en_store (fst (execute_approved_plan id (\<lambda>_. []) id (\<lambda>_. []) None ''r'' demo_cycle_plan (Fin 100) ''CRYPTO'' []
      False rejecting_engine))) \<noteq> []"
proof -
  let ?r = "execute_approved_plan id (\<lambda>_. []) id (\<lambda>_. []) None ''r'' demo_cycle_plan (Fin 100) ''CRYPTO'' [] False rejecting_engine"
  obtain a where a: "snd (create_order id (\<lambda>_. []) (set_price (en_exchange rejecting_engine) (pl_symbol demo_cycle_plan) (Fin 100))
      (plan_order rejecting_engine ''r'' demo_cycle_plan CRYPTO) (Some (Fin 100))) = Inr a"
    using demo_order_stored by blast
  have "parse_asset_class ''CRYPTO'' = Inr CRYPTO" by (simp add: parse_asset_class_def asset_class_value_def)
  note stored = submit_plan_stores [OF this a]
  have "resolve_conflict rejecting_engine (pl_symbol demo_cycle_plan) (pl_side demo_cycle_plan) (pl_strategy_id demo_cycle_plan) = Inr ''OK''"
    "\<not> ex_halted (en_exchange rejecting_engine)"
    by (simp_all add: resolve_conflict_def rejecting_engine_def demo_engine_def new_exchange_def new_portfolio_def opt_default_def)
  moreover have "cd_approved (compliance_evaluate (en_settings rejecting_engine) (en_compliance rejecting_engine)
      (Some (pl_strategy_id demo_cycle_plan)) ''CRYPTO'' (pl_notional demo_cycle_plan) (en_daily_turnover rejecting_engine))"
    by (simp add: compliance_approved_iff rejecting_engine_def demo_engine_def cycle_plan_def demo_config_def cycle_quantity_def
        default_compliance_def paper_only_def fl_eval)
  moreover have "paper_only (en_settings rejecting_engine)" "\<not> ks_active (en_kill rejecting_engine)"
    "en_returns rejecting_engine = []" "pl_status demo_cycle_plan = PROPOSED" "\<not> fle (pl_quantity demo_cycle_plan) (Fin 0)"
    by (simp_all add: rejecting_engine_def demo_engine_def cycle_plan_def cycle_quantity_def ks_initial_def paper_only_def)
  moreover obtain sn where sn: "engine_snapshot rejecting_engine = (rejecting_engine, sn)" using rejecting_snapshot(1) by blast
  moreover from sn have "rd_approved (plan_risk rejecting_engine sn demo_cycle_plan (Fin 100))" using demo_cycle_risk by simp
  ultimately have "\<exists>cd rd. ?r = submit_plan id (\<lambda>_. []) ''r'' demo_cycle_plan (Fin 100) ''CRYPTO'' [] cd rd rejecting_engine"
    by (simp add: execute_approved_plan_def compliance_gate_def risk_gate_def Let_def) blast
  with stored show ?thesis by auto
qed

lemma rejecting_starts: "engine_start None rejecting_engine = (rejecting_engine, Inr True)"
proof -
  have "rejecting_engine\<lparr>en_running := True, en_session := (en_session rejecting_engine)\<lparr>ss_status := ACTIVE\<rparr>\<rparr> = rejecting_engine"
    by (simp add: rejecting_engine_def demo_engine_def)
  moreover have "fst (engine_snapshot rejecting_engine) = rejecting_engine" using rejecting_snapshot(1) by (metis fst_conv)
  moreover have "paper_only (en_settings rejecting_engine)" "\<not> ks_active (en_kill rejecting_engine)"
    by (simp_all add: rejecting_engine_def demo_engine_def ks_initial_def paper_only_def)
  ultimately show ?thesis by (simp add: engine_start_def Let_def)
qed

lemma demo_cycle_trades:
  "trading_record (al_paper (fst (run_once demo_auto_lib demo_env demo_loop))) \<noteq> trading_record (al_paper demo_loop)"
proof -
  let ?g = "demo_gateway\<lparr>gw_health := note_ok 0 (gw_health demo_gateway)\<rparr>"
  let ?key = "cycle_key demo_auto_lib demo_env demo_config" and ?l = "demo_loop\<lparr>al_gateway := ?g\<rparr>"
  have sy: "cycle_symbol demo_env demo_config = ''BTC/USD''" and px: "cycle_price demo_env demo_snapshot = Fin 100"
    and env: "ce_market demo_env = (\<lambda>_ _. Inr demo_snapshot)" "ce_now demo_env = 0"
    by (simp_all add: cycle_symbol_def cycle_price_def demo_env_def demo_config_def opt_truthy_def py_upper_def)
  have loop: "al_config demo_loop = demo_config" "al_gateway demo_loop = demo_gateway" "al_seen demo_loop = []"
    by (simp_all add: demo_loop_def)
  have "gateway_snapshot 0 (Inr demo_snapshot) demo_gateway = (?g, Inr demo_snapshot)"
    by (simp add: gateway_snapshot_def demo_snapshot_def opt_truthy_def)
  then have body: "cycle_body demo_auto_lib demo_env demo_loop = trade_cycle demo_auto_lib demo_env ''BTC/USD'' (Fin 100) ?key TRADE_PROPOSED ?l"
    by (simp add: cycle_body_def Let_def sy px env loop demo_admitted(2) already_seen_def)
  obtain en2 out where exec: "execute_approved_plan id (\<lambda>_. []) id (\<lambda>_. []) None ''r'' demo_cycle_plan (Fin 100) ''CRYPTO'' [] False
      rejecting_engine = (en2, out)" by force
  have "al_paper (fst (trade_cycle demo_auto_lib demo_env ''BTC/USD'' (Fin 100) ?key TRADE_PROPOSED ?l)) = en2"
    using exec rejecting_starts
    by (intro trade_cycle_paper [where b = True and out = out]) (simp_all add: demo_env_def demo_loop_def demo_auto_lib_def)
  moreover have "al_paper (fst (run_once demo_auto_lib demo_env demo_loop)) = al_paper (fst (cycle_body demo_auto_lib demo_env demo_loop))"
    using demo_paper by (simp add: run_once_def Let_def split: prod.split)
  moreover have "trading_record en2 \<noteq> trading_record rejecting_engine"
    using demo_execution exec by (auto simp: trading_record_def rejecting_engine_def demo_engine_def)
  ultimately show ?thesis using body by (simp add: demo_loop_def)
qed

lemma cycle_trades_only_when_open_witness:
  "assert_paper_only demo_loop = Inr ()
     \<and> (\<exists>s. ce_market demo_env (cycle_symbol demo_env (al_config demo_loop)) (ac_timeframe (al_config demo_loop)) = Inr s
          \<and> allows_new_trade (al_gateway demo_loop) s)
     \<and> cycle_key demo_auto_lib demo_env (al_config demo_loop) \<notin> set (al_seen demo_loop)
     \<and> ce_stop_start demo_env = None \<and> ce_stop_execute demo_env = None \<and> \<not> ks_active (en_kill (al_paper demo_loop))"
  by (rule cycle_trades_only_when_open [OF prod.collapse [symmetric] demo_cycle_trades])

end
