(* ===== verification/Strategy.thy ===== *)
theory Strategy
  imports Risk "HOL-Library.Char_ord" "HOL-Library.List_Lexorder" "HOL-Library.Product_Lexorder"
begin

text \<open>
  \<open>strategy/schema.py\<close> and \<open>strategy/repository.py\<close>: the strategy configuration and its
  validation, the identifiers derived from a strategy's name, the versioned store of
  strategy records and the agent map of \<open>StrategyKnowledgeService\<close>.  The hash of a
  configuration is a parameter, file and YAML parsing are left to their libraries.
\<close>

section \<open>The configuration\<close>

datatype strategy_status = REFERENCE | CANDIDATE | PAPER | DISABLED

record partial_take_profit =
  pt_enabled :: bool
  pt_exit_percent :: pyfloat

record strategy_breakers =
  sb_max_daily_loss_percent :: pyfloat
  sb_max_trades_per_day :: int
  sb_cooldown_bars :: int
  sb_eod_flat_close :: bool

record strategy_management =
  sm_risk_per_trade_percent :: pyfloat
  sm_min_risk_reward :: pyfloat
  sm_target_risk_reward :: pyfloat
  sm_stop_loss_method :: string
  sm_atr_fallback :: pyfloat
  sm_partial :: partial_take_profit
  sm_breakeven_at_1r :: bool
  sm_breakers :: strategy_breakers

record ema_alignment =
  ea_fast :: int
  ea_slow :: int
  ea_structural :: int
  ea_long_term :: int

record signal_filters =
  sf_adx_length :: int
  sf_adx_min_strength :: pyfloat
  sf_ema :: ema_alignment
  sf_volume_length :: int
  sf_volume_multiplier :: pyfloat

text \<open>A model's rules are a free dictionary; the readers of it take numbers.\<close>

record trading_model =
  tm_model_id :: string
  tm_name :: string
  tm_type :: string
  tm_enabled :: bool
  tm_rules :: "(string \<times> pyfloat) list"

record strategy_metadata =
  me_name :: string
  me_version :: string
  me_description :: string
  me_author :: string
  me_supported_markets :: "string list"
  me_recommended_pairs :: "string list"
  me_execution_timeframe :: string
  me_bias_timeframe :: string

record strategy_config =
  sg_metadata :: strategy_metadata
  sg_management :: strategy_management
  sg_filters :: signal_filters
  sg_models :: "trading_model list"

text \<open>\<open>Field(gt=0)\<close> and its relatives, in the order of the fields.\<close>

definition positive :: "pyfloat \<Rightarrow> bool" where
  "positive x \<longleftrightarrow> flt (Fin 0) x"

definition partial_valid :: "partial_take_profit \<Rightarrow> bool" where
  "partial_valid p \<longleftrightarrow> fle (Fin 0) (pt_exit_percent p) \<and> fle (pt_exit_percent p) (Fin 100)"

definition breakers_valid :: "strategy_breakers \<Rightarrow> bool" where
  "breakers_valid b \<longleftrightarrow> positive (sb_max_daily_loss_percent b) \<and> 0 < sb_max_trades_per_day b \<and> 0 \<le> sb_cooldown_bars b"

definition management_valid :: "strategy_management \<Rightarrow> bool" where
  "management_valid m \<longleftrightarrow> positive (sm_risk_per_trade_percent m) \<and> positive (sm_min_risk_reward m)
     \<and> positive (sm_target_risk_reward m) \<and> positive (sm_atr_fallback m)
     \<and> partial_valid (sm_partial m) \<and> breakers_valid (sm_breakers m)"

definition ema_valid :: "ema_alignment \<Rightarrow> bool" where
  "ema_valid e \<longleftrightarrow> 0 < ea_fast e \<and> 0 < ea_slow e \<and> 0 < ea_structural e \<and> 0 < ea_long_term e"

definition filters_valid :: "signal_filters \<Rightarrow> bool" where
  "filters_valid f \<longleftrightarrow> 0 < sf_adx_length f \<and> positive (sf_adx_min_strength f) \<and> ema_valid (sf_ema f)
     \<and> 0 < sf_volume_length f \<and> positive (sf_volume_multiplier f)"

definition model_id_nonempty :: "trading_model \<Rightarrow> trading_model res" where
  "model_id_nonempty m =
     (let v = py_strip (tm_model_id m)
      in if v = [] then Inl (ValueError ''model_id must be non-empty'') else Inr (m\<lparr>tm_model_id := v\<rparr>))"

definition unique_model_ids :: "trading_model list \<Rightarrow> trading_model list res" where
  "unique_model_ids ms =
     (if length (map tm_model_id ms) \<noteq> card (set (map tm_model_id ms))
      then Inl (ValueError ''trading_models must have unique model_id values'')
      else if ms = [] then Inl (ValueError ''trading_models must not be empty'')
      else Inr ms)"

definition validate_config :: "strategy_config \<Rightarrow> strategy_config res" where
  "validate_config c =
     (if \<not> management_valid (sg_management c) then Inl (ValueError ''risk_management'')
      else if \<not> filters_valid (sg_filters c) then Inl (ValueError ''signal_filters'')
      else bind_res (map_res model_id_nonempty (sg_models c)) (\<lambda>ms.
           bind_res (unique_model_ids ms) (\<lambda>ms'. Inr (c\<lparr>sg_models := ms'\<rparr>))))"

definition enabled_models :: "strategy_config \<Rightarrow> trading_model list" where
  "enabled_models c = filter tm_enabled (sg_models c)"

definition model_by_id :: "strategy_config \<Rightarrow> string \<Rightarrow> trading_model option" where
  "model_by_id c i = find (\<lambda>m. tm_model_id m = i) (sg_models c)"

text \<open>What the risk engine reads of a configuration.\<close>

definition risk_view :: "strategy_config \<Rightarrow> strategy_risk" where
  "risk_view c =
     (let m = sg_management c; b = sm_breakers m
      in \<lparr>st_risk_per_trade_percent = sm_risk_per_trade_percent m,
          st_max_daily_loss_percent = sb_max_daily_loss_percent b, st_max_trades_per_day = sb_max_trades_per_day b,
          st_cooldown_bars = sb_cooldown_bars b, st_min_risk_reward_ratio = sm_min_risk_reward m\<rparr>)"

section \<open>Identifiers\<close>

text \<open>ASCII text: \<open>str.isalnum\<close> holds of letters and digits.\<close>

definition is_alnum :: "char \<Rightarrow> bool" where
  "is_alnum c \<longleftrightarrow> c \<in> set ''abcdefghijklmnopqrstuvwxyzABCDEFGHIJKLMNOPQRSTUVWXYZ0123456789''"

text \<open>\<open>s.replace("__", "_")\<close>: the occurrences from the left that do not overlap.\<close>

fun squeeze :: "string \<Rightarrow> string" where
  "squeeze (a # b # s) = (if a = CHR ''_'' \<and> b = CHR ''_'' then CHR ''_'' # squeeze s else a # squeeze (b # s))"
| "squeeze s = s"

lemma squeeze_shorter: "py_contains ''__'' s \<Longrightarrow> length (squeeze s) < length s"
  and squeeze_length: "length (squeeze s) \<le> length s"
proof -
  show le: "length (squeeze t) \<le> length t" for t
    by (induction t rule: squeeze.induct) auto
  show "py_contains ''__'' s \<Longrightarrow> length (squeeze s) < length s"
  proof (induction s rule: squeeze.induct)
    case (1 a b s)
    then show ?case using le [of s] by (auto simp: py_startswith_def)
  qed (auto simp: py_startswith_def)
qed

text \<open>\<open>while "__" in cleaned: cleaned = cleaned.replace("__", "_")\<close>\<close>

function squeeze_all :: "string \<Rightarrow> string" where
  "squeeze_all s = (if py_contains ''__'' s then squeeze_all (squeeze s) else s)"
  by pat_completeness auto
termination by (relation "measure length") (auto simp: squeeze_shorter)

declare squeeze_all.simps [simp del]

definition strip_underscores :: "string \<Rightarrow> string" where
  "strip_underscores s = rev (dropWhile (\<lambda>c. c = CHR ''_'') (rev (dropWhile (\<lambda>c. c = CHR ''_'') s)))"

definition slugify_strategy_id :: "string \<Rightarrow> string" where
  "slugify_strategy_id name =
     (let cleaned = squeeze_all (map (\<lambda>c. if is_alnum c then char_lower c else CHR ''_'') name);
          slug = strip_underscores cleaned
      in if slug = [] then ''strategy'' else slug)"

section \<open>Records and the store\<close>

record strategy_record =
  sd_strategy_id :: string
  sd_name :: string
  sd_version :: string
  sd_config_hash :: string
  sd_enabled_models :: "string list"
  sd_status :: strategy_status
  sd_source_path :: "string option"
  sd_config :: strategy_config

definition stable_id :: "string \<Rightarrow> string" where
  "stable_id s0 =
     (let s1 = (if py_contains ''po3'' s0 \<and> py_contains ''vwap'' s0 then ''multi_model_po3_vwap'' else s0);
          s2 = (if py_contains ''okf'' s1 \<and> py_contains ''bundle'' s1 then ''okf_crypto_bot_guidelines'' else s1)
      in if py_startswith s2 ''okf_m1'' then ''okf_m1_po3_sweep'' else s2)"

definition build_strategy_record ::
  "(strategy_config \<Rightarrow> string) \<Rightarrow> strategy_config \<Rightarrow> string option \<Rightarrow> strategy_status \<Rightarrow> string option \<Rightarrow> strategy_record" where
  "build_strategy_record hash c sid status path =
     \<lparr>sd_strategy_id = stable_id (if opt_truthy sid then opt_default sid [] else slugify_strategy_id (me_name (sg_metadata c))),
      sd_name = me_name (sg_metadata c), sd_version = me_version (sg_metadata c), sd_config_hash = hash c,
      sd_enabled_models = map tm_model_id (enabled_models c), sd_status = status, sd_source_path = path, sd_config = c\<rparr>"

type_synonym strategy_store = "((string \<times> string) \<times> strategy_record) list"

definition record_key :: "strategy_record \<Rightarrow> string \<times> string" where
  "record_key r = (sd_strategy_id r, sd_version r)"

text \<open>\<open>_load_disk\<close> walks the sorted files; a file that does not validate raises.\<close>

definition load_step ::
  "(strategy_config \<Rightarrow> string) \<Rightarrow> string \<times> strategy_config \<Rightarrow> strategy_store \<Rightarrow> strategy_store res" where
  "load_step hash file st = (case file of (path, c) \<Rightarrow>
     bind_res (validate_config c) (\<lambda>c'.
       let r = build_strategy_record hash c' None REFERENCE (Some path); k = record_key r
       in Inr (if dmem k st then st else dput k r st)))"

definition load_disk ::
  "(strategy_config \<Rightarrow> string) \<Rightarrow> (string \<times> strategy_config) list \<Rightarrow> strategy_store res" where
  "load_disk hash files = fold_res (load_step hash) (sort_key fst files) []"

definition register_strategy :: "strategy_store \<Rightarrow> strategy_record \<Rightarrow> bool \<Rightarrow> strategy_store res" where
  "register_strategy st r overwrite =
     (let k = record_key r
      in case (if overwrite then None else dget st k) of
           Some existing \<Rightarrow>
             if sd_config_hash existing \<noteq> sd_config_hash r
             then Inl (ValueError (''Strategy '' @ sd_strategy_id r @ ''@'' @ sd_version r @
                    '' already registered with a different config hash; refusing overwrite.''))
             else Inr st
         | None \<Rightarrow> Inr (dput k r st))"

definition get_strategy :: "strategy_store \<Rightarrow> string \<Rightarrow> string option \<Rightarrow> strategy_record res" where
  "get_strategy st sid version =
     (case version of
        Some v \<Rightarrow> (case dget st (sid, v) of
            None \<Rightarrow> Inl (KeyError (''Unknown strategy '' @ sid @ ''@'' @ v)) | Some r \<Rightarrow> Inr r)
      | None \<Rightarrow>
          (case rev (sort [snd k. k \<leftarrow> map fst st, fst k = sid]) of
             [] \<Rightarrow> Inl (KeyError (''Unknown strategy '' @ sid))
           | v # _ \<Rightarrow> (case dget st (sid, v) of
               None \<Rightarrow> Inl (KeyError (''Unknown strategy '' @ sid)) | Some r \<Rightarrow> Inr r)))"

definition list_strategies :: "strategy_store \<Rightarrow> strategy_record list" where
  "list_strategies st = sort_key record_key (map snd st)"

definition default_strategy :: "strategy_store \<Rightarrow> strategy_record res" where
  "default_strategy st = get_strategy st ''multi_model_po3_vwap'' (Some ''1.0.0'')"

section \<open>The agent map\<close>

text \<open>The YAML map from a model to its primary agents; an entry of another shape has none.\<close>

type_synonym agent_map = "(string \<times> string list) list"

definition primary_agents_for :: "agent_map \<Rightarrow> string \<Rightarrow> string list" where
  "primary_agents_for m model = opt_default (dget m model) []"

definition models_for_agent :: "agent_map \<Rightarrow> string \<Rightarrow> string list" where
  "models_for_agent m agent = [k. (k, agents) \<leftarrow> m, agent \<in> set agents]"

record model_card =
  mc_model_id :: string
  mc_name :: string
  mc_type :: string
  mc_rules :: "(string \<times> pyfloat) list"
  mc_agents :: "string list"

record knowledge =
  kb_strategy_id :: string
  kb_name :: string
  kb_version :: string
  kb_config_hash :: string
  kb_status :: strategy_status
  kb_metadata :: strategy_metadata
  kb_management :: strategy_management
  kb_filters :: signal_filters
  kb_models :: "model_card list"

definition knowledge_bundle :: "strategy_store \<Rightarrow> agent_map \<Rightarrow> string \<Rightarrow> string option \<Rightarrow> knowledge res" where
  "knowledge_bundle st am sid version =
     bind_res (get_strategy st sid version) (\<lambda>r. let c = sd_config r in Inr
       \<lparr>kb_strategy_id = sd_strategy_id r, kb_name = sd_name r, kb_version = sd_version r,
        kb_config_hash = sd_config_hash r, kb_status = sd_status r, kb_metadata = sg_metadata c,
        kb_management = sg_management c, kb_filters = sg_filters c,
        kb_models = map (\<lambda>m. \<lparr>mc_model_id = tm_model_id m, mc_name = tm_name m, mc_type = tm_type m,
           mc_rules = tm_rules m, mc_agents = primary_agents_for am (tm_model_id m)\<rparr>) (enabled_models c)\<rparr>)"

section \<open>Lemmas on strings\<close>

lemma py_contains_iff: "py_contains p s \<longleftrightarrow> (\<exists>a b. s = a @ p @ b)"
proof (induction s)
  case (Cons c s)
  have "py_startswith (c # s) p \<longleftrightarrow> (\<exists>b. c # s = p @ b)"
    unfolding py_startswith_def by (metis append_eq_conv_conj append_take_drop_id)
  moreover have "(\<exists>a b. c # s = a @ p @ b) \<longleftrightarrow> (\<exists>b. c # s = p @ b) \<or> (\<exists>a b. s = a @ p @ b)"
    by (metis append_Cons append_Nil neq_Nil_conv list.inject)
  ultimately show ?case using Cons.IH by simp
qed auto

definition trimmed :: "(char \<Rightarrow> bool) \<Rightarrow> string \<Rightarrow> bool" where
  "trimmed P s \<longleftrightarrow> s = [] \<or> (\<not> P (hd s) \<and> \<not> P (last s))"

lemma trim_fixed: "trimmed P s \<Longrightarrow> rev (dropWhile P (rev (dropWhile P s))) = s"
  by (auto simp: trimmed_def dropWhile_eq_self_iff [THEN iffD2] hd_rev)

lemma trim_trims:
  defines "trim \<equiv> \<lambda>P s. rev (dropWhile P (rev (dropWhile P s)))"
  shows "trimmed P (trim P s)" and "\<exists>a b. s = a @ trim P s @ b"
proof -
  define t where "t = dropWhile P s"
  define u where "u = trim P s"
  have u: "rev u = dropWhile P (rev t)" by (simp add: u_def trim_def t_def)
  have parts: "rev t = takeWhile P (rev t) @ rev u" by (simp add: u)
  then have t: "t = u @ rev (takeWhile P (rev t))" by (metis rev_append rev_rev_ident)
  show "trimmed P (trim P s)"
  proof (cases "u = []")
    case False
    then have "rev u \<noteq> []" by simp
    then have "\<not> P (hd (rev u))" using u by (metis hd_dropWhile)
    then have "\<not> P (last u)" by (simp add: hd_rev)
    moreover from False t have "t \<noteq> []" "hd u = hd t" by (auto, metis hd_append2)
    then have "\<not> P (hd u)" by (metis hd_dropWhile t_def)
    ultimately show ?thesis by (simp add: trimmed_def flip: u_def)
  qed (simp add: trimmed_def flip: u_def)
  have "s = takeWhile P s @ t" by (simp add: t_def)
  with t show "\<exists>a b. s = a @ trim P s @ b" by (metis u_def)
qed

lemma py_strip_idem: "py_strip (py_strip s) = py_strip s"
  using trim_fixed [OF trim_trims(1)] by (simp add: py_strip_def)

lemma squeeze_set: "set (squeeze s) \<subseteq> set s"
  by (induction s rule: squeeze.induct) auto

lemma squeeze_all_facts: "\<not> py_contains ''__'' (squeeze_all s) \<and> set (squeeze_all s) \<subseteq> set s"
proof (induction s rule: squeeze_all.induct)
  case (1 s)
  show ?case
  proof (cases "py_contains ''__'' s")
    case True
    then have "squeeze_all s = squeeze_all (squeeze s)" by (simp add: squeeze_all.simps)
    with 1 [OF True] squeeze_set [of s] show ?thesis by auto
  qed (simp add: squeeze_all.simps)
qed

definition slug_chars :: "char set" where
  "slug_chars = set ''abcdefghijklmnopqrstuvwxyz0123456789_''"

lemma alnum_lower: "is_alnum c \<Longrightarrow> char_lower c \<in> slug_chars"
proof -
  have "\<forall>c\<in>set ''abcdefghijklmnopqrstuvwxyzABCDEFGHIJKLMNOPQRSTUVWXYZ0123456789''. char_lower c \<in> slug_chars"
    by (simp add: slug_chars_def)
  then show "is_alnum c \<Longrightarrow> char_lower c \<in> slug_chars" by (auto simp only: is_alnum_def)
qed

lemma slug_char_fixed: "c \<in> slug_chars \<Longrightarrow> (if is_alnum c then char_lower c else CHR ''_'') = c"
proof -
  have "\<forall>c\<in>set ''abcdefghijklmnopqrstuvwxyz0123456789_''. (if is_alnum c then char_lower c else CHR ''_'') = c"
    by (simp add: is_alnum_def)
  then show "c \<in> slug_chars \<Longrightarrow> (if is_alnum c then char_lower c else CHR ''_'') = c"
    by (auto simp only: slug_chars_def)
qed

definition is_slug :: "string \<Rightarrow> bool" where
  "is_slug s \<longleftrightarrow> s \<noteq> [] \<and> set s \<subseteq> slug_chars \<and> \<not> py_contains ''__'' s \<and> trimmed (\<lambda>c. c = CHR ''_'') s"

text \<open>The identifier derived from a strategy's name always exists, is not empty, holds lower case
letters, digits and single inner underscores only, and is its own identifier: the loop that
collapses underscores ends for every name, and deriving an identifier twice changes nothing.\<close>

theorem slug_is_canonical:
  "is_slug (slugify_strategy_id name) \<and> slugify_strategy_id (slugify_strategy_id name) = slugify_strategy_id name"
proof -
  define raw where "raw = map (\<lambda>c. if is_alnum c then char_lower c else CHR ''_'') name"
  have trim: "strip_underscores s = rev (dropWhile (\<lambda>c. c = CHR ''_'') (rev (dropWhile (\<lambda>c. c = CHR ''_'') s)))" for s
    by (simp add: strip_underscores_def)
  obtain a b where ab: "squeeze_all raw = a @ strip_underscores (squeeze_all raw) @ b"
    using trim_trims(2) [of "squeeze_all raw" "\<lambda>c. c = CHR ''_''"] by (auto simp: trim)
  have "set raw \<subseteq> slug_chars"
    using alnum_lower by (auto simp: raw_def) (simp add: slug_chars_def)
  moreover have "set (squeeze_all raw) \<subseteq> set raw" "\<not> py_contains ''__'' (squeeze_all raw)"
    using squeeze_all_facts by auto
  moreover have "set (strip_underscores (squeeze_all raw)) \<subseteq> set (squeeze_all raw)"
    by (subst (2) ab) auto
  moreover have "\<not> py_contains ''__'' (strip_underscores (squeeze_all raw))"
    using calculation(3) ab by (metis append.assoc py_contains_iff)
  moreover have "is_slug ''strategy''"
    by (simp add: is_slug_def slug_chars_def py_startswith_def trimmed_def)
  moreover have "trimmed (\<lambda>c. c = CHR ''_'') (strip_underscores (squeeze_all raw))"
    unfolding trim by (rule trim_trims)
  moreover have "slugify_strategy_id name
      = (if strip_underscores (squeeze_all raw) = [] then ''strategy'' else strip_underscores (squeeze_all raw))"
    by (simp only: slugify_strategy_id_def Let_def raw_def)
  ultimately have slug: "is_slug (slugify_strategy_id name)"
    unfolding is_slug_def by (simp only: split: if_split) blast
  have "slugify_strategy_id s = s" if "is_slug s" for s
  proof -
    have "map (\<lambda>c. if is_alnum c then char_lower c else CHR ''_'') s = s"
      by (intro map_idI slug_char_fixed) (use that in \<open>auto simp: is_slug_def\<close>)
    moreover have "squeeze_all s = s" using that by (simp add: is_slug_def squeeze_all.simps)
    moreover have "strip_underscores s = s" using that unfolding trim is_slug_def by (blast intro: trim_fixed)
    ultimately show ?thesis using that by (simp add: slugify_strategy_id_def is_slug_def)
  qed
  with slug show ?thesis by blast
qed

section \<open>The store's history\<close>

lemma map_res_set: "map_res f xs = Inr ys \<Longrightarrow> y \<in> set ys \<Longrightarrow> \<exists>x\<in>set xs. f x = Inr y"
  by (induction xs arbitrary: ys) (auto simp: bind_res_Inr_iff)

lemma map_res_fixed: "(\<And>x. x \<in> set xs \<Longrightarrow> f x = Inr x) \<Longrightarrow> map_res f xs = Inr xs"
  by (induction xs) auto

lemma distinct_by_card: "length xs = card (set xs) \<longleftrightarrow> distinct xs"
  by (metis card_distinct distinct_card)

lemma unique_model_ids_Inr: "unique_model_ids ms = Inr ms' \<longleftrightarrow> ms' = ms \<and> distinct (map tm_model_id ms) \<and> ms \<noteq> []"
  unfolding unique_model_ids_def distinct_by_card by (auto split: if_splits)

lemma validate_config_Inr:
  assumes "validate_config c = Inr c'"
  obtains ms where "map_res model_id_nonempty (sg_models c) = Inr ms" "c' = c\<lparr>sg_models := ms\<rparr>"
    "distinct (map tm_model_id ms)" "ms \<noteq> []" "management_valid (sg_management c)" "filters_valid (sg_filters c)"
  using assms by (auto simp: validate_config_def bind_res_Inr_iff unique_model_ids_Inr split: if_splits)

lemma validated_fixed:
  assumes "validate_config c = Inr c'" shows "validate_config c' = Inr c'"
proof -
  obtain ms where ms: "map_res model_id_nonempty (sg_models c) = Inr ms" "distinct (map tm_model_id ms)" "ms \<noteq> []"
    and c': "c' = c\<lparr>sg_models := ms\<rparr>" "management_valid (sg_management c)" "filters_valid (sg_filters c)"
    using assms by (rule validate_config_Inr)
  have "model_id_nonempty m = Inr m" if "m \<in> set ms" for m
    using map_res_set [OF ms(1) that] by (auto simp: model_id_nonempty_def Let_def py_strip_idem split: if_splits)
  then have "map_res model_id_nonempty ms = Inr ms" by (rule map_res_fixed)
  moreover have "unique_model_ids ms = Inr ms" using ms by (simp add: unique_model_ids_Inr)
  ultimately show ?thesis using c' by (simp add: validate_config_def)
qed

definition record_ok :: "(strategy_config \<Rightarrow> string) \<Rightarrow> strategy_record \<Rightarrow> bool" where
  "record_ok hash r \<longleftrightarrow> validate_config (sd_config r) = Inr (sd_config r) \<and> sd_config_hash r = hash (sd_config r)
     \<and> sd_enabled_models r = map tm_model_id (enabled_models (sd_config r))
     \<and> distinct (sd_enabled_models r)"

definition store_ok :: "(strategy_config \<Rightarrow> string) \<Rightarrow> strategy_store \<Rightarrow> bool" where
  "store_ok hash st \<longleftrightarrow> keys_ok st \<and> (\<forall>(k, r)\<in>set st. k = record_key r \<and> record_ok hash r)"

lemma store_ok_put: "store_ok hash st \<Longrightarrow> record_ok hash r \<Longrightarrow> store_ok hash (dput (record_key r) r st)"
  using set_dput [of "record_key r" r st] by (fastforce simp: store_ok_def)

lemma built_record_ok:
  assumes "validate_config c = Inr c'"
  shows "record_ok hash (build_strategy_record hash c' sid status path)"
proof -
  have "distinct (map tm_model_id (sg_models c'))"
    using assms by (rule validate_config_Inr) simp
  then have "distinct (map tm_model_id (enabled_models c'))"
    by (auto simp: enabled_models_def distinct_map intro: inj_on_subset)
  with validated_fixed [OF assms] show ?thesis by (simp add: record_ok_def build_strategy_record_def)
qed

text \<open>What callers do with the store after the files are loaded: they register records.\<close>

definition register_all :: "(strategy_record \<times> bool) list \<Rightarrow> strategy_store \<Rightarrow> strategy_store" where
  "register_all calls st = foldl (\<lambda>s (r, overwrite). case register_strategy s r overwrite of Inl _ \<Rightarrow> s | Inr t \<Rightarrow> t) st calls"

lemma register_cases:
  "register_strategy st r ov = Inr t \<Longrightarrow> t = st \<or> (t = dput (record_key r) r st \<and> (ov \<or> dget st (record_key r) = None))"
  by (auto simp: register_strategy_def Let_def split: option.splits if_splits)

lemma register_all_ok:
  "store_ok hash st \<Longrightarrow> \<forall>(r, ov)\<in>set calls. record_ok hash r \<Longrightarrow> store_ok hash (register_all calls st)"
proof (induction calls arbitrary: st)
  case (Cons c calls)
  obtain r ov where c: "c = (r, ov)" by fastforce
  then have "store_ok hash (case register_strategy st r ov of Inl _ \<Rightarrow> st | Inr t \<Rightarrow> t)"
    using Cons.prems store_ok_put by (auto split: sum.splits dest!: register_cases)
  with Cons show ?case by (simp add: c register_all_def)
qed (simp add: register_all_def)

lemma load_disk_ok: "load_disk hash files = Inr st \<Longrightarrow> store_ok hash st"
  unfolding load_disk_def
proof (rule fold_res_invariant [of "store_ok hash"])
  show "store_ok hash []" by (simp add: store_ok_def)
next
  fix f t u assume "store_ok hash t" "load_step hash f t = Inr u"
  then show "store_ok hash u"
    by (auto simp: load_step_def bind_res_Inr_iff Let_def built_record_ok store_ok_put split: prod.splits if_splits)
qed

text \<open>C22: the store of strategies is well typed: whatever files were loaded and whatever valid records were
registered, also with overwriting, each record sits under its own identifier and version, its
configuration is one the validation accepts unchanged (positive limits, unique and stripped model
names), its hash is that of its configuration and its enabled models are distinct.\<close>

theorem stored_strategies_valid:
  assumes "load_disk hash files = Inr st" and "\<forall>(r, ov)\<in>set calls. record_ok hash r"
  shows "store_ok hash (register_all calls st)"
  using assms load_disk_ok register_all_ok by blast

lemma register_keeps:
  assumes "dget st k = Some r" and "\<forall>(q, ov)\<in>set calls. \<not> ov"
  shows "dget (register_all calls st) k = Some r"
  using assms
proof (induction calls arbitrary: st)
  case (Cons c calls)
  obtain q ov where c: "c = (q, ov)" by fastforce
  then have "dget (case register_strategy st q ov of Inl _ \<Rightarrow> st | Inr t \<Rightarrow> t) k = Some r"
    using Cons.prems by (auto simp: dget_dput split: sum.splits dest!: register_cases)
  with Cons show ?case by (simp add: c register_all_def)
qed (simp add: register_all_def)

text \<open>History is never rewritten: a record that the store holds under a name and a version is still what
a lookup of that name and version returns after any registrations that do not ask to overwrite, and
a registration of other content under the same version is refused.\<close>

theorem strategy_history_kept:
  assumes "get_strategy st sid (Some v) = Inr r" and "\<forall>(q, ov)\<in>set calls. \<not> ov"
  shows "get_strategy (register_all calls st) sid (Some v) = Inr r
    \<and> (\<forall>q. record_key q = (sid, v) \<longrightarrow> sd_config_hash q \<noteq> sd_config_hash r
         \<longrightarrow> (\<exists>e. register_strategy (register_all calls st) q False = Inl (ValueError e)))"
proof -
  have "dget st (sid, v) = Some r" using assms(1) by (auto simp: get_strategy_def split: option.splits)
  then have "dget (register_all calls st) (sid, v) = Some r" using register_keeps assms(2) by blast
  then show ?thesis by (auto simp: get_strategy_def register_strategy_def)
qed

text \<open>The two readings of the agent map agree.\<close>

lemma agent_views_agree:
  assumes "keys_ok m"
  shows "model \<in> set (models_for_agent m agent) \<longleftrightarrow> agent \<in> set (primary_agents_for m model)"
proof -
  have "model \<in> set (models_for_agent m agent) \<longleftrightarrow> (\<exists>as'. (model, as') \<in> set m \<and> agent \<in> set as')"
    by (auto simp: models_for_agent_def)
  also have "\<dots> \<longleftrightarrow> (\<exists>as'. dget m model = Some as' \<and> agent \<in> set as')"
    using assms by (metis dget_in_set keys_ok_dget)
  also have "\<dots> \<longleftrightarrow> agent \<in> set (primary_agents_for m model)"
    by (cases "dget m model") (auto simp: primary_agents_for_def opt_default_def)
  finally show ?thesis .
qed

section \<open>Witnesses\<close>

definition demo_strategy :: "string \<Rightarrow> strategy_config" where
  "demo_strategy name =
     \<lparr>sg_metadata = \<lparr>me_name = name, me_version = ''1.0.0'', me_description = [], me_author = [], me_supported_markets = [],
        me_recommended_pairs = [], me_execution_timeframe = ''5m'', me_bias_timeframe = ''240m''\<rparr>,
      sg_management = \<lparr>sm_risk_per_trade_percent = Fin 1, sm_min_risk_reward = Fin 2, sm_target_risk_reward = Fin 3,
        sm_stop_loss_method = ''structural'', sm_atr_fallback = Fin 2,
        sm_partial = \<lparr>pt_enabled = True, pt_exit_percent = Fin 50\<rparr>, sm_breakeven_at_1r = True,
        sm_breakers = \<lparr>sb_max_daily_loss_percent = Fin 3, sb_max_trades_per_day = 5, sb_cooldown_bars = 2,
          sb_eod_flat_close = True\<rparr>\<rparr>,
      sg_filters = \<lparr>sf_adx_length = 11, sf_adx_min_strength = Fin 21,
        sf_ema = \<lparr>ea_fast = 9, ea_slow = 21, ea_structural = 50, ea_long_term = 200\<rparr>,
        sf_volume_length = 20, sf_volume_multiplier = Fin 1\<rparr>,
      sg_models = [\<lparr>tm_model_id = ''M1'', tm_name = ''PO3'', tm_type = ''sweep'', tm_enabled = True, tm_rules = []\<rparr>,
        \<lparr>tm_model_id = ''M3'', tm_name = ''Flow'', tm_type = ''flow'', tm_enabled = False, tm_rules = []\<rparr>]\<rparr>"

lemma demo_strategy_valid: "validate_config (demo_strategy n) = Inr (demo_strategy n)"
  by (simp add: validate_config_def demo_strategy_def management_valid_def filters_valid_def positive_def
      partial_valid_def breakers_valid_def ema_valid_def model_id_nonempty_def py_strip_def is_space_def
      unique_model_ids_def)

definition demo_hash :: "strategy_config \<Rightarrow> string" where
  "demo_hash c = me_name (sg_metadata c)"

definition demo_record :: "string \<Rightarrow> strategy_record" where
  "demo_record n = build_strategy_record demo_hash (demo_strategy n) (Some ''s'') PAPER None"

lemma demo_record_key: "record_key (demo_record n) = (''s'', ''1.0.0'')"
  by (simp add: demo_record_def build_strategy_record_def record_key_def stable_id_def opt_truthy_def
      opt_default_def py_startswith_def demo_strategy_def)

lemma demo_record_hash: "sd_config_hash (demo_record n) = n"
  by (simp add: demo_record_def build_strategy_record_def demo_hash_def demo_strategy_def)

lemma demo_load: "\<exists>st. load_disk demo_hash [(''a.json'', demo_strategy ''Alpha'')] = Inr st"
  by (simp add: load_disk_def load_step_def demo_strategy_valid Let_def)

theorem stored_strategies_valid_witness:
  "\<exists>st. load_disk demo_hash [(''a.json'', demo_strategy ''Alpha'')] = Inr st
     \<and> store_ok demo_hash (register_all [(demo_record ''Beta'', True), (demo_record ''Gamma'', False)] st)"
  using demo_load stored_strategies_valid [of demo_hash "[(''a.json'', demo_strategy ''Alpha'')]" _
      "[(demo_record ''Beta'', True), (demo_record ''Gamma'', False)]"]
  by (auto simp: demo_record_def built_record_ok [OF demo_strategy_valid])

theorem strategy_history_kept_witness:
  "get_strategy (register_all [(demo_record ''Beta'', False)] [((''s'', ''1.0.0''), demo_record ''Alpha'')]) ''s'' (Some ''1.0.0'')
     = Inr (demo_record ''Alpha'')
   \<and> (\<exists>e. register_strategy (register_all [(demo_record ''Beta'', False)] [((''s'', ''1.0.0''), demo_record ''Alpha'')])
          (demo_record ''Gamma'') False = Inl (ValueError e))"
  using strategy_history_kept [of "[((''s'', ''1.0.0''), demo_record ''Alpha'')]" "''s''" "''1.0.0''" "demo_record ''Alpha''"
      "[(demo_record ''Beta'', False)]"]
  by (simp add: get_strategy_def demo_record_key demo_record_hash)

text \<open>The latest version is the greatest as text: \<open>1.9.0\<close> comes after \<open>1.10.0\<close>.\<close>

lemma latest_version_is_textual:
  "get_strategy [((''s'', ''1.9.0''), r1), ((''s'', ''1.10.0''), r2)] ''s'' None = Inr r1"
  by (simp add: get_strategy_def)

end
