(* ===== verification/Strategy_Features.thy ===== *)
theory Strategy_Features
  imports Strategy Market_Data Backtest_Data
begin

text \<open>
  \<open>strategy/features.py\<close>: the features a strategy's models look at, computed from closed
  candles only, the four reference models and their confluence; and
  \<open>synthesize_timeframe\<close> of \<open>orchestration/proposal.py\<close>, which builds the higher
  time frames.  A timestamp is the number of microseconds since the epoch, in UTC.
\<close>

section \<open>Grouping into a dictionary\<close>

text \<open>\<open>d.setdefault(f(x), []).append(x)\<close> for every \<open>x\<close>.\<close>

definition group_add :: "('a \<Rightarrow> 'k) \<Rightarrow> ('k \<times> 'a list) list \<Rightarrow> 'a \<Rightarrow> ('k \<times> 'a list) list" where
  "group_add f d x = dput (f x) (opt_default (dget d (f x)) [] @ [x]) d"

definition group_by :: "('a \<Rightarrow> 'k) \<Rightarrow> 'a list \<Rightarrow> ('k \<times> 'a list) list" where
  "group_by f xs = foldl (group_add f) [] xs"

lemma group_by_snoc: "group_by f (xs @ [x]) = group_add f (group_by f xs) x"
  by (simp add: group_by_def)

lemma dget_group_by:
  "dget (group_by f xs) k = (if filter (\<lambda>x. f x = k) xs = [] then None else Some (filter (\<lambda>x. f x = k) xs))"
proof (induction xs arbitrary: k rule: rev_induct)
  case (snoc x xs)
  then show ?case
    by (simp add: group_by_snoc group_add_def dget_dput opt_default_def snoc.IH)
qed (simp add: group_by_def)

lemma keys_group_by: "fst ` set (group_by f xs) = f ` set xs" and keys_ok_group_by: "keys_ok (group_by f xs)"
proof -
  have "k \<in> fst ` set (group_by f xs) \<longleftrightarrow> k \<in> f ` set xs" for k
    using map_of_eq_None_iff [of "group_by f xs" k] dget_group_by [of f xs k]
    by (simp add: filter_empty_conv image_iff split: if_splits) metis+
  then show "fst ` set (group_by f xs) = f ` set xs" by blast
  show "keys_ok (group_by f xs)"
    by (induction xs rule: rev_induct) (auto simp: group_by_snoc group_add_def, simp add: group_by_def)
qed

section \<open>Time frames\<close>

definition is_digit :: "char \<Rightarrow> bool" where
  "is_digit c \<longleftrightarrow> c \<in> set ''0123456789''"

text \<open>\<open>int(text)\<close>: digits, single underscores between digits, a sign, spaces around.\<close>

fun int_body :: "bool \<Rightarrow> nat \<Rightarrow> string \<Rightarrow> nat option" where
  "int_body after_digit acc [] = (if after_digit then Some acc else None)"
| "int_body after_digit acc (c # s) =
     (if is_digit c then int_body True (10 * acc + (of_char c - 48)) s
      else if c = CHR ''_'' \<and> after_digit then int_body False acc s else None)"

definition parse_int :: "string \<Rightarrow> int res" where
  "parse_int s =
     (let t = py_strip s;
          n = (case t of [] \<Rightarrow> None
             | c # r \<Rightarrow> if c = CHR ''-'' then map_option (\<lambda>n. - int n) (int_body False 0 r)
                 else if c = CHR ''+'' then map_option int (int_body False 0 r)
                 else map_option int (int_body False 0 t))
      in case n of None \<Rightarrow> Inl (ValueError ''invalid literal for int()'') | Some i \<Rightarrow> Inr i)"

definition timeframe_to_minutes :: "string \<Rightarrow> int res" where
  "timeframe_to_minutes tf0 =
     (let tf = py_lower (py_strip tf0)
      in if py_endswith tf ''m'' then parse_int (butlast tf)
         else if py_endswith tf ''h'' then bind_res (parse_int (butlast tf)) (\<lambda>n. Inr (n * 60))
         else if py_endswith tf ''d'' then bind_res (parse_int (butlast tf)) (\<lambda>n. Inr (n * 1440))
         else Inl (ValueError (''Unsupported timeframe: '' @ tf)))"

definition closes_by :: "int \<Rightarrow> int \<Rightarrow> bar \<Rightarrow> bool" where
  "closes_by as_of minutes b \<longleftrightarrow> fle (fadd (total_seconds (br_time b)) (f_of_int (minutes * 60))) (total_seconds as_of)"

definition only_closed_candles :: "bar list \<Rightarrow> int \<Rightarrow> int \<Rightarrow> bar list" where
  "only_closed_candles bs as_of minutes = filter (closes_by as_of minutes) bs"

text \<open>\<open>int(timestamp)\<close> of a bar, the start of its bucket, and the bar of a bucket.\<close>

definition bucket_of :: "int \<Rightarrow> bar \<Rightarrow> int res" where
  "bucket_of minutes b = bind_res (py_int (total_seconds (br_time b))) (\<lambda>ts.
     if minutes * 60 = 0 then Inl ZeroDivisionError else Inr (ts - ts mod (minutes * 60)))"

definition merge_bars :: "int \<Rightarrow> bar list \<Rightarrow> bar" where
  "merge_bars key grp =
     \<lparr>br_time = key * 1000000, br_open = br_open (hd grp), br_high = foldl pmax (br_high (hd grp)) (map br_high (tl grp)),
      br_low = foldl pmin (br_low (hd grp)) (map br_low (tl grp)), br_close = br_close (last grp),
      br_volume = fsum (map br_volume grp)\<rparr>"

definition synthesize_timeframe :: "bar list \<Rightarrow> string \<Rightarrow> bar list res" where
  "synthesize_timeframe bs timeframe =
     bind_res (timeframe_to_minutes timeframe) (\<lambda>minutes.
       if bs = [] then Inr []
       else bind_res (map_res (bucket_of minutes) bs) (\<lambda>keys.
         let groups = group_by fst (zip keys bs)
         in Inr (map (\<lambda>k. merge_bars k (map snd (opt_default (dget groups k) []))) (sort (map fst groups)))))"

section \<open>Session levels\<close>

datatype feature_status = CALCULATED | UNAVAILABLE | INVALID | STALE

record 'v feature =
  fv_name :: string
  fv_status :: feature_status
  fv_value :: "'v option"
  fv_reason :: "string option"

definition feature_of :: "string \<Rightarrow> 'v option \<Rightarrow> 'v feature" where
  "feature_of name v = \<lparr>fv_name = name, fv_status = (if v = None then UNAVAILABLE else CALCULATED), fv_value = v,
     fv_reason = None\<rparr>"

definition feature_or :: "string \<Rightarrow> string \<Rightarrow> 'v option \<Rightarrow> 'v feature" where
  "feature_or name why v = (feature_of name v)\<lparr>fv_reason := (if v = None then Some why else None)\<rparr>"

text \<open>
  \<open>strftime\<close> renders the civil date of a timestamp as \<open>YYYY-MM-DD\<close> and \<open>YYYY-MM\<close>.  For
  years of four digits the text orders as the number of the day and of the month, which
  stand for it here.
\<close>

definition day_number :: "int \<Rightarrow> int" where
  "day_number t = t div 86400000000"

definition month_number :: "int \<Rightarrow> int" where
  "month_number t =
     (let z = day_number t + 719468; era = z div 146097; doe = z mod 146097;
          yoe = (doe - doe div 1460 + doe div 36524 - doe div 146096) div 365;
          doy = doe - (365 * yoe + yoe div 4 - yoe div 100);
          mp = (5 * doy + 2) div 153;
          m = (if mp < 10 then mp + 3 else mp - 9)
      in (yoe + era * 400 + (if m \<le> 2 then 1 else 0)) * 12 + (m - 1))"

text \<open>\<open>keys[-2]\<close> of the sorted keys when there are two.\<close>

definition previous_group :: "(bar \<Rightarrow> int) \<Rightarrow> bar list \<Rightarrow> bar list option" where
  "previous_group f bs =
     (let d = group_by f bs; ks = sort (map fst d)
      in if 2 \<le> length ks then dget d (ks ! (length ks - 2)) else None)"

definition highest :: "bar list \<Rightarrow> pyfloat" where
  "highest grp = foldl pmax (br_high (hd grp)) (map br_high (tl grp))"

definition lowest :: "bar list \<Rightarrow> pyfloat" where
  "lowest grp = foldl pmin (br_low (hd grp)) (map br_low (tl grp))"

record levels =
  lv_pdh :: "pyfloat feature"
  lv_pdl :: "pyfloat feature"
  lv_pmh :: "pyfloat feature"
  lv_pml :: "pyfloat feature"

definition session_levels :: "bar list \<Rightarrow> levels" where
  "session_levels bs =
     (if bs = [] then \<lparr>lv_pdh = feature_or ''PDH'' ''No candles'' None, lv_pdl = feature_or ''PDL'' ''No candles'' None,
        lv_pmh = feature_or ''PMH'' ''No candles'' None, lv_pml = feature_or ''PML'' ''No candles'' None\<rparr>
      else let day = previous_group (\<lambda>b. day_number (br_time b)) bs;
               month = previous_group (\<lambda>b. month_number (br_time b)) bs
           in \<lparr>lv_pdh = feature_or ''PDH'' ''Need prior day'' (map_option highest day),
               lv_pdl = feature_or ''PDL'' ''Need prior day'' (map_option lowest day),
               lv_pmh = feature_or ''PMH'' ''Need prior month'' (map_option highest month),
               lv_pml = feature_or ''PML'' ''Need prior month'' (map_option lowest month)\<rparr>)"

section \<open>The models\<close>

datatype verdict = Confirmed | Rejected | Unavailable

record evaluation =
  mv_model_id :: string
  mv_status :: verdict
  mv_reasons :: "string list"
  mv_evidence :: "string list"

definition unavailable :: "string \<Rightarrow> string \<Rightarrow> evaluation" where
  "unavailable i why = \<lparr>mv_model_id = i, mv_status = Unavailable, mv_reasons = [why], mv_evidence = []\<rparr>"

definition rejected_model :: "string \<Rightarrow> string \<Rightarrow> evaluation" where
  "rejected_model i why = \<lparr>mv_model_id = i, mv_status = Rejected, mv_reasons = [why], mv_evidence = []\<rparr>"

definition confirmed_model :: "string \<Rightarrow> string list \<Rightarrow> evaluation" where
  "confirmed_model i evidence = \<lparr>mv_model_id = i, mv_status = Confirmed, mv_reasons = [], mv_evidence = evidence\<rparr>"

text \<open>A model that is absent or disabled is unavailable; the others are evaluated.\<close>

definition with_model :: "strategy_config \<Rightarrow> string \<Rightarrow> (trading_model \<Rightarrow> evaluation res) \<Rightarrow> evaluation res" where
  "with_model st i f = (case model_by_id st i of
     Some m \<Rightarrow> if tm_enabled m then f m else Inr (unavailable i ''Model disabled'')
   | None \<Rightarrow> Inr (unavailable i ''Model disabled''))"

record feature_input =
  fi_closes :: "pyfloat list"
  fi_opens :: "pyfloat list"
  fi_highs :: "pyfloat list"
  fi_lows :: "pyfloat list"
  fi_atr :: "pyfloat option"
  fi_adx :: "pyfloat option"
  fi_vwap :: "pyfloat option"
  fi_ema_fast :: "pyfloat option"
  fi_ema_slow :: "pyfloat option"
  fi_relative :: "pyfloat option"
  fi_levels :: levels

definition sweep_verdict :: "bool \<Rightarrow> bool \<Rightarrow> evaluation" where
  "sweep_verdict up down =
     (if up \<or> down
      then confirmed_model ''M1'' ((if up then [''Swept PDH with rejection and bullish EMA/ADX stack''] else [])
             @ (if down then [''Swept PDL with rejection and bearish EMA/ADX stack''] else []))
      else rejected_model ''M1'' ''No PO3 sweep+rejection confluence'')"

definition eval_m1 :: "strategy_config \<Rightarrow> feature_input \<Rightarrow> evaluation res" where
  "eval_m1 st x = with_model st ''M1'' (\<lambda>m.
     case (fi_adx x, fi_ema_fast x, fi_ema_slow x) of
       (Some ax, Some fast, Some slow) \<Rightarrow>
         bind_res (py_int (opt_default (dget (tm_rules m) ''sweep_lookback_bars'') (Fin 10))) (\<lambda>lookback.
         bind_res (py_max (py_slice (fi_highs x) (- lookback) (int (length (fi_highs x))))) (\<lambda>recent_high.
         bind_res (py_min (py_slice (fi_lows x) (- lookback) (int (length (fi_lows x))))) (\<lambda>recent_low.
           let strong = fle (sf_adx_min_strength (sg_filters st)) ax; final = last (fi_closes x);
               up = (case fv_value (lv_pdh (fi_levels x)) of None \<Rightarrow> False
                     | Some h \<Rightarrow> flt h recent_high \<and> flt final h \<and> flt slow fast \<and> strong);
               down = (case fv_value (lv_pdl (fi_levels x)) of None \<Rightarrow> False
                     | Some l \<Rightarrow> flt recent_low l \<and> flt l final \<and> flt fast slow \<and> strong)
           in Inr (sweep_verdict up down))))
     | _ \<Rightarrow> Inr (unavailable ''M1'' ''Missing ADX/EMA''))"

definition eval_m2 :: "strategy_config \<Rightarrow> feature_input \<Rightarrow> string \<Rightarrow> evaluation res" where
  "eval_m2 st x bias = with_model st ''M2'' (\<lambda>m.
     case (fi_vwap x, fi_atr x, fi_relative x) of
       (Some v, Some a, Some rel) \<Rightarrow>
         (let op = last (fi_opens x); cl = last (fi_closes x); body = fabs (fsub cl op);
              min_body = fmul (opt_default (dget (tm_rules m) ''min_body_atr_multiplier'') (Fin 1)) a;
              mult = opt_default (dget (tm_rules m) ''volume_multiplier'') (flit (13 / 10));
              strong = (fle min_body body \<and> fle mult rel)
          in Inr (if strong \<and> flt op v \<and> fle v cl \<and> bias = ''bullish''
                  then confirmed_model ''M2'' [''VWAP reclaim up with displacement and bullish HTF bias'']
                  else if strong \<and> flt v op \<and> fle cl v \<and> bias = ''bearish''
                  then confirmed_model ''M2'' [''VWAP reclaim down with displacement and bearish HTF bias'']
                  else rejected_model ''M2'' ''No VWAP displacement reclaim''))
     | _ \<Rightarrow> Inr (unavailable ''M2'' ''Missing VWAP/ATR/volume''))"

definition eval_m3 :: "strategy_config \<Rightarrow> string \<Rightarrow> evaluation res" where
  "eval_m3 st cvd_status = with_model st ''M3'' (\<lambda>m. Inr
     (if cvd_status = ''UNAVAILABLE''
      then unavailable ''M3'' ''CVD_STATUS=UNAVAILABLE; refusing fabricated order-flow confirmation''
      else rejected_model ''M3'' ''CVD present but absorption rules not met''))"

definition break_name :: "structure_break \<Rightarrow> string" where
  "break_name b = (case b of Bullish_Break _ \<Rightarrow> ''bullish_msb'' | Bearish_Break _ \<Rightarrow> ''bearish_msb'' | _ \<Rightarrow> ''none'')"

definition eval_m4 :: "strategy_config \<Rightarrow> bar list \<Rightarrow> bar list \<Rightarrow> gap list \<Rightarrow> structure_break \<Rightarrow> evaluation res" where
  "eval_m4 st c15 c240 fvgs msb = with_model st ''M4'' (\<lambda>m. Inr
     (if length c15 < 20 \<or> length c240 < 3 then unavailable ''M4'' ''Incomplete HTF/LTF closed candles''
      else if fvgs = [] then rejected_model ''M4'' ''No FVG detected on closed bars''
      else if break_name msb \<in> {''bullish_msb'', ''bearish_msb''}
      then confirmed_model ''M4'' [''MSB='' @ break_name msb @ '' with FVG count='' @ dec_digits (length fvgs)]
      else rejected_model ''M4'' ''No MSB+FVG confluence''))"

section \<open>The feature engine\<close>

record feature_table =
  fe_ema_fast :: "pyfloat feature"
  fe_ema_slow :: "pyfloat feature"
  fe_ema_struct :: "pyfloat feature"
  fe_ema_long :: "pyfloat feature"
  fe_adx :: "pyfloat feature"
  fe_atr :: "pyfloat feature"
  fe_vwap :: "pyfloat feature"
  fe_relative :: "pyfloat feature"
  fe_msb :: "structure_break feature"
  fe_gaps :: "nat feature"
  fe_cvd :: "unit feature"
  fe_levels :: levels
  fe_last_close :: pyfloat
  fe_last_open :: pyfloat
  fe_last_high :: pyfloat
  fe_last_low :: pyfloat
  fe_closed_bars :: "nat \<times> nat \<times> nat"
  fe_htf_bias :: "string feature"

record confluence =
  cf_confirmed :: nat
  cf_available :: nat
  cf_ratio :: pyfloat
  cf_confirmed_ids :: "string list"
  cf_statuses :: "(string \<times> verdict) list"

record strategy_features =
  bn_status :: feature_status
  bn_reason :: "string option"
  bn_features :: "feature_table option"
  bn_models :: "evaluation list"
  bn_confluence :: confluence
  bn_stop_long :: "pyfloat option"
  bn_stop_short :: "pyfloat option"
  bn_fibonacci :: "(string \<times> pyfloat) list option"

definition no_confluence :: confluence where
  "no_confluence = \<lparr>cf_confirmed = 0, cf_available = 0, cf_ratio = Fin 0, cf_confirmed_ids = [], cf_statuses = []\<rparr>"

definition no_features :: "feature_status \<Rightarrow> string option \<Rightarrow> strategy_features" where
  "no_features status why = \<lparr>bn_status = status, bn_reason = why, bn_features = None, bn_models = [],
     bn_confluence = no_confluence, bn_stop_long = None, bn_stop_short = None, bn_fibonacci = None\<rparr>"

definition confluence_of :: "evaluation list \<Rightarrow> confluence" where
  "confluence_of ms =
     (let available = filter (\<lambda>m. mv_status m \<noteq> Unavailable) ms; confirmed = filter (\<lambda>m. mv_status m = Confirmed) ms
      in \<lparr>cf_confirmed = length confirmed, cf_available = length available,
          cf_ratio = (if available = [] then Fin 0
             else fquot (f_of_int (int (length confirmed))) (f_of_int (int (length available)))),
          cf_confirmed_ids = map mv_model_id confirmed, cf_statuses = map (\<lambda>m. (mv_model_id m, mv_status m)) ms\<rparr>)"

definition htf_bias :: "bar list \<Rightarrow> string" where
  "htf_bias c240 = (if length c240 < 2 then ''unknown''
     else if fle (br_close (c240 ! (length c240 - 2))) (br_close (last c240)) then ''bullish'' else ''bearish'')"

definition cvd_feature :: "string \<Rightarrow> unit feature" where
  "cvd_feature cvd = \<lparr>fv_name = ''cvd'', fv_status = (if cvd = ''UNAVAILABLE'' then UNAVAILABLE else CALCULATED), fv_value = None,
     fv_reason = (if cvd = ''UNAVAILABLE'' then Some ''No reliable order-flow provider configured'' else None)\<rparr>"

definition feature_inputs :: "strategy_config \<Rightarrow> bar list \<Rightarrow> (feature_input \<times> pyfloat option \<times> pyfloat option) res" where
  "feature_inputs st c5 =
     (let opens = map br_open c5; highs = map br_high c5; lows = map br_low c5; closes = map br_close c5;
          volumes = map br_volume c5; f = sg_filters st; e = sf_ema f
      in bind_res (ema closes (ea_fast e)) (\<lambda>ema1. bind_res (ema closes (ea_slow e)) (\<lambda>ema2.
         bind_res (ema closes (ea_structural e)) (\<lambda>ema3. bind_res (ema closes (ea_long_term e)) (\<lambda>ema4.
         bind_res (adx highs lows closes (nat (sf_adx_length f))) (\<lambda>(adx_vals, plus_di, minus_di).
         bind_res (atr highs lows closes 14) (\<lambda>atrs.
         bind_res (vwap highs lows closes volumes) (\<lambda>vwaps.
         bind_res (volume_metrics volumes (sf_volume_length f)) (\<lambda>vol.
           Inr (\<lparr>fi_closes = closes, fi_opens = opens, fi_highs = highs, fi_lows = lows, fi_atr = last_number atrs,
             fi_adx = last_number adx_vals, fi_vwap = last_number vwaps, fi_ema_fast = last_number ema1,
             fi_ema_slow = last_number ema2, fi_relative = vs_relative vol, fi_levels = session_levels c5\<rparr>,
             last_number ema3, last_number ema4))))))))))"

definition compute_features ::
  "strategy_config \<Rightarrow> bar list \<Rightarrow> bar list \<Rightarrow> bar list \<Rightarrow> int \<Rightarrow> bool \<Rightarrow> string \<Rightarrow> strategy_features res" where
  "compute_features st bars5 bars15 bars240 as_of stale cvd =
     (let c5 = only_closed_candles bars5 as_of 5; c15 = only_closed_candles bars15 as_of 15;
          c240 = only_closed_candles bars240 as_of 240
      in if stale then Inr (no_features STALE None)
         else if length c5 < 50 then Inr (no_features UNAVAILABLE (Some ''Insufficient closed 5m candles''))
         else bind_res (feature_inputs st c5) (\<lambda>(x, ema_struct, ema_long).
           bind_res (swing_points (fi_highs x) (fi_lows x) 2 2) (\<lambda>(sh, sl).
           let msb = market_structure_break (fi_closes x) sh sl in
           bind_res (detect_fair_value_gaps (fi_highs x) (fi_lows x) (fi_closes x)) (\<lambda>fvgs.
           let bias = htf_bias c240;
               table = \<lparr>fe_ema_fast = feature_of ''ema_9'' (fi_ema_fast x), fe_ema_slow = feature_of ''ema_21'' (fi_ema_slow x),
                 fe_ema_struct = feature_of ''ema_50'' ema_struct, fe_ema_long = feature_of ''ema_200'' ema_long,
                 fe_adx = feature_of ''adx_11'' (fi_adx x), fe_atr = feature_of ''atr_14'' (fi_atr x),
                 fe_vwap = feature_of ''vwap'' (fi_vwap x), fe_relative = feature_of ''volume_relative'' (fi_relative x),
                 fe_msb = feature_of ''msb'' (Some msb), fe_gaps = feature_of ''fvg_count'' (Some (length fvgs)),
                 fe_cvd = cvd_feature cvd, fe_levels = fi_levels x, fe_last_close = last (fi_closes x),
                 fe_last_open = last (fi_opens x), fe_last_high = last (fi_highs x), fe_last_low = last (fi_lows x),
                 fe_closed_bars = (length c5, length c15, length c240),
                 fe_htf_bias = feature_or ''htf_bias'' ''Need closed 240m candles''
                   (if 2 \<le> length c240 then Some bias else None)\<rparr>
           in bind_res (eval_m1 st x) (\<lambda>m1. bind_res (eval_m2 st x bias) (\<lambda>m2.
              bind_res (eval_m3 st cvd) (\<lambda>m3. bind_res (eval_m4 st c15 c240 fvgs msb) (\<lambda>m4.
                Inr \<lparr>bn_status = CALCULATED, bn_reason = None, bn_features = Some table, bn_models = [m1, m2, m3, m4],
                     bn_confluence = confluence_of [m1, m2, m3, m4],
                     bn_stop_long = structural_3bar_swing_stop (fi_highs x) (fi_lows x) ''LONG'',
                     bn_stop_short = structural_3bar_swing_stop (fi_highs x) (fi_lows x) ''SHORT'',
                     bn_fibonacci = (if sh \<noteq> [] \<and> sl \<noteq> []
                       then Some (fibonacci_levels (snd (last sl)) (snd (last sh))) else None)\<rparr>))))))))"

section \<open>No look ahead\<close>

text \<open>Bars of the base time frame: they start on a whole second that is a multiple of five minutes.\<close>

definition on_grid :: "bar \<Rightarrow> bool" where
  "on_grid b \<longleftrightarrow> br_time b mod 300000000 = 0 \<and> 0 \<le> br_time b \<and> br_time b < 2 ^ 52"

definition start_second :: "bar \<Rightarrow> int" where
  "start_second b = br_time b div 1000000"

definition bucket_start :: "int \<Rightarrow> bar \<Rightarrow> int" where
  "bucket_start minutes b = start_second b - start_second b mod (minutes * 60)"

lemma on_grid_second:
  assumes "on_grid b"
  shows "total_seconds (br_time b) = whole (start_second b)" and "start_second b mod 300 = 0"
    and "br_time b = start_second b * 1000000" and "0 \<le> start_second b" and "start_second b < 2 ^ 33"
proof -
  obtain k where k: "br_time b = 300000000 * k" using assms by (auto simp: on_grid_def dvd_def mod_eq_0_iff_dvd)
  then show s: "br_time b = start_second b * 1000000" by (simp add: start_second_def)
  from k show "start_second b mod 300 = 0" by (simp add: start_second_def)
  show "0 \<le> start_second b" "start_second b < 2 ^ 33" using assms by (auto simp: start_second_def on_grid_def)
  then have "f_of_int (br_time b) = whole (start_second b * 1000000)"
    using s assms by (simp add: on_grid_def)
  moreover have "Fin 1000000 = whole 1000000" by (simp add: whole_def)
  ultimately show "total_seconds (br_time b) = whole (start_second b)"
    using whole_quot [of 1000000 "start_second b"] \<open>0 \<le> start_second b\<close> \<open>start_second b < 2 ^ 33\<close>
    by (simp add: total_seconds_def)
qed

lemma bucket_of_grid: "on_grid b \<Longrightarrow> 0 < minutes \<Longrightarrow> bucket_of minutes b = Inr (bucket_start minutes b)"
  using on_grid_second [of b] by (simp add: bucket_of_def py_int_def whole_def bucket_start_def)

lemma closes_by_grid:
  assumes "on_grid b" and "0 \<le> minutes" and "minutes \<le> 10080"
  shows "closes_by as_of minutes b \<longleftrightarrow> fle (whole (start_second b + minutes * 60)) (total_seconds as_of)"
  using assms on_grid_second [OF assms(1)] whole_add [of "start_second b" "minutes * 60"]
  by (simp add: closes_by_def)

lemma map_res_Inr_map: "(\<And>x. x \<in> set xs \<Longrightarrow> f x = Inr (g x)) \<Longrightarrow> map_res f xs = Inr (map g xs)"
  by (induction xs) auto

lemma filter_zip_map: "map snd (filter (\<lambda>x. fst x = k) (zip (map g xs) xs)) = filter (\<lambda>x. g x = k) xs"
  by (induction xs) auto

lemma filter_sorted_list_of_set:
  "finite A \<Longrightarrow> filter P (sorted_list_of_set A) = sorted_list_of_set {x \<in> A. P x}"
  by (rule sorted_distinct_set_unique) (auto intro: sorted_wrt_filter)

definition bars_of :: "int \<Rightarrow> bar list \<Rightarrow> bar list" where
  "bars_of minutes bs =
     map (\<lambda>k. merge_bars k (filter (\<lambda>b. bucket_start minutes b = k) bs)) (sorted_list_of_set (bucket_start minutes ` set bs))"

lemma synthesize_grid:
  assumes "\<forall>b\<in>set bs. on_grid b" and "timeframe_to_minutes tf = Inr minutes" and "0 < minutes"
  shows "synthesize_timeframe bs tf = Inr (bars_of minutes bs)"
proof (cases "bs = []")
  case False
  let ?g = "bucket_start minutes" and ?d = "group_by fst (zip (map (bucket_start minutes) bs) bs)"
  have "map_res (bucket_of minutes) bs = Inr (map ?g bs)"
    using assms by (intro map_res_Inr_map) (auto simp: bucket_of_grid)
  moreover have "map fst (zip (map ?g bs) bs) = map ?g bs" by simp
  then have "fst ` set (zip (map ?g bs) bs) = ?g ` set bs" by (metis list.set_map)
  then have "set (map fst ?d) = ?g ` set bs" using keys_group_by [of fst "zip (map ?g bs) bs"] by simp
  then have "sort (map fst ?d) = sorted_list_of_set (?g ` set bs)"
    using keys_ok_group_by [of fst "zip (map ?g bs) bs"]
    by (metis distinct_remdups_id keys_ok_def sorted_list_of_set_sort_remdups)
  moreover have "map snd (opt_default (dget ?d k) []) = filter (\<lambda>b. ?g b = k) bs" for k
    using filter_zip_map [of k ?g bs] by (auto simp: dget_group_by opt_default_def)
  ultimately show ?thesis using assms False by (simp add: synthesize_timeframe_def bars_of_def)
qed (use assms in \<open>simp add: synthesize_timeframe_def bars_of_def\<close>)

text \<open>A bar of a closed bucket is itself closed.\<close>

lemma bucket_members_closed:
  assumes "on_grid b" and "0 < minutes" and "minutes \<le> 1440" and "5 dvd minutes"
    and "fle (whole (bucket_start minutes b + minutes * 60)) (total_seconds as_of)"
  shows "closes_by as_of 5 b"
proof -
  obtain j where j: "minutes = 5 * j" using assms(4) by (auto simp: dvd_def)
  obtain i where i: "start_second b = 300 * i" using on_grid_second(2) [OF assms(1)] by (auto simp: dvd_def mod_eq_0_iff_dvd)
  have "start_second b mod (minutes * 60) = 300 * (i mod j)"
    by (simp add: i j mult_mod_right [symmetric] algebra_simps)
  moreover have "0 < j" using assms(2) j by simp
  then have "i mod j < j" by (rule pos_mod_bound)
  ultimately have "start_second b + 5 * 60 \<le> bucket_start minutes b + minutes * 60"
    by (simp add: bucket_start_def j)
  then have "fle (whole (start_second b + 5 * 60)) (total_seconds as_of)"
    using assms(5) by (meson fle_trans whole_fle)
  with assms(1) show ?thesis by (simp add: closes_by_grid)
qed

lemma merge_bars_closes:
  assumes "\<forall>b\<in>set bs. on_grid b" and "k \<in> bucket_start minutes ` set bs" and "0 < minutes" and "minutes \<le> 1440"
  shows "closes_by as_of minutes (merge_bars k grp) \<longleftrightarrow> fle (whole (k + minutes * 60)) (total_seconds as_of)"
proof -
  obtain b where b: "on_grid b" "k = bucket_start minutes b" using assms by auto
  have "0 \<le> start_second b mod (minutes * 60)" using assms(3) by simp
  then have "0 \<le> k" "k < 2 ^ 33"
    using on_grid_second(4,5) [OF b(1)] b(2) zmod_le_nonneg_dividend [of "start_second b" "minutes * 60"]
    unfolding bucket_start_def by linarith+
  then have "f_of_int (k * 1000000) = whole (k * 1000000)" by simp
  moreover have "Fin 1000000 = whole 1000000" by (simp add: whole_def)
  ultimately have "total_seconds (k * 1000000) = whole k"
    using whole_quot [of 1000000 k] \<open>0 \<le> k\<close> \<open>k < 2 ^ 33\<close> by (simp add: total_seconds_def)
  then show ?thesis using whole_add [of k "minutes * 60"] assms(3,4) \<open>0 \<le> k\<close> \<open>k < 2 ^ 33\<close>
    by (simp add: closes_by_def merge_bars_def)
qed

lemma closed_bars_of:
  assumes "\<forall>b\<in>set bs. on_grid b" and "0 < minutes" and "minutes \<le> 1440" and "5 dvd minutes"
  shows "only_closed_candles (bars_of minutes bs) as_of minutes
       = only_closed_candles (bars_of minutes (only_closed_candles bs as_of 5)) as_of minutes"
proof -
  define cs where "cs = only_closed_candles bs as_of 5"
  let ?g = "bucket_start minutes" and ?late = "\<lambda>k. fle (whole (k + minutes * 60)) (total_seconds as_of)"
  have sub: "set cs \<subseteq> set bs" by (auto simp: cs_def only_closed_candles_def)
  have expand: "only_closed_candles (bars_of minutes ds) as_of minutes
      = map (\<lambda>k. merge_bars k (filter (\<lambda>b. ?g b = k) ds)) (sorted_list_of_set {k \<in> ?g ` set ds. ?late k})"
    if "set ds \<subseteq> set bs" for ds
  proof -
    have "filter (\<lambda>k. closes_by as_of minutes (merge_bars k (filter (\<lambda>b. ?g b = k) ds))) (sorted_list_of_set (?g ` set ds))
        = filter ?late (sorted_list_of_set (?g ` set ds))"
      using that assms by (intro filter_cong) (auto simp: merge_bars_closes)
    then show ?thesis by (simp add: only_closed_candles_def bars_of_def filter_map comp_def filter_sorted_list_of_set)
  qed
  have member: "closes_by as_of 5 b" if "b \<in> set bs" "?late (?g b)" for b
    using that assms bucket_members_closed by blast
  then have "{k \<in> ?g ` set cs. ?late k} = {k \<in> ?g ` set bs. ?late k}"
    by (auto simp: cs_def only_closed_candles_def)
  moreover have "filter (\<lambda>b. ?g b = k) cs = filter (\<lambda>b. ?g b = k) bs" if "?late k" for k
    using member that by (auto simp: cs_def only_closed_candles_def intro: filter_cong)
  ultimately show ?thesis unfolding cs_def [symmetric] using expand [of bs] expand [OF sub] by auto
qed

lemma features_of_closed_bars:
  assumes "only_closed_candles a as_of 5 = only_closed_candles a' as_of 5"
    and "only_closed_candles b as_of 15 = only_closed_candles b' as_of 15"
    and "only_closed_candles c as_of 240 = only_closed_candles c' as_of 240"
  shows "compute_features st a b c as_of stale cvd = compute_features st a' b' c' as_of stale cvd"
  using assms by (simp add: compute_features_def)

section \<open>Confluence\<close>

text \<open>What an evaluation of model \<open>i\<close> is: it carries that name, and confirms an enabled model only.\<close>

definition evaluates :: "strategy_config \<Rightarrow> string \<Rightarrow> evaluation \<Rightarrow> bool" where
  "evaluates st i e \<longleftrightarrow> mv_model_id e = i
     \<and> (mv_status e = Confirmed \<longrightarrow> (\<exists>m. model_by_id st i = Some m \<and> tm_enabled m) \<and> mv_evidence e \<noteq> [])"

lemma verdict_simps [simp]:
  "mv_model_id (unavailable i w) = i" "mv_model_id (rejected_model i w) = i" "mv_model_id (confirmed_model i es) = i"
  "mv_status (unavailable i w) = Unavailable" "mv_status (rejected_model i w) = Rejected"
  "mv_status (confirmed_model i es) = Confirmed" "mv_evidence (confirmed_model i es) = es"
  by (simp_all add: unavailable_def rejected_model_def confirmed_model_def)

lemma sweep_verdict_facts:
  "mv_model_id (sweep_verdict u d) = ''M1''" "mv_status (sweep_verdict u d) = Confirmed \<Longrightarrow> mv_evidence (sweep_verdict u d) \<noteq> []"
  by (auto simp: sweep_verdict_def)

lemma with_model_evaluates:
  assumes "with_model st i f = Inr e"
    and "\<And>m. f m = Inr e \<Longrightarrow> mv_model_id e = i \<and> (mv_status e = Confirmed \<longrightarrow> mv_evidence e \<noteq> [])"
  shows "evaluates st i e"
  using assms by (cases "model_by_id st i") (auto simp: with_model_def evaluates_def split: if_splits)

lemma evaluations:
  "eval_m1 st x = Inr e1 \<Longrightarrow> evaluates st ''M1'' e1" "eval_m2 st x bias = Inr e2 \<Longrightarrow> evaluates st ''M2'' e2"
  "eval_m3 st cvd = Inr e3 \<Longrightarrow> evaluates st ''M3'' e3 \<and> mv_status e3 \<noteq> Confirmed"
  "eval_m4 st c15 c240 fvgs msb = Inr e4 \<Longrightarrow> evaluates st ''M4'' e4"
proof -
  show "evaluates st ''M1'' e1" if "eval_m1 st x = Inr e1"
    using that unfolding eval_m1_def
    apply (rule with_model_evaluates)
    subgoal for m
      by (cases "fi_adx x"; cases "fi_ema_fast x"; cases "fi_ema_slow x";
          auto simp: bind_res_Inr_iff Let_def sweep_verdict_facts(1) dest: sweep_verdict_facts(2))
    done
  show "evaluates st ''M2'' e2" if "eval_m2 st x bias = Inr e2"
    using that unfolding eval_m2_def
    apply (rule with_model_evaluates)
    subgoal for m
      by (cases "fi_vwap x"; cases "fi_atr x"; cases "fi_relative x"; auto simp: Let_def split: if_split_asm)
    done
  show "evaluates st ''M4'' e4" if "eval_m4 st c15 c240 fvgs msb = Inr e4"
    using that unfolding eval_m4_def
    by (rule with_model_evaluates) (auto split: if_splits)
  show "evaluates st ''M3'' e3 \<and> mv_status e3 \<noteq> Confirmed" if "eval_m3 st cvd = Inr e3"
  proof
    show "evaluates st ''M3'' e3"
      using that unfolding eval_m3_def by (rule with_model_evaluates) (auto split: if_splits)
    show "mv_status e3 \<noteq> Confirmed"
      using that by (auto simp: eval_m3_def with_model_def split: option.splits if_splits)
  qed
qed

lemma confluence_counts:
  "cf_confirmed (confluence_of ms) \<le> cf_available (confluence_of ms)" "cf_available (confluence_of ms) \<le> length ms"
  "length (cf_confirmed_ids (confluence_of ms)) = cf_confirmed (confluence_of ms)"
  "length ms \<le> 1000 \<Longrightarrow> in_range 1 (cf_ratio (confluence_of ms))"
proof -
  let ?c = "length (filter (\<lambda>m. mv_status m = Confirmed) ms)" and ?a = "length (filter (\<lambda>m. mv_status m \<noteq> Unavailable) ms)"
  have le: "?c \<le> ?a" by (induction ms) auto
  then show "cf_confirmed (confluence_of ms) \<le> cf_available (confluence_of ms)"
    by (simp add: confluence_of_def Let_def)
  show "cf_available (confluence_of ms) \<le> length ms" by (simp add: confluence_of_def Let_def)
  show "length (cf_confirmed_ids (confluence_of ms)) = cf_confirmed (confluence_of ms)"
    by (simp add: confluence_of_def Let_def)
  assume "length ms \<le> 1000"
  then have small: "?a \<le> 1000" using length_filter_le le_trans by blast
  show "in_range 1 (cf_ratio (confluence_of ms))"
  proof (cases "?a = 0")
    case False
    have "fquot (f_of_int (int ?c)) (f_of_int (int ?a)) = rnd (of_int (int ?c) / of_int (int ?a))"
      using small le False by (simp add: whole_def)
    moreover have "0 \<le> rat_of_int (int ?c) / of_int (int ?a)" "rat_of_int (int ?c) / of_int (int ?a) \<le> 1"
      using le False by (simp_all add: divide_le_eq_1)
    ultimately have "in_range 1 (fquot (f_of_int (int ?c)) (f_of_int (int ?a)))"
      using in_range_rnd [of 1 "rat_of_int (int ?c) / of_int (int ?a)"] rnd_whole [of 1] by simp
    with False show ?thesis by (simp add: confluence_of_def Let_def)
  qed (simp add: confluence_of_def Let_def in_range_def)
qed

text \<open>The confluence counts real confirmations: the ratio lies between zero and one, at most four models are
available and no more confirmed than available, and every confirmed name is that of a model the strategy has
and enables, never of M3, for which no order flow is at hand.\<close>

theorem confluence_counts_enabled_models:
  assumes "compute_features st b5 b15 b240 as_of stale cvd = Inr bn"
  shows "cf_confirmed (bn_confluence bn) \<le> cf_available (bn_confluence bn) \<and> cf_available (bn_confluence bn) \<le> 4
    \<and> length (cf_confirmed_ids (bn_confluence bn)) = cf_confirmed (bn_confluence bn)
    \<and> in_range 1 (cf_ratio (bn_confluence bn))
    \<and> (\<forall>i\<in>set (cf_confirmed_ids (bn_confluence bn)). i \<noteq> ''M3'' \<and> (\<exists>m. model_by_id st i = Some m \<and> tm_enabled m))"
proof (cases "bn_confluence bn = no_confluence")
  case False
  then obtain x bias c15 c240 fvgs msb m1 m2 m3 m4 where
    m: "eval_m1 st x = Inr m1" "eval_m2 st x bias = Inr m2" "eval_m3 st cvd = Inr m3" "eval_m4 st c15 c240 fvgs msb = Inr m4"
    and bn: "bn_confluence bn = confluence_of [m1, m2, m3, m4]"
    using assms by (auto simp: compute_features_def no_features_def Let_def bind_res_Inr_iff split: if_split_asm)
  have ev: "evaluates st ''M1'' m1" "evaluates st ''M2'' m2" "evaluates st ''M3'' m3" "mv_status m3 \<noteq> Confirmed"
    "evaluates st ''M4'' m4"
    using evaluations m by blast+
  have "i \<noteq> ''M3'' \<and> (\<exists>m. model_by_id st i = Some m \<and> tm_enabled m)"
    if i: "i \<in> set (cf_confirmed_ids (confluence_of [m1, m2, m3, m4]))" for i
  proof -
    obtain e where e: "e \<in> {m1, m2, m3, m4}" "mv_status e = Confirmed" "i = mv_model_id e"
      using i by (auto simp: confluence_of_def Let_def split: if_split_asm)
    with ev(4) have "e \<in> {m1, m2, m4}" by auto
    with e ev show ?thesis by (auto simp: evaluates_def)
  qed
  with confluence_counts [of "[m1, m2, m3, m4]"] show ?thesis by (simp add: bn)
qed (simp add: no_confluence_def in_range_def)

theorem confluence_counts_enabled_models_witness:
  "\<exists>bn. compute_features (demo_strategy ''Alpha'') [] [] [] 0 False ''UNAVAILABLE'' = Inr bn
    \<and> cf_available (bn_confluence bn) \<le> 4 \<and> in_range 1 (cf_ratio (bn_confluence bn))"
proof -
  have "compute_features (demo_strategy ''Alpha'') [] [] [] 0 False ''UNAVAILABLE''
      = Inr (no_features UNAVAILABLE (Some ''Insufficient closed 5m candles''))"
    by (simp add: compute_features_def only_closed_candles_def)
  from confluence_counts_enabled_models [OF this] this show ?thesis by blast
qed

section \<open>Time frames read back\<close>

lemma digits_are_digits: "c \<in> set (dec_digits n) \<Longrightarrow> is_digit c"
proof (induction n rule: dec_digits.induct)
  case (1 n)
  have small: "is_digit (digit_char d)" if "d < 10" for d
  proof -
    have "\<forall>d\<in>set [0..<10]. is_digit (digit_char d)" by code_simp
    with that show ?thesis by simp
  qed
  show ?case
  proof (cases "n < 10")
    case True
    with "1.prems" small show ?thesis by (simp add: dec_digits.simps [of n])
  next
    case False
    with 1 small [of "n mod 10"] show ?thesis by (auto simp: dec_digits.simps [of n])
  qed
qed

lemma dec_digits_Cons: "dec_digits n \<noteq> []"
  by (simp add: dec_digits.simps [of n])

lemma int_body_digits:
  "\<forall>c\<in>set s. is_digit c \<Longrightarrow> p \<or> s \<noteq> [] \<Longrightarrow> int_body p acc s = Some (dec_value acc s)"
  by (induction s arbitrary: p acc) auto

lemma digit_plain: "is_digit c \<Longrightarrow> \<not> is_space c \<and> char_lower c = c \<and> c \<noteq> CHR ''-'' \<and> c \<noteq> CHR ''+''"
proof -
  have "\<forall>c\<in>set ''0123456789''. \<not> is_space c \<and> char_lower c = c \<and> c \<noteq> CHR ''-'' \<and> c \<noteq> CHR ''+''"
    by (simp add: is_space_def)
  then show "is_digit c \<Longrightarrow> \<not> is_space c \<and> char_lower c = c \<and> c \<noteq> CHR ''-'' \<and> c \<noteq> CHR ''+''"
    by (auto simp only: is_digit_def)
qed

lemma strip_plain: "(\<And>c. c \<in> set s \<Longrightarrow> \<not> is_space c) \<Longrightarrow> py_strip s = s"
  unfolding py_strip_def by (rule trim_fixed) (cases s; auto simp: trimmed_def)

lemma parse_int_digits: "parse_int (dec_digits n) = Inr (int n)"
proof -
  obtain c r where cr: "dec_digits n = c # r" using dec_digits_Cons [of n] by (cases "dec_digits n") auto
  have all: "\<forall>c\<in>set (dec_digits n). is_digit c" using digits_are_digits by blast
  then have "py_strip (dec_digits n) = dec_digits n" using digit_plain by (intro strip_plain) blast
  moreover have "int_body False 0 (dec_digits n) = Some n"
    using int_body_digits [OF all, of False 0] dec_digits_Cons by (simp add: dec_value_digits)
  moreover have "c \<noteq> CHR ''-''" "c \<noteq> CHR ''+''" using all digit_plain cr by auto
  ultimately show ?thesis by (simp add: parse_int_def cr)
qed

lemma timeframe_text:
  assumes "u \<in> {CHR ''m'', CHR ''h'', CHR ''d''}"
  shows "py_lower (py_strip (dec_digits n @ [u])) = dec_digits n @ [u]"
proof -
  have u: "\<not> is_space u" "char_lower u = u" using assms by (auto simp: is_space_def)
  then have "py_strip (dec_digits n @ [u]) = dec_digits n @ [u]"
    using digits_are_digits digit_plain by (intro strip_plain) auto
  moreover have "map char_lower (dec_digits n) = dec_digits n"
    using digits_are_digits digit_plain by (intro map_idI) blast
  ultimately show ?thesis using u by (simp add: py_lower_def)
qed

text \<open>A time frame reads back: the text of a count followed by its unit is parsed to that count of minutes,
hours or days in minutes, for every count; a count of weeks is refused with an error.\<close>

theorem timeframe_round_trip:
  "timeframe_to_minutes (dec_digits n @ ''m'') = Inr (int n)
    \<and> timeframe_to_minutes (dec_digits n @ ''h'') = Inr (int n * 60)
    \<and> timeframe_to_minutes (dec_digits n @ ''d'') = Inr (int n * 1440)
    \<and> timeframe_to_minutes (dec_digits n @ ''w'') = Inl (ValueError (''Unsupported timeframe: '' @ dec_digits n @ ''w''))"
proof -
  have ends: "py_endswith (dec_digits n @ [u]) [v] \<longleftrightarrow> u = v" for u v by (auto simp: py_endswith_def)
  have w: "py_lower (py_strip (dec_digits n @ ''w'')) = dec_digits n @ ''w''"
  proof -
    have "py_strip (dec_digits n @ ''w'') = dec_digits n @ ''w''"
      using digits_are_digits digit_plain by (intro strip_plain) (auto simp: is_space_def)
    moreover have "map char_lower (dec_digits n) = dec_digits n"
      using digits_are_digits digit_plain by (intro map_idI) blast
    ultimately show ?thesis by (simp add: py_lower_def)
  qed
  show ?thesis
    using timeframe_text [of "CHR ''m''" n] timeframe_text [of "CHR ''h''" n] timeframe_text [of "CHR ''d''" n] w
    by (simp add: timeframe_to_minutes_def ends parse_int_digits)
qed

end
