(* ===== verification/Okf_Strategies.thy ===== *)
theory Okf_Strategies
  imports Strategy_Features
begin

text \<open>
  \<open>okf/strategies.py\<close>: the registry of the five OKF strategies and their signal
  generators.  A signal is a decision object; none of them carries an order.  The texts
  that print a float are parameters; the arrows of one message are written \<open>->\<close>.
\<close>

definition okf_strategy_ids :: "string list" where
  "okf_strategy_ids = [''M1_PO3_SWEEP'', ''M2_VWAP_RECLAIM'', ''M3_ICT_FVG_SWING'', ''M4_PREDICTION_MARKET_AI'',
     ''M5_MOMENTUM_BREAKOUT'']"

datatype signal_data =
    Level_Data string pyfloat "pyfloat option"
  | Reclaim_Data pyfloat pyfloat pyfloat string
  | Swing_Data gap pyfloat structure_break
  | Label_Note
  | Ensemble_Data pyfloat pyfloat pyfloat
  | Breakout_Data pyfloat pyfloat "pyfloat option" pyfloat

record strategy_signal =
  sl_model_id :: string
  sl_status :: verdict
  sl_side :: "string option"
  sl_entry_style :: string
  sl_reasons :: "string list"
  sl_evidence :: "string list"
  sl_metadata :: "signal_data option"
  sl_submits_exchange_order :: bool

definition signal_off :: "string \<Rightarrow> verdict \<Rightarrow> string \<Rightarrow> signal_data option \<Rightarrow> strategy_signal" where
  "signal_off i v why d = \<lparr>sl_model_id = i, sl_status = v, sl_side = None, sl_entry_style = ''LIMIT'', sl_reasons = [why],
     sl_evidence = [], sl_metadata = d, sl_submits_exchange_order = False\<rparr>"

definition signal_on :: "string \<Rightarrow> string \<Rightarrow> string \<Rightarrow> signal_data \<Rightarrow> strategy_signal" where
  "signal_on i side evidence d = \<lparr>sl_model_id = i, sl_status = Confirmed, sl_side = Some side, sl_entry_style = ''LIMIT'',
     sl_reasons = [], sl_evidence = [evidence], sl_metadata = Some d, sl_submits_exchange_order = False\<rparr>"

section \<open>The registry\<close>

text \<open>The loaded document: its version, its hash and its strategies in order, each a name and a body;
  an entry without a name, or that is no object, is skipped.\<close>

record 'b okf_loaded =
  ol_version :: string
  ol_hash :: string
  ol_strategies :: "(string option \<times> 'b) list"

definition okf_registry :: "'b okf_loaded \<Rightarrow> (string \<times> 'b) list" where
  "okf_registry l = foldl (\<lambda>d (i, b). if opt_truthy i then dput (opt_default i []) b d else d) [] (ol_strategies l)"

definition okf_get :: "(string \<times> 'b) list \<Rightarrow> string \<Rightarrow> 'b res" where
  "okf_get reg i = (case dget reg i of None \<Rightarrow> Inl (KeyError i) | Some b \<Rightarrow> Inr b)"

definition okf_list_all :: "(string \<times> 'b) list \<Rightarrow> 'b list res" where
  "okf_list_all reg = map_res (okf_get reg) (filter (\<lambda>i. dmem i reg) okf_strategy_ids)"

section \<open>M1: sweeps of session levels\<close>

definition sweep_high :: "bar \<Rightarrow> pyfloat option \<Rightarrow> bool" where
  "sweep_high b level = (case level of None \<Rightarrow> False
     | Some v \<Rightarrow> flt v (br_high b) \<and> flt (br_close b) v \<and> flt (br_close b) (br_open b))"

definition sweep_low :: "bar \<Rightarrow> pyfloat option \<Rightarrow> bool" where
  "sweep_low b level = (case level of None \<Rightarrow> False
     | Some v \<Rightarrow> flt (br_low b) v \<and> flt v (br_close b) \<and> flt (br_open b) (br_close b))"

definition evaluate_m1_po3_sweep :: "(pyfloat \<Rightarrow> string) \<Rightarrow> pyfloat \<Rightarrow> pyfloat \<Rightarrow> bar list \<Rightarrow> strategy_signal res" where
  "evaluate_m1_po3_sweep str adx_min volume_mult bs =
     (let i = ''M1_PO3_SWEEP'' in
      if length bs < 40 then Inr (signal_off i Unavailable ''Insufficient candles'' None)
      else bind_res (adx (map br_high bs) (map br_low bs) (map br_close bs) 14) (\<lambda>(adx_vals, plus_di, minus_di).
        bind_res (volume_metrics (map br_volume bs) 20) (\<lambda>vol.
        let lv = session_levels bs; final = last bs; rel = vs_relative vol in
        case last_number adx_vals of
          None \<Rightarrow> Inr (signal_off i Rejected (''ADX<'' @ str adx_min) None)
        | Some ax \<Rightarrow>
            if fle ax adx_min then Inr (signal_off i Rejected (''ADX<'' @ str adx_min) None)
            else if flt (float_or rel (Fin 0)) volume_mult then Inr (signal_off i Rejected (''volume<'' @ str volume_mult @ ''x'') None)
            else if sweep_high final (fv_value (lv_pdh lv))
              then Inr (signal_on i ''SHORT'' ''PDH sweep with bearish body rejection'' (Level_Data ''PDH'' ax rel))
            else if sweep_low final (fv_value (lv_pdl lv))
              then Inr (signal_on i ''LONG'' ''PDL sweep with bullish body rejection'' (Level_Data ''PDL'' ax rel))
            else if sweep_high final (fv_value (lv_pmh lv))
              then Inr (signal_on i ''SHORT'' ''PMH sweep with bearish body rejection'' (Level_Data ''PMH'' ax None))
            else if sweep_low final (fv_value (lv_pml lv))
              then Inr (signal_on i ''LONG'' ''PML sweep with bullish body rejection'' (Level_Data ''PML'' ax None))
            else Inr (signal_off i Rejected ''No PDH/PDL/PMH/PML sweep+rejection'' None))))"

section \<open>M2: reclaims of the volume weighted price\<close>

text \<open>The decision once both averages are there.\<close>

definition reclaim_signal :: "pyfloat \<Rightarrow> bar list \<Rightarrow> bar list \<Rightarrow> pyfloat \<Rightarrow> pyfloat \<Rightarrow> strategy_signal" where
  "reclaim_signal mult bs c4h v a =
     (let i = ''M2_VWAP_RECLAIM'' in
      if fle a (Fin 0) then signal_off i Unavailable ''VWAP/ATR unavailable'' None
      else if length c4h < 2 then signal_off i Unavailable ''4H bias unavailable'' None
      else let htf = htf_bias c4h; cl = br_close (last bs); prior = br_close (bs ! (length bs - 2));
               body = fabs (fsub cl (br_open (last bs)))
           in if flt body (fmul mult a) then signal_off i Rejected ''Displacement < 0.3 ATR'' None
              else if flt prior v \<and> fle v cl \<and> htf = ''bullish''
                then signal_on i ''LONG'' ''VWAP reclaim with displacement, 4H bullish'' (Reclaim_Data v body a htf)
              else if flt v prior \<and> fle cl v \<and> htf = ''bearish''
                then signal_on i ''SHORT'' ''VWAP lose with displacement, 4H bearish'' (Reclaim_Data v body a htf)
              else signal_off i Rejected ''No VWAP reclaim confluence'' None)"

definition evaluate_m2_vwap_reclaim :: "pyfloat \<Rightarrow> bar list \<Rightarrow> bar list \<Rightarrow> strategy_signal res" where
  "evaluate_m2_vwap_reclaim mult bs c4h =
     (let i = ''M2_VWAP_RECLAIM''; highs = map br_high bs; lows = map br_low bs; closes = map br_close bs in
      if length bs < 30 then Inr (signal_off i Unavailable ''Insufficient candles'' None)
      else bind_res (vwap highs lows closes (map br_volume bs)) (\<lambda>vwaps.
        bind_res (atr highs lows closes 14) (\<lambda>atrs. Inr
          (case (last_number vwaps, last_number atrs) of
             (Some v, Some a) \<Rightarrow> reclaim_signal mult bs c4h v a
           | _ \<Rightarrow> signal_off i Unavailable ''VWAP/ATR unavailable'' None))))"

section \<open>M3: fair value gaps after a swing sweep\<close>

definition swing_swept :: "bar \<Rightarrow> swings \<Rightarrow> swings \<Rightarrow> bool" where
  "swing_swept b sh sl \<longleftrightarrow> (sh \<noteq> [] \<and> flt (snd (last sh)) (br_high b)) \<or> (sl \<noteq> [] \<and> flt (br_low b) (snd (last sl)))"

definition gap_entry :: "pyfloat \<Rightarrow> string \<Rightarrow> pyfloat \<Rightarrow> pyfloat \<Rightarrow> gap \<Rightarrow> bool" where
  "gap_entry min_fib side fib price g \<longleftrightarrow>
     (let in_gap = fle (pmin (gap_bottom g) (gap_top g)) price \<and> fle price (pmax (gap_bottom g) (gap_top g));
          retraced = (side = ''LONG'' \<and> fle price fib) \<or> (side = ''SHORT'' \<and> fle fib price)
      in \<not> (fle (Fin (1 / 2)) min_fib \<and> \<not> (retraced \<and> in_gap)))"

definition evaluate_m3_ict_fvg :: "pyfloat \<Rightarrow> bar list \<Rightarrow> bar list \<Rightarrow> strategy_signal res" where
  "evaluate_m3_ict_fvg min_fib c15 c4h =
     (let i = ''M3_ICT_FVG_SWING''; highs = map br_high c15; lows = map br_low c15; closes = map br_close c15 in
      if length c15 < 40 \<or> length c4h < 5 then Inr (signal_off i Unavailable ''Insufficient HTF/LTF candles'' None)
      else bind_res (swing_points (map br_high c4h) (map br_low c4h) 2 2) (\<lambda>(h4h, h4l).
        if \<not> swing_swept (last c4h) h4h h4l then Inr (signal_off i Rejected ''No 4H swing high/low sweep'' None)
        else bind_res (swing_points highs lows 2 2) (\<lambda>(sh, sl).
          let msb = market_structure_break closes sh sl; direction = break_name msb in
          if direction \<notin> {''bullish_msb'', ''bearish_msb''} then Inr (signal_off i Rejected ''No 15m MSB'' None)
          else bind_res (detect_fair_value_gaps highs lows closes) (\<lambda>fvgs.
            if fvgs = [] then Inr (signal_off i Rejected ''No 15m FVG'' None)
            else if sh = [] \<or> sl = [] then Inr (signal_off i Rejected ''No swings for fib'' None)
            else case dget (fibonacci_levels (snd (last sl)) (snd (last sh))) ''0.5'' of
                None \<Rightarrow> Inr (signal_off i Rejected ''Fib 0.5 unavailable'' None)
              | Some fib \<Rightarrow>
                  (let side = (if direction = ''bullish_msb'' then ''LONG'' else ''SHORT''); g = last fvgs
                   in if gap_entry min_fib side fib (last closes) g
                      then Inr (signal_on i side ''4H sweep -> 15m MSB -> FVG -> Fib retrace; limit in FVG'' (Swing_Data g fib msb))
                      else Inr (signal_off i Rejected ''No retrace to >=0.5 Fib in FVG'' None))))))"

section \<open>M4: the prediction ensemble\<close>

definition default_weights :: "(string \<times> pyfloat) list" where
  "default_weights = [(''grok_forecaster'', flit (30 / 100)), (''claude_news_analyst'', flit (20 / 100)),
     (''gpt4_bull_advocate'', flit (20 / 100)), (''gemini_bear_advocate'', flit (15 / 100)),
     (''deepseek_risk_manager'', flit (15 / 100))]"

definition ensemble_probability :: "(string \<times> pyfloat) list \<Rightarrow> (string \<times> pyfloat) list \<Rightarrow> pyfloat" where
  "ensemble_probability weights probs = fsum (map (\<lambda>(k, w). fmul w (opt_default (dget probs k) NaN)) weights)"

definition evaluate_m4_prediction_ensemble ::
  "(pyfloat \<Rightarrow> string) \<Rightarrow> (pyfloat \<Rightarrow> string) \<Rightarrow> (string list \<Rightarrow> string) \<Rightarrow> (string \<times> pyfloat) list \<Rightarrow> pyfloat \<Rightarrow> pyfloat
   \<Rightarrow> (string \<times> pyfloat) list \<Rightarrow> pyfloat \<Rightarrow> strategy_signal" where
  "evaluate_m4_prediction_ensemble str f4 reprs probs market_prob sentiment weights0 threshold =
     (let i = ''M4_PREDICTION_MARKET_AI''; weights = (if weights0 = [] then default_weights else weights0);
          missing = [k. k \<leftarrow> map fst weights, \<not> dmem k probs]
      in if missing \<noteq> [] then signal_off i Unavailable (''Missing provider labels: '' @ reprs missing) (Some Label_Note)
         else let p = ensemble_probability weights probs; edge = fsub p market_prob; d = Ensemble_Data p edge sentiment
              in if flt sentiment (Fin 0) then signal_off i Rejected ''VADER sentiment < 0'' (Some d)
                 else if fle edge threshold then signal_off i Rejected (''edge '' @ f4 edge @ '' <= '' @ str threshold) (Some d)
                 else signal_on i ''LONG'' (''Ensemble edge '' @ f4 edge @ '' with non-negative sentiment'') d)"

section \<open>M5: breakouts\<close>

definition evaluate_m5_donchian_breakout ::
  "(pyfloat \<Rightarrow> string) \<Rightarrow> int \<Rightarrow> pyfloat \<Rightarrow> pyfloat \<Rightarrow> bar list \<Rightarrow> strategy_signal res" where
  "evaluate_m5_donchian_breakout str period volume_mult trail_mult bs =
     (let i = ''M5_MOMENTUM_BREAKOUT'';
          highs = map br_high bs; volumes = map br_volume bs in
      if int (length bs) < period + 5 then Inr (signal_off i Unavailable ''Insufficient 1h candles'' None)
      else bind_res (py_max (py_slice highs (- (period + 1)) (-1))) (\<lambda>channel_high.
        bind_res (fdiv (fsum (py_slice volumes (- (period + 1)) (-1))) (f_of_int period)) (\<lambda>avg.
        bind_res (atr highs (map br_low bs) (map br_close bs) 14) (\<lambda>atrs.
        let final = last bs in
        if fle (br_close final) channel_high then Inr (signal_off i Rejected ''No 20-period high break'' None)
        else if fle avg (Fin 0) \<or> flt (br_volume final) (fmul volume_mult avg)
          then Inr (signal_off i Rejected (''volume < '' @ str volume_mult @ ''x avg'') None)
        else bind_res (fdiv (br_volume final) avg) (\<lambda>rel.
          Inr (signal_on i ''LONG'' ''Donchian 20 high break with volume confirmation''
            (Breakout_Data channel_high rel (map_option (fmul trail_mult) (last_number atrs)) trail_mult)))))))"

section \<open>All five\<close>

definition even_probs :: "(string \<times> pyfloat) list" where
  "even_probs = map (\<lambda>(k, w). (k, flit (55 / 100))) default_weights"

definition evaluate_all_okf_strategies ::
  "(pyfloat \<Rightarrow> string) \<Rightarrow> (pyfloat \<Rightarrow> string) \<Rightarrow> (string list \<Rightarrow> string) \<Rightarrow> bar list \<Rightarrow> bar list \<Rightarrow> bar list \<Rightarrow> bar list
   \<Rightarrow> (string \<times> pyfloat) list \<Rightarrow> pyfloat \<Rightarrow> pyfloat \<Rightarrow> strategy_signal list res" where
  "evaluate_all_okf_strategies str f4 reprs c5 c15 c1h c4h probs market_prob sentiment =
     bind_res (evaluate_m1_po3_sweep str (Fin 21) (flit (13 / 10)) c5) (\<lambda>m1.
     bind_res (evaluate_m2_vwap_reclaim (flit (3 / 10)) c5 c4h) (\<lambda>m2.
     bind_res (if c4h = [] then Inr (signal_off ''M3_ICT_FVG_SWING'' Unavailable ''No 4H'' None)
               else evaluate_m3_ict_fvg (Fin (1 / 2)) (if c15 = [] then c5 else c15) c4h) (\<lambda>m3.
     let m4 = evaluate_m4_prediction_ensemble str f4 reprs (if probs = [] then even_probs else probs) market_prob sentiment []
                (flit (4 / 100)) in
     bind_res (evaluate_m5_donchian_breakout str 20 (flit (15 / 10)) (Fin 2) (if c1h = [] then c5 else c1h)) (\<lambda>m5.
       Inr [m1, m2, m3, m4, m5]))))"

section \<open>What every signal is\<close>

definition plain_signal :: "string \<Rightarrow> strategy_signal \<Rightarrow> bool" where
  "plain_signal i s \<longleftrightarrow> sl_model_id s = i \<and> \<not> sl_submits_exchange_order s
     \<and> (sl_status s = Confirmed \<longleftrightarrow> sl_side s \<in> {Some ''LONG'', Some ''SHORT''})
     \<and> (sl_status s = Confirmed \<longleftrightarrow> sl_reasons s = [])"

lemma signal_off_plain [simp]: "plain_signal i (signal_off j v w d) \<longleftrightarrow> i = j \<and> v \<noteq> Confirmed"
  by (auto simp: plain_signal_def signal_off_def)

lemma signal_on_plain [simp]: "plain_signal i (signal_on j side w d) \<longleftrightarrow> i = j \<and> side \<in> {''LONG'', ''SHORT''}"
  by (auto simp: plain_signal_def signal_on_def)

lemma plain_m1: "ensures (plain_signal ''M1_PO3_SWEEP'') (evaluate_m1_po3_sweep str ax vm bs)"
  by (auto simp: evaluate_m1_po3_sweep_def Let_def split: option.split)

lemma reclaim_plain: "plain_signal ''M2_VWAP_RECLAIM'' (reclaim_signal k bs c4h v a)"
  by (simp add: reclaim_signal_def Let_def)

lemma plain_m2: "ensures (plain_signal ''M2_VWAP_RECLAIM'') (evaluate_m2_vwap_reclaim k bs c4h)"
  by (auto simp: evaluate_m2_vwap_reclaim_def Let_def reclaim_plain split: option.split)

lemma plain_m3: "ensures (plain_signal ''M3_ICT_FVG_SWING'') (evaluate_m3_ict_fvg k c15 c4h)"
  by (auto simp: evaluate_m3_ict_fvg_def Let_def split: option.split)

lemma plain_m4: "plain_signal ''M4_PREDICTION_MARKET_AI'' (evaluate_m4_prediction_ensemble str f4 r ps mp se ws th)"
  by (simp add: evaluate_m4_prediction_ensemble_def Let_def)

lemma plain_m5: "ensures (plain_signal ''M5_MOMENTUM_BREAKOUT'') (evaluate_m5_donchian_breakout str p vm tm bs)"
  by (auto simp: evaluate_m5_donchian_breakout_def Let_def)

text \<open>The five OKF generators answer in the registry's order, none of their signals submits an exchange order, a
signal has a side exactly when it is confirmed and a reason exactly when it is not; the prediction signal is
confirmed only on a sentiment that is not negative and an edge that is not at most four percent.\<close>

theorem okf_signals_never_submit:
  assumes "evaluate_all_okf_strategies str f4 reprs c5 c15 c1h c4h probs mp sentiment = Inr ss"
  shows "map sl_model_id ss = okf_strategy_ids \<and> (\<forall>s\<in>set ss. plain_signal (sl_model_id s) s)
    \<and> (sl_status (ss ! 3) = Confirmed \<longrightarrow> \<not> flt sentiment (Fin 0)
        \<and> \<not> fle (fsub (ensemble_probability default_weights (if probs = [] then even_probs else probs)) mp) (flit (4 / 100)))"
proof -
  let ?m4 = "evaluate_m4_prediction_ensemble str f4 reprs (if probs = [] then even_probs else probs) mp sentiment [] (flit (4 / 100))"
  obtain m1 m2 m3 m5 where ss: "ss = [m1, m2, m3, ?m4, m5]"
    and "plain_signal ''M1_PO3_SWEEP'' m1" "plain_signal ''M2_VWAP_RECLAIM'' m2" "plain_signal ''M3_ICT_FVG_SWING'' m3"
      "plain_signal ''M5_MOMENTUM_BREAKOUT'' m5"
    using assms ensuresD [OF plain_m1] ensuresD [OF plain_m2] ensuresD [OF plain_m3] ensuresD [OF plain_m5]
    by (auto simp: evaluate_all_okf_strategies_def bind_res_Inr_iff Let_def split: if_split_asm)
  moreover from this(2-5) have "sl_model_id m1 = ''M1_PO3_SWEEP''" "sl_model_id m2 = ''M2_VWAP_RECLAIM''"
    "sl_model_id m3 = ''M3_ICT_FVG_SWING''" "sl_model_id m5 = ''M5_MOMENTUM_BREAKOUT''"
    by (simp_all add: plain_signal_def)
  moreover have "plain_signal ''M4_PREDICTION_MARKET_AI'' ?m4" "sl_model_id ?m4 = ''M4_PREDICTION_MARKET_AI''"
    using plain_m4 unfolding plain_signal_def by blast+
  moreover have "\<not> flt sentiment (Fin 0)
      \<and> \<not> fle (fsub (ensemble_probability default_weights (if probs = [] then even_probs else probs)) mp) (flit (4 / 100))"
    if "sl_status ?m4 = Confirmed"
    using that by (auto simp: evaluate_m4_prediction_ensemble_def signal_off_def Let_def split: if_split_asm)
  ultimately show ?thesis by (simp add: okf_strategy_ids_def)
qed

theorem okf_signals_never_submit_witness:
  "\<exists>ss. evaluate_all_okf_strategies (\<lambda>_. []) (\<lambda>_. []) (\<lambda>_. []) [] [] [] [] [] (Fin 0) (Fin 0) = Inr ss
    \<and> map sl_model_id ss = okf_strategy_ids"
proof -
  have "evaluate_m1_po3_sweep str (Fin 21) (flit (13 / 10)) [] = Inr (signal_off ''M1_PO3_SWEEP'' Unavailable ''Insufficient candles'' None)" for str
    by (simp add: evaluate_m1_po3_sweep_def)
  then obtain ss where ss: "evaluate_all_okf_strategies (\<lambda>_. []) (\<lambda>_. []) (\<lambda>_. []) [] [] [] [] [] (Fin 0) (Fin 0) = Inr ss"
    by (simp add: evaluate_all_okf_strategies_def evaluate_m2_vwap_reclaim_def evaluate_m5_donchian_breakout_def Let_def)
  from okf_signals_never_submit [OF this] ss show ?thesis by blast
qed

section \<open>Breakouts are above the channel\<close>

lemma foldl_pmax_upper:
  "a \<noteq> NaN \<Longrightarrow> \<forall>x\<in>set xs. x \<noteq> NaN \<Longrightarrow> foldl pmax a xs \<noteq> NaN \<and> (\<forall>x\<in>insert a (set xs). fle x (foldl pmax a xs))"
proof (induction xs arbitrary: a)
  case (Cons x xs)
  have m: "pmax a x \<noteq> NaN" "fle a (pmax a x)" "fle x (pmax a x)"
    using Cons.prems by (cases a; cases x; auto simp: pmax_def)+
  have "foldl pmax (pmax a x) xs \<noteq> NaN \<and> (\<forall>y\<in>insert (pmax a x) (set xs). fle y (foldl pmax (pmax a x) xs))"
    using Cons.prems m(1) by (intro Cons.IH) auto
  with m show ?case by (auto intro: fle_trans)
qed simp

lemma py_max_upper:
  "py_max xs = Inr m \<Longrightarrow> \<forall>x\<in>set xs. x \<noteq> NaN \<Longrightarrow> m \<noteq> NaN \<and> (\<forall>x\<in>set xs. fle x m)"
  using foldl_pmax_upper by (fastforce simp: py_max_def split: list.splits)

lemma not_fle_flt: "x \<noteq> NaN \<Longrightarrow> y \<noteq> NaN \<Longrightarrow> \<not> fle x y \<Longrightarrow> flt y x"
  by (cases x; cases y) auto

text \<open>A confirmed momentum breakout is one: there are at least twenty five candles, the side is long, and the last
close is strictly above the high of each of the twenty candles before the last one (no price being NaN).\<close>

theorem breakout_above_channel:
  assumes "evaluate_m5_donchian_breakout str 20 vm tm bs = Inr s" and "sl_status s = Confirmed"
    and "\<forall>b\<in>set bs. br_high b \<noteq> NaN \<and> br_close b \<noteq> NaN"
  shows "25 \<le> length bs \<and> sl_side s = Some ''LONG''
    \<and> (\<forall>b\<in>set (butlast (last_n 21 bs)). flt (br_high b) (br_close (last bs)))"
proof -
  have len: "25 \<le> length bs"
    using assms(1,2) by (auto simp: evaluate_m5_donchian_breakout_def signal_off_def Let_def split: if_split_asm)
  obtain top where top: "py_max (py_slice (map br_high bs) (- 21) (-1)) = Inr top" "\<not> fle (br_close (last bs)) top"
    and side: "sl_side s = Some ''LONG''"
    using assms(1,2)
    by (auto simp: evaluate_m5_donchian_breakout_def signal_off_def signal_on_def bind_res_Inr_iff Let_def split: if_split_asm)
  have window: "py_slice (map br_high bs) (- 21) (-1) = map br_high (butlast (last_n 21 bs))"
  proof -
    have "slice_index (length bs) (- 21) = length bs - 21" "slice_index (length bs) (- 1) = length bs - 1"
      using len by (auto simp: slice_index_def)
    then show ?thesis using len by (simp add: py_slice_def last_n_def butlast_conv_take take_map drop_map)
  qed
  have "set (butlast (last_n 21 bs)) \<subseteq> set bs"
    using set_last_n [of 21 bs] in_set_butlastD by fastforce
  then have members: "br_high b \<noteq> NaN" if "b \<in> set (butlast (last_n 21 bs))" for b
    using that assms(3) by blast
  then have upper: "top \<noteq> NaN" "fle (br_high b) top" if "b \<in> set (butlast (last_n 21 bs))" for b
    using that py_max_upper [OF top(1)] by (auto simp: window)
  have "br_close (last bs) \<noteq> NaN" using assms(3) len by (metis last_in_set list.size(3) not_numeral_le_zero)
  then have "flt (br_high b) (br_close (last bs))" if "b \<in> set (butlast (last_n 21 bs))" for b
    using that upper [of b] top(2) by (blast intro: fle_flt_trans not_fle_flt)
  with len side show ?thesis by blast
qed

end
