(* ===== verification/Llm.thy ===== *)
theory Llm
  imports Durable_Store
begin

text \<open>
  \<open>llm/providers.py\<close>: the router that asks the configured providers in turn, the
  extraction of a JSON object from an answer, the mock provider and the four that speak to
  a service.  The HTTP library, \<open>json.loads\<close> and \<open>json.dumps\<close> are parameters; the
  latency and the raw answer, which nothing reads, are left out.
\<close>

section \<open>The router\<close>

text \<open>The content of an answer is what the service put there: text, or any other JSON value.\<close>

record llm_response =
  lr_content :: json
  lr_provider :: string
  lr_model :: string

text \<open>\<open>complete\<close> takes the prompt, the model and the system text.\<close>

record llm_provider =
  pv_available :: bool
  pv_complete :: "string \<Rightarrow> string \<Rightarrow> string option \<Rightarrow> llm_response res"

definition router_get :: "(string \<times> llm_provider) list \<Rightarrow> string \<Rightarrow> llm_provider res" where
  "router_get ps name = (case dget ps name of
     None \<Rightarrow> Inl (LLMError (''Unknown LLM provider: '' @ name)) | Some p \<Rightarrow> Inr p)"

fun join :: "string \<Rightarrow> string list \<Rightarrow> string" where
  "join sep [] = []"
| "join sep [s] = s"
| "join sep (s # t # ts) = s @ sep @ join sep (t # ts)"

fun ask_chain ::
  "(py_error \<Rightarrow> string) \<Rightarrow> (string \<times> llm_provider) list \<Rightarrow> string \<Rightarrow> string \<Rightarrow> string option \<Rightarrow> string list \<Rightarrow> string list
   \<Rightarrow> llm_response res" where
  "ask_chain show ps prompt model system [] errors =
     Inl (LLMError (''No usable LLM provider. New discretionary trades must not be opened. '' @ join ''; '' errors))"
| "ask_chain show ps prompt model system (name # names) errors =
     (case router_get ps name of
        Inl e \<Rightarrow> ask_chain show ps prompt model system names (errors @ [name @ '': '' @ show e])
      | Inr p \<Rightarrow>
          if \<not> pv_available p then ask_chain show ps prompt model system names (errors @ [name @ '': unavailable''])
          else case pv_complete p prompt model system of
                 Inl e \<Rightarrow> ask_chain show ps prompt model system names (errors @ [name @ '': '' @ show e])
               | Inr r \<Rightarrow> Inr r)"

definition router_complete ::
  "(py_error \<Rightarrow> string) \<Rightarrow> (string \<times> llm_provider) list \<Rightarrow> string \<Rightarrow> string \<Rightarrow> string \<Rightarrow> string option \<Rightarrow> string list
   \<Rightarrow> llm_response res" where
  "router_complete show ps provider model prompt system fallbacks =
     ask_chain show ps prompt model system (provider # fallbacks) []"

section \<open>The answer\<close>

text \<open>The greedy match of \<open>{.*}\<close> over all lines: from the first opening to the last closing brace.\<close>

definition braces :: "string \<Rightarrow> string option" where
  "braces s = (let t = dropWhile (\<lambda>c. c \<noteq> CHR ''{'') s; u = rev (dropWhile (\<lambda>c. c \<noteq> CHR ''}'') (rev t))
               in if u = [] then None else Some u)"

definition parse_json_text :: "(string \<Rightarrow> json option) \<Rightarrow> string \<Rightarrow> json_obj res" where
  "parse_json_text loads content =
     (let c = py_strip content
      in case loads c of
           Some (JObj d) \<Rightarrow> Inr d
         | _ \<Rightarrow> (case braces c of
               None \<Rightarrow> Inl (LLMError ''LLM returned malformed JSON'')
             | Some m \<Rightarrow> (case loads m of
                   Some (JObj d) \<Rightarrow> Inr d
                 | Some _ \<Rightarrow> Inl (LLMError ''LLM returned malformed JSON'')
                 | None \<Rightarrow> Inl (ValueError ''Expecting value''))))"

definition parse_json_content :: "(string \<Rightarrow> json option) \<Rightarrow> json \<Rightarrow> json_obj res" where
  "parse_json_content loads content = (case content of JStr s \<Rightarrow> parse_json_text loads s | _ \<Rightarrow> Inl AttributeError)"

section \<open>The mock provider\<close>

definition agent_keys :: "string list" where
  "agent_keys = [''consensus'', ''bull'', ''bear'', ''strategy'', ''technical'', ''trend'', ''sentiment'', ''on_chain'',
     ''on-chain'', ''macro'', ''market_intelligence'', ''market intelligence'']"

definition infer_agent_key :: "string \<Rightarrow> string \<Rightarrow> string" where
  "infer_agent_key system prompt =
     (let blob = py_lower (system @ [CHR 0x0A] @ prompt)
      in case find (\<lambda>k. py_contains k blob) agent_keys of
           None \<Rightarrow> ''generic''
         | Some k \<Rightarrow> py_replace CHR ''-'' ''_'' (py_replace CHR '' '' ''_'' k))"

definition texts :: "string list \<Rightarrow> json" where
  "texts ss = JList (map JStr ss)"

definition default_mock_payload :: "string \<Rightarrow> string \<Rightarrow> json_obj" where
  "default_mock_payload key prompt =
     (let bullish = py_contains ''bullish'' (py_lower prompt) \<or> py_contains ''rsi'' (py_lower prompt);
          num = (\<lambda>q. JNum (flit q))
      in if key = ''bull'' then
           [(''thesis'', JStr ''Constructive momentum with supportive trend structure.''),
            (''supporting_evidence'', texts [''Trend alignment positive'', ''Momentum supportive'']),
            (''catalysts'', texts [''Continued volume expansion'']),
            (''technical_confirmation'', texts [''Price above medium SMA'']),
            (''risks_to_thesis'', texts [''Sudden volatility spike'']),
            (''confidence'', if bullish then num (62 / 100) else num (45 / 100))]
         else if key = ''bear'' then
           [(''thesis'', JStr ''Asymmetric downside if momentum fails.''),
            (''supporting_evidence'', texts [''Overbought risk'', ''Macro uncertainty'']),
            (''downside_catalysts'', texts [''Risk-off liquidity'']),
            (''technical_weakness'', texts [''Extended move from mean'']),
            (''risks_to_thesis'', texts [''Strong trend continuation'']), (''confidence'', num (55 / 100))]
         else if key = ''strategy'' then
           [(''market_regime'', JStr (if bullish then ''trending'' else ''range'')),
            (''direction'', JStr (if bullish then ''LONG'' else ''NEUTRAL'')),
            (''strategy_type'', JStr (if bullish then ''trend_follow'' else ''wait'')),
            (''entry_conditions'', texts [''Pullback holds support'']),
            (''exit_conditions'', texts [''Break of support'', ''Target reached'']),
            (''invalidation_conditions'', texts [''Regime flip to high-vol chaos'']), (''time_horizon'', JStr ''swing''),
            (''confidence'', if bullish then num (58 / 100) else num (4 / 10)),
            (''supporting_evidence'', texts [''Technical bias'']),
            (''contradicting_evidence'', texts [''Incomplete alternative data''])]
         else if key = ''consensus'' then
           [(''decision'', JStr ''NEUTRAL''), (''confidence'', num (5 / 10)), (''supporting_agents'', JList []),
            (''disagreement_summary'', JStr ''Bull and bear remain contested.''), (''missing_information'', JList []),
            (''invalidating_conditions'', texts [''Stale market data'']),
            (''reasoning'', JStr ''Preserve disagreement; require stronger confluence.'')]
         else if key \<in> {''technical'', ''technical_analysis''} then
           [(''bullish_signals'', texts (if bullish then [''EMA slope up''] else [])),
            (''bearish_signals'', texts (if bullish then [] else [''Soft momentum''])),
            (''neutral_signals'', texts [''Mixed oscillators'']), (''trend_strength'', JStr ''moderate''),
            (''momentum'', JStr (if bullish then ''positive'' else ''flat'')), (''volatility'', JStr ''normal''),
            (''confidence'', num (6 / 10)), (''reasoning'', JStr ''Interpretation of deterministic indicators only.'')]
         else if key = ''trend'' then
           [(''short_term'', JStr (if bullish then ''up'' else ''sideways'')),
            (''medium_term'', JStr (if bullish then ''up'' else ''sideways'')), (''long_term'', JStr ''up''),
            (''alignment'', JStr ''partial''), (''regime_change'', JBool False), (''confidence'', num (57 / 100)),
            (''reasoning'', JStr ''Multi-horizon SMA structure.'')]
         else if key = ''market_intelligence'' then
           [(''technical_summary'', JStr ''Normalized market snapshot interpreted from deterministic inputs.''),
            (''confidence'', num (7 / 10))]
         else if key \<in> {''sentiment'', ''on_chain'', ''macro'', ''macro_event''} then
           [(''status'', JStr ''UNAVAILABLE''), (''reason'', JStr ''No live provider configured in this phase.''),
            (''confidence'', JNum (Fin 0))]
         else [(''summary'', JStr ''Mock analysis''), (''confidence'', num (5 / 10))])"

text \<open>\<open>self._canned.get(key) or default\<close>: an absent or empty object gives the default.\<close>

definition mock_complete ::
  "(json \<Rightarrow> string) \<Rightarrow> (string \<times> json_obj) list \<Rightarrow> string \<Rightarrow> string \<Rightarrow> string option \<Rightarrow> llm_response res" where
  "mock_complete dumps canned prompt model system =
     (let key = infer_agent_key (opt_default system []) prompt; c = opt_default (dget canned key) []
      in Inr \<lparr>lr_content = JStr (dumps (JObj (if c = [] then default_mock_payload key prompt else c))), lr_provider = ''mock'',
             lr_model = (if model = [] then ''mock-analyst'' else model)\<rparr>)"

definition mock_provider :: "(json \<Rightarrow> string) \<Rightarrow> (string \<times> json_obj) list \<Rightarrow> llm_provider" where
  "mock_provider dumps canned = \<lparr>pv_available = True, pv_complete = mock_complete dumps canned\<rparr>"

section \<open>Providers over HTTP\<close>

text \<open>
  The HTTP library is a parameter: \<open>post\<close> sends a request, raises for a bad status and decodes the body,
  \<open>get_status\<close> is the status of a plain read.
\<close>

record http_request =
  hr_url :: string
  hr_headers :: "(string \<times> string) list"
  hr_params :: "(string \<times> string) list"
  hr_body :: json

type_synonym http_post = "http_request \<Rightarrow> json res"

definition jitem :: "string \<Rightarrow> json \<Rightarrow> json res" where
  "jitem k j = (case j of JObj d \<Rightarrow> (case dget d k of None \<Rightarrow> Inl (KeyError k) | Some v \<Rightarrow> Inr v) | _ \<Rightarrow> Inl TypeError)"

definition jfirst :: "json \<Rightarrow> json res" where
  "jfirst j = (case j of
     JList (x # _) \<Rightarrow> Inr x | JList [] \<Rightarrow> Inl IndexError
   | JStr (c # _) \<Rightarrow> Inr (JStr [c]) | JStr [] \<Rightarrow> Inl IndexError
   | JObj _ \<Rightarrow> Inl (KeyError ''0'') | _ \<Rightarrow> Inl TypeError)"

definition chat_messages :: "string option \<Rightarrow> string \<Rightarrow> json" where
  "chat_messages system prompt = JList
     ((if opt_truthy system then [JObj [(''role'', JStr ''system''), (''content'', JStr (opt_default system []))]] else [])
      @ [JObj [(''role'', JStr ''user''), (''content'', JStr prompt)]])"

definition chat_body :: "string \<Rightarrow> string option \<Rightarrow> string \<Rightarrow> json" where
  "chat_body model system prompt = JObj
     [(''model'', JStr model), (''messages'', chat_messages system prompt), (''temperature'', JNum (Fin 0))]"

definition chat_content :: "json \<Rightarrow> json res" where
  "chat_content data = bind_res (jitem ''choices'' data) (\<lambda>cs. bind_res (jfirst cs) (\<lambda>c.
     bind_res (jitem ''message'' c) (jitem ''content'')))"

text \<open>Whatever goes wrong with the request or in the reading of its answer becomes an \<open>LLMError\<close>.\<close>

definition served :: "(py_error \<Rightarrow> string) \<Rightarrow> string \<Rightarrow> string \<Rightarrow> string \<Rightarrow> json res \<Rightarrow> llm_response res" where
  "served show failure name model r = (case r of
     Inl e \<Rightarrow> Inl (LLMError (failure @ show e))
   | Inr c \<Rightarrow> Inr \<lparr>lr_content = c, lr_provider = name, lr_model = model\<rparr>)"

definition rstrip_slash :: "string \<Rightarrow> string" where
  "rstrip_slash s = rev (dropWhile (\<lambda>c. c = CHR ''/'') (rev s))"

definition ollama_available :: "(string \<Rightarrow> int res) \<Rightarrow> string \<Rightarrow> bool" where
  "ollama_available get_status base = (case get_status (base @ ''/models'') of Inl _ \<Rightarrow> False | Inr s \<Rightarrow> s < 500)"

definition ollama_complete ::
  "(py_error \<Rightarrow> string) \<Rightarrow> http_post \<Rightarrow> string \<Rightarrow> string \<Rightarrow> string \<Rightarrow> string option \<Rightarrow> llm_response res" where
  "ollama_complete show post base prompt model system =
     served show ''Ollama unavailable: '' ''ollama'' model
       (bind_res (post \<lparr>hr_url = base @ ''/chat/completions'', hr_headers = [], hr_params = [],
          hr_body = chat_body model system prompt\<rparr>) chat_content)"

definition ollama_provider :: "(py_error \<Rightarrow> string) \<Rightarrow> (string \<Rightarrow> int res) \<Rightarrow> http_post \<Rightarrow> string \<Rightarrow> llm_provider" where
  "ollama_provider show get_status post base =
     \<lparr>pv_available = ollama_available get_status (rstrip_slash base),
      pv_complete = ollama_complete show post (rstrip_slash base)\<rparr>"

definition openai_complete ::
  "(py_error \<Rightarrow> string) \<Rightarrow> http_post \<Rightarrow> string \<Rightarrow> string option \<Rightarrow> string \<Rightarrow> string \<Rightarrow> string \<Rightarrow> string option
   \<Rightarrow> llm_response res" where
  "openai_complete show post name key base prompt model system =
     (if \<not> (opt_truthy key \<and> base \<noteq> []) then Inl (LLMError (name @ '' is not configured''))
      else served show (name @ '' request failed: '') name model
        (bind_res (post \<lparr>hr_url = base @ ''/chat/completions'',
           hr_headers = [(''Authorization'', ''Bearer '' @ opt_default key [])], hr_params = [],
           hr_body = chat_body model system prompt\<rparr>) chat_content))"

definition openai_provider ::
  "(py_error \<Rightarrow> string) \<Rightarrow> http_post \<Rightarrow> string \<Rightarrow> string option \<Rightarrow> string \<Rightarrow> llm_provider" where
  "openai_provider show post name key base =
     \<lparr>pv_available = (opt_truthy key \<and> rstrip_slash base \<noteq> []),
      pv_complete = openai_complete show post name key (rstrip_slash base)\<rparr>"

text \<open>The text blocks of an answer, joined.\<close>

definition block_text :: "json \<Rightarrow> string res" where
  "block_text b = (case b of
     JObj d \<Rightarrow> (if dget d ''type'' = Some (JStr ''text'')
       then (case opt_default (dget d ''text'') (JStr []) of JStr s \<Rightarrow> Inr s | _ \<Rightarrow> Inl TypeError) else Inr [])
   | _ \<Rightarrow> Inl AttributeError)"

definition anthropic_content :: "json \<Rightarrow> json res" where
  "anthropic_content data = (case data of
     JObj d \<Rightarrow> (case opt_default (dget d ''content'') (JList []) of
         JList bs \<Rightarrow> bind_res (map_res block_text bs) (\<lambda>ts. Inr (JStr (concat ts)))
       | JStr [] \<Rightarrow> Inr (JStr []) | JObj [] \<Rightarrow> Inr (JStr [])
       | JStr _ \<Rightarrow> Inl AttributeError | JObj _ \<Rightarrow> Inl AttributeError | _ \<Rightarrow> Inl TypeError)
   | _ \<Rightarrow> Inl AttributeError)"

definition anthropic_complete ::
  "(py_error \<Rightarrow> string) \<Rightarrow> http_post \<Rightarrow> string option \<Rightarrow> string \<Rightarrow> string \<Rightarrow> string option \<Rightarrow> llm_response res" where
  "anthropic_complete show post key prompt model system =
     (if \<not> opt_truthy key then Inl (LLMError ''Anthropic is not configured'')
      else served show ''Anthropic request failed: '' ''anthropic'' model
        (bind_res (post \<lparr>hr_url = ''https://api.anthropic.com/v1/messages'',
           hr_headers = [(''x-api-key'', opt_default key []), (''anthropic-version'', ''2023-06-01''),
             (''content-type'', ''application/json'')], hr_params = [],
           hr_body = JObj ([(''model'', JStr model), (''max_tokens'', JInt 1024), (''temperature'', JNum (Fin 0)),
             (''messages'', JList [JObj [(''role'', JStr ''user''), (''content'', JStr prompt)]])]
             @ (if opt_truthy system then [(''system'', JStr (opt_default system []))] else []))\<rparr>) anthropic_content))"

definition gemini_content :: "json \<Rightarrow> json res" where
  "gemini_content data = bind_res (jitem ''candidates'' data) (\<lambda>cs. bind_res (jfirst cs) (\<lambda>c.
     bind_res (jitem ''content'' c) (\<lambda>t. bind_res (jitem ''parts'' t) (\<lambda>ps. bind_res (jfirst ps) (jitem ''text'')))))"

definition gemini_complete ::
  "(py_error \<Rightarrow> string) \<Rightarrow> http_post \<Rightarrow> string option \<Rightarrow> string \<Rightarrow> string \<Rightarrow> string option \<Rightarrow> llm_response res" where
  "gemini_complete show post key prompt model system =
     (if \<not> opt_truthy key then Inl (LLMError ''Gemini is not configured'')
      else served show ''Gemini request failed: '' ''gemini'' model
        (bind_res (post \<lparr>hr_url = ''https://generativelanguage.googleapis.com/v1beta/models/'' @ model @ '':generateContent'',
           hr_headers = [], hr_params = [(''key'', opt_default key [])],
           hr_body = JObj [(''contents'', JList [JObj [(''parts'', JList [JObj [(''text'',
               JStr (if opt_truthy system then opt_default system [] @ [CHR 0x0A, CHR 0x0A] @ prompt else prompt))]])]]),
             (''generationConfig'', JObj [(''temperature'', JNum (Fin 0))])]\<rparr>) gemini_content))"

definition keyed_provider :: "string option \<Rightarrow> (string \<Rightarrow> string \<Rightarrow> string option \<Rightarrow> llm_response res) \<Rightarrow> llm_provider" where
  "keyed_provider key ask = \<lparr>pv_available = opt_truthy key, pv_complete = ask\<rparr>"

record llm_settings =
  ls_openai_base :: "string option"
  ls_openai_key :: "string option"
  ls_anthropic_key :: "string option"
  ls_gemini_key :: "string option"

definition router_from_settings ::
  "(py_error \<Rightarrow> string) \<Rightarrow> (json \<Rightarrow> string) \<Rightarrow> (string \<Rightarrow> int res) \<Rightarrow> http_post \<Rightarrow> llm_settings \<Rightarrow> (string \<times> llm_provider) list" where
  "router_from_settings show dumps get_status post s =
     (let local = ''http://localhost:11434/v1''; base = (\<lambda>d. if opt_truthy (ls_openai_base s) then opt_default (ls_openai_base s) [] else d)
      in [(''mock'', mock_provider dumps []), (''ollama'', ollama_provider show get_status post (base local)),
          (''openai'', openai_provider show post ''openai'' (ls_openai_key s) (base ''https://api.openai.com/v1'')),
          (''openai_compatible'', openai_provider show post ''openai_compatible'' (ls_openai_key s) (base local)),
          (''anthropic'', keyed_provider (ls_anthropic_key s) (anthropic_complete show post (ls_anthropic_key s))),
          (''gemini'', keyed_provider (ls_gemini_key s) (gemini_complete show post (ls_gemini_key s)))])"

section \<open>Asking for an object\<close>

text \<open>\<open>BaseAgent.llm_json\<close>: no router, no answer.\<close>

definition llm_json ::
  "(py_error \<Rightarrow> string) \<Rightarrow> (string \<Rightarrow> json option) \<Rightarrow> (string \<times> llm_provider) list option \<Rightarrow> (string \<Rightarrow> string \<times> string)
   \<Rightarrow> string \<Rightarrow> string \<Rightarrow> string \<Rightarrow> json_obj res" where
  "llm_json show loads router config key system prompt =
     (case router of
        None \<Rightarrow> Inl (LLMError ''LLM router is not configured'')
      | Some ps \<Rightarrow> (case config key of (provider, model) \<Rightarrow>
          bind_res (router_complete show ps provider model prompt (Some system) []) (\<lambda>r.
            parse_json_content loads (lr_content r))))"

section \<open>Properties\<close>

text \<open>What a chain answers is what its first usable provider answered.\<close>

definition answers :: "(string \<times> llm_provider) list \<Rightarrow> string \<Rightarrow> string \<Rightarrow> string option \<Rightarrow> string \<Rightarrow> llm_response option" where
  "answers ps prompt model system name = (case dget ps name of
     None \<Rightarrow> None
   | Some p \<Rightarrow> if pv_available p then (case pv_complete p prompt model system of Inl _ \<Rightarrow> None | Inr r \<Rightarrow> Some r) else None)"

lemma ask_chain_spec:
  "case List.map_filter (answers ps prompt model system) names of
     [] \<Rightarrow> \<exists>m. ask_chain show ps prompt model system names errors = Inl (LLMError m)
   | r # _ \<Rightarrow> ask_chain show ps prompt model system names errors = Inr r"
proof (induction names arbitrary: errors)
  case (Cons n ns)
  show ?case
  proof (cases "answers ps prompt model system n")
    case None
    then have "\<exists>e. ask_chain show ps prompt model system (n # ns) errors = ask_chain show ps prompt model system ns e"
      by (auto simp: answers_def router_get_def split: option.splits sum.splits if_splits)
    then obtain e where "ask_chain show ps prompt model system (n # ns) errors = ask_chain show ps prompt model system ns e"
      by blast
    moreover have "List.map_filter (answers ps prompt model system) (n # ns) = List.map_filter (answers ps prompt model system) ns"
      using None by (simp add: List.map_filter_simps)
    ultimately show ?thesis using Cons.IH [of e] by (simp only:)
  next
    case (Some r)
    then show ?thesis
      by (auto simp: answers_def router_get_def List.map_filter_simps split: option.splits sum.splits if_splits)
  qed
qed (simp add: List.map_filter_simps)

text \<open>
  A provider of the settings answers under its own name, raises nothing but an \<open>LLMError\<close>, and
  without its key answers without a request: the outcome does not depend on the HTTP library.
\<close>

definition signs_itself :: "string \<Rightarrow> llm_response res \<Rightarrow> bool" where
  "signs_itself name r = (case r of Inl e \<Rightarrow> \<exists>m. e = LLMError m | Inr a \<Rightarrow> lr_provider a = name)"

lemma signs_itself_simps [simp]:
  "signs_itself n (served show f n model r)" "signs_itself n (Inl (LLMError m))"
  "signs_itself n (Inr a) \<longleftrightarrow> lr_provider a = n"
  by (simp_all add: signs_itself_def served_def split: sum.split)

lemma providers_sign:
  "signs_itself ''mock'' (pv_complete (mock_provider dumps canned) prompt model system)"
  "signs_itself ''ollama'' (pv_complete (ollama_provider show get_status post base) prompt model system)"
  "signs_itself n (pv_complete (openai_provider show post n key base) prompt model system)"
  "signs_itself ''anthropic'' (pv_complete (keyed_provider key (anthropic_complete show post key)) prompt model system)"
  "signs_itself ''gemini'' (pv_complete (keyed_provider key (gemini_complete show post key)) prompt model system)"
  by (simp_all add: mock_provider_def mock_complete_def ollama_provider_def ollama_complete_def openai_provider_def
      openai_complete_def keyed_provider_def anthropic_complete_def gemini_complete_def Let_def)

lemma settings_provider_contract:
  "\<forall>(name, p)\<in>set (router_from_settings show dumps get_status post s). signs_itself name (pv_complete p prompt model system)"
  by (simp add: router_from_settings_def Let_def providers_sign)

lemma unconfigured_sends_nothing:
  assumes "key = None"
  shows "\<not> pv_available (openai_provider show post n key base) \<and> pv_complete (openai_provider show post n key base) prompt model system
      = Inl (LLMError (n @ '' is not configured''))"
    and "\<not> pv_available (keyed_provider key ask)"
    and "anthropic_complete show post key prompt model system = Inl (LLMError ''Anthropic is not configured'')"
    and "gemini_complete show post key prompt model system = Inl (LLMError ''Gemini is not configured'')"
  using assms
  by (simp_all add: openai_provider_def openai_complete_def keyed_provider_def anthropic_complete_def gemini_complete_def opt_truthy_def)

text \<open>C27: the router fails closed: it returns the answer of the first provider in its chain that is configured,
available and answers, and when there is none it raises an \<open>LLMError\<close>; it never makes up an answer.\<close>

theorem router_fails_closed:
  "case List.map_filter (answers ps prompt model system) (provider # fallbacks) of
     [] \<Rightarrow> \<exists>m. router_complete show ps provider model prompt system fallbacks = Inl (LLMError m)
   | r # _ \<Rightarrow> router_complete show ps provider model prompt system fallbacks = Inr r"
  unfolding router_complete_def by (rule ask_chain_spec)

text \<open>
  The mock provider looks for the agent in the whole request: a request that mentions
  \<open>bull\<close> anywhere, for instance in the signals of another agent, is answered as the bull's.
\<close>

lemma py_contains_append: "py_contains p s \<Longrightarrow> py_contains p (t @ s)"
  by (induction t) auto

lemma mock_takes_everyone_for_the_bull:
  assumes "py_contains ''bull'' (py_lower prompt)"
    and "\<not> py_contains ''consensus'' (py_lower (system @ [CHR 0x0A] @ prompt))"
  shows "infer_agent_key system prompt = ''bull''"
proof -
  have "py_contains ''bull'' (py_lower (system @ [CHR 0x0A] @ prompt))"
    using py_contains_append [OF assms(1), of "py_lower (system @ [CHR 0x0A])"] by (simp add: py_lower_def)
  with assms(2) show ?thesis by (simp add: infer_agent_key_def agent_keys_def py_replace_def)
qed

end
