(* ===== verification/Agents.thy ===== *)
theory Agents
  imports Llm Market_Data "HOL-Library.Char_ord" "HOL-Library.List_Lexorder"
begin

text \<open>
  \<open>agents/\<close>: the message envelope, the contract every agent runs under
  (\<open>base.py\<close>), the registry, the market and reasoning agents and the consensus.  An
  agent's payload is a JSON object.  The language model is a function of the environment that answers any
  object or raises; so are the market data service, the alternative data providers and the
  printing of values.  Message identifiers, timestamps and latencies are left out.
\<close>

section \<open>Messages\<close>

datatype message_status = Msg_Ok | Msg_Unavailable | Msg_Error

record agent_message =
  am_agent_id :: string
  am_symbol :: string
  am_decision :: "string option"
  am_confidence :: pyfloat
  am_evidence :: "json list"
  am_risk_flags :: "string list"
  am_status :: message_status
  am_payload :: json_obj
  am_error :: "string option"

definition clamp_confidence :: "pyfloat \<Rightarrow> pyfloat" where
  "clamp_confidence v = pmax (Fin 0) (pmin (Fin 1) v)"

section \<open>The run context\<close>

record agent_context =
  cx_symbol :: string
  cx_timeframe :: string
  cx_exchange :: string
  cx_messages :: "(string \<times> agent_message) list"
  cx_snapshot :: "market_snapshot option"
  cx_indicators :: "json_obj option"
  cx_regime :: "string option"
  cx_knowledge :: json
  cx_allow_execution :: bool
  cx_real_money :: bool

definition cx_get :: "agent_context \<Rightarrow> string \<Rightarrow> agent_message option" where
  "cx_get cx i = dget (cx_messages cx) i"

definition cx_store :: "string \<Rightarrow> agent_message \<Rightarrow> agent_context \<Rightarrow> agent_context" where
  "cx_store i m cx = cx\<lparr>cx_messages := dput i m (cx_messages cx)\<rparr>"

definition require_no_execution :: "agent_context \<Rightarrow> unit res" where
  "require_no_execution cx =
     (if cx_allow_execution cx \<or> cx_real_money cx
      then Inl (RuntimeError ''Execution is forbidden in the analysis phase. LIVE_TRADING_ENABLED must remain false.'')
      else Inr ())"

record provider_result =
  pr_available :: bool
  pr_data :: json
  pr_reason :: "string option"
  pr_sources :: json

definition unavailable_provider :: "string \<Rightarrow> string \<Rightarrow> string \<Rightarrow> provider_result" where
  "unavailable_provider before after symbol =
     \<lparr>pr_available = False, pr_data = JObj [], pr_reason = Some (before @ symbol @ after), pr_sources = JList []\<rparr>"

definition unavailable_sentiment :: "string \<Rightarrow> provider_result" where
  "unavailable_sentiment = unavailable_provider ''No sentiment data source configured for ''
     ''. Refusing to fabricate news/social sentiment.''"

definition unavailable_on_chain :: "string \<Rightarrow> provider_result" where
  "unavailable_on_chain = unavailable_provider ''No on-chain data source configured for ''
     ''. Refusing to fabricate whale/flow metrics.''"

definition unavailable_macro :: "string \<Rightarrow> provider_result" where
  "unavailable_macro = unavailable_provider ''No macro/event calendar configured for ''
     ''. Refusing to invent economic or regulatory events.''"

definition json_of_result :: "provider_result \<Rightarrow> json" where
  "json_of_result r = JObj [(''status'', JStr (if pr_available r then ''AVAILABLE'' else ''UNAVAILABLE'')), (''data'', pr_data r),
     (''reason'', case pr_reason r of None \<Rightarrow> JNull | Some s \<Rightarrow> JStr s), (''sources'', pr_sources r)]"

text \<open>What an agent calls: \<open>ev_market\<close> answers the agent that asks, \<open>ev_llm\<close> takes the agent's
  configuration key, the system text and the prompt.\<close>

record agent_env =
  ev_market :: "(string \<Rightarrow> market_snapshot res) option"
  ev_llm :: "string \<Rightarrow> string \<Rightarrow> string \<Rightarrow> json_obj res"
  ev_sentiment :: "string \<Rightarrow> provider_result"
  ev_on_chain :: "string \<Rightarrow> provider_result"
  ev_macro :: "string \<Rightarrow> provider_result"
  ev_power :: "pyfloat \<Rightarrow> pyfloat"
  ev_dumps :: "json \<Rightarrow> string"
  ev_str :: "json \<Rightarrow> string"
  ev_f2 :: "pyfloat \<Rightarrow> string"
  ev_err :: "py_error \<Rightarrow> string"
  ev_parse :: "string \<Rightarrow> pyfloat option"
  ev_ticker :: "ticker \<Rightarrow> json"
  ev_freshness :: "market_snapshot \<Rightarrow> json"
  ev_min_confidence :: pyfloat

section \<open>Reading JSON values\<close>

definition oget :: "json_obj \<Rightarrow> string \<Rightarrow> json \<Rightarrow> json" where
  "oget d k v = opt_default (dget d k) v"

definition jtruthy :: "json \<Rightarrow> bool" where
  "jtruthy j = (case j of JNull \<Rightarrow> False | JBool b \<Rightarrow> b | JStr s \<Rightarrow> s \<noteq> [] | JInt n \<Rightarrow> n \<noteq> 0 | JNum x \<Rightarrow> x \<noteq> Fin 0
     | JList xs \<Rightarrow> xs \<noteq> [] | JObj d \<Rightarrow> d \<noteq> [])"

text \<open>\<open>float(v)\<close>, \<open>list(v)\<close>, \<open>len(v)\<close> and \<open>str(v)\<close>.\<close>

definition jfloat :: "agent_env \<Rightarrow> json \<Rightarrow> pyfloat res" where
  "jfloat ev j = (case j of
     JNum x \<Rightarrow> Inr x
   | JInt n \<Rightarrow> (if is_finite (f_of_int n) then Inr (f_of_int n) else Inl OverflowError)
   | JBool b \<Rightarrow> Inr (if b then Fin 1 else Fin 0)
   | JStr s \<Rightarrow> (case ev_parse ev s of None \<Rightarrow> Inl (ValueError ''could not convert string to float'') | Some x \<Rightarrow> Inr x)
   | _ \<Rightarrow> Inl TypeError)"

definition jlist :: "json \<Rightarrow> json list res" where
  "jlist j = (case j of JList xs \<Rightarrow> Inr xs | JStr s \<Rightarrow> Inr (map (\<lambda>c. JStr [c]) s)
     | JObj d \<Rightarrow> Inr (map (\<lambda>(k, v). JStr k) d) | _ \<Rightarrow> Inl TypeError)"

definition jlen :: "json \<Rightarrow> nat res" where
  "jlen j = bind_res (jlist j) (\<lambda>xs. Inr (length xs))"

definition jstr :: "agent_env \<Rightarrow> json \<Rightarrow> string" where
  "jstr ev j = (case j of JStr s \<Rightarrow> s | _ \<Rightarrow> ev_str ev j)"

text \<open>\<open>list(dict.fromkeys(xs))\<close>: the first of equal elements stays; lists and objects cannot be keys.\<close>

definition unique_keys :: "json list \<Rightarrow> json list res" where
  "unique_keys xs = (if list_ex (\<lambda>j. case j of JList _ \<Rightarrow> True | JObj _ \<Rightarrow> True | _ \<Rightarrow> False) xs then Inl TypeError
     else Inr (rev (remdups (rev xs))))"

section \<open>The contract of an agent\<close>

text \<open>The fields of a message are checked by type: a decision is text or nothing, a risk flag is text.\<close>

definition decision_field :: "json \<Rightarrow> string option res" where
  "decision_field j = (case j of JNull \<Rightarrow> Inr None | JStr s \<Rightarrow> Inr (Some s) | _ \<Rightarrow> Inl (ValueError ''decision''))"

definition text_field :: "json \<Rightarrow> string res" where
  "text_field j = (case j of JStr s \<Rightarrow> Inr s | _ \<Rightarrow> Inl (ValueError ''risk_flags''))"

definition ok_message :: "agent_env \<Rightarrow> string \<Rightarrow> agent_context \<Rightarrow> json_obj \<Rightarrow> agent_message res" where
  "ok_message ev i cx payload =
     bind_res (jfloat ev (oget payload ''confidence'' (JNum (Fin 0)))) (\<lambda>conf.
     bind_res (jlist (oget payload ''evidence'' (JList []))) (\<lambda>evidence.
     bind_res (jlist (oget payload ''risk_flags'' (JList []))) (\<lambda>flags.
     bind_res (decision_field (oget payload ''decision'' JNull)) (\<lambda>decision.
     bind_res (map_res text_field flags) (\<lambda>flags'.
       Inr \<lparr>am_agent_id = i, am_symbol = cx_symbol cx, am_decision = decision,
            am_confidence = clamp_confidence conf, am_evidence = evidence, am_risk_flags = flags',
            am_status = (if py_upper (jstr ev (oget payload ''status'' (JStr []))) = ''UNAVAILABLE''
                         then Msg_Unavailable else Msg_Ok),
            am_payload = payload, am_error = None\<rparr>)))))"

definition failed_message :: "agent_env \<Rightarrow> string \<Rightarrow> agent_context \<Rightarrow> py_error \<Rightarrow> agent_message" where
  "failed_message ev i cx e =
     (let llm = (case e of LLMError _ \<Rightarrow> True | _ \<Rightarrow> False)
      in \<lparr>am_agent_id = i, am_symbol = cx_symbol cx, am_decision = Some ''NO_TRADE'', am_confidence = Fin 0, am_evidence = [],
          am_risk_flags = [if llm then ''llm_unavailable'' else ''agent_error''], am_status = Msg_Error,
          am_payload = (if llm then [(''status'', JStr ''UNAVAILABLE'')] else []), am_error = Some (ev_err ev e)\<rparr>)"

type_synonym analysis = "agent_context \<Rightarrow> agent_context \<times> json_obj res"

text \<open>\<open>BaseAgent.run\<close>: only the execution guard escapes; whatever the analysis raises becomes a message.\<close>

definition run_agent :: "agent_env \<Rightarrow> string \<Rightarrow> analysis \<Rightarrow> agent_context \<Rightarrow> agent_context \<times> agent_message res" where
  "run_agent ev i analyze cx =
     (case require_no_execution cx of
        Inl e \<Rightarrow> (cx, Inl e)
      | Inr _ \<Rightarrow> (case analyze cx of (cx1, r) \<Rightarrow>
          (let m = (case bind_res r (ok_message ev i cx) of Inl e \<Rightarrow> failed_message ev i cx e | Inr m \<Rightarrow> m)
           in (cx_store i m cx1, Inr m))))"

text \<open>The registry keeps the agents in the order of their first registration.\<close>

type_synonym agent_registry = "(string \<times> analysis) list"

definition registry_get :: "agent_registry \<Rightarrow> string \<Rightarrow> analysis res" where
  "registry_get rg i = (case dget rg i of None \<Rightarrow> Inl (KeyError (''Agent not registered: '' @ i)) | Some a \<Rightarrow> Inr a)"

section \<open>Market agents\<close>

definition require_market :: "agent_env \<Rightarrow> string \<Rightarrow> agent_context \<Rightarrow> agent_context \<times> market_snapshot res" where
  "require_market ev i cx = (case cx_snapshot cx of
     Some s \<Rightarrow> (cx, Inr s)
   | None \<Rightarrow> (case ev_market ev of
       None \<Rightarrow> (cx, Inl (RuntimeError ''Market data service is not configured''))
     | Some ask \<Rightarrow> (case ask i of Inl e \<Rightarrow> (cx, Inl e) | Inr s \<Rightarrow> (cx\<lparr>cx_snapshot := Some s\<rparr>, Inr s))))"

definition indicator_bundle :: "agent_env \<Rightarrow> market_snapshot \<Rightarrow> json_obj res" where
  "indicator_bundle ev s =
     (let bs = ms_bars s
      in bind_res (compute_indicator_bundle (ev_power ev) (map br_open bs) (map br_high bs) (map br_low bs) (map br_close bs)
           (map br_volume bs)) (\<lambda>d. Inr (map (\<lambda>(k, v). (k, case v of None \<Rightarrow> JNull | Some x \<Rightarrow> JNum x)) d)))"

definition ind :: "json_obj \<Rightarrow> string \<Rightarrow> pyfloat option" where
  "ind d k = (case dget d k of Some (JNum x) \<Rightarrow> Some x | _ \<Rightarrow> None)"

definition regime_from_indicators :: "json_obj \<Rightarrow> string" where
  "regime_from_indicators d =
     (case (ind d ''last_close'', ind d ''sma_20'') of
        (Some cl, Some s20) \<Rightarrow>
          if (case ind d ''volatility_20'' of None \<Rightarrow> False | Some v \<Rightarrow> flt (flit (5 / 100)) v) then ''high_volatility''
          else (case ind d ''sma_50'' of
              None \<Rightarrow> ''range''
            | Some s50 \<Rightarrow> if flt s20 cl \<and> flt s50 s20 then ''bullish''
                else if flt cl s20 \<and> flt s20 s50 then ''bearish'' else ''range'')
      | _ \<Rightarrow> ''unknown'')"

definition stale_or_missing :: "market_snapshot \<Rightarrow> bool" where
  "stale_or_missing s \<longleftrightarrow> \<not> ms_available s \<or> ms_stale s"

definition jopt :: "pyfloat option \<Rightarrow> json" where
  "jopt v = (case v of None \<Rightarrow> JNull | Some x \<Rightarrow> JNum x)"

definition no_trade_fields :: "(string \<times> json) list" where
  "no_trade_fields = [(''decision'', JStr ''NO_TRADE''), (''confidence'', JNum (Fin 0)),
     (''risk_flags'', texts [''stale_or_missing_market_data''])]"

definition stale_market_payload :: "agent_context \<Rightarrow> market_snapshot \<Rightarrow> json_obj" where
  "stale_market_payload cx s =
     [(''status'', JStr (if ms_available s then ''STALE'' else ''UNAVAILABLE''))] @ no_trade_fields @
     [(''symbol'', JStr (cx_symbol cx)), (''timeframe'', JStr (cx_timeframe cx)),
      (''data_freshness'', JObj [(''stale'', JBool (ms_stale s)), (''max_age_seconds'', JNum (ms_max_age s)),
         (''error'', case ms_error s of None \<Rightarrow> JNull | Some e \<Rightarrow> JStr e)]),
      (''evidence'', texts [''Required market data unavailable or stale''])]"

definition market_prompt :: "agent_env \<Rightarrow> market_snapshot \<Rightarrow> json_obj \<Rightarrow> string \<Rightarrow> string" where
  "market_prompt ev s d regime = ''Interpret this normalized market snapshot. Do not invent prices.'' @ [CHR 0x0A] @
     ev_dumps ev (JObj [(''ticker'', case ms_ticker s of None \<Rightarrow> JNull | Some t \<Rightarrow> ev_ticker ev t), (''indicators'', JObj d),
       (''regime_seed'', JStr regime)])"

definition analyze_market :: "agent_env \<Rightarrow> analysis" where
  "analyze_market ev cx = (case require_market ev ''market_intelligence'' cx of
     (cx1, Inl e) \<Rightarrow> (cx1, Inl e)
   | (cx1, Inr s) \<Rightarrow>
       if stale_or_missing s then (cx1, Inr (stale_market_payload cx s))
       else (case indicator_bundle ev s of
          Inl e \<Rightarrow> (cx1, Inl e)
        | Inr d \<Rightarrow>
            (let regime = regime_from_indicators d;
                 cx2 = cx1\<lparr>cx_indicators := Some d, cx_regime := Some regime\<rparr>;
                 price = jopt (map_option tk_last (ms_ticker s));
                 reply = (case ev_llm ev ''market_intelligence''
                     ''You are the Market Intelligence agent. Interpret only provided facts. Return JSON.''
                     (market_prompt ev s d regime) of
                   Inl e \<Rightarrow> [(''technical_summary'', JStr (''LLM unavailable: '' @ ev_err ev e)), (''confidence'', JNum (flit (55 / 100)))]
                 | Inr obj \<Rightarrow> obj)
             in (cx2, bind_res (jfloat ev (oget reply ''confidence'' (JNum (flit (7 / 10))))) (\<lambda>conf. Inr
                  [(''symbol'', JStr (ms_symbol s)), (''timeframe'', JStr (ms_timeframe s)), (''current_price'', price),
                   (''volatility'', oget d ''volatility_20'' JNull), (''volume'', oget d ''volume_last'' JNull),
                   (''market_regime'', JStr regime),
                   (''technical_summary'', oget reply ''technical_summary'' (JStr ''Deterministic market snapshot ready.'')),
                   (''indicators'', JObj d), (''data_freshness'', ev_freshness ev s), (''confidence'', JNum conf),
                   (''evidence'', texts [''price='' @ ev_str ev price, ''regime='' @ regime]), (''decision'', JNull)])))))"

text \<open>The indicators are computed once and shared.\<close>

definition cached_indicators :: "agent_env \<Rightarrow> agent_context \<Rightarrow> market_snapshot \<Rightarrow> json_obj res" where
  "cached_indicators ev cx s = (case cx_indicators cx of Some d \<Rightarrow> (if d = [] then indicator_bundle ev s else Inr d)
     | None \<Rightarrow> indicator_bundle ev s)"

definition rsi_signals :: "agent_env \<Rightarrow> json_obj \<Rightarrow> string list \<times> string list \<times> string list" where
  "rsi_signals ev d = (case ind d ''rsi_14'' of
     None \<Rightarrow> ([], [], [])
   | Some v \<Rightarrow> if fle (Fin 70) v then ([], [''RSI overbought ('' @ ev_f2 ev v @ '')''], [])
       else if fle v (Fin 30) then ([''RSI oversold ('' @ ev_f2 ev v @ '')''], [], [])
       else ([], [], [''RSI mid-range ('' @ ev_f2 ev v @ '')'']))"

definition seed_signals :: "agent_env \<Rightarrow> json_obj \<Rightarrow> string list \<times> string list \<times> string list" where
  "seed_signals ev d = (case rsi_signals ev d of (up, down, flat) \<Rightarrow>
     (let (up1, down1) = (case ind d ''macd_histogram'' of
            None \<Rightarrow> (up, down)
          | Some h \<Rightarrow> if flt (Fin 0) h then (up @ [''MACD histogram positive''], down)
              else if flt h (Fin 0) then (up, down @ [''MACD histogram negative'']) else (up, down));
          (up2, down2) = (case (ind d ''last_close'', ind d ''sma_20'') of
            (Some cl, Some s20) \<Rightarrow> if flt s20 cl then (up1 @ [''Price above SMA20''], down1)
              else (up1, down1 @ [''Price below SMA20''])
          | _ \<Rightarrow> (up1, down1))
      in (up2, down2, flat)))"

definition merged_signals :: "string list \<Rightarrow> json \<Rightarrow> json list res" where
  "merged_signals seeds reply = bind_res (jlist reply) (\<lambda>xs. unique_keys (map JStr seeds @ xs))"

definition technical_system :: string where
  "technical_system = ''You are the Technical Analysis agent. Use only the provided deterministic '' @
     ''indicator values. Return JSON with bullish_signals, bearish_signals, '' @
     ''neutral_signals, trend_strength, momentum, volatility, confidence, reasoning.''"

definition technical_payload :: "agent_env \<Rightarrow> json_obj \<Rightarrow> json_obj res" where
  "technical_payload ev d = (case seed_signals ev d of (up, down, flat) \<Rightarrow>
     bind_res (ev_llm ev ''technical_analysis'' technical_system (ev_dumps ev (JObj [(''indicators'', JObj d),
         (''seed_bullish'', texts up), (''seed_bearish'', texts down)]))) (\<lambda>reply.
     bind_res (merged_signals up (oget reply ''bullish_signals'' (JList []))) (\<lambda>bull.
     bind_res (merged_signals down (oget reply ''bearish_signals'' (JList []))) (\<lambda>bear.
     bind_res (merged_signals flat (oget reply ''neutral_signals'' (JList []))) (\<lambda>neutral.
     bind_res (jfloat ev (oget reply ''confidence'' (JNum (flit (55 / 100))))) (\<lambda>conf. Inr
       [(''bullish_signals'', JList bull), (''bearish_signals'', JList bear), (''neutral_signals'', JList neutral),
        (''trend_strength'', oget reply ''trend_strength'' (JStr ''moderate'')),
        (''momentum'', oget reply ''momentum'' (JStr ''unknown'')),
        (''volatility'', oget reply ''volatility'' (oget d ''volatility_20'' JNull)), (''confidence'', JNum conf),
        (''reasoning'', oget reply ''reasoning'' (JStr [])), (''indicators'', JObj d), (''evidence'', texts (up @ down)),
        (''decision'', JNull)]))))))"

definition analyze_technical :: "agent_env \<Rightarrow> analysis" where
  "analyze_technical ev cx = (case require_market ev ''technical_analysis'' cx of
     (cx1, Inl e) \<Rightarrow> (cx1, Inl e)
   | (cx1, Inr s) \<Rightarrow>
       if stale_or_missing s
       then (cx1, Inr (no_trade_fields @ [(''bullish_signals'', JList []), (''bearish_signals'', JList []),
              (''neutral_signals'', texts [''Market data unavailable''])]))
       else (case cached_indicators ev cx1 s of
          Inl e \<Rightarrow> (cx1, Inl e)
        | Inr d \<Rightarrow> (cx1\<lparr>cx_indicators := Some d\<rparr>, technical_payload ev d)))"

definition direction_of :: "pyfloat option \<Rightarrow> pyfloat option \<Rightarrow> string" where
  "direction_of fast slow = (case (fast, slow) of
     (Some f, Some s) \<Rightarrow> if flt s f then ''up'' else if flt f s then ''down'' else ''sideways''
   | _ \<Rightarrow> ''unknown'')"

definition trend_payload :: "agent_env \<Rightarrow> json_obj \<Rightarrow> json_obj res" where
  "trend_payload ev d =
     (let short_term = direction_of (ind d ''ema_12'') (ind d ''ema_26'');
          medium_term = direction_of (ind d ''last_close'') (ind d ''sma_20'');
          long_term = (if ind d ''sma_50'' \<noteq> None then direction_of (ind d ''sma_20'') (ind d ''sma_50'')
             else direction_of (ind d ''last_close'') (ind d ''sma_20''));
          dirs = {short_term, medium_term, long_term};
          alignment = (if card dirs = 1 \<and> ''unknown'' \<notin> dirs then ''aligned'' else ''partial'');
          change = (short_term \<noteq> long_term \<and> ''unknown'' \<notin> dirs)
      in bind_res (ev_llm ev ''trend'' ''You are the Trend agent. Interpret provided trend structure. Return JSON.''
           (ev_dumps ev (JObj [(''short_term'', JStr short_term), (''medium_term'', JStr medium_term),
              (''long_term'', JStr long_term), (''alignment'', JStr alignment), (''regime_change'', JBool change),
              (''indicators'', JObj d)]))) (\<lambda>reply.
         bind_res (jfloat ev (oget reply ''confidence'' (JNum (flit (55 / 100))))) (\<lambda>conf. Inr
           [(''short_term'', oget reply ''short_term'' (JStr short_term)),
            (''medium_term'', oget reply ''medium_term'' (JStr medium_term)),
            (''long_term'', oget reply ''long_term'' (JStr long_term)), (''alignment'', oget reply ''alignment'' (JStr alignment)),
            (''regime_change'', JBool (jtruthy (oget reply ''regime_change'' (JBool change)))), (''confidence'', JNum conf),
            (''reasoning'', oget reply ''reasoning'' (JStr [])),
            (''evidence'', texts [''short='' @ short_term, ''medium='' @ medium_term, ''long='' @ long_term]),
            (''decision'', JNull)])))"

definition analyze_trend :: "agent_env \<Rightarrow> analysis" where
  "analyze_trend ev cx = (case require_market ev ''trend'' cx of
     (cx1, Inl e) \<Rightarrow> (cx1, Inl e)
   | (cx1, Inr s) \<Rightarrow>
       if stale_or_missing s then (cx1, Inr no_trade_fields)
       else (cx1, bind_res (cached_indicators ev cx1 s) (trend_payload ev)))"

section \<open>Alternative data\<close>

definition jreason :: "string option \<Rightarrow> json" where
  "jreason r = (case r of None \<Rightarrow> JNull | Some s \<Rightarrow> JStr s)"

definition analyze_sentiment :: "agent_env \<Rightarrow> analysis" where
  "analyze_sentiment ev cx = (let r = ev_sentiment ev (cx_symbol cx) in (cx,
     if \<not> pr_available r
     then Inr [(''status'', JStr ''UNAVAILABLE''), (''decision'', JNull), (''confidence'', JNum (Fin 0)),
       (''reason'', jreason (pr_reason r)), (''evidence'', JList []), (''classification'', JNull),
       (''risk_flags'', texts [''sentiment_unavailable''])]
     else bind_res (ev_llm ev ''sentiment'' ''Sentiment agent. Classify provided sources only. Return JSON.''
            (ev_dumps ev (json_of_result r))) (\<lambda>reply.
          bind_res (jfloat ev (oget reply ''confidence'' (JNum (Fin (1 / 2))))) (\<lambda>conf. Inr
            [(''status'', JStr ''AVAILABLE''), (''confidence'', JNum conf),
             (''classification'', oget reply ''classification'' JNull), (''summary'', oget reply ''summary'' JNull),
             (''sources'', pr_sources r), (''evidence'', oget reply ''evidence'' (JList [])), (''decision'', JNull)]))))"

definition analyze_on_chain :: "agent_env \<Rightarrow> analysis" where
  "analyze_on_chain ev cx = (let r = ev_on_chain ev (cx_symbol cx) in (cx,
     if \<not> pr_available r
     then Inr [(''status'', JStr ''UNAVAILABLE''), (''decision'', JNull), (''confidence'', JNum (Fin 0)),
       (''reason'', jreason (pr_reason r)), (''risk_flags'', texts [''on_chain_unavailable'']), (''evidence'', JList [])]
     else bind_res (ev_llm ev ''on_chain'' ''On-chain agent. Use provided metrics only. Return JSON.''
            (ev_dumps ev (json_of_result r))) (\<lambda>reply.
          bind_res (jfloat ev (oget reply ''confidence'' (JNum (Fin (1 / 2))))) (\<lambda>conf. Inr
            [(''status'', JStr ''AVAILABLE''), (''confidence'', JNum conf), (''metrics'', pr_data r),
             (''summary'', oget reply ''summary'' JNull), (''evidence'', oget reply ''evidence'' (JList [])),
             (''decision'', JNull)]))))"

definition analyze_macro :: "agent_env \<Rightarrow> analysis" where
  "analyze_macro ev cx = (let r = ev_macro ev (cx_symbol cx) in (cx,
     if \<not> pr_available r
     then Inr [(''status'', JStr ''UNAVAILABLE''), (''event_risk'', JStr ''unknown''), (''trade_restriction'', JBool False),
       (''reason'', jreason (pr_reason r)), (''confidence'', JNum (Fin 0)), (''risk_flags'', texts [''macro_unavailable'']),
       (''decision'', JNull), (''evidence'', JList [])]
     else bind_res (ev_llm ev ''macro_event'' ''Macro/Event agent. Return JSON with event_risk and trade_restriction.''
            (ev_dumps ev (json_of_result r))) (\<lambda>reply.
          bind_res (jfloat ev (oget reply ''confidence'' (JNum (Fin (1 / 2))))) (\<lambda>conf. Inr
            [(''status'', JStr ''AVAILABLE''), (''event_risk'', oget reply ''event_risk'' (JStr ''low'')),
             (''trade_restriction'', JBool (jtruthy (oget reply ''trade_restriction'' (JBool False)))),
             (''reason'', oget reply ''reason'' (JStr [])), (''confidence'', JNum conf),
             (''evidence'', oget reply ''evidence'' (JList [])), (''decision'', JNull)]))))"

section \<open>Reasoning agents\<close>

definition payload_json :: "agent_context \<Rightarrow> string \<Rightarrow> string \<times> json" where
  "payload_json cx i = (i, case cx_get cx i of None \<Rightarrow> JNull | Some m \<Rightarrow> JObj (am_payload m))"

definition market_inputs :: "string list" where
  "market_inputs = [''market_intelligence'', ''technical_analysis'', ''trend'', ''sentiment'', ''on_chain'', ''macro_event'']"

definition payload_of :: "agent_context \<Rightarrow> string \<Rightarrow> json_obj" where
  "payload_of cx i = (case cx_get cx i of None \<Rightarrow> [] | Some m \<Rightarrow> am_payload m)"

definition is_str :: "json option \<Rightarrow> string list \<Rightarrow> bool" where
  "is_str j ss \<longleftrightarrow> (case j of Some (JStr s) \<Rightarrow> s \<in> set ss | _ \<Rightarrow> False)"

definition strategy_no_trade :: "json_obj \<Rightarrow> json_obj" where
  "strategy_no_trade market =
     [(''decision'', JStr ''NO_TRADE''), (''market_regime'', oget market ''market_regime'' (JStr ''unknown'')),
      (''direction'', JStr ''NO_TRADE''), (''strategy_type'', JStr ''none''), (''entry_conditions'', JList []),
      (''exit_conditions'', JList []), (''invalidation_conditions'', texts [''Market data stale or unavailable'']),
      (''time_horizon'', JStr ''none''), (''confidence'', JNum (Fin 0)), (''supporting_evidence'', JList []),
      (''contradicting_evidence'', texts [''Missing/stale market data'']),
      (''risk_flags'', texts [''stale_or_missing_market_data''])]"

definition strategy_system :: string where
  "strategy_system = ''You are the Strategy agent. Produce a hypothesis only, never an order. '' @
     ''Use strategy_knowledge as a reference specification, not a profitability guarantee. '' @
     ''Return JSON with market_regime, direction, strategy_type, entry_conditions, '' @
     ''exit_conditions, invalidation_conditions, time_horizon, confidence, '' @
     ''supporting_evidence, contradicting_evidence, supporting_model_ids.''"

definition list_field :: "json_obj \<Rightarrow> string \<Rightarrow> json list res" where
  "list_field d k = jlist (oget d k (JList []))"

definition valid_direction :: "string \<Rightarrow> string" where
  "valid_direction s = (if py_upper s \<in> {''LONG'', ''SHORT'', ''NEUTRAL'', ''NO_TRADE'', ''HOLD''} then py_upper s else ''NEUTRAL'')"

definition analyze_strategy :: "agent_env \<Rightarrow> analysis" where
  "analyze_strategy ev cx = (let market = payload_of cx ''market_intelligence'' in (cx,
     if is_str (dget market ''decision'') [''NO_TRADE''] \<or> is_str (dget market ''status'') [''UNAVAILABLE'', ''STALE'']
     then Inr (strategy_no_trade market)
     else bind_res (ev_llm ev ''strategy'' strategy_system (ev_dumps ev (JObj
            [(''analysis'', JObj (map (payload_json cx) market_inputs)), (''strategy_knowledge'', cx_knowledge cx)]))) (\<lambda>reply.
       let direction = valid_direction (jstr ev (oget reply ''direction'' (JStr ''NEUTRAL'')));
           regime = (case cx_regime cx of None \<Rightarrow> ''unknown'' | Some r \<Rightarrow> r) in
       bind_res (list_field reply ''entry_conditions'') (\<lambda>entry.
       bind_res (list_field reply ''exit_conditions'') (\<lambda>exit.
       bind_res (list_field reply ''invalidation_conditions'') (\<lambda>invalid.
       bind_res (jfloat ev (oget reply ''confidence'' (JNum (Fin (1 / 2))))) (\<lambda>conf.
       bind_res (list_field reply ''supporting_evidence'') (\<lambda>support.
       bind_res (list_field reply ''contradicting_evidence'') (\<lambda>contra. Inr
         [(''market_regime'', oget reply ''market_regime'' (JStr regime)), (''direction'', JStr direction),
          (''strategy_type'', oget reply ''strategy_type'' (JStr ''unspecified'')), (''entry_conditions'', JList entry),
          (''exit_conditions'', JList exit), (''invalidation_conditions'', JList invalid),
          (''time_horizon'', oget reply ''time_horizon'' (JStr ''swing'')), (''confidence'', JNum conf),
          (''supporting_evidence'', JList support), (''contradicting_evidence'', JList contra), (''evidence'', JList support),
          (''decision'', JStr direction)]))))))))) "

text \<open>The two analysts see the same inputs, and never each other.\<close>

definition debate_inputs :: "agent_context \<Rightarrow> json" where
  "debate_inputs cx = JObj (map (payload_json cx) (market_inputs @ [''strategy'']))"

definition debate_payload ::
  "agent_env \<Rightarrow> string \<Rightarrow> string \<Rightarrow> string \<Rightarrow> string \<Rightarrow> string \<Rightarrow> agent_context \<Rightarrow> json_obj res" where
  "debate_payload ev key system second third decision cx =
     bind_res (ev_llm ev key system (ev_dumps ev (debate_inputs cx))) (\<lambda>reply.
     bind_res (list_field reply ''supporting_evidence'') (\<lambda>support.
     bind_res (list_field reply second) (\<lambda>xs.
     bind_res (list_field reply third) (\<lambda>ys.
     bind_res (list_field reply ''risks_to_thesis'') (\<lambda>risks.
     bind_res (jfloat ev (oget reply ''confidence'' (JNum (Fin (1 / 2))))) (\<lambda>conf. Inr
       [(''thesis'', oget reply ''thesis'' (JStr [])), (''supporting_evidence'', JList support), (second, JList xs),
        (third, JList ys), (''risks_to_thesis'', JList risks), (''confidence'', JNum conf), (''evidence'', JList support),
        (''decision'', JStr decision)]))))))"

definition analyze_bull :: "agent_env \<Rightarrow> analysis" where
  "analyze_bull ev cx = (cx, debate_payload ev ''bull''
     (''You are the Bull Analyst. Build the strongest evidence-based LONG case. '' @
      ''Do not invent unavailable alternative data. Return JSON.'') ''catalysts'' ''technical_confirmation'' ''LONG'' cx)"

definition analyze_bear :: "agent_env \<Rightarrow> analysis" where
  "analyze_bear ev cx = (cx, debate_payload ev ''bear''
     (''You are the Bear Analyst. Build the strongest evidence-based SHORT case. '' @
      ''Do not invent unavailable alternative data. Return JSON.'') ''downside_catalysts'' ''technical_weakness'' ''SHORT'' cx)"

section \<open>Consensus\<close>

definition critical_agents :: "string list" where
  "critical_agents = [''market_intelligence'', ''technical_analysis'', ''trend'']"

definition off_status :: "json_obj \<Rightarrow> bool" where
  "off_status d \<longleftrightarrow> is_str (dget d ''decision'') [''NO_TRADE''] \<or> is_str (dget d ''status'') [''UNAVAILABLE'', ''STALE'']"

definition critical_missing :: "agent_context \<Rightarrow> string \<Rightarrow> string list" where
  "critical_missing cx i =
     (case cx_get cx i of None \<Rightarrow> [i] | Some m \<Rightarrow> if am_status m = Msg_Ok then [] else [i])
     @ (if off_status (payload_of cx i) then [i @ '':stale_or_unavailable''] else [])"

definition optional_missing :: "agent_context \<Rightarrow> string \<Rightarrow> string list" where
  "optional_missing cx i = (case cx_get cx i of
     None \<Rightarrow> [i]
   | Some m \<Rightarrow> if am_status m = Msg_Unavailable \<or> is_str (dget (am_payload m) ''status'') [''UNAVAILABLE''] then [i] else [])"

definition missing_inputs :: "agent_context \<Rightarrow> string list" where
  "missing_inputs cx = concat (map (critical_missing cx) critical_agents)
     @ concat (map (optional_missing cx) [''sentiment'', ''on_chain'', ''macro_event''])"

definition critical_gap :: "agent_context \<Rightarrow> bool" where
  "critical_gap cx \<longleftrightarrow>
     list_ex (\<lambda>i. i \<in> set critical_agents \<or> py_endswith i ''stale_or_unavailable'') (missing_inputs cx)
     \<or> (case cx_get cx ''market_intelligence'' of None \<Rightarrow> True
        | Some m \<Rightarrow> am_status m \<noteq> Msg_Ok \<or> off_status (am_payload m))"

definition sorted_set :: "string list \<Rightarrow> string list" where
  "sorted_set xs = sort (remdups xs)"

definition fail_closed_payload :: "agent_context \<Rightarrow> json_obj" where
  "fail_closed_payload cx =
     [(''decision'', JStr ''NO_TRADE''), (''confidence'', JNum (Fin 0)), (''supporting_agents'', JList []),
      (''disagreement_summary'', JStr ''Critical market inputs missing or stale.''),
      (''missing_information'', texts (sorted_set (missing_inputs cx))),
      (''invalidating_conditions'', texts [''Required market data stale or unavailable'']),
      (''risk_flags'', texts [''stale_or_missing_market_data'']),
      (''evidence'', texts [''Fail-closed: no discretionary trade hypothesis''])]"

record scores =
  sc_long :: pyfloat
  sc_short :: pyfloat
  sc_neutral :: pyfloat
  sc_supporting :: "string list"

definition debate_weight :: "string \<Rightarrow> pyfloat" where
  "debate_weight i = (if i = ''strategy'' then flit (12 / 10) else if i \<in> {''bull'', ''bear''} then flit (8 / 10) else Fin 1)"

definition add_score :: "agent_env \<Rightarrow> string \<Rightarrow> string \<Rightarrow> pyfloat \<Rightarrow> pyfloat \<Rightarrow> scores \<Rightarrow> scores" where
  "add_score ev i direction conf quality s =
     (let d = py_upper direction; x = fmul (fmul (debate_weight i) conf) quality;
          note = (\<lambda>k. sc_supporting s @ [i @ '':'' @ k @ '':'' @ ev_f2 ev conf])
      in if d \<in> {''BUY'', ''LONG''} then s\<lparr>sc_long := fadd (sc_long s) x, sc_supporting := note ''LONG''\<rparr>
         else if d \<in> {''SELL'', ''SHORT''} then s\<lparr>sc_short := fadd (sc_short s) x, sc_supporting := note ''SHORT''\<rparr>
         else if d = ''NO_TRADE'' then s
         else s\<lparr>sc_neutral := fadd (sc_neutral s) x, sc_supporting := note ''NEUTRAL''\<rparr>)"

definition message_quality :: "agent_message \<Rightarrow> pyfloat" where
  "message_quality m = (if am_status m = Msg_Ok then Fin 1 else Fin (1 / 4))"

definition add_strategy :: "agent_env \<Rightarrow> agent_context \<Rightarrow> scores \<Rightarrow> scores" where
  "add_strategy ev cx s = (case cx_get cx ''strategy'' of
     None \<Rightarrow> s
   | Some m \<Rightarrow> (case dget (am_payload m) ''direction'' of
       None \<Rightarrow> s
     | Some d \<Rightarrow> if jtruthy d then add_score ev ''strategy'' (jstr ev d) (am_confidence m) (message_quality m) s else s))"

definition add_technical :: "agent_env \<Rightarrow> agent_context \<Rightarrow> scores \<Rightarrow> scores res" where
  "add_technical ev cx s = (case cx_get cx ''technical_analysis'' of
     None \<Rightarrow> Inr s
   | Some m \<Rightarrow> bind_res (jlen (oget (am_payload m) ''bullish_signals'' (JList []))) (\<lambda>up.
       bind_res (jlen (oget (am_payload m) ''bearish_signals'' (JList []))) (\<lambda>down. Inr
         (add_score ev ''technical_analysis'' (if down < up then ''LONG'' else if up < down then ''SHORT'' else ''NEUTRAL'')
            (am_confidence m) (Fin 1) s))))"

definition add_trend :: "agent_env \<Rightarrow> agent_context \<Rightarrow> scores \<Rightarrow> scores" where
  "add_trend ev cx s = (case cx_get cx ''trend'' of
     None \<Rightarrow> s
   | Some m \<Rightarrow>
       (let short = py_lower (jstr ev (oget (am_payload m) ''short_term'' (JStr [])))
        in if short = ''up'' then add_score ev ''trend'' ''LONG'' (am_confidence m) (Fin 1) s
           else if short = ''down'' then add_score ev ''trend'' ''SHORT'' (am_confidence m) (Fin 1) s
           else add_score ev ''trend'' ''NEUTRAL'' (am_confidence m) (flit (8 / 10)) s))"

definition add_analyst :: "agent_env \<Rightarrow> agent_context \<Rightarrow> string \<Rightarrow> string \<Rightarrow> scores \<Rightarrow> scores" where
  "add_analyst ev cx i side s = (case cx_get cx i of None \<Rightarrow> s
     | Some m \<Rightarrow> add_score ev i side (am_confidence m) (flit (9 / 10)) s)"

definition close_debate :: "agent_env \<Rightarrow> agent_context \<Rightarrow> string list" where
  "close_debate ev cx = (case (cx_get cx ''bull'', cx_get cx ''bear'') of
     (Some b, Some r) \<Rightarrow>
       if flt (fabs (fsub (am_confidence b) (am_confidence r))) (flit (1 / 10))
       then [''Bull ('' @ ev_f2 ev (am_confidence b) @ '') and Bear ('' @ ev_f2 ev (am_confidence r) @ '') are close.'']
       else []
   | _ \<Rightarrow> [])"

text \<open>\<open>max(scores, key=scores.get)\<close>: the first of the best; and the two highest of the sorted scores.\<close>

definition best_side :: "scores \<Rightarrow> string \<times> pyfloat" where
  "best_side s =
     (let a = (''LONG'', sc_long s); b = (if flt (snd a) (sc_short s) then (''SHORT'', sc_short s) else a)
      in if flt (snd b) (sc_neutral s) then (''NEUTRAL'', sc_neutral s) else b)"

fun put_down :: "pyfloat \<Rightarrow> pyfloat list \<Rightarrow> pyfloat list" where
  "put_down x [] = [x]"
| "put_down x (y # ys) = (if flt x y then y # put_down x ys else x # y # ys)"

definition ranked :: "scores \<Rightarrow> pyfloat list" where
  "ranked s = put_down (sc_long s) (put_down (sc_short s) (put_down (sc_neutral s) []))"

record verdict_state =
  vs_best :: string
  vs_confidence :: pyfloat
  vs_disagreements :: "string list"

definition contested :: "scores \<Rightarrow> pyfloat \<Rightarrow> bool res" where
  "contested s sum_of = (case ranked s of
     x # y # _ \<Rightarrow> if flt (Fin 0) x then bind_res (fdiv (fsub x y) sum_of) (\<lambda>g. Inr (flt g (flit (8 / 100)))) else Inr False
   | _ \<Rightarrow> Inr False)"

definition decide :: "agent_env \<Rightarrow> string list \<Rightarrow> scores \<Rightarrow> verdict_state res" where
  "decide ev notes s =
     (case best_side s of (side, peak) \<Rightarrow>
      let t0 = fsum [sc_long s, sc_short s, sc_neutral s]; sum_of = (if t0 = Fin 0 then Fin 1 else t0) in
      bind_res (fdiv peak sum_of) (\<lambda>conf.
      bind_res (contested s sum_of) (\<lambda>close.
        let (b1, c1, n1) = (if close then (''NEUTRAL'', pmin conf (Fin (1 / 2)),
               notes @ [''Scores too close; preserving disagreement as NEUTRAL.'']) else (side, conf, notes))
        in Inr (if b1 \<in> {''LONG'', ''SHORT''} \<and> flt c1 (ev_min_confidence ev)
            then \<lparr>vs_best = ''NEUTRAL'', vs_confidence = c1, vs_disagreements = n1 @
              [''Direction '' @ b1 @ '' below minimum confidence '' @ ev_str ev (JNum (ev_min_confidence ev)) @ ''.'']\<rparr>
            else \<lparr>vs_best = b1, vs_confidence = c1, vs_disagreements = n1\<rparr>))))"

definition consensus_payload :: "agent_context \<Rightarrow> scores \<Rightarrow> verdict_state \<Rightarrow> json_obj" where
  "consensus_payload cx s v =
     [(''decision'', JStr (vs_best v)), (''confidence'', JNum (pyround (vs_confidence v) 4)),
      (''supporting_agents'', texts (sc_supporting s)),
      (''disagreement_summary'', JStr (if vs_disagreements v = [] then ''No major unresolved conflict recorded.''
         else join ''; '' (vs_disagreements v))),
      (''missing_information'', texts (sorted_set (missing_inputs cx))),
      (''invalidating_conditions'', texts [''Fresh market data required'', ''Risk engine not yet implemented (Phase 4+)'']),
      (''scores'', JObj [(''LONG'', JNum (sc_long s)), (''SHORT'', JNum (sc_short s)), (''NEUTRAL'', JNum (sc_neutral s))]),
      (''evidence'', texts (sc_supporting s)), (''risk_flags'', texts [''analysis_only_no_execution''])]"

definition debate_scores :: "agent_env \<Rightarrow> agent_context \<Rightarrow> scores res" where
  "debate_scores ev cx =
     (let s0 = \<lparr>sc_long = Fin 0, sc_short = Fin 0, sc_neutral = Fin 0, sc_supporting = []\<rparr>
      in bind_res (add_technical ev cx (add_strategy ev cx s0)) (\<lambda>s.
           Inr (add_analyst ev cx ''bear'' ''SHORT'' (add_analyst ev cx ''bull'' ''LONG'' (add_trend ev cx s)))))"

definition analyze_consensus :: "agent_env \<Rightarrow> analysis" where
  "analyze_consensus ev cx = (cx,
     if critical_gap cx then Inr (fail_closed_payload cx)
     else bind_res (debate_scores ev cx) (\<lambda>s.
       bind_res (decide ev (close_debate ev cx) s) (\<lambda>v. Inr (consensus_payload cx s v))))"

section \<open>The default registry\<close>

definition build_default_registry :: "agent_env \<Rightarrow> agent_registry" where
  "build_default_registry ev = foldl (\<lambda>d (i, a). dput i a d) []
     [(''market_intelligence'', analyze_market ev), (''technical_analysis'', analyze_technical ev), (''trend'', analyze_trend ev),
      (''sentiment'', analyze_sentiment ev), (''on_chain'', analyze_on_chain ev), (''macro_event'', analyze_macro ev),
      (''strategy'', analyze_strategy ev), (''bull'', analyze_bull ev), (''bear'', analyze_bear ev),
      (''consensus'', analyze_consensus ev)]"

section \<open>The consensus fails closed\<close>

text \<open>An input the consensus cannot rely on: no message, a failed one, or one that reports missing data.\<close>

definition unusable :: "agent_context \<Rightarrow> string \<Rightarrow> bool" where
  "unusable cx i \<longleftrightarrow> (case cx_get cx i of None \<Rightarrow> True | Some m \<Rightarrow> am_status m \<noteq> Msg_Ok \<or> off_status (am_payload m))"

lemma off_suffix: "i \<in> set critical_agents \<Longrightarrow> py_endswith (i @ '':stale_or_unavailable'') ''stale_or_unavailable''"
  by (auto simp: critical_agents_def py_endswith_def)

lemma unusable_gap:
  assumes "i \<in> set critical_agents" and "unusable cx i" shows "critical_gap cx"
proof -
  have "i \<in> set (missing_inputs cx) \<or> i @ '':stale_or_unavailable'' \<in> set (missing_inputs cx)"
    using assms by (fastforce simp: missing_inputs_def unusable_def critical_missing_def payload_of_def split: option.splits)
  then show ?thesis using assms(1) off_suffix [OF assms(1)] by (auto simp: critical_gap_def list_ex_iff)
qed

lemma gap_free:
  assumes "\<not> critical_gap cx" and "i \<in> set critical_agents"
  shows "\<exists>m. cx_get cx i = Some m \<and> am_status m = Msg_Ok \<and> \<not> off_status (am_payload m)"
  using assms unusable_gap [of i cx] by (cases "cx_get cx i") (auto simp: unusable_def)

lemma fail_closed_message:
  "\<exists>m. ok_message ev i cx (fail_closed_payload cx) = Inr m \<and> am_decision m = Some ''NO_TRADE'' \<and> am_confidence m = Fin 0
     \<and> am_status m = Msg_Ok \<and> am_payload m = fail_closed_payload cx"
  by (simp add: ok_message_def decision_field_def text_field_def fail_closed_payload_def oget_def opt_default_def jfloat_def jlist_def texts_def jstr_def
      clamp_confidence_def pmax_def pmin_def py_upper_def)

lemma consensus_after_gap:
  assumes "critical_gap cx" and "require_no_execution cx = Inr ()"
  shows "\<exists>m. run_agent ev ''consensus'' (analyze_consensus ev) cx = (cx_store ''consensus'' m cx, Inr m)
    \<and> am_decision m = Some ''NO_TRADE'' \<and> am_confidence m = Fin 0 \<and> am_payload m = fail_closed_payload cx"
  using fail_closed_message [of ev "''consensus''" cx] assms
  by (auto simp: run_agent_def analyze_consensus_def)

text \<open>The debate fails closed: when one of the market agents has not reported, has failed, or reports stale or
missing data, the consensus is no trade with confidence zero, whatever the language model answers and
whatever the other agents say.\<close>

theorem consensus_fails_closed:
  assumes "i \<in> set critical_agents" and "unusable cx i" and "require_no_execution cx = Inr ()"
  shows "\<exists>m. snd (run_agent ev ''consensus'' (analyze_consensus ev) cx) = Inr m
    \<and> am_decision m = Some ''NO_TRADE'' \<and> am_confidence m = Fin 0"
  using consensus_after_gap [OF unusable_gap [OF assms(1,2)] assms(3), of ev] by auto

section \<open>A direction is earned\<close>

lemma best_side_best:
  "best_side s = (''LONG'', v) \<Longrightarrow> v = sc_long s \<and> \<not> flt (sc_long s) (sc_short s) \<and> \<not> flt (sc_long s) (sc_neutral s)"
  "best_side s = (''SHORT'', v) \<Longrightarrow> v = sc_short s \<and> flt (sc_long s) (sc_short s) \<and> \<not> flt (sc_short s) (sc_neutral s)"
  by (auto simp: best_side_def Let_def split: if_splits)

lemma best_side_name: "fst (best_side s) \<in> {''LONG'', ''SHORT'', ''NEUTRAL''}"
  by (simp add: best_side_def Let_def)

lemma decide_direction:
  assumes "decide ev notes s = Inr v" and "vs_best v \<in> {''LONG'', ''SHORT''}"
  shows "fst (best_side s) = vs_best v \<and> \<not> flt (vs_confidence v) (ev_min_confidence ev)
    \<and> contested s (if fsum [sc_long s, sc_short s, sc_neutral s] = Fin 0 then Fin 1
                   else fsum [sc_long s, sc_short s, sc_neutral s]) = Inr False"
  using assms by (cases "best_side s") (auto simp: decide_def bind_res_Inr_iff Let_def split: if_splits)


text \<open>A confidence that is not a number becomes full confidence.\<close>

lemma nan_confidence_is_full: "clamp_confidence NaN = Fin 1"
  by (simp add: clamp_confidence_def pmax_def pmin_def)

lemma clamp_range: "fle (Fin 0) (clamp_confidence v) \<and> fle (clamp_confidence v) (Fin 1)"
  by (cases v) (auto simp: clamp_confidence_def pmax_def pmin_def)

section \<open>Witnesses\<close>

text \<open>A language model that never answers, and a run in which the market agents agree.\<close>

definition demo_agents :: agent_env where
  "demo_agents = \<lparr>ev_market = None, ev_llm = (\<lambda>k sy pr. Inl (LLMError k)), ev_sentiment = unavailable_sentiment,
     ev_on_chain = unavailable_on_chain, ev_macro = unavailable_macro, ev_power = (\<lambda>x. x), ev_dumps = (\<lambda>j. []),
     ev_str = (\<lambda>j. []), ev_f2 = (\<lambda>x. []), ev_err = (\<lambda>e. []), ev_parse = (\<lambda>s. None), ev_ticker = (\<lambda>t. JNull),
     ev_freshness = (\<lambda>s. JNull), ev_min_confidence = Fin (1 / 2)\<rparr>"

definition demo_run :: agent_context where
  "demo_run = \<lparr>cx_symbol = ''BTC/USD'', cx_timeframe = ''1h'', cx_exchange = ''kraken'', cx_messages = [], cx_snapshot = None,
     cx_indicators = None, cx_regime = None, cx_knowledge = JNull, cx_allow_execution = False, cx_real_money = False\<rparr>"

definition demo_message :: "string \<Rightarrow> json_obj \<Rightarrow> agent_message" where
  "demo_message i p = \<lparr>am_agent_id = i, am_symbol = ''BTC/USD'', am_decision = None, am_confidence = Fin 1, am_evidence = [],
     am_risk_flags = [], am_status = Msg_Ok, am_payload = p, am_error = None\<rparr>"

definition demo_debate :: agent_context where
  "demo_debate = demo_run\<lparr>cx_messages := [(''market_intelligence'', demo_message ''market_intelligence'' []),
     (''technical_analysis'', demo_message ''technical_analysis'' [(''bullish_signals'', texts [''MACD histogram positive''])]),
     (''trend'', demo_message ''trend'' [(''short_term'', JStr ''up'')])]\<rparr>"

theorem consensus_fails_closed_witness:
  "\<exists>m. snd (run_agent demo_agents ''consensus'' (analyze_consensus demo_agents) demo_run) = Inr m
    \<and> am_decision m = Some ''NO_TRADE'' \<and> am_confidence m = Fin 0"
  by (rule consensus_fails_closed [of "''trend''"])
    (simp_all add: critical_agents_def unusable_def cx_get_def demo_run_def require_no_execution_def)

lemma demo_debate_messages:
  "cx_get demo_debate ''market_intelligence'' = Some (demo_message ''market_intelligence'' [])"
  "cx_get demo_debate ''technical_analysis''
     = Some (demo_message ''technical_analysis'' [(''bullish_signals'', texts [''MACD histogram positive''])])"
  "cx_get demo_debate ''trend'' = Some (demo_message ''trend'' [(''short_term'', JStr ''up'')])"
  "cx_get demo_debate ''sentiment'' = None" "cx_get demo_debate ''on_chain'' = None" "cx_get demo_debate ''macro_event'' = None"
  "cx_get demo_debate ''strategy'' = None" "cx_get demo_debate ''bull'' = None" "cx_get demo_debate ''bear'' = None"
  by (simp_all add: cx_get_def demo_debate_def)

lemma demo_no_gap: "\<not> critical_gap demo_debate"
  by (simp add: critical_gap_def missing_inputs_def critical_agents_def critical_missing_def optional_missing_def
      payload_of_def demo_debate_messages demo_message_def off_status_def is_str_def texts_def py_endswith_def)

lemma demo_scores:
  "debate_scores demo_agents demo_debate = Inr \<lparr>sc_long = Fin 2, sc_short = Fin 0, sc_neutral = Fin 0,
     sc_supporting = [''technical_analysis:LONG:'', ''trend:LONG:'']\<rparr>"
  by (simp add: debate_scores_def add_technical_def add_strategy_def add_trend_def add_analyst_def demo_debate_messages
      demo_message_def jlen_def jlist_def oget_def opt_default_def texts_def jstr_def add_score_def debate_weight_def
      demo_agents_def py_lower_def py_upper_def Let_def fl_eval)

lemma demo_decision:
  "decide demo_agents [] \<lparr>sc_long = Fin 2, sc_short = Fin 0, sc_neutral = Fin 0, sc_supporting = xs\<rparr>
     = Inr \<lparr>vs_best = ''LONG'', vs_confidence = Fin 1, vs_disagreements = []\<rparr>"
  by (simp add: decide_def best_side_def contested_def ranked_def fdiv_def demo_agents_def fsum_def Let_def fl_eval)


end
