(* ===== verification/Orchestration.thy ===== *)
theory Orchestration
  imports Strategy_Features Agents Planner Portfolio State_Tables
begin

text \<open>
  \<open>orchestration/\<close>: the state machine of an analysis, the circuit breaker and proposal
  services and the orchestrator, which runs the agents in their order and turns their consensus into a risk
  decision.  Nothing here places an order.
\<close>

section \<open>The state machine\<close>

datatype trading_state =
    IDLE | SCANNING | ANALYZING | DEBATING | RISK_REVIEW | TRADE_PLANNED | EXECUTING | EXECUTED | MONITORING
  | CLOSED | REFLECTING | FAILED | HALTED

fun analysis_transitions :: "trading_state \<Rightarrow> trading_state list" where
  "analysis_transitions IDLE = [SCANNING, HALTED]"
| "analysis_transitions SCANNING = [ANALYZING, FAILED, HALTED]"
| "analysis_transitions ANALYZING = [DEBATING, FAILED, HALTED]"
| "analysis_transitions DEBATING = [IDLE, FAILED, HALTED, RISK_REVIEW]"
| "analysis_transitions RISK_REVIEW = [IDLE, FAILED, HALTED, TRADE_PLANNED]"
| "analysis_transitions TRADE_PLANNED = [IDLE, FAILED, HALTED]"
| "analysis_transitions FAILED = [IDLE, HALTED]"
| "analysis_transitions HALTED = [IDLE]"
| "analysis_transitions _ = []"

definition trading_step :: "trading_state \<Rightarrow> trading_state \<Rightarrow> trading_state res" where
  "trading_step = table_transition analysis_transitions ''Invalid transition''"

text \<open>The states that stand for an execution.\<close>

definition executes :: "trading_state \<Rightarrow> bool" where
  "executes s \<longleftrightarrow> s \<in> {EXECUTING, EXECUTED, MONITORING, CLOSED, REFLECTING}"

interpretation analysis: confined trading_step "\<lambda>s. \<not> executes s"
proof
  fix s t u assume "trading_step s t = Inr u"
  then show "\<not> executes u" by (cases s) (auto simp: trading_step_def executes_def)
qed

section \<open>Circuit breakers\<close>

record breaker_service =
  bk_halted :: bool
  bk_reasons :: "string list"

definition breaker_halted :: "kill_state \<Rightarrow> breaker_service \<Rightarrow> bool" where
  "breaker_halted ks b \<longleftrightarrow> bk_halted b \<or> ks_active ks"

definition breaker_reasons :: "kill_state \<Rightarrow> breaker_service \<Rightarrow> string list" where
  "breaker_reasons ks b = bk_reasons b @ (if ks_active ks then [''KILL_SWITCH_ACTIVE''] else [])"

definition breaker_halt :: "string \<Rightarrow> breaker_service \<Rightarrow> breaker_service" where
  "breaker_halt why b = \<lparr>bk_halted = True, bk_reasons = bk_reasons b @ [why]\<rparr>"

definition flag_on :: "(string \<times> bool) list \<Rightarrow> string \<Rightarrow> bool" where
  "flag_on flags k = opt_default (dget flags k) True"

definition evaluate_portfolio ::
  "(string \<times> bool) list \<Rightarrow> risk_snapshot \<Rightarrow> effective_limits \<Rightarrow> breaker_service \<Rightarrow> breaker_service" where
  "evaluate_portfolio flags pf l b0 =
     (let b1 = b0\<lparr>bk_reasons := []\<rparr>;
          b2 = (if flag_on flags ''daily_loss_limit'' \<and> flt (Fin 0) (rs_equity pf)
                   \<and> fle (el_max_daily_loss_pct l) (fquot (fabs (pmin (rs_daily_pnl pf) (Fin 0))) (rs_equity pf))
                then breaker_halt ''DAILY_LOSS_LIMIT'' b1 else b1);
          b3 = (if flag_on flags ''drawdown_limit'' \<and> fle (el_max_drawdown_pct l) (rs_drawdown_pct pf)
                then breaker_halt ''DRAWDOWN_LIMIT'' b2 else b2)
      in if flag_on flags ''excessive_trade_frequency'' \<and> el_max_trades_per_day l \<le> rs_trades_today pf
         then breaker_halt ''TRADE_COUNT_LIMIT'' b3 else b3)"

section \<open>The proposal service\<close>

record proposal_service =
  sv_portfolio :: portfolio
  sv_engine :: risk_engine
  sv_breakers :: breaker_service
  sv_flags :: "(string \<times> bool) list"
  sv_store :: strategy_store
  sv_agents :: agent_map

definition order_flow_status :: string where
  "order_flow_status = ''UNAVAILABLE''"

definition build_feature_bundle :: "strategy_config \<Rightarrow> bar list \<Rightarrow> bool \<Rightarrow> int \<Rightarrow> strategy_features res" where
  "build_feature_bundle st bs stale as_of =
     bind_res (synthesize_timeframe bs ''15m'') (\<lambda>c15.
     bind_res (synthesize_timeframe bs ''240m'') (\<lambda>c240.
       compute_features st bs c15 c240 as_of stale order_flow_status))"

text \<open>What the planner reads of the strategy record, the bundle and the consensus.\<close>

definition planner_strategy :: "strategy_record \<Rightarrow> plan_strategy" where
  "planner_strategy r =
     (let m = sg_management (sd_config r)
      in \<lparr>ps_strategy_id = sd_strategy_id r, ps_version = sd_version r, ps_limits = risk_view (sd_config r),
          ps_atr_fallback_multiplier = sm_atr_fallback m, ps_target_rr = sm_target_risk_reward m\<rparr>)"

definition planner_bundle :: "strategy_features \<Rightarrow> feature_bundle" where
  "planner_bundle bn = \<lparr>fb_confirmed_ids = cf_confirmed_ids (bn_confluence bn), fb_move_be_at_1r = False,
     fb_partial_tp_pct = None, fb_last_close = map_option fe_last_close (bn_features bn),
     fb_atr_14 = (case bn_features bn of None \<Rightarrow> None | Some t \<Rightarrow> fv_value (fe_atr t)),
     fb_stop_long = bn_stop_long bn, fb_stop_short = bn_stop_short bn\<rparr>"

definition planner_consensus :: "agent_env \<Rightarrow> json_obj \<Rightarrow> consensus res" where
  "planner_consensus ev p =
     bind_res (jfloat ev (oget p ''confidence'' (JNum (Fin 0)))) (\<lambda>conf.
     bind_res (jlist (oget p ''invalidating_conditions'' (JList []))) (\<lambda>inv. Inr
       \<lparr>cn_decision = jstr ev (oget p ''decision'' (JStr ''NO_TRADE'')), cn_confidence = conf,
        cn_invalidating = map (jstr ev) inv\<rparr>))"

datatype proposal_risk = Early_Reject "string list" | Risk_Decided risk_decision

record proposal_result =
  po_strategy_id :: string
  po_version :: string
  po_config_hash :: string
  po_models :: "(string \<times> verdict) list"
  po_confluence :: confluence
  po_consensus :: json_obj
  po_plan :: trade_plan
  po_risk :: proposal_risk
  po_portfolio :: portfolio_snapshot
  po_features_status :: feature_status
  po_execution_attempted :: bool
  po_live_trading_enabled :: bool

definition po_approved :: "proposal_result \<Rightarrow> bool" where
  "po_approved r = (case po_risk r of Early_Reject _ \<Rightarrow> False | Risk_Decided d \<Rightarrow> rd_approved d)"

definition account_snapshot :: "portfolio_snapshot \<Rightarrow> bool \<Rightarrow> bool \<Rightarrow> risk_snapshot" where
  "account_snapshot sn killed halted =
     \<lparr>rs_equity = sn_equity sn, rs_available_cash = sn_available_cash sn, rs_positions_exposure = sn_positions_exposure sn,
      rs_daily_pnl = sn_daily_pnl sn, rs_drawdown_pct = sn_drawdown_pct sn, rs_trades_today = sn_trades_today sn,
      rs_kill_switch_active = killed, rs_trading_halted = halted\<rparr>"

record proposal_request =
  rq_symbol :: string
  rq_candles :: "bar list"
  rq_stale :: bool
  rq_liquidity :: "pyfloat option"
  rq_bars_since :: "int option"
  rq_strategy :: string
  rq_now :: int

text \<open>The decision on a finished plan.\<close>

definition proposal_decision ::
  "risk_engine \<Rightarrow> bool \<Rightarrow> proposal_request \<Rightarrow> strategy_record \<Rightarrow> risk_snapshot \<Rightarrow> trade_plan \<Rightarrow> proposal_risk" where
  "proposal_decision eng halted req r account plan =
     (if pl_status plan = NO_TRADE \<or> halted \<or> rq_stale req
      then Early_Reject (if halted then [''TRADING_HALTED''] else if rq_stale req then [''STALE_MARKET_DATA'']
             else [if opt_truthy (pl_reason plan) then opt_default (pl_reason plan) [] else ''NO_TRADE''])
      else Risk_Decided (engine_evaluate eng
             (to_proposal plan (pl_entry_price plan) (rq_liquidity req) (rq_stale req) (rq_bars_since req))
             account (Some (risk_view (sd_config r))) None default_context))"

definition evaluate_proposal ::
  "agent_env \<Rightarrow> json_obj \<Rightarrow> proposal_request \<Rightarrow> proposal_service \<Rightarrow> proposal_service \<times> proposal_result res" where
  "evaluate_proposal ev cons req sv =
     (case bind_res (get_strategy (sv_store sv) (rq_strategy req) (Some ''1.0.0'')) (\<lambda>r.
           bind_res (knowledge_bundle (sv_store sv) (sv_agents sv) (rq_strategy req) (Some ''1.0.0'')) (\<lambda>kb.
           bind_res (build_feature_bundle (sd_config r) (rq_candles req) (rq_stale req) (rq_now req)) (\<lambda>bn. Inr (r, bn)))) of
        Inl e \<Rightarrow> (sv, Inl e)
      | Inr (r, bn) \<Rightarrow>
          (case snapshot (sv_portfolio sv) [] of (pf, sn) \<Rightarrow>
             let eng = sv_engine sv; ks = ren_kill eng;
                 limits = merge_effective_limits (ren_limits eng) (Some (risk_view (sd_config r))) None;
                 before = account_snapshot sn (ks_active ks) (breaker_halted ks (sv_breakers sv));
                 b = evaluate_portfolio (sv_flags sv) before limits (sv_breakers sv);
                 halted = breaker_halted ks b;
                 sv1 = sv\<lparr>sv_portfolio := pf, sv_breakers := b\<rparr>
             in (sv1, bind_res (planner_consensus ev cons) (\<lambda>cn.
                  bind_res (plan_trade (ren_limits eng) (planner_strategy r) cn (planner_bundle bn) (sn_equity sn)
                       (flit (1 / 1000)) (flit (5 / 10000))) (\<lambda>plan0.
                    let plan = plan0\<lparr>pl_symbol := py_replace CHR ''-'' ''/'' (py_upper (rq_symbol req))\<rparr>
                    in Inr \<lparr>po_strategy_id = sd_strategy_id r, po_version = sd_version r, po_config_hash = sd_config_hash r,
                         po_models = map (\<lambda>m. (mv_model_id m, mv_status m)) (bn_models bn),
                         po_confluence = bn_confluence bn, po_consensus = cons, po_plan = plan,
                         po_risk = proposal_decision eng halted req r (before\<lparr>rs_trading_halted := halted\<rparr>) plan,
                         po_portfolio = sn, po_features_status = bn_status bn,
                         po_execution_attempted = False, po_live_trading_enabled = False\<rparr>)))))"

section \<open>Mock candles\<close>

definition mock_candle :: "int \<Rightarrow> nat \<Rightarrow> nat \<Rightarrow> pyfloat \<Rightarrow> bar" where
  "mock_candle base n i price =
     (let cl = fadd price (flit (15 / 100))
      in \<lparr>br_time = base - 300000000 * int (n - i), br_open = price, br_high = fadd cl (flit (5 / 100)),
          br_low = fsub price (flit (5 / 100)), br_close = cl, br_volume = f_of_int (1000 + int (i mod 20) * 10)\<rparr>)"

fun mock_candles_from :: "int \<Rightarrow> nat \<Rightarrow> nat list \<Rightarrow> pyfloat \<Rightarrow> bar list" where
  "mock_candles_from base n [] price = []"
| "mock_candles_from base n (i # is) price =
     (let b = mock_candle base n i price in b # mock_candles_from base n is (br_close b))"

text \<open>\<open>now.replace(second=0, microsecond=0) - 5 minutes\<close>\<close>

definition default_mock_candles :: "int \<Rightarrow> nat \<Rightarrow> bar list" where
  "default_mock_candles now n = mock_candles_from (now - now mod 60000000 - 300000000) n [0..<n] (Fin 100)"

section \<open>The orchestrator\<close>

definition analysis_pipeline :: "string list" where
  "analysis_pipeline = [''market_intelligence'', ''technical_analysis'', ''trend'', ''sentiment'', ''on_chain'',
     ''macro_event'', ''strategy'', ''bull'', ''bear'', ''consensus'']"

text \<open>One agent's turn: the debate starts with the first of the three reasoning agents.\<close>

definition agent_turn ::
  "agent_env \<Rightarrow> agent_registry \<Rightarrow> string \<Rightarrow> trading_state \<times> agent_context \<Rightarrow> (trading_state \<times> agent_context) \<times> unit res" where
  "agent_turn ev rg i run = (case run of (s, cx) \<Rightarrow>
     (case (if i \<in> {''bull'', ''bear'', ''consensus''} \<and> s = ANALYZING then trading_step s DEBATING else Inr s) of
        Inl e \<Rightarrow> ((s, cx), Inl e)
      | Inr s1 \<Rightarrow> (case registry_get rg i of
          Inl e \<Rightarrow> ((s1, cx), Inl e)
        | Inr analyze \<Rightarrow> (case run_agent ev i analyze cx of
            (cx1, Inl e) \<Rightarrow> ((s1, cx1), Inl e) | (cx1, Inr m) \<Rightarrow> ((s1, cx1), Inr ())))))"

fun run_pipeline ::
  "agent_env \<Rightarrow> agent_registry \<Rightarrow> string list \<Rightarrow> trading_state \<times> agent_context \<Rightarrow> (trading_state \<times> agent_context) \<times> unit res" where
  "run_pipeline ev rg [] run = (run, Inr ())"
| "run_pipeline ev rg (i # is) run = (case agent_turn ev rg i run of
     (run1, Inl e) \<Rightarrow> (run1, Inl e) | (run1, Inr _) \<Rightarrow> run_pipeline ev rg is run1)"

record orchestrator =
  oc_state :: trading_state
  oc_registry :: agent_registry
  oc_service :: proposal_service
  oc_real_money :: bool
  oc_default_exchange :: string

record analysis_result =
  ar_symbol :: string
  ar_timeframe :: string
  ar_exchange :: string
  ar_state :: trading_state
  ar_consensus :: json_obj
  ar_messages :: "(string \<times> agent_message) list"
  ar_execution_attempted :: bool

definition new_context :: "orchestrator \<Rightarrow> string \<Rightarrow> string \<Rightarrow> string option \<Rightarrow> json \<Rightarrow> agent_context" where
  "new_context oc symbol timeframe exchange knowledge =
     \<lparr>cx_symbol = py_upper symbol, cx_timeframe = timeframe,
      cx_exchange = py_lower (if opt_truthy exchange then opt_default exchange [] else oc_default_exchange oc),
      cx_messages = [], cx_snapshot = None, cx_indicators = None, cx_regime = None, cx_knowledge = knowledge,
      cx_allow_execution = False, cx_real_money = oc_real_money oc\<rparr>"

text \<open>After an exception the machine fails, unless it is halted or may not.\<close>

definition fail_state :: "trading_state \<Rightarrow> trading_state" where
  "fail_state s = (if s = HALTED then s else case trading_step s FAILED of Inl _ \<Rightarrow> s | Inr t \<Rightarrow> t)"

definition orchestrator_analyze ::
  "agent_env \<Rightarrow> (knowledge \<Rightarrow> json) \<Rightarrow> string \<Rightarrow> string \<Rightarrow> string option \<Rightarrow> orchestrator \<Rightarrow> orchestrator \<times> analysis_result res" where
  "orchestrator_analyze ev show_kb symbol timeframe exchange oc =
     (if oc_real_money oc then (oc, Inl (RuntimeError ''Live trading is disabled in this phase''))
      else case knowledge_bundle (sv_store (oc_service oc)) (sv_agents (oc_service oc)) ''multi_model_po3_vwap'' (Some ''1.0.0'') of
        Inl e \<Rightarrow> (oc, Inl e)
      | Inr kb \<Rightarrow>
          (let cx = new_context oc symbol timeframe exchange (show_kb kb)
           in case table_run trading_step IDLE [SCANNING, ANALYZING] of
                Inl e \<Rightarrow> (oc, Inl e)
              | Inr s0 \<Rightarrow> (case run_pipeline ev (oc_registry oc) analysis_pipeline (s0, cx) of
                  ((s, cx1), Inl e) \<Rightarrow> (oc\<lparr>oc_state := fail_state s\<rparr>, Inl e)
                | ((s, cx1), Inr _) \<Rightarrow> (case trading_step s IDLE of
                    Inl e \<Rightarrow> (oc\<lparr>oc_state := fail_state s\<rparr>, Inl e)
                  | Inr s2 \<Rightarrow> (oc\<lparr>oc_state := s2\<rparr>, Inr
                      \<lparr>ar_symbol = cx_symbol cx1, ar_timeframe = cx_timeframe cx1, ar_exchange = cx_exchange cx1, ar_state = s2,
                       ar_consensus = payload_of cx1 ''consensus'', ar_messages = cx_messages cx1,
                       ar_execution_attempted = False\<rparr>)))))"

text \<open>Where the candles come from: the mock service, or a service whose two calls may raise.\<close>

datatype candle_source = Mock_Data "bar list" bool | Service_Data "bar list res" "market_snapshot res"

definition proposal_candles :: "int \<Rightarrow> candle_source \<Rightarrow> bar list \<times> bool" where
  "proposal_candles now src = (case src of
     Mock_Data bs force_stale \<Rightarrow> (if length bs < 300 then default_mock_candles now 400 else bs, force_stale)
   | Service_Data bars snap \<Rightarrow> (case (bars, snap) of
       (Inr bs, Inr s) \<Rightarrow> (bs, ms_stale s \<or> \<not> ms_available s) | _ \<Rightarrow> ([], True)))"

record proposal_answer =
  pa_result :: proposal_result
  pa_consensus :: json_obj
  pa_state :: trading_state
  pa_execution_attempted :: bool

definition orchestrator_propose ::
  "agent_env \<Rightarrow> (knowledge \<Rightarrow> json) \<Rightarrow> int \<Rightarrow> candle_source \<Rightarrow> string \<Rightarrow> string \<Rightarrow> string option \<Rightarrow> orchestrator
   \<Rightarrow> orchestrator \<times> proposal_answer res" where
  "orchestrator_propose ev show_kb now src symbol timeframe exchange oc =
     (case orchestrator_analyze ev show_kb symbol timeframe exchange oc of
        (oc1, Inl e) \<Rightarrow> (oc1, Inl e)
      | (oc1, Inr a) \<Rightarrow> (case table_run trading_step IDLE [SCANNING, ANALYZING, DEBATING] of
          Inl e \<Rightarrow> (oc1, Inl e)
        | Inr s0 \<Rightarrow>
            (let s1 = (case trading_step s0 RISK_REVIEW of Inl _ \<Rightarrow> s0 | Inr t \<Rightarrow> t);
                 (bs, stale) = proposal_candles now src;
                 req = \<lparr>rq_symbol = symbol, rq_candles = bs, rq_stale = stale, rq_liquidity = Some (Fin 1000000),
                   rq_bars_since = Some 100, rq_strategy = ''multi_model_po3_vwap'', rq_now = now\<rparr>
             in case evaluate_proposal ev (ar_consensus a) req (oc_service oc1) of (sv, r) \<Rightarrow>
                  (oc1\<lparr>oc_state := s1, oc_service := sv\<rparr>, bind_res r (\<lambda>p. Inr
                    \<lparr>pa_result = p, pa_consensus = ar_consensus a, pa_state = s1, pa_execution_attempted = False\<rparr>)))))"

section \<open>The features never see an open bar\<close>

lemma only_closed_idem: "only_closed_candles (only_closed_candles bs t m) t m = only_closed_candles bs t m"
  by (simp add: only_closed_candles_def)

lemma pipeline_frames: "timeframe_to_minutes ''15m'' = Inr 15" "timeframe_to_minutes ''240m'' = Inr 240"
  by (simp_all add: timeframe_to_minutes_def py_lower_def py_strip_def is_space_def py_endswith_def parse_int_def
      is_digit_def)


section \<open>What an approval means\<close>

lemma account_snapshot_halted: "(account_snapshot sn k h)\<lparr>rs_trading_halted := h'\<rparr> = account_snapshot sn k h'"
  by (simp add: account_snapshot_def)

text \<open>What decided a proposal: the strategy, the halt and the decision on the finished plan.\<close>

definition halted_now :: "proposal_service \<Rightarrow> proposal_service \<Rightarrow> bool" where
  "halted_now sv sv' \<longleftrightarrow> breaker_halted (ren_kill (sv_engine sv)) (sv_breakers sv')"

definition risk_verdict :: "proposal_service \<Rightarrow> proposal_service \<Rightarrow> proposal_request \<Rightarrow> strategy_record \<Rightarrow> proposal_result \<Rightarrow> risk_decision" where
  "risk_verdict sv sv' req rec r = engine_evaluate (sv_engine sv)
     (to_proposal (po_plan r) (pl_entry_price (po_plan r)) (rq_liquidity req) False (rq_bars_since req))
     (account_snapshot (po_portfolio r) (ks_active (ren_kill (sv_engine sv))) (halted_now sv sv'))
     (Some (risk_view (sd_config rec))) None default_context"

lemma evaluate_proposal_Inr:
  assumes "evaluate_proposal ev cons req sv = (sv', Inr r)"
  obtains rec bn cn plan0 where
    "get_strategy (sv_store sv) (rq_strategy req) (Some ''1.0.0'') = Inr rec"
    "planner_consensus ev cons = Inr cn"
    "plan_trade (ren_limits (sv_engine sv)) (planner_strategy rec) cn (planner_bundle bn) (sn_equity (po_portfolio r))
       (flit (1 / 1000)) (flit (5 / 10000)) = Inr plan0"
    "po_plan r = plan0\<lparr>pl_symbol := py_replace CHR ''-'' ''/'' (py_upper (rq_symbol req))\<rparr>"
    "po_risk r = proposal_decision (sv_engine sv) (halted_now sv sv') req rec
       (account_snapshot (po_portfolio r) (ks_active (ren_kill (sv_engine sv))) (halted_now sv sv')) (po_plan r)"
    "po_confluence r = bn_confluence bn" "\<not> po_execution_attempted r"
  using assms
  by (auto simp: evaluate_proposal_def bind_res_Inr_iff halted_now_def account_snapshot_halted Let_def
      split: sum.splits prod.splits)

lemma approved_by_gates:
  assumes "evaluate_proposal ev cons req sv = (sv', Inr r)"
  shows "\<exists>rec. get_strategy (sv_store sv) (rq_strategy req) (Some ''1.0.0'') = Inr rec
    \<and> (po_approved r \<longleftrightarrow> pl_status (po_plan r) = PROPOSED \<and> \<not> halted_now sv sv' \<and> \<not> rq_stale req
         \<and> rd_approved (risk_verdict sv sv' req rec r))"
proof -
  obtain rec where rec: "get_strategy (sv_store sv) (rq_strategy req) (Some ''1.0.0'') = Inr rec"
    "po_risk r = proposal_decision (sv_engine sv) (halted_now sv sv') req rec
       (account_snapshot (po_portfolio r) (ks_active (ren_kill (sv_engine sv))) (halted_now sv sv')) (po_plan r)"
    using assms by (rule evaluate_proposal_Inr) blast
  then show ?thesis
    by (cases "pl_status (po_plan r)") (auto simp: po_approved_def proposal_decision_def risk_verdict_def)
qed

lemma breakers_latch:
  "bk_halted (sv_breakers sv) \<Longrightarrow> bk_halted (sv_breakers (fst (evaluate_proposal ev cons req sv)))"
  by (simp add: evaluate_proposal_def evaluate_portfolio_def breaker_halt_def Let_def split: sum.split prod.split)

text \<open>C6: a proposal is approved exactly through its gates: the market data is not stale, neither the breakers nor
the kill switch halt trading, the plan is a proposed one, and the risk engine approves that plan on the account
as it was valued, under the strategy's limits; then the consensus asks for a direction and a model has confirmed
it; and whatever the answer, nothing was executed.\<close>

theorem proposal_approval_sound:
  assumes "evaluate_proposal ev cons req sv = (sv', Inr r)"
  shows "\<exists>rec. get_strategy (sv_store sv) (rq_strategy req) (Some ''1.0.0'') = Inr rec
    \<and> (po_approved r \<longleftrightarrow> pl_status (po_plan r) = PROPOSED \<and> \<not> halted_now sv sv' \<and> \<not> rq_stale req
         \<and> rd_approved (risk_verdict sv sv' req rec r))
    \<and> (po_approved r \<longrightarrow> py_upper (jstr ev (oget cons ''decision'' (JStr ''NO_TRADE''))) \<in> {''LONG'', ''SHORT''}
         \<and> cf_confirmed_ids (po_confluence r) \<noteq> [])
    \<and> \<not> po_execution_attempted r"
proof -
  obtain rec bn cn plan0 where f: "planner_consensus ev cons = Inr cn"
    "plan_trade (ren_limits (sv_engine sv)) (planner_strategy rec) cn (planner_bundle bn) (sn_equity (po_portfolio r))
       (flit (1 / 1000)) (flit (5 / 10000)) = Inr plan0"
    "po_plan r = plan0\<lparr>pl_symbol := py_replace CHR ''-'' ''/'' (py_upper (rq_symbol req))\<rparr>"
    "po_confluence r = bn_confluence bn" "\<not> po_execution_attempted r"
    using assms by (rule evaluate_proposal_Inr)
  have "py_upper (cn_decision cn) \<in> {''LONG'', ''SHORT''} \<and> fb_confirmed_ids (planner_bundle bn) \<noteq> []"
    if "pl_status (po_plan r) = PROPOSED"
    using f(2,3) that by (auto simp: plan_trade_def Let_def split: if_splits option.splits)
  moreover have "cn_decision cn = jstr ev (oget cons ''decision'' (JStr ''NO_TRADE''))"
    using f(1) by (auto simp: planner_consensus_def bind_res_Inr_iff)
  moreover have "fb_confirmed_ids (planner_bundle bn) = cf_confirmed_ids (po_confluence r)"
    by (simp add: planner_bundle_def f(4))
  ultimately show ?thesis using approved_by_gates [OF assms] f(5) by metis
qed

text \<open>A tripped breaker latches.\<close>

fun propose_all ::
  "agent_env \<Rightarrow> (json_obj \<times> proposal_request) list \<Rightarrow> proposal_service \<Rightarrow> proposal_service \<times> proposal_result res list" where
  "propose_all ev [] sv = (sv, [])"
| "propose_all ev ((cons, req) # reqs) sv = (case evaluate_proposal ev cons req sv of
     (sv1, r) \<Rightarrow> (case propose_all ev reqs sv1 of (sv2, rs) \<Rightarrow> (sv2, r # rs)))"

lemma halted_never_approves:
  "bk_halted (sv_breakers sv) \<Longrightarrow> Inr r \<in> set (snd (propose_all ev reqs sv)) \<Longrightarrow> \<not> po_approved r"
proof (induction reqs arbitrary: sv)
  case (Cons q reqs)
  obtain cons req where q: "q = (cons, req)" by fastforce
  obtain sv1 r1 where one: "evaluate_proposal ev cons req sv = (sv1, r1)" by fastforce
  have halted: "bk_halted (sv_breakers sv1)" using breakers_latch [OF Cons.prems(1), of ev cons req] one by simp
  have first: "\<not> po_approved r" if "r1 = Inr r"
    using approved_by_gates [of ev cons req sv sv1 r] one that halted
    by (auto simp: halted_now_def breaker_halted_def)
  show ?case
    using Cons.prems(2) Cons.IH [OF halted] first by (auto simp: q one split: prod.splits)
qed simp

section \<open>No market data, no direction\<close>

text \<open>An analysis leaves the messages of the run and its guards alone.\<close>

definition run_core :: "agent_context \<Rightarrow> (string \<times> agent_message) list \<times> bool \<times> bool" where
  "run_core cx = (cx_messages cx, cx_allow_execution cx, cx_real_money cx)"

lemma run_core_simps [simp]:
  "run_core (cx\<lparr>cx_snapshot := x\<rparr>) = run_core cx" "run_core (cx\<lparr>cx_indicators := y\<rparr>) = run_core cx"
  "run_core (cx\<lparr>cx_indicators := y, cx_regime := z\<rparr>) = run_core cx"
  by (simp_all add: run_core_def)

definition keeps_run :: "analysis \<Rightarrow> bool" where
  "keeps_run a \<longleftrightarrow> (\<forall>cx. run_core (fst (a cx)) = run_core cx)"

lemma require_market_keeps: "require_market ev i cx = (c, r) \<Longrightarrow> run_core c = run_core cx"
  by (auto simp: require_market_def split: option.splits sum.splits)

lemma analyses_keep:
  "keeps_run (analyze_market ev)" "keeps_run (analyze_technical ev)" "keeps_run (analyze_trend ev)"
  "keeps_run (analyze_sentiment ev)" "keeps_run (analyze_on_chain ev)" "keeps_run (analyze_macro ev)"
  "keeps_run (analyze_strategy ev)" "keeps_run (analyze_bull ev)" "keeps_run (analyze_bear ev)"
  "keeps_run (analyze_consensus ev)"
proof -
  show "keeps_run (analyze_market ev)" "keeps_run (analyze_technical ev)" "keeps_run (analyze_trend ev)"
    by (auto simp: keeps_run_def analyze_market_def analyze_technical_def analyze_trend_def Let_def
        dest: require_market_keeps split: prod.split sum.split)
qed (auto simp: keeps_run_def analyze_sentiment_def analyze_on_chain_def analyze_macro_def analyze_strategy_def
      analyze_bull_def analyze_bear_def analyze_consensus_def Let_def)

lemma default_registry: "build_default_registry ev =
     [(''market_intelligence'', analyze_market ev), (''technical_analysis'', analyze_technical ev), (''trend'', analyze_trend ev),
      (''sentiment'', analyze_sentiment ev), (''on_chain'', analyze_on_chain ev), (''macro_event'', analyze_macro ev),
      (''strategy'', analyze_strategy ev), (''bull'', analyze_bull ev), (''bear'', analyze_bear ev),
      (''consensus'', analyze_consensus ev)]"
  by (simp add: build_default_registry_def)

lemma registry_keeps: "registry_get (build_default_registry ev) i = Inr a \<Longrightarrow> keeps_run a"
  unfolding default_registry registry_get_def using analyses_keep [of ev]
  by (auto split: option.splits if_splits)

text \<open>A turn writes the message of its own agent only.\<close>

lemma turn_keeps:
  assumes "agent_turn ev (build_default_registry ev) i (s, cx) = ((s', cx'), Inr ())" and "j \<noteq> i"
  shows "cx_get cx' j = cx_get cx j"
proof -
  obtain a m where a: "registry_get (build_default_registry ev) i = Inr a"
    and run: "run_agent ev i a cx = (cx', Inr m)"
    using assms(1) by (auto simp: agent_turn_def split: sum.splits prod.splits)
  have "cx_messages (fst (a cx)) = cx_messages cx" using registry_keeps [OF a] by (simp add: keeps_run_def run_core_def)
  moreover have "cx_messages cx' = dput i m (cx_messages (fst (a cx)))"
    using run by (auto simp: run_agent_def cx_store_def Let_def split: sum.splits prod.splits)
  ultimately show ?thesis using assms(2) by (simp add: cx_get_def dget_dput)
qed

lemma pipeline_keeps:
  "run_pipeline ev (build_default_registry ev) is (s, cx) = ((s', cx'), Inr ()) \<Longrightarrow> j \<notin> set is \<Longrightarrow> cx_get cx' j = cx_get cx j"
proof (induction "is" arbitrary: s cx)
  case (Cons i "is")
  obtain s1 cx1 where one: "agent_turn ev (build_default_registry ev) i (s, cx) = ((s1, cx1), Inr ())"
    and rest: "run_pipeline ev (build_default_registry ev) is (s1, cx1) = ((s', cx'), Inr ())"
    using Cons.prems(1) by (auto split: prod.splits sum.splits)
  show ?case using turn_keeps [OF one] Cons.IH [OF rest] Cons.prems(2) by simp
qed simp

lemma pipeline_append:
  "run_pipeline ev rg (is @ js) run = (case run_pipeline ev rg is run of
     (run1, Inl e) \<Rightarrow> (run1, Inl e) | (run1, Inr _) \<Rightarrow> run_pipeline ev rg js run1)"
  by (induction "is" arbitrary: run) (auto split: prod.splits sum.splits)

lemma run_agent_cases:
  assumes "run_agent ev i a cx = (cx1, Inr m)"
  shows "cx_get cx1 i = Some m" and "am_status m = Msg_Error \<or> snd (a cx) = Inr (am_payload m)"
proof -
  obtain c r where a: "a cx = (c, r)" by fastforce
  show "cx_get cx1 i = Some m"
    using assms by (auto simp: run_agent_def a cx_store_def cx_get_def dget_dput Let_def split: sum.splits)
  have "m = (case bind_res r (ok_message ev i cx) of Inl e \<Rightarrow> failed_message ev i cx e | Inr m \<Rightarrow> m)"
    using assms by (auto simp: run_agent_def a Let_def split: sum.splits)
  then show "am_status m = Msg_Error \<or> snd (a cx) = Inr (am_payload m)"
    by (auto simp: a failed_message_def ok_message_def bind_res_Inr_iff Let_def split: sum.splits)
qed

lemma stale_payload_off: "off_status (stale_market_payload cx s)"
  by (simp add: off_status_def is_str_def stale_market_payload_def no_trade_fields_def)

lemma stale_market_unusable:
  assumes "\<forall>ask i s. ev_market ev = Some ask \<longrightarrow> ask i = Inr s \<longrightarrow> stale_or_missing s" and "cx_snapshot cx = None"
    and "run_agent ev ''market_intelligence'' (analyze_market ev) cx = (cx1, Inr m)"
  shows "unusable cx1 ''market_intelligence''"
proof -
  have "(\<exists>e. snd (analyze_market ev cx) = Inl e) \<or> (\<exists>s. snd (analyze_market ev cx) = Inr (stale_market_payload cx s))"
    using assms(1,2) by (auto simp: analyze_market_def require_market_def split: option.split sum.split)
  with run_agent_cases [OF assms(3)] show ?thesis
    by (auto simp: unusable_def) (metis stale_payload_off)
qed

lemma consensus_in_pipeline:
  assumes "agent_turn ev (build_default_registry ev) ''consensus'' (s, cx) = ((s', cx'), Inr ())" and "critical_gap cx"
  shows "payload_of cx' ''consensus'' = fail_closed_payload cx"
proof -
  obtain m where run: "run_agent ev ''consensus'' (analyze_consensus ev) cx = (cx', Inr m)"
    using assms(1) by (auto simp: agent_turn_def default_registry registry_get_def split: sum.splits prod.splits)
  then have "require_no_execution cx = Inr ()" by (auto simp: run_agent_def split: sum.splits)
  then obtain m' where "run_agent ev ''consensus'' (analyze_consensus ev) cx = (cx_store ''consensus'' m' cx, Inr m')"
    "am_payload m' = fail_closed_payload cx"
    using consensus_after_gap assms(2) by blast
  then show ?thesis using run by (simp add: payload_of_def cx_store_def cx_get_def dget_dput)
qed

lemma stale_pipeline:
  assumes "\<forall>ask i s. ev_market ev = Some ask \<longrightarrow> ask i = Inr s \<longrightarrow> stale_or_missing s" and "cx_snapshot cx = None"
    and "run_pipeline ev (build_default_registry ev) analysis_pipeline (ANALYZING, cx) = ((s', cx'), Inr ())"
  shows "\<exists>cy. payload_of cx' ''consensus'' = fail_closed_payload cy"
proof -
  define mid where "mid = [''technical_analysis'', ''trend'', ''sentiment'', ''on_chain'', ''macro_event'', ''strategy'', ''bull'', ''bear'']"
  have split: "analysis_pipeline = ''market_intelligence'' # (mid @ [''consensus''])"
    by (simp add: analysis_pipeline_def mid_def)
  obtain s1 cx1 s2 cx2 where first: "agent_turn ev (build_default_registry ev) ''market_intelligence'' (ANALYZING, cx) = ((s1, cx1), Inr ())"
    and mid: "run_pipeline ev (build_default_registry ev) mid (s1, cx1) = ((s2, cx2), Inr ())"
    and final: "agent_turn ev (build_default_registry ev) ''consensus'' (s2, cx2) = ((s', cx'), Inr ())"
    using assms(3) by (auto simp: split pipeline_append split: prod.splits sum.splits)
  obtain m where "run_agent ev ''market_intelligence'' (analyze_market ev) cx = (cx1, Inr m)"
    using first by (auto simp: agent_turn_def default_registry registry_get_def split: sum.splits prod.splits)
  then have "unusable cx1 ''market_intelligence''" using stale_market_unusable assms(1,2) by blast
  moreover have "cx_get cx2 ''market_intelligence'' = cx_get cx1 ''market_intelligence''"
    using mid by (rule pipeline_keeps) (simp add: mid_def)
  ultimately have "critical_gap cx2"
    by (intro unusable_gap [of "''market_intelligence''"]) (simp_all add: unusable_def critical_agents_def)
  with final show ?thesis using consensus_in_pipeline by blast
qed

lemma fail_closed_plan:
  assumes "planner_consensus ev (fail_closed_payload cx) = Inr cn" and "plan_trade g st cn fb eq fr sl = Inr p"
  shows "pl_status p = NO_TRADE"
proof -
  have "cn_decision cn = ''NO_TRADE''"
    using assms(1) by (auto simp: planner_consensus_def bind_res_Inr_iff oget_def opt_default_def fail_closed_payload_def jstr_def)
  with assms(2) show ?thesis by (auto simp: plan_trade_def py_upper_def Let_def no_trade_plan_def)
qed

lemma stale_consensus:
  assumes "oc_registry oc = build_default_registry ev"
    and "\<forall>ask i s. ev_market ev = Some ask \<longrightarrow> ask i = Inr s \<longrightarrow> stale_or_missing s"
    and an: "orchestrator_analyze ev show_kb symbol timeframe exchange oc = (oc1, Inr ar)"
  shows "\<exists>cy. ar_consensus ar = fail_closed_payload cy"
proof -
  obtain kb s cx where run: "run_pipeline ev (build_default_registry ev) analysis_pipeline
      (ANALYZING, new_context oc symbol timeframe exchange kb) = ((s, cx), Inr ())" "ar_consensus ar = payload_of cx ''consensus''"
    using an assms(1)
    by (auto simp: orchestrator_analyze_def trading_step_def bind_res_def Let_def split: prod.splits sum.splits if_splits)
  show ?thesis
    using stale_pipeline [OF assms(2) _ run(1)] run(2) by (auto simp: new_context_def)
qed

text \<open>C5: without fresh market data nothing is proposed: when every snapshot the agents are given is stale or
incomplete, the whole run of ten agents, whatever the language model and the other providers answer, ends in a
no trade consensus and the proposal is not approved, even if the candles of the proposal itself are fresh.\<close>

theorem stale_market_never_approved:
  assumes "oc_registry oc = build_default_registry ev"
    and "\<forall>ask i s. ev_market ev = Some ask \<longrightarrow> ask i = Inr s \<longrightarrow> stale_or_missing s"
    and "orchestrator_propose ev show_kb now src symbol timeframe exchange oc = (oc', Inr a)"
  shows "dget (pa_consensus a) ''decision'' = Some (JStr ''NO_TRADE'') \<and> \<not> po_approved (pa_result a)
    \<and> \<not> pa_execution_attempted a"
proof -
  obtain oc1 ar req sv where an: "orchestrator_analyze ev show_kb symbol timeframe exchange oc = (oc1, Inr ar)"
    and cons: "pa_consensus a = ar_consensus ar" and ex: "\<not> pa_execution_attempted a"
    and ep: "evaluate_proposal ev (ar_consensus ar) req (oc_service oc1) = (sv, Inr (pa_result a))"
    using assms(3) by (auto simp: orchestrator_propose_def bind_res_Inr_iff Let_def split: prod.splits sum.splits)
  obtain cy where cy: "ar_consensus ar = fail_closed_payload cy"
    using stale_consensus [OF assms(1,2) an] by blast
  have "pl_status (po_plan (pa_result a)) = NO_TRADE"
    using ep fail_closed_plan [of ev cy] by (auto simp: cy elim!: evaluate_proposal_Inr)
  then have "\<not> po_approved (pa_result a)" using approved_by_gates [OF ep] by auto
  then show ?thesis using ex by (simp add: cons cy fail_closed_payload_def)
qed

section \<open>The machine never executes\<close>

lemma turn_state:
  "agent_turn ev rg i (s, cx) = ((s', cx'), r) \<Longrightarrow> \<not> executes s \<Longrightarrow> \<not> executes s'"
  using analysis.step_inside [of s DEBATING]
  by (auto simp: agent_turn_def split: sum.splits prod.splits if_splits)

lemma pipeline_state:
  "run_pipeline ev rg is (s, cx) = ((s', cx'), r) \<Longrightarrow> \<not> executes s \<Longrightarrow> \<not> executes s'"
proof (induction "is" arbitrary: s cx)
  case (Cons i "is")
  obtain s1 cx1 r1 where one: "agent_turn ev rg i (s, cx) = ((s1, cx1), r1)" by (metis prod.collapse)
  with Cons.prems(2) have "\<not> executes s1" using turn_state by blast
  with Cons.prems(1) Cons.IH one show ?case by (auto split: sum.splits)
qed simp

lemma fail_state_inside: "\<not> executes s \<Longrightarrow> \<not> executes (fail_state s)"
  using analysis.step_inside [of s FAILED] by (auto simp: fail_state_def split: sum.split)

lemma idle_inside: "\<not> executes IDLE"
  by (simp add: executes_def)

lemma analyze_state:
  assumes "\<not> executes (oc_state oc)"
  shows "\<not> executes (oc_state (fst (orchestrator_analyze ev show_kb symbol timeframe exchange oc)))"
proof -
  have start: "\<not> executes s0" if "table_run trading_step IDLE ts = Inr s0" for ts s0
    using that analysis.run_inside idle_inside by blast
  have done_: "\<not> executes s2" if "\<not> executes s" "trading_step s IDLE = Inr s2" for s s2
    using that analysis.step_inside by blast
  have run: "\<not> executes s" "\<not> executes (fail_state s)"
    if "table_run trading_step IDLE ts = Inr s0" "run_pipeline ev rg is (s0, cx) = ((s, cx'), r)" for ts s0 rg "is" cx s cx' r
    using pipeline_state [OF that(2) start [OF that(1)]] fail_state_inside by blast+
  show ?thesis
    using assms run done_ unfolding orchestrator_analyze_def Let_def
    by (auto split: sum.split prod.split simp del: table_run.simps) blast+
qed

text \<open>The orchestrator only analyses: neither an analysis nor a proposal, whatever fails on the way, leaves the
machine in one of the states that stand for an execution; from the idle state they are out of reach.\<close>

theorem orchestrator_never_executes:
  assumes "\<not> executes (oc_state oc)"
  shows "\<not> executes (oc_state (fst (orchestrator_analyze ev show_kb symbol timeframe exchange oc)))
    \<and> \<not> executes (oc_state (fst (orchestrator_propose ev show_kb now src symbol timeframe exchange oc)))
    \<and> (\<forall>s. reach_by trading_step IDLE s \<longrightarrow> \<not> executes s)"
proof -
  obtain oc1 r1 where an: "orchestrator_analyze ev show_kb symbol timeframe exchange oc = (oc1, r1)" by fastforce
  have inside: "\<not> executes (oc_state oc1)"
    using analyze_state [OF assms, of ev show_kb symbol timeframe exchange] an by simp
  have start: "\<not> executes s0" if "table_run trading_step IDLE ts = Inr s0" for ts s0
    using that analysis.run_inside idle_inside by blast
  have review: "\<not> executes t" if "\<not> executes s" "trading_step s RISK_REVIEW = Inr t" for s t
    using that analysis.step_inside by blast
  have "\<not> executes (oc_state (fst (orchestrator_propose ev show_kb now src symbol timeframe exchange oc)))"
    using inside start review unfolding orchestrator_propose_def an Let_def
    by (auto split: sum.split prod.split simp del: table_run.simps)
  with inside show ?thesis using an analysis.reach_inside idle_inside by auto
qed

section \<open>An analysis runs to its end\<close>

lemma map_fst_dput: "map fst (dput k v d) = (if k \<in> set (map fst d) then map fst d else map fst d @ [k])"
  by (induction d) auto

definition debating :: "string \<Rightarrow> trading_state \<Rightarrow> trading_state" where
  "debating i s = (if i \<in> {''bull'', ''bear'', ''consensus''} \<and> s = ANALYZING then DEBATING else s)"

lemma turn_completes:
  assumes "registry_get rg i = Inr a" and "keeps_run a" and "require_no_execution cx = Inr ()"
  shows "\<exists>cx' m. agent_turn ev rg i (s, cx) = ((debating i s, cx'), Inr ()) \<and> require_no_execution cx' = Inr ()
    \<and> cx_messages cx' = dput i m (cx_messages cx)"
proof -
  obtain c r where a: "a cx = (c, r)" by fastforce
  then have "run_core c = run_core cx" using assms(2) by (metis fst_conv keeps_run_def)
  then have "require_no_execution (cx_store i m c) = Inr ()" "cx_messages c = cx_messages cx" for m
    using assms(3) by (auto simp: run_core_def require_no_execution_def cx_store_def split: if_splits)
  moreover have "trading_step ANALYZING DEBATING = Inr DEBATING" by (simp add: trading_step_def)
  ultimately show ?thesis
    using assms(1,3) by (auto simp: agent_turn_def run_agent_def a debating_def cx_store_def Let_def)
qed

lemma pipeline_completes:
  assumes "\<forall>i\<in>set is. \<exists>a. registry_get rg i = Inr a \<and> keeps_run a" and "require_no_execution cx = Inr ()"
    and "distinct is" and "set is \<inter> set (map fst (cx_messages cx)) = {}"
  shows "\<exists>cx'. run_pipeline ev rg is (s, cx) = ((fold debating is s, cx'), Inr ())
    \<and> map fst (cx_messages cx') = map fst (cx_messages cx) @ is"
  using assms
proof (induction "is" arbitrary: s cx)
  case (Cons i "is")
  obtain cx1 m where one: "agent_turn ev rg i (s, cx) = ((debating i s, cx1), Inr ())"
    and ok: "require_no_execution cx1 = Inr ()" and msgs: "cx_messages cx1 = dput i m (cx_messages cx)"
    using Cons.prems(1,2) turn_completes [of rg i] by fastforce
  have fsts: "map fst (cx_messages cx1) = map fst (cx_messages cx) @ [i]"
    using Cons.prems(4) by (simp add: msgs map_fst_dput)
  have "set is \<inter> set (map fst (cx_messages cx1)) = {}"
    using Cons.prems(3,4) unfolding fsts by auto
  then obtain cx' where "run_pipeline ev rg is (debating i s, cx1) = ((fold debating is (debating i s), cx'), Inr ())"
    "map fst (cx_messages cx') = map fst (cx_messages cx1) @ is"
    using Cons.IH [OF _ ok] Cons.prems(1,3) by fastforce
  then show ?case using one fsts by auto
qed simp

lemma default_registry_keeps:
  "i \<in> set analysis_pipeline \<Longrightarrow> \<exists>a. registry_get (build_default_registry ev) i = Inr a \<and> keeps_run a"
  using analyses_keep [of ev]
  by (auto simp: default_registry registry_get_def analysis_pipeline_def)

lemma analysis_runs:
  assumes "oc_registry oc = build_default_registry ev" and "\<not> oc_real_money oc"
    and "knowledge_bundle (sv_store (oc_service oc)) (sv_agents (oc_service oc)) ''multi_model_po3_vwap'' (Some ''1.0.0'') = Inr kb"
  shows "\<exists>r. orchestrator_analyze ev show_kb symbol timeframe exchange oc = (oc\<lparr>oc_state := IDLE\<rparr>, Inr r)
    \<and> ar_state r = IDLE \<and> map fst (ar_messages r) = analysis_pipeline \<and> \<not> ar_execution_attempted r"
proof -
  let ?cx = "new_context oc symbol timeframe exchange (show_kb kb)"
  have "fold debating analysis_pipeline ANALYZING = DEBATING"
    by (simp add: analysis_pipeline_def debating_def)
  moreover have "require_no_execution ?cx = Inr ()" "cx_messages ?cx = []"
    using assms(2) by (simp_all add: new_context_def require_no_execution_def)
  moreover have "distinct analysis_pipeline" by (simp add: analysis_pipeline_def)
  ultimately obtain cx' where "run_pipeline ev (build_default_registry ev) analysis_pipeline (ANALYZING, ?cx) = ((DEBATING, cx'), Inr ())"
    "map fst (cx_messages cx') = analysis_pipeline"
    using pipeline_completes [of analysis_pipeline "build_default_registry ev" ?cx ev ANALYZING] default_registry_keeps by auto
  moreover have "table_run trading_step IDLE [SCANNING, ANALYZING] = Inr ANALYZING" "trading_step DEBATING IDLE = Inr IDLE"
    by (simp_all add: trading_step_def bind_res_Inr_iff)
  ultimately show ?thesis
    using assms(1,2) by (auto simp: orchestrator_analyze_def assms(3) Let_def simp del: table_run.simps)
qed


section \<open>A concrete run\<close>

definition demo_service :: proposal_service where
  "demo_service = \<lparr>sv_portfolio = new_portfolio (Fin 10000), sv_engine = new_risk_engine default_limits ks_initial False None,
     sv_breakers = \<lparr>bk_halted = False, bk_reasons = []\<rparr>, sv_flags = [],
     sv_store = [((''multi_model_po3_vwap'', ''1.0.0''), demo_record ''Alpha'')], sv_agents = []\<rparr>"

definition demo_orchestrator :: orchestrator where
  "demo_orchestrator = \<lparr>oc_state = IDLE, oc_registry = build_default_registry demo_agents, oc_service = demo_service,
     oc_real_money = False, oc_default_exchange = ''kraken''\<rparr>"

lemma demo_orchestrator_simps [simp]:
  "oc_state demo_orchestrator = IDLE" "oc_registry demo_orchestrator = build_default_registry demo_agents"
  "\<not> oc_real_money demo_orchestrator" "oc_service demo_orchestrator = demo_service"
  by (simp_all add: demo_orchestrator_def)

lemma demo_known: "get_strategy (sv_store demo_service) ''multi_model_po3_vwap'' (Some ''1.0.0'') = Inr (demo_record ''Alpha'')"
  by (simp add: demo_service_def get_strategy_def)

lemma demo_knowledge:
  "\<exists>kb. knowledge_bundle (sv_store demo_service) (sv_agents demo_service) ''multi_model_po3_vwap'' (Some ''1.0.0'') = Inr kb"
  by (simp add: knowledge_bundle_def demo_known Let_def)


theorem orchestrator_never_executes_witness:
  "\<not> executes (oc_state (fst (orchestrator_analyze demo_agents (\<lambda>_. JNull) ''BTC/USD'' ''1h'' None demo_orchestrator)))"
  using orchestrator_never_executes [of demo_orchestrator demo_agents "\<lambda>_. JNull" "''BTC/USD''" "''1h''" None]
  by (simp add: executes_def)

text \<open>A consensus of no trade and no bars: the proposal is answered, and rejected.\<close>

lemma no_bars_bundle: "build_feature_bundle st [] True now = Inr (no_features STALE None)"
  by (simp add: build_feature_bundle_def synthesize_timeframe_def pipeline_frames compute_features_def)

lemma no_trade_answered:
  assumes "get_strategy (sv_store sv) (rq_strategy req) (Some ''1.0.0'') = Inr r" and "rq_candles req = []" and "rq_stale req"
  shows "\<exists>sv' p. evaluate_proposal ev (fail_closed_payload cx) req sv = (sv', Inr p)"
proof -
  obtain cn where cn: "planner_consensus ev (fail_closed_payload cx) = Inr cn" "cn_decision cn = ''NO_TRADE''"
    by (auto simp: planner_consensus_def fail_closed_payload_def oget_def opt_default_def jfloat_def jlist_def jstr_def texts_def)
  have plan: "plan_trade g st cn fb eq fr sl = Inr (no_trade_plan (base_plan st cn fb) ''Consensus decision=NO_TRADE'')"
    for g st fb eq fr sl
    by (simp add: plan_trade_def cn(2) py_upper_def Let_def)
  show ?thesis
    using assms by (simp add: evaluate_proposal_def knowledge_bundle_def no_bars_bundle cn(1) plan Let_def split: prod.split)
qed

definition stale_request :: proposal_request where
  "stale_request = \<lparr>rq_symbol = ''BTC/USD'', rq_candles = [], rq_stale = True, rq_liquidity = Some (Fin 1000000),
     rq_bars_since = Some 100, rq_strategy = ''multi_model_po3_vwap'', rq_now = 0\<rparr>"

theorem proposal_approval_sound_witness:
  "\<exists>sv' r. evaluate_proposal demo_agents (fail_closed_payload demo_run) stale_request demo_service = (sv', Inr r)
    \<and> \<not> po_approved r \<and> \<not> po_execution_attempted r"
proof -
  obtain sv' r where r: "evaluate_proposal demo_agents (fail_closed_payload demo_run) stale_request demo_service = (sv', Inr r)"
    using no_trade_answered [of demo_service stale_request] demo_known by (fastforce simp: stale_request_def)
  from proposal_approval_sound [OF this] have "\<not> po_approved r \<and> \<not> po_execution_attempted r" by (auto simp: stale_request_def)
  with r show ?thesis by blast
qed


lemma demo_proposal_answered:
  "\<exists>oc' a. orchestrator_propose demo_agents (\<lambda>_. JNull) 0 (Service_Data (Inl (ValueError [])) (Inl (ValueError [])))
     ''BTC/USD'' ''1h'' None demo_orchestrator = (oc', Inr a)"
proof -
  obtain kb where kb: "knowledge_bundle (sv_store (oc_service demo_orchestrator)) (sv_agents (oc_service demo_orchestrator))
      ''multi_model_po3_vwap'' (Some ''1.0.0'') = Inr kb"
    using demo_knowledge by auto
  obtain ar where ar: "orchestrator_analyze demo_agents (\<lambda>_. JNull) ''BTC/USD'' ''1h'' None demo_orchestrator
      = (demo_orchestrator\<lparr>oc_state := IDLE\<rparr>, Inr ar)"
    using analysis_runs [OF _ _ kb] by fastforce
  obtain cy where cy: "ar_consensus ar = fail_closed_payload cy"
    using stale_consensus [OF _ _ ar] by (auto simp: demo_agents_def)
  have "table_run trading_step IDLE [SCANNING, ANALYZING, DEBATING] = Inr DEBATING"
    by (simp add: trading_step_def bind_res_Inr_iff)
  moreover obtain sv' p where "evaluate_proposal demo_agents (fail_closed_payload cy) stale_request demo_service = (sv', Inr p)"
    using no_trade_answered [of demo_service stale_request] demo_known by (fastforce simp: stale_request_def)
  ultimately show ?thesis
    by (simp add: orchestrator_propose_def ar cy proposal_candles_def stale_request_def Let_def del: table_run.simps)
qed

theorem stale_market_never_approved_witness:
  "\<exists>oc' a. orchestrator_propose demo_agents (\<lambda>_. JNull) 0 (Service_Data (Inl (ValueError [])) (Inl (ValueError [])))
     ''BTC/USD'' ''1h'' None demo_orchestrator = (oc', Inr a) \<and> \<not> po_approved (pa_result a)"
proof -
  obtain oc' a where a: "orchestrator_propose demo_agents (\<lambda>_. JNull) 0 (Service_Data (Inl (ValueError [])) (Inl (ValueError [])))
     ''BTC/USD'' ''1h'' None demo_orchestrator = (oc', Inr a)"
    using demo_proposal_answered by blast
  have "\<not> po_approved (pa_result a)"
    using stale_market_never_approved [OF _ _ a] by (simp add: demo_agents_def)
  with a show ?thesis by blast
qed

end
