(* ===== verification/Json_Read.thy ===== *)
theory Json_Read
  imports Durable_Store
begin

text \<open>
  Reading JSON values the way the components do: \<open>float(v)\<close>, \<open>int(v)\<close>, \<open>str(v)\<close>, \<open>v or default\<close> and
  \<open>d[k]\<close>.  What Python reads from and prints to text beyond that is a parameter.
\<close>

definition float_of_json :: "(string \<Rightarrow> pyfloat option) \<Rightarrow> json \<Rightarrow> pyfloat res" where
  "float_of_json parse j = (case j of
     JNum x \<Rightarrow> Inr x
   | JInt n \<Rightarrow> (if is_finite (f_of_int n) then Inr (f_of_int n) else Inl OverflowError)
   | JBool b \<Rightarrow> Inr (if b then Fin 1 else Fin 0)
   | JStr s \<Rightarrow> (case parse s of None \<Rightarrow> Inl (ValueError ''could not convert string to float'') | Some x \<Rightarrow> Inr x)
   | _ \<Rightarrow> Inl TypeError)"

definition text_of_json :: "(json \<Rightarrow> string) \<Rightarrow> json \<Rightarrow> string" where
  "text_of_json show j = (case j of JStr s \<Rightarrow> s | _ \<Rightarrow> show j)"

text \<open>\<open>d.get(k) or v\<close>\<close>

definition get_or :: "json_obj \<Rightarrow> string \<Rightarrow> json \<Rightarrow> json" where
  "get_or d k v = (case dget d k of None \<Rightarrow> v | Some j \<Rightarrow> if json_truthy j then j else v)"

text \<open>\<open>d[k]\<close>\<close>

definition item :: "json_obj \<Rightarrow> string \<Rightarrow> json res" where
  "item d k = (case dget d k of None \<Rightarrow> Inl (KeyError k) | Some j \<Rightarrow> Inr j)"

text \<open>\<open>(d.get(k) or {}).get(..)\<close>: an absent or empty value is an empty object, any other value has to be one.\<close>

definition object_or_empty :: "json_obj \<Rightarrow> string \<Rightarrow> json_obj res" where
  "object_or_empty d k = (case get_or d k (JObj []) of JObj e \<Rightarrow> Inr e | _ \<Rightarrow> Inl AttributeError)"

text \<open>\<open>d[k]\<close> of any value: only an object has text keys.\<close>

definition field :: "json \<Rightarrow> string \<Rightarrow> json res" where
  "field j k = (case j of JObj d \<Rightarrow> item d k | _ \<Rightarrow> Inl TypeError)"

text \<open>The items that iterating over a value gives.\<close>

definition items_of :: "json \<Rightarrow> json list res" where
  "items_of j = (case j of JList js \<Rightarrow> Inr js | JObj d \<Rightarrow> Inr (map (\<lambda>(k, v). JStr k) d) | JStr s \<Rightarrow> Inr (map (\<lambda>c. JStr [c]) s)
     | _ \<Rightarrow> Inl TypeError)"

text \<open>\<open>int(v)\<close>\<close>

definition int_of_json :: "(string \<Rightarrow> int option) \<Rightarrow> json \<Rightarrow> int res" where
  "int_of_json parse j = (case j of
     JInt n \<Rightarrow> Inr n | JBool b \<Rightarrow> Inr (if b then 1 else 0) | JNum x \<Rightarrow> py_int x
   | JStr s \<Rightarrow> (case parse s of None \<Rightarrow> Inl (ValueError ''invalid literal for int()'') | Some n \<Rightarrow> Inr n)
   | _ \<Rightarrow> Inl TypeError)"

end
