(* ===== verification/Webhook.thy ===== *)
theory Webhook
  imports Json_Read
begin

text \<open>
  \<open>webhook/tradingview.py\<close>: the handler of TradingView alerts.  An alert passes the secret, the transport,
  a rate limit, replay protection and range checks, and becomes a trade intent; it is never executed here.
  The clock, the parsing and printing of numbers, the hash and the time stamps of the audit log are parameters.
\<close>

section \<open>Configuration and state\<close>

record webhook_config =
  wc_require_https :: bool
  wc_allow_localhost :: bool
  wc_max_skew :: int
  wc_rate_limit :: int
  wc_allowlist :: "string list"
  wc_min_qty :: pyfloat
  wc_max_qty :: pyfloat
  wc_min_price :: pyfloat
  wc_max_price :: pyfloat
  wc_ttl :: int

definition default_webhook :: webhook_config where
  "default_webhook = \<lparr>wc_require_https = True, wc_allow_localhost = True, wc_max_skew = 60, wc_rate_limit = 30,
     wc_allowlist = [''BTC/USD'', ''BTC-USD'', ''BTCUSDT'', ''ETH/USD'', ''ETH-USD'', ''ETHUSDT'', ''SOL/USD'', ''SOLUSDT''],
     wc_min_qty = Fin 0, wc_max_qty = Fin 100, wc_min_price = Fin 0, wc_max_price = Fin 10000000, wc_ttl = 3600\<rparr>"

record trade_intent =
  ti_action :: string
  ti_symbol :: string
  ti_price :: pyfloat
  ti_qty :: pyfloat
  ti_key :: string
  ti_nonce :: string
  ti_timestamp :: pyfloat
  ti_execution_attempted :: bool
  ti_requires :: "string list"
  ti_live :: bool

text \<open>The two ordered dictionaries keep their entries in the order of insertion.\<close>

record webhook =
  wh_nonces :: "(string \<times> pyfloat) list"
  wh_keys :: "(string \<times> pyfloat) list"
  wh_rate :: "pyfloat list"
  wh_audit :: "json_obj list"
  wh_intents :: "trade_intent list"

definition new_webhook :: webhook where
  "new_webhook = \<lparr>wh_nonces = [], wh_keys = [], wh_rate = [], wh_audit = [], wh_intents = []\<rparr>"

record web_lib =
  wb_parse :: "string \<Rightarrow> pyfloat option"
  wb_str :: "json \<Rightarrow> string"
  wb_repr :: "pyfloat \<Rightarrow> string"
  wb_sha256 :: "string \<Rightarrow> string"
  wb_stamp :: string

record web_request =
  wq_payload :: json_obj
  wq_headers :: "(string \<times> string) list"
  wq_scheme :: string
  wq_host :: string

record web_result =
  wr_accepted :: bool
  wr_reason :: string
  wr_created :: bool
  wr_missing :: "string list"
  wr_intent :: "trade_intent option"

definition allowed_actions :: "string list" where
  "allowed_actions = [''buy'', ''sell'', ''long'', ''short'', ''close'', ''exit'']"

definition placeholder_secrets :: "string list" where
  "placeholder_secrets = [''YOUR_SECRET_KEY'', ''your_secret_key'', ''PLACEHOLDER_NOT_A_SECRET'', ''{{secret}}'', '''']"

section \<open>The pieces of the handler\<close>

text \<open>The secret given to the handler, or the one of the environment.\<close>

definition resolve_secret :: "string option \<Rightarrow> string option \<Rightarrow> string res" where
  "resolve_secret given from_env =
     (let s = (case given of Some s \<Rightarrow> s | None \<Rightarrow> opt_default from_env [])
      in if s = [] \<or> s \<in> set placeholder_secrets then Inl (PermissionError ''WEBHOOK_SECRET_NOT_CONFIGURED'')
         else if s \<in> set placeholder_secrets \<or> s = ''YOUR_SECRET_KEY''
           then Inl (PermissionError ''WEBHOOK_SECRET_PLACEHOLDER_REJECTED'')
         else Inr s)"

definition audited :: "web_lib \<Rightarrow> json_obj \<Rightarrow> webhook \<Rightarrow> webhook" where
  "audited lib event s =
     (let fields = (case dget event ''fields'' of Some (JObj d) \<Rightarrow> d | _ \<Rightarrow> []);
          e1 = dput ''secret_present'' (JBool (dmem ''secret'' fields)) (dput ''timestamp'' (JStr (wb_stamp lib)) event);
          e2 = ddel ''secret'' e1;
          e3 = (case dget e2 ''fields'' of
             Some (JObj d) \<Rightarrow> dput ''fields'' (JObj (if dmem ''secret'' d then dput ''secret'' (JStr ''***REDACTED***'') d else d)) e2
           | _ \<Rightarrow> e2)
      in s\<lparr>wh_audit := wh_audit s @ [e3]\<rparr>)"

definition prune :: "webhook_config \<Rightarrow> pyfloat \<Rightarrow> webhook \<Rightarrow> webhook" where
  "prune cfg now s =
     (let old = (\<lambda>(k :: string, t). flt t (fsub now (f_of_int (wc_ttl cfg))))
      in s\<lparr>wh_nonces := dropWhile old (wh_nonces s), wh_keys := dropWhile old (wh_keys s),
           wh_rate := filter (\<lambda>t. fle (fsub now (Fin 60)) t) (wh_rate s)\<rparr>)"

definition lower_headers :: "(string \<times> string) list \<Rightarrow> (string \<times> string) list" where
  "lower_headers hs = dict_build py_lower hs"

definition local_host :: "string \<Rightarrow> bool" where
  "local_host h = (py_lower (takeWhile (\<lambda>c. c \<noteq> CHR '':'') h) \<in> {''127.0.0.1'', ''localhost'', ''::1''})"

definition https_refused :: "webhook_config \<Rightarrow> web_request \<Rightarrow> bool" where
  "https_refused cfg q \<longleftrightarrow> wc_require_https cfg \<and> py_lower (wq_scheme q) \<noteq> ''https''
     \<and> \<not> (local_host (wq_host q) \<and> wc_allow_localhost cfg)"

text \<open>\<open>str(payload.get(k) or "")\<close>\<close>

definition field_str :: "web_lib \<Rightarrow> json \<Rightarrow> string" where
  "field_str lib = text_of_json (wb_str lib)"

definition field_text :: "web_lib \<Rightarrow> json_obj \<Rightarrow> string \<Rightarrow> string" where
  "field_text lib p k = (case dget p k of None \<Rightarrow> [] | Some j \<Rightarrow> if json_truthy j then field_str lib j else [])"

definition header_or :: "web_lib \<Rightarrow> (string \<times> string) list \<Rightarrow> string \<Rightarrow> json_obj \<Rightarrow> string \<Rightarrow> string" where
  "header_or lib hs h p k = (if opt_truthy (dget hs h) then opt_default (dget hs h) [] else field_text lib p k)"

definition field_float :: "web_lib \<Rightarrow> json \<Rightarrow> pyfloat res" where
  "field_float lib = float_of_json (wb_parse lib)"

text \<open>\<open>hmac.compare_digest\<close> of two texts: both have to be ASCII.\<close>

definition is_ascii :: "string \<Rightarrow> bool" where
  "is_ascii s = list_all (\<lambda>c. (of_char c :: nat) < 128) s"

definition compare_digest :: "string \<Rightarrow> string \<Rightarrow> bool res" where
  "compare_digest a b = (if is_ascii a \<and> is_ascii b then Inr (a = b) else Inl TypeError)"

definition required_fields :: "string list" where
  "required_fields = [''action'', ''price'', ''qty'', ''secret'', ''symbol'']"

definition missing_fields :: "json_obj \<Rightarrow> string list" where
  "missing_fields p = filter (\<lambda>k. \<not> dmem k p) required_fields"

definition symbol_allowed :: "string list \<Rightarrow> string \<Rightarrow> bool" where
  "symbol_allowed allowlist symbol =
     (let allow = map py_upper allowlist;
          candidates = [symbol, py_replace CHR ''-'' ''/'' symbol, py_replace CHR ''/'' ''-'' symbol, py_replace CHR ''/'' [] symbol]
      in list_ex (\<lambda>c. c \<in> set allow) candidates \<or> list_ex (\<lambda>a. py_replace CHR ''/'' [] a \<in> set candidates) allow)"

definition refused :: "string \<Rightarrow> web_result" where
  "refused code = \<lparr>wr_accepted = False, wr_reason = code, wr_created = False, wr_missing = [], wr_intent = None\<rparr>"

definition rejected_because :: "web_lib \<Rightarrow> string \<Rightarrow> string \<Rightarrow> webhook \<Rightarrow> webhook \<times> web_result res" where
  "rejected_because lib reason code s =
     (audited lib [(''event'', JStr ''REJECTED''), (''reason'', JStr reason)] s, Inr (refused code))"

definition gates_required :: "string list" where
  "gates_required = [''RiskEngine'', ''KillSwitch'', ''StageManager'', ''LiveTradingGate'', ''Reconciliation'', ''ExecutionPolicy'']"

section \<open>The handler\<close>

text \<open>Recording the intent, unless its key has been used.\<close>

definition create_intent ::
  "web_lib \<Rightarrow> (string \<times> string) list \<Rightarrow> json_obj \<Rightarrow> pyfloat \<Rightarrow> pyfloat \<Rightarrow> string \<Rightarrow> string \<Rightarrow> string \<Rightarrow> pyfloat \<Rightarrow> pyfloat
   \<Rightarrow> webhook \<Rightarrow> webhook \<times> web_result res" where
  "create_intent lib hs p now ts nonce action symbol price qty s =
     (let key0 = header_or lib hs ''idempotency-key'' p ''idempotency_key'';
          key = (if key0 \<noteq> [] then key0 else wb_sha256 lib (nonce @ '':'' @ symbol @ '':'' @ action @ '':''
                   @ wb_repr lib price @ '':'' @ wb_repr lib qty))
      in if dmem key (wh_keys s)
         then (audited lib [(''event'', JStr ''DUPLICATE''), (''idempotency_key'', JStr key)] s,
               Inr \<lparr>wr_accepted = True, wr_reason = ''IDEMPOTENT_REPLAY'', wr_created = False, wr_missing = [], wr_intent = None\<rparr>)
         else (let i = \<lparr>ti_action = action, ti_symbol = py_replace CHR ''-'' ''/'' symbol, ti_price = price, ti_qty = qty,
                     ti_key = key, ti_nonce = nonce, ti_timestamp = ts, ti_execution_attempted = False,
                     ti_requires = gates_required, ti_live = False\<rparr>
               in (audited lib [(''event'', JStr ''INTENT_CREATED''), (''idempotency_key'', JStr key),
                     (''symbol'', JStr (ti_symbol i)), (''action'', JStr action),
                     (''fields'', JObj [(''action'', JStr action), (''symbol'', JStr symbol), (''price'', JNum price), (''qty'', JNum qty)])]
                     (s\<lparr>wh_keys := dput key now (wh_keys s), wh_intents := wh_intents s @ [i]\<rparr>),
                   Inr \<lparr>wr_accepted = True, wr_reason = ''INTENT_CREATED'', wr_created = True, wr_missing = [], wr_intent = Some i\<rparr>)))"

text \<open>The checks of the order itself, after the alert has been authenticated.\<close>

definition validate_order ::
  "web_lib \<Rightarrow> webhook_config \<Rightarrow> (string \<times> string) list \<Rightarrow> json_obj \<Rightarrow> pyfloat \<Rightarrow> pyfloat \<Rightarrow> string
   \<Rightarrow> webhook \<Rightarrow> webhook \<times> web_result res" where
  "validate_order lib cfg hs p now ts nonce s =
     (let action = py_lower (py_strip (field_str lib (opt_default (dget p ''action'') JNull)));
          symbol = py_upper (py_strip (field_str lib (opt_default (dget p ''symbol'') JNull)))
      in if action \<notin> set allowed_actions then (s, Inr (refused ''ACTION_NOT_ALLOWED''))
         else if \<not> symbol_allowed (wc_allowlist cfg) symbol then (s, Inr (refused ''SYMBOL_NOT_ALLOWED''))
         else case bind_res (field_float lib (opt_default (dget p ''price'') JNull)) (\<lambda>price.
                    bind_res (field_float lib (opt_default (dget p ''qty'') JNull)) (\<lambda>qty. Inr (price, qty))) of
                Inl OverflowError \<Rightarrow> (s, Inl OverflowError)
              | Inl _ \<Rightarrow> (s, Inr (refused ''PRICE_QTY_INVALID''))
              | Inr (price, qty) \<Rightarrow>
                  if \<not> (flt (wc_min_price cfg) price \<and> fle price (wc_max_price cfg)) then (s, Inr (refused ''PRICE_OUT_OF_RANGE''))
                  else if \<not> (flt (wc_min_qty cfg) qty \<and> fle qty (wc_max_qty cfg)) then (s, Inr (refused ''QTY_OUT_OF_RANGE''))
                  else create_intent lib hs p now ts nonce action symbol price qty s)"

text \<open>Replay protection: a time stamp within the skew and a nonce that has not been used.\<close>

definition replay_check ::
  "web_lib \<Rightarrow> webhook_config \<Rightarrow> (string \<times> string) list \<Rightarrow> json_obj \<Rightarrow> pyfloat \<Rightarrow> webhook \<Rightarrow> webhook \<times> web_result res" where
  "replay_check lib cfg hs p now s =
     (let stamp = header_or lib hs ''x-webhook-timestamp'' p ''timestamp'';
          nonce = header_or lib hs ''x-webhook-nonce'' p ''nonce''
      in if stamp = [] \<or> nonce = [] then rejected_because lib ''REPLAY_PROTECTION_FIELDS_MISSING'' ''REPLAY_PROTECTION_REQUIRED'' s
         else case wb_parse lib stamp of
           None \<Rightarrow> (s, Inr (refused ''TIMESTAMP_INVALID''))
         | Some ts \<Rightarrow>
             if flt (whole (wc_max_skew cfg)) (fabs (fsub now ts)) then rejected_because lib ''TIMESTAMP_SKEW'' ''TIMESTAMP_SKEW'' s
             else if dmem nonce (wh_nonces s) then rejected_because lib ''REPLAY_DETECTED'' ''REPLAY_DETECTED'' s
             else validate_order lib cfg hs p now ts nonce (s\<lparr>wh_nonces := dput nonce now (wh_nonces s)\<rparr>))"

definition authenticate ::
  "web_lib \<Rightarrow> webhook_config \<Rightarrow> string \<Rightarrow> (string \<times> string) list \<Rightarrow> json_obj \<Rightarrow> pyfloat \<Rightarrow> webhook \<Rightarrow> webhook \<times> web_result res" where
  "authenticate lib cfg secret hs p now s =
     (let provided = field_text lib p ''secret''
      in if provided \<in> set placeholder_secrets then rejected_because lib ''SECRET_PLACEHOLDER'' ''SECRET_PLACEHOLDER'' s
         else case compare_digest provided secret of
           Inl e \<Rightarrow> (s, Inl e)
         | Inr False \<Rightarrow> rejected_because lib ''SECRET_MISMATCH'' ''AUTH_FAILED'' s
         | Inr True \<Rightarrow> replay_check lib cfg hs p now s)"

definition webhook_handle ::
  "web_lib \<Rightarrow> webhook_config \<Rightarrow> string res \<Rightarrow> pyfloat \<Rightarrow> web_request \<Rightarrow> webhook \<Rightarrow> webhook \<times> web_result res" where
  "webhook_handle lib cfg secret now q s =
     (let s0 = prune cfg now s; hs = lower_headers (wq_headers q); p = wq_payload q
      in case secret of
           Inl (PermissionError code) \<Rightarrow> rejected_because lib code code s0
         | Inl e \<Rightarrow> (s0, Inl e)
         | Inr sec \<Rightarrow>
             if https_refused cfg q then rejected_because lib ''HTTPS_REQUIRED'' ''HTTPS_REQUIRED'' s0
             else if wc_rate_limit cfg \<le> int (length (wh_rate s0)) then rejected_because lib ''RATE_LIMIT'' ''RATE_LIMIT'' s0
             else let s1 = s0\<lparr>wh_rate := wh_rate s0 @ [now]\<rparr>; missing = missing_fields p
                  in if missing \<noteq> []
                     then (audited lib [(''event'', JStr ''REJECTED''), (''reason'', JStr ''SCHEMA_INVALID''),
                             (''missing'', JList (map JStr missing))] s1,
                           Inr ((refused ''SCHEMA_INVALID'')\<lparr>wr_missing := missing\<rparr>))
                     else authenticate lib cfg sec hs p now s1)"

fun webhook_run ::
  "web_lib \<Rightarrow> webhook_config \<Rightarrow> string res \<Rightarrow> (pyfloat \<times> web_request) list \<Rightarrow> webhook \<Rightarrow> webhook" where
  "webhook_run lib cfg secret [] s = s"
| "webhook_run lib cfg secret ((now, q) # qs) s = webhook_run lib cfg secret qs (fst (webhook_handle lib cfg secret now q s))"

section \<open>What a call leaves\<close>

lemma audited_simps [simp]:
  "wh_nonces (audited lib e s) = wh_nonces s" "wh_keys (audited lib e s) = wh_keys s"
  "wh_rate (audited lib e s) = wh_rate s" "wh_intents (audited lib e s) = wh_intents s"
  by (simp_all add: audited_def Let_def)

text \<open>The audit log never holds the secret.\<close>

lemma audit_redacts:
  "wh_audit (audited lib e s) = wh_audit s @ [a] \<Longrightarrow> dget a ''secret'' = None
    \<and> (\<forall>d. dget a ''fields'' = Some (JObj d) \<longrightarrow> dget d ''secret'' \<in> {None, Some (JStr ''***REDACTED***'')})"
  by (auto simp: audited_def Let_def dget_dput dget_ddel dmem_def split: option.splits json.splits if_splits)

text \<open>A call keeps the nonces it knows, and either records nothing or one intent that satisfies the checks.\<close>

definition admits :: "(trade_intent \<Rightarrow> bool) \<Rightarrow> webhook \<Rightarrow> webhook \<times> web_result res \<Rightarrow> bool" where
  "admits P s x \<longleftrightarrow> set (wh_nonces s) \<subseteq> set (wh_nonces (fst x))
     \<and> (wh_intents (fst x) = wh_intents s \<and> (\<forall>a. snd x = Inr a \<longrightarrow> \<not> wr_created a)
       \<or> (\<exists>i a. wh_intents (fst x) = wh_intents s @ [i] \<and> snd x = Inr a \<and> wr_created a \<and> wr_intent a = Some i \<and> P i))"

lemma admits_refusal [simp]:
  "admits P s (s, Inr (refused c))" "admits P s (s, Inl e)" "admits P s (rejected_because lib why c s)"
  by (simp_all add: admits_def refused_def rejected_because_def)

lemma admits_mono: "admits P s x \<Longrightarrow> (\<And>i. P i \<Longrightarrow> Q i) \<Longrightarrow> admits Q s x"
  by (auto simp: admits_def)

lemma admits_from:
  "admits P s' x \<Longrightarrow> wh_intents s' = wh_intents s \<Longrightarrow> set (wh_nonces s) \<subseteq> set (wh_nonces s') \<Longrightarrow> admits P s x"
  by (auto simp: admits_def)

lemma create_admits:
  "admits (\<lambda>i. ti_action i = action \<and> ti_symbol i = py_replace CHR ''-'' ''/'' symbol \<and> ti_price i = price \<and> ti_qty i = qty
     \<and> ti_nonce i = nonce \<and> ti_timestamp i = ts \<and> \<not> ti_execution_attempted i \<and> \<not> ti_live i \<and> ti_requires i = gates_required)
   s (create_intent lib hs p now ts nonce action symbol price qty s)"
  by (simp add: admits_def create_intent_def Let_def)

text \<open>What an intent has been checked for.\<close>

definition intent_in_range :: "webhook_config \<Rightarrow> trade_intent \<Rightarrow> bool" where
  "intent_in_range cfg i \<longleftrightarrow> ti_action i \<in> set allowed_actions
     \<and> (\<exists>symbol. symbol_allowed (wc_allowlist cfg) symbol \<and> ti_symbol i = py_replace CHR ''-'' ''/'' symbol)
     \<and> flt (wc_min_price cfg) (ti_price i) \<and> fle (ti_price i) (wc_max_price cfg)
     \<and> flt (wc_min_qty cfg) (ti_qty i) \<and> fle (ti_qty i) (wc_max_qty cfg)
     \<and> \<not> ti_execution_attempted i \<and> \<not> ti_live i \<and> ti_requires i = gates_required"

lemma validate_admits:
  "admits (\<lambda>i. intent_in_range cfg i \<and> ti_nonce i = nonce \<and> ti_timestamp i = ts) s (validate_order lib cfg hs p now ts nonce s)"
  by (auto simp: validate_order_def Let_def intent_in_range_def intro!: admits_mono [OF create_admits]
      split: sum.split py_error.split)

lemma set_dput_new: "dget d k = None \<Longrightarrow> set (dput k v d) = insert (k, v) (set d)"
  by (induction d) (auto split: if_splits)

lemma nonces_validate: "wh_nonces (fst (validate_order lib cfg hs p now ts nonce s)) = wh_nonces s"
  by (simp add: validate_order_def create_intent_def Let_def split: sum.split py_error.split)

definition within_skew :: "webhook_config \<Rightarrow> pyfloat \<Rightarrow> pyfloat \<Rightarrow> bool" where
  "within_skew cfg now ts \<longleftrightarrow> \<not> flt (whole (wc_max_skew cfg)) (fabs (fsub now ts))"

lemma replay_admits:
  "admits (\<lambda>i. intent_in_range cfg i \<and> within_skew cfg now (ti_timestamp i) \<and> dget (wh_nonces s) (ti_nonce i) = None
      \<and> (ti_nonce i, now) \<in> set (wh_nonces (fst (replay_check lib cfg hs p now s))))
    s (replay_check lib cfg hs p now s)"
proof -
  let ?nonce = "header_or lib hs ''x-webhook-nonce'' p ''nonce''"
  let ?s1 = "s\<lparr>wh_nonces := dput ?nonce now (wh_nonces s)\<rparr>"
  show ?thesis
  proof (cases "\<exists>ts. replay_check lib cfg hs p now s = validate_order lib cfg hs p now ts ?nonce ?s1
      \<and> within_skew cfg now ts \<and> dget (wh_nonces s) ?nonce = None")
    case True
    then obtain ts where r: "replay_check lib cfg hs p now s = validate_order lib cfg hs p now ts ?nonce ?s1"
      and w: "within_skew cfg now ts" and n: "dget (wh_nonces s) ?nonce = None" by blast
    have "(?nonce, now) \<in> set (wh_nonces (fst (replay_check lib cfg hs p now s)))"
      using set_dput_new [OF n, of now] by (simp add: r nonces_validate)
    then show ?thesis
      using w n set_dput_new [OF n, of now] unfolding r
      by (intro admits_from [OF admits_mono [OF validate_admits]]) auto
  next
    case False
    then have "replay_check lib cfg hs p now s \<in> {(s, Inr (refused ''TIMESTAMP_INVALID''))}
        \<union> {rejected_because lib w c s | w c. True}"
      by (auto simp: replay_check_def Let_def within_skew_def dmem_def split: option.splits if_splits)
    then show ?thesis by auto
  qed
qed

lemma prune_simps [simp]:
  "wh_intents (prune cfg now s) = wh_intents s" "wh_audit (prune cfg now s) = wh_audit s"
  by (simp_all add: prune_def Let_def)

definition quiet :: "webhook \<Rightarrow> webhook \<times> web_result res \<Rightarrow> bool" where
  "quiet s x \<longleftrightarrow> wh_intents (fst x) = wh_intents s \<and> wh_nonces (fst x) = wh_nonces s \<and> (\<forall>a. snd x = Inr a \<longrightarrow> \<not> wr_created a)"

lemma quiet_simps [simp]:
  "quiet s (s, Inl e)" "quiet s (rejected_because lib w c s)"
  "quiet s (s\<lparr>wh_rate := x\<rparr>, Inl e)" "quiet s (rejected_because lib w c (s\<lparr>wh_rate := x\<rparr>))"
  "quiet s (audited lib ev (s\<lparr>wh_rate := x\<rparr>), Inr ((refused c)\<lparr>wr_missing := m\<rparr>))"
  by (simp_all add: quiet_def rejected_because_def refused_def)

lemma authenticate_cases:
  "authenticate lib cfg secret hs p now s = replay_check lib cfg hs p now s
     \<and> field_text lib p ''secret'' = secret \<and> secret \<notin> set placeholder_secrets
   \<or> (\<exists>e. authenticate lib cfg secret hs p now s = (s, Inl e))
   \<or> (\<exists>w c. authenticate lib cfg secret hs p now s = rejected_because lib w c s)"
  by (auto simp: authenticate_def compare_digest_def Let_def split: bool.split)

lemma handle_authenticates:
  "quiet (prune cfg now s) (webhook_handle lib cfg secret now q s)
   \<or> (\<exists>sec. secret = Inr sec \<and> \<not> https_refused cfg q \<and> int (length (wh_rate (prune cfg now s))) < wc_rate_limit cfg
      \<and> webhook_handle lib cfg secret now q s = authenticate lib cfg sec (lower_headers (wq_headers q)) (wq_payload q) now
          ((prune cfg now s)\<lparr>wh_rate := wh_rate (prune cfg now s) @ [now]\<rparr>))"
proof (cases secret)
  case (Inl e)
  then show ?thesis by (cases e) (simp_all add: webhook_handle_def Let_def)
next
  case (Inr sec)
  then show ?thesis by (simp add: webhook_handle_def Let_def)
qed

lemma handle_cases:
  "quiet (prune cfg now s) (webhook_handle lib cfg secret now q s)
   \<or> (\<exists>sec. secret = Inr sec \<and> field_text lib (wq_payload q) ''secret'' = sec \<and> sec \<notin> set placeholder_secrets
      \<and> \<not> https_refused cfg q \<and> int (length (wh_rate (prune cfg now s))) < wc_rate_limit cfg
      \<and> webhook_handle lib cfg secret now q s = replay_check lib cfg (lower_headers (wq_headers q)) (wq_payload q) now
          ((prune cfg now s)\<lparr>wh_rate := wh_rate (prune cfg now s) @ [now]\<rparr>))"
  using handle_authenticates [of cfg now s lib secret q] authenticate_cases by (metis quiet_simps(3,4))

text \<open>C23: an alert becomes an intent only through its checks: the configured secret is not a placeholder and is the
one provided, the transport is HTTPS or an allowed local one, the rate limit is not reached, the nonce is not
among those remembered, the time stamp is within the skew, the action, the symbol, the price and the quantity
are in their ranges; the intent is marked as not executed; and every other call leaves the intents alone.\<close>

theorem intent_only_through_checks:
  "(\<exists>i a sec. wh_intents (fst (webhook_handle lib cfg secret now q s)) = wh_intents s @ [i]
      \<and> snd (webhook_handle lib cfg secret now q s) = Inr a \<and> wr_created a \<and> wr_intent a = Some i
      \<and> secret = Inr sec \<and> field_text lib (wq_payload q) ''secret'' = sec \<and> sec \<notin> set placeholder_secrets
      \<and> \<not> https_refused cfg q \<and> int (length (wh_rate (prune cfg now s))) < wc_rate_limit cfg
      \<and> dget (wh_nonces (prune cfg now s)) (ti_nonce i) = None
      \<and> within_skew cfg now (ti_timestamp i) \<and> intent_in_range cfg i)
   \<or> wh_intents (fst (webhook_handle lib cfg secret now q s)) = wh_intents s
      \<and> (\<forall>a. snd (webhook_handle lib cfg secret now q s) = Inr a \<longrightarrow> \<not> wr_created a)"
proof (cases "quiet (prune cfg now s) (webhook_handle lib cfg secret now q s)")
  case False
  then obtain sec where checked: "secret = Inr sec" "field_text lib (wq_payload q) ''secret'' = sec" "sec \<notin> set placeholder_secrets"
      "\<not> https_refused cfg q" "int (length (wh_rate (prune cfg now s))) < wc_rate_limit cfg"
      "webhook_handle lib cfg secret now q s = replay_check lib cfg (lower_headers (wq_headers q)) (wq_payload q) now
          ((prune cfg now s)\<lparr>wh_rate := wh_rate (prune cfg now s) @ [now]\<rparr>)"
    using handle_cases by blast
  from replay_admits [of cfg now "(prune cfg now s)\<lparr>wh_rate := wh_rate (prune cfg now s) @ [now]\<rparr>" lib
      "lower_headers (wq_headers q)" "wq_payload q"] checked
  show ?thesis unfolding admits_def by auto
qed (simp add: quiet_def)

section \<open>No replay\<close>

text \<open>
  A time stamp accepted at two instants more than the time to live apart would be outside the skew
  at one of them; rounding costs at most a second on either side.
\<close>

lemma skew_window:
  assumes "within_skew cfg (Fin a) (Fin b)" and "0 \<le> wc_max_skew cfg" and "wc_max_skew cfg < 2 ^ 52"
  shows "\<bar>a - b\<bar> < of_int (wc_max_skew cfg) + 1"
proof (rule ccontr)
  let ?m = "wc_max_skew cfg + 1"
  assume "\<not> ?thesis"
  then have far: "of_int ?m \<le> \<bar>a - b\<bar>" by simp
  have whole: "rnd (of_int ?m) = Fin (of_int ?m)" using assms(2,3) by (intro rnd_of_int) simp
  have "fle (Fin (of_int ?m)) (fabs (rnd (a - b)))"
  proof (cases "0 \<le> a - b")
    case True
    then have "fle (Fin (of_int ?m)) (rnd (a - b))" using far rnd_Fin_mono [OF whole] by simp
    then show ?thesis by (cases "rnd (a - b)") auto
  next
    case False
    then have "fle (Fin (of_int ?m)) (rnd (- (a - b)))" using far rnd_Fin_mono [OF whole] by simp
    then show ?thesis unfolding rnd_minus by (cases "rnd (a - b)") auto
  qed
  moreover have "flt (whole (wc_max_skew cfg)) (Fin (of_int ?m))" by (simp add: whole_def)
  ultimately have "flt (whole (wc_max_skew cfg)) (fabs (rnd (a - b)))" by (blast intro: flt_fle_trans)
  then show False using assms(1) by (simp add: within_skew_def)
qed

lemma expired_apart:
  assumes "flt (Fin t) (fsub (Fin now) (f_of_int ttl))" and "is_f64 (Fin t)" and "\<bar>ttl\<bar> < 2 ^ 53"
  shows "t + of_int ttl < now"
proof (rule ccontr)
  assume "\<not> ?thesis"
  then have "fle (rnd (now - of_int ttl)) (Fin t)"
    using assms(2) by (intro rnd_Fin_mono_upper) (simp_all add: is_f64_def)
  moreover have "f_of_int ttl = Fin (of_int ttl)" using assms(3) by (simp add: f_of_int_def rnd_of_int)
  ultimately show False using assms(1) by (auto dest: flt_not_fle)
qed

definition replay_safe :: "webhook_config \<Rightarrow> bool" where
  "replay_safe cfg \<longleftrightarrow> 0 \<le> wc_max_skew cfg \<and> wc_max_skew cfg < 2 ^ 51 \<and> 2 * (wc_max_skew cfg + 1) \<le> wc_ttl cfg \<and> wc_ttl cfg < 2 ^ 53"

text \<open>Each intent was accepted at an instant at which its nonce was remembered; since then it is remembered or expired.\<close>

definition accounted :: "webhook_config \<Rightarrow> rat \<Rightarrow> webhook \<Rightarrow> trade_intent \<Rightarrow> bool" where
  "accounted cfg now s i \<longleftrightarrow> (\<exists>t. is_f64 (Fin t) \<and> t \<le> now \<and> within_skew cfg (Fin t) (ti_timestamp i)
     \<and> ((ti_nonce i, Fin t) \<in> set (wh_nonces s) \<or> t + of_int (wc_ttl cfg) < now))"

lemma accounted_prune:
  assumes "accounted cfg old s i" and "old \<le> now" and "replay_safe cfg"
  shows "accounted cfg now (prune cfg (Fin now) s) i"
proof -
  obtain t where t: "is_f64 (Fin t)" "t \<le> now" "within_skew cfg (Fin t) (ti_timestamp i)"
    "(ti_nonce i, Fin t) \<in> set (wh_nonces s) \<or> t + of_int (wc_ttl cfg) < now"
    using assms(1,2) unfolding accounted_def by (meson le_less_trans less_le_trans order_trans)
  let ?expired = "\<lambda>(k :: string, t). flt t (fsub (Fin now) (f_of_int (wc_ttl cfg)))"
  have "(ti_nonce i, Fin t) \<in> set (wh_nonces (prune cfg (Fin now) s)) \<or> t + of_int (wc_ttl cfg) < now"
  proof (cases "(ti_nonce i, Fin t) \<in> set (wh_nonces s)")
    case True
    then have "(ti_nonce i, Fin t) \<in> set (takeWhile ?expired (wh_nonces s)) \<union> set (dropWhile ?expired (wh_nonces s))"
      by (metis set_append takeWhile_dropWhile_id)
    then consider "?expired (ti_nonce i, Fin t)" | "(ti_nonce i, Fin t) \<in> set (wh_nonces (prune cfg (Fin now) s))"
      by (auto simp: prune_def Let_def dest: set_takeWhileD)
    then show ?thesis
      using expired_apart [of t now "wc_ttl cfg"] t(1) assms(3) by cases (auto simp: replay_safe_def)
  qed (use t(4) in simp)
  with t(1-3) show ?thesis unfolding accounted_def by blast
qed

lemma accounted_more:
  "accounted cfg now s i \<Longrightarrow> set (wh_nonces s) \<subseteq> set (wh_nonces s') \<Longrightarrow> accounted cfg now s' i"
  unfolding accounted_def by blast

text \<open>A remembered or expired nonce with the same time stamp would contradict the new acceptance.\<close>

lemma no_second_acceptance:
  assumes "accounted cfg now s i" and "dget (wh_nonces s) (ti_nonce i) = None" and "within_skew cfg (Fin now) (ti_timestamp i)"
    and "replay_safe cfg"
  shows "ti_timestamp i = NaN"
proof (rule ccontr)
  assume "ti_timestamp i \<noteq> NaN"
  then obtain b where b: "ti_timestamp i = Fin b"
    using assms(3) by (cases "ti_timestamp i") (auto simp: within_skew_def fsub_def whole_def)
  obtain t where t: "within_skew cfg (Fin t) (Fin b)"
    "(ti_nonce i, Fin t) \<in> set (wh_nonces s) \<or> t + of_int (wc_ttl cfg) < now"
    using assms(1) unfolding accounted_def b by blast
  moreover have "(ti_nonce i, Fin t) \<notin> set (wh_nonces s)"
    using assms(2) by (metis map_of_eq_None_iff fst_conv image_eqI)
  ultimately have "t + of_int (wc_ttl cfg) < now" by blast
  moreover have "\<bar>t - b\<bar> < of_int (wc_max_skew cfg) + 1" "\<bar>now - b\<bar> < of_int (wc_max_skew cfg) + 1"
    using t(1) assms(3,4) skew_window by (auto simp: b replay_safe_def)
  moreover have "(2 :: rat) * (of_int (wc_max_skew cfg) + 1) \<le> of_int (wc_ttl cfg)"
    using assms(4) of_int_le_iff [of "2 * (wc_max_skew cfg + 1)" "wc_ttl cfg", where 'a = rat] by (simp add: replay_safe_def)
  ultimately show False by (simp add: abs_less_iff)
qed

definition no_replay_inv :: "webhook_config \<Rightarrow> rat \<Rightarrow> webhook \<Rightarrow> bool" where
  "no_replay_inv cfg now s \<longleftrightarrow> (\<forall>i\<in>set (wh_intents s). accounted cfg now s i)
     \<and> distinct (map (\<lambda>i. (ti_nonce i, ti_timestamp i)) (filter (\<lambda>i. ti_timestamp i \<noteq> NaN) (wh_intents s)))"

lemma handle_keeps_inv:
  assumes "no_replay_inv cfg old s" and "old \<le> now" and "is_f64 (Fin now)" and "replay_safe cfg"
  shows "no_replay_inv cfg now (fst (webhook_handle lib cfg secret (Fin now) q s))"
proof -
  let ?x = "webhook_handle lib cfg secret (Fin now) q s" and ?s0 = "prune cfg (Fin now) s"
  have acc: "accounted cfg now ?s0 i" if "i \<in> set (wh_intents s)" for i
    using that assms(1,2,4) accounted_prune unfolding no_replay_inv_def by blast
  show ?thesis
  proof (cases "quiet ?s0 ?x")
    case True
    then have "accounted cfg now (fst ?x) i" if "i \<in> set (wh_intents s)" for i
      using acc [OF that] by (auto simp: quiet_def intro: accounted_more)
    then show ?thesis using True assms(1) by (simp add: quiet_def no_replay_inv_def)
  next
    case False
    let ?s1 = "?s0\<lparr>wh_rate := wh_rate ?s0 @ [Fin now]\<rparr>"
    have "\<exists>hs p. ?x = replay_check lib cfg hs p (Fin now) ?s1" using False handle_cases by blast
    then obtain hs p where x: "?x = replay_check lib cfg hs p (Fin now) ?s1" by blast
    let ?P = "\<lambda>i. within_skew cfg (Fin now) (ti_timestamp i) \<and> dget (wh_nonces ?s0) (ti_nonce i) = None
      \<and> (ti_nonce i, Fin now) \<in> set (wh_nonces (fst ?x))"
    have adm: "admits ?P ?s0 ?x"
      unfolding x by (rule admits_from [OF admits_mono [OF replay_admits]]) auto
    then have more: "set (wh_nonces ?s0) \<subseteq> set (wh_nonces (fst ?x))" by (simp add: admits_def)
    then have kept: "accounted cfg now (fst ?x) i" if "i \<in> set (wh_intents s)" for i
      using acc [OF that] accounted_more by blast
    from adm consider "wh_intents (fst ?x) = wh_intents s" | i where "wh_intents (fst ?x) = wh_intents s @ [i]" "?P i"
      by (auto simp: admits_def)
    then show ?thesis
    proof cases
      case 1
      then show ?thesis using kept assms(1) by (simp add: no_replay_inv_def)
    next
      case 2
      have "accounted cfg now (fst ?x) i"
        unfolding accounted_def using 2(2) assms(3) by blast
      moreover have "ti_timestamp i = NaN" if "j \<in> set (wh_intents s)" "ti_nonce j = ti_nonce i" "ti_timestamp j = ti_timestamp i" for j
        using no_second_acceptance [OF acc [OF that(1)]] 2(2) assms(4) that(2,3) by metis
      then have "ti_timestamp i = NaN \<or> (ti_nonce i, ti_timestamp i)
          \<notin> (\<lambda>i. (ti_nonce i, ti_timestamp i)) ` set (filter (\<lambda>i. ti_timestamp i \<noteq> NaN) (wh_intents s))"
        by auto metis
      ultimately show ?thesis using kept assms(1) 2(1) by (auto simp: no_replay_inv_def)
    qed
  qed
qed

definition rising :: "(pyfloat \<times> web_request) list \<Rightarrow> bool" where
  "rising qs \<longleftrightarrow> sorted_wrt (\<lambda>a b. fle (fst a) (fst b)) qs \<and> (\<forall>a\<in>set qs. is_f64 (fst a) \<and> (\<exists>t. fst a = Fin t))"

lemma run_keeps_inv:
  "no_replay_inv cfg old s \<Longrightarrow> \<forall>a\<in>set qs. fle (Fin old) (fst a) \<Longrightarrow> rising qs \<Longrightarrow> replay_safe cfg
   \<Longrightarrow> \<exists>now. no_replay_inv cfg now (webhook_run lib cfg secret qs s)"
proof (induction qs arbitrary: old s)
  case (Cons a qs)
  obtain now q where a: "a = (Fin now, q)" using Cons.prems(3) by (cases a) (auto simp: rising_def)
  have "no_replay_inv cfg now (fst (webhook_handle lib cfg secret (Fin now) q s))"
    using Cons.prems by (intro handle_keeps_inv) (auto simp: a rising_def)
  then show ?case
    using Cons.IH [of now] Cons.prems(3,4) by (auto simp: a rising_def)
qed auto

text \<open>C24: no replay: over any sequence of alerts on a clock that does not go back, when the nonces are remembered for
longer than twice the skew, no two intents have the same nonce and the same time stamp, except for alerts
whose time stamp is not a number.\<close>

theorem webhook_never_replays:
  assumes "rising qs" and "replay_safe cfg"
  shows "distinct (map (\<lambda>i. (ti_nonce i, ti_timestamp i))
    (filter (\<lambda>i. ti_timestamp i \<noteq> NaN) (wh_intents (webhook_run lib cfg secret qs new_webhook))))"
proof (cases qs)
  case (Cons a rest)
  obtain t where t: "fst a = Fin t" using assms(1) by (auto simp: Cons rising_def)
  have "\<forall>b\<in>set qs. fle (Fin t) (fst b)"
    using assms(1) t unfolding rising_def Cons by auto
  moreover have "no_replay_inv cfg t new_webhook" by (simp add: no_replay_inv_def new_webhook_def)
  ultimately show ?thesis using run_keeps_inv [OF _ _ assms] by (auto simp: no_replay_inv_def)
qed (simp add: new_webhook_def)

text \<open>
  A time stamp \<open>nan\<close> is within every skew: its nonce is the only protection, and it is
  forgotten after the time to live.
\<close>

lemma nan_timestamp_within_skew: "within_skew cfg now NaN"
  by (simp add: within_skew_def)

section \<open>A concrete alert\<close>

definition demo_web_lib :: web_lib where
  "demo_web_lib = \<lparr>wb_parse = (\<lambda>s. if s = ''1000'' then Some (Fin 1000) else None), wb_str = (\<lambda>j. []), wb_repr = (\<lambda>x. []),
     wb_sha256 = id, wb_stamp = []\<rparr>"

definition demo_alert :: web_request where
  "demo_alert = \<lparr>wq_payload = [(''action'', JStr ''buy''), (''symbol'', JStr ''BTC/USD''), (''price'', JNum (Fin 100)),
       (''qty'', JNum (Fin 1)), (''secret'', JStr ''s3cret''), (''timestamp'', JStr ''1000''), (''nonce'', JStr ''n1'')],
     wq_headers = [], wq_scheme = ''https'', wq_host = ''example.com''\<rparr>"

theorem webhook_never_replays_witness:
  "distinct (map (\<lambda>i. (ti_nonce i, ti_timestamp i)) (filter (\<lambda>i. ti_timestamp i \<noteq> NaN)
     (wh_intents (webhook_run demo_web_lib default_webhook (Inr ''s3cret'') [(Fin 1000, demo_alert), (Fin 1010, demo_alert)] new_webhook))))"
  by (rule webhook_never_replays)
    (simp_all add: rising_def replay_safe_def default_webhook_def is_f64_def fl_eval)

lemma demo_alert_accepted:
  "length (wh_intents (webhook_run demo_web_lib default_webhook (Inr ''s3cret'') [(Fin 1000, demo_alert), (Fin 1010, demo_alert)] new_webhook)) = 1"
  by (simp add: webhook_handle_def demo_alert_def lower_headers_def dict_build_def prune_def new_webhook_def https_refused_def
      py_lower_def default_webhook_def missing_fields_def required_fields_def dmem_def authenticate_def field_text_def
      json_truthy_def field_str_def placeholder_secrets_def compare_digest_def is_ascii_def replay_check_def header_or_def
      opt_truthy_def demo_web_lib_def validate_order_def opt_default_def py_strip_def is_space_def py_upper_def allowed_actions_def
      symbol_allowed_def py_replace_def field_float_def float_of_json_def text_of_json_def create_intent_def Let_def rejected_because_def fl_eval whole_def)

lemma demo_alert_once:
  "length (wh_intents (fst (webhook_handle demo_web_lib default_webhook (Inr ''s3cret'') (Fin 1000) demo_alert new_webhook))) = 1"
  by (simp add: webhook_handle_def demo_alert_def lower_headers_def dict_build_def prune_def new_webhook_def https_refused_def
      py_lower_def default_webhook_def missing_fields_def required_fields_def dmem_def authenticate_def field_text_def
      json_truthy_def field_str_def placeholder_secrets_def compare_digest_def is_ascii_def replay_check_def header_or_def
      opt_truthy_def demo_web_lib_def validate_order_def opt_default_def py_strip_def is_space_def py_upper_def allowed_actions_def
      symbol_allowed_def py_replace_def field_float_def float_of_json_def text_of_json_def create_intent_def Let_def fl_eval whole_def)

theorem intent_only_through_checks_witness:
  "\<exists>i. wh_intents (fst (webhook_handle demo_web_lib default_webhook (Inr ''s3cret'') (Fin 1000) demo_alert new_webhook)) = [i]
     \<and> field_text demo_web_lib (wq_payload demo_alert) ''secret'' = ''s3cret'' \<and> within_skew default_webhook (Fin 1000) (ti_timestamp i)
     \<and> intent_in_range default_webhook i"
  using intent_only_through_checks [of demo_web_lib default_webhook "Inr ''s3cret''" "Fin 1000" demo_alert new_webhook] demo_alert_once
  by (fastforce simp: new_webhook_def)

end
