(* ===== verification/History.thy ===== *)
theory History
  imports Backtest_Data Json_Read "HOL-Library.Multiset"
begin

text \<open>
  \<open>backtest/data.py\<close>: the validation of historical candles, the providers that read them
  (in memory, CSV, JSON and Parquet rows) and the synthetic series.  Files are read by their libraries:
  a provider gets its rows as decoded dictionaries.  The random generator and
  the parsing of dates are parameters.
\<close>

section \<open>Validation\<close>

definition negative :: "pyfloat \<Rightarrow> bool" where
  "negative x \<longleftrightarrow> flt x (Fin 0)"

text \<open>One candle after the test on its timestamp.\<close>

definition candle_checked :: "(int \<Rightarrow> string) \<Rightarrow> candle \<Rightarrow> candle res" where
  "candle_checked iso8601 c =
     (let stamp = iso8601 (cd_time c)
      in if negative (cd_volume c) then Inl (HistoricalDataError (''Negative volume at '' @ stamp))
         else if flt (cd_high c) (cd_low c) then Inl (HistoricalDataError (''Invalid OHLC high<low at '' @ stamp))
         else if flt (cd_high c) (pmax (cd_open c) (cd_close c)) \<or> flt (pmin (cd_open c) (cd_close c)) (cd_low c)
           then Inl (HistoricalDataError (''Invalid OHLC relationship at '' @ stamp))
         else if list_ex negative [cd_open c, cd_high c, cd_low c, cd_close c]
           then Inl (HistoricalDataError (''Negative price at '' @ stamp))
         else Inr c)"

fun check_candles :: "(int \<Rightarrow> string) \<Rightarrow> int list \<Rightarrow> int option \<Rightarrow> candle list \<Rightarrow> candle list res" where
  "check_candles iso8601 known prev [] = Inr []"
| "check_candles iso8601 known prev (c # cs) =
     (if cd_time c \<in> set known then Inl (HistoricalDataError (''Duplicate timestamp: '' @ iso8601 (cd_time c)))
      else if (case prev of None \<Rightarrow> False | Some p \<Rightarrow> cd_time c < p)
        then Inl (HistoricalDataError ''Unsorted timestamps after sort (internal error)'')
      else bind_res (candle_checked iso8601 c) (\<lambda>c'.
           bind_res (check_candles iso8601 (cd_time c # known) (Some (cd_time c)) cs) (\<lambda>cs'. Inr (c' # cs'))))"

definition validate_candles :: "(int \<Rightarrow> string) \<Rightarrow> candle list \<Rightarrow> candle list res" where
  "validate_candles iso8601 cs =
     (if cs = [] then Inl (HistoricalDataError ''No candles provided'')
      else check_candles iso8601 [] None (sort_key cd_time cs))"

section \<open>Providers\<close>

record row_reader =
  rr_parse :: "string \<Rightarrow> pyfloat option"
  rr_show :: "json \<Rightarrow> string"
  rr_iso :: "string \<Rightarrow> int option"

text \<open>\<open>_parse_ts\<close>: the letter \<open>Z\<close> stands for UTC, a date without a zone is taken as UTC.\<close>

definition parse_ts :: "row_reader \<Rightarrow> json \<Rightarrow> int res" where
  "parse_ts rr j = (case rr_iso rr (py_replace CHR ''Z'' ''+00:00'' (text_of_json (rr_show rr) j)) of
     None \<Rightarrow> Inl (ValueError ''Invalid isoformat string'') | Some t \<Rightarrow> Inr t)"

definition row_float :: "row_reader \<Rightarrow> json_obj \<Rightarrow> string \<Rightarrow> pyfloat res" where
  "row_float rr row k = bind_res (item row k) (float_of_json (rr_parse rr))"

text \<open>A row of another symbol or time frame is skipped.\<close>

definition row_candle :: "row_reader \<Rightarrow> string \<Rightarrow> string \<Rightarrow> json_obj \<Rightarrow> candle option res" where
  "row_candle rr symbol timeframe row =
     (let sy = py_upper (text_of_json (rr_show rr) (get_or row ''symbol'' (JStr symbol)));
          tf = text_of_json (rr_show rr) (get_or row ''timeframe'' (JStr timeframe))
      in if sy \<noteq> py_upper symbol \<or> tf \<noteq> timeframe then Inr None
         else bind_res (bind_res (item row ''timestamp'') (parse_ts rr)) (\<lambda>t.
              bind_res (row_float rr row ''open'') (\<lambda>op. bind_res (row_float rr row ''high'') (\<lambda>hi.
              bind_res (row_float rr row ''low'') (\<lambda>lo. bind_res (row_float rr row ''close'') (\<lambda>cl.
              bind_res (float_of_json (rr_parse rr) (get_or row ''volume'' (JInt 0))) (\<lambda>vol.
                Inr (Some \<lparr>cd_time = t, cd_symbol = sy, cd_timeframe = tf, cd_open = op, cd_high = hi, cd_low = lo,
                           cd_close = cl, cd_volume = vol\<rparr>))))))))"

definition between :: "int option \<Rightarrow> int option \<Rightarrow> candle list \<Rightarrow> candle list" where
  "between since until cs =
     (let cs1 = (case since of None \<Rightarrow> cs | Some t \<Rightarrow> filter (\<lambda>c. t \<le> cd_time c) cs)
      in case until of None \<Rightarrow> cs1 | Some t \<Rightarrow> filter (\<lambda>c. cd_time c \<le> t) cs1)"

definition load_rows ::
  "(int \<Rightarrow> string) \<Rightarrow> row_reader \<Rightarrow> json_obj list \<Rightarrow> string \<Rightarrow> string \<Rightarrow> int option \<Rightarrow> int option \<Rightarrow> candle list res" where
  "load_rows iso8601 rr recs symbol timeframe since until =
     bind_res (map_res (row_candle rr symbol timeframe) recs) (\<lambda>cs.
       validate_candles iso8601 (between since until (map the (filter (\<lambda>c. c \<noteq> None) cs))))"

definition load_csv ::
  "(int \<Rightarrow> string) \<Rightarrow> row_reader \<Rightarrow> string \<Rightarrow> json_obj list option \<Rightarrow> string \<Rightarrow> string \<Rightarrow> int option \<Rightarrow> int option \<Rightarrow> candle list res" where
  "load_csv iso8601 rr path recs symbol timeframe since until = (case recs of
     None \<Rightarrow> Inl (HistoricalDataError (''CSV not found: '' @ path))
   | Some rs \<Rightarrow> load_rows iso8601 rr rs symbol timeframe since until)"

definition json_row :: "json \<Rightarrow> json_obj res" where
  "json_row j = (case j of JObj d \<Rightarrow> Inr d | _ \<Rightarrow> Inl AttributeError)"

text \<open>A row that is no object fails when it is reached: after the recs before it.\<close>

definition load_json ::
  "(int \<Rightarrow> string) \<Rightarrow> row_reader \<Rightarrow> string \<Rightarrow> json option \<Rightarrow> string \<Rightarrow> string \<Rightarrow> int option \<Rightarrow> int option \<Rightarrow> candle list res" where
  "load_json iso8601 rr path doc symbol timeframe since until = (case doc of
     None \<Rightarrow> Inl (HistoricalDataError (''JSON not found: '' @ path))
   | Some (JList js) \<Rightarrow> bind_res (map_res (\<lambda>j. bind_res (json_row j) (row_candle rr symbol timeframe)) js) (\<lambda>cs.
       validate_candles iso8601 (between since until (map the (filter (\<lambda>c. c \<noteq> None) cs))))
   | Some _ \<Rightarrow> Inl (HistoricalDataError ''JSON historical data must be a list of candles''))"

definition load_parquet ::
  "(int \<Rightarrow> string) \<Rightarrow> row_reader \<Rightarrow> bool \<Rightarrow> string \<Rightarrow> json_obj list option \<Rightarrow> string \<Rightarrow> string \<Rightarrow> int option \<Rightarrow> int option
   \<Rightarrow> candle list res" where
  "load_parquet iso8601 rr has_pandas path recs symbol timeframe since until =
     (if \<not> has_pandas then Inl (HistoricalDataError ''Parquet support requires pandas; use CSV/JSON/Mock for Phase 6'')
      else case recs of
        None \<Rightarrow> Inl (HistoricalDataError (''Parquet not found: '' @ path))
      | Some rs \<Rightarrow> load_rows iso8601 rr rs symbol timeframe since until)"

definition load_mock :: "(int \<Rightarrow> string) \<Rightarrow> candle list \<Rightarrow> string \<Rightarrow> string \<Rightarrow> int option \<Rightarrow> int option \<Rightarrow> candle list res" where
  "load_mock iso8601 cs symbol timeframe since until =
     (let recs = between since until (filter (\<lambda>c. py_upper (cd_symbol c) = py_upper symbol \<and> cd_timeframe c = timeframe) cs)
      in if recs = [] then Inr [] else validate_candles iso8601 recs)"

definition load_stub :: "string \<Rightarrow> candle list res" where
  "load_stub name = Inl (HistoricalDataError (''Provider '' @ [CHR 0x27] @ name @ [CHR 0x27] @ '' is not implemented in Phase 6 and requires no live credentials.''))"

section \<open>Synthetic candles\<close>

text \<open>\<open>uniform k a b\<close> is the answer of the \<open>k\<close>-th call of the generator.\<close>

definition timeframe_step :: "string \<Rightarrow> int" where
  "timeframe_step tf = 60000000 * (if tf = ''5m'' then 5 else if tf = ''15m'' then 15 else if tf = ''4h'' then 240
     else if tf = ''1d'' then 1440 else 60)"

definition synthetic_candle ::
  "(nat \<Rightarrow> pyfloat \<Rightarrow> pyfloat \<Rightarrow> pyfloat) \<Rightarrow> string \<Rightarrow> string \<Rightarrow> int \<Rightarrow> nat \<Rightarrow> nat \<Rightarrow> pyfloat
   \<Rightarrow> candle \<times> nat \<times> pyfloat" where
  "synthetic_candle uniform symbol timeframe t0 i k price =
     (let breakout = (i mod 25 = 24);
          drift = (if breakout then flit (15 / 100) else uniform k (flit (- 8 / 10)) (flit (9 / 10)));
          k1 = (if breakout then k else k + 1);
          cl = pmax (Fin 1) (fadd price drift);
          hi = fadd (pmax price cl) (fabs (uniform k1 (Fin 0) (flit (4 / 10))));
          lo = fsub (pmin price cl) (fabs (uniform (k1 + 1) (Fin 0) (flit (4 / 10))));
          vol = fadd (fadd (Fin 1000) (uniform (k1 + 2) (Fin 0) (Fin 200))) (if breakout then Fin 500 else Fin 0)
      in (\<lparr>cd_time = t0 + int i * timeframe_step timeframe, cd_symbol = py_upper symbol, cd_timeframe = timeframe,
           cd_open = pyround price 6, cd_high = pyround hi 6, cd_low = pyround lo 6, cd_close = pyround cl 6, cd_volume = pyround vol 4\<rparr>, k1 + 3, cl))"

fun synthetic_from ::
  "(nat \<Rightarrow> pyfloat \<Rightarrow> pyfloat \<Rightarrow> pyfloat) \<Rightarrow> string \<Rightarrow> string \<Rightarrow> int \<Rightarrow> nat list \<Rightarrow> nat \<Rightarrow> pyfloat
   \<Rightarrow> candle list" where
  "synthetic_from uniform symbol timeframe t0 [] k price = []"
| "synthetic_from uniform symbol timeframe t0 (i # is) k price =
     (case synthetic_candle uniform symbol timeframe t0 i k price of
        (c, k', price') \<Rightarrow> c # synthetic_from uniform symbol timeframe t0 is k' price')"

definition generate_synthetic_candles ::
  "(int \<Rightarrow> string) \<Rightarrow> (nat \<Rightarrow> pyfloat \<Rightarrow> pyfloat \<Rightarrow> pyfloat) \<Rightarrow> string \<Rightarrow> string \<Rightarrow> nat \<Rightarrow> int
   \<Rightarrow> pyfloat \<Rightarrow> candle list res" where
  "generate_synthetic_candles iso8601 uniform symbol timeframe n t0 price =
     validate_candles iso8601 (synthetic_from uniform symbol timeframe t0 [0..<n] 0 price)"

section \<open>Validation is exact\<close>

definition candle_ok :: "candle \<Rightarrow> bool" where
  "candle_ok c \<longleftrightarrow> \<not> negative (cd_volume c) \<and> \<not> flt (cd_high c) (cd_low c)
     \<and> \<not> flt (cd_high c) (pmax (cd_open c) (cd_close c)) \<and> \<not> flt (pmin (cd_open c) (cd_close c)) (cd_low c)
     \<and> (\<forall>x\<in>{cd_open c, cd_high c, cd_low c, cd_close c}. \<not> negative x)"

lemma candle_checked_Inr: "candle_checked iso8601 c = Inr c' \<longleftrightarrow> candle_ok c \<and> c' = c"
  by (auto simp: candle_checked_def candle_ok_def Let_def)

lemma check_candles_Inr:
  "sorted (map cd_time cs) \<Longrightarrow> \<forall>p. prev = Some p \<longrightarrow> (\<forall>c\<in>set cs. p \<le> cd_time c)
   \<Longrightarrow> check_candles iso8601 known prev cs = Inr out
     \<longleftrightarrow> out = cs \<and> distinct (map cd_time cs) \<and> set (map cd_time cs) \<inter> set known = {} \<and> (\<forall>c\<in>set cs. candle_ok c)"
proof (induction cs arbitrary: known prev out)
  case (Cons c cs)
  have "\<not> (case prev of None \<Rightarrow> False | Some p \<Rightarrow> cd_time c < p)"
    using Cons.prems(2) by (auto split: option.split)
  then show ?case
    using Cons.prems(1) Cons.IH [of "Some (cd_time c)" "cd_time c # known"]
    by (auto simp: bind_res_Inr_iff candle_checked_Inr)
qed auto

text \<open>Validation is exact: it succeeds just for a non-empty series of candles with distinct timestamps, none of
which has a negative volume or price or a high or low that contradicts the other prices; the result is the series
in time order, with strictly increasing timestamps and no candle lost or added; and validating it again changes
nothing.\<close>

theorem validation_exact:
  "(validate_candles iso8601 cs = Inr out \<longleftrightarrow> cs \<noteq> [] \<and> distinct (map cd_time cs) \<and> (\<forall>c\<in>set cs. candle_ok c)
      \<and> out = sort_key cd_time cs)
   \<and> (validate_candles iso8601 cs = Inr out \<longrightarrow> sorted_wrt (<) (map cd_time out) \<and> mset out = mset cs
      \<and> validate_candles iso8601 out = Inr out)"
proof -
  have exact: "validate_candles iso8601 xs = Inr ys \<longleftrightarrow> xs \<noteq> [] \<and> distinct (map cd_time xs) \<and> (\<forall>c\<in>set xs. candle_ok c)
      \<and> ys = sort_key cd_time xs" for xs ys
    by (auto simp: validate_candles_def check_candles_Inr distinct_map)
  moreover have "sorted_wrt (<) (map cd_time out) \<and> mset out = mset cs \<and> validate_candles iso8601 out = Inr out"
    if "validate_candles iso8601 cs = Inr out"
  proof -
    from that have out: "cs \<noteq> []" "distinct (map cd_time cs)" "\<forall>c\<in>set cs. candle_ok c" "out = sort_key cd_time cs"
      by (simp_all add: exact)
    have inc: "sorted (map cd_time out)" "distinct (map cd_time out)" "mset out = mset cs"
      using out(2) by (simp_all add: out(4) distinct_map)
    moreover have "out \<noteq> []" using out(1) inc(3) by auto
    moreover have "\<forall>c\<in>set out. candle_ok c" using out(3) by (simp add: out(4))
    moreover have "sort_key cd_time out = out" using inc(1) by (rule sort_key_id_if_sorted)
    ultimately show ?thesis by (simp add: exact strict_sorted_iff)
  qed
  ultimately show ?thesis by blast
qed

text \<open>A candle without numbers passes: no comparison with \<open>nan\<close> holds.\<close>

lemma nan_candle_ok: "candle_ok \<lparr>cd_time = t, cd_symbol = s, cd_timeframe = f, cd_open = NaN, cd_high = NaN, cd_low = NaN,
    cd_close = NaN, cd_volume = NaN\<rparr>"
  by (simp add: candle_ok_def negative_def)

section \<open>Synthetic series are valid\<close>

text \<open>What the documentation promises of \<open>random.uniform\<close>.\<close>

definition uniform_ok :: "(nat \<Rightarrow> pyfloat \<Rightarrow> pyfloat \<Rightarrow> pyfloat) \<Rightarrow> bool" where
  "uniform_ok uniform \<longleftrightarrow> (\<forall>k a b. is_f64 a \<longrightarrow> is_f64 b \<longrightarrow> fle a b \<longrightarrow> is_f64 (uniform k a b) \<and> fle a (uniform k a b) \<and> fle (uniform k a b) b)"

text \<open>Rounding to decimal places keeps the order.\<close>

lemma NegInf_fle: "x \<noteq> NaN \<Longrightarrow> fle NegInf x"
  by (cases x) auto

lemma pyround_mono: "fle x y \<Longrightarrow> fle (pyround x n) (pyround y n)"
  by (cases x; cases y) (auto intro!: NegInf_fle intro!: rnd_mono divide_right_mono rne_mono mult_right_mono)

lemma pyround_0: "pyround (Fin 0) n = Fin 0"
  using rne_of_int [of 0] by simp

lemma above_not_below: "fle a b \<Longrightarrow> \<not> flt b a"
  by (meson flt_not_fle)

lemma candle_from_order:
  assumes "fle l op" "fle l cl" "fle op h" "fle cl h" "fle (Fin 0) l" "fle (Fin 0) v"
  shows "candle_ok \<lparr>cd_time = t, cd_symbol = s, cd_timeframe = f, cd_open = op, cd_high = h, cd_low = l, cd_close = cl, cd_volume = v\<rparr>"
proof -
  have "fle l h" using assms(1,3) by (rule fle_trans)
  moreover have "fle (pmax op cl) h" "fle l (pmin op cl)"
    using assms(1-4) pmax_cases [of op cl] pmin_cases [of op cl] by auto
  moreover have "fle (Fin 0) op" "fle (Fin 0) cl" "fle (Fin 0) h"
    using assms \<open>fle l h\<close> by (blast intro: fle_trans)+
  ultimately show ?thesis using assms(5,6) by (auto simp: candle_ok_def negative_def dest: above_not_below)
qed

lemma uniform_between:
  "uniform_ok u \<Longrightarrow> is_f64 a \<Longrightarrow> is_f64 b \<Longrightarrow> fle a b \<Longrightarrow> is_f64 (u k a b) \<and> fle a (u k a b) \<and> fle (u k a b) b \<and> u k a b \<noteq> NaN"
  unfolding uniform_ok_def by (metis fle_not_NaN)

text \<open>The walk never falls below one, and the wicks are shorter than that.\<close>

definition walk_price :: "pyfloat \<Rightarrow> bool" where
  "walk_price p \<longleftrightarrow> is_f64 p \<and> fle (Fin 1) p"

lemma synthetic_candle_ok:
  assumes "uniform_ok uniform" and "walk_price price"
    and "synthetic_candle uniform symbol timeframe t0 i k price = (c, k', price')"
  shows "candle_ok c \<and> cd_time c = t0 + int i * timeframe_step timeframe \<and> walk_price price'"
proof -
  define drift where "drift = (if i mod 25 = 24 then flit (15 / 100) else uniform k (flit (- 8 / 10)) (flit (9 / 10)))"
  define k1 where "k1 = (if i mod 25 = 24 then k else k + 1)"
  define cl where "cl = pmax (Fin 1) (fadd price drift)"
  define up where "up = fabs (uniform k1 (Fin 0) (flit (4 / 10)))"
  define dn where "dn = fabs (uniform (k1 + 1) (Fin 0) (flit (4 / 10)))"
  define vol where "vol = fadd (fadd (Fin 1000) (uniform (k1 + 2) (Fin 0) (Fin 200))) (if i mod 25 = 24 then Fin 500 else Fin 0)"
  have c: "c = \<lparr>cd_time = t0 + int i * timeframe_step timeframe, cd_symbol = py_upper symbol, cd_timeframe = timeframe,
      cd_open = pyround price 6, cd_high = pyround (fadd (pmax price cl) up) 6, cd_low = pyround (fsub (pmin price cl) dn) 6,
      cd_close = pyround cl 6, cd_volume = pyround vol 4\<rparr>" "price' = cl"
    using assms(3) unfolding synthetic_candle_def Let_def drift_def k1_def cl_def up_def dn_def vol_def
    by (auto simp only: prod.inject)
  have price: "is_f64 price" "fle (Fin 1) price" "price \<noteq> NaN" using assms(2) by (auto simp: walk_price_def dest: fle_not_NaN)
  have drift: "is_f64 drift" "is_finite drift"
  proof -
    let ?u = "uniform k (flit (- 8 / 10)) (flit (9 / 10))"
    have lits: "fle (flit (- 8 / 10)) (flit (9 / 10))" "is_finite (flit (9 / 10))" "is_finite (flit (- 8 / 10))" "is_finite (flit (15 / 100))"
      by (simp_all add: fl_eval)
    have u: "is_f64 ?u" "fle (flit (- 8 / 10)) ?u" "fle ?u (flit (9 / 10))"
      using uniform_between [OF assms(1) is_f64_rnd is_f64_rnd lits(1), of k] by blast+
    have "is_finite ?u" if "is_finite a" "is_finite b" "fle a ?u" "fle ?u b" for a b
      using that by (cases a; cases b; cases ?u) (auto simp: is_finite_def)
    then have "is_finite ?u" using u lits by blast
    then show "is_f64 drift" "is_finite drift" using u(1) lits(4) by (simp_all add: drift_def)
  qed
  have cl: "is_f64 cl" "fle (Fin 1) cl" "cl \<noteq> NaN"
  proof -
    have "fadd price drift \<noteq> NaN" using price(2,3) drift(2) by (cases price; cases drift) (auto simp: is_finite_def)
    then show "fle (Fin 1) cl" unfolding cl_def by (intro pmax_ge) simp
    then show "cl \<noteq> NaN" by (auto dest: fle_not_NaN)
    have "is_f64 (Fin 1)" by (simp add: is_f64_def)
    then show "is_f64 cl"
      using price(1) drift(1) pmax_cases [of "Fin 1" "fadd price drift"] unfolding cl_def by (metis is_f64_fadd)
  qed
  have wick: "fle (Fin 0) up" "fle (Fin 0) dn" "fle dn (Fin 1)" "is_f64 dn" "is_f64 up"
  proof -
    have f: "fle (Fin 0) (flit (4 / 10))" "fle (flit (4 / 10)) (Fin 1)" by (simp_all add: fl_eval)
    note u = uniform_between [OF assms(1) _ _ f(1), of k1] uniform_between [OF assms(1) _ _ f(1), of "k1 + 1"]
    have "fabs x = x" if "fle (Fin 0) x" for x using that by (cases x) auto
    with u f(2) is_f64_rnd show "fle (Fin 0) up" "fle (Fin 0) dn" "fle dn (Fin 1)" "is_f64 dn" "is_f64 up"
      unfolding up_def dn_def by (auto intro: fle_trans)
  qed
  let ?hi = "fadd (pmax price cl) up" and ?lo = "fsub (pmin price cl) dn"
  have tops: "is_f64 (pmax price cl)" "fle price (pmax price cl)" "fle cl (pmax price cl)" "fle (Fin 1) (pmin price cl)"
      "fle (pmin price cl) price" "fle (pmin price cl) cl" "is_f64 (pmin price cl)"
    using price cl pmax_cases [of price cl] pmin_cases [of price cl] by (auto intro: pmax_ge pmax_ge2 pmin_le pmin_le2)
  have "pmax price cl \<noteq> NegInf" "pmax price cl \<noteq> NaN"
    using pmax_cases [of price cl] price(2) cl(2) by auto
  then have "fle (pmax price cl) ?hi" using tops(1) wick(1) by (intro fadd_ge) auto
  then have hi: "fle price ?hi" "fle cl ?hi" using tops(2,3) by (blast intro: fle_trans)+
  have low: "fle (Fin 0) ?lo" "fle ?lo (pmin price cl)"
    using tops(4,7) wick(2,3) by (cases "pmin price cl"; cases dn; auto simp: fsub_def is_f64_def intro!: rnd_nonneg rnd_Fin_mono_upper)+
  then have lo: "fle ?lo price" "fle ?lo cl" using tops(5,6) by (blast intro: fle_trans)+
  have vol: "fle (Fin 0) vol"
    using uniform_between [OF assms(1), of "Fin 0" "Fin 200" "k1 + 2"] unfolding vol_def
    by (auto intro!: fadd_nonneg simp: is_f64_def fl_eval)
  have "candle_ok c"
    using hi lo low(1) vol pyround_mono pyround_0 unfolding c(1) by (intro candle_from_order) metis+
  then show ?thesis using cl by (simp add: c walk_price_def)
qed

lemma synthetic_series_ok:
  "uniform_ok uniform \<Longrightarrow> walk_price price
   \<Longrightarrow> (\<forall>c\<in>set (synthetic_from uniform symbol timeframe t0 is k price). candle_ok c)
     \<and> map cd_time (synthetic_from uniform symbol timeframe t0 is k price) = map (\<lambda>i. t0 + int i * timeframe_step timeframe) is"
proof (induction "is" arbitrary: k price)
  case (Cons i "is")
  obtain c k' price' where c: "synthetic_candle uniform symbol timeframe t0 i k price = (c, k', price')"
    by (metis prod_cases3)
  have one: "candle_ok c" "cd_time c = t0 + int i * timeframe_step timeframe" "walk_price price'"
    using synthetic_candle_ok [OF Cons.prems c] by blast+
  show ?case using one(1,2) Cons.IH [OF Cons.prems(1) one(3), of k'] by (simp add: c)
qed simp

text \<open>The synthetic series passes the validation: when the generator answers within its bounds, a series of at least one candle from a price of at least one is accepted, has as many
candles as asked for, one time frame apart, in order.\<close>

theorem synthetic_series_validates:
  assumes "uniform_ok uniform" and "is_f64 price" and "fle (Fin 1) price" and "0 < n"
  shows "\<exists>cs. generate_synthetic_candles iso8601 uniform symbol timeframe n t0 price = Inr cs
    \<and> map cd_time cs = map (\<lambda>i. t0 + int i * timeframe_step timeframe) [0..<n]"
proof -
  let ?cs = "synthetic_from uniform symbol timeframe t0 [0..<n] 0 price"
  have cs: "\<forall>c\<in>set ?cs. candle_ok c" "map cd_time ?cs = map (\<lambda>i. t0 + int i * timeframe_step timeframe) [0..<n]"
    using synthetic_series_ok [of uniform price] assms(1-4) by (auto simp: walk_price_def)
  have step: "0 < timeframe_step timeframe" by (simp add: timeframe_step_def)
  have sorted: "sorted (map cd_time ?cs)" using step unfolding cs(2) by (auto simp: sorted_iff_nth_mono)
  then have "sort_key cd_time ?cs = ?cs" by (rule sort_key_id_if_sorted)
  moreover have "distinct (map cd_time ?cs)" using step unfolding cs(2) by (auto simp: distinct_map inj_on_def)
  moreover have "?cs \<noteq> []" using cs(2) assms(4) by (metis list.map_disc_iff length_0_conv length_map length_upt diff_zero less_numeral_extra(3))
  ultimately have "validate_candles iso8601 ?cs = Inr ?cs"
    using cs(1) sorted by (simp add: validate_candles_def check_candles_Inr)
  then show ?thesis using cs(2) by (simp add: generate_synthetic_candles_def)
qed

theorem synthetic_series_validates_witness:
  "\<exists>cs. generate_synthetic_candles (\<lambda>_. []) (\<lambda>k a b. a) ''btc'' ''5m'' 2 0 (Fin 1) = Inr cs
    \<and> map cd_time cs = [0, 300000000]"
proof -
  have "uniform_ok (\<lambda>k a b. a)" "is_f64 (Fin 1)" "fle (Fin 1) (Fin 1)"
    by (auto simp: uniform_ok_def is_f64_def)
  from synthetic_series_validates [OF this, of 2 "\<lambda>_. []" "''btc''" "''5m''" 0] show ?thesis
    by (simp add: timeframe_step_def upt_rec)
qed

definition flat_candle :: "int \<Rightarrow> candle" where
  "flat_candle t = \<lparr>cd_time = t, cd_symbol = ''X'', cd_timeframe = ''1h'', cd_open = Fin 2, cd_high = Fin 3, cd_low = Fin 1,
     cd_close = Fin 2, cd_volume = Fin 0\<rparr>"

theorem validation_exact_witness:
  "validate_candles (\<lambda>t. []) [flat_candle 7, flat_candle 5] = Inr [flat_candle 5, flat_candle 7]
   \<and> sorted_wrt (<) (map cd_time [flat_candle 5, flat_candle 7])"
  using validation_exact [of "\<lambda>t. []" "[flat_candle 7, flat_candle 5]" "[flat_candle 5, flat_candle 7]"]
  by (simp add: flat_candle_def candle_ok_def negative_def pmax_def pmin_def fl_eval)

end
