(* ===== verification/Prediction.thy ===== *)
theory Prediction
  imports Paper_Exchange Okf_Gates Backtest_Data Json_Read
begin

text \<open>
  \<open>exchange/prediction.py\<close> and \<open>exchange/settlement.py\<close>: the book of binary contracts on top of the paper exchange
  and their settlement; \<open>backtest/prediction.py\<close>: the evaluation of forecasts.  Settlement
  identifiers, time stamps and the logarithm are parameters.
\<close>

section \<open>Contracts\<close>

record contract =
  pc_market_id :: string
  pc_outcome :: string
  pc_price :: pyfloat
  pc_probability :: pyfloat
  pc_resolved :: bool
  pc_winning :: "string option"

definition unit_interval :: "pyfloat \<Rightarrow> bool" where
  "unit_interval x \<longleftrightarrow> fle (Fin 0) x \<and> fle x (Fin 1)"

definition contract_valid :: "contract \<Rightarrow> bool" where
  "contract_valid c \<longleftrightarrow> unit_interval (pc_price c) \<and> unit_interval (pc_probability c)"

definition contract_symbol :: "contract \<Rightarrow> string" where
  "contract_symbol c = ''PREDICT/'' @ pc_market_id c @ ''/'' @ py_upper (pc_outcome c)"

record settlement =
  st_id :: string
  st_market_id :: string
  st_symbol :: string
  st_winning :: string
  st_value :: pyfloat
  st_pnl :: pyfloat

definition prediction_settlement_value :: "string \<Rightarrow> string \<Rightarrow> pyfloat" where
  "prediction_settlement_value held winning = (if py_upper held = py_upper winning then Fin 1 else Fin 0)"

definition build_settlement_record :: "string \<Rightarrow> string \<Rightarrow> string \<Rightarrow> string \<Rightarrow> pyfloat \<Rightarrow> pyfloat \<Rightarrow> settlement" where
  "build_settlement_record sid market symbol winning value pnl =
     \<lparr>st_id = sid, st_market_id = market, st_symbol = symbol, st_winning = py_upper winning, st_value = value, st_pnl = pnl\<rparr>"

text \<open>What an attribution is matters to nobody but its reader; the book files it under the order.\<close>

record 'a prediction_book =
  pb_exchange :: exchange
  pb_markets :: "(string \<times> contract) list"
  pb_attributions :: "(string \<times> 'a) list"
  pb_settlements :: "settlement list"

definition contract_meta :: "string \<Rightarrow> instrument_meta" where
  "contract_meta sy = \<lparr>im_instrument_id = None, im_symbol = sy, im_asset_class = PREDICTION_CONTRACT, im_quote_currency = ''USD'',
     im_tick_size = flit (1 / 100), im_lot_size = Fin 1, im_contract_multiplier = Fin 1, im_multiplier = Fin 1,
     im_margin_required = Fin 0, im_shortable = True, im_settlement_type = BINARY\<rparr>"

definition register_market :: "contract \<Rightarrow> 'a prediction_book \<Rightarrow> 'a prediction_book" where
  "register_market c b =
     (let sy = contract_symbol c; ex = set_price (pb_exchange b) sy (pc_price c);
          meta = (case dget (ex_instruments ex) sy of None \<Rightarrow> instrument_post_init (contract_meta sy) | Some m \<Rightarrow> m)
      in b\<lparr>pb_markets := dput sy c (pb_markets b),
           pb_exchange := ex\<lparr>ex_instruments := dput sy meta (ex_instruments ex)\<rparr>\<rparr>)"

definition market_order :: "string \<Rightarrow> order_side \<Rightarrow> pyfloat \<Rightarrow> string option \<Rightarrow> order" where
  "market_order sy sd q sid = (new_order sy sd MARKET q)\<lparr>o_instrument_type := PREDICTION_CONTRACT, o_strategy_id := sid\<rparr>"

text \<open>A new order has no identifier yet: an attribution is first filed as pending.\<close>

definition buy_contract ::
  "(string \<Rightarrow> string) \<Rightarrow> (pyfloat \<Rightarrow> string) \<Rightarrow> string \<Rightarrow> pyfloat \<Rightarrow> order_side \<Rightarrow> string option \<Rightarrow> 'a option
   \<Rightarrow> 'a prediction_book \<Rightarrow> 'a prediction_book \<times> order res" where
  "buy_contract h16 f10 sy q sd sid attribution b =
     (case dget (pb_markets b) sy of
        None \<Rightarrow> (b, Inl (KeyError sy))
      | Some c \<Rightarrow>
          (let b1 = (case attribution of None \<Rightarrow> b | Some a \<Rightarrow> b\<lparr>pb_attributions := dput ''pending'' a (pb_attributions b)\<rparr>)
           in case create_order h16 f10 (pb_exchange b1) (market_order sy sd q sid) (Some (pc_price c)) of
                (ex, Inl e) \<Rightarrow> (b1\<lparr>pb_exchange := ex\<rparr>, Inl e)
              | (ex, Inr filled) \<Rightarrow>
                  (case (attribution, o_order_id filled) of
                     (Some a, Some i) \<Rightarrow> if i = [] then (b1\<lparr>pb_exchange := ex\<rparr>, Inr filled)
                       else (b1\<lparr>pb_exchange := ex, pb_attributions := dput i a (pb_attributions b1)\<rparr>, Inr filled)
                   | _ \<Rightarrow> (b1\<lparr>pb_exchange := ex\<rparr>, Inr filled))))"

section \<open>Resolution\<close>

text \<open>One contract of the market: it is marked, and a position on it is closed at what it pays, without a fee.\<close>

definition resolve_contract ::
  "(string \<Rightarrow> string) \<Rightarrow> string \<Rightarrow> string \<Rightarrow> string \<times> contract \<Rightarrow> 'a prediction_book \<times> settlement list
   \<Rightarrow> ('a prediction_book \<times> settlement list) \<times> unit res" where
  "resolve_contract uid market winning entry run = (case entry of (sy, c) \<Rightarrow> case run of (b, results) \<Rightarrow>
     (let b1 = b\<lparr>pb_markets := dput sy (c\<lparr>pc_resolved := True, pc_winning := Some winning\<rparr>) (pb_markets b)\<rparr>;
          pf = ex_portfolio (pb_exchange b1)
      in if \<not> dmem sy (pf_positions pf) then ((b1, results), Inr ())
         else (let pays = prediction_settlement_value (pc_outcome c) winning
               in case close_position pf sy None pays (Fin 0) of
                    (pf1, Inl e) \<Rightarrow> ((b1\<lparr>pb_exchange := set_portfolio (pb_exchange b1) pf1\<rparr>, results), Inl e)
                  | (pf1, Inr pnl) \<Rightarrow>
                      (let r = build_settlement_record (uid sy) market sy winning pays pnl
                       in ((b1\<lparr>pb_exchange := set_portfolio (pb_exchange b1) pf1, pb_settlements := pb_settlements b1 @ [r]\<rparr>,
                            results @ [r]), Inr ())))))"

fun resolve_contracts ::
  "(string \<Rightarrow> string) \<Rightarrow> string \<Rightarrow> string \<Rightarrow> (string \<times> contract) list \<Rightarrow> 'a prediction_book \<times> settlement list
   \<Rightarrow> ('a prediction_book \<times> settlement list) \<times> unit res" where
  "resolve_contracts uid market winning [] run = (run, Inr ())"
| "resolve_contracts uid market winning (entry # es) run =
     (if pc_market_id (snd entry) \<noteq> market then resolve_contracts uid market winning es run
      else case resolve_contract uid market winning entry run of
        (run1, Inl e) \<Rightarrow> (run1, Inl e) | (run1, Inr _) \<Rightarrow> resolve_contracts uid market winning es run1)"

definition resolve_market ::
  "(string \<Rightarrow> string) \<Rightarrow> string \<Rightarrow> string \<Rightarrow> 'a prediction_book \<Rightarrow> 'a prediction_book \<times> settlement list res" where
  "resolve_market uid market winning_outcome b =
     (case resolve_contracts uid market (py_upper winning_outcome) (pb_markets b) (b, []) of
        ((b1, results), Inl e) \<Rightarrow> (b1, Inl e) | ((b1, results), Inr _) \<Rightarrow> (b1, Inr results))"

section \<open>Forecasts\<close>

definition log_loss :: "(pyfloat \<Rightarrow> pyfloat) \<Rightarrow> pyfloat \<Rightarrow> int \<Rightarrow> pyfloat" where
  "log_loss lg prob oc =
     (let p = pmin (pmax prob (flit (1 / 10 ^ 12))) (fsub (Fin 1) (flit (1 / 10 ^ 12)))
      in fneg (fadd (fmul (f_of_int oc) (lg p)) (fmul (f_of_int (1 - oc)) (lg (fsub (Fin 1) p)))))"

record forecast_row =
  fr_prediction :: pyfloat
  fr_market :: pyfloat
  fr_edge :: pyfloat
  fr_outcome :: int
  fr_brier :: pyfloat
  fr_log_loss :: pyfloat

record forecast_report =
  fp_count :: nat
  fp_brier_mean :: "pyfloat option"
  fp_log_loss_mean :: "pyfloat option"
  fp_calibration_ok :: "bool option"
  fp_roi :: pyfloat
  fp_net_pnl :: "pyfloat option"
  fp_rows :: "forecast_row list"

record forecast_lib =
  fl_log :: "pyfloat \<Rightarrow> pyfloat"
  fl_float :: "string \<Rightarrow> pyfloat option"
  fl_int :: "string \<Rightarrow> int option"

definition forecast_of :: "forecast_lib \<Rightarrow> json_obj \<Rightarrow> forecast_row res" where
  "forecast_of lib row =
     bind_res (float_of_json (fl_float lib)
       (get_or row ''predicted_probability'' (get_or row ''ensemble_probability'' (JNum (Fin (1 / 2)))))) (\<lambda>p.
     bind_res (float_of_json (fl_float lib) (get_or row ''market_probability'' (JNum (Fin (1 / 2))))) (\<lambda>m.
     bind_res (int_of_json (fl_int lib) (get_or row ''outcome'' (JInt 0))) (\<lambda>oc. Inr
       \<lparr>fr_prediction = p, fr_market = m, fr_edge = fsub p m, fr_outcome = oc, fr_brier = brier_score p oc,
        fr_log_loss = log_loss (fl_log lib) p oc\<rparr>)))"

text \<open>The paper settlement of one forecast: profit and stake so far.\<close>

definition stake_row :: "forecast_lib \<Rightarrow> pyfloat \<Rightarrow> json_obj \<Rightarrow> forecast_row \<Rightarrow> pyfloat \<times> pyfloat \<Rightarrow> (pyfloat \<times> pyfloat) res" where
  "stake_row lib threshold row f acc = (case acc of (pnl, stake) \<Rightarrow>
     if fle threshold (fabs (fr_edge f))
     then bind_res (float_of_json (fl_float lib) (get_or row ''quantity'' (JNum (Fin 1)))) (\<lambda>qty.
       let up = flt (Fin 0) (fr_edge f);
           price = (if up then fr_market f else fsub (Fin 1) (fr_market f));
           pays = f_of_int (if up then fr_outcome f else 1 - fr_outcome f)
       in Inr (fadd pnl (fmul (fsub pays price) qty), fadd stake (fmul price qty)))
     else Inr (pnl, stake))"

fun forecast_loop ::
  "forecast_lib \<Rightarrow> pyfloat \<Rightarrow> json_obj list \<Rightarrow> pyfloat \<times> pyfloat \<Rightarrow> (forecast_row list \<times> pyfloat \<times> pyfloat) res" where
  "forecast_loop lib threshold [] acc = Inr ([], acc)"
| "forecast_loop lib threshold (row # rs) acc =
     bind_res (forecast_of lib row) (\<lambda>f. bind_res (stake_row lib threshold row f acc) (\<lambda>acc1.
       bind_res (forecast_loop lib threshold rs acc1) (\<lambda>(fs, acc2). Inr (f # fs, acc2))))"

definition evaluate_prediction_rows :: "forecast_lib \<Rightarrow> pyfloat \<Rightarrow> pyfloat \<Rightarrow> json_obj list \<Rightarrow> forecast_report res" where
  "evaluate_prediction_rows lib threshold max_brier rs =
     (if rs = [] then Inr \<lparr>fp_count = 0, fp_brier_mean = None, fp_log_loss_mean = None, fp_calibration_ok = None, fp_roi = Fin 0,
        fp_net_pnl = None, fp_rows = []\<rparr>
      else bind_res (forecast_loop lib threshold rs (Fin 0, Fin 0)) (\<lambda>(fs, pnl, stake).
        let n = f_of_int (int (length rs)); mean = fquot (fsum (map fr_brier fs)) n
        in Inr \<lparr>fp_count = length rs, fp_brier_mean = Some mean, fp_log_loss_mean = Some (fquot (fsum (map fr_log_loss fs)) n),
             fp_calibration_ok = Some (fle mean max_brier),
             fp_roi = (if stake \<noteq> Fin 0 then fquot pnl stake else Fin 0), fp_net_pnl = Some pnl, fp_rows = fs\<rparr>))"

section \<open>Settlement is complete and pays the winner\<close>

lemma close_whole_position:
  assumes "dget (pf_positions pf) sy = Some p" and "flt (Fin 0) (pos_quantity p)" and "is_f64 (pos_quantity p)"
    and "is_finite (pos_quantity p)"
  shows "\<exists>pf' pnl. close_position pf sy None px fee = (pf', Inr pnl) \<and> pf_positions pf' = ddel sy (pf_positions pf)"
proof -
  let ?q = "pos_quantity p"
  have tol: "fle (Fin 0) qty_tol" "flt (Fin 0) qty_tol" by (simp_all add: qty_tol_def fl_eval)
  have "fle ?q (fadd ?q qty_tol)"
    using assms(3,4) tol(1) by (intro fadd_ge) (auto simp: is_finite_def)
  then have "\<not> flt (fadd ?q qty_tol) ?q" "\<not> fle ?q (Fin 0)"
    using assms(2) by (auto dest: flt_not_fle)
  moreover have "flt (fabs (fsub ?q ?q)) qty_tol"
    using assms(4) tol(2) by (cases ?q) (auto simp: is_finite_def)
  ultimately show ?thesis using assms(1) by (simp add: close_position_def Let_def)
qed

definition sound_position :: "position \<Rightarrow> bool" where
  "sound_position p \<longleftrightarrow> flt (Fin 0) (pos_quantity p) \<and> is_f64 (pos_quantity p) \<and> is_finite (pos_quantity p)"

abbreviation held :: "'a prediction_book \<Rightarrow> (string \<times> position) list" where
  "held b \<equiv> pf_positions (ex_portfolio (pb_exchange b))"

lemma resolve_contract_spec:
  assumes "\<forall>k p. dget (held b) k = Some p \<longrightarrow> sound_position p"
  shows "\<exists>b' r. resolve_contract uid market winning (sy, c) (b, results) = ((b', results @ r), Inr ())
    \<and> held b' = ddel sy (held b)
    \<and> map st_symbol r = (if dmem sy (held b) then [sy] else [])
    \<and> (\<forall>s\<in>set r. st_value s = prediction_settlement_value (pc_outcome c) winning)
    \<and> pb_settlements b' = pb_settlements b @ r"
proof (cases "dget (held b) sy")
  case None
  then show ?thesis by (simp add: resolve_contract_def dmem_def Let_def map_of_eq_None_iff AList.delete_id)
next
  case (Some p)
  from assms Some have "sound_position p" by blast
  then obtain pf' pnl where "close_position (ex_portfolio (pb_exchange b)) sy None (prediction_settlement_value (pc_outcome c) winning) (Fin 0) = (pf', Inr pnl)"
    "pf_positions pf' = ddel sy (held b)"
    using close_whole_position [OF Some] unfolding sound_position_def by blast
  with Some show ?thesis
    by (simp add: resolve_contract_def dmem_def Let_def set_portfolio_def build_settlement_record_def)
qed

text \<open>The symbols of the market, in the order of the book.\<close>

definition market_symbols :: "string \<Rightarrow> (string \<times> contract) list \<Rightarrow> string list" where
  "market_symbols market es = map fst (filter (\<lambda>e. pc_market_id (snd e) = market) es)"

definition settled_by ::
  "string \<Rightarrow> string \<Rightarrow> (string \<times> contract) list \<Rightarrow> 'a prediction_book \<Rightarrow> 'a prediction_book \<Rightarrow> settlement list \<Rightarrow> bool" where
  "settled_by market winning es b b' r \<longleftrightarrow>
     (\<forall>k. dget (held b') k = (if k \<in> set (market_symbols market es) then None else dget (held b) k))
   \<and> map st_symbol r = filter (\<lambda>k. dmem k (held b)) (market_symbols market es)
   \<and> (\<forall>s\<in>set r. \<exists>c. (st_symbol s, c) \<in> set es \<and> st_value s = prediction_settlement_value (pc_outcome c) winning)
   \<and> pb_settlements b' = pb_settlements b @ r"

lemma settled_skip:
  "settled_by market winning es b b' r \<Longrightarrow> pc_market_id c \<noteq> market \<Longrightarrow> settled_by market winning ((sy, c) # es) b b' r"
  unfolding settled_by_def market_symbols_def by auto

lemma settled_step:
  assumes "settled_by market winning es b1 b2 r2" and "pc_market_id c = market" and "sy \<notin> fst ` set es"
    and "held b1 = ddel sy (held b)" "map st_symbol r1 = (if dmem sy (held b) then [sy] else [])"
      "\<forall>s\<in>set r1. st_value s = prediction_settlement_value (pc_outcome c) winning" "pb_settlements b1 = pb_settlements b @ r1"
  shows "settled_by market winning ((sy, c) # es) b b2 (r1 @ r2)"
proof -
  have new: "sy \<notin> set (market_symbols market es)" using assms(3) by (auto simp: market_symbols_def)
  then have "filter (\<lambda>k. dmem k (held b1)) (market_symbols market es) = filter (\<lambda>k. dmem k (held b)) (market_symbols market es)"
    by (intro filter_cong) (auto simp: dmem_def assms(4) dget_ddel)
  moreover have "st_symbol s = sy" if "s \<in> set r1" for s
    using assms(5) that by (cases r1) (auto split: if_splits)
  moreover have "market_symbols market ((sy, c) # es) = sy # market_symbols market es"
    using assms(2) by (simp add: market_symbols_def)
  ultimately show ?thesis
    using assms(1,5,6,7) new unfolding settled_by_def
    by (intro conjI) (auto simp: assms(4) dget_ddel)
qed

lemma resolve_contracts_spec:
  assumes "\<forall>k p. dget (held b) k = Some p \<longrightarrow> sound_position p" and "keys_ok es"
  shows "\<exists>b' r. resolve_contracts uid market winning es (b, results) = ((b', results @ r), Inr ())
    \<and> settled_by market winning es b b' r"
  using assms
proof (induction es arbitrary: b results)
  case Nil
  then show ?case by (simp add: settled_by_def market_symbols_def)
next
  case (Cons e es)
  obtain sy c where e: "e = (sy, c)" by fastforce
  have keys: "keys_ok es" "sy \<notin> fst ` set es" using Cons.prems(2) by (simp_all add: e keys_ok_def)
  show ?case
  proof (cases "pc_market_id c = market")
    case False
    obtain b' r where "resolve_contracts uid market winning es (b, results) = ((b', results @ r), Inr ())"
      "settled_by market winning es b b' r"
      using Cons.IH [OF Cons.prems(1) keys(1)] by blast
    with False show ?thesis by (simp add: e settled_skip)
  next
    case True
    obtain b1 r1 where one: "resolve_contract uid market winning (sy, c) (b, results) = ((b1, results @ r1), Inr ())"
      "held b1 = ddel sy (held b)" "map st_symbol r1 = (if dmem sy (held b) then [sy] else [])"
      "\<forall>s\<in>set r1. st_value s = prediction_settlement_value (pc_outcome c) winning" "pb_settlements b1 = pb_settlements b @ r1"
      using resolve_contract_spec [OF Cons.prems(1)] by metis
    have sound: "\<forall>k p. dget (held b1) k = Some p \<longrightarrow> sound_position p"
      using Cons.prems(1) by (auto simp: one(2) dget_ddel split: if_splits)
    obtain b2 r2 where rest: "resolve_contracts uid market winning es (b1, results @ r1) = ((b2, (results @ r1) @ r2), Inr ())"
      "settled_by market winning es b1 b2 r2"
      using Cons.IH [OF sound keys(1), of "results @ r1"] by blast
    have "settled_by market winning ((sy, c) # es) b b2 (r1 @ r2)"
      using settled_step [OF rest(2) True keys(2) one(2-5)] .
    then show ?thesis using one(1) rest(1) True by (auto simp: e)
  qed
qed


definition demo_contract :: "string \<Rightarrow> contract" where
  "demo_contract outcome = \<lparr>pc_market_id = ''m'', pc_outcome = outcome, pc_price = Fin (1 / 2), pc_probability = Fin (1 / 2),
     pc_resolved = False, pc_winning = None\<rparr>"

definition demo_prediction_book :: "unit prediction_book" where
  "demo_prediction_book = \<lparr>pb_exchange = set_position ''PREDICT/m/YES'' (long_position ''PREDICT/m/YES'' (Fin 2) (Fin (1 / 2)) (Fin 0))
       (new_exchange default_config None [] ''S''),
     pb_markets = [(''PREDICT/m/YES'', demo_contract ''yes''), (''PREDICT/m/NO'', demo_contract ''no'')],
     pb_attributions = [], pb_settlements = []\<rparr>"

lemma demo_held: "held demo_prediction_book = [(''PREDICT/m/YES'', long_position ''PREDICT/m/YES'' (Fin 2) (Fin (1 / 2)) (Fin 0))]"
  by (simp add: demo_prediction_book_def set_position_def set_portfolio_def new_exchange_def opt_default_def default_config_def
      new_portfolio_def)


text \<open>A predicted probability of zero is read as a half: zero is false in \<open>or\<close>.\<close>

lemma zero_forecast_read_as_half:
  "\<exists>f. forecast_of lib [(''predicted_probability'', JNum (Fin 0)), (''outcome'', JInt 0)] = Inr f
     \<and> fr_prediction f = Fin (1 / 2) \<and> fr_brier f = Fin (1 / 4)"
  by (simp add: forecast_of_def get_or_def json_truthy_def float_of_json_def int_of_json_def brier_score_def Let_def fl_eval)

end
