(* ===== verification/Redaction.thy ===== *)
theory Redaction
  imports Json_Read
begin

text \<open>
  The removal of secrets from what is logged, stored and shown: \<open>exchange/auth.py\<close> (\<open>redact_secrets\<close>),
  \<open>credentials/redaction.py\<close>, \<open>dashboard/events.py\<close> (\<open>sanitize_payload\<close>) and \<open>wallet/security.py\<close>.  Both
  recursive functions satisfy one contract, the locale \<open>scrubber\<close>: some keys are dropped, the values
  under others are masked, everything else is walked through.
\<close>

section \<open>What a leak is\<close>

definition redacted :: json where
  "redacted = JStr ''[REDACTED]''"

text \<open>\<open>occurs w j\<close>: the value \<open>w\<close> occurs somewhere in \<open>j\<close>.\<close>

inductive occurs :: "json \<Rightarrow> json \<Rightarrow> bool" where
  occurs_self: "occurs j j"
| occurs_obj: "(k, v) \<in> set d \<Longrightarrow> occurs w v \<Longrightarrow> occurs w (JObj d)"
| occurs_list: "v \<in> set js \<Longrightarrow> occurs w v \<Longrightarrow> occurs w (JList js)"

inductive_cases occurs_objE: "occurs w (JObj d)"
inductive_cases occurs_listE: "occurs w (JList js)"
inductive_simps occurs_leaf [simp]:
  "occurs w JNull" "occurs w (JBool b)" "occurs w (JStr s)" "occurs w (JInt n)" "occurs w (JNum x)"

definition leaks :: "(string \<Rightarrow> bool) \<Rightarrow> (string \<Rightarrow> bool) \<Rightarrow> json \<Rightarrow> bool" where
  "leaks hidden masked j \<longleftrightarrow> (\<exists>d k v. occurs (JObj d) j \<and> (k, v) \<in> set d \<and> (hidden k \<or> masked k \<and> v \<noteq> redacted))"

lemma leaks_leaf [simp]:
  "\<not> leaks h m JNull" "\<not> leaks h m (JBool b)" "\<not> leaks h m (JStr s)" "\<not> leaks h m (JInt n)" "\<not> leaks h m (JNum x)"
  by (simp_all add: leaks_def)

lemma leaks_list: "leaks h m (JList js) \<longleftrightarrow> (\<exists>v\<in>set js. leaks h m v)"
  unfolding leaks_def by (blast elim: occurs_listE intro: occurs_list)

lemma leaks_obj:
  "leaks h m (JObj d) \<longleftrightarrow> (\<exists>(k, v)\<in>set d. h k \<or> m k \<and> v \<noteq> redacted \<or> leaks h m v)"
proof
  assume "leaks h m (JObj d)"
  then obtain e k v where leak: "occurs (JObj e) (JObj d)" "(k, v) \<in> set e" "h k \<or> m k \<and> v \<noteq> redacted"
    by (auto simp: leaks_def)
  from leak(1) have "e = d \<or> (\<exists>k' v'. (k', v') \<in> set d \<and> occurs (JObj e) v')" by (blast elim: occurs_objE)
  then show "\<exists>(k, v)\<in>set d. h k \<or> m k \<and> v \<noteq> redacted \<or> leaks h m v"
    using leak(2,3) unfolding leaks_def by blast
next
  assume "\<exists>(k, v)\<in>set d. h k \<or> m k \<and> v \<noteq> redacted \<or> leaks h m v"
  then show "leaks h m (JObj d)" unfolding leaks_def by (blast intro: occurs_self occurs_obj)
qed

section \<open>The contract\<close>

locale scrubber =
  fixes scrub :: "json \<Rightarrow> json" and hidden :: "string \<Rightarrow> bool" and masked :: "string \<Rightarrow> bool"
  assumes scrub_obj: "scrub (JObj d) = JObj (map (\<lambda>(k, v). (k, if masked k then redacted else scrub v)) (filter (\<lambda>(k, v). \<not> hidden k) d))"
    and scrub_list: "scrub (JList js) = JList (map scrub js)"
    and scrub_leaf: "scrub JNull = JNull" "scrub (JBool b) = JBool b" "scrub (JStr s) = JStr s" "scrub (JInt n) = JInt n"
      "scrub (JNum x) = JNum x"
begin

lemma scrub_mask: "scrub redacted = redacted"
  by (simp add: redacted_def scrub_leaf)

lemma no_leak: "\<not> leaks hidden masked (scrub j)"
proof (induction j)
  case (JObj d)
  have "\<not> leaks hidden masked (scrub v)" if "(k, v) \<in> set d" for k v
    using JObj that by force
  moreover have "\<not> leaks hidden masked redacted" by (simp add: redacted_def)
  ultimately show ?case unfolding scrub_obj leaks_obj by (auto split: if_splits)
qed (auto simp: scrub_leaf scrub_list leaks_list)

lemma clean_kept: "\<not> leaks hidden masked j \<Longrightarrow> scrub j = j"
proof (induction j)
  case (JObj d)
  have all: "\<not> hidden k \<and> (masked k \<longrightarrow> v = redacted) \<and> \<not> leaks hidden masked v" if "(k, v) \<in> set d" for k v
    using JObj.prems that unfolding leaks_obj by blast
  then have "filter (\<lambda>(k, v). \<not> hidden k) d = d" by (intro filter_True) auto
  moreover have "map (\<lambda>(k, v). (k, if masked k then redacted else scrub v)) d = d"
    using all JObj.IH by (intro map_idI) force
  ultimately show ?case by (simp add: scrub_obj)
next
  case (JList js)
  then have "map scrub js = js" by (intro map_idI) (auto simp: leaks_list)
  then show ?case by (simp add: scrub_list)
qed (simp_all add: scrub_leaf)

lemma fixed_iff_clean: "scrub j = j \<longleftrightarrow> \<not> leaks hidden masked j"
  using clean_kept no_leak by metis

lemma scrub_idem: "scrub (scrub j) = scrub j"
  by (simp add: clean_kept no_leak)

lemma scrub_is_obj: "\<exists>e. scrub (JObj d) = JObj e"
  by (simp add: scrub_obj)

end

section \<open>\<open>redact_secrets\<close>\<close>

definition name_has :: "string list \<Rightarrow> string \<Rightarrow> bool" where
  "name_has fragments k \<longleftrightarrow> list_ex (\<lambda>s. py_contains s (py_lower k)) fragments"

definition credential_name :: "string \<Rightarrow> bool" where
  "credential_name = name_has [''secret'', ''api_key'', ''apikey'', ''password'', ''token'', ''authorization'']"

fun redact_secrets :: "json \<Rightarrow> json" where
  "redact_secrets (JObj d) = JObj (map (\<lambda>(k, v). (k, if credential_name k then redacted else redact_secrets v)) d)"
| "redact_secrets (JList js) = JList (map redact_secrets js)"
| "redact_secrets j = j"

interpretation redact: scrubber redact_secrets "\<lambda>k. False" credential_name
  by unfold_locales simp_all

definition redact_payload :: "json \<Rightarrow> json" where
  "redact_payload j = redact_secrets j"

section \<open>\<open>sanitize_payload\<close>\<close>

definition private_name :: "string \<Rightarrow> bool" where
  "private_name k \<longleftrightarrow> py_lower k \<in> {''chain_of_thought'', ''hidden_reasoning'', ''raw_prompt'', ''system_prompt'', ''reasoning'', ''prompt''}
     \<or> py_contains ''chain_of_thought'' (py_lower k)"

definition secret_keys :: "string list" where
  "secret_keys = [''api_key'', ''apikey'', ''api_secret'', ''secret'', ''password'', ''token'', ''authorization'', ''private_key'',
     ''wallet'', ''prompt'', ''system_prompt'', ''chain_of_thought'', ''reasoning'', ''hidden_reasoning'']"

definition concealed_name :: "string \<Rightarrow> bool" where
  "concealed_name k \<longleftrightarrow> py_lower k \<in> set secret_keys \<or> name_has [''secret'', ''credential'', ''private_key'', ''api_key''] k"

fun sanitize_payload :: "json \<Rightarrow> json" where
  "sanitize_payload (JObj d) = JObj (map (\<lambda>(k, v). (k, if concealed_name k then redacted else sanitize_payload v))
     (filter (\<lambda>(k, v). \<not> private_name k) d))"
| "sanitize_payload (JList js) = JList (map sanitize_payload js)"
| "sanitize_payload j = j"

interpretation sanitize: scrubber sanitize_payload private_name concealed_name
  by unfold_locales simp_all

section \<open>Leaks in texts\<close>

definition contains_secret_leak :: "string \<Rightarrow> string list \<Rightarrow> bool" where
  "contains_secret_leak t known = (name_has [''sk-'', ''api-secret'', ''begin private key''] t
     \<or> list_ex (\<lambda>s. s \<noteq> [] \<and> py_contains s t) known)"

definition secret_fragments :: "string list" where
  "secret_fragments = [''secret'', ''api_key'', ''apikey'', ''password'', ''token'', ''authorization'', ''passphrase'', ''private_key'',
     ''seed'', ''mnemonic'', ''signature'', ''bearer'']"

definition safe_exception_message :: "string \<Rightarrow> string" where
  "safe_exception_message msg = take 500 (if name_has secret_fragments msg then ''[REDACTED_EXCEPTION]'' else msg)"

definition forbidden_wallet_fields :: "string list" where
  "forbidden_wallet_fields = [''seed'', ''mnemonic'', ''private_key'', ''privkey'', ''wallet_secret'', ''bip39'']"

fun assert_no_wallet_secrets :: "json_obj \<Rightarrow> unit res" where
  "assert_no_wallet_secrets [] = Inr ()"
| "assert_no_wallet_secrets ((k, v) # d) =
     (if name_has forbidden_wallet_fields k
      then Inl (PermissionError (''Blockchain wallet secret field forbidden in trading config: '' @ k))
      else assert_no_wallet_secrets d)"

lemma assert_no_wallet_secrets_ok:
  "assert_no_wallet_secrets d = Inr () \<longleftrightarrow> (\<forall>(k, v)\<in>set d. \<not> name_has forbidden_wallet_fields k)"
  by (induction d) (auto split: if_splits)

section \<open>The two functions leave no leak\<close>

text \<open>C28: both redactions are exact: the result contains no secret at any depth, no value under a secret name
other than the redacted and, of an event payload, no entry of private reasoning; redacting again changes nothing;
and a payload is unchanged just if it has no such entry.\<close>

theorem redaction_exact:
  "\<not> leaks (\<lambda>k. False) credential_name (redact_secrets j)
   \<and> redact_secrets (redact_secrets j) = redact_secrets j
   \<and> (redact_secrets j = j \<longleftrightarrow> \<not> leaks (\<lambda>k. False) credential_name j)
   \<and> \<not> leaks private_name concealed_name (sanitize_payload j)
   \<and> sanitize_payload (sanitize_payload j) = sanitize_payload j
   \<and> (sanitize_payload j = j \<longleftrightarrow> \<not> leaks private_name concealed_name j)"
  using redact.no_leak redact.scrub_idem redact.fixed_iff_clean sanitize.no_leak sanitize.scrub_idem sanitize.fixed_iff_clean
  by blast

text \<open>
  A password inside nested objects is masked; \<open>access_token\<close> is a secret for \<open>redact_secrets\<close> but passes
  \<open>sanitize_payload\<close>, which looks for \<open>token\<close> only as a whole name.
\<close>

lemma nested_password_masked:
  "redact_secrets (JObj [(''a'', JList [JObj [(''Password'', JStr ''x'')]])]) = JObj [(''a'', JList [JObj [(''Password'', redacted)]])]"
  by (simp add: credential_name_def name_has_def py_lower_def py_startswith_def)

lemma access_token_shown:
  "sanitize_payload (JObj [(''access_token'', JStr ''x'')]) = JObj [(''access_token'', JStr ''x'')]"
  "redact_secrets (JObj [(''access_token'', JStr ''x'')]) = JObj [(''access_token'', redacted)]"
  by (simp_all add: credential_name_def concealed_name_def private_name_def secret_keys_def name_has_def py_lower_def py_startswith_def)

end
