(* ===== verification/Credentials.thy ===== *)
theory Credentials
  imports Venue_Adapters Redaction
begin

text \<open>
  \<open>credentials/\<close>: the bundles of exchange credentials, the validation of their permissions, the providers
  that read them from the environment, from a secret manager and from Google's service, and the health check;
  \<open>alerts/manager.py\<close>: the alerts and their channels; \<open>wallet/account.py\<close>.  The answer of a secret manager
  is a parameter.
\<close>

section \<open>Permissions\<close>

datatype permission = READ_ONLY | TRADING | WITHDRAWAL

record credential_set =
  cr_exchange :: string
  cr_environment :: environment
  cr_api_key :: "string option"
  cr_api_secret :: "string option"
  cr_passphrase :: "string option"
  cr_permissions :: "permission list"
  cr_ip_allowlist :: bool

fun permission_value :: "permission \<Rightarrow> string" where
  "permission_value READ_ONLY = ''READ_ONLY''"
| "permission_value TRADING = ''TRADING''"
| "permission_value WITHDRAWAL = ''WITHDRAWAL''"

fun environment_value :: "environment \<Rightarrow> string" where
  "environment_value MOCK = ''MOCK''"
| "environment_value SANDBOX = ''SANDBOX''"
| "environment_value TESTNET = ''TESTNET''"
| "environment_value PRODUCTION_READ_ONLY = ''PRODUCTION_READ_ONLY''"
| "environment_value PRODUCTION_TRADING = ''PRODUCTION_TRADING''"

text \<open>The enumerations called on a value: only the text of a member is accepted.\<close>

definition permission_of :: "json \<Rightarrow> permission res" where
  "permission_of j = (case find (\<lambda>p. j = JStr (permission_value p)) [READ_ONLY, TRADING, WITHDRAWAL] of
     Some p \<Rightarrow> Inr p | None \<Rightarrow> Inl (ValueError ''is not a valid CredentialPermission''))"

definition environment_of :: "json \<Rightarrow> environment res" where
  "environment_of j = (case find (\<lambda>e. j = JStr (environment_value e)) [MOCK, SANDBOX, TESTNET, PRODUCTION_READ_ONLY, PRODUCTION_TRADING] of
     Some e \<Rightarrow> Inr e | None \<Rightarrow> Inl (ValueError ''is not a valid ExchangeEnvironment''))"

definition has_secret_material :: "credential_set \<Rightarrow> bool" where
  "has_secret_material c \<longleftrightarrow> opt_truthy (cr_api_key c) \<or> opt_truthy (cr_api_secret c)"

definition public_status :: "credential_set \<Rightarrow> json_obj" where
  "public_status c =
     [(''exchange'', JStr (cr_exchange c)), (''environment'', JStr (environment_value (cr_environment c))),
      (''permissions'', JList (map (\<lambda>p. JStr (permission_value p)) (cr_permissions c))),
      (''has_api_key'', JBool (opt_truthy (cr_api_key c))), (''has_api_secret'', JBool (opt_truthy (cr_api_secret c))),
      (''ip_allowlist_required'', JBool (cr_ip_allowlist c)), (''withdrawal_permission'', JBool (WITHDRAWAL \<in> set (cr_permissions c)))]"

definition validate_credentials :: "credential_set \<Rightarrow> json_obj res" where
  "validate_credentials c =
     (let perms = set (cr_permissions c)
      in if WITHDRAWAL \<in> perms then Inl (PermissionError ''WITHDRAWAL permission is forbidden for the trading engine'')
         else if perms = {} then Inl (PermissionError ''Credential permissions must not be empty'')
         else if \<not> perms \<subseteq> {READ_ONLY, TRADING} then Inl (PermissionError ''Unsupported permissions'')
         else if cr_environment c = PRODUCTION_TRADING \<and> TRADING \<notin> perms
           then Inl (PermissionError ''PRODUCTION_TRADING environment requires TRADING permission'')
         else if cr_environment c = PRODUCTION_READ_ONLY \<and> TRADING \<in> perms
           then Inl (PermissionError ''PRODUCTION_READ_ONLY must not include TRADING permission'')
         else Inr [(''ok'', JBool True), (''permissions'', JList (map (\<lambda>p. JStr (permission_value p)) (cr_permissions c))),
                   (''withdrawal'', JBool False), (''environment'', JStr (environment_value (cr_environment c)))])"

definition minimum_for :: "environment \<Rightarrow> permission list" where
  "minimum_for e = (if e \<in> {PRODUCTION_TRADING, SANDBOX, TESTNET} then [READ_ONLY, TRADING] else [READ_ONLY])"

text \<open>What the validator promises.\<close>

definition permissions_sound :: "credential_set \<Rightarrow> bool" where
  "permissions_sound c \<longleftrightarrow> WITHDRAWAL \<notin> set (cr_permissions c) \<and> cr_permissions c \<noteq> []
     \<and> (cr_environment c = PRODUCTION_TRADING \<longrightarrow> TRADING \<in> set (cr_permissions c))
     \<and> (cr_environment c = PRODUCTION_READ_ONLY \<longrightarrow> TRADING \<notin> set (cr_permissions c))"

lemma validate_ok_iff: "(\<exists>v. validate_credentials c = Inr v) \<longleftrightarrow> permissions_sound c"
proof -
  have "set (cr_permissions c) \<subseteq> {READ_ONLY, TRADING}" if "WITHDRAWAL \<notin> set (cr_permissions c)"
    using that by (metis (full_types) insertCI permission.exhaust subsetI)
  then show ?thesis by (auto simp: validate_credentials_def permissions_sound_def Let_def)
qed

lemma minimum_is_sound:
  "e \<noteq> MOCK \<Longrightarrow> permissions_sound (c\<lparr>cr_environment := e, cr_permissions := minimum_for e\<rparr>)"
  by (auto simp: permissions_sound_def minimum_for_def)

section \<open>Providers of credentials\<close>

definition env_map :: "(string \<times> string \<times> string \<times> string option) list" where
  "env_map = [(''coinbase'', ''COINBASE_API_KEY'', ''COINBASE_API_SECRET'', None), (''delta_india'', ''DELTA_API_KEY'', ''DELTA_API_SECRET'', None)]"

definition secret_str :: "string \<Rightarrow> string option" where
  "secret_str s = (if s = [] then None else Some s)"

text \<open>A set that passes the validator, or its exception.\<close>

definition checked_set :: "credential_set \<Rightarrow> credential_set option res" where
  "checked_set c = bind_res (validate_credentials c) (\<lambda>_. Inr (Some c))"

text \<open>\<open>permissions or [READ_ONLY]\<close>\<close>

definition permissions_or_read :: "permission list \<Rightarrow> permission list" where
  "permissions_or_read ps = (if ps = [] then [READ_ONLY] else ps)"

definition environment_get :: "environment \<Rightarrow> permission list \<Rightarrow> (string \<times> string) list \<Rightarrow> string \<Rightarrow> credential_set option res" where
  "environment_get env perms environ exchange =
     (let key = py_strip (py_lower exchange)
      in case dget env_map key of
           None \<Rightarrow> Inr None
         | Some (key_env, secret_env, pass_env) \<Rightarrow>
             (let api_key = opt_default (dget environ key_env) []; api_secret = opt_default (dget environ secret_env) [];
                  passphrase = (case pass_env of None \<Rightarrow> None | Some v \<Rightarrow> if v = [] then None else dget environ v)
              in if api_key = [] \<and> api_secret = []
                 then Inr (Some \<lparr>cr_exchange = key, cr_environment = MOCK, cr_api_key = None, cr_api_secret = None, cr_passphrase = None,
                        cr_permissions = [READ_ONLY], cr_ip_allowlist = True\<rparr>)
                 else checked_set \<lparr>cr_exchange = key, cr_environment = env, cr_api_key = secret_str api_key,
                        cr_api_secret = secret_str api_secret, cr_passphrase = secret_str (opt_default passphrase []),
                        cr_permissions = permissions_or_read perms, cr_ip_allowlist = True\<rparr>))"

definition secret_field :: "(json \<Rightarrow> string) \<Rightarrow> json_obj \<Rightarrow> string \<Rightarrow> string option" where
  "secret_field show d k = (if get_truthy d k then Some (text_of_json show (opt_default (dget d k) JNull)) else None)"

definition manager_get ::
  "(json \<Rightarrow> string) \<Rightarrow> (string \<Rightarrow> json res) \<Rightarrow> environment \<Rightarrow> permission list \<Rightarrow> string \<Rightarrow> credential_set option res" where
  "manager_get show backend env perms exchange =
     (let key = py_strip (py_lower exchange)
      in bind_res (backend (''exchange/'' @ key)) (\<lambda>payload.
         if \<not> json_truthy payload then Inr None
         else case payload of
           JObj d \<Rightarrow>
             bind_res (bind_res (items_of (get_or d ''permissions'' (JList (map (\<lambda>p. JStr (permission_value p)) (permissions_or_read perms)))))
                        (map_res permission_of)) (\<lambda>ps.
             bind_res (environment_of (get_or d ''environment'' (JStr (environment_value env)))) (\<lambda>e.
               checked_set \<lparr>cr_exchange = key, cr_environment = e, cr_api_key = secret_field show d ''api_key'',
                 cr_api_secret = secret_field show d ''api_secret'', cr_passphrase = secret_field show d ''passphrase'',
                 cr_permissions = ps, cr_ip_allowlist = True\<rparr>))
         | _ \<Rightarrow> Inl (ValueError ''Secret manager payload must be a mapping'')))"

definition provider_status :: "string \<Rightarrow> credential_set option res \<Rightarrow> json_obj res" where
  "provider_status exchange r = bind_res r (\<lambda>c. case c of
     None \<Rightarrow> Inr [(''exchange'', JStr exchange), (''present'', JBool False)]
   | Some cs \<Rightarrow> Inr ((''present'', JBool True) # public_status cs))"

section \<open>Providers of secrets\<close>

record secret_provider =
  sp_log :: "(string \<times> bool) list"

definition audit_access :: "string \<Rightarrow> bool \<Rightarrow> secret_provider \<Rightarrow> secret_provider" where
  "audit_access name ok s = s\<lparr>sp_log := sp_log s @ [(name, ok)]\<rparr>"

definition secret_map :: "(string \<times> string \<times> string) list" where
  "secret_map = [(''exchange/delta_india'', ''DELTA_API_KEY'', ''DELTA_API_SECRET''),
                 (''exchange/coinbase'', ''COINBASE_API_KEY'', ''COINBASE_API_SECRET'')]"

definition env_secret_exists :: "(string \<times> string) list \<Rightarrow> string \<Rightarrow> bool" where
  "env_secret_exists environ name = (case dget secret_map name of None \<Rightarrow> False
     | Some (k1, k2) \<Rightarrow> opt_truthy (dget environ k1) \<or> opt_truthy (dget environ k2))"

definition env_secret :: "(string \<times> string) list \<Rightarrow> string \<Rightarrow> secret_provider \<Rightarrow> secret_provider \<times> json_obj option" where
  "env_secret environ name s = (case dget secret_map name of
     None \<Rightarrow> (audit_access name False s, None)
   | Some (k1, k2) \<Rightarrow>
       (let api_key = opt_default (dget environ k1) []; api_secret = opt_default (dget environ k2) []
        in if api_key = [] \<and> api_secret = [] then (audit_access name False s, None)
           else (audit_access name True s, Some
             [(''api_key'', JStr api_key), (''api_secret'', JStr api_secret), (''environment'', JStr ''TESTNET''),
              (''permissions'', JList [JStr ''READ_ONLY'', JStr ''TRADING''])])))"

text \<open>\<open>name in value\<close> on a list, a dictionary and a text.\<close>

definition json_in :: "string \<Rightarrow> json \<Rightarrow> bool res" where
  "json_in name j = (case j of JList js \<Rightarrow> Inr (JStr name \<in> set js) | JObj d \<Rightarrow> Inr (dmem name d)
     | JStr s \<Rightarrow> Inr (py_contains name s) | _ \<Rightarrow> Inl TypeError)"

definition secret_resource :: "string \<Rightarrow> string \<Rightarrow> string" where
  "secret_resource project name = ''projects/'' @ project @ ''/secrets/'' @ py_replace CHR ''/'' ''_'' name @ ''/versions/latest''"

definition secret_payload :: "json \<Rightarrow> json_obj option res" where
  "secret_payload data = (case data of
     JObj d \<Rightarrow> bind_res (json_in ''WITHDRAWAL'' (get_or d ''permissions'' (JList [JStr ''READ_ONLY'']))) (\<lambda>forbidden.
       if forbidden then Inl (PermissionError ''WITHDRAWAL permission forbidden in secret payload'') else Inr (Some d))
   | _ \<Rightarrow> Inr None)"

text \<open>Every exception of the client, of the decoding and of the check ends as an absent secret.\<close>

definition google_secret ::
  "(string \<Rightarrow> json res) \<Rightarrow> string \<Rightarrow> string \<Rightarrow> secret_provider \<Rightarrow> secret_provider \<times> json_obj option" where
  "google_secret client project name s =
     (case bind_res (client (secret_resource project name)) secret_payload of
      Inr (Some d) \<Rightarrow> (audit_access name True s, Some d)
    | _ \<Rightarrow> (audit_access name False s, None))"

definition google_secret_exists :: "(string \<Rightarrow> json res) \<Rightarrow> string \<Rightarrow> string \<Rightarrow> secret_provider \<Rightarrow> secret_provider \<times> bool" where
  "google_secret_exists client project name s = (case google_secret client project name s of (s1, d) \<Rightarrow> (s1, d \<noteq> None))"

section \<open>Health\<close>

record credential_health =
  ch_healthy :: bool
  ch_reason :: string
  ch_detail :: string
  ch_public :: json_obj

definition credential_check :: "credential_set option \<Rightarrow> credential_health" where
  "credential_check c = (case c of
     None \<Rightarrow> \<lparr>ch_healthy = False, ch_reason = ''CREDENTIALS_MISSING'', ch_detail = [], ch_public = []\<rparr>
   | Some cs \<Rightarrow> (case validate_credentials cs of
       Inl (PermissionError detail) \<Rightarrow>
         \<lparr>ch_healthy = False, ch_reason = ''CREDENTIAL_PERMISSION_FAILURE'', ch_detail = detail, ch_public = public_status cs\<rparr>
     | _ \<Rightarrow>
         if cr_environment cs = MOCK then \<lparr>ch_healthy = True, ch_reason = ''MOCK_OK'', ch_detail = [], ch_public = public_status cs\<rparr>
         else if \<not> has_secret_material cs
           then \<lparr>ch_healthy = False, ch_reason = ''CREDENTIAL_MATERIAL_MISSING'', ch_detail = [], ch_public = public_status cs\<rparr>
         else \<lparr>ch_healthy = True, ch_reason = ''OK'', ch_detail = [], ch_public = public_status cs\<rparr>))"

section \<open>Wallets\<close>

datatype custody = CENTRALIZED_EXCHANGE | BLOCKCHAIN_WALLET | PAPER_SIMULATED

definition requires_private_key :: "custody \<Rightarrow> bool" where
  "requires_private_key c \<longleftrightarrow> c = BLOCKCHAIN_WALLET"

definition cex_requires_key :: bool where
  "cex_requires_key = False"

section \<open>Alerts\<close>

datatype channel =
    Memory "json_obj list"
  | Slack "string option"
  | Email "string option"
  | Pager_Duty "string option"
  | Cloud_Monitoring bool

record alert_manager =
  am_channels :: "channel list"
  am_history :: "json_obj list"

definition new_alert_manager :: "channel list \<Rightarrow> alert_manager" where
  "new_alert_manager cs = \<lparr>am_channels = (if cs = [] then [Memory []] else cs), am_history = []\<rparr>"

definition not_configured :: "string \<Rightarrow> json_obj" where
  "not_configured name = [(''ok'', JBool False), (''channel'', JStr name), (''reason'', JStr ''not_configured'')]"

definition queued :: "string \<Rightarrow> json_obj" where
  "queued name = [(''ok'', JBool True), (''channel'', JStr name), (''queued'', JBool True)]"

fun send_alert :: "json_obj \<Rightarrow> channel \<Rightarrow> channel \<times> json_obj" where
  "send_alert a (Memory sent) = (Memory (sent @ [a]), [(''ok'', JBool True), (''channel'', JStr ''memory'')])"
| "send_alert a (Slack url) = (Slack url, if opt_truthy url
     then queued ''slack'' @ [(''alert_type'', opt_default (dget a ''type'') JNull)] else not_configured ''slack'')"
| "send_alert a (Email addr) = (Email addr, if opt_truthy addr then queued ''email'' else not_configured ''email'')"
| "send_alert a (Pager_Duty key) = (Pager_Duty key, if opt_truthy key then queued ''pagerduty'' else not_configured ''pagerduty'')"
| "send_alert a (Cloud_Monitoring on) =
     (Cloud_Monitoring on, if on then queued ''cloud_monitoring'' else not_configured ''cloud_monitoring'')"

definition alert_of :: "string \<Rightarrow> string \<Rightarrow> string \<Rightarrow> json_obj \<Rightarrow> json_obj" where
  "alert_of stamp type severity details =
     [(''type'', JStr type), (''severity'', JStr severity), (''timestamp'', JStr stamp),
      (''details'', redact_payload (JObj details)), (''LIVE_TRADING_ENABLED'', JBool False)]"

definition emit_alert ::
  "string \<Rightarrow> string \<Rightarrow> string \<Rightarrow> json_obj \<Rightarrow> alert_manager \<Rightarrow> alert_manager \<times> json_obj \<times> json_obj list" where
  "emit_alert stamp type severity details m =
     (let a = alert_of stamp type severity details; sent = map (send_alert a) (am_channels m)
      in (m\<lparr>am_history := am_history m @ [a], am_channels := map fst sent\<rparr>, a, map snd sent))"

fun emit_alerts :: "(string \<times> string \<times> string \<times> json_obj) list \<Rightarrow> alert_manager \<Rightarrow> alert_manager" where
  "emit_alerts [] m = m"
| "emit_alerts ((stamp, type, severity, details) # rest) m = emit_alerts rest (fst (emit_alert stamp type severity details m))"

section \<open>No provider hands out the right to withdraw\<close>

lemma checked_set_sound: "checked_set c = Inr (Some c') \<Longrightarrow> c' = c \<and> permissions_sound c"
  using validate_ok_iff by (auto simp: checked_set_def bind_res_Inr_iff)

lemma mock_sound [simp]:
  "permissions_sound \<lparr>cr_exchange = k, cr_environment = MOCK, cr_api_key = a, cr_api_secret = b, cr_passphrase = p,
     cr_permissions = [READ_ONLY], cr_ip_allowlist = w\<rparr>"
  by (simp add: permissions_sound_def)

lemma environment_get_sound: "environment_get env perms environ exchange = Inr (Some c) \<Longrightarrow> permissions_sound c"
  by (auto simp: environment_get_def Let_def dest: checked_set_sound split: option.splits if_splits)

lemma manager_get_sound:
  assumes "manager_get show backend env perms exchange = Inr (Some c)"
  shows "permissions_sound c"
proof (cases "backend (''exchange/'' @ py_strip (py_lower exchange))")
  case (Inr payload)
  with assms show ?thesis
    by (cases payload) (auto simp: manager_get_def Let_def bind_res_Inr_iff dest: checked_set_sound split: if_splits)
qed (use assms in \<open>simp add: manager_get_def Let_def\<close>)

lemma secret_payload_Some:
  "secret_payload j = Inr (Some d) \<Longrightarrow> json_in ''WITHDRAWAL'' (get_or d ''permissions'' (JList [JStr ''READ_ONLY''])) = Inr False"
  by (cases j) (auto simp: secret_payload_def bind_res_Inr_iff split: if_splits)

lemma google_secret_permissions:
  assumes "google_secret client project name s = (s', Some d)" and "dget d ''permissions'' = Some (JList ps)"
  shows "JStr ''WITHDRAWAL'' \<notin> set ps"
proof -
  from assms(1) have "bind_res (client (secret_resource project name)) secret_payload = Inr (Some d)"
    by (auto simp: google_secret_def split: sum.splits option.splits)
  then have "json_in ''WITHDRAWAL'' (get_or d ''permissions'' (JList [JStr ''READ_ONLY''])) = Inr False"
    using secret_payload_Some by (auto simp: bind_res_Inr_iff)
  then show ?thesis using assms(2) by (cases "ps = []") (simp_all add: get_or_def json_truthy_def json_in_def)
qed

text \<open>No credential set that a provider returns, from the environment or from a secret manager, has the permission
to withdraw, an empty permission list, trading rights for a read only production account or none for a trading
one; and no secret that the Google provider returns lists the permission to withdraw.\<close>

theorem providers_never_grant_withdrawal:
  assumes "environment_get env perms environ exchange = Inr (Some c) \<or> manager_get show backend env perms exchange = Inr (Some c)"
    and "google_secret client project name s = (s', Some d)" and "dget d ''permissions'' = Some (JList ps)"
  shows "WITHDRAWAL \<notin> set (cr_permissions c) \<and> cr_permissions c \<noteq> []
    \<and> (cr_environment c = PRODUCTION_TRADING \<longrightarrow> TRADING \<in> set (cr_permissions c))
    \<and> (cr_environment c = PRODUCTION_READ_ONLY \<longrightarrow> TRADING \<notin> set (cr_permissions c))
    \<and> JStr ''WITHDRAWAL'' \<notin> set ps \<and> sp_log s' = sp_log s @ [(name, True)]"
proof -
  have "permissions_sound c" using assms(1) environment_get_sound manager_get_sound by blast
  moreover have "sp_log s' = sp_log s @ [(name, True)]"
    using assms(2) by (auto simp: google_secret_def audit_access_def split: sum.splits option.splits)
  ultimately show ?thesis using google_secret_permissions [OF assms(2,3)] by (simp add: permissions_sound_def)
qed

definition demo_environ :: "(string \<times> string) list" where
  "demo_environ = [(''DELTA_API_KEY'', ''k''), (''DELTA_API_SECRET'', ''s'')]"

definition demo_delta :: credential_set where
  "demo_delta = \<lparr>cr_exchange = ''delta_india'', cr_environment = TESTNET, cr_api_key = Some ''k'', cr_api_secret = Some ''s'',
     cr_passphrase = None, cr_permissions = [READ_ONLY, TRADING], cr_ip_allowlist = True\<rparr>"

theorem providers_never_grant_withdrawal_witness:
  "WITHDRAWAL \<notin> set (cr_permissions demo_delta) \<and> JStr ''WITHDRAWAL'' \<notin> set [JStr ''TRADING'']"
proof -
  have "environment_get TESTNET [READ_ONLY, TRADING] demo_environ '' Delta_India'' = Inr (Some demo_delta)"
    by (simp add: environment_get_def Let_def py_lower_def py_strip_def is_space_def env_map_def demo_environ_def opt_default_def
        checked_set_def validate_credentials_def permissions_or_read_def secret_str_def demo_delta_def)
  moreover have "google_secret (\<lambda>r. Inr (JObj [(''permissions'', JList [JStr ''TRADING''])])) ''p'' ''n'' \<lparr>sp_log = []\<rparr>
      = (\<lparr>sp_log = [(''n'', True)]\<rparr>, Some [(''permissions'', JList [JStr ''TRADING''])])"
    by (simp add: google_secret_def secret_payload_def get_or_def json_truthy_def json_in_def audit_access_def)
  ultimately show ?thesis
    using providers_never_grant_withdrawal [of TESTNET "[READ_ONLY, TRADING]" demo_environ "'' Delta_India''" demo_delta] by fastforce
qed

section \<open>What is published depends on presence only\<close>

definition same_public :: "credential_set \<Rightarrow> credential_set \<Rightarrow> bool" where
  "same_public c c' \<longleftrightarrow> cr_exchange c = cr_exchange c' \<and> cr_environment c = cr_environment c'
     \<and> cr_permissions c = cr_permissions c' \<and> cr_ip_allowlist c = cr_ip_allowlist c'
     \<and> opt_truthy (cr_api_key c) = opt_truthy (cr_api_key c') \<and> opt_truthy (cr_api_secret c) = opt_truthy (cr_api_secret c')"

text \<open>The status and the health report of credentials do not depend on the secrets: two sets that agree on what is
public and on which secrets are present have the same status and the same report.\<close>

theorem status_independent_of_secrets:
  assumes "same_public c c'"
  shows "public_status c = public_status c' \<and> credential_check (Some c) = credential_check (Some c')
    \<and> provider_status exchange (Inr (Some c)) = provider_status exchange (Inr (Some c'))"
proof -
  have status: "public_status c = public_status c'" and "has_secret_material c = has_secret_material c'"
    using assms by (simp_all add: same_public_def public_status_def has_secret_material_def)
  moreover have "validate_credentials c = validate_credentials c'" "cr_environment c = cr_environment c'"
    using assms by (simp_all add: same_public_def validate_credentials_def Let_def)
  ultimately show ?thesis by (simp only: credential_check_def provider_status_def bind_res_simps option.case simp_thms)
qed

theorem status_independent_of_secrets_witness:
  "public_status demo_delta = public_status (demo_delta\<lparr>cr_api_secret := Some ''other'', cr_passphrase := Some ''p''\<rparr>)"
  using status_independent_of_secrets [of demo_delta "demo_delta\<lparr>cr_api_secret := Some ''other'', cr_passphrase := Some ''p''\<rparr>"]
  by (simp add: same_public_def demo_delta_def opt_truthy_def)

section \<open>Alerts carry no secrets\<close>

fun sent_in_memory :: "channel \<Rightarrow> json_obj list" where
  "sent_in_memory (Memory sent) = sent"
| "sent_in_memory _ = []"

lemma sent_in_memory_send: "set (sent_in_memory (fst (send_alert a ch))) \<subseteq> insert a (set (sent_in_memory ch))"
  by (cases ch) auto

definition alerts_clean :: "alert_manager \<Rightarrow> bool" where
  "alerts_clean m \<longleftrightarrow> (\<forall>a\<in>set (am_history m) \<union> (\<Union>ch\<in>set (am_channels m). set (sent_in_memory ch)).
     \<not> leaks (\<lambda>k. False) credential_name (JObj a))"

lemma alert_of_clean: "\<not> leaks (\<lambda>k. False) credential_name (JObj (alert_of stamp type severity details))"
  using redact.no_leak [of "JObj details"]
  by (simp add: alert_of_def leaks_obj redact_payload_def credential_name_def name_has_def py_lower_def py_startswith_def)

lemma emit_keeps_clean: "alerts_clean m \<Longrightarrow> alerts_clean (fst (emit_alert stamp type severity details m))"
  using sent_in_memory_send alert_of_clean unfolding alerts_clean_def emit_alert_def by (fastforce simp: Let_def)

text \<open>Alerts carry no secrets: after any sequence of alerts, whatever their details, no alert in the history
or delivered to a channel has a value under a secret name, at any depth; and every alert is in the history.\<close>

theorem alerts_carry_no_secrets:
  assumes "alerts_clean m"
  shows "alerts_clean (emit_alerts as m) \<and> length (am_history (emit_alerts as m)) = length (am_history m) + length as"
  using assms
proof (induction as arbitrary: m)
  case (Cons a as)
  obtain stamp type severity details where a: "a = (stamp, type, severity, details)" by (cases a)
  show ?case
    using Cons.IH [OF emit_keeps_clean [OF Cons.prems]] by (simp add: a) (simp add: emit_alert_def Let_def)
qed simp

theorem alerts_carry_no_secrets_witness:
  "alerts_clean (emit_alerts [([], ''kill'', ''CRITICAL'', [(''api_key'', JStr ''k'')])] (new_alert_manager []))"
  using alerts_carry_no_secrets [of "new_alert_manager []" "[([], ''kill'', ''CRITICAL'', [(''api_key'', JStr ''k'')])]"]
  by (simp add: alerts_clean_def new_alert_manager_def)

end
