(* ===== verification/Dashboard_Events.thy ===== *)
theory Dashboard_Events
  imports Redaction
begin

text \<open>
  \<open>dashboard/events.py\<close>, \<open>dashboard/event_bus.py\<close> and \<open>dashboard/websocket.py\<close>: the events of the dashboard,
  the bus that keeps the last ones and passes them to listeners and queues, and the list of open
  connections.  Listeners and the store are code of others: whether a call of one returns is a parameter, and
  the calls made are part of the state.
\<close>

section \<open>Events\<close>

record dash_event =
  de_id :: string
  de_stamp :: string
  de_type :: string
  de_run :: "string option"
  de_agent :: "string option"
  de_symbol :: "string option"
  de_mode :: string
  de_payload :: json_obj
  de_severity :: string

definition severities :: "string list" where
  "severities = [''debug'', ''info'', ''warning'', ''error'', ''critical'']"

definition object_fields :: "json \<Rightarrow> json_obj" where
  "object_fields j = (case j of JObj d \<Rightarrow> d | _ \<Rightarrow> [])"

definition opt_json :: "string option \<Rightarrow> json" where
  "opt_json s = (case s of None \<Rightarrow> JNull | Some t \<Rightarrow> JStr t)"

record event_request =
  ev_id :: string
  ev_stamp :: string
  ev_type :: string
  ev_payload :: json_obj
  ev_agent :: "string option"
  ev_symbol :: "string option"
  ev_run :: "string option"
  ev_severity :: string

text \<open>The model validates the severity and cleans the payload.\<close>

definition make_event :: "event_request \<Rightarrow> dash_event res" where
  "make_event q =
     (if ev_severity q \<notin> set severities then Inl (ValueError ''severity'')
      else Inr \<lparr>de_id = ev_id q, de_stamp = ev_stamp q, de_type = ev_type q, de_run = ev_run q, de_agent = ev_agent q,
        de_symbol = ev_symbol q, de_mode = ''paper'', de_payload = object_fields (sanitize_payload (JObj (ev_payload q))),
        de_severity = ev_severity q\<rparr>)"

definition event_to_dict :: "dash_event \<Rightarrow> json_obj" where
  "event_to_dict e =
     [(''event_id'', JStr (de_id e)), (''timestamp'', JStr (de_stamp e)), (''event_type'', JStr (de_type e)),
      (''run_id'', opt_json (de_run e)), (''agent_id'', opt_json (de_agent e)), (''symbol'', opt_json (de_symbol e)),
      (''trading_mode'', JStr (de_mode e)), (''payload'', sanitize_payload (JObj (de_payload e))), (''severity'', JStr (de_severity e))]"

section \<open>The bus\<close>

record event_bus =
  eb_limit :: nat
  eb_history :: "dash_event list"
  eb_listeners :: "nat list"
  eb_queues :: "(nat \<times> dash_event list) list"
  eb_stored :: "json_obj list"
  eb_delivered :: "(nat \<times> dash_event) list"
  eb_errors :: nat

definition new_event_bus :: "nat \<Rightarrow> event_bus" where
  "new_event_bus n = \<lparr>eb_limit = n, eb_history = [], eb_listeners = [], eb_queues = [], eb_stored = [], eb_delivered = [], eb_errors = 0\<rparr>"

definition subscribe :: "nat \<Rightarrow> event_bus \<Rightarrow> event_bus" where
  "subscribe l b = b\<lparr>eb_listeners := eb_listeners b @ [l]\<rparr>"

definition unsubscribe :: "nat \<Rightarrow> event_bus \<Rightarrow> event_bus" where
  "unsubscribe l b = b\<lparr>eb_listeners := remove1 l (eb_listeners b)\<rparr>"

definition queue_size :: nat where
  "queue_size = 1000"

definition subscribe_queue :: "nat \<Rightarrow> event_bus \<Rightarrow> event_bus" where
  "subscribe_queue q b = b\<lparr>eb_queues := eb_queues b @ [(q, [])]\<rparr>"

definition unsubscribe_queue :: "nat \<Rightarrow> event_bus \<Rightarrow> event_bus" where
  "unsubscribe_queue q b = b\<lparr>eb_queues := ddel q (eb_queues b)\<rparr>"

text \<open>The consumer of a queue takes its oldest event.\<close>

definition queue_get :: "nat \<Rightarrow> event_bus \<Rightarrow> event_bus \<times> dash_event option" where
  "queue_get q b = (case dget (eb_queues b) q of
     Some (e # es) \<Rightarrow> (b\<lparr>eb_queues := dput q es (eb_queues b)\<rparr>, Some e) | _ \<Rightarrow> (b, None))"

definition store_row :: "dash_event \<Rightarrow> json_obj" where
  "store_row e = [(''type'', JStr (de_type e)), (''session_id'', JStr (if opt_truthy (de_run e) then opt_default (de_run e) [] else ''dashboard''))]
     @ event_to_dict e"

definition count_error :: "bool \<Rightarrow> event_bus \<Rightarrow> event_bus" where
  "count_error failed b = (if failed then b\<lparr>eb_errors := eb_errors b + 1\<rparr> else b)"

definition save_to_store :: "(json_obj \<Rightarrow> bool) \<Rightarrow> dash_event \<Rightarrow> event_bus \<Rightarrow> event_bus" where
  "save_to_store saves e b =
     (if saves (store_row e) then b\<lparr>eb_stored := eb_stored b @ [store_row e]\<rparr> else count_error True b)"

fun call_listeners :: "(nat \<Rightarrow> dash_event \<Rightarrow> bool) \<Rightarrow> dash_event \<Rightarrow> nat list \<Rightarrow> event_bus \<Rightarrow> event_bus" where
  "call_listeners returns e [] b = b"
| "call_listeners returns e (l # ls) b =
     call_listeners returns e ls (count_error (\<not> returns l e) (b\<lparr>eb_delivered := eb_delivered b @ [(l, e)]\<rparr>))"

text \<open>\<open>put_nowait\<close> raises on a full queue.\<close>

fun fill_queues :: "dash_event \<Rightarrow> nat list \<Rightarrow> event_bus \<Rightarrow> event_bus" where
  "fill_queues e [] b = b"
| "fill_queues e (q # qs) b =
     (let es = opt_default (dget (eb_queues b) q) []
      in fill_queues e qs (if length es < queue_size then b\<lparr>eb_queues := dput q (es @ [e]) (eb_queues b)\<rparr> else count_error True b))"

definition publish :: "(json_obj \<Rightarrow> bool) \<Rightarrow> (nat \<Rightarrow> dash_event \<Rightarrow> bool) \<Rightarrow> dash_event \<Rightarrow> event_bus \<Rightarrow> event_bus" where
  "publish saves returns e b =
     (let b1 = b\<lparr>eb_history := last_n (eb_limit b) (eb_history b @ [e])\<rparr>
      in fill_queues e (map fst (eb_queues b)) (call_listeners returns e (eb_listeners b) (save_to_store saves e b1)))"

definition emit_event :: "(json_obj \<Rightarrow> bool) \<Rightarrow> (nat \<Rightarrow> dash_event \<Rightarrow> bool) \<Rightarrow> event_request \<Rightarrow> event_bus \<Rightarrow> event_bus \<times> dash_event res" where
  "emit_event saves returns q b = (case make_event q of
     Inl x \<Rightarrow> (b, Inl x) | Inr e \<Rightarrow> (publish saves returns e b, Inr e))"

text \<open>\<open>items[-limit:]\<close>: a limit of zero keeps everything, a negative one drops a prefix.\<close>

definition last_items :: "int \<Rightarrow> 'a list \<Rightarrow> 'a list" where
  "last_items n xs = (if 0 < n then last_n (nat n) xs else drop (nat (- n)) xs)"

definition bus_history :: "int \<Rightarrow> string option \<Rightarrow> event_bus \<Rightarrow> json_obj list" where
  "bus_history n t b =
     (let es = (if opt_truthy t then filter (\<lambda>e. Some (de_type e) = t) (eb_history b) else eb_history b)
      in map event_to_dict (last_items n es))"

definition bus_get :: "string \<Rightarrow> event_bus \<Rightarrow> json_obj option" where
  "bus_get i b = map_option event_to_dict (find (\<lambda>e. de_id e = i) (eb_history b))"

section \<open>Connections\<close>

definition socket_connect :: "nat \<Rightarrow> nat list \<Rightarrow> nat list" where
  "socket_connect c cs = cs @ [c]"

definition socket_disconnect :: "nat \<Rightarrow> nat list \<Rightarrow> nat list" where
  "socket_disconnect c cs = remove1 c cs"

text \<open>Who could not be reached is disconnected after everybody has been tried.\<close>

definition broadcast :: "(nat \<Rightarrow> bool) \<Rightarrow> nat list \<Rightarrow> nat list" where
  "broadcast alive cs = fold socket_disconnect (filter (\<lambda>c. \<not> alive c) cs) cs"

section \<open>Runs\<close>

datatype bus_op =
    Emit event_request
  | Subscribe nat
  | Unsubscribe nat
  | Subscribe_Queue nat
  | Unsubscribe_Queue nat
  | Queue_Get nat

fun bus_step :: "(json_obj \<Rightarrow> bool) \<Rightarrow> (nat \<Rightarrow> dash_event \<Rightarrow> bool) \<Rightarrow> bus_op \<Rightarrow> event_bus \<Rightarrow> event_bus" where
  "bus_step saves returns (Emit q) b = fst (emit_event saves returns q b)"
| "bus_step saves returns (Subscribe l) b = subscribe l b"
| "bus_step saves returns (Unsubscribe l) b = unsubscribe l b"
| "bus_step saves returns (Subscribe_Queue q) b = subscribe_queue q b"
| "bus_step saves returns (Unsubscribe_Queue q) b = unsubscribe_queue q b"
| "bus_step saves returns (Queue_Get q) b = fst (queue_get q b)"

definition bus_run :: "(json_obj \<Rightarrow> bool) \<Rightarrow> (nat \<Rightarrow> dash_event \<Rightarrow> bool) \<Rightarrow> bus_op list \<Rightarrow> event_bus \<Rightarrow> event_bus" where
  "bus_run saves returns ps b = fold (bus_step saves returns) ps b"

text \<open>The events that a list of operations publishes.\<close>

definition emitted :: "bus_op list \<Rightarrow> dash_event list" where
  "emitted ps = concat (map (\<lambda>p. case p of Emit q \<Rightarrow> (case make_event q of Inr e \<Rightarrow> [e] | Inl _ \<Rightarrow> []) | _ \<Rightarrow> []) ps)"

section \<open>What one publication does\<close>

lemma count_error_fields [simp]:
  "eb_limit (count_error f b) = eb_limit b" "eb_history (count_error f b) = eb_history b" "eb_listeners (count_error f b) = eb_listeners b"
  "eb_queues (count_error f b) = eb_queues b" "eb_stored (count_error f b) = eb_stored b" "eb_delivered (count_error f b) = eb_delivered b"
  by (simp_all add: count_error_def)

lemma call_listeners_fields [simp]:
  "eb_limit (call_listeners returns e ls b) = eb_limit b" "eb_history (call_listeners returns e ls b) = eb_history b"
  "eb_listeners (call_listeners returns e ls b) = eb_listeners b" "eb_queues (call_listeners returns e ls b) = eb_queues b"
  "eb_stored (call_listeners returns e ls b) = eb_stored b"
  "eb_delivered (call_listeners returns e ls b) = eb_delivered b @ map (\<lambda>l. (l, e)) ls"
  by (induction ls arbitrary: b) simp_all

lemma save_to_store_fields [simp]:
  "eb_limit (save_to_store saves e b) = eb_limit b" "eb_history (save_to_store saves e b) = eb_history b"
  "eb_listeners (save_to_store saves e b) = eb_listeners b" "eb_queues (save_to_store saves e b) = eb_queues b"
  "eb_delivered (save_to_store saves e b) = eb_delivered b"
  "eb_stored (save_to_store saves e b) = eb_stored b @ (if saves (store_row e) then [store_row e] else [])"
  by (simp_all add: save_to_store_def)

lemma fill_queues_fields [simp]:
  "eb_limit (fill_queues e qs b) = eb_limit b" "eb_history (fill_queues e qs b) = eb_history b"
  "eb_listeners (fill_queues e qs b) = eb_listeners b" "eb_stored (fill_queues e qs b) = eb_stored b"
  "eb_delivered (fill_queues e qs b) = eb_delivered b"
  by (induction qs arbitrary: b) (simp_all add: Let_def)

definition offered :: "dash_event \<Rightarrow> dash_event list \<Rightarrow> dash_event list" where
  "offered e es = (if length es < queue_size then es @ [e] else es)"

lemma fill_queues_get:
  "distinct qs \<Longrightarrow> set qs \<subseteq> fst ` set (eb_queues b) \<Longrightarrow> dget (eb_queues (fill_queues e qs b)) q =
     (if q \<in> set qs then map_option (offered e) (dget (eb_queues b) q) else dget (eb_queues b) q)"
proof (induction qs arbitrary: b)
  case (Cons p qs)
  obtain es where es: "dget (eb_queues b) p = Some es" using Cons.prems(2) by (metis insert_subset list.simps(15) map_of_eq_None_iff not_Some_eq)
  have keys: "fst ` set (dput p x (eb_queues b)) = fst ` set (eb_queues b)" for x
    using Cons.prems(2) by (auto simp: dom_update)
  show ?case
    using Cons.prems Cons.IH by (auto simp: Let_def es opt_default_def offered_def [abs_def] keys dget_dput)
qed simp

lemma publish_fields [simp]:
  "eb_limit (publish saves returns e b) = eb_limit b" "eb_listeners (publish saves returns e b) = eb_listeners b"
  "eb_history (publish saves returns e b) = last_n (eb_limit b) (eb_history b @ [e])"
  "eb_stored (publish saves returns e b) = eb_stored b @ (if saves (store_row e) then [store_row e] else [])"
  "eb_delivered (publish saves returns e b) = eb_delivered b @ map (\<lambda>l. (l, e)) (eb_listeners b)"
  by (simp_all add: publish_def Let_def)

lemma publish_queue:
  assumes "keys_ok (eb_queues b)"
  shows "dget (eb_queues (publish saves returns e b)) q = map_option (offered e) (dget (eb_queues b) q)"
proof -
  let ?b = "call_listeners returns e (eb_listeners b) (save_to_store saves e (b\<lparr>eb_history := last_n (eb_limit b) (eb_history b @ [e])\<rparr>))"
  have "dget (eb_queues (fill_queues e (map fst (eb_queues b)) ?b)) q =
      (if q \<in> set (map fst (eb_queues b)) then map_option (offered e) (dget (eb_queues ?b) q) else dget (eb_queues ?b) q)"
    using assms by (intro fill_queues_get) (simp_all add: keys_ok_def)
  moreover have "dget (eb_queues b) q = None" if "q \<notin> set (map fst (eb_queues b))"
    using that by (simp add: map_of_eq_None_iff)
  ultimately have "dget (eb_queues (fill_queues e (map fst (eb_queues b)) ?b)) q = map_option (offered e) (dget (eb_queues b) q)"
    by (cases "q \<in> set (map fst (eb_queues b))") simp_all
  then show ?thesis by (simp only: publish_def Let_def)
qed

lemma fill_queues_queues:
  "eb_queues (fill_queues e qs b) = fold (\<lambda>q d. let es = opt_default (dget d q) [] in
     if length es < queue_size then dput q (es @ [e]) d else d) qs (eb_queues b)"
  by (induction qs arbitrary: b) (simp_all add: Let_def)

text \<open>A failing listener or store harms nobody else: what the bus holds and delivers after a publication is the same
whatever the listeners do, apart from the count of errors; every listener is called once, in order; every queue gets the event
unless it is full; and the event is in the history if that has any room.\<close>

theorem publish_isolates_failures:
  assumes "keys_ok (eb_queues b)"
  shows "(publish saves returns e b)\<lparr>eb_errors := 0\<rparr> = (publish saves returns' e b)\<lparr>eb_errors := 0\<rparr>
    \<and> eb_delivered (publish saves returns e b) = eb_delivered b @ map (\<lambda>l. (l, e)) (eb_listeners b)
    \<and> dget (eb_queues (publish saves returns e b)) q
        = map_option (\<lambda>es. if length es < 1000 then es @ [e] else es) (dget (eb_queues b) q)
    \<and> eb_history (publish saves returns e b) = last_n (eb_limit b) (eb_history b @ [e])"
proof (intro conjI)
  have "eb_queues (publish saves returns e b) = eb_queues (publish saves returns' e b)"
    by (simp add: publish_def fill_queues_queues)
  then show "(publish saves returns e b)\<lparr>eb_errors := 0\<rparr> = (publish saves returns' e b)\<lparr>eb_errors := 0\<rparr>"
    by (simp add: event_bus.equality)
  show "dget (eb_queues (publish saves returns e b)) q
      = map_option (\<lambda>es. if length es < 1000 then es @ [e] else es) (dget (eb_queues b) q)"
    unfolding publish_queue [OF assms] by (cases "dget (eb_queues b) q") (simp_all add: offered_def queue_size_def)
qed simp_all

definition demo_request :: "string \<Rightarrow> event_request" where
  "demo_request i = \<lparr>ev_id = i, ev_stamp = [], ev_type = ''OrderCreated'', ev_payload = [(''api_key'', JStr ''k''), (''prompt'', JStr ''p''), (''q'', JInt 1)],
     ev_agent = None, ev_symbol = None, ev_run = None, ev_severity = ''info''\<rparr>"

definition demo_event :: "string \<Rightarrow> dash_event" where
  "demo_event i = \<lparr>de_id = i, de_stamp = [], de_type = ''OrderCreated'', de_run = None, de_agent = None, de_symbol = None, de_mode = ''paper'',
     de_payload = [(''api_key'', redacted), (''q'', JInt 1)], de_severity = ''info''\<rparr>"

lemma demo_request_event: "make_event (demo_request i) = Inr (demo_event i)"
  by (simp add: make_event_def demo_request_def demo_event_def severities_def object_fields_def private_name_def concealed_name_def
      secret_keys_def name_has_def py_lower_def py_startswith_def)

theorem publish_isolates_failures_witness:
  "eb_delivered (publish (\<lambda>r. False) (\<lambda>l e. False) (demo_event ''1'') (subscribe 8 (subscribe 7 (subscribe_queue 1 (new_event_bus 1)))))
     = [(7, demo_event ''1''), (8, demo_event ''1'')]"
  using publish_isolates_failures [of "subscribe 8 (subscribe 7 (subscribe_queue 1 (new_event_bus 1)))" "\<lambda>r. False" "\<lambda>l e. False" "demo_event ''1''"]
  by (simp add: subscribe_def subscribe_queue_def new_event_bus_def keys_ok_def)

section \<open>What the bus holds\<close>

definition event_clean :: "dash_event \<Rightarrow> bool" where
  "event_clean e \<longleftrightarrow> \<not> leaks private_name concealed_name (JObj (de_payload e))"

lemma made_clean: "make_event q = Inr e \<Longrightarrow> event_clean e"
  using sanitize.no_leak [of "JObj (ev_payload q)"]
  by (auto simp: make_event_def event_clean_def object_fields_def split: if_splits)

lemma store_row_clean: "\<not> leaks private_name concealed_name (JObj (store_row e))"
  using sanitize.no_leak [of "JObj (de_payload e)"]
  by (simp add: store_row_def event_to_dict_def leaks_obj private_name_def concealed_name_def secret_keys_def name_has_def py_lower_def
      py_startswith_def opt_json_def split: option.split)

definition queue_ok :: "dash_event list \<Rightarrow> bool" where
  "queue_ok es \<longleftrightarrow> length es \<le> queue_size \<and> list_all event_clean es"

definition queues_ok :: "(nat \<times> dash_event list) list \<Rightarrow> bool" where
  "queues_ok d \<longleftrightarrow> (\<forall>(q, es)\<in>set d. queue_ok es)"

lemma queues_ok_dput: "queues_ok d \<Longrightarrow> queue_ok es \<Longrightarrow> queues_ok (dput q es d)"
  using set_dput [of q es d] by (fastforce simp: queues_ok_def)

lemma queues_ok_ddel: "queues_ok d \<Longrightarrow> queues_ok (ddel q d)"
  using set_ddel [of q d] by (fastforce simp: queues_ok_def)

lemma queues_ok_dget: "queues_ok d \<Longrightarrow> dget d q = Some es \<Longrightarrow> queue_ok es"
  by (auto simp: queues_ok_def dest: dget_in_set)

definition bus_clean :: "event_bus \<Rightarrow> bool" where
  "bus_clean b \<longleftrightarrow> list_all event_clean (eb_history b) \<and> list_all (\<lambda>(l, e). event_clean e) (eb_delivered b)
     \<and> list_all (\<lambda>r. \<not> leaks private_name concealed_name (JObj r)) (eb_stored b) \<and> queues_ok (eb_queues b)"

lemma fill_queues_ok: "queues_ok (eb_queues b) \<Longrightarrow> event_clean e \<Longrightarrow> queues_ok (eb_queues (fill_queues e qs b))"
proof (induction qs arbitrary: b)
  case (Cons q qs)
  have "queue_ok (opt_default (dget (eb_queues b) q) [])"
    using queues_ok_dget [OF Cons.prems(1)] by (cases "dget (eb_queues b) q") (auto simp: opt_default_def queue_ok_def)
  then show ?case using Cons by (simp add: Let_def queue_ok_def queues_ok_dput)
qed simp

lemma publish_keeps_clean:
  assumes "bus_clean b" and "event_clean e"
  shows "bus_clean (publish saves returns e b)"
proof -
  have "queues_ok (eb_queues (publish saves returns e b))"
    using assms unfolding publish_def Let_def by (intro fill_queues_ok) (simp_all add: bus_clean_def)
  moreover have "list_all event_clean (last_n (eb_limit b) (eb_history b @ [e]))"
    using assms set_last_n [of "eb_limit b" "eb_history b @ [e]"] by (auto simp: bus_clean_def list_all_iff)
  ultimately show ?thesis using assms store_row_clean [of e] by (auto simp: bus_clean_def list_all_iff)
qed

lemma bus_step_clean: "bus_clean b \<Longrightarrow> bus_clean (bus_step saves returns p b)"
proof (cases p)
  case (Emit q)
  then show "bus_clean b \<Longrightarrow> ?thesis"
    by (cases "make_event q") (auto simp: emit_event_def dest: made_clean intro: publish_keeps_clean)
next
  case (Queue_Get q)
  assume clean: "bus_clean b"
  show ?thesis
  proof (cases "dget (eb_queues b) q")
    case (Some es)
    then have "queue_ok es" using clean by (auto simp: bus_clean_def dest: queues_ok_dget)
    then show ?thesis
      using clean Some Queue_Get by (cases es) (auto simp: queue_get_def bus_clean_def queue_ok_def intro: queues_ok_dput)
  qed (use clean Queue_Get in \<open>simp add: queue_get_def\<close>)
next
  case (Subscribe_Queue q)
  then show "bus_clean b \<Longrightarrow> ?thesis" by (auto simp: bus_clean_def subscribe_queue_def queues_ok_def queue_ok_def)
qed (auto simp: bus_clean_def subscribe_def unsubscribe_def unsubscribe_queue_def queues_ok_ddel)

lemma last_n_append: "last_n n (last_n n xs @ ys) = last_n n (xs @ ys)"
proof (cases "n \<le> length xs")
  case True
  then have "length ys + (length xs - n) = length xs + length ys - n" by simp
  then show ?thesis using True by (simp add: last_n_def)
qed (simp add: last_n_def)

lemma emitted_Cons: "emitted (p # ps) = (case p of Emit q \<Rightarrow> (case make_event q of Inr e \<Rightarrow> [e] | Inl _ \<Rightarrow> []) | _ \<Rightarrow> []) @ emitted ps"
  by (simp add: emitted_def)

lemma bus_step_history:
  "eb_limit (bus_step saves returns p b) = eb_limit b
   \<and> (length (eb_history b) \<le> eb_limit b \<longrightarrow> eb_history (bus_step saves returns p b) = last_n (eb_limit b) (eb_history b @ emitted [p]))"
proof (cases p)
  case (Emit q)
  then show ?thesis by (cases "make_event q") (simp_all add: emit_event_def emitted_def last_n_def)
next
  case (Queue_Get q)
  then show ?thesis by (simp add: queue_get_def emitted_def last_n_def split: option.split list.split)
qed (simp_all add: emitted_def subscribe_def unsubscribe_def subscribe_queue_def unsubscribe_queue_def last_n_def)

lemma bus_run_holds:
  "bus_clean b \<Longrightarrow> length (eb_history b) \<le> eb_limit b \<Longrightarrow> bus_clean (bus_run saves returns ps b)
   \<and> eb_history (bus_run saves returns ps b) = last_n (eb_limit b) (eb_history b @ emitted ps)"
proof (induction ps arbitrary: b)
  case (Cons p ps)
  let ?b = "bus_step saves returns p b"
  have h: "eb_limit ?b = eb_limit b" "eb_history ?b = last_n (eb_limit b) (eb_history b @ emitted [p])"
    using bus_step_history [of saves returns p b] Cons.prems(2) by simp_all
  have "emitted (p # ps) = emitted [p] @ emitted ps" by (simp add: emitted_def)
  then show ?case
    using Cons.IH [of ?b] bus_step_clean [OF Cons.prems(1), of saves returns p] h
    by (simp add: bus_run_def last_n_append)
qed (simp add: bus_run_def emitted_def last_n_def)

text \<open>C29: after any sequence of publications, subscriptions and reads, the history of the bus is exactly the last
events published, at most its limit and in their order; no event in the history, in a queue or passed to a listener
and no stored row has a secret or an entry of private reasoning at any depth; and no queue holds more than its
thousand events.\<close>

theorem bus_holds_recent_clean_events:
  "eb_history (bus_run saves returns ps (new_event_bus n)) = last_n n (emitted ps)
   \<and> bus_clean (bus_run saves returns ps (new_event_bus n))"
proof -
  have "bus_clean (new_event_bus n)" "eb_history (new_event_bus n) = []" "eb_limit (new_event_bus n) = n"
    by (simp_all add: new_event_bus_def bus_clean_def queues_ok_def)
  then show ?thesis using bus_run_holds [of "new_event_bus n" saves returns ps] by simp
qed

lemma remove1_filter: "distinct cs \<Longrightarrow> distinct ds \<Longrightarrow> fold socket_disconnect ds cs = filter (\<lambda>c. c \<notin> set ds) cs"
proof (induction ds arbitrary: cs)
  case (Cons d ds)
  then show ?case by (auto simp: socket_disconnect_def distinct_remove1_removeAll removeAll_filter_not_eq intro!: filter_cong)
qed simp

text \<open>A broadcast drops just the connections that could not be reached.\<close>

lemma broadcast_keeps_alive: "distinct cs \<Longrightarrow> broadcast alive cs = filter alive cs"
  by (auto simp: broadcast_def remove1_filter intro!: filter_cong)

lemma history_limit_zero: "bus_history 0 None b = map event_to_dict (eb_history b)"
  by (simp add: bus_history_def last_items_def opt_truthy_def)

end
