(* ===== verification/Okf_Loader.thy ===== *)
theory Okf_Loader
  imports Risk Json_Read
begin

text \<open>
  \<open>okf/loader.py\<close>: the validation of the OKF guideline bundle, and \<open>okf/resolver.py\<close>: reading the numbers the
  resolver merges with the system's limits (the merge itself is in \<open>Risk\<close>) and the reference values it passes on.
  Decoding JSON, its text, and the parsing and printing of numbers are parameters.
\<close>

section \<open>Time frames\<close>

text \<open>
  The regular expression as an automaton over the characters: a number with a unit, then more of them or \<open>HTF\<close>
  or \<open>LTF\<close> after slashes, then \<open>HTF\<close> or \<open>LTF\<close> after blanks.
\<close>

datatype tf_state =
    Tf_Start
  | Tf_Digits
  | Tf_Item
  | Tf_Item_Space
  | Tf_Slash
  | Tf_Slash_X
  | Tf_Slash_XT
  | Tf_End_X
  | Tf_End_XT
  | Tf_End
  | Tf_End_Space
  | Tf_Fail

definition is_decimal :: "char \<Rightarrow> bool" where
  "is_decimal c \<longleftrightarrow> c \<in> set ''0123456789''"

fun tf_step :: "tf_state \<Rightarrow> char \<Rightarrow> tf_state" where
  "tf_step Tf_Start c = (if is_decimal c then Tf_Digits else Tf_Fail)"
| "tf_step Tf_Digits c = (if is_decimal c then Tf_Digits else if char_lower c \<in> set ''smhdw'' then Tf_Item else Tf_Fail)"
| "tf_step Tf_Item c = (if c = CHR ''/'' then Tf_Slash else if is_space c then Tf_Item_Space else Tf_Fail)"
| "tf_step Tf_Item_Space c =
     (if is_space c then Tf_Item_Space else if c = CHR ''/'' then Tf_Slash else if char_lower c \<in> set ''hl'' then Tf_End_X else Tf_Fail)"
| "tf_step Tf_Slash c =
     (if is_space c then Tf_Slash else if is_decimal c then Tf_Digits else if char_lower c \<in> set ''hl'' then Tf_Slash_X else Tf_Fail)"
| "tf_step Tf_Slash_X c = (if char_lower c = CHR ''t'' then Tf_Slash_XT else Tf_Fail)"
| "tf_step Tf_Slash_XT c = (if char_lower c = CHR ''f'' then Tf_Item else Tf_Fail)"
| "tf_step Tf_End_X c = (if char_lower c = CHR ''t'' then Tf_End_XT else Tf_Fail)"
| "tf_step Tf_End_XT c = (if char_lower c = CHR ''f'' then Tf_End else Tf_Fail)"
| "tf_step Tf_End c = (if is_space c then Tf_End_Space else Tf_Fail)"
| "tf_step Tf_End_Space c = (if is_space c then Tf_End_Space else if char_lower c \<in> set ''hl'' then Tf_End_X else Tf_Fail)"
| "tf_step Tf_Fail c = Tf_Fail"

definition tf_accepts :: "string \<Rightarrow> bool" where
  "tf_accepts s \<longleftrightarrow> foldl tf_step Tf_Start s \<in> {Tf_Item, Tf_End}"

text \<open>The dollar sign also matches before a final line feed.\<close>

definition timeframe_matches :: "string \<Rightarrow> bool" where
  "timeframe_matches s \<longleftrightarrow> tf_accepts s \<or> (s \<noteq> [] \<and> last s = CHR 0x0A \<and> tf_accepts (butlast s))"

text \<open>\<open>s.replace(p, "")\<close>\<close>

function remove_all :: "string \<Rightarrow> string \<Rightarrow> string" where
  "remove_all p s = (if p = [] \<or> s = [] then s
     else if py_startswith s p then remove_all p (drop (length p) s) else hd s # remove_all p (tl s))"
  by auto

termination by (relation "measure (length \<circ> snd)") auto

declare remove_all.simps [simp del]

definition bare_timeframe :: "string \<Rightarrow> string" where
  "bare_timeframe tf = remove_all '' LTF'' (remove_all '' HTF'' tf)"

definition bad_timeframe :: "string \<Rightarrow> bool" where
  "bad_timeframe tf \<longleftrightarrow> tf \<noteq> [] \<and> \<not> timeframe_matches (bare_timeframe tf)
     \<and> \<not> py_contains ''HTF'' tf \<and> \<not> py_contains ''LTF'' tf \<and> \<not> py_contains ''/'' tf"

section \<open>Validation\<close>

record okf_lib =
  ok_float :: "string \<Rightarrow> pyfloat option"
  ok_int :: "string \<Rightarrow> int option"
  ok_show :: "json \<Rightarrow> string"
  ok_dumps :: "json_obj \<Rightarrow> string"
  ok_names :: "string list \<Rightarrow> string"
  ok_num :: "pyfloat \<Rightarrow> string"

definition required_top :: "string list" where
  "required_top = [''infrastructure_and_webhook'', ''okf_specification'', ''regulatory_and_tax_compliance'', ''risk_management_citadel'',
     ''self_learning_agent_framework'', ''trading_models_and_strategies'']"

definition required_strategy_ids :: "string list" where
  "required_strategy_ids = [''M1_PO3_SWEEP'', ''M2_VWAP_RECLAIM'', ''M3_ICT_FVG_SWING'', ''M4_PREDICTION_MARKET_AI'', ''M5_MOMENTUM_BREAKOUT'']"

definition forbidden_secret_values :: "string list" where
  "forbidden_secret_values = [''YOUR_SECRET_KEY'', ''your_secret_key'', ''sk-live'', ''BEGIN PRIVATE KEY'']"

definition required_features :: "string list" where
  "required_features = [''RSI_14'', ''MACD_HISTOGRAM'', ''VWAP_DISTANCE'', ''BOLLINGER_BAND_WIDTH'', ''VOLUME_BREAKOUT_MULT'']"

definition err_if :: "bool \<Rightarrow> string \<Rightarrow> string list" where
  "err_if b e = (if b then [e] else [])"

definition missing_top :: "okf_lib \<Rightarrow> json_obj \<Rightarrow> string list" where
  "missing_top lib d = (let missing = filter (\<lambda>k. \<not> dmem k d) required_top
     in err_if (missing \<noteq> []) (''missing_top_level:'' @ ok_names lib missing))"

definition text_or_empty :: "okf_lib \<Rightarrow> json_obj \<Rightarrow> string \<Rightarrow> string" where
  "text_or_empty lib d k = text_of_json (ok_show lib) (get_or d k (JStr []))"

definition float_or_zero :: "okf_lib \<Rightarrow> json_obj \<Rightarrow> string \<Rightarrow> pyfloat res" where
  "float_or_zero lib d k = float_of_json (ok_float lib) (get_or d k (JInt 0))"

text \<open>\<open>0 < x <= b\<close>\<close>

definition in_bound :: "pyfloat \<Rightarrow> int \<Rightarrow> bool" where
  "in_bound x b \<longleftrightarrow> flt (Fin 0) x \<and> fle x (Fin (of_int b))"

definition spec_errors :: "okf_lib \<Rightarrow> json_obj \<Rightarrow> string list res" where
  "spec_errors lib d = bind_res (object_or_empty d ''okf_specification'') (\<lambda>spec.
     Inr (err_if (text_or_empty lib spec ''spec_version'' \<noteq> ''0.2.0'') ''unsupported_spec_version''
        @ err_if (py_upper (text_or_empty lib spec ''status'') \<noteq> ''APPROVED'') ''status_not_approved''))"

definition nested_or_empty :: "json_obj \<Rightarrow> string \<Rightarrow> string \<Rightarrow> json_obj res" where
  "nested_or_empty d k1 k2 = bind_res (object_or_empty d k1) (\<lambda>e. object_or_empty e k2)"

definition risk_errors :: "okf_lib \<Rightarrow> json_obj \<Rightarrow> string list res" where
  "risk_errors lib d =
     bind_res (nested_or_empty d ''risk_management_citadel'' ''position_sizing'') (\<lambda>risk.
     bind_res (float_or_zero lib risk ''max_risk_per_trade_percent'') (\<lambda>max_risk.
     bind_res (nested_or_empty d ''risk_management_citadel'' ''hard_circuit_breakers'') (\<lambda>breakers.
     bind_res (float_or_zero lib breakers ''max_portfolio_drawdown_percent'') (\<lambda>dd.
     bind_res (float_or_zero lib breakers ''max_daily_loss_percent'') (\<lambda>daily.
       Inr (err_if (\<not> in_bound max_risk 5) ''max_risk_per_trade_percent_out_of_bounds''
          @ err_if (\<not> in_bound dd 50) ''max_drawdown_out_of_bounds''
          @ err_if (\<not> in_bound daily 50) ''max_daily_loss_out_of_bounds''))))))"

definition model_id :: "okf_lib \<Rightarrow> json_obj \<Rightarrow> string" where
  "model_id lib s = text_of_json (ok_show lib) (opt_default (dget s ''model_id'') JNull)"

definition strategy_ids :: "okf_lib \<Rightarrow> json list \<Rightarrow> string list" where
  "strategy_ids lib js = concat (map (\<lambda>j. case j of JObj s \<Rightarrow> [model_id lib s] | _ \<Rightarrow> []) js)"

text \<open>\<open>math.isclose(a, b, abs_tol=1e-9)\<close> with the default relative tolerance \<open>1e-9\<close>\<close>

definition is_close :: "pyfloat \<Rightarrow> pyfloat \<Rightarrow> bool" where
  "is_close a b \<longleftrightarrow> feq a b \<or> (is_finite a \<and> is_finite b \<and>
     (let diff = fabs (fsub b a); tol = flit (1 / 10 ^ 9)
      in fle diff (fabs (fmul tol b)) \<or> fle diff (fabs (fmul tol a)) \<or> fle diff tol))"

definition weight_errors :: "okf_lib \<Rightarrow> json_obj \<Rightarrow> string list res" where
  "weight_errors lib s = (case dget s ''ensemble_weights'' of
     None \<Rightarrow> Inr [] | Some JNull \<Rightarrow> Inr []
   | Some (JObj w) \<Rightarrow> bind_res (map_res (float_of_json (ok_float lib)) (map snd w)) (\<lambda>xs.
       Inr (err_if (\<not> is_close (fsum xs) (Fin 1)) (''ensemble_weights_sum:'' @ ok_num lib (fsum xs))))
   | Some _ \<Rightarrow> Inr [''ensemble_weights_not_object''])"

definition strategy_errors :: "okf_lib \<Rightarrow> json \<Rightarrow> string list res" where
  "strategy_errors lib j = (case j of
     JObj s \<Rightarrow> bind_res (weight_errors lib s) (\<lambda>we.
       Inr (err_if (bad_timeframe (text_or_empty lib s ''timeframe'')) (''bad_timeframe:'' @ model_id lib s) @ we))
   | _ \<Rightarrow> Inr [''strategy_not_object''])"

definition strategies_errors :: "okf_lib \<Rightarrow> json_obj \<Rightarrow> string list res" where
  "strategies_errors lib d =
     bind_res (items_of (get_or d ''trading_models_and_strategies'' (JList []))) (\<lambda>js.
     bind_res (map_res (strategy_errors lib) js) (\<lambda>ess.
       Inr (err_if (set (strategy_ids lib js) \<noteq> set required_strategy_ids)
              (''strategy_ids_mismatch:'' @ ok_names lib (sort (remdups (strategy_ids lib js)))) @ concat ess)))"

definition exchange_errors :: "okf_lib \<Rightarrow> json_obj \<Rightarrow> string list res" where
  "exchange_errors lib d =
     bind_res (nested_or_empty d ''regulatory_and_tax_compliance'' ''exchange_api_spec'') (\<lambda>exch.
     bind_res (int_of_json (ok_int lib) (get_or exch ''max_clock_skew_seconds'' (JInt 0))) (\<lambda>skew.
       Inr (err_if (text_or_empty lib exch ''auth_type'' \<noteq> ''HMAC-SHA256'') ''exchange_auth_type''
          @ err_if (text_or_empty lib exch ''target_exchange'' \<noteq> ''Delta Exchange India'') ''exchange_target''
          @ err_if (skew \<le> 0 \<or> 60 < skew) ''clock_skew_out_of_bounds'')))"

definition secret_errors :: "okf_lib \<Rightarrow> json_obj \<Rightarrow> string list res" where
  "secret_errors lib d =
     (let blob = ok_dumps lib d
      in bind_res (nested_or_empty d ''infrastructure_and_webhook'' ''payload_format'') (\<lambda>fmt.
         let secret = opt_default (dget fmt ''secret'') JNull; s = text_of_json (ok_show lib) secret
         in Inr (map (\<lambda>bad. ''forbidden_secret_like_value:'' @ bad) (filter (\<lambda>bad. py_contains bad blob) forbidden_secret_values)
              @ err_if (json_truthy secret \<and> s \<notin> {''PLACEHOLDER_NOT_A_SECRET'', ''{{secret}}'', []}
                  \<and> \<not> py_startswith s ''{{'' \<and> \<not> py_contains ''PLACEHOLDER'' (py_upper s)) ''webhook_secret_not_placeholder'')))"

text \<open>\<open>set(features) < required\<close>: the features are a proper part of the required ones.\<close>

definition hashable :: "json \<Rightarrow> bool" where
  "hashable j = (case j of JList _ \<Rightarrow> False | JObj _ \<Rightarrow> False | _ \<Rightarrow> True)"

definition feature_errors :: "json_obj \<Rightarrow> string list res" where
  "feature_errors d =
     bind_res (nested_or_empty d ''self_learning_agent_framework'' ''machine_learning'') (\<lambda>ml.
     bind_res (items_of (get_or ml ''features'' (JList []))) (\<lambda>js.
       if \<not> list_all hashable js then Inl TypeError
       else Inr (err_if (set js \<subset> JStr ` set required_features) ''ml_features_incomplete'')))"

definition validate_okf :: "okf_lib \<Rightarrow> json_obj \<Rightarrow> string list res" where
  "validate_okf lib d =
     bind_res (spec_errors lib d) (\<lambda>e1. bind_res (risk_errors lib d) (\<lambda>e2. bind_res (strategies_errors lib d) (\<lambda>e3.
     bind_res (exchange_errors lib d) (\<lambda>e4. bind_res (secret_errors lib d) (\<lambda>e5. bind_res (feature_errors d) (\<lambda>e6.
       Inr (missing_top lib d @ e1 @ e2 @ e3 @ e4 @ e5 @ e6)))))))"

section \<open>Loading\<close>

record loaded_okf =
  ol_data :: json_obj
  ol_version :: json
  ol_bundle :: json
  ol_hash :: string
  ol_executable :: bool

fun join_semicolon :: "string list \<Rightarrow> string" where
  "join_semicolon [] = []"
| "join_semicolon [x] = x"
| "join_semicolon (x # xs) = x @ '';'' @ join_semicolon xs"

definition load_okf_raw :: "json res \<Rightarrow> json_obj res" where
  "load_okf_raw file = bind_res file (\<lambda>j. case j of JObj d \<Rightarrow> Inr d | _ \<Rightarrow> Inl (ValueError ''OKF root must be an object''))"

definition load_and_validate_okf :: "okf_lib \<Rightarrow> json res \<Rightarrow> string \<Rightarrow> loaded_okf res" where
  "load_and_validate_okf lib file digest =
     bind_res (load_okf_raw file) (\<lambda>d. bind_res (validate_okf lib d) (\<lambda>errors.
       if errors \<noteq> [] then Inl (ValueError (join_semicolon errors))
       else bind_res (item d ''okf_specification'') (\<lambda>spec. bind_res (field spec ''spec_version'') (\<lambda>v.
            bind_res (field spec ''bundle_name'') (\<lambda>b.
              Inr \<lparr>ol_data = d, ol_version = v, ol_bundle = b, ol_hash = digest, ol_executable = False\<rparr>)))))"

section \<open>What the resolver reads\<close>

definition texts_at :: "okf_lib \<Rightarrow> json_obj \<Rightarrow> string \<Rightarrow> string list res" where
  "texts_at lib d k = bind_res (items_of (get_or d k (JList []))) (\<lambda>js. Inr (map (text_of_json (ok_show lib)) js))"

definition opt_int_at :: "okf_lib \<Rightarrow> json_obj \<Rightarrow> string \<Rightarrow> int option res" where
  "opt_int_at lib d k = (case dget d k of None \<Rightarrow> Inr None | Some j \<Rightarrow> map_sum id Some (int_of_json (ok_int lib) j))"

definition float_at :: "okf_lib \<Rightarrow> json \<Rightarrow> string \<Rightarrow> pyfloat res" where
  "float_at lib j k = bind_res (field j k) (float_of_json (ok_float lib))"

definition text_default :: "okf_lib \<Rightarrow> json_obj \<Rightarrow> string \<Rightarrow> json \<Rightarrow> string" where
  "text_default lib d k v = text_of_json (ok_show lib) (opt_default (dget d k) v)"

definition as_object :: "json \<Rightarrow> json_obj res" where
  "as_object j = (case j of JObj d \<Rightarrow> Inr d | _ \<Rightarrow> Inl AttributeError)"

definition okf_bundle_of :: "okf_lib \<Rightarrow> json_obj \<Rightarrow> okf_bundle res" where
  "okf_bundle_of lib d =
     bind_res (item d ''risk_management_citadel'') (\<lambda>risk. bind_res (field risk ''position_sizing'') (\<lambda>pos.
     bind_res (field risk ''hard_circuit_breakers'') (\<lambda>breakers. bind_res (as_object risk) (\<lambda>r.
     bind_res (object_or_empty r ''correlation_filter'') (\<lambda>corr. bind_res (object_or_empty r ''low_turnover'') (\<lambda>turnover.
     bind_res (float_at lib pos ''max_risk_per_trade_percent'') (\<lambda>max_risk.
     bind_res (float_at lib breakers ''max_daily_loss_percent'') (\<lambda>daily.
     bind_res (float_at lib breakers ''max_portfolio_drawdown_percent'') (\<lambda>dd.
     bind_res (opt_int_at lib turnover ''max_trades_per_day_cap'') (\<lambda>trades.
     bind_res (opt_int_at lib turnover ''min_cooldown_bars'') (\<lambda>cooldown.
     bind_res (texts_at lib corr ''risk_on_assets'') (\<lambda>assets. bind_res (texts_at lib corr ''correlated_long_blockers'') (\<lambda>blockers.
     bind_res (texts_at lib turnover ''preferred_styles'') (\<lambda>preferred. bind_res (texts_at lib turnover ''forbidden_styles'') (\<lambda>forbidden.
       Inr \<lparr>ob_max_risk_percent = max_risk, ob_max_daily_loss_percent = daily, ob_max_drawdown_percent = dd,
         ob_max_trades_cap = trades, ob_min_cooldown = cooldown,
         ob_correlation_enabled = map_option json_truthy (dget corr ''enabled''), ob_risk_on_assets = assets, ob_blockers = blockers,
         ob_turnover_enabled = map_option json_truthy (dget turnover ''enabled''), ob_preferred = preferred,
         ob_forbidden = forbidden\<rparr>)))))))))))))))"

text \<open>The values that only travel along: nothing is decided on them in the resolver.\<close>

record okf_reference =
  of_strategy_ids :: "string list"
  of_weights :: "(string \<times> pyfloat) list"
  of_brier_threshold :: pyfloat
  of_block_confidence :: pyfloat
  of_stop_file :: string
  of_exchange :: "string \<times> string \<times> string"
  of_clock_skew :: int
  of_rate_limit :: int
  of_ml_model :: string
  of_ml_features :: "string list"
  of_ml_optional :: bool

definition weights_of :: "okf_lib \<Rightarrow> json \<Rightarrow> (string \<times> pyfloat) list res" where
  "weights_of lib j = bind_res (as_object j) (map_res (\<lambda>(k, v). bind_res (float_of_json (ok_float lib) v) (\<lambda>x. Inr (k, x))))"

text \<open>The weights of the last strategy that has some.\<close>

fun last_weights :: "okf_lib \<Rightarrow> json list \<Rightarrow> (string \<times> pyfloat) list \<Rightarrow> (string \<times> pyfloat) list res" where
  "last_weights lib [] w = Inr w"
| "last_weights lib (j # js) w = (case j of
     JObj s \<Rightarrow> (if get_truthy s ''ensemble_weights''
       then bind_res (weights_of lib (opt_default (dget s ''ensemble_weights'') JNull)) (last_weights lib js)
       else last_weights lib js w)
   | _ \<Rightarrow> last_weights lib js w)"

definition ids_of :: "okf_lib \<Rightarrow> json list \<Rightarrow> string list res" where
  "ids_of lib js = map_res (\<lambda>j. bind_res (field j ''model_id'') (\<lambda>v. Inr (text_of_json (ok_show lib) v)))
     (filter (\<lambda>j. case j of JObj _ \<Rightarrow> True | _ \<Rightarrow> False) js)"

definition float_default :: "okf_lib \<Rightarrow> json_obj \<Rightarrow> string \<Rightarrow> pyfloat \<Rightarrow> pyfloat res" where
  "float_default lib d k v = (case dget d k of None \<Rightarrow> Inr v | Some j \<Rightarrow> float_of_json (ok_float lib) j)"

definition int_default :: "okf_lib \<Rightarrow> json_obj \<Rightarrow> string \<Rightarrow> int \<Rightarrow> int res" where
  "int_default lib d k v = (case dget d k of None \<Rightarrow> Inr v | Some j \<Rightarrow> int_of_json (ok_int lib) j)"

definition okf_reference_of :: "okf_lib \<Rightarrow> json_obj \<Rightarrow> okf_reference res" where
  "okf_reference_of lib d =
     bind_res (bind_res (item d ''self_learning_agent_framework'') as_object) (\<lambda>learning.
     bind_res (bind_res (item d ''regulatory_and_tax_compliance'') (\<lambda>j. field j ''exchange_api_spec'')) (\<lambda>exch_json.
     bind_res (as_object exch_json) (\<lambda>exch. bind_res (object_or_empty learning ''machine_learning'') (\<lambda>ml.
     bind_res (items_of (get_or d ''trading_models_and_strategies'' (JList []))) (\<lambda>js.
     bind_res (ids_of lib js) (\<lambda>ids. bind_res (last_weights lib js []) (\<lambda>ws.
     bind_res (object_or_empty learning ''pre_trade_memory_check'') (\<lambda>pred.
     bind_res (object_or_empty learning ''brier_score_recalibration'') (\<lambda>brier.
     bind_res (float_default lib brier ''threshold'' (Fin (1 / 4))) (\<lambda>thr.
     bind_res (float_default lib pred ''block_confidence_threshold'' (flit (8 / 10))) (\<lambda>conf.
     bind_res (nested_or_empty d ''risk_management_citadel'' ''hard_circuit_breakers'') (\<lambda>breakers.
     bind_res (int_default lib exch ''max_clock_skew_seconds'' 5) (\<lambda>skew.
     bind_res (int_default lib exch ''rate_limit_units_per_5min'' 10000) (\<lambda>rate.
     bind_res (texts_at lib ml ''features'') (\<lambda>feats.
       Inr \<lparr>of_strategy_ids = ids, of_weights = ws, of_brier_threshold = thr, of_block_confidence = conf,
         of_stop_file = text_default lib breakers ''kill_switch_trigger_file'' (JStr ''STOP''),
         of_exchange = (text_default lib exch ''target_exchange'' JNull, text_default lib exch ''base_url'' JNull,
           text_default lib exch ''auth_type'' JNull),
         of_clock_skew = skew, of_rate_limit = rate, of_ml_model = text_default lib ml ''model'' (JStr ''XGBoost Classifier''),
         of_ml_features = feats, of_ml_optional = json_truthy (opt_default (dget ml ''optional'') (JBool True))\<rparr>)))))))))))))))"

text \<open>The resolver on a loaded bundle.\<close>

definition resolve_loaded :: "okf_lib \<Rightarrow> loaded_okf \<Rightarrow> risk_limits \<Rightarrow> (okf_resolved \<times> okf_reference) res" where
  "resolve_loaded lib ol sys = bind_res (okf_bundle_of lib (ol_data ol)) (\<lambda>b.
     bind_res (okf_reference_of lib (ol_data ol)) (\<lambda>f. Inr (okf_resolve b sys, f)))"

section \<open>What a validated bundle promises\<close>

lemma err_if_Nil [simp]: "err_if b e = [] \<longleftrightarrow> \<not> b"
  by (simp add: err_if_def)

lemma validated_parts:
  assumes "validate_okf lib d = Inr []"
  shows "spec_errors lib d = Inr []" "risk_errors lib d = Inr []" "strategies_errors lib d = Inr []" "exchange_errors lib d = Inr []"
    "missing_top lib d = []"
  using assms by (auto simp: validate_okf_def bind_res_Inr_iff)

lemma loaded_is_validated:
  assumes "load_and_validate_okf lib file digest = Inr ol"
  shows "validate_okf lib (ol_data ol) = Inr []" "\<not> ol_executable ol" "ol_hash ol = digest"
  using assms by (auto simp: load_and_validate_okf_def bind_res_Inr_iff split: if_splits)

text \<open>The validator and the resolver read the same numbers, though one replaces an empty value by zero.\<close>

lemma same_number:
  assumes "nested_or_empty d k1 k2 = Inr e" and "float_or_zero lib e k = Inr x" and "x \<noteq> Fin 0"
    and "item d k1 = Inr whole_json" and "field whole_json k2 = Inr part" and "float_at lib part k = Inr y"
  shows "x = y"
proof -
  obtain r where r: "whole_json = JObj r" "item r k2 = Inr part"
    using assms(5) by (cases whole_json) (auto simp: field_def)
  then have "r \<noteq> []" by (auto simp: item_def)
  then have "object_or_empty d k1 = Inr r"
    using assms(4) r(1) by (auto simp: object_or_empty_def get_or_def item_def json_truthy_def split: option.splits)
  then have e: "object_or_empty r k2 = Inr e" using assms(1) by (simp add: nested_or_empty_def)
  have "e \<noteq> []" using assms(2,3) by (auto simp: float_or_zero_def get_or_def float_of_json_def f_of_int_def is_finite_def)
  then have part: "part = JObj e"
    using e r(2) by (cases part) (auto simp: object_or_empty_def get_or_def item_def json_truthy_def split: option.splits if_splits)
  then obtain j where j: "dget e k = Some j" "float_of_json (ok_float lib) j = Inr y"
    using assms(6) by (auto simp: float_at_def field_def item_def bind_res_Inr_iff split: option.splits)
  then show ?thesis
    using assms(2,3) by (auto simp: float_or_zero_def get_or_def float_of_json_def f_of_int_def is_finite_def split: if_splits)
qed

lemma in_bound_nonzero: "in_bound x b \<Longrightarrow> x \<noteq> Fin 0"
  by (auto simp: in_bound_def)

lemma bundle_in_bounds:
  assumes "validate_okf lib d = Inr []" and "okf_bundle_of lib d = Inr b"
  shows "in_bound (ob_max_risk_percent b) 5" "in_bound (ob_max_drawdown_percent b) 50" "in_bound (ob_max_daily_loss_percent b) 50"
proof -
  from validated_parts(2) [OF assms(1)] obtain risk x breakers dd daily where v:
    "nested_or_empty d ''risk_management_citadel'' ''position_sizing'' = Inr risk"
    "float_or_zero lib risk ''max_risk_per_trade_percent'' = Inr x" "in_bound x 5"
    "nested_or_empty d ''risk_management_citadel'' ''hard_circuit_breakers'' = Inr breakers"
    "float_or_zero lib breakers ''max_portfolio_drawdown_percent'' = Inr dd" "in_bound dd 50"
    "float_or_zero lib breakers ''max_daily_loss_percent'' = Inr daily" "in_bound daily 50"
    by (auto simp: risk_errors_def bind_res_Inr_iff)
  from assms(2) obtain rj pos br where r: "item d ''risk_management_citadel'' = Inr rj" "field rj ''position_sizing'' = Inr pos"
    "field rj ''hard_circuit_breakers'' = Inr br" "float_at lib pos ''max_risk_per_trade_percent'' = Inr (ob_max_risk_percent b)"
    "float_at lib br ''max_daily_loss_percent'' = Inr (ob_max_daily_loss_percent b)"
    "float_at lib br ''max_portfolio_drawdown_percent'' = Inr (ob_max_drawdown_percent b)"
    by (auto simp: okf_bundle_of_def bind_res_Inr_iff)
  show "in_bound (ob_max_risk_percent b) 5"
    using same_number [OF v(1,2) _ r(1,2,4)] v(3) in_bound_nonzero by blast
  show "in_bound (ob_max_drawdown_percent b) 50"
    using same_number [OF v(4,5) _ r(1,3,6)] v(6) in_bound_nonzero by blast
  show "in_bound (ob_max_daily_loss_percent b) 50"
    using same_number [OF v(4,7) _ r(1,3,5)] v(8) in_bound_nonzero by blast
qed

lemma pmin_le_left: "a \<noteq> NaN \<Longrightarrow> fle (pmin a b) a"
  using flt_imp_fle [of b a] by (simp add: pmin_def)

lemma percent_bound:
  assumes "in_bound x n"
  shows "percent x \<noteq> NaN \<and> fle (percent x) (flit (of_int n / 100))"
  using assms by (cases x) (auto simp: in_bound_def percent_def intro!: rnd_mono divide_right_mono)

text \<open>C30: whatever the guideline file says, once it has been validated the limits that the resolver takes from it
are bounded: at most five percent risk per trade, fifty percent drawdown and fifty percent daily loss, and never
above the system's own limits; the bundle lists just the five known strategies, names the venue and its
signature, and is never executable.\<close>

theorem validated_guidelines_bound_risk:
  assumes "load_and_validate_okf lib file digest = Inr ol" and "okf_bundle_of lib (ol_data ol) = Inr b"
  shows "(\<exists>risk daily dd c. or_constraints (okf_resolve b sys) = c
      \<and> oc_max_risk_per_trade_pct c = Some risk \<and> fle risk (flit (5 / 100)) \<and> risk = pmin (percent (ob_max_risk_percent b)) (gl_max_trade_pct sys)
      \<and> oc_max_daily_loss_pct c = Some daily \<and> fle daily (flit (50 / 100)) \<and> daily = pmin (percent (ob_max_daily_loss_percent b)) (gl_max_daily_loss_pct sys)
      \<and> oc_max_drawdown_pct c = Some dd \<and> fle dd (flit (50 / 100)) \<and> dd = pmin (percent (ob_max_drawdown_percent b)) (gl_max_drawdown_pct sys))
    \<and> (\<exists>js exch. items_of (get_or (ol_data ol) ''trading_models_and_strategies'' (JList [])) = Inr js
      \<and> set (strategy_ids lib js) = set required_strategy_ids
      \<and> nested_or_empty (ol_data ol) ''regulatory_and_tax_compliance'' ''exchange_api_spec'' = Inr exch
      \<and> text_or_empty lib exch ''target_exchange'' = ''Delta Exchange India'' \<and> text_or_empty lib exch ''auth_type'' = ''HMAC-SHA256'')
    \<and> \<not> ol_executable ol"
proof (intro conjI)
  note valid = loaded_is_validated(1) [OF assms(1)]
  note bounds = bundle_in_bounds [OF valid assms(2)]
  have le: "fle (pmin (percent x) y) (flit (of_int n / 100))" if "in_bound x n" for x y n
    using percent_bound [OF that] pmin_le_left fle_trans by blast
  from le [OF bounds(1)] le [OF bounds(2)] le [OF bounds(3)]
  show "\<exists>risk daily dd c. or_constraints (okf_resolve b sys) = c
      \<and> oc_max_risk_per_trade_pct c = Some risk \<and> fle risk (flit (5 / 100)) \<and> risk = pmin (percent (ob_max_risk_percent b)) (gl_max_trade_pct sys)
      \<and> oc_max_daily_loss_pct c = Some daily \<and> fle daily (flit (50 / 100)) \<and> daily = pmin (percent (ob_max_daily_loss_percent b)) (gl_max_daily_loss_pct sys)
      \<and> oc_max_drawdown_pct c = Some dd \<and> fle dd (flit (50 / 100)) \<and> dd = pmin (percent (ob_max_drawdown_percent b)) (gl_max_drawdown_pct sys)"
    by (simp add: okf_resolve_def stricter_min_def Let_def)
  show "\<exists>js exch. items_of (get_or (ol_data ol) ''trading_models_and_strategies'' (JList [])) = Inr js
      \<and> set (strategy_ids lib js) = set required_strategy_ids
      \<and> nested_or_empty (ol_data ol) ''regulatory_and_tax_compliance'' ''exchange_api_spec'' = Inr exch
      \<and> text_or_empty lib exch ''target_exchange'' = ''Delta Exchange India'' \<and> text_or_empty lib exch ''auth_type'' = ''HMAC-SHA256''"
    using validated_parts(3,4) [OF valid] by (auto simp: strategies_errors_def exchange_errors_def bind_res_Inr_iff)
qed (rule loaded_is_validated(2) [OF assms(1)])

section \<open>The shipped guidelines, abridged\<close>

definition shipped_strategies :: "json list" where
  "shipped_strategies =
     [JObj [(''model_id'', JStr ''M1_PO3_SWEEP''), (''timeframe'', JStr ''5m / 15m'')],
      JObj [(''model_id'', JStr ''M2_VWAP_RECLAIM''), (''timeframe'', JStr ''5m / 15m'')],
      JObj [(''model_id'', JStr ''M3_ICT_FVG_SWING''), (''timeframe'', JStr ''240m HTF / 15m LTF'')],
      JObj [(''model_id'', JStr ''M4_PREDICTION_MARKET_AI''),
        (''ensemble_weights'', JObj [(''grok_forecaster'', JNum (flit (30 / 100))), (''claude_news_analyst'', JNum (flit (20 / 100))),
           (''gpt4_bull_advocate'', JNum (flit (20 / 100))), (''gemini_bear_advocate'', JNum (flit (15 / 100))),
           (''deepseek_risk_manager'', JNum (flit (15 / 100)))])],
      JObj [(''model_id'', JStr ''M5_MOMENTUM_BREAKOUT''), (''timeframe'', JStr ''1h'')]]"

definition shipped_okf :: json_obj where
  "shipped_okf =
     [(''okf_specification'', JObj [(''spec_version'', JStr ''0.2.0''), (''bundle_name'', JStr ''crypto-bot-trading-guidelines''),
        (''status'', JStr ''APPROVED'')]),
      (''regulatory_and_tax_compliance'', JObj [(''exchange_api_spec'', JObj [(''target_exchange'', JStr ''Delta Exchange India''),
        (''base_url'', JStr ''https://api.india.delta.exchange''), (''auth_type'', JStr ''HMAC-SHA256''),
        (''max_clock_skew_seconds'', JInt 5), (''rate_limit_units_per_5min'', JInt 10000)])]),
      (''risk_management_citadel'', JObj [(''position_sizing'', JObj [(''max_risk_per_trade_percent'', JNum (Fin 1))]),
        (''hard_circuit_breakers'', JObj [(''max_portfolio_drawdown_percent'', JNum (Fin 10)), (''max_daily_loss_percent'', JNum (Fin 5)),
           (''kill_switch_trigger_file'', JStr ''STOP'')]),
        (''correlation_filter'', JObj [(''enabled'', JBool True), (''risk_on_assets'', JList [JStr ''BTC/USD'']),
           (''correlated_long_blockers'', JList [JStr ''SPY'', JStr ''QQQ''])]),
        (''low_turnover'', JObj [(''enabled'', JBool True), (''preferred_styles'', JList [JStr ''swing'']),
           (''forbidden_styles'', JList []), (''max_trades_per_day_cap'', JInt 8), (''min_cooldown_bars'', JInt 5)])]),
      (''self_learning_agent_framework'', JObj [(''machine_learning'', JObj [(''features'', JList (map JStr required_features))])]),
      (''trading_models_and_strategies'', JList shipped_strategies),
      (''infrastructure_and_webhook'', JObj [(''payload_format'', JObj [(''secret'', JStr ''PLACEHOLDER_NOT_A_SECRET'')])])]"

definition plain_okf_lib :: okf_lib where
  "plain_okf_lib = \<lparr>ok_float = (\<lambda>s. None), ok_int = (\<lambda>s. None), ok_show = (\<lambda>j. []), ok_dumps = (\<lambda>d. []),
     ok_names = concat, ok_num = (\<lambda>x. [])\<rparr>"

lemmas okf_eval = shipped_okf_def plain_okf_lib_def get_or_def json_truthy_def object_or_empty_def nested_or_empty_def
  text_or_empty_def text_of_json_def float_or_zero_def float_of_json_def int_of_json_def item_def field_def dmem_def

lemma shipped_timeframes:
  "\<not> bad_timeframe ''5m / 15m''" "\<not> bad_timeframe ''240m HTF / 15m LTF''" "\<not> bad_timeframe ''1h''" "\<not> bad_timeframe []"
  "bad_timeframe ''hourly''"
  by code_simp+

lemma shipped_weights: "weight_errors plain_okf_lib [(''model_id'', JStr i), (''ensemble_weights'',
    JObj [(''grok_forecaster'', JNum (flit (30 / 100))), (''claude_news_analyst'', JNum (flit (20 / 100))),
     (''gpt4_bull_advocate'', JNum (flit (20 / 100))), (''gemini_bear_advocate'', JNum (flit (15 / 100))),
     (''deepseek_risk_manager'', JNum (flit (15 / 100)))])] = Inr []"
  by (simp add: weight_errors_def plain_okf_lib_def float_of_json_def is_close_def err_if_def fsum_def fl_eval)

lemma shipped_strategies_valid: "strategies_errors plain_okf_lib shipped_okf = Inr []"
proof -
  have "strategy_errors plain_okf_lib j = Inr []" if "j \<in> set shipped_strategies" for j
    using that shipped_weights
    by (auto simp: shipped_strategies_def strategy_errors_def text_or_empty_def get_or_def json_truthy_def text_of_json_def
        shipped_timeframes err_if_def weight_errors_def)
  then have "map_res (strategy_errors plain_okf_lib) shipped_strategies = Inr [[], [], [], [], []]"
    by (simp add: shipped_strategies_def)
  moreover have "strategy_ids plain_okf_lib shipped_strategies = required_strategy_ids"
    by (simp add: strategy_ids_def shipped_strategies_def model_id_def opt_default_def text_of_json_def required_strategy_ids_def)
  ultimately show ?thesis
    by (simp add: strategies_errors_def shipped_okf_def get_or_def json_truthy_def items_of_def err_if_def)
       (simp add: shipped_strategies_def)
qed

lemma shipped_valid: "validate_okf plain_okf_lib shipped_okf = Inr []"
proof -
  have "spec_errors plain_okf_lib shipped_okf = Inr []"
    by (simp add: spec_errors_def okf_eval err_if_def py_upper_def)
  moreover have "risk_errors plain_okf_lib shipped_okf = Inr []"
    by (simp add: risk_errors_def okf_eval err_if_def in_bound_def)
  moreover have "exchange_errors plain_okf_lib shipped_okf = Inr []"
    by (simp add: exchange_errors_def okf_eval err_if_def)
  moreover have "secret_errors plain_okf_lib shipped_okf = Inr []"
    by (simp add: secret_errors_def okf_eval err_if_def opt_default_def forbidden_secret_values_def Let_def)
  moreover have "feature_errors shipped_okf = Inr []"
    by (simp add: feature_errors_def okf_eval err_if_def items_of_def hashable_def required_features_def)
  moreover have "missing_top plain_okf_lib shipped_okf = []"
    by (simp add: missing_top_def okf_eval err_if_def required_top_def)
  ultimately show ?thesis by (simp add: validate_okf_def shipped_strategies_valid)
qed

theorem validated_guidelines_bound_risk_witness:
  "\<exists>b risk. okf_bundle_of plain_okf_lib shipped_okf = Inr b
     \<and> oc_max_risk_per_trade_pct (or_constraints (okf_resolve b default_limits)) = Some risk \<and> fle risk (flit (5 / 100))"
proof -
  let ?ol = "\<lparr>ol_data = shipped_okf, ol_version = JStr ''0.2.0'', ol_bundle = JStr ''crypto-bot-trading-guidelines'',
    ol_hash = ''h'', ol_executable = False\<rparr>"
  have "load_and_validate_okf plain_okf_lib (Inr (JObj shipped_okf)) ''h'' = Inr ?ol"
    unfolding load_and_validate_okf_def load_okf_raw_def
    by (simp add: shipped_valid) (simp add: shipped_okf_def item_def field_def)
  moreover have "\<exists>b. okf_bundle_of plain_okf_lib (ol_data ?ol) = Inr b"
    by (simp add: okf_bundle_of_def okf_eval as_object_def float_at_def opt_int_at_def texts_at_def items_of_def)
  ultimately show ?thesis using validated_guidelines_bound_risk by fastforce
qed

text \<open>A feature list that shares nothing with the required one passes: only a proper part of it is rejected.\<close>

lemma unknown_features_accepted:
  "feature_errors [(''self_learning_agent_framework'', JObj [(''machine_learning'', JObj [(''features'', JList [JStr ''MOON_PHASE''])])])] = Inr []"
  by (simp add: feature_errors_def okf_eval err_if_def items_of_def hashable_def required_features_def psubset_eq)

end
