(* ===== verification/Intelligence.thy ===== *)
theory Intelligence
  imports Json_Read
begin

text \<open>
  \<open>intelligence/sources.py\<close>, \<open>intelligence/provenance.py\<close> and \<open>intelligence/rag.py\<close>: records of outside
  information and the bundle of untrusted context made of them.  The regular expressions of instructions that
  are blocked are modelled as patterns with a backtracking matcher; the hash, the clock, dates and the text of
  values are parameters.
\<close>

section \<open>Records\<close>

datatype source_category =
    MARKET_DATA | FUNDAMENTAL_DATA | NEWS | SOCIAL | ON_CHAIN | MACRO | RESEARCH | INTERNAL_MEMORY | PREDICTION_MARKET

fun category_value :: "source_category \<Rightarrow> string" where
  "category_value MARKET_DATA = ''MARKET_DATA''"
| "category_value FUNDAMENTAL_DATA = ''FUNDAMENTAL_DATA''"
| "category_value NEWS = ''NEWS''"
| "category_value SOCIAL = ''SOCIAL''"
| "category_value ON_CHAIN = ''ON_CHAIN''"
| "category_value MACRO = ''MACRO''"
| "category_value RESEARCH = ''RESEARCH''"
| "category_value INTERNAL_MEMORY = ''INTERNAL_MEMORY''"
| "category_value PREDICTION_MARKET = ''PREDICTION_MARKET''"

definition categories :: "source_category list" where
  "categories = [MARKET_DATA, FUNDAMENTAL_DATA, NEWS, SOCIAL, ON_CHAIN, MACRO, RESEARCH, INTERNAL_MEMORY, PREDICTION_MARKET]"

record intel_record =
  ir_id :: string
  ir_type :: source_category
  ir_stamp :: string
  ir_data_stamp :: "string option"
  ir_freshness :: "pyfloat option"
  ir_confidence :: pyfloat
  ir_provenance :: string
  ir_content :: json
  ir_metadata :: json_obj
  ir_status :: string

definition opt_text :: "string option \<Rightarrow> json" where
  "opt_text s = (case s of None \<Rightarrow> JNull | Some t \<Rightarrow> JStr t)"

definition opt_num :: "pyfloat option \<Rightarrow> json" where
  "opt_num x = (case x of None \<Rightarrow> JNull | Some v \<Rightarrow> JNum v)"

definition to_context_dict :: "intel_record \<Rightarrow> json_obj" where
  "to_context_dict r =
     [(''source_id'', JStr (ir_id r)), (''source_type'', JStr (category_value (ir_type r))), (''timestamp'', JStr (ir_stamp r)),
      (''data_timestamp'', opt_text (ir_data_stamp r)), (''freshness_seconds'', opt_num (ir_freshness r)),
      (''confidence'', JNum (ir_confidence r)), (''provenance'', JStr (ir_provenance r)), (''content'', ir_content r),
      (''metadata'', JObj (ir_metadata r)), (''status'', JStr (ir_status r))]"

text \<open>A source without a provider answers with an empty record that says so.\<close>

definition unavailable_record :: "string \<Rightarrow> string \<Rightarrow> source_category \<Rightarrow> string \<Rightarrow> string \<Rightarrow> intel_record" where
  "unavailable_record i stamp category name symbol =
     \<lparr>ir_id = i, ir_type = category, ir_stamp = stamp, ir_data_stamp = None, ir_freshness = None, ir_confidence = Fin 0,
      ir_provenance = name, ir_content = JNull,
      ir_metadata = [(''symbol'', JStr symbol), (''reason'', JStr ''No provider configured; refusing to fabricate data'')],
      ir_status = ''UNAVAILABLE''\<rparr>"

section \<open>Provenance\<close>

definition annotate_provenance :: "string \<Rightarrow> string \<Rightarrow> string option \<Rightarrow> intel_record \<Rightarrow> intel_record" where
  "annotate_provenance stamp provider url r =
     (let m1 = dput ''provider'' (JStr provider) (ir_metadata r);
          m2 = (if opt_truthy url then dput ''url'' (opt_text url) m1 else m1)
      in r\<lparr>ir_metadata := dput ''annotated_at'' (JStr stamp) m2, ir_provenance := provider\<rparr>)"

text \<open>
  The age of a time stamp; the parser tells whether the stamp has a zone.  Without one the subtraction
  raises, which is not caught.
\<close>

definition record_age :: "(string \<Rightarrow> (int \<times> bool) option) \<Rightarrow> int \<Rightarrow> string option \<Rightarrow> pyfloat option res" where
  "record_age parse now stamp =
     (if \<not> opt_truthy stamp then Inr None
      else case parse (py_replace CHR ''Z'' ''+00:00'' (opt_default stamp [])) of
        None \<Rightarrow> Inr None
      | Some (t, has_zone) \<Rightarrow> if has_zone then Inr (Some (pmax (Fin 0) (rnd (of_int (now - t) / 1000000)))) else Inl TypeError)"

definition categorize :: "string \<Rightarrow> source_category" where
  "categorize name = opt_default (find (\<lambda>c. category_value c = py_strip (py_upper name)) categories) RESEARCH"

definition public_provenance_view :: "intel_record \<Rightarrow> json_obj" where
  "public_provenance_view r =
     [(''source_id'', JStr (ir_id r)), (''source_type'', JStr (category_value (ir_type r))), (''provenance'', JStr (ir_provenance r)),
      (''data_timestamp'', opt_text (ir_data_stamp r)), (''freshness_seconds'', opt_num (ir_freshness r)),
      (''confidence'', JNum (ir_confidence r)), (''status'', JStr (ir_status r))]"

section \<open>Patterns\<close>

text \<open>
  A pattern is a sequence of words (matched without regard to case), blanks, optional parts and choices of
  words.  \<open>rests p s\<close> are the remainders of \<open>s\<close> after the matches of \<open>p\<close> at its start, in the order in
  which the backtracking matcher tries them.
\<close>

datatype token =
    Word string
  | Blanks
  | Blanks_Opt
  | Maybe string
  | One_Of "string list"

definition word_rest :: "string \<Rightarrow> string \<Rightarrow> string list" where
  "word_rest w s = (if py_startswith (py_lower s) w then [drop (length w) s] else [])"

fun blank_rests :: "string \<Rightarrow> string list" where
  "blank_rests [] = [[]]"
| "blank_rests (c # s) = (if is_space c then blank_rests s @ [c # s] else [c # s])"

definition some_blanks :: "string \<Rightarrow> string list" where
  "some_blanks s = (case s of [] \<Rightarrow> [] | c # t \<Rightarrow> if is_space c then blank_rests t else [])"

text \<open>\<open>Maybe w\<close> is \<open>(w\<close>, blanks\<open>)?\<close>.\<close>

fun token_rests :: "token \<Rightarrow> string \<Rightarrow> string list" where
  "token_rests (Word w) s = word_rest w s"
| "token_rests Blanks s = some_blanks s"
| "token_rests Blanks_Opt s = blank_rests s"
| "token_rests (Maybe w) s = concat (map some_blanks (word_rest w s)) @ [s]"
| "token_rests (One_Of ws) s = concat (map (\<lambda>w. word_rest w s) ws)"

fun rests :: "token list \<Rightarrow> string \<Rightarrow> string list" where
  "rests [] s = [s]"
| "rests (t # ts) s = concat (map (rests ts) (token_rests t s))"

definition injection_patterns :: "token list list" where
  "injection_patterns =
     [[Word ''ignore'', Blanks, Maybe ''all'', Word ''previous'', Blanks, Word ''instructions''],
      [Word ''disregard'', Blanks, Maybe ''all'', Word ''safety''],
      [Word ''override'', Blanks, Word ''risk''],
      [Word ''disable'', Blanks, Word ''kill'', Blanks_Opt, Word ''switch''],
      [Word ''set'', Blanks, Word ''live_trading_enabled'', Blanks_Opt, Word ''='', Blanks_Opt, Word ''true''],
      [Word ''submit'', Blanks, Word ''order''],
      [Word ''exfiltrate''],
      [Word ''reveal'', Blanks, One_Of [''api'', ''secret'', ''password'']]]"

text \<open>\<open>re.search\<close> and \<open>re.sub\<close>; a match that takes nothing is not replaced, no pattern here has one.\<close>

definition shorter_rests :: "token list \<Rightarrow> string \<Rightarrow> string list" where
  "shorter_rests p s = filter (\<lambda>r. length r < length s) (rests p s)"

fun search :: "token list \<Rightarrow> string \<Rightarrow> bool" where
  "search p [] = (rests p [] \<noteq> [])"
| "search p (c # s) = (rests p (c # s) \<noteq> [] \<or> search p s)"

lemma shorter_rests_shorter: "shorter_rests p s = u # us \<Longrightarrow> length u < length s"
  using filter_set by (metis (no_types, lifting) list.set_intros(1) mem_Collect_eq set_filter shorter_rests_def)

function substitute :: "token list \<Rightarrow> string \<Rightarrow> string \<Rightarrow> string" where
  "substitute p r s = (case s of
     [] \<Rightarrow> []
   | c # t \<Rightarrow> (case shorter_rests p s of [] \<Rightarrow> c # substitute p r t | u # _ \<Rightarrow> r @ substitute p r u))"
  by auto

termination by (relation "measure (\<lambda>(p, r, s). length s)") (auto dest: shorter_rests_shorter)

declare substitute.simps [simp del]

section \<open>The bundle of context\<close>

definition blocked :: string where
  "blocked = ''[BLOCKED_INSTRUCTION]''"

definition clean_text :: "string \<Rightarrow> string" where
  "clean_text t = foldl (\<lambda>s p. substitute p blocked s) t injection_patterns"

definition sanitize_text :: "string \<Rightarrow> string" where
  "sanitize_text t = ''<UNTRUSTED_EVIDENCE>'' @ clean_text t @ ''</UNTRUSTED_EVIDENCE>''"

definition detect_injection :: "string \<Rightarrow> bool" where
  "detect_injection t = list_ex (\<lambda>p. search p t) injection_patterns"

record rag =
  rg_max_docs :: nat
  rg_hashes :: "string list"

record rag_bundle =
  rb_documents :: "json_obj list"
  rb_blocked :: nat
  rb_categories :: "string list"
  rb_execution_forbidden :: bool
  rb_can_execute :: bool

record rag_lib =
  rl_sha256 :: "string \<Rightarrow> string"
  rl_str :: "json \<Rightarrow> string"
  rl_member :: "source_category \<Rightarrow> string"

definition record_hash :: "rag_lib \<Rightarrow> intel_record \<Rightarrow> string" where
  "record_hash lib r = rl_sha256 lib (rl_member lib (ir_type r) @ '':'' @ ir_provenance r @ '':'' @ text_of_json (rl_str lib) (ir_content r))"

definition rag_document :: "string \<Rightarrow> intel_record \<Rightarrow> json_obj" where
  "rag_document t r = dput ''content'' (JStr t) (to_context_dict r)
     @ [(''trusted'', JBool False), (''can_execute_trades'', JBool False), (''can_override_risk'', JBool False)]"

text \<open>The loop over the records: documents so far, blocked so far, hashes so far.\<close>

fun rag_loop ::
  "rag_lib \<Rightarrow> nat \<Rightarrow> intel_record list \<Rightarrow> json_obj list \<Rightarrow> nat \<Rightarrow> string list \<Rightarrow> json_obj list \<times> nat \<times> string list" where
  "rag_loop lib n [] docs k hs = (docs, k, hs)"
| "rag_loop lib n (r # rs) docs k hs =
     (if ir_status r \<noteq> ''AVAILABLE'' \<or> record_hash lib r \<in> set hs then rag_loop lib n rs docs k hs
      else let t = text_of_json (rl_str lib) (ir_content r);
               k1 = (if detect_injection t then k + 1 else k);
               docs1 = docs @ [rag_document (sanitize_text t) r]; hs1 = record_hash lib r # hs
           in if n \<le> length docs1 then (docs1, k1, hs1) else rag_loop lib n rs docs1 k1 hs1)"

definition rag_build :: "rag_lib \<Rightarrow> (string list \<Rightarrow> string list) \<Rightarrow> intel_record list \<Rightarrow> rag \<Rightarrow> rag \<times> rag_bundle" where
  "rag_build lib sorted_set rs g = (case rag_loop lib (rg_max_docs g) rs [] 0 (rg_hashes g) of (docs, k, hs) \<Rightarrow>
     (g\<lparr>rg_hashes := hs\<rparr>,
      \<lparr>rb_documents = docs, rb_blocked = k,
       rb_categories = sorted_set (map (\<lambda>d. text_of_json (rl_str lib) (opt_default (dget d ''source_type'') JNull)) docs),
       rb_execution_forbidden = True, rb_can_execute = False\<rparr>))"

definition assert_not_executable :: "rag_bundle \<Rightarrow> unit res" where
  "assert_not_executable b = (if \<not> rb_execution_forbidden b then Inl (RuntimeError ''RAG bundle must mark execution_forbidden'')
     else if rb_can_execute b then Inl (RuntimeError ''RAG must never execute trades'') else Inr ())"

section \<open>The language of a pattern\<close>

fun token_lang :: "token \<Rightarrow> string \<Rightarrow> bool" where
  "token_lang (Word w) x \<longleftrightarrow> py_lower x = w"
| "token_lang Blanks x \<longleftrightarrow> x \<noteq> [] \<and> list_all is_space x"
| "token_lang Blanks_Opt x \<longleftrightarrow> list_all is_space x"
| "token_lang (Maybe w) x \<longleftrightarrow> x = [] \<or> (\<exists>y z. x = y @ z \<and> py_lower y = w \<and> z \<noteq> [] \<and> list_all is_space z)"
| "token_lang (One_Of ws) x \<longleftrightarrow> py_lower x \<in> set ws"

fun lang :: "token list \<Rightarrow> string \<Rightarrow> bool" where
  "lang [] x \<longleftrightarrow> x = []"
| "lang (t # ts) x \<longleftrightarrow> (\<exists>y z. x = y @ z \<and> token_lang t y \<and> lang ts z)"

lemma word_rest_iff: "r \<in> set (word_rest w s) \<longleftrightarrow> (\<exists>x. s = x @ r \<and> py_lower x = w)"
proof
  assume "r \<in> set (word_rest w s)"
  then have "s = take (length w) s @ r" "py_lower (take (length w) s) = w"
    by (auto simp: word_rest_def py_startswith_def py_lower_def take_map split: if_splits)
  then show "\<exists>x. s = x @ r \<and> py_lower x = w" by blast
qed (auto simp: word_rest_def py_startswith_def py_lower_def)

lemma blank_rests_iff: "r \<in> set (blank_rests s) \<longleftrightarrow> (\<exists>x. s = x @ r \<and> list_all is_space x)"
proof (induction s)
  case (Cons c s)
  have "(\<exists>x. c # s = x @ r \<and> list_all is_space x) \<longleftrightarrow> r = c # s \<or> is_space c \<and> (\<exists>x. s = x @ r \<and> list_all is_space x)"
    by (auto simp: Cons_eq_append_conv)
  then show ?case using Cons by auto
qed auto

lemma some_blanks_iff: "r \<in> set (some_blanks s) \<longleftrightarrow> (\<exists>x. s = x @ r \<and> x \<noteq> [] \<and> list_all is_space x)"
proof (cases s)
  case (Cons c t)
  have "(\<exists>x. c # t = x @ r \<and> x \<noteq> [] \<and> list_all is_space x) \<longleftrightarrow> is_space c \<and> (\<exists>x. t = x @ r \<and> list_all is_space x)"
    by (auto simp: Cons_eq_append_conv)
  then show ?thesis by (simp add: Cons some_blanks_def blank_rests_iff)
qed (simp add: some_blanks_def)

lemma ex_append: "(\<exists>x. s = x @ r \<and> (\<exists>y z. x = y @ z \<and> P y z)) \<longleftrightarrow> (\<exists>y z. s = y @ z @ r \<and> P y z)"
proof -
  have "s = (y @ z) @ r \<longleftrightarrow> s = y @ z @ r" for y z by simp
  then show ?thesis by blast
qed

lemma token_rests_iff: "r \<in> set (token_rests t s) \<longleftrightarrow> (\<exists>x. s = x @ r \<and> token_lang t x)"
proof (cases t)
  case (Maybe w)
  have "(\<exists>x. s = x @ r \<and> token_lang t x) \<longleftrightarrow>
      r = s \<or> (\<exists>x. s = x @ r \<and> (\<exists>y z. x = y @ z \<and> py_lower y = w \<and> z \<noteq> [] \<and> list_all is_space z))"
    unfolding Maybe token_lang.simps by auto
  then have "(\<exists>x. s = x @ r \<and> token_lang t x) \<longleftrightarrow>
      r = s \<or> (\<exists>y z. s = y @ z @ r \<and> py_lower y = w \<and> z \<noteq> [] \<and> list_all is_space z)"
    unfolding ex_append .
  moreover have "r \<in> set (token_rests t s) \<longleftrightarrow> r = s \<or> (\<exists>y z. s = y @ z @ r \<and> py_lower y = w \<and> z \<noteq> [] \<and> list_all is_space z)"
  proof -
    have "r \<in> set (token_rests t s) \<longleftrightarrow> r = s \<or> (\<exists>u. u \<in> set (word_rest w s) \<and> r \<in> set (some_blanks u))"
      by (auto simp: Maybe)
    then show ?thesis unfolding word_rest_iff some_blanks_iff by blast
  qed
  ultimately show ?thesis by blast
qed (auto simp: word_rest_iff blank_rests_iff some_blanks_iff)

lemma rests_iff: "r \<in> set (rests p s) \<longleftrightarrow> (\<exists>x. s = x @ r \<and> lang p x)"
proof (induction p arbitrary: s)
  case (Cons t ts)
  have "(\<exists>x. s = x @ r \<and> lang (t # ts) x) \<longleftrightarrow> (\<exists>y z. s = y @ z @ r \<and> token_lang t y \<and> lang ts z)"
    unfolding lang.simps by (rule ex_append)
  then show ?case using Cons by (auto simp: token_rests_iff)
qed auto

lemma rests_Nil_iff: "rests p s = [] \<longleftrightarrow> (\<forall>x r. s = x @ r \<longrightarrow> \<not> lang p x)"
  using rests_iff [of _ p s] by (metis list.set_intros(1) list.set(1) empty_iff neq_Nil_conv)

lemma search_iff: "search p s \<longleftrightarrow> (\<exists>a x b. s = a @ x @ b \<and> lang p x)"
proof (induction s)
  case (Cons c s)
  have "(\<exists>a x b. c # s = a @ x @ b \<and> lang p x) \<longleftrightarrow> (\<exists>x b. c # s = x @ b \<and> lang p x) \<or> (\<exists>a x b. s = a @ x @ b \<and> lang p x)"
    (is "?l \<longleftrightarrow> ?r")
  proof
    assume ?l
    then obtain a x b where "c # s = a @ x @ b" "lang p x" by blast
    then show ?r by (cases a) auto
  next
    assume ?r
    then show ?l by (metis append_Cons append_Nil)
  qed
  then show ?case using Cons rests_Nil_iff [of p "c # s"] by auto
qed (auto simp: rests_Nil_iff)

lemma search_mono: "search p s \<Longrightarrow> search p (a @ s @ b)"
  unfolding search_iff by (metis append.assoc)

section \<open>Replacing leaves no instruction\<close>

text \<open>What the proof needs of a pattern: no match is empty or contains a bracket.\<close>

definition separators :: "char set" where
  "separators = {CHR ''['', CHR '']'', CHR ''<'', CHR ''>''}"

definition separated :: "token list \<Rightarrow> bool" where
  "separated p \<longleftrightarrow> (\<forall>x. lang p x \<longrightarrow> x \<noteq> [] \<and> set x \<inter> separators = {})"

lemma search_separator:
  assumes "separated p" and "c \<in> separators"
  shows "search p (u @ c # v) \<longleftrightarrow> search p u \<or> search p v"
proof
  assume "search p (u @ c # v)"
  then obtain a x b where m: "u @ c # v = a @ x @ b" "lang p x" unfolding search_iff by blast
  with assms have "c \<notin> set x" by (auto simp: separated_def)
  let ?n = "length u"
  have at: "(a @ x @ b) ! ?n = c" using m(1) by (metis nth_append_length)
  consider "length (a @ x) \<le> ?n" | "?n < length a" | "length a \<le> ?n" "?n < length (a @ x)" by linarith
  then show "search p u \<or> search p v"
  proof cases
    case 1
    have "u = take ?n (a @ x @ b)" using m(1) by (metis append_eq_conv_conj)
    also have "\<dots> = a @ x @ take (?n - length (a @ x)) b" using 1 by simp
    finally show ?thesis using m(2) unfolding search_iff by blast
  next
    case 2
    have "v = drop (Suc ?n) (a @ x @ b)" by (simp flip: m(1))
    also have "\<dots> = drop (Suc ?n) a @ x @ b" using 2 by simp
    finally show ?thesis using m(2) unfolding search_iff by blast
  next
    case 3
    then have inside: "?n - length a < length x" by simp
    then have "(a @ x @ b) ! ?n = x ! (?n - length a)" using 3 by (simp add: nth_append)
    then have "c \<in> set x" using inside at nth_mem by metis
    then show ?thesis using \<open>c \<notin> set x\<close> by simp
  qed
next
  assume "search p u \<or> search p v"
  then show "search p (u @ c # v)"
    using search_mono [of p u "[]" "c # v"] search_mono [of p v "u @ [c]" "[]"] by auto
qed

fun token_plain :: "token \<Rightarrow> bool" where
  "token_plain (Word w) \<longleftrightarrow> list_all (\<lambda>c. c \<notin> separators) w"
| "token_plain (Maybe w) \<longleftrightarrow> list_all (\<lambda>c. c \<notin> separators) w"
| "token_plain (One_Of ws) \<longleftrightarrow> list_all (list_all (\<lambda>c. c \<notin> separators)) ws"
| "token_plain _ \<longleftrightarrow> True"

fun plain :: "token list \<Rightarrow> bool" where
  "plain (Word w # ts) \<longleftrightarrow> w \<noteq> [] \<and> list_all token_plain (Word w # ts)"
| "plain _ \<longleftrightarrow> False"

lemma separator_lower: "c \<in> separators \<Longrightarrow> char_lower c = c \<and> \<not> is_space c"
  by (auto simp: separators_def is_space_def)

lemma lower_plain: "list_all (\<lambda>c. c \<notin> separators) (py_lower x) \<Longrightarrow> set x \<inter> separators = {}"
  using separator_lower by (force simp: py_lower_def list_all_iff)

lemma blanks_plain: "list_all is_space x \<Longrightarrow> set x \<inter> separators = {}"
  using separator_lower by (auto simp: list_all_iff)

lemma token_lang_plain: "token_plain t \<Longrightarrow> token_lang t x \<Longrightarrow> set x \<inter> separators = {}"
proof (cases t)
  case (Maybe w)
  assume "token_plain t" "token_lang t x"
  then consider "x = []" | y z where "x = y @ z" "list_all (\<lambda>c. c \<notin> separators) (py_lower y)" "list_all is_space z"
    unfolding Maybe by auto
  then show ?thesis using lower_plain blanks_plain by cases auto
next
  case (One_Of ws)
  then show "token_plain t \<Longrightarrow> token_lang t x \<Longrightarrow> ?thesis" by (auto simp: list_all_iff intro!: lower_plain)
qed (auto simp: lower_plain blanks_plain)

lemma lang_plain: "list_all token_plain p \<Longrightarrow> lang p x \<Longrightarrow> set x \<inter> separators = {}"
proof (induction p arbitrary: x)
  case (Cons t ts)
  then obtain y z where "x = y @ z" "token_lang t y" "lang ts z" by auto
  then show ?case using Cons token_lang_plain [of t y] by auto
qed simp

lemma plain_separated: "plain p \<Longrightarrow> separated p"
proof (cases p rule: plain.cases)
  case (1 w ts)
  assume plain: "plain p"
  have "x \<noteq> []" if "lang p x" for x
    using plain that unfolding 1 by (auto simp: py_lower_def)
  then show ?thesis using plain lang_plain [of p] unfolding 1 separated_def by auto
qed auto

lemma injection_separated: "p \<in> set injection_patterns \<Longrightarrow> separated p"
  by (rule plain_separated) (auto simp: injection_patterns_def separators_def)

lemma markers_checked:
  "list_all (\<lambda>p. list_all (\<lambda>s. \<not> search p s) [''BLOCKED_INSTRUCTION'', ''UNTRUSTED_EVIDENCE'', ''/UNTRUSTED_EVIDENCE'']) injection_patterns"
  by code_simp

lemma markers_clean:
  "p \<in> set injection_patterns \<Longrightarrow> \<not> search p ''BLOCKED_INSTRUCTION'' \<and> \<not> search p ''UNTRUSTED_EVIDENCE'' \<and> \<not> search p ''/UNTRUSTED_EVIDENCE''"
  using markers_checked by (simp add: list_all_iff del: search.simps)

declare search.simps [simp del]

text \<open>Replacing one pattern makes no match of another.\<close>

lemma search_blocked:
  assumes "separated q" and "\<not> search q ''BLOCKED_INSTRUCTION''"
  shows "search q (u @ blocked @ v) \<longleftrightarrow> search q u \<or> search q v"
proof -
  have sep: "CHR ''['' \<in> separators" "CHR '']'' \<in> separators" by (simp_all add: separators_def)
  have "search q (u @ CHR ''['' # (w @ CHR '']'' # v)) \<longleftrightarrow> search q u \<or> search q w \<or> search q v" for w
    unfolding search_separator [OF assms(1) sep(1)] search_separator [OF assms(1) sep(2)] ..
  from this [of "''BLOCKED_INSTRUCTION''"] show ?thesis using assms(2) by (simp add: blocked_def)
qed

lemma shorter_rests_in: "shorter_rests p s = u # us \<Longrightarrow> u \<in> set (rests p s)"
proof -
  assume "shorter_rests p s = u # us"
  then have "u \<in> set (shorter_rests p s)" by simp
  then show "u \<in> set (rests p s)" by (simp add: shorter_rests_def)
qed

lemma substitute_Nil [simp]: "substitute p r [] = []"
  by (simp add: substitute.simps)

lemma substitute_keeps_clean:
  assumes "separated q" and "\<not> search q ''BLOCKED_INSTRUCTION''"
  shows "\<not> search q (x @ s) \<Longrightarrow> \<not> search q (x @ substitute p blocked s)"
proof (induction "length s" arbitrary: s x rule: less_induct)
  case less
  show ?case
  proof (cases s)
    case (Cons c t)
    show ?thesis
    proof (cases "shorter_rests p s")
      case Nil
      then show ?thesis using less.hyps [of t "x @ [c]"] less.prems by (subst substitute.simps) (simp add: Cons)
    next
      case (Cons u us)
      have "u \<in> set (rests p s)" using Cons by (rule shorter_rests_in)
      then obtain y where y: "s = y @ u" by (auto simp: rests_iff)
      have "\<not> search q u" using less.prems search_mono [of q u "x @ y" "[]"] by (auto simp: y)
      moreover have "\<not> search q x" using less.prems search_mono [of q x "[]" s] by auto
      moreover have "substitute p blocked s = blocked @ substitute p blocked u"
        using Cons \<open>s = c # t\<close> by (subst substitute.simps) simp
      ultimately show ?thesis
        using search_blocked [OF assms] less.hyps [of u "[]"] shorter_rests_shorter [OF Cons] by (simp)
    qed
  qed (use less.prems in simp)
qed

text \<open>After replacing a pattern it is gone.\<close>

lemma substitute_removes:
  assumes "separated p" and "\<not> search p ''BLOCKED_INSTRUCTION''"
  shows "\<forall>i < length x. rests p (drop i (x @ s)) = [] \<Longrightarrow> \<not> search p (x @ substitute p blocked s)"
proof (induction "length s" arbitrary: s x rule: less_induct)
  case less
  have clean: "\<not> search p x"
  proof
    assume "search p x"
    then obtain a y b where "x = a @ y @ b" "lang p y" unfolding search_iff by blast
    moreover then have "y \<noteq> []" using assms(1) by (auto simp: separated_def)
    ultimately have "length a < length x" "drop (length a) (x @ s) = y @ (b @ s)" by simp_all
    then show False using less.prems \<open>lang p y\<close> rests_Nil_iff by metis
  qed
  show ?case
  proof (cases s)
    case (Cons c t)
    show ?thesis
    proof (cases "shorter_rests p s")
      case Nil
      have "rests p s = []"
      proof (rule ccontr)
        assume "rests p s \<noteq> []"
        then obtain r where r: "r \<in> set (rests p s)" by (cases "rests p s") auto
        then obtain y where "s = y @ r" "lang p y" by (auto simp: rests_iff)
        then have "length r < length s" using assms(1) by (auto simp: separated_def)
        then have "r \<in> set (shorter_rests p s)" using r by (simp add: shorter_rests_def)
        then show False using Nil by simp
      qed
      then have "\<forall>i < length (x @ [c]). rests p (drop i ((x @ [c]) @ t)) = []"
        using less.prems Cons by (auto simp: less_Suc_eq)
      then show ?thesis using less.hyps [of t "x @ [c]"] Nil by (subst substitute.simps) (simp add: Cons)
    next
      case (Cons u us)
      have "substitute p blocked s = blocked @ substitute p blocked u"
        using Cons \<open>s = c # t\<close> by (subst substitute.simps) simp
      then show ?thesis
        using search_blocked [OF assms] clean less.hyps [of u "[]"] shorter_rests_shorter [OF Cons] by (simp)
    qed
  qed (use clean in simp)
qed

lemma clean_text_aux:
  "set qs \<subseteq> set injection_patterns \<Longrightarrow> set ps \<subseteq> set injection_patterns \<Longrightarrow> \<forall>q\<in>set qs. \<not> search q t
   \<Longrightarrow> \<forall>q\<in>set qs \<union> set ps. \<not> search q (foldl (\<lambda>s p. substitute p blocked s) t ps)"
proof (induction ps arbitrary: qs t)
  case (Cons p ps)
  have "\<not> search q (substitute p blocked t)" if "q \<in> set (p # qs)" for q
  proof (cases "q = p")
    case True
    then show ?thesis
      using substitute_removes [of p "[]" t] Cons.prems(2) injection_separated markers_clean by simp
  next
    case False
    then show ?thesis
      using substitute_keeps_clean [of q "[]" t p] Cons.prems that injection_separated markers_clean by auto
  qed
  then show ?case using Cons.IH [of "p # qs" "substitute p blocked t"] Cons.prems(1,2) by auto
qed simp

lemma sanitize_text_clean: "\<not> detect_injection (sanitize_text t)"
proof -
  have "\<not> search p (sanitize_text t)" if p: "p \<in> set injection_patterns" for p
  proof -
    have sep: "CHR ''<'' \<in> separators" "CHR ''>'' \<in> separators" by (simp_all add: separators_def)
    have "sanitize_text t = [] @ CHR ''<'' # (''UNTRUSTED_EVIDENCE'' @ CHR ''>'' # (clean_text t @ CHR ''<'' # (''/UNTRUSTED_EVIDENCE'' @ CHR ''>'' # [])))"
      by (simp add: sanitize_text_def)
    moreover have "\<not> search p (clean_text t)"
      using clean_text_aux [of "[]" injection_patterns t] p by (simp add: clean_text_def)
    moreover have "\<not> search p []" using markers_clean [OF p] search_mono [of p "[]" "[]"] by auto
    ultimately show ?thesis
      using markers_clean [OF p] by (simp only: search_separator [OF injection_separated [OF p] sep(1)]
          search_separator [OF injection_separated [OF p] sep(2)] not_False_eq_True simp_thms)
  qed
  then show ?thesis by (auto simp: detect_injection_def list_ex_iff)
qed

lemma rag_loop_documents:
  "rag_loop lib n rs docs k hs = (docs', k', hs') \<Longrightarrow> set hs \<subseteq> set hs'
   \<and> (\<exists>new. docs' = docs @ new \<and> length new \<le> max 1 (n - length docs)
      \<and> (\<forall>d\<in>set new. \<exists>r\<in>set rs. \<exists>t. ir_status r = ''AVAILABLE'' \<and> d = rag_document (sanitize_text t) r
           \<and> record_hash lib r \<notin> set hs \<and> record_hash lib r \<in> set hs'))"
proof (induction rs arbitrary: docs k hs)
  case (Cons r rs)
  let ?t = "text_of_json (rl_str lib) (ir_content r)"
  let ?doc = "rag_document (sanitize_text ?t) r" and ?k = "if detect_injection ?t then k + 1 else k"
  consider (skip) "ir_status r \<noteq> ''AVAILABLE'' \<or> record_hash lib r \<in> set hs"
    | (full) "ir_status r = ''AVAILABLE''" "record_hash lib r \<notin> set hs" "n \<le> length docs + 1"
    | (more) "ir_status r = ''AVAILABLE''" "record_hash lib r \<notin> set hs" "length docs + 1 < n" by linarith
  then show ?case
  proof cases
    case skip
    then have "rag_loop lib n rs docs k hs = (docs', k', hs')" using Cons.prems by auto
    then show ?thesis using Cons.IH by fastforce
  next
    case full
    then have "docs' = docs @ [?doc]" "hs' = record_hash lib r # hs" using Cons.prems by (auto simp: Let_def)
    then show ?thesis using full by auto
  next
    case more
    then have "rag_loop lib n rs (docs @ [?doc]) ?k (record_hash lib r # hs) = (docs', k', hs')"
      using Cons.prems by (simp add: Let_def)
    from Cons.IH [OF this] obtain new where new: "set (record_hash lib r # hs) \<subseteq> set hs'" "docs' = (docs @ [?doc]) @ new"
        "length new \<le> max 1 (n - length (docs @ [?doc]))"
        "\<forall>d\<in>set new. \<exists>r'\<in>set rs. \<exists>t. ir_status r' = ''AVAILABLE'' \<and> d = rag_document (sanitize_text t) r'
           \<and> record_hash lib r' \<notin> set (record_hash lib r # hs) \<and> record_hash lib r' \<in> set hs'"
      by blast
    have "docs' = docs @ (?doc # new)" "length (?doc # new) \<le> max 1 (n - length docs)" using new(2,3) more(3) by auto
    moreover have "\<forall>d\<in>set (?doc # new). \<exists>r'\<in>set (r # rs). \<exists>t. ir_status r' = ''AVAILABLE'' \<and> d = rag_document (sanitize_text t) r'
           \<and> record_hash lib r' \<notin> set hs \<and> record_hash lib r' \<in> set hs'"
      using new(1,4) more(1,2) by fastforce
    ultimately show ?thesis using new(1) by auto
  qed
qed auto


definition demo_rag_lib :: rag_lib where
  "demo_rag_lib = \<lparr>rl_sha256 = id, rl_str = (\<lambda>j. []), rl_member = category_value\<rparr>"

definition demo_news :: intel_record where
  "demo_news = \<lparr>ir_id = ''1'', ir_type = NEWS, ir_stamp = [], ir_data_stamp = None, ir_freshness = None, ir_confidence = Fin 1,
     ir_provenance = ''p'', ir_content = JStr ''a Submit  ORDER b'', ir_metadata = [], ir_status = ''AVAILABLE''\<rparr>"

lemma demo_clean: "sanitize_text ''a Submit  ORDER b'' = ''<UNTRUSTED_EVIDENCE>a [BLOCKED_INSTRUCTION] b</UNTRUSTED_EVIDENCE>''"
  by code_simp


text \<open>The metadata of a record pass as they are: an instruction placed there is not blocked.\<close>

lemma metadata_not_cleaned: "dget (rag_document t r) ''metadata'' = Some (JObj (ir_metadata r))"
  by (simp add: rag_document_def to_context_dict_def)

end
