(* ===== verification/Paper_Tools.thy ===== *)
theory Paper_Tools
  imports Deployment Prediction
begin

text \<open>
  \<open>mcp_tools/paper.py\<close> with its entry in \<open>server.py\<close>, the estimate of a swap in \<open>server.py\<close>, \<open>paper/replay.py\<close> and the
  commands \<open>paper run\<close>, \<open>paper replay\<close> and \<open>paper predict\<close> of \<open>cli/trader.py\<close>: the ways in which a user reaches the paper
  engine.  Validation of a plan's dictionary, run identifiers, and hashes are parameters; what only prints is left out.
\<close>

section \<open>Trading by tool\<close>

text \<open>The exchange made first is dropped; only its exceptions matter.\<close>

definition paper_execute_trade ::
  "(string \<Rightarrow> string) \<Rightarrow> (pyfloat \<Rightarrow> string) \<Rightarrow> (pyfloat \<Rightarrow> pyfloat) \<Rightarrow> (pyfloat \<Rightarrow> string) \<Rightarrow> string option \<Rightarrow> string \<Rightarrow> settings
   \<Rightarrow> trade_plan res \<Rightarrow> string \<Rightarrow> pyfloat \<Rightarrow> paper_engine \<Rightarrow> paper_engine \<times> engine_result res" where
  "paper_execute_trade h16 f10 half f3 stop run_id se plan asset price e =
     (if se_trading_mode se \<noteq> ''paper'' then (e, Inr (no_execution [Text ''TRADING_MODE_NOT_PAPER'']))
      else if se_live_enabled se then (e, Inr (no_execution [Text ''LIVE_TRADING_ENABLED_BLOCKED'']))
      else case create_exchange se False False (Some ''paper'') of
        Inl (LiveExecutionBlocked m) \<Rightarrow> (e, Inr (no_execution [Text ''LIVE_ADAPTER_BLOCKED'']))
      | Inl err \<Rightarrow> (e, Inl err)
      | Inr _ \<Rightarrow> (case plan of
          Inl err \<Rightarrow> (e, Inl err)
        | Inr p \<Rightarrow> execute_approved_plan h16 f10 half f3 stop run_id p price asset [] False e))"

text \<open>The tool of the server checks the settings once more before it calls the surface.\<close>

definition server_execute_trade ::
  "(string \<Rightarrow> string) \<Rightarrow> (pyfloat \<Rightarrow> string) \<Rightarrow> (pyfloat \<Rightarrow> pyfloat) \<Rightarrow> (pyfloat \<Rightarrow> string) \<Rightarrow> string option \<Rightarrow> string \<Rightarrow> settings
   \<Rightarrow> trade_plan res \<Rightarrow> string \<Rightarrow> pyfloat \<Rightarrow> paper_engine \<Rightarrow> paper_engine \<times> engine_result res" where
  "server_execute_trade h16 f10 half f3 stop run_id se plan asset price e =
     (if se_trading_mode se \<noteq> ''paper'' then (e, Inr (no_execution [Text ''TRADING_MODE_NOT_PAPER'']))
      else if se_live_enabled se then (e, Inr (no_execution [Text ''LIVE_TRADING_ENABLED_BLOCKED'']))
      else paper_execute_trade h16 f10 half f3 stop run_id se plan asset price e)"

definition validate_trade_tool :: "settings \<Rightarrow> bool \<times> string" where
  "validate_trade_tool se = (if paper_only se then (True, ''VALIDATION_OK'') else (False, ''PAPER_MODE_REQUIRED''))"

definition propose_trade_tool :: "json_obj \<Rightarrow> json_obj" where
  "propose_trade_tool plan = [(''plan'', JObj plan), (''note'', JStr ''Use validate_trade / run_paper_trade''), (''TRADING_MODE'', JStr ''PAPER'')]"

definition trade_status_tool :: "string \<Rightarrow> paper_engine \<Rightarrow> order res" where
  "trade_status_tool oid e = get_order (en_exchange e) oid"

definition paper_orders_tool :: "paper_engine \<Rightarrow> order list" where
  "paper_orders_tool e = map snd (get_open_orders (en_exchange e) None)"

text \<open>A tool changes the engine only by executing a valid plan, in paper mode with live trading off.\<close>

lemma paper_exchange_found [simp]: "create_exchange se s r (Some ''paper'') = Inr Paper_Adapter"
  by (simp add: create_exchange_def opt_truthy_def opt_default_def py_lower_def py_strip_def is_space_def)

lemma server_tool_guard:
  assumes "server_execute_trade h f half f3 stop run_id se plan asset price e = (e', r)" and "e' \<noteq> e"
  shows "paper_only se \<and> (\<exists>p. plan = Inr p \<and> execute_approved_plan h f half f3 stop run_id p price asset [] False e = (e', r))"
  using assms by (cases plan) (auto simp: server_execute_trade_def paper_execute_trade_def paper_only_def split: if_splits)

section \<open>The estimate of a swap\<close>

record swap_estimate =
  sw_gross_cost :: pyfloat
  sw_net_proceeds :: pyfloat
  sw_total_fees :: pyfloat
  sw_profit :: pyfloat
  sw_profit_percent :: pyfloat

definition percent_of :: "pyfloat \<Rightarrow> pyfloat \<Rightarrow> pyfloat" where
  "percent_of x p = fmul x (fquot p (Fin 100))"

definition swap_figures :: "pyfloat \<Rightarrow> pyfloat \<Rightarrow> pyfloat \<Rightarrow> pyfloat \<Rightarrow> pyfloat \<Rightarrow> pyfloat \<Rightarrow> swap_estimate" where
  "swap_figures amount entry exit entry_fee exit_fee network =
     (let gross_cost = fmul amount entry; entry_usd = percent_of gross_cost entry_fee;
          gross_proceeds = fmul amount exit; exit_usd = percent_of gross_proceeds exit_fee;
          cost = fadd (fadd gross_cost entry_usd) network; proceeds = fsub gross_proceeds exit_usd;
          profit = fsub proceeds cost
      in \<lparr>sw_gross_cost = pyround gross_cost 2, sw_net_proceeds = pyround proceeds 2,
          sw_total_fees = pyround (fadd (fadd entry_usd exit_usd) network) 2, sw_profit = pyround profit 2,
          sw_profit_percent = pyround (if cost \<noteq> Fin 0 then fmul (fquot profit cost) (Fin 100) else Fin 0) 2\<rparr>)"

definition estimate_swap_profit ::
  "pyfloat \<Rightarrow> pyfloat \<Rightarrow> pyfloat \<Rightarrow> pyfloat \<Rightarrow> pyfloat \<Rightarrow> pyfloat \<Rightarrow> swap_estimate res" where
  "estimate_swap_profit amount entry exit entry_fee exit_fee network =
     (if list_ex (\<lambda>v. flt v (Fin 0)) [amount, entry, exit, entry_fee, exit_fee, network]
      then Inl (ValueError ''Amounts, prices, and fees must be zero or greater.'')
      else if entry = Fin 0 then Inl (ValueError ''entry_price_usd must be greater than zero.'')
      else if fle (Fin 100) entry_fee \<or> fle (Fin 100) exit_fee then Inl (ValueError ''Percentage fees must be below 100.'')
      else Inr (swap_figures amount entry exit entry_fee exit_fee network))"

text \<open>The test for negative values lets a value through that is no number.\<close>

lemma swap_accepts_nan: "\<exists>r. estimate_swap_profit NaN (Fin 1) (Fin 1) (Fin 0) (Fin 0) (Fin 0) = Inr r"
  by (simp add: estimate_swap_profit_def)

section \<open>Feeding candles\<close>

record replay_candle =
  rc_symbol :: string
  rc_open :: pyfloat
  rc_high :: pyfloat
  rc_low :: pyfloat
  rc_close :: pyfloat
  rc_volume :: pyfloat

fun feed_prices ::
  "(string \<Rightarrow> string) \<Rightarrow> (pyfloat \<Rightarrow> string) \<Rightarrow> string \<Rightarrow> pyfloat list \<Rightarrow> paper_engine \<Rightarrow> paper_engine \<times> unit res" where
  "feed_prices h16 f10 sy [] e = (e, Inr ())"
| "feed_prices h16 f10 sy (px # pxs) e = (case on_price_update h16 f10 (en_exchange e) sy px of
     (ex, Inl err) \<Rightarrow> (e\<lparr>en_exchange := ex\<rparr>, Inl err)
   | (ex, Inr _) \<Rightarrow> feed_prices h16 f10 sy pxs (e\<lparr>en_exchange := ex\<rparr>))"

definition feed_candle :: "(string \<Rightarrow> string) \<Rightarrow> (pyfloat \<Rightarrow> string) \<Rightarrow> replay_candle \<Rightarrow> paper_engine \<Rightarrow> paper_engine \<times> unit res" where
  "feed_candle h16 f10 c e = feed_prices h16 f10 (py_upper (rc_symbol c)) [rc_open c, rc_high c, rc_low c, rc_close c] e"

fun feed_many :: "(string \<Rightarrow> string) \<Rightarrow> (pyfloat \<Rightarrow> string) \<Rightarrow> replay_candle list \<Rightarrow> paper_engine \<Rightarrow> paper_engine \<times> unit res" where
  "feed_many h16 f10 [] e = (e, Inr ())"
| "feed_many h16 f10 (c # cs) e = (case feed_candle h16 f10 c e of
     (e1, Inl err) \<Rightarrow> (e1, Inl err) | (e1, Inr _) \<Rightarrow> feed_many h16 f10 cs e1)"

section \<open>Replaying a tape\<close>

record structural =
  sr_fill_count :: nat
  sr_order_count :: nat
  sr_cash :: pyfloat
  sr_equity :: pyfloat
  sr_realized :: pyfloat
  sr_fees :: pyfloat

definition structural_of :: "exchange \<Rightarrow> portfolio_snapshot \<Rightarrow> structural" where
  "structural_of ex sn = \<lparr>sr_fill_count = length (ex_fills ex), sr_order_count = length (ex_orders ex),
     sr_cash = pyround (sn_cash sn) 8, sr_equity = pyround (sn_equity sn) 8,
     sr_realized = pyround (sn_realized_pnl sn) 8, sr_fees = pyround (sn_fees sn) 8\<rparr>"

fun replay_prices ::
  "(string \<Rightarrow> string) \<Rightarrow> (pyfloat \<Rightarrow> string) \<Rightarrow> (string \<times> pyfloat) list \<Rightarrow> paper_engine \<Rightarrow> paper_engine \<times> unit res" where
  "replay_prices h16 f10 [] e = (e, Inr ())"
| "replay_prices h16 f10 ((sy, px) # ps) e =
     (case feed_prices h16 f10 sy [px] (e\<lparr>en_exchange := set_price (en_exchange e) sy px\<rparr>) of
        (e1, Inl err) \<Rightarrow> (e1, Inl err) | (e1, Inr _) \<Rightarrow> replay_prices h16 f10 ps e1)"

text \<open>\<open>uid\<close> gives the identifier of a run.\<close>

fun replay_plans ::
  "(string \<Rightarrow> string) \<Rightarrow> (pyfloat \<Rightarrow> string) \<Rightarrow> (pyfloat \<Rightarrow> pyfloat) \<Rightarrow> (pyfloat \<Rightarrow> string) \<Rightarrow> string option \<Rightarrow> (nat \<Rightarrow> string)
   \<Rightarrow> trade_plan list \<Rightarrow> paper_engine \<Rightarrow> paper_engine \<times> engine_result list res" where
  "replay_plans h16 f10 half f3 stop uid [] e = (e, Inr [])"
| "replay_plans h16 f10 half f3 stop uid (p # ps) e =
     (case execute_approved_plan h16 f10 half f3 stop (uid (length ps)) p
        (opt_default (dget (ex_prices (en_exchange e)) (py_upper (pl_symbol p))) (pl_entry_price p)) ''CRYPTO'' [] False e of
        (e1, Inl err) \<Rightarrow> (e1, Inl err)
      | (e1, Inr r) \<Rightarrow> (case replay_plans h16 f10 half f3 stop uid ps e1 of
          (e2, Inl err) \<Rightarrow> (e2, Inl err) | (e2, Inr rs) \<Rightarrow> (e2, Inr (r # rs))))"

definition replay_ready :: "nat \<Rightarrow> nat \<Rightarrow> pyfloat \<Rightarrow> paper_engine \<Rightarrow> paper_engine" where
  "replay_ready year seq cash e =
     (let e1 = engine_reset year seq e
      in e1\<lparr>en_exchange := (en_exchange e1)\<lparr>ex_portfolio := new_portfolio cash, ex_session_id := ''PAPER_SESSION_REPLAY''\<rparr>\<rparr>)"

definition replay_run ::
  "(string \<Rightarrow> string) \<Rightarrow> (pyfloat \<Rightarrow> string) \<Rightarrow> (pyfloat \<Rightarrow> pyfloat) \<Rightarrow> (pyfloat \<Rightarrow> string) \<Rightarrow> string option \<Rightarrow> (nat \<Rightarrow> string) \<Rightarrow> nat \<Rightarrow> nat
   \<Rightarrow> pyfloat \<Rightarrow> (string \<times> pyfloat) list \<Rightarrow> replay_candle list \<Rightarrow> trade_plan list \<Rightarrow> paper_engine
   \<Rightarrow> paper_engine \<times> (engine_result list \<times> structural) res" where
  "replay_run h16 f10 half f3 stop uid year seq cash prices candles plans e0 =
     (case engine_start stop (replay_ready year seq cash e0) of
        (e1, Inl err) \<Rightarrow> (e1, Inl err)
      | (e1, Inr _) \<Rightarrow> (case replay_prices h16 f10 prices e1 of
          (e2, Inl err) \<Rightarrow> (e2, Inl err)
        | (e2, Inr _) \<Rightarrow> (case feed_many h16 f10 candles e2 of
            (e3, Inl err) \<Rightarrow> (e3, Inl err)
          | (e3, Inr _) \<Rightarrow> (case replay_plans h16 f10 half f3 stop uid plans e3 of
              (e4, Inl err) \<Rightarrow> (e4, Inl err)
            | (e4, Inr rs) \<Rightarrow> (case engine_snapshot e4 of
                (e5, sn) \<Rightarrow> (e5, Inr (rs, structural_of (en_exchange e5) sn)))))))"

section \<open>The command line\<close>

definition etf_symbols :: "string list" where
  "etf_symbols = [''SPY'', ''QQQ'', ''GLD'', ''USO'']"

definition simple_plan :: "string \<Rightarrow> string \<Rightarrow> pyfloat \<Rightarrow> string \<Rightarrow> trade_plan res" where
  "simple_plan symbol side price sid =
     (let is_long = (side = ''LONG'');
          stop = fmul price (if is_long then flit (98 / 100) else flit (102 / 100));
          tp = fmul price (if is_long then flit (108 / 100) else flit (92 / 100));
          qty = (if py_upper symbol \<in> set etf_symbols then Fin 1 else flit (1 / 100))
      in bind_res (fdiv (fabs (fsub tp price)) (fabs (fsub price stop))) (\<lambda>rr.
           Inr \<lparr>pl_strategy_id = sid, pl_strategy_version = ''1.0.0'', pl_model_ids = [''PAPER''], pl_symbol = py_upper symbol,
             pl_side = side, pl_entry_price = price, pl_quantity = qty, pl_notional = fmul qty price,
             pl_stop_loss = Some stop, pl_take_profit = Some tp, pl_risk_amount = fmul (fabs (fsub price stop)) qty,
             pl_expected_fee = fmul (fmul qty price) (flit (1 / 1000)), pl_expected_slippage = flit (5 / 10000),
             pl_risk_reward_ratio = Some rr, pl_confidence = flit (8 / 10), pl_invalidation = [], pl_status = PROPOSED,
             pl_reason = None, pl_move_be_at_1r = (sid = ''multi_model_po3_vwap''), pl_partial_tp_pct = Some (Fin 50)\<rparr>))"

definition cli_paper_run ::
  "(string \<Rightarrow> string) \<Rightarrow> (pyfloat \<Rightarrow> string) \<Rightarrow> (pyfloat \<Rightarrow> pyfloat) \<Rightarrow> (pyfloat \<Rightarrow> string) \<Rightarrow> string option \<Rightarrow> string
   \<Rightarrow> string \<Rightarrow> pyfloat option \<Rightarrow> string \<Rightarrow> paper_engine \<Rightarrow> paper_engine \<times> engine_result res" where
  "cli_paper_run h16 f10 half f3 stop run_id symbol price side e =
     (case engine_start stop e of
        (e1, Inl err) \<Rightarrow> (e1, Inl err)
      | (e1, Inr _) \<Rightarrow>
          (let sy = py_upper symbol; sel = select_strategy e1 sy;
               sid = (if opt_truthy sel then opt_default sel [] else ''multi_model_po3_vwap'');
               px = opt_default price (if sy \<in> set etf_symbols then Fin 100 else Fin 50000);
               e2 = e1\<lparr>en_exchange := set_price (en_exchange e1) sy px\<rparr>
           in case simple_plan sy side px sid of
                Inl err \<Rightarrow> (e2, Inl err)
              | Inr p \<Rightarrow> execute_approved_plan h16 f10 half f3 stop run_id p px
                  (asset_class_value (asset_class_of (en_exchange e2) sy)) [] False e2))"

text \<open>A replay of one plan with the given quantity.\<close>

definition cli_replay_plan :: "string \<Rightarrow> pyfloat \<Rightarrow> pyfloat \<Rightarrow> paper_engine \<Rightarrow> trade_plan res" where
  "cli_replay_plan symbol price qty e =
     (let sel = select_strategy e symbol
      in bind_res (simple_plan symbol ''LONG'' price (if opt_truthy sel then opt_default sel [] else ''momentum_breakout_crypto'')) (\<lambda>p.
           Inr (p\<lparr>pl_quantity := qty, pl_notional := fmul qty price,
             pl_risk_amount := fmul (fabs (fsub price (opt_default (pl_stop_loss p) NaN))) qty\<rparr>)))"

record attribution =
  at_weights :: "(string \<times> pyfloat) list"
  at_predictions :: "(string \<times> pyfloat) list"
  at_ensemble :: pyfloat
  at_market :: pyfloat
  at_edge :: pyfloat

definition cli_attribution :: "pyfloat \<Rightarrow> pyfloat \<Rightarrow> attribution" where
  "cli_attribution model price =
     (let names = [''grok'', ''claude'', ''gpt'', ''gemini'', ''deepseek'']
      in \<lparr>at_weights = map (\<lambda>n. (n, flit (2 / 10))) names, at_predictions = map (\<lambda>n. (n, model)) names,
          at_ensemble = model, at_market = price, at_edge = fsub model price\<rparr>)"

definition cli_contract :: "string \<Rightarrow> pyfloat \<Rightarrow> contract" where
  "cli_contract market price = \<lparr>pc_market_id = market, pc_outcome = ''YES'', pc_price = price, pc_probability = price,
     pc_resolved = False, pc_winning = None\<rparr>"

text \<open>The engine's book trades on the engine's exchange.\<close>

definition cli_paper_predict ::
  "(string \<Rightarrow> string) \<Rightarrow> (pyfloat \<Rightarrow> string) \<Rightarrow> string option \<Rightarrow> string \<Rightarrow> pyfloat \<Rightarrow> pyfloat \<Rightarrow> pyfloat
   \<Rightarrow> paper_engine \<times> attribution prediction_book \<Rightarrow> (paper_engine \<times> attribution prediction_book) \<times> order res" where
  "cli_paper_predict h16 f10 stop market price model qty st = (case st of (e, b) \<Rightarrow>
     (case engine_start stop e of
        (e1, Inl err) \<Rightarrow> ((e1, b), Inl err)
      | (e1, Inr _) \<Rightarrow>
          (let c = cli_contract market price
           in if \<not> contract_valid c then ((e1, b), Inl (ValueError ''PredictionContract''))
              else case buy_contract h16 f10 (contract_symbol c) qty BUY_YES (Some ''prediction_market_ai'')
                     (Some (cli_attribution model price)) (register_market c (b\<lparr>pb_exchange := en_exchange e1\<rparr>)) of
                (b1, r) \<Rightarrow> ((e1\<lparr>en_exchange := pb_exchange b1\<rparr>, b1), r))))"

section \<open>A quiet exchange stays quiet\<close>

definition quiet_venue :: "pyfloat \<Rightarrow> exchange \<Rightarrow> bool" where
  "quiet_venue cash ex \<longleftrightarrow> ex_orders ex = [] \<and> ex_fills ex = [] \<and> ex_trades ex = [] \<and> pf_positions (ex_portfolio ex) = []
     \<and> pf_cash (ex_portfolio ex) = cash"

lemma price_update_idle: "quiet_venue c ex \<Longrightarrow> quiet_venue c (fst (on_price_update h f ex sy px))"
  by (simp add: on_price_update_def quiet_venue_def set_price_def get_open_orders_def manage_open_position_def Let_def)

lemma idle_simps [simp]: "quiet_venue c (set_price ex sy px) = quiet_venue c ex" "quiet_venue c (halt ex r) = quiet_venue c ex"
  by (simp_all add: quiet_venue_def set_price_def halt_def emit_def Let_def)

lemma snapshot_idle: "quiet_venue c (en_exchange e) \<Longrightarrow> quiet_venue c (en_exchange (fst (engine_snapshot e)))"
  by (auto simp: engine_snapshot_def snapshot_def quiet_venue_def mark_all_def Let_def split: prod.splits)

lemma stop_file_idle [simp]: "quiet_venue c (en_exchange (check_stop_file stop e)) = quiet_venue c (en_exchange e)"
  by (simp add: check_stop_file_def split: option.splits)

text \<open>
  What holds all along a replay: the exchange is well formed, a STOP file has tripped the kill switch, and with the kill switch
  on the venue is quiet.
\<close>

definition replay_inv :: "settings \<Rightarrow> string option \<Rightarrow> pyfloat \<Rightarrow> paper_engine \<Rightarrow> bool" where
  "replay_inv se stop c e \<longleftrightarrow> venue_ok e \<and> en_settings e = se \<and> (stop \<noteq> None \<longrightarrow> ks_active (en_kill e))
     \<and> (ks_active (en_kill e) \<longrightarrow> quiet_venue c (en_exchange e))"

definition keeps_inv :: "settings \<Rightarrow> string option \<Rightarrow> pyfloat \<Rightarrow> paper_engine \<Rightarrow> paper_engine \<Rightarrow> bool" where
  "keeps_inv se stop c e e' \<longleftrightarrow> replay_inv se stop c e' \<and> en_kill e' = en_kill e"

lemma keeps_trans: "keeps_inv se stop c e d \<Longrightarrow> keeps_inv se stop c d d' \<Longrightarrow> keeps_inv se stop c e d'"
  by (simp add: keeps_inv_def)

lemma feed_prices_inv: "replay_inv se stop c e \<Longrightarrow> keeps_inv se stop c e (fst (feed_prices h f sy pxs e))"
proof (induction pxs arbitrary: e)
  case (Cons px pxs)
  obtain ex r where u: "on_price_update h f (en_exchange e) sy px = (ex, r)" by fastforce
  have "ex_ok ex" "quiet_venue c (en_exchange e) \<Longrightarrow> quiet_venue c ex"
    using price_update_ok [of "en_exchange e" h f sy px] price_update_idle [of c "en_exchange e" h f sy px] Cons.prems u
    by (simp_all add: replay_inv_def)
  then have "replay_inv se stop c (e\<lparr>en_exchange := ex\<rparr>)" using Cons.prems by (simp add: replay_inv_def)
  with Cons.IH [of "e\<lparr>en_exchange := ex\<rparr>"] show ?case by (simp add: u keeps_inv_def split: sum.splits)
qed (simp add: keeps_inv_def)

lemma feed_many_inv: "replay_inv se stop c e \<Longrightarrow> keeps_inv se stop c e (fst (feed_many h f cs e))"
proof (induction cs arbitrary: e)
  case (Cons a cs)
  obtain e1 r where e1: "feed_candle h f a e = (e1, r)" by fastforce
  have "keeps_inv se stop c e e1" using feed_prices_inv [OF Cons.prems] e1 unfolding feed_candle_def by (metis fst_conv)
  then show ?case using Cons.IH [of e1] e1 Cons.prems by (simp add: keeps_inv_def split: sum.splits)
qed (simp add: keeps_inv_def)

lemma replay_prices_inv: "replay_inv se stop c e \<Longrightarrow> keeps_inv se stop c e (fst (replay_prices h f ps e))"
proof (induction ps arbitrary: e)
  case (Cons p ps)
  obtain sy px where p: "p = (sy, px)" by fastforce
  let ?e = "e\<lparr>en_exchange := set_price (en_exchange e) sy px\<rparr>"
  obtain e1 r where e1: "feed_prices h f sy [px] ?e = (e1, r)" by fastforce
  have "replay_inv se stop c ?e" using Cons.prems set_price_ok by (simp add: replay_inv_def)
  from feed_prices_inv [OF this, of h f sy "[px]"] have "keeps_inv se stop c e e1"
    unfolding e1 by (simp add: keeps_inv_def)
  then show ?case using Cons.IH [of e1] e1 by (simp add: p keeps_inv_def del: feed_prices.simps split: sum.splits)
qed (simp add: keeps_inv_def)

text \<open>Executing a plan leaves the kill switch and the settings alone, a STOP file apart.\<close>

definition same_switch :: "paper_engine \<Rightarrow> paper_engine \<Rightarrow> bool" where
  "same_switch e e' \<longleftrightarrow> en_kill e' = en_kill e \<and> en_settings e' = en_settings e"

lemma same_switch_simps [simp]:
  "same_switch e e" "same_switch e (save_event v e)" "same_switch e (log_decision i p cd rd x e)"
  "same_switch e (e\<lparr>en_exchange := ex\<rparr>)" "same_switch e (fst (engine_snapshot e))" "same_switch e (save_snapshot e)"
  "same_switch e (book_execution p returns e)" "same_switch e (save_order_and_fill ord e)"
  by (simp_all add: same_switch_def save_event_def log_decision_def save_snapshot_def book_execution_def save_order_and_fill_def
      Let_def split: prod.splits) (metis fst_conv snapshot_keeps(1,2))+

lemma same_switch_trans: "same_switch e d \<Longrightarrow> same_switch d d' \<Longrightarrow> same_switch e d'"
  by (simp add: same_switch_def)

lemma after_order_switch: "same_switch e (fst (after_order run_id p asset returns cd rd filled e))"
  unfolding after_order_def Let_def fst_conv
  by (intro same_switch_trans [OF _ same_switch_simps(6)] same_switch_trans [OF _ same_switch_simps(3)])
    (auto intro: same_switch_trans [OF same_switch_simps(8) same_switch_simps(7)])

lemma submit_plan_switch: "same_switch e (fst (submit_plan h f run_id p price asset returns cd rd e))"
proof -
  have after: "same_switch e e3" if "after_order run_id p asset returns cd rd filled d = (e3, r)" "same_switch e d" for filled d e3 r
    using after_order_switch [of d run_id p asset returns cd rd filled] that by (auto intro: same_switch_trans)
  have "same_switch e (save_event v (save_event w e)\<lparr>en_exchange := x\<rparr>)"
      "same_switch e (save_event v (save_event w e)\<lparr>en_exchange := x, en_exchange := y\<rparr>)" for v w x y
    by (simp_all add: same_switch_def save_event_def)
  then show ?thesis by (auto simp: submit_plan_def Let_def intro: after split: sum.splits prod.splits)
qed

lemma risk_gate_switch: "same_switch e (fst (risk_gate h f run_id p price asset returns cd e))"
proof -
  obtain e1 sn where s: "engine_snapshot e = (e1, sn)" by fastforce
  have "same_switch e e1" using same_switch_simps(5) [of e] by (simp add: s)
  moreover have "same_switch e1 (save_event v (log_decision i p cd rd x e1))" for v i cd rd x
    by (rule same_switch_trans [OF same_switch_simps(3) same_switch_simps(2)])
  ultimately show ?thesis using submit_plan_switch by (auto simp: risk_gate_def s Let_def intro: same_switch_trans)
qed

lemma execute_switch: "same_switch (check_stop_file stop e) (fst (execute_approved_plan h f half f3 stop run_id p price asset returns stale e))"
proof -
  have "same_switch d (fst (compliance_gate h f half f3 run_id p price asset returns d))" for d
    using risk_gate_switch by (auto simp: compliance_gate_def Let_def split: sum.splits prod.splits)
  then show ?thesis by (auto simp: execute_approved_plan_def Let_def split: sum.splits)
qed

lemma execute_killed:
  assumes "ks_active (en_kill (check_stop_file stop e))"
  shows "\<exists>rs. execute_approved_plan h f half f3 stop run_id p price asset returns stale e = (check_stop_file stop e, Inr (no_execution rs))"
  unfolding execute_approved_plan_def Let_def using assms by (cases "paper_only (en_settings (check_stop_file stop e))") auto

lemma replay_plan_inv:
  assumes "replay_inv se stop c e"
  shows "replay_inv se stop c (fst (execute_approved_plan h f half f3 stop run_id p price asset [] False e))"
proof (cases "ks_active (en_kill (check_stop_file stop e))")
  case True
  obtain rs where x: "execute_approved_plan h f half f3 stop run_id p price asset [] False e = (check_stop_file stop e, Inr (no_execution rs))"
    using execute_killed [OF True] by blast
  have "ks_active (en_kill e)"
    using True assms by (cases stop) (auto simp: replay_inv_def)
  then have "quiet_venue c (en_exchange (check_stop_file stop e))" using assms by (simp add: replay_inv_def)
  moreover have "en_settings (check_stop_file stop e) = en_settings e" by (simp add: check_stop_file_def save_event_def split: option.splits)
  ultimately show ?thesis using assms True stop_file_ok [of e stop] by (simp add: x replay_inv_def)
next
  case False
  then have "stop = None" using stop_file_kills by blast
  then show ?thesis using assms False execute_switch [of None e h f half f3 run_id p price asset "[]" False]
      execute_ok [of e h f half f3 None run_id p price asset "[]" False]
    by (simp add: replay_inv_def same_switch_def)
qed

lemma replay_plans_inv:
  assumes "replay_inv se stop c e" and "replay_plans h f half f3 stop uid ps e = (e', Inr rs)"
  shows "replay_inv se stop c e' \<and> (ks_active (en_kill e) \<longrightarrow> ks_active (en_kill e') \<and> list_all (\<lambda>r. \<not> er_executed r) rs)"
  using assms
proof (induction ps arbitrary: e rs)
  case (Cons p ps)
  let ?x = "execute_approved_plan h f half f3 stop (uid (length ps)) p
        (opt_default (dget (ex_prices (en_exchange e)) (py_upper (pl_symbol p))) (pl_entry_price p)) ''CRYPTO'' [] False e"
  obtain e1 r rs' where x: "?x = (e1, Inr r)" and rest: "replay_plans h f half f3 stop uid ps e1 = (e', Inr rs')" and rs: "rs = r # rs'"
    using Cons.prems(2) by (auto split: prod.splits sum.splits)
  have inv: "replay_inv se stop c e1" using replay_plan_inv [OF Cons.prems(1)] x by (metis fst_conv)
  have "ks_active (en_kill e1) \<and> \<not> er_executed r" if "ks_active (en_kill e)"
  proof -
    have "ks_active (en_kill (check_stop_file stop e))"
      using that stop_file_kills [of stop e] by (cases stop) auto
    then show ?thesis using execute_killed [of stop e] x by (metis Pair_inject engine_result.select_convs(1) no_execution_def sum.inject(2))
  qed
  then show ?case using Cons.IH [OF inv rest] rs by auto
qed simp

lemma fst_snapshot: "fst (engine_snapshot e) = e\<lparr>en_exchange := (en_exchange e)\<lparr>ex_portfolio := fst (snapshot (ex_portfolio (en_exchange e))
    (ex_prices (en_exchange e)))\<rparr>\<rparr>"
  by (simp add: engine_snapshot_def split: prod.splits)

lemma ready_inv:
  assumes "0 < opt_default (pc_max_fail (ec_exchange (en_config e))) 3"
  shows "venue_ok (replay_ready year seq c e)" "quiet_venue c (en_exchange (replay_ready year seq c e))"
    "en_kill (replay_ready year seq c e) = en_kill e" "en_settings (replay_ready year seq c e) = en_settings e"
  using assms by (simp_all add: replay_ready_def engine_reset_def fst_snapshot new_exchange_def ex_ok_def orders_ok_def
      book_ok_def new_portfolio_def quiet_venue_def save_session_def Let_def)

lemma start_inv:
  assumes "venue_ok e" and "quiet_venue c (en_exchange e)" and "engine_start stop e = (e', Inr b)"
  shows "replay_inv (en_settings e) stop c e' \<and> paper_only (en_settings e)
    \<and> (stop \<noteq> None \<or> ks_active (en_kill e) \<longrightarrow> ks_active (en_kill e'))"
proof -
  let ?d = "check_stop_file stop e"
  have d: "venue_ok ?d" "quiet_venue c (en_exchange ?d)" "en_settings ?d = en_settings e"
    using assms(1,2) stop_file_ok [of e stop] by (simp_all add: check_stop_file_def save_event_def split: option.splits)
  have kill: "stop \<noteq> None \<or> ks_active (en_kill e) \<longrightarrow> ks_active (en_kill ?d)"
    using stop_file_kills [of stop e] by (cases stop) auto
  have snap: "venue_ok (fst (engine_snapshot x)) \<and> quiet_venue c (en_exchange (fst (engine_snapshot x)))
      \<and> en_kill (fst (engine_snapshot x)) = en_kill ?d \<and> en_settings (fst (engine_snapshot x)) = en_settings e"
    if "en_exchange x = en_exchange ?d" "en_kill x = en_kill ?d" "en_settings x = en_settings ?d" for x
    using that d engine_snapshot_ok [of x] snapshot_idle [of c x] by simp
  have "paper_only (en_settings ?d)" using assms(3) by (auto simp: engine_start_def Let_def split: if_splits)
  moreover from this obtain x where "e' = fst (engine_snapshot x)" "en_exchange x = en_exchange ?d" "en_kill x = en_kill ?d" "en_settings x = en_settings ?d"
    using assms(3) by (auto simp: engine_start_def Let_def split: if_splits)
  ultimately show ?thesis using snap [of x] kill d(3) by (auto simp: replay_inv_def)
qed


lemma stopped_start: "ks_active (en_kill e) \<Longrightarrow> paper_only (en_settings e) \<Longrightarrow>
   engine_start None e = (fst (engine_snapshot (e\<lparr>en_running := False\<rparr>)), Inr False)"
  by (simp add: engine_start_def)


end
