(* ===== verification/Learning_Memory.thy ===== *)
theory Learning_Memory
  imports Learning_Engine Json_Read
begin

text \<open>
  \<open>learning/memory.py\<close>: the memory of closed trades and the failure log it writes and reads, and the views of it in
  \<open>mcp_tools/learning.py\<close>.  A record carries the fields that \<open>Learning\<close> models; whether a write of the file succeeds is an
  argument, as is the identifier given to a record without one.
\<close>

section \<open>Records as JSON\<close>

fun failure_value :: "failure_category \<Rightarrow> string" where
  "failure_value BAD_PREDICTION = ''BAD_PREDICTION''"
| "failure_value HIGH_SLIPPAGE = ''HIGH_SLIPPAGE''"
| "failure_value MARKET_REGIME_SHIFT = ''MARKET_REGIME_SHIFT''"
| "failure_value BAD_TIMING_OR_EXECUTION = ''BAD_TIMING_OR_EXECUTION''"
| "failure_value EXTERNAL_SHOCK = ''EXTERNAL_SHOCK''"
| "failure_value NORMAL_VARIANCE = ''NORMAL_VARIANCE''"
| "failure_value UNKNOWN_FAILURE = ''UNKNOWN''"

fun success_value :: "success_category \<Rightarrow> string" where
  "success_value GOOD_PREDICTION = ''GOOD_PREDICTION''"
| "success_value GOOD_EXECUTION = ''GOOD_EXECUTION''"
| "success_value REGIME_ALIGNED = ''REGIME_ALIGNED''"
| "success_value UNKNOWN_SUCCESS = ''UNKNOWN''"

fun regime_value :: "market_regime \<Rightarrow> string" where
  "regime_value TRENDING_UP = ''TRENDING_UP''"
| "regime_value TRENDING_DOWN = ''TRENDING_DOWN''"
| "regime_value RANGING = ''RANGING''"
| "regime_value HIGH_VOLATILITY = ''HIGH_VOLATILITY''"
| "regime_value LOW_VOLATILITY = ''LOW_VOLATILITY''"
| "regime_value BREAKOUT = ''BREAKOUT''"
| "regime_value MEAN_REVERTING = ''MEAN_REVERTING''"
| "regime_value UNKNOWN_REGIME = ''UNKNOWN''"

definition enum_of :: "('a \<Rightarrow> string) \<Rightarrow> 'a list \<Rightarrow> json \<Rightarrow> 'a option" where
  "enum_of val xs j = find (\<lambda>x. j = JStr (val x)) xs"

definition failure_of :: "json \<Rightarrow> failure_category option" where
  "failure_of = enum_of failure_value [BAD_PREDICTION, HIGH_SLIPPAGE, MARKET_REGIME_SHIFT, BAD_TIMING_OR_EXECUTION, EXTERNAL_SHOCK,
     NORMAL_VARIANCE, UNKNOWN_FAILURE]"

definition success_of :: "json \<Rightarrow> success_category option" where
  "success_of = enum_of success_value [GOOD_PREDICTION, GOOD_EXECUTION, REGIME_ALIGNED, UNKNOWN_SUCCESS]"

definition regime_of :: "json \<Rightarrow> market_regime option" where
  "regime_of = enum_of regime_value [TRENDING_UP, TRENDING_DOWN, RANGING, HIGH_VOLATILITY, LOW_VOLATILITY, BREAKOUT, MEAN_REVERTING,
     UNKNOWN_REGIME]"

definition outcome_of_json :: "json \<Rightarrow> trade_outcome option" where
  "outcome_of_json = enum_of outcome_name [WIN, LOSS, BREAKEVEN]"

text \<open>The types of the model's fields, as validation reads them; \<open>None\<close> is a validation error.\<close>

definition text_field_of :: "json \<Rightarrow> string option" where
  "text_field_of j = (case j of JStr s \<Rightarrow> Some s | _ \<Rightarrow> None)"

definition float_field_of :: "(string \<Rightarrow> pyfloat option) \<Rightarrow> json \<Rightarrow> pyfloat option" where
  "float_field_of parse j = (case float_of_json parse j of Inr x \<Rightarrow> Some x | Inl _ \<Rightarrow> None)"

definition nullable :: "(json \<Rightarrow> 'a option) \<Rightarrow> json \<Rightarrow> 'a option option" where
  "nullable f j = (case j of JNull \<Rightarrow> Some None | _ \<Rightarrow> map_option Some (f j))"

fun all_some :: "('b \<Rightarrow> 'a option) \<Rightarrow> 'b list \<Rightarrow> 'a list option" where
  "all_some f [] = Some []"
| "all_some f (x # xs) = (case f x of None \<Rightarrow> None | Some y \<Rightarrow> map_option ((#) y) (all_some f xs))"

definition list_field_of :: "(json \<Rightarrow> 'a option) \<Rightarrow> json \<Rightarrow> 'a list option" where
  "list_field_of f j = (case j of JList js \<Rightarrow> all_some f js | _ \<Rightarrow> None)"

definition features_of_json :: "(string \<Rightarrow> pyfloat option) \<Rightarrow> json \<Rightarrow> features option" where
  "features_of_json parse j = (case j of
     JObj d \<Rightarrow> all_some (\<lambda>(k, v). map_option (Pair k) (nullable (float_field_of parse) v)) d | _ \<Rightarrow> None)"

text \<open>A field that is absent has its default.\<close>

definition read_field :: "json_obj \<Rightarrow> string \<Rightarrow> 'a option \<Rightarrow> (json \<Rightarrow> 'a option) \<Rightarrow> ('a \<Rightarrow> 'b option) \<Rightarrow> 'b option" where
  "read_field d k v f next = (case (case dget d k of None \<Rightarrow> v | Some j \<Rightarrow> f j) of None \<Rightarrow> None | Some x \<Rightarrow> next x)"

definition opt_json_of :: "('a \<Rightarrow> json) \<Rightarrow> 'a option \<Rightarrow> json" where
  "opt_json_of f x = (case x of None \<Rightarrow> JNull | Some y \<Rightarrow> f y)"

definition record_to_dict :: "learning_record \<Rightarrow> json_obj" where
  "record_to_dict r =
     [(''trade_id'', JStr (le_trade_id r)), (''strategy_id'', opt_json_of JStr (le_strategy_id r)), (''symbol'', JStr (le_symbol r)),
      (''market_regime'', JStr (regime_value (le_regime r))),
      (''features'', JObj (map (\<lambda>(k, v). (k, opt_json_of JNum v)) (le_features r))),
      (''entry_price'', opt_json_of JNum (le_entry_price r)), (''exit_price'', opt_json_of JNum (le_exit_price r)),
      (''quantity'', opt_json_of JNum (le_quantity r)), (''slippage'', JNum (le_slippage r)), (''net_pnl'', JNum (le_net_pnl r)),
      (''predicted_probability'', opt_json_of JNum (le_probability r)),
      (''execution_quality'', opt_json_of JStr (le_execution_quality r)), (''drift_state'', opt_json_of JStr (le_drift_state r)),
      (''outcome'', JStr (outcome_name (le_outcome r))),
      (''failure_categories'', JList (map (JStr \<circ> failure_value) (le_failures r))),
      (''success_categories'', JList (map (JStr \<circ> success_value) (le_successes r))),
      (''lesson'', opt_json_of JStr (le_lesson r)), (''memory_id'', JStr (le_memory_id r)), (''brier_score'', opt_json_of JNum (le_brier r))]"

definition record_of_dict :: "(string \<Rightarrow> pyfloat option) \<Rightarrow> string \<Rightarrow> json_obj \<Rightarrow> learning_record option" where
  "record_of_dict parse mid d = (let num = nullable (float_field_of parse); txt = nullable text_field_of in
     read_field d ''trade_id'' None text_field_of (\<lambda>tid.
     read_field d ''strategy_id'' (Some None) txt (\<lambda>sid.
     read_field d ''symbol'' None text_field_of (\<lambda>sy.
     read_field d ''market_regime'' (Some UNKNOWN_REGIME) regime_of (\<lambda>g.
     read_field d ''features'' (Some []) (features_of_json parse) (\<lambda>fs.
     read_field d ''entry_price'' (Some None) num (\<lambda>ep.
     read_field d ''exit_price'' (Some None) num (\<lambda>xp.
     read_field d ''quantity'' (Some None) num (\<lambda>q.
     read_field d ''slippage'' (Some (Fin 0)) (float_field_of parse) (\<lambda>sl.
     read_field d ''net_pnl'' (Some (Fin 0)) (float_field_of parse) (\<lambda>pnl.
     read_field d ''predicted_probability'' (Some None) num (\<lambda>pr.
     read_field d ''execution_quality'' (Some None) txt (\<lambda>eq.
     read_field d ''drift_state'' (Some None) txt (\<lambda>ds.
     read_field d ''outcome'' (Some BREAKEVEN) outcome_of_json (\<lambda>oc.
     read_field d ''failure_categories'' (Some []) (list_field_of failure_of) (\<lambda>fl.
     read_field d ''success_categories'' (Some []) (list_field_of success_of) (\<lambda>sc.
     read_field d ''lesson'' (Some None) txt (\<lambda>le.
     read_field d ''memory_id'' (Some mid) text_field_of (\<lambda>m.
     read_field d ''brier_score'' (Some None) num (\<lambda>br.
       Some \<lparr>le_trade_id = tid, le_strategy_id = sid, le_symbol = sy, le_regime = g, le_features = fs, le_entry_price = ep,
         le_exit_price = xp, le_quantity = q, le_slippage = sl, le_net_pnl = pnl, le_probability = pr, le_execution_quality = eq,
         le_drift_state = ds, le_outcome = oc, le_failures = fl, le_successes = sc, le_lesson = le, le_memory_id = m, le_brier = br\<rparr>
     ))))))))))))))))))))"

section \<open>The memory\<close>

text \<open>The failure log: absent, text that is no JSON, or a value.\<close>

datatype log_file = Missing | Unreadable | Content json

datatype write_outcome = Written | Refused | Torn

record learning_memory =
  lm_enabled :: bool
  lm_records :: "learning_record list"
  lm_events :: "json_obj list option"
  lm_file :: log_file

definition load_compat :: "(string \<Rightarrow> pyfloat option) \<Rightarrow> (nat \<Rightarrow> string) \<Rightarrow> log_file \<Rightarrow> learning_record list" where
  "load_compat parse mid f = (case f of
     Content (JList js) \<Rightarrow> concat (map (\<lambda>(i, j). case j of
         JObj d \<Rightarrow> if get_truthy d ''trade_id'' then (case record_of_dict parse (mid i) d of None \<Rightarrow> [] | Some r \<Rightarrow> [r]) else []
       | _ \<Rightarrow> []) (enumerate 0 js))
   | _ \<Rightarrow> [])"

definition new_memory :: "(string \<Rightarrow> pyfloat option) \<Rightarrow> (nat \<Rightarrow> string) \<Rightarrow> bool \<Rightarrow> bool \<Rightarrow> log_file \<Rightarrow> learning_memory" where
  "new_memory parse mid enabled has_store f =
     \<lparr>lm_enabled = enabled, lm_records = load_compat parse mid f, lm_events = (if has_store then Some [] else None), lm_file = f\<rparr>"

definition exported :: "learning_record \<Rightarrow> bool" where
  "exported r \<longleftrightarrow> le_outcome r = LOSS \<or> le_failures r \<noteq> []"

text \<open>The file is rewritten in place: a write that breaks off leaves it torn.\<close>

definition export_compat :: "write_outcome \<Rightarrow> learning_memory \<Rightarrow> learning_memory" where
  "export_compat w m = (case w of
     Written \<Rightarrow> m\<lparr>lm_file := Content (JList (map (\<lambda>r. JObj (record_to_dict r)) (filter exported (lm_records m))))\<rparr>
   | Refused \<Rightarrow> m
   | Torn \<Rightarrow> m\<lparr>lm_file := Unreadable\<rparr>)"

definition memory_event :: "learning_record \<Rightarrow> json_obj" where
  "memory_event r = [(''type'', JStr ''learning_record''), (''trade_id'', JStr (le_trade_id r)), (''payload'', JObj (record_to_dict r))]"

text \<open>\<open>saves\<close>: whether the store takes the event; its exception is not caught.\<close>

definition memory_add :: "bool \<Rightarrow> write_outcome \<Rightarrow> learning_record \<Rightarrow> learning_memory \<Rightarrow> learning_memory \<times> unit res" where
  "memory_add saves w r m =
     (let m1 = m\<lparr>lm_records := lm_records m @ [r]\<rparr>
      in case lm_events m1 of
           None \<Rightarrow> (export_compat w m1, Inr ())
         | Some es \<Rightarrow> if \<not> saves then (m1, Inl (RuntimeError ''save_event''))
             else (export_compat w (m1\<lparr>lm_events := Some (es @ [memory_event r])\<rparr>), Inr ()))"

definition failures :: "learning_memory \<Rightarrow> learning_record list" where
  "failures m = filter (\<lambda>r. le_outcome r = LOSS) (lm_records m)"

definition successes :: "learning_memory \<Rightarrow> learning_record list" where
  "successes m = filter (\<lambda>r. le_outcome r = WIN) (lm_records m)"

definition memory_summary :: "learning_memory \<Rightarrow> json_obj" where
  "memory_summary m = [(''total'', JInt (int (length (lm_records m)))), (''failures'', JInt (int (length (failures m)))),
     (''successes'', JInt (int (length (successes m)))), (''enabled'', JBool (lm_enabled m))]"

section \<open>Views\<close>

fun count_into :: "'a list \<Rightarrow> ('a \<times> nat) list \<Rightarrow> ('a \<times> nat) list" where
  "count_into [] d = d"
| "count_into (x # xs) d = count_into xs (dput x (opt_default (dget d x) 0 + 1) d)"

definition failure_patterns :: "learning_memory \<Rightarrow> (string \<times> nat) list \<times> nat" where
  "failure_patterns m = (count_into (map failure_value (concat (map le_failures (failures m)))) [], length (failures m))"

definition success_patterns :: "learning_memory \<Rightarrow> (string \<times> nat) list \<times> nat" where
  "success_patterns m = (count_into (map success_value (concat (map le_successes (successes m)))) [], length (successes m))"

text \<open>The newest post-mortem of a trade; \<open>Inl\<close> is the answer that there is none.\<close>

definition trade_postmortem :: "string option \<Rightarrow> 'm learner \<Rightarrow> (string, post_mortem option) sum" where
  "trade_postmortem tid e =
     (if opt_truthy tid
      then (case find (\<lambda>pm. pm_trade_id pm = opt_default tid []) (rev (ln_post_mortems e)) of
              Some pm \<Rightarrow> Inr (Some pm) | None \<Rightarrow> Inl (opt_default tid []))
      else Inr (if ln_post_mortems e = [] then None else Some (last (ln_post_mortems e))))"

text \<open>A reflection on the newest record.\<close>

definition run_reflection :: "(pyfloat \<Rightarrow> string) \<Rightarrow> 'm learner \<Rightarrow> 'm learner \<times> reflection option" where
  "run_reflection show e =
     (if ln_memory e = [] then (e, None)
      else (case run_post_mortem (last (ln_memory e)) of
        (r, pm) \<Rightarrow> (e\<lparr>ln_memory := butlast (ln_memory e) @ [r], ln_reflections := ln_reflections e @ [reflect show r pm]\<rparr>, Some (reflect show r pm))))"

section \<open>What the log keeps\<close>

lemma failure_of_value [simp]: "failure_of (JStr (failure_value f)) = Some f"
  by (cases f) (simp_all add: failure_of_def enum_of_def)

lemma success_of_value [simp]: "success_of (JStr (success_value s)) = Some s"
  by (cases s) (simp_all add: success_of_def enum_of_def)

lemma regime_of_value [simp]: "regime_of (JStr (regime_value g)) = Some g"
  by (cases g) (simp_all add: regime_of_def enum_of_def)

lemma outcome_of_name [simp]: "outcome_of_json (JStr (outcome_name w)) = Some w"
  by (cases w) (simp_all add: outcome_of_json_def enum_of_def outcome_name_def)

lemmas enum_round_trips = failure_of_value success_of_value regime_of_value outcome_of_name

lemma field_round_trips [simp]:
  "text_field_of (JStr s) = Some s" "float_field_of parse (JNum x) = Some x"
  "nullable text_field_of (opt_json_of JStr t) = Some t" "nullable (float_field_of parse) (opt_json_of JNum y) = Some y"
  by (simp_all add: text_field_of_def float_field_of_def float_of_json_def nullable_def opt_json_of_def split: option.splits)

lemma all_some_map: "(\<And>x. x \<in> set xs \<Longrightarrow> f (g x) = Some x) \<Longrightarrow> all_some f (map g xs) = Some xs"
  by (induction xs) simp_all

lemma list_round_trips [simp]:
  "list_field_of failure_of (JList (map (JStr \<circ> failure_value) fs)) = Some fs"
  "list_field_of success_of (JList (map (JStr \<circ> success_value) ss)) = Some ss"
  "features_of_json parse (JObj (map (\<lambda>(k, v). (k, opt_json_of JNum v)) xs)) = Some xs"
  by (simp_all add: list_field_of_def features_of_json_def all_some_map enum_round_trips split_beta)

lemma record_round_trip: "record_of_dict parse mid (record_to_dict r) = Some r"
  by (simp add: record_of_dict_def record_to_dict_def read_field_def enum_round_trips)

lemma load_exported:
  assumes "\<And>r. r \<in> set rs \<Longrightarrow> le_trade_id r \<noteq> []"
  shows "load_compat parse mid (Content (JList (map (\<lambda>r. JObj (record_to_dict r)) rs))) = rs"
proof -
  have truthy: "get_truthy (record_to_dict r) ''trade_id''" if "r \<in> set rs" for r
    using assms [OF that] by (simp add: get_truthy_def record_to_dict_def json_truthy_def)
  have "concat (map (\<lambda>(i, j). case j of
         JObj d \<Rightarrow> if get_truthy d ''trade_id'' then (case record_of_dict parse (mid i) d of None \<Rightarrow> [] | Some r \<Rightarrow> [r]) else []
       | _ \<Rightarrow> []) (enumerate k (map (\<lambda>r. JObj (record_to_dict r)) qs))) = qs" if "set qs \<subseteq> set rs" for k qs
    using that by (induction qs arbitrary: k) (simp_all add: truthy record_round_trip)
  then show ?thesis by (simp add: load_compat_def)
qed


definition lost_trade :: learning_record where
  "lost_trade = \<lparr>le_trade_id = ''T1'', le_strategy_id = None, le_symbol = ''BTC'', le_regime = RANGING, le_features = [(''RSI_14'', None)],
     le_entry_price = Some (Fin 1), le_exit_price = None, le_quantity = None, le_slippage = Fin 0, le_net_pnl = Fin (- 1), le_probability = None,
     le_execution_quality = None, le_drift_state = None, le_outcome = LOSS, le_failures = [NORMAL_VARIANCE], le_successes = [],
     le_lesson = Some ''l'', le_memory_id = ''M'', le_brier = None\<rparr>"

definition won_trade :: learning_record where
  "won_trade = lost_trade\<lparr>le_outcome := WIN, le_failures := [], le_net_pnl := Fin 1\<rparr>"


text \<open>A restart forgets every success, and after a torn write the next one drops the whole earlier log.\<close>

lemma restart_forgets_successes:
  "successes (new_memory parse mid en st (lm_file (fst (memory_add True Written won_trade (new_memory parse mid en False Missing))))) = []"
  by (simp add: memory_add_def new_memory_def load_compat_def export_compat_def exported_def successes_def won_trade_def lost_trade_def Let_def)

lemma torn_log_is_overwritten:
  "lm_file (fst (memory_add True Written won_trade (new_memory parse mid en False Unreadable))) = Content (JList [])"
  by (simp add: memory_add_def new_memory_def load_compat_def export_compat_def exported_def won_trade_def lost_trade_def Let_def)

end
