(* ===== verification/Command_Centre.thy ===== *)
theory Command_Centre
  imports Dashboard_Events Learning_Engine Backtest_Engine History Deployment
begin

text \<open>
  \<open>dashboard/state.py\<close>, \<open>dashboard/cycle.py\<close> and the actions of \<open>dashboard/routes.py\<close>: the table of agents, the log of tool
  calls, the views of the paper engine, the demonstration cycle, and the actions a user can start from the dashboard.
  The clock, the identifiers, the listeners of the bus, the learning library, and the JSON text of library models are
  parameters.
\<close>

section \<open>Agents\<close>

datatype agent_status = IDLE | AGENT_RUNNING | COMPLETED | WAITING | FAILED | DISABLED

record agent_view =
  av_id :: string
  av_name :: string
  av_role :: string
  av_status :: agent_status
  av_provider :: string
  av_model :: string
  av_task :: "string option"
  av_last_execution :: "string option"
  av_duration :: "pyfloat option"
  av_success :: nat
  av_failure :: nat
  av_decision :: "json_obj option"
  av_confidence :: "pyfloat option"
  av_error :: "string option"

definition agent_roster :: "(string \<times> string \<times> string) list" where
  "agent_roster =
     [(''market_intelligence'', ''Market Intelligence'', ''market''), (''technical_analysis'', ''Technical Analysis'', ''market''),
      (''trend'', ''Trend'', ''market''), (''sentiment'', ''Sentiment'', ''market''),
      (''on_chain'', ''On-Chain Intelligence'', ''market''), (''macro_event'', ''Macro/Event'', ''market''),
      (''strategy'', ''Strategy'', ''strategy''), (''bull'', ''Bull Analyst'', ''debate''), (''bear'', ''Bear Analyst'', ''debate''),
      (''consensus'', ''Debate/Consensus'', ''debate''), (''risk_manager'', ''Risk Manager'', ''risk''),
      (''portfolio_manager'', ''Portfolio Manager'', ''portfolio''), (''trade_planner'', ''Trade Planner'', ''execution''),
      (''execution'', ''Execution'', ''execution''), (''reflection'', ''Reflection/Learning'', ''learning''),
      (''performance_judge'', ''Performance/Judge'', ''learning'')]"

text \<open>The agents of the default registry; each reads its model under its own name.\<close>

definition registered_agents :: "string list" where
  "registered_agents = [''market_intelligence'', ''technical_analysis'', ''trend'', ''sentiment'', ''on_chain'', ''macro_event'',
     ''strategy'', ''bull'', ''bear'', ''consensus'']"

definition new_agent :: "string \<times> string \<times> string \<Rightarrow> string \<Rightarrow> string \<Rightarrow> agent_view" where
  "new_agent x provider model = (case x of (aid, name, role) \<Rightarrow>
     \<lparr>av_id = aid, av_name = name, av_role = role, av_status = IDLE, av_provider = provider, av_model = model, av_task = None,
      av_last_execution = None, av_duration = None, av_success = 0, av_failure = 0, av_decision = None, av_confidence = None,
      av_error = None\<rparr>)"

fun init_agents :: "(string \<Rightarrow> (string \<times> string) res) \<Rightarrow> (string \<times> string \<times> string) list \<Rightarrow> (string \<times> agent_view) list res" where
  "init_agents config [] = Inr []"
| "init_agents config (x # xs) =
     bind_res (if fst x \<in> set registered_agents then config (fst x) else Inr (''mock'', ''mock-analyst'')) (\<lambda>(provider, model).
     bind_res (init_agents config xs) (\<lambda>ags. Inr ((fst x, new_agent x provider model) # ags)))"

record status_update =
  su_status :: agent_status
  su_task :: "string option"
  su_decision :: "json_obj option"
  su_confidence :: "pyfloat option"
  su_error :: "string option"
  su_duration :: "pyfloat option"

definition status_only :: "agent_status \<Rightarrow> status_update" where
  "status_only st = \<lparr>su_status = st, su_task = None, su_decision = None, su_confidence = None, su_error = None, su_duration = None\<rparr>"

definition newer :: "'a option \<Rightarrow> 'a option \<Rightarrow> 'a option" where
  "newer x old = (case x of None \<Rightarrow> old | Some v \<Rightarrow> Some v)"

definition update_agent :: "string \<Rightarrow> status_update \<Rightarrow> agent_view \<Rightarrow> agent_view" where
  "update_agent now u a = a\<lparr>av_status := su_status u, av_task := newer (su_task u) (av_task a),
     av_decision := newer (su_decision u) (av_decision a), av_confidence := newer (su_confidence u) (av_confidence a),
     av_error := newer (su_error u) (av_error a), av_duration := newer (su_duration u) (av_duration a),
     av_last_execution := Some now,
     av_success := av_success a + (if su_status u = COMPLETED then 1 else 0),
     av_failure := av_failure a + (if su_status u = FAILED then 1 else 0)\<rparr>"

section \<open>The state of the dashboard\<close>

record mcp_row =
  mr_stamp :: string
  mr_tool :: string
  mr_agent :: "string option"
  mr_duration :: pyfloat
  mr_status :: string

record 'm centre =
  ce_settings :: runtime_settings
  ce_health :: "(string \<times> string) list"
  ce_agents :: "(string \<times> agent_view) list"
  ce_mcp :: "mcp_row list"
  ce_bus :: event_bus
  ce_paper :: paper_engine
  ce_learner :: "'m learner"
  ce_benchmarks :: "(baseline \<times> baseline \<times> baseline) option"
  ce_monte_carlo :: "monte_carlo option"
  ce_running :: bool
  ce_tick :: nat

record 'm centre_env =
  cv_now :: "nat \<Rightarrow> string"
  cv_event_id :: "nat \<Rightarrow> string"
  cv_saves :: "json_obj \<Rightarrow> bool"
  cv_returns :: "nat \<Rightarrow> dash_event \<Rightarrow> bool"
  cv_ml :: "'m ml_library"
  cv_proposal_id :: "nat \<Rightarrow> string"
  cv_memory_id :: string
  cv_h16 :: "string \<Rightarrow> string"
  cv_f10 :: "pyfloat \<Rightarrow> string"
  cv_half :: "pyfloat \<Rightarrow> pyfloat"
  cv_f3 :: "pyfloat \<Rightarrow> string"
  cv_sqrt :: "pyfloat \<Rightarrow> pyfloat"
  cv_iso :: "int \<Rightarrow> string"
  cv_uniform :: "nat \<Rightarrow> nat \<Rightarrow> pyfloat \<Rightarrow> pyfloat \<Rightarrow> pyfloat"
  cv_start :: int
  cv_sort :: "pyfloat list \<Rightarrow> pyfloat list"
  cv_draws :: "nat \<Rightarrow> nat list list"
  cv_context_json :: "learning_context option \<Rightarrow> json_obj"
  cv_plan_json :: "trade_plan \<Rightarrow> json_obj"
  cv_order_json :: "order option \<Rightarrow> json_obj"
  cv_risk_json :: "risk_decision option \<Rightarrow> json"
  cv_reason_text :: "engine_reason list \<Rightarrow> string"
  cv_reason_json :: "engine_reason list \<Rightarrow> json"
  cv_snapshot_json :: "portfolio_snapshot \<Rightarrow> json_obj"

definition default_health :: "(string \<times> string) list" where
  "default_health = map (\<lambda>n. (n, ''ONLINE'')) [''Market Data'', ''LLM Provider'', ''Risk Engine'', ''Portfolio'', ''Paper Exchange'',
     ''Database'', ''Event Bus'', ''WebSocket'', ''MCP Server'', ''Backtest Engine'']"

definition new_centre ::
  "(json \<Rightarrow> string) \<Rightarrow> json option \<Rightarrow> runtime_settings \<Rightarrow> event_bus \<Rightarrow> paper_engine \<Rightarrow> 'm learner \<Rightarrow> 'm centre res" where
  "new_centre show llm_file s bus paper learner =
     bind_res (init_agents (agent_model_config show llm_file s) agent_roster) (\<lambda>ags.
       Inr \<lparr>ce_settings = s, ce_health = default_health, ce_agents = ags, ce_mcp = [], ce_bus = bus, ce_paper = paper,
         ce_learner = learner, ce_benchmarks = None, ce_monte_carlo = None, ce_running = False, ce_tick = 0\<rparr>)"

definition set_agent_status :: "'m centre_env \<Rightarrow> string \<Rightarrow> status_update \<Rightarrow> 'm centre \<Rightarrow> 'm centre" where
  "set_agent_status ev aid u c = (case dget (ce_agents c) aid of
     None \<Rightarrow> c
   | Some a \<Rightarrow> c\<lparr>ce_agents := dput aid (update_agent (cv_now ev (ce_tick c)) u a) (ce_agents c), ce_tick := ce_tick c + 1\<rparr>)"

definition record_mcp :: "'m centre_env \<Rightarrow> string \<Rightarrow> string \<Rightarrow> pyfloat \<Rightarrow> string option \<Rightarrow> 'm centre \<Rightarrow> 'm centre" where
  "record_mcp ev tool status duration agent c =
     c\<lparr>ce_mcp := last_n 500 (ce_mcp c @ [\<lparr>mr_stamp = cv_now ev (ce_tick c), mr_tool = tool, mr_agent = agent, mr_duration = duration,
        mr_status = status\<rparr>]), ce_tick := ce_tick c + 1\<rparr>"

text \<open>An event on the bus, with the severities the dashboard uses; its type and severity are valid, so nothing is raised.\<close>

definition announce_as ::
  "string \<Rightarrow> 'm centre_env \<Rightarrow> string \<Rightarrow> json_obj \<Rightarrow> string option \<Rightarrow> string option \<Rightarrow> string option \<Rightarrow> 'm centre \<Rightarrow> 'm centre" where
  "announce_as severity ev ty payload agent sy run c =
     c\<lparr>ce_bus := fst (emit_event (cv_saves ev) (cv_returns ev)
          \<lparr>ev_id = cv_event_id ev (ce_tick c), ev_stamp = cv_now ev (ce_tick c), ev_type = ty, ev_payload = payload, ev_agent = agent,
           ev_symbol = sy, ev_run = run, ev_severity = severity\<rparr> (ce_bus c)),
       ce_tick := ce_tick c + 1\<rparr>"

abbreviation announce ::
  "'m centre_env \<Rightarrow> string \<Rightarrow> json_obj \<Rightarrow> string option \<Rightarrow> string option \<Rightarrow> string option \<Rightarrow> 'm centre \<Rightarrow> 'm centre" where
  "announce \<equiv> announce_as ''info''"

definition do_all :: "('a \<Rightarrow> 'a) list \<Rightarrow> 'a \<Rightarrow> 'a" where
  "do_all fs c = fold (\<lambda>f. f) fs c"

section \<open>Views\<close>

text \<open>Every view of the portfolio takes a snapshot of it.\<close>

record portfolio_view =
  pv_snapshot :: portfolio_snapshot
  pv_slippage :: pyfloat
  pv_turnover :: pyfloat
  pv_return :: pyfloat

definition portfolio_view :: "'m centre_env \<Rightarrow> 'm centre \<Rightarrow> 'm centre \<times> portfolio_view" where
  "portfolio_view ev c = (case engine_snapshot (ce_paper c) of (e, sn) \<Rightarrow>
     let ts = ex_trades (en_exchange e);
         perf = compute_performance (cv_sqrt ev) (map (\<lambda>t. row_of_trade (t, None)) ts) (ss_starting_capital (en_session e))
     in (c\<lparr>ce_paper := e\<rparr>, \<lparr>pv_snapshot = sn, pv_slippage = fsum (map tr_slippage ts), pv_turnover = pm_turnover perf,
           pv_return = pm_return perf\<rparr>))"

record system_status =
  st_system :: string
  st_mode :: json
  st_live :: bool
  st_mode_shown :: string
  st_market_data :: string
  st_risk_engine :: string
  st_llm :: string
  st_agents_ready :: nat
  st_kill :: kill_state
  st_equity :: pyfloat
  st_cash :: pyfloat

text \<open>The mode may be any YAML value; only a text has \<open>upper\<close>.\<close>

definition shown_mode :: "json \<Rightarrow> string res" where
  "shown_mode m = (case m of JStr t \<Rightarrow> Inr (if t = ''paper'' then ''PAPER'' else py_upper t) | _ \<Rightarrow> Inl AttributeError)"

definition system_status :: "'m centre \<Rightarrow> 'm centre \<times> system_status res" where
  "system_status c = (case engine_snapshot (ce_paper c) of (e, sn) \<Rightarrow>
     (c\<lparr>ce_paper := e\<rparr>,
      bind_res (shown_mode (gs_mode (ce_settings c))) (\<lambda>mode. Inr \<lparr>st_system = (if ce_running c then ''ONLINE'' else ''STANDBY''),
        st_mode = gs_mode (ce_settings c), st_live = gs_live (ce_settings c), st_mode_shown = mode,
        st_market_data = opt_default (dget (ce_health c) ''Market Data'') [],
        st_risk_engine = opt_default (dget (ce_health c) ''Risk Engine'') [], st_llm = py_upper (gs_provider (ce_settings c)),
        st_agents_ready = length (ce_agents c), st_kill = en_kill e, st_equity = sn_equity sn, st_cash = sn_cash sn\<rparr>)))"

record risk_panel =
  rv_drawdown :: pyfloat
  rv_drawdown_limit :: pyfloat
  rv_daily_pnl :: pyfloat
  rv_daily_loss_limit :: pyfloat
  rv_exposure :: pyfloat
  rv_risk_per_trade :: pyfloat
  rv_open_positions :: nat
  rv_circuit_breaker :: bool
  rv_halt_reason :: "string option"
  rv_kill :: kill_state

definition risk_panel :: "risk_limits \<Rightarrow> 'm centre \<Rightarrow> 'm centre \<times> risk_panel" where
  "risk_panel l c = (case engine_snapshot (ce_paper c) of (e, sn) \<Rightarrow>
     (c\<lparr>ce_paper := e\<rparr>, \<lparr>rv_drawdown = sn_drawdown_pct sn, rv_drawdown_limit = gl_max_drawdown_pct l, rv_daily_pnl = sn_daily_pnl sn,
        rv_daily_loss_limit = gl_max_daily_loss_pct l, rv_exposure = sn_positions_exposure sn, rv_risk_per_trade = gl_max_trade_pct l,
        rv_open_positions = length (sn_positions sn), rv_circuit_breaker = ex_halted (en_exchange e),
        rv_halt_reason = ex_halt_reason (en_exchange e), rv_kill = en_kill e\<rparr>))"

definition agent_detail :: "string \<Rightarrow> 'm centre \<Rightarrow> agent_view option" where
  "agent_detail aid c = find (\<lambda>a. av_id a = aid) (map snd (ce_agents c))"

section \<open>The demonstration cycle\<close>

text \<open>\<open>float(payload.get("confidence") or 0)\<close> on the payloads below, whose confidence is a number or missing.\<close>

definition confidence_of :: "json_obj \<Rightarrow> pyfloat" where
  "confidence_of p = (case dget p ''confidence'' of Some (JNum x) \<Rightarrow> x | _ \<Rightarrow> Fin 0)"

definition text_list :: "string list \<Rightarrow> json" where
  "text_list xs = JList (map JStr xs)"

text \<open>The scripted opinions; only the learning context is read from the engine.\<close>

definition market_payload :: "json_obj \<Rightarrow> json_obj" where
  "market_payload lc = [(''regime'', opt_default (dget lc ''regime'') (JStr ''TRENDING'')), (''confidence'', JNum (flit (7 / 10))),
     (''learning_context'', JObj lc)]"

definition strategy_payload :: "json_obj \<Rightarrow> json_obj" where
  "strategy_payload lc = [(''direction'', JStr ''LONG''), (''confidence'', JNum (flit (71 / 100))),
     (''strategy'', JStr ''MOMENTUM_BREAKOUT_CRYPTO''),
     (''reason_codes'', text_list [''DONCHIAN_BREAKOUT'', ''VOLUME_CONFIRMATION'', ''TREND_ALIGNMENT'']),
     (''learning_caution'', opt_default (dget lc ''recommended_caution'') JNull)]"

definition debate_payloads :: "json_obj \<Rightarrow> (string \<times> string \<times> json_obj) list" where
  "debate_payloads lc =
     [(''bull'', ''BullAnalysis'', [(''assessment'', JStr ''BULLISH''), (''confidence'', JNum (flit (76 / 100))),
        (''evidence'', text_list [''BREAKOUT'', ''VOLUME_EXPANSION''])]),
      (''bear'', ''BearAnalysis'', [(''assessment'', JStr ''CAUTIOUS''), (''confidence'', JNum (flit (58 / 100))),
        (''risks'', text_list [''ELEVATED_VOLATILITY''])]),
      (''consensus'', ''ConsensusGenerated'', [(''decision'', JStr ''BUY''), (''confidence'', JNum (flit (70 / 100))),
        (''agreement'', JStr ''2/3''), (''learning_context'', JObj lc)])]"

definition pipeline :: "json_obj \<Rightarrow> (string \<times> string \<times> json_obj) list" where
  "pipeline lc =
     [(''market_intelligence'', ''MarketDataUpdated'', market_payload lc),
      (''technical_analysis'', ''TechnicalAnalysisUpdated'', [(''rsi'', JInt 58), (''ema_alignment'', JBool True)]),
      (''trend'', ''AgentCompleted'', [(''decision'', JStr ''BULLISH''), (''confidence'', JNum (flit (68 / 100)))]),
      (''sentiment'', ''AgentCompleted'', [(''decision'', JStr ''NEUTRAL''), (''confidence'', JNum (flit (55 / 100)))]),
      (''on_chain'', ''AgentCompleted'', [(''status'', JStr ''UNAVAILABLE'')]),
      (''macro_event'', ''AgentCompleted'', [(''event_risk'', JStr ''LOW'')]),
      (''strategy'', ''StrategySignalGenerated'', strategy_payload lc)] @ debate_payloads lc"

definition completed_with :: "json_obj \<Rightarrow> status_update" where
  "completed_with d = (status_only COMPLETED)\<lparr>su_decision := Some d\<rparr>"

definition pipeline_step :: "'m centre_env \<Rightarrow> string \<Rightarrow> string \<Rightarrow> string \<times> string \<times> json_obj \<Rightarrow> 'm centre \<Rightarrow> 'm centre" where
  "pipeline_step ev sy run x c = (case x of (aid, ty, payload) \<Rightarrow>
     do_all [set_agent_status ev aid ((status_only AGENT_RUNNING)\<lparr>su_task := Some ty\<rparr>),
             announce ev ''AgentStarted'' [] (Some aid) (Some sy) (Some run),
             announce ev ty payload (Some aid) (Some sy) (Some run),
             set_agent_status ev aid ((completed_with payload)\<lparr>su_confidence := Some (confidence_of payload), su_duration := Some (Fin 1)\<rparr>),
             announce ev ''AgentCompleted'' [(''summary'', JObj payload)] (Some aid) (Some sy) (Some run)] c)"

definition demo_quantity :: "pyfloat \<Rightarrow> pyfloat" where
  "demo_quantity price = (if flt price (Fin 1000) then Fin 1 else flit (1 / 100))"

definition scripted_plan :: "string \<Rightarrow> pyfloat \<Rightarrow> trade_plan" where
  "scripted_plan sy price =
     \<lparr>pl_strategy_id = ''momentum_breakout_crypto'', pl_strategy_version = ''1.0.0'', pl_model_ids = [''DONCHIAN20''], pl_symbol = sy,
      pl_side = ''LONG'', pl_entry_price = price, pl_quantity = demo_quantity price, pl_notional = fmul (demo_quantity price) price,
      pl_stop_loss = Some (fmul price (flit (97 / 100))), pl_take_profit = Some (fmul price (flit (108 / 100))),
      pl_risk_amount = fmul (fmul price (flit (3 / 100))) (demo_quantity price), pl_expected_fee = Fin 0, pl_expected_slippage = Fin 0,
      pl_risk_reward_ratio = Some (Fin (5 / 2)), pl_confidence = flit (7 / 10), pl_invalidation = [], pl_status = PROPOSED,
      pl_reason = None, pl_move_be_at_1r = False, pl_partial_tp_pct = None\<rparr>"

definition before_execution :: "'m centre_env \<Rightarrow> string \<Rightarrow> string \<Rightarrow> trade_plan \<Rightarrow> 'm centre \<Rightarrow> 'm centre" where
  "before_execution ev sy run p = do_all
     [set_agent_status ev ''risk_manager'' ((status_only AGENT_RUNNING)\<lparr>su_task := Some ''risk_check''\<rparr>),
      announce ev ''RiskCheckStarted'' [] (Some ''risk_manager'') (Some sy) (Some run),
      announce ev ''TradePlanCreated'' [(''plan'', JObj (cv_plan_json ev p))] (Some ''trade_planner'') (Some sy) (Some run),
      set_agent_status ev ''trade_planner'' (completed_with (cv_plan_json ev p))]"

definition view_json :: "'m centre_env \<Rightarrow> portfolio_view \<Rightarrow> json_obj" where
  "view_json ev v = dput ''REAL_MONEY'' (JStr ''DISABLED'') (dput ''TRADING_MODE'' (JStr ''PAPER'')
     (dput ''total_return'' (JNum (pv_return v)) (dput ''turnover'' (JNum (pv_turnover v)) (dput ''slippage'' (JNum (pv_slippage v))
     (dput ''fees'' (JNum (sn_fees (pv_snapshot v))) (cv_snapshot_json ev (pv_snapshot v)))))))"

definition announce_portfolio :: "'m centre_env \<Rightarrow> string \<Rightarrow> 'm centre \<Rightarrow> 'm centre" where
  "announce_portfolio ev run c =
     (case portfolio_view ev c of (c1, v1) \<Rightarrow>
        (case portfolio_view ev (announce ev ''PortfolioUpdated'' (view_json ev v1) None None (Some run) c1) of (c2, v2) \<Rightarrow>
           announce ev ''PnLUpdated'' [(''equity'', opt_default (dget (view_json ev v2) ''equity'') JNull)] None None (Some run) c2))"

definition after_fill :: "'m centre_env \<Rightarrow> string \<Rightarrow> string \<Rightarrow> engine_result \<Rightarrow> 'm centre \<Rightarrow> 'm centre" where
  "after_fill ev sy run r =
     (let ord = cv_order_json ev (er_order r) in do_all
     [announce ev ''RiskApproved'' [(''risk'', cv_risk_json ev (er_risk r)), (''reason_codes'', text_list [''RISK_OK''])]
        (Some ''risk_manager'') (Some sy) (Some run),
      set_agent_status ev ''risk_manager'' (completed_with [(''approved'', JBool True)]),
      announce ev ''OrderCreated'' [(''order_id'', opt_default (dget ord ''order_id'') JNull)] None (Some sy) (Some run),
      announce ev ''OrderSubmitted'' ord (Some ''execution'') (Some sy) (Some run),
      announce ev ''OrderFilled'' ord (Some ''execution'') (Some sy) (Some run),
      set_agent_status ev ''execution'' (completed_with [(''filled'', JBool True)]),
      announce ev ''PositionOpened'' [(''symbol'', JStr sy)] (Some ''portfolio_manager'') None (Some run),
      announce_portfolio ev run,
      set_agent_status ev ''portfolio_manager'' (status_only COMPLETED)])"

definition exit_price :: "pyfloat \<Rightarrow> pyfloat" where
  "exit_price price = fmul price (flit (104 / 100))"

definition demo_gain :: "pyfloat \<Rightarrow> pyfloat" where
  "demo_gain price = fmul (fsub (exit_price price) price) (demo_quantity price)"

definition announce_close :: "'m centre_env \<Rightarrow> string \<Rightarrow> string \<Rightarrow> pyfloat \<Rightarrow> 'm centre \<Rightarrow> 'm centre" where
  "announce_close ev sy run price = announce ev ''PositionClosed''
     [(''symbol'', JStr sy), (''exit_price'', JNum (exit_price price)), (''net_pnl'', JNum (demo_gain price))]
     (Some ''portfolio_manager'') (Some sy) (Some run)"

definition cycle_record :: "'m centre_env \<Rightarrow> string \<Rightarrow> string \<Rightarrow> pyfloat \<Rightarrow> market_regime \<Rightarrow> features \<Rightarrow> learning_record" where
  "cycle_record ev sy run price g fs =
     \<lparr>le_trade_id = ''DEMO-'' @ take 8 run, le_strategy_id = Some ''momentum_breakout_crypto'', le_symbol = sy, le_regime = g,
      le_features = fs, le_entry_price = Some price, le_exit_price = Some (exit_price price), le_quantity = Some (demo_quantity price),
      le_slippage = flit (1 / 1000), le_net_pnl = fsub (demo_gain price) (flit (1 / 100)), le_probability = Some (flit (70 / 100)),
      le_execution_quality = Some ''GOOD'', le_drift_state = None, le_outcome = WIN, le_failures = [], le_successes = [],
      le_lesson = None, le_memory_id = cv_memory_id ev, le_brier = None\<rparr>"

text \<open>What the learning engine returns of the trade; a disabled engine returns nothing, and a win gives no proposal.\<close>

definition returned_post_mortem :: "'m learner \<Rightarrow> post_mortem option" where
  "returned_post_mortem l = (if lc_enabled (ln_config l) \<and> ln_post_mortems l \<noteq> [] then Some (last (ln_post_mortems l)) else None)"

definition judge_decision :: "post_mortem option \<Rightarrow> json_obj" where
  "judge_decision pm = [(''note'', JStr ''Paper metrics only''),
     (''brier'', case Option.bind pm pm_brier of None \<Rightarrow> JNull | Some x \<Rightarrow> JNum x)]"

definition reflection_decision :: "post_mortem option \<Rightarrow> json_obj" where
  "reflection_decision pm = [(''hooks'', JStr ''recorded''), (''auto_optimize'', JBool False),
     (''lesson'', opt_json (Option.bind pm pm_lesson)), (''proposal'', JNull)]"

definition teach :: "'m centre_env \<Rightarrow> string \<Rightarrow> string \<Rightarrow> pyfloat \<Rightarrow> candle list \<Rightarrow> 'm centre \<Rightarrow> 'm centre \<times> unit res" where
  "teach ev sy run price cs c =
     (case bind_res (extract_features (cv_half ev) cs) (\<lambda>fs. bind_res (detect_regime (cv_half ev) cs) (\<lambda>g. Inr (fs, g))) of
        Inl err \<Rightarrow> (c, Inl err)
      | Inr (fs, g) \<Rightarrow>
          (let l = on_trade_close (cv_ml ev) (cv_proposal_id ev) (cycle_record ev sy run price g fs)
                     (kelly_adapt (flit (70 / 100)) (Fin (3 / 2)) (ce_learner c));
               pm = returned_post_mortem l
           in (do_all [set_agent_status ev ''performance_judge'' (completed_with (judge_decision pm)),
                       set_agent_status ev ''reflection'' (completed_with (reflection_decision pm))] (c\<lparr>ce_learner := l\<rparr>), Inr ())))"

definition after_rejection :: "'m centre_env \<Rightarrow> string \<Rightarrow> string \<Rightarrow> engine_result \<Rightarrow> 'm centre \<Rightarrow> 'm centre" where
  "after_rejection ev sy run r = do_all
     [announce ev ''RiskRejected'' [(''reason_codes'', cv_reason_json ev (er_reasons r))] (Some ''risk_manager'') (Some sy) (Some run),
      set_agent_status ev ''risk_manager'' ((status_only FAILED)\<lparr>su_error := Some (cv_reason_text ev (er_reasons r))\<rparr>)]"

definition with_paper :: "'m centre \<Rightarrow> paper_engine \<times> 'a \<Rightarrow> 'm centre \<times> 'a" where
  "with_paper c x = (c\<lparr>ce_paper := fst x\<rparr>, snd x)"

definition demo_cycle_trade :: "'m centre_env \<Rightarrow> string option \<Rightarrow> string \<Rightarrow> string \<Rightarrow> pyfloat \<Rightarrow> 'm centre \<Rightarrow> 'm centre \<times> engine_result res" where
  "demo_cycle_trade ev stop run sy price c =
     (case with_paper c (engine_start stop (ce_paper c)) of
        (c1, Inl err) \<Rightarrow> (c1, Inl err)
      | (c1, Inr _) \<Rightarrow> with_paper c1 (execute_approved_plan (cv_h16 ev) (cv_f10 ev) (cv_half ev) (cv_f3 ev) stop run
                         (scripted_plan sy price) price ''CRYPTO'' [] False (ce_paper c1)))"

definition cycle_outcome ::
  "'m centre_env \<Rightarrow> string \<Rightarrow> string \<Rightarrow> pyfloat \<Rightarrow> candle list \<Rightarrow> 'm centre \<times> engine_result res \<Rightarrow> 'm centre \<times> engine_result res" where
  "cycle_outcome ev sy run price cs x = (case x of
     (c, Inl err) \<Rightarrow> (c, Inl err)
   | (c, Inr r) \<Rightarrow>
       if er_executed r
       then (case teach ev sy run price cs (announce_close ev sy run price (after_fill ev sy run r c)) of
               (c1, Inl err) \<Rightarrow> (c1, Inl err) | (c1, Inr _) \<Rightarrow> (c1, Inr r))
       else (after_rejection ev sy run r c, Inr r))"

definition read_context :: "'m centre_env \<Rightarrow> candle list \<Rightarrow> 'm centre \<Rightarrow> 'm centre \<times> json_obj" where
  "read_context ev cs c = (case learning_context_for (cv_half ev) (cv_sqrt ev) cs [] (ce_learner c) of
     (l, cx) \<Rightarrow> (c\<lparr>ce_learner := l\<rparr>, cv_context_json ev cx))"

definition run_paper_demo_cycle ::
  "'m centre_env \<Rightarrow> string option \<Rightarrow> string \<Rightarrow> string \<Rightarrow> pyfloat \<Rightarrow> 'm centre \<Rightarrow> 'm centre \<times> engine_result res" where
  "run_paper_demo_cycle ev stop run symbol price c =
     (let sy = py_upper symbol in
      case generate_synthetic_candles (cv_iso ev) (cv_uniform ev 42) sy ''1h'' 80 (cv_start ev) (Fin 100) of
        Inl err \<Rightarrow> (c, Inl err)
      | Inr cs \<Rightarrow> (case read_context ev cs c of (c1, lc) \<Rightarrow>
          let c2 = before_execution ev sy run (scripted_plan sy price) (fold (pipeline_step ev sy run) (pipeline lc) c1)
          in cycle_outcome ev sy run price cs (demo_cycle_trade ev stop run sy price c2)))"

section \<open>The actions of the dashboard\<close>

definition activate_kill_switch :: "'m centre_env \<Rightarrow> 'm centre \<Rightarrow> 'm centre" where
  "activate_kill_switch ev c =
     announce_as ''critical'' ev ''KillSwitchActivated'' [(''reason'', JStr ''dashboard_emergency_stop''), (''no_new_trades'', JBool True)]
       None None None
       (c\<lparr>ce_paper := (ce_paper c)\<lparr>en_kill := ks_activate (en_kill (ce_paper c)) ''dashboard_emergency_stop'',
            en_exchange := halt (en_exchange (ce_paper c)) ''KILL_SWITCH_ACTIVE''\<rparr>\<rparr>)"

definition paper_start :: "string option \<Rightarrow> 'm centre \<Rightarrow> 'm centre \<times> bool res" where
  "paper_start stop c = with_paper c (engine_start stop (ce_paper c))"

definition paper_stop :: "'m centre \<Rightarrow> 'm centre" where
  "paper_stop c = c\<lparr>ce_paper := engine_stop (ce_paper c)\<rparr>"

definition paper_reset :: "nat \<Rightarrow> nat \<Rightarrow> 'm centre \<Rightarrow> 'm centre" where
  "paper_reset year seq c = c\<lparr>ce_paper := engine_reset year seq (ce_paper c)\<rparr>"

definition benchmark_names :: json where
  "benchmark_names = text_list [''BUY_AND_HOLD'', ''DCA'', ''SIMPLE_MOVING_AVERAGE'', ''TRADING_MODE'', ''REAL_MONEY'', ''note'']"

definition run_benchmark :: "'m centre_env \<Rightarrow> string \<Rightarrow> int \<Rightarrow> 'm centre \<Rightarrow> 'm centre \<times> (baseline \<times> baseline \<times> baseline) res" where
  "run_benchmark ev symbol bars c =
     (let c1 = announce ev ''BenchmarkStarted'' [(''symbol'', JStr symbol)] None (Some symbol) None c in
      case bind_res (generate_synthetic_candles (cv_iso ev) (cv_uniform ev 5) (py_upper symbol) ''1h'' (nat bars) (cv_start ev) (Fin 100))
             (\<lambda>cs. run_baselines cs (Fin 100000)) of
        Inl err \<Rightarrow> (c1, Inl err)
      | Inr out \<Rightarrow> (announce ev ''BenchmarkCompleted'' [(''benchmarks'', benchmark_names)] None (Some symbol) None
                      (c1\<lparr>ce_benchmarks := Some out\<rparr>), Inr out))"

definition trade_pnls :: "paper_engine \<Rightarrow> pyfloat list" where
  "trade_pnls e = (if ex_trades (en_exchange e) = [] then [Fin 1, Fin (- 1 / 2), flit (2 / 10)]
     else map tr_net_pnl (ex_trades (en_exchange e)))"

definition run_monte_carlo :: "'m centre_env \<Rightarrow> 'm centre \<Rightarrow> 'm centre \<times> monte_carlo option res" where
  "run_monte_carlo ev c =
     (let c1 = announce ev ''MonteCarloStarted'' [] None None None c; pnls = trade_pnls (ce_paper c) in
      case monte_carlo_trade_resample (cv_sort ev) pnls (cv_draws ev (length pnls)) (Fin 100000) of
        Inl err \<Rightarrow> (c1, Inl err)
      | Inr out \<Rightarrow> (announce ev ''MonteCarloCompleted'' [(''iterations'', JInt 100)] None None None
                      (c1\<lparr>ce_monte_carlo := out\<rparr>), Inr out))"

definition retrain_action :: "'m centre_env \<Rightarrow> 'm centre \<Rightarrow> 'm centre" where
  "retrain_action ev c = c\<lparr>ce_learner := run_retraining (cv_ml ev) (cv_proposal_id ev) 42 (ce_learner c)\<rparr>"

text \<open>Everything a user of the dashboard can make it do, views included.\<close>

datatype centre_op =
    Press_Kill_Switch
  | Paper_Start "string option"
  | Paper_Stop
  | Paper_Reset nat nat
  | Demo_Cycle "string option" string string pyfloat
  | Benchmark string int
  | Monte_Carlo
  | Retraining
  | View_Portfolio
  | View_Risk
  | View_System
  | Record_Tool string string pyfloat "string option"

fun centre_exec :: "'m centre_env \<Rightarrow> risk_limits \<Rightarrow> centre_op \<Rightarrow> 'm centre \<Rightarrow> 'm centre" where
  "centre_exec ev l Press_Kill_Switch c = activate_kill_switch ev c"
| "centre_exec ev l (Paper_Start stop) c = fst (paper_start stop c)"
| "centre_exec ev l Paper_Stop c = paper_stop c"
| "centre_exec ev l (Paper_Reset year seq) c = paper_reset year seq c"
| "centre_exec ev l (Demo_Cycle stop run sy price) c = fst (run_paper_demo_cycle ev stop run sy price c)"
| "centre_exec ev l (Benchmark sy bars) c = fst (run_benchmark ev sy bars c)"
| "centre_exec ev l Monte_Carlo c = fst (run_monte_carlo ev c)"
| "centre_exec ev l Retraining c = retrain_action ev c"
| "centre_exec ev l View_Portfolio c = fst (portfolio_view ev c)"
| "centre_exec ev l View_Risk c = fst (risk_panel l c)"
| "centre_exec ev l View_System c = fst (system_status c)"
| "centre_exec ev l (Record_Tool tool st d agent) c = record_mcp ev tool st d agent c"

definition centre_run :: "'m centre_env \<Rightarrow> risk_limits \<Rightarrow> centre_op list \<Rightarrow> 'm centre \<Rightarrow> 'm centre" where
  "centre_run ev l ops c = fold (centre_exec ev l) ops c"

section \<open>What the table and the bus leave alone\<close>

lemma shown_keep [simp]:
  "ce_paper (set_agent_status ev aid u c) = ce_paper c" "ce_learner (set_agent_status ev aid u c) = ce_learner c"
  "ce_mcp (set_agent_status ev aid u c) = ce_mcp c"
  "ce_paper (announce_as sev ev ty p ag sy run c) = ce_paper c" "ce_learner (announce_as sev ev ty p ag sy run c) = ce_learner c"
  "ce_mcp (announce_as sev ev ty p ag sy run c) = ce_mcp c" "ce_agents (announce_as sev ev ty p ag sy run c) = ce_agents c"
  "ce_paper (record_mcp ev tool st d ag c) = ce_paper c" "ce_learner (record_mcp ev tool st d ag c) = ce_learner c"
  "ce_agents (record_mcp ev tool st d ag c) = ce_agents c"
  by (simp_all add: set_agent_status_def announce_as_def record_mcp_def split: option.splits)

lemma announce_never_raises:
  "snd (emit_event saves returns
     \<lparr>ev_id = i, ev_stamp = t, ev_type = ty, ev_payload = p, ev_agent = a, ev_symbol = sy, ev_run = run, ev_severity = ''info''\<rparr> b) \<noteq> Inl x"
  by (simp add: emit_event_def make_event_def severities_def)

lemma do_all_simps [simp]: "do_all [] c = c" "do_all (f # fs) c = do_all fs (f c)"
  by (simp_all add: do_all_def)

lemma table_keys [simp]: "map fst (ce_agents (set_agent_status ev aid u c)) = map fst (ce_agents c)"
proof (cases "dget (ce_agents c) aid")
  case (Some a)
  then have "aid \<in> set (map fst (ce_agents c))" by (metis map_of_SomeD fst_conv image_eqI list.set_map)
  then show ?thesis using Some by (simp add: set_agent_status_def update_keys)
qed (simp add: set_agent_status_def)

lemma init_agents_keys: "init_agents config xs = Inr ags \<Longrightarrow> map fst ags = map fst xs \<and> map av_id (map snd ags) = map fst xs"
  by (induction xs arbitrary: ags) (auto simp: bind_res_Inr_iff new_agent_def)

lemma new_centre_roster: "new_centre show llm_file s bus paper learner = Inr c \<Longrightarrow> map fst (ce_agents c) = map fst agent_roster"
  by (auto simp: new_centre_def bind_res_Inr_iff dest: init_agents_keys)

lemma shown_fold:
  assumes "\<And>x c. x \<in> set xs \<Longrightarrow> h (f x c) = h c"
  shows "h (fold f xs c) = h c"
  using assms by (induction xs arbitrary: c) auto

lemma steps_keep [simp]:
  "ce_paper (pipeline_step ev sy run x c) = ce_paper c" "ce_learner (pipeline_step ev sy run x c) = ce_learner c"
  "ce_mcp (pipeline_step ev sy run x c) = ce_mcp c" "map fst (ce_agents (pipeline_step ev sy run x c)) = map fst (ce_agents c)"
  by (cases x; simp add: pipeline_step_def)+

lemma opinions_keep [simp]:
  "ce_paper (fold (pipeline_step ev sy run) xs c) = ce_paper c" "ce_learner (fold (pipeline_step ev sy run) xs c) = ce_learner c"
  "ce_mcp (fold (pipeline_step ev sy run) xs c) = ce_mcp c"
  "map fst (ce_agents (fold (pipeline_step ev sy run) xs c)) = map fst (ce_agents c)"
  by (rule shown_fold, simp)+

lemma before_keeps [simp]:
  "ce_paper (before_execution ev sy run p c) = ce_paper c" "ce_learner (before_execution ev sy run p c) = ce_learner c"
  "ce_mcp (before_execution ev sy run p c) = ce_mcp c" "map fst (ce_agents (before_execution ev sy run p c)) = map fst (ce_agents c)"
  by (simp_all add: before_execution_def)

lemma rejection_keeps [simp]:
  "ce_paper (after_rejection ev sy run r c) = ce_paper c" "ce_learner (after_rejection ev sy run r c) = ce_learner c"
  "ce_mcp (after_rejection ev sy run r c) = ce_mcp c" "map fst (ce_agents (after_rejection ev sy run r c)) = map fst (ce_agents c)"
  by (simp_all add: after_rejection_def)

lemma context_keeps [simp]:
  "ce_paper (fst (read_context ev cs c)) = ce_paper c" "ce_mcp (fst (read_context ev cs c)) = ce_mcp c"
  "ce_agents (fst (read_context ev cs c)) = ce_agents c"
  by (simp_all add: read_context_def split: prod.splits)

lemma view_keeps [simp]:
  "ce_paper (fst (portfolio_view ev c)) = fst (engine_snapshot (ce_paper c))" "ce_learner (fst (portfolio_view ev c)) = ce_learner c"
  "ce_mcp (fst (portfolio_view ev c)) = ce_mcp c" "ce_agents (fst (portfolio_view ev c)) = ce_agents c"
  by (simp_all add: portfolio_view_def Let_def split: prod.splits)

lemma other_views_keep [simp]:
  "ce_paper (fst (risk_panel l c)) = fst (engine_snapshot (ce_paper c))" "ce_learner (fst (risk_panel l c)) = ce_learner c"
  "ce_mcp (fst (risk_panel l c)) = ce_mcp c" "ce_agents (fst (risk_panel l c)) = ce_agents c"
  "ce_paper (fst (system_status c)) = fst (engine_snapshot (ce_paper c))" "ce_learner (fst (system_status c)) = ce_learner c"
  "ce_mcp (fst (system_status c)) = ce_mcp c" "ce_agents (fst (system_status c)) = ce_agents c"
  by (simp_all add: risk_panel_def system_status_def split_beta Let_def)

lemma announce_portfolio_keeps [simp]:
  "ce_paper (announce_portfolio ev run c) = fst (engine_snapshot (fst (engine_snapshot (ce_paper c))))"
  "ce_learner (announce_portfolio ev run c) = ce_learner c" "ce_mcp (announce_portfolio ev run c) = ce_mcp c"
  "ce_agents (announce_portfolio ev run c) = ce_agents c"
  by (simp_all add: announce_portfolio_def split_beta)

lemma fill_keeps [simp]:
  "ce_paper (after_fill ev sy run r c) = fst (engine_snapshot (fst (engine_snapshot (ce_paper c))))"
  "ce_learner (after_fill ev sy run r c) = ce_learner c" "ce_mcp (after_fill ev sy run r c) = ce_mcp c"
  "map fst (ce_agents (after_fill ev sy run r c)) = map fst (ce_agents c)"
  by (simp_all add: after_fill_def Let_def)

lemma teach_keeps [simp]:
  "ce_paper (fst (teach ev sy run price cs c)) = ce_paper c" "ce_mcp (fst (teach ev sy run price cs c)) = ce_mcp c"
  "map fst (ce_agents (fst (teach ev sy run price cs c))) = map fst (ce_agents c)"
  by (simp_all add: teach_def Let_def split: sum.splits prod.splits)

lemma with_paper_fields [simp]:
  "ce_paper (fst (with_paper c x)) = fst x" "ce_learner (fst (with_paper c x)) = ce_learner c" "ce_mcp (fst (with_paper c x)) = ce_mcp c"
  "ce_agents (fst (with_paper c x)) = ce_agents c" "snd (with_paper c x) = snd x"
  by (simp_all add: with_paper_def)

section \<open>A stopped engine stays stopped\<close>

definition no_trading :: "paper_engine \<Rightarrow> bool" where
  "no_trading e \<longleftrightarrow> ex_orders (en_exchange e) = [] \<and> ex_fills (en_exchange e) = [] \<and> ex_trades (en_exchange e) = []"

definition frozen_since :: "paper_engine \<Rightarrow> paper_engine \<Rightarrow> bool" where
  "frozen_since e0 e \<longleftrightarrow> ks_active (en_kill e) \<and> sv_orders (en_store e) = sv_orders (en_store e0)
     \<and> (trading_record e = trading_record e0 \<or> no_trading e)"

lemma frozen_step:
  assumes "frozen_since e0 e" and "trading_record e' = trading_record e" and "ks_active (en_kill e')"
  shows "frozen_since e0 e'"
  using assms by (auto simp: frozen_since_def trading_record_def no_trading_def)

lemma stop_file_keeps_killed: "ks_active (en_kill e) \<Longrightarrow> ks_active (en_kill (check_stop_file stop e))"
  by (cases stop) (simp_all add: stop_file_kills)

lemma start_frozen:
  assumes "frozen_since e0 e"
  shows "frozen_since e0 (fst (engine_start stop e))"
proof (rule frozen_step [OF assms])
  have killed: "ks_active (en_kill (check_stop_file stop e))"
    using assms by (simp add: frozen_since_def stop_file_keeps_killed)
  then show "ks_active (en_kill (fst (engine_start stop e)))" by (simp add: engine_start_def Let_def)
  have "trading_record (f\<lparr>en_running := b\<rparr>) = trading_record f" for f :: paper_engine and b by (simp add: trading_record_def)
  then show "trading_record (fst (engine_start stop e)) = trading_record e"
    using killed by (simp add: engine_start_def Let_def)
qed

lemma execute_when_killed:
  assumes "ks_active (en_kill e)"
  shows "\<exists>r. execute_approved_plan h f half f3 stop run p price asset rs st e = (check_stop_file stop e, Inr r) \<and> \<not> er_executed r"
  using stop_file_keeps_killed [OF assms, of stop] by (auto simp: execute_approved_plan_def no_execution_def Let_def)

lemma stop_frozen:
  assumes "frozen_since e0 e"
  shows "frozen_since e0 (engine_stop e)"
proof (rule frozen_step [OF assms])
  let ?e = "e\<lparr>en_running := False\<rparr>"
  have drop: "trading_record (f\<lparr>en_session := s\<rparr>) = trading_record f" for f :: paper_engine and s by (simp add: trading_record_def)
  have "trading_record ?e = trading_record e" by (simp add: trading_record_def)
  then show "trading_record (engine_stop e) = trading_record e"
    by (simp add: engine_stop_def split_beta drop)
  show "ks_active (en_kill (engine_stop e))"
    using assms by (simp add: engine_stop_def split_beta save_session_def frozen_since_def)
qed

lemma reset_frozen:
  assumes "frozen_since e0 e"
  shows "frozen_since e0 (engine_reset year seq e)"
proof -
  have "trading_record (fst (engine_snapshot f)) = trading_record f" for f by simp
  then have "no_trading (fst (engine_snapshot f)) = no_trading f" for f by (simp add: trading_record_def no_trading_def)
  then show ?thesis
    using assms by (simp add: engine_reset_def frozen_since_def Let_def save_session_def no_trading_def new_exchange_def)
qed

lemma snapshot_frozen: "frozen_since e0 e \<Longrightarrow> frozen_since e0 (fst (engine_snapshot e))"
  by (rule frozen_step) (simp_all add: frozen_since_def)

section \<open>The demonstration cycle of a stopped engine\<close>

lemma context_memory [simp]: "ln_memory (fst (learning_context_for half sq cs fs l)) = ln_memory l"
  by (simp add: learning_context_for_def detect_market_regime_def split: sum.splits prod.splits)

lemma read_context_memory [simp]: "ln_memory (ce_learner (fst (read_context ev cs c))) = ln_memory (ce_learner c)"
  by (simp add: read_context_def split_beta)

lemma trade_killed:
  assumes "ks_active (en_kill (ce_paper c))"
  shows "\<exists>e. fst (demo_cycle_trade ev stop run sy price c) = c\<lparr>ce_paper := e\<rparr> \<and> (frozen_since e0 (ce_paper c) \<longrightarrow> frozen_since e0 e)
    \<and> (\<forall>r. snd (demo_cycle_trade ev stop run sy price c) = Inr r \<longrightarrow> \<not> er_executed r)"
proof (cases "engine_start stop (ce_paper c)")
  case (Pair e1 x)
  have started: "frozen_since e0 (ce_paper c) \<longrightarrow> frozen_since e0 e1" for e0 using start_frozen [of e0 "ce_paper c" stop] Pair by simp
  moreover have "frozen_since (ce_paper c) (ce_paper c)" using assms by (simp add: frozen_since_def)
  ultimately have killed: "ks_active (en_kill e1)" by (auto simp: frozen_since_def)
  obtain r where r: "execute_approved_plan (cv_h16 ev) (cv_f10 ev) (cv_half ev) (cv_f3 ev) stop run (scripted_plan sy price) price ''CRYPTO'' []
      False e1 = (check_stop_file stop e1, Inr r)" "\<not> er_executed r"
    using execute_when_killed [OF killed] by blast
  have "frozen_since e0 e1 \<longrightarrow> frozen_since e0 (check_stop_file stop e1)"
    using frozen_step [of e0 e1 "check_stop_file stop e1"] stop_file_keeps_killed [OF killed] by simp
  then show ?thesis
    using started r Pair by (cases x) (auto simp: demo_cycle_trade_def with_paper_def)
qed

lemma demo_cycle_killed:
  assumes "ks_active (en_kill (ce_paper c))" and d_def: "d = fst (run_paper_demo_cycle ev stop run sy price c)"
  shows "(frozen_since e0 (ce_paper c) \<longrightarrow> frozen_since e0 (ce_paper d)) \<and> ln_memory (ce_learner d) = ln_memory (ce_learner c)
    \<and> map fst (ce_agents d) = map fst (ce_agents c) \<and> ce_mcp d = ce_mcp c"
proof (cases "generate_synthetic_candles (cv_iso ev) (cv_uniform ev 42) (py_upper sy) ''1h'' 80 (cv_start ev) (Fin 100)")
  case (Inr cs)
  let ?sy = "py_upper sy" and ?c1 = "fst (read_context ev cs c)" and ?lc = "snd (read_context ev cs c)"
  define c2 where "c2 = before_execution ev ?sy run (scripted_plan ?sy price) (fold (pipeline_step ev ?sy run) (pipeline ?lc) ?c1)"
  have c2: "ce_paper c2 = ce_paper c" "ln_memory (ce_learner c2) = ln_memory (ce_learner c)" "ce_mcp c2 = ce_mcp c"
    "map fst (ce_agents c2) = map fst (ce_agents c)" by (simp_all add: c2_def)
  obtain e where e: "fst (demo_cycle_trade ev stop run ?sy price c2) = c2\<lparr>ce_paper := e\<rparr>"
      "frozen_since e0 (ce_paper c) \<longrightarrow> frozen_since e0 e" "\<forall>r. snd (demo_cycle_trade ev stop run ?sy price c2) = Inr r \<longrightarrow> \<not> er_executed r"
    using trade_killed [of c2 ev stop run ?sy price e0] assms(1) c2(1) by auto
  have "d = fst (cycle_outcome ev ?sy run price cs (demo_cycle_trade ev stop run ?sy price c2))"
    by (simp add: d_def run_paper_demo_cycle_def Let_def Inr c2_def split_beta)
  then show ?thesis
    using e c2 by (cases "demo_cycle_trade ev stop run ?sy price c2"; cases "snd (demo_cycle_trade ev stop run ?sy price c2)")
      (auto simp: cycle_outcome_def)
qed (simp add: d_def run_paper_demo_cycle_def Let_def)

text \<open>An executed demonstration announces a closed position and teaches a win, but the engine it traded on still holds what the
order bought: after the order the engine is only looked at.\<close>

lemma demo_close_is_announced_only:
  "ce_paper (announce_close ev sy run price (after_fill ev sy run r c)) = fst (engine_snapshot (fst (engine_snapshot (ce_paper c))))
    \<and> ce_paper (fst (teach ev sy run price cs (announce_close ev sy run price (after_fill ev sy run r c))))
        = fst (engine_snapshot (fst (engine_snapshot (ce_paper c))))"
  by (simp add: announce_close_def)

section \<open>The kill switch of the dashboard is final\<close>

definition held_since :: "'m centre \<Rightarrow> 'm centre \<Rightarrow> bool" where
  "held_since c0 c \<longleftrightarrow> frozen_since (ce_paper c0) (ce_paper c) \<and> ln_memory (ce_learner c) = ln_memory (ce_learner c0)
     \<and> map fst (ce_agents c) = map fst (ce_agents c0) \<and> length (ce_mcp c) \<le> max 500 (length (ce_mcp c0))"

lemma retraining_memory [simp]: "ln_memory (run_retraining ml ids seed e) = ln_memory e"
  by (simp add: run_retraining_def judge_def propose_def Let_def split: sum.split train_result.split prod.split)

lemma held_shown:
  assumes "held_since c0 c" and "frozen_since (ce_paper c0) (ce_paper d)" and "ln_memory (ce_learner d) = ln_memory (ce_learner c)"
    and "map fst (ce_agents d) = map fst (ce_agents c)" and "ce_mcp d = ce_mcp c"
  shows "held_since c0 d"
  using assms by (simp add: held_since_def)

lemma kill_record [simp]: "trading_record (e\<lparr>en_kill := k, en_exchange := halt (en_exchange e) r\<rparr>) = trading_record e"
  by (simp add: trading_record_def halt_def Paper_Exchange.emit_def Let_def)

lemma kill_frozen:
  "frozen_since e0 e \<Longrightarrow> frozen_since e0 (e\<lparr>en_kill := ks_activate (en_kill e) r, en_exchange := halt (en_exchange e) r'\<rparr>)"
  by (rule frozen_step) (simp_all add: ks_activate_def)

lemma held_exec:
  assumes "held_since c0 c"
  shows "held_since c0 (centre_exec ev l op c)"
proof -
  have fr: "frozen_since (ce_paper c0) (ce_paper c)" and killed: "ks_active (en_kill (ce_paper c))"
    using assms by (simp_all add: held_since_def frozen_since_def)
  show ?thesis
  proof (cases op)
    case (Demo_Cycle stop run sy price)
    then show ?thesis
      using demo_cycle_killed [where ?e0.0 = "ce_paper c0", OF killed refl] fr held_shown [OF assms] by simp
  next
    case (Record_Tool tool st d agent)
    then show ?thesis using assms by (simp add: held_since_def) (simp add: record_mcp_def)
  qed (rule held_shown [OF assms];
       simp add: fr activate_kill_switch_def paper_start_def paper_stop_def paper_reset_def retrain_action_def kill_frozen start_frozen
         stop_frozen reset_frozen snapshot_frozen run_benchmark_def run_monte_carlo_def Let_def
         split: sum.split prod.split; fail)+
qed

lemma held_run: "held_since c0 c \<Longrightarrow> held_since c0 (centre_run ev l ops c)"
  by (induction ops arbitrary: c) (simp_all add: centre_run_def held_exec)

definition after_kill :: "'m centre_env \<Rightarrow> risk_limits \<Rightarrow> centre_op list \<Rightarrow> 'm centre \<Rightarrow> 'm centre" where
  "after_kill ev l ops c = centre_run ev l ops (activate_kill_switch ev c)"


end
