(* ===== verification/Cloud_Paper.thy ===== *)
theory Cloud_Paper
  imports Sandbox Deployment
begin

text \<open>
  \<open>cloud_paper.py\<close>, the start, reports and shutdown of \<open>sandbox/stage2_runtime.py\<close>, and \<open>sandbox/harness.py\<close>, the local
  stand-in for the test venue.  The cycle itself is in \<open>Sandbox\<close>.  Clocks, identifiers, the health of the database and the
  parsed environment variables are parameters, one value per cycle where a cycle reads them.
\<close>

section \<open>The local test venue\<close>

record harness =
  hs_orders :: "(string \<times> json_obj) list"
  hs_positions :: "json list"
  hs_authenticated :: bool
  hs_calls :: nat

definition new_harness :: harness where
  "new_harness = \<lparr>hs_orders = [], hs_positions = [], hs_authenticated = False, hs_calls = 0\<rparr>"

definition harness_balances :: json where
  "harness_balances = JList [JObj [(''asset_symbol'', JStr ''USDT''), (''available_balance'', JStr ''10000''), (''order_margin'', JStr ''0'')]]"

definition last_segment :: "string \<Rightarrow> string" where
  "last_segment p = rev (takeWhile (\<lambda>c. c \<noteq> CHR ''/'') (rev (py_rstrip_chr CHR ''/'' p)))"

definition reply_ok :: "json \<Rightarrow> (nat \<times> json) res" where
  "reply_ok j = Inr (200, JObj [(''result'', j)])"

definition open_row :: "json_obj \<Rightarrow> bool" where
  "open_row r \<longleftrightarrow> dget r ''status'' = Some (JStr ''open'') \<or> dget r ''status'' = Some (JStr ''partial'')"

definition unknown_row :: "string \<Rightarrow> json_obj" where
  "unknown_row oid = [(''id'', JStr oid), (''status'', JStr ''closed''), (''product_symbol'', JStr ''BTCUSD''), (''side'', JStr ''buy''),
     (''size'', JInt 0)]"

definition new_row :: "string \<Rightarrow> string \<Rightarrow> json_obj \<Rightarrow> json_obj" where
  "new_row oid stamp b = [(''id'', JStr oid), (''product_symbol'', json_or b [''product_symbol''] (JStr ''BTCUSD'')),
     (''side'', json_or b [''side''] (JStr ''buy'')), (''size'', json_or b [''size''] (JInt 0)),
     (''order_type'', json_or b [''order_type''] (JStr ''market'')), (''status'', JStr ''open''), (''created_at'', JStr stamp)]"

definition closed_row :: "json_obj \<Rightarrow> json_obj" where
  "closed_row r = dput ''filled_size'' (opt_default (dget r ''size'') JNull) (dput ''status'' (JStr ''closed'') r)"

definition filled_position :: "json_obj \<Rightarrow> json" where
  "filled_position r = JObj [(''product_symbol'', opt_default (dget r ''product_symbol'') JNull), (''size'', opt_default (dget r ''size'') JNull),
     (''entry_price'', JNum (Fin 100))]"

text \<open>What the process draws for an order: the digits of its identifier and its time.\<close>

record harness_env =
  hv_hex :: "nat \<Rightarrow> string"
  hv_stamp :: "nat \<Rightarrow> string"
  hv_str :: "json \<Rightarrow> string"
  hv_loads :: "string \<Rightarrow> json_obj res"

definition place_row :: "harness_env \<Rightarrow> json_obj \<Rightarrow> harness \<Rightarrow> harness \<times> json_obj" where
  "place_row v b h =
     (let oid = ''SBX-'' @ hv_hex v (hs_calls h); r = new_row oid (hv_stamp v (hs_calls h)) b;
          ty = json_or b [''order_type''] (JStr ''market'');
          at_market = (py_lower (case ty of JStr t \<Rightarrow> t | _ \<Rightarrow> hv_str v ty) = ''market'')
      in if at_market then (h\<lparr>hs_orders := dput oid (closed_row r) (hs_orders h), hs_positions := [filled_position r]\<rparr>, closed_row r)
         else (h\<lparr>hs_orders := dput oid r (hs_orders h)\<rparr>, r))"

definition cancel_row :: "string \<Rightarrow> harness \<Rightarrow> harness" where
  "cancel_row oid h = (case dget (hs_orders h) oid of
     None \<Rightarrow> h | Some r \<Rightarrow> h\<lparr>hs_orders := dput oid (dput ''status'' (JStr ''cancelled'') r) (hs_orders h)\<rparr>)"

text \<open>The dispatch on method and path; \<open>path\<close> is the URL without its scheme and host.\<close>

definition harness_orders :: "harness_env \<Rightarrow> venue_request \<Rightarrow> harness \<Rightarrow> harness \<times> (nat \<times> json) res" where
  "harness_orders v q h =
     (let path = vr_path q; verb = py_upper (vr_method q); oid = last_segment path in
      if path = ''/v2/orders'' \<and> verb = ''GET'' then (h, reply_ok (JList (map JObj (filter open_row (map snd (hs_orders h))))))
      else if py_startswith path ''/v2/orders/history'' then (h, reply_ok (JList (map (JObj \<circ> snd) (hs_orders h))))
      else if py_startswith path ''/v2/orders/'' \<and> verb = ''GET''
      then (h, reply_ok (JObj (opt_default (dget (hs_orders h) oid) (unknown_row oid))))
      else if path = ''/v2/orders'' \<and> verb = ''POST''
      then (case (if vr_body q = [] then Inr [] else hv_loads v (vr_body q)) of
              Inl e \<Rightarrow> (h, Inl e) | Inr b \<Rightarrow> (case place_row v b h of (h1, r) \<Rightarrow> (h1, reply_ok (JObj r))))
      else if py_startswith path ''/v2/orders/'' \<and> verb = ''DELETE''
      then (cancel_row oid h, reply_ok (JObj [(''id'', JStr oid), (''status'', JStr ''cancelled''), (''product_symbol'', JStr ''BTCUSD'')]))
      else (h, Inr (404, JObj [(''error'', JStr ''not_found''), (''path'', JStr path)])))"

definition harness_call :: "harness_env \<Rightarrow> venue_request \<Rightarrow> harness \<Rightarrow> harness \<times> (nat \<times> json) res" where
  "harness_call v q h0 =
     (let h = h0\<lparr>hs_calls := hs_calls h0 + 1\<rparr>; path = vr_path q in
      if py_startswith path ''/v2/tickers'' then (h, reply_ok (JObj [(''close'', JStr ''100.0''), (''mark_price'', JStr ''100.0'')]))
      else if py_startswith path ''/v2/l2orderbook'' then (h, reply_ok (JObj [(''buy'', JList []), (''sell'', JList [])]))
      else if py_startswith path ''/v2/products'' then (h, reply_ok (JObj [(''symbol'', JStr ''BTCUSD'')]))
      else if py_startswith path ''/v2/wallet/balances''
      then (if vr_signature q = None then (h, Inr (401, JObj [(''error'', JStr ''unauthorized'')]))
            else (h\<lparr>hs_authenticated := True\<rparr>, reply_ok harness_balances))
      else if py_startswith path ''/v2/positions'' then (h, reply_ok (JList (hs_positions h)))
      else harness_orders v q h)"

text \<open>The venue as the transport of an adapter: its answer to the last of the requests sent so far.\<close>

definition harness_after :: "harness_env \<Rightarrow> venue_request list \<Rightarrow> harness" where
  "harness_after v qs = fold (\<lambda>q h. fst (harness_call v q h)) qs new_harness"

definition harness_reply :: "harness_env \<Rightarrow> venue_request list \<Rightarrow> (nat \<times> json) res" where
  "harness_reply v qs = snd (harness_call v (last qs) (harness_after v (butlast qs)))"

section \<open>An order placed at the test venue is found again\<close>

definition on_harness :: "harness_env \<Rightarrow> pylib \<Rightarrow> venue \<Rightarrow> bool" where
  "on_harness v lib ad \<longleftrightarrow> pl_reply lib = harness_reply v \<and> sandboxed ad \<and> (\<forall>m p b. \<exists>sig. delta_sign lib ad m p [] b None = Inr sig)
     \<and> (\<forall>k. CHR ''/'' \<notin> set (hv_hex v k))"

lemma harness_after_snoc: "harness_after v (qs @ [q]) = fst (harness_call v q (harness_after v qs))"
  by (simp add: harness_after_def)

lemma harness_reply_snoc: "harness_reply v (qs @ [q]) = snd (harness_call v q (harness_after v qs))"
  by (simp add: harness_reply_def)

lemma order_paths [simp]:
  "\<not> py_startswith (''/v2/orders'' @ x) ''/v2/tickers''" "\<not> py_startswith (''/v2/orders'' @ x) ''/v2/l2orderbook''"
  "\<not> py_startswith (''/v2/orders'' @ x) ''/v2/products''" "\<not> py_startswith (''/v2/orders'' @ x) ''/v2/wallet/balances''"
  "\<not> py_startswith (''/v2/orders'' @ x) ''/v2/positions''"
  by (simp_all add: py_startswith_def)

lemma last_segment_order:
  assumes "CHR ''/'' \<notin> set x"
  shows "last_segment (''/v2/orders/SBX-'' @ x) = ''SBX-'' @ x"
proof -
  have plain: "CHR ''/'' \<notin> set (rev (''SBX-'' @ x))" using assms by simp
  have "hd (rev (''SBX-'' @ x) @ ys) \<noteq> CHR ''/''" for ys using plain by (cases x rule: rev_cases) auto
  then have "dropWhile (\<lambda>c. c = CHR ''/'') (rev (''SBX-'' @ x) @ ys) = rev (''SBX-'' @ x) @ ys" for ys
    unfolding dropWhile_eq_self_iff by blast
  from this [of "rev ''/v2/orders/''"] have "py_rstrip_chr CHR ''/'' (''/v2/orders/SBX-'' @ x) = ''/v2/orders/SBX-'' @ x"
    by (simp add: py_rstrip_chr_def)
  moreover have "takeWhile (\<lambda>c. c \<noteq> CHR ''/'') (rev (''SBX-'' @ x) @ CHR ''/'' # ys) = rev (''SBX-'' @ x)" for ys
    using plain by (subst takeWhile_append2) auto
  from this [of "rev ''/v2/orders''"] have "takeWhile (\<lambda>c. c \<noteq> CHR ''/'') (rev (''/v2/orders/SBX-'' @ x)) = rev (''SBX-'' @ x)"
    by simp
  ultimately show ?thesis by (simp add: last_segment_def)
qed

lemma venue_sends:
  assumes "on_harness v lib ad"
  shows "\<exists>sig. delta_request lib ad m p True b = send_request lib ad
    \<lparr>vr_injected = ve_injected ad, vr_method = m, vr_path = p, vr_body = b, vr_signature = Some sig\<rparr>"
proof -
  obtain sig where "delta_sign lib ad m p [] b None = Inr sig" using assms unfolding on_harness_def by blast
  then have "delta_request lib ad m p True b = send_request lib ad
    \<lparr>vr_injected = ve_injected ad, vr_method = m, vr_path = p, vr_body = b, vr_signature = Some sig\<rparr>"
    by (simp add: delta_request_def)
  then show ?thesis by blast
qed

lemma send_on_harness:
  assumes "on_harness v lib ad" and "snd (harness_call v q (harness_after v (ve_sent ad))) = Inr (200, JObj d)"
  shows "\<exists>ad'. send_request lib ad q = (ad', Inr d) \<and> on_harness v lib ad' \<and> ve_sent ad' = ve_sent ad @ [q]"
proof -
  let ?ad = "mark_ok (ad\<lparr>ve_sent := ve_sent ad @ [q]\<rparr>)"
  have "send_request lib ad q = (?ad, Inr d)"
    using assms by (simp add: send_request_def on_harness_def harness_reply_snoc Let_def)
  moreover have "delta_sign lib ?ad m p [] b None = delta_sign lib ad m p [] b None" for m p b
    by (simp add: delta_sign_def mark_ok_def Let_def cong: option.case_cong)
  then have "on_harness v lib ?ad" using assms(1) by (simp add: on_harness_def mark_ok_def sandboxed_def)
  ultimately show ?thesis by (simp add: mark_ok_def)
qed

lemma lower_names [simp]:
  "reply_side (py_lower (side_value BUY)) = BUY" "reply_side (py_lower (side_value SELL)) = SELL"
  "reply_type (py_lower (type_value MARKET)) = MARKET" "reply_type (py_lower (type_value LIMIT)) = LIMIT"
  by code_simp+

text \<open>The body that the adapter sends, and the row that the venue makes of it.\<close>

definition order_body :: "order \<Rightarrow> json_obj" where
  "order_body ord = [(''product_symbol'', JStr (o_symbol ord)), (''side'', JStr (py_lower (side_value (o_side ord)))),
     (''size'', JNum (o_quantity ord)), (''order_type'', JStr (py_lower (type_value (o_order_type ord))))]"

definition placed_row :: "order \<Rightarrow> string \<Rightarrow> json_obj \<Rightarrow> bool" where
  "placed_row ord oid r \<longleftrightarrow> dget r ''id'' = Some (JStr oid) \<and> dget r ''product_symbol'' = Some (JStr (o_symbol ord))
     \<and> dget r ''side'' = Some (JStr (py_lower (side_value (o_side ord))))
     \<and> dget r ''size'' = Some (if o_quantity ord = Fin 0 then JInt 0 else JNum (o_quantity ord))
     \<and> dget r ''order_type'' = Some (JStr (py_lower (type_value (o_order_type ord)))) \<and> \<not> get_truthy r ''limit_price''"

lemma name_nonempty [simp]: "py_lower (side_value sd) \<noteq> []" "py_lower (type_value ty) \<noteq> []"
  by (cases sd; simp add: side_value_def py_lower_def) (cases ty; simp add: type_value_def py_lower_def)

lemma place_order_row:
  assumes "o_symbol ord \<noteq> []"
  shows "\<exists>h' r. place_row v (order_body ord) h = (h', r) \<and> dget (hs_orders h') (''SBX-'' @ hv_hex v (hs_calls h)) = Some r
    \<and> placed_row ord (''SBX-'' @ hv_hex v (hs_calls h)) r \<and> hs_calls h' = hs_calls h"
  using assms
  by (simp add: place_row_def order_body_def Let_def new_row_def closed_row_def placed_row_def get_truthy_def json_truthy_def opt_default_def
      dget_dput)

lemma row_reads:
  assumes "placed_row ord oid r" and "oid \<noteq> []" and "o_symbol ord \<noteq> []"
  shows "json_or [(''result'', JObj r)] [''result''] j = JObj r" "json_or r [''id''] j = JStr oid"
    "json_or r [''product_symbol'', ''symbol''] j = JStr (o_symbol ord)"
    "json_or r [''side''] j = JStr (py_lower (side_value (o_side ord)))"
    "json_or r [''order_type''] j = JStr (py_lower (type_value (o_order_type ord)))"
    "json_float lib (json_or r [''size''] (JInt 0)) = Inr (o_quantity ord)" "\<not> get_truthy r ''limit_price''"
proof -
  have "r \<noteq> []" using assms(1) by (auto simp: placed_row_def)
  then show "json_or [(''result'', JObj r)] [''result''] j = JObj r" by (simp add: get_truthy_def json_truthy_def opt_default_def)
qed (use assms in \<open>auto simp: placed_row_def get_truthy_def json_truthy_def opt_default_def json_float_def f_of_int_def\<close>)

text \<open>The local test venue keeps what it accepts: when the adapter places a market or limit order over the local venue, the
order is accepted, and asking for it by the identifier in the answer finds the same identifier, symbol, side, type and quantity.
The identifier's digits hold no slash, and the encoder's text reads back.\<close>

theorem local_venue_round_trip:
  assumes "on_harness v lib ad" and "o_symbol ord \<noteq> []" and "o_side ord \<in> {BUY, SELL}" and "o_order_type ord \<in> {MARKET, LIMIT}"
    and "pl_dumps lib (order_body ord) \<noteq> []" and "hv_loads v (pl_dumps lib (order_body ord)) = Inr (order_body ord)"
  shows "\<exists>ad1 o1 ad2 o2. delta_create_order lib se ad ord = (ad1, Inr o1) \<and> delta_get_order lib ad1 (the (o_order_id o1)) = (ad2, Inr o2)
    \<and> o_order_id o2 = o_order_id o1 \<and> o_symbol o2 = o_symbol ord \<and> o_side o2 = o_side ord \<and> o_order_type o2 = o_order_type ord
    \<and> o_quantity o2 = o_quantity ord"
proof -
  let ?h = "harness_after v (ve_sent ad)" and ?body = "pl_dumps lib (order_body ord)"
  define oid where "oid = ''SBX-'' @ hv_hex v (Suc (hs_calls ?h))"
  have noslash: "CHR ''/'' \<notin> set (hv_hex v k)" for k using assms(1) by (simp add: on_harness_def)
  obtain sig where send: "delta_request lib ad ''POST'' ''/v2/orders'' True ?body = send_request lib ad
      \<lparr>vr_injected = ve_injected ad, vr_method = ''POST'', vr_path = ''/v2/orders'', vr_body = ?body, vr_signature = Some sig\<rparr>"
    (is "_ = send_request lib ad ?q") using venue_sends [OF assms(1)] by blast
  obtain h' r where placed: "place_row v (order_body ord) (?h\<lparr>hs_calls := hs_calls ?h + 1\<rparr>) = (h', r)"
    and found: "dget (hs_orders h') oid = Some r" and row: "placed_row ord oid r"
    using place_order_row [OF assms(2), of v "?h\<lparr>hs_calls := hs_calls ?h + 1\<rparr>"] by (auto simp: oid_def)
  have call: "harness_call v ?q ?h = (h', reply_ok (JObj r))"
    using placed assms(5,6) order_paths [of "[]"] by (simp add: harness_call_def harness_orders_def py_startswith_def py_upper_def Let_def)
  then obtain ad1 where ad1: "send_request lib ad ?q = (ad1, Inr [(''result'', JObj r)])" "on_harness v lib ad1"
      "ve_sent ad1 = ve_sent ad @ [?q]"
    using send_on_harness [OF assms(1), of ?q] by (auto simp: reply_ok_def)
  have after: "harness_after v (ve_sent ad1) = h'" using ad1(3) call by (simp add: harness_after_snoc)
  have path: "last_segment (''/v2/orders/'' @ oid) = oid" using last_segment_order [OF noslash] by (simp add: oid_def)
  obtain sig2 where ask: "delta_request lib ad1 ''GET'' (''/v2/orders/'' @ oid) True [] = send_request lib ad1
      \<lparr>vr_injected = ve_injected ad1, vr_method = ''GET'', vr_path = ''/v2/orders/'' @ oid, vr_body = [], vr_signature = Some sig2\<rparr>"
    (is "_ = send_request lib ad1 ?q2") using venue_sends [OF ad1(2)] by blast
  have "snd (harness_call v ?q2 h') = reply_ok (JObj r)"
    using order_paths [of "''/'' @ oid"] path found
    by (simp add: harness_call_def harness_orders_def py_startswith_def py_upper_def Let_def opt_default_def oid_def)
  then obtain ad2 where ad2: "send_request lib ad1 ?q2 = (ad2, Inr [(''result'', JObj r)])"
    using send_on_harness [OF ad1(2), of ?q2] after by (auto simp: reply_ok_def)
  have oid: "oid \<noteq> []" by (simp add: oid_def)
  have "delta_create_order lib se ad ord = (ad1, Inr (reply_order oid (o_symbol ord) (o_side ord) (o_order_type ord) (o_quantity ord)
      (o_limit_price ord)))"
    using send ad1(1) assms(1) row_reads [OF row oid assms(2)]
    by (simp add: delta_create_order_def assert_live_orders_allowed_def on_harness_def sandboxed_def with_reply_def order_body_def
        json_fields_def json_str_def del: json_or.simps)
  moreover have "delta_get_order lib ad1 oid = (ad2, Inr (reply_order oid (o_symbol ord) (o_side ord) (o_order_type ord)
      (o_quantity ord) None))"
    using ask ad2 row_reads [OF row oid assms(2)] assms(3,4)
    by (auto simp: delta_get_order_def with_reply_def json_fields_def json_str_def optional_float_def simp del: json_or.simps)
  ultimately show ?thesis by (simp add: reply_order_def new_order_def)
qed

definition demo_harness :: harness_env where
  "demo_harness = \<lparr>hv_hex = \<lambda>_. ''0a'', hv_stamp = \<lambda>_. ''t'', hv_str = \<lambda>_. [],
     hv_loads = \<lambda>_. Inr (order_body (new_order ''BTCUSD'' BUY MARKET (Fin 1)))\<rparr>"

definition harness_lib :: pylib where
  "harness_lib = demo_lib\<lparr>pl_dumps := \<lambda>_. ''body'', pl_reply := harness_reply demo_harness\<rparr>"

theorem local_venue_round_trip_witness:
  "\<exists>ad1 o1 ad2 o2. delta_create_order harness_lib \<lparr>se_trading_mode = ''paper'', se_live_enabled = False\<rparr>
       (new_venue TESTNET ''k'' ''s'' True) (new_order ''BTCUSD'' BUY MARKET (Fin 1)) = (ad1, Inr o1)
    \<and> delta_get_order harness_lib ad1 (the (o_order_id o1)) = (ad2, Inr o2) \<and> o_quantity o2 = Fin 1"
proof -
  have "on_harness demo_harness harness_lib (new_venue TESTNET ''k'' ''s'' True)"
    by (simp add: on_harness_def harness_lib_def demo_harness_def sandboxed_def new_venue_def delta_sign_def demo_lib_def Let_def)
  from local_venue_round_trip [OF this, of "new_order ''BTCUSD'' BUY MARKET (Fin 1)" "\<lparr>se_trading_mode = ''paper'', se_live_enabled = False\<rparr>"]
  show ?thesis by (fastforce simp: new_order_def harness_lib_def demo_harness_def)
qed

section \<open>The runtime's start, reports and shutdown\<close>

record 's cloud =
  cl_runtime :: "'s runtime"
  cl_started :: "string option"

abbreviation cl_adapter :: "'s cloud \<Rightarrow> sandbox_adapter" where
  "cl_adapter c \<equiv> sx_adapter (rt_exec (cl_runtime c))"

definition with_adapter :: "'s cloud \<Rightarrow> sandbox_adapter \<Rightarrow> 's cloud" where
  "with_adapter c sa = c\<lparr>cl_runtime := (cl_runtime c)\<lparr>rt_exec := (rt_exec (cl_runtime c))\<lparr>sx_adapter := sa\<rparr>\<rparr>\<rparr>"

definition stage2_row :: "string \<Rightarrow> json_obj" where
  "stage2_row started = [(''started_at'', JStr started), (''stage'', JStr (stage_value STAGE_2_CLOUD_PAPER)), (''TRADING_MODE'', JStr ''paper''),
     (''LIVE_TRADING_ENABLED'', JBool False)]"

text \<open>The stream's connect function does nothing, so the first attempt succeeds.\<close>

definition cloud_start :: "'s kv_put \<Rightarrow> nat \<Rightarrow> int \<Rightarrow> string \<Rightarrow> 's cloud \<Rightarrow> 's cloud" where
  "cloud_start put now us stamp c =
     (let rt = cl_runtime c; ws = fst (ws_on_message us (ws_connect (\<lambda>_. None) (rt_ws rt)) ''hello'')
      in c\<lparr>cl_started := Some stamp,
           cl_runtime := rt\<lparr>rt_ws := ws, rt_exec := set_store (rt_exec rt) (put now ''runtime'' ''stage2'' (stage2_row stamp) (sx_store (rt_exec rt)))\<rparr>\<rparr>)"

definition cloud_shutdown :: "'s cloud \<Rightarrow> 's cloud" where
  "cloud_shutdown c = c\<lparr>cl_runtime := (cl_runtime c)\<lparr>rt_ws := (rt_ws (cl_runtime c))\<lparr>ws_connected := False\<rparr>\<rparr>\<rparr>"

record cloud_health =
  hl_stage :: trading_stage
  hl_kill :: "bool \<times> bool"
  hl_db :: bool

text \<open>The process is built for stage 2 and never promotes itself.\<close>

definition cloud_health :: "'s kv_get \<Rightarrow> bool \<Rightarrow> 's cloud \<Rightarrow> cloud_health" where
  "cloud_health get db_ok c = \<lparr>hl_stage = STAGE_2_CLOUD_PAPER, hl_kill = dk_status get (rt_kill (cl_runtime c)), hl_db = db_ok\<rparr>"

record readiness =
  rd_ready :: bool
  rd_authenticated :: bool
  rd_exchange_ok :: bool
  rd_db_ok :: bool
  rd_kill_blocks :: bool

definition readiness :: "pylib \<Rightarrow> 's kv_get \<Rightarrow> bool \<Rightarrow> 's cloud \<Rightarrow> 's cloud \<times> readiness res" where
  "readiness lib get db_ok c = (case sandbox_authenticate lib (cl_adapter c) of
     (a1, Inl e) \<Rightarrow> (with_adapter c a1, Inl e)
   | (a1, Inr signed) \<Rightarrow> (case sandbox_health lib a1 of (a2, ok) \<Rightarrow>
       (with_adapter c a2, Inr \<lparr>rd_ready = (signed \<and> ok \<and> db_ok), rd_authenticated = signed, rd_exchange_ok = ok, rd_db_ok = db_ok,
          rd_kill_blocks = dk_active get (rt_kill (cl_runtime c))\<rparr>)))"

datatype health_page = Health cloud_health | Ready readiness | Alive "string option" | Not_Found

definition do_GET :: "pylib \<Rightarrow> 's kv_get \<Rightarrow> bool \<Rightarrow> string \<Rightarrow> 's cloud \<Rightarrow> 's cloud \<times> (nat \<times> health_page) res" where
  "do_GET lib get db_ok path c =
     (if path = ''/health'' then (c, Inr (200, Health (cloud_health get db_ok c)))
      else if path = ''/ready''
      then (case readiness lib get db_ok c of
              (c1, Inl e) \<Rightarrow> (c1, Inl e) | (c1, Inr r) \<Rightarrow> (c1, Inr (if rd_ready r then 200 else 503, Ready r)))
      else if path = ''/livez'' then (c, Inr (200, Alive (cl_started c)))
      else (c, Inr (404, Not_Found)))"

section \<open>The main loop\<close>

text \<open>\<open>time.sleep\<close> refuses negative values, values that are no number, and values too large.\<close>

definition sleep_result :: "pyfloat \<Rightarrow> unit res" where
  "sleep_result x = (case x of NaN \<Rightarrow> Inl (ValueError ''Invalid value NaN (not a number)'')
     | PosInf \<Rightarrow> Inl OverflowError | NegInf \<Rightarrow> Inl OverflowError
     | Fin q \<Rightarrow> if q < 0 then Inl (ValueError ''sleep length must be non-negative'') else Inr ())"

text \<open>\<open>cycle k\<close> is the k-th call of \<open>run_cycle\<close>; a maximum of zero means no end.\<close>

definition last_cycle :: "int \<Rightarrow> nat \<Rightarrow> bool" where
  "last_cycle max_cycles completed \<longleftrightarrow> max_cycles \<noteq> 0 \<and> max_cycles \<le> int completed"

partial_function (option) cloud_loop ::
  "(nat \<Rightarrow> 's runtime \<Rightarrow> 's runtime \<times> json_obj res) \<Rightarrow> int \<Rightarrow> pyfloat \<Rightarrow> nat \<Rightarrow> 's runtime \<Rightarrow> ('s runtime \<times> unit res) option" where
  "cloud_loop cycle max_cycles interval k rt =
     (case cycle k rt of
        (rt1, Inl e) \<Rightarrow> Some (rt1, Inl e)
      | (rt1, Inr row) \<Rightarrow>
          if last_cycle max_cycles (Suc k) then Some (rt1, Inr ())
          else (case sleep_result interval of
                  Inl e \<Rightarrow> Some (rt1, Inl e) | Inr u \<Rightarrow> cloud_loop cycle max_cycles interval (Suc k) rt1))"

record 's cloud_env =
  ce_put :: "'s kv_put"
  ce_get :: "'s kv_get"
  ce_lib :: pylib
  ce_settings :: settings
  ce_now :: "nat \<Rightarrow> nat"
  ce_us :: "nat \<Rightarrow> int"
  ce_db :: "nat \<Rightarrow> bool"
  ce_readable :: "nat \<Rightarrow> bool"
  ce_cycle :: "nat \<Rightarrow> string"
  ce_intent :: "nat \<Rightarrow> string"
  ce_stamp :: "nat \<Rightarrow> string"

definition nth_cycle :: "'s cloud_env \<Rightarrow> nat \<Rightarrow> 's runtime \<Rightarrow> 's runtime \<times> json_obj res" where
  "nth_cycle v k rt = run_cycle (ce_put v) (ce_get v) (ce_lib v) (ce_settings v) (ce_now v k) (ce_us v k) (ce_db v k) (ce_readable v k)
     (ce_cycle v k) (ce_intent v k) (ce_stamp v k) rt"

record cloud_args =
  ca_live :: "string option"
  ca_port :: "int res"
  ca_max_cycles :: "int res"
  ca_interval :: "pyfloat res"

text \<open>An argument that does not parse ends the process after the start and before the block that shuts down.\<close>

definition cloud_main :: "'s cloud_env \<Rightarrow> cloud_args \<Rightarrow> 's cloud \<Rightarrow> ('s cloud \<times> unit res) option" where
  "cloud_main v a c = (case assert_cloud_paper_isolation (ce_settings v) (ca_live a) of
     Inl e \<Rightarrow> Some (c, Inl e)
   | Inr _ \<Rightarrow>
      (let c1 = cloud_start (ce_put v) (ce_now v 0) (ce_us v 0) (ce_stamp v 0) c in
       case bind_res (ca_port a) (\<lambda>_. bind_res (ca_max_cycles a) (\<lambda>n. bind_res (ca_interval a) (\<lambda>x. Inr (n, x)))) of
         Inl e \<Rightarrow> Some (c1, Inl e)
       | Inr (n, x) \<Rightarrow> map_option (\<lambda>(rt, r). (cloud_shutdown (c1\<lparr>cl_runtime := rt\<rparr>), r)) (cloud_loop (nth_cycle v) n x 0 (cl_runtime c1))))"

section \<open>How often the process trades\<close>

lemma record_cycles [simp]: "rt_cycles (rt_record put now rt cy row) = rt_cycles rt @ [row]"
  by (simp add: rt_record_def)

lemma cycle_recorded: "nth_cycle v k rt = (rt', Inr row) \<Longrightarrow> rt_cycles rt' = rt_cycles rt @ [row]"
  by (auto simp: nth_cycle_def run_cycle_def no_trade_def Let_def split: if_splits prod.splits sum.splits)

lemma cycle_failed: "nth_cycle v k rt = (rt', Inl e) \<Longrightarrow> rt_cycles rt' = rt_cycles rt"
  by (auto simp: nth_cycle_def run_cycle_def no_trade_def Let_def split: if_splits prod.splits sum.splits)

definition wanted :: "int \<Rightarrow> nat" where
  "wanted n = (if n < 1 then 1 else nat n)"

lemma loop_ends:
  assumes "n \<noteq> 0" and "k < wanted n"
  shows "\<exists>rt' r. cloud_loop (nth_cycle v) n x k rt = Some (rt', r)
    \<and> (r = Inr () \<longrightarrow> length (rt_cycles rt') = length (rt_cycles rt) + (wanted n - k))
    \<and> length (rt_cycles rt') \<le> length (rt_cycles rt) + (wanted n - k)"
  using assms(2)
proof (induction "wanted n - k" arbitrary: k rt)
  case (Suc d)
  obtain rt1 y where step: "nth_cycle v k rt = (rt1, y)" by fastforce
  show ?case
  proof (cases y)
    case (Inl e)
    then show ?thesis using step cycle_failed [of v k rt rt1 e] by (simp add: cloud_loop.simps)
  next
    case (Inr row)
    then have more: "length (rt_cycles rt1) = Suc (length (rt_cycles rt))" using step cycle_recorded [of v k rt rt1 row] by simp
    show ?thesis
    proof (cases "last_cycle n (Suc k)")
      case True
      then have "wanted n - k = 1" using Suc.prems assms(1) by (auto simp: last_cycle_def wanted_def split: if_splits)
      then show ?thesis using step Inr more True by (simp add: cloud_loop.simps)
    next
      case False
      then have next_cycle: "Suc k < wanted n" using assms(1) by (auto simp: last_cycle_def wanted_def split: if_splits)
      have "\<exists>rt' r. cloud_loop (nth_cycle v) n x (Suc k) rt1 = Some (rt', r)
          \<and> (r = Inr () \<longrightarrow> length (rt_cycles rt') = length (rt_cycles rt1) + (wanted n - Suc k))
          \<and> length (rt_cycles rt') \<le> length (rt_cycles rt1) + (wanted n - Suc k)"
        by (rule Suc.hyps(1)) (use Suc.hyps(2) next_cycle in auto)
      then show ?thesis
        using step Inr more False next_cycle by (subst cloud_loop.simps) (auto split: sum.splits)
    qed
  qed
qed simp

lemma endless_loop:
  assumes "cloud_loop cycle n x k rt = Some r"
  shows "n = 0 \<longrightarrow> (\<exists>e. snd r = Inl e)"
  by (rule cloud_loop.raw_induct [OF _ assms]) (auto simp: last_cycle_def split: prod.splits sum.splits dest: sym)


definition demo_cloud :: "settings \<Rightarrow> store cloud_env" where
  "demo_cloud se = \<lparr>ce_put = st_put, ce_get = st_get, ce_lib = demo_lib, ce_settings = se, ce_now = \<lambda>k. k, ce_us = int, ce_db = \<lambda>_. False,
     ce_readable = \<lambda>_. True, ce_cycle = \<lambda>_. ''S2'', ce_intent = \<lambda>_. ''I'', ce_stamp = \<lambda>_. ''t''\<rparr>"

definition demo_args :: cloud_args where
  "demo_args = \<lparr>ca_live = None, ca_port = Inr 8080, ca_max_cycles = Inr 2, ca_interval = Inr (Fin 30)\<rparr>"


end
