(* ===== verification/Backtest_Store.thy ===== *)
theory Backtest_Store
  imports Backtest_Engine Paper_Store History
begin

text \<open>
  What surrounds a backtest: \<open>backtest/config.py\<close>, the identity and the result of a run in \<open>backtest/models.py\<close>, its storing
  in \<open>backtest/store.py\<close>, its reports in \<open>backtest/reporting.py\<close>, \<open>backtest/sensitivity.py\<close>, \<open>backtest/llm_cache.py\<close> and
  \<open>mcp_tools/backtest.py\<close>.  Hashes, the JSON text of a value and the printing of numbers are parameters; metrics are JSON objects.
\<close>

section \<open>Configuration\<close>

record full_config =
  fc_core :: backtest_config
  fc_currency :: string
  fc_prevent_leakage :: bool
  fc_closed_only :: bool
  fc_strategy_rules :: bool
  fc_agent_mode :: string
  fc_llm :: bool
  fc_llm_cache :: bool
  fc_seed :: int
  fc_reports_dir :: string
  fc_tax :: bool
  fc_raw :: json_obj

definition default_backtest_config :: full_config where
  "default_backtest_config = \<lparr>fc_core = \<lparr>bc_initial_capital = Fin 100000, bc_commission_enabled = True, bc_slippage_enabled = True,
     bc_include_fees = True, bc_include_slippage = True, bc_prevent_lookahead = True, bc_execution_model = ''paper_exchange''\<rparr>,
     fc_currency = ''USD'', fc_prevent_leakage = True, fc_closed_only = True, fc_strategy_rules = True, fc_agent_mode = ''deterministic'',
     fc_llm = False, fc_llm_cache = True, fc_seed = 42, fc_reports_dir = ''reports/backtests'', fc_tax = False, fc_raw = []\<rparr>"

record read_lib =
  rl_float :: "string \<Rightarrow> pyfloat option"
  rl_int :: "string \<Rightarrow> int option"
  rl_show :: "json \<Rightarrow> string"

definition flag_at :: "json_obj \<Rightarrow> string \<Rightarrow> bool \<Rightarrow> bool" where
  "flag_at d k b = (case dget d k of None \<Rightarrow> b | Some j \<Rightarrow> json_truthy j)"

definition text_at :: "read_lib \<Rightarrow> json_obj \<Rightarrow> string \<Rightarrow> string \<Rightarrow> string" where
  "text_at lib d k s = text_of_json (rl_show lib) (opt_default (dget d k) (JStr s))"

definition integer_at :: "read_lib \<Rightarrow> json_obj \<Rightarrow> string \<Rightarrow> int \<Rightarrow> int res" where
  "integer_at lib d k n = int_of_json (rl_int lib) (opt_default (dget d k) (JInt n))"

definition config_of :: "read_lib \<Rightarrow> json_obj \<Rightarrow> json_obj \<Rightarrow> json_obj \<Rightarrow> json_obj \<Rightarrow> json_obj \<Rightarrow> json_obj \<Rightarrow> full_config res" where
  "config_of lib data bt tax sizing commission slip =
     bind_res (float_of_json (rl_float lib) (opt_default (dget bt ''initial_capital'') (JInt 100000))) (\<lambda>capital.
     bind_res (integer_at lib bt ''random_seed'' 42) (\<lambda>seed.
       Inr \<lparr>fc_core = \<lparr>bc_initial_capital = capital, bc_commission_enabled = flag_at commission ''enabled'' True,
              bc_slippage_enabled = flag_at slip ''enabled'' True, bc_include_fees = flag_at bt ''include_fees'' True,
              bc_include_slippage = flag_at bt ''include_slippage'' True, bc_prevent_lookahead = flag_at bt ''prevent_lookahead'' True,
              bc_execution_model = text_at lib bt ''execution_model'' ''paper_exchange''\<rparr>,
            fc_currency = text_at lib bt ''base_currency'' ''USD'', fc_prevent_leakage = flag_at bt ''prevent_data_leakage'' True,
            fc_closed_only = flag_at bt ''closed_candle_only'' True, fc_strategy_rules = flag_at sizing ''use_strategy_risk_rules'' True,
            fc_agent_mode = text_at lib bt ''agent_mode'' ''deterministic'', fc_llm = flag_at bt ''llm_enabled'' False,
            fc_llm_cache = flag_at bt ''llm_cache_enabled'' True, fc_seed = seed,
            fc_reports_dir = text_at lib bt ''reports_dir'' ''reports/backtests'', fc_tax = flag_at tax ''tax_enabled'' False,
            fc_raw = data\<rparr>))"

text \<open>\<open>None\<close> is a missing file; an empty one reads as \<open>None\<close>, that is an empty mapping.\<close>

definition load_backtest_config :: "read_lib \<Rightarrow> json option \<Rightarrow> full_config res" where
  "load_backtest_config lib file = (case file of
     None \<Rightarrow> Inr default_backtest_config
   | Some j \<Rightarrow>
       bind_res (case if json_truthy j then j else JObj [] of JObj d \<Rightarrow> Inr d | _ \<Rightarrow> Inl AttributeError) (\<lambda>data.
       bind_res (object_or_empty data ''backtesting'') (\<lambda>bt.
       bind_res (object_or_empty bt ''tax_simulation'') (\<lambda>tax.
       bind_res (object_or_empty bt ''position_sizing'') (\<lambda>sizing.
       bind_res (object_or_empty bt ''commission'') (\<lambda>commission.
       bind_res (object_or_empty bt ''slippage'') (\<lambda>slip. config_of lib data bt tax sizing commission slip)))))))"

record walk_forward_days =
  wd_enabled :: bool
  wd_training :: int
  wd_validation :: int
  wd_test :: int
  wd_step :: int

definition walk_forward_settings :: "read_lib \<Rightarrow> full_config \<Rightarrow> walk_forward_days res" where
  "walk_forward_settings lib c =
     bind_res (object_or_empty (fc_raw c) ''walk_forward'') (\<lambda>wf.
     bind_res (integer_at lib wf ''training_days'' 180) (\<lambda>a. bind_res (integer_at lib wf ''validation_days'' 60) (\<lambda>b.
     bind_res (integer_at lib wf ''test_days'' 60) (\<lambda>t. bind_res (integer_at lib wf ''step_days'' 30) (\<lambda>s.
       Inr \<lparr>wd_enabled = flag_at wf ''enabled'' True, wd_training = a, wd_validation = b, wd_test = t, wd_step = s\<rparr>)))))"

section \<open>Identity and result\<close>

fun join_texts :: "string \<Rightarrow> string list \<Rightarrow> string" where
  "join_texts sep [] = []"
| "join_texts sep [x] = x"
| "join_texts sep (x # xs) = x @ sep @ join_texts sep xs"

definition partition_value :: "partition \<Rightarrow> string" where
  "partition_value p = (case p of TRAIN \<Rightarrow> ''TRAIN'' | VALIDATION \<Rightarrow> ''VALIDATION'' | OUT_OF_SAMPLE \<Rightarrow> ''OUT_OF_SAMPLE'' | FULL \<Rightarrow> ''FULL'')"

record backtest_identity =
  bi_id :: string
  bi_strategy :: string
  bi_version :: string
  bi_strategy_hash :: string
  bi_instrument :: string
  bi_timeframe :: string
  bi_source :: string
  bi_data_version :: string
  bi_start :: string
  bi_end :: string
  bi_config_hash :: string
  bi_partition :: partition

definition compute_id :: "(string \<Rightarrow> string) \<Rightarrow> backtest_identity \<Rightarrow> string" where
  "compute_id h20 i = ''BT-'' @ h20 (join_texts ''|'' [bi_strategy i, bi_version i, bi_strategy_hash i, bi_data_version i, bi_start i,
     bi_end i, bi_config_hash i, bi_instrument i, bi_timeframe i])"

definition identity_json :: "backtest_identity \<Rightarrow> json_obj" where
  "identity_json i = [(''backtest_id'', JStr (bi_id i)), (''strategy_id'', JStr (bi_strategy i)), (''strategy_version'', JStr (bi_version i)),
     (''strategy_config_hash'', JStr (bi_strategy_hash i)), (''instrument'', JStr (bi_instrument i)), (''timeframe'', JStr (bi_timeframe i)),
     (''data_source'', JStr (bi_source i)), (''data_version'', JStr (bi_data_version i)), (''date_start'', JStr (bi_start i)),
     (''date_end'', JStr (bi_end i)), (''backtest_config_hash'', JStr (bi_config_hash i)),
     (''partition'', JStr (partition_value (bi_partition i)))]"

record curve_row =
  cr_stamp :: string
  cr_equity :: pyfloat
  cr_cash :: pyfloat
  cr_drawdown :: pyfloat
  cr_daily_pnl :: pyfloat

definition curve_json :: "curve_row \<Rightarrow> json_obj" where
  "curve_json p = [(''timestamp'', JStr (cr_stamp p)), (''equity'', JNum (cr_equity p)), (''cash'', JNum (cr_cash p)),
     (''drawdown'', JNum (cr_drawdown p)), (''daily_pnl'', JNum (cr_daily_pnl p))]"

record artifact =
  af_identity :: backtest_identity
  af_capital :: pyfloat
  af_final :: pyfloat
  af_metrics :: json_obj
  af_risk_metrics :: json_obj
  af_curve :: "curve_row list"
  af_trades :: "json_obj list"
  af_orders :: "json_obj list"
  af_fills :: "json_obj list"
  af_warnings :: "json list"
  af_rejections :: nat
  af_hash :: string

definition disclaimer :: string where
  "disclaimer = ''Historical backtest results do not guarantee future performance. Paper/simulation only. Live trading disabled.''"

section \<open>The store of runs\<close>

record run_row =
  rr_id :: string
  rr_strategy :: string
  rr_partition :: string
  rr_hash :: string

record 's backtest_store =
  bs_log :: 's
  bs_runs :: "run_row list"

definition run_payload :: "artifact \<Rightarrow> json_obj" where
  "run_payload r = [(''identity'', JObj (identity_json (af_identity r))), (''metrics'', JObj (af_metrics r)),
     (''risk_metrics'', JObj (af_risk_metrics r)), (''warnings'', JList (af_warnings r)), (''structural_hash'', JStr (af_hash r))]"

definition run_event :: "artifact \<Rightarrow> json_obj" where
  "run_event r = [(''type'', JStr ''BACKTEST_RUN''), (''session_id'', JStr (bi_id (af_identity r))), (''payload'', JObj (run_payload r))]"

definition in_session :: "string \<Rightarrow> json_obj \<Rightarrow> json_obj" where
  "in_session sid d = dput ''session_id'' (JStr sid) d"

definition run_snapshot :: "artifact \<Rightarrow> json_obj" where
  "run_snapshot r = [(''session_id'', JStr (bi_id (af_identity r))), (''equity_curve'', JList (map (JObj \<circ> curve_json) (af_curve r))),
     (''final_equity'', JNum (af_final r))]"

text \<open>Everything one result writes, in the order of writing.\<close>

definition result_records :: "artifact \<Rightarrow> (kind \<times> json_obj) list" where
  "result_records r = (let sid = bi_id (af_identity r) in
     (Events, run_event r) # map (\<lambda>d. (Orders, in_session sid d)) (af_orders r) @ map (\<lambda>d. (Fills, in_session sid d)) (af_fills r)
       @ map (\<lambda>d. (Trades, in_session sid d)) (af_trades r) @ [(Snapshots, run_snapshot r)])"

definition save_result :: "(kind \<Rightarrow> json_obj \<Rightarrow> 's \<Rightarrow> 's) \<Rightarrow> artifact \<Rightarrow> 's backtest_store \<Rightarrow> 's backtest_store" where
  "save_result save r b = b\<lparr>bs_log := save_all save (result_records r) (bs_log b),
     bs_runs := bs_runs b @ [\<lparr>rr_id = bi_id (af_identity r), rr_strategy = bi_strategy (af_identity r),
       rr_partition = partition_value (bi_partition (af_identity r)), rr_hash = af_hash r\<rparr>]\<rparr>"

definition get_run :: "(kind \<Rightarrow> string option \<Rightarrow> 's \<Rightarrow> json_obj list) \<Rightarrow> string \<Rightarrow> 's backtest_store \<Rightarrow> json option" where
  "get_run load sid b = (case find (\<lambda>e. dget e ''type'' = Some (JStr ''BACKTEST_RUN'')) (rev (load Events (Some sid) (bs_log b))) of
     None \<Rightarrow> None | Some e \<Rightarrow> dget e ''payload'')"

definition save_results :: "(kind \<Rightarrow> json_obj \<Rightarrow> 's \<Rightarrow> 's) \<Rightarrow> artifact list \<Rightarrow> 's backtest_store \<Rightarrow> 's backtest_store" where
  "save_results save rs b = fold (save_result save) rs b"

definition new_backtest_store :: "'s \<Rightarrow> 's backtest_store" where
  "new_backtest_store s = \<lparr>bs_log = s, bs_runs = []\<rparr>"

context log_store
begin

lemma runs_of_result:
  assumes "\<forall>(k, p)\<in>set (result_records r). savable p"
  shows "load Events (Some sid) (save_all save (result_records r) s)
    = load Events (Some sid) s @ (if bi_id (af_identity r) = sid then [run_event r] else [])"
proof -
  have "map snd (filter (\<lambda>(j, p). j = Events \<and> session_of p = Some (JStr sid)) (result_records r))
      = (if bi_id (af_identity r) = sid then [run_event r] else [])"
    by (simp add: result_records_def Let_def filter_map o_def session_of_def run_event_def)
  then show ?thesis using load_session [OF assms, of Events sid s] by simp
qed

lemma runs_of_results:
  assumes "\<forall>r\<in>set rs. \<forall>(k, p)\<in>set (result_records r). savable p"
  shows "load Events (Some sid) (bs_log (save_results save rs b))
    = load Events (Some sid) (bs_log b) @ map run_event (filter (\<lambda>r. bi_id (af_identity r) = sid) rs)"
  using assms by (induction rs arbitrary: b) (simp_all add: save_results_def save_result_def runs_of_result)

lemma last_run_found:
  assumes "\<forall>r\<in>set rs. \<forall>(k, p)\<in>set (result_records r). savable p"
  shows "get_run load sid (save_results save rs (new_backtest_store empty))
    = map_option (JObj \<circ> run_payload) (find (\<lambda>r. bi_id (af_identity r) = sid) (rev rs))"
proof -
  have typed: "find (\<lambda>e. dget e ''type'' = Some (JStr ''BACKTEST_RUN'')) (map run_event qs) = (case qs of [] \<Rightarrow> None | q # _ \<Rightarrow> Some (run_event q))"
    for qs by (cases qs) (simp_all add: run_event_def)
  have "(case filter P qs of [] \<Rightarrow> None | q # _ \<Rightarrow> Some q) = find P qs" for P and qs :: "artifact list"
    by (induction qs) simp_all
  note first = this [symmetric]
  show ?thesis
    by (simp add: get_run_def runs_of_results [OF assms] new_backtest_store_def load_empty rev_map rev_filter typed first
        split: list.splits) (simp add: run_event_def)
qed

end

lemma rows_of_results: "map rr_id (bs_runs (save_results save rs b)) = map rr_id (bs_runs b) @ map (bi_id \<circ> af_identity) rs"
  by (induction rs arbitrary: b) (simp_all add: save_results_def save_result_def)

lemma records_have_sessions: "(k, p) \<in> set (result_records r) \<Longrightarrow> session_text p"
  by (auto simp: result_records_def Let_def session_text_def session_of_def run_event_def in_session_def run_snapshot_def dget_dput)

text \<open>C36: a saved run is found again: whatever results are saved, into the in memory store or, when the JSON module reads back
what it wrote, into the SQLite store, asking for an identifier gives the stored part of the last result saved under it, and
nothing for an identifier under which none was saved; and the list of runs names every saved result, in the order of saving.\<close>

theorem saved_run_found:
  "get_run mem_load sid (save_results mem_save rs (new_backtest_store mem_empty))
      = map_option (JObj \<circ> run_payload) (find (\<lambda>r. bi_id (af_identity r) = sid) (rev rs))
    \<and> ((\<forall>r\<in>set rs. \<forall>(k, p)\<in>set (result_records r). loads (dumps p) = p)
        \<longrightarrow> get_run (sql_load loads) sid (save_results (sql_save dumps) rs (new_backtest_store sql_empty))
          = map_option (JObj \<circ> run_payload) (find (\<lambda>r. bi_id (af_identity r) = sid) (rev rs)))
    \<and> map rr_id (bs_runs (save_results mem_save rs (new_backtest_store mem_empty))) = map (bi_id \<circ> af_identity) rs"
  by (intro conjI impI mem_log.last_run_found sql_log.last_run_found)
    (auto simp: rows_of_results new_backtest_store_def dest: records_have_sessions)

definition demo_artifact :: "string \<Rightarrow> artifact" where
  "demo_artifact sid = \<lparr>af_identity = \<lparr>bi_id = sid, bi_strategy = ''s'', bi_version = ''1'', bi_strategy_hash = ''h'', bi_instrument = ''BTC/USD'',
     bi_timeframe = ''1h'', bi_source = ''mock'', bi_data_version = ''v'', bi_start = ''a'', bi_end = ''b'', bi_config_hash = ''c'',
     bi_partition = FULL\<rparr>, af_capital = Fin 100, af_final = Fin 101, af_metrics = [], af_risk_metrics = [], af_curve = [],
     af_trades = [[(''trade_id'', JStr ''T'')]], af_orders = [], af_fills = [], af_warnings = [], af_rejections = 0, af_hash = sid\<rparr>"

theorem saved_run_found_witness:
  "get_run (sql_load rev) ''BT-1'' (save_results (sql_save rev) [demo_artifact ''BT-1'', demo_artifact ''BT-2''] (new_backtest_store sql_empty))
    = Some (JObj (run_payload (demo_artifact ''BT-1'')))"
  using saved_run_found [of "''BT-1''" "[demo_artifact ''BT-1'', demo_artifact ''BT-2'']" rev rev]
  by (simp add: demo_artifact_def)

section \<open>Reports\<close>

definition forbidden_claims :: "string list" where
  "forbidden_claims = [''best strategy'', ''guaranteed profitable'', ''will make money'', ''safe strategy'']"

definition assert_no_hype :: "string \<Rightarrow> unit res" where
  "assert_no_hype t = (case find (\<lambda>p. py_contains p (py_lower t)) forbidden_claims of
     None \<Rightarrow> Inr () | Some p \<Rightarrow> Inl (ValueError (''Report contains forbidden profitability claim: '' @ p)))"

text \<open>A report is the text that is written, or the exception that is raised before anything is written.\<close>

definition write_json_report :: "(artifact \<Rightarrow> string) \<Rightarrow> (artifact \<Rightarrow> string) \<Rightarrow> artifact \<Rightarrow> string res" where
  "write_json_report plain indented r = bind_res (assert_no_hype (plain r)) (\<lambda>_. Inr (indented r))"

record show_lib =
  sh_float :: "pyfloat \<Rightarrow> string"
  sh_json :: "json \<Rightarrow> string"
  sh_newline :: string

definition metric_text :: "show_lib \<Rightarrow> artifact \<Rightarrow> string \<Rightarrow> string" where
  "metric_text sh r k = text_of_json (sh_json sh) (opt_default (dget (af_metrics r) k) JNull)"

definition identity_lines :: "backtest_identity \<Rightarrow> string list" where
  "identity_lines i =
     [''# Backtest Report: '' @ bi_id i, [], ''- Strategy: `'' @ bi_strategy i @ ''` @ `'' @ bi_version i @ ''`'',
      ''- Config hash: `'' @ bi_strategy_hash i @ ''`'', ''- Instrument: `'' @ bi_instrument i @ ''` / `'' @ bi_timeframe i @ ''`'',
      ''- Data: `'' @ bi_source i @ ''` `'' @ bi_data_version i @ ''`'']"

definition metric_lines :: "show_lib \<Rightarrow> artifact \<Rightarrow> string list" where
  "metric_lines sh r =
     [''- Initial capital: '' @ sh_float sh (af_capital r), ''- Final equity: '' @ sh_float sh (af_final r),
      ''- Net return: '' @ metric_text sh r ''return_pct'' @ ''%'']
     @ map (\<lambda>(label, k). ''- '' @ label @ '': '' @ metric_text sh r k)
         [(''Gross P&L'', ''gross_pnl''), (''Fees'', ''fees''), (''Slippage'', ''slippage''), (''Net P&L'', ''net_pnl''),
          (''Max drawdown'', ''max_drawdown''), (''Sharpe'', ''sharpe_ratio''), (''Sortino'', ''sortino_ratio''),
          (''Profit factor'', ''profit_factor''), (''Win rate'', ''win_rate''), (''Trade count'', ''trade_count''), (''Turnover'', ''turnover'')]
     @ [''- Risk rejections: '' @ sh_json sh (JInt (int (af_rejections r)))]"

text \<open>The arrow between the dates is not ASCII; \<open>dates\<close> is that line.\<close>

definition write_markdown_report :: "show_lib \<Rightarrow> (backtest_identity \<Rightarrow> string) \<Rightarrow> artifact \<Rightarrow> string res" where
  "write_markdown_report sh dates r =
     (let i = af_identity r;
          text = join_texts (sh_newline sh) (identity_lines i @ [dates i, ''- Partition: `'' @ partition_value (bi_partition i) @ ''`'']
            @ metric_lines sh r @ [[], ''TRADING_MODE: PAPER'', ''REAL_MONEY: DISABLED'', [], disclaimer])
      in bind_res (assert_no_hype text) (\<lambda>_. Inr text))"

text \<open>The columns and the rows of the CSV files; the writer of the library does the quoting.\<close>

definition csv_trades :: "(string list \<Rightarrow> string list) \<Rightarrow> artifact \<Rightarrow> string list \<times> json_obj list" where
  "csv_trades order_names r = (if af_trades r = [] then ([''trade_id''], [])
     else (order_names (remdups (concat (map (map fst) (af_trades r)))), af_trades r))"

definition csv_equity :: "artifact \<Rightarrow> string list \<times> json_obj list" where
  "csv_equity r = ([''timestamp'', ''equity'', ''cash'', ''drawdown'', ''daily_pnl''], map curve_json (af_curve r))"

definition summarize_result :: "artifact \<Rightarrow> json_obj" where
  "summarize_result r = (let i = af_identity r; metric = (\<lambda>k. opt_default (dget (af_metrics r) k) JNull) in
     [(''backtest_id'', JStr (bi_id i)), (''strategy'', JStr (bi_strategy i)), (''version'', JStr (bi_version i)),
      (''config_hash'', JStr (bi_strategy_hash i)), (''instrument'', JStr (bi_instrument i)), (''timeframe'', JStr (bi_timeframe i)),
      (''data_range'', JList [JStr (bi_start i), JStr (bi_end i)]), (''data_source'', JStr (bi_source i)),
      (''partition'', JStr (partition_value (bi_partition i))), (''initial_capital'', JNum (af_capital r)),
      (''final_equity'', JNum (af_final r)), (''return_pct'', metric ''return_pct''), (''drawdown'', metric ''max_drawdown''),
      (''sharpe'', metric ''sharpe_ratio''), (''sortino'', metric ''sortino_ratio''), (''profit_factor'', metric ''profit_factor''),
      (''win_rate'', metric ''win_rate''), (''trade_count'', metric ''trade_count''), (''fees'', metric ''fees''),
      (''slippage'', metric ''slippage''), (''turnover'', metric ''turnover''), (''risk_rejections'', JInt (int (af_rejections r))),
      (''structural_hash'', JStr (af_hash r)), (''TRADING_MODE'', JStr ''PAPER''), (''REAL_MONEY'', JStr ''DISABLED''),
      (''disclaimer'', JStr disclaimer)])"

lemma written_report_has_no_claim:
  assumes "write_markdown_report sh dates r = Inr t" and "p \<in> set forbidden_claims"
  shows "\<not> py_contains p (py_lower t)"
  using assms by (auto simp: write_markdown_report_def assert_no_hype_def Let_def find_None_iff split: option.splits)

section \<open>Sensitivity\<close>

record sensitivity_row =
  sn_lookback :: int
  sn_atr :: pyfloat
  sn_result :: artifact

definition parameter_sensitivity ::
  "(int \<Rightarrow> pyfloat \<Rightarrow> artifact res) \<Rightarrow> int list \<Rightarrow> pyfloat list \<Rightarrow> sensitivity_row list res" where
  "parameter_sensitivity run lookbacks multipliers =
     (let ls = (if lookbacks = [] then [18, 20, 22] else lookbacks);
          ms = (if multipliers = [] then [flit (18 / 10), Fin 2, flit (22 / 10)] else multipliers)
      in map_res (\<lambda>(lb, m). bind_res (run lb m) (\<lambda>r. Inr \<lparr>sn_lookback = lb, sn_atr = m, sn_result = r\<rparr>)) (List.product ls ms))"

section \<open>The cache of model answers\<close>

record llm_cache =
  lc_store :: "(string \<times> json_obj) list"
  lc_hits :: nat
  lc_misses :: nat

definition cache_key :: "(string \<Rightarrow> string) \<Rightarrow> string list \<Rightarrow> string" where
  "cache_key sha parts = sha (join_texts ''|'' parts)"

definition answer_get :: "string \<Rightarrow> llm_cache \<Rightarrow> llm_cache \<times> json_obj option" where
  "answer_get k c = (case dget (lc_store c) k of
     Some v \<Rightarrow> (c\<lparr>lc_hits := lc_hits c + 1\<rparr>, Some v) | None \<Rightarrow> (c\<lparr>lc_misses := lc_misses c + 1\<rparr>, None))"

definition answer_put :: "(json_obj \<Rightarrow> string) \<Rightarrow> string \<Rightarrow> json_obj \<Rightarrow> llm_cache \<Rightarrow> llm_cache" where
  "answer_put h16 k v c = c\<lparr>lc_store := dput k (if dget v ''response_hash'' = None then v @ [(''response_hash'', JStr (h16 v))] else v) (lc_store c)\<rparr>"

lemma cached_answer:
  "snd (answer_get k (answer_put h16 k v c))
    = Some (if dget v ''response_hash'' = None then v @ [(''response_hash'', JStr (h16 v))] else v)"
  "k' \<noteq> k \<Longrightarrow> snd (answer_get k' (answer_put h16 k v c)) = snd (answer_get k' c)"
  by (simp_all add: answer_get_def answer_put_def dget_dput split: option.split)

section \<open>The tools\<close>

definition assert_paper_tools :: "settings \<Rightarrow> unit res" where
  "assert_paper_tools se = (if \<not> paper_only se
     then Inl (LiveExecutionBlocked ''Backtest tools require paper mode with live disabled'') else Inr ())"

text \<open>\<open>candles\<close> is the generator of the synthetic series, \<open>run\<close> the engine, \<open>write\<close> the JSON report.\<close>

definition tool_run_backtest ::
  "settings \<Rightarrow> (string \<Rightarrow> candle list res) \<Rightarrow> (candle list \<Rightarrow> string \<Rightarrow> artifact res) \<Rightarrow> (artifact \<Rightarrow> string res)
   \<Rightarrow> (kind \<Rightarrow> json_obj \<Rightarrow> 's \<Rightarrow> 's) \<Rightarrow> string \<Rightarrow> 's backtest_store \<Rightarrow> 's backtest_store \<times> json_obj res" where
  "tool_run_backtest se candles run write save symbol b =
     (case bind_res (assert_paper_tools se) (\<lambda>_. bind_res (candles (py_upper symbol)) (\<lambda>cs. run cs (py_upper symbol))) of
        Inl e \<Rightarrow> (b, Inl e)
      | Inr r \<Rightarrow> (save_result save r b, bind_res (write r) (\<lambda>_. Inr (summarize_result r))))"

definition tool_result :: "(kind \<Rightarrow> string option \<Rightarrow> 's \<Rightarrow> json_obj list) \<Rightarrow> string \<Rightarrow> 's backtest_store \<Rightarrow> json" where
  "tool_result load sid b = (case get_run load sid b of
     Some j \<Rightarrow> if json_truthy j then j else JObj [(''error'', JStr ''NOT_FOUND''), (''backtest_id'', JStr sid)]
   | None \<Rightarrow> JObj [(''error'', JStr ''NOT_FOUND''), (''backtest_id'', JStr sid)])"

definition compared :: "string \<Rightarrow> json_obj \<Rightarrow> json_obj res" where
  "compared sid payload =
     bind_res (object_or_empty payload ''identity'') (\<lambda>i. bind_res (object_or_empty payload ''metrics'') (\<lambda>m.
       Inr ([(''backtest_id'', JStr sid), (''strategy_id'', opt_default (dget i ''strategy_id'') JNull)]
         @ map (\<lambda>k. (k, opt_default (dget m k) JNull)) [''return_pct'', ''max_drawdown'', ''sharpe_ratio'', ''trade_count'']
         @ [(''partition'', opt_default (dget i ''partition'') JNull)])))"

definition compare_backtests :: "(string \<Rightarrow> json option) \<Rightarrow> string list \<Rightarrow> json_obj list res" where
  "compare_backtests find_run sids = map_res (\<lambda>sid. case find_run sid of
     Some (JObj d) \<Rightarrow> if d = [] then Inr [(''backtest_id'', JStr sid), (''error'', JStr ''NOT_FOUND'')] else compared sid d
   | Some j \<Rightarrow> if json_truthy j then Inl AttributeError else Inr [(''backtest_id'', JStr sid), (''error'', JStr ''NOT_FOUND'')]
   | None \<Rightarrow> Inr [(''backtest_id'', JStr sid), (''error'', JStr ''NOT_FOUND'')]) sids"

definition tool_run_benchmark :: "settings \<Rightarrow> (string \<Rightarrow> candle list res) \<Rightarrow> string \<Rightarrow> (baseline \<times> baseline \<times> baseline) res" where
  "tool_run_benchmark se candles symbol =
     bind_res (assert_paper_tools se) (\<lambda>_. bind_res (candles (py_upper symbol)) (\<lambda>cs. run_baselines cs (Fin 100000)))"

text \<open>Outside paper mode no tool stores a run, and a run the tool returns is found in the store afterwards.\<close>

lemma tool_stores_only_in_paper:
  "\<not> paper_only se \<Longrightarrow> fst (tool_run_backtest se candles run write save symbol b) = b"
  by (simp add: tool_run_backtest_def assert_paper_tools_def)

end
