(* ===== verification/Dashboard_Server.thy ===== *)
theory Dashboard_Server
  imports Command_Centre
begin

text \<open>
  What serves the dashboard: \<open>dashboard/config.py\<close>, \<open>dashboard/browser.py\<close>, \<open>dashboard/health.py\<close>, \<open>dashboard/runtime.py\<close>, the
  hooks of \<open>dashboard/app.py\<close> and the endpoint of \<open>dashboard/websocket.py\<close>.  The web server's thread, the HTTP client, the browser
  and the validation of the configuration file are code of libraries: their answers are arguments.
\<close>

section \<open>Configuration\<close>

record dash_settings =
  dc_enabled :: bool
  dc_host :: string
  dc_port :: int
  dc_auto_open :: bool
  dc_websocket :: bool
  dc_history_limit :: int
  dc_static_dir :: string
  dc_title :: string

definition default_dash_settings :: dash_settings where
  "default_dash_settings = \<lparr>dc_enabled = True, dc_host = ''127.0.0.1'', dc_port = 8050, dc_auto_open = True, dc_websocket = True,
     dc_history_limit = 5000, dc_static_dir = ''dashboard_ui/dist'', dc_title = ''AI Trading Command Center''\<rparr>"

definition int_text :: "int \<Rightarrow> string" where
  "int_text n = (if n < 0 then CHR ''-'' # dec_digits (nat (- n)) else dec_digits (nat n))"

definition dash_url :: "dash_settings \<Rightarrow> string" where
  "dash_url s = ''http://'' @ dc_host s @ '':'' @ int_text (dc_port s)"

definition static_path :: "string \<Rightarrow> dash_settings \<Rightarrow> string" where
  "static_path repo s = (if py_startswith (dc_static_dir s) ''/'' then dc_static_dir s else repo @ ''/'' @ dc_static_dir s)"

record dash_env =
  dn_enabled :: "bool option"
  dn_host :: "string option"
  dn_port :: "int option"
  dn_auto_open :: "bool option"
  dn_websocket :: "bool option"

text \<open>\<open>validate\<close> is the model's validation of the file's section; what the environment sets wins.\<close>

definition env_updates :: "dash_env \<Rightarrow> dash_settings \<Rightarrow> dash_settings" where
  "env_updates v s = s\<lparr>dc_enabled := opt_default (dn_enabled v) (dc_enabled s), dc_host := opt_default (dn_host v) (dc_host s),
     dc_port := opt_default (dn_port v) (dc_port s), dc_auto_open := opt_default (dn_auto_open v) (dc_auto_open s),
     dc_websocket := opt_default (dn_websocket v) (dc_websocket s)\<rparr>"

definition dash_section :: "json option \<Rightarrow> json res" where
  "dash_section document = (case document of
     None \<Rightarrow> Inr (JObj [])
   | Some j \<Rightarrow> if \<not> json_truthy j then Inr (JObj [])
              else (case j of
                      JObj d \<Rightarrow> Inr (get_or d ''dashboard'' (JObj []))
                    | _ \<Rightarrow> Inl AttributeError))"

definition load_dashboard_config :: "(json \<Rightarrow> dash_settings res) \<Rightarrow> json option \<Rightarrow> dash_env res \<Rightarrow> dash_settings res" where
  "load_dashboard_config validate document env =
     bind_res (dash_section document) (\<lambda>j. bind_res (validate j) (\<lambda>s. bind_res env (\<lambda>v. Inr (env_updates v s))))"

section \<open>The browser\<close>

record browser_env =
  be_ci :: string
  be_headless :: string
  be_display :: string
  be_nt :: bool
  be_darwin :: bool

definition said_yes :: "string \<Rightarrow> bool" where
  "said_yes t \<longleftrightarrow> py_lower t \<in> {''1'', ''true'', ''yes''}"

definition is_ci_or_headless :: "browser_env \<Rightarrow> bool" where
  "is_ci_or_headless v \<longleftrightarrow> said_yes (be_ci v) \<or> said_yes (be_headless v) \<or> (be_display v = [] \<and> \<not> be_nt v \<and> \<not> be_darwin v)"

text \<open>The gate's flag, and the calls of the browser: the address, whether it was forced and whether the call returned.\<close>

record browser_gate =
  bg_opened :: bool
  bg_calls :: "(string \<times> bool \<times> bool) list"

definition fresh_gate :: browser_gate where
  "fresh_gate = \<lparr>bg_opened = False, bg_calls = []\<rparr>"

record browser_answer =
  ba_opened :: bool
  ba_reason :: "string option"
  ba_url :: string

definition not_opened :: "string \<Rightarrow> string \<Rightarrow> browser_answer" where
  "not_opened url r = \<lparr>ba_opened = False, ba_reason = Some r, ba_url = url\<rparr>"

definition local_url :: "string \<Rightarrow> bool" where
  "local_url u \<longleftrightarrow> py_startswith u ''http://127.0.0.1'' \<or> py_startswith u ''http://localhost''"

text \<open>\<open>failure\<close> is the message of the exception that \<open>webbrowser.open\<close> raises, if it does.\<close>

definition open_dashboard_browser ::
  "browser_env \<Rightarrow> string option \<Rightarrow> bool \<Rightarrow> dash_settings \<Rightarrow> browser_gate \<Rightarrow> browser_gate \<times> browser_answer" where
  "open_dashboard_browser v failure force s g =
     (let url = dash_url s in
      if \<not> local_url url then (g, not_opened url ''NON_LOCAL_URL_BLOCKED'')
      else if \<not> dc_auto_open s \<and> \<not> force then (g, not_opened url ''AUTO_OPEN_DISABLED'')
      else if is_ci_or_headless v \<and> \<not> force then (g, not_opened url ''HEADLESS_OR_CI'')
      else if bg_opened g \<and> \<not> force then (g, not_opened url ''ALREADY_OPENED'')
      else case failure of
        None \<Rightarrow> (\<lparr>bg_opened = True, bg_calls = bg_calls g @ [(url, force, True)]\<rparr>, \<lparr>ba_opened = True, ba_reason = None, ba_url = url\<rparr>)
      | Some m \<Rightarrow> (g\<lparr>bg_calls := bg_calls g @ [(url, force, False)]\<rparr>, not_opened url m))"

definition reset_browser_gate :: "browser_gate \<Rightarrow> browser_gate" where
  "reset_browser_gate g = g\<lparr>bg_opened := False\<rparr>"

section \<open>Health\<close>

text \<open>\<open>urlparse\<close> on the address: tabs and line ends are dropped, the authority ends at a slash, a question mark or a hash.
An authority with a bracket is left to the library.\<close>

definition url_netloc :: "string \<Rightarrow> string" where
  "url_netloc u = takeWhile (\<lambda>c. c \<notin> set ''/?#'') (drop 7 (filter (\<lambda>c. c \<notin> {CHR 0x09, CHR 0x0A, CHR 0x0D}) u))"

definition after_at :: "string \<Rightarrow> string" where
  "after_at t = rev (takeWhile (\<lambda>c. c \<noteq> CHR ''@'') (rev t))"

definition host_name :: "string \<Rightarrow> string option" where
  "host_name t = (if t = [] then None else Some (py_lower (takeWhile (\<lambda>c. c \<noteq> CHR ''%'') t) @ dropWhile (\<lambda>c. c \<noteq> CHR ''%'') t))"

definition decimal_char :: "char \<Rightarrow> bool" where
  "decimal_char c \<longleftrightarrow> c \<in> set ''0123456789''"

definition port_number :: "string \<Rightarrow> int option res" where
  "port_number t =
     (if t = [] then Inr None
      else if \<not> list_all decimal_char t then Inl (ValueError ''Port could not be cast to integer value'')
      else if 65535 < dec_value 0 t then Inl (ValueError ''Port out of range 0-65535'')
      else Inr (Some (int (dec_value 0 t))))"

definition url_host_port :: "(string \<Rightarrow> (string option \<times> int option) res) \<Rightarrow> string \<Rightarrow> (string option \<times> int option) res" where
  "url_host_port bracketed u =
     (let n = url_netloc u in
      if CHR ''['' \<in> set n \<or> CHR '']'' \<in> set n then bracketed n
      else (let info = after_at n in
        bind_res (port_number (drop 1 (dropWhile (\<lambda>c. c \<noteq> CHR '':'') info))) (\<lambda>p.
          Inr (host_name (takeWhile (\<lambda>c. c \<noteq> CHR '':'') info), p))))"

record health_answer =
  ha_ok :: bool
  ha_status :: "int option"
  ha_text :: string

text \<open>What the HTTP client meets at a host and port: a status with a body, or an exception with its text.\<close>

type_synonym http_client = "string \<Rightarrow> int \<Rightarrow> string + int \<times> string"

definition ask_health :: "http_client \<Rightarrow> string \<Rightarrow> int \<Rightarrow> health_answer" where
  "ask_health http h p = (case http h p of
     Inl m \<Rightarrow> \<lparr>ha_ok = False, ha_status = None, ha_text = m\<rparr>
   | Inr (st, body) \<Rightarrow> \<lparr>ha_ok = (st = 200), ha_status = Some st, ha_text = body\<rparr>)"

definition check_dashboard_health ::
  "(string \<Rightarrow> (string option \<times> int option) res) \<Rightarrow> http_client \<Rightarrow> dash_settings \<Rightarrow> health_answer res" where
  "check_dashboard_health bracketed http s =
     bind_res (url_host_port bracketed (dash_url s)) (\<lambda>(h, p).
       Inr (ask_health http (opt_default h ''127.0.0.1'') (case p of None \<Rightarrow> dc_port s | Some n \<Rightarrow> if n = 0 then dc_port s else n)))"

section \<open>The server\<close>

text \<open>\<open>ds_thread\<close> is whether there is a thread, \<open>alive\<close> below whether it still runs.\<close>

record 'm dash_server =
  ds_settings :: dash_settings
  ds_centre :: "'m centre"
  ds_gate :: browser_gate
  ds_thread :: bool
  ds_server :: bool
  ds_should_exit :: bool
  ds_started :: bool

definition new_dash_server :: "dash_settings \<Rightarrow> browser_gate \<Rightarrow> 'm centre \<Rightarrow> 'm dash_server" where
  "new_dash_server s g c = \<lparr>ds_settings = s, ds_centre = c, ds_gate = g, ds_thread = False, ds_server = False, ds_should_exit = False,
     ds_started = False\<rparr>"

record server_env =
  sx_browser :: browser_env
  sx_failure :: "string option"
  sx_bracketed :: "string \<Rightarrow> (string option \<times> int option) res"
  sx_http :: "nat \<Rightarrow> http_client"

datatype start_answer =
    Start_Refused string "browser_answer option"
  | Start_Done health_answer "browser_answer option"

definition wants_browser :: "bool option \<Rightarrow> dash_settings \<Rightarrow> bool" where
  "wants_browser b s \<longleftrightarrow> (case b of None \<Rightarrow> dc_auto_open s | Some x \<Rightarrow> x)"

definition show_browser :: "server_env \<Rightarrow> bool option \<Rightarrow> 'm dash_server \<Rightarrow> 'm dash_server \<times> browser_answer option" where
  "show_browser v b d =
     (if wants_browser b (ds_settings d)
      then (case open_dashboard_browser (sx_browser v) (sx_failure v) False (ds_settings d) (ds_gate d) of
              (g, a) \<Rightarrow> (d\<lparr>ds_gate := g\<rparr>, Some a))
      else (d, None))"

text \<open>At most forty checks, the first healthy one ends them; \<open>n\<close> counts the checks made.\<close>

fun await_health :: "nat \<Rightarrow> nat \<Rightarrow> server_env \<Rightarrow> dash_settings \<Rightarrow> health_answer \<Rightarrow> health_answer res" where
  "await_health 0 n v s a = Inr a"
| "await_health (Suc k) n v s a =
     bind_res (check_dashboard_health (sx_bracketed v) (sx_http v n) s) (\<lambda>h.
       if ha_ok h then Inr h else await_health k (Suc n) v s h)"

definition unhealthy :: health_answer where
  "unhealthy = \<lparr>ha_ok = False, ha_status = None, ha_text = []\<rparr>"

definition server_start ::
  "server_env \<Rightarrow> bool \<Rightarrow> bool option \<Rightarrow> bool \<Rightarrow> 'm dash_server \<Rightarrow> 'm dash_server \<times> start_answer res" where
  "server_start v alive open_browser wait d =
     (if \<not> dc_enabled (ds_settings d) then (d, Inr (Start_Refused ''DASHBOARD_DISABLED'' None))
      else if ds_started d \<and> ds_thread d \<and> alive
      then (case show_browser v open_browser d of (d1, a) \<Rightarrow> (d1, Inr (Start_Refused ''ALREADY_RUNNING'' a)))
      else (let d1 = d\<lparr>ds_server := True, ds_should_exit := False, ds_thread := True, ds_started := True,
                       ds_centre := (ds_centre d)\<lparr>ce_running := True\<rparr>\<rparr>
            in case (if wait then await_health 40 0 v (ds_settings d) unhealthy else Inr unhealthy) of
                 Inl err \<Rightarrow> (d1, Inl err)
               | Inr h \<Rightarrow> (case show_browser v open_browser d1 of (d2, a) \<Rightarrow> (d2, Inr (Start_Done h a)))))"

definition server_stop :: "'m dash_server \<Rightarrow> 'm dash_server" where
  "server_stop d = d\<lparr>ds_should_exit := (ds_server d \<or> ds_should_exit d), ds_centre := (ds_centre d)\<lparr>ce_running := False\<rparr>\<rparr>"

definition server_status :: "server_env \<Rightarrow> bool \<Rightarrow> 'm dash_server \<Rightarrow> (bool \<times> health_answer) res" where
  "server_status v alive d =
     bind_res (check_dashboard_health (sx_bracketed v) (sx_http v 0) (ds_settings d)) (\<lambda>h. Inr (ds_thread d \<and> alive, h))"

definition offline :: "'m centre \<Rightarrow> 'm centre" where
  "offline c = c\<lparr>ce_health := dput ''WebSocket'' ''OFFLINE'' (ce_health c)\<rparr>"

text \<open>The thread ends with an exception of the web server.\<close>

definition server_crashed :: "'m dash_server \<Rightarrow> 'm dash_server" where
  "server_crashed d = d\<lparr>ds_centre := offline (ds_centre d)\<rparr>"

definition app_startup :: "'m centre_env \<Rightarrow> dash_settings \<Rightarrow> 'm centre \<Rightarrow> 'm centre" where
  "app_startup ev s c =
     (let c1 = announce ev ''DashboardStarted'' [(''url'', JStr (dash_url s)), (''host'', JStr (dc_host s)), (''port'', JInt (dc_port s))]
                 None None None (c\<lparr>ce_running := True\<rparr>)
      in announce ev ''SystemHealthChanged'' [(''status'', JStr ''ONLINE''), (''components'', text_list (map fst (ce_health c1)))]
           None None None c1)"

definition app_shutdown :: "'m centre \<Rightarrow> 'm centre" where
  "app_shutdown c = offline (c\<lparr>ce_running := False\<rparr>)"

section \<open>The event stream of a connection\<close>

datatype socket_message = Connected | Event_Message json_obj | Heartbeat | Pong

datatype incoming = Received string | Nothing_Received | Socket_Closed | Socket_Broken

text \<open>
  One round of the endpoint's loop: what the rest of the process does with the bus until the wait ends (an empty queue means that
  it ended by its timeout), whether the send succeeds, what comes from the client, and whether the answer to a ping can be sent.
\<close>

record round_trip =
  rt_ops :: "bus_op list"
  rt_sends :: bool
  rt_in :: incoming
  rt_pong :: bool

record bus_world =
  bw_saves :: "json_obj \<Rightarrow> bool"
  bw_returns :: "nat \<Rightarrow> dash_event \<Rightarrow> bool"

abbreviation others_do :: "bus_world \<Rightarrow> bus_op list \<Rightarrow> event_bus \<Rightarrow> event_bus" where
  "others_do w ops b \<equiv> bus_run (bw_saves w) (bw_returns w) ops b"

definition taken_message :: "dash_event option \<Rightarrow> socket_message" where
  "taken_message x = (case x of None \<Rightarrow> Heartbeat | Some e \<Rightarrow> Event_Message (event_to_dict e))"

text \<open>What has been sent, the bus, and whether the loop has ended.\<close>

fun socket_loop :: "bus_world \<Rightarrow> nat \<Rightarrow> round_trip list \<Rightarrow> event_bus \<Rightarrow> socket_message list \<times> event_bus \<times> bool" where
  "socket_loop w q [] b = ([], b, False)"
| "socket_loop w q (t # ts) b =
     (case queue_get q (others_do w (rt_ops t) b) of (b1, x) \<Rightarrow>
        let m = taken_message x; rest = (\<lambda>sent. case socket_loop w q ts b1 of (ms, b2, over) \<Rightarrow> (sent @ ms, b2, over))
        in if \<not> rt_sends t then ([], b1, True)
           else (case rt_in t of
              Nothing_Received \<Rightarrow> rest [m]
            | Received msg \<Rightarrow> (if msg \<noteq> ''ping'' then rest [m] else if rt_pong t then rest [m, Pong] else ([m], b1, True))
            | _ \<Rightarrow> ([m], b1, True)))"

record socket_hub =
  hu_bus :: event_bus
  hu_connections :: "nat list"

definition greetings :: "event_bus \<Rightarrow> socket_message list" where
  "greetings b = Connected # map Event_Message (bus_history 50 None b)"

text \<open>
  The endpoint of connection \<open>c\<close> with queue \<open>q\<close>.  \<open>accepted\<close> is whether the handshake succeeds (\<open>manager.connect\<close> stands before the
  \<open>try\<close>), \<open>ops\<close> what happens on the bus until the history is read, and \<open>failing\<close> the first greeting that cannot be sent.
\<close>

definition leave :: "nat \<Rightarrow> nat \<Rightarrow> socket_hub \<Rightarrow> socket_hub" where
  "leave q c h = \<lparr>hu_bus = unsubscribe_queue q (hu_bus h), hu_connections = socket_disconnect c (hu_connections h)\<rparr>"

definition websocket_endpoint ::
  "bus_world \<Rightarrow> nat \<Rightarrow> nat \<Rightarrow> py_error option \<Rightarrow> bus_op list \<Rightarrow> nat option \<Rightarrow> round_trip list \<Rightarrow> socket_hub
   \<Rightarrow> socket_hub \<times> (socket_message list \<times> bool) res" where
  "websocket_endpoint w q c handshake ops failing ts h =
     (let b1 = subscribe_queue q (hu_bus h) in
      case handshake of
        Some err \<Rightarrow> (h\<lparr>hu_bus := b1\<rparr>, Inl err)
      | None \<Rightarrow>
          (let b2 = others_do w ops b1; h2 = \<lparr>hu_bus = b2, hu_connections = socket_connect c (hu_connections h)\<rparr>;
               gs = greetings b2; failed = (case failing of None \<Rightarrow> False | Some k \<Rightarrow> k < length gs)
           in if failed then (leave q c h2, Inr (take (the failing) gs, True))
              else (case socket_loop w q ts b2 of (ms, b3, over) \<Rightarrow>
                      (let h3 = h2\<lparr>hu_bus := b3\<rparr> in (if over then leave q c h3 else h3, Inr (gs @ ms, over))))))"

section \<open>The browser is opened for local addresses, once\<close>

record browser_request =
  br_env :: browser_env
  br_failure :: "string option"
  br_force :: bool
  br_settings :: dash_settings

definition browser_run :: "browser_request list \<Rightarrow> browser_gate \<Rightarrow> browser_gate" where
  "browser_run rs g = fold (\<lambda>r g. fst (open_dashboard_browser (br_env r) (br_failure r) (br_force r) (br_settings r) g)) rs g"

definition unforced_openings :: "browser_gate \<Rightarrow> (string \<times> bool \<times> bool) list" where
  "unforced_openings g = filter (\<lambda>(u, forced, returned). \<not> forced \<and> returned) (bg_calls g)"

definition gate_ok :: "browser_gate \<Rightarrow> bool" where
  "gate_ok g \<longleftrightarrow> list_all (\<lambda>(u, forced, returned). local_url u) (bg_calls g)
     \<and> length (unforced_openings g) \<le> (if bg_opened g then 1 else 0)"

lemma open_gate_ok: "gate_ok g \<Longrightarrow> gate_ok (fst (open_dashboard_browser v failure force s g))"
  by (auto simp: open_dashboard_browser_def gate_ok_def unforced_openings_def Let_def split: option.split if_splits)

lemma browser_run_ok: "gate_ok g \<Longrightarrow> gate_ok (browser_run rs g)"
  unfolding browser_run_def by (induction rs arbitrary: g) (simp_all add: open_gate_ok)

text \<open>The browser is only ever sent to addresses that begin with the local host's name, whatever settings,
environments and failures the requests meet, and without force it is opened at most once per process.\<close>

theorem browser_opens_local_once:
  "list_all (\<lambda>(u, forced, returned). local_url u) (bg_calls (browser_run rs fresh_gate))
    \<and> length (unforced_openings (browser_run rs fresh_gate)) \<le> 1"
proof -
  have "gate_ok (browser_run rs fresh_gate)" by (rule browser_run_ok) (simp add: gate_ok_def fresh_gate_def unforced_openings_def)
  then show ?thesis by (auto simp: gate_ok_def split: if_splits)
qed

text \<open>The test looks at a prefix of the address, which is not yet the host.\<close>

lemma local_prefix_is_no_host:
  "ba_opened (snd (open_dashboard_browser v None True (default_dash_settings\<lparr>dc_host := ''127.0.0.1.example.com''\<rparr>) g))"
  unfolding open_dashboard_browser_def Let_def
  by (simp add: dash_url_def default_dash_settings_def local_url_def py_startswith_def)

section \<open>The health check asks the configured host\<close>

definition plain_char :: "char \<Rightarrow> bool" where
  "plain_char c \<longleftrightarrow> c \<notin> set ''/?#@:%[]'' \<and> c \<notin> {CHR 0x09, CHR 0x0A, CHR 0x0D}"

lemma digit_texts: "list_all decimal_char (dec_digits n)"
proof (induction n rule: dec_digits.induct)
  case (1 n)
  have "\<forall>d<10. decimal_char (digit_char d)" by code_simp
  then have d: "decimal_char (digit_char d)" if "d < 10" for d using that by blast
  show ?case
  proof (cases "n < 10")
    case True
    then show ?thesis by (simp add: dec_digits.simps [of n] d)
  next
    case False
    then show ?thesis using 1 by (simp add: dec_digits.simps [of n] d)
  qed
qed

lemma digit_is_plain: "decimal_char c \<Longrightarrow> plain_char c"
  by (auto simp: decimal_char_def plain_char_def)

lemma digits_nonempty: "dec_digits n \<noteq> []"
  by (simp add: dec_digits.simps [of n])

lemma takeWhile_stop: "list_all P xs \<Longrightarrow> \<not> P y \<Longrightarrow> takeWhile P (xs @ y # ys) = xs \<and> dropWhile P (xs @ y # ys) = y # ys"
  by (induction xs) auto

lemma plain_not: "list_all plain_char t \<Longrightarrow> \<not> plain_char c \<Longrightarrow> c \<notin> set t"
  by (auto simp: list_all_iff)

lemma special_chars:
  "\<not> plain_char CHR ''/''" "\<not> plain_char CHR ''?''" "\<not> plain_char CHR ''#''" "\<not> plain_char CHR ''@''" "\<not> plain_char CHR '':''"
  "\<not> plain_char CHR ''%''" "\<not> plain_char CHR ''[''" "\<not> plain_char CHR '']''" "\<not> plain_char CHR 0x09" "\<not> plain_char CHR 0x0A"
  "\<not> plain_char CHR 0x0D"
  by (simp_all add: plain_char_def)

lemma all_taken: "(\<And>x. x \<in> set xs \<Longrightarrow> P x) \<Longrightarrow> takeWhile P xs = xs \<and> dropWhile P xs = []"
  by (induction xs) auto

lemma plain_netloc:
  assumes "list_all plain_char h" and "list_all plain_char p"
  shows "url_netloc (''http://'' @ h @ CHR '':'' # p) = h @ CHR '':'' # p"
proof -
  let ?t = "h @ CHR '':'' # p"
  have clean: "c \<notin> set ?t" if "\<not> plain_char c" "c \<noteq> CHR '':''" for c
    using plain_not [OF assms(1) that(1)] plain_not [OF assms(2) that(1)] that(2) by simp
  have "filter (\<lambda>c. c \<notin> {CHR 0x09, CHR 0x0A, CHR 0x0D}) ?t = ?t"
    using clean [of "CHR 0x09"] clean [of "CHR 0x0A"] clean [of "CHR 0x0D"] special_chars by (intro filter_True) auto
  moreover have "filter (\<lambda>c. c \<notin> {CHR 0x09, CHR 0x0A, CHR 0x0D}) (''http://'' @ t)
      = ''http://'' @ filter (\<lambda>c. c \<notin> {CHR 0x09, CHR 0x0A, CHR 0x0D}) t" for t by simp
  moreover have "takeWhile (\<lambda>c. c \<notin> set ''/?#'') ?t = ?t"
    using clean [of "CHR ''/''"] clean [of "CHR ''?''"] clean [of "CHR ''#''"] special_chars
    by (intro all_taken [THEN conjunct1]) auto
  moreover have "drop 7 (''http://'' @ t) = t" for t :: string by simp
  ultimately show ?thesis unfolding url_netloc_def by (simp only:)
qed

lemma plain_info:
  assumes "list_all plain_char h" and "list_all plain_char p"
  shows "after_at (h @ CHR '':'' # p) = h @ CHR '':'' # p"
proof -
  have "CHR ''@'' \<notin> set (h @ CHR '':'' # p)"
    using plain_not [OF assms(1)] plain_not [OF assms(2)] special_chars(4) by simp
  then have "takeWhile (\<lambda>c. c \<noteq> CHR ''@'') (rev (h @ CHR '':'' # p)) = rev (h @ CHR '':'' # p)"
    by (intro all_taken [THEN conjunct1]) auto
  then show ?thesis by (simp only: after_at_def rev_rev_ident)
qed

lemma plain_name:
  assumes "list_all plain_char h" and "h \<noteq> []"
  shows "host_name h = Some (py_lower h)"
proof -
  have "CHR ''%'' \<notin> set h" using plain_not [OF assms(1)] special_chars(6) by simp
  then have "takeWhile (\<lambda>c. c \<noteq> CHR ''%'') h = h \<and> dropWhile (\<lambda>c. c \<noteq> CHR ''%'') h = []"
    by (intro all_taken) auto
  then show ?thesis using assms(2) by (simp only: host_name_def append_Nil2 simp_thms if_False)
qed

lemma url_parts:
  assumes "list_all plain_char h" and "h \<noteq> []" and "n \<le> 65535"
  shows "url_host_port br (''http://'' @ h @ CHR '':'' # dec_digits n) = Inr (Some (py_lower h), Some (int n))"
proof -
  have digits: "list_all plain_char (dec_digits n)"
    using digit_texts [of n] by (auto simp: list_all_iff digit_is_plain)
  have "takeWhile (\<lambda>c. c \<noteq> CHR '':'') (h @ CHR '':'' # dec_digits n) = h
      \<and> dropWhile (\<lambda>c. c \<noteq> CHR '':'') (h @ CHR '':'' # dec_digits n) = CHR '':'' # dec_digits n"
    using plain_not [OF assms(1)] special_chars(5) by (intro takeWhile_stop) (auto simp: list_all_iff)
  moreover have "port_number (dec_digits n) = Inr (Some (int n))"
    using digit_texts digits_nonempty assms(3) by (simp add: port_number_def dec_value_digits)
  moreover have "CHR ''['' \<notin> set (h @ CHR '':'' # dec_digits n)" "CHR '']'' \<notin> set (h @ CHR '':'' # dec_digits n)"
    using plain_not [OF assms(1)] plain_not [OF digits] special_chars(7,8) by simp_all
  ultimately show ?thesis
    unfolding url_host_port_def Let_def plain_netloc [OF assms(1) digits] plain_info [OF assms(1) digits]
    by (simp add: plain_name [OF assms(1,2)])
qed

lemma health_asks_configured_host:
  assumes "list_all plain_char (dc_host s)" and "dc_host s \<noteq> []" and "0 \<le> dc_port s" and "dc_port s \<le> 65535"
  shows "check_dashboard_health br http s = Inr (ask_health http (py_lower (dc_host s)) (dc_port s))"
  using url_parts [OF assms(1,2), of "nat (dc_port s)" br] assms(3,4)
  by (simp add: check_dashboard_health_def dash_url_def int_text_def opt_default_def)

text \<open>An IPv6 wildcard, which the configuration allows, is not a host of an address without brackets: the start of the
server raises after the thread runs.\<close>

lemma ipv6_host_raises:
  "check_dashboard_health br http (default_dash_settings\<lparr>dc_host := ''::''\<rparr>) = Inl (ValueError ''Port could not be cast to integer value'')"
proof -
  have "digit_char 8 = CHR ''8''" "digit_char 0 = CHR ''0''" "digit_char 5 = CHR ''5''" by code_simp+
  then have "dec_digits 8050 = ''8050''" by (simp add: dec_digits.simps [of 8050] dec_digits.simps [of 805] dec_digits.simps [of 80] dec_digits.simps [of 8])
  then have "dash_url (default_dash_settings\<lparr>dc_host := ''::''\<rparr>) = ''http://:::8050''"
    by (simp add: dash_url_def int_text_def default_dash_settings_def)
  moreover have "url_netloc ''http://:::8050'' = '':::8050''" by code_simp
  moreover have "after_at '':::8050'' = '':::8050''" by code_simp
  moreover have "port_number ''::8050'' = Inl (ValueError ''Port could not be cast to integer value'')" by code_simp
  ultimately show ?thesis by (simp add: check_dashboard_health_def url_host_port_def)
qed

section \<open>The server leaves trading alone\<close>

lemma show_browser_fields [simp]: "ds_centre (fst (show_browser v b d)) = ds_centre d"
  by (simp add: show_browser_def split: prod.split)

datatype server_op =
    Server_Start server_env bool "bool option" bool
  | Server_Stop
  | Server_Crash
  | App_Startup
  | App_Shutdown

fun server_exec :: "'m centre_env \<Rightarrow> server_op \<Rightarrow> 'm dash_server \<Rightarrow> 'm dash_server" where
  "server_exec ev (Server_Start v alive b wait) d = fst (server_start v alive b wait d)"
| "server_exec ev Server_Stop d = server_stop d"
| "server_exec ev Server_Crash d = server_crashed d"
| "server_exec ev App_Startup d = d\<lparr>ds_centre := app_startup ev (ds_settings d) (ds_centre d)\<rparr>"
| "server_exec ev App_Shutdown d = d\<lparr>ds_centre := app_shutdown (ds_centre d)\<rparr>"

lemma server_exec_trading:
  "ce_paper (ds_centre (server_exec ev p d)) = ce_paper (ds_centre d) \<and> ce_learner (ds_centre (server_exec ev p d)) = ce_learner (ds_centre d)
    \<and> ce_settings (ds_centre (server_exec ev p d)) = ce_settings (ds_centre d)"
  by (cases p) (simp_all add: server_start_def server_stop_def server_crashed_def app_startup_def app_shutdown_def offline_def
      announce_as_def split_beta Let_def split: sum.split)

lemma server_run_trading:
  "ce_paper (ds_centre (fold (server_exec ev) ps d)) = ce_paper (ds_centre d)
    \<and> ce_learner (ds_centre (fold (server_exec ev) ps d)) = ce_learner (ds_centre d)"
  by (induction ps arbitrary: d) (simp_all add: server_exec_trading)

section \<open>The stream has no gaps\<close>

text \<open>What the bus holds for the queue \<open>q\<close>, of which there is one.\<close>

definition one_queue :: "nat \<Rightarrow> dash_event list \<Rightarrow> event_bus \<Rightarrow> bool" where
  "one_queue q es b \<longleftrightarrow> filter (\<lambda>(k, _). k = q) (eb_queues b) = [(q, es)]"

definition foreign :: "nat \<Rightarrow> bus_op \<Rightarrow> bool" where
  "foreign q p \<longleftrightarrow> (case p of Subscribe_Queue k \<Rightarrow> k \<noteq> q | Unsubscribe_Queue k \<Rightarrow> k \<noteq> q | Queue_Get k \<Rightarrow> k \<noteq> q | _ \<Rightarrow> True)"

lemma filter_dput_other: "k \<noteq> q \<Longrightarrow> filter (\<lambda>(k, _). k = q) (dput k v d) = filter (\<lambda>(k, _). k = q) d"
  by (induction d) auto

lemma filter_dput_same: "filter (\<lambda>(k, _). k = q) d = [(q, es)] \<Longrightarrow> filter (\<lambda>(k, _). k = q) (dput q v d) = [(q, v)]"
  by (induction d) (auto split: if_splits simp: filter_empty_conv)

lemma filter_ddel_other: "k \<noteq> q \<Longrightarrow> filter (\<lambda>(k, _). k = q) (ddel k d) = filter (\<lambda>(k, _). k = q) d"
  by (induction d) (auto simp: AList.delete_eq)

lemma filter_dget: "filter (\<lambda>(k, _). k = q) d = (q, es) # r \<Longrightarrow> dget d q = Some es"
  by (induction d) (auto split: if_splits)

lemma filter_keys: "filter (\<lambda>(k, _). k = q) d = [(q, es)] \<Longrightarrow> filter (\<lambda>k. k = q) (map fst d) = [q]"
  by (induction d) (auto split: if_splits simp: filter_empty_conv)

lemma fill_other: "q \<notin> set qs \<Longrightarrow> one_queue q es b \<Longrightarrow> one_queue q es (fill_queues e qs b)"
  by (induction qs arbitrary: b) (auto simp: one_queue_def filter_dput_other Let_def)

lemma fill_once:
  assumes "one_queue q es b" and "filter (\<lambda>k. k = q) qs = [q]"
  shows "one_queue q (offered e es) (fill_queues e qs b)"
  using assms
proof (induction qs arbitrary: b)
  case (Cons p qs)
  show ?case
  proof (cases "p = q")
    case True
    have "dget (eb_queues b) q = Some es" using Cons.prems(1) by (auto simp: one_queue_def dest: filter_dget)
    then have "one_queue q (offered e es)
        (if length es < queue_size then b\<lparr>eb_queues := dput q (es @ [e]) (eb_queues b)\<rparr> else count_error True b)"
      using Cons.prems(1) filter_dput_same by (auto simp: one_queue_def offered_def)
    moreover have "q \<notin> set qs" using Cons.prems(2) True by (auto simp: filter_empty_conv)
    ultimately show ?thesis using True \<open>dget (eb_queues b) q = Some es\<close> by (simp add: fill_other opt_default_def Let_def)
  next
    case False
    then show ?thesis using Cons by (auto simp: one_queue_def filter_dput_other Let_def)
  qed
qed simp

lemma publish_one_queue: "one_queue q es b \<Longrightarrow> one_queue q (offered e es) (publish saves returns e b)"
  unfolding publish_def Let_def by (rule fill_once) (auto simp: one_queue_def dest: filter_keys)

lemma step_one_queue:
  assumes "one_queue q es b" and "foreign q p" and "length es + length (emitted [p]) \<le> queue_size"
  shows "one_queue q (es @ emitted [p]) (bus_step saves returns p b)"
proof (cases p)
  case (Emit r)
  then show ?thesis
    using assms publish_one_queue [OF assms(1)] by (cases "make_event r") (auto simp: emit_event_def emitted_def offered_def)
next
  case (Queue_Get k)
  then show ?thesis
    using assms by (auto simp: foreign_def one_queue_def queue_get_def emitted_def filter_dput_other split: option.split list.split)
qed (use assms in \<open>auto simp: foreign_def one_queue_def emitted_def subscribe_def unsubscribe_def subscribe_queue_def unsubscribe_queue_def
    filter_ddel_other\<close>)

lemma run_one_queue:
  assumes "one_queue q es b" and "list_all (foreign q) ps" and "length es + length (emitted ps) \<le> queue_size"
  shows "one_queue q (es @ emitted ps) (bus_run saves returns ps b)"
  using assms
proof (induction ps arbitrary: es b)
  case (Cons p ps)
  have split_off: "emitted (p # ps) = emitted [p] @ emitted ps" by (simp add: emitted_def)
  then have "one_queue q (es @ emitted [p]) (bus_step saves returns p b)"
    using Cons.prems by (intro step_one_queue) auto
  from Cons.IH [OF this] Cons.prems split_off show ?case by (simp add: bus_run_def)
qed (simp add: bus_run_def emitted_def)

lemma get_one_queue:
  assumes "one_queue q es b" and "queue_get q b = (b', x)"
  shows "one_queue q (tl es) b' \<and> x = (case es of [] \<Rightarrow> None | e # _ \<Rightarrow> Some e)"
proof -
  have "dget (eb_queues b) q = Some es" using assms(1) by (auto simp: one_queue_def dest: filter_dget)
  then show ?thesis using assms filter_dput_same by (cases es) (auto simp: queue_get_def one_queue_def)
qed

text \<open>The events among the messages sent.\<close>

fun sent_events :: "socket_message list \<Rightarrow> json_obj list" where
  "sent_events [] = []"
| "sent_events (Event_Message d # ms) = d # sent_events ms"
| "sent_events (_ # ms) = sent_events ms"

lemma sent_append [simp]: "sent_events (xs @ ys) = sent_events xs @ sent_events ys"
  by (induction xs rule: sent_events.induct) simp_all

definition all_ops :: "round_trip list \<Rightarrow> bus_op list" where
  "all_ops ts = concat (map rt_ops ts)"

lemma emitted_append [simp]: "emitted (xs @ ys) = emitted xs @ emitted ys"
  by (simp add: emitted_def)

lemma loop_no_gaps:
  assumes "one_queue q es b" and "list_all (foreign q) (all_ops ts)" and "length es + length (emitted (all_ops ts)) \<le> queue_size"
    and "socket_loop w q ts b = (ms, b', False)"
  shows "\<exists>es'. one_queue q es' b' \<and> sent_events ms @ map event_to_dict es' = map event_to_dict (es @ emitted (all_ops ts))"
  using assms
proof (induction ts arbitrary: es b ms)
  case Nil
  then show ?case by (auto simp: all_ops_def emitted_def)
next
  case (Cons t ts)
  let ?b = "others_do w (rt_ops t) b"
  obtain b1 x where g: "queue_get q ?b = (b1, x)" by fastforce
  have ops: "all_ops (t # ts) = rt_ops t @ all_ops ts" by (simp add: all_ops_def)
  have "one_queue q (es @ emitted (rt_ops t)) ?b"
    using Cons.prems(1-3) by (intro run_one_queue) (auto simp: ops)
  from get_one_queue [OF this g] have one: "one_queue q (tl (es @ emitted (rt_ops t))) b1"
    and x: "x = (case es @ emitted (rt_ops t) of [] \<Rightarrow> None | e # _ \<Rightarrow> Some e)" by simp_all
  obtain ns where rest: "socket_loop w q ts b1 = (ns, b', False)" and ms: "ms = taken_message x # ns \<or> ms = taken_message x # Pong # ns"
    using Cons.prems(4) g by (auto simp: Let_def split: if_splits incoming.splits prod.splits)
  have "list_all (foreign q) (all_ops ts)" "length (tl (es @ emitted (rt_ops t))) + length (emitted (all_ops ts)) \<le> queue_size"
    using Cons.prems(2,3) by (simp_all add: ops)
  from Cons.IH [OF one this rest] obtain es' where
    es': "one_queue q es' b'" "sent_events ns @ map event_to_dict es' = map event_to_dict (tl (es @ emitted (rt_ops t)) @ emitted (all_ops ts))"
    by blast
  moreover have "sent_events ms = (case x of None \<Rightarrow> [] | Some e \<Rightarrow> [event_to_dict e]) @ sent_events ns"
    using ms by (auto simp: taken_message_def split: option.splits)
  moreover have "es @ emitted (all_ops (t # ts)) = (es @ emitted (rt_ops t)) @ emitted (all_ops ts)" by (simp add: ops)
  ultimately show ?case
    using x by (cases "es @ emitted (rt_ops t)") (auto simp del: append_assoc)
qed

lemma socket_loop_queue: "fst (queue_get q b) = b \<or> (\<exists>es. fst (queue_get q b) = b\<lparr>eb_queues := dput q es (eb_queues b)\<rparr>)"
  by (auto simp: queue_get_def split: option.split list.split)

text \<open>C37: a connection sees everything: while it is open, the events sent on it after the greeting, followed by those still in its queue,
are exactly the events published since it subscribed, in their order, provided that no more than a thousand were published.  When it ends, for
whatever reason, its queue and its entry in the list of connections are gone.\<close>

theorem event_stream_has_no_gaps:
  assumes "dget (eb_queues (hu_bus h)) q = None" and "list_all (foreign q) (ops @ all_ops ts)"
    and "length (emitted (ops @ all_ops ts)) \<le> 1000"
    and "websocket_endpoint w q c None ops failing ts h = (h', Inr (ms, over))"
  shows "if over then dget (eb_queues (hu_bus h')) q = None \<and> hu_connections h' = remove1 c (hu_connections h @ [c])
    else hu_connections h' = hu_connections h @ [c]
      \<and> sent_events (drop (length (greetings (others_do w ops (subscribe_queue q (hu_bus h))))) ms)
          @ map event_to_dict (opt_default (dget (eb_queues (hu_bus h')) q) []) = map event_to_dict (emitted (ops @ all_ops ts))"
proof -
  let ?b1 = "subscribe_queue q (hu_bus h)" let ?b2 = "others_do w ops ?b1"
  have "filter (\<lambda>(k, _). k = q) (eb_queues (hu_bus h)) = []"
    using assms(1) by (auto simp: filter_empty_conv map_of_eq_None_iff image_iff)
  then have "one_queue q [] ?b1" by (simp add: one_queue_def subscribe_queue_def)
  then have one: "one_queue q (emitted ops) ?b2"
    using run_one_queue [of q "[]" ?b1 ops] assms(2,3) by (simp add: queue_size_def)
  show ?thesis
  proof (cases over)
    case True
    then show ?thesis
      using assms(4) by (auto simp: websocket_endpoint_def leave_def unsubscribe_queue_def socket_connect_def socket_disconnect_def
          dget_ddel Let_def split: if_splits prod.splits)
  next
    case False
    then obtain ns b3 where loop: "socket_loop w q ts ?b2 = (ns, b3, False)" and ms: "ms = greetings ?b2 @ ns"
      and h': "hu_bus h' = b3" "hu_connections h' = hu_connections h @ [c]"
      using assms(4) by (auto simp: websocket_endpoint_def socket_connect_def Let_def split: if_splits prod.splits)
    obtain es' where es': "one_queue q es' b3"
      "sent_events ns @ map event_to_dict es' = map event_to_dict (emitted ops @ emitted (all_ops ts))"
      using loop_no_gaps [OF one _ _ loop] assms(2,3) by (auto simp: queue_size_def)
    have "dget (eb_queues b3) q = Some es'" using es'(1) by (auto simp: one_queue_def dest: filter_dget)
    then show ?thesis using False ms h' es'(2) by (simp add: opt_default_def)
  qed
qed

definition demo_hub :: socket_hub where
  "demo_hub = \<lparr>hu_bus = new_event_bus 5, hu_connections = []\<rparr>"

definition demo_world :: bus_world where
  "demo_world = \<lparr>bw_saves = (\<lambda>r. True), bw_returns = (\<lambda>l e. True)\<rparr>"

definition demo_round :: round_trip where
  "demo_round = \<lparr>rt_ops = [], rt_sends = True, rt_in = Received ''ping'', rt_pong = True\<rparr>"

lemma demo_greetings:
  "greetings (others_do demo_world [Emit (demo_request ''1'')] (subscribe_queue 7 (hu_bus demo_hub)))
     = [Connected, Event_Message (event_to_dict (demo_event ''1''))]"
  by (simp add: greetings_def bus_run_def emit_event_def demo_request_event demo_hub_def new_event_bus_def subscribe_queue_def bus_history_def
      last_items_def last_n_def opt_truthy_def)

theorem event_stream_has_no_gaps_witness:
  "\<exists>h' ms. websocket_endpoint demo_world 7 3 None [Emit (demo_request ''1'')] None [demo_round] demo_hub = (h', Inr (ms, False))
    \<and> sent_events (drop 2 ms) @ map event_to_dict (opt_default (dget (eb_queues (hu_bus h')) 7) []) = [event_to_dict (demo_event ''1'')]"
proof -
  obtain h' ms where e: "websocket_endpoint demo_world 7 3 None [Emit (demo_request ''1'')] None [demo_round] demo_hub = (h', Inr (ms, False))"
    by (simp add: websocket_endpoint_def demo_round_def split_beta Let_def)
  have "emitted [Emit (demo_request ''1'')] = [demo_event ''1'']" by (simp add: emitted_def demo_request_event)
  moreover have "all_ops [demo_round] = []" by (simp add: all_ops_def demo_round_def)
  ultimately have em: "emitted ([Emit (demo_request ''1'')] @ all_ops [demo_round]) = [demo_event ''1'']"
      and fo: "list_all (foreign 7) ([Emit (demo_request ''1'')] @ all_ops [demo_round])"
    by (simp_all add: foreign_def)
  then have few: "length (emitted ([Emit (demo_request ''1'')] @ all_ops [demo_round])) \<le> 1000" by simp
  have "dget (eb_queues (hu_bus demo_hub)) 7 = None" by (simp add: demo_hub_def new_event_bus_def)
  from event_stream_has_no_gaps [OF this fo few e, unfolded demo_greetings em] e show ?thesis
    by (simp add: numeral_2_eq_2)
qed

text \<open>An event published between the subscription and the greeting is sent twice: with the history and from the queue.\<close>

lemma early_event_is_sent_twice:
  "sent_events (fst (the (case snd (websocket_endpoint demo_world 7 3 None [Emit (demo_request ''1'')] None [demo_round] demo_hub) of
     Inr x \<Rightarrow> Some x | _ \<Rightarrow> None))) = [event_to_dict (demo_event ''1''), event_to_dict (demo_event ''1'')]"
  by (simp add: websocket_endpoint_def demo_round_def demo_greetings Let_def)
    (simp add: bus_run_def emit_event_def demo_request_event demo_hub_def new_event_bus_def subscribe_queue_def publish_def call_listeners.simps
      save_to_store_def demo_world_def queue_size_def queue_get_def opt_default_def taken_message_def)

text \<open>A handshake that fails leaves the queue behind: it is made before the block that removes it.\<close>

lemma failed_handshake_keeps_queue:
  assumes "dget (eb_queues (hu_bus h)) q = None"
  shows "dget (eb_queues (hu_bus (fst (websocket_endpoint w q c (Some err) ops failing ts h)))) q = Some []"
  using assms by (simp add: websocket_endpoint_def subscribe_queue_def Let_def map_add_Some_iff)

end
