(* ===== verification/Dashboard_Lab.thy ===== *)
theory Dashboard_Lab
  imports Command_Centre Backtest_Store Indicators Prediction
begin

text \<open>
  The laboratory of the dashboard, from \<open>dashboard/routes.py\<close> and \<open>dashboard/state.py\<close>: the actions that run a backtest, a walk-forward
  validation, a sensitivity sweep or a forecast evaluation and keep what they gave, the page of a market, and the pages that read
  these results.  The state of the laboratory stands beside the state of the dashboard, whose bus and tool log the actions use; the
  backtest engine and the validator are arguments.
\<close>

section \<open>State\<close>

record market_page =
  mp_symbol :: string
  mp_candles :: "candle list"
  mp_sma :: series
  mp_ema :: series
  mp_rsi :: series
  mp_atr :: series
  mp_macd :: "series \<times> series \<times> series"

record 'w lab =
  la_store :: "mem_store backtest_store"
  la_latest :: "json_obj list"
  la_walk :: "'w list option"
  la_sensitivity :: "sensitivity_row list"
  la_prediction :: "forecast_report option"
  la_market :: "(string \<times> market_page) list"

definition new_lab :: "'w lab" where
  "new_lab = \<lparr>la_store = new_backtest_store mem_empty, la_latest = [], la_walk = None, la_sensitivity = [], la_prediction = None,
     la_market = []\<rparr>"

record 'w lab_env =
  le_series :: "int \<Rightarrow> string \<Rightarrow> int \<Rightarrow> candle list res"
  le_engine :: "candle list \<Rightarrow> artifact res"
  le_walk_forward :: "candle list \<Rightarrow> string \<Rightarrow> 'w list res"
  le_variant :: "candle list \<Rightarrow> int \<Rightarrow> pyfloat \<Rightarrow> artifact res"
  le_forecast :: forecast_lib

section \<open>Actions\<close>

text \<open>Each announces its start, works, keeps its result and announces it; an exception of the work leaves the announcement.\<close>

definition run_backtest_action ::
  "'m centre_env \<Rightarrow> 'w lab_env \<Rightarrow> string \<Rightarrow> int \<Rightarrow> 'm centre \<times> 'w lab \<Rightarrow> ('m centre \<times> 'w lab) \<times> json_obj res" where
  "run_backtest_action ev w symbol bars st = (case st of (c, l) \<Rightarrow>
     let c1 = announce ev ''BacktestStarted'' [(''symbol'', JStr symbol), (''bars'', JInt bars)] None (Some symbol) None c
     in case le_series w 42 (py_upper symbol) bars of
          Inl err \<Rightarrow> ((c1, l), Inl err)
        | Inr cs \<Rightarrow>
            (let c2 = announce ev ''BacktestProgress'' [(''progress'', JNum (Fin (1 / 2)))] None (Some symbol) None c1
             in case le_engine w cs of
                  Inl err \<Rightarrow> ((c2, l), Inl err)
                | Inr r \<Rightarrow>
                    (let summary = summarize_result r;
                         l1 = l\<lparr>la_store := save_result mem_save r (la_store l), la_latest := la_latest l @ [summary]\<rparr>;
                         c3 = announce ev ''BacktestCompleted'' summary None (Some symbol) None c2
                     in ((record_mcp ev ''run_backtest'' ''OK'' (Fin 0) None c3, l1), Inr summary))))"

definition run_walk_forward_action ::
  "'m centre_env \<Rightarrow> 'w lab_env \<Rightarrow> string \<Rightarrow> int \<Rightarrow> 'm centre \<times> 'w lab \<Rightarrow> ('m centre \<times> 'w lab) \<times> 'w list res" where
  "run_walk_forward_action ev w symbol bars st = (case st of (c, l) \<Rightarrow>
     let c1 = announce ev ''WalkForwardStarted'' [(''symbol'', JStr symbol)] None (Some symbol) None c
     in case bind_res (le_series w 3 (py_upper symbol) bars) (\<lambda>cs. le_walk_forward w cs symbol) of
          Inl err \<Rightarrow> ((c1, l), Inl err)
        | Inr folds \<Rightarrow> ((announce ev ''WalkForwardCompleted'' [(''folds'', JInt (int (length folds)))] None (Some symbol) None c1,
                         l\<lparr>la_walk := Some folds\<rparr>), Inr folds))"

definition dashboard_forecast :: "json_obj list" where
  "dashboard_forecast = [[(''predicted_probability'', JNum (flit (62 / 100))), (''market_probability'', JNum (flit (55 / 100))),
     (''outcome'', JInt 1), (''quantity'', JInt 10), (''model'', JStr ''ensemble''), (''weight'', JNum (Fin 1)),
     (''confidence'', JNum (flit (7 / 10)))]]"

definition run_prediction_action ::
  "'m centre_env \<Rightarrow> 'w lab_env \<Rightarrow> 'm centre \<times> 'w lab \<Rightarrow> ('m centre \<times> 'w lab) \<times> forecast_report res" where
  "run_prediction_action ev w st = (case st of (c, l) \<Rightarrow>
     let c1 = announce ev ''PredictionBacktestStarted'' [] None None None c
     in case evaluate_prediction_rows (le_forecast w) (flit (4 / 100)) (Fin (1 / 4)) dashboard_forecast of
          Inl err \<Rightarrow> ((c1, l), Inl err)
        | Inr out \<Rightarrow> ((announce ev ''PredictionBacktestCompleted''
                          [(''brier_mean'', case fp_brier_mean out of None \<Rightarrow> JNull | Some x \<Rightarrow> JNum x)] None None None c1,
                       l\<lparr>la_prediction := Some out\<rparr>), Inr out))"

definition run_sensitivity_action ::
  "'m centre_env \<Rightarrow> 'w lab_env \<Rightarrow> string \<Rightarrow> int \<Rightarrow> 'm centre \<times> 'w lab \<Rightarrow> ('m centre \<times> 'w lab) \<times> sensitivity_row list res" where
  "run_sensitivity_action ev w symbol bars st = (case st of (c, l) \<Rightarrow>
     let c1 = announce ev ''SensitivityStarted'' [(''symbol'', JStr symbol)] None (Some symbol) None c
     in case bind_res (le_series w 9 (py_upper symbol) bars) (\<lambda>cs. parameter_sensitivity (le_variant w cs) [10, 12] [Fin 2]) of
          Inl err \<Rightarrow> ((c1, l), Inl err)
        | Inr rs \<Rightarrow> ((announce ev ''SensitivityCompleted'' [(''rows'', JInt (int (length rs)))] None (Some symbol) None c1,
                      l\<lparr>la_sensitivity := rs\<rparr>), Inr rs))"

section \<open>Pages\<close>

definition market_symbol :: "string \<Rightarrow> string" where
  "market_symbol s = py_replace CHR ''-'' ''/'' (py_upper s)"

definition market_indicators :: "string \<Rightarrow> candle list \<Rightarrow> market_page res" where
  "market_indicators sy cs =
     (let closes = map cd_close cs; highs = map cd_high cs; lows = map cd_low cs
      in bind_res (macd closes 12 26 9) (\<lambda>m. bind_res (sma closes 20) (\<lambda>s. bind_res (ema closes 20) (\<lambda>x. bind_res (rsi closes 14) (\<lambda>r.
           bind_res (atr highs lows closes 14) (\<lambda>a.
             Inr \<lparr>mp_symbol = sy, mp_candles = cs, mp_sma = s, mp_ema = x, mp_rsi = r, mp_atr = a, mp_macd = m\<rparr>))))))"

definition market_route :: "'w lab_env \<Rightarrow> string \<Rightarrow> int \<Rightarrow> 'w lab \<Rightarrow> 'w lab \<times> market_page res" where
  "market_route w symbol bars l =
     (let sy = market_symbol symbol
      in case bind_res (le_series w 42 sy bars) (market_indicators sy) of
           Inl err \<Rightarrow> (l, Inl err)
         | Inr p \<Rightarrow> (l\<lparr>la_market := dput sy p (la_market l)\<rparr>, Inr p))"

text \<open>A page that does not exist is status 404 with a detail.\<close>

type_synonym 'a page = "nat \<times> string + 'a"

definition backtest_detail :: "string \<Rightarrow> 'w lab \<Rightarrow> json page" where
  "backtest_detail sid l = (case get_run mem_load sid (la_store l) of
     Some j \<Rightarrow> if json_truthy j then Inr j else Inl (404, ''backtest_not_found'')
   | None \<Rightarrow> Inl (404, ''backtest_not_found''))"

definition backtests_page :: "'w lab \<Rightarrow> run_row list \<times> json_obj list" where
  "backtests_page l = (bs_runs (la_store l), last_n 20 (la_latest l))"

definition walk_forward_page :: "'w lab \<Rightarrow> 'w list" where
  "walk_forward_page l = opt_default (la_walk l) []"

definition sensitivity_page :: "'w lab \<Rightarrow> sensitivity_row list" where
  "sensitivity_page l = la_sensitivity l"

definition event_detail :: "string \<Rightarrow> 'm centre \<Rightarrow> json_obj page" where
  "event_detail i c = (case bus_get i (ce_bus c) of None \<Rightarrow> Inl (404, ''event_not_found'') | Some e \<Rightarrow> Inr e)"

definition agent_page :: "string \<Rightarrow> 'm centre \<Rightarrow> agent_view page" where
  "agent_page i c = (case agent_detail i c of None \<Rightarrow> Inl (404, ''agent_not_found'') | Some a \<Rightarrow> Inr a)"

definition events_page :: "int \<Rightarrow> string option \<Rightarrow> 'm centre \<Rightarrow> json_obj list" where
  "events_page n ty c = bus_history n ty (ce_bus c)"

definition mcp_page :: "'m centre \<Rightarrow> mcp_row list" where
  "mcp_page c = last_n 200 (ce_mcp c)"

definition clean_page :: "json_obj list \<Rightarrow> json list" where
  "clean_page ds = map (\<lambda>d. sanitize_payload (JObj d)) ds"

definition performance_page :: "'m centre_env \<Rightarrow> 'm centre \<Rightarrow> performance" where
  "performance_page ev c = (let e = ce_paper c in
     compute_performance (cv_sqrt ev) (map (\<lambda>t. row_of_trade (t, None)) (ex_trades (en_exchange e))) (ss_starting_capital (en_session e)))"

definition reflection_action :: "'m centre_env \<Rightarrow> 'm centre \<Rightarrow> 'm centre \<times> reflection option" where
  "reflection_action ev c =
     (let l = ce_learner c
      in if ln_memory l = [] then (c, None)
         else (case run_post_mortem (last (ln_memory l)) of (r, pm) \<Rightarrow>
           let x = reflect (ml_repr (cv_ml ev)) r pm
           in (c\<lparr>ce_learner := l\<lparr>ln_memory := butlast (ln_memory l) @ [r], ln_reflections := ln_reflections l @ [x]\<rparr>\<rparr>, Some x)))"

definition reflections_page :: "'m centre \<Rightarrow> reflection list" where
  "reflections_page c = last_n 20 (ln_reflections (ce_learner c))"

definition audit_page :: "int \<Rightarrow> 'm centre \<Rightarrow> (string \<times> string option) list" where
  "audit_page n c = last_items n (ln_audit (ce_learner c))"

definition learning_page :: "'m centre \<Rightarrow> learning_record list \<times> learning_record list" where
  "learning_page c = (last_n 20 (filter (\<lambda>r. le_outcome r = LOSS) (ln_memory (ce_learner c))),
     last_n 20 (filter (\<lambda>r. le_outcome r = WIN) (ln_memory (ce_learner c))))"

definition models_page :: "'m centre \<Rightarrow> model_version list \<times> model_version option \<times> model_version option" where
  "models_page c = (let g = ln_registry (ce_learner c) in (rg_versions g, champion g, challenger g))"

section \<open>What the laboratory shows\<close>

lemma newest_run_found: "get_run mem_load (bi_id (af_identity r)) (save_result mem_save r b) = Some (JObj (run_payload r))"
proof -
  have "mem_load Events (Some (bi_id (af_identity r))) (save_all mem_save (result_records r) (bs_log b))
      = mem_load Events (Some (bi_id (af_identity r))) (bs_log b) @ [run_event r]"
    using mem_log.runs_of_result [of r "bi_id (af_identity r)" "bs_log b"] by (simp add: split_beta)
  then show ?thesis by (simp add: get_run_def save_result_def run_event_def)
qed

datatype lab_op =
    Lab_Backtest string int
  | Lab_Walk_Forward string int
  | Lab_Prediction
  | Lab_Sensitivity string int
  | Lab_Market string int
  | Lab_Reflection

fun lab_exec :: "'m centre_env \<Rightarrow> 'w lab_env \<Rightarrow> lab_op \<Rightarrow> 'm centre \<times> 'w lab \<Rightarrow> 'm centre \<times> 'w lab" where
  "lab_exec ev w (Lab_Backtest sy n) st = fst (run_backtest_action ev w sy n st)"
| "lab_exec ev w (Lab_Walk_Forward sy n) st = fst (run_walk_forward_action ev w sy n st)"
| "lab_exec ev w Lab_Prediction st = fst (run_prediction_action ev w st)"
| "lab_exec ev w (Lab_Sensitivity sy n) st = fst (run_sensitivity_action ev w sy n st)"
| "lab_exec ev w (Lab_Market sy n) st = (fst st, fst (market_route w sy n (snd st)))"
| "lab_exec ev w Lab_Reflection st = (fst (reflection_action ev (fst st)), snd st)"

lemma reflection_centre [simp]:
  "ce_paper (fst (reflection_action ev c)) = ce_paper c" "ce_mcp (fst (reflection_action ev c)) = ce_mcp c"
  "ce_agents (fst (reflection_action ev c)) = ce_agents c"
  by (simp_all add: reflection_action_def Let_def split: prod.split)

lemma record_mcp_bound [simp]: "length (ce_mcp (record_mcp ev tool st d ag c)) \<le> 500"
  by (simp add: record_mcp_def)

lemma lab_exec_keeps:
  "ce_paper (fst (lab_exec ev w p st)) = ce_paper (fst st) \<and> ce_agents (fst (lab_exec ev w p st)) = ce_agents (fst st)
    \<and> (length (ce_mcp (fst st)) \<le> 500 \<longrightarrow> length (ce_mcp (fst (lab_exec ev w p st))) \<le> 500)"
  by (cases p; cases st)
    (auto simp: run_backtest_action_def run_walk_forward_action_def run_prediction_action_def run_sensitivity_action_def Let_def
      split: sum.splits)

text \<open>The two lists of runs agree: the summaries of the laboratory and the rows of its store.\<close>

definition summary_id :: "json_obj \<Rightarrow> json option" where
  "summary_id d = dget d ''backtest_id''"

definition lists_agree :: "'w lab \<Rightarrow> bool" where
  "lists_agree l \<longleftrightarrow> map summary_id (la_latest l) = map (\<lambda>r. Some (JStr (rr_id r))) (bs_runs (la_store l))"

lemma lab_exec_agrees: "lists_agree (snd st) \<Longrightarrow> lists_agree (snd (lab_exec ev w p st))"
  by (cases p; cases st)
    (auto simp: run_backtest_action_def run_walk_forward_action_def run_prediction_action_def run_sensitivity_action_def market_route_def
      lists_agree_def summary_id_def save_result_def summarize_result_def Let_def split: sum.splits)

definition lab_run :: "'m centre_env \<Rightarrow> 'w lab_env \<Rightarrow> lab_op list \<Rightarrow> 'm centre \<times> 'w lab \<Rightarrow> 'm centre \<times> 'w lab" where
  "lab_run ev w ps st = fold (lab_exec ev w) ps st"

lemma lab_run_keeps:
  "lists_agree (snd st) \<Longrightarrow> ce_paper (fst (lab_run ev w ps st)) = ce_paper (fst st) \<and> lists_agree (snd (lab_run ev w ps st))"
  unfolding lab_run_def by (induction ps arbitrary: st) (simp_all add: lab_exec_keeps lab_exec_agrees)


definition demo_lab_learner :: "unit learner" where
  "demo_lab_learner = \<lparr>ln_config = default_learning, ln_memory = [], ln_calibration = new_calibration, ln_drift = new_drift,
     ln_registry = new_registry, ln_proposals = [], ln_last_trained = 0, ln_models = [], ln_rollbacks = [], ln_audit = [],
     ln_reflections = [], ln_post_mortems = [], ln_trades = 0, ln_kelly = Fin (1 / 4)\<rparr>"

definition demo_centre :: "unit centre" where
  "demo_centre = \<lparr>ce_settings = \<lparr>gs_mode = JStr ''paper'', gs_live = False, gs_provider = ''mock'', gs_model = []\<rparr>,
     ce_health = default_health, ce_agents = [], ce_mcp = [], ce_bus = new_event_bus 5000, ce_paper = demo_engine,
     ce_learner = demo_lab_learner, ce_benchmarks = None, ce_monte_carlo = None, ce_running = False, ce_tick = 0\<rparr>"

definition demo_centre_env :: "unit centre_env" where
  "demo_centre_env = \<lparr>cv_now = dec_digits, cv_event_id = dec_digits, cv_saves = (\<lambda>_. True), cv_returns = (\<lambda>_ _. True), cv_ml = demo_ml,
     cv_proposal_id = dec_digits, cv_memory_id = [], cv_h16 = id, cv_f10 = (\<lambda>_. []), cv_half = id, cv_f3 = (\<lambda>_. []), cv_sqrt = id,
     cv_iso = (\<lambda>_. []), cv_uniform = (\<lambda>_ _ a _. a), cv_start = 0, cv_sort = id, cv_draws = (\<lambda>_. []), cv_context_json = (\<lambda>_. []),
     cv_plan_json = (\<lambda>_. []), cv_order_json = (\<lambda>_. []), cv_risk_json = (\<lambda>_. JNull), cv_reason_text = (\<lambda>_. []),
     cv_reason_json = (\<lambda>_. JNull), cv_snapshot_json = (\<lambda>_. [])\<rparr>"

definition demo_lab_env :: "unit lab_env" where
  "demo_lab_env = \<lparr>le_series = (\<lambda>_ _ _. Inr []), le_engine = (\<lambda>_. Inr (demo_artifact ''BT-1'')), le_walk_forward = (\<lambda>_ _. Inr []),
     le_variant = (\<lambda>_ _ _. Inr (demo_artifact ''BT-2'')), le_forecast = \<lparr>fl_log = id, fl_float = (\<lambda>_. None), fl_int = (\<lambda>_. None)\<rparr>\<rparr>"


end
