(* ===== verification/Command_Line.thy ===== *)
theory Command_Line
  imports Paper_Tools Learning_Memory Autonomous Backtest_Store Dashboard_Server
begin

text \<open>
  \<open>cli/trader.py\<close>: the commands of the program, after \<open>argparse\<close> has read them, and the objects of the process they work on:
  the paper engine with its constructor and reports (\<open>paper/engine.py\<close>), the learning engine, the autonomous loop, the dashboard server
  and the store of backtests.  A command answers with the value it prints.  What configuration files give, clocks,
  identifiers, hashes and square roots are arguments; the analysis commands are in \<open>Orchestration\<close>.
\<close>

section \<open>The paper engine of the process\<close>

definition nothing_saved :: saved where
  "nothing_saved = \<lparr>sv_sessions = [], sv_events = [], sv_orders = [], sv_fills = [], sv_snapshots = []\<rparr>"

text \<open>The configuration files as they were read.\<close>

record engine_files =
  ef_settings :: settings
  ef_config :: engine_config
  ef_limits :: risk_limits
  ef_kill :: kill_state
  ef_use_okf :: bool
  ef_okf :: "okf_bundle option"
  ef_compliance :: compliance_config
  ef_tax :: tax_config
  ef_max_correlation :: pyfloat

text \<open>\<open>PaperTradingEngine()\<close>: the kill switch is a new one, whatever the risk configuration says of it.\<close>

definition new_paper_engine :: "engine_files \<Rightarrow> nat \<Rightarrow> string option \<Rightarrow> paper_engine" where
  "new_paper_engine f year stop =
     (let s = new_session (ef_config f) year 1; kill = ks_initial
      in check_stop_file stop (save_session
         \<lparr>en_settings = ef_settings f, en_config = ef_config f, en_session = s,
          en_exchange = new_exchange (ec_exchange (ef_config f)) None [] (ss_session_id s), en_kill = kill,
          en_risk = new_risk_engine (ef_limits f) kill (ef_use_okf f) (ef_okf f), en_compliance = ef_compliance f, en_tax = ef_tax f,
          en_max_correlation = ef_max_correlation f, en_store = nothing_saved, en_running = False, en_decisions = [],
          en_daily_turnover = Fin 0, en_books = [], en_returns = []\<rparr>))"

record engine_status =
  es_running :: bool
  es_session :: paper_session
  es_mode :: string
  es_live :: bool
  es_kill :: kill_state
  es_halted :: bool
  es_halt_reason :: "string option"
  es_cash :: pyfloat
  es_equity :: pyfloat
  es_positions :: nat
  es_open_orders :: nat
  es_trades :: nat
  es_turnover :: pyfloat

definition engine_status :: "paper_engine \<Rightarrow> paper_engine \<times> engine_status" where
  "engine_status e = (case engine_snapshot e of (e1, sn) \<Rightarrow>
     (e1, \<lparr>es_running = en_running e1, es_session = en_session e1, es_mode = se_trading_mode (en_settings e1),
           es_live = se_live_enabled (en_settings e1), es_kill = en_kill e1, es_halted = ex_halted (en_exchange e1),
           es_halt_reason = ex_halt_reason (en_exchange e1), es_cash = sn_cash sn, es_equity = sn_equity sn,
           es_positions = length (sn_positions sn), es_open_orders = length (get_open_orders (en_exchange e1) None),
           es_trades = length (ex_trades (en_exchange e1)), es_turnover = en_daily_turnover e1\<rparr>))"

record book_report =
  bk_overall :: portfolio_snapshot
  bk_strategies :: "(string \<times> string list \<times> position list) list"
  bk_classes :: "(string \<times> position list) list"

definition strategy_positions :: "portfolio_snapshot \<Rightarrow> string \<times> string list \<Rightarrow> string \<times> string list \<times> position list" where
  "strategy_positions sn x = (case x of (sid, symbols) \<Rightarrow>
     (sid, symbols, filter (\<lambda>p. pos_strategy_id p = Some sid \<or> pos_symbol p \<in> set symbols) (sn_positions sn)))"

definition by_class :: "exchange \<Rightarrow> position list \<Rightarrow> (string \<times> position list) list" where
  "by_class ex ps = foldl (\<lambda>d p. let ac = asset_class_value (asset_class_of ex (pos_symbol p))
     in dput ac (opt_default (dget d ac) [] @ [p]) d) [] ps"

definition strategy_book_report :: "paper_engine \<Rightarrow> paper_engine \<times> book_report" where
  "strategy_book_report e = (case engine_snapshot e of (e1, sn) \<Rightarrow>
     (e1, \<lparr>bk_overall = sn, bk_strategies = map (strategy_positions sn) (en_books e1),
           bk_classes = by_class (en_exchange e1) (sn_positions sn)\<rparr>))"

section \<open>Paper commands\<close>

record cli_env =
  ci_files :: engine_files
  ci_stop :: "string option"
  ci_year :: nat
  ci_seq :: nat
  ci_run_id :: string
  ci_uid :: "nat \<Rightarrow> string"
  ci_h16 :: "string \<Rightarrow> string"
  ci_f10 :: "pyfloat \<Rightarrow> string"
  ci_half :: "pyfloat \<Rightarrow> pyfloat"
  ci_f3 :: "pyfloat \<Rightarrow> string"
  ci_log :: "pyfloat \<Rightarrow> pyfloat"

datatype paper_request =
    Show_Status
  | Start_Engine
  | Stop_Engine
  | Reset_Engine
  | Restart_Engine
  | Show_Positions
  | Show_Portfolio
  | Show_Orders
  | Show_Trades
  | Show_Performance
  | Show_Markets
  | Replay_Plan string pyfloat pyfloat
  | Run_Plan string "pyfloat option" string
  | Predict_Market string pyfloat pyfloat pyfloat

datatype paper_answer =
    Engine_Answer engine_status
  | Start_Answer bool
  | Restart_Answer bool
  | Positions_Answer "position list"
  | Portfolio_Answer portfolio_snapshot
  | Orders_Answer "order list"
  | Trades_Answer "trade list"
  | Performance_Answer performance "(string \<times> performance) list" "(string \<times> performance) list" book_report
  | Markets_Answer "contract list"
  | Replay_Answer structural
  | Run_Answer engine_result
  | Predict_Answer order

type_synonym desk = "paper_engine \<times> attribution prediction_book"

definition new_book :: "exchange \<Rightarrow> attribution prediction_book" where
  "new_book ex = \<lparr>pb_exchange = ex, pb_markets = [], pb_attributions = [], pb_settlements = []\<rparr>"

definition on_engine :: "desk \<Rightarrow> paper_engine \<times> 'a res \<Rightarrow> desk \<times> 'a res" where
  "on_engine d x = ((fst x, snd d), snd x)"

definition answer_with :: "('a \<Rightarrow> 'b) \<Rightarrow> 's \<times> 'a res \<Rightarrow> 's \<times> 'b res" where
  "answer_with f x = (fst x, map_sum id f (snd x))"

definition trade_figures :: "cli_env \<Rightarrow> trade list \<Rightarrow> performance" where
  "trade_figures v ts = compute_performance (ci_half v) (map (\<lambda>t. row_of_trade (t, None)) ts) (Fin 10000)"

definition trades_by :: "(trade \<Rightarrow> string option) \<Rightarrow> trade list \<Rightarrow> (string \<times> trade list) list" where
  "trades_by key ts = foldl (\<lambda>d t. let k = (if opt_truthy (key t) then opt_default (key t) [] else ''unknown'')
     in dput k (opt_default (dget d k) [] @ [t]) d) [] ts"

definition figures_by :: "cli_env \<Rightarrow> (trade \<Rightarrow> string option) \<Rightarrow> trade list \<Rightarrow> (string \<times> performance) list" where
  "figures_by v key ts = map (\<lambda>(k, xs). (k, trade_figures v xs)) (trades_by key ts)"

definition performance_answer :: "cli_env \<Rightarrow> paper_engine \<Rightarrow> paper_engine \<times> paper_answer" where
  "performance_answer v e =
     (let ts = ex_trades (en_exchange e)
      in case strategy_book_report e of (e1, b) \<Rightarrow>
           (e1, Performance_Answer (trade_figures v ts) (figures_by v tr_strategy_id ts) (figures_by v (\<lambda>t. Some (tr_asset_class t)) ts) b))"

text \<open>The replay runs on an engine of its own.\<close>

definition replay_command :: "cli_env \<Rightarrow> string \<Rightarrow> pyfloat \<Rightarrow> pyfloat \<Rightarrow> paper_engine \<Rightarrow> structural res" where
  "replay_command v symbol price qty e =
     bind_res (cli_replay_plan symbol price qty e) (\<lambda>p.
       map_sum id snd (snd (replay_run (ci_h16 v) (ci_f10 v) (ci_half v) (ci_f3 v) (ci_stop v) (ci_uid v) (ci_year v) (ci_seq v) (Fin 10000)
         [(py_upper symbol, price)] [] [p] (new_paper_engine (ci_files v) (ci_year v) (ci_stop v)))))"

fun paper_command :: "cli_env \<Rightarrow> paper_request \<Rightarrow> desk \<Rightarrow> desk \<times> paper_answer res" where
  "paper_command v Show_Status (e, b) = (case engine_status e of (e1, s) \<Rightarrow> ((e1, b), Inr (Engine_Answer s)))"
| "paper_command v Start_Engine d = answer_with Start_Answer (on_engine d (engine_start (ci_stop v) (fst d)))"
| "paper_command v Stop_Engine (e, b) = (case engine_status (engine_stop e) of (e1, s) \<Rightarrow> ((e1, b), Inr (Engine_Answer s)))"
| "paper_command v Reset_Engine (e, b) =
     (case engine_status (engine_reset (ci_year v) (ci_seq v) e) of
        (e1, s) \<Rightarrow> ((e1, new_book (en_exchange e1)), Inr (Engine_Answer s)))"
| "paper_command v Restart_Engine (e, b) = (case safe_restart (ci_stop v) e of (e1, r) \<Rightarrow> ((e1, b), Inr (Restart_Answer r)))"
| "paper_command v Show_Positions (e, b) =
     (case get_positions (en_exchange e) of (ex, ps) \<Rightarrow> ((e\<lparr>en_exchange := ex\<rparr>, b), Inr (Positions_Answer ps)))"
| "paper_command v Show_Portfolio (e, b) = (case engine_snapshot e of (e1, sn) \<Rightarrow> ((e1, b), Inr (Portfolio_Answer sn)))"
| "paper_command v Show_Orders (e, b) = ((e, b), Inr (Orders_Answer (map snd (get_open_orders (en_exchange e) None))))"
| "paper_command v Show_Trades (e, b) = ((e, b), Inr (Trades_Answer (ex_trades (en_exchange e))))"
| "paper_command v Show_Performance (e, b) = (case performance_answer v e of (e1, a) \<Rightarrow> ((e1, b), Inr a))"
| "paper_command v Show_Markets (e, b) = ((e, b), Inr (Markets_Answer (map snd (pb_markets b))))"
| "paper_command v (Replay_Plan symbol price qty) (e, b) = ((e, b), map_sum id Replay_Answer (replay_command v symbol price qty e))"
| "paper_command v (Run_Plan symbol price side) d =
     answer_with Run_Answer (on_engine d (cli_paper_run (ci_h16 v) (ci_f10 v) (ci_half v) (ci_f3 v) (ci_stop v) (ci_run_id v) symbol price side (fst d)))"
| "paper_command v (Predict_Market market price model qty) d =
     answer_with Predict_Answer (cli_paper_predict (ci_h16 v) (ci_f10 v) (ci_stop v) market price model qty d)"

section \<open>Learning commands\<close>

record learner_status =
  lx_enabled :: bool
  lx_trades :: nat
  lx_records :: nat
  lx_failures :: nat
  lx_successes :: nat
  lx_champion :: "string option"
  lx_challenger :: "string option"
  lx_reflection :: "reflection option"
  lx_next_retraining :: int
  lx_calibration :: calibration_status
  lx_drift :: drift_monitor
  lx_kelly :: pyfloat

definition lost_records :: "'m learner \<Rightarrow> learning_record list" where
  "lost_records l = filter (\<lambda>r. le_outcome r = LOSS) (ln_memory l)"

definition won_records :: "'m learner \<Rightarrow> learning_record list" where
  "won_records l = filter (\<lambda>r. le_outcome r = WIN) (ln_memory l)"

definition learner_status :: "cli_env \<Rightarrow> 'm learner \<Rightarrow> learner_status" where
  "learner_status v l =
     \<lparr>lx_enabled = lc_enabled (ln_config l), lx_trades = ln_trades l, lx_records = length (ln_memory l),
      lx_failures = length (lost_records l), lx_successes = length (won_records l), lx_champion = champion_name l,
      lx_challenger = map_option mv_name (challenger (ln_registry l)),
      lx_reflection = (if ln_reflections l = [] then None else Some (last (ln_reflections l))),
      lx_next_retraining = max 0 (lc_interval_trades (ln_config l) - (int (ln_trades l) - int (ln_last_trained l))),
      lx_calibration = calibration_status (ci_log v) (ln_config l) (ln_calibration l), lx_drift = ln_drift l, lx_kelly = ln_kelly l\<rparr>"

datatype learning_request =
    Learn_Status | Learn_Memory | Learn_Failures | Learn_Successes | Learn_Calibration | Learn_Brier | Learn_Models | Learn_Proposals
  | Learn_Reflect | Learn_Retrain | Learn_Validate | Learn_Champion | Learn_Challenger | Learn_Audit | Learn_Rollback

datatype learning_answer =
    Learner_Answer learner_status
  | Memory_Answer "nat \<times> nat \<times> nat" "learning_record list"
  | Records_Answer "learning_record list"
  | Calibration_Answer calibration_status
  | Versions_Answer "model_version list"
  | Proposals_Answer "learning_proposal list"
  | Reflection_Answer "reflection option"
  | Retrained_Answer
  | Validation_Answer "model_version option" calibration_status
  | Version_Answer "model_version option"
  | Audit_Answer "(string \<times> string option) list"
  | Rolled_Back_Answer

fun learning_command ::
  "cli_env \<Rightarrow> 'm ml_library \<Rightarrow> (nat \<Rightarrow> string) \<Rightarrow> learning_request \<Rightarrow> 'm learner \<Rightarrow> 'm learner \<times> learning_answer" where
  "learning_command v ml ids Learn_Status l = (l, Learner_Answer (learner_status v l))"
| "learning_command v ml ids Learn_Memory l =
     (l, Memory_Answer (length (ln_memory l), length (lost_records l), length (won_records l)) (last_n 20 (ln_memory l)))"
| "learning_command v ml ids Learn_Failures l = (l, Records_Answer (last_n 20 (lost_records l)))"
| "learning_command v ml ids Learn_Successes l = (l, Records_Answer (last_n 20 (won_records l)))"
| "learning_command v ml ids Learn_Calibration l = (l, Calibration_Answer (calibration_status (ci_log v) (ln_config l) (ln_calibration l)))"
| "learning_command v ml ids Learn_Brier l = (l, Calibration_Answer (calibration_status (ci_log v) (ln_config l) (ln_calibration l)))"
| "learning_command v ml ids Learn_Models l = (l, Versions_Answer (rg_versions (ln_registry l)))"
| "learning_command v ml ids Learn_Proposals l = (l, Proposals_Answer (ln_proposals l))"
| "learning_command v ml ids Learn_Reflect l = (case run_reflection (ml_repr ml) l of (l1, r) \<Rightarrow> (l1, Reflection_Answer r))"
| "learning_command v ml ids Learn_Retrain l = (run_retraining ml ids 42 l, Retrained_Answer)"
| "learning_command v ml ids Learn_Validate l =
     (l, Validation_Answer (champion (ln_registry l)) (calibration_status (ci_log v) (ln_config l) (ln_calibration l)))"
| "learning_command v ml ids Learn_Champion l = (l, Version_Answer (champion (ln_registry l)))"
| "learning_command v ml ids Learn_Challenger l = (l, Version_Answer (challenger (ln_registry l)))"
| "learning_command v ml ids Learn_Audit l = (l, Audit_Answer (last_n 100 (ln_audit l)))"
| "learning_command v ml ids Learn_Rollback l = (rollback_candidate ''cli_rollback'' l, Rolled_Back_Answer)"

section \<open>Dashboard commands\<close>

datatype dashboard_request = Dash_Start | Dash_Stop | Dash_Status | Dash_Open | Run_Trader bool bool

datatype dashboard_answer =
    Dash_Started start_answer
  | Dash_Stopped
  | Dash_Health bool health_answer
  | Dash_Opened browser_answer
  | Demo_Ran engine_result start_answer
  | Trader_Running start_answer engine_status

definition with_centre :: "'m dash_server \<Rightarrow> 'm centre \<Rightarrow> 'm dash_server" where
  "with_centre d c = d\<lparr>ds_centre := c\<rparr>"

text \<open>\<open>trader run\<close>: the server first, then the paper engine of the dashboard, and with \<open>--demo\<close> one demonstration cycle on the
default symbol and price.\<close>

definition run_trader ::
  "'m centre_env \<Rightarrow> server_env \<Rightarrow> string option \<Rightarrow> string \<Rightarrow> bool \<Rightarrow> bool \<Rightarrow> bool \<Rightarrow> 'm dash_server
   \<Rightarrow> 'm dash_server \<times> dashboard_answer res" where
  "run_trader ev sv stop run alive no_browser demo d =
     (case server_start sv alive (Some (\<not> no_browser)) True d of
        (d1, Inl err) \<Rightarrow> (d1, Inl err)
      | (d1, Inr a) \<Rightarrow>
          (case paper_start stop (ds_centre d1) of
             (c2, Inl err) \<Rightarrow> (with_centre d1 c2, Inl err)
           | (c2, Inr _) \<Rightarrow>
               if demo
               then (case run_paper_demo_cycle ev stop run ''BTC/USD'' (Fin 100) c2 of
                       (c3, Inl err) \<Rightarrow> (with_centre d1 c3, Inl err)
                     | (c3, Inr r) \<Rightarrow> (with_centre d1 c3, Inr (Demo_Ran r a)))
               else (case engine_status (ce_paper c2) of
                       (e, s) \<Rightarrow> (with_centre d1 (c2\<lparr>ce_paper := e\<rparr>), Inr (Trader_Running a s)))))"

fun dashboard_command ::
  "'m centre_env \<Rightarrow> server_env \<Rightarrow> string option \<Rightarrow> string \<Rightarrow> bool \<Rightarrow> dashboard_request \<Rightarrow> 'm dash_server
   \<Rightarrow> 'm dash_server \<times> dashboard_answer res" where
  "dashboard_command ev sv stop run alive Dash_Start d = answer_with Dash_Started (server_start sv alive (Some True) True d)"
| "dashboard_command ev sv stop run alive Dash_Stop d = (server_stop d, Inr Dash_Stopped)"
| "dashboard_command ev sv stop run alive Dash_Status d = (d, map_sum id (\<lambda>(b, h). Dash_Health b h) (server_status sv alive d))"
| "dashboard_command ev sv stop run alive Dash_Open d =
     (case open_dashboard_browser (sx_browser sv) (sx_failure sv) True (ds_settings d) (ds_gate d) of
        (g, a) \<Rightarrow> (d\<lparr>ds_gate := g\<rparr>, Inr (Dash_Opened a)))"
| "dashboard_command ev sv stop run alive (Run_Trader no_browser demo) d = run_trader ev sv stop run alive no_browser demo d"

section \<open>Backtest commands\<close>

text \<open>What the data providers and the backtest engine of the process give; \<open>List_Runs\<close> and \<open>Show_Report\<close> read its store.\<close>

record backtest_world =
  wd_csv :: "string \<Rightarrow> string \<Rightarrow> string \<Rightarrow> candle list res"
  wd_iso :: "int \<Rightarrow> string"
  wd_uniform :: "nat \<Rightarrow> pyfloat \<Rightarrow> pyfloat \<Rightarrow> pyfloat"
  wd_start :: int
  wd_engine :: "candle list \<Rightarrow> string \<Rightarrow> string \<Rightarrow> string \<Rightarrow> string \<Rightarrow> artifact res"
  wd_json :: "artifact \<Rightarrow> string res"
  wd_markdown :: "artifact \<Rightarrow> string res"

definition load_candles :: "backtest_world \<Rightarrow> string \<Rightarrow> string \<Rightarrow> int \<Rightarrow> string option \<Rightarrow> candle list res" where
  "load_candles w symbol timeframe bars csv =
     (if opt_truthy csv then wd_csv w (opt_default csv []) symbol timeframe
      else generate_synthetic_candles (wd_iso w) (wd_uniform w) (py_upper symbol) timeframe (nat bars) (wd_start w) (Fin 100))"

text \<open>A date of the command line has a zone or has none; candles have one, and Python compares the two kinds with an exception.\<close>

datatype date_argument = Naive int | Aware int

fun compare_date :: "(int \<Rightarrow> bool) \<Rightarrow> date_argument option \<Rightarrow> bool res" where
  "compare_date P None = Inr True"
| "compare_date P (Some (Naive t)) = Inl TypeError"
| "compare_date P (Some (Aware t)) = Inr (P t)"

fun candles_between :: "date_argument option \<Rightarrow> date_argument option \<Rightarrow> candle list \<Rightarrow> candle list res" where
  "candles_between start end_at [] = Inr []"
| "candles_between start end_at (c # cs) =
     bind_res (compare_date (\<lambda>t. t \<le> cd_time c) start) (\<lambda>late. bind_res (if late then compare_date (\<lambda>t. cd_time c \<le> t) end_at else Inr False) (\<lambda>keep.
       bind_res (candles_between start end_at cs) (\<lambda>ds. Inr (if keep then c # ds else ds))))"

text \<open>The run is stored before its reports are written.\<close>

definition backtest_command ::
  "backtest_world \<Rightarrow> string \<Rightarrow> string \<Rightarrow> string \<Rightarrow> date_argument option \<Rightarrow> date_argument option \<Rightarrow> int \<Rightarrow> string option
   \<Rightarrow> mem_store backtest_store \<Rightarrow> mem_store backtest_store \<times> artifact res" where
  "backtest_command w symbol strategy timeframe start end_at bars csv b =
     (case bind_res (load_candles w symbol timeframe bars csv) (\<lambda>cs. bind_res (candles_between start end_at cs) (\<lambda>ds.
             wd_engine w ds strategy (py_upper symbol) timeframe (if opt_truthy csv then ''csv'' else ''mock''))) of
        Inl err \<Rightarrow> (b, Inl err)
      | Inr r \<Rightarrow> (save_result mem_save r b, bind_res (wd_json w r) (\<lambda>_. bind_res (wd_markdown w r) (\<lambda>_. Inr r))))"

definition list_runs :: "'s backtest_store \<Rightarrow> run_row list" where
  "list_runs b = bs_runs b"

definition report_command :: "string \<Rightarrow> mem_store backtest_store \<Rightarrow> json" where
  "report_command sid b = tool_result mem_load sid b"

definition benchmark_command :: "backtest_world \<Rightarrow> string \<Rightarrow> string \<Rightarrow> int \<Rightarrow> (baseline \<times> baseline \<times> baseline) res" where
  "benchmark_command w symbol timeframe bars =
     bind_res (load_candles w symbol timeframe bars None) (\<lambda>cs. run_baselines cs (Fin 100000))"

text \<open>The fixture of \<open>prediction-backtest\<close>.\<close>

definition fixture_row :: "rat \<Rightarrow> rat \<Rightarrow> rat \<Rightarrow> int \<Rightarrow> json_obj" where
  "fixture_row p market confidence outcome =
     [(''model'', JStr ''ensemble''), (''weight'', JNum (Fin 1)), (''predicted_probability'', JNum (flit p)),
      (''ensemble_probability'', JNum (flit p)), (''market_probability'', JNum (flit market)), (''confidence'', JNum (flit confidence)),
      (''outcome'', JInt outcome), (''quantity'', JInt 10)]"

definition prediction_fixture :: "json_obj list" where
  "prediction_fixture = [fixture_row (62 / 100) (55 / 100) (7 / 10) 1, fixture_row (40 / 100) (48 / 100) (6 / 10) 0]"

definition prediction_command :: "forecast_lib \<Rightarrow> forecast_report res" where
  "prediction_command fl = evaluate_prediction_rows fl (flit (4 / 100)) (Fin (1 / 4)) prediction_fixture"

section \<open>A proposal as text\<close>

text \<open>\<open>d.get(k, {})\<close>, of which entries are read.\<close>

definition object_at :: "json_obj \<Rightarrow> string \<Rightarrow> json_obj res" where
  "object_at d k = (case dget d k of None \<Rightarrow> Inr [] | Some (JObj e) \<Rightarrow> Inr e | Some _ \<Rightarrow> Inl AttributeError)"

definition entry_text :: "(json \<Rightarrow> string) \<Rightarrow> json_obj \<Rightarrow> string \<Rightarrow> json \<Rightarrow> string" where
  "entry_text show d k v = text_of_json show (opt_default (dget d k) v)"

definition plan_lines :: "(json \<Rightarrow> string) \<Rightarrow> json_obj \<Rightarrow> string list" where
  "plan_lines show plan = map (\<lambda>(label, k). label @ '': '' @ entry_text show plan k JNull)
     [(''Status'', ''status''), (''Side'', ''side''), (''Entry'', ''entry_price''), (''Stop'', ''stop_loss''), (''Target'', ''take_profit''),
      (''Quantity'', ''quantity'')]"

definition proposal_lines ::
  "(json \<Rightarrow> string) \<Rightarrow> json_obj \<Rightarrow> json_obj \<Rightarrow> json_obj \<Rightarrow> json_obj \<Rightarrow> json_obj \<Rightarrow> json_obj \<Rightarrow> json_obj \<Rightarrow> json list \<Rightarrow> string list" where
  "proposal_lines show strategy models confluence consensus plan risk analysis codes =
     [''Strategy:'', entry_text show strategy ''name'' (opt_default (dget strategy ''strategy_id'') (JStr ''unknown'')),
      ''Version: '' @ entry_text show strategy ''version'' (JStr ''unknown''), [], ''Symbol:'',
      entry_text show plan ''symbol'' (opt_default (dget analysis ''symbol'') (JStr ''unknown'')), [], ''Models:'']
     @ map (\<lambda>(m, st). m @ '': '' @ text_of_json show st) models
     @ [[], ''Confluence:'', entry_text show confluence ''confirmed'' (JInt 0) @ ''/'' @ entry_text show confluence ''available'' (JInt 0)
          @ '' available models'', [], ''Consensus:'', entry_text show consensus ''decision'' (JStr ''NO_TRADE''), [], ''Trade Plan:'']
     @ plan_lines show plan
     @ [[], ''Risk:'', if get_truthy risk ''approved'' then ''APPROVED'' else ''REJECTED'', ''Reason:'',
        join_texts '', '' (map (text_of_json show) codes), [], ''TRADING MODE: PAPER'', ''REAL MONEY: DISABLED'']"

definition format_propose :: "(json \<Rightarrow> string) \<Rightarrow> string \<Rightarrow> json_obj \<Rightarrow> string res" where
  "format_propose show newline r =
     bind_res (object_at r ''strategy'') (\<lambda>strategy. bind_res (object_at r ''trade_plan'') (\<lambda>plan.
     bind_res (object_at r ''analysis'') (\<lambda>analysis. bind_res (object_or_empty r ''models'') (\<lambda>models.
     bind_res (object_at r ''confluence'') (\<lambda>confluence. bind_res (object_at r ''consensus'') (\<lambda>consensus.
     bind_res (object_at r ''risk'') (\<lambda>risk. bind_res (items_of (opt_default (dget risk ''reason_codes'') (JList []))) (\<lambda>codes.
       Inr (join_texts newline (proposal_lines show strategy models confluence consensus plan risk analysis codes))))))))))"

section \<open>The process\<close>

text \<open>The objects a process makes when a command first needs them; the others exist from the start.\<close>

record 'm trader =
  td_desk :: "desk option"
  td_runs :: "mem_store backtest_store option"
  td_learner :: "'m learner"
  td_loop :: "'m auto_loop"
  td_server :: "'m dash_server"

record 'm trader_env =
  te_cli :: cli_env
  te_ml :: "'m ml_library"
  te_ids :: "nat \<Rightarrow> string"
  te_auto :: "'m auto_lib"
  te_cycles :: "nat \<Rightarrow> cycle_env"
  te_stops :: "nat \<Rightarrow> bool \<times> bool"
  te_centre :: "'m centre_env"
  te_server :: server_env
  te_alive :: bool
  te_world :: backtest_world
  te_forecast :: forecast_lib

datatype request =
    Paper_Request paper_request
  | Learning_Request learning_request
  | Exchange_List
  | Cycle_Start int
  | Cycle_Stop
  | Cycle_Status
  | Kill_Switch_Request
  | Live_Status
  | Dashboard_Request dashboard_request
  | Backtest_Request string string string "date_argument option" "date_argument option" int "string option"
  | Backtests_Request
  | Report_Request string
  | Benchmark_Request string string int
  | Prediction_Request

datatype answer =
    Paper_Said paper_answer
  | Learning_Said learning_answer
  | Exchanges_Are "json_obj list"
  | Loop_Started bool
  | Loop_Is bool nat "cycle_result option"
  | Kill_Switch_Is kill_state
  | Live_Is_Disabled
  | Dashboard_Said dashboard_answer
  | Backtest_Done artifact
  | Runs_Are "run_row list"
  | Report_Is json
  | Baselines_Are "baseline \<times> baseline \<times> baseline"
  | Forecasts_Are forecast_report

definition desk_of :: "cli_env \<Rightarrow> desk option \<Rightarrow> desk" where
  "desk_of v d = (case d of Some x \<Rightarrow> x
     | None \<Rightarrow> (let e = new_paper_engine (ci_files v) (ci_year v) (ci_stop v) in (e, new_book (en_exchange e))))"

definition runs_of :: "mem_store backtest_store option \<Rightarrow> mem_store backtest_store" where
  "runs_of b = opt_default b (new_backtest_store mem_empty)"

definition loop_answer :: "'m auto_loop \<Rightarrow> answer" where
  "loop_answer l = Loop_Is (al_running l) (al_cycles l) (al_last l)"

text \<open>\<open>main\<close>; a loop that is never stopped does not return.\<close>

fun main_command :: "'m trader_env \<Rightarrow> request \<Rightarrow> 'm trader \<Rightarrow> ('m trader \<times> answer res) option" where
  "main_command v (Paper_Request r) t =
     (case paper_command (te_cli v) r (desk_of (te_cli v) (td_desk t)) of
        (d, a) \<Rightarrow> Some (t\<lparr>td_desk := Some d\<rparr>, map_sum id Paper_Said a))"
| "main_command v (Learning_Request r) t =
     (case learning_command (te_cli v) (te_ml v) (te_ids v) r (td_learner t) of (l, a) \<Rightarrow> Some (t\<lparr>td_learner := l\<rparr>, Inr (Learning_Said a)))"
| "main_command v Exchange_List t = Some (t, Inr (Exchanges_Are (list_exchanges (ef_settings (ci_files (te_cli v))))))"
| "main_command v (Cycle_Start n) t =
     map_option (\<lambda>(l, r). (t\<lparr>td_loop := l\<rparr>, map_sum id Loop_Started r))
       (auto_start (te_auto v) (te_cycles v) (te_stops v) (ci_stop (te_cli v)) (Some n) (td_loop t))"
| "main_command v Cycle_Stop t = Some (t\<lparr>td_loop := auto_stop (td_loop t)\<rparr>, Inr (loop_answer (auto_stop (td_loop t))))"
| "main_command v Cycle_Status t = Some (t, Inr (loop_answer (td_loop t)))"
| "main_command v Kill_Switch_Request t = Some (t, Inr (Kill_Switch_Is (ef_kill (ci_files (te_cli v)))))"
| "main_command v Live_Status t = Some (t, Inr Live_Is_Disabled)"
| "main_command v (Dashboard_Request r) t =
     (case dashboard_command (te_centre v) (te_server v) (ci_stop (te_cli v)) (ci_run_id (te_cli v)) (te_alive v) r (td_server t) of
        (d, a) \<Rightarrow> Some (t\<lparr>td_server := d\<rparr>, map_sum id Dashboard_Said a))"
| "main_command v (Backtest_Request sy strategy tf start end_at bars csv) t =
     (case backtest_command (te_world v) sy strategy tf start end_at bars csv (runs_of (td_runs t)) of
        (b, r) \<Rightarrow> Some (t\<lparr>td_runs := Some b\<rparr>, map_sum id Backtest_Done r))"
| "main_command v Backtests_Request t = Some (t\<lparr>td_runs := Some (runs_of (td_runs t))\<rparr>, Inr (Runs_Are (list_runs (runs_of (td_runs t)))))"
| "main_command v (Report_Request sid) t =
     Some (t\<lparr>td_runs := Some (runs_of (td_runs t))\<rparr>, Inr (Report_Is (report_command sid (runs_of (td_runs t)))))"
| "main_command v (Benchmark_Request sy tf bars) t =
     Some (t\<lparr>td_runs := Some (runs_of (td_runs t))\<rparr>, map_sum id Baselines_Are (benchmark_command (te_world v) sy tf bars))"
| "main_command v Prediction_Request t =
     Some (t\<lparr>td_runs := Some (runs_of (td_runs t))\<rparr>, map_sum id Forecasts_Are (prediction_command (te_forecast v)))"

section \<open>What the commands do not do\<close>

text \<open>The documented range of dates, which has no zone, raises on any candle.\<close>

lemma date_without_zone_raises: "candles_between (Some (Naive a)) end_at (c # cs) = Inl TypeError"
  by simp

text \<open>A process that has not run a backtest itself lists none and finds none: the store is in memory.\<close>

lemma fresh_process_has_no_runs:
  assumes "td_runs t = None"
  shows "map_option snd (main_command v Backtests_Request t) = Some (Inr (Runs_Are []))"
    and "map_option snd (main_command v (Report_Request sid) t)
      = Some (Inr (Report_Is (JObj [(''error'', JStr ''NOT_FOUND''), (''backtest_id'', JStr sid)])))"
  using assms by (simp_all add: runs_of_def opt_default_def list_runs_def new_backtest_store_def report_command_def tool_result_def get_run_def
      mem_load_def mem_empty_def)

text \<open>The kill switch that the command shows is the configured one; the paper engine starts with a released one.\<close>

lemma configured_kill_switch_unused:
  "map_option snd (main_command v Kill_Switch_Request t) = Some (Inr (Kill_Switch_Is (ef_kill (ci_files (te_cli v)))))"
  "\<not> ks_active (en_kill (new_paper_engine f year None))"
  by (simp_all add: new_paper_engine_def check_stop_file_def save_session_def ks_initial_def Let_def)

section \<open>A STOP file stops the command line\<close>

definition account_of :: "paper_engine \<Rightarrow> fill list \<times> trade list \<times> pyfloat" where
  "account_of e = (ex_fills (en_exchange e), ex_trades (en_exchange e), pf_cash (ex_portfolio (en_exchange e)))"

definition fresh_account :: "paper_engine \<Rightarrow> bool" where
  "fresh_account e \<longleftrightarrow> account_of e = ([], [], pf_cash (ex_portfolio (new_exchange (ec_exchange (en_config e)) None [] [])))"

definition quiet_since :: "paper_engine \<Rightarrow> paper_engine \<Rightarrow> bool" where
  "quiet_since e0 e \<longleftrightarrow> (account_of e = account_of e0 \<or> fresh_account e) \<and> sv_orders (en_store e) = sv_orders (en_store e0)
     \<and> en_config e = en_config e0"

lemma account_snapshot [simp]:
  "account_of (fst (engine_snapshot e)) = account_of e" "en_config (fst (engine_snapshot e)) = en_config e"
  "en_store (fst (engine_snapshot e)) = en_store e"
  by (simp_all add: fst_snapshot account_of_def snapshot_def mark_all_def Let_def)

lemma account_stop_file [simp]:
  "account_of (check_stop_file stop e) = account_of e" "en_config (check_stop_file stop e) = en_config e"
  "sv_orders (en_store (check_stop_file stop e)) = sv_orders (en_store e)"
  by (simp_all add: check_stop_file_def account_of_def save_event_def halt_def Paper_Exchange.emit_def Let_def split: option.split)

lemma quiet_keep:
  "quiet_since e0 e \<Longrightarrow> account_of e' = account_of e \<Longrightarrow> sv_orders (en_store e') = sv_orders (en_store e) \<Longrightarrow> en_config e' = en_config e
    \<Longrightarrow> quiet_since e0 e'"
  by (auto simp: quiet_since_def fresh_account_def)

lemma account_fields [simp]:
  "account_of (e\<lparr>en_running := r\<rparr>) = account_of e" "account_of (e\<lparr>en_session := s\<rparr>) = account_of e"
  "account_of (e\<lparr>en_kill := k\<rparr>) = account_of e" "account_of (e\<lparr>en_store := st\<rparr>) = account_of e" "account_of (save_session e) = account_of e"
  "account_of (e\<lparr>en_exchange := set_price (en_exchange e) sy px\<rparr>) = account_of e"
  by (simp_all add: account_of_def save_session_def set_price_def)

lemma start_quiet:
  "account_of (fst (engine_start stop e)) = account_of e" "sv_orders (en_store (fst (engine_start stop e))) = sv_orders (en_store e)"
  "en_config (fst (engine_start stop e)) = en_config e"
  by (simp_all add: engine_start_def Let_def)

lemma start_with_stop_file:
  assumes "engine_start (Some path) e = (e1, r)"
  shows "ks_active (en_kill e1) \<and> ex_halted (en_exchange e1)"
proof -
  let ?e = "check_stop_file (Some path) e"
  have "ks_active (en_kill ?e)" "ex_halted (en_exchange ?e)"
    by (simp_all add: check_stop_file_def ks_activate_def save_event_def halt_def Paper_Exchange.emit_def Let_def)
  then show ?thesis using assms by (auto simp: engine_start_def fst_snapshot Let_def split: if_splits)
qed

lemma stop_quiet:
  "account_of (engine_stop e) = account_of e" "sv_orders (en_store (engine_stop e)) = sv_orders (en_store e)"
  "en_config (engine_stop e) = en_config e"
  by (simp_all add: engine_stop_def save_session_def split_beta)

lemma reset_quiet: "fresh_account (engine_reset year seq e)" "sv_orders (en_store (engine_reset year seq e)) = sv_orders (en_store e)"
  "en_config (engine_reset year seq e) = en_config e"
  by (simp_all add: engine_reset_def fresh_account_def save_session_def Let_def) (simp_all add: account_of_def new_exchange_def)

lemma status_quiet: "fst (engine_status e) = fst (engine_snapshot e)"
  by (simp add: engine_status_def split_beta)

lemma halted_order_quiet:
  assumes "ex_halted ex"
  shows "ex_portfolio (fst (create_order h f ex ord px)) = ex_portfolio ex \<and> ex_fills (fst (create_order h f ex ord px)) = ex_fills ex
    \<and> ex_trades (fst (create_order h f ex ord px)) = ex_trades ex"
  using assms by (auto simp: create_order_def admit_order_def Let_def next_seq_def remember_client_def rejected_def reject_order_def store_def
      Paper_Exchange.emit_def)

lemma run_quiet:
  assumes "cli_paper_run h f half f3 (Some path) run sy px side e = (e', r)"
  shows "account_of e' = account_of e \<and> sv_orders (en_store e') = sv_orders (en_store e) \<and> en_config e' = en_config e"
proof -
  obtain e1 s where st: "engine_start (Some path) e = (e1, s)" by fastforce
  have k: "account_of e1 = account_of e" "sv_orders (en_store e1) = sv_orders (en_store e)" "en_config e1 = en_config e"
    using start_quiet [of "Some path" e] st by simp_all
  let ?px = "opt_default px (if py_upper sy \<in> set etf_symbols then Fin 100 else Fin 50000)"
  define e2 where "e2 = e1\<lparr>en_exchange := set_price (en_exchange e1) (py_upper sy) ?px\<rparr>"
  have k2: "account_of e2 = account_of e1" "sv_orders (en_store e2) = sv_orders (en_store e1)" "en_config e2 = en_config e1"
    "ks_active (en_kill e2)"
    using start_with_stop_file [OF st] by (simp_all add: e2_def)
  have out: "fst (execute_approved_plan h f half f3 (Some path) run p qx asset rs stale e2) = check_stop_file (Some path) e2" for p qx asset rs stale
    using execute_when_killed [OF k2(4), of h f half f3 "Some path" run p qx asset rs stale] by auto
  have "e' = e1 \<or> e' = e2 \<or> e' = check_stop_file (Some path) e2"
  proof (cases s)
    case (Inr x)
    then have "(e', r) = (case simple_plan (py_upper sy) side ?px
          (if opt_truthy (select_strategy e1 (py_upper sy)) then opt_default (select_strategy e1 (py_upper sy)) [] else ''multi_model_po3_vwap'') of
        Inl err \<Rightarrow> (e2, Inl err)
      | Inr p \<Rightarrow> execute_approved_plan h f half f3 (Some path) run p ?px (asset_class_value (asset_class_of (en_exchange e2) (py_upper sy))) [] False e2)"
      using assms unfolding cli_paper_run_def st Let_def e2_def by simp
    then show ?thesis using out by (auto split: sum.splits) (metis fst_conv)
  qed (use assms in \<open>simp add: cli_paper_run_def st\<close>)
  then show ?thesis using k k2 by auto
qed

lemma predict_quiet:
  assumes "cli_paper_predict h f (Some path) market px model q (e, b) = ((e', b'), r)"
  shows "account_of e' = account_of e \<and> sv_orders (en_store e') = sv_orders (en_store e) \<and> en_config e' = en_config e"
proof -
  obtain e1 s where st: "engine_start (Some path) e = (e1, s)" by fastforce
  have k: "account_of e1 = account_of e" "sv_orders (en_store e1) = sv_orders (en_store e)" "en_config e1 = en_config e"
    using start_quiet [of "Some path" e] st by simp_all
  let ?c = "cli_contract market px"
  let ?b = "register_market ?c (b\<lparr>pb_exchange := en_exchange e1\<rparr>)"
  obtain b1 x where bought: "buy_contract h f (contract_symbol ?c) q BUY_YES (Some ''prediction_market_ai'') (Some (cli_attribution model px)) ?b = (b1, x)"
    by fastforce
  have "ex_halted (pb_exchange ?b)" "account_of (e1\<lparr>en_exchange := pb_exchange ?b\<rparr>) = account_of e1"
    using start_with_stop_file [OF st] by (simp_all add: register_market_def set_price_def account_of_def Let_def)
  then have "account_of (e1\<lparr>en_exchange := pb_exchange b1\<rparr>) = account_of e1"
    using bought halted_order_quiet [of "pb_exchange ?b" h f "market_order (contract_symbol ?c) BUY_YES q (Some ''prediction_market_ai'')"]
    by (auto simp: buy_contract_def account_of_def Let_def split: option.splits prod.splits sum.splits if_splits) (metis fst_conv)+
  then show ?thesis
    using assms k bought by (cases s) (auto simp: cli_paper_predict_def st Let_def split: if_splits)
qed

definition desk_quiet :: "paper_engine \<Rightarrow> desk \<Rightarrow> bool" where
  "desk_quiet e0 d \<longleftrightarrow> quiet_since e0 (fst d)"

lemma desk_step:
  assumes "ci_stop v = Some path" and "desk_quiet e0 d"
  shows "desk_quiet e0 (fst (paper_command v r d))"
proof -
  obtain e b where d: "d = (e, b)" by fastforce
  have q: "quiet_since e0 e" using assms(2) by (simp add: desk_quiet_def d)
  note keep = quiet_keep [OF q]
  show ?thesis
  proof (cases r)
    case Start_Engine
    then show ?thesis by (simp add: desk_quiet_def answer_with_def on_engine_def d keep start_quiet)
  next
    case Reset_Engine
    let ?e = "fst (engine_status (engine_reset (ci_year v) (ci_seq v) e))"
    have "quiet_since e0 ?e"
      using q reset_quiet [of "ci_year v" "ci_seq v" e] by (simp add: quiet_since_def fresh_account_def status_quiet)
    then show ?thesis using Reset_Engine by (simp add: desk_quiet_def d split_beta)
  next
    case Restart_Engine
    then show ?thesis using q by (simp add: desk_quiet_def d safe_restart_def assms(1))
  next
    case Show_Positions
    have "account_of (e\<lparr>en_exchange := fst (get_positions (en_exchange e))\<rparr>) = account_of e"
      by (simp add: get_positions_def account_of_def snapshot_def mark_all_def Let_def)
    then show ?thesis using Show_Positions by (simp add: desk_quiet_def d keep split_beta)
  next
    case (Run_Plan symbol price side)
    then show ?thesis
      using run_quiet [OF prod.collapse [symmetric], of "ci_h16 v" "ci_f10 v" "ci_half v" "ci_f3 v" path "ci_run_id v" symbol price side e]
      by (simp add: desk_quiet_def answer_with_def on_engine_def d assms(1) keep)
  next
    case (Predict_Market market price model qty)
    obtain e' b' a where p: "cli_paper_predict (ci_h16 v) (ci_f10 v) (Some path) market price model qty (e, b) = ((e', b'), a)" by (metis surj_pair)
    from predict_quiet [OF p] show ?thesis using Predict_Market p by (simp add: desk_quiet_def answer_with_def d assms(1) keep)
  qed (use q in \<open>simp_all add: desk_quiet_def d split_beta status_quiet keep stop_quiet performance_answer_def strategy_book_report_def Let_def\<close>)
qed

definition after_requests :: "cli_env \<Rightarrow> paper_request list \<Rightarrow> desk \<Rightarrow> paper_engine" where
  "after_requests v rs d = fst (fold (\<lambda>r d. fst (paper_command v r d)) rs d)"


definition demo_cli :: cli_env where
  "demo_cli = \<lparr>ci_files = \<lparr>ef_settings = en_settings rejecting_engine, ef_config = en_config rejecting_engine,
       ef_limits = ren_limits (en_risk rejecting_engine), ef_kill = ks_initial, ef_use_okf = False, ef_okf = None,
       ef_compliance = en_compliance rejecting_engine, ef_tax = en_tax rejecting_engine, ef_max_correlation = Fin 1\<rparr>,
     ci_stop = Some ''STOP'', ci_year = 2025, ci_seq = 7, ci_run_id = ''r'', ci_uid = dec_digits, ci_h16 = id, ci_f10 = (\<lambda>_. []), ci_half = id,
     ci_f3 = (\<lambda>_. []), ci_log = id\<rparr>"


text \<open>A kill switch alone does not stop predictions: what buying a contract does to the venue does not depend on it.\<close>

lemma predictions_ignore_kill_switch:
  assumes "paper_only (en_settings e)"
  shows "snd (cli_paper_predict h f None market px model q (e\<lparr>en_kill := k\<rparr>, b)) = snd (cli_paper_predict h f None market px model q (e, b))
    \<and> ex_fills (en_exchange (fst (fst (cli_paper_predict h f None market px model q (e\<lparr>en_kill := k\<rparr>, b)))))
        = ex_fills (en_exchange (fst (fst (cli_paper_predict h f None market px model q (e, b)))))"
  using assms by (simp add: cli_paper_predict_def engine_start_def check_stop_file_def fst_snapshot Let_def split: prod.split sum.split)

end
