(* ===== verification/Tool_Server.thy ===== *)
theory Tool_Server
  imports Command_Line Okf_Loader Credentials
begin

text \<open>
  \<open>server.py\<close>: the tools a language model can call, and the surfaces behind them that are made when a tool first needs them
  (\<open>mcp_tools/production.py\<close>, \<open>mcp_tools/learning.py\<close>, \<open>mcp_tools/paper.py\<close>, \<open>mcp_tools/backtest.py\<close>), with the status report of
  \<open>okf/status.py\<close>, the health report of \<open>exchange/health.py\<close> and the record of a session (\<open>paper/session.py\<close>).  \<open>ccxt\<close>, the synthetic series, the backtest engine, configuration
  files, clocks and identifiers are arguments.  A call is the tool with its decoded arguments: two pairs of functions
  share the names \<open>get_positions\<close> and \<open>get_open_orders\<close>, and which of a pair the protocol library keeps is left open by having all four.
\<close>

section \<open>Public prices\<close>

record spot_price =
  sq_exchange :: string
  sq_symbol :: "string option"
  sq_last :: "pyfloat option"
  sq_bid :: "pyfloat option"
  sq_ask :: "pyfloat option"
  sq_volume :: "pyfloat option"

definition ccxt_exchange :: "ccxt \<Rightarrow> string \<Rightarrow> string res" where
  "ccxt_exchange cx name = (if cx_supported cx (py_lower name) then Inr (py_lower name)
     else Inl (ValueError (''Unsupported exchange: '' @ name)))"

definition get_spot_price :: "ccxt \<Rightarrow> string \<Rightarrow> string \<Rightarrow> spot_price res" where
  "get_spot_price cx symbol name = bind_res (ccxt_exchange cx name) (\<lambda>ex.
     case cx_ticker cx ex (py_upper symbol) of
       Inl msg \<Rightarrow> Inl (ValueError (''Could not fetch '' @ py_upper symbol @ '' from '' @ name @ '': '' @ msg))
     | Inr t \<Rightarrow> Inr \<lparr>sq_exchange = py_lower name, sq_symbol = rw_symbol t, sq_last = rw_last t, sq_bid = rw_bid t, sq_ask = rw_ask t,
                    sq_volume = rw_volume t\<rparr>)"

section \<open>Status of the exchanges\<close>

definition health_status :: "settings \<Rightarrow> string \<Rightarrow> venue \<Rightarrow> json_obj" where
  "health_status se name ad =
     [(''exchange'', JStr name), (''ok'', JBool (ve_ok ad)),
      (''last_error'', case ve_last_error ad of None \<Rightarrow> JNull | Some m \<Rightarrow> JStr m), (''TRADING_MODE'', JStr (se_trading_mode se)),
      (''LIVE_TRADING_ENABLED'', JBool (se_live_enabled se)),
      (''live_orders_allowed'', JBool (se_trading_mode se = ''live'' \<and> se_live_enabled se))]"

text \<open>The adapters say that live trading is off whatever the settings say.\<close>

definition venue_status :: "settings \<Rightarrow> string \<Rightarrow> venue \<Rightarrow> json_obj" where
  "venue_status se name ad =
     dput ''LIVE_TRADING_ENABLED'' (JBool False)
       (health_status se name ad @ [(''environment'', JStr (environment_value (ve_environment ad))), (''has_api_key'', JBool (ve_api_key ad \<noteq> []))])"

fun adapter_status :: "settings \<Rightarrow> string \<Rightarrow> string \<Rightarrow> adapter \<Rightarrow> json_obj" where
  "adapter_status se ck dk Paper_Adapter = base_status ''paper'' False"
| "adapter_status se ck dk Mock_Adapter = base_status ''mock'' False"
| "adapter_status se ck dk Coinbase_Adapter = venue_status se ''coinbase'' (new_venue MOCK ck [] False)"
| "adapter_status se ck dk Delta_Adapter = venue_status se ''delta_india'' (new_venue MOCK dk [] False)"
| "adapter_status se ck dk Polymarket_Adapter = base_status ''polymarket'' True"
| "adapter_status se ck dk Kalshi_Adapter = base_status ''kalshi'' True"

definition get_exchange_status :: "settings \<Rightarrow> string \<Rightarrow> string \<Rightarrow> string \<Rightarrow> json_obj res" where
  "get_exchange_status se ck dk name =
     bind_res (create_exchange se False (name = ''coinbase'' \<or> name = ''delta_india'') (Some name)) (\<lambda>a. Inr (adapter_status se ck dk a))"

definition get_execution_status :: "settings \<Rightarrow> string \<Rightarrow> string \<Rightarrow> json_obj" where
  "get_execution_status se ck dk =
     [(''Live Execution'', JStr ''DISABLED''), (''LIVE_TRADING_ENABLED'', JBool False), (''TRADING_MODE'', JStr ''paper''),
      (''adapters'', JList (map JObj (list_exchanges se))), (''coinbase'', JObj (adapter_status se ck dk Coinbase_Adapter)),
      (''delta_india'', JObj (adapter_status se ck dk Delta_Adapter))]"

section \<open>Status of the guidelines\<close>

record okf_report =
  kr_version :: json
  kr_hash :: string
  kr_bundle :: json
  kr_executable :: bool
  kr_status :: json
  kr_resolved :: okf_resolved
  kr_reference :: okf_reference
  kr_xgboost :: bool
  kr_production_trading :: bool
  kr_hierarchy :: "string list"
  kr_live :: bool

definition okf_hierarchy :: "string list" where
  "okf_hierarchy = [''HARD_SYSTEM_SAFETY'', ''LIVE_TRADING_STAGE_GATES'', ''KILL_SWITCH'', ''EXCHANGE_VALIDATION'', ''RECONCILIATION'',
     ''DETERMINISTIC_RISK_ENGINE'', ''OKF_STRATEGY_CONSTRAINTS'', ''AGENT_LLM_PROPOSAL'', ''TRADE_PLAN'', ''EXECUTION_POLICY'']"

definition okf_diagnostics :: "okf_lib \<Rightarrow> json res \<Rightarrow> string \<Rightarrow> risk_limits \<Rightarrow> bool \<Rightarrow> okf_report res" where
  "okf_diagnostics lib file digest sys xgboost =
     bind_res (load_and_validate_okf lib file digest) (\<lambda>ol. bind_res (resolve_loaded lib ol sys) (\<lambda>(r, f).
     bind_res (bind_res (item (ol_data ol) ''okf_specification'') as_object) (\<lambda>spec.
       Inr \<lparr>kr_version = ol_version ol, kr_hash = ol_hash ol, kr_bundle = ol_bundle ol, kr_executable = False,
            kr_status = opt_default (dget spec ''status'') JNull, kr_resolved = r, kr_reference = f, kr_xgboost = xgboost,
            kr_production_trading = False, kr_hierarchy = okf_hierarchy, kr_live = False\<rparr>)))"

definition okf_paper_metadata :: "okf_lib \<Rightarrow> json res \<Rightarrow> string \<Rightarrow> risk_limits \<Rightarrow> bool \<Rightarrow> json_obj res" where
  "okf_paper_metadata lib file digest sys xgboost = bind_res (okf_diagnostics lib file digest sys xgboost) (\<lambda>d.
     Inr [(''okf_version'', kr_version d), (''okf_hash'', JStr (kr_hash d)), (''okf_bundle'', kr_bundle d), (''okf_executable'', JBool False)])"

text \<open>\<open>PaperSession.to_dict\<close>: the record of a session names the guidelines in force, or none when they cannot be read.\<close>

fun session_status_value :: "session_status \<Rightarrow> string" where
  "session_status_value ACTIVE = ''ACTIVE''"
| "session_status_value STOPPED = ''STOPPED''"
| "session_status_value session_status.COMPLETED = ''COMPLETED''"
| "session_status_value KILLED = ''KILLED''"

definition session_to_dict :: "string \<Rightarrow> string option \<Rightarrow> json_obj res \<Rightarrow> paper_session \<Rightarrow> json_obj" where
  "session_to_dict started ended metadata s =
     foldl (\<lambda>d (k, v). dput k v d)
       [(''session_id'', JStr (ss_session_id s)), (''started_at'', JStr started),
        (''ended_at'', case ended of None \<Rightarrow> JNull | Some x \<Rightarrow> JStr x), (''starting_capital'', JNum (ss_starting_capital s)),
        (''ending_equity'', case ss_ending_equity s of None \<Rightarrow> JNull | Some x \<Rightarrow> JNum x), (''mode'', JStr ''PAPER''),
        (''strategy_versions'', JObj (map (\<lambda>(k, v). (k, JStr v)) (ss_strategy_versions s))), (''config_hash'', JStr (ss_config_hash s)),
        (''status'', JStr (session_status_value (ss_status s))), (''REAL_MONEY'', JStr ''DISABLED''), (''TRADING_MODE'', JStr ''PAPER'')]
       (case metadata of Inr m \<Rightarrow> m | Inl _ \<Rightarrow> [(''okf_version'', JNull), (''okf_hash'', JNull)])"

section \<open>The process\<close>

record ('m, 'w) tool_env =
  tv_cli :: cli_env
  tv_ml :: "'m ml_library"
  tv_ids :: "nat \<Rightarrow> string"
  tv_auto :: "'m auto_lib"
  tv_cycles :: "nat \<Rightarrow> cycle_env"
  tv_stops :: "nat \<Rightarrow> bool \<times> bool"
  tv_learning :: learning_config
  tv_remembered :: "learning_record list"
  tv_loop_config :: auto_config
  tv_disk :: "disk_state option"
  tv_max_age :: pyfloat
  tv_cache_ttl :: pyfloat
  tv_stale_blocks :: bool
  tv_mock :: mock_market
  tv_now :: int
  tv_ccxt :: ccxt
  tv_coinbase_key :: string
  tv_delta_key :: string
  tv_series :: "string \<Rightarrow> string \<Rightarrow> int \<Rightarrow> candle list res"
  tv_engine :: "candle list \<Rightarrow> string \<Rightarrow> string \<Rightarrow> string \<Rightarrow> artifact res"
  tv_write :: "artifact \<Rightarrow> string res"
  tv_walk_forward :: "candle list \<Rightarrow> string \<Rightarrow> string \<Rightarrow> string \<Rightarrow> 'w res"
  tv_forecast :: forecast_lib
  tv_parse :: "string \<Rightarrow> pyfloat option"
  tv_memory_id :: string
  tv_okf_lib :: okf_lib
  tv_okf_file :: "json res"
  tv_okf_digest :: string
  tv_xgboost :: bool

text \<open>The four surfaces, each made by the first tool that needs it; the learning engine is one object of the process, which the loop shares.\<close>

record 'm tool_server =
  ts_paper :: "paper_engine option"
  ts_runs :: "mem_store backtest_store option"
  ts_learner :: "'m learner option"
  ts_production :: "(gateway \<times> 'm auto_loop) option"

definition new_tool_server :: "'m tool_server" where
  "new_tool_server = \<lparr>ts_paper = None, ts_runs = None, ts_learner = None, ts_production = None\<rparr>"

definition tool_settings :: "('m, 'w) tool_env \<Rightarrow> settings" where
  "tool_settings v = ef_settings (ci_files (tv_cli v))"

definition fresh_engine :: "('m, 'w) tool_env \<Rightarrow> paper_engine" where
  "fresh_engine v = new_paper_engine (ci_files (tv_cli v)) (ci_year (tv_cli v)) (ci_stop (tv_cli v))"

definition tool_gateway :: "('m, 'w) tool_env \<Rightarrow> gateway" where
  "tool_gateway v = new_gateway (tv_max_age v) (tv_cache_ttl v) (tv_stale_blocks v)"

text \<open>\<open>AutonomousPaperLoop()\<close> has an engine and a gateway of its own.\<close>

definition new_auto_loop :: "('m, 'w) tool_env \<Rightarrow> 'm learner \<Rightarrow> 'm auto_loop" where
  "new_auto_loop v l = load_state \<lparr>al_config = tv_loop_config v, al_settings = tool_settings v, al_paper = fresh_engine v,
     al_gateway = tool_gateway v, al_learner = l, al_running = False, al_cycles = 0, al_last = None, al_seen = [], al_disk = tv_disk v\<rparr>"

definition get_learning_engine :: "('m, 'w) tool_env \<Rightarrow> 'm tool_server \<Rightarrow> 'm learner res" where
  "get_learning_engine v s = (case ts_learner s of Some l \<Rightarrow> Inr l | None \<Rightarrow> new_learner (tv_learning v) (tv_remembered v))"

text \<open>The combinators that reach a surface: a tool on the paper engine, on the store of runs, on the learning engine and on the
production surface, whose loop works on the shared learning engine.\<close>

definition on_paper :: "('m, 'w) tool_env \<Rightarrow> (paper_engine \<Rightarrow> paper_engine \<times> 'a res) \<Rightarrow> 'm tool_server \<Rightarrow> 'm tool_server \<times> 'a res" where
  "on_paper v f s = (case f (opt_default (ts_paper s) (fresh_engine v)) of (e, r) \<Rightarrow> (s\<lparr>ts_paper := Some e\<rparr>, r))"

definition on_runs ::
  "(mem_store backtest_store \<Rightarrow> mem_store backtest_store \<times> 'a res) \<Rightarrow> 'm tool_server \<Rightarrow> 'm tool_server \<times> 'a res" where
  "on_runs f s = (case f (runs_of (ts_runs s)) of (b, r) \<Rightarrow> (s\<lparr>ts_runs := Some b\<rparr>, r))"

definition on_learner :: "('m, 'w) tool_env \<Rightarrow> ('m learner \<Rightarrow> 'm learner \<times> 'a res) \<Rightarrow> 'm tool_server \<Rightarrow> 'm tool_server \<times> 'a res" where
  "on_learner v f s = (case get_learning_engine v s of
     Inl err \<Rightarrow> (s, Inl err)
   | Inr l \<Rightarrow> (case f l of (l1, r) \<Rightarrow> (s\<lparr>ts_learner := Some l1\<rparr>, r)))"

definition on_production ::
  "('m, 'w) tool_env \<Rightarrow> (gateway \<times> 'm auto_loop \<Rightarrow> ((gateway \<times> 'm auto_loop) \<times> 'a res) option) \<Rightarrow> 'm tool_server
   \<Rightarrow> ('m tool_server \<times> 'a res) option" where
  "on_production v f s = (case get_learning_engine v s of
     Inl err \<Rightarrow> Some (s, Inl err)
   | Inr l \<Rightarrow>
       (let (g, lp) = opt_default (ts_production s) (tool_gateway v, new_auto_loop v l)
        in map_option (\<lambda>((g1, lp1), r). (s\<lparr>ts_learner := Some (al_learner lp1), ts_production := Some (g1, lp1)\<rparr>, r))
             (f (g, lp\<lparr>al_learner := l\<rparr>))))"

section \<open>Tools\<close>

datatype paper_tool =
    Get_Portfolio
  | Get_Positions
  | Get_Open_Orders
  | Get_Trade_Status string
  | Get_Performance
  | Propose_Trade json_obj
  | Validate_Trade
  | Get_Paper_Status
  | Get_Paper_Trades
  | Reset_Paper_Account

datatype learning_tool =
    Get_Learning_Status
  | Get_Learning_Memory
  | Search_Learning_Memory features
  | Get_Trade_Postmortem "string option"
  | Get_Failure_Patterns
  | Get_Success_Patterns
  | Get_Calibration
  | Get_Model_Status
  | Get_Model_Versions
  | Get_Learning_Proposals
  | Get_Champion
  | Get_Challenger
  | Run_Postmortem json_obj
  | Run_Reflection
  | Run_Retraining
  | Run_Learning_Validation "string option"
  | Get_Learning_Audit int
  | Rollback_Learning string

datatype production_tool =
    Get_Market_Status
  | Get_Exchange_Status string
  | Get_Market_Data string
  | Get_Order_Book
  | Get_Account string
  | Get_Exchange_Positions string
  | Get_Exchange_Orders string
  | Start_Paper_Cycle int
  | Stop_Paper_Cycle
  | Get_Cycle_Status
  | Get_Execution_Status

datatype tool =
    Get_Spot_Price string string
  | Estimate_Swap pyfloat pyfloat pyfloat pyfloat pyfloat pyfloat
  | Paper_Execute "trade_plan res" string pyfloat
  | Run_Paper_Trade "trade_plan res" string pyfloat
  | Run_Backtest string string string int
  | Run_Walk_Forward string string string int
  | Get_Backtest_Result string
  | Compare_Backtests "string list"
  | Run_Benchmark string string int
  | Run_Prediction_Backtest "json_obj list"
  | Paper_Tool paper_tool
  | Learning_Tool learning_tool
  | Production_Tool production_tool
  | Get_Okf_Status

text \<open>The report of the gateway; that of its feed, which no tool starts, is left out.\<close>

record gateway_view =
  gq_health :: market_health
  gq_ok :: bool
  gq_stale_blocks :: bool

datatype paper_view =
    Portfolio_View portfolio_snapshot
  | Positions_View "position list"
  | Orders_View "order list"
  | Order_View order
  | Figures_View performance
  | Proposed_View json_obj
  | Verdict_View "bool \<times> string"
  | Engine_View engine_status
  | Trades_View "trade list"

datatype learning_view =
    Learner_View learner_status
  | Memory_View "nat \<times> nat \<times> nat" "learning_record list"
  | Context_View "learning_context option"
  | Post_Mortem_View "string + post_mortem option"
  | Patterns_View "(string \<times> nat) list" nat
  | Calibration_View calibration_status
  | Models_View "model_version option" "model_version option"
  | Versions_View "model_version list"
  | Proposals_View "learning_proposal list"
  | Version_View "model_version option"
  | Closed_View
  | Reflection_View "reflection option"
  | Retrained_View
  | Proposal_Verdict_View "bool option"
  | Champion_View "model_version option" calibration_status
  | Audit_View "(string \<times> string option) list"
  | Rolled_Back_View

datatype production_view =
    Gateway_View gateway_view
  | Status_View json_obj
  | Snapshot_View market_snapshot
  | Book_View market_book
  | Account_View pyfloat
  | Held_View "position list"
  | Open_View "order list"
  | Loop_View bool nat "cycle_result option"
  | Started_View bool

datatype 'w tool_answer =
    Spot_View spot_price
  | Swap_View swap_estimate
  | Execution_View engine_result
  | Summary_View json_obj
  | Folds_View 'w
  | Stored_View json
  | Comparison_View "json_obj list"
  | Baselines_View "baseline \<times> baseline \<times> baseline"
  | Forecast_View forecast_report
  | Paper_View paper_view
  | Learning_View learning_view
  | Production_View production_view
  | Okf_View okf_report

text \<open>The guard of \<open>server.py\<close> and the surface with the plan and price of the call.\<close>

definition execute_tool ::
  "('m, 'w) tool_env \<Rightarrow> trade_plan res \<Rightarrow> string \<Rightarrow> pyfloat \<Rightarrow> 'm tool_server \<Rightarrow> 'm tool_server \<times> engine_result res" where
  "execute_tool v plan asset price s =
     (let c = tv_cli v; se = tool_settings v
      in if \<not> paper_only se then (s, snd (server_execute_trade (ci_h16 c) (ci_f10 c) (ci_half c) (ci_f3 c) (ci_stop c) (ci_run_id c) se plan asset price
               (fresh_engine v)))
         else on_paper v (server_execute_trade (ci_h16 c) (ci_f10 c) (ci_half c) (ci_f3 c) (ci_stop c) (ci_run_id c) se plan asset price) s)"

definition backtest_tool :: "('m, 'w) tool_env \<Rightarrow> string \<Rightarrow> string \<Rightarrow> string \<Rightarrow> int \<Rightarrow> mem_store backtest_store \<Rightarrow> mem_store backtest_store \<times> json_obj res" where
  "backtest_tool v symbol strategy timeframe bars b =
     tool_run_backtest (tool_settings v) (\<lambda>sy. tv_series v sy timeframe bars) (\<lambda>cs sy. tv_engine v cs strategy sy timeframe) (tv_write v) mem_save symbol b"

definition walk_forward_tool :: "('m, 'w) tool_env \<Rightarrow> string \<Rightarrow> string \<Rightarrow> string \<Rightarrow> int \<Rightarrow> 'w res" where
  "walk_forward_tool v symbol strategy timeframe bars =
     bind_res (assert_paper_tools (tool_settings v)) (\<lambda>_. bind_res (tv_series v (py_upper symbol) timeframe bars) (\<lambda>cs.
       tv_walk_forward v cs strategy (py_upper symbol) timeframe))"

definition default_forecast :: "json_obj list" where
  "default_forecast = [[(''predicted_probability'', JNum (flit (62 / 100))), (''ensemble_probability'', JNum (flit (62 / 100))),
     (''market_probability'', JNum (flit (55 / 100))), (''outcome'', JInt 1), (''quantity'', JInt 10), (''model'', JStr ''ensemble''),
     (''weight'', JNum (Fin 1)), (''confidence'', JNum (flit (7 / 10)))]]"

definition prediction_tool :: "('m, 'w) tool_env \<Rightarrow> json_obj list \<Rightarrow> forecast_report res" where
  "prediction_tool v rs = bind_res (assert_paper_tools (tool_settings v)) (\<lambda>_.
     evaluate_prediction_rows (tv_forecast v) (flit (4 / 100)) (Fin (1 / 4)) (if rs = [] then default_forecast else rs))"

definition memory_of :: "'m learner \<Rightarrow> learning_memory" where
  "memory_of l = \<lparr>lm_enabled = lc_memory_enabled (ln_config l), lm_records = ln_memory l, lm_events = None, lm_file = Missing\<rparr>"

definition postmortem_tool :: "('m, 'w) tool_env \<Rightarrow> json_obj \<Rightarrow> 'm learner \<Rightarrow> 'm learner \<times> unit res" where
  "postmortem_tool v d l = (case record_of_dict (tv_parse v) (tv_memory_id v) d of
     None \<Rightarrow> (l, Inl (ValueError ''TradeLearningRecord''))
   | Some r \<Rightarrow> (on_trade_close (tv_ml v) (tv_ids v) r l, Inr ()))"

definition gateway_status :: "gateway \<Rightarrow> gateway_view" where
  "gateway_status g = \<lparr>gq_health = gw_health g, gq_ok = (mh_last_error (gw_health g) = None), gq_stale_blocks = gw_stale_blocks g\<rparr>"

text \<open>The account tools of the production surface look at an exchange made for the call.\<close>

definition shown_exchange :: "('m, 'w) tool_env \<Rightarrow> string \<Rightarrow> exchange res" where
  "shown_exchange v name =
     bind_res (create_exchange (tool_settings v) False False (Some (if name = ''paper'' \<or> name = ''mock'' then name else ''paper'')))
       (\<lambda>_. Inr (new_exchange (ec_exchange (ef_config (ci_files (tv_cli v)))) None [] []))"

definition market_data_tool :: "('m, 'w) tool_env \<Rightarrow> string \<Rightarrow> gateway \<Rightarrow> gateway \<times> market_snapshot res" where
  "market_data_tool v symbol g = gateway_snapshot (tv_now v) (Inr (mock_snapshot (tv_now v) (tv_now v) (tv_mock v) symbol ''1h'' 120 None)) g"

section \<open>Calls\<close>

text \<open>A tool that only reads answers from the state of its surface.\<close>

definition answered :: "('a \<Rightarrow> 'b) \<Rightarrow> 's \<times> 'a res \<Rightarrow> ('s \<times> 'b res) option" where
  "answered f x = Some (answer_with f x)"

definition reads :: "('s \<Rightarrow> 'a) \<Rightarrow> 's \<Rightarrow> 's \<times> 'a res" where
  "reads f s = (s, Inr (f s))"

definition loop_view :: "'m auto_loop \<Rightarrow> production_view" where
  "loop_view l = Loop_View (al_running l) (al_cycles l) (al_last l)"

definition paper_call :: "('m, 'w) tool_env \<Rightarrow> paper_tool \<Rightarrow> paper_engine \<Rightarrow> paper_engine \<times> paper_view res" where
  "paper_call v t e = (let c = tv_cli v in case t of
     Get_Portfolio \<Rightarrow> (case engine_snapshot e of (e1, sn) \<Rightarrow> (e1, Inr (Portfolio_View sn)))
   | Get_Positions \<Rightarrow> (case get_positions (en_exchange e) of (ex, ps) \<Rightarrow> (e\<lparr>en_exchange := ex\<rparr>, Inr (Positions_View ps)))
   | Get_Open_Orders \<Rightarrow> (e, Inr (Orders_View (paper_orders_tool e)))
   | Get_Trade_Status k \<Rightarrow> (e, map_sum id Order_View (trade_status_tool k e))
   | Get_Performance \<Rightarrow> (e, Inr (Figures_View (trade_figures c (ex_trades (en_exchange e)))))
   | Propose_Trade p \<Rightarrow> (e, Inr (Proposed_View (propose_trade_tool p)))
   | Validate_Trade \<Rightarrow> (e, Inr (Verdict_View (validate_trade_tool (tool_settings v))))
   | Get_Paper_Trades \<Rightarrow> (e, Inr (Trades_View (ex_trades (en_exchange e))))
   | Reset_Paper_Account \<Rightarrow> (case engine_status (engine_reset (ci_year c) (ci_seq c) e) of (e1, q) \<Rightarrow> (e1, Inr (Engine_View q)))
   | Get_Paper_Status \<Rightarrow> (case engine_status e of (e1, q) \<Rightarrow> (e1, Inr (Engine_View q))))"

definition learner_call :: "('m, 'w) tool_env \<Rightarrow> learning_tool \<Rightarrow> 'm learner \<Rightarrow> 'm learner \<times> learning_view res" where
  "learner_call v t l = (let c = tv_cli v; g = ln_registry l in case t of
     Get_Learning_Memory \<Rightarrow> (l, Inr (Memory_View (length (ln_memory l), length (lost_records l), length (won_records l)) (last_n 50 (ln_memory l))))
   | Search_Learning_Memory fs \<Rightarrow> (case learning_context_for (ci_half c) (ci_half c) [] fs l of (l1, x) \<Rightarrow> (l1, Inr (Context_View x)))
   | Get_Trade_Postmortem k \<Rightarrow> (l, Inr (Post_Mortem_View (trade_postmortem k l)))
   | Get_Failure_Patterns \<Rightarrow> (l, Inr (case failure_patterns (memory_of l) of (d, n) \<Rightarrow> Patterns_View d n))
   | Get_Success_Patterns \<Rightarrow> (l, Inr (case success_patterns (memory_of l) of (d, n) \<Rightarrow> Patterns_View d n))
   | Get_Calibration \<Rightarrow> (l, Inr (Calibration_View (calibration_status (ci_log c) (ln_config l) (ln_calibration l))))
   | Get_Model_Status \<Rightarrow> (l, Inr (Models_View (champion g) (challenger g)))
   | Get_Model_Versions \<Rightarrow> (l, Inr (Versions_View (rg_versions g)))
   | Get_Learning_Proposals \<Rightarrow> (l, Inr (Proposals_View (ln_proposals l)))
   | Get_Champion \<Rightarrow> (l, Inr (Version_View (champion g)))
   | Get_Challenger \<Rightarrow> (l, Inr (Version_View (challenger g)))
   | Run_Postmortem d \<Rightarrow> (case postmortem_tool v d l of (l1, r) \<Rightarrow> (l1, map_sum id (\<lambda>_. Closed_View) r))
   | Run_Reflection \<Rightarrow> (case run_reflection (ml_repr (tv_ml v)) l of (l1, r) \<Rightarrow> (l1, Inr (Reflection_View r)))
   | Run_Retraining \<Rightarrow> (run_retraining (tv_ml v) (tv_ids v) 42 l, Inr Retrained_View)
   | Run_Learning_Validation k \<Rightarrow>
       (if opt_truthy k then (case validate_learning (opt_default k []) l of (l1, r) \<Rightarrow> (l1, Inr (Proposal_Verdict_View r)))
        else (l, Inr (Champion_View (champion g) (calibration_status (ci_log c) (ln_config l) (ln_calibration l)))))
   | Get_Learning_Audit n \<Rightarrow> (l, Inr (Audit_View (last_items n (ln_audit l))))
   | Rollback_Learning reason \<Rightarrow> (rollback_candidate reason l, Inr Rolled_Back_View)
   | Get_Learning_Status \<Rightarrow> (l, Inr (Learner_View (learner_status c l))))"

text \<open>The production surface; a cycle without end does not return.\<close>

definition production_call ::
  "('m, 'w) tool_env \<Rightarrow> production_tool \<Rightarrow> gateway \<times> 'm auto_loop \<Rightarrow> ((gateway \<times> 'm auto_loop) \<times> production_view res) option" where
  "production_call v t st = (case st of (g, lp) \<Rightarrow> let se = tool_settings v in case t of
     Get_Market_Status \<Rightarrow> Some ((g, lp), Inr (Gateway_View (gateway_status g)))
   | Get_Exchange_Status name \<Rightarrow>
       Some ((g, lp), map_sum id Status_View (get_exchange_status se (tv_coinbase_key v) (tv_delta_key v) name))
   | Get_Market_Data sy \<Rightarrow> (case market_data_tool v sy g of (g1, r) \<Rightarrow> Some ((g1, lp), map_sum id Snapshot_View r))
   | Get_Order_Book \<Rightarrow> Some ((g, lp), map_sum id Book_View (mock_orderbook (tv_mock v)))
   | Get_Account name \<Rightarrow> Some ((g, lp), bind_res (shown_exchange v name) (\<lambda>ex. Inr (Account_View (snd (get_balance ex)))))
   | Get_Exchange_Positions name \<Rightarrow> Some ((g, lp), bind_res (shown_exchange v name) (\<lambda>ex. Inr (Held_View (snd (get_positions ex)))))
   | Get_Exchange_Orders name \<Rightarrow> Some ((g, lp), bind_res (shown_exchange v name) (\<lambda>ex. Inr (Open_View (map snd (get_open_orders ex None)))))
   | Start_Paper_Cycle n \<Rightarrow> map_option (\<lambda>(lp1, r). ((g, lp1), map_sum id Started_View r))
       (auto_start (tv_auto v) (tv_cycles v) (tv_stops v) (ci_stop (tv_cli v)) (Some n) lp)
   | Stop_Paper_Cycle \<Rightarrow> Some ((g, auto_stop lp), Inr (loop_view (auto_stop lp)))
   | Get_Execution_Status \<Rightarrow> Some ((g, lp), Inr (Status_View (get_execution_status se (tv_coinbase_key v) (tv_delta_key v))))
   | Get_Cycle_Status \<Rightarrow> Some ((g, lp), Inr (loop_view lp)))"

definition call_tool :: "('m, 'w) tool_env \<Rightarrow> tool \<Rightarrow> 'm tool_server \<Rightarrow> ('m tool_server \<times> 'w tool_answer res) option" where
  "call_tool v t s = (case t of
     Get_Spot_Price sy name \<Rightarrow> Some (s, map_sum id Spot_View (get_spot_price (tv_ccxt v) sy name))
   | Estimate_Swap a b c d e f \<Rightarrow> Some (s, map_sum id Swap_View (estimate_swap_profit a b c d e f))
   | Paper_Execute p asset price \<Rightarrow> answered Execution_View (execute_tool v p asset price s)
   | Run_Paper_Trade p asset price \<Rightarrow> answered Execution_View (execute_tool v p asset price s)
   | Run_Backtest sy strategy tf n \<Rightarrow> answered Summary_View (on_runs (backtest_tool v sy strategy tf n) s)
   | Run_Walk_Forward sy strategy tf n \<Rightarrow> answered Folds_View (on_runs (\<lambda>b. (b, walk_forward_tool v sy strategy tf n)) s)
   | Get_Backtest_Result sid \<Rightarrow> answered Stored_View (on_runs (reads (tool_result mem_load sid)) s)
   | Compare_Backtests sids \<Rightarrow> answered Comparison_View (on_runs (\<lambda>b. (b, compare_backtests (\<lambda>sid. get_run mem_load sid b) sids)) s)
   | Run_Benchmark sy tf n \<Rightarrow> answered Baselines_View (on_runs (\<lambda>b. (b, tool_run_benchmark (tool_settings v) (\<lambda>x. tv_series v x tf n) sy)) s)
   | Run_Prediction_Backtest rs \<Rightarrow> answered Forecast_View (on_runs (\<lambda>b. (b, prediction_tool v rs)) s)
   | Get_Okf_Status \<Rightarrow> Some (s, map_sum id Okf_View
       (okf_diagnostics (tv_okf_lib v) (tv_okf_file v) (tv_okf_digest v) (ef_limits (ci_files (tv_cli v))) (tv_xgboost v)))
   | Paper_Tool p \<Rightarrow> answered Paper_View (on_paper v (paper_call v p) s)
   | Learning_Tool p \<Rightarrow> answered Learning_View (on_learner v (learner_call v p) s)
   | Production_Tool p \<Rightarrow> map_option (answer_with Production_View) (on_production v (production_call v p) s))"

fun call_tools :: "('m, 'w) tool_env \<Rightarrow> tool list \<Rightarrow> 'm tool_server \<Rightarrow> 'm tool_server option" where
  "call_tools v [] s = Some s"
| "call_tools v (t # ts) s = (case call_tool v t s of None \<Rightarrow> None | Some (s1, _) \<Rightarrow> call_tools v ts s1)"

section \<open>What the tools can do to the accounts\<close>

text \<open>The two accounts of the process, as they are or as they will be made.\<close>

definition paper_account :: "('m, 'w) tool_env \<Rightarrow> 'm tool_server \<Rightarrow> fill list \<times> trade list \<times> pyfloat" where
  "paper_account v s = account_of (opt_default (ts_paper s) (fresh_engine v))"

definition loop_account :: "('m, 'w) tool_env \<Rightarrow> 'm tool_server \<Rightarrow> fill list \<times> trade list \<times> pyfloat" where
  "loop_account v s = account_of (case ts_production s of None \<Rightarrow> fresh_engine v | Some (g, lp) \<Rightarrow> al_paper lp)"

fun trading_tool :: "settings \<Rightarrow> tool \<Rightarrow> bool" where
  "trading_tool se (Paper_Execute p asset price) \<longleftrightarrow> paper_only se"
| "trading_tool se (Run_Paper_Trade p asset price) \<longleftrightarrow> paper_only se"
| "trading_tool se (Paper_Tool p) \<longleftrightarrow> p = Reset_Paper_Account"
| "trading_tool se (Production_Tool p) \<longleftrightarrow> (\<exists>n. p = Start_Paper_Cycle n) \<and> paper_only se"
| "trading_tool se _ \<longleftrightarrow> False"

definition loop_settings :: "('m, 'w) tool_env \<Rightarrow> 'm tool_server \<Rightarrow> bool" where
  "loop_settings v s \<longleftrightarrow> (case ts_production s of None \<Rightarrow> True | Some (g, lp) \<Rightarrow> paper_only (tool_settings v) \<or> al_settings lp = tool_settings v)"

lemma loop_fields [simp]:
  "al_paper (load_state l) = al_paper l" "al_settings (load_state l) = al_settings l"
  "al_paper (auto_stop l) = al_paper l" "al_settings (auto_stop l) = al_settings l"
  by (simp_all add: load_state_def auto_stop_def finish_loop_def persist_state_def split: option.split)

lemma new_loop_fields [simp]: "al_paper (new_auto_loop v l) = fresh_engine v" "al_settings (new_auto_loop v l) = tool_settings v"
  by (simp_all add: new_auto_loop_def)

lemma start_outside_paper: "\<not> paper_only (al_settings l) \<Longrightarrow> \<exists>err. auto_start lib envs stops stop n l = Some (l, Inl err)"
  by (simp add: auto_start_def assert_paper_only_def)

lemma on_paper_others [simp]:
  "ts_production (fst (on_paper v f s)) = ts_production s" "ts_paper (fst (on_paper v f s)) = Some (fst (f (opt_default (ts_paper s) (fresh_engine v))))"
  by (simp_all add: on_paper_def split_beta)

lemma on_runs_others [simp]: "ts_production (fst (on_runs f s)) = ts_production s" "ts_paper (fst (on_runs f s)) = ts_paper s"
  by (simp_all add: on_runs_def split_beta)

lemma on_learner_others [simp]:
  "ts_production (fst (on_learner v f s)) = ts_production s" "ts_paper (fst (on_learner v f s)) = ts_paper s"
  by (simp_all add: on_learner_def split_beta split: sum.split)

lemma paper_call_account:
  assumes "p \<noteq> Reset_Paper_Account"
  shows "account_of (fst (paper_call v p e)) = account_of e"
  using assms by (cases p) (simp_all add: paper_call_def split_beta status_quiet fst_snapshot get_positions_def account_of_def snapshot_def mark_all_def Let_def)

lemma production_call_account:
  assumes "production_call v p (g, lp) = Some ((g1, lp1), r)" and "\<not> trading_tool (tool_settings v) (Production_Tool p)"
    and "paper_only (tool_settings v) \<or> al_settings lp = tool_settings v"
  shows "al_paper lp1 = al_paper lp \<and> al_settings lp1 = al_settings lp"
proof (cases "\<exists>n. p = Start_Paper_Cycle n")
  case True
  then obtain n where p: "p = Start_Paper_Cycle n" by blast
  then have "\<not> paper_only (al_settings lp)" using assms(2, 3) by auto
  from start_outside_paper [OF this] obtain err where
    "auto_start (tv_auto v) (tv_cycles v) (tv_stops v) (ci_stop (tv_cli v)) (Some n) lp = Some (lp, Inl err)" by blast
  then show ?thesis using assms(1) p by (simp add: production_call_def)
next
  case False
  then show ?thesis using assms(1) by (cases p) (auto simp: production_call_def Let_def split_beta)
qed

text \<open>What the production surface does to the accounts: nothing, outside a started cycle.\<close>

lemma on_production_account:
  assumes "on_production v (production_call v p) s = Some (s1, r)" and "\<not> trading_tool (tool_settings v) (Production_Tool p)" and "loop_settings v s"
  shows "ts_paper s1 = ts_paper s \<and> loop_account v s1 = loop_account v s \<and> loop_settings v s1"
proof (cases "get_learning_engine v s")
  case (Inl err)
  then show ?thesis using assms(1, 3) by (simp add: on_production_def)
next
  case (Inr l)
  obtain g lp where st: "opt_default (ts_production s) (tool_gateway v, new_auto_loop v l) = (g, lp)" by fastforce
  have lp: "paper_only (tool_settings v) \<or> al_settings (lp\<lparr>al_learner := l\<rparr>) = tool_settings v" "loop_account v s = account_of (al_paper lp)"
    using st assms(3) by (auto simp: opt_default_def loop_settings_def loop_account_def split: option.splits)
  from assms(1) Inr st obtain g1 lp1 where c: "production_call v p (g, lp\<lparr>al_learner := l\<rparr>) = Some ((g1, lp1), r)"
    and s1: "s1 = s\<lparr>ts_learner := Some (al_learner lp1), ts_production := Some (g1, lp1)\<rparr>"
    by (auto simp: on_production_def)
  from production_call_account [OF c assms(2) lp(1)] show ?thesis
    using lp by (auto simp: s1 loop_account_def loop_settings_def)
qed

lemma call_keeps_accounts:
  assumes "call_tool v t s = Some (s1, r)" and "\<not> trading_tool (tool_settings v) t" and "loop_settings v s"
  shows "paper_account v s1 = paper_account v s \<and> loop_account v s1 = loop_account v s \<and> loop_settings v s1"
proof (cases t)
  case (Paper_Tool p)
  then have s1: "s1 = fst (on_paper v (paper_call v p) s)" and "p \<noteq> Reset_Paper_Account"
    using assms(1, 2) by (auto simp: call_tool_def answered_def answer_with_def)
  then show ?thesis
    using assms(3) paper_call_account [of p v "opt_default (ts_paper s) (fresh_engine v)"]
    by (simp add: paper_account_def loop_account_def loop_settings_def opt_default_def)
next
  case (Learning_Tool p)
  then have "s1 = fst (on_learner v (learner_call v p) s)" using assms(1) by (auto simp: call_tool_def answered_def answer_with_def)
  then show ?thesis using assms(3) by (simp add: paper_account_def loop_account_def loop_settings_def)
next
  case (Production_Tool p)
  then obtain r' where "on_production v (production_call v p) s = Some (s1, r')" using assms(1) by (auto simp: call_tool_def answer_with_def)
  from on_production_account [OF this] show ?thesis using assms(2, 3) Production_Tool by (simp add: paper_account_def)
qed (use assms in \<open>auto simp: call_tool_def answered_def answer_with_def execute_tool_def Let_def paper_account_def loop_account_def loop_settings_def\<close>)

lemma calls_keep_accounts:
  assumes "call_tools v ts s = Some s1" and "list_all (\<lambda>t. \<not> trading_tool (tool_settings v) t) ts" and "loop_settings v s"
  shows "paper_account v s1 = paper_account v s \<and> loop_account v s1 = loop_account v s"
  using assms
proof (induction ts arbitrary: s)
  case (Cons t ts)
  then obtain s2 r where c: "call_tool v t s = Some (s2, r)" and rest: "call_tools v ts s2 = Some s1" by (auto split: option.splits)
  from call_keeps_accounts [OF c] Cons.prems have "paper_account v s2 = paper_account v s" "loop_account v s2 = loop_account v s" "loop_settings v s2"
    by simp_all
  then show ?case using Cons.IH [OF rest] Cons.prems by simp
qed simp

lemma call_keeps_settings:
  assumes "call_tool v t s = Some (s1, r)" and "loop_settings v s"
  shows "loop_settings v s1"
proof (cases "trading_tool (tool_settings v) t \<and> \<not> paper_only (tool_settings v)")
  case True
  then have "t = Paper_Tool Reset_Paper_Account" by (cases t) auto
  then have "s1 = fst (on_paper v (paper_call v Reset_Paper_Account) s)" using assms(1) by (auto simp: call_tool_def answered_def answer_with_def)
  then show ?thesis using assms(2) by (simp add: loop_settings_def)
next
  case False
  then consider "paper_only (tool_settings v)" | "\<not> trading_tool (tool_settings v) t" by blast
  then show ?thesis
    by cases (use call_keeps_accounts [OF assms(1) _ assms(2)] in \<open>auto simp: loop_settings_def split: option.split\<close>)
qed

lemma calls_keep_settings:
  assumes "call_tools v ts s = Some s1" and "loop_settings v s"
  shows "loop_settings v s1"
  using assms
proof (induction ts arbitrary: s)
  case (Cons t ts)
  then obtain s2 r where "call_tool v t s = Some (s2, r)" "call_tools v ts s2 = Some s1" by (auto split: option.splits)
  then show ?case using Cons.IH call_keeps_settings Cons.prems(2) by blast
qed simp

text \<open>C40: the tools a language model can call move no money by reading: after any calls, further calls change no fill, no trade
and no cash of either account, that of the paper tools or that of the cycle, unless one of them resets the account or, in paper mode with live
trading off, executes a plan or starts a cycle; outside paper mode executing and starting change nothing either.\<close>

theorem accounts_change_only_by_trading:
  assumes "call_tools v earlier new_tool_server = Some s" and "call_tools v ts s = Some s1"
    and "list_all (\<lambda>t. \<not> trading_tool (tool_settings v) t) ts"
  shows "paper_account v s1 = paper_account v s \<and> loop_account v s1 = loop_account v s"
proof -
  have "loop_settings v new_tool_server" by (simp add: loop_settings_def new_tool_server_def)
  from calls_keep_settings [OF assms(1) this] show ?thesis by (rule calls_keep_accounts [OF assms(2, 3)])
qed

definition demo_tools :: "settings \<Rightarrow> (unit, unit) tool_env" where
  "demo_tools se = \<lparr>tv_cli = demo_cli\<lparr>ci_files := (ci_files demo_cli)\<lparr>ef_settings := se\<rparr>\<rparr>, tv_ml = demo_ml, tv_ids = dec_digits,
     tv_auto = demo_auto_lib, tv_cycles = (\<lambda>_. demo_env), tv_stops = (\<lambda>_. (False, False)), tv_learning = small_config, tv_remembered = [],
     tv_loop_config = demo_config, tv_disk = None, tv_max_age = Fin 120, tv_cache_ttl = Fin 5, tv_stale_blocks = True,
     tv_mock = \<lparr>mk_bars = [], mk_ticker = the (ms_ticker demo_snapshot), mk_book = the (ms_book demo_snapshot), mk_max_age = Fin 120,
       mk_force_stale = False, mk_fail = False\<rparr>,
     tv_now = 0, tv_ccxt = demo_ccxt, tv_coinbase_key = [], tv_delta_key = [], tv_series = (\<lambda>_ _ _. Inr []),
     tv_engine = (\<lambda>_ _ _ _. Inr (demo_artifact ''BT-1'')), tv_write = (\<lambda>_. Inr []), tv_walk_forward = (\<lambda>_ _ _ _. Inr ()),
     tv_forecast = \<lparr>fl_log = id, fl_float = (\<lambda>_. None), fl_int = (\<lambda>_. None)\<rparr>, tv_parse = (\<lambda>_. None), tv_memory_id = [],
     tv_okf_lib = plain_okf_lib, tv_okf_file = Inr (JObj shipped_okf), tv_okf_digest = [], tv_xgboost = False\<rparr>"

theorem accounts_change_only_by_trading_witness:
  "\<exists>s1. call_tools (demo_tools \<lparr>se_trading_mode = ''live'', se_live_enabled = True\<rparr>)
        [Paper_Execute (Inr demo_plan) ''CRYPTO'' (Fin 100), Paper_Tool Get_Portfolio, Run_Backtest ''BTC/USD'' ''s'' ''1h'' 120] new_tool_server = Some s1
     \<and> fst (paper_account (demo_tools \<lparr>se_trading_mode = ''live'', se_live_enabled = True\<rparr>) s1) = []"
proof -
  let ?v = "demo_tools \<lparr>se_trading_mode = ''live'', se_live_enabled = True\<rparr>"
  let ?ts = "[Paper_Execute (Inr demo_plan) ''CRYPTO'' (Fin 100), Paper_Tool Get_Portfolio, Run_Backtest ''BTC/USD'' ''s'' ''1h'' 120]"
  have "\<exists>s1. call_tools ?v ?ts new_tool_server = Some s1" by (simp add: call_tool_def answered_def answer_with_def split_beta)
  then obtain s1 where s1: "call_tools ?v ?ts new_tool_server = Some s1" by blast
  have "list_all (\<lambda>t. \<not> trading_tool (tool_settings ?v) t) ?ts" by (simp add: demo_tools_def tool_settings_def paper_only_def)
  from accounts_change_only_by_trading [OF _ s1 this, of "[]"] have "paper_account ?v s1 = paper_account ?v new_tool_server" by simp
  moreover have "fst (paper_account ?v new_tool_server) = []"
    by (simp add: paper_account_def new_tool_server_def opt_default_def fresh_engine_def new_paper_engine_def account_of_def new_exchange_def
        save_session_def check_stop_file_def save_event_def halt_def Paper_Exchange.emit_def demo_tools_def demo_cli_def Let_def)
  ultimately show ?thesis using s1 by auto
qed

text \<open>The account tools of the production surface look at an exchange made for the call, so they never show a position or an order,
whatever was traded before.\<close>

lemma production_shows_no_position:
  "production_call v (Get_Exchange_Positions name) (g, lp) = Some ((g, lp), Inr (Held_View []))"
  "production_call v (Get_Exchange_Orders name) (g, lp) = Some ((g, lp), Inr (Open_View []))"
proof -
  have "create_exchange (tool_settings v) False False (Some ''mock'') = Inr Mock_Adapter"
    by (simp add: create_exchange_def opt_truthy_def opt_default_def py_lower_def py_strip_def is_space_def)
  then have "shown_exchange v name = Inr (new_exchange (ec_exchange (ef_config (ci_files (tv_cli v)))) None [] [])"
    by (simp add: shown_exchange_def)
  then show "production_call v (Get_Exchange_Positions name) (g, lp) = Some ((g, lp), Inr (Held_View []))"
    "production_call v (Get_Exchange_Orders name) (g, lp) = Some ((g, lp), Inr (Open_View []))"
    by (simp_all add: production_call_def get_positions_def snapshot_def new_exchange_def new_portfolio_def get_open_orders_def opt_default_def
        mark_all_def opt_truthy_def Let_def)
qed

text \<open>No report says that live trading is on, whatever the settings say; the list of adapters does.\<close>

lemma venue_reports_live_off: "dget (venue_status se name ad) ''LIVE_TRADING_ENABLED'' = Some (JBool False)"
  by (simp add: venue_status_def dget_dput)

text \<open>The report on the guidelines exists only for a bundle that passed the validation.\<close>

lemma okf_report_is_validated:
  assumes "okf_diagnostics lib file digest sys xgboost = Inr d"
  shows "\<not> kr_executable d \<and> \<not> kr_live d \<and> kr_hash d = digest
    \<and> (\<exists>ol. load_and_validate_okf lib file digest = Inr ol \<and> validate_okf lib (ol_data ol) = Inr [])"
proof -
  from assms obtain ol where ol: "load_and_validate_okf lib file digest = Inr ol" "kr_hash d = ol_hash ol" "\<not> kr_executable d" "\<not> kr_live d"
    by (auto simp: okf_diagnostics_def bind_res_Inr_iff)
  with loaded_is_validated [OF ol(1)] show ?thesis by simp
qed

end
