(* ===== verification/Venue_Reads.thy ===== *)
theory Venue_Reads
  imports Venue_Adapters
begin

text \<open>
  The remaining reads of the adapters (\<open>exchange/delta_india.py\<close>, \<open>exchange/coinbase.py\<close>): ticker, order book, product, positions and
  history, which pass a reply on, and that no read of an adapter sends an order.
\<close>

section \<open>Delta India\<close>

definition delta_ticker :: "pylib \<Rightarrow> venue \<Rightarrow> string \<Rightarrow> venue \<times> json_obj res" where
  "delta_ticker lib ad sy = delta_request lib ad ''GET'' (''/v2/tickers/'' @ sy) False []"

definition delta_orderbook :: "pylib \<Rightarrow> venue \<Rightarrow> string \<Rightarrow> venue \<times> json_obj res" where
  "delta_orderbook lib ad sy = delta_request lib ad ''GET'' (''/v2/l2orderbook/'' @ sy) False []"

definition delta_market_info :: "pylib \<Rightarrow> venue \<Rightarrow> string \<Rightarrow> venue \<times> json_obj res" where
  "delta_market_info lib ad sy = delta_request lib ad ''GET'' (''/v2/products/'' @ sy) False []"

section \<open>Coinbase\<close>

definition coinbase_ticker :: "pylib \<Rightarrow> venue \<Rightarrow> string \<Rightarrow> venue \<times> json_obj res" where
  "coinbase_ticker lib ad sy = coinbase_request lib ad ''GET'' (''/api/v3/brokerage/market/products/'' @ sy @ ''/ticker'') False []"

definition coinbase_orderbook :: "pylib \<Rightarrow> venue \<Rightarrow> venue \<times> json_obj res" where
  "coinbase_orderbook lib ad = coinbase_request lib ad ''GET'' ''/api/v3/brokerage/market/product_book'' False []"

definition coinbase_market_info :: "pylib \<Rightarrow> venue \<Rightarrow> string \<Rightarrow> venue \<times> json_obj res" where
  "coinbase_market_info lib ad sy = coinbase_request lib ad ''GET'' (''/api/v3/brokerage/market/products/'' @ sy) False []"

text \<open>Without a key there is no request; the positions are what the reply holds, the history a list or nothing.\<close>

definition coinbase_positions :: "pylib \<Rightarrow> venue \<Rightarrow> venue \<times> json res" where
  "coinbase_positions lib ad =
     (if ve_api_key ad = [] then (ad, Inr (JList []))
      else with_reply (coinbase_request lib ad ''GET'' ''/api/v3/brokerage/accounts'' True [])
             (\<lambda>d. Inr (json_or d [''positions''] (JList []))))"

definition coinbase_order_history :: "pylib \<Rightarrow> venue \<Rightarrow> venue \<times> json list res" where
  "coinbase_order_history lib ad =
     (if ve_api_key ad = [] then (ad, Inr [])
      else with_reply (coinbase_request lib ad ''GET'' ''/api/v3/brokerage/orders/historical/batch'' True [])
             (\<lambda>d. case json_or d [''orders''] (JList []) of JList js \<Rightarrow> Inr js | _ \<Rightarrow> Inr []))"

section \<open>A read sends no order\<close>

datatype venue_read =
    Read_Price string
  | Read_Ticker string
  | Read_Book string
  | Read_Product string
  | Read_Account
  | Read_Balance
  | Read_Positions
  | Read_Open "string option"
  | Read_History
  | Read_Order string

fun delta_read :: "pylib \<Rightarrow> venue \<Rightarrow> venue_read \<Rightarrow> venue" where
  "delta_read lib ad (Read_Price sy) = fst (delta_price lib ad sy)"
| "delta_read lib ad (Read_Ticker sy) = fst (delta_ticker lib ad sy)"
| "delta_read lib ad (Read_Book sy) = fst (delta_orderbook lib ad sy)"
| "delta_read lib ad (Read_Product sy) = fst (delta_market_info lib ad sy)"
| "delta_read lib ad Read_Account = fst (delta_account lib ad)"
| "delta_read lib ad Read_Balance = fst (delta_balance lib ad)"
| "delta_read lib ad Read_Positions = fst (delta_positions lib ad)"
| "delta_read lib ad (Read_Open sy) = fst (delta_open_orders lib ad sy)"
| "delta_read lib ad Read_History = fst (delta_order_history lib ad)"
| "delta_read lib ad (Read_Order k) = fst (delta_get_order lib ad k)"

fun coinbase_read :: "pylib \<Rightarrow> settings \<Rightarrow> venue \<Rightarrow> venue_read \<Rightarrow> venue" where
  "coinbase_read lib se ad (Read_Price sy) = fst (coinbase_price lib ad sy)"
| "coinbase_read lib se ad (Read_Ticker sy) = fst (coinbase_ticker lib ad sy)"
| "coinbase_read lib se ad (Read_Book sy) = fst (coinbase_orderbook lib ad)"
| "coinbase_read lib se ad (Read_Product sy) = fst (coinbase_market_info lib ad sy)"
| "coinbase_read lib se ad Read_Account = fst (coinbase_account lib ad)"
| "coinbase_read lib se ad Read_Balance = fst (coinbase_balance lib ad)"
| "coinbase_read lib se ad Read_Positions = fst (coinbase_positions lib ad)"
| "coinbase_read lib se ad (Read_Open sy) = fst (coinbase_open_orders lib ad sy)"
| "coinbase_read lib se ad Read_History = fst (coinbase_order_history lib ad)"
| "coinbase_read lib se ad (Read_Order k) = fst (coinbase_get_order lib se ad k)"

definition reads_only :: "venue \<Rightarrow> venue \<Rightarrow> bool" where
  "reads_only ad ad' \<longleftrightarrow> (\<exists>reqs. ve_sent ad' = ve_sent ad @ reqs \<and> list_all (\<lambda>req. vr_method req = ''GET'') reqs)"

lemma reads_only_refl [simp]: "reads_only ad ad"
  by (simp add: reads_only_def)

lemma reads_only_trans: "reads_only a b \<Longrightarrow> reads_only b c \<Longrightarrow> reads_only a c"
  by (auto simp: reads_only_def)

lemma send_reads_only: "vr_method req = ''GET'' \<Longrightarrow> reads_only ad (fst (send_request lib ad req))"
  by (auto simp: send_request_def reads_only_def Let_def mark_ok_def mark_error_def split: sum.splits)

lemma delta_get [simp]: "reads_only ad (fst (delta_request lib ad ''GET'' p auth b))"
  by (auto simp: delta_request_def intro!: send_reads_only split: sum.splits)

lemma coinbase_get [simp]: "reads_only ad (fst (coinbase_request lib ad ''GET'' p auth b))"
  by (auto simp: coinbase_request_def intro!: send_reads_only split: sum.splits)

lemma delta_read_only: "reads_only ad (delta_read lib ad x)"
  by (cases x) (simp_all add: delta_price_def delta_ticker_def delta_orderbook_def delta_market_info_def delta_account_def delta_balance_def
      delta_positions_def delta_open_orders_def delta_order_history_def delta_get_order_def)

lemma coinbase_read_only: "reads_only ad (coinbase_read lib se ad x)"
  by (cases x) (simp_all add: coinbase_price_def coinbase_ticker_def coinbase_orderbook_def coinbase_market_info_def coinbase_account_def
      coinbase_balance_def coinbase_positions_def coinbase_open_orders_def coinbase_order_history_def coinbase_get_order_def)

text \<open>Any sequence of reads sends only \<open>GET\<close> requests, and none of them is an order.\<close>

lemma reads_send_no_order:
  assumes "\<And>ad x. reads_only ad (rd ad x)"
  shows "reads_only ad (foldl rd ad xs)"
  by (induction xs arbitrary: ad) (auto intro: reads_only_trans assms)

lemma adapters_read_without_orders:
  "reads_only ad (foldl (delta_read lib) ad xs)" "reads_only ad (foldl (coinbase_read lib se) ad xs)"
  using delta_read_only coinbase_read_only by (blast intro: reads_send_no_order)+

lemma get_is_no_order: "vr_method req = ''GET'' \<Longrightarrow> \<not> order_request req"
  by (simp add: order_request_def)

end
