(* ===== verification/Spec2Isabelle.thy ===== *)
theory Spec2Isabelle
  imports Sandbox Backtest_Engine Paper_Store Autonomous Okf_Strategies Orchestration Webhook History Prediction Credentials
    Dashboard_Events Okf_Loader Intelligence Paper_Tools Learning_Memory
    Command_Centre Cloud_Paper Backtest_Store Dashboard_Server Dashboard_Lab Tool_Server Venue_Reads
begin

text \<open>
  A model of \<open>crypto_trading_mcp\<close> (\<open>src/src/crypto_trading_mcp/\<close>; paths below are relative to it), a trading
  system in Python that analyses a market with agents, turns their consensus into a trade plan, takes the
  plan through deterministic gates and executes it on a simulated exchange.  Real venues are reachable only through
  adapters that are built to refuse.

  \<^bold>\<open>The program\<close>

  A trade takes this way.  \<open>orchestration/orchestrator.py\<close> runs ten agents (\<open>agents/\<close>, which ask the models of
  \<open>llm/providers.py\<close> and get context from \<open>intelligence/\<close>) over a snapshot of \<open>market/\<close>; the consensus and the features
  of the strategy (\<open>strategy/\<close>) become a plan (\<open>execution/planner.py\<close>) and a proposal
  that the breakers and the risk engine decide (\<open>orchestration/proposal.py\<close>, \<open>risk/engine.py\<close>, bounded by
  \<open>okf/\<close>).  \<open>paper/engine.py\<close> takes a plan through the mode, the kill switch, compliance, correlation and risk and
  submits an order to \<open>exchange/paper.py\<close>, which fills it with slippage and fees, keeps
  the portfolio and closes positions at their stops.  The same engine is driven by \<open>autonomous/loop.py\<close>,
  \<open>backtest/engine.py\<close>, \<open>paper/replay.py\<close>, \<open>mcp_tools/\<close>, \<open>server.py\<close>, \<open>cli/trader.py\<close> and \<open>dashboard/\<close>; closed trades reach \<open>learning/\<close>.
  The road to a real venue is separate: \<open>orders/\<close>, \<open>sandbox/\<close>, \<open>live/\<close> and \<open>reconciliation/\<close> over a durable store
  (\<open>persistence/\<close>) with the adapters of \<open>exchange/\<close> and the credentials of \<open>credentials/\<close>, started by \<open>cloud_paper.py\<close>.

  \<^bold>\<open>Theories and the code they model\<close>

  Foundations.  \<open>Py_Float\<close>: Python's floats (binary64 over rationals, with rounding, infinities and NaN).
  \<open>Prelude\<close>: exceptions as sums, texts, dictionaries as association lists.  \<open>Json_Read\<close>:
  reading of JSON values.  \<open>State_Tables\<close>: the transition tables and the locales \<open>climbing\<close> and
  \<open>confined\<close>, interpreted for the orders (\<open>Order_Model\<close>), the cycles (\<open>Autonomous\<close>), the analysis (\<open>Orchestration\<close>) and
  the sandbox (\<open>Sandbox\<close>).  \<open>Durable_Store\<close>: \<open>persistence/\<close>; the locale \<open>kv_store\<close> is its
  abstract class, interpreted by both back ends and used by the ledger, the kill switches and reconciliation.

  The simulated venue.  \<open>Order_Model\<close>: \<open>exchange/models.py\<close>.  \<open>Portfolio\<close>: \<open>portfolio/manager.py\<close>.
  \<open>Fees_Slippage\<close>: \<open>exchange/fees.py\<close>, \<open>slippage.py\<close>, \<open>order_book.py\<close>, \<open>trailing.py\<close>.  \<open>Paper_Exchange\<close>:
  \<open>exchange/paper.py\<close>; its state is the record \<open>exchange\<close>, and each method is a function of it.
  \<open>Prediction\<close>: \<open>exchange/prediction.py\<close>, \<open>exchange/settlement.py\<close>, \<open>backtest/prediction.py\<close>.

  Gates and planning.  \<open>Okf_Loader\<close>, \<open>Okf_Gates\<close>, \<open>Okf_Strategies\<close>: \<open>okf/\<close>.  \<open>Risk\<close>: \<open>risk/\<close>.  \<open>Compliance\<close>:
  \<open>compliance/policy.py\<close>.  \<open>Planner\<close>: \<open>execution/planner.py\<close>.  \<open>Kill_Switch\<close>: the three switches, one
  locale \<open>kill_switch\<close>.  \<open>Live\<close>: \<open>live/\<close>.

  Engines.  \<open>Paper_Engine\<close>, \<open>Paper_Store\<close> (locale \<open>log_store\<close>), \<open>Paper_Tools\<close>: \<open>paper/\<close>.  \<open>Tool_Server\<close>: the tools of
  \<open>server.py\<close> with \<open>mcp_tools/\<close>, \<open>okf/status.py\<close>.  \<open>Autonomous\<close>: \<open>autonomous/\<close>.  \<open>Backtest_Data\<close>, \<open>History\<close>, \<open>Performance\<close>, \<open>Backtest_Engine\<close>,
  \<open>Backtest_Store\<close>: \<open>backtest/\<close> and \<open>performance/\<close>.

  Analysis.  \<open>Indicators\<close>, \<open>Market_Data\<close> (locale \<open>snapshot_source\<close>): \<open>market/\<close>.  \<open>Strategy\<close>, \<open>Strategy_Features\<close>: \<open>strategy/\<close>.
  \<open>Llm\<close>, \<open>Agents\<close>, \<open>Intelligence\<close>, \<open>Orchestration\<close>: the agents and what runs them.  \<open>Learning\<close>,
  \<open>Learning_Engine\<close>, \<open>Learning_Memory\<close>: \<open>learning/\<close>.

  Outside world.  \<open>Intent_Ledger\<close>: \<open>orders/\<close>.  \<open>Reconciliation\<close>.  \<open>Venue_Adapters\<close> (locale \<open>gated_venue\<close>), \<open>Venue_Reads\<close>:
  \<open>exchange/delta_india.py\<close>,
  \<open>coinbase.py\<close>.  \<open>Sandbox\<close>, \<open>Cloud_Paper\<close>: \<open>sandbox/\<close>, \<open>cloud_paper.py\<close>.  \<open>Credentials\<close>,
  \<open>Redaction\<close> (locale \<open>scrubber\<close>), \<open>Webhook\<close>, \<open>Deployment\<close>: \<open>credentials/\<close>, \<open>alerts/\<close>, \<open>webhook/\<close>, \<open>config/\<close>, \<open>ci/\<close>.
  \<open>Dashboard_Events\<close>: \<open>dashboard/events.py\<close>, \<open>event_bus.py\<close>.  \<open>Command_Centre\<close>: the state, the demonstration cycle and the actions of
  \<open>dashboard/\<close>.  \<open>Dashboard_Lab\<close>: its backtests and pages.  \<open>Dashboard_Server\<close>: its configuration, browser, health check, runtime and
  socket.  \<open>Command_Line\<close>: the process of \<open>cli/trader.py\<close>.

  \<^bold>\<open>How the code is rendered\<close>

  A class is a record of its attributes and a method a function from the record to the new record and the result; a method
  that can raise after it has changed something returns the state reached together with \<open>Inl\<close> of the exception.  Floats
  are \<open>pyfloat\<close>, so rounding, overflow and NaN are part of every statement; a decimal literal is \<open>flit q\<close>, the
  rational rounded to 53 bits.  Dictionaries are association lists in insertion order.  Time stamps are microseconds, and the
  clock, random draws, hashes, identifiers, \<open>json\<close>, \<open>math\<close>, HTTP and the libraries are arguments.  Texts
  are ASCII.

  \<^bold>\<open>What the lemmas show\<close>

  Of the venue: an invariant of the exchange over any sequence of its operations, one client identifier
  for one order, no trade while halted, the accounting of positions.  Of the gates: an approval implies every check, in
  the risk engine, the proposal service, the paper engine, the autonomous cycle, the sandbox path and the webhook; kill
  switches stay on without an operator.  Of the stores: refinement of the memory store by SQLite, round trips of saved runs and of the
  failure log.  Of the analysis: no look ahead in the features, the backtest and the proposal; the
  one-pass averages equal their definition; the router of models fails closed.  Of the outer layer:
  redactions are exact, the bus and the context are bounded and clean, commands, tools and dashboard actions stay in the
  simulation, the event stream has no gap, and a page shows the run that was made.

  \<^bold>\<open>Loops and bounds\<close>

  There is no fuel in the model.  Loops over lists are structural; \<open>function\<close> with a measure is used for the windows of
  \<open>Backtest_Data\<close>, the identifiers of \<open>Strategy\<close>, the texts of \<open>Okf_Loader\<close> and the substitution of \<open>Intelligence\<close>.  Loops that may not
  end (\<open>while True\<close> of the splits by days, the autonomous loop and the cloud process) are \<open>partial_function (option)\<close>, and that they
  return is a theorem with its condition.  Bounds of the code are kept as they are: 5000 events on the bus, 500 tool calls and stored keys of the loop,
  1000 messages in the queue of the local venue.

  \<^bold>\<open>Not modelled\<close>

  Printing and the registration of commands, tools and web routes with \<open>argparse\<close>, FastMCP and FastAPI, the fallback page and the
  web server of \<open>dashboard/app.py\<close>, threads, connections of the databases, the reading of YAML (its result is an argument), the
  analysis commands of \<open>cli/trader.py\<close> beyond the text of a proposal, and text that only
  describes (\<open>agents/boundaries.py\<close>, \<open>mcp_tools/phase4.py\<close>, which nothing uses).  Locks and interleavings of threads are not modelled: an operation is one
  step, which is what the locks of the source make it.
\<close>

end
